(* ===== verification/Prelude.thy ===== *)
theory Prelude
  imports Complex_Main "HOL-Library.AList"
begin

text \<open>
  What every component of the model shares: the Python exceptions that the conversion code raises
  as values of a sum type, loops over lists that stop at the first exception, dictionaries as
  insertion-ordered association lists, and the generic invariant argument for state machines.
  A text of the program (\<open>str\<close>) is a \<open>string\<close>: its characters stand for the code points
  0 to 255.
\<close>

section \<open>Exceptions as values\<close>

datatype py_exc = ValueError string | TypeError | KeyError string

type_synonym 'a res = "py_exc + 'a"

definition bindE :: "'e + 'a \<Rightarrow> ('a \<Rightarrow> 'e + 'b) \<Rightarrow> 'e + 'b" where
  "bindE m f = (case m of Inl e \<Rightarrow> Inl e | Inr x \<Rightarrow> f x)"

definition returns :: "'e + 'a \<Rightarrow> bool" where
  "returns m = (case m of Inl _ \<Rightarrow> False | Inr _ \<Rightarrow> True)"

text \<open>A loop that builds a list, one entry per element, and stops at the first exception.\<close>

fun mapE :: "('a \<Rightarrow> 'e + 'b) \<Rightarrow> 'a list \<Rightarrow> 'e + 'b list" where
  "mapE f [] = Inr []"
| "mapE f (x # xs) = bindE (f x) (\<lambda>y. bindE (mapE f xs) (\<lambda>ys. Inr (y # ys)))"

text \<open>A loop that threads a state through its iterations and stops at the first exception.\<close>

fun foldE :: "('s \<Rightarrow> 'a \<Rightarrow> 'e + 's) \<Rightarrow> 's \<Rightarrow> 'a list \<Rightarrow> 'e + 's" where
  "foldE f s [] = Inr s"
| "foldE f s (x # xs) = bindE (f s x) (\<lambda>s'. foldE f s' xs)"

named_theorems res_simps \<open>evaluation and inversion of computations that may raise\<close>

lemma bindE_Inr [simp]: "bindE (Inr x) f = f x"
  by (simp add: bindE_def)

lemma bindE_Inl [simp]: "bindE (Inl e) f = Inl e"
  by (simp add: bindE_def)

lemma bindE_eq_Inr [res_simps]: "bindE m f = Inr y \<longleftrightarrow> (\<exists>x. m = Inr x \<and> f x = Inr y)"
  by (auto simp: bindE_def split: sum.splits)

lemma bindE_eq_Inl [res_simps]: "bindE m f = Inl e \<longleftrightarrow> m = Inl e \<or> (\<exists>x. m = Inr x \<and> f x = Inl e)"
  by (auto simp: bindE_def split: sum.splits)

lemma returns_Inr [simp]: "returns (Inr x)"
  by (simp add: returns_def)

lemma returns_Inl [simp]: "\<not> returns (Inl e)"
  by (simp add: returns_def)

lemma returns_iff: "returns m \<longleftrightarrow> (\<exists>x. m = Inr x)"
  by (auto simp: returns_def split: sum.splits)

lemma returns_bindE: "returns (bindE m f) \<longleftrightarrow> (\<exists>x. m = Inr x \<and> returns (f x))"
  by (auto simp: returns_iff res_simps)

lemma mapE_eq_Inr [res_simps]: "mapE f xs = Inr ys \<longleftrightarrow> list_all2 (\<lambda>x y. f x = Inr y) xs ys"
  by (induction xs arbitrary: ys) (auto simp: res_simps list_all2_Cons1)

lemma mapE_pure: "(\<And>x. x \<in> set xs \<Longrightarrow> f x = Inr (g x)) \<Longrightarrow> mapE f xs = Inr (map g xs)"
  by (induction xs) auto

text \<open>An invariant of the loop's state that every iteration keeps holds at its end.\<close>

lemma foldE_invariant:
  assumes "foldE f s xs = Inr t" and "P s"
    and "\<And>s x s'. x \<in> set xs \<Longrightarrow> P s \<Longrightarrow> f s x = Inr s' \<Longrightarrow> P s'"
  shows "P t"
  using assms
proof (induction xs arbitrary: s)
  case Nil
  then show ?case by simp
next
  case (Cons x xs)
  from Cons.prems(1) obtain s' where s': "f s x = Inr s'" "foldE f s' xs = Inr t"
    by (auto simp: res_simps)
  have "P s'" using Cons.prems(2,3) s'(1) by auto
  then show ?case using Cons.IH[OF s'(2)] Cons.prems(3) by auto
qed

lemma foldE_append: "foldE f s (xs @ ys) = bindE (foldE f s xs) (\<lambda>s'. foldE f s' ys)"
  by (induction xs arbitrary: s) (auto simp: bindE_def split: sum.splits)

section \<open>Dictionaries\<close>

text \<open>
  A Python dictionary keeps the order of first insertion; assigning to a key it holds changes the
  value in place. \<open>AList.update\<close> is that assignment.
\<close>

type_synonym 'v dict = "(string \<times> 'v) list"

definition dict_get :: "'v dict \<Rightarrow> string \<Rightarrow> 'v option" where
  "dict_get d k = map_of d k"

definition dict_get_default :: "'v dict \<Rightarrow> string \<Rightarrow> 'v \<Rightarrow> 'v" where
  "dict_get_default d k v = (case map_of d k of None \<Rightarrow> v | Some w \<Rightarrow> w)"

definition dict_has :: "'v dict \<Rightarrow> string \<Rightarrow> bool" where
  "dict_has d k = (map_of d k \<noteq> None)"

definition dict_set :: "string \<Rightarrow> 'v \<Rightarrow> 'v dict \<Rightarrow> 'v dict" where
  "dict_set k v d = AList.update k v d"

definition dict_setdefault :: "'k \<Rightarrow> 'v \<Rightarrow> ('k \<times> 'v) list \<Rightarrow> ('k \<times> 'v) list" where
  "dict_setdefault k v d = (case map_of d k of None \<Rightarrow> d @ [(k, v)] | Some _ \<Rightarrow> d)"

definition dict_of_pairs :: "(string \<times> 'v) list \<Rightarrow> 'v dict" where
  "dict_of_pairs kvs = fold (\<lambda>(k, v). AList.update k v) kvs []"

lemma update_fresh: "k \<notin> fst ` set d \<Longrightarrow> AList.update k v d = d @ [(k, v)]"
  by (induction d) auto

lemma fold_update_distinct:
  "distinct (map fst d @ map fst kvs) \<Longrightarrow> fold (\<lambda>(k, v). AList.update k v) kvs d = d @ kvs"
proof (induction kvs arbitrary: d)
  case Nil
  then show ?case by simp
next
  case (Cons kv kvs)
  obtain k v where kv: "kv = (k, v)" by (cases kv)
  have "k \<notin> fst ` set d" using Cons.prems kv by auto
  then have "AList.update k v d = d @ [(k, v)]" by (rule update_fresh)
  then show ?case using Cons.IH[of "d @ [(k, v)]"] Cons.prems kv by auto
qed

lemma dict_of_pairs_distinct: "distinct (map fst kvs) \<Longrightarrow> dict_of_pairs kvs = kvs"
  by (simp add: dict_of_pairs_def fold_update_distinct)

lemma distinct_fold_update:
  "distinct (map fst d) \<Longrightarrow> distinct (map fst (fold (\<lambda>(k, v). AList.update k v) kvs d))"
  by (induction kvs arbitrary: d) (auto simp: distinct_update split: prod.splits)

lemma distinct_dict_of_pairs: "distinct (map fst (dict_of_pairs kvs))"
  by (simp add: dict_of_pairs_def distinct_fold_update)

lemma dict_get_set: "dict_get (dict_set k v d) j = (if j = k then Some v else dict_get d j)"
  by (simp add: dict_get_def dict_set_def update_conv)

lemma dict_get_default_eq: "dict_get_default d k w = (case dict_get d k of None \<Rightarrow> w | Some v \<Rightarrow> v)"
  by (simp add: dict_get_default_def dict_get_def)

lemma map_of_dict_setdefault:
  "map_of (dict_setdefault k v d) j
     = (if j = k then Some (case map_of d k of None \<Rightarrow> v | Some w \<Rightarrow> w) else map_of d j)"
  by (auto simp: dict_setdefault_def map_add_def split: option.splits)

lemmas dict_defs = dict_get_def dict_get_default_def dict_has_def dict_set_def

lemma list_all_dict_set:
  "list_all P d \<Longrightarrow> P (k, v) \<Longrightarrow> list_all P (dict_set k v d)"
  unfolding dict_set_def by (induction d) auto

lemma distinct_dict_set: "distinct (map fst d) \<Longrightarrow> distinct (map fst (dict_set k v d))"
  by (simp add: dict_set_def distinct_update)

section \<open>State machines\<close>

text \<open>
  The states a step relation reaches from a set of initial states, and the invariant argument:
  what holds initially and is kept by every step holds in every reachable state.
\<close>

inductive reaches :: "('s \<Rightarrow> bool) \<Rightarrow> ('s \<Rightarrow> 's \<Rightarrow> bool) \<Rightarrow> 's \<Rightarrow> bool"
  for init :: "'s \<Rightarrow> bool" and stp :: "'s \<Rightarrow> 's \<Rightarrow> bool" where
  reaches_init: "init s \<Longrightarrow> reaches init stp s"
| reaches_step: "reaches init stp s \<Longrightarrow> stp s t \<Longrightarrow> reaches init stp t"

locale invariant_machine =
  fixes init :: "'s \<Rightarrow> bool"
    and stp :: "'s \<Rightarrow> 's \<Rightarrow> bool"
    and inv :: "'s \<Rightarrow> bool"
  assumes inv_init: "init s \<Longrightarrow> inv s"
    and inv_step: "stp s t \<Longrightarrow> inv s \<Longrightarrow> inv t"
begin

lemma reachable_inv: "reaches init stp s \<Longrightarrow> inv s"
  by (induction rule: reaches.induct) (auto intro: inv_init inv_step)

end

text \<open>
  Stored rows that only ever grow along an order: no step removes one, and whatever a step writes over
  a row is above it.
\<close>

locale growing_rows =
  fixes stp :: "'s \<Rightarrow> 's \<Rightarrow> bool"
    and row :: "'s \<Rightarrow> 'k \<Rightarrow> 'r option"
    and below :: "'r \<Rightarrow> 'r \<Rightarrow> bool"
  assumes below_refl: "below r r"
    and below_trans: "below r r' \<Longrightarrow> below r' r'' \<Longrightarrow> below r r''"
    and row_step: "stp s t \<Longrightarrow> row s k = Some r \<Longrightarrow> \<exists>r'. row t k = Some r' \<and> below r r'"
begin

lemma row_grows:
  assumes "stp\<^sup>*\<^sup>* s t" "row s k = Some r"
  shows "\<exists>r'. row t k = Some r' \<and> below r r'"
  using assms
proof (induction rule: rtranclp_induct)
  case base
  then show ?case using below_refl by blast
next
  case (step y z)
  then show ?case using row_step[OF step.hyps(2)] below_trans by blast
qed

end

section \<open>Lists\<close>

lemma takeWhile_append_stop:
  "list_all P xs \<Longrightarrow> ys = [] \<or> \<not> P (hd ys) \<Longrightarrow> takeWhile P (xs @ ys) = xs"
  by (induction xs) (cases ys; auto)+

lemma dropWhile_append_stop:
  "list_all P xs \<Longrightarrow> ys = [] \<or> \<not> P (hd ys) \<Longrightarrow> dropWhile P (xs @ ys) = ys"
  by (induction xs) (cases ys; auto)+

end
