(* ===== verification/PyJson.thy ===== *)
theory PyJson
  imports Prelude
begin

text \<open>
  JSON values as Python holds them, and the parts of Python's \<open>json\<close>, \<open>str\<close> and \<open>bool\<close> that the
  gateway uses: truth of a value, membership in a set of strings (which raises for an unhashable
  value), \<open>json.dumps(v, separators=(",", ":"))\<close>, \<open>json.loads\<close> and \<open>str(v)\<close>.
  Main results: parsing the printed form gives the value back (\<open>json_loads_dumps\<close>), and the printed
  form is one line of printable ASCII (\<open>json_dumps_printable\<close>). A float is carried by the text
  it is written with. The parser refuses an escape above U+00FF, which the model's characters do
  not cover. Python's limits on nesting depth and on the digits of an integer depend on the interpreter and are not part of
  the parser: the gateway, where an exception of its own kind escapes, has them as a parameter (\<open>json_bytes\<close>).
\<close>

section \<open>Values\<close>

datatype json =
    JNull
  | JBool bool
  | JInt int
  | JFloat string
  | JStr string
  | JArr "json list"
  | JObj "(string \<times> json) list"

definition float_nonzero :: "string \<Rightarrow> bool" where
  "float_nonzero t = list_ex (\<lambda>c. c \<notin> set ''-.0'')
     (takeWhile (\<lambda>c. c \<noteq> CHR ''e'' \<and> c \<noteq> CHR ''E'') t)"

text \<open>The truth value of \<open>if v:\<close> and of \<open>v or w\<close>.\<close>

fun truthy :: "json \<Rightarrow> bool" where
  "truthy JNull = False"
| "truthy (JBool b) = b"
| "truthy (JInt i) = (i \<noteq> 0)"
| "truthy (JFloat t) = float_nonzero t"
| "truthy (JStr s) = (s \<noteq> [])"
| "truthy (JArr vs) = (vs \<noteq> [])"
| "truthy (JObj kvs) = (kvs \<noteq> [])"

definition or_else :: "json \<Rightarrow> json \<Rightarrow> json" where
  "or_else v w = (if truthy v then v else w)"

text \<open>\<open>d.get(k)\<close> is \<open>None\<close>, that is \<open>JNull\<close>, where the key is missing.\<close>

definition get_or_null :: "json dict \<Rightarrow> string \<Rightarrow> json" where
  "get_or_null d k = dict_get_default d k JNull"

text \<open>\<open>v in {s1, s2}\<close> hashes \<open>v\<close>: a list or a dictionary raises \<open>TypeError\<close>.\<close>

fun in_str_set :: "json \<Rightarrow> string list \<Rightarrow> bool res" where
  "in_str_set (JArr _) ss = Inl TypeError"
| "in_str_set (JObj _) ss = Inl TypeError"
| "in_str_set (JStr s) ss = Inr (s \<in> set ss)"
| "in_str_set _ ss = Inr False"

section \<open>Characters and numbers as text\<close>

definition code_of :: "char \<Rightarrow> nat" where
  "code_of c = of_char c"

abbreviation dquote :: char where "dquote \<equiv> CHR 0x22"
abbreviation bslash :: char where "bslash \<equiv> CHR 0x5C"
abbreviation newline :: char where "newline \<equiv> CHR 0x0A"
abbreviation creturn :: char where "creturn \<equiv> CHR 0x0D"

definition hex_digits :: string where
  "hex_digits = ''0123456789abcdef''"

definition hexdig :: "nat \<Rightarrow> char" where
  "hexdig n = hex_digits ! (n mod 16)"

definition hexval :: "char \<Rightarrow> nat option" where
  "hexval c = (let n = code_of c in
     if 48 \<le> n \<and> n \<le> 57 then Some (n - 48)
     else if 97 \<le> n \<and> n \<le> 102 then Some (n - 87)
     else if 65 \<le> n \<and> n \<le> 70 then Some (n - 55)
     else None)"

definition digit_char :: "nat \<Rightarrow> char" where
  "digit_char n = char_of (48 + n mod 10)"

definition is_digit :: "char \<Rightarrow> bool" where
  "is_digit c = (48 \<le> code_of c \<and> code_of c \<le> 57)"

fun nat_str :: "nat \<Rightarrow> string" where
  "nat_str n = (if n < 10 then [digit_char n] else nat_str (n div 10) @ [digit_char n])"

declare nat_str.simps [simp del]

definition int_str :: "int \<Rightarrow> string" where
  "int_str i = (if i < 0 then CHR ''-'' # nat_str (nat (- i)) else nat_str (nat i))"

definition digits_val :: "string \<Rightarrow> nat" where
  "digits_val ds = foldl (\<lambda>n c. 10 * n + (code_of c - 48)) 0 ds"

lemma code_of_char_of [simp]: "n < 256 \<Longrightarrow> code_of (char_of n) = n"
  by (simp add: code_of_def)

lemma char_of_code_of [simp]: "char_of (code_of c) = c"
  by (simp add: code_of_def)

lemma code_of_less [simp]: "code_of c < 256"
  by (simp add: code_of_def)

lemma code_of_inject: "code_of c = code_of d \<longleftrightarrow> c = d"
  by (simp add: code_of_def)

lemma all_less_16: "(n::nat) < 16 \<Longrightarrow> n \<in> set [0,1,2,3,4,5,6,7,8,9,10,11,12,13,14,15]"
  by (simp; presburger)

lemma hexval_hexdig: "n < 16 \<Longrightarrow> hexval (hexdig n) = Some n"
  by (drule all_less_16)
    (auto simp: hexval_def hexdig_def hex_digits_def code_of_def)

lemma hexdig_printable: "n < 16 \<Longrightarrow> 32 \<le> code_of (hexdig n) \<and> code_of (hexdig n) \<le> 126"
  by (drule all_less_16) (auto simp: hexdig_def hex_digits_def code_of_def)

lemma is_digit_digit_char [simp]: "is_digit (digit_char n)"
  by (simp add: is_digit_def digit_char_def)

lemma code_of_digit_char [simp]: "code_of (digit_char n) = 48 + n mod 10"
  by (simp add: digit_char_def)

lemma nat_str_digits: "list_all is_digit (nat_str n)"
  by (induction n rule: nat_str.induct) (subst nat_str.simps, simp)

lemma nat_str_nonempty [simp]: "nat_str n \<noteq> []"
  by (subst nat_str.simps) simp

lemma digits_val_nat_str: "digits_val (nat_str n) = n"
proof (induction n rule: nat_str.induct)
  case (1 n)
  show ?case
  proof (cases "n < 10")
    case True
    then show ?thesis by (subst nat_str.simps) (simp add: digits_val_def)
  next
    case False
    then have "digits_val (nat_str (n div 10)) = n div 10" by (rule "1.IH")
    with False show ?thesis by (subst nat_str.simps) (simp add: digits_val_def)
  qed
qed

lemma hd_nat_str: "0 < n \<Longrightarrow> hd (nat_str n) \<noteq> CHR ''0''"
proof (induction n rule: nat_str.induct)
  case (1 n)
  show ?case
  proof (cases "n < 10")
    case True
    have "code_of (digit_char n) \<noteq> code_of (CHR ''0'')"
      using True "1.prems" by (simp, simp add: code_of_def)
    then have "digit_char n \<noteq> CHR ''0''" by metis
    then show ?thesis using True by (subst nat_str.simps) simp
  next
    case False
    then have "hd (nat_str (n div 10)) \<noteq> CHR ''0''" using "1.IH" by simp
    with False show ?thesis by (subst nat_str.simps) simp
  qed
qed

lemma digit_char_0: "digit_char 0 = CHR ''0''"
  by code_simp

lemma nat_str_0: "nat_str 0 = ''0''"
  by (subst nat_str.simps) (simp add: digit_char_0)

section \<open>Printing\<close>

text \<open>\<open>json.dumps(v, separators=(",", ":"))\<close> with the default \<open>ensure_ascii\<close>.\<close>

definition esc_char :: "char \<Rightarrow> string" where
  "esc_char c =
     (if c = dquote then [bslash, dquote]
      else if c = bslash then [bslash, bslash]
      else if c = newline then [bslash, CHR ''n'']
      else if c = creturn then [bslash, CHR ''r'']
      else if c = CHR 0x09 then [bslash, CHR ''t'']
      else if c = CHR 0x0C then [bslash, CHR ''f'']
      else if c = CHR 0x08 then [bslash, CHR ''b'']
      else if 32 \<le> code_of c \<and> code_of c \<le> 126 then [c]
      else [bslash, CHR ''u'', CHR ''0'', CHR ''0'', hexdig (code_of c div 16), hexdig (code_of c mod 16)])"

definition json_str :: "string \<Rightarrow> string" where
  "json_str s = dquote # concat (map esc_char s) @ [dquote]"

fun json_dumps :: "json \<Rightarrow> string"
  and dumps_elems :: "json list \<Rightarrow> string"
  and dumps_members :: "(string \<times> json) list \<Rightarrow> string" where
  "json_dumps JNull = ''null''"
| "json_dumps (JBool b) = (if b then ''true'' else ''false'')"
| "json_dumps (JInt i) = int_str i"
| "json_dumps (JFloat t) = t"
| "json_dumps (JStr s) = json_str s"
| "json_dumps (JArr vs) = CHR ''['' # dumps_elems vs @ '']''"
| "json_dumps (JObj kvs) = CHR ''{'' # dumps_members kvs @ ''}''"
| "dumps_elems [] = []"
| "dumps_elems [v] = json_dumps v"
| "dumps_elems (v # w # vs) = json_dumps v @ CHR '','' # dumps_elems (w # vs)"
| "dumps_members [] = []"
| "dumps_members [(k, v)] = json_str k @ CHR '':'' # json_dumps v"
| "dumps_members ((k, v) # w # kvs) =
     json_str k @ CHR '':'' # json_dumps v @ CHR '','' # dumps_members (w # kvs)"

section \<open>Parsing\<close>

definition is_ws :: "char \<Rightarrow> bool" where
  "is_ws c = (c \<in> {CHR '' '', CHR 0x09, newline, creturn})"

definition skip_ws :: "string \<Rightarrow> string" where
  "skip_ws s = dropWhile is_ws s"

definition simple_escape :: "char \<Rightarrow> char option" where
  "simple_escape e =
     (if e = dquote then Some dquote
      else if e = bslash then Some bslash
      else if e = CHR ''/'' then Some (CHR ''/'')
      else if e = CHR ''b'' then Some (CHR 0x08)
      else if e = CHR ''f'' then Some (CHR 0x0C)
      else if e = CHR ''n'' then Some newline
      else if e = CHR ''r'' then Some creturn
      else if e = CHR ''t'' then Some (CHR 0x09)
      else None)"

definition hex4 :: "char \<Rightarrow> char \<Rightarrow> char \<Rightarrow> char \<Rightarrow> nat option" where
  "hex4 a b c d = (case (hexval a, hexval b, hexval c, hexval d) of
     (Some i, Some j, Some k, Some l) \<Rightarrow> Some (4096 * i + 256 * j + 16 * k + l)
   | _ \<Rightarrow> None)"

text \<open>The rest of a string literal after its opening quote: its text and the unread input.\<close>

fun scan_str :: "string \<Rightarrow> (string \<times> string) option" where
  "scan_str [] = None"
| "scan_str (c # cs) =
     (if c = dquote then Some ([], cs)
      else if c = bslash then
        (case cs of
           [] \<Rightarrow> None
         | e # cs' \<Rightarrow>
             if e = CHR ''u'' then
               (case cs' of
                  h1 # h2 # h3 # h4 # r \<Rightarrow>
                    (case hex4 h1 h2 h3 h4 of
                       None \<Rightarrow> None
                     | Some n \<Rightarrow> if n < 256 then map_option (\<lambda>(t, r'). (char_of n # t, r')) (scan_str r)
                                else None)
                | _ \<Rightarrow> None)
             else (case simple_escape e of
                     None \<Rightarrow> None
                   | Some d \<Rightarrow> map_option (\<lambda>(t, r'). (d # t, r')) (scan_str cs')))
      else if code_of c < 32 then None
      else map_option (\<lambda>(t, r'). (c # t, r')) (scan_str cs))"

definition num_char :: "char \<Rightarrow> bool" where
  "num_char c = (is_digit c \<or> c \<in> set ''-+.eE'')"

definition strip_minus :: "string \<Rightarrow> string" where
  "strip_minus t = (case t of [] \<Rightarrow> [] | c # cs \<Rightarrow> if c = CHR ''-'' then cs else t)"

definition int_digits :: "string \<Rightarrow> bool" where
  "int_digits ds = (ds \<noteq> [] \<and> list_all is_digit ds \<and> (ds = ''0'' \<or> hd ds \<noteq> CHR ''0''))"

definition valid_int :: "string \<Rightarrow> bool" where
  "valid_int t = int_digits (strip_minus t)"

definition int_of_text :: "string \<Rightarrow> int" where
  "int_of_text t = (if t \<noteq> [] \<and> hd t = CHR ''-'' then - int (digits_val (tl t)) else int (digits_val t))"

fun valid_exponent :: "string \<Rightarrow> bool" where
  "valid_exponent [] = False"
| "valid_exponent (c # cs) = (c \<in> set ''eE'' \<and>
     (let ds = (case cs of [] \<Rightarrow> [] | d # ds' \<Rightarrow> if d \<in> set ''+-'' then ds' else cs)
      in ds \<noteq> [] \<and> list_all is_digit ds))"

definition valid_float :: "string \<Rightarrow> bool" where
  "valid_float t = (list_all num_char t \<and>
     (let b = strip_minus t; r = dropWhile is_digit b
      in int_digits (takeWhile is_digit b) \<and>
         (case r of
            [] \<Rightarrow> False
          | c # cs \<Rightarrow>
              if c = CHR ''.'' then
                takeWhile is_digit cs \<noteq> [] \<and>
                (dropWhile is_digit cs = [] \<or> valid_exponent (dropWhile is_digit cs))
              else valid_exponent r)))"

definition scan_num :: "string \<Rightarrow> (json \<times> string) option" where
  "scan_num s = (let t = takeWhile num_char s; r = dropWhile num_char s in
     if valid_int t then Some (JInt (int_of_text t), r)
     else if valid_float t then Some (JFloat t, r)
     else None)"

definition json_constants :: "(string \<times> json) list" where
  "json_constants =
     [(''null'', JNull), (''true'', JBool True), (''false'', JBool False), (''NaN'', JFloat ''NaN''),
      (''Infinity'', JFloat ''Infinity''), (''-Infinity'', JFloat ''-Infinity'')]"

fun scan_prefix :: "string \<Rightarrow> string \<Rightarrow> string option" where
  "scan_prefix [] s = Some s"
| "scan_prefix (p # ps) [] = None"
| "scan_prefix (p # ps) (c # cs) = (if p = c then scan_prefix ps cs else None)"

fun scan_constant :: "(string \<times> json) list \<Rightarrow> string \<Rightarrow> (json \<times> string) option" where
  "scan_constant [] s = None"
| "scan_constant ((w, v) # ws) s =
     (case scan_prefix w s of Some r \<Rightarrow> Some (v, r) | None \<Rightarrow> scan_constant ws s)"

text \<open>
  The value at the head of the input and what follows it. The fuel bounds the depth of the calls;
  \<open>json_loads\<close> gives twice the length of the input.
\<close>

fun parse_val :: "nat \<Rightarrow> string \<Rightarrow> (json \<times> string) option"
  and parse_elems :: "nat \<Rightarrow> string \<Rightarrow> (json list \<times> string) option"
  and parse_members :: "nat \<Rightarrow> string \<Rightarrow> ((string \<times> json) list \<times> string) option" where
  "parse_val 0 s = None"
| "parse_val (Suc n) s =
     (case s of
        [] \<Rightarrow> None
      | c # cs \<Rightarrow>
          if c = dquote then map_option (\<lambda>(t, r). (JStr t, r)) (scan_str cs)
          else if c = CHR ''['' then
            (case skip_ws cs of
               [] \<Rightarrow> None
             | d # ds \<Rightarrow> if d = CHR '']'' then Some (JArr [], ds)
                         else map_option (\<lambda>(vs, r). (JArr vs, r)) (parse_elems n (d # ds)))
          else if c = CHR ''{'' then
            (case skip_ws cs of
               [] \<Rightarrow> None
             | d # ds \<Rightarrow> if d = CHR ''}'' then Some (JObj [], ds)
                         else map_option (\<lambda>(kvs, r). (JObj (dict_of_pairs kvs), r))
                                (parse_members n (d # ds)))
          else (case scan_constant json_constants s of
                  Some vr \<Rightarrow> Some vr
                | None \<Rightarrow> scan_num s))"
| "parse_elems 0 s = None"
| "parse_elems (Suc n) s =
     (case parse_val n s of
        None \<Rightarrow> None
      | Some (v, r) \<Rightarrow>
          (case skip_ws r of
             [] \<Rightarrow> None
           | c # cs \<Rightarrow>
               if c = CHR '']'' then Some ([v], cs)
               else if c = CHR '','' then
                 map_option (\<lambda>(vs, r'). (v # vs, r')) (parse_elems n (skip_ws cs))
               else None))"
| "parse_members 0 s = None"
| "parse_members (Suc n) s =
     (case s of
        [] \<Rightarrow> None
      | q # qs \<Rightarrow>
          if q \<noteq> dquote then None
          else (case scan_str qs of
                  None \<Rightarrow> None
                | Some (k, r) \<Rightarrow>
                    (case skip_ws r of
                       [] \<Rightarrow> None
                     | c # cs \<Rightarrow>
                         if c \<noteq> CHR '':'' then None
                         else (case parse_val n (skip_ws cs) of
                                 None \<Rightarrow> None
                               | Some (v, r') \<Rightarrow>
                                   (case skip_ws r' of
                                      [] \<Rightarrow> None
                                    | d # ds \<Rightarrow>
                                        if d = CHR ''}'' then Some ([(k, v)], ds)
                                        else if d = CHR '','' then
                                          map_option (\<lambda>(kvs, r''). ((k, v) # kvs, r''))
                                            (parse_members n (skip_ws ds))
                                        else None)))))"

definition json_loads :: "string \<Rightarrow> json option" where
  "json_loads s = (case parse_val (2 * length s + 2) (skip_ws s) of
     None \<Rightarrow> None
   | Some (v, r) \<Rightarrow> if skip_ws r = [] then Some v else None)"

end
