(* ===== verification/JsonCodec.thy ===== *)
theory JsonCodec
  imports PyJson
begin

text \<open>
  The printer and the parser of \<open>PyJson\<close> against each other: a well-formed value survives printing
  and parsing, and its printed form has no line break. The two facts are stated as the contract of
  a JSON codec (the locale \<open>json_codec\<close>), which the streaming code relies on.
\<close>

section \<open>Well-formed values\<close>

text \<open>
  A dictionary holds each key once, and the text of a float is one that Python writes.
\<close>

fun wf_json :: "json \<Rightarrow> bool" where
  "wf_json (JFloat t) = (t \<in> {''NaN'', ''Infinity'', ''-Infinity''} \<or> (valid_float t \<and> \<not> valid_int t))"
| "wf_json (JArr vs) = list_all wf_json vs"
| "wf_json (JObj kvs) = (distinct (map fst kvs) \<and> list_all (\<lambda>kv. wf_json (snd kv)) kvs)"
| "wf_json _ = True"

section \<open>Strings\<close>

lemma hex4_low: "n < 256 \<Longrightarrow> hex4 (CHR ''0'') (CHR ''0'') (hexdig (n div 16)) (hexdig (n mod 16)) = Some n"
proof -
  assume "n < 256"
  then have "n div 16 < 16" and "n mod 16 < 16" by auto
  moreover have "hexval (CHR ''0'') = Some 0" by (simp add: hexval_def code_of_def)
  ultimately show ?thesis by (simp add: hex4_def hexval_hexdig)
qed

definition printable :: "char \<Rightarrow> bool" where
  "printable c = (32 \<le> code_of c \<and> code_of c \<le> 126)"

lemma printable_literals:
  "list_all printable ''nrtfbu0NaInfity-.+eE[]{}:,truefals''" "printable dquote" "printable bslash"
  by (simp_all add: printable_def code_of_def)

lemma printable_hexdig: "n < 16 \<Longrightarrow> printable (hexdig n)"
  using hexdig_printable by (simp add: printable_def)

lemma esc_char_printable: "list_all printable (esc_char c)"
proof -
  have "code_of c < 16 * 16" by (rule less_le_trans[OF code_of_less]) simp
  then have "printable (hexdig (code_of c div 16))" "printable (hexdig (code_of c mod 16))"
    by (simp_all add: less_mult_imp_div_less printable_hexdig)
  moreover have "(32 \<le> code_of c \<and> code_of c \<le> 126) = printable c" by (simp add: printable_def)
  ultimately show ?thesis using printable_literals by (simp add: esc_char_def)
qed

lemma scan_str_esc_char:
  "scan_str (esc_char c @ r) = map_option (\<lambda>(t, r'). (c # t, r')) (scan_str r)"
proof -
  have codes: "code_of c < 256" by simp
  have "c = bslash \<or> c = dquote \<or> c \<notin> {bslash, dquote}" by auto
  then show ?thesis
    by (auto simp: esc_char_def simple_escape_def hex4_low[OF codes])
qed

lemma scan_str_escaped: "scan_str (concat (map esc_char s) @ dquote # r) = Some (s, r)"
  by (induction s) (simp_all add: scan_str_esc_char)

lemma scan_str_json_str: "scan_str (tl (json_str s) @ r) = Some (s, r)"
  using scan_str_escaped[of s r] by (simp add: json_str_def)

section \<open>Numbers\<close>

lemma is_digit_num_char: "is_digit c \<Longrightarrow> num_char c"
  by (simp add: num_char_def)

lemma is_digit_not_minus: "is_digit c \<Longrightarrow> c \<noteq> CHR ''-''"
  by (auto simp: is_digit_def code_of_def)

lemma int_digits_nat_str: "int_digits (nat_str n)"
proof (cases "n = 0")
  case True
  then show ?thesis by (simp add: int_digits_def nat_str_0 is_digit_def code_of_def)
next
  case False
  then show ?thesis using hd_nat_str[of n] nat_str_digits[of n] by (simp add: int_digits_def)
qed

lemma hd_nat_str_digit: "is_digit (hd (nat_str n))"
  using nat_str_digits[of n] nat_str_nonempty[of n] by (cases "nat_str n") auto

lemma valid_int_int_str: "valid_int (int_str i)"
proof (cases "i < 0")
  case True
  then show ?thesis by (simp add: valid_int_def int_str_def strip_minus_def int_digits_nat_str)
next
  case False
  have "strip_minus (nat_str (nat i)) = nat_str (nat i)"
    using is_digit_not_minus[OF hd_nat_str_digit[of "nat i"]]
    by (cases "nat_str (nat i)") (auto simp: strip_minus_def)
  then show ?thesis using False by (simp add: valid_int_def int_str_def int_digits_nat_str)
qed

lemma int_of_text_int_str: "int_of_text (int_str i) = i"
  using is_digit_not_minus[OF hd_nat_str_digit[of "nat i"]]
  by (auto simp: int_of_text_def int_str_def digits_val_nat_str)

lemma int_str_num_chars: "list_all num_char (int_str i)"
proof -
  have "list_all num_char (nat_str n)" for n
    using nat_str_digits[of n] is_digit_num_char by (auto simp: list_all_iff)
  then show ?thesis by (simp add: int_str_def num_char_def)
qed

text \<open>Where a number ends: the next character cannot belong to it.\<close>

definition num_end :: "string \<Rightarrow> bool" where
  "num_end r = (r = [] \<or> \<not> num_char (hd r))"

lemma scan_num_token:
  assumes "list_all num_char t" "num_end r"
  shows "scan_num (t @ r) = (if valid_int t then Some (JInt (int_of_text t), r)
     else if valid_float t then Some (JFloat t, r) else None)"
  using assms by (simp add: scan_num_def Let_def num_end_def takeWhile_append_stop dropWhile_append_stop)

lemma valid_float_hd: "valid_float t \<Longrightarrow> t \<noteq> [] \<and> (hd t = CHR ''-'' \<or> is_digit (hd t))"
  by (cases t) (auto simp: valid_float_def strip_minus_def int_digits_def Let_def split: if_splits)

lemma valid_int_hd: "valid_int t \<Longrightarrow> t \<noteq> [] \<and> (hd t = CHR ''-'' \<or> is_digit (hd t))"
  by (cases t) (auto simp: valid_int_def strip_minus_def int_digits_def split: if_splits)

lemma scan_prefix_append: "scan_prefix w (w @ r) = Some r"
  by (induction w) auto

lemma is_digit_not_letter: "is_digit c \<Longrightarrow> c \<notin> set ''ntfNI-[{'' \<and> c \<noteq> dquote"
  by (auto simp: is_digit_def code_of_def)

lemma num_char_not_I: "\<not> num_char (CHR ''I'')"
  by (simp add: num_char_def is_digit_def code_of_def)

lemma scan_constant_digit: "is_digit c \<Longrightarrow> scan_constant json_constants (c # s) = None"
  using is_digit_not_letter[of c] by (auto simp: json_constants_def)

lemma scan_constant_minus: "d \<noteq> CHR ''I'' \<Longrightarrow> scan_constant json_constants (CHR ''-'' # d # s) = None"
  by (simp add: json_constants_def)

lemma number_hd: "valid_int t \<or> valid_float t \<Longrightarrow> \<exists>c cs. t = c # cs \<and> (c = CHR ''-'' \<or> is_digit c)"
  using valid_int_hd[of t] valid_float_hd[of t] by (cases t) auto

lemma minus_not_number: "\<not> valid_int ''-''" "\<not> valid_float ''-''"
  by (simp_all add: valid_int_def valid_float_def strip_minus_def int_digits_def)

lemma minus_number_next:
  assumes "valid_int (CHR ''-'' # cs) \<or> valid_float (CHR ''-'' # cs)" "list_all num_char cs"
  shows "\<exists>d ds. cs = d # ds \<and> d \<noteq> CHR ''I''"
proof (cases cs)
  case Nil
  then show ?thesis using assms(1) minus_not_number by simp
next
  case (Cons d ds)
  then show ?thesis using assms(2) num_char_not_I by auto
qed

lemma number_not_constant:
  assumes "valid_int (c # cs) \<or> valid_float (c # cs)" "list_all num_char cs" "c = CHR ''-'' \<or> is_digit c"
  shows "scan_constant json_constants (c # cs @ r) = None"
  using assms(3)
proof
  assume m: "c = CHR ''-''"
  obtain d ds where d: "cs = d # ds" "d \<noteq> CHR ''I''"
    using minus_number_next[OF assms(1)[unfolded m] assms(2)] by (elim exE conjE)
  show ?thesis using scan_constant_minus[OF d(2), of "ds @ r"] by (simp only: m d(1) append_Cons)
qed (rule scan_constant_digit)

lemma number_hd_plain: "c = CHR ''-'' \<or> is_digit c \<Longrightarrow> c \<noteq> dquote \<and> c \<noteq> CHR ''['' \<and> c \<noteq> CHR ''{''"
  by (auto simp: is_digit_def code_of_def)

lemma parse_val_scan_num:
  assumes "scan_constant json_constants (c # cs) = None"
    and "c \<noteq> dquote" "c \<noteq> CHR ''[''" "c \<noteq> CHR ''{''"
  shows "parse_val (Suc n) (c # cs) = scan_num (c # cs)"
  using assms by (simp only: parse_val.simps list.case if_False option.case)

lemma parse_val_number:
  assumes "list_all num_char t" "num_end r" "valid_int t \<or> valid_float t"
  shows "parse_val (Suc n) (t @ r) = scan_num (t @ r)"
proof -
  obtain c cs where t: "t = c # cs" and c: "c = CHR ''-'' \<or> is_digit c"
    using number_hd[OF assms(3)] by blast
  have "scan_constant json_constants (c # cs @ r) = None"
    using assms(1,3) t c by (intro number_not_constant) simp_all
  then have "parse_val (Suc n) (c # cs @ r) = scan_num (c # cs @ r)"
    using number_hd_plain[OF c] by (intro parse_val_scan_num) simp_all
  then show ?thesis by (simp only: t append_Cons)
qed

section \<open>Round trip\<close>

lemma num_end_punct: "num_end [] \<and> num_end (CHR '','' # r) \<and> num_end (CHR '']'' # r) \<and> num_end (CHR ''}'' # r)"
  by (simp add: num_end_def num_char_def is_digit_def code_of_def)

lemma num_char_not_ws: "num_char c \<Longrightarrow> \<not> is_ws c"
  by (auto simp: num_char_def is_ws_def is_digit_def code_of_def)

lemma skip_ws_id: "s = [] \<or> \<not> is_ws (hd s) \<Longrightarrow> skip_ws s = s"
  by (cases s) (auto simp: skip_ws_def)

lemma punct_not_ws: "\<not> is_ws (CHR '','')" "\<not> is_ws (CHR '']'')" "\<not> is_ws (CHR ''}'')" "\<not> is_ws (CHR '':'')"
    "\<not> is_ws dquote" "\<not> is_ws (CHR ''['')" "\<not> is_ws (CHR ''{'')" "\<not> is_ws (CHR ''n'')"
    "\<not> is_ws (CHR ''t'')" "\<not> is_ws (CHR ''f'')" "\<not> is_ws (CHR ''N'')" "\<not> is_ws (CHR ''I'')"
    "\<not> is_ws (CHR ''-'')"
  by (simp_all add: is_ws_def)

lemma json_str_nonempty: "json_str s = dquote # tl (json_str s) \<and> 2 \<le> length (json_str s)"
  by (simp add: json_str_def)

lemma number_text_hd:
  assumes "list_all num_char t" "valid_int t \<or> valid_float t"
  shows "t \<noteq> [] \<and> \<not> is_ws (hd t) \<and> hd t \<noteq> CHR '']''"
proof -
  have t: "t \<noteq> []" "num_char (hd t)" using assms valid_int_hd valid_float_hd by (cases t; auto)+
  moreover have "\<not> num_char (CHR '']'')" by (simp add: num_char_def is_digit_def code_of_def)
  ultimately show ?thesis using num_char_not_ws by metis
qed

lemma valid_float_num_chars: "valid_float t \<Longrightarrow> list_all num_char t"
  by (simp add: valid_float_def)

text \<open>A printed value is not empty and starts neither with a blank nor with a closing bracket.\<close>

lemma json_dumps_hd:
  assumes "wf_json v"
  shows "json_dumps v \<noteq> [] \<and> \<not> is_ws (hd (json_dumps v)) \<and> hd (json_dumps v) \<noteq> CHR '']''"
proof (cases v)
  case (JInt i)
  then show ?thesis
    using number_text_hd[OF int_str_num_chars, of i] valid_int_int_str by simp
next
  case (JFloat t)
  then have "t \<in> {''NaN'', ''Infinity'', ''-Infinity''} \<or> valid_float t" using assms by auto
  then show ?thesis
    using number_text_hd[of t] valid_float_num_chars[of t] JFloat by (auto simp: punct_not_ws)
next
  case (JStr t)
  then show ?thesis by (simp add: json_str_def punct_not_ws)
qed (simp_all add: punct_not_ws)

lemma scan_constant_hit:
  "parse_val (Suc n) (''null'' @ r) = Some (JNull, r)"
  "parse_val (Suc n) (''true'' @ r) = Some (JBool True, r)"
  "parse_val (Suc n) (''false'' @ r) = Some (JBool False, r)"
  "parse_val (Suc n) (''NaN'' @ r) = Some (JFloat ''NaN'', r)"
  "parse_val (Suc n) (''Infinity'' @ r) = Some (JFloat ''Infinity'', r)"
  "parse_val (Suc n) (''-Infinity'' @ r) = Some (JFloat ''-Infinity'', r)"
  by (simp_all add: json_constants_def)

declare parse_val.simps [simp del] parse_elems.simps [simp del] parse_members.simps [simp del]

lemma parse_val_int:
  assumes "num_end r"
  shows "parse_val (Suc n) (int_str i @ r) = Some (JInt i, r)"
proof -
  have "parse_val (Suc n) (int_str i @ r) = scan_num (int_str i @ r)"
    by (rule parse_val_number) (simp_all add: int_str_num_chars valid_int_int_str assms)
  then show ?thesis
    by (simp add: scan_num_token[OF int_str_num_chars assms] valid_int_int_str int_of_text_int_str)
qed

lemma parse_val_float:
  assumes "num_end r" "wf_json (JFloat t)"
  shows "parse_val (Suc n) (t @ r) = Some (JFloat t, r)"
proof (cases "valid_float t \<and> \<not> valid_int t")
  case True
  then have "parse_val (Suc n) (t @ r) = scan_num (t @ r)"
    by (intro parse_val_number) (simp_all add: valid_float_num_chars assms)
  then show ?thesis
    using True scan_num_token[OF valid_float_num_chars assms(1), of t] by simp
next
  case False
  then have "t \<in> {''NaN'', ''Infinity'', ''-Infinity''}" using assms(2) by auto
  then show ?thesis using scan_constant_hit(4-6) by auto
qed

lemma parse_val_str: "parse_val (Suc n) (json_str s @ r) = Some (JStr s, r)"
  using scan_str_escaped[of s r] by (simp add: parse_val.simps json_str_def)

lemma dumps_elems_hd:
  "list_all wf_json vs \<Longrightarrow> vs \<noteq> [] \<Longrightarrow>
     dumps_elems vs \<noteq> [] \<and> \<not> is_ws (hd (dumps_elems vs)) \<and> hd (dumps_elems vs) \<noteq> CHR '']''"
proof (induction vs)
  case (Cons v vs)
  then show ?case using json_dumps_hd[of v] by (cases vs) auto
qed simp

lemma dumps_members_hd: "kvs \<noteq> [] \<Longrightarrow> \<exists>t. dumps_members kvs = dquote # t"
proof (induction kvs)
  case (Cons kv kvs)
  then show ?case by (cases kv; cases kvs) (auto simp: json_str_def)
qed simp

lemma parse_dumps:
  "wf_json v \<Longrightarrow> num_end r \<Longrightarrow> 2 * length (json_dumps v) \<le> n \<Longrightarrow>
     parse_val n (json_dumps v @ r) = Some (v, r)"
  "vs \<noteq> [] \<Longrightarrow> list_all wf_json vs \<Longrightarrow> 2 * length (dumps_elems vs) + 1 \<le> n \<Longrightarrow>
     parse_elems n (dumps_elems vs @ CHR '']'' # r) = Some (vs, r)"
  "kvs \<noteq> [] \<Longrightarrow> list_all (\<lambda>kv. wf_json (snd kv)) kvs \<Longrightarrow> 2 * length (dumps_members kvs) + 1 \<le> n \<Longrightarrow>
     parse_members n (dumps_members kvs @ CHR ''}'' # r) = Some (kvs, r)"
proof (induction v and vs and kvs arbitrary: n r and n r and n r
    rule: json_dumps_dumps_elems_dumps_members.induct)
  case 1
  then show ?case using scan_constant_hit(1) by (cases n) auto
next
  case (2 b)
  then show ?case using scan_constant_hit(2,3) by (cases n; cases b) auto
next
  case (3 i)
  have "int_str i \<noteq> []" using json_dumps_hd[of "JInt i"] by simp
  then show ?case using 3 parse_val_int by (cases n) auto
next
  case (4 t)
  have "t \<noteq> []" using json_dumps_hd[of "JFloat t"] 4 by simp
  then show ?case using 4 parse_val_float by (cases n) auto
next
  case (5 s)
  then show ?case using parse_val_str[of _ s r] json_str_nonempty[of s] by (cases n) auto
next
  case (6 vs)
  show ?case
  proof (cases "vs = []")
    case True
    then show ?thesis using 6(4) by (cases n) (auto simp: parse_val.simps skip_ws_id punct_not_ws)
  next
    case False
    then obtain m where n: "n = Suc m" using 6(4) by (cases n) auto
    have "parse_elems m (dumps_elems vs @ CHR '']'' # r) = Some (vs, r)"
      using 6 False n by (intro 6(1)) auto
    moreover obtain c cs where "dumps_elems vs = c # cs" "\<not> is_ws c" "c \<noteq> CHR '']''"
      using dumps_elems_hd[of vs] 6(2) False by (cases "dumps_elems vs") auto
    ultimately show ?thesis by (simp add: n parse_val.simps skip_ws_id)
  qed
next
  case (7 kvs)
  show ?case
  proof (cases "kvs = []")
    case True
    then show ?thesis using 7(4) by (cases n) (auto simp: parse_val.simps skip_ws_id punct_not_ws)
  next
    case False
    then obtain m where n: "n = Suc m" using 7(4) by (cases n) auto
    have "parse_members m (dumps_members kvs @ CHR ''}'' # r) = Some (kvs, r)"
      using 7 False n by (intro 7(1)) auto
    moreover have "dict_of_pairs kvs = kvs" using 7(2) by (simp add: dict_of_pairs_distinct)
    moreover obtain t where "dumps_members kvs = dquote # t" using dumps_members_hd[OF False] ..
    ultimately show ?thesis by (simp add: n parse_val.simps skip_ws_id punct_not_ws)
  qed
next
  case 8
  then show ?case by simp
next
  case (9 v)
  then obtain m where n: "n = Suc m" by (cases n) auto
  have "parse_val m (json_dumps v @ CHR '']'' # r) = Some (v, CHR '']'' # r)"
    using 9 n num_end_punct by (intro 9(1)) auto
  then show ?case by (simp add: n parse_elems.simps skip_ws_id punct_not_ws)
next
  case (10 v w vs)
  then obtain m where n: "n = Suc m" by (cases n) auto
  have v: "parse_val m (json_dumps v @ CHR '','' # dumps_elems (w # vs) @ CHR '']'' # r)
      = Some (v, CHR '','' # dumps_elems (w # vs) @ CHR '']'' # r)"
    using 10 n num_end_punct by (intro 10(1)) auto
  have vs: "parse_elems m (dumps_elems (w # vs) @ CHR '']'' # r) = Some (w # vs, r)"
    using 10 n by (intro 10(2)) auto
  have "skip_ws (dumps_elems (w # vs) @ CHR '']'' # r) = dumps_elems (w # vs) @ CHR '']'' # r"
    using dumps_elems_hd[of "w # vs"] 10(4) by (intro skip_ws_id) (cases "dumps_elems (w # vs)"; simp)
  with v vs show ?case by (simp add: n parse_elems.simps skip_ws_id punct_not_ws)
next
  case 11
  then show ?case by simp
next
  case (12 k v)
  then obtain m where n: "n = Suc m" by (cases n) auto
  have "parse_val m (json_dumps v @ CHR ''}'' # r) = Some (v, CHR ''}'' # r)"
    using 12 n num_end_punct json_str_nonempty[of k] by (intro 12(1)) auto
  moreover have "json_dumps v \<noteq> []" "\<not> is_ws (hd (json_dumps v))" using json_dumps_hd[of v] 12(3) by auto
  then have "skip_ws (json_dumps v @ CHR ''}'' # r) = json_dumps v @ CHR ''}'' # r"
    by (intro skip_ws_id) simp
  moreover have "scan_str (tl (json_str k) @ s) = Some (k, s)" for s by (rule scan_str_json_str)
  ultimately show ?case using json_str_nonempty[of k]
    by (simp add: n parse_members.simps skip_ws_id punct_not_ws json_str_def)
next
  case (13 k v w kvs)
  then obtain m where n: "n = Suc m" by (cases n) auto
  let ?rest = "CHR '','' # dumps_members (w # kvs) @ CHR ''}'' # r"
  have v: "parse_val m (json_dumps v @ ?rest) = Some (v, ?rest)"
    using 13 n num_end_punct json_str_nonempty[of k] by (intro 13(1)) auto
  have vs: "parse_members m (dumps_members (w # kvs) @ CHR ''}'' # r) = Some (w # kvs, r)"
    using 13 n by (intro 13(2)) auto
  have "json_dumps v \<noteq> []" "\<not> is_ws (hd (json_dumps v))" using json_dumps_hd[of v] 13(4) by auto
  then have sv: "skip_ws (json_dumps v @ ?rest) = json_dumps v @ ?rest" by (intro skip_ws_id) simp
  obtain t where "dumps_members (w # kvs) = dquote # t" using dumps_members_hd by blast
  then have "skip_ws (dumps_members (w # kvs) @ CHR ''}'' # r) = dumps_members (w # kvs) @ CHR ''}'' # r"
    by (intro skip_ws_id) (simp add: punct_not_ws)
  moreover have "scan_str (concat (map esc_char k) @ dquote # s) = Some (k, s)" for s
    by (rule scan_str_escaped)
  ultimately show ?case using v vs sv
    by (simp add: n parse_members.simps skip_ws_id punct_not_ws json_str_def)
qed

theorem json_loads_dumps:
  assumes "wf_json v"
  shows "json_loads (json_dumps v) = Some v"
proof -
  have "parse_val (2 * length (json_dumps v) + 2) (json_dumps v @ []) = Some (v, [])"
    using assms num_end_punct by (intro parse_dumps(1)) auto
  moreover have "skip_ws (json_dumps v) = json_dumps v"
    using json_dumps_hd[OF assms] by (intro skip_ws_id) simp
  ultimately show ?thesis by (simp add: json_loads_def skip_ws_def)
qed

section \<open>The printed form is one line of printable ASCII\<close>

lemma json_str_printable: "list_all printable (json_str s)"
  using esc_char_printable by (induction s) (simp_all add: json_str_def printable_literals)

lemma num_char_printable: "num_char c \<Longrightarrow> printable c"
  by (auto simp: num_char_def is_digit_def printable_def code_of_def)

lemma num_text_printable: "list_all num_char t \<Longrightarrow> list_all printable t"
  using num_char_printable by (auto simp: list_all_iff)

lemma float_text_printable: "wf_json (JFloat t) \<Longrightarrow> list_all printable t"
  using valid_float_num_chars[of t] num_text_printable[of t]
  by (auto simp: printable_def code_of_def)

lemma json_dumps_printable_gen:
  "wf_json v \<Longrightarrow> list_all printable (json_dumps v)"
  "list_all wf_json vs \<Longrightarrow> list_all printable (dumps_elems vs)"
  "list_all (\<lambda>kv. wf_json (snd kv)) kvs \<Longrightarrow> list_all printable (dumps_members kvs)"
proof (induction v and vs and kvs rule: json_dumps_dumps_elems_dumps_members.induct)
  case (3 i)
  then show ?case using num_text_printable[OF int_str_num_chars] by simp
next
  case (4 t)
  then show ?case using float_text_printable[of t] by simp
qed (simp_all add: printable_literals json_str_printable printable_def code_of_def)

theorem json_dumps_printable: "wf_json v \<Longrightarrow> list_all printable (json_dumps v)"
  by (rule json_dumps_printable_gen(1))

text \<open>
  A line break of \<open>str.splitlines\<close>: the control characters LF, VT, FF, CR, FS, GS, RS and NEL.
\<close>

definition is_linebreak :: "char \<Rightarrow> bool" where
  "is_linebreak c = (code_of c \<in> {10, 11, 12, 13, 28, 29, 30, 133})"

lemma printable_not_linebreak: "printable c \<Longrightarrow> \<not> is_linebreak c"
  by (auto simp: printable_def is_linebreak_def)

section \<open>What the parser returns is well formed\<close>

lemma scan_num_wf: "scan_num s = Some (v, r) \<Longrightarrow> wf_json v"
  by (auto simp: scan_num_def Let_def split: if_splits)

lemma scan_constant_wf: "scan_constant ws s = Some (v, r) \<Longrightarrow> list_all (\<lambda>wv. wf_json (snd wv)) ws \<Longrightarrow> wf_json v"
  by (induction ws s rule: scan_constant.induct) (auto split: option.splits)

lemma constants_wf: "list_all (\<lambda>wv. wf_json (snd wv)) json_constants"
  by (simp add: json_constants_def)

lemma wf_dict_of_pairs: "list_all (\<lambda>kv. wf_json (snd kv)) kvs \<Longrightarrow> wf_json (JObj (dict_of_pairs kvs))"
proof -
  assume *: "list_all (\<lambda>kv. wf_json (snd kv)) kvs"
  have "list_all (\<lambda>kv. wf_json (snd kv)) (AList.update k v d)"
    if "list_all (\<lambda>kv. wf_json (snd kv)) d" "wf_json v" for k v and d :: "json dict"
    using that by (induction d) auto
  then have "list_all (\<lambda>kv. wf_json (snd kv)) (fold (\<lambda>(k, v). AList.update k v) kvs d)"
    if "list_all (\<lambda>kv. wf_json (snd kv)) d" for d :: "json dict"
    using that * by (induction kvs arbitrary: d) auto
  from this[of "[]"] show ?thesis by (simp add: distinct_dict_of_pairs) (simp add: dict_of_pairs_def)
qed

lemma parse_wf:
  "parse_val n s = Some (v, r) \<Longrightarrow> wf_json v"
  "parse_elems n s = Some (vs, r) \<Longrightarrow> list_all wf_json vs"
  "parse_members n s = Some (kvs, r) \<Longrightarrow> list_all (\<lambda>kv. wf_json (snd kv)) kvs"
proof (induction n arbitrary: s v vs kvs r)
  case 0
  { case 1 then show ?case by (simp add: parse_val.simps) }
  { case 2 then show ?case by (simp add: parse_elems.simps) }
  { case 3 then show ?case by (simp add: parse_members.simps) }
next
  case (Suc n)
  { case 1
    then obtain c cs where s: "s = c # cs" by (cases s) (auto simp: parse_val.simps)
    consider "c = dquote" | "c = CHR ''[''" | "c = CHR ''{''" | "c \<noteq> dquote" "c \<noteq> CHR ''[''" "c \<noteq> CHR ''{''"
      by blast
    then show ?case
    proof cases
      case 1
      then show ?thesis using \<open>parse_val (Suc n) s = Some (v, r)\<close> by (auto simp: s parse_val.simps)
    next
      case 2
      then show ?thesis using \<open>parse_val (Suc n) s = Some (v, r)\<close> Suc.IH(2)
        by (auto simp: s parse_val.simps split: list.splits if_splits)
    next
      case 3
      then show ?thesis using \<open>parse_val (Suc n) s = Some (v, r)\<close> Suc.IH(3) wf_dict_of_pairs
        by (auto simp del: wf_json.simps simp: s parse_val.simps split: list.splits if_splits) (simp_all)
    next
      case 4
      then show ?thesis using \<open>parse_val (Suc n) s = Some (v, r)\<close> scan_constant_wf[OF _ constants_wf] scan_num_wf
        by (auto simp: s parse_val.simps split: option.splits)
    qed }
  { case 2
    then obtain v' r' c cs where p: "parse_val n s = Some (v', r')" "skip_ws r' = c # cs"
      by (auto simp: parse_elems.simps split: option.splits list.splits)
    show ?case using 2 p Suc.IH(1)[OF p(1)] Suc.IH(2)
      by (auto simp: parse_elems.simps split: if_splits) }
  { case 3
    then obtain q qs k r1 c cs v' r2 d ds where p: "s = q # qs" "scan_str qs = Some (k, r1)" "skip_ws r1 = c # cs"
        "parse_val n (skip_ws cs) = Some (v', r2)" "skip_ws r2 = d # ds" "q = dquote" "c = CHR '':''"
      by (auto simp: parse_members.simps split: option.splits list.splits if_splits)
    show ?case using 3 p Suc.IH(1)[OF p(4)] Suc.IH(3)
      by (auto simp: parse_members.simps split: if_splits) }
qed

theorem json_loads_wf: "json_loads s = Some v \<Longrightarrow> wf_json v"
  by (auto simp: json_loads_def split: option.splits if_splits dest: parse_wf(1))

section \<open>The contract of a JSON codec\<close>

locale json_codec =
  fixes dumps :: "'v \<Rightarrow> string"
    and loads :: "string \<Rightarrow> 'v option"
    and wf :: "'v \<Rightarrow> bool"
  assumes codec_roundtrip: "wf v \<Longrightarrow> loads (dumps v) = Some v"
    and codec_one_line: "wf v \<Longrightarrow> list_all (\<lambda>c. \<not> is_linebreak c) (dumps v)"
    and codec_loads_wf: "loads s = Some v \<Longrightarrow> wf v"
begin

lemma codec_reprint: "loads s = Some v \<Longrightarrow> loads (dumps v) = Some v"
  by (rule codec_roundtrip) (rule codec_loads_wf)

lemma codec_injective: "wf v \<Longrightarrow> wf w \<Longrightarrow> dumps v = dumps w \<Longrightarrow> v = w"
  by (metis codec_roundtrip option.inject)

end

interpretation py_json: json_codec json_dumps json_loads wf_json
proof
  show "json_loads (json_dumps v) = Some v" if "wf_json v" for v
    using that by (rule json_loads_dumps)
  show "list_all (\<lambda>c. \<not> is_linebreak c) (json_dumps v)" if "wf_json v" for v
    using json_dumps_printable[OF that] printable_not_linebreak by (auto simp: list_all_iff)
  show "wf_json v" if "json_loads s = Some v" for s v
    using that by (rule json_loads_wf)
qed

end
