(* ===== verification/Errors.thy ===== *)
theory Errors
  imports Prelude
begin

text \<open>
  Provider errors (\<open>src/zeaz_provider/errors.py\<close>): the kinds, the exception with its flags, and the
  classification of an HTTP status into what may be retried, what may fall back to another provider
  and what counts against a provider's circuit.
\<close>

datatype error_kind =
    Authentication | BadRequest | NotFound | RateLimit | Timeout | Network | Upstream | Protocol
  | CircuitOpen | Configuration

text \<open>A Python float, and a number as a caller may pass it (a \<open>bool\<close> is an \<open>int\<close> in Python).\<close>

datatype pfloat = Finite real | PosInf | NegInf | NotANumber

datatype py_number = PyBool bool | PyNum pfloat

record provider_error =
  pe_message :: string
  pe_status_code :: int
  pe_retryable :: bool
  pe_kind :: error_kind
  pe_fallback_allowed :: bool
  pe_circuit_failure :: bool
  pe_retry_after :: "py_number option"
  pe_details :: "(string \<times> string option) list"

text \<open>
  How the source of a stream ends: it is exhausted, raises a provider error, or is left by something
  else (the client went away, any other exception).
\<close>

datatype stream_end = Exhausted | StreamRaised provider_error | StreamOther

definition ProviderError ::
  "string \<Rightarrow> int \<Rightarrow> bool \<Rightarrow> error_kind \<Rightarrow> bool option \<Rightarrow> bool option \<Rightarrow> py_number option
     \<Rightarrow> (string \<times> string option) list \<Rightarrow> provider_error" where
  "ProviderError message status_code retryable kind fallback_allowed circuit_failure retry_after details =
     \<lparr>pe_message = message, pe_status_code = status_code, pe_retryable = retryable, pe_kind = kind,
      pe_fallback_allowed = (case fallback_allowed of None \<Rightarrow> retryable | Some b \<Rightarrow> b),
      pe_circuit_failure = (case circuit_failure of None \<Rightarrow> retryable | Some b \<Rightarrow> b),
      pe_retry_after = retry_after, pe_details = details\<rparr>"

lemma ProviderError_sel [simp]:
  "pe_message (ProviderError m s r k f c a d) = m"
  "pe_status_code (ProviderError m s r k f c a d) = s"
  "pe_retryable (ProviderError m s r k f c a d) = r"
  "pe_kind (ProviderError m s r k f c a d) = k"
  "pe_fallback_allowed (ProviderError m s r k f c a d) = (case f of None \<Rightarrow> r | Some b \<Rightarrow> b)"
  "pe_circuit_failure (ProviderError m s r k f c a d) = (case c of None \<Rightarrow> r | Some b \<Rightarrow> b)"
  "pe_retry_after (ProviderError m s r k f c a d) = a"
  "pe_details (ProviderError m s r k f c a d) = d"
  by (simp_all add: ProviderError_def)

definition safe_retry_after :: "py_number option \<Rightarrow> py_number option" where
  "safe_retry_after retry_after = (case retry_after of
     Some (PyNum (Finite r)) \<Rightarrow> if 0 \<le> r then retry_after else None
   | _ \<Rightarrow> None)"

definition classify_http_error :: "int \<Rightarrow> string \<Rightarrow> py_number option \<Rightarrow> provider_error" where
  "classify_http_error status_code message retry_after =
     (if status_code \<in> {401, 403} then
        ProviderError ''Provider authentication failed'' status_code False Authentication
          (Some False) (Some False) None []
      else if status_code = 404 then
        ProviderError ''Provider model or endpoint was not found'' status_code False NotFound
          (Some True) (Some False) None []
      else if status_code = 429 then
        ProviderError ''Provider rate limit exceeded'' status_code True RateLimit
          (Some True) (Some True) (safe_retry_after retry_after) []
      else if status_code \<in> {408, 409, 425} then
        ProviderError ''Provider request was rejected temporarily'' status_code True Upstream
          (Some True) (Some True) None []
      else if status_code \<ge> 500 then
        ProviderError ''Provider service failure'' status_code True Upstream
          (Some True) (Some True) None []
      else
        ProviderError ''Provider rejected the request'' status_code False BadRequest
          (Some False) (Some False) None [])"

text \<open>The statuses after which the same request may be sent again.\<close>

definition transient_status :: "int \<Rightarrow> bool" where
  "transient_status s = (s \<in> {408, 409, 425, 429} \<or> 500 \<le> s)"

text \<open>
  An HTTP failure is retried and counted against the provider's circuit exactly for the
  transient statuses, falls back to another provider exactly for these and for 404, keeps its
  status, and neither its text nor its flags depend on what the provider wrote in the body.
\<close>

theorem classify_http_error_policy:
  "pe_retryable (classify_http_error s m ra) = transient_status s \<and>
   pe_circuit_failure (classify_http_error s m ra) = transient_status s \<and>
   pe_fallback_allowed (classify_http_error s m ra) = (transient_status s \<or> s = 404) \<and>
   pe_status_code (classify_http_error s m ra) = s \<and>
   classify_http_error s m ra = classify_http_error s m' ra"
  by (auto simp: classify_http_error_def transient_status_def)

lemma classify_retry_after_safe:
  "pe_retry_after (classify_http_error s m ra) = Some v \<Longrightarrow> \<exists>r. v = PyNum (Finite r) \<and> 0 \<le> r"
  by (auto simp: classify_http_error_def safe_retry_after_def
      split: if_splits option.splits py_number.splits pfloat.splits)

end
