(* ===== verification/PyText.thy ===== *)
theory PyText
  imports JsonCodec Errors
begin

text \<open>
  The methods of Python's \<open>str\<close> that the program uses (\<open>strip\<close>, \<open>lower\<close>, \<open>split\<close>, \<open>splitlines\<close>,
  \<open>join\<close>, \<open>replace\<close>, \<open>startswith\<close>), \<open>str(v)\<close> and \<open>repr(v)\<close> of a JSON value, \<open>int(s)\<close>, and the value
  of a float's text, for characters up to U+00FF.
\<close>

section \<open>Trimming and case\<close>

definition py_space :: "char \<Rightarrow> bool" where
  "py_space c = (code_of c \<in> {9, 10, 11, 12, 13, 28, 29, 30, 31, 32, 133, 160})"

definition py_lstrip :: "string \<Rightarrow> string" where
  "py_lstrip s = dropWhile py_space s"

definition py_rstrip :: "string \<Rightarrow> string" where
  "py_rstrip s = rev (dropWhile py_space (rev s))"

definition py_strip :: "string \<Rightarrow> string" where
  "py_strip s = py_rstrip (py_lstrip s)"

definition lower_char :: "char \<Rightarrow> char" where
  "lower_char c = (let n = code_of c in
     if 65 \<le> n \<and> n \<le> 90 \<or> 192 \<le> n \<and> n \<le> 222 \<and> n \<noteq> 215 then char_of (n + 32) else c)"

definition py_lower :: "string \<Rightarrow> string" where
  "py_lower s = map lower_char s"

lemma lstrip_id: "s = [] \<or> \<not> py_space (hd s) \<Longrightarrow> py_lstrip s = s"
  by (cases s) (auto simp: py_lstrip_def)

section \<open>Splitting and joining\<close>

definition starts_with :: "string \<Rightarrow> string \<Rightarrow> bool" where
  "starts_with p s = (take (length p) s = p)"

fun contains :: "string \<Rightarrow> string \<Rightarrow> bool" where
  "contains p [] = (p = [])"
| "contains p (c # cs) = (starts_with p (c # cs) \<or> contains p cs)"

text \<open>\<open>s.split(sep, 1)\<close> where the separator occurs: the text before its first occurrence and after it.\<close>

fun split_once :: "string \<Rightarrow> string \<Rightarrow> (string \<times> string) option" where
  "split_once sep [] = (if sep = [] then Some ([], []) else None)"
| "split_once sep (c # cs) =
     (if starts_with sep (c # cs) then Some ([], drop (length sep) (c # cs))
      else map_option (\<lambda>(a, b). (c # a, b)) (split_once sep cs))"

fun split_char :: "char \<Rightarrow> string \<Rightarrow> string list" where
  "split_char d [] = [[]]"
| "split_char d (c # cs) =
     (if c = d then [] # split_char d cs
      else (case split_char d cs of [] \<Rightarrow> [[c]] | p # ps \<Rightarrow> (c # p) # ps))"

fun py_join :: "string \<Rightarrow> string list \<Rightarrow> string" where
  "py_join sep [] = []"
| "py_join sep [s] = s"
| "py_join sep (s # t # ss) = s @ sep @ py_join sep (t # ss)"

text \<open>\<open>s.replace("\r\n", "\n")\<close>.\<close>

fun crlf_to_lf :: "string \<Rightarrow> string" where
  "crlf_to_lf [] = []"
| "crlf_to_lf [c] = [c]"
| "crlf_to_lf (c # d # cs) =
     (if c = creturn \<and> d = newline then newline # crlf_to_lf cs else c # crlf_to_lf (d # cs))"

text \<open>\<open>str.splitlines\<close>: a CR followed by an LF is one break, and the last line needs none.\<close>

fun py_splitlines :: "string \<Rightarrow> string list" where
  "py_splitlines [] = []"
| "py_splitlines (c # cs) =
     (if c = creturn \<and> cs \<noteq> [] \<and> hd cs = newline then [] # py_splitlines (tl cs)
      else if is_linebreak c then [] # py_splitlines cs
      else (case py_splitlines cs of [] \<Rightarrow> [[c]] | p # ps \<Rightarrow> (c # p) # ps))"

lemma starts_with_append [simp]: "starts_with p (p @ s)"
  by (simp add: starts_with_def)

lemma starts_with_append_iff: "starts_with p s \<longleftrightarrow> (\<exists>r. s = p @ r)"
  by (auto simp: starts_with_def) (metis append_take_drop_id)

lemma starts_with_Cons [simp]:
  "starts_with [] s" "\<not> starts_with (a # p) []" "starts_with (a # p) (b # s) = (a = b \<and> starts_with p s)"
  by (auto simp: starts_with_def)

lemma split_once_None: "split_once sep s = None \<longleftrightarrow> \<not> contains sep s"
  by (induction s) auto

lemma split_once_Some: "split_once sep s = Some (a, b) \<Longrightarrow> s = a @ sep @ b"
proof (induction s arbitrary: a)
  case (Cons c cs)
  show ?case
  proof (cases "starts_with sep (c # cs)")
    case True
    then show ?thesis using Cons.prems by (auto simp: starts_with_append_iff)
  next
    case False
    then show ?thesis using Cons by auto
  qed
qed (simp split: if_splits)

lemma split_char_nonempty [simp]: "split_char d s \<noteq> []"
  by (induction s) (auto split: list.split)

lemma split_char_parts: "p \<in> set (split_char d s) \<Longrightarrow> d \<notin> set p"
  by (induction d s arbitrary: p rule: split_char.induct) (auto split: if_splits list.splits)

lemma split_char_plain: "d \<notin> set p \<Longrightarrow> split_char d p = [p]"
  by (induction p) auto

lemma split_char_cons: "d \<notin> set p \<Longrightarrow> split_char d (p @ d # s) = p # split_char d s"
  by (induction p) auto

lemma split_char_join: "ps \<noteq> [] \<Longrightarrow> (\<And>p. p \<in> set ps \<Longrightarrow> d \<notin> set p) \<Longrightarrow> split_char d (py_join [d] ps) = ps"
  by (induction "[d]" ps rule: py_join.induct) (auto simp: split_char_plain split_char_cons)

section \<open>Text of values\<close>

definition py_printable :: "char \<Rightarrow> bool" where
  "py_printable c = (let n = code_of c in 32 \<le> n \<and> n \<le> 126 \<or> 161 \<le> n \<and> n \<noteq> 173)"

definition repr_char :: "char \<Rightarrow> char \<Rightarrow> string" where
  "repr_char quote c =
     (if c = quote \<or> c = bslash then [bslash, c]
      else if c = newline then [bslash, CHR ''n'']
      else if c = creturn then [bslash, CHR ''r'']
      else if c = CHR 0x09 then [bslash, CHR ''t'']
      else if py_printable c then [c]
      else [bslash, CHR ''x'', hexdig (code_of c div 16), hexdig (code_of c mod 16)])"

definition repr_str :: "string \<Rightarrow> string" where
  "repr_str s = (let quote = (if CHR 0x27 \<in> set s \<and> dquote \<notin> set s then dquote else CHR 0x27)
     in quote # concat (map (repr_char quote) s) @ [quote])"

definition float_str :: "string \<Rightarrow> string" where
  "float_str t = (if t = ''NaN'' then ''nan'' else if t = ''Infinity'' then ''inf''
     else if t = ''-Infinity'' then ''-inf'' else t)"

fun py_repr :: "json \<Rightarrow> string"
  and repr_elems :: "json list \<Rightarrow> string list"
  and repr_items :: "(string \<times> json) list \<Rightarrow> string list" where
  "py_repr JNull = ''None''"
| "py_repr (JBool b) = (if b then ''True'' else ''False'')"
| "py_repr (JInt i) = int_str i"
| "py_repr (JFloat t) = float_str t"
| "py_repr (JStr s) = repr_str s"
| "py_repr (JArr vs) = CHR ''['' # py_join '', '' (repr_elems vs) @ '']''"
| "py_repr (JObj kvs) = CHR ''{'' # py_join '', '' (repr_items kvs) @ ''}''"
| "repr_elems [] = []"
| "repr_elems (v # vs) = py_repr v # repr_elems vs"
| "repr_items [] = []"
| "repr_items ((k, v) # kvs) = (repr_str k @ '': '' @ py_repr v) # repr_items kvs"

definition py_str :: "json \<Rightarrow> string" where
  "py_str v = (case v of JStr s \<Rightarrow> s | _ \<Rightarrow> py_repr v)"

section \<open>Numbers from text\<close>

text \<open>Digits with single underscores between them, as \<open>int(s)\<close> accepts them.\<close>

fun underscored_digits :: "string \<Rightarrow> bool" where
  "underscored_digits [] = False"
| "underscored_digits [c] = is_digit c"
| "underscored_digits (c # d # cs) =
     (is_digit c \<and> (if d = CHR ''_'' then underscored_digits cs else underscored_digits (d # cs)))"

definition py_int_of_str :: "string \<Rightarrow> int option" where
  "py_int_of_str s =
     (let t = py_strip s;
          u = (if t \<noteq> [] \<and> hd t \<in> set ''+-'' then tl t else t)
      in if underscored_digits u
         then Some ((if t \<noteq> [] \<and> hd t = CHR ''-'' then -1 else 1) * int (digits_val (filter is_digit u)))
         else None)"

text \<open>The value of a number: of an integer, or of a float's text, without rounding.\<close>

definition exponent_of_text :: "string \<Rightarrow> int" where
  "exponent_of_text x = (case x of [] \<Rightarrow> 0
     | _ # ds \<Rightarrow> if ds \<noteq> [] \<and> hd ds = CHR ''+'' then int (digits_val (tl ds)) else int_of_text ds)"

definition float_of_text :: "string \<Rightarrow> pfloat" where
  "float_of_text t =
     (if t = ''NaN'' then NotANumber
      else if t = ''Infinity'' then PosInf
      else if t = ''-Infinity'' then NegInf
      else
        (let b = strip_minus t;
             ip = takeWhile is_digit b;
             r = dropWhile is_digit b;
             fp = (if r \<noteq> [] \<and> hd r = CHR ''.'' then takeWhile is_digit (tl r) else []);
             x = dropWhile (\<lambda>c. c \<notin> set ''eE'') b;
             m = real (digits_val (ip @ fp)) * (10 powi (exponent_of_text x - int (length fp)))
         in Finite (if b = t then m else - m)))"

definition num_value :: "json \<Rightarrow> pfloat option" where
  "num_value v = (case v of
     JInt i \<Rightarrow> Some (Finite (real_of_int i))
   | JFloat t \<Rightarrow> Some (float_of_text t)
   | _ \<Rightarrow> None)"

text \<open>\<open>lo <= x <= hi\<close> with the comparisons of floats: a NaN is in no interval.\<close>

definition in_range :: "real \<Rightarrow> real \<Rightarrow> pfloat \<Rightarrow> bool" where
  "in_range lo hi x = (case x of Finite r \<Rightarrow> lo \<le> r \<and> r \<le> hi | _ \<Rightarrow> False)"

lemma in_range_iff: "in_range lo hi x \<longleftrightarrow> (\<exists>r. x = Finite r \<and> lo \<le> r \<and> r \<le> hi)"
  by (auto simp: in_range_def split: pfloat.splits)

lemma float_of_text_half: "float_of_text ''-12.5e1'' = Finite (-125)"
  by (simp add: float_of_text_def strip_minus_def is_digit_def code_of_def Let_def digits_val_def
      exponent_of_text_def int_of_text_def)

end
