(* ===== verification/Config.thy ===== *)
theory Config
  imports PyText
begin

text \<open>
  Configuration (\<open>src/zeaz_provider/config.py\<close>): expansion of environment references, the validation
  of providers, targets and routes, and \<open>load_settings\<close> from the parsed YAML document and the
  environment. \<open>urllib.parse.urlsplit\<close>, \<open>ipaddress.ip_network\<close> and SHA-256 are arguments, and a
  YAML document is a JSON value. Main result: what \<open>load_settings\<close> accepts is closed (every route
  and the default model refer to what is configured) and within its bounds.
\<close>

section \<open>Environment references\<close>

definition is_upper :: "char \<Rightarrow> bool" where
  "is_upper c = (65 \<le> code_of c \<and> code_of c \<le> 90)"

definition env_name_char :: "char \<Rightarrow> bool" where
  "env_name_char c = (is_upper c \<or> is_digit c \<or> c = CHR ''_'')"

text \<open>
  \<open>ENV_PATTERN\<close> at the head of a text: the name, the default where one is given, and the rest.
\<close>

definition match_env :: "string \<Rightarrow> (string \<times> string option \<times> string) option" where
  "match_env s =
     (if \<not> starts_with ''${'' s then None
      else
        (let t = drop 2 s; name = takeWhile env_name_char t; r = dropWhile env_name_char t
         in if name = [] \<or> \<not> is_upper (hd name) then None
            else if starts_with ''}'' r then Some (name, None, tl r)
            else if starts_with '':-'' r then
              (let d = takeWhile (\<lambda>c. c \<noteq> CHR ''}'') (drop 2 r); r' = dropWhile (\<lambda>c. c \<noteq> CHR ''}'') (drop 2 r)
               in if r' = [] then None else Some (name, Some d, tl r'))
            else None))"

lemma match_env_shorter: "match_env s = Some (n, d, r) \<Longrightarrow> length r < length s"
proof -
  assume m: "match_env s = Some (n, d, r)"
  have dw: "length (dropWhile P xs) \<le> length xs" for P and xs :: string by (rule length_dropWhile_le)
  have "length (drop 2 s) < length s"
    using m by (cases s) (auto simp: match_env_def)
  moreover have "length r \<le> length (drop 2 s)"
    using m dw[of env_name_char "drop 2 s"]
      dw[of "\<lambda>c. c \<noteq> CHR ''}''" "drop 2 (dropWhile env_name_char (drop 2 s))"]
    by (auto simp: match_env_def Let_def split: if_splits)
  ultimately show ?thesis by simp
qed

text \<open>\<open>ENV_PATTERN.sub(replace, s)\<close> with \<open>os.getenv\<close> as \<open>env\<close>.\<close>

function expand_str :: "(string \<rightharpoonup> string) \<Rightarrow> string \<Rightarrow> string" where
  "expand_str env s =
     (case match_env s of
        Some (name, d, r) \<Rightarrow>
          (case env name of
             Some v \<Rightarrow> v
           | None \<Rightarrow> (case d of Some t \<Rightarrow> t | None \<Rightarrow> [])) @ expand_str env r
      | None \<Rightarrow> (case s of [] \<Rightarrow> [] | c # cs \<Rightarrow> c # expand_str env cs))"
  by pat_completeness auto
termination
  by (relation "measure (\<lambda>(env, s). length s)") (auto dest: match_env_shorter)

declare expand_str.simps [simp del]

fun expand :: "(string \<rightharpoonup> string) \<Rightarrow> json \<Rightarrow> json"
  and expand_list :: "(string \<rightharpoonup> string) \<Rightarrow> json list \<Rightarrow> json list"
  and expand_items :: "(string \<rightharpoonup> string) \<Rightarrow> (string \<times> json) list \<Rightarrow> (string \<times> json) list" where
  "expand env (JStr s) = JStr (expand_str env s)"
| "expand env (JArr vs) = JArr (expand_list env vs)"
| "expand env (JObj kvs) = JObj (expand_items env kvs)"
| "expand env v = v"
| "expand_list env [] = []"
| "expand_list env (v # vs) = expand env v # expand_list env vs"
| "expand_items env [] = []"
| "expand_items env ((k, v) # kvs) = (k, expand env v) # expand_items env kvs"

definition enabled :: "json \<Rightarrow> bool" where
  "enabled v = (case v of
     JBool b \<Rightarrow> b
   | _ \<Rightarrow> py_lower (py_strip (py_str v)) \<notin> {''0'', ''false'', ''no'', ''off'', ''''})"

section \<open>Validation\<close>

definition require :: "bool \<Rightarrow> string \<Rightarrow> unit res" where
  "require ok message = (if ok then Inr () else Inl (ValueError message))"

lemma require_eq_Inr [res_simps]: "require ok m = Inr u \<longleftrightarrow> ok"
  by (simp add: require_def)

text \<open>The parts of \<open>urlsplit(value)\<close> the validation reads; \<open>url_port_ok\<close>: reading \<open>port\<close> does not raise.\<close>

record split_url =
  url_scheme :: string
  url_netloc :: string
  url_username :: string
  url_password :: string
  url_query :: string
  url_fragment :: string
  url_port_ok :: bool

definition has_control :: "string \<Rightarrow> bool" where
  "has_control s = list_ex (\<lambda>c. c \<in> {creturn, newline, CHR 0x00}) s"

definition validate_origin :: "(string \<Rightarrow> split_url option) \<Rightarrow> json \<Rightarrow> string \<Rightarrow> unit res" where
  "validate_origin urlsplit v label = (case v of
     JStr s \<Rightarrow>
       bindE (require (s \<noteq> [] \<and> length s \<le> 2048) (label @ '' is invalid'')) (\<lambda>_.
       bindE (require (\<not> has_control s) (label @ '' is invalid'')) (\<lambda>_.
       (case urlsplit s of
          None \<Rightarrow> Inl (ValueError ''Invalid URL'')
        | Some p \<Rightarrow>
            bindE (require (url_scheme p \<in> {''http'', ''https''} \<and> url_netloc p \<noteq> [])
              (label @ '' must be an HTTP(S) URL'')) (\<lambda>_.
            bindE (require (url_username p = [] \<and> url_password p = [] \<and> url_query p = [] \<and> url_fragment p = [])
              (label @ '' must not contain credentials, query, or fragment'')) (\<lambda>_.
            require (url_port_ok p) (label @ '' has an invalid port''))))))
   | _ \<Rightarrow> Inl (ValueError (label @ '' is invalid'')))"

definition require_integer :: "json \<Rightarrow> string \<Rightarrow> int \<Rightarrow> int \<Rightarrow> unit res" where
  "require_integer v label lo hi =
     require (case v of JInt i \<Rightarrow> lo \<le> i \<and> i \<le> hi | _ \<Rightarrow> False)
       (label @ '' must be between '' @ int_str lo @ '' and '' @ int_str hi)"

text \<open>The bounds of a number are also given as the message writes them.\<close>

definition require_number :: "json \<Rightarrow> string \<Rightarrow> string \<Rightarrow> real \<Rightarrow> real \<Rightarrow> unit res" where
  "require_number v label bounds lo hi =
     require (case num_value v of None \<Rightarrow> False | Some x \<Rightarrow> in_range lo hi x) (label @ '' must be between '' @ bounds)"

definition text_of :: "json \<Rightarrow> string" where
  "text_of v = (case v of JStr s \<Rightarrow> s | _ \<Rightarrow> [])"

definition int_of_json :: "json \<Rightarrow> int" where
  "int_of_json v = (case v of JInt i \<Rightarrow> i | _ \<Rightarrow> 0)"

definition real_of_json :: "json \<Rightarrow> real" where
  "real_of_json v = (case num_value v of Some (Finite r) \<Rightarrow> r | _ \<Rightarrow> 0)"

definition short_text :: "nat \<Rightarrow> json \<Rightarrow> bool" where
  "short_text n v = (case v of JStr s \<Rightarrow> 1 \<le> length s \<and> length s \<le> n | _ \<Rightarrow> False)"

record provider_config =
  pc_name :: string
  pc_api :: string
  pc_base_url :: string
  pc_api_key :: string
  pc_account :: string
  pc_region :: string
  pc_headers :: "string dict"
  pc_api_version :: string
  pc_timeout_seconds :: real
  pc_total_timeout_seconds :: real
  pc_max_attempts :: int
  pc_retry_base_seconds :: real
  pc_retry_max_seconds :: real
  pc_circuit_failure_threshold :: int
  pc_circuit_reset_seconds :: real

definition header_ok :: "string \<times> json \<Rightarrow> bool" where
  "header_ok kv = (case kv of (k, v) \<Rightarrow> k \<noteq> [] \<and> length k \<le> 128 \<and>
     (case v of JStr s \<Rightarrow> creturn \<notin> set k \<and> newline \<notin> set k \<and> creturn \<notin> set s \<and> newline \<notin> set s
      | _ \<Rightarrow> False))"

definition api_version_char :: "char \<Rightarrow> bool" where
  "api_version_char c =
     (c \<in> set ''abcdefghijklmnopqrstuvwxyzABCDEFGHIJKLMNOPQRSTUVWXYZ0123456789._-'')"

definition provider_fields :: "string list" where
  "provider_fields = [''api'', ''base_url'', ''api_key'', ''account'', ''region'', ''headers'', ''api_version'',
     ''timeout_seconds'', ''total_timeout_seconds'', ''max_attempts'', ''retry_base_seconds'',
     ''retry_max_seconds'', ''circuit_failure_threshold'', ''circuit_reset_seconds'']"

text \<open>The value of a field of the data class: what was given, or the field's default.\<close>

definition provider_defaults :: "json dict" where
  "provider_defaults =
     [(''api_key'', JStr []), (''account'', JStr ''default''), (''region'', JStr ''global''), (''headers'', JObj []),
      (''api_version'', JStr []), (''timeout_seconds'', JFloat ''120.0''),
      (''total_timeout_seconds'', JFloat ''135.0''), (''max_attempts'', JInt 3),
      (''retry_base_seconds'', JFloat ''0.25''), (''retry_max_seconds'', JFloat ''5.0''),
      (''circuit_failure_threshold'', JInt 5), (''circuit_reset_seconds'', JFloat ''30.0'')]"

definition field :: "json dict \<Rightarrow> string \<Rightarrow> json" where
  "field d k = dict_get_default d k (dict_get_default provider_defaults k JNull)"

text \<open>The checks of \<open>__post_init__\<close>, in their order, as three groups.\<close>

definition check_identity :: "(string \<Rightarrow> split_url option) \<Rightarrow> string \<Rightarrow> json dict \<Rightarrow> unit res" where
  "check_identity urlsplit name d =
     bindE (require (short_text 128 (JStr name)) ''provider name is invalid'') (\<lambda>_.
     bindE (require (case field d ''api'' of JStr s \<Rightarrow> s \<in> {''anthropic'', ''azure'', ''openai'', ''responses''} | _ \<Rightarrow> False)
       ''provider API must be anthropic, azure, openai, or responses'') (\<lambda>_.
     bindE (validate_origin urlsplit (field d ''base_url'') ''provider base_url'') (\<lambda>_.
     bindE (require (case field d ''api_key'' of JStr s \<Rightarrow> CHR 0x00 \<notin> set s | _ \<Rightarrow> False)
       ''provider api_key is invalid'') (\<lambda>_.
     bindE (require (short_text 128 (field d ''account'')) ''provider account is invalid'') (\<lambda>_.
     require (short_text 128 (field d ''region'')) ''provider region is invalid'')))))"

definition check_headers :: "json dict \<Rightarrow> unit res" where
  "check_headers d =
     bindE (require (case field d ''headers'' of JObj kvs \<Rightarrow> length kvs \<le> 64 | _ \<Rightarrow> False)
       ''provider headers are invalid'') (\<lambda>_.
     bindE (require (case field d ''headers'' of JObj kvs \<Rightarrow> list_all header_ok kvs | _ \<Rightarrow> False)
       ''provider headers are invalid'') (\<lambda>_.
     require (case field d ''api_version'' of JStr s \<Rightarrow> length s \<le> 128 \<and> list_all api_version_char s | _ \<Rightarrow> False)
       ''provider api_version is invalid''))"

definition check_numbers :: "json dict \<Rightarrow> unit res" where
  "check_numbers d =
     bindE (require_number (field d ''timeout_seconds'') ''provider timeout_seconds'' ''0.001 and 600'' (1/1000) 600) (\<lambda>_.
     bindE (require_number (field d ''total_timeout_seconds'') ''provider total_timeout_seconds'' ''0.001 and 3600'' (1/1000) 3600) (\<lambda>_.
     bindE (require_integer (field d ''max_attempts'') ''provider max_attempts'' 1 10) (\<lambda>_.
     bindE (require_number (field d ''retry_base_seconds'') ''provider retry_base_seconds'' ''0 and 60'' 0 60) (\<lambda>_.
     bindE (require_number (field d ''retry_max_seconds'') ''provider retry_max_seconds'' ''0 and 120'' 0 120) (\<lambda>_.
     bindE (require (\<not> real_of_json (field d ''retry_max_seconds'') < real_of_json (field d ''retry_base_seconds''))
       ''provider retry_max_seconds cannot be lower than retry_base_seconds'') (\<lambda>_.
     bindE (require_integer (field d ''circuit_failure_threshold'') ''provider circuit_failure_threshold'' 1 100) (\<lambda>_.
     require_number (field d ''circuit_reset_seconds'') ''provider circuit_reset_seconds'' ''0.001 and 3600'' (1/1000) 3600)))))))"

definition build_provider :: "string \<Rightarrow> json dict \<Rightarrow> provider_config" where
  "build_provider name d =
     \<lparr>pc_name = name, pc_api = text_of (field d ''api''), pc_base_url = text_of (field d ''base_url''),
      pc_api_key = text_of (field d ''api_key''), pc_account = text_of (field d ''account''),
      pc_region = text_of (field d ''region''),
      pc_headers = (case field d ''headers'' of JObj kvs \<Rightarrow> map (\<lambda>(k, v). (k, text_of v)) kvs | _ \<Rightarrow> []),
      pc_api_version = text_of (field d ''api_version''),
      pc_timeout_seconds = real_of_json (field d ''timeout_seconds''),
      pc_total_timeout_seconds = real_of_json (field d ''total_timeout_seconds''),
      pc_max_attempts = int_of_json (field d ''max_attempts''),
      pc_retry_base_seconds = real_of_json (field d ''retry_base_seconds''),
      pc_retry_max_seconds = real_of_json (field d ''retry_max_seconds''),
      pc_circuit_failure_threshold = int_of_json (field d ''circuit_failure_threshold''),
      pc_circuit_reset_seconds = real_of_json (field d ''circuit_reset_seconds'')\<rparr>"

text \<open>\<open>ProviderConfig(name=name, **d)\<close>: an unknown, repeated or missing argument is a \<open>TypeError\<close>.\<close>

definition ProviderConfig ::
  "(string \<Rightarrow> split_url option) \<Rightarrow> string \<Rightarrow> json dict \<Rightarrow> provider_config res" where
  "ProviderConfig urlsplit name d =
     bindE (if list_all (\<lambda>k. k \<in> set provider_fields) (map fst d) \<and> dict_has d ''api'' \<and> dict_has d ''base_url''
            then Inr () else Inl TypeError) (\<lambda>_.
     bindE (check_identity urlsplit name d) (\<lambda>_.
     bindE (check_headers d) (\<lambda>_.
     bindE (check_numbers d) (\<lambda>_.
     Inr (build_provider name d)))))"

definition provider_config_ok :: "provider_config \<Rightarrow> bool" where
  "provider_config_ok c =
     (1 \<le> length (pc_name c) \<and> length (pc_name c) \<le> 128 \<and>
      pc_api c \<in> {''anthropic'', ''azure'', ''openai'', ''responses''} \<and>
      \<not> has_control (pc_base_url c) \<and> length (pc_headers c) \<le> 64 \<and>
      0 < pc_timeout_seconds c \<and> pc_timeout_seconds c \<le> 600 \<and>
      0 < pc_total_timeout_seconds c \<and> pc_total_timeout_seconds c \<le> 3600 \<and>
      1 \<le> pc_max_attempts c \<and> pc_max_attempts c \<le> 10 \<and>
      0 \<le> pc_retry_base_seconds c \<and> pc_retry_base_seconds c \<le> pc_retry_max_seconds c \<and>
      pc_retry_max_seconds c \<le> 120 \<and>
      1 \<le> pc_circuit_failure_threshold c \<and> pc_circuit_failure_threshold c \<le> 100 \<and>
      0 < pc_circuit_reset_seconds c \<and> pc_circuit_reset_seconds c \<le> 3600)"

lemma require_number_Inr [res_simps]:
  "require_number v label bounds lo hi = Inr u \<longleftrightarrow> (\<exists>r. num_value v = Some (Finite r) \<and> lo \<le> r \<and> r \<le> hi)"
  by (auto simp: require_number_def res_simps in_range_iff split: option.splits)

lemma require_integer_Inr [res_simps]:
  "require_integer v label lo hi = Inr u \<longleftrightarrow> (\<exists>i. v = JInt i \<and> lo \<le> i \<and> i \<le> hi)"
  by (auto simp: require_integer_def res_simps split: json.splits)

lemma real_of_json_Finite [simp]: "num_value v = Some (Finite r) \<Longrightarrow> real_of_json v = r"
  by (simp add: real_of_json_def)

lemma int_of_json_JInt [simp]: "int_of_json (JInt i) = i"
  by (simp add: int_of_json_def)

lemma short_text_iff [res_simps]: "short_text n v \<longleftrightarrow> (\<exists>s. v = JStr s \<and> 1 \<le> length s \<and> length s \<le> n)"
  by (auto simp: short_text_def split: json.splits)

lemma validate_origin_Inr:
  "validate_origin urlsplit v label = Inr u \<Longrightarrow> \<exists>s. v = JStr s \<and> s \<noteq> [] \<and> \<not> has_control s"
  by (cases v) (auto simp: validate_origin_def res_simps)

lemma case_JStr_iff [res_simps]: "(case v of JStr s \<Rightarrow> P s | _ \<Rightarrow> False) \<longleftrightarrow> (\<exists>s. v = JStr s \<and> P s)"
  by (cases v) auto

lemma case_JObj_iff [res_simps]: "(case v of JObj kvs \<Rightarrow> P kvs | _ \<Rightarrow> False) \<longleftrightarrow> (\<exists>kvs. v = JObj kvs \<and> P kvs)"
  by (cases v) auto

lemma text_of_JStr [simp]: "text_of (JStr s) = s"
  by (simp add: text_of_def)

lemma check_identity_Inr:
  "check_identity urlsplit name d = Inr u \<Longrightarrow>
     1 \<le> length name \<and> length name \<le> 128 \<and>
     (\<exists>s. field d ''api'' = JStr s \<and> s \<in> {''anthropic'', ''azure'', ''openai'', ''responses''}) \<and>
     (\<exists>s. field d ''base_url'' = JStr s \<and> \<not> has_control s)"
  unfolding check_identity_def bindE_eq_Inr
  by (elim exE conjE, drule validate_origin_Inr) (simp only: res_simps, elim exE conjE, simp)

lemma check_headers_Inr:
  "check_headers d = Inr u \<Longrightarrow> \<exists>kvs. field d ''headers'' = JObj kvs \<and> length kvs \<le> 64"
  by (auto simp: check_headers_def res_simps)

lemma check_numbers_Inr:
  "check_numbers d = Inr u \<Longrightarrow>
     (0 < pc_timeout_seconds (build_provider name d) \<and> pc_timeout_seconds (build_provider name d) \<le> 600 \<and>
      0 < pc_total_timeout_seconds (build_provider name d) \<and> pc_total_timeout_seconds (build_provider name d) \<le> 3600 \<and>
      1 \<le> pc_max_attempts (build_provider name d) \<and> pc_max_attempts (build_provider name d) \<le> 10 \<and>
      0 \<le> pc_retry_base_seconds (build_provider name d) \<and>
      pc_retry_base_seconds (build_provider name d) \<le> pc_retry_max_seconds (build_provider name d) \<and>
      pc_retry_max_seconds (build_provider name d) \<le> 120 \<and>
      1 \<le> pc_circuit_failure_threshold (build_provider name d) \<and>
      pc_circuit_failure_threshold (build_provider name d) \<le> 100 \<and>
      0 < pc_circuit_reset_seconds (build_provider name d) \<and> pc_circuit_reset_seconds (build_provider name d) \<le> 3600)"
  unfolding check_numbers_def bindE_eq_Inr
  by (simp only: res_simps, elim exE conjE, simp add: build_provider_def)

lemma ProviderConfig_ok:
  assumes "ProviderConfig urlsplit name d = Inr c"
  shows "provider_config_ok c \<and> pc_name c = name"
proof -
  from assms obtain u v w where c: "check_identity urlsplit name d = Inr u" "check_headers d = Inr v"
      "check_numbers d = Inr w" "c = build_provider name d"
    unfolding ProviderConfig_def bindE_eq_Inr by auto
  note facts = check_identity_Inr[OF c(1)] check_headers_Inr[OF c(2)] check_numbers_Inr[OF c(3), of name]
  obtain s t kvs where "field d ''api'' = JStr s" "s \<in> {''anthropic'', ''azure'', ''openai'', ''responses''}"
      "field d ''base_url'' = JStr t" "\<not> has_control t" "field d ''headers'' = JObj kvs" "length kvs \<le> 64"
    using facts(1,2) by (elim exE conjE) (rule that)
  then have "pc_api c \<in> {''anthropic'', ''azure'', ''openai'', ''responses''}" "\<not> has_control (pc_base_url c)"
      "length (pc_headers c) \<le> 64" "pc_name c = name"
    by (simp_all add: c(4) build_provider_def)
  then show ?thesis
    using facts(1,3) unfolding provider_config_ok_def c(4) by (simp only: simp_thms)
qed

section \<open>Targets, routes and settings\<close>

record route_target =
  rt_provider :: string
  rt_model :: string

record model_route =
  mr_alias :: string
  mr_primary :: route_target
  mr_fallbacks :: "route_target list"

record settings =
  st_providers :: "provider_config dict"
  st_models :: "model_route dict"
  st_client_key_hashes :: "string list"
  st_default_model :: string
  st_max_request_bytes :: int
  st_max_output_tokens :: int
  st_rate_limit_per_minute :: int
  st_metrics_enabled :: bool
  st_otlp_metrics_enabled :: bool
  st_rate_limit_backend :: string
  st_redis_url :: string
  st_rate_limit_key_prefix :: string
  st_trusted_proxy_cidrs :: "string list"
  st_max_concurrent_requests :: int
  st_max_response_bytes :: int

definition RouteTarget :: "json \<Rightarrow> json \<Rightarrow> route_target res" where
  "RouteTarget provider model =
     bindE (require (short_text 128 provider) ''route provider is invalid'') (\<lambda>_.
     bindE (require (short_text 512 model \<and> \<not> has_control (text_of model)) ''route model is invalid'') (\<lambda>_.
     Inr \<lparr>rt_provider = text_of provider, rt_model = text_of model\<rparr>))"

definition ModelRoute :: "string \<Rightarrow> route_target \<Rightarrow> route_target list \<Rightarrow> model_route res" where
  "ModelRoute alias primary fallbacks =
     bindE (require (short_text 256 (JStr alias)) ''model alias is invalid'') (\<lambda>_.
     Inr \<lparr>mr_alias = alias, mr_primary = primary, mr_fallbacks = fallbacks\<rparr>)"

text \<open>A \<open>RuntimeError\<close> of \<open>load_settings\<close> is its message; \<open>or_fail\<close> is \<open>except \<dots>: raise RuntimeError(m)\<close>.\<close>

definition or_fail :: "string \<Rightarrow> 'a res \<Rightarrow> string + 'a" where
  "or_fail m r = (case r of Inl _ \<Rightarrow> Inl m | Inr x \<Rightarrow> Inr x)"

definition fail_unless :: "bool \<Rightarrow> string \<Rightarrow> string + unit" where
  "fail_unless ok m = (if ok then Inr () else Inl m)"

lemma or_fail_Inr [res_simps]: "or_fail m r = Inr x \<longleftrightarrow> r = Inr x"
  by (auto simp: or_fail_def split: sum.splits)

lemma fail_unless_Inr [res_simps]: "fail_unless ok m = Inr u \<longleftrightarrow> ok"
  by (simp add: fail_unless_def)

definition as_mapping :: "json \<Rightarrow> string \<Rightarrow> string + json dict" where
  "as_mapping v m = (case v of JObj d \<Rightarrow> Inr d | _ \<Rightarrow> Inl m)"

text \<open>One iteration of the loop over the providers.\<close>

definition load_provider ::
  "(string \<Rightarrow> split_url option) \<Rightarrow> provider_config dict \<Rightarrow> string \<times> json \<Rightarrow> string + provider_config dict" where
  "load_provider urlsplit providers kv = (case kv of (name, value) \<Rightarrow>
     bindE (as_mapping value ''Provider configuration entries must be objects'') (\<lambda>d.
     if \<not> enabled (dict_get_default d ''enabled'' (JBool True)) then Inr providers
     else bindE (or_fail (''Invalid provider configuration: '' @ name)
                  (ProviderConfig urlsplit name (filter (\<lambda>kv. fst kv \<noteq> ''enabled'') d))) (\<lambda>c.
          Inr (dict_set name c providers))))"

definition load_fallback ::
  "provider_config dict \<Rightarrow> string \<Rightarrow> route_target list \<Rightarrow> json \<Rightarrow> string + route_target list" where
  "load_fallback providers alias fallbacks item =
     bindE (as_mapping item (''Invalid model route fallback: '' @ alias)) (\<lambda>d.
     bindE (fail_unless (dict_has d ''provider'' \<and> dict_has d ''model'') (''Invalid model route fallback: '' @ alias)) (\<lambda>_.
     bindE (or_fail (''Invalid model route fallback: '' @ alias)
             (RouteTarget (get_or_null d ''provider'') (get_or_null d ''model''))) (\<lambda>t.
     if dict_has providers (rt_provider t) then Inr (fallbacks @ [t]) else Inr fallbacks)))"

definition load_route ::
  "provider_config dict \<Rightarrow> model_route dict \<Rightarrow> string \<times> json \<Rightarrow> string + model_route dict" where
  "load_route providers models kv = (case kv of (alias, value) \<Rightarrow>
     bindE (as_mapping value ''Model route entries must be objects'') (\<lambda>d.
     bindE (fail_unless (dict_has d ''provider'' \<and> dict_has d ''model'') (''Invalid model route: '' @ alias)) (\<lambda>_.
     bindE (or_fail (''Invalid model route: '' @ alias)
             (RouteTarget (get_or_null d ''provider'') (get_or_null d ''model''))) (\<lambda>primary.
     if \<not> dict_has providers (rt_provider primary) then Inr models
     else
       bindE (case dict_get_default d ''fallbacks'' (JArr []) of
                JArr items \<Rightarrow> Inr items
              | _ \<Rightarrow> Inl (''Invalid model route fallbacks: '' @ alias)) (\<lambda>items.
       bindE (foldE (load_fallback providers alias) [] items) (\<lambda>fallbacks.
       bindE (or_fail (''Invalid model route: '' @ alias) (ModelRoute alias primary fallbacks)) (\<lambda>r.
       Inr (dict_set alias r models))))))))"

definition stripped_items :: "string \<Rightarrow> string list" where
  "stripped_items s = filter (\<lambda>t. t \<noteq> []) (map py_strip (split_char CHR '','' s))"

text \<open>
  \<open>CLIENT_KEY_HASH_PATTERN\<close> and \<open>bytes.fromhex\<close>: a digest is written in lower-case hexadecimal.
\<close>

definition parse_key_hash :: "string \<Rightarrow> string option" where
  "parse_key_hash t =
     (let h = (if starts_with ''sha256:'' t then drop 7 t else t)
      in if length h = 64 \<and> list_all (\<lambda>c. hexval c \<noteq> None) h then Some (py_lower h) else None)"

definition add_key_hash :: "string list \<Rightarrow> string \<Rightarrow> string + string list" where
  "add_key_hash hs t = (case parse_key_hash t of
     None \<Rightarrow> Inl ''ZEAZ_CLIENT_KEY_HASHES contains an invalid SHA-256 hash''
   | Some h \<Rightarrow> Inr (h # hs))"

definition getenv :: "(string \<rightharpoonup> string) \<Rightarrow> string \<Rightarrow> string \<Rightarrow> string" where
  "getenv env name d = (case env name of Some v \<Rightarrow> v | None \<Rightarrow> d)"

definition env_int :: "(string \<rightharpoonup> string) \<Rightarrow> string \<Rightarrow> int \<Rightarrow> int \<Rightarrow> int \<Rightarrow> string + int" where
  "env_int env name d lo hi =
     bindE (case env name of
              None \<Rightarrow> Inr d
            | Some raw \<Rightarrow> (case py_int_of_str raw of
                            None \<Rightarrow> Inl (name @ '' must be an integer'')
                          | Some i \<Rightarrow> Inr i)) (\<lambda>v.
     bindE (fail_unless (\<not> v < lo) (name @ '' must be at least its minimum'')) (\<lambda>_.
     bindE (fail_unless (\<not> v > hi) (name @ '' must be at most its maximum'')) (\<lambda>_.
     Inr v)))"

fun parse_cidrs :: "(string \<Rightarrow> string option) \<Rightarrow> string list \<Rightarrow> string + string list" where
  "parse_cidrs ip_network [] = Inr []"
| "parse_cidrs ip_network (t # ts) = (case ip_network t of
     None \<Rightarrow> Inl ''ZEAZ_TRUSTED_PROXY_CIDRS contains an invalid CIDR''
   | Some n \<Rightarrow> bindE (parse_cidrs ip_network ts) (\<lambda>ns. Inr (n # ns)))"

definition default_route :: "json dict \<Rightarrow> model_route dict \<Rightarrow> string + string" where
  "default_route raw models =
     (let v = get_or_null raw ''default_model'';
          d = (if truthy v then v else JStr (fst (hd models)))
      in case d of
           JStr s \<Rightarrow> if dict_has models s then Inr s else Inl (''Default model route is missing: '' @ s)
         | _ \<Rightarrow> Inl ''Default model route must be a string'')"

text \<open>
  \<open>load_settings\<close> after \<open>yaml.safe_load\<close> (\<open>raw_value\<close>), with the environment \<open>env\<close>.
\<close>

definition load_settings ::
  "(string \<Rightarrow> split_url option) \<Rightarrow> (string \<Rightarrow> string option) \<Rightarrow> (string \<Rightarrow> string) \<Rightarrow> (string \<rightharpoonup> string)
     \<Rightarrow> json \<Rightarrow> string + settings" where
  "load_settings urlsplit ip_network sha256 env raw_value =
     bindE (as_mapping (if raw_value = JNull then JObj [] else raw_value)
             ''Provider configuration must be a YAML object'') (\<lambda>raw_dict.
     let raw = expand_items env raw_dict in
     bindE (as_mapping (dict_get_default raw ''providers'' (JObj []))
             ''Provider configuration providers must be an object'') (\<lambda>raw_providers.
     bindE (foldE (load_provider urlsplit) [] raw_providers) (\<lambda>providers.
     bindE (as_mapping (dict_get_default raw ''models'' (JObj []))
             ''Provider configuration models must be an object'') (\<lambda>raw_models.
     bindE (foldE (load_route providers) [] raw_models) (\<lambda>models.
     bindE (foldE add_key_hash (map sha256 (stripped_items (getenv env ''ZEAZ_CLIENT_KEYS'' [])))
             (stripped_items (getenv env ''ZEAZ_CLIENT_KEY_HASHES'' []))) (\<lambda>key_hashes.
     bindE (fail_unless (providers \<noteq> []) ''No providers are enabled'') (\<lambda>_.
     bindE (fail_unless (models \<noteq> []) ''No model routes are configured'') (\<lambda>_.
     bindE (default_route raw models) (\<lambda>default_model.
     let backend = py_lower (py_strip (getenv env ''ZEAZ_RATE_LIMIT_BACKEND'' ''memory''));
         redis_url = getenv env ''ZEAZ_REDIS_URL'' [];
         prefix = getenv env ''ZEAZ_RATE_LIMIT_KEY_PREFIX'' ''zeaz:rate-limit:'' in
     bindE (fail_unless (backend \<in> {''memory'', ''redis''}) ''ZEAZ_RATE_LIMIT_BACKEND must be memory or redis'') (\<lambda>_.
     bindE (fail_unless (\<not> (backend = ''redis'' \<and> redis_url = []))
             ''ZEAZ_REDIS_URL is required for the Redis rate-limit backend'') (\<lambda>_.
     bindE (parse_cidrs ip_network (stripped_items (getenv env ''ZEAZ_TRUSTED_PROXY_CIDRS'' []))) (\<lambda>cidrs.
     bindE (env_int env ''ZEAZ_MAX_REQUEST_BYTES'' (4 * 1024 * 1024) 1024 67108864) (\<lambda>max_request_bytes.
     bindE (env_int env ''ZEAZ_MAX_OUTPUT_TOKENS'' 131072 1 1000000) (\<lambda>max_output_tokens.
     bindE (env_int env ''ZEAZ_RATE_LIMIT_PER_MINUTE'' 120 1 1000000) (\<lambda>rate_limit.
     bindE (env_int env ''ZEAZ_MAX_CONCURRENT_REQUESTS'' 100 1 10000) (\<lambda>max_concurrent.
     bindE (env_int env ''ZEAZ_MAX_RESPONSE_BYTES'' (16 * 1024 * 1024) 1024 1073741824) (\<lambda>max_response_bytes.
     bindE (fail_unless (1 \<le> length prefix \<and> length prefix \<le> 128 \<and> \<not> has_control prefix)
             ''ZEAZ_RATE_LIMIT_KEY_PREFIX is invalid'') (\<lambda>_.
     Inr \<lparr>st_providers = providers, st_models = models, st_client_key_hashes = key_hashes,
       st_default_model = default_model, st_max_request_bytes = max_request_bytes,
       st_max_output_tokens = max_output_tokens, st_rate_limit_per_minute = rate_limit,
       st_metrics_enabled = enabled (JStr (getenv env ''ZEAZ_METRICS_ENABLED'' ''true'')),
       st_otlp_metrics_enabled = enabled (JStr (getenv env ''OTEL_EXPORTER_OTLP_METRICS_ENDPOINT'' [])),
       st_rate_limit_backend = backend, st_redis_url = redis_url, st_rate_limit_key_prefix = prefix,
       st_trusted_proxy_cidrs = cidrs, st_max_concurrent_requests = max_concurrent,
       st_max_response_bytes = max_response_bytes\<rparr>))))))))))))))))))"

section \<open>What is accepted is closed and within bounds\<close>

definition target_ok :: "provider_config dict \<Rightarrow> route_target \<Rightarrow> bool" where
  "target_ok providers t = dict_has providers (rt_provider t)"

definition route_ok :: "provider_config dict \<Rightarrow> model_route \<Rightarrow> bool" where
  "route_ok providers r = list_all (target_ok providers) (mr_primary r # mr_fallbacks r)"

definition providers_ok :: "provider_config dict \<Rightarrow> bool" where
  "providers_ok providers =
     (distinct (map fst providers) \<and>
      list_all (\<lambda>kv. provider_config_ok (snd kv) \<and> pc_name (snd kv) = fst kv) providers)"

definition models_ok :: "provider_config dict \<Rightarrow> model_route dict \<Rightarrow> bool" where
  "models_ok providers models =
     (distinct (map fst models) \<and>
      list_all (\<lambda>kv. route_ok providers (snd kv) \<and> mr_alias (snd kv) = fst kv \<and> fst kv \<noteq> []) models)"

definition settings_ok :: "settings \<Rightarrow> bool" where
  "settings_ok s =
     (st_providers s \<noteq> [] \<and> providers_ok (st_providers s) \<and>
      models_ok (st_providers s) (st_models s) \<and> dict_has (st_models s) (st_default_model s) \<and>
      1024 \<le> st_max_request_bytes s \<and> st_max_request_bytes s \<le> 67108864 \<and>
      1 \<le> st_max_output_tokens s \<and> st_max_output_tokens s \<le> 1000000 \<and>
      1 \<le> st_rate_limit_per_minute s \<and> 1 \<le> st_max_concurrent_requests s \<and>
      st_max_concurrent_requests s \<le> 10000 \<and>
      1024 \<le> st_max_response_bytes s \<and> st_max_response_bytes s \<le> 1073741824 \<and>
      st_rate_limit_backend s \<in> {''memory'', ''redis''} \<and>
      (st_rate_limit_backend s = ''redis'' \<longrightarrow> st_redis_url s \<noteq> []))"

text \<open>
  Beside what the other components rely on (\<open>settings_ok\<close>): what each of the checks of the data classes and of
  \<open>load_settings\<close> says of the value that is stored.
\<close>

definition origin_checked :: "(string \<Rightarrow> split_url option) \<Rightarrow> string \<Rightarrow> bool" where
  "origin_checked urlsplit s = (s \<noteq> [] \<and> length s \<le> 2048 \<and> \<not> has_control s \<and>
     (case urlsplit s of None \<Rightarrow> False
      | Some p \<Rightarrow> url_scheme p \<in> {''http'', ''https''} \<and> url_netloc p \<noteq> [] \<and> url_username p = [] \<and> url_password p = [] \<and>
          url_query p = [] \<and> url_fragment p = [] \<and> url_port_ok p))"

definition header_checked :: "string \<times> string \<Rightarrow> bool" where
  "header_checked kv = (fst kv \<noteq> [] \<and> length (fst kv) \<le> 128 \<and> creturn \<notin> set (fst kv) \<and> newline \<notin> set (fst kv) \<and>
     creturn \<notin> set (snd kv) \<and> newline \<notin> set (snd kv))"

definition provider_checked :: "(string \<Rightarrow> split_url option) \<Rightarrow> provider_config \<Rightarrow> bool" where
  "provider_checked urlsplit c =
     (1 \<le> length (pc_name c) \<and> length (pc_name c) \<le> 128 \<and> origin_checked urlsplit (pc_base_url c) \<and> CHR 0x00 \<notin> set (pc_api_key c) \<and>
      1 \<le> length (pc_account c) \<and> length (pc_account c) \<le> 128 \<and> 1 \<le> length (pc_region c) \<and> length (pc_region c) \<le> 128 \<and>
      length (pc_headers c) \<le> 64 \<and> list_all header_checked (pc_headers c) \<and>
      length (pc_api_version c) \<le> 128 \<and> list_all api_version_char (pc_api_version c) \<and>
      1/1000 \<le> pc_timeout_seconds c \<and> 1/1000 \<le> pc_total_timeout_seconds c \<and> pc_retry_base_seconds c \<le> 60 \<and>
      1/1000 \<le> pc_circuit_reset_seconds c)"

definition target_checked :: "route_target \<Rightarrow> bool" where
  "target_checked t = (1 \<le> length (rt_provider t) \<and> length (rt_provider t) \<le> 128 \<and>
     1 \<le> length (rt_model t) \<and> length (rt_model t) \<le> 512 \<and> \<not> has_control (rt_model t))"

definition route_checked :: "model_route \<Rightarrow> bool" where
  "route_checked m = (1 \<le> length (mr_alias m) \<and> length (mr_alias m) \<le> 256 \<and> list_all target_checked (mr_primary m # mr_fallbacks m))"

definition settings_checked ::
  "(string \<Rightarrow> split_url option) \<Rightarrow> (string \<Rightarrow> string option) \<Rightarrow> (string \<Rightarrow> string) \<Rightarrow> settings \<Rightarrow> bool" where
  "settings_checked urlsplit ip_network sha256 s =
     (list_all (\<lambda>kv. provider_checked urlsplit (snd kv)) (st_providers s) \<and> list_all (\<lambda>kv. route_checked (snd kv)) (st_models s) \<and>
      st_rate_limit_per_minute s \<le> 1000000 \<and>
      1 \<le> length (st_rate_limit_key_prefix s) \<and> length (st_rate_limit_key_prefix s) \<le> 128 \<and> \<not> has_control (st_rate_limit_key_prefix s) \<and>
      list_all (\<lambda>c. Some c \<in> range ip_network) (st_trusted_proxy_cidrs s) \<and>
      list_all (\<lambda>h. h \<in> range sha256 \<or> Some h \<in> range parse_key_hash) (st_client_key_hashes s))"

lemma as_mapping_Inr [res_simps]: "as_mapping v m = Inr d \<longleftrightarrow> v = JObj d"
  by (cases v) (auto simp: as_mapping_def)

lemma load_provider_ok:
  "load_provider urlsplit providers kv = Inr providers' \<Longrightarrow> providers_ok providers \<Longrightarrow> providers_ok providers'"
  by (auto simp: load_provider_def res_simps providers_ok_def distinct_dict_set
      split: prod.splits if_splits dest!: ProviderConfig_ok intro!: list_all_dict_set)

lemma validate_origin_checked:
  "validate_origin urlsplit v label = Inr u \<Longrightarrow> \<exists>s. v = JStr s \<and> origin_checked urlsplit s"
  by (cases v) (auto simp: validate_origin_def origin_checked_def res_simps split: option.splits)

lemma check_identity_checked:
  "check_identity urlsplit name d = Inr u \<Longrightarrow>
     1 \<le> length name \<and> length name \<le> 128 \<and>
     (\<exists>s. field d ''base_url'' = JStr s \<and> origin_checked urlsplit s) \<and> (\<exists>s. field d ''api_key'' = JStr s \<and> CHR 0x00 \<notin> set s) \<and>
     (\<exists>s. field d ''account'' = JStr s \<and> 1 \<le> length s \<and> length s \<le> 128) \<and>
     (\<exists>s. field d ''region'' = JStr s \<and> 1 \<le> length s \<and> length s \<le> 128)"
  unfolding check_identity_def bindE_eq_Inr
  by (elim exE conjE, drule validate_origin_checked) (simp only: res_simps, elim exE conjE, simp)

lemma header_ok_checked: "header_ok (k, v) \<Longrightarrow> header_checked (k, text_of v)"
  by (auto simp: header_ok_def header_checked_def split: json.splits)

lemma ProviderConfig_checked:
  assumes "ProviderConfig urlsplit name d = Inr c"
  shows "provider_checked urlsplit c"
proof -
  from assms obtain u v w where c: "check_identity urlsplit name d = Inr u" "check_headers d = Inr v"
      "check_numbers d = Inr w" "c = build_provider name d"
    unfolding ProviderConfig_def bindE_eq_Inr by auto
  have "1 \<le> length (pc_name c) \<and> length (pc_name c) \<le> 128 \<and> origin_checked urlsplit (pc_base_url c) \<and> CHR 0x00 \<notin> set (pc_api_key c) \<and>
      1 \<le> length (pc_account c) \<and> length (pc_account c) \<le> 128 \<and> 1 \<le> length (pc_region c) \<and> length (pc_region c) \<le> 128"
    using check_identity_checked[OF c(1)] by (auto simp: c(4) build_provider_def)
  moreover have "length (pc_headers c) \<le> 64 \<and> list_all header_checked (pc_headers c) \<and>
      length (pc_api_version c) \<le> 128 \<and> list_all api_version_char (pc_api_version c)"
    using c(2) header_ok_checked by (auto simp: check_headers_def res_simps c(4) build_provider_def list_all_iff)
  moreover have "1/1000 \<le> pc_timeout_seconds c \<and> 1/1000 \<le> pc_total_timeout_seconds c \<and> pc_retry_base_seconds c \<le> 60 \<and>
      1/1000 \<le> pc_circuit_reset_seconds c"
    using c(3) unfolding check_numbers_def bindE_eq_Inr require_number_Inr by (auto simp: c(4) build_provider_def)
  ultimately show ?thesis unfolding provider_checked_def by blast
qed

lemma load_provider_checked:
  "load_provider urlsplit providers kv = Inr providers' \<Longrightarrow> list_all (\<lambda>kv. provider_checked urlsplit (snd kv)) providers \<Longrightarrow>
     list_all (\<lambda>kv. provider_checked urlsplit (snd kv)) providers'"
  by (auto simp: load_provider_def res_simps split: prod.splits if_splits dest!: ProviderConfig_checked intro!: list_all_dict_set)

lemma RouteTarget_checked: "RouteTarget provider model = Inr t \<Longrightarrow> target_checked t"
  by (auto simp: RouteTarget_def res_simps target_checked_def)

lemma load_fallback_checked:
  "load_fallback providers alias ts item = Inr ts' \<Longrightarrow> list_all target_checked ts \<Longrightarrow> list_all target_checked ts'"
  by (auto simp: load_fallback_def res_simps dest!: RouteTarget_checked split: if_splits)

lemma load_fallback_ok:
  "load_fallback providers alias ts item = Inr ts' \<Longrightarrow> list_all (target_ok providers) ts \<Longrightarrow>
     list_all (target_ok providers) ts'"
  by (auto simp: load_fallback_def res_simps target_ok_def split: if_splits)

lemma ModelRoute_Inr:
  "ModelRoute alias p fs = Inr r \<Longrightarrow>
     alias \<noteq> [] \<and> r = \<lparr>mr_alias = alias, mr_primary = p, mr_fallbacks = fs\<rparr>"
  by (auto simp: ModelRoute_def res_simps short_text_def)

lemma load_route_ok:
  assumes "load_route providers models kv = Inr models'" "models_ok providers models"
  shows "models_ok providers models'"
proof -
  obtain al v where kv: "kv = (al, v)" by (cases kv)
  show ?thesis
  proof (cases "models' = models")
    case True
    then show ?thesis using assms(2) by simp
  next
    case False
    obtain p items fs r where r: "dict_has providers (rt_provider p)"
        "foldE (load_fallback providers al) [] items = Inr fs"
        "ModelRoute al p fs = Inr r" "models' = dict_set al r models"
      using assms(1) False unfolding load_route_def kv prod.case bindE_eq_Inr or_fail_Inr
      by (elim exE conjE) (simp only: bindE_eq_Inr or_fail_Inr sum.inject split: if_splits, simp, elim exE conjE, simp)
    have "list_all (target_ok providers) fs"
      using r(2) by (rule foldE_invariant) (auto intro: load_fallback_ok)
    then show ?thesis
      using assms(2) r(1) ModelRoute_Inr[OF r(3)] unfolding models_ok_def r(4)
      by (auto simp: distinct_dict_set route_ok_def target_ok_def intro!: list_all_dict_set)
  qed
qed

lemma load_route_checked:
  assumes "load_route providers models kv = Inr models'" "list_all (\<lambda>kv. route_checked (snd kv)) models"
  shows "list_all (\<lambda>kv. route_checked (snd kv)) models'"
proof -
  obtain al v where kv: "kv = (al, v)" by (cases kv)
  show ?thesis
  proof (cases "models' = models")
    case False
    obtain d p items fs m where m: "RouteTarget (get_or_null d ''provider'') (get_or_null d ''model'') = Inr p"
        "foldE (load_fallback providers al) [] items = Inr fs" "ModelRoute al p fs = Inr m" "models' = dict_set al m models"
      using assms(1) False unfolding load_route_def kv prod.case bindE_eq_Inr or_fail_Inr
      by (elim exE conjE) (simp only: bindE_eq_Inr or_fail_Inr sum.inject split: if_splits, simp, elim exE conjE, simp)
    have "list_all target_checked fs" using m(2) by (rule foldE_invariant) (auto intro: load_fallback_checked)
    then have "route_checked m"
      using RouteTarget_checked[OF m(1)] m(3) by (auto simp: ModelRoute_def res_simps route_checked_def)
    then show ?thesis using assms(2) unfolding m(4) by (auto intro!: list_all_dict_set)
  qed (use assms(2) in simp)
qed

lemma add_key_hash_checked:
  "add_key_hash hs t = Inr hs' \<Longrightarrow> list_all (\<lambda>h. h \<in> range sha256 \<or> Some h \<in> range parse_key_hash) hs \<Longrightarrow>
     list_all (\<lambda>h. h \<in> range sha256 \<or> Some h \<in> range parse_key_hash) hs'"
  by (auto simp: add_key_hash_def split: option.splits) (metis rangeI)

lemma parse_cidrs_checked: "parse_cidrs ip_network ts = Inr ns \<Longrightarrow> list_all (\<lambda>c. Some c \<in> range ip_network) ns"
proof (induction ts arbitrary: ns)
  case (Cons t ts)
  then show ?case by (auto simp: res_simps split: option.splits) (metis rangeI)
qed simp

lemma env_int_bounds: "env_int env name d lo hi = Inr v \<Longrightarrow> lo \<le> v \<and> v \<le> hi"
  by (auto simp: env_int_def res_simps)

lemma default_route_Inr: "default_route raw models = Inr s \<Longrightarrow> dict_has models s"
  by (auto simp: default_route_def Let_def split: json.splits if_splits)

lemma load_settings_parts:
  assumes "load_settings urlsplit ip_network sha256 env raw = Inr s"
  shows "\<exists>raw_dict raw_providers raw_models cidrs keys hashes.
    (foldE (load_provider urlsplit) [] raw_providers = Inr (st_providers s)) \<and>
    (foldE (load_route (st_providers s)) [] raw_models = Inr (st_models s)) \<and>
    st_providers s \<noteq> [] \<and>
    (default_route (expand_items env raw_dict) (st_models s) = Inr (st_default_model s)) \<and>
    (st_rate_limit_backend s \<in> {''memory'', ''redis''}) \<and>
    (\<not> (st_rate_limit_backend s = ''redis'' \<and> st_redis_url s = [])) \<and>
    (env_int env ''ZEAZ_MAX_REQUEST_BYTES'' (4 * 1024 * 1024) 1024 67108864 = Inr (st_max_request_bytes s)) \<and>
    (env_int env ''ZEAZ_MAX_OUTPUT_TOKENS'' 131072 1 1000000 = Inr (st_max_output_tokens s)) \<and>
    (env_int env ''ZEAZ_RATE_LIMIT_PER_MINUTE'' 120 1 1000000 = Inr (st_rate_limit_per_minute s)) \<and>
    (env_int env ''ZEAZ_MAX_CONCURRENT_REQUESTS'' 100 1 10000 = Inr (st_max_concurrent_requests s)) \<and>
    (env_int env ''ZEAZ_MAX_RESPONSE_BYTES'' (16 * 1024 * 1024) 1024 1073741824 = Inr (st_max_response_bytes s)) \<and>
    (parse_cidrs ip_network cidrs = Inr (st_trusted_proxy_cidrs s)) \<and>
    (foldE add_key_hash (map sha256 keys) hashes = Inr (st_client_key_hashes s)) \<and>
    (1 \<le> length (st_rate_limit_key_prefix s) \<and> length (st_rate_limit_key_prefix s) \<le> 128 \<and> \<not> has_control (st_rate_limit_key_prefix s))"
  by (insert assms, unfold load_settings_def Let_def bindE_eq_Inr fail_unless_Inr, elim exE conjE,
      simp only: sum.inject, hypsubst, simp only: settings.select_convs, intro exI conjI) (assumption | simp)+

text \<open>
  C40: whatever document and environment \<open>load_settings\<close> accepts, every route's target and every
  fallback names an enabled provider, the default model is a configured route, the Redis backend
  has a URL, and whatever the data classes and \<open>load_settings\<close> check holds of what is stored: the bounds of every timeout, retry,
  circuit setting and limit, the origins, lengths and characters of the providers' texts and headers, of the models of all targets,
  of the aliases and of the key prefix, the networks of trusted proxies and the digests of client keys.
\<close>

theorem load_settings_closed:
  assumes "load_settings urlsplit ip_network sha256 env raw = Inr s"
  shows "settings_ok s \<and> settings_checked urlsplit ip_network sha256 s"
proof -
  from load_settings_parts[OF assms] obtain raw_dict raw_providers raw_models cidrs keys hashes where parts:
      "foldE (load_provider urlsplit) [] raw_providers = Inr (st_providers s)"
      "foldE (load_route (st_providers s)) [] raw_models = Inr (st_models s)"
      "st_providers s \<noteq> []"
      "default_route (expand_items env raw_dict) (st_models s) = Inr (st_default_model s)"
      "st_rate_limit_backend s \<in> {''memory'', ''redis''}"
      "\<not> (st_rate_limit_backend s = ''redis'' \<and> st_redis_url s = [])"
      "env_int env ''ZEAZ_MAX_REQUEST_BYTES'' (4 * 1024 * 1024) 1024 67108864 = Inr (st_max_request_bytes s)"
      "env_int env ''ZEAZ_MAX_OUTPUT_TOKENS'' 131072 1 1000000 = Inr (st_max_output_tokens s)"
      "env_int env ''ZEAZ_RATE_LIMIT_PER_MINUTE'' 120 1 1000000 = Inr (st_rate_limit_per_minute s)"
      "env_int env ''ZEAZ_MAX_CONCURRENT_REQUESTS'' 100 1 10000 = Inr (st_max_concurrent_requests s)"
      "env_int env ''ZEAZ_MAX_RESPONSE_BYTES'' (16 * 1024 * 1024) 1024 1073741824 = Inr (st_max_response_bytes s)"
      "parse_cidrs ip_network cidrs = Inr (st_trusted_proxy_cidrs s)"
      "foldE add_key_hash (map sha256 keys) hashes = Inr (st_client_key_hashes s)"
      "1 \<le> length (st_rate_limit_key_prefix s) \<and> length (st_rate_limit_key_prefix s) \<le> 128 \<and> \<not> has_control (st_rate_limit_key_prefix s)"
    by (elim exE conjE) (rule that; simp)
  have "providers_ok (st_providers s)"
    using parts(1) by (rule foldE_invariant) (simp add: providers_ok_def, rule load_provider_ok)
  moreover have "models_ok (st_providers s) (st_models s)"
    using parts(2) by (rule foldE_invariant) (simp add: models_ok_def, rule load_route_ok)
  ultimately have "settings_ok s"
    using parts(3,5,6) default_route_Inr[OF parts(4)] parts(7-11)[THEN env_int_bounds]
    unfolding settings_ok_def by blast
  moreover have "list_all (\<lambda>kv. provider_checked urlsplit (snd kv)) (st_providers s)"
    using parts(1) by (rule foldE_invariant) (simp, rule load_provider_checked)
  moreover have "list_all (\<lambda>kv. route_checked (snd kv)) (st_models s)"
    using parts(2) by (rule foldE_invariant) (simp, rule load_route_checked)
  moreover have "list_all (\<lambda>h. h \<in> range sha256 \<or> Some h \<in> range parse_key_hash) (st_client_key_hashes s)"
    using parts(13) by (rule foldE_invariant) (simp add: list_all_iff, rule add_key_hash_checked)
  ultimately show ?thesis
    using parts(14) parts(9)[THEN env_int_bounds] parse_cidrs_checked[OF parts(12)] unfolding settings_checked_def by blast
qed

definition demo_urlsplit :: "string \<Rightarrow> split_url option" where
  "demo_urlsplit s = Some \<lparr>url_scheme = ''https'', url_netloc = drop 8 s, url_username = [], url_password = [],
     url_query = [], url_fragment = [], url_port_ok = True\<rparr>"

definition demo_document :: json where
  "demo_document = JObj
     [(''providers'', JObj
        [(''main'', JObj [(''api'', JStr ''openai''), (''base_url'', JStr ''https://a.example/v1''),
                          (''max_attempts'', JInt 2)]),
         (''off'', JObj [(''api'', JStr ''azure''), (''base_url'', JStr ''https://b.example''),
                         (''enabled'', JBool False)])]),
      (''models'', JObj
        [(''zeaz-auto'', JObj
           [(''provider'', JStr ''main''), (''model'', JStr ''gpt''),
            (''fallbacks'', JArr [JObj [(''provider'', JStr ''off''), (''model'', JStr ''x'')]])])])]"

definition demo_settings :: "string + settings" where
  "demo_settings = load_settings demo_urlsplit Some id (\<lambda>_. None) demo_document"

lemma expand_str_plain: "CHR ''$'' \<notin> set s \<Longrightarrow> expand_str env s = s"
proof (induction s)
  case Nil
  then show ?case by (subst expand_str.simps) (simp add: match_env_def)
next
  case (Cons c s)
  then show ?case by (subst expand_str.simps) (simp add: match_env_def)
qed

lemma default_floats:
  "float_of_text ''120.0'' = Finite 120" "float_of_text ''135.0'' = Finite 135"
  "float_of_text ''0.25'' = Finite (1/4)" "float_of_text ''5.0'' = Finite 5" "float_of_text ''30.0'' = Finite 30"
  by (simp_all add: float_of_text_def strip_minus_def is_digit_def code_of_def Let_def digits_val_def
      exponent_of_text_def int_of_text_def)

definition demo_provider :: "json dict" where
  "demo_provider = [(''api'', JStr ''openai''), (''base_url'', JStr ''https://a.example/v1''), (''max_attempts'', JInt 2)]"

lemma demo_provider_checks:
  "check_identity demo_urlsplit ''main'' demo_provider = Inr ()" "check_headers demo_provider = Inr ()"
  "check_numbers demo_provider = Inr ()"
  by (simp_all add: demo_provider_def check_identity_def check_headers_def check_numbers_def field_def
      provider_defaults_def dict_defs require_def require_number_def require_integer_def short_text_def
      validate_origin_def has_control_def demo_urlsplit_def num_value_def default_floats in_range_def
      real_of_json_def)

lemma getenv_texts: "py_lower (py_strip ''memory'') = ''memory''" "stripped_items [] = []"
  by code_simp+

lemma demo_settings_loaded: "returns demo_settings"
  using demo_provider_checks
  by (simp add: demo_settings_def load_settings_def demo_document_def as_mapping_def expand_str_plain Let_def
      load_provider_def enabled_def ProviderConfig_def provider_fields_def demo_provider_def or_fail_def dict_defs
      load_route_def load_fallback_def fail_unless_def RouteTarget_def ModelRoute_def get_or_null_def require_def
      short_text_def text_of_def has_control_def getenv_def getenv_texts default_route_def env_int_def)

theorem load_settings_closed_witness: "\<exists>s. demo_settings = Inr s \<and> settings_ok s \<and> settings_checked demo_urlsplit Some id s"
proof -
  obtain s where s: "demo_settings = Inr s" using demo_settings_loaded by (auto simp: returns_iff)
  then show ?thesis using load_settings_closed[of demo_urlsplit Some id "\<lambda>_. None" demo_document s]
    by (simp add: demo_settings_def)
qed

end
