(* ===== verification/Capabilities.thy ===== *)
theory Capabilities
  imports Config "HOL-Library.List_Lexorder" "HOL-Library.Char_ord" "HOL-Library.Product_Lexorder"
begin

text \<open>
  The capability registry (\<open>src/zeaz_provider/capabilities.py\<close>): what is known of each provider's
  models, from the configuration and from the providers' Models APIs, with a time to live. The
  answer of \<open>client.models()\<close> is an argument of \<open>refresh_provider\<close>, the clock's reading of the
  operations that read it.
\<close>

datatype model_lifecycle = Active | Deprecated | Retired | Unknown

text \<open>The fields hold what the code stores there: \<open>JNull\<close> for \<open>None\<close>.\<close>

record model_capabilities =
  mc_context_window :: json
  mc_max_output_tokens :: json
  mc_vision :: json
  mc_tools :: json
  mc_streaming :: json
  mc_structured_output :: json
  mc_adaptive_thinking :: json
  mc_mid_conversation_system :: json

definition no_capabilities :: model_capabilities where
  "no_capabilities = \<lparr>mc_context_window = JNull, mc_max_output_tokens = JNull, mc_vision = JNull,
     mc_tools = JNull, mc_streaming = JNull, mc_structured_output = JNull, mc_adaptive_thinking = JNull,
     mc_mid_conversation_system = JNull\<rparr>"

record capability_record =
  cr_provider :: string
  cr_model :: string
  cr_account :: string
  cr_region :: string
  cr_capabilities :: model_capabilities
  cr_lifecycle :: model_lifecycle
  cr_source :: string
  cr_observed_at :: real
  cr_expires_at :: real

definition lifecycle_text :: "model_lifecycle \<Rightarrow> string" where
  "lifecycle_text l = (case l of Active \<Rightarrow> ''active'' | Deprecated \<Rightarrow> ''deprecated'' | Retired \<Rightarrow> ''retired''
     | Unknown \<Rightarrow> ''unknown'')"

text \<open>The public form; \<open>time\<close> writes a float as JSON.\<close>

definition public_record :: "(real \<Rightarrow> json) \<Rightarrow> capability_record \<Rightarrow> json" where
  "public_record time r = JObj
     [(''provider'', JStr (cr_provider r)), (''model'', JStr (cr_model r)), (''account'', JStr (cr_account r)),
      (''region'', JStr (cr_region r)), (''lifecycle'', JStr (lifecycle_text (cr_lifecycle r))),
      (''source'', JStr (cr_source r)), (''observed_at'', time (cr_observed_at r)),
      (''expires_at'', time (cr_expires_at r)),
      (''capabilities'', JObj (filter (\<lambda>kv. snd kv \<noteq> JNull)
        [(''context_window'', mc_context_window (cr_capabilities r)),
         (''max_output_tokens'', mc_max_output_tokens (cr_capabilities r)),
         (''vision'', mc_vision (cr_capabilities r)), (''tools'', mc_tools (cr_capabilities r)),
         (''streaming'', mc_streaming (cr_capabilities r)),
         (''structured_output'', mc_structured_output (cr_capabilities r)),
         (''adaptive_thinking'', mc_adaptive_thinking (cr_capabilities r)),
         (''mid_conversation_system'', mc_mid_conversation_system (cr_capabilities r))]))]"

type_synonym cap_key = "string \<times> string"

record registry =
  rg_ttl_seconds :: real
  rg_records :: "(cap_key \<times> capability_record) list"
  rg_configured :: "(cap_key \<times> capability_record) list"

definition route_candidates :: "model_route \<Rightarrow> route_target list" where
  "route_candidates r = mr_primary r # mr_fallbacks r"

definition configured_record :: "provider_config \<Rightarrow> route_target \<Rightarrow> capability_record" where
  "configured_record c t = \<lparr>cr_provider = rt_provider t, cr_model = rt_model t, cr_account = pc_account c,
     cr_region = pc_region c, cr_capabilities = no_capabilities, cr_lifecycle = Unknown,
     cr_source = ''configuration'', cr_observed_at = 0, cr_expires_at = 0\<rparr>"

definition target_key :: "route_target \<Rightarrow> cap_key" where
  "target_key t = (rt_provider t, rt_model t)"

definition add_configured :: "provider_config dict \<Rightarrow> registry \<Rightarrow> route_target \<Rightarrow> registry res" where
  "add_configured providers g t = (case dict_get providers (rt_provider t) of
     None \<Rightarrow> Inl (KeyError (rt_provider t))
   | Some c \<Rightarrow>
       Inr (g\<lparr>rg_configured := dict_setdefault (target_key t) (configured_record c t) (rg_configured g),
              rg_records := dict_setdefault (target_key t) (configured_record c t) (rg_records g)\<rparr>))"

definition new_registry :: "settings \<Rightarrow> real \<Rightarrow> registry res" where
  "new_registry s ttl =
     foldE (add_configured (st_providers s))
       \<lparr>rg_ttl_seconds = ttl, rg_records = [], rg_configured = []\<rparr>
       (concat (map (\<lambda>kv. route_candidates (snd kv)) (st_models s)))"

definition cap_get :: "real \<Rightarrow> registry \<Rightarrow> cap_key \<Rightarrow> capability_record option" where
  "cap_get now g key = (case map_of (rg_records g) key of
     None \<Rightarrow> None
   | Some r \<Rightarrow> if cr_expires_at r \<noteq> 0 \<and> cr_expires_at r \<le> now then map_of (rg_configured g) key else Some r)"

definition cap_list :: "real \<Rightarrow> registry \<Rightarrow> capability_record list" where
  "cap_list now g =
     sort_key (\<lambda>r. (cr_provider r, cr_account r, cr_region r, cr_model r))
       (List.map_filter (\<lambda>kv. cap_get now g (fst kv)) (rg_records g))"

definition optional_bool :: "json \<Rightarrow> json" where
  "optional_bool v = (case v of JBool b \<Rightarrow> JBool b | _ \<Rightarrow> JNull)"

text \<open>\<open>isinstance(True, int)\<close> holds in Python, and \<open>True > 0\<close>.\<close>

definition positive_int :: "json \<Rightarrow> json" where
  "positive_int v = (case v of
     JInt i \<Rightarrow> if 0 < i then JInt i else JNull
   | JBool b \<Rightarrow> if b then JBool True else JNull
   | _ \<Rightarrow> JNull)"

definition lifecycle_of :: "json \<Rightarrow> model_lifecycle" where
  "lifecycle_of v = (let t = py_lower (py_str v) in
     if t = ''active'' then Active else if t = ''deprecated'' then Deprecated
     else if t = ''retired'' then Retired else if t = ''unknown'' then Unknown else Active)"

definition observed_record ::
  "string \<Rightarrow> provider_config \<Rightarrow> real \<Rightarrow> real \<Rightarrow> string \<Rightarrow> json dict \<Rightarrow> capability_record" where
  "observed_record provider c observed ttl model item =
     (let raw = (case get_or_null item ''capabilities'' of JObj d \<Rightarrow> d | _ \<Rightarrow> [])
      in \<lparr>cr_provider = provider, cr_model = model, cr_account = pc_account c, cr_region = pc_region c,
          cr_capabilities =
            \<lparr>mc_context_window = positive_int
               (dict_get_default item ''max_input_tokens'' (get_or_null item ''context_window'')),
             mc_max_output_tokens = positive_int
               (dict_get_default item ''max_tokens'' (get_or_null item ''max_output_tokens'')),
             mc_vision = optional_bool (get_or_null raw ''vision''),
             mc_tools = optional_bool (get_or_null raw ''tools''),
             mc_streaming = optional_bool (get_or_null raw ''streaming''),
             mc_structured_output = optional_bool (get_or_null raw ''structured_output''),
             mc_adaptive_thinking = optional_bool (get_or_null raw ''adaptive_thinking''),
             mc_mid_conversation_system = optional_bool (get_or_null raw ''mid_conversation_system'')\<rparr>,
          cr_lifecycle = lifecycle_of (get_or_null item ''status''),
          cr_source = ''provider_models_api'', cr_observed_at = observed,
          cr_expires_at = observed + ttl\<rparr>)"

text \<open>The loop over the listed models: the registry and the number of models it took.\<close>

fun refresh_items :: "string \<Rightarrow> provider_config \<Rightarrow> real \<Rightarrow> registry \<Rightarrow> int \<Rightarrow> json list \<Rightarrow> int \<times> registry" where
  "refresh_items provider c observed g count [] = (count, g)"
| "refresh_items provider c observed g count (item # items) =
     (case item of
        JObj d \<Rightarrow>
          (case get_or_null d ''id'' of
             JStr model \<Rightarrow>
               refresh_items provider c observed
                 (g\<lparr>rg_records := AList.update (provider, model)
                      (observed_record provider c observed (rg_ttl_seconds g) model d) (rg_records g)\<rparr>)
                 (count + 1) items
           | _ \<Rightarrow> refresh_items provider c observed g count items)
      | _ \<Rightarrow> refresh_items provider c observed g count items)"

definition refresh_provider ::
  "string \<Rightarrow> provider_config \<Rightarrow> real \<Rightarrow> provider_error + json dict \<Rightarrow> registry
     \<Rightarrow> provider_error + int \<times> registry" where
  "refresh_provider provider c now answer g =
     bindE answer (\<lambda>payload.
       (case dict_get_default payload ''data'' (JArr []) of
          JArr models \<Rightarrow> Inr (refresh_items provider c now g 0 models)
        | _ \<Rightarrow> Inl (ProviderError ''Provider Models API returned an invalid data field'' 502 False Upstream
                 None None None [])))"

section \<open>What a refresh can change\<close>

lemma refresh_items_frame:
  "rg_configured (snd (refresh_items p c t g n items)) = rg_configured g \<and>
   rg_ttl_seconds (snd (refresh_items p c t g n items)) = rg_ttl_seconds g \<and>
   (\<forall>q m. q \<noteq> p \<longrightarrow> map_of (rg_records (snd (refresh_items p c t g n items))) (q, m) = map_of (rg_records g) (q, m))"
proof (induction items arbitrary: g n)
  case Nil
  then show ?case by simp
next
  case (Cons item items)
  then show ?case by (auto simp: update_conv' split: json.split)
qed

lemma refresh_items_keeps: "map_of (rg_records g) k \<noteq> None \<Longrightarrow>
    map_of (rg_records (snd (refresh_items p c t g n items))) k \<noteq> None"
proof (induction items arbitrary: g n)
  case (Cons item items)
  then show ?case by (auto simp: update_conv' split: json.split)
qed simp

text \<open>The registry keeps a configured record for every record that can expire into it.\<close>

definition registry_inv :: "registry \<Rightarrow> bool" where
  "registry_inv g =
     (\<forall>k r. map_of (rg_configured g) k = Some r \<longrightarrow>
        map_of (rg_records g) k \<noteq> None \<and> cr_expires_at r = 0 \<and> cr_lifecycle r = Unknown)"

definition configured_keys :: "registry \<Rightarrow> cap_key set" where
  "configured_keys g = dom (map_of (rg_configured g))"

lemma configured_record_fresh [simp]:
  "cr_expires_at (configured_record c t) = 0" "cr_lifecycle (configured_record c t) = Unknown"
  by (simp_all add: configured_record_def)

lemma dom_setdefault [simp]: "dom (map_of (dict_setdefault k v d)) = insert k (dom (map_of d))"
  by (auto simp: map_of_dict_setdefault dom_def)

lemma setdefault_cases:
  "map_of (dict_setdefault k v d) j = Some r \<Longrightarrow> (j = k \<and> r = v) \<or> map_of d j = Some r"
  by (cases "map_of d k") (auto simp: map_of_dict_setdefault split: if_splits)

lemma setdefault_keeps: "j = k \<or> map_of d j \<noteq> None \<Longrightarrow> map_of (dict_setdefault k v d) j \<noteq> None"
  by (auto simp: map_of_dict_setdefault)

lemma add_configured_inv:
  assumes "add_configured ps g t = Inr g'" "registry_inv g"
  shows "registry_inv g' \<and> configured_keys g' = insert (target_key t) (configured_keys g)"
proof -
  obtain c where g': "g' = g\<lparr>rg_configured := dict_setdefault (target_key t) (configured_record c t) (rg_configured g),
      rg_records := dict_setdefault (target_key t) (configured_record c t) (rg_records g)\<rparr>"
    using assms(1) by (auto simp: add_configured_def split: option.splits)
  have "map_of (rg_records g') k \<noteq> None \<and> cr_expires_at r = 0 \<and> cr_lifecycle r = Unknown"
    if conf: "map_of (rg_configured g') k = Some r" for k r
  proof -
    consider "k = target_key t \<and> r = configured_record c t" | "map_of (rg_configured g) k = Some r"
      using conf setdefault_cases[of "target_key t" "configured_record c t" "rg_configured g" k r]
      unfolding g' by auto
    then show ?thesis
    proof cases
      case 1
      then show ?thesis by (simp add: g' setdefault_keeps)
    next
      case 2
      then have "map_of (rg_records g) k \<noteq> None" "cr_expires_at r = 0" "cr_lifecycle r = Unknown"
        using assms(2) unfolding registry_inv_def by blast+
      then show ?thesis by (simp add: g' setdefault_keeps)
    qed
  qed
  then have "registry_inv g'" unfolding registry_inv_def by blast
  then show ?thesis by (simp add: g' configured_keys_def)
qed

lemma foldE_add_configured:
  "foldE (add_configured ps) g ts = Inr g' \<Longrightarrow> registry_inv g \<Longrightarrow>
     registry_inv g' \<and> configured_keys g' = target_key ` set ts \<union> configured_keys g"
proof (induction ts arbitrary: g)
  case (Cons t ts)
  then obtain g1 where g1: "add_configured ps g t = Inr g1" "foldE (add_configured ps) g1 ts = Inr g'"
    by (auto simp: res_simps)
  show ?case using Cons.IH[OF g1(2)] add_configured_inv[OF g1(1) Cons.prems(2)] by auto
qed simp

lemma foldE_add_configured_total:
  "list_all (\<lambda>t. dict_has ps (rt_provider t)) ts \<Longrightarrow> \<exists>g'. foldE (add_configured ps) g ts = Inr g'"
  by (induction ts arbitrary: g) (auto simp: add_configured_def dict_defs)

lemma refresh_provider_inv:
  assumes "refresh_provider p c now ans g = Inr (n, g')" "registry_inv g"
  shows "registry_inv g' \<and> configured_keys g' = configured_keys g"
proof -
  obtain payload where "(case dict_get_default payload ''data'' (JArr []) of
      JArr models \<Rightarrow> Inr (refresh_items p c now g 0 models) | _ \<Rightarrow> Inl (ProviderError
        ''Provider Models API returned an invalid data field'' 502 False Upstream None None None [])) = Inr (n, g')"
    using assms(1) unfolding refresh_provider_def bindE_eq_Inr by blast
  then obtain items where "refresh_items p c now g 0 items = (n, g')"
    by (cases "dict_get_default payload ''data'' (JArr [])") simp_all
  then have g': "g' = snd (refresh_items p c now g 0 items)" by (metis snd_conv)
  then show ?thesis
    using assms(2) refresh_items_frame[of p c now g 0 items] refresh_items_keeps[of g _ p c now 0 items]
    unfolding registry_inv_def configured_keys_def by metis
qed

inductive registry_step :: "registry \<Rightarrow> registry \<Rightarrow> bool" where
  refresh: "refresh_provider p c now ans g = Inr (n, g') \<Longrightarrow> registry_step g g'"

definition registry_init :: "settings \<Rightarrow> real \<Rightarrow> registry \<Rightarrow> bool" where
  "registry_init s ttl g = (new_registry s ttl = Inr g)"

definition all_targets :: "settings \<Rightarrow> route_target set" where
  "all_targets s = (\<Union>kv \<in> set (st_models s). set (route_candidates (snd kv)))"

interpretation registry_machine: invariant_machine "registry_init s ttl" registry_step
    "\<lambda>g. registry_inv g \<and> configured_keys g = target_key ` all_targets s"
  for s and ttl
proof
  show "registry_inv g \<and> configured_keys g = target_key ` all_targets s" if "registry_init s ttl g" for g
    using foldE_add_configured[OF that[unfolded registry_init_def new_registry_def]]
    by (auto simp: registry_inv_def configured_keys_def all_targets_def)
  show "registry_inv g' \<and> configured_keys g' = target_key ` all_targets s"
    if "registry_step g g'" "registry_inv g \<and> configured_keys g = target_key ` all_targets s" for g g'
    using that refresh_provider_inv by (auto elim!: registry_step.cases)
qed

text \<open>
  After any sequence of refreshes, at any time, the registry has a record for every configured
  target, and once what a provider reported has expired the target counts as configured again,
  with an unknown life cycle: a report of retirement does not outlive its time to live.
\<close>

theorem registry_expiry:
  assumes "reaches (registry_init s ttl) registry_step g" "t \<in> all_targets s"
  shows "\<exists>r. cap_get now g (target_key t) = Some r \<and>
    (cr_lifecycle r = Unknown \<or> cr_expires_at r = 0 \<or> now < cr_expires_at r)"
proof -
  have inv: "registry_inv g" "configured_keys g = target_key ` all_targets s"
    using registry_machine.reachable_inv[OF assms(1)] by auto
  then have "target_key t \<in> configured_keys g" using assms(2) by auto
  then obtain r0 where r0: "map_of (rg_configured g) (target_key t) = Some r0"
    by (auto simp: configured_keys_def)
  then have known: "map_of (rg_records g) (target_key t) \<noteq> None" "cr_lifecycle r0 = Unknown"
    using inv(1) unfolding registry_inv_def by blast+
  then obtain r where "map_of (rg_records g) (target_key t) = Some r" by blast
  then show ?thesis using r0 known(2) by (auto simp: cap_get_def)
qed

text \<open>A configuration with one alias, its target and a fallback, for concrete runs.\<close>

definition demo_provider_named :: "string \<Rightarrow> provider_config" where
  "demo_provider_named n = \<lparr>pc_name = n, pc_api = ''openai'', pc_base_url = ''https://a.example'', pc_api_key = [],
     pc_account = ''default'', pc_region = ''global'', pc_headers = [], pc_api_version = [],
     pc_timeout_seconds = 120, pc_total_timeout_seconds = 135, pc_max_attempts = 3,
     pc_retry_base_seconds = 1/4, pc_retry_max_seconds = 5, pc_circuit_failure_threshold = 5,
     pc_circuit_reset_seconds = 30\<rparr>"

definition two_providers :: settings where
  "two_providers = \<lparr>st_providers = [(''a'', demo_provider_named ''a''), (''b'', demo_provider_named ''b'')],
     st_models = [(''auto'', \<lparr>mr_alias = ''auto'', mr_primary = \<lparr>rt_provider = ''a'', rt_model = ''m''\<rparr>,
                              mr_fallbacks = [\<lparr>rt_provider = ''b'', rt_model = ''n''\<rparr>]\<rparr>)],
     st_client_key_hashes = [], st_default_model = ''auto'', st_max_request_bytes = 4194304,
     st_max_output_tokens = 131072, st_rate_limit_per_minute = 120, st_metrics_enabled = True,
     st_otlp_metrics_enabled = False, st_rate_limit_backend = ''memory'', st_redis_url = [],
     st_rate_limit_key_prefix = [], st_trusted_proxy_cidrs = [], st_max_concurrent_requests = 100,
     st_max_response_bytes = 16777216\<rparr>"

definition retired_answer :: "provider_error + json dict" where
  "retired_answer = Inr [(''data'', JArr [JObj [(''id'', JStr ''m''), (''status'', JStr ''Retired'')], JNull])]"

lemma two_providers_sel [simp]:
  "st_providers two_providers = [(''a'', demo_provider_named ''a''), (''b'', demo_provider_named ''b'')]"
  "st_models two_providers = [(''auto'', \<lparr>mr_alias = ''auto'', mr_primary = \<lparr>rt_provider = ''a'', rt_model = ''m''\<rparr>,
     mr_fallbacks = [\<lparr>rt_provider = ''b'', rt_model = ''n''\<rparr>]\<rparr>)]"
  "st_default_model two_providers = ''auto''" "st_max_response_bytes two_providers = 16777216"
  by (simp_all add: two_providers_def)

lemma two_providers_registry:
  "\<exists>g g' n. new_registry two_providers 900 = Inr g \<and>
     refresh_provider ''a'' (demo_provider_named ''a'') 100 retired_answer g = Inr (n, g') \<and>
     cap_get 200 g' (''a'', ''m'') \<noteq> cap_get 2000 g' (''a'', ''m'')"
proof -
  have "lifecycle_of (JStr ''Retired'') = Retired" by code_simp
  then show ?thesis
    by (simp add: new_registry_def route_candidates_def add_configured_def dict_defs dict_setdefault_def
        target_key_def refresh_provider_def retired_answer_def get_or_null_def observed_record_def
        configured_record_def cap_get_def)
qed

theorem registry_expiry_witness:
  "\<exists>g g' n. reaches (registry_init two_providers 900) registry_step g' \<and>
     refresh_provider ''a'' (demo_provider_named ''a'') 100 retired_answer g = Inr (n, g') \<and>
     (\<exists>r. cap_get 2000 g' (''a'', ''m'') = Some r \<and>
        (cr_lifecycle r = Unknown \<or> cr_expires_at r = 0 \<or> 2000 < cr_expires_at r))"
proof -
  obtain g g' n where run: "new_registry two_providers 900 = Inr g"
      "refresh_provider ''a'' (demo_provider_named ''a'') 100 retired_answer g = Inr (n, g')"
    using two_providers_registry by blast
  have "reaches (registry_init two_providers 900) registry_step g"
    using run(1) by (intro reaches_init) (simp add: registry_init_def)
  then have r: "reaches (registry_init two_providers 900) registry_step g'"
    by (rule reaches_step) (rule refresh[OF run(2)])
  have t: "\<lparr>rt_provider = ''a'', rt_model = ''m''\<rparr> \<in> all_targets two_providers"
    by (simp add: all_targets_def route_candidates_def)
  show ?thesis using registry_expiry[OF r t, of 2000] r run(2) unfolding target_key_def by auto
qed

end
