(* ===== verification/Resilience.thy ===== *)
theory Resilience
  imports Errors
begin

text \<open>
  Retries, deadlines and circuit breakers (\<open>src/zeaz_provider/resilience.py\<close>). The breaker is a
  record with the code's private fields; the clock's reading is an argument of the operations that
  read it. The executor's \<open>call\<close> is a loop over the attempts; what an attempt does (how long it
  runs, what it returns or raises, and what concurrent calls do to the shared breaker meanwhile) is
  given by an environment. Times are real numbers of seconds; only awaiting takes time.
\<close>

section \<open>Policy and breaker\<close>

record resilience_policy =
  max_attempts :: int
  base_delay_seconds :: real
  max_delay_seconds :: real
  max_retry_after_seconds :: real
  policy_failure_threshold :: int
  policy_reset_timeout_seconds :: real
  total_timeout_seconds :: real

definition default_policy :: resilience_policy where
  "default_policy = \<lparr>max_attempts = 3, base_delay_seconds = 1/4, max_delay_seconds = 5,
     max_retry_after_seconds = 30, policy_failure_threshold = 5, policy_reset_timeout_seconds = 30,
     total_timeout_seconds = 135\<rparr>"

lemma default_policy_sel [simp]:
  "max_attempts default_policy = 3" "base_delay_seconds default_policy = 1/4"
  "max_delay_seconds default_policy = 5" "max_retry_after_seconds default_policy = 30"
  "total_timeout_seconds default_policy = 135"
  by (simp_all add: default_policy_def)

datatype breaker_state = Closed | Open | HalfOpen

record circuit_breaker =
  failure_threshold :: int
  reset_timeout_seconds :: real
  cb_failures :: int
  cb_state :: breaker_state
  cb_opened_at :: real
  cb_probe_in_flight :: bool

definition new_breaker :: "int \<Rightarrow> real \<Rightarrow> circuit_breaker" where
  "new_breaker threshold reset = \<lparr>failure_threshold = threshold, reset_timeout_seconds = reset,
     cb_failures = 0, cb_state = Closed, cb_opened_at = 0, cb_probe_in_flight = False\<rparr>"

definition probe_error :: provider_error where
  "probe_error = ProviderError ''Provider circuit probe is already in progress'' 503 False CircuitOpen
     (Some True) (Some False) None []"

definition open_error :: provider_error where
  "open_error = ProviderError ''Provider circuit is open'' 503 False CircuitOpen
     (Some True) (Some False) None []"

definition before_call :: "real \<Rightarrow> circuit_breaker \<Rightarrow> provider_error + circuit_breaker" where
  "before_call now b =
     (if cb_state b = HalfOpen \<and> cb_probe_in_flight b then Inl probe_error
      else if cb_state b \<noteq> Open then Inr b
      else if now - cb_opened_at b < reset_timeout_seconds b then Inl open_error
      else if cb_probe_in_flight b then Inl probe_error
      else Inr (b\<lparr>cb_state := HalfOpen, cb_probe_in_flight := True\<rparr>))"

definition success :: "circuit_breaker \<Rightarrow> circuit_breaker" where
  "success b = b\<lparr>cb_failures := 0, cb_probe_in_flight := False, cb_state := Closed\<rparr>"

definition failure :: "real \<Rightarrow> circuit_breaker \<Rightarrow> circuit_breaker" where
  "failure now b =
     (let b1 = b\<lparr>cb_failures := cb_failures b + 1, cb_probe_in_flight := False\<rparr>
      in if cb_state b1 = HalfOpen \<or> cb_failures b1 \<ge> failure_threshold b1
         then b1\<lparr>cb_state := Open, cb_opened_at := now\<rparr> else b1)"

lemmas breaker_defs = before_call_def success_def failure_def Let_def

section \<open>The breaker as a state machine\<close>

text \<open>The steps calls take on a shared breaker, in any order; \<open>now\<close> is the clock's reading.\<close>

inductive breaker_step :: "circuit_breaker \<Rightarrow> circuit_breaker \<Rightarrow> bool" where
  admit: "before_call now b = Inr b' \<Longrightarrow> breaker_step b b'"
| refuse: "before_call now b = Inl e \<Longrightarrow> breaker_step b b"
| report_success: "breaker_step b (success b)"
| report_failure: "breaker_step b (failure now b)"

inductive_cases breaker_stepE: "breaker_step b b'"

definition breaker_init :: "circuit_breaker \<Rightarrow> bool" where
  "breaker_init b = (\<exists>threshold \<ge> 1. \<exists>reset. b = new_breaker threshold reset)"

definition breaker_inv :: "circuit_breaker \<Rightarrow> bool" where
  "breaker_inv b = (1 \<le> failure_threshold b \<and> 0 \<le> cb_failures b \<and>
     (cb_probe_in_flight b = (cb_state b = HalfOpen)) \<and>
     ((cb_state b = Closed) = (cb_failures b < failure_threshold b)))"

lemma breaker_inv_before_call: "before_call now b = Inr b' \<Longrightarrow> breaker_inv b \<Longrightarrow> breaker_inv b'"
  by (auto simp: breaker_defs breaker_inv_def split: if_splits)

lemma breaker_inv_success: "breaker_inv b \<Longrightarrow> breaker_inv (success b)"
  by (auto simp: breaker_defs breaker_inv_def)

lemma breaker_inv_failure: "breaker_inv b \<Longrightarrow> breaker_inv (failure now b)"
  by (cases "cb_state b") (auto simp: breaker_defs breaker_inv_def)

interpretation breaker_machine: invariant_machine breaker_init breaker_step breaker_inv
proof
  show "breaker_inv b" if "breaker_init b" for b
    using that by (auto simp: breaker_init_def breaker_inv_def new_breaker_def)
  show "breaker_inv b'" if "breaker_step b b'" "breaker_inv b" for b b'
    using that
    by (elim breaker_stepE)
      (auto intro: breaker_inv_before_call breaker_inv_success breaker_inv_failure)
qed

text \<open>
  C10: in every state calls can bring a breaker to, in any interleaving, a probe is in flight exactly
  when the circuit is half open, the circuit is closed exactly while fewer failures than the
  threshold have been counted, and the next call is admitted exactly when the circuit is closed, or
  it is open and its reset time is over.
\<close>

theorem circuit_breaker_invariant:
  assumes "reaches breaker_init breaker_step b"
  shows "cb_probe_in_flight b = (cb_state b = HalfOpen) \<and>
    (cb_state b = Closed) = (0 \<le> cb_failures b \<and> cb_failures b < failure_threshold b) \<and>
    returns (before_call now b) =
      (cb_state b = Closed \<or> cb_state b = Open \<and> reset_timeout_seconds b \<le> now - cb_opened_at b)"
proof -
  have "breaker_inv b" using assms by (rule breaker_machine.reachable_inv)
  then show ?thesis by (cases "cb_state b") (auto simp: breaker_inv_def before_call_def)
qed

lemma reaches_new_breaker: "1 \<le> n \<Longrightarrow> reaches breaker_init breaker_step (new_breaker n r)"
  by (rule reaches_init) (auto simp: breaker_init_def)

theorem circuit_breaker_invariant_witness:
  "\<not> cb_probe_in_flight (failure 7 (new_breaker 1 30)) \<and>
   returns (before_call 40 (failure 7 (new_breaker 1 30))) \<and>
   \<not> returns (before_call 36 (failure 7 (new_breaker 1 30)))"
proof -
  have r: "reaches breaker_init breaker_step (failure 7 (new_breaker 1 30))"
    by (rule reaches_step[OF reaches_new_breaker report_failure]) simp
  have s: "cb_state (failure 7 (new_breaker 1 30)) = Open" "cb_opened_at (failure 7 (new_breaker 1 30)) = 7"
    "reset_timeout_seconds (failure 7 (new_breaker 1 30)) = 30"
    by (simp_all add: breaker_defs new_breaker_def)
  show ?thesis
    using circuit_breaker_invariant[OF r, of 40] circuit_breaker_invariant[OF r, of 36] by (simp add: s)
qed

section \<open>The executor\<close>

text \<open>
  What happens while \<open>operation()\<close> is awaited under \<open>asyncio.timeout\<close>: it returns, raises a
  provider error, raises \<open>TimeoutError\<close> itself, or raises something else (the cancellation of the
  request, an HTTP exception of the handler), which no clause of the loop catches. \<open>att_others\<close> and
  \<open>sleep_others\<close> are the effect of concurrent calls on the shared breaker during the two awaits.
\<close>

datatype 'a outcome = Returned 'a | Raised provider_error | RaisedTimeout | RaisedOther

record 'a attempt =
  att_duration :: real
  att_outcome :: "'a outcome"
  att_others :: "circuit_breaker \<Rightarrow> circuit_breaker"
  sleep_others :: "circuit_breaker \<Rightarrow> circuit_breaker"

datatype 'a call_result = CallOk 'a | CallErr provider_error | CallOther | CallAssertion

record 'a call_end =
  end_result :: "'a call_result"
  end_breaker :: circuit_breaker
  end_time :: real
  end_operations :: nat

definition deadline_error :: "provider_error option \<Rightarrow> provider_error" where
  "deadline_error last_error = ProviderError ''Provider request deadline exceeded'' 504 False Timeout
     (Some True) (Some True) None [(''last_error'', map_option pe_message last_error)]"

definition timeout_error :: provider_error where
  "timeout_error = ProviderError ''Provider request deadline exceeded'' 504 False Timeout
     (Some True) (Some True) None []"

text \<open>\<open>uniform\<close> is \<open>random.uniform\<close>, the number it draws between its two arguments.\<close>

definition delay_before_retry ::
  "resilience_policy \<Rightarrow> (real \<Rightarrow> real \<Rightarrow> real) \<Rightarrow> provider_error \<Rightarrow> nat \<Rightarrow> real" where
  "delay_before_retry pol uniform e i =
     (case pe_retry_after e of
        Some (PyNum (Finite r)) \<Rightarrow> min (max 0 r) (max_retry_after_seconds pol)
      | _ \<Rightarrow> uniform 0 (min (max_delay_seconds pol) (base_delay_seconds pol * 2 ^ i)))"

text \<open>
  The iterations from attempt \<open>i\<close> on: \<open>n\<close> of them are left, \<open>t\<close> is the clock's reading.
\<close>

fun call_from ::
  "resilience_policy \<Rightarrow> (real \<Rightarrow> real \<Rightarrow> real) \<Rightarrow> (nat \<Rightarrow> 'a attempt) \<Rightarrow> real \<Rightarrow> nat \<Rightarrow> nat
     \<Rightarrow> provider_error option \<Rightarrow> circuit_breaker \<Rightarrow> real \<Rightarrow> 'a call_end" where
  "call_from pol uniform env started i 0 last_error b t =
     (case last_error of
        None \<Rightarrow> \<lparr>end_result = CallAssertion, end_breaker = b, end_time = t, end_operations = i\<rparr>
      | Some e \<Rightarrow> \<lparr>end_result = CallErr e, end_breaker = b, end_time = t, end_operations = i\<rparr>)"
| "call_from pol uniform env started i (Suc n) last_error b t =
     (let remaining = total_timeout_seconds pol - (t - started) in
      if remaining \<le> 0 then
        \<lparr>end_result = CallErr (deadline_error last_error), end_breaker = b, end_time = t, end_operations = i\<rparr>
      else
        (case before_call t b of
           Inl e \<Rightarrow> \<lparr>end_result = CallErr e, end_breaker = b, end_time = t, end_operations = i\<rparr>
         | Inr b1 \<Rightarrow>
             (let a = env i;
                  timed_out = remaining \<le> att_duration a \<or> att_outcome a = RaisedTimeout;
                  t1 = t + min (att_duration a) remaining;
                  b2 = att_others a b1
              in if timed_out then
                   \<lparr>end_result = CallErr timeout_error, end_breaker = failure t1 b2, end_time = t1,
                    end_operations = Suc i\<rparr>
                 else
                   (case att_outcome a of
                      Returned x \<Rightarrow>
                        \<lparr>end_result = CallOk x, end_breaker = success b2, end_time = t1,
                         end_operations = Suc i\<rparr>
                    | Raised e \<Rightarrow>
                        (let b3 = (if pe_circuit_failure e then failure t1 b2
                                   else if cb_state b2 = HalfOpen then success b2 else b2)
                         in if \<not> pe_retryable e \<or> int i + 1 \<ge> max_attempts pol then
                              \<lparr>end_result = CallErr e, end_breaker = b3, end_time = t1,
                               end_operations = Suc i\<rparr>
                            else
                              (let delay = delay_before_retry pol uniform e i;
                                   remaining1 = total_timeout_seconds pol - (t1 - started)
                               in if delay \<ge> remaining1 then
                                    \<lparr>end_result = CallErr (deadline_error (Some e)), end_breaker = b3,
                                     end_time = t1, end_operations = Suc i\<rparr>
                                  else
                                    call_from pol uniform env started (Suc i) n (Some e)
                                      (sleep_others a b3) (t1 + delay)))
                    | _ \<Rightarrow>
                        \<lparr>end_result = CallOther, end_breaker = b2, end_time = t1,
                         end_operations = Suc i\<rparr>))))"

definition call ::
  "resilience_policy \<Rightarrow> (real \<Rightarrow> real \<Rightarrow> real) \<Rightarrow> (nat \<Rightarrow> 'a attempt) \<Rightarrow> circuit_breaker \<Rightarrow> real
     \<Rightarrow> 'a call_end" where
  "call pol uniform env b now = call_from pol uniform env now 0 (nat (max_attempts pol)) None b now"

section \<open>What the executor guarantees\<close>

text \<open>
  One induction over the attempts gives every bound: the relation between the state a loop starts
  from and where it ends.
\<close>

definition end_within :: "resilience_policy \<Rightarrow> (nat \<Rightarrow> 'a attempt) \<Rightarrow> real \<Rightarrow> nat \<Rightarrow> nat \<Rightarrow> 'a call_end \<Rightarrow> bool" where
  "end_within pol env deadline i n r =
     (i \<le> end_operations r \<and> end_operations r \<le> i + n \<and> end_time r \<le> deadline \<and>
      (\<forall>j. i \<le> j \<and> Suc j < end_operations r \<longrightarrow> (\<exists>e. att_outcome (env j) = Raised e \<and> pe_retryable e)) \<and>
      (\<forall>x. end_result r = CallOk x \<longrightarrow>
         i < end_operations r \<and> att_outcome (env (end_operations r - 1)) = Returned x \<and>
         cb_state (end_breaker r) = Closed \<and> cb_failures (end_breaker r) = 0))"

lemma end_within_later:
  assumes "end_within pol env d (Suc i) n r" "att_outcome (env i) = Raised e" "pe_retryable e"
  shows "end_within pol env d i (Suc n) r"
proof -
  have "\<exists>e. att_outcome (env j) = Raised e \<and> pe_retryable e" if "i \<le> j" "Suc j < end_operations r" for j
  proof (cases "j = i")
    case True
    then show ?thesis using assms(2,3) by blast
  next
    case False
    then have "Suc i \<le> j" using that(1) by simp
    then show ?thesis using assms(1) that(2) unfolding end_within_def by blast
  qed
  then show ?thesis using assms(1) unfolding end_within_def by auto
qed

lemma end_within_now:
  assumes "t \<le> d" "k = i \<or> k = Suc i \<and> 0 < n"
    and "\<And>x. res = CallOk x \<Longrightarrow> k = Suc i \<and> att_outcome (env i) = Returned x \<and> cb_state b = Closed \<and> cb_failures b = 0"
  shows "end_within pol env d i n \<lparr>end_result = res, end_breaker = b, end_time = t, end_operations = k\<rparr>"
  using assms by (auto simp: end_within_def)

lemma call_from_end_within:
  "t \<le> started + max 0 (total_timeout_seconds pol) \<Longrightarrow>
   end_within pol env (started + max 0 (total_timeout_seconds pol)) i n
     (call_from pol uniform env started i n last_error b t)"
proof (induction n arbitrary: i last_error b t)
  case 0
  then show ?case by (auto intro!: end_within_now split: option.split)
next
  case (Suc n)
  let ?d = "started + max 0 (total_timeout_seconds pol)"
  let ?t1 = "t + min (att_duration (env i)) (total_timeout_seconds pol - (t - started))"
  have t1: "?t1 \<le> ?d" by auto
  have step: "end_within pol env ?d i (Suc n) (call_from pol uniform env started (Suc i) n (Some e) b'
      (?t1 + delay_before_retry pol uniform e i))"
    if "att_outcome (env i) = Raised e" "pe_retryable e"
      "\<not> total_timeout_seconds pol - (?t1 - started) \<le> delay_before_retry pol uniform e i" for e b'
  proof (rule end_within_later[OF Suc.IH that(1,2)])
    show "?t1 + delay_before_retry pol uniform e i \<le> ?d" using that(3) by linarith
  qed
  show ?case
    using Suc.prems t1 step
    by (auto simp: Let_def success_def intro!: end_within_now split: sum.split outcome.split)
qed

text \<open>
  C11: a call performs at most \<open>max_attempts\<close> operations, ends no later than its total deadline
  whatever the operations and the jitter do, operates again only after an error marked retryable,
  and returns a value only if its last operation returned it, leaving the circuit closed.
\<close>

theorem call_bounded:
  "end_operations (call pol uniform env b now) \<le> nat (max_attempts pol) \<and>
   end_time (call pol uniform env b now) \<le> now + max 0 (total_timeout_seconds pol) \<and>
   (\<forall>j. Suc j < end_operations (call pol uniform env b now) \<longrightarrow>
      (\<exists>e. att_outcome (env j) = Raised e \<and> pe_retryable e)) \<and>
   (\<forall>x. end_result (call pol uniform env b now) = CallOk x \<longrightarrow>
      att_outcome (env (end_operations (call pol uniform env b now) - 1)) = Returned x \<and>
      cb_state (end_breaker (call pol uniform env b now)) = Closed)"
  using call_from_end_within[of now now pol env 0 "nat (max_attempts pol)" uniform None b]
  by (auto simp: call_def end_within_def)

text \<open>
  A returning run for the statement above: the first operation fails with 503 after one second, the
  second returns.
\<close>

definition idle_attempt :: "real \<Rightarrow> 'a outcome \<Rightarrow> 'a attempt" where
  "idle_attempt d r = \<lparr>att_duration = d, att_outcome = r, att_others = id, sleep_others = id\<rparr>"

definition flaky_env :: "nat \<Rightarrow> int attempt" where
  "flaky_env i = (if i = 0 then idle_attempt 1 (Raised (classify_http_error 503 [] None))
     else idle_attempt 2 (Returned 42))"

lemma flaky_call:
  "call default_policy (\<lambda>lo hi. hi) flaky_env (new_breaker 5 30) 100
     = \<lparr>end_result = CallOk 42, end_breaker = new_breaker 5 30, end_time = 103 + 1/4, end_operations = 2\<rparr>"
proof -
  have n: "nat (max_attempts default_policy) = Suc (Suc (Suc 0))" by simp
  show ?thesis unfolding call_def n
    by (simp add: flaky_env_def idle_attempt_def
        classify_http_error_def new_breaker_def breaker_defs delay_before_retry_def ProviderError_def)
qed

theorem call_bounded_witness:
  "end_operations (call default_policy (\<lambda>lo hi. hi) flaky_env (new_breaker 5 30) 100) = 2 \<and>
   (\<exists>e. att_outcome (flaky_env 0) = Raised e \<and> pe_retryable e)"
  using call_bounded[of default_policy "\<lambda>lo hi. hi" flaky_env "new_breaker 5 30" 100]
  by (simp add: flaky_call)

text \<open>
  The pause before a retry is never negative and never longer than the larger of the two
  configured maxima, for whatever delay the provider asked for, where \<open>random.uniform\<close> draws from
  its interval.
\<close>

theorem delay_before_retry_bounds:
  assumes "\<And>c. 0 \<le> c \<Longrightarrow> 0 \<le> uniform 0 c \<and> uniform 0 c \<le> c"
    and "0 \<le> base_delay_seconds pol" "0 \<le> max_delay_seconds pol" "0 \<le> max_retry_after_seconds pol"
  shows "0 \<le> delay_before_retry pol uniform e i \<and>
    delay_before_retry pol uniform e i \<le> max (max_delay_seconds pol) (max_retry_after_seconds pol)"
proof -
  let ?c = "min (max_delay_seconds pol) (base_delay_seconds pol * 2 ^ i)"
  have "0 \<le> ?c" using assms(2,3) by simp
  then have "0 \<le> uniform 0 ?c \<and> uniform 0 ?c \<le> ?c" by (rule assms(1))
  then show ?thesis using assms(4)
    by (auto simp: delay_before_retry_def split: option.split py_number.split pfloat.split)
qed

theorem delay_before_retry_bounds_witness:
  "delay_before_retry default_policy (\<lambda>lo hi. hi / 2) timeout_error 3 \<le> 30"
  using delay_before_retry_bounds[of "\<lambda>lo hi. hi / 2" default_policy timeout_error 3]
  by (simp add: default_policy_def)

section \<open>An aborted probe\<close>

text \<open>
  The loop reports to the breaker only in the clauses for \<open>TimeoutError\<close> and \<open>ProviderError\<close> and
  after a return. Where the operation of a probe ends with any other exception, such as the
  cancellation of the request by a client that disconnects, \<open>_probe_in_flight\<close> stays set.
\<close>

lemma probe_in_flight_refuses:
  "cb_state b = HalfOpen \<Longrightarrow> cb_probe_in_flight b \<Longrightarrow> before_call now b = Inl probe_error"
  by (simp add: before_call_def)

text \<open>
  A probe of an open circuit that is aborted by an exception other than a provider error or a
  timeout leaves a breaker that refuses every later call, at any time: the provider is never tried
  again.
\<close>

theorem aborted_probe_wedges_circuit:
  assumes "cb_state b = Open" "\<not> cb_probe_in_flight b" "reset_timeout_seconds b \<le> now - cb_opened_at b"
    and "0 < total_timeout_seconds pol" "1 \<le> max_attempts pol"
    and "env 0 = idle_attempt d RaisedOther" "d < total_timeout_seconds pol"
  shows "end_result (call pol uniform env b now) = CallOther \<and>
    before_call later (end_breaker (call pol uniform env b now)) = Inl probe_error \<and>
    end_result (call pol uniform env' (end_breaker (call pol uniform env b now)) later) = CallErr probe_error"
proof -
  obtain n where n: "nat (max_attempts pol) = Suc n" using assms(5) by (cases "nat (max_attempts pol)") auto
  have r: "end_result (call pol uniform env b now) = CallOther \<and>
      end_breaker (call pol uniform env b now) = b\<lparr>cb_state := HalfOpen, cb_probe_in_flight := True\<rparr>"
    using assms by (simp add: call_def n before_call_def idle_attempt_def)
  then show ?thesis using assms(4) by (simp add: probe_in_flight_refuses call_def n)
qed

theorem aborted_probe_wedges_circuit_witness:
  "before_call 1000000 (end_breaker (call default_policy (\<lambda>lo hi. hi)
      (\<lambda>i. idle_attempt 1 RaisedOther :: int attempt) (failure 0 (new_breaker 1 30)) 31)) = Inl probe_error"
proof -
  have b: "cb_state (failure 0 (new_breaker 1 30)) = Open" "\<not> cb_probe_in_flight (failure 0 (new_breaker 1 30))"
    "reset_timeout_seconds (failure 0 (new_breaker 1 30)) \<le> 31 - cb_opened_at (failure 0 (new_breaker 1 30))"
    by (simp_all add: breaker_defs new_breaker_def)
  show ?thesis
    by (rule aborted_probe_wedges_circuit[OF b, where d = 1, THEN conjunct2, THEN conjunct1]) simp_all
qed

end
