(* ===== verification/Router.thy ===== *)
theory Router
  imports Capabilities Resilience
begin

text \<open>
  The router (\<open>src/zeaz_provider/router.py\<close>): which targets a model alias stands for, and the fallback
  over them, for a call and for a stream. A provider client is a value of a type of its own; what
  \<open>operation(client, model)\<close> does is a function of the client, the model and a world it may change
  (the clients' breakers, the network), and its outcome one of \<open>Resilience\<close>'s.
\<close>

record 'c router =
  ro_settings :: settings
  ro_clients :: "'c dict"
  ro_capabilities :: registry

definition new_router :: "(provider_config \<Rightarrow> int \<Rightarrow> 'c) \<Rightarrow> settings \<Rightarrow> 'c router res" where
  "new_router client s =
     bindE (new_registry s 900) (\<lambda>g.
       Inr \<lparr>ro_settings = s,
            ro_clients = map (\<lambda>(name, c). (name, client c (st_max_response_bytes s))) (st_providers s),
            ro_capabilities = g\<rparr>)"

definition unknown_model :: "string \<Rightarrow> provider_error" where
  "unknown_model name = ProviderError (''Unknown model: '' @ name) 404 False Upstream None None None []"

definition all_retired :: "string \<Rightarrow> provider_error" where
  "all_retired name = ProviderError (''All configured targets for '' @ name @ '' are retired'') 410 False Upstream
     (Some False) (Some False) None []"

definition target_available :: "real \<Rightarrow> registry \<Rightarrow> route_target \<Rightarrow> bool" where
  "target_available now g t = (case cap_get now g (target_key t) of
     None \<Rightarrow> True
   | Some r \<Rightarrow> cr_lifecycle r \<noteq> Retired)"

definition route_name :: "settings \<Rightarrow> string option \<Rightarrow> string" where
  "route_name s a = (case a of Some n \<Rightarrow> if n = [] then st_default_model s else n | None \<Rightarrow> st_default_model s)"

definition route :: "real \<Rightarrow> 'c router \<Rightarrow> string option \<Rightarrow> provider_error + model_route" where
  "route now r a =
     (let name = route_name (ro_settings r) a
      in case dict_get (st_models (ro_settings r)) name of
           None \<Rightarrow> Inl (unknown_model name)
         | Some configured \<Rightarrow>
             (case filter (target_available now (ro_capabilities r)) (route_candidates configured) of
                [] \<Rightarrow> Inl (all_retired name)
              | t # ts \<Rightarrow> Inr \<lparr>mr_alias = mr_alias configured, mr_primary = t, mr_fallbacks = ts\<rparr>))"

definition not_configured :: "route_target \<Rightarrow> string" where
  "not_configured t = rt_provider t @ '': not configured''"

definition target_failed :: "route_target \<Rightarrow> provider_error \<Rightarrow> string" where
  "target_failed t e = rt_provider t @ ''/'' @ rt_model t @ '': '' @ pe_message e"

definition all_failed :: "string list \<Rightarrow> provider_error" where
  "all_failed errors = ProviderError (''All providers failed: '' @ py_join ''; '' errors) 502 False Upstream
     None None None []"

text \<open>The loop of \<open>execute\<close> over the candidates left, with the errors collected so far.\<close>

fun execute_from ::
  "'c dict \<Rightarrow> ('c \<Rightarrow> string \<Rightarrow> 'w \<Rightarrow> 'a outcome \<times> 'w) \<Rightarrow> route_target list \<Rightarrow> string list \<Rightarrow> 'w \<Rightarrow> 'a outcome \<times> 'w" where
  "execute_from clients operation [] errors w = (Raised (all_failed errors), w)"
| "execute_from clients operation (t # ts) errors w =
     (case dict_get clients (rt_provider t) of
        None \<Rightarrow> execute_from clients operation ts (errors @ [not_configured t]) w
      | Some client \<Rightarrow>
          (case operation client (rt_model t) w of
             (Raised e, w') \<Rightarrow>
               if \<not> pe_fallback_allowed e then (Raised e, w')
               else execute_from clients operation ts (errors @ [target_failed t e]) w'
           | (result, w') \<Rightarrow> (result, w')))"

definition execute ::
  "'c router \<Rightarrow> model_route \<Rightarrow> ('c \<Rightarrow> string \<Rightarrow> 'w \<Rightarrow> 'a outcome \<times> 'w) \<Rightarrow> 'w \<Rightarrow> 'a outcome \<times> 'w" where
  "execute r m operation w = execute_from (ro_clients r) operation (route_candidates m) [] w"

text \<open>A streaming operation yields chunks and then ends.\<close>

definition all_streams_failed :: "string list \<Rightarrow> provider_error" where
  "all_streams_failed errors = ProviderError (''All streaming providers failed: '' @ py_join ''; '' errors) 502
     False Upstream None None None []"

fun stream_from ::
  "'c dict \<Rightarrow> ('c \<Rightarrow> string \<Rightarrow> 'w \<Rightarrow> ('b list \<times> stream_end) \<times> 'w) \<Rightarrow> route_target list \<Rightarrow> string list \<Rightarrow> 'w
     \<Rightarrow> ('b list \<times> stream_end) \<times> 'w" where
  "stream_from clients operation [] errors w = (([], StreamRaised (all_streams_failed errors)), w)"
| "stream_from clients operation (t # ts) errors w =
     (case dict_get clients (rt_provider t) of
        None \<Rightarrow> stream_from clients operation ts (errors @ [not_configured t]) w
      | Some client \<Rightarrow>
          (case operation client (rt_model t) w of
             ((chunks, StreamRaised e), w') \<Rightarrow>
               if chunks \<noteq> [] \<or> \<not> pe_fallback_allowed e then ((chunks, StreamRaised e), w')
               else stream_from clients operation ts (errors @ [target_failed t e]) w'
           | (result, w') \<Rightarrow> (result, w')))"

definition stream_route ::
  "'c router \<Rightarrow> model_route \<Rightarrow> ('c \<Rightarrow> string \<Rightarrow> 'w \<Rightarrow> ('b list \<times> stream_end) \<times> 'w) \<Rightarrow> 'w
     \<Rightarrow> ('b list \<times> stream_end) \<times> 'w" where
  "stream_route r m operation w = stream_from (ro_clients r) operation (route_candidates m) [] w"

definition public_model :: "string \<Rightarrow> json" where
  "public_model name = JObj [(''id'', JStr name), (''object'', JStr ''model''), (''owned_by'', JStr ''zeaz'')]"

definition model_list :: "real \<Rightarrow> 'c router \<Rightarrow> provider_error + json list" where
  "model_list now r =
     foldE (\<lambda>public_models kv.
       (case route now r (Some (mr_alias (snd kv))) of
          Inl e \<Rightarrow> if pe_status_code e = 410 then Inr public_models else Inl e
        | Inr _ \<Rightarrow> Inr (public_models @ [public_model (mr_alias (snd kv))])))
       [] (st_models (ro_settings r))"

section \<open>What a route contains\<close>

lemma new_router_sel:
  "new_router client s = Inr r \<Longrightarrow> ro_settings r = s \<and>
     ro_clients r = map (\<lambda>(name, c). (name, client c (st_max_response_bytes s))) (st_providers s) \<and>
     new_registry s 900 = Inr (ro_capabilities r)"
  by (auto simp: new_router_def res_simps)

lemma map_of_map_pair: "map_of (map (\<lambda>(k, v). (k, f v)) d) j = map_option f (map_of d j)"
  by (induction d) auto

lemma new_router_clients:
  "new_router client s = Inr r \<Longrightarrow> dict_has (ro_clients r) k = dict_has (st_providers s) k"
  by (auto dest!: new_router_sel simp: dict_defs map_of_map_pair)

lemma models_ok_route:
  "models_ok ps ms \<Longrightarrow> dict_get ms n = Some c \<Longrightarrow>
     mr_alias c = n \<and> list_all (\<lambda>t. dict_has ps (rt_provider t)) (route_candidates c)"
  unfolding models_ok_def dict_get_def
  by (drule map_of_SomeD) (auto simp: list_all_iff route_ok_def route_candidates_def target_ok_def dest!: bspec)

lemma settings_ok_models: "settings_ok s \<Longrightarrow> models_ok (st_providers s) (st_models s)"
  by (simp add: settings_ok_def)

text \<open>
  With settings that \<open>load_settings\<close> accepts, a route is found exactly for the configured
  aliases (an absent or empty one stands for the default model, so it is always known) that have a
  target not retired, and its candidates are the alias's configured targets that are not retired, in
  the configured order, each with a client; otherwise the error is 404 for an unknown alias and 410,
  never to be retried on another provider, when all its targets are retired.
\<close>

theorem route_sound:
  assumes "settings_ok s" "\<And>k. dict_has (ro_clients r) k = dict_has (st_providers s) k" "ro_settings r = s"
  shows "case route now r a of
      Inr m \<Rightarrow> mr_alias m = route_name s a \<and>
        (\<exists>c. dict_get (st_models s) (route_name s a) = Some c \<and>
          route_candidates m = filter (target_available now (ro_capabilities r)) (route_candidates c)) \<and>
        list_all (\<lambda>t. dict_has (ro_clients r) (rt_provider t)) (route_candidates m)
    | Inl e \<Rightarrow> (pe_status_code e = 404 \<and> \<not> dict_has (st_models s) (route_name s a) \<and> a \<notin> {None, Some []} \<or>
         pe_status_code e = 410 \<and> \<not> pe_fallback_allowed e \<and>
         (\<exists>c. dict_get (st_models s) (route_name s a) = Some c \<and>
            filter (target_available now (ro_capabilities r)) (route_candidates c) = []))"
proof (cases "dict_get (st_models s) (route_name s a)")
  case None
  then have "route now r a = Inl (unknown_model (route_name s a))" by (simp add: route_def Let_def assms(3))
  moreover have "a \<notin> {None, Some []}"
    using assms(1) None by (cases a) (auto simp: settings_ok_def route_name_def dict_defs)
  ultimately show ?thesis using None by (simp add: unknown_model_def dict_defs)
next
  case (Some c)
  note known = models_ok_route[OF settings_ok_models[OF assms(1)] Some]
  show ?thesis
  proof (cases "filter (target_available now (ro_capabilities r)) (route_candidates c)")
    case Nil
    then have "route now r a = Inl (all_retired (route_name s a))" by (simp add: route_def Let_def assms(3) Some)
    then show ?thesis using Some Nil by (simp add: all_retired_def)
  next
    case (Cons t ts)
    then have r: "route now r a = Inr \<lparr>mr_alias = mr_alias c, mr_primary = t, mr_fallbacks = ts\<rparr>"
      by (simp add: route_def Let_def assms(3) Some)
    have "list_all (\<lambda>t. dict_has (st_providers s) (rt_provider t)) (t # ts)"
      using known unfolding Cons[symmetric] by (auto simp: list_all_iff)
    then show ?thesis using Some Cons known assms(2) r by (simp add: route_candidates_def)
  qed
qed

lemma demo_url_plain: "\<not> has_control ''https://a.example''"
  by code_simp

lemma two_providers_ok: "settings_ok two_providers"
  by (simp add: settings_ok_def two_providers_def providers_ok_def models_ok_def route_ok_def target_ok_def
      dict_defs provider_config_ok_def demo_provider_named_def
      demo_url_plain)

lemma two_providers_route:
  "\<exists>r. new_router (\<lambda>c n. pc_name c) two_providers = Inr r \<and> route 5 r None =
     Inr \<lparr>mr_alias = ''auto'', mr_primary = \<lparr>rt_provider = ''a'', rt_model = ''m''\<rparr>,
          mr_fallbacks = [\<lparr>rt_provider = ''b'', rt_model = ''n''\<rparr>]\<rparr>"
  by (simp add: new_router_def new_registry_def route_candidates_def add_configured_def dict_defs
      dict_setdefault_def target_key_def configured_record_def cap_get_def route_def route_name_def target_available_def)

theorem route_sound_witness:
  "\<exists>r m. new_router (\<lambda>c n. pc_name c) two_providers = Inr r \<and> route 5 r None = Inr m \<and>
     mr_alias m = ''auto'' \<and> list_all (\<lambda>t. dict_has (ro_clients r) (rt_provider t)) (route_candidates m)"
proof -
  obtain r m where r: "new_router (\<lambda>c n. pc_name c) two_providers = Inr r" "route 5 r None = Inr m"
    using two_providers_route by blast
  show ?thesis
    using route_sound[OF two_providers_ok new_router_clients[OF r(1)], where now = 5 and a = None] new_router_sel[OF r(1)] r
    by (auto simp: route_name_def)
qed

section \<open>Fallback\<close>

text \<open>
  What the fallback loops share: a candidate is passed over when its provider has no client or its
  operation \<open>passes\<close>, and the first that is not ends the loop. \<open>passed\<close> is the world after a run of
  candidates that are all passed over.
\<close>

fun passed ::
  "('o \<Rightarrow> bool) \<Rightarrow> 'c dict \<Rightarrow> ('c \<Rightarrow> string \<Rightarrow> 'w \<Rightarrow> 'o \<times> 'w) \<Rightarrow> route_target list \<Rightarrow> 'w \<Rightarrow> 'w option" where
  "passed passes clients operation [] w = Some w"
| "passed passes clients operation (t # ts) w =
     (case dict_get clients (rt_provider t) of
        None \<Rightarrow> passed passes clients operation ts w
      | Some client \<Rightarrow> (case operation client (rt_model t) w of
          (res, w') \<Rightarrow> if passes res then passed passes clients operation ts w' else None))"

definition call_passes :: "'a outcome \<Rightarrow> bool" where
  "call_passes x = (case x of Raised e \<Rightarrow> pe_fallback_allowed e | _ \<Rightarrow> False)"

definition stream_passes :: "'b list \<times> stream_end \<Rightarrow> bool" where
  "stream_passes x = (fst x = [] \<and> (case snd x of StreamRaised e \<Rightarrow> pe_fallback_allowed e | _ \<Rightarrow> False))"

text \<open>
  The contract of a fallback loop \<open>run\<close>: candidates passed over leave only their message, the first
  one that is not ends it with its own outcome, and running out ends it with \<open>exhausted\<close>.
\<close>

locale fallback_loop =
  fixes run :: "'c dict \<Rightarrow> ('c \<Rightarrow> string \<Rightarrow> 'w \<Rightarrow> 'o \<times> 'w) \<Rightarrow> route_target list \<Rightarrow> string list \<Rightarrow> 'w \<Rightarrow> 'o \<times> 'w"
    and passes :: "'o \<Rightarrow> bool"
    and exhausted :: "string list \<Rightarrow> 'o"
  assumes run_nil: "run clients operation [] errors w = (exhausted errors, w)"
    and run_missing: "dict_get clients (rt_provider t) = None \<Longrightarrow>
      \<exists>msg. run clients operation (t # ts) errors w = run clients operation ts (errors @ [msg]) w"
    and run_pass: "dict_get clients (rt_provider t) = Some client \<Longrightarrow>
      operation client (rt_model t) w = (res, w') \<Longrightarrow> passes res \<Longrightarrow>
      \<exists>msg. run clients operation (t # ts) errors w = run clients operation ts (errors @ [msg]) w'"
    and run_stop: "dict_get clients (rt_provider t) = Some client \<Longrightarrow>
      operation client (rt_model t) w = (res, w') \<Longrightarrow> \<not> passes res \<Longrightarrow>
      run clients operation (t # ts) errors w = (res, w')"
begin

lemma run_cases:
  "(\<exists>msgs w'. length msgs = length ts \<and> passed passes clients operation ts w = Some w' \<and>
      run clients operation ts errors w = (exhausted (errors @ msgs), w')) \<or>
   (\<exists>before t after w1 client. ts = before @ t # after \<and> passed passes clients operation before w = Some w1 \<and>
      dict_get clients (rt_provider t) = Some client \<and>
      \<not> passes (fst (operation client (rt_model t) w1)) \<and>
      run clients operation ts errors w = operation client (rt_model t) w1)"
  (is "?all ts errors w \<or> ?stop ts errors w")
proof (induction ts arbitrary: errors w)
  case Nil
  then show ?case by (simp add: run_nil)
next
  case (Cons t ts)
  show ?case
  proof (cases "\<exists>client. dict_get clients (rt_provider t) = Some client \<and>
      \<not> passes (fst (operation client (rt_model t) w))")
    case True
    then obtain client where c: "dict_get clients (rt_provider t) = Some client"
      "\<not> passes (fst (operation client (rt_model t) w))" by blast
    then have "run clients operation (t # ts) errors w = operation client (rt_model t) w"
      using run_stop by (cases "operation client (rt_model t) w") auto
    then have "?stop (t # ts) errors w" using c
      by - (rule exI[of _ "[]"], rule exI[of _ t], rule exI[of _ ts], rule exI[of _ w],
          rule exI[of _ client], simp)
    then show ?thesis by blast
  next
    case False
    obtain msg w' where m: "run clients operation (t # ts) errors w = run clients operation ts (errors @ [msg]) w'"
      "\<And>us. passed passes clients operation (t # us) w = passed passes clients operation us w'"
    proof (cases "dict_get clients (rt_provider t)")
      case None
      then show ?thesis using run_missing[OF None, of operation ts errors w] that[of _ w] by auto
    next
      case (Some client)
      then show ?thesis using False that run_pass[OF Some]
        by (cases "operation client (rt_model t) w") fastforce
    qed
    show ?thesis using Cons.IH[where errors = "errors @ [msg]" and w = w']
    proof
      assume "?all ts (errors @ [msg]) w'"
      then obtain msgs v where "length msgs = length ts" "passed passes clients operation ts w' = Some v"
        "run clients operation ts (errors @ [msg]) w' = (exhausted ((errors @ [msg]) @ msgs), v)" by blast
      then have "?all (t # ts) errors w" unfolding m by (intro exI[of _ "msg # msgs"] exI[of _ v]) simp
      then show ?thesis ..
    next
      assume "?stop ts (errors @ [msg]) w'"
      then obtain before u after w1 client where "ts = before @ u # after"
        "passed passes clients operation before w' = Some w1" "dict_get clients (rt_provider u) = Some client"
        "\<not> passes (fst (operation client (rt_model u) w1))"
        "run clients operation ts (errors @ [msg]) w' = operation client (rt_model u) w1" by blast
      then have "?stop (t # ts) errors w" unfolding m(1)
        by - (rule exI[of _ "t # before"], rule exI[of _ u], rule exI[of _ after], rule exI[of _ w1],
            rule exI[of _ client], simp add: m(2) del: passed.simps)
      then show ?thesis ..
    qed
  qed
qed

end

interpretation call_fallback: fallback_loop execute_from call_passes "\<lambda>es. Raised (all_failed es)"
  by unfold_locales (auto simp: call_passes_def split: outcome.splits)

interpretation stream_fallback: fallback_loop stream_from stream_passes "\<lambda>es. ([], StreamRaised (all_streams_failed es))"
  by unfold_locales (auto simp: stream_passes_def split: stream_end.splits prod.splits)

text \<open>
  \<open>execute\<close> tries the route's candidates in order and goes on to the next one only while the
  provider has no client or its operation raises an error that allows fallback; the first other
  outcome, a result, an error that forbids fallback or any other exception, is its own, and no later
  candidate's operation runs. When every candidate has been passed over, the error is the 502 that
  lists all of them.
\<close>

theorem execute_fallback:
  "(\<exists>msgs w'. length msgs = length (route_candidates m) \<and>
      passed call_passes (ro_clients r) operation (route_candidates m) w = Some w' \<and>
      execute r m operation w = (Raised (all_failed msgs), w')) \<or>
   (\<exists>before t after w1 client. route_candidates m = before @ t # after \<and>
      passed call_passes (ro_clients r) operation before w = Some w1 \<and>
      dict_get (ro_clients r) (rt_provider t) = Some client \<and>
      \<not> call_passes (fst (operation client (rt_model t) w1)) \<and>
      execute r m operation w = operation client (rt_model t) w1)"
  using call_fallback.run_cases[of "route_candidates m" "ro_clients r" operation w "[]"]
  by (simp add: execute_def)

text \<open>
  C3: a stream's chunks and end are those of one candidate's operation, or there are none and the
  error says that all failed: once a candidate has emitted a chunk no other is tried, so a client
  never receives the chunks of two providers; candidates before it emitted nothing and raised an
  error that allows fallback, or have no client.
\<close>

theorem stream_single_source:
  "(\<exists>msgs w'. length msgs = length (route_candidates m) \<and>
      passed stream_passes (ro_clients r) operation (route_candidates m) w = Some w' \<and>
      stream_route r m operation w = (([], StreamRaised (all_streams_failed msgs)), w')) \<or>
   (\<exists>before t after w1 client. route_candidates m = before @ t # after \<and>
      passed stream_passes (ro_clients r) operation before w = Some w1 \<and>
      dict_get (ro_clients r) (rt_provider t) = Some client \<and>
      \<not> stream_passes (fst (operation client (rt_model t) w1)) \<and>
      stream_route r m operation w = operation client (rt_model t) w1)"
  using stream_fallback.run_cases[of "route_candidates m" "ro_clients r" operation w "[]"]
  by (simp add: stream_route_def)

section \<open>The public list\<close>

text \<open>
  With settings that \<open>load_settings\<close> accepts, \<open>GET /v1/models\<close> lists exactly the aliases that
  have a target not retired, once each and in the configured order, and does not fail.
\<close>

theorem model_list_exact:
  assumes "settings_ok (ro_settings r)"
  shows "model_list now r = Inr (map (\<lambda>kv. public_model (fst kv))
    (filter (\<lambda>kv. \<exists>t \<in> set (route_candidates (snd kv)). target_available now (ro_capabilities r) t)
       (st_models (ro_settings r))))"
proof -
  define avail where "avail = (\<lambda>c. \<exists>t \<in> set (route_candidates c). target_available now (ro_capabilities r) t)"
  have route: "route now r (Some (mr_alias c)) = Inl e \<longleftrightarrow> \<not> avail c \<and> e = all_retired n" "mr_alias c = n"
    if "(n, c) \<in> set (st_models (ro_settings r))" for n c e
  proof -
    have ok: "distinct (map fst (st_models (ro_settings r)))" "mr_alias c = n" "n \<noteq> []"
      using settings_ok_models[OF assms] that by (auto simp: models_ok_def list_all_iff)
    then have known: "dict_get (st_models (ro_settings r)) n = Some c" using that by (simp add: dict_get_def)
    show "route now r (Some (mr_alias c)) = Inl e \<longleftrightarrow> \<not> avail c \<and> e = all_retired n"
    proof (cases "filter (target_available now (ro_capabilities r)) (route_candidates c)")
      case Nil
      then have "\<not> avail c" by (auto simp: avail_def filter_empty_conv)
      then show ?thesis using Nil known ok(2,3) by (auto simp: route_def route_name_def)
    next
      case (Cons t ts)
      then have "t \<in> set (filter (target_available now (ro_capabilities r)) (route_candidates c))" by simp
      then have "avail c" by (auto simp: avail_def)
      then show ?thesis using Cons known ok(2,3) by (simp add: route_def route_name_def)
    qed
    show "mr_alias c = n" by (rule ok(2))
  qed
  have "foldE (\<lambda>ms kv. case route now r (Some (mr_alias (snd kv))) of
          Inl e \<Rightarrow> if pe_status_code e = 410 then Inr ms else Inl e
        | Inr _ \<Rightarrow> Inr (ms @ [public_model (mr_alias (snd kv))])) ms kvs
      = Inr (ms @ map (\<lambda>kv. public_model (fst kv)) (filter (\<lambda>kv. avail (snd kv)) kvs))"
    if "set kvs \<subseteq> set (st_models (ro_settings r))" for ms kvs
    using that
  proof (induction kvs arbitrary: ms)
    case (Cons kv kvs)
    obtain n c where kv: "kv = (n, c)" by (cases kv)
    have "(n, c) \<in> set (st_models (ro_settings r))" using Cons.prems kv by auto
    note rc = route[OF this]
    show ?case
    proof (cases "route now r (Some (mr_alias c))")
      case (Inl e)
      then have "\<not> avail c" "pe_status_code e = 410" using rc(1)[of e] by (auto simp: all_retired_def)
      then show ?thesis using Cons Inl by (simp add: kv)
    next
      case (Inr m)
      then have "avail c" using rc(1)[of "all_retired n"] by auto
      then show ?thesis using Cons Inr rc(2) by (simp add: kv)
    qed
  qed simp
  from this[OF order_refl, of "[]"] show ?thesis by (simp add: model_list_def avail_def)
qed

theorem model_list_exact_witness:
  "\<exists>r. new_router (\<lambda>c n. pc_name c) two_providers = Inr r \<and> model_list 5 r = Inr [public_model ''auto'']"
proof -
  obtain r where r: "new_router (\<lambda>c n. pc_name c) two_providers = Inr r" using two_providers_route by blast
  have "target_available 5 (ro_capabilities r) \<lparr>rt_provider = ''a'', rt_model = ''m''\<rparr>"
    using r by (auto simp: new_router_def new_registry_def route_candidates_def add_configured_def dict_defs
      dict_setdefault_def target_key_def configured_record_def cap_get_def target_available_def)
  then show ?thesis
    using model_list_exact[of r 5] new_router_sel[OF r] two_providers_ok r by (simp add: route_candidates_def)
qed

end
