(* ===== verification/Normalize.thy ===== *)
theory Normalize
  imports PyText
begin

text \<open>
  The request and response conversions between the Anthropic Messages, OpenAI Chat Completions and
  OpenAI Responses APIs (\<open>src/zeaz_provider/normalize.py\<close>). The functions keep the code's names; the
  body of each loop is a definition of its own. A dictionary that the code builds is a \<open>JObj\<close> with
  the keys in the code's order.
\<close>

section \<open>Helpers\<close>

definition array_of :: "json \<Rightarrow> string \<Rightarrow> json list res" where
  "array_of v label = (case v of JArr vs \<Rightarrow> Inr vs | _ \<Rightarrow> Inl (ValueError (label @ '' must be an array'')))"

definition object_of :: "json \<Rightarrow> string \<Rightarrow> json dict res" where
  "object_of v label = (case v of JObj d \<Rightarrow> Inr d | _ \<Rightarrow> Inl (ValueError (label @ '' must be an object'')))"

definition first_choice :: "json dict \<Rightarrow> json dict res" where
  "first_choice response =
     bindE (array_of (get_or_null response ''choices'') ''provider choices'') (\<lambda>choices.
       (case choices of
          [] \<Rightarrow> Inl (ValueError ''provider returned no choices'')
        | c # _ \<Rightarrow> object_of c ''provider choice''))"

definition chat_text_part :: "string list \<Rightarrow> json \<Rightarrow> string list res" where
  "chat_text_part parts raw_item =
     bindE (object_of raw_item ''provider content item'') (\<lambda>item.
     bindE (in_str_set (get_or_null item ''type'') [''text'', ''input_text'', ''output_text'']) (\<lambda>is_text.
       Inr (if is_text then
              (case dict_get_default item ''text'' (JStr []) of
                 JStr t \<Rightarrow> if t = [] then parts else parts @ [t]
               | _ \<Rightarrow> parts)
            else parts)))"

definition chat_text_parts :: "json \<Rightarrow> string list res" where
  "chat_text_parts v = (case v of
     JNull \<Rightarrow> Inr []
   | JStr s \<Rightarrow> Inr (if s = [] then [] else [s])
   | _ \<Rightarrow> bindE (array_of v ''provider message content'') (foldE chat_text_part []))"

definition json_object :: "json \<Rightarrow> json dict" where
  "json_object v = (case v of
     JObj d \<Rightarrow> d
   | JStr s \<Rightarrow> (case json_loads s of Some (JObj d) \<Rightarrow> d | _ \<Rightarrow> [(''raw'', v)])
   | _ \<Rightarrow> [(''raw'', JStr (py_str v))])"

definition json_text :: "json \<Rightarrow> string" where
  "json_text v = (case v of JStr s \<Rightarrow> s | _ \<Rightarrow> json_dumps v)"

text \<open>\<open>type(value) is int\<close>: a \<open>bool\<close> does not count.\<close>

definition nonnegative_int :: "json \<Rightarrow> int" where
  "nonnegative_int v = (case v of JInt i \<Rightarrow> if 0 \<le> i then i else 0 | _ \<Rightarrow> 0)"

definition block_text :: "json \<Rightarrow> string res" where
  "block_text raw_item = (case raw_item of
     JStr s \<Rightarrow> Inr s
   | _ \<Rightarrow> bindE (object_of raw_item ''text block'') (\<lambda>item.
       Inr (py_str (dict_get_default item ''text'' (dict_get_default item ''content'' (JStr []))))))"

definition blocks_to_text :: "json \<Rightarrow> string res" where
  "blocks_to_text v = (case v of
     JStr s \<Rightarrow> Inr s
   | JArr items \<Rightarrow> bindE (mapE block_text items) (\<lambda>parts. Inr (py_join [newline] parts))
   | _ \<Rightarrow> Inr (py_str v))"

text \<open>\<open>for key in \<dots>: if key in payload: result[target] = payload[key]\<close>\<close>

definition copy_keys :: "(string \<times> string) list \<Rightarrow> json dict \<Rightarrow> json dict \<Rightarrow> json dict" where
  "copy_keys keys payload result =
     fold (\<lambda>(source, target) r. case dict_get payload source of None \<Rightarrow> r | Some v \<Rightarrow> dict_set target v r)
       keys result"

definition no_schema :: json where
  "no_schema = JObj [(''type'', JStr ''object'')]"

definition text_part :: "json \<Rightarrow> json" where
  "text_part t = JObj [(''type'', JStr ''text''), (''text'', t)]"

definition tool_call :: "json \<Rightarrow> json \<Rightarrow> string \<Rightarrow> json" where
  "tool_call ident name arguments = JObj [(''id'', ident), (''type'', JStr ''function''),
     (''function'', JObj [(''name'', name), (''arguments'', JStr arguments)])]"

definition tool_message :: "json \<Rightarrow> string \<Rightarrow> json" where
  "tool_message ident content = JObj [(''role'', JStr ''tool''), (''tool_call_id'', ident),
     (''content'', JStr content)]"

definition image_url_part :: "json \<Rightarrow> json" where
  "image_url_part url = JObj [(''type'', JStr ''image_url''), (''image_url'', JObj [(''url'', url)])]"

definition message_of :: "json \<Rightarrow> json \<Rightarrow> json" where
  "message_of role content = JObj [(''role'', role), (''content'', content)]"

section \<open>Anthropic requests to Chat Completions\<close>

text \<open>The three lists a message's blocks are sorted into.\<close>

record block_lists =
  bl_text_parts :: "json list"
  bl_tool_calls :: "json list"
  bl_tool_results :: "json list"

definition anthropic_image :: "json dict \<Rightarrow> json option res" where
  "anthropic_image block =
     bindE (object_of (dict_get_default block ''source'' (JObj [])) ''image source'') (\<lambda>source.
       let base64 = (get_or_null source ''type'' = JStr ''base64'')
       in (case (if base64 then get_or_null source ''data'' else get_or_null source ''url'') of
             JStr data \<Rightarrow> Inr (if data = [] then None
               else Some (image_url_part (JStr
                 (if base64 then ''data:'' @ py_str (dict_get_default source ''media_type'' (JStr ''image/png''))
                    @ '';base64,'' @ data
                  else data))))
           | _ \<Rightarrow> Inr None))"

definition anthropic_block :: "block_lists \<Rightarrow> json \<Rightarrow> block_lists res" where
  "anthropic_block ls raw_block =
     bindE (object_of raw_block ''content block'') (\<lambda>block.
       let kind = get_or_null block ''type''
       in if kind = JStr ''text'' then
            Inr (ls\<lparr>bl_text_parts := bl_text_parts ls
              @ [text_part (JStr (py_str (dict_get_default block ''text'' (JStr []))))]\<rparr>)
          else if kind = JStr ''image'' then
            bindE (anthropic_image block) (\<lambda>image. Inr (case image of
              None \<Rightarrow> ls | Some part \<Rightarrow> ls\<lparr>bl_text_parts := bl_text_parts ls @ [part]\<rparr>))
          else if kind = JStr ''tool_use'' then
            Inr (ls\<lparr>bl_tool_calls := bl_tool_calls ls
              @ [tool_call (get_or_null block ''id'') (get_or_null block ''name'')
                   (json_dumps (dict_get_default block ''input'' (JObj [])))]\<rparr>)
          else if kind = JStr ''tool_result'' then
            bindE (blocks_to_text (dict_get_default block ''content'' (JStr []))) (\<lambda>content.
              Inr (ls\<lparr>bl_tool_results := bl_tool_results ls
                @ [tool_message (get_or_null block ''tool_use_id'') content]\<rparr>))
          else Inr ls)"

definition anthropic_message :: "json list \<Rightarrow> json \<Rightarrow> json list res" where
  "anthropic_message messages raw_message =
     bindE (object_of raw_message ''message'') (\<lambda>message.
     bindE (in_str_set (get_or_null message ''role'') [''user'', ''assistant'']) (\<lambda>ok.
     if \<not> ok then Inl (ValueError ''Anthropic message role is invalid'')
     else (let role = get_or_null message ''role''; content = dict_get_default message ''content'' (JStr [])
       in case content of
            JStr _ \<Rightarrow> Inr (messages @ [message_of role content])
          | _ \<Rightarrow>
              bindE (array_of content ''message content'') (\<lambda>blocks.
              bindE (foldE anthropic_block \<lparr>bl_text_parts = [], bl_tool_calls = [], bl_tool_results = []\<rparr> blocks) (\<lambda>ls.
                Inr (messages
                  @ (if bl_text_parts ls \<noteq> [] \<or> bl_tool_calls ls \<noteq> [] then
                       [JObj ([(''role'', role),
                               (''content'', if bl_text_parts ls = [] then JNull else JArr (bl_text_parts ls))]
                          @ (if bl_tool_calls ls = [] then [] else [(''tool_calls'', JArr (bl_tool_calls ls))]))]
                     else [])
                  @ bl_tool_results ls))))))"

definition anthropic_tool :: "json \<Rightarrow> json res" where
  "anthropic_tool raw_tool =
     bindE (object_of raw_tool ''tool'') (\<lambda>tool.
       (case get_or_null tool ''name'' of
          JStr name \<Rightarrow>
            if name = [] then Inl (ValueError ''Anthropic tool name is invalid'')
            else Inr (JObj [(''type'', JStr ''function''),
              (''function'', JObj [(''name'', JStr name),
                 (''description'', dict_get_default tool ''description'' (JStr [])),
                 (''parameters'', dict_get_default tool ''input_schema'' no_schema)])])
        | _ \<Rightarrow> Inl (ValueError ''Anthropic tool name is invalid'')))"

definition anthropic_tool_choice :: "json \<Rightarrow> json dict" where
  "anthropic_tool_choice choice = (case choice of
     JObj d \<Rightarrow>
       if get_or_null d ''type'' = JStr ''auto'' then [(''tool_choice'', JStr ''auto'')]
       else if get_or_null d ''type'' = JStr ''any'' then [(''tool_choice'', JStr ''required'')]
       else if get_or_null d ''type'' = JStr ''tool'' then
         [(''tool_choice'', JObj [(''type'', JStr ''function''),
            (''function'', JObj [(''name'', get_or_null d ''name'')])])]
       else []
   | _ \<Rightarrow> [])"

definition anthropic_system :: "json dict \<Rightarrow> json list res" where
  "anthropic_system payload =
     (if truthy (get_or_null payload ''system'')
      then bindE (blocks_to_text (get_or_null payload ''system'')) (\<lambda>t. Inr [message_of (JStr ''system'') (JStr t)])
      else Inr [])"

definition anthropic_to_openai :: "json dict \<Rightarrow> string \<Rightarrow> json dict res" where
  "anthropic_to_openai payload model =
     bindE (anthropic_system payload) (\<lambda>system.
     bindE (array_of (dict_get_default payload ''messages'' (JArr [])) ''messages'') (\<lambda>raw_messages.
     bindE (foldE anthropic_message system raw_messages) (\<lambda>messages.
     bindE (array_of (dict_get_default payload ''tools'' (JArr [])) ''tools'') (\<lambda>raw_tools.
     bindE (mapE anthropic_tool raw_tools) (\<lambda>tools.
       Inr (copy_keys [(''temperature'', ''temperature''), (''top_p'', ''top_p''), (''stop_sequences'', ''stop'')]
              payload
              [(''model'', JStr model), (''messages'', JArr messages),
               (''max_tokens'', dict_get_default payload ''max_tokens'' (JInt 4096)),
               (''stream'', dict_get_default payload ''stream'' (JBool False))]
            @ (if tools = [] then [] else [(''tools'', JArr tools)])
            @ anthropic_tool_choice (get_or_null payload ''tool_choice'')))))))"

section \<open>Chat Completions responses to Anthropic\<close>

definition tool_use_block :: "json \<Rightarrow> json res" where
  "tool_use_block raw_call =
     bindE (object_of raw_call ''tool call'') (\<lambda>call.
     bindE (object_of (or_else (get_or_null call ''function'') (JObj [])) ''tool function'') (\<lambda>function.
       Inr (JObj [(''type'', JStr ''tool_use''), (''id'', get_or_null call ''id''),
                  (''name'', get_or_null function ''name''),
                  (''input'', JObj (json_object (dict_get_default function ''arguments'' (JStr ''{}''))))])))"

definition stop_reason_of :: "json \<Rightarrow> string res" where
  "stop_reason_of finish = (case finish of
     JArr _ \<Rightarrow> Inl TypeError
   | JObj _ \<Rightarrow> Inl TypeError
   | _ \<Rightarrow> Inr (if finish = JStr ''tool_calls'' then ''tool_use''
       else if finish = JStr ''length'' then ''max_tokens'' else ''end_turn''))"

definition openai_to_anthropic :: "json dict \<Rightarrow> string \<Rightarrow> json dict res" where
  "openai_to_anthropic response requested_model =
     bindE (first_choice response) (\<lambda>choice.
     bindE (object_of (or_else (get_or_null choice ''message'') (JObj [])) ''provider message'') (\<lambda>message.
     bindE (chat_text_parts (get_or_null message ''content'')) (\<lambda>texts.
     bindE (array_of (dict_get_default message ''tool_calls'' (JArr [])) ''tool calls'') (\<lambda>raw_calls.
     bindE (mapE tool_use_block raw_calls) (\<lambda>calls.
     bindE (stop_reason_of (get_or_null choice ''finish_reason'')) (\<lambda>stop_reason.
     bindE (object_of (or_else (get_or_null response ''usage'') (JObj [])) ''usage'') (\<lambda>usage.
       Inr [(''id'', dict_get_default response ''id'' (JStr ''msg_zeaz'')),
            (''type'', JStr ''message''), (''role'', JStr ''assistant''), (''model'', JStr requested_model),
            (''content'', JArr (map (\<lambda>t. text_part (JStr t)) texts @ calls)),
            (''stop_reason'', JStr stop_reason), (''stop_sequence'', JNull),
            (''usage'', JObj
               [(''input_tokens'', JInt (nonnegative_int (dict_get_default usage ''prompt_tokens'' (JInt 0)))),
                (''output_tokens'', JInt (nonnegative_int (dict_get_default usage ''completion_tokens'' (JInt 0))))])])))))))"

section \<open>Chat Completions requests to Anthropic\<close>

definition image_source :: "json dict \<Rightarrow> json" where
  "image_source source = JObj [(''type'', JStr ''image''), (''source'', JObj source)]"

definition openai_image :: "json dict \<Rightarrow> json list" where
  "openai_image item =
     (let raw = dict_get_default item ''image_url'' (dict_get_default item ''image'' (JStr []));
          url = (case raw of JObj d \<Rightarrow> dict_get_default d ''url'' (JStr []) | _ \<Rightarrow> raw)
      in case url of
           JStr u \<Rightarrow>
             (case (if starts_with ''data:'' u then split_once '';base64,'' u else None) of
                Some (metadata, data) \<Rightarrow>
                  [image_source [(''type'', JStr ''base64''),
                     (''media_type'', JStr (if starts_with ''data:'' metadata then drop 5 metadata else metadata)),
                     (''data'', JStr data)]]
              | None \<Rightarrow> if u = [] then [] else [image_source [(''type'', JStr ''url''), (''url'', url)]])
         | _ \<Rightarrow> [])"

definition openai_content_item :: "json list \<Rightarrow> json \<Rightarrow> json list res" where
  "openai_content_item blocks raw_item =
     bindE (object_of raw_item ''content item'') (\<lambda>item.
     bindE (in_str_set (get_or_null item ''type'') [''text'', ''input_text'']) (\<lambda>is_text.
     if is_text then Inr (blocks @ [text_part (dict_get_default item ''text'' (JStr []))])
     else bindE (in_str_set (get_or_null item ''type'') [''image_url'', ''input_image'']) (\<lambda>is_image.
       Inr (if is_image then blocks @ openai_image item else blocks))))"

definition openai_content_to_anthropic :: "json \<Rightarrow> json list res" where
  "openai_content_to_anthropic v = (case v of
     JNull \<Rightarrow> Inr []
   | JStr _ \<Rightarrow> Inr [text_part v]
   | _ \<Rightarrow> bindE (array_of v ''content'') (foldE openai_content_item []))"

definition tool_result_message :: "json \<Rightarrow> json list \<Rightarrow> json" where
  "tool_result_message ident content = message_of (JStr ''user'')
     (JArr [JObj [(''type'', JStr ''tool_result''), (''tool_use_id'', ident), (''content'', JArr content)]])"

text \<open>The loop's state: the contents of the system messages, and the other messages.\<close>

definition openai_message :: "json list \<times> json list \<Rightarrow> json \<Rightarrow> (json list \<times> json list) res" where
  "openai_message state raw_message = (case state of (systems, messages) \<Rightarrow>
     bindE (object_of raw_message ''message'') (\<lambda>message.
     let role = get_or_null message ''role''; content = dict_get_default message ''content'' (JStr [])
     in bindE (in_str_set role [''system'', ''developer'']) (\<lambda>is_system.
        if is_system then Inr (systems @ [content], messages)
        else if role = JStr ''tool'' then
          bindE (openai_content_to_anthropic content) (\<lambda>blocks.
            Inr (systems, messages @ [tool_result_message (get_or_null message ''tool_call_id'') blocks]))
        else bindE (in_str_set role [''user'', ''assistant'']) (\<lambda>ok.
          if \<not> ok then Inl (ValueError ''OpenAI message role is invalid'')
          else bindE (openai_content_to_anthropic content) (\<lambda>blocks.
            bindE (if role = JStr ''assistant'' then
                     bindE (array_of (dict_get_default message ''tool_calls'' (JArr [])) ''tool calls'')
                       (mapE tool_use_block)
                   else Inr []) (\<lambda>calls.
              Inr (systems, messages @ [message_of role (JArr (blocks @ calls))])))))))"

definition openai_tool :: "json list \<Rightarrow> json \<Rightarrow> json list res" where
  "openai_tool tools raw_tool =
     bindE (object_of raw_tool ''tool'') (\<lambda>item.
     if get_or_null item ''type'' \<noteq> JStr ''function'' then Inr tools
     else bindE (object_of (or_else (get_or_null item ''function'') (JObj [])) ''tool function'') (\<lambda>function.
       Inr (tools @ [JObj [(''name'', get_or_null function ''name''),
         (''description'', dict_get_default function ''description'' (JStr [])),
         (''input_schema'', dict_get_default function ''parameters'' no_schema)]])))"

definition openai_tool_choice :: "json \<Rightarrow> json dict res" where
  "openai_tool_choice choice =
     (if choice = JStr ''auto'' then Inr [(''tool_choice'', JObj [(''type'', JStr ''auto'')])]
      else if choice = JStr ''required'' then Inr [(''tool_choice'', JObj [(''type'', JStr ''any'')])]
      else (case choice of
        JObj d \<Rightarrow>
          if get_or_null d ''type'' = JStr ''function'' then
            bindE (object_of (or_else (get_or_null d ''function'') (JObj [])) ''tool choice'') (\<lambda>function.
              Inr [(''tool_choice'', JObj [(''type'', JStr ''tool''), (''name'', get_or_null function ''name'')])])
          else Inr []
      | _ \<Rightarrow> Inr []))"

definition output_config :: "json \<Rightarrow> json dict res" where
  "output_config response_format = (case or_else response_format (JObj []) of
     JObj d \<Rightarrow>
       if get_or_null d ''type'' = JStr ''json_schema'' then
         bindE (object_of (or_else (get_or_null d ''json_schema'') (JObj [])) ''JSON schema'') (\<lambda>s.
           Inr (case get_or_null s ''schema'' of
             JObj schema \<Rightarrow> [(''output_config'', JObj [(''format'', JObj [(''type'', JStr ''json_schema''),
                (''schema'', JObj schema)])])]
           | _ \<Rightarrow> []))
       else Inr []
   | _ \<Rightarrow> Inr [])"

definition openai_request_to_anthropic :: "json dict \<Rightarrow> string \<Rightarrow> json dict res" where
  "openai_request_to_anthropic payload model =
     bindE (array_of (dict_get_default payload ''messages'' (JArr [])) ''messages'') (\<lambda>raw_messages.
     bindE (foldE openai_message ([], []) raw_messages) (\<lambda>(systems, messages).
     bindE (if systems = [] then Inr [] else
              bindE (mapE blocks_to_text systems) (\<lambda>ts.
                Inr [(''system'', JStr (py_join [newline, newline] ts))])) (\<lambda>system.
     bindE (array_of (dict_get_default payload ''tools'' (JArr [])) ''tools'') (\<lambda>raw_tools.
     bindE (foldE openai_tool [] raw_tools) (\<lambda>tools.
     bindE (openai_tool_choice (get_or_null payload ''tool_choice'')) (\<lambda>tool_choice.
     bindE (output_config (get_or_null payload ''response_format'')) (\<lambda>config.
       Inr (copy_keys [(''temperature'', ''temperature''), (''top_p'', ''top_p''), (''stop'', ''stop_sequences'')]
              payload
              ([(''model'', JStr model), (''messages'', JArr messages),
                (''max_tokens'', dict_get_default payload ''max_tokens'' (JInt 4096)),
                (''stream'', dict_get_default payload ''stream'' (JBool False))] @ system)
            @ (if tools = [] then [] else [(''tools'', JArr tools)]) @ tool_choice @ config))))))))"

section \<open>Responses requests to Chat Completions, and their responses back\<close>

definition responses_content_item :: "json list \<Rightarrow> json \<Rightarrow> json list res" where
  "responses_content_item converted raw_item =
     bindE (object_of raw_item ''Responses content item'') (\<lambda>item.
     bindE (in_str_set (get_or_null item ''type'') [''input_text'', ''output_text'', ''text'']) (\<lambda>is_text.
     if is_text then Inr (converted @ [text_part (dict_get_default item ''text'' (JStr []))])
     else bindE (in_str_set (get_or_null item ''type'') [''input_image'', ''image_url'']) (\<lambda>is_image.
       Inr (if is_image then
              (let image = dict_get_default item ''image_url'' (dict_get_default item ''url'' (JStr []))
               in converted @ [image_url_part
                    (case image of JObj d \<Rightarrow> dict_get_default d ''url'' (JStr []) | _ \<Rightarrow> image)])
            else converted))))"

definition responses_content_to_chat :: "json \<Rightarrow> json res" where
  "responses_content_to_chat v = (case v of
     JStr _ \<Rightarrow> Inr v
   | _ \<Rightarrow> bindE (array_of v ''Responses content'') (\<lambda>items.
       bindE (foldE responses_content_item [] items) (\<lambda>converted. Inr (JArr converted))))"

definition responses_item :: "json \<Rightarrow> json res" where
  "responses_item raw_item =
     bindE (object_of raw_item ''Responses input item'') (\<lambda>item.
     if get_or_null item ''type'' = JStr ''function_call_output'' then
       Inr (tool_message (get_or_null item ''call_id'') (json_text (dict_get_default item ''output'' (JStr []))))
     else if get_or_null item ''type'' = JStr ''function_call'' then
       Inr (JObj [(''role'', JStr ''assistant''), (''content'', JNull),
         (''tool_calls'', JArr [tool_call (dict_get_default item ''call_id'' (get_or_null item ''id''))
            (get_or_null item ''name'') (json_text (dict_get_default item ''arguments'' (JStr ''{}'')))])])
     else bindE (in_str_set (get_or_null item ''role'') [''system'', ''developer'', ''user'', ''assistant''])
       (\<lambda>ok.
          if ok then bindE (responses_content_to_chat (dict_get_default item ''content'' (JStr [])))
            (\<lambda>content. Inr (message_of (get_or_null item ''role'') content))
          else Inl (ValueError ''Responses input item is unsupported'')))"

definition responses_tool :: "json list \<Rightarrow> json \<Rightarrow> json list res" where
  "responses_tool tools raw_tool =
     bindE (object_of raw_tool ''tool'') (\<lambda>tool.
     if get_or_null tool ''type'' \<noteq> JStr ''function'' then Inr tools
     else (let function = (case get_or_null tool ''function'' of JObj f \<Rightarrow> f | _ \<Rightarrow> tool)
       in Inr (tools @ [JObj [(''type'', JStr ''function''),
            (''function'', JObj [(''name'', get_or_null function ''name''),
               (''description'', dict_get_default function ''description'' (JStr [])),
               (''parameters'', dict_get_default function ''parameters'' no_schema)])]])))"

definition responses_keys :: "string list" where
  "responses_keys = [''temperature'', ''top_p'', ''stop'', ''presence_penalty'', ''frequency_penalty'',
     ''parallel_tool_calls'', ''tool_choice'', ''response_format'']"

definition responses_to_chat :: "json dict \<Rightarrow> string \<Rightarrow> json dict res" where
  "responses_to_chat payload model =
     bindE (case dict_get_default payload ''input'' (JStr []) of
              JStr s \<Rightarrow> Inr [message_of (JStr ''user'') (JStr s)]
            | v \<Rightarrow> bindE (array_of v ''input'') (mapE responses_item)) (\<lambda>messages.
     bindE (array_of (dict_get_default payload ''tools'' (JArr [])) ''tools'') (\<lambda>raw_tools.
     bindE (foldE responses_tool [] raw_tools) (\<lambda>tools.
     bindE (case dict_get payload ''instructions'' of
              None \<Rightarrow> Inr []
            | Some v \<Rightarrow> bindE (responses_content_to_chat v) (\<lambda>content.
                Inr [message_of (JStr ''developer'') content])) (\<lambda>developer.
       Inr (copy_keys (map (\<lambda>k. (k, k)) responses_keys) payload
              [(''model'', JStr model), (''messages'', JArr (developer @ messages)), (''tools'', JArr tools),
               (''stream'', dict_get_default payload ''stream'' (JBool False)),
               (''max_tokens'', dict_get_default payload ''max_output_tokens''
                  (dict_get_default payload ''max_completion_tokens'' (JInt 4096)))])))))"

definition function_call_item :: "json \<Rightarrow> json res" where
  "function_call_item raw_call =
     bindE (object_of raw_call ''tool call'') (\<lambda>call.
     bindE (object_of (or_else (get_or_null call ''function'') (JObj [])) ''tool function'') (\<lambda>function.
       Inr (JObj [(''id'', get_or_null call ''id''), (''type'', JStr ''function_call''),
                  (''call_id'', get_or_null call ''id''), (''name'', get_or_null function ''name''),
                  (''arguments'', JStr (json_text (dict_get_default function ''arguments'' (JStr ''{}'')))),
                  (''status'', JStr ''completed'')])))"

definition output_text_part :: "string \<Rightarrow> json" where
  "output_text_part t = JObj [(''type'', JStr ''output_text''), (''text'', JStr t), (''annotations'', JArr [])]"

definition chat_to_responses :: "json dict \<Rightarrow> string \<Rightarrow> json dict res" where
  "chat_to_responses response requested_model =
     bindE (first_choice response) (\<lambda>choice.
     bindE (object_of (or_else (get_or_null choice ''message'') (JObj [])) ''provider message'') (\<lambda>message.
     bindE (chat_text_parts (get_or_null message ''content'')) (\<lambda>texts.
     bindE (array_of (dict_get_default message ''tool_calls'' (JArr [])) ''tool calls'') (\<lambda>raw_calls.
     bindE (mapE function_call_item raw_calls) (\<lambda>calls.
     bindE (object_of (or_else (get_or_null response ''usage'') (JObj [])) ''usage'') (\<lambda>usage.
     let input_tokens = nonnegative_int (dict_get_default usage ''prompt_tokens'' (JInt 0));
         output_tokens = nonnegative_int (dict_get_default usage ''completion_tokens'' (JInt 0))
     in Inr [(''id'', dict_get_default response ''id'' (JStr ''resp_zeaz'')), (''object'', JStr ''response''),
             (''created_at'', JInt (nonnegative_int (dict_get_default response ''created'' (JInt 0)))),
             (''status'', JStr ''completed''), (''model'', JStr requested_model),
             (''output'', JArr
                ((if texts = [] then []
                  else [JObj [(''id'', JStr ''msg_zeaz''), (''type'', JStr ''message''), (''role'', JStr ''assistant''),
                    (''status'', JStr ''completed''), (''content'', JArr (map output_text_part texts))]]) @ calls)),
             (''output_text'', JStr (concat texts)),
             (''usage'', JObj [(''input_tokens'', JInt input_tokens), (''output_tokens'', JInt output_tokens),
                (''total_tokens'', JInt (nonnegative_int
                   (dict_get_default usage ''total_tokens'' (JInt (input_tokens + output_tokens)))))])]))))))"

section \<open>Lookups in converted dictionaries\<close>

lemma array_of_Inr [res_simps]: "array_of v label = Inr vs \<longleftrightarrow> v = JArr vs"
  by (cases v) (simp_all add: array_of_def)

lemma object_of_Inr [res_simps]: "object_of v label = Inr d \<longleftrightarrow> v = JObj d"
  by (cases v) (simp_all add: object_of_def)

lemma array_of_JArr [simp]: "array_of (JArr vs) label = Inr vs"
  by (simp add: array_of_def)

lemma object_of_JObj [simp]: "object_of (JObj d) label = Inr d"
  by (simp add: object_of_def)

lemma copy_keys_other:
  "k \<notin> snd ` set keys \<Longrightarrow> dict_get (copy_keys keys payload r) k = dict_get r k"
  unfolding copy_keys_def
proof (induction keys arbitrary: r)
  case (Cons st keys)
  then show ?case by (auto simp: dict_get_set split: prod.split option.split)
qed simp

lemma dict_get_append: "dict_get (d @ e) k = (case dict_get d k of None \<Rightarrow> dict_get e k | Some v \<Rightarrow> Some v)"
  by (auto simp: dict_get_def map_add_def split: option.split)

lemma dict_get_Cons [simp]: "dict_get ((k, v) # d) j = (if k = j then Some v else dict_get d j)"
  by (simp add: dict_get_def)

lemma dict_get_Nil [simp]: "dict_get [] j = None"
  by (simp add: dict_get_def)

lemma dict_get_default_Cons [simp]:
  "dict_get_default ((k, v) # d) j w = (if k = j then v else dict_get_default d j w)"
  by (simp add: dict_get_default_def)

lemma dict_get_default_Nil [simp]: "dict_get_default [] j w = w"
  by (simp add: dict_get_default_def)

section \<open>Round trip of a conversation\<close>

text \<open>
  The turns of a conversation with tools, as the Anthropic API writes them: texts of the user,
  texts and tool calls (id, name, input) of the assistant, and the result of a tool call.
\<close>

datatype turn =
    UserTurn "string list"
  | AssistantTurn "string list" "(string \<times> string \<times> json dict) list"
  | ToolTurn string string

definition text_block :: "string \<Rightarrow> json" where
  "text_block t = text_part (JStr t)"

definition use_block :: "string \<times> string \<times> json dict \<Rightarrow> json" where
  "use_block c = (case c of (i, n, d) \<Rightarrow>
     JObj [(''type'', JStr ''tool_use''), (''id'', JStr i), (''name'', JStr n), (''input'', JObj d)])"

definition turn_message :: "turn \<Rightarrow> json" where
  "turn_message t = (case t of
     UserTurn ts \<Rightarrow> message_of (JStr ''user'') (JArr (map text_block ts))
   | AssistantTurn ts calls \<Rightarrow> message_of (JStr ''assistant'') (JArr (map text_block ts @ map use_block calls))
   | ToolTurn i t \<Rightarrow> tool_result_message (JStr i) [text_block t])"

definition turn_ok :: "turn \<Rightarrow> bool" where
  "turn_ok t = (case t of
     UserTurn ts \<Rightarrow> ts \<noteq> []
   | AssistantTurn ts calls \<Rightarrow> (ts \<noteq> [] \<or> calls \<noteq> []) \<and> list_all (\<lambda>(i, n, d). wf_json (JObj d)) calls
   | ToolTurn i t \<Rightarrow> True)"

definition turn_call :: "string \<times> string \<times> json dict \<Rightarrow> json" where
  "turn_call c = (case c of (i, n, d) \<Rightarrow> tool_call (JStr i) (JStr n) (json_dumps (JObj d)))"

definition chat_message :: "turn \<Rightarrow> json" where
  "chat_message t = (case t of
     UserTurn ts \<Rightarrow> JObj [(''role'', JStr ''user''), (''content'', JArr (map text_block ts))]
   | AssistantTurn ts calls \<Rightarrow>
       JObj ([(''role'', JStr ''assistant''), (''content'', if ts = [] then JNull else JArr (map text_block ts))]
         @ (if calls = [] then [] else [(''tool_calls'', JArr (map turn_call calls))]))
   | ToolTurn i t \<Rightarrow> tool_message (JStr i) t)"

lemmas lookup_simps = get_or_null_def dict_get_Cons dict_get_default_Cons

lemma anthropic_texts:
  "foldE anthropic_block ls (map text_block ts) = Inr (ls\<lparr>bl_text_parts := bl_text_parts ls @ map text_block ts\<rparr>)"
  by (induction ts arbitrary: ls)
    (simp_all add: text_block_def text_part_def anthropic_block_def get_or_null_def py_str_def)

lemma anthropic_uses:
  "foldE anthropic_block ls (map use_block cs) = Inr (ls\<lparr>bl_tool_calls := bl_tool_calls ls @ map turn_call cs\<rparr>)"
proof (induction cs arbitrary: ls)
  case (Cons c cs)
  obtain i n d where "c = (i, n, d)" by (cases c)
  then show ?case using Cons
    by (simp add: use_block_def turn_call_def anthropic_block_def get_or_null_def)
qed simp

lemma blocks_to_text_one: "blocks_to_text (JArr [text_block t]) = Inr t"
  by (simp add: blocks_to_text_def block_text_def text_block_def text_part_def py_str_def)

lemma anthropic_turn:
  assumes "turn_ok t"
  shows "anthropic_message messages (turn_message t) = Inr (messages @ [chat_message t])"
proof (cases t)
  case (UserTurn ts)
  then show ?thesis using assms
    by (simp add: turn_ok_def turn_message_def message_of_def anthropic_message_def get_or_null_def
        anthropic_texts chat_message_def)
next
  case (AssistantTurn ts cs)
  then show ?thesis using assms
    by (simp add: turn_ok_def turn_message_def message_of_def anthropic_message_def get_or_null_def
        foldE_append anthropic_texts anthropic_uses chat_message_def)
next
  case (ToolTurn i s)
  then show ?thesis
    by (simp add: turn_message_def tool_result_message_def message_of_def anthropic_message_def get_or_null_def
        anthropic_block_def blocks_to_text_one chat_message_def)
qed

lemma anthropic_turns:
  "list_all turn_ok ts \<Longrightarrow>
     foldE anthropic_message messages (map turn_message ts) = Inr (messages @ map chat_message ts)"
  by (induction ts arbitrary: messages) (simp_all add: anthropic_turn)

lemma openai_texts: "foldE openai_content_item bs (map text_block ts) = Inr (bs @ map text_block ts)"
  by (induction ts arbitrary: bs)
    (simp_all add: text_block_def text_part_def openai_content_item_def get_or_null_def)

lemma json_object_dumps: "wf_json (JObj d) \<Longrightarrow> json_object (JStr (json_dumps (JObj d))) = d"
  using py_json.codec_roundtrip[of "JObj d"] by (simp add: json_object_def)

lemma openai_calls:
  "list_all (\<lambda>(i, n, d). wf_json (JObj d)) cs \<Longrightarrow> mapE tool_use_block (map turn_call cs) = Inr (map use_block cs)"
proof (induction cs)
  case (Cons c cs)
  obtain i n d where "c = (i, n, d)" by (cases c)
  then show ?case using Cons
    by (simp add: use_block_def turn_call_def tool_call_def tool_use_block_def get_or_null_def or_else_def
        json_object_dumps del: wf_json.simps json_dumps.simps)
qed simp

lemma openai_turn:
  assumes "turn_ok t"
  shows "openai_message (systems, messages) (chat_message t) = Inr (systems, messages @ [turn_message t])"
proof (cases t)
  case (UserTurn ts)
  then show ?thesis
    by (simp add: turn_message_def message_of_def openai_message_def get_or_null_def Let_def
        openai_content_to_anthropic_def openai_texts chat_message_def)
next
  case (AssistantTurn ts cs)
  then show ?thesis using assms
    by (simp add: turn_ok_def turn_message_def message_of_def openai_message_def get_or_null_def Let_def
        openai_content_to_anthropic_def openai_texts openai_calls chat_message_def)
next
  case (ToolTurn i s)
  then show ?thesis
    by (simp add: turn_message_def tool_result_message_def message_of_def openai_message_def get_or_null_def
        Let_def openai_content_to_anthropic_def text_block_def chat_message_def tool_message_def)
qed

lemma openai_turns:
  "list_all turn_ok ts \<Longrightarrow>
     foldE openai_message (systems, messages) (map chat_message ts) = Inr (systems, messages @ map turn_message ts)"
  by (induction ts arbitrary: messages) (simp_all add: openai_turn)

lemma tool_choice_keys: "k \<noteq> ''tool_choice'' \<Longrightarrow> dict_get (anthropic_tool_choice c) k = None"
  by (cases c) (simp_all add: anthropic_tool_choice_def)

lemma anthropic_to_openai_Inr:
  assumes "anthropic_to_openai p m = Inr q"
  obtains system raw_messages messages raw_tools tools where
    "anthropic_system p = Inr system"
    "dict_get_default p ''messages'' (JArr []) = JArr raw_messages"
    "foldE anthropic_message system raw_messages = Inr messages"
    "dict_get_default p ''tools'' (JArr []) = JArr raw_tools"
    "mapE anthropic_tool raw_tools = Inr tools"
    "dict_get q ''model'' = Some (JStr m)"
    "dict_get q ''messages'' = Some (JArr messages)"
    "dict_get q ''max_tokens'' = Some (dict_get_default p ''max_tokens'' (JInt 4096))"
    "dict_get q ''stream'' = Some (dict_get_default p ''stream'' (JBool False))"
    "dict_get q ''tools'' = (if tools = [] then None else Some (JArr tools))"
    "dict_get q ''tool_choice'' = dict_get (anthropic_tool_choice (get_or_null p ''tool_choice'')) ''tool_choice''"
    "dict_get q ''response_format'' = None"
proof -
  obtain system raw_messages messages raw_tools tools where run:
      "anthropic_system p = Inr system"
      "dict_get_default p ''messages'' (JArr []) = JArr raw_messages"
      "foldE anthropic_message system raw_messages = Inr messages"
      "dict_get_default p ''tools'' (JArr []) = JArr raw_tools"
      "mapE anthropic_tool raw_tools = Inr tools"
      "Inr (copy_keys [(''temperature'', ''temperature''), (''top_p'', ''top_p''), (''stop_sequences'', ''stop'')] p
              [(''model'', JStr m), (''messages'', JArr messages),
               (''max_tokens'', dict_get_default p ''max_tokens'' (JInt 4096)),
               (''stream'', dict_get_default p ''stream'' (JBool False))]
            @ (if tools = [] then [] else [(''tools'', JArr tools)])
            @ anthropic_tool_choice (get_or_null p ''tool_choice'')) = (Inr q :: json dict res)"
    using assms unfolding anthropic_to_openai_def bindE_eq_Inr array_of_Inr
    by (elim exE conjE) (rule that)
  note q = run(6)[unfolded sum.inject, symmetric]
  show thesis
    by (rule that[OF run(1-5)]) (simp_all add: q dict_get_append copy_keys_other tool_choice_keys)
qed

text \<open>A tool's declaration with the defaults the conversion gives it.\<close>

definition canonical_tool :: "json \<Rightarrow> json" where
  "canonical_tool raw = (case raw of
     JObj d \<Rightarrow> JObj [(''name'', get_or_null d ''name''),
       (''description'', dict_get_default d ''description'' (JStr [])),
       (''input_schema'', dict_get_default d ''input_schema'' no_schema)]
   | _ \<Rightarrow> JNull)"

lemma tool_roundtrip:
  assumes "anthropic_tool raw = Inr t"
  shows "openai_tool ts t = Inr (ts @ [canonical_tool raw])"
proof -
  obtain d n where d: "raw = JObj d" "get_or_null d ''name'' = JStr n" "n \<noteq> []"
      "t = JObj [(''type'', JStr ''function''),
         (''function'', JObj [(''name'', JStr n), (''description'', dict_get_default d ''description'' (JStr [])),
            (''parameters'', dict_get_default d ''input_schema'' no_schema)])]"
    using assms unfolding anthropic_tool_def bindE_eq_Inr object_of_Inr
    by (elim exE conjE, rename_tac d, case_tac "get_or_null d ''name''") (auto split: if_splits)
  show ?thesis unfolding d(4) canonical_tool_def d(1) json.case d(2)
    by (simp add: openai_tool_def get_or_null_def or_else_def)
qed

lemma tools_roundtrip:
  "mapE anthropic_tool raws = Inr tools \<Longrightarrow> foldE openai_tool ts tools = Inr (ts @ map canonical_tool raws)"
proof (induction raws arbitrary: tools ts)
  case (Cons raw raws)
  then obtain t us where t: "tools = t # us" "anthropic_tool raw = Inr t" "mapE anthropic_tool raws = Inr us"
    by (auto simp: bindE_eq_Inr)
  then show ?case using Cons.IH[OF t(3)] by (simp add: tool_roundtrip[OF t(2)])
qed simp

lemma tool_choice_roundtrip:
  "openai_tool_choice (case dict_get (anthropic_tool_choice c) ''tool_choice'' of None \<Rightarrow> JNull | Some v \<Rightarrow> v)
     = Inr (case c of JObj d \<Rightarrow>
         if get_or_null d ''type'' = JStr ''auto'' \<or> get_or_null d ''type'' = JStr ''any'' then
           [(''tool_choice'', JObj [(''type'', get_or_null d ''type'')])]
         else if get_or_null d ''type'' = JStr ''tool'' then
           [(''tool_choice'', JObj [(''type'', JStr ''tool''), (''name'', get_or_null d ''name'')])]
         else [] | _ \<Rightarrow> [])"
  by (cases c) (simp_all add: anthropic_tool_choice_def openai_tool_choice_def get_or_null_def[of "[_]"]
      get_or_null_def[of "[_, _]"] or_else_def)

lemma only_tool_choice:
  "openai_tool_choice c = Inr d \<Longrightarrow> k \<noteq> ''tool_choice'' \<Longrightarrow> dict_get d k = None"
  unfolding openai_tool_choice_def
  by (cases c) (auto simp: bindE_eq_Inr split: if_splits)

text \<open>What a request to the Anthropic API is made of, given what its parts convert to.\<close>

lemma openai_request_parts:
  assumes "dict_get q ''messages'' = Some (JArr raws)"
    and "foldE openai_message ([], []) raws = Inr (systems, messages)"
    and "mapE blocks_to_text systems = Inr texts"
    and "dict_get_default q ''tools'' (JArr []) = JArr raw_tools"
    and "foldE openai_tool [] raw_tools = Inr tools"
    and "openai_tool_choice (get_or_null q ''tool_choice'') = Inr choice"
    and "dict_get q ''response_format'' = None"
  shows "\<exists>r. openai_request_to_anthropic q m = Inr r \<and> dict_get r ''messages'' = Some (JArr messages) \<and>
    dict_get r ''max_tokens'' = Some (dict_get_default q ''max_tokens'' (JInt 4096)) \<and>
    dict_get r ''stream'' = Some (dict_get_default q ''stream'' (JBool False)) \<and>
    dict_get r ''system'' = (if systems = [] then None else Some (JStr (py_join [newline, newline] texts))) \<and>
    dict_get_default r ''tools'' (JArr []) = JArr tools \<and>
    dict_get r ''tool_choice'' = dict_get choice ''tool_choice''"
proof -
  have config: "output_config (get_or_null q ''response_format'') = Inr []"
    using assms(7) by (simp add: output_config_def get_or_null_def dict_get_default_eq or_else_def)
  have msgs: "dict_get_default q ''messages'' (JArr []) = JArr raws"
    using assms(1) by (simp add: dict_get_default_eq)
  show ?thesis
    by (simp add: openai_request_to_anthropic_def msgs assms(2-6) config dict_get_append dict_get_default_eq[of "_ @ _"]
        copy_keys_other only_tool_choice[OF assms(6)])
qed


definition demo_turns :: "turn list" where
  "demo_turns = [UserTurn [''hi''], AssistantTurn [] [(''c1'', ''add'', [(''x'', JInt 1)])], ToolTurn ''c1'' ''2'']"

definition demo_request :: "json dict" where
  "demo_request = [(''system'', JStr ''be brief''), (''messages'', JArr (map turn_message demo_turns)),
     (''tools'', JArr [JObj [(''name'', JStr ''add'')]])]"

lemma demo_turns_ok: "list_all turn_ok demo_turns"
  by (simp add: demo_turns_def turn_ok_def)


section \<open>Converted responses\<close>

lemma chat_text_part_nonempty:
  "chat_text_part parts item = Inr parts' \<Longrightarrow> [] \<notin> set parts \<Longrightarrow> [] \<notin> set parts'"
  unfolding chat_text_part_def bindE_eq_Inr
  by (elim exE conjE, rename_tac d b, case_tac "dict_get_default d ''text'' (JStr [])") (auto split: if_splits)

lemma chat_text_parts_nonempty:
  assumes "chat_text_parts v = Inr texts"
  shows "[] \<notin> set texts"
proof (cases v)
  case (JArr items)
  then have "foldE chat_text_part [] items = Inr texts" using assms by (simp add: chat_text_parts_def)
  then show ?thesis by (rule foldE_invariant) (simp, rule chat_text_part_nonempty)
qed (use assms in \<open>auto simp: chat_text_parts_def bindE_eq_Inr array_of_def split: if_splits\<close>)

definition is_tool_use :: "json \<Rightarrow> bool" where
  "is_tool_use b = (case b of
     JObj [(k1, JStr t), (k2, _), (k3, _), (k4, JObj _)] \<Rightarrow>
       k1 = ''type'' \<and> t = ''tool_use'' \<and> k2 = ''id'' \<and> k3 = ''name'' \<and> k4 = ''input''
   | _ \<Rightarrow> False)"

lemma tool_use_blocks: "mapE tool_use_block raws = Inr calls \<Longrightarrow> list_all is_tool_use calls \<and> length calls = length raws"
proof (induction raws arbitrary: calls)
  case (Cons r raws)
  then obtain c cs where c: "calls = c # cs" "tool_use_block r = Inr c" "mapE tool_use_block raws = Inr cs"
    by (auto simp: bindE_eq_Inr)
  have "is_tool_use c" using c(2) by (auto simp: tool_use_block_def bindE_eq_Inr is_tool_use_def)
  then show ?case using Cons.IH[OF c(3)] c by simp
qed simp

lemma stop_reason_cases: "stop_reason_of f = Inr s \<Longrightarrow>
    s = (if f = JStr ''tool_calls'' then ''tool_use'' else if f = JStr ''length'' then ''max_tokens'' else ''end_turn'')"
  by (cases f) (auto simp: stop_reason_of_def split: if_splits)

lemma nonnegative_int_ge: "0 \<le> nonnegative_int v"
  by (cases v) (simp_all add: nonnegative_int_def)

text \<open>
  Every Chat Completions response that is converted becomes an assistant message for the
  requested model whose content is non-empty text blocks followed by one tool-use block per tool
  call, each with an object as its input; the stop reason is \<open>tool_use\<close> exactly for a finish
  reason \<open>tool_calls\<close>, and the token counts are natural numbers.
\<close>

theorem anthropic_response_wf:
  assumes "openai_to_anthropic response m = Inr r"
  shows "dict_get r ''role'' = Some (JStr ''assistant'') \<and> dict_get r ''model'' = Some (JStr m) \<and>
    (\<exists>choice message texts raw_calls calls inp out. first_choice response = Inr choice \<and>
       or_else (get_or_null choice ''message'') (JObj []) = JObj message \<and>
       dict_get_default message ''tool_calls'' (JArr []) = JArr raw_calls \<and>
       dict_get r ''content'' = Some (JArr (map text_block texts @ calls)) \<and>
       [] \<notin> set texts \<and> list_all is_tool_use calls \<and> length calls = length raw_calls \<and>
       dict_get r ''stop_reason'' = Some (JStr
         (if get_or_null choice ''finish_reason'' = JStr ''tool_calls'' then ''tool_use''
          else if get_or_null choice ''finish_reason'' = JStr ''length'' then ''max_tokens'' else ''end_turn'')) \<and>
       dict_get r ''usage'' = Some (JObj [(''input_tokens'', JInt inp), (''output_tokens'', JInt out)]) \<and>
       0 \<le> inp \<and> 0 \<le> out)"
proof -
  obtain choice message texts raw_calls calls stop usage where c:
      "first_choice response = Inr choice"
      "or_else (get_or_null choice ''message'') (JObj []) = JObj message"
      "chat_text_parts (get_or_null message ''content'') = Inr texts"
      "dict_get_default message ''tool_calls'' (JArr []) = JArr raw_calls"
      "mapE tool_use_block raw_calls = Inr calls"
      "stop_reason_of (get_or_null choice ''finish_reason'') = Inr stop"
      "Inr [(''id'', dict_get_default response ''id'' (JStr ''msg_zeaz'')),
            (''type'', JStr ''message''), (''role'', JStr ''assistant''), (''model'', JStr m),
            (''content'', JArr (map (\<lambda>t. text_part (JStr t)) texts @ calls)),
            (''stop_reason'', JStr stop), (''stop_sequence'', JNull),
            (''usage'', JObj
               [(''input_tokens'', JInt (nonnegative_int (dict_get_default usage ''prompt_tokens'' (JInt 0)))),
                (''output_tokens'', JInt (nonnegative_int (dict_get_default usage ''completion_tokens'' (JInt 0))))])]
         = (Inr r :: json dict res)"
    using assms unfolding openai_to_anthropic_def bindE_eq_Inr array_of_Inr object_of_Inr
    by (elim exE conjE) (rule that)
  note r = c(7)[unfolded sum.inject, symmetric]
  note facts = chat_text_parts_nonempty[OF c(3)] tool_use_blocks[OF c(5)] nonnegative_int_ge
  have got: "dict_get r ''role'' = Some (JStr ''assistant'')" "dict_get r ''model'' = Some (JStr m)"
    "dict_get r ''content'' = Some (JArr (map text_block texts @ calls))"
    "dict_get r ''stop_reason'' = Some (JStr stop)"
    "dict_get r ''usage'' = Some (JObj
        [(''input_tokens'', JInt (nonnegative_int (dict_get_default usage ''prompt_tokens'' (JInt 0)))),
         (''output_tokens'', JInt (nonnegative_int (dict_get_default usage ''completion_tokens'' (JInt 0))))])"
    by (simp_all add: r text_block_def[abs_def])
  show ?thesis
    by (intro conjI got(1,2), rule exI[of _ choice], rule exI[of _ message], rule exI[of _ texts],
        rule exI[of _ raw_calls], rule exI[of _ calls], rule exI, rule exI, intro conjI)
      (use c(1,2,4) facts got(3-5) stop_reason_cases[OF c(6)] in \<open>simp_all\<close>)
qed

definition demo_response :: "json dict" where
  "demo_response = [(''id'', JStr ''r1''), (''choices'', JArr [JObj
     [(''finish_reason'', JStr ''tool_calls''),
      (''message'', JObj [(''content'', JStr ''ok''), (''tool_calls'', JArr [JObj [(''id'', JStr ''c1''),
         (''function'', JObj [(''name'', JStr ''add''), (''arguments'', JStr ''{bad'')])]])])]]),
     (''usage'', JObj [(''prompt_tokens'', JInt (-3)), (''completion_tokens'', JBool True)])]"

lemma demo_response_converts:
  "\<exists>r. openai_to_anthropic demo_response ''m'' = Inr r \<and> dict_get r ''stop_reason'' = Some (JStr ''tool_use'')"
  by (simp add: openai_to_anthropic_def demo_response_def first_choice_def or_else_def get_or_null_def
      chat_text_parts_def tool_use_block_def stop_reason_of_def)

theorem anthropic_response_wf_witness:
  "\<exists>r texts calls. openai_to_anthropic demo_response ''m'' = Inr r \<and> dict_get r ''model'' = Some (JStr ''m'') \<and>
     dict_get r ''content'' = Some (JArr (map text_block texts @ calls)) \<and> [] \<notin> set texts \<and> list_all is_tool_use calls"
proof -
  obtain r where "openai_to_anthropic demo_response ''m'' = Inr r" using demo_response_converts by blast
  then show ?thesis using anthropic_response_wf[of demo_response "''m''" r] by blast
qed

text \<open>
  A response whose message carries \<open>"tool_calls": null\<close> is refused by both response conversions,
  although the same \<open>null\<close> in a streamed delta is read as no tool calls.
\<close>

theorem null_tool_calls_rejected:
  assumes "first_choice response = Inr choice" "get_or_null choice ''message'' = JObj message"
    and "dict_get message ''tool_calls'' = Some JNull"
  shows "(\<exists>e. openai_to_anthropic response m = Inl e) \<and> (\<exists>e. chat_to_responses response m = Inl e)"
proof -
  have msg: "or_else (get_or_null choice ''message'') (JObj []) = JObj message"
    using assms(2,3) by (auto simp: or_else_def)
  have "array_of (dict_get_default message ''tool_calls'' (JArr [])) ''tool calls''
      = Inl (ValueError ''tool calls must be an array'')"
    using assms(3) by (simp add: dict_get_default_eq array_of_def)
  then show ?thesis
    by (cases "chat_text_parts (get_or_null message ''content'')")
      (simp_all add: openai_to_anthropic_def chat_to_responses_def assms(1) msg)
qed

theorem null_tool_calls_rejected_witness:
  "\<exists>e. openai_to_anthropic [(''choices'', JArr [JObj [(''message'', JObj [(''content'', JStr ''hello''),
     (''tool_calls'', JNull)])]])] ''m'' = Inl e"
  using null_tool_calls_rejected[of "[(''choices'', JArr [JObj [(''message'', JObj [(''content'', JStr ''hello''),
     (''tool_calls'', JNull)])]])]" "[(''message'', JObj [(''content'', JStr ''hello''), (''tool_calls'', JNull)])]"
     "[(''content'', JStr ''hello''), (''tool_calls'', JNull)]" "''m''"]
  by (simp add: first_choice_def get_or_null_def)

end
