(* ===== verification/Streaming.thy ===== *)
theory Streaming
  imports PyText
begin

text \<open>
  Server-sent events (\<open>src/zeaz_provider/streaming.py\<close>): the parser of a provider's stream, the
  rewriting of model names, and the three translations between the streaming protocols. A chunk is
  given by the text that \<open>chunk.decode(errors="replace")\<close> returns for it. Each generator is a fold of
  one step over the events; a step returns the frames it yields and, unless the generator returns
  there, its next state. A frame is an event name and a JSON value, which \<open>sse_data\<close> and
  \<open>event_data\<close> print. \<open>source_end\<close> says how the provider's stream ends: only an exhausted one lets
  the generator go on after its loop, anything else propagates.
\<close>

section \<open>Parsing\<close>

type_synonym sse_event = "string \<times> string"

abbreviation blank_line :: string where "blank_line \<equiv> [newline, newline]"

fun frame_lines :: "string \<Rightarrow> string list \<Rightarrow> string list \<Rightarrow> string \<times> string list" where
  "frame_lines event data [] = (event, data)"
| "frame_lines event data (line # ls) =
     (if starts_with ''event:'' line then frame_lines (py_strip (drop 6 line)) data ls
      else if starts_with ''data:'' line then frame_lines event (data @ [py_lstrip (drop 5 line)]) ls
      else frame_lines event data ls)"

definition parse_frame :: "string \<Rightarrow> sse_event list" where
  "parse_frame frame =
     (case frame_lines ''message'' [] (py_splitlines frame) of
        (event, data) \<Rightarrow> if data = [] then [] else [(event, py_join [newline] data)])"

lemma split_once_length: "split_once sep s = Some (a, b) \<Longrightarrow> sep \<noteq> [] \<Longrightarrow> length b < length s"
  by (drule split_once_Some) simp

text \<open>\<open>while "\n\n" in buffer\<close>: the events of the complete frames, and what is left.\<close>

function sse_frames :: "string \<Rightarrow> sse_event list \<times> string" where
  "sse_frames buffer = (case split_once blank_line buffer of
     None \<Rightarrow> ([], buffer)
   | Some (frame, rest) \<Rightarrow> (case sse_frames rest of (events, left) \<Rightarrow> (parse_frame frame @ events, left)))"
  by auto
termination
  by (relation "measure length") (auto dest: split_once_length)

declare sse_frames.simps [simp del]

fun sse_feed :: "string \<Rightarrow> string list \<Rightarrow> sse_event list \<times> string" where
  "sse_feed buffer [] = ([], buffer)"
| "sse_feed buffer (chunk # chunks) =
     (case sse_frames (buffer @ crlf_to_lf chunk) of (events, rest) \<Rightarrow>
        (case sse_feed rest chunks of (events', left) \<Rightarrow> (events @ events', left)))"

text \<open>What is left in the buffer is a frame of its own when the source is exhausted.\<close>

definition sse_events :: "string list \<Rightarrow> stream_end \<Rightarrow> sse_event list" where
  "sse_events chunks source_end =
     (case sse_feed [] chunks of (events, buffer) \<Rightarrow>
        events @ (if source_end = Exhausted \<and> py_strip buffer \<noteq> [] then parse_frame buffer else []))"

section \<open>Printing\<close>

type_synonym frame = "string \<times> json"

definition sse_data :: "json \<Rightarrow> string" where
  "sse_data v = ''data: '' @ json_dumps v @ blank_line"

definition event_data :: "string \<Rightarrow> json \<Rightarrow> string" where
  "event_data event v = ''event: '' @ event @ [newline] @ ''data: '' @ json_dumps v @ blank_line"

definition safe_event_char :: "char \<Rightarrow> bool" where
  "safe_event_char c = (let n = code_of c in
     48 \<le> n \<and> n \<le> 57 \<or> 65 \<le> n \<and> n \<le> 90 \<or> 97 \<le> n \<and> n \<le> 122 \<or> c \<in> set ''_.:-'')"

definition safe_event :: "string \<Rightarrow> string" where
  "safe_event event = (if event \<noteq> [] \<and> length event \<le> 64 \<and> list_all safe_event_char event then event else ''message'')"

definition sse_frame :: "string \<Rightarrow> string \<Rightarrow> string" where
  "sse_frame event v =
     (if safe_event event \<noteq> ''message'' then ''event: '' @ safe_event event @ [newline] else [])
       @ ''data: '' @ v @ blank_line"

section \<open>Helpers\<close>

definition sse_json :: "string \<Rightarrow> json dict option" where
  "sse_json raw = (case json_loads raw of Some (JObj d) \<Rightarrow> Some d | _ \<Rightarrow> None)"

definition done_marker :: string where
  "done_marker = ''[DONE]''"

definition protocol_error :: json where
  "protocol_error = JObj [(''type'', JStr ''protocol_error''), (''message'', JStr ''Provider returned invalid SSE data'')]"

definition mapping_or_empty :: "json \<Rightarrow> json dict" where
  "mapping_or_empty v = (case v of JObj d \<Rightarrow> d | _ \<Rightarrow> [])"

definition safe_index :: "json \<Rightarrow> int" where
  "safe_index v = (case v of JInt i \<Rightarrow> if 0 \<le> i \<and> i < 100000 then i else 0 | _ \<Rightarrow> 0)"

definition safe_string :: "json \<Rightarrow> string \<Rightarrow> string" where
  "safe_string v dflt = (case v of JStr s \<Rightarrow> if s = [] then dflt else s | _ \<Rightarrow> dflt)"

definition safe_count :: "json \<Rightarrow> int" where
  "safe_count v = (case v of JInt i \<Rightarrow> if 0 \<le> i then i else 0 | _ \<Rightarrow> 0)"

definition chat_chunk :: "string \<Rightarrow> int \<Rightarrow> string \<Rightarrow> json dict \<Rightarrow> json \<Rightarrow> json dict" where
  "chat_chunk stream_id created model delta finish_reason =
     [(''id'', JStr stream_id), (''object'', JStr ''chat.completion.chunk''), (''created'', JInt created),
      (''model'', JStr model),
      (''choices'', JArr [JObj [(''index'', JInt 0), (''delta'', JObj delta), (''finish_reason'', finish_reason)]])]"

definition responses_usage :: "json \<Rightarrow> json" where
  "responses_usage v =
     (let usage = mapping_or_empty v;
          input_tokens = safe_count (get_or_null usage ''prompt_tokens'');
          output_tokens = safe_count (get_or_null usage ''completion_tokens'');
          reported = safe_count (get_or_null usage ''total_tokens'')
      in JObj [(''input_tokens'', JInt input_tokens), (''output_tokens'', JInt output_tokens),
               (''total_tokens'', JInt (if reported \<noteq> 0 then reported else input_tokens + output_tokens))])"

section \<open>Generators as folds\<close>

text \<open>The state after a step: go on, leave the loop (\<open>break\<close>), or end the generator (\<open>return\<close>).\<close>

datatype 's flow = Go 's | Leave 's | Done

fun run_events :: "('s \<Rightarrow> sse_event \<Rightarrow> 'f list \<times> 's flow) \<Rightarrow> 's \<Rightarrow> sse_event list \<Rightarrow> 'f list \<times> 's flow" where
  "run_events f s [] = ([], Go s)"
| "run_events f s (e # es) = (case f s e of
     (out, Go s') \<Rightarrow> (case run_events f s' es of (out', flow) \<Rightarrow> (out @ out', flow))
   | (out, flow) \<Rightarrow> (out, flow))"

text \<open>
  A whole generator: the loop over the events, then what follows the loop unless the generator has
  returned. A source that fails ends it inside the loop.
\<close>

definition generate ::
  "('s \<Rightarrow> sse_event \<Rightarrow> 'f list \<times> 's flow) \<Rightarrow> 's \<Rightarrow> ('s \<Rightarrow> 'f list) \<Rightarrow> string list \<Rightarrow> stream_end
     \<Rightarrow> 'f list \<times> stream_end" where
  "generate f s finish chunks source_end =
     (case run_events f s (sse_events chunks source_end) of
        (out, Done) \<Rightarrow> (out, Exhausted)
      | (out, Leave s') \<Rightarrow> (out @ finish s', Exhausted)
      | (out, Go s') \<Rightarrow> if source_end = Exhausted then (out @ finish s', Exhausted) else (out, source_end))"

section \<open>Rewriting the model name\<close>

datatype protocol = AnthropicProtocol | ChatProtocol | ResponsesProtocol

definition protocol_of :: "string \<Rightarrow> protocol res" where
  "protocol_of p = (if p = ''anthropic'' then Inr AnthropicProtocol else if p = ''chat'' then Inr ChatProtocol
     else if p = ''responses'' then Inr ResponsesProtocol else Inl (ValueError ''unsupported SSE protocol''))"

definition rewrite_top :: "string \<Rightarrow> json dict \<Rightarrow> json dict" where
  "rewrite_top model data = (if dict_has data ''model'' then dict_set ''model'' (JStr model) data else data)"

definition rewrite_nested :: "string \<Rightarrow> string \<Rightarrow> json dict \<Rightarrow> json dict" where
  "rewrite_nested field model data = (case get_or_null data field of
     JObj inner \<Rightarrow>
       if dict_has inner ''model'' then dict_set field (JObj (dict_set ''model'' (JStr model) inner)) data
       else rewrite_top model data
   | _ \<Rightarrow> rewrite_top model data)"

definition rewrite_data :: "protocol \<Rightarrow> string \<Rightarrow> json dict \<Rightarrow> json dict" where
  "rewrite_data protocol model data = (case protocol of
     AnthropicProtocol \<Rightarrow> rewrite_nested ''message'' model data
   | ResponsesProtocol \<Rightarrow> rewrite_nested ''response'' model data
   | ChatProtocol \<Rightarrow> rewrite_top model data)"

definition rewrite_step :: "protocol \<Rightarrow> string \<Rightarrow> unit \<Rightarrow> sse_event \<Rightarrow> string list \<times> unit flow" where
  "rewrite_step protocol model s e = (case e of (event, raw) \<Rightarrow>
     if raw = done_marker then ([sse_frame event raw], Go ())
     else (case sse_json raw of
       None \<Rightarrow> ([sse_data (JObj [(''error'', protocol_error)])], Done)
     | Some data \<Rightarrow> ([sse_frame event (json_dumps (JObj (rewrite_data protocol model data)))], Go ())))"

definition rewrite_sse_model :: "protocol \<Rightarrow> string \<Rightarrow> string list \<Rightarrow> stream_end \<Rightarrow> string list \<times> stream_end" where
  "rewrite_sse_model protocol model = generate (rewrite_step protocol model) () (\<lambda>_. [])"

section \<open>Anthropic streams to Chat Completions\<close>

record chat_state =
  cs_stream_id :: string
  cs_tool_indexes :: "(int \<times> int) list"

definition tool_delta :: "int \<Rightarrow> json dict \<Rightarrow> json dict" where
  "tool_delta index items = [(''tool_calls'', JArr [JObj ((''index'', JInt index) # items)])]"

definition usage_chunk :: "json dict \<Rightarrow> json dict \<Rightarrow> json dict" where
  "usage_chunk usage chunk = (if usage = [] then chunk else dict_set ''usage''
     (JObj [(''prompt_tokens'', JInt 0),
            (''completion_tokens'', JInt (safe_count (get_or_null usage ''output_tokens''))),
            (''total_tokens'', JInt (safe_count (get_or_null usage ''output_tokens'')))]) chunk)"

definition stop_to_finish :: "json \<Rightarrow> string" where
  "stop_to_finish stop = (if stop = JStr ''tool_use'' then ''tool_calls''
     else if stop = JStr ''max_tokens'' then ''length'' else ''stop'')"

definition block_start_step ::
  "(json dict \<Rightarrow> json) \<Rightarrow> chat_state \<Rightarrow> json dict \<Rightarrow> json list \<times> chat_state flow" where
  "block_start_step chunk s data =
     (let block_index = safe_index (get_or_null data ''index'');
          block = mapping_or_empty (get_or_null data ''content_block'')
      in if get_or_null block ''type'' = JStr ''tool_use'' then
           (let tool_index = int (length (cs_tool_indexes s))
            in ([chunk (tool_delta tool_index
                  [(''id'', JStr (safe_string (get_or_null block ''id'') (''tool_'' @ int_str tool_index))),
                   (''type'', JStr ''function''),
                   (''function'', JObj [(''name'', JStr (safe_string (get_or_null block ''name'') ''function'')),
                      (''arguments'', JStr [])])])],
                Go (s\<lparr>cs_tool_indexes := AList.update block_index tool_index (cs_tool_indexes s)\<rparr>)))
         else ([], Go s))"

definition block_delta_step ::
  "(json dict \<Rightarrow> json) \<Rightarrow> chat_state \<Rightarrow> json dict \<Rightarrow> json list \<times> chat_state flow" where
  "block_delta_step chunk s data =
     (let delta = mapping_or_empty (get_or_null data ''delta'')
      in if get_or_null delta ''type'' = JStr ''text_delta'' then
           (case dict_get_default delta ''text'' (JStr []) of
              JStr t \<Rightarrow> ([chunk [(''content'', JStr t)]], Go s)
            | _ \<Rightarrow> ([protocol_error], Done))
         else if get_or_null delta ''type'' = JStr ''input_json_delta'' then
           (let block_index = safe_index (get_or_null data ''index'')
            in case dict_get_default delta ''partial_json'' (JStr []) of
                 JStr t \<Rightarrow>
                   ([chunk (tool_delta
                        (case map_of (cs_tool_indexes s) block_index of None \<Rightarrow> block_index | Some i \<Rightarrow> i)
                        [(''function'', JObj [(''arguments'', JStr t)])])], Go s)
               | _ \<Rightarrow> ([protocol_error], Done))
         else ([], Go s))"

text \<open>The values of the frames; all of them are printed with \<open>sse_data\<close>.\<close>

definition to_chat_step ::
  "int \<Rightarrow> string \<Rightarrow> chat_state \<Rightarrow> sse_event \<Rightarrow> json list \<times> chat_state flow" where
  "to_chat_step created model s e = (case e of (event, raw) \<Rightarrow>
     if raw = done_marker then ([], Go s)
     else (case sse_json raw of
       None \<Rightarrow> ([protocol_error], Done)
     | Some data \<Rightarrow>
         (let kind = dict_get_default data ''type'' (JStr event);
              chunk = (\<lambda>delta. JObj (chat_chunk (cs_stream_id s) created model delta JNull))
          in if kind = JStr ''message_start'' then
               (let message = mapping_or_empty (get_or_null data ''message'');
                    stream_id = safe_string (get_or_null message ''id'') (cs_stream_id s)
                in ([JObj (chat_chunk stream_id created model [(''role'', JStr ''assistant'')] JNull)],
                    Go (s\<lparr>cs_stream_id := stream_id\<rparr>)))
             else if kind = JStr ''content_block_start'' then block_start_step chunk s data
             else if kind = JStr ''content_block_delta'' then block_delta_step chunk s data
             else if kind = JStr ''message_delta'' then
               (let stop = get_or_null (mapping_or_empty (get_or_null data ''delta'')) ''stop_reason'';
                    usage = mapping_or_empty (get_or_null data ''usage'')
                in ([JObj (usage_chunk usage
                      (chat_chunk (cs_stream_id s) created model [] (JStr (stop_to_finish stop))))], Go s))
             else if kind = JStr ''error'' then ([JObj [(''error'', protocol_error)]], Go s)
             else ([], Go s))))"

definition new_chat_state :: chat_state where
  "new_chat_state = \<lparr>cs_stream_id = ''chatcmpl_zeaz'', cs_tool_indexes = []\<rparr>"

definition done_frame :: string where
  "done_frame = ''data: '' @ done_marker @ blank_line"

definition data_frames :: "('s \<Rightarrow> sse_event \<Rightarrow> json list \<times> 's flow) \<Rightarrow> 's \<Rightarrow> sse_event \<Rightarrow> string list \<times> 's flow" where
  "data_frames f s e = (case f s e of (out, flow) \<Rightarrow> (map sse_data out, flow))"

definition anthropic_to_chat_stream ::
  "int \<Rightarrow> string \<Rightarrow> string list \<Rightarrow> stream_end \<Rightarrow> string list \<times> stream_end" where
  "anthropic_to_chat_stream created model =
     generate (data_frames (to_chat_step created model)) new_chat_state (\<lambda>_. [done_frame])"

section \<open>Chat Completions streams to Anthropic\<close>

record anthropic_state =
  as_message_id :: string
  as_started :: bool
  as_text_started :: bool
  as_tool_blocks :: "(int \<times> int) list"
  as_next_block :: int
  as_output_tokens :: int

definition new_anthropic_state :: anthropic_state where
  "new_anthropic_state = \<lparr>as_message_id = ''msg_zeaz'', as_started = False, as_text_started = False,
     as_tool_blocks = [], as_next_block = 0, as_output_tokens = 0\<rparr>"

definition error_frame :: frame where
  "error_frame = (''error'', JObj [(''type'', JStr ''error''), (''error'', protocol_error)])"

definition message_start_frame :: "string \<Rightarrow> string \<Rightarrow> frame" where
  "message_start_frame message_id model = (''message_start'', JObj [(''type'', JStr ''message_start''),
     (''message'', JObj [(''id'', JStr message_id), (''type'', JStr ''message''), (''role'', JStr ''assistant''),
        (''model'', JStr model), (''content'', JArr []), (''stop_reason'', JNull), (''stop_sequence'', JNull),
        (''usage'', JObj [(''input_tokens'', JInt 0), (''output_tokens'', JInt 0)])])])"

definition block_start_frame :: "int \<Rightarrow> json \<Rightarrow> frame" where
  "block_start_frame index block = (''content_block_start'', JObj [(''type'', JStr ''content_block_start''),
     (''index'', JInt index), (''content_block'', block)])"

definition block_delta_frame :: "int \<Rightarrow> json \<Rightarrow> frame" where
  "block_delta_frame index delta = (''content_block_delta'', JObj [(''type'', JStr ''content_block_delta''),
     (''index'', JInt index), (''delta'', delta)])"

definition block_stop_frame :: "int \<Rightarrow> frame" where
  "block_stop_frame index = (''content_block_stop'', JObj [(''type'', JStr ''content_block_stop''),
     (''index'', JInt index)])"

definition message_delta_frame :: "string \<Rightarrow> int \<Rightarrow> frame" where
  "message_delta_frame stop output_tokens = (''message_delta'', JObj [(''type'', JStr ''message_delta''),
     (''delta'', JObj [(''stop_reason'', JStr stop), (''stop_sequence'', JNull)]),
     (''usage'', JObj [(''output_tokens'', JInt output_tokens)])])"

definition message_stop_frame :: frame where
  "message_stop_frame = (''message_stop'', JObj [(''type'', JStr ''message_stop'')])"

definition start_message :: "string \<Rightarrow> anthropic_state \<Rightarrow> frame list \<times> anthropic_state" where
  "start_message model s =
     (if as_started s then ([], s) else ([message_start_frame (as_message_id s) model], s\<lparr>as_started := True\<rparr>))"

definition text_block_value :: json where
  "text_block_value = JObj [(''type'', JStr ''text''), (''text'', JStr [])]"

definition text_delta_value :: "string \<Rightarrow> json" where
  "text_delta_value t = JObj [(''type'', JStr ''text_delta''), (''text'', JStr t)]"

definition tool_block_value :: "string \<Rightarrow> string \<Rightarrow> json" where
  "tool_block_value i n = JObj [(''type'', JStr ''tool_use''), (''id'', JStr i), (''name'', JStr n), (''input'', JObj [])]"

definition json_delta_value :: "string \<Rightarrow> json" where
  "json_delta_value t = JObj [(''type'', JStr ''input_json_delta''), (''partial_json'', JStr t)]"

definition emit_text :: "string \<Rightarrow> anthropic_state \<Rightarrow> frame list \<times> anthropic_state" where
  "emit_text t s =
     (if as_text_started s then ([block_delta_frame 0 (text_delta_value t)], s)
      else ([block_start_frame 0 text_block_value, block_delta_frame 0 (text_delta_value t)],
            s\<lparr>as_text_started := True, as_next_block := as_next_block s + 1\<rparr>))"

definition call_arguments :: "json dict \<Rightarrow> json" where
  "call_arguments call = get_or_null (mapping_or_empty (get_or_null call ''function'')) ''arguments''"

definition open_tool_block :: "json dict \<Rightarrow> anthropic_state \<Rightarrow> frame list \<times> anthropic_state" where
  "open_tool_block call s =
     (let chat_index = safe_index (get_or_null call ''index'')
      in if map_of (as_tool_blocks s) chat_index \<noteq> None then ([], s)
         else ([block_start_frame (as_next_block s)
                  (tool_block_value (safe_string (get_or_null call ''id'') (''tool_'' @ int_str chat_index))
                     (safe_string (get_or_null (mapping_or_empty (get_or_null call ''function'')) ''name'') ''function''))],
               s\<lparr>as_tool_blocks := AList.update chat_index (as_next_block s) (as_tool_blocks s),
                 as_next_block := as_next_block s + 1\<rparr>))"

definition tool_block_of :: "json dict \<Rightarrow> anthropic_state \<Rightarrow> int" where
  "tool_block_of call s = (case map_of (as_tool_blocks s) (safe_index (get_or_null call ''index'')) of
     Some b \<Rightarrow> b | None \<Rightarrow> 0)"

text \<open>The loop over the tool calls of one delta; \<open>None\<close> where it returns.\<close>

fun emit_calls :: "anthropic_state \<Rightarrow> json list \<Rightarrow> frame list \<times> anthropic_state option" where
  "emit_calls s [] = ([], Some s)"
| "emit_calls s (raw_call # calls) =
     (case raw_call of
        JObj call \<Rightarrow>
          (case open_tool_block call s of (opened, s1) \<Rightarrow>
             (case call_arguments call of
                JNull \<Rightarrow> (case emit_calls s1 calls of (out, r) \<Rightarrow> (opened @ out, r))
              | JStr t \<Rightarrow>
                  (case emit_calls s1 calls of (out, r) \<Rightarrow>
                     (opened @ (if t = [] then [] else [block_delta_frame (tool_block_of call s1) (json_delta_value t)])
                        @ out, r))
              | _ \<Rightarrow> (opened @ [error_frame], None)))
      | _ \<Rightarrow> ([error_frame], None))"

definition finish_to_stop :: "json \<Rightarrow> string" where
  "finish_to_stop finish = (if finish = JStr ''tool_calls'' then ''tool_use''
     else if finish = JStr ''length'' then ''max_tokens'' else ''end_turn'')"

definition emit_finish :: "json \<Rightarrow> anthropic_state \<Rightarrow> frame list" where
  "emit_finish finish s =
     (if truthy finish then
        map block_stop_frame [0..as_next_block s - 1] @ [message_delta_frame (finish_to_stop finish) (as_output_tokens s)]
      else [])"

definition count_usage :: "json dict \<Rightarrow> anthropic_state \<Rightarrow> anthropic_state" where
  "count_usage data s =
     (let n = safe_count (get_or_null (mapping_or_empty (get_or_null data ''usage'')) ''completion_tokens'')
      in s\<lparr>as_output_tokens := (if n \<noteq> 0 then n else as_output_tokens s)\<rparr>)"

text \<open>The first choice and its delta, where the chunk has them.\<close>

definition choice_delta :: "json dict \<Rightarrow> (json dict \<times> json dict) option" where
  "choice_delta data = (case get_or_null data ''choices'' of
     JArr (JObj choice # _) \<Rightarrow> (case get_or_null choice ''delta'' of JObj delta \<Rightarrow> Some (choice, delta) | _ \<Rightarrow> None)
   | _ \<Rightarrow> None)"

definition delta_calls :: "json dict \<Rightarrow> json list option" where
  "delta_calls delta = (case or_else (get_or_null delta ''tool_calls'') (JArr []) of JArr calls \<Rightarrow> Some calls | _ \<Rightarrow> None)"

definition emit_delta :: "json dict \<Rightarrow> anthropic_state \<Rightarrow> (frame list \<times> anthropic_state) option" where
  "emit_delta delta s = (case get_or_null delta ''content'' of
     JNull \<Rightarrow> Some ([], s)
   | JStr t \<Rightarrow> Some (emit_text t s)
   | _ \<Rightarrow> None)"

definition delta_step ::
  "json dict \<Rightarrow> json dict \<Rightarrow> json dict \<Rightarrow> anthropic_state \<Rightarrow> frame list \<times> anthropic_state flow" where
  "delta_step data choice delta s =
     (case emit_delta delta s of
        None \<Rightarrow> ([error_frame], Done)
      | Some (texts, s1) \<Rightarrow>
          (case delta_calls delta of
             None \<Rightarrow> (texts @ [error_frame], Done)
           | Some calls \<Rightarrow>
               (case emit_calls s1 calls of
                  (out, None) \<Rightarrow> (texts @ out, Done)
                | (out, Some s2) \<Rightarrow>
                    (let s3 = count_usage data s2
                     in (texts @ out @ emit_finish (get_or_null choice ''finish_reason'') s3, Go s3)))))"

definition to_anthropic_step ::
  "string \<Rightarrow> anthropic_state \<Rightarrow> sse_event \<Rightarrow> frame list \<times> anthropic_state flow" where
  "to_anthropic_step model s e =
     (if snd e = done_marker then ([], Leave s)
      else (case sse_json (snd e) of
        None \<Rightarrow> ([error_frame], Done)
      | Some data \<Rightarrow>
          if dict_has data ''error'' then ([error_frame], Done)
          else (case start_message model (s\<lparr>as_message_id := safe_string (get_or_null data ''id'') (as_message_id s)\<rparr>) of
            (started, s1) \<Rightarrow>
              (case choice_delta data of
                 None \<Rightarrow> (started @ [error_frame], Done)
               | Some (choice, delta) \<Rightarrow>
                   (case delta_step data choice delta s1 of (out, flow) \<Rightarrow> (started @ out, flow))))))"

definition finish_message :: "string \<Rightarrow> anthropic_state \<Rightarrow> frame list" where
  "finish_message model s = fst (start_message model s) @ [message_stop_frame]"

text \<open>The frames of the whole stream, and their text.\<close>

definition to_anthropic_frames :: "string \<Rightarrow> string list \<Rightarrow> stream_end \<Rightarrow> frame list \<times> stream_end" where
  "to_anthropic_frames model = generate (to_anthropic_step model) new_anthropic_state (finish_message model)"

definition chat_to_anthropic_stream :: "string \<Rightarrow> string list \<Rightarrow> stream_end \<Rightarrow> string list \<times> stream_end" where
  "chat_to_anthropic_stream model chunks source_end =
     (case to_anthropic_frames model chunks source_end of
        (frames, e) \<Rightarrow> (map (\<lambda>(event, v). event_data event v) frames, e))"

section \<open>Chat Completions streams to Responses\<close>

record responses_state =
  rs_response_id :: string
  rs_created :: bool

definition new_responses_state :: responses_state where
  "new_responses_state = \<lparr>rs_response_id = ''resp_zeaz'', rs_created = False\<rparr>"

definition responses_error :: json where
  "responses_error = JObj [(''type'', JStr ''error''), (''error'', protocol_error)]"

definition response_created :: "string \<Rightarrow> string \<Rightarrow> json list" where
  "response_created response_id model =
     [JObj [(''type'', JStr ''response.created''),
        (''response'', JObj [(''id'', JStr response_id), (''object'', JStr ''response''),
           (''status'', JStr ''in_progress''), (''model'', JStr model), (''output'', JArr [])])],
      JObj [(''type'', JStr ''response.output_item.added''), (''output_index'', JInt 0),
        (''item'', JObj [(''id'', JStr ''msg_zeaz''), (''type'', JStr ''message''), (''role'', JStr ''assistant''),
           (''content'', JArr [])])]]"

definition output_text_delta :: "string \<Rightarrow> json" where
  "output_text_delta t = JObj [(''type'', JStr ''response.output_text.delta''), (''item_id'', JStr ''msg_zeaz''),
     (''output_index'', JInt 0), (''content_index'', JInt 0), (''delta'', JStr t)]"

definition response_completed :: "string \<Rightarrow> string \<Rightarrow> json \<Rightarrow> json" where
  "response_completed response_id model usage = JObj [(''type'', JStr ''response.completed''),
     (''response'', JObj [(''id'', JStr response_id), (''object'', JStr ''response''),
        (''status'', JStr ''completed''), (''model'', JStr model), (''output'', JArr []),
        (''usage'', responses_usage (or_else usage (JObj [])))])]"

definition to_responses_step ::
  "string \<Rightarrow> responses_state \<Rightarrow> sse_event \<Rightarrow> json list \<times> responses_state flow" where
  "to_responses_step model s e =
     (if snd e = done_marker then ([], Leave s)
      else (case sse_json (snd e) of
        None \<Rightarrow> ([responses_error], Done)
      | Some data \<Rightarrow>
          if dict_has data ''error'' then ([responses_error], Done)
          else
            (let response_id = safe_string (get_or_null data ''id'') (rs_response_id s);
                 created = (if rs_created s then [] else response_created response_id model);
                 s1 = \<lparr>rs_response_id = response_id, rs_created = True\<rparr>
             in case choice_delta data of
                  None \<Rightarrow> (created @ [responses_error], Done)
                | Some (choice, delta) \<Rightarrow>
                    (let completed = (if truthy (get_or_null choice ''finish_reason'')
                           then [response_completed response_id model (get_or_null data ''usage'')] else [])
                     in case get_or_null delta ''content'' of
                          JNull \<Rightarrow> (created @ completed, Go s1)
                        | JStr t \<Rightarrow> (created @ [output_text_delta t] @ completed, Go s1)
                        | _ \<Rightarrow> (created @ [responses_error], Done)))))"

definition chat_to_responses_stream :: "string \<Rightarrow> string list \<Rightarrow> stream_end \<Rightarrow> string list \<times> stream_end" where
  "chat_to_responses_stream model =
     generate (data_frames (to_responses_step model)) new_responses_state (\<lambda>_. [done_frame])"

section \<open>The parser and the cuts between chunks\<close>

lemma starts_with_append_left: "starts_with p s \<Longrightarrow> starts_with p (s @ t)"
  by (auto simp: starts_with_append_iff)

lemma contains_append_left: "contains p s \<Longrightarrow> contains p (s @ t)"
proof (induction s)
  case Nil
  then show ?case by (cases t) auto
next
  case (Cons c cs)
  then show ?case using starts_with_append_left[of p "c # cs" t] by auto
qed

lemma split_once_append: "split_once sep s = Some (a, b) \<Longrightarrow> split_once sep (s @ t) = Some (a, b @ t)"
proof (induction s arbitrary: a)
  case Nil
  then show ?case by (cases t) (auto split: if_splits)
next
  case (Cons c cs)
  show ?case
  proof (cases "starts_with sep (c # cs)")
    case True
    then obtain r where "c # cs = sep @ r" by (auto simp: starts_with_append_iff)
    then have "length (c # cs) = length sep + length r" by simp
    then have "length sep \<le> length (c # cs)" by simp
    then have "drop (length sep) ((c # cs) @ t) = drop (length sep) (c # cs) @ t"
      unfolding drop_append by simp
    then show ?thesis using Cons.prems True starts_with_append_left[OF True, of t] by auto
  next
    case False
    then obtain a' where a: "a = c # a'" "split_once sep cs = Some (a', b)" using Cons.prems by auto
    have "\<not> starts_with sep (c # cs @ t)"
    proof
      assume sw: "starts_with sep (c # cs @ t)"
      have "contains sep cs" using a(2) split_once_None by (metis option.distinct(1))
      then have "length sep \<le> length cs"
        using split_once_Some[OF a(2)] by simp
      then have "take (length sep) (c # cs) = take (length sep) (c # cs @ t)" by (simp add: take_Cons split: nat.split)
      then show False using False sw by (simp add: starts_with_def)
    qed
    then show ?thesis using Cons.IH[OF a(2)] a(1) by simp
  qed
qed

lemma sse_frames_None: "split_once blank_line b = None \<Longrightarrow> sse_frames b = ([], b)"
  by (simp add: sse_frames.simps)

lemma sse_frames_Some: "split_once blank_line b = Some (f, r) \<Longrightarrow>
    sse_frames b = (parse_frame f @ fst (sse_frames r), snd (sse_frames r))"
  by (subst sse_frames.simps) (simp split: prod.split)

text \<open>Reading the buffer now or with what comes later gives the same events.\<close>

lemma sse_frames_append:
  "sse_frames (b @ t) = (fst (sse_frames b) @ fst (sse_frames (snd (sse_frames b) @ t)),
                         snd (sse_frames (snd (sse_frames b) @ t)))"
proof (induction b rule: sse_frames.induct)
  case (1 b)
  show ?case
  proof (cases "split_once blank_line b")
    case None
    then show ?thesis by (simp add: sse_frames_None)
  next
    case (Some fr)
    obtain f r where fr: "fr = (f, r)" by (cases fr)
    note s = sse_frames_Some[OF Some[unfolded fr]] sse_frames_Some[OF split_once_append[OF Some[unfolded fr], of t]]
    show ?thesis using 1[OF Some fr[symmetric]] by (simp add: s)
  qed
qed

lemma sse_feed_frames:
  "sse_feed b chunks = sse_frames (b @ concat (map crlf_to_lf chunks)) \<or> chunks = []"
proof (induction chunks arbitrary: b)
  case (Cons c cs)
  define u where "u = concat (map crlf_to_lf cs)"
  have "sse_feed (snd (sse_frames (b @ crlf_to_lf c))) cs = sse_frames (snd (sse_frames (b @ crlf_to_lf c)) @ u)"
  proof (cases "cs = []")
    case True
    have "sse_frames (snd (sse_frames x)) = ([], snd (sse_frames x))" for x
      using sse_frames_append[of x "[]"] by (metis append_Nil2 append_self_conv fst_conv prod.collapse snd_conv)
    then show ?thesis by (simp add: True u_def)
  next
    case False
    then show ?thesis using Cons.IH u_def by blast
  qed
  then show ?case
    using sse_frames_append[of "b @ crlf_to_lf c" u]
    by (cases "sse_frames (b @ crlf_to_lf c)") (auto simp: u_def split: prod.split)
qed simp

lemma crlf_append: "x = [] \<or> last x \<noteq> creturn \<Longrightarrow> crlf_to_lf (x @ y) = crlf_to_lf x @ crlf_to_lf y"
proof (induction x rule: crlf_to_lf.induct)
  case (2 c)
  then show ?case by (cases y) auto
next
  case (3 c d cs)
  then show ?case by (cases "cs = []") (auto split: if_splits)
qed simp

lemma crlf_concat: "\<forall>c \<in> set cs. c = [] \<or> last c \<noteq> creturn \<Longrightarrow>
    crlf_to_lf (concat cs) = concat (map crlf_to_lf cs)"
  by (induction cs) (auto simp: crlf_append)

lemma sse_feed_whole:
  assumes "\<forall>c \<in> set chunks. c = [] \<or> last c \<noteq> creturn"
  shows "sse_feed [] chunks = sse_feed [] [concat chunks]"
proof (cases "chunks = []")
  case True
  then show ?thesis by (simp add: sse_frames.simps)
next
  case False
  then show ?thesis
    using sse_feed_frames[of "[]" chunks] sse_feed_frames[of "[]" "[concat chunks]"] crlf_concat[OF assms] by simp
qed

text \<open>
  As long as no chunk ends with a carriage return, the events do not depend on how the provider's
  stream is cut into chunks: they are those of the whole text read at once.
\<close>

theorem sse_chunking_independent:
  assumes "\<forall>c \<in> set chunks. c = [] \<or> last c \<noteq> creturn" "concat chunks = concat chunks'"
    and "\<forall>c \<in> set chunks'. c = [] \<or> last c \<noteq> creturn"
  shows "sse_events chunks source_end = sse_events chunks' source_end"
  using sse_feed_whole[OF assms(1)] sse_feed_whole[OF assms(3)] assms(2) by (simp add: sse_events_def)

theorem sse_chunking_independent_witness:
  "sse_events [''data: 1'', [newline], newline # ''data: 2''] Exhausted =
   sse_events [''data: 1'' @ blank_line @ ''data: 2''] Exhausted"
  using sse_chunking_independent[of "[''data: 1'', [newline], newline # ''data: 2'']"
    "[''data: 1'' @ blank_line @ ''data: 2'']" Exhausted] by simp

text \<open>
  The condition is needed: a CR LF pair that falls between two chunks is not read as one line
  break, so the same bytes give one event instead of two.
\<close>

theorem crlf_split_across_chunks:
  "sse_events [''data: 1'' @ [creturn, newline, creturn], newline # ''data: 2'' @ [newline, newline]] Exhausted
     = [(''message'', ''1'' @ [newline] @ ''2'')] \<and>
   sse_events [''data: 1'' @ [creturn, newline, creturn, newline] @ ''data: 2'' @ [newline, newline]] Exhausted
     = [(''message'', ''1''), (''message'', ''2'')]"
  by code_simp

section \<open>Frames that are printed and read back\<close>

definition plain_line :: "string \<Rightarrow> bool" where
  "plain_line s = list_all (\<lambda>c. \<not> is_linebreak c) s"

definition plain_data :: "string \<Rightarrow> bool" where
  "plain_data d = (d \<noteq> [] \<and> \<not> py_space (hd d) \<and> plain_line d)"

definition plain_event :: "string \<Rightarrow> bool" where
  "plain_event e = (e \<noteq> [] \<and> list_all safe_event_char e)"

lemma linebreak_chars [simp]: "is_linebreak newline" "is_linebreak creturn"
  by (simp_all add: is_linebreak_def code_of_def)

lemma plain_line_not_in: "plain_line s \<Longrightarrow> newline \<notin> set s" "plain_line s \<Longrightarrow> creturn \<notin> set s"
  using linebreak_chars by (auto simp: plain_line_def list_all_iff)

lemma plain_line_append [simp]: "plain_line (a @ b) = (plain_line a \<and> plain_line b)"
  by (simp add: plain_line_def)

lemma safe_event_char_plain: "safe_event_char c \<Longrightarrow> \<not> is_linebreak c \<and> \<not> py_space c"
proof -
  assume "safe_event_char c"
  then have "code_of c \<in> {48..57} \<union> {65..90} \<union> {97..122} \<or> code_of c \<in> set (map code_of ''_.:-'')"
    by (auto simp: safe_event_char_def Let_def)
  then have "code_of c \<in> {48..57} \<union> {65..90} \<union> {97..122} \<union> {95, 46, 58, 45}"
    by (auto simp: code_of_def)
  then show ?thesis by (auto simp: is_linebreak_def py_space_def)
qed

lemma plain_event_line: "plain_event e \<Longrightarrow> plain_line e"
  using safe_event_char_plain by (auto simp: plain_event_def plain_line_def list_all_iff)

lemma strip_event: "plain_event e \<Longrightarrow> py_strip (CHR '' '' # e) = e"
proof -
  assume e: "plain_event e"
  have sp: "py_space (CHR '' '')" by (simp add: py_space_def code_of_def)
  have "\<not> py_space (hd e)" "\<not> py_space (hd (rev e))"
    using e safe_event_char_plain by (auto simp: plain_event_def list_all_iff hd_rev)
  moreover have "e \<noteq> []" using e by (simp add: plain_event_def)
  moreover have "dropWhile py_space x = x" if "\<not> py_space (hd x)" for x
    using that by (cases x) auto
  ultimately have "dropWhile py_space e = e" "dropWhile py_space (rev e) = rev e" by blast+
  then show ?thesis using sp by (simp add: py_strip_def py_lstrip_def py_rstrip_def)
qed

lemma lstrip_data: "plain_data d \<Longrightarrow> py_lstrip (CHR '' '' # d) = d"
proof -
  assume d: "plain_data d"
  have "py_space (CHR '' '')" by (simp add: py_space_def code_of_def)
  then show ?thesis using lstrip_id[of d] d by (simp add: py_lstrip_def plain_data_def)
qed

lemma splitlines_one: "plain_line x \<Longrightarrow> x \<noteq> [] \<Longrightarrow> py_splitlines x = [x]"
proof (induction x)
  case (Cons c cs)
  then have c: "\<not> is_linebreak c" "plain_line cs" by (simp_all add: plain_line_def)
  then have "c \<noteq> creturn" using linebreak_chars by metis
  then show ?case using Cons.IH c by (cases "cs = []") simp_all
qed simp

lemma splitlines_cons: "plain_line x \<Longrightarrow> py_splitlines (x @ newline # y) = x # py_splitlines y"
proof (induction x)
  case Nil
  then show ?case by simp
next
  case (Cons c cs)
  then have c: "\<not> is_linebreak c" "plain_line cs" by (simp_all add: plain_line_def)
  then have "c \<noteq> creturn" using linebreak_chars by metis
  then show ?case using Cons.IH[OF c(2)] c(1) by simp
qed

lemma plain_literals: "plain_line ''event: ''" "plain_line ''data: ''"
  by (simp_all add: plain_line_def is_linebreak_def code_of_def)

lemma splitlines_data: "plain_data d \<Longrightarrow> py_splitlines (''data: '' @ d) = [''data: '' @ d]"
  by (rule splitlines_one) (simp_all only: plain_line_append plain_literals plain_data_def, simp)

lemma parse_frame_data:
  assumes "plain_data d"
  shows "parse_frame (''data: '' @ d) = [(''message'', d)]"
  unfolding parse_frame_def splitlines_data[OF assms] using lstrip_data[OF assms] by simp

lemma parse_frame_event:
  assumes "plain_event e" "plain_data d"
  shows "parse_frame ((''event: '' @ e) @ newline # (''data: '' @ d)) = [(e, d)]"
proof -
  have "plain_line (''event: '' @ e)"
    by (simp only: plain_line_append plain_literals plain_event_line[OF assms(1)])
  then have "py_splitlines ((''event: '' @ e) @ newline # (''data: '' @ d)) = [''event: '' @ e, ''data: '' @ d]"
    using splitlines_cons[of "''event: '' @ e" "''data: '' @ d"] splitlines_data[OF assms(2)] by (simp only:)
  then show ?thesis
    unfolding parse_frame_def using strip_event[OF assms(1)] lstrip_data[OF assms(2)] by (simp only:) simp
qed

lemma contains_skip: "newline \<notin> set a \<Longrightarrow> contains blank_line (a @ z) = contains blank_line z"
  by (induction a) auto

lemma split_once_blank:
  "\<not> contains blank_line (x @ [newline]) \<Longrightarrow> split_once blank_line (x @ blank_line @ y) = Some (x, y)"
proof (induction x)
  case (Cons c cs)
  have "\<not> starts_with blank_line (c # cs @ blank_line @ y)"
    using Cons.prems by (cases cs) auto
  then show ?case using Cons by simp
qed simp

lemma sse_frames_one:
  "\<not> contains blank_line (x @ [newline]) \<Longrightarrow> sse_frames (x @ blank_line @ y) = (parse_frame x @ fst (sse_frames y), snd (sse_frames y))"
  by (rule sse_frames_Some) (rule split_once_blank)

lemma crlf_id: "creturn \<notin> set s \<Longrightarrow> crlf_to_lf s = s"
  by (induction s rule: crlf_to_lf.induct) auto

lemma sse_frames_Nil [simp]: "sse_frames [] = ([], [])"
  by (simp add: sse_frames.simps)

lemma data_line_read:
  assumes "plain_data d"
  shows "sse_frames (crlf_to_lf (''data: '' @ d @ blank_line)) = ([(''message'', d)], [])"
proof -
  have p: "plain_line d" "d \<noteq> []" using assms by (simp_all add: plain_data_def)
  have "\<not> contains blank_line (''data: '' @ d @ [newline])"
    using contains_skip[of "''data: '' @ d" "[newline]"] plain_line_not_in[OF p(1)] by simp
  moreover have "creturn \<notin> set (''data: '' @ d @ blank_line)" using plain_line_not_in[OF p(1)] by simp
  ultimately show ?thesis
    using sse_frames_one[of "''data: '' @ d" "[]"] parse_frame_data[OF assms] crlf_id by simp
qed

lemma event_lines_read:
  assumes "plain_event e" "plain_data d"
  shows "sse_frames (crlf_to_lf (''event: '' @ e @ [newline] @ ''data: '' @ d @ blank_line)) = ([(e, d)], [])"
proof -
  have p: "plain_line e" "plain_line d" "d \<noteq> []"
    using assms plain_event_line by (simp_all add: plain_data_def)
  note not_in = plain_line_not_in[OF p(1)] plain_line_not_in[OF p(2)]
  have "contains blank_line ((''event: '' @ e) @ newline # ''data: '' @ d @ [newline])
      = contains blank_line ((''data: '' @ d) @ [newline])"
    using contains_skip[of "''event: '' @ e" "newline # ''data: '' @ d @ [newline]"] not_in by simp
  also have "\<dots> = False" using contains_skip[of "''data: '' @ d" "[newline]"] not_in by simp
  finally have "\<not> contains blank_line ((''event: '' @ e @ newline # ''data: '' @ d) @ [newline])" by simp
  moreover have "creturn \<notin> set (''event: '' @ e @ [newline] @ ''data: '' @ d @ blank_line)" using not_in by simp
  ultimately show ?thesis
    using sse_frames_one[of "''event: '' @ e @ newline # ''data: '' @ d" "[]"] parse_frame_event[OF assms] crlf_id
    by simp
qed

end
