(* ===== verification/PyFloat.thy ===== *)
theory PyFloat
  imports PyText PyJson Errors "HOL-Library.Log_Nat"
begin

text \<open>
  Python's numbers where their values matter: \<open>float(s)\<close>, \<open>round\<close>, and the equality of JSON values,
  for which \<open>1\<close>, \<open>1.0\<close> and \<open>True\<close> are equal.
\<close>

section \<open>Parsing\<close>

text \<open>
  \<open>float(s)\<close>: an optional sign and digits with an optional fraction and exponent, or a name of an
  infinity or NaN. The value is not rounded; one beyond the largest float is an infinity.
\<close>

definition float_exponent :: "string \<Rightarrow> int option" where
  "float_exponent s =
     (let ds = (if s \<noteq> [] \<and> hd s \<in> set ''+-'' then tl s else s)
      in if underscored_digits ds
         then Some ((if hd s = CHR ''-'' then -1 else 1) * int (digits_val (filter is_digit ds))) else None)"

definition unsigned_float :: "string \<Rightarrow> pfloat option" where
  "unsigned_float l =
     (if l = ''inf'' \<or> l = ''infinity'' then Some PosInf
      else if l = ''nan'' then Some NotANumber
      else
        (let m = takeWhile (\<lambda>c. c \<noteq> CHR ''e'') l; rest = dropWhile (\<lambda>c. c \<noteq> CHR ''e'') l;
             ip = takeWhile (\<lambda>c. c \<noteq> CHR ''.'') m; fp = drop (length ip + 1) m
         in if (ip = [] \<or> underscored_digits ip) \<and> (fp = [] \<or> underscored_digits fp) \<and> (ip \<noteq> [] \<or> fp \<noteq> [])
            then (case (if rest = [] then Some 0 else float_exponent (tl rest)) of
                None \<Rightarrow> None
              | Some e \<Rightarrow>
                  (let r = real (digits_val (filter is_digit (ip @ fp))) * 10 powi (e - int (length (filter is_digit fp)))
                   in Some (if r \<ge> 2 ^ 1024 - 2 ^ 970 then PosInf else Finite r)))
            else None))"

definition negate_float :: "pfloat \<Rightarrow> pfloat" where
  "negate_float x = (case x of Finite r \<Rightarrow> Finite (- r) | PosInf \<Rightarrow> NegInf | NegInf \<Rightarrow> PosInf | NotANumber \<Rightarrow> NotANumber)"

definition py_float_of_str :: "string \<Rightarrow> pfloat option" where
  "py_float_of_str s =
     (let t = py_lower (py_strip s)
      in if t \<noteq> [] \<and> hd t = CHR ''-'' then map_option negate_float (unsigned_float (tl t))
         else if t \<noteq> [] \<and> hd t = CHR ''+'' then unsigned_float (tl t)
         else unsigned_float t)"

section \<open>Rounding\<close>

text \<open>\<open>round(x)\<close>: half to even.\<close>

definition round_half_even :: "real \<Rightarrow> int" where
  "round_half_even x = (let f = \<lfloor>x\<rfloor>; d = x - real_of_int f
     in if d < 1/2 then f else if 1/2 < d then f + 1 else if even f then f else f + 1)"

lemma round_nonneg: "0 \<le> x \<Longrightarrow> 0 \<le> round_half_even x"
proof -
  assume "0 \<le> x"
  then have "0 \<le> \<lfloor>x\<rfloor>" by simp
  then show ?thesis unfolding round_half_even_def Let_def by (simp only: if_splits) auto
qed

text \<open>
  The exponent of the highest bit of a number other than zero, and the float nearest to a number, of
  53 bits and with the exponents of the type \<open>double\<close>.
\<close>

definition high_bit :: "real \<Rightarrow> int" where
  "high_bit x = (if 1 \<le> \<bar>x\<bar> then int (floorlog 2 (nat \<lfloor>\<bar>x\<bar>\<rfloor>)) - 1
     else - int (floorlog 2 (nat (\<lceil>1 / \<bar>x\<bar>\<rceil> - 1))))"

definition nearest_double :: "real \<Rightarrow> real" where
  "nearest_double x = (if x = 0 then 0 else
     (let e = max (high_bit x - 52) (-1074) in real_of_int (round_half_even (x / 2 powi e)) * 2 powi e))"

section \<open>Equality\<close>

text \<open>The value of a JSON number, as an exact one.\<close>

definition number_value :: "json \<Rightarrow> pfloat option" where
  "number_value v = (case v of
     JBool b \<Rightarrow> Some (Finite (if b then 1 else 0))
   | JInt i \<Rightarrow> Some (Finite (real_of_int i))
   | JFloat t \<Rightarrow> Some (case py_float_of_str t of
       Some (Finite r) \<Rightarrow> Finite (nearest_double r) | Some x \<Rightarrow> x | None \<Rightarrow> NotANumber)
   | _ \<Rightarrow> None)"

definition number_eq :: "json \<Rightarrow> json \<Rightarrow> bool" where
  "number_eq v w = (case (number_value v, number_value w) of
     (Some x, Some y) \<Rightarrow> x = y \<and> x \<noteq> NotANumber | _ \<Rightarrow> False)"

text \<open>\<open>v == w\<close>: dictionaries are compared key by key, whatever their order.\<close>

fun py_eq :: "json \<Rightarrow> json \<Rightarrow> bool" where
  "py_eq JNull w = (w = JNull)"
| "py_eq (JStr s) w = (w = JStr s)"
| "py_eq (JArr vs) w = (case w of JArr ws \<Rightarrow> list_all2 py_eq vs ws | _ \<Rightarrow> False)"
| "py_eq (JObj kvs) w = (case w of
     JObj kws \<Rightarrow> length kvs = length kws \<and>
       list_all (\<lambda>kv. case dict_get kws (fst kv) of Some u \<Rightarrow> py_eq (snd kv) u | None \<Rightarrow> False) kvs
   | _ \<Rightarrow> False)"
| "py_eq v w = number_eq v w"

end
