(* ===== verification/Providers.thy ===== *)
theory Providers
  imports Config Resilience PyFloat "HOL-Library.Sublist"
begin

text \<open>
  The client of a provider (\<open>src/zeaz_provider/providers.py\<close>): its headers and URLs, one HTTP exchange
  turned into a JSON object or a provider error, the retried JSON call, and the stream. What the
  HTTP library does with a request is an argument (\<open>server\<close>): it fails in one of the ways the code
  tells apart, or answers with a status, a \<open>Retry-After\<close> header and a body in chunks that may itself
  break off. A byte is a character with its code, and \<open>decode\<close> is what the interpreter makes of the bytes that
  \<open>json.loads\<close> is given.
\<close>

section \<open>Requests and answers\<close>

text \<open>
  The bytes of a JSON document: not decodable (\<open>UnicodeDecodeError\<close>), or such that the parser meets one of the limits of
  the interpreter before it is done, an integer of more than 4300 digits (a plain \<open>ValueError\<close>, not a
  \<open>JSONDecodeError\<close>) or too deep a nesting (\<open>RecursionError\<close>), or else a text that it parses or refuses.
\<close>

datatype json_bytes = NotUnicode | TooManyDigits | TooDeep | JsonText string

datatype http_failure = TimedOut | NetworkFailed | HttpFailed | OtherFailure

record http_request =
  rq_method :: string
  rq_url :: string
  rq_headers :: "string dict"
  rq_payload :: "json option"
  rq_timeout :: real

record http_response =
  hr_status :: int
  hr_retry_after :: "string option"
  hr_chunks :: "string list"
  hr_broken :: "http_failure option"

type_synonym http_answer = "http_failure + http_response"

text \<open>The client: its configuration and the limit on the size of a response.\<close>

record provider_client =
  cl_config :: provider_config
  cl_max_response_bytes :: int

definition policy_of :: "provider_config \<Rightarrow> resilience_policy" where
  "policy_of c = \<lparr>max_attempts = pc_max_attempts c, base_delay_seconds = pc_retry_base_seconds c,
     max_delay_seconds = pc_retry_max_seconds c, max_retry_after_seconds = 30,
     policy_failure_threshold = pc_circuit_failure_threshold c,
     policy_reset_timeout_seconds = pc_circuit_reset_seconds c,
     total_timeout_seconds = pc_total_timeout_seconds c\<rparr>"

definition client_breaker :: "provider_config \<Rightarrow> circuit_breaker" where
  "client_breaker c = new_breaker (pc_circuit_failure_threshold c) (pc_circuit_reset_seconds c)"

definition client_headers :: "provider_client \<Rightarrow> string dict" where
  "client_headers cl =
     (let c = cl_config cl; headers = pc_headers c
      in if pc_api c = ''anthropic'' then
           dict_set ''anthropic-version'' (if pc_api_version c = [] then ''2023-06-01'' else pc_api_version c)
             (dict_set ''x-api-key'' (pc_api_key c) headers)
         else if pc_api c = ''azure'' then dict_set ''api-key'' (pc_api_key c) headers
         else if pc_api_key c \<noteq> [] then dict_set ''Authorization'' (''Bearer '' @ pc_api_key c) headers
         else headers)"

definition lstrip_slash :: "string \<Rightarrow> string" where
  "lstrip_slash s = dropWhile (\<lambda>c. c = CHR ''/'') s"

definition rstrip_slash :: "string \<Rightarrow> string" where
  "rstrip_slash s = rev (lstrip_slash (rev s))"

definition client_url :: "provider_client \<Rightarrow> string \<Rightarrow> string" where
  "client_url cl endpoint =
     (let c = cl_config cl; url = rstrip_slash (pc_base_url c) @ ''/'' @ lstrip_slash endpoint
      in if pc_api c = ''azure'' \<and> pc_api_version c \<noteq> [] then url @ ''?api-version='' @ pc_api_version c
         else url)"

section \<open>Reading an answer\<close>

definition retry_after :: "http_response \<Rightarrow> py_number option" where
  "retry_after response = (case hr_retry_after response of
     None \<Rightarrow> None
   | Some raw \<Rightarrow> (case py_float_of_str raw of
       Some (Finite r) \<Rightarrow> if 0 \<le> r then Some (PyNum (Finite r)) else None
     | _ \<Rightarrow> None))"

definition oversized_response :: provider_error where
  "oversized_response = ProviderError ''Provider response exceeded configured byte limit'' 502 False Protocol
     (Some True) (Some True) None []"

text \<open>\<open>_read_bounded\<close>: the body, unless it breaks off or exceeds the limit (\<open>None\<close>).\<close>

fun read_bounded :: "int \<Rightarrow> int \<Rightarrow> string list \<Rightarrow> http_failure option \<Rightarrow> http_failure + string option" where
  "read_bounded maximum t [] broken = (case broken of Some e \<Rightarrow> Inl e | None \<Rightarrow> Inr (Some []))"
| "read_bounded maximum t (chunk # chunks) broken =
     (if t + int (length chunk) > maximum then Inr None
      else bindE (read_bounded maximum (t + int (length chunk)) chunks broken) (\<lambda>body.
        Inr (map_option (\<lambda>b. chunk @ b) body)))"

text \<open>\<open>_read_at_most\<close> with what remains of the maximum.\<close>

fun read_at_most :: "nat \<Rightarrow> string list \<Rightarrow> http_failure option \<Rightarrow> http_failure + string" where
  "read_at_most remaining [] broken = (case broken of Some e \<Rightarrow> Inl e | None \<Rightarrow> Inr [])"
| "read_at_most remaining (chunk # chunks) broken =
     (if remaining = 0 then Inr []
      else if length chunk \<ge> remaining then Inr (take remaining chunk)
      else bindE (read_at_most (remaining - length chunk) chunks broken) (\<lambda>body. Inr (chunk @ body)))"

definition request_failed :: "http_failure \<Rightarrow> json dict outcome" where
  "request_failed e = (case e of
     TimedOut \<Rightarrow> Raised (ProviderError ''Provider request timed out'' 504 True Timeout (Some True) (Some True) None [])
   | NetworkFailed \<Rightarrow> Raised (ProviderError ''Provider network failure'' 502 True Network (Some True) (Some True) None [])
   | HttpFailed \<Rightarrow> Raised (ProviderError ''Provider request protocol failure'' 502 True Protocol
       (Some True) (Some True) None [])
   | OtherFailure \<Rightarrow> RaisedOther)"

definition invalid_json :: provider_error where
  "invalid_json = ProviderError ''Provider returned invalid JSON'' 502 False Protocol (Some True) (Some True) None []"

definition non_object_json :: provider_error where
  "non_object_json = ProviderError ''Provider returned a non-object JSON response'' 502 False Protocol
     (Some True) (Some True) None []"

definition read_object :: "(string \<Rightarrow> json_bytes) \<Rightarrow> string \<Rightarrow> json dict outcome" where
  "read_object decode raw = (case decode raw of
     NotUnicode \<Rightarrow> Raised invalid_json
   | TooManyDigits \<Rightarrow> RaisedOther
   | TooDeep \<Rightarrow> RaisedOther
   | JsonText t \<Rightarrow> (case json_loads t of
       None \<Rightarrow> Raised invalid_json
     | Some (JObj d) \<Rightarrow> Returned d
     | Some _ \<Rightarrow> Raised non_object_json))"

text \<open>One \<open>request()\<close>: what becomes of the answer.\<close>

definition request_outcome :: "(string \<Rightarrow> json_bytes) \<Rightarrow> int \<Rightarrow> http_answer \<Rightarrow> json dict outcome" where
  "request_outcome decode maximum answer = (case answer of
     Inl e \<Rightarrow> request_failed e
   | Inr response \<Rightarrow>
       if hr_status response \<ge> 400 then
         (case read_at_most 8192 (hr_chunks response) (hr_broken response) of
            Inl e \<Rightarrow> request_failed e
          | Inr body \<Rightarrow> Raised (classify_http_error (hr_status response) body (retry_after response)))
       else
         (case read_bounded maximum 0 (hr_chunks response) (hr_broken response) of
            Inl e \<Rightarrow> request_failed e
          | Inr None \<Rightarrow> Raised oversized_response
          | Inr (Some raw) \<Rightarrow> read_object decode raw))"

section \<open>Calls and streams\<close>

text \<open>
  An exchange: how long it takes, its answer, and what concurrent calls do to the breaker while it
  runs and during the delay after it.
\<close>

record exchange =
  ex_duration :: real
  ex_answer :: http_answer
  ex_others :: "circuit_breaker \<Rightarrow> circuit_breaker"
  ex_sleep_others :: "circuit_breaker \<Rightarrow> circuit_breaker"

definition client_request :: "provider_client \<Rightarrow> string \<Rightarrow> string \<Rightarrow> json option \<Rightarrow> http_request" where
  "client_request cl method url payload = \<lparr>rq_method = method, rq_url = url, rq_headers = client_headers cl,
     rq_payload = payload, rq_timeout = pc_timeout_seconds (cl_config cl)\<rparr>"

definition client_json ::
  "(string \<Rightarrow> json_bytes) \<Rightarrow> (real \<Rightarrow> real \<Rightarrow> real) \<Rightarrow> (http_request \<Rightarrow> nat \<Rightarrow> exchange) \<Rightarrow> provider_client
     \<Rightarrow> string \<Rightarrow> string \<Rightarrow> json option \<Rightarrow> circuit_breaker \<Rightarrow> real \<Rightarrow> json dict call_end" where
  "client_json decode uniform server cl method url payload breaker now =
     call (policy_of (cl_config cl)) uniform
       (\<lambda>i. let x = server (client_request cl method url payload) i
            in \<lparr>att_duration = ex_duration x,
                att_outcome = request_outcome decode (cl_max_response_bytes cl) (ex_answer x),
                att_others = ex_others x, sleep_others = ex_sleep_others x\<rparr>)
       breaker now"

definition client_chat where
  "client_chat decode uniform server cl payload =
     client_json decode uniform server cl ''POST'' (client_url cl ''chat/completions'') (Some payload)"

definition client_messages where
  "client_messages decode uniform server cl payload =
     client_json decode uniform server cl ''POST'' (client_url cl ''messages'') (Some payload)"

definition client_responses where
  "client_responses decode uniform server cl payload =
     client_json decode uniform server cl ''POST'' (client_url cl ''responses'') (Some payload)"

definition client_models where
  "client_models decode uniform server cl = client_json decode uniform server cl ''GET'' (client_url cl ''models'') None"

definition stream_failed :: "http_failure \<Rightarrow> stream_end" where
  "stream_failed e = (case e of
     TimedOut \<Rightarrow> StreamRaised (ProviderError ''Provider stream timed out'' 504 False Timeout (Some True) (Some True) None [])
   | NetworkFailed \<Rightarrow> StreamRaised (ProviderError ''Provider stream network failure'' 502 False Network
       (Some True) (Some True) None [])
   | HttpFailed \<Rightarrow> StreamRaised (ProviderError ''Provider stream protocol failure'' 502 False Protocol
       (Some True) (Some True) None [])
   | OtherFailure \<Rightarrow> StreamOther)"

fun stream_chunks :: "int \<Rightarrow> int \<Rightarrow> string list \<Rightarrow> http_failure option \<Rightarrow> string list \<times> stream_end" where
  "stream_chunks maximum emitted [] broken = ([], case broken of None \<Rightarrow> Exhausted | Some e \<Rightarrow> stream_failed e)"
| "stream_chunks maximum emitted (chunk # chunks) broken =
     (let emitted' = emitted + int (length chunk)
      in if emitted' > maximum then ([], StreamRaised oversized_response)
         else (case stream_chunks maximum emitted' chunks broken of (out, e) \<Rightarrow> (chunk # out, e)))"

definition client_stream ::
  "(http_request \<Rightarrow> http_answer) \<Rightarrow> provider_client \<Rightarrow> string \<Rightarrow> json \<Rightarrow> string list \<times> stream_end" where
  "client_stream server cl endpoint payload =
     (case server (client_request cl ''POST'' (client_url cl endpoint) (Some payload)) of
        Inl e \<Rightarrow> ([], stream_failed e)
      | Inr response \<Rightarrow>
          if hr_status response \<ge> 400 then
            (case read_at_most 8192 (hr_chunks response) (hr_broken response) of
               Inl e \<Rightarrow> ([], stream_failed e)
             | Inr body \<Rightarrow> ([], StreamRaised (classify_http_error (hr_status response) body (retry_after response))))
          else stream_chunks (cl_max_response_bytes cl) 0 (hr_chunks response) (hr_broken response))"

section \<open>Bounds on what is read\<close>

abbreviation total_size :: "string list \<Rightarrow> int" where
  "total_size chunks \<equiv> int (length (concat chunks))"

lemma read_bounded_spec:
  "read_bounded maximum t chunks broken = Inr (Some raw) \<Longrightarrow>
     raw = concat chunks \<and> broken = None \<and> (chunks \<noteq> [] \<longrightarrow> t + int (length raw) \<le> maximum)"
proof (induction chunks arbitrary: t raw)
  case Nil
  then show ?case by (auto split: option.splits)
next
  case (Cons c cs)
  then obtain b where b: "read_bounded maximum (t + int (length c)) cs broken = Inr (Some b)" "raw = c @ b"
      "t + int (length c) \<le> maximum"
    by (auto simp: res_simps split: if_splits)
  then show ?case using Cons.IH[OF b(1)] by (cases "cs = []") auto
qed

lemma read_at_most_length: "read_at_most n chunks broken = Inr body \<Longrightarrow> length body \<le> n \<and> prefix body (concat chunks)"
proof (induction n chunks broken arbitrary: body rule: read_at_most.induct)
  case (1 n broken)
  then show ?case by (auto split: option.splits)
next
  case (2 n c cs broken)
  consider "n = 0" | "0 < n" "n \<le> length c" | "0 < n" "\<not> n \<le> length c" by linarith
  then show ?case
  proof cases
    case 2
    then have "body = take n c" using "2.prems" by simp
    then show ?thesis by (simp add: take_is_prefix prefix_order.trans[OF take_is_prefix prefixI[of "c @ concat cs" c "concat cs"]])
  next
    case 3
    then obtain b where b: "read_at_most (n - length c) cs broken = Inr b" "body = c @ b"
      using "2.prems" by (auto simp: res_simps)
    then show ?thesis using "2.IH" 3 by auto
  qed (use 2 in auto)
qed

lemma stream_chunks_spec:
  "stream_chunks maximum emitted chunks broken = (out, e) \<Longrightarrow>
     prefix out chunks \<and> (out \<noteq> [] \<longrightarrow> emitted + total_size out \<le> maximum) \<and>
     (e = Exhausted \<longrightarrow> out = chunks \<and> broken = None)"
proof (induction maximum emitted chunks broken arbitrary: out rule: stream_chunks.induct)
  case (1 maximum emitted broken)
  then show ?case by (auto simp: stream_failed_def split: option.splits http_failure.splits)
next
  case (2 maximum emitted c cs broken)
  show ?case
  proof (cases "emitted + int (length c) > maximum")
    case True
    then show ?thesis using "2.prems" by auto
  next
    case False
    then obtain out' where out: "stream_chunks maximum (emitted + int (length c)) cs broken = (out', e)" "out = c # out'"
      using "2.prems" by (auto split: prod.splits)
    then show ?thesis using "2.IH"[OF refl False out(1)] False by (cases "out' = []") auto
  qed
qed

section \<open>What the client promises\<close>

text \<open>The statuses of a client error that neither retrying nor another provider would mend.\<close>

definition final_status :: "int \<Rightarrow> bool" where
  "final_status s = (400 \<le> s \<and> s < 500 \<and> s \<notin> {404, 408, 409, 425, 429})"

lemma classify_flags:
  "pe_fallback_allowed (classify_http_error s m ra) = (s \<in> {404, 408, 409, 425, 429} \<or> 500 \<le> s)"
  "pe_retryable (classify_http_error s m ra) = (s \<in> {408, 409, 425, 429} \<or> 500 \<le> s)"
  "pe_circuit_failure (classify_http_error s m ra) = (s \<in> {408, 409, 425, 429} \<or> 500 \<le> s)"
  by (auto simp: classify_http_error_def)

lemmas provider_error_defs = oversized_response_def invalid_json_def non_object_json_def

text \<open>The complete body of an answer below 400 within the size limit.\<close>

definition accepted_body :: "int \<Rightarrow> http_answer \<Rightarrow> string \<Rightarrow> bool" where
  "accepted_body maximum answer raw = (\<exists>r. answer = Inr r \<and> hr_status r < 400 \<and> hr_broken r = None \<and>
     raw = concat (hr_chunks r) \<and> (hr_chunks r = [] \<or> int (length raw) \<le> maximum))"

text \<open>
  C2: An exchange returns an object only if the provider answered below 400 with a complete body
  within the size limit that is a JSON object; every error that may be retried also allows fallback and
  counts against the circuit; and an error forbids fallback only for a final client error (400, 401,
  403 and the like), so a broken or malformed answer never ends a request that has another provider. The exchange ends with
  an exception that is no provider error, which nobody retries or counts, in two cases only: the HTTP library failed in a way
  that it does not document, or the complete body holds JSON beyond the limits of the interpreter.
\<close>

theorem provider_exchange_policy:
  "case request_outcome decode maximum answer of
     Returned d \<Rightarrow> (\<exists>raw t. accepted_body maximum answer raw \<and> decode raw = JsonText t \<and> json_loads t = Some (JObj d))
   | Raised e \<Rightarrow> (\<not> pe_retryable e \<or> pe_fallback_allowed e \<and> pe_circuit_failure e) \<and>
         (pe_fallback_allowed e \<or> (\<exists>r. answer = Inr r \<and> final_status (hr_status r) \<and> pe_status_code e = hr_status r))
   | RaisedTimeout \<Rightarrow> False
   | RaisedOther \<Rightarrow> answer = Inl OtherFailure \<or> (\<exists>r. answer = Inr r \<and> hr_broken r = Some OtherFailure) \<or>
         (\<exists>raw. accepted_body maximum answer raw \<and> decode raw \<in> {TooManyDigits, TooDeep})"
proof (cases answer)
  case (Inl e)
  then show ?thesis by (cases e) (simp_all add: request_outcome_def request_failed_def)
next
  case (Inr r)
  have broken: "read_at_most n cs b = Inl e \<Longrightarrow> b = Some e" "read_bounded m t cs b = Inl e \<Longrightarrow> b = Some e" for n m t cs b e
    by (induction cs arbitrary: n t) (auto simp: res_simps split: option.splits if_splits)
  show ?thesis
  proof (cases "hr_status r \<ge> 400")
    case True
    show ?thesis
    proof (cases "read_at_most 8192 (hr_chunks r) (hr_broken r)")
      case (Inl e)
      then show ?thesis using True broken(1)[OF Inl] \<open>answer = Inr r\<close>
        by (cases e) (simp_all add: request_outcome_def request_failed_def)
    next
      case (Inr body)
      have "pe_status_code (classify_http_error s m ra) = s" for s m ra by (simp add: classify_http_error_def)
      then show ?thesis using True Inr \<open>answer = Inr r\<close>
        by (auto simp: request_outcome_def classify_flags final_status_def)
    qed
  next
    case small: False
    show ?thesis
    proof (cases "read_bounded maximum 0 (hr_chunks r) (hr_broken r)")
      case (Inl e)
      then show ?thesis using small broken(2)[OF Inl] \<open>answer = Inr r\<close>
        by (cases e) (simp_all add: request_outcome_def request_failed_def)
    next
      case body: (Inr b)
      show ?thesis
      proof (cases b)
        case None
        then show ?thesis using body small \<open>answer = Inr r\<close>
          by (simp add: request_outcome_def oversized_response_def)
      next
        case (Some raw)
        note spec = read_bounded_spec[OF body[unfolded Some]]
        have "accepted_body maximum answer raw" using spec small \<open>answer = Inr r\<close> by (auto simp: accepted_body_def)
        then show ?thesis using Some body small \<open>answer = Inr r\<close>
          by (auto simp: request_outcome_def read_object_def provider_error_defs split: json_bytes.split option.split json.split)
      qed
    qed
  qed
qed

text \<open>
  A stream hands on only whole chunks of one successful answer, in order, never more bytes than
  the configured limit, and is exhausted only when the answer was handed on completely.
\<close>

theorem provider_stream_bounded:
  assumes "client_stream server cl endpoint payload = (out, e)"
  shows "(out = [] \<or> total_size out \<le> cl_max_response_bytes cl \<and>
      (\<exists>r. server (client_request cl ''POST'' (client_url cl endpoint) (Some payload)) = Inr r \<and>
         hr_status r < 400 \<and> prefix out (hr_chunks r))) \<and>
    (e \<noteq> Exhausted \<or> (\<exists>r. server (client_request cl ''POST'' (client_url cl endpoint) (Some payload)) = Inr r \<and>
         hr_status r < 400 \<and> out = hr_chunks r \<and> hr_broken r = None))"
proof (cases "server (client_request cl ''POST'' (client_url cl endpoint) (Some payload))")
  case (Inl x)
  then show ?thesis using assms by (cases x) (auto simp: client_stream_def stream_failed_def)
next
  case (Inr r)
  show ?thesis
  proof (cases "hr_status r \<ge> 400")
    case True
    then show ?thesis using assms Inr
      by (auto simp: client_stream_def stream_failed_def split: sum.splits http_failure.splits)
  next
    case False
    then have "stream_chunks (cl_max_response_bytes cl) 0 (hr_chunks r) (hr_broken r) = (out, e)"
      using assms Inr by (simp add: client_stream_def)
    from stream_chunks_spec[OF this] show ?thesis using Inr False by auto
  qed
qed

lemma call_from_no_assertion:
  "0 < n \<or> last_error \<noteq> None \<Longrightarrow> end_result (call_from pol uniform env started i n last_error b t) \<noteq> CallAssertion"
  by (induction n arbitrary: i last_error b t)
    (auto simp: Let_def split: option.split sum.split outcome.split)

text \<open>
  With a configuration that is accepted, a call to a provider sends at most ten requests within
  an hour, however the provider and concurrent calls behave; each request after the first follows an
  answer that may be retried; and the call returns exactly an object that its last request returned,
  never the assertion after the loop.
\<close>

theorem provider_call_bounded:
  assumes "provider_config_ok (cl_config cl)"
    and "r = client_json decode uniform server cl method url payload breaker now"
    and "answers = (\<lambda>i. request_outcome decode (cl_max_response_bytes cl)
           (ex_answer (server (client_request cl method url payload) i)))"
  shows "end_operations r \<le> 10 \<and> end_time r \<le> now + 3600 \<and> end_result r \<noteq> CallAssertion \<and>
    (\<forall>j. Suc j < end_operations r \<longrightarrow> (\<exists>e. answers j = Raised e \<and> pe_retryable e)) \<and>
    (\<forall>d. end_result r = CallOk d \<longrightarrow> answers (end_operations r - 1) = Returned d \<and>
       cb_state (end_breaker r) = Closed)"
proof -
  define env where "env = (\<lambda>i. let x = server (client_request cl method url payload) i
    in \<lparr>att_duration = ex_duration x, att_outcome = request_outcome decode (cl_max_response_bytes cl) (ex_answer x),
        att_others = ex_others x, sleep_others = ex_sleep_others x\<rparr>)"
  let ?pol = "policy_of (cl_config cl)"
  have r: "r = call ?pol uniform env breaker now" by (simp add: assms(2) client_json_def env_def)
  have ok: "1 \<le> max_attempts ?pol" "max_attempts ?pol \<le> 10"
      "0 < total_timeout_seconds ?pol" "total_timeout_seconds ?pol \<le> 3600"
    using assms(1) by (simp_all add: provider_config_ok_def policy_of_def)
  have env: "att_outcome (env j) = answers j" for j by (simp add: env_def assms(3) Let_def)
  have within: "end_within ?pol env (now + max 0 (total_timeout_seconds ?pol)) 0 (nat (max_attempts ?pol)) r"
    unfolding r call_def by (rule call_from_end_within) simp
  moreover have "end_result r \<noteq> CallAssertion"
    unfolding r call_def by (rule call_from_no_assertion) (use ok in simp)
  ultimately show ?thesis using ok unfolding end_within_def env by auto
qed

definition demo_client :: provider_client where
  "demo_client = \<lparr>cl_config = \<lparr>pc_name = ''a'', pc_api = ''openai'', pc_base_url = ''https://a.example'', pc_api_key = ''k'',
     pc_account = ''default'', pc_region = ''global'', pc_headers = [], pc_api_version = [],
     pc_timeout_seconds = 120, pc_total_timeout_seconds = 135, pc_max_attempts = 3,
     pc_retry_base_seconds = 1/4, pc_retry_max_seconds = 5, pc_circuit_failure_threshold = 5,
     pc_circuit_reset_seconds = 30\<rparr>, cl_max_response_bytes = 5\<rparr>"

definition body_answer :: "int \<Rightarrow> string list \<Rightarrow> http_answer" where
  "body_answer s cs = Inr \<lparr>hr_status = s, hr_retry_after = None, hr_chunks = cs, hr_broken = None\<rparr>"

theorem provider_stream_bounded_witness:
  "client_stream (\<lambda>_. body_answer 200 [''abc'', ''de'', ''f'']) demo_client ''messages'' JNull
     = ([''abc'', ''de''], StreamRaised oversized_response) \<and> total_size [''abc'', ''de''] \<le> 5"
proof -
  have run: "client_stream (\<lambda>_. body_answer 200 [''abc'', ''de'', ''f'']) demo_client ''messages'' JNull
     = ([''abc'', ''de''], StreamRaised oversized_response)"
    by (simp add: client_stream_def body_answer_def demo_client_def)
  show ?thesis using provider_stream_bounded[OF run] run by (simp add: demo_client_def)
qed

lemma demo_client_ok: "provider_config_ok (cl_config demo_client)"
proof -
  have "\<not> has_control ''https://a.example''" by code_simp
  then show ?thesis by (simp add: demo_client_def provider_config_ok_def)
qed

theorem provider_call_bounded_witness:
  "end_operations (client_json JsonText (\<lambda>lo hi. hi)
     (\<lambda>_ i. \<lparr>ex_duration = 1, ex_answer = body_answer 503 [], ex_others = id, ex_sleep_others = id\<rparr>)
     demo_client ''GET'' ''u'' None (new_breaker 5 30) 0) \<le> 10"
  using provider_call_bounded[OF demo_client_ok refl refl] by blast

theorem provider_exchange_policy_witness:
  "request_outcome JsonText 10 (body_answer 200 [''{'', ''}'']) = Returned [] \<and> accepted_body 10 (body_answer 200 [''{'', ''}'']) ''{}''"
proof -
  have "json_loads ''{}'' = Some (JObj [])" by code_simp
  then have run: "request_outcome JsonText 10 (body_answer 200 [''{'', ''}'']) = Returned []"
    by (simp add: request_outcome_def body_answer_def read_object_def)
  show ?thesis
    using provider_exchange_policy[where decode = JsonText and maximum = 10 and answer = "body_answer 200 [''{'', ''}'']"] run
    by (auto simp: accepted_body_def body_answer_def)
qed

text \<open>
  One integer of more than 4300 digits in a complete answer of status 200 is enough: the exception is not among those that
  the client turns into a provider error.
\<close>

theorem long_integer_escapes:
  assumes "accepted_body maximum answer raw" "decode raw = TooManyDigits"
    and "answer = Inr r" "read_bounded maximum 0 (hr_chunks r) (hr_broken r) = Inr (Some raw)"
  shows "request_outcome decode maximum answer = RaisedOther"
  using assms by (simp add: request_outcome_def accepted_body_def read_object_def)

end
