(* ===== verification/RequestLimits.thy ===== *)
theory RequestLimits
  imports Prelude
begin

text \<open>
  Request and response limits (\<open>src/zeaz_provider/limits.py\<close>): the byte limit of a stream, and the
  concurrency limiter with its lazily created \<open>asyncio.Semaphore\<close>. A stream is the list of its
  chunks; the limiter is a state machine whose steps are the stretches of code between two awaits.
\<close>

section \<open>Bounded streams\<close>

text \<open>What the consumer receives, and whether the stream then raised \<open>ResponseLimitExceeded\<close>.\<close>

fun bounded_from :: "nat \<Rightarrow> nat \<Rightarrow> string list \<Rightarrow> string list \<times> bool" where
  "bounded_from seen maximum [] = ([], False)"
| "bounded_from seen maximum (chunk # source) =
     (let seen' = seen + length chunk in
      if seen' > maximum then ([], True)
      else (let (out, exceeded) = bounded_from seen' maximum source in (chunk # out, exceeded)))"

definition bounded_stream :: "string list \<Rightarrow> nat \<Rightarrow> string list \<times> bool" where
  "bounded_stream source maximum = bounded_from 0 maximum source"

definition stream_size :: "string list \<Rightarrow> nat" where
  "stream_size cs = sum_list (map length cs)"

lemma stream_size_simps [simp]:
  "stream_size [] = 0" "stream_size (c # cs) = length c + stream_size cs"
  by (simp_all add: stream_size_def)

lemma bounded_from_spec:
  "seen \<le> maximum \<Longrightarrow>
     (\<exists>rest. source = fst (bounded_from seen maximum source) @ rest \<and>
        (snd (bounded_from seen maximum source) \<longleftrightarrow> rest \<noteq> []) \<and>
        (rest \<noteq> [] \<longrightarrow> maximum < seen + stream_size (fst (bounded_from seen maximum source)) + length (hd rest))) \<and>
     seen + stream_size (fst (bounded_from seen maximum source)) \<le> maximum"
proof (induction seen maximum source rule: bounded_from.induct)
  case (2 seen maximum chunk source)
  show ?case
  proof (cases "seen + length chunk > maximum")
    case True
    with 2 show ?thesis by (auto simp: Let_def)
  next
    case False
    obtain out e where r: "bounded_from (seen + length chunk) maximum source = (out, e)" by force
    from 2(1)[OF refl False] False r show ?thesis by (auto simp: Let_def add.assoc)
  qed
qed auto

text \<open>
  The chunks passed on are a prefix of the source within the byte limit; the limit error is
  raised exactly where some chunk is withheld, and the first chunk withheld would have crossed the
  limit.
\<close>

theorem bounded_stream_prefix:
  "stream_size (fst (bounded_stream source maximum)) \<le> maximum \<and>
   (\<exists>rest. source = fst (bounded_stream source maximum) @ rest \<and>
      snd (bounded_stream source maximum) = (rest \<noteq> []) \<and>
      (rest = [] \<or> maximum < stream_size (fst (bounded_stream source maximum)) + length (hd rest)))"
  using bounded_from_spec[of 0 maximum source] by (auto simp: bounded_stream_def)

section \<open>The concurrency limiter\<close>

text \<open>
  \<open>sem\<close> is the semaphore's counter where it exists. \<open>waiting\<close> counts the tasks queued in
  \<open>acquire\<close>, \<open>woken\<close> those that \<open>release\<close> has handed a permit and that have not run yet. The lock is
  never contended: no task awaits while it holds it.
\<close>

record concurrency_limiter =
  cl_limit :: int
  cl_active :: int
  cl_sem :: "nat option"
  cl_waiting :: nat
  cl_woken :: nat

definition new_concurrency_limiter :: "int \<Rightarrow> concurrency_limiter" where
  "new_concurrency_limiter limit =
     \<lparr>cl_limit = limit, cl_active = 0, cl_sem = None, cl_waiting = 0, cl_woken = 0\<rparr>"

datatype acquire_result = Acquired bool | Suspended

text \<open>\<open>try_acquire\<close> up to its return, or up to the point where it waits for a permit.\<close>

definition try_acquire :: "concurrency_limiter \<Rightarrow> acquire_result \<times> concurrency_limiter" where
  "try_acquire l =
     (if cl_limit l \<le> 0 then (Acquired True, l\<lparr>cl_active := cl_active l + 1\<rparr>)
      else
        (let permits = (case cl_sem l of None \<Rightarrow> nat (cl_limit l) | Some p \<Rightarrow> p)
         in if 0 < permits \<and> cl_waiting l = 0
            then (Acquired True, l\<lparr>cl_sem := Some (permits - 1), cl_active := cl_active l + 1\<rparr>)
            else (Suspended, l\<lparr>cl_sem := Some permits, cl_waiting := cl_waiting l + 1\<rparr>)))"

text \<open>A woken task goes on: \<open>acquire\<close> returns \<open>True\<close> and the task counts itself.\<close>

definition resume_acquire :: "concurrency_limiter \<Rightarrow> (acquire_result \<times> concurrency_limiter) option" where
  "resume_acquire l =
     (if cl_woken l = 0 then None
      else Some (Acquired True, l\<lparr>cl_woken := cl_woken l - 1, cl_active := cl_active l + 1\<rparr>))"

definition sem_release :: "concurrency_limiter \<Rightarrow> concurrency_limiter" where
  "sem_release l =
     (case cl_sem l of
        None \<Rightarrow> l
      | Some p \<Rightarrow>
          if cl_waiting l = 0 then l\<lparr>cl_sem := Some (p + 1)\<rparr>
          else l\<lparr>cl_waiting := cl_waiting l - 1, cl_woken := cl_woken l + 1\<rparr>)"

text \<open>\<open>None\<close> is the \<open>RuntimeError\<close> of a release without acquisition.\<close>

definition release :: "concurrency_limiter \<Rightarrow> concurrency_limiter option" where
  "release l = (if cl_active l \<le> 0 then None else Some (sem_release (l\<lparr>cl_active := cl_active l - 1\<rparr>)))"

text \<open>Cancellation of a task that waits, and of one that was woken and gives its permit back.\<close>

definition cancel_waiting :: "concurrency_limiter \<Rightarrow> concurrency_limiter option" where
  "cancel_waiting l = (if cl_waiting l = 0 then None else Some (l\<lparr>cl_waiting := cl_waiting l - 1\<rparr>))"

definition cancel_woken :: "concurrency_limiter \<Rightarrow> concurrency_limiter option" where
  "cancel_woken l = (if cl_woken l = 0 then None else Some (sem_release (l\<lparr>cl_woken := cl_woken l - 1\<rparr>)))"

inductive limiter_step :: "concurrency_limiter \<Rightarrow> concurrency_limiter \<Rightarrow> bool" where
  step_acquire: "try_acquire l = (r, l') \<Longrightarrow> limiter_step l l'"
| step_resume: "resume_acquire l = Some (r, l') \<Longrightarrow> limiter_step l l'"
| step_release: "release l = Some l' \<Longrightarrow> limiter_step l l'"
| step_cancel_waiting: "cancel_waiting l = Some l' \<Longrightarrow> limiter_step l l'"
| step_cancel_woken: "cancel_woken l = Some l' \<Longrightarrow> limiter_step l l'"

inductive_cases limiter_stepE: "limiter_step l l'"

definition limiter_init :: "int \<Rightarrow> concurrency_limiter \<Rightarrow> bool" where
  "limiter_init limit l = (l = new_concurrency_limiter limit)"

text \<open>Permits are conserved: free ones, active tasks and woken tasks make up the limit.\<close>

definition limiter_inv :: "int \<Rightarrow> concurrency_limiter \<Rightarrow> bool" where
  "limiter_inv limit l =
     (cl_limit l = limit \<and> 0 \<le> cl_active l \<and>
      (limit \<le> 0 \<longrightarrow> cl_sem l = None \<and> cl_waiting l = 0 \<and> cl_woken l = 0) \<and>
      (0 < limit \<longrightarrow>
         (case cl_sem l of
            None \<Rightarrow> cl_active l = 0 \<and> cl_waiting l = 0 \<and> cl_woken l = 0
          | Some p \<Rightarrow> int p + cl_active l + int (cl_woken l) = limit)))"

lemmas limiter_defs = try_acquire_def resume_acquire_def release_def sem_release_def
  cancel_waiting_def cancel_woken_def Let_def

lemma limiter_inv_acquire: "limiter_inv limit l \<Longrightarrow> limiter_inv limit (snd (try_acquire l))"
  by (auto simp: limiter_defs limiter_inv_def split: option.splits)

lemma limiter_inv_resume: "resume_acquire l = Some (r, l') \<Longrightarrow> limiter_inv limit l \<Longrightarrow> limiter_inv limit l'"
  by (auto simp: limiter_defs limiter_inv_def split: option.splits if_splits)

lemma limiter_inv_release: "release l = Some l' \<Longrightarrow> limiter_inv limit l \<Longrightarrow> limiter_inv limit l'"
  by (auto simp: limiter_defs limiter_inv_def split: option.splits if_splits)

lemma limiter_inv_cancel_waiting:
  "cancel_waiting l = Some l' \<Longrightarrow> limiter_inv limit l \<Longrightarrow> limiter_inv limit l'"
  by (auto simp: limiter_defs limiter_inv_def split: option.splits if_splits)

lemma limiter_inv_cancel_woken:
  "cancel_woken l = Some l' \<Longrightarrow> limiter_inv limit l \<Longrightarrow> limiter_inv limit l'"
  by (auto simp: limiter_defs limiter_inv_def split: option.splits if_splits)

lemmas limiter_inv_steps = limiter_inv_resume limiter_inv_release limiter_inv_cancel_waiting
  limiter_inv_cancel_woken

interpretation limiter_machine: invariant_machine "limiter_init limit" limiter_step "limiter_inv limit"
  for limit
proof
  show "limiter_inv limit l" if "limiter_init limit l" for l
    using that by (simp add: limiter_init_def limiter_inv_def new_concurrency_limiter_def)
  show "limiter_inv limit l'" if "limiter_step l l'" "limiter_inv limit l" for l l'
    using that limiter_inv_acquire[of limit l] limiter_inv_steps
    by (elim limiter_stepE) auto
qed

lemma try_acquire_true: "fst (try_acquire l) \<noteq> Acquired False"
  by (simp add: try_acquire_def Let_def split: option.split)

text \<open>
  With a positive limit, never more requests are active than the limit, in any interleaving of
  acquisitions, releases and cancellations; and \<open>try_acquire\<close> never returns \<open>False\<close>: beyond the
  limit it suspends the request instead of refusing it.
\<close>

theorem concurrency_limit:
  assumes "reaches (limiter_init limit) limiter_step l" "0 < limit"
  shows "0 \<le> cl_active l \<and> cl_active l \<le> limit \<and> fst (try_acquire l) \<noteq> Acquired False \<and>
    (cl_active l = limit \<longrightarrow> fst (try_acquire l) = Suspended)"
proof -
  have "limiter_inv limit l" using assms(1) by (rule limiter_machine.reachable_inv)
  then show ?thesis using assms(2) try_acquire_true
    by (auto simp: limiter_inv_def try_acquire_def Let_def split: option.splits)
qed

theorem concurrency_limit_witness:
  "fst (try_acquire (snd (try_acquire (new_concurrency_limiter 1)))) = Suspended"
proof -
  have "reaches (limiter_init 1) limiter_step (snd (try_acquire (new_concurrency_limiter 1)))"
    by (rule reaches_step[where s = "new_concurrency_limiter 1"])
      (auto intro: reaches_init step_acquire prod.collapse[symmetric] simp: limiter_init_def)
  from concurrency_limit[OF this] show ?thesis
    by (simp add: new_concurrency_limiter_def try_acquire_def Let_def)
qed

end
