(* ===== verification/Security.thy ===== *)
theory Security
  imports Prelude
begin

text \<open>
  Request identity and rate limits (\<open>src/zeaz_provider/security.py\<close>): the correlation id, the client
  bucket, the client-key check, the trusted-proxy rule and the two rate limiters. SHA-256
  (\<open>hashlib\<close>) and the parser of \<open>ipaddress\<close> are arguments. The in-memory limiter and the Redis
  script are interpretations of one contract, a sliding window, and inherit its bound.
\<close>

section \<open>Identity\<close>

definition is_alnum :: "char \<Rightarrow> bool" where
  "is_alnum c = (c \<in> set ''ABCDEFGHIJKLMNOPQRSTUVWXYZabcdefghijklmnopqrstuvwxyz0123456789'')"

definition request_id_matches :: "string \<Rightarrow> bool" where
  "request_id_matches s = (1 \<le> length s \<and> length s \<le> 128 \<and> list_all (\<lambda>c. is_alnum c \<or> c \<in> set ''._-'') s)"

text \<open>\<open>fresh\<close> is \<open>uuid.uuid4().hex\<close>.\<close>

definition request_id :: "string \<Rightarrow> string option \<Rightarrow> string" where
  "request_id fresh v = (case v of
     Some s \<Rightarrow> if s \<noteq> [] \<and> request_id_matches s then s else fresh
   | None \<Rightarrow> fresh)"

definition non_empty :: "string option \<Rightarrow> string option" where
  "non_empty v = (case v of Some s \<Rightarrow> if s = [] then None else Some s | None \<Rightarrow> None)"

definition client_bucket :: "(string \<Rightarrow> string) \<Rightarrow> string option \<Rightarrow> string option \<Rightarrow> string \<Rightarrow> string" where
  "client_bucket sha256_hex authorization api_key peer =
     sha256_hex (case non_empty api_key of
       Some k \<Rightarrow> k
     | None \<Rightarrow> (case non_empty authorization of Some a \<Rightarrow> a | None \<Rightarrow> peer))"

text \<open>The loop over the configured digests, without an early exit.\<close>

fun any_digest_matches :: "string \<Rightarrow> string list \<Rightarrow> bool \<Rightarrow> bool" where
  "any_digest_matches h [] matched = matched"
| "any_digest_matches h (d # ds) matched = any_digest_matches h ds (matched \<or> h = d)"

definition verify_client_key :: "(string \<Rightarrow> string) \<Rightarrow> string \<Rightarrow> string list \<Rightarrow> bool" where
  "verify_client_key sha256 candidate configured_hashes =
     (if candidate = [] \<or> configured_hashes = [] then False
      else any_digest_matches (sha256 candidate) configured_hashes False)"

lemma any_digest_matches_iff: "any_digest_matches h ds m = (m \<or> h \<in> set ds)"
  by (induction ds arbitrary: m) auto

lemma verify_client_key_iff:
  "verify_client_key sha256 c ds = (c \<noteq> [] \<and> sha256 c \<in> set ds)"
  by (auto simp: verify_client_key_def any_digest_matches_iff)

section \<open>Trusted proxies\<close>

record ip_addr =
  ip_version :: nat
  ip_value :: nat

record ip_network =
  net_version :: nat
  net_base :: nat
  net_prefix :: nat

definition ip_bits :: "nat \<Rightarrow> nat" where
  "ip_bits version = (if version = 4 then 32 else 128)"

definition in_network :: "ip_addr \<Rightarrow> ip_network \<Rightarrow> bool" where
  "in_network a n =
     (let host = ip_bits (net_version n) - net_prefix n
      in ip_value a div 2 ^ host = net_base n div 2 ^ host)"

text \<open>\<open>parse\<close> is \<open>ipaddress.ip_address\<close> (\<open>None\<close> for its \<open>ValueError\<close>), \<open>compressed\<close> the canonical text.\<close>

definition client_ip ::
  "(string \<Rightarrow> ip_addr option) \<Rightarrow> (ip_addr \<Rightarrow> string) \<Rightarrow> (string \<Rightarrow> string) \<Rightarrow> ip_network list
     \<Rightarrow> string \<Rightarrow> string option \<Rightarrow> string" where
  "client_ip parse compressed strip networks peer cf_connecting_ip =
     (case parse peer of
        None \<Rightarrow> peer
      | Some direct \<Rightarrow>
          if \<not> list_ex (\<lambda>n. ip_version direct = net_version n \<and> in_network direct n) networks
          then compressed direct
          else (case non_empty cf_connecting_ip of
                  None \<Rightarrow> compressed direct
                | Some h \<Rightarrow> (case parse (strip h) of
                              None \<Rightarrow> compressed direct
                            | Some forwarded \<Rightarrow> compressed forwarded)))"

text \<open>
  A forwarded address is believed only when the direct peer lies in a configured network;
  otherwise the header has no influence on the client's address.
\<close>

theorem untrusted_peer_ignores_header:
  assumes "\<And>direct n. parse peer = Some direct \<Longrightarrow> n \<in> set networks \<Longrightarrow>
      \<not> (ip_version direct = net_version n \<and> in_network direct n)"
  shows "client_ip parse compressed strip networks peer h = client_ip parse compressed strip networks peer None"
proof (cases "parse peer")
  case None
  then show ?thesis by (simp add: client_ip_def)
next
  case (Some direct)
  have "\<not> list_ex (\<lambda>n. ip_version direct = net_version n \<and> in_network direct n) networks"
    using assms[OF Some] unfolding list_ex_iff by blast
  then show ?thesis by (simp add: client_ip_def Some)
qed

theorem untrusted_peer_ignores_header_witness:
  "client_ip (\<lambda>s. Some \<lparr>ip_version = 4, ip_value = length s\<rparr>) (\<lambda>a. replicate (ip_value a) CHR ''x'') id
     [\<lparr>net_version = 4, net_base = 9, net_prefix = 32\<rparr>] ''ab'' (Some ''spoof'') = ''xx''"
proof -
  have "client_ip (\<lambda>s. Some \<lparr>ip_version = 4, ip_value = length s\<rparr>) (\<lambda>a. replicate (ip_value a) CHR ''x'') id
     [\<lparr>net_version = 4, net_base = 9, net_prefix = 32\<rparr>] ''ab'' (Some ''spoof'')
    = client_ip (\<lambda>s. Some \<lparr>ip_version = 4, ip_value = length s\<rparr>) (\<lambda>a. replicate (ip_value a) CHR ''x'') id
     [\<lparr>net_version = 4, net_base = 9, net_prefix = 32\<rparr>] ''ab'' None"
    by (rule untrusted_peer_ignores_header) (auto simp: in_network_def ip_bits_def)
  also have "\<dots> = ''xx''"
    by (simp add: client_ip_def non_empty_def in_network_def ip_bits_def)
  finally show ?thesis .
qed

section \<open>Sliding windows\<close>

text \<open>
  The contract of a rate limiter: \<open>events s b\<close> are the times it has recorded for a bucket. A
  request is granted exactly while fewer than the limit of them are younger than the window, and
  a granted request is recorded; nothing that can still count is forgotten.
\<close>

locale sliding_window =
  fixes allow :: "'t::linordered_idom \<Rightarrow> string \<Rightarrow> 's \<Rightarrow> (bool \<times> int) \<times> 's"
    and events :: "'s \<Rightarrow> string \<Rightarrow> 't list"
    and inv :: "'t \<Rightarrow> 's \<Rightarrow> bool"
    and limit :: int
    and window :: 't
  assumes allow_grants: "inv t s \<Longrightarrow> t \<le> now \<Longrightarrow>
      fst (fst (allow now b s)) = (int (length (filter (\<lambda>e. now - window < e) (events s b))) < limit)"
    and allow_records: "inv t s \<Longrightarrow> t \<le> now \<Longrightarrow> now \<le> later \<Longrightarrow>
      filter (\<lambda>e. later - window < e) (events (snd (allow now b s)) b')
        = filter (\<lambda>e. later - window < e) (events s b')
          @ (if fst (fst (allow now b s)) \<and> b' = b \<and> later - window < now then [now] else [])"
    and allow_inv: "inv t s \<Longrightarrow> t \<le> now \<Longrightarrow> inv now (snd (allow now b s))"
begin

text \<open>The times at which requests of a bucket are granted in a run.\<close>

fun grants :: "string \<Rightarrow> 's \<Rightarrow> ('t \<times> string) list \<Rightarrow> 't list" where
  "grants b s [] = []"
| "grants b s ((now, b') # xs) =
     (let r = allow now b' s
      in (if fst (fst r) \<and> b' = b then [now] else []) @ grants b (snd r) xs)"

fun state_after :: "'s \<Rightarrow> ('t \<times> string) list \<Rightarrow> 's" where
  "state_after s [] = s"
| "state_after s ((now, b) # xs) = state_after (snd (allow now b s)) xs"

definition counted :: "string \<Rightarrow> 't \<Rightarrow> 's \<Rightarrow> int" where
  "counted b t s = int (length (filter (\<lambda>e. t - window < e \<and> e \<le> t) (events s b)))"

lemma grants_after: "\<forall>x \<in> set xs. t < fst x \<Longrightarrow> g \<in> set (grants b s xs) \<Longrightarrow> t < g"
proof (induction xs arbitrary: s)
  case Nil
  then show ?case by simp
next
  case (Cons x xs)
  obtain now b' where x: "x = (now, b')" by (cases x)
  then show ?case using Cons by (auto simp: Let_def split: if_splits)
qed

lemma counted_allow:
  assumes "inv t0 s" "t0 \<le> now" "now \<le> t"
  shows "counted b t (snd (allow now b' s))
    = counted b t s + (if fst (fst (allow now b' s)) \<and> b = b' \<and> t - window < now then 1 else 0)"
proof -
  have split: "filter (\<lambda>e. t - window < e \<and> e \<le> t) ys = filter (\<lambda>e. e \<le> t) (filter (\<lambda>e. t - window < e) ys)" for ys
    by simp
  show ?thesis
    using assms(3) by (simp only: counted_def split allow_records[OF assms] filter_append) simp
qed

lemma counted_le_live:
  assumes "now \<le> t"
  shows "counted b t s \<le> int (length (filter (\<lambda>e. now - window < e) (events s b)))"
proof -
  have "length (filter (\<lambda>e. t - window < e \<and> e \<le> t) ys) \<le> length (filter (\<lambda>e. now - window < e) ys)" for ys
    using assms by (induction ys) auto
  then show ?thesis by (simp add: counted_def)
qed

lemma grants_counted:
  assumes "sorted (map fst xs)" "\<forall>x \<in> set xs. t0 \<le> fst x" "inv t0 s" "counted b t s \<le> limit"
  shows "counted b t s + int (length (filter (\<lambda>g. t - window < g \<and> g \<le> t) (grants b s xs))) \<le> limit"
  using assms
proof (induction xs arbitrary: s t0)
  case Nil
  then show ?case by simp
next
  case (Cons x xs)
  obtain now b' where x: "x = (now, b')" by (cases x)
  let ?r = "allow now b' s"
  have now: "t0 \<le> now" using Cons.prems(2) x by auto
  have inv': "inv now (snd ?r)" using Cons.prems(3) now by (rule allow_inv)
  show ?case
  proof (cases "now \<le> t")
    case False
    have "filter (\<lambda>g. t - window < g \<and> g \<le> t) (grants b s (x # xs)) = []"
    proof (rule ccontr)
      assume "filter (\<lambda>g. t - window < g \<and> g \<le> t) (grants b s (x # xs)) \<noteq> []"
      then obtain g where "g \<in> set (grants b s (x # xs))" "g \<le> t" by (auto simp: filter_empty_conv)
      moreover have "\<forall>y \<in> set (x # xs). t < fst y"
        using Cons.prems(1) False x by auto
      ultimately show False using grants_after[of "x # xs" t g b s] by force
    qed
    then show ?thesis using Cons.prems(4) by simp
  next
    case True
    note step = counted_allow[OF Cons.prems(3) now True, of b b']
    have "counted b t (snd ?r) \<le> limit"
    proof (cases "fst (fst ?r) \<and> b = b'")
      case granted: True
      then have "counted b t s < limit"
        using allow_grants[OF Cons.prems(3) now, of b'] counted_le_live[OF True, of b s] by auto
      then show ?thesis using step by auto
    next
      case False
      then show ?thesis using step Cons.prems(4) by auto
    qed
    moreover have "\<forall>y \<in> set xs. now \<le> fst y"
      using Cons.prems(1) x by auto
    ultimately have "counted b t (snd ?r)
        + int (length (filter (\<lambda>g. t - window < g \<and> g \<le> t) (grants b (snd ?r) xs))) \<le> limit"
      using Cons.prems(1) inv' by (intro Cons.IH) auto
    then show ?thesis using step True x by (auto simp: Let_def)
  qed
qed

text \<open>What is recorded and can still count are the grants of the run.\<close>

lemma live_grants:
  assumes "sorted (map fst xs)" "\<forall>x \<in> set xs. t0 \<le> fst x \<and> fst x \<le> now" "inv t0 s" "t0 \<le> now"
  shows "(\<exists>t \<le> now. inv t (state_after s xs)) \<and>
    filter (\<lambda>e. now - window < e) (events (state_after s xs) b)
      = filter (\<lambda>e. now - window < e) (events s b) @ filter (\<lambda>e. now - window < e) (grants b s xs)"
  using assms
proof (induction xs arbitrary: s t0)
  case (Cons x xs)
  obtain at' b' where x: "x = (at', b')" by (cases x)
  have le: "t0 \<le> at'" "at' \<le> now" using Cons.prems(2) x by auto
  have "inv at' (snd (allow at' b' s))" using Cons.prems(3) le(1) by (rule allow_inv)
  then show ?case
    using Cons.IH[of at' "snd (allow at' b' s)"] Cons.prems(1,2) le allow_records[OF Cons.prems(3) le, of b' b]
    by (auto simp: x Let_def)
qed auto

text \<open>The request that comes next is granted exactly if the window behind it has room.\<close>

lemma granted_next:
  assumes "sorted (map fst xs)" "\<forall>x \<in> set xs. t0 \<le> fst x \<and> fst x \<le> now" "inv t0 s" "t0 \<le> now" "events s b = []"
  shows "fst (fst (allow now b (state_after s xs))) \<longleftrightarrow> int (length (filter (\<lambda>g. now - window < g) (grants b s xs))) < limit"
proof -
  obtain t where t: "t \<le> now" "inv t (state_after s xs)" using live_grants[OF assms(1-4)] by blast
  show ?thesis using allow_grants[OF t(2,1), of b] live_grants[OF assms(1-4), of b] assms(5) by simp
qed

text \<open>In every window, at most \<open>limit\<close> requests of a bucket are granted.\<close>

lemma window_bound:
  assumes "sorted (map fst xs)" "\<forall>x \<in> set xs. t0 \<le> fst x" "inv t0 s" "events s b = []" "0 \<le> limit"
  shows "int (length (filter (\<lambda>g. t - window < g \<and> g \<le> t) (grants b s xs))) \<le> limit"
  using grants_counted[OF assms(1-3), of b t] assms(4,5) by (simp add: counted_def)

end

section \<open>The in-memory limiter\<close>

record memory_limiter =
  ml_limit :: int
  ml_window :: real
  ml_events :: "string \<rightharpoonup> real list"

definition ml_bucket :: "memory_limiter \<Rightarrow> string \<Rightarrow> real list" where
  "ml_bucket s b = (case ml_events s b of None \<Rightarrow> [] | Some es \<Rightarrow> es)"

definition memory_allow :: "real \<Rightarrow> string \<Rightarrow> memory_limiter \<Rightarrow> (bool \<times> int) \<times> memory_limiter" where
  "memory_allow now bucket s =
     (if ml_limit s \<le> 0 then ((True, 0), s)
      else
        (let cutoff = now - ml_window s;
             events = dropWhile (\<lambda>e. e \<le> cutoff) (ml_bucket s bucket);
             remaining = max 0 (ml_limit s - int (length events))
         in if remaining = 0 then ((False, 0), s\<lparr>ml_events := (ml_events s)(bucket \<mapsto> events)\<rparr>)
            else ((True, remaining - 1), s\<lparr>ml_events := (ml_events s)(bucket \<mapsto> events @ [now])\<rparr>)))"

definition new_memory_limiter :: "int \<Rightarrow> real \<Rightarrow> memory_limiter" where
  "new_memory_limiter limit window = \<lparr>ml_limit = limit, ml_window = window, ml_events = (\<lambda>_. None)\<rparr>"

definition memory_inv :: "int \<Rightarrow> real \<Rightarrow> real \<Rightarrow> memory_limiter \<Rightarrow> bool" where
  "memory_inv limit window t s =
     (0 < limit \<and> ml_limit s = limit \<and> ml_window s = window \<and>
      (\<forall>b. sorted (ml_bucket s b) \<and> (\<forall>e \<in> set (ml_bucket s b). e \<le> t)))"

lemma filter_dropWhile_le:
  fixes c :: "'t::linorder"
  shows "c \<le> d \<Longrightarrow> filter (\<lambda>e. d < e) (dropWhile (\<lambda>e. e \<le> c) es) = filter (\<lambda>e. d < e) es"
  by (induction es) auto

lemma dropWhile_sorted_filter:
  fixes c :: "'t::linorder"
  shows "sorted es \<Longrightarrow> dropWhile (\<lambda>e. e \<le> c) es = filter (\<lambda>e. c < e) es"
proof (induction es)
  case (Cons e es)
  then show ?case by (cases "e \<le> c") (auto simp: filter_id_conv intro!: filter_True[symmetric])
qed simp

lemma ml_bucket_update:
  "ml_bucket (s\<lparr>ml_events := (ml_events s)(b \<mapsto> es)\<rparr>) b' = (if b' = b then es else ml_bucket s b')"
  by (simp add: ml_bucket_def)

lemma memory_allow_bucket:
  "ml_bucket (snd (memory_allow now b s)) b' =
     (if 0 < ml_limit s \<and> b' = b then
        dropWhile (\<lambda>e. e \<le> now - ml_window s) (ml_bucket s b) @ (if fst (fst (memory_allow now b s)) then [now] else [])
      else ml_bucket s b')"
  by (simp add: memory_allow_def Let_def ml_bucket_update)

lemma memory_allow_frame:
  "ml_limit (snd (memory_allow now b s)) = ml_limit s \<and> ml_window (snd (memory_allow now b s)) = ml_window s"
  by (simp add: memory_allow_def Let_def)

interpretation memory_window: sliding_window memory_allow ml_bucket "memory_inv limit window" limit window
  for limit and window
proof
  fix t now :: real and s :: memory_limiter and b :: string
  assume inv: "memory_inv limit window t s" and le: "t \<le> now"
  then have lim: "0 < limit" "ml_limit s = limit" "ml_window s = window" "sorted (ml_bucket s b)"
    by (auto simp: memory_inv_def)
  then show "fst (fst (memory_allow now b s))
      = (int (length (filter (\<lambda>e. now - window < e) (ml_bucket s b))) < limit)"
    by (auto simp: memory_allow_def Let_def dropWhile_sorted_filter)
  show "filter (\<lambda>e. later - window < e) (ml_bucket (snd (memory_allow now b s)) b')
      = filter (\<lambda>e. later - window < e) (ml_bucket s b')
        @ (if fst (fst (memory_allow now b s)) \<and> b' = b \<and> later - window < now then [now] else [])"
    if "now \<le> later" for later b'
    using lim that filter_dropWhile_le[of "now - window" "later - window" "ml_bucket s b"]
    by (simp add: memory_allow_bucket)
  show "memory_inv limit window now (snd (memory_allow now b s))"
  proof -
    have old: "sorted (dropWhile (\<lambda>e. e \<le> now - window) (ml_bucket s c))"
      "\<forall>e \<in> set (ml_bucket s c). e \<le> now" for c
      using inv le sorted_dropWhile unfolding memory_inv_def by (blast, meson order_trans)
    then have "\<forall>e \<in> set (dropWhile (\<lambda>e. e \<le> now - window) (ml_bucket s b)). e \<le> now"
      using set_dropWhileD by fastforce
    then show ?thesis
      using inv lim old memory_allow_frame[of now b s]
      by (auto simp: memory_inv_def memory_allow_bucket sorted_append)
  qed
qed

lemma memory_inv_new: "0 < limit \<Longrightarrow> memory_inv limit window t (new_memory_limiter limit window)"
  by (simp add: memory_inv_def new_memory_limiter_def ml_bucket_def)

text \<open>
  C33: whatever requests arrive, in every window of the configured length at most \<open>limit\<close> requests of
  one client are granted by the in-memory limiter (its clock does not run backwards), and none is refused needlessly: a
  request is granted exactly if fewer than \<open>limit\<close> requests of its client were granted in the window that ends with it.
\<close>

theorem memory_limiter_window:
  assumes "sorted (map fst requests)" "0 < limit" "\<forall>x \<in> set requests. fst x \<le> now"
  shows "int (length (filter (\<lambda>g. t - window < g \<and> g \<le> t)
      (memory_window.grants client (new_memory_limiter limit window) requests))) \<le> limit \<and>
    (fst (fst (memory_allow now client (memory_window.state_after (new_memory_limiter limit window) requests))) \<longleftrightarrow>
      int (length (filter (\<lambda>g. now - window < g) (memory_window.grants client (new_memory_limiter limit window) requests))) < limit)"
proof -
  define t0 where "t0 = (case requests of [] \<Rightarrow> now | r # rs \<Rightarrow> fst r)"
  have le: "\<forall>x \<in> set requests. t0 \<le> fst x \<and> fst x \<le> now" "t0 \<le> now"
    using assms(1,3) by (force simp: t0_def split: list.splits)+
  have empty: "ml_bucket (new_memory_limiter limit window) client = []" by (simp add: new_memory_limiter_def ml_bucket_def)
  show ?thesis
    using memory_window.window_bound[OF assms(1) _ memory_inv_new[OF assms(2)] empty, of t0 t]
      memory_window.granted_next[OF assms(1) le(1) memory_inv_new[OF assms(2)] le(2) empty] le assms(2) by simp
qed

theorem memory_limiter_window_witness:
  "memory_window.grants ''a'' (new_memory_limiter 2 60) [(0, ''a''), (1, ''a''), (2, ''a''), (60, ''a'')] = [0, 1, 60] \<and>
   length (filter (\<lambda>g. 60 - 60 < g \<and> g \<le> 60)
     (memory_window.grants ''a'' (new_memory_limiter 2 60) [(0, ''a''), (1, ''a''), (2, ''a''), (60, ''a'')])) \<le> 2 \<and>
   fst (fst (memory_allow 61 ''a'' (memory_window.state_after (new_memory_limiter 2 60) [(0, ''a''), (1, ''a''), (2, ''a''), (60, ''a'')])))"
proof -
  have "memory_window.grants ''a'' (new_memory_limiter 2 60) [(0, ''a''), (1, ''a''), (2, ''a''), (60, ''a'')] = [0, 1, 60]"
    by (simp add: new_memory_limiter_def memory_allow_def ml_bucket_def)
  note granted = this
  have "sorted (map fst [(0 :: real, ''a''), (1, ''a''), (2, ''a''), (60, ''a'')])" "\<forall>x \<in> set [(0, ''a''), (1, ''a''), (2, ''a''), (60, ''a'')]. fst x \<le> (61 :: real)"
    by auto
  from memory_limiter_window[where limit = 2 and window = 60 and t = 60 and client = "''a''", OF this(1) _ this(2)]
  show ?thesis unfolding granted by simp
qed

section \<open>The Redis limiter\<close>

text \<open>
  A sorted set with its time of expiry: the members are pairs of the time and the token that the
  script joins with a colon, each with its score. \<open>PEXPIRE\<close> sets the expiry; a key past it is
  gone. \<open>rr_uuid n\<close> is the \<open>n\<close>-th value of \<open>uuid.uuid4().hex\<close>. Times are integers of milliseconds.
\<close>

record redis_key =
  rk_members :: "((int \<times> string) \<times> int) list"
  rk_expire_at :: int

record redis_limiter =
  rr_limit :: int
  rr_window_ms :: int
  rr_key_prefix :: string
  rr_uuid :: "nat \<Rightarrow> string"
  rr_calls :: nat
  rr_db :: "string \<rightharpoonup> redis_key"

definition redis_visible :: "int \<Rightarrow> redis_key option \<Rightarrow> ((int \<times> string) \<times> int) list" where
  "redis_visible now k = (case k of
     None \<Rightarrow> []
   | Some k \<Rightarrow> if rk_expire_at k < now then [] else rk_members k)"

text \<open>The Lua script: its two results and the key it leaves.\<close>

definition redis_allow_script ::
  "int \<Rightarrow> int \<Rightarrow> int \<Rightarrow> string \<Rightarrow> redis_key option \<Rightarrow> (int \<times> int) \<times> redis_key" where
  "redis_allow_script now window_ms limit token k =
     (let cutoff = now - window_ms;
          members = filter (\<lambda>m. cutoff < snd m) (redis_visible now k);
          count = int (length members)
      in if count \<ge> limit then ((0, 0), \<lparr>rk_members = members, rk_expire_at = now + window_ms\<rparr>)
         else ((1, limit - count - 1),
               \<lparr>rk_members = AList.update (now, token) now members, rk_expire_at = now + window_ms\<rparr>))"

definition redis_window_ms :: "real \<Rightarrow> int" where
  "redis_window_ms window_seconds = max 1 \<lfloor>window_seconds * 1000\<rfloor>"

definition redis_allow :: "int \<Rightarrow> string \<Rightarrow> redis_limiter \<Rightarrow> (bool \<times> int) \<times> redis_limiter" where
  "redis_allow now bucket s =
     (if rr_limit s \<le> 0 then ((True, 0), s)
      else
        (let key = rr_key_prefix s @ bucket;
             r = redis_allow_script now (rr_window_ms s) (rr_limit s) (rr_uuid s (rr_calls s)) (rr_db s key)
         in ((fst (fst r) \<noteq> 0, max 0 (snd (fst r))),
             s\<lparr>rr_calls := rr_calls s + 1, rr_db := (rr_db s)(key \<mapsto> snd r)\<rparr>)))"

definition redis_events :: "redis_limiter \<Rightarrow> string \<Rightarrow> int list" where
  "redis_events s b = (case rr_db s (rr_key_prefix s @ b) of None \<Rightarrow> [] | Some k \<Rightarrow> map snd (rk_members k))"

definition key_ok :: "int \<Rightarrow> int \<Rightarrow> (nat \<Rightarrow> string) \<Rightarrow> nat \<Rightarrow> redis_key \<Rightarrow> bool" where
  "key_ok t window uuid calls k =
     (\<forall>m \<in> set (rk_members k). snd m \<le> t \<and> snd m \<le> rk_expire_at k - window \<and>
        (\<exists>j < calls. snd (fst m) = uuid j))"

definition redis_inv :: "int \<Rightarrow> int \<Rightarrow> int \<Rightarrow> redis_limiter \<Rightarrow> bool" where
  "redis_inv limit window t s =
     (0 < limit \<and> rr_limit s = limit \<and> rr_window_ms s = window \<and> inj (rr_uuid s) \<and>
      (\<forall>key k. rr_db s key = Some k \<longrightarrow> key_ok t window (rr_uuid s) (rr_calls s) k))"

text \<open>An expired key holds no member that could still count, so its loss is not observable.\<close>

lemma visible_live:
  assumes "key_ok t window uuid calls k" "now \<le> later"
  shows "filter (\<lambda>m. later - window < snd m) (redis_visible now (Some k))
    = filter (\<lambda>m. later - window < snd m) (rk_members k)"
proof (cases "rk_expire_at k < now")
  case True
  then have "\<forall>m \<in> set (rk_members k). \<not> later - window < snd m"
    using assms unfolding key_ok_def by fastforce
  then have "filter (\<lambda>m. later - window < snd m) (rk_members k) = []" by (simp add: filter_empty_conv)
  then show ?thesis using True by (simp add: redis_visible_def)
qed (simp add: redis_visible_def)

lemma visible_member: "m \<in> set (redis_visible now k) \<Longrightarrow> \<exists>r. k = Some r \<and> m \<in> set (rk_members r)"
  by (auto simp: redis_visible_def split: option.splits if_splits)

lemma token_fresh:
  assumes "key_ok t window uuid calls k" "inj uuid"
  shows "(now, uuid calls) \<notin> fst ` set (rk_members k)"
proof
  assume "(now, uuid calls) \<in> fst ` set (rk_members k)"
  then obtain m where m: "m \<in> set (rk_members k)" "fst m = (now, uuid calls)" by auto
  then obtain j where "j < calls" "uuid calls = uuid j" using assms(1) unfolding key_ok_def by force
  then show False using injD[OF assms(2)] by blast
qed

lemma script_members:
  assumes "k = None \<or> (\<exists>r. k = Some r \<and> key_ok t window uuid calls r)" "inj uuid"
  shows "rk_members (snd (redis_allow_script now window limit (uuid calls) k)) =
    filter (\<lambda>m. now - window < snd m) (redis_visible now k)
      @ (if fst (fst (redis_allow_script now window limit (uuid calls) k)) = 0 then []
         else [((now, uuid calls), now)])"
proof -
  have "(now, uuid calls) \<noteq> fst m" if "m \<in> set (redis_visible now k)" for m
    using visible_member[OF that] assms(1) token_fresh[OF _ assms(2), of t window calls _ now] by force
  then have "(now, uuid calls) \<notin> fst ` set (filter (\<lambda>m. now - window < snd m) (redis_visible now k))"
    by auto
  then show ?thesis by (simp add: redis_allow_script_def Let_def update_fresh)
qed

lemma script_granted:
  "fst (fst (redis_allow_script now window limit token k)) =
    (if int (length (filter (\<lambda>m. now - window < snd m) (redis_visible now k))) < limit then 1 else 0)"
  by (simp add: redis_allow_script_def Let_def)

lemma script_expire: "rk_expire_at (snd (redis_allow_script now window limit token k)) = now + window"
  by (simp add: redis_allow_script_def Let_def)

lemma live_scores:
  assumes "redis_inv limit window t s" "now \<le> later"
  shows "map snd (filter (\<lambda>m. later - window < snd m) (redis_visible now (rr_db s (rr_key_prefix s @ b))))
    = filter (\<lambda>e. later - window < e) (redis_events s b)"
proof (cases "rr_db s (rr_key_prefix s @ b)")
  case None
  then show ?thesis by (simp add: redis_events_def redis_visible_def)
next
  case (Some k)
  then have "key_ok t window (rr_uuid s) (rr_calls s) k" using assms(1) by (auto simp: redis_inv_def)
  then show ?thesis
    using visible_live[OF _ assms(2)] Some by (simp add: redis_events_def filter_map o_def)
qed

lemma redis_key_cases:
  "redis_inv limit window t s \<Longrightarrow>
     rr_db s key = None \<or> (\<exists>r. rr_db s key = Some r \<and> key_ok t window (rr_uuid s) (rr_calls s) r)"
  by (cases "rr_db s key") (auto simp: redis_inv_def)

lemma redis_allow_events:
  assumes "redis_inv limit window t s"
  shows "redis_events (snd (redis_allow now b s)) b' =
    (if b' = b then
       map snd (filter (\<lambda>m. now - window < snd m) (redis_visible now (rr_db s (rr_key_prefix s @ b))))
         @ (if fst (fst (redis_allow now b s)) then [now] else [])
     else redis_events s b')"
  using assms script_members[OF redis_key_cases[OF assms, of "rr_key_prefix s @ b"], of now limit]
  by (simp add: redis_inv_def redis_allow_def Let_def redis_events_def)

lemma redis_allow_granted:
  assumes "redis_inv limit window t s" "t \<le> now"
  shows "fst (fst (redis_allow now b s))
    = (int (length (filter (\<lambda>e. now - window < e) (redis_events s b))) < limit)"
  using assms live_scores[OF assms(1) order_refl, of now b, THEN arg_cong[where f = length]]
  by (simp add: redis_inv_def redis_allow_def Let_def script_granted)

lemma key_ok_later: "key_ok t window uuid calls k \<Longrightarrow> t \<le> now \<Longrightarrow> key_ok now window uuid (Suc calls) k"
  unfolding key_ok_def by (metis less_Suc_eq order_trans)

lemma key_ok_script:
  assumes "k = None \<or> (\<exists>r. k = Some r \<and> key_ok t window uuid calls r)" "inj uuid" "t \<le> now"
  shows "key_ok now window uuid (Suc calls) (snd (redis_allow_script now window limit (uuid calls) k))"
proof -
  have "snd m \<le> now \<and> (\<exists>j < Suc calls. snd (fst m) = uuid j)"
    if mem: "m \<in> set (redis_visible now k)" for m
  proof -
    obtain r where r: "k = Some r" "m \<in> set (rk_members r)" using visible_member[OF mem] by blast
    then have "key_ok now window uuid (Suc calls) r" using assms(1,3) key_ok_later by blast
    then show ?thesis using r(2) unfolding key_ok_def by blast
  qed
  then show ?thesis
    unfolding key_ok_def script_members[OF assms(1,2)] script_expire by auto
qed

interpretation redis_window: sliding_window redis_allow redis_events "redis_inv limit window" limit window
  for limit and window
proof
  fix t now :: int and s :: redis_limiter and b :: string
  assume inv: "redis_inv limit window t s" and le: "t \<le> now"
  show granted: "fst (fst (redis_allow now b s))
      = (int (length (filter (\<lambda>e. now - window < e) (redis_events s b))) < limit)"
    by (rule redis_allow_granted[OF inv le])
  show "filter (\<lambda>e. later - window < e) (redis_events (snd (redis_allow now b s)) b')
      = filter (\<lambda>e. later - window < e) (redis_events s b')
        @ (if fst (fst (redis_allow now b s)) \<and> b' = b \<and> later - window < now then [now] else [])"
    if "now \<le> later" for later b'
  proof -
    have "filter (\<lambda>e. later - window < e) (map snd (filter (\<lambda>m. now - window < snd m)
          (redis_visible now (rr_db s (rr_key_prefix s @ b)))))
        = map snd (filter (\<lambda>m. later - window < snd m) (redis_visible now (rr_db s (rr_key_prefix s @ b))))"
      using that by (auto simp: filter_map o_def intro!: arg_cong[where f = "map snd"] filter_cong)
    then show ?thesis
      using live_scores[OF inv that, of b] by (auto simp: redis_allow_events[OF inv])
  qed
  show "redis_inv limit window now (snd (redis_allow now b s))"
    using inv key_ok_script[OF redis_key_cases[OF inv, of "rr_key_prefix s @ b"] _ le, of limit]
      key_ok_later[OF _ le]
    by (auto simp: redis_inv_def redis_allow_def Let_def)
qed

definition new_redis_limiter :: "int \<Rightarrow> int \<Rightarrow> string \<Rightarrow> (nat \<Rightarrow> string) \<Rightarrow> redis_limiter" where
  "new_redis_limiter limit window prefix uuid =
     \<lparr>rr_limit = limit, rr_window_ms = window, rr_key_prefix = prefix, rr_uuid = uuid, rr_calls = 0,
      rr_db = (\<lambda>_. None)\<rparr>"

text \<open>
  The Redis script, with its expiry of idle keys, keeps the same window bound, where the random
  tokens do not repeat.
\<close>

theorem redis_limiter_window:
  assumes "sorted (map fst requests)" "0 < limit" "inj uuid"
  shows "int (length (filter (\<lambda>g. t - window < g \<and> g \<le> t)
      (redis_window.grants client (new_redis_limiter limit window prefix uuid) requests))) \<le> limit"
proof (cases requests)
  case Nil
  then show ?thesis using assms(2) by simp
next
  case (Cons r rs)
  show ?thesis
  proof (rule redis_window.window_bound[OF assms(1)])
    show "\<forall>x \<in> set requests. fst r \<le> fst x" using assms(1) Cons by auto
    show "redis_inv limit window (fst r) (new_redis_limiter limit window prefix uuid)"
      using assms(2,3) by (simp add: redis_inv_def new_redis_limiter_def)
  qed (use assms(2) in \<open>simp_all add: new_redis_limiter_def redis_events_def\<close>)
qed

theorem redis_limiter_window_witness:
  "length (filter (\<lambda>g. 60000 - 60000 < g \<and> g \<le> 60000)
     (redis_window.grants ''a'' (new_redis_limiter 1 60000 ''zeaz:'' (\<lambda>n. replicate n CHR ''u''))
        [(0, ''a''), (1, ''a''), (60001, ''a'')])) \<le> 1"
proof -
  have "inj (\<lambda>n. replicate n CHR ''u'')" by (auto simp: inj_def)
  then show ?thesis
    using redis_limiter_window[of "[(0, ''a''), (1, ''a''), (60001, ''a'')]" 1 "\<lambda>n. replicate n CHR ''u''" 60000 60000
        "''a''" "''zeaz:''"]
    by simp
qed

end
