(* ===== verification/Gateway.thy ===== *)
theory Gateway
  imports Router Normalize Streaming Providers RequestLimits Security
begin

text \<open>
  The HTTP application (\<open>src/zeaz_provider/main.py\<close>): the checks of a request, the three completion
  endpoints with their calls and streams over the router, and the conversion of Anthropic responses.
  An \<open>HTTPException\<close> that a handler raises inside \<open>router.execute\<close> passes through it like a result,
  so the results of an operation are \<open>Inl\<close> such an exception or \<open>Inr\<close> the JSON of the reply. FastAPI's
  routing, the response classes and the logger are not modelled.
\<close>

section \<open>Requests\<close>

type_synonym http_exception = "int \<times> string"

definition bearer_token :: "string option \<Rightarrow> string" where
  "bearer_token v = (case v of
     None \<Rightarrow> []
   | Some s \<Rightarrow> (case split_once '' '' s of
       None \<Rightarrow> []
     | Some (scheme, token) \<Rightarrow> if py_lower scheme \<noteq> ''bearer'' then [] else py_strip token))"

text \<open>\<open>allow_env\<close> is \<open>os.getenv("ZEAZ_ALLOW_UNAUTHENTICATED", "false")\<close>.\<close>

definition authenticate ::
  "(string \<Rightarrow> string) \<Rightarrow> string \<Rightarrow> settings \<Rightarrow> string option \<Rightarrow> string option \<Rightarrow> http_exception + unit" where
  "authenticate sha256 allow_env s x_api_key authorization =
     (let configured = st_client_key_hashes s
      in if configured = [] \<and> py_lower allow_env = ''true'' then Inr ()
         else if configured = [] \<or>
           \<not> (verify_client_key sha256 (case x_api_key of None \<Rightarrow> [] | Some k \<Rightarrow> k) configured \<or>
              verify_client_key sha256 (bearer_token authorization) configured)
         then Inl (401, ''Invalid API key'') else Inr ())"

text \<open>
  \<open>json.loads(raw, parse_constant=_reject_json_constant)\<close>: in a valid document the letters N and I
  occur outside a string only in \<open>NaN\<close> and \<open>Infinity\<close>, so looking for them there decides whether
  the parser meets a constant that it rejects.
\<close>

fun constant_outside :: "bool \<Rightarrow> string \<Rightarrow> bool" where
  "constant_outside in_string [] = False"
| "constant_outside False (c # cs) =
     (if c = dquote then constant_outside True cs
      else c = CHR ''N'' \<or> c = CHR ''I'' \<or> constant_outside False cs)"
| "constant_outside True (c # cs) =
     (if c = dquote then constant_outside False cs
      else if c = bslash then (case cs of [] \<Rightarrow> False | _ # cs' \<Rightarrow> constant_outside True cs')
      else constant_outside True cs)"

definition strict_loads :: "string \<Rightarrow> json option" where
  "strict_loads s = (if constant_outside False s then None else json_loads s)"

text \<open>The chunks of the request until the limit is exceeded (\<open>None\<close>).\<close>

fun read_body :: "int \<Rightarrow> int \<Rightarrow> string list \<Rightarrow> string option" where
  "read_body maximum t [] = Some []"
| "read_body maximum t (chunk # chunks) =
     (if t + int (length chunk) > maximum then None
      else map_option (\<lambda>raw. chunk @ raw) (read_body maximum (t + int (length chunk)) chunks))"

definition fail_if :: "bool \<Rightarrow> string \<Rightarrow> http_exception + unit" where
  "fail_if bad detail = (if bad then Inl (400, detail) else Inr ())"

definition valid_model_field :: "json \<Rightarrow> bool" where
  "valid_model_field v = (case v of
     JNull \<Rightarrow> True
   | JStr m \<Rightarrow> 1 \<le> length m \<and> length m \<le> 256 \<and> \<not> has_control m
   | _ \<Rightarrow> False)"

definition token_fields :: "string list" where
  "token_fields = [''max_tokens'', ''max_output_tokens'', ''max_completion_tokens'']"

definition token_values :: "json dict \<Rightarrow> json list" where
  "token_values d = List.map_filter (\<lambda>k. dict_get d k) token_fields"

definition valid_tokens :: "int \<Rightarrow> json \<Rightarrow> bool" where
  "valid_tokens maximum v = (case v of JInt t \<Rightarrow> 1 \<le> t \<and> t \<le> maximum | _ \<Rightarrow> False)"

definition is_array :: "json \<Rightarrow> bool" where
  "is_array v = (case v of JArr _ \<Rightarrow> True | _ \<Rightarrow> False)"

definition is_text :: "json \<Rightarrow> bool" where
  "is_text v = (case v of JStr _ \<Rightarrow> True | _ \<Rightarrow> False)"

definition field_holds :: "(json \<Rightarrow> bool) \<Rightarrow> json dict \<Rightarrow> string \<Rightarrow> bool" where
  "field_holds P d k = (case dict_get d k of None \<Rightarrow> True | Some v \<Rightarrow> P v)"

text \<open>
  \<open>len(set(token_values)) > 1\<close> is only reached when all of them are integers in range.
\<close>

definition check_body :: "settings \<Rightarrow> json dict \<Rightarrow> http_exception + json dict" where
  "check_body s d =
     bindE (fail_if (\<not> valid_model_field (get_or_null d ''model'')) ''Invalid model'') (\<lambda>_.
     bindE (fail_if (case get_or_null d ''stream'' of JNull \<Rightarrow> False | JBool _ \<Rightarrow> False | _ \<Rightarrow> True)
       ''Invalid stream flag'') (\<lambda>_.
     bindE (fail_if (\<not> list_all (valid_tokens (st_max_output_tokens s)) (token_values d) \<or>
         1 < length (remdups (token_values d))) ''Invalid output token limit'') (\<lambda>_.
     bindE (fail_if (\<not> field_holds is_array d ''messages'') ''messages must be an array'') (\<lambda>_.
     bindE (fail_if (\<not> field_holds is_array d ''tools'') ''tools must be an array'') (\<lambda>_.
     bindE (fail_if (\<not> field_holds (\<lambda>v. is_text v \<or> is_array v) d ''input'')
       ''input must be a string or array'') (\<lambda>_.
     Inr d))))))"

text \<open>
  The \<open>ValueError\<close> of too many digits is among the exceptions that are caught here, the \<open>RecursionError\<close> is not.
\<close>

datatype body_failure = BodyRefused http_exception | BodyRecursion

definition as_body :: "http_exception + 'a \<Rightarrow> body_failure + 'a" where
  "as_body r = (case r of Inl e \<Rightarrow> Inl (BodyRefused e) | Inr x \<Rightarrow> Inr x)"

definition request_body ::
  "(string \<Rightarrow> json_bytes) \<Rightarrow> settings \<Rightarrow> string list \<Rightarrow> body_failure + json dict" where
  "request_body decode s chunks =
     (case read_body (st_max_request_bytes s) 0 chunks of
        None \<Rightarrow> Inl (BodyRefused (413, ''Request body too large''))
      | Some raw \<Rightarrow>
          (case decode raw of
             NotUnicode \<Rightarrow> Inl (BodyRefused (400, ''Invalid JSON''))
           | TooManyDigits \<Rightarrow> Inl (BodyRefused (400, ''Invalid JSON''))
           | TooDeep \<Rightarrow> Inl BodyRecursion
           | JsonText t \<Rightarrow>
               (case strict_loads t of
                  None \<Rightarrow> Inl (BodyRefused (400, ''Invalid JSON''))
                | Some (JObj d) \<Rightarrow> as_body (check_body s d)
                | Some _ \<Rightarrow> Inl (BodyRefused (400, ''JSON body must be an object'')))))"

section \<open>Anthropic responses as Chat Completions\<close>

text \<open>The loop over the content blocks: the texts and the tool calls so far.\<close>

definition response_block :: "string list \<times> json list \<Rightarrow> json \<Rightarrow> (string list \<times> json list) res" where
  "response_block state raw = (case state of (texts, calls) \<Rightarrow>
     (case raw of
        JObj block \<Rightarrow>
          if get_or_null block ''type'' = JStr ''text'' then
            (case dict_get_default block ''text'' (JStr []) of
               JStr t \<Rightarrow> Inr (texts @ [t], calls)
             | _ \<Rightarrow> Inl (ValueError ''Anthropic response text is invalid''))
          else if get_or_null block ''type'' = JStr ''tool_use'' then
            (case (get_or_null block ''id'', get_or_null block ''name'') of
               (JStr i, JStr n) \<Rightarrow>
                 if i = [] \<or> n = [] then Inl (ValueError ''Anthropic response tool call is invalid'')
                 else (case dict_get_default block ''input'' (JObj []) of
                   JObj d \<Rightarrow> Inr (texts, calls @ [tool_call (JStr i) (JStr n) (json_dumps (JObj d))])
                 | _ \<Rightarrow> Inl (ValueError ''Anthropic response tool input is invalid''))
             | _ \<Rightarrow> Inl (ValueError ''Anthropic response tool call is invalid''))
          else Inr state
      | _ \<Rightarrow> Inl (ValueError ''Anthropic response content block is invalid'')))"

definition anthropic_to_openai_response :: "int \<Rightarrow> json dict \<Rightarrow> string \<Rightarrow> json dict res" where
  "anthropic_to_openai_response created payload model =
     bindE (case get_or_null payload ''content'' of
              JArr blocks \<Rightarrow> Inr blocks
            | _ \<Rightarrow> Inl (ValueError ''Anthropic response content is invalid'')) (\<lambda>blocks.
     bindE (foldE response_block ([], []) blocks) (\<lambda>(texts, calls).
     bindE (case dict_get_default payload ''usage'' (JObj []) of
              JObj u \<Rightarrow> Inr u
            | _ \<Rightarrow> Inl (ValueError ''Anthropic response usage is invalid'')) (\<lambda>usage.
     let t = concat texts;
         input_tokens = safe_count (dict_get_default usage ''input_tokens'' (JInt 0));
         output_tokens = safe_count (dict_get_default usage ''output_tokens'' (JInt 0))
     in Inr [(''id'', case get_or_null payload ''id'' of JStr i \<Rightarrow> JStr i | _ \<Rightarrow> JStr ''chatcmpl_zeaz''),
             (''object'', JStr ''chat.completion''), (''created'', JInt created), (''model'', JStr model),
             (''choices'', JArr [JObj
                [(''index'', JInt 0),
                 (''message'', JObj ([(''role'', JStr ''assistant''), (''content'', if t = [] then JNull else JStr t)]
                    @ (if calls = [] then [] else [(''tool_calls'', JArr calls)]))),
                 (''finish_reason'', JStr (if calls \<noteq> [] then ''tool_calls''
                    else if get_or_null payload ''stop_reason'' = JStr ''max_tokens'' then ''length'' else ''stop''))]]),
             (''usage'', JObj [(''prompt_tokens'', JInt input_tokens), (''completion_tokens'', JInt output_tokens),
                (''total_tokens'', JInt (input_tokens + output_tokens))])])))"

section \<open>Calls to the providers\<close>

definition invalid_response :: provider_error where
  "invalid_response = ProviderError ''Provider returned an invalid response'' 502 False Protocol
     (Some True) (Some True) None []"

type_synonym reply = "http_exception + json dict"

definition provider_response :: "json dict res \<Rightarrow> reply outcome" where
  "provider_response r = (case r of Inl _ \<Rightarrow> Raised invalid_response | Inr d \<Rightarrow> Returned (Inr d))"

definition bad_request :: http_exception where
  "bad_request = (400, ''Invalid request format'')"

definition public_model_response :: "json dict \<Rightarrow> string \<Rightarrow> json dict" where
  "public_model_response payload model = dict_set ''model'' (JStr model) payload"

text \<open>
  The world of the providers: the breaker of each client, the clock, how many calls and how many
  HTTP requests were made. \<open>server\<close> answers the requests of the call with the given number.
\<close>

record gateway_world =
  gw_breakers :: "string \<Rightarrow> circuit_breaker"
  gw_time :: real
  gw_calls :: nat
  gw_requests :: nat

record gateway_env =
  ge_decode :: "string \<Rightarrow> json_bytes"
  ge_uniform :: "real \<Rightarrow> real \<Rightarrow> real"
  ge_server :: "nat \<Rightarrow> http_request \<Rightarrow> nat \<Rightarrow> exchange"
  ge_created :: int

definition call_outcome :: "'a call_result \<Rightarrow> 'a outcome" where
  "call_outcome r = (case r of CallOk x \<Rightarrow> Returned x | CallErr e \<Rightarrow> Raised e | _ \<Rightarrow> RaisedOther)"

text \<open>\<open>client.chat\<close>, \<open>client.messages\<close> and \<open>client.responses\<close>, by their endpoint.\<close>

definition post_json ::
  "gateway_env \<Rightarrow> provider_client \<Rightarrow> string \<Rightarrow> json dict \<Rightarrow> gateway_world \<Rightarrow> json dict outcome \<times> gateway_world" where
  "post_json env cl endpoint payload w =
     (let name = pc_name (cl_config cl);
          r = client_json (ge_decode env) (ge_uniform env) (ge_server env (gw_calls w)) cl ''POST''
                (client_url cl endpoint) (Some (JObj payload)) (gw_breakers w name) (gw_time w)
      in (call_outcome (end_result r),
          w\<lparr>gw_breakers := (gw_breakers w)(name := end_breaker r), gw_time := end_time r,
            gw_calls := gw_calls w + 1, gw_requests := gw_requests w + end_operations r\<rparr>))"

definition then_reply :: "(json dict \<Rightarrow> reply outcome) \<Rightarrow> json dict outcome \<times> 'w \<Rightarrow> reply outcome \<times> 'w" where
  "then_reply f x = (case x of
     (Returned d, w) \<Rightarrow> (f d, w)
   | (Raised e, w) \<Rightarrow> (Raised e, w)
   | (RaisedTimeout, w) \<Rightarrow> (RaisedTimeout, w)
   | (RaisedOther, w) \<Rightarrow> (RaisedOther, w))"

definition convert_request :: "json dict res \<Rightarrow> (json dict \<Rightarrow> 'w \<Rightarrow> reply outcome \<times> 'w) \<Rightarrow> 'w \<Rightarrow> reply outcome \<times> 'w" where
  "convert_request r f w = (case r of Inl _ \<Rightarrow> (Returned (Inl bad_request), w) | Inr d \<Rightarrow> f d w)"

definition chat_call ::
  "gateway_env \<Rightarrow> json dict \<Rightarrow> string \<Rightarrow> provider_client \<Rightarrow> string \<Rightarrow> gateway_world \<Rightarrow> reply outcome \<times> gateway_world" where
  "chat_call env payload public_name cl model w =
     (let outbound = dict_set ''model'' (JStr model) payload
      in if pc_api (cl_config cl) = ''anthropic'' then
           convert_request (openai_request_to_anthropic outbound model) (\<lambda>p w.
             then_reply (\<lambda>d. provider_response (anthropic_to_openai_response (ge_created env) d public_name))
               (post_json env cl ''messages'' p w)) w
         else then_reply (\<lambda>d. Returned (Inr (public_model_response d public_name)))
           (post_json env cl ''chat/completions'' outbound w))"

definition messages_call ::
  "gateway_env \<Rightarrow> json dict \<Rightarrow> string \<Rightarrow> provider_client \<Rightarrow> string \<Rightarrow> gateway_world \<Rightarrow> reply outcome \<times> gateway_world" where
  "messages_call env payload public_name cl model w =
     (let outbound = dict_set ''model'' (JStr model) payload
      in if pc_api (cl_config cl) = ''anthropic'' then
           then_reply (\<lambda>d. Returned (Inr (public_model_response d public_name)))
             (post_json env cl ''messages'' outbound w)
         else convert_request (anthropic_to_openai outbound model) (\<lambda>p w.
           then_reply (\<lambda>d. provider_response (openai_to_anthropic d public_name))
             (post_json env cl ''chat/completions'' p w)) w)"

definition responses_call ::
  "gateway_env \<Rightarrow> json dict \<Rightarrow> string \<Rightarrow> provider_client \<Rightarrow> string \<Rightarrow> gateway_world \<Rightarrow> reply outcome \<times> gateway_world" where
  "responses_call env payload public_name cl model w =
     (let outbound = dict_set ''model'' (JStr model) payload
      in if pc_api (cl_config cl) = ''responses'' then
           then_reply (\<lambda>d. Returned (Inr (public_model_response d public_name)))
             (post_json env cl ''responses'' outbound w)
         else convert_request (responses_to_chat outbound model) (\<lambda>chat_payload w.
           if pc_api (cl_config cl) = ''anthropic'' then
             convert_request (openai_request_to_anthropic chat_payload model) (\<lambda>p w.
               then_reply (\<lambda>d.
                 (case anthropic_to_openai_response (ge_created env) d public_name of
                    Inl _ \<Rightarrow> Raised invalid_response
                  | Inr chat \<Rightarrow> provider_response (chat_to_responses chat public_name)))
                 (post_json env cl ''messages'' p w)) w
           else then_reply (\<lambda>chat. provider_response (chat_to_responses chat public_name))
             (post_json env cl ''chat/completions'' chat_payload w)) w)"

section \<open>Streams\<close>

datatype endpoint = ChatEndpoint | MessagesEndpoint | ResponsesEndpoint

text \<open>The conversions of a request that a stream of the endpoint performs for a client.\<close>

definition stream_payload ::
  "endpoint \<Rightarrow> json dict \<Rightarrow> provider_client \<Rightarrow> string \<Rightarrow> json dict res" where
  "stream_payload ep payload cl model =
     (let api = pc_api (cl_config cl);
          streaming = dict_set ''stream'' (JBool True) payload;
          outbound = dict_set ''stream'' (JBool True) (dict_set ''model'' (JStr model) payload)
      in (case ep of
            ChatEndpoint \<Rightarrow> if api = ''anthropic'' then openai_request_to_anthropic streaming model else Inr outbound
          | MessagesEndpoint \<Rightarrow> if api = ''anthropic'' then Inr outbound else anthropic_to_openai outbound model
          | ResponsesEndpoint \<Rightarrow>
              if api = ''responses'' then Inr outbound
              else bindE (responses_to_chat outbound model) (\<lambda>chat.
                if api = ''anthropic'' then openai_request_to_anthropic chat model else Inr chat)))"

definition validate_target :: "endpoint \<Rightarrow> json dict \<Rightarrow> provider_client \<Rightarrow> string \<Rightarrow> unit res" where
  "validate_target ep payload cl model =
     (let api = pc_api (cl_config cl); streaming = dict_set ''stream'' (JBool True) payload
      in (case ep of
            ChatEndpoint \<Rightarrow>
              if api = ''anthropic'' then bindE (openai_request_to_anthropic streaming model) (\<lambda>_. Inr ()) else Inr ()
          | MessagesEndpoint \<Rightarrow>
              if api \<noteq> ''anthropic'' then bindE (anthropic_to_openai streaming model) (\<lambda>_. Inr ()) else Inr ()
          | ResponsesEndpoint \<Rightarrow>
              if api \<noteq> ''responses'' then
                bindE (responses_to_chat streaming model) (\<lambda>chat.
                  if api = ''anthropic'' then bindE (openai_request_to_anthropic chat model) (\<lambda>_. Inr ()) else Inr ())
              else Inr ()))"

definition validate_stream_request ::
  "provider_client router \<Rightarrow> model_route \<Rightarrow> json dict \<Rightarrow> endpoint \<Rightarrow> http_exception + unit" where
  "validate_stream_request r m payload ep =
     foldE (\<lambda>_ t. case dict_get (ro_clients r) (rt_provider t) of
         None \<Rightarrow> Inr ()
       | Some cl \<Rightarrow> (case validate_target ep payload cl (rt_model t) of Inl _ \<Rightarrow> Inl bad_request | Inr _ \<Rightarrow> Inr ()))
       () (route_candidates m)"

text \<open>
  What a provider streams: \<open>source\<close> gives the decoded chunks and the end of \<open>client.stream\<close> for an
  endpoint and a payload. The translation, by the endpoint and the API of the provider.
\<close>

definition provider_endpoint :: "endpoint \<Rightarrow> string \<Rightarrow> string" where
  "provider_endpoint ep api =
     (if api = ''anthropic'' then ''messages''
      else if ep = ResponsesEndpoint \<and> api = ''responses'' then ''responses'' else ''chat/completions'')"

definition translate_stream ::
  "int \<Rightarrow> endpoint \<Rightarrow> string \<Rightarrow> string \<Rightarrow> string list \<times> stream_end \<Rightarrow> string list \<times> stream_end" where
  "translate_stream created ep api public_name x = (case x of (chunks, e) \<Rightarrow>
     (case ep of
        ChatEndpoint \<Rightarrow>
          if api = ''anthropic'' then anthropic_to_chat_stream created public_name chunks e
          else rewrite_sse_model ChatProtocol public_name chunks e
      | MessagesEndpoint \<Rightarrow>
          if api = ''anthropic'' then rewrite_sse_model AnthropicProtocol public_name chunks e
          else chat_to_anthropic_stream public_name chunks e
      | ResponsesEndpoint \<Rightarrow>
          if api = ''responses'' then rewrite_sse_model ResponsesProtocol public_name chunks e
          else if api = ''anthropic'' then
            (case anthropic_to_chat_stream created public_name chunks e of
               (chat, e') \<Rightarrow> chat_to_responses_stream public_name chat e')
          else chat_to_responses_stream public_name chunks e))"

definition stream_operation ::
  "int \<Rightarrow> (provider_client \<Rightarrow> string \<Rightarrow> json dict \<Rightarrow> 'w \<Rightarrow> (string list \<times> stream_end) \<times> 'w) \<Rightarrow> endpoint \<Rightarrow> json dict
     \<Rightarrow> string \<Rightarrow> provider_client \<Rightarrow> string \<Rightarrow> 'w \<Rightarrow> (string list \<times> stream_end) \<times> 'w" where
  "stream_operation created source ep payload public_name cl model w =
     (case stream_payload ep payload cl model of
        Inl _ \<Rightarrow> (([], StreamOther), w)
      | Inr p \<Rightarrow>
          (case source cl (provider_endpoint ep (pc_api (cl_config cl))) p w of
             (x, w') \<Rightarrow> (translate_stream created ep (pc_api (cl_config cl)) public_name x, w')))"

section \<open>The endpoints\<close>

datatype response = JsonReply "json dict" | StreamReply "string list" stream_end | HttpFail http_exception
  | ProviderFail provider_error | Unhandled

definition finish_call :: "reply outcome \<times> 'w \<Rightarrow> response \<times> 'w" where
  "finish_call x = (case x of
     (Returned (Inr d), w) \<Rightarrow> (JsonReply d, w)
   | (Returned (Inl e), w) \<Rightarrow> (HttpFail e, w)
   | (Raised e, w) \<Rightarrow> (ProviderFail e, w)
   | (_, w) \<Rightarrow> (Unhandled, w))"

definition endpoint_call where
  "endpoint_call ep = (case ep of ChatEndpoint \<Rightarrow> chat_call | MessagesEndpoint \<Rightarrow> messages_call
     | ResponsesEndpoint \<Rightarrow> responses_call)"

text \<open>
  A handler after \<open>body\<close>. The model name of the payload is a text or missing there (\<open>check_body\<close>).
\<close>

definition model_field :: "json dict \<Rightarrow> string option" where
  "model_field payload = (case get_or_null payload ''model'' of JStr m \<Rightarrow> Some m | _ \<Rightarrow> None)"

definition handle_payload ::
  "gateway_env \<Rightarrow> (provider_client \<Rightarrow> string \<Rightarrow> json dict \<Rightarrow> gateway_world \<Rightarrow> (string list \<times> stream_end) \<times> gateway_world)
     \<Rightarrow> real \<Rightarrow> provider_client router \<Rightarrow> endpoint \<Rightarrow> json dict \<Rightarrow> gateway_world \<Rightarrow> response \<times> gateway_world" where
  "handle_payload env source now r ep payload w =
     (case route now r (model_field payload) of
        Inl e \<Rightarrow> (ProviderFail e, w)
      | Inr m \<Rightarrow>
          if truthy (get_or_null payload ''stream'') then
            (case validate_stream_request r m payload ep of
               Inl e \<Rightarrow> (HttpFail e, w)
             | Inr _ \<Rightarrow>
                 (case stream_route r m (stream_operation (ge_created env) source ep payload (mr_alias m)) w of
                    ((chunks, e), w') \<Rightarrow> (StreamReply chunks e, w')))
          else finish_call (execute r m (endpoint_call ep env payload (mr_alias m)) w))"

definition handle ::
  "gateway_env \<Rightarrow> (provider_client \<Rightarrow> string \<Rightarrow> json dict \<Rightarrow> gateway_world \<Rightarrow> (string list \<times> stream_end) \<times> gateway_world)
     \<Rightarrow> real \<Rightarrow> provider_client router \<Rightarrow> endpoint \<Rightarrow> string list \<Rightarrow> gateway_world \<Rightarrow> response \<times> gateway_world" where
  "handle env source now r ep chunks w =
     (case request_body (ge_decode env) (ro_settings r) chunks of
        Inl (BodyRefused e) \<Rightarrow> (HttpFail e, w)
      | Inl BodyRecursion \<Rightarrow> (Unhandled, w)
      | Inr payload \<Rightarrow> handle_payload env source now r ep payload w)"

definition public_message :: "error_kind \<Rightarrow> string" where
  "public_message k = (case k of
     Authentication \<Rightarrow> ''Provider authentication failed''
   | BadRequest \<Rightarrow> ''Provider rejected the request''
   | NotFound \<Rightarrow> ''Provider model or endpoint was not found''
   | RateLimit \<Rightarrow> ''Provider rate limit exceeded''
   | Timeout \<Rightarrow> ''Provider request timed out''
   | Network \<Rightarrow> ''Provider network failure''
   | Protocol \<Rightarrow> ''Provider returned an invalid response''
   | CircuitOpen \<Rightarrow> ''Provider temporarily unavailable''
   | Configuration \<Rightarrow> ''Provider configuration is invalid''
   | Upstream \<Rightarrow> ''Provider request failed'')"

definition kind_text :: "error_kind \<Rightarrow> string" where
  "kind_text k = (case k of
     Authentication \<Rightarrow> ''authentication'' | BadRequest \<Rightarrow> ''bad_request'' | NotFound \<Rightarrow> ''not_found''
   | RateLimit \<Rightarrow> ''rate_limit'' | Timeout \<Rightarrow> ''timeout'' | Network \<Rightarrow> ''network'' | Upstream \<Rightarrow> ''upstream''
   | Protocol \<Rightarrow> ''protocol'' | CircuitOpen \<Rightarrow> ''circuit_open'' | Configuration \<Rightarrow> ''configuration'')"

definition provider_error_reply :: "provider_error \<Rightarrow> int \<times> json" where
  "provider_error_reply e = (pe_status_code e,
     JObj [(''error'', JObj [(''type'', JStr (kind_text (pe_kind e))), (''message'', JStr (public_message (pe_kind e)))])])"

section \<open>What an accepted request is\<close>

lemma read_body_spec: "read_body maximum t chunks = Some raw \<Longrightarrow>
    raw = concat chunks \<and> (chunks \<noteq> [] \<longrightarrow> t + int (length raw) \<le> maximum)"
proof (induction chunks arbitrary: t raw)
  case (Cons c cs)
  then obtain b where b: "read_body maximum (t + int (length c)) cs = Some b" "raw = c @ b"
      "t + int (length c) \<le> maximum"
    by (auto split: if_splits)
  then show ?case using Cons.IH[OF b(1)] by (cases "cs = []") auto
qed simp

lemma fail_if_Inr [res_simps]: "fail_if bad m = Inr u \<longleftrightarrow> \<not> bad"
  by (simp add: fail_if_def)

definition body_ok :: "settings \<Rightarrow> json dict \<Rightarrow> bool" where
  "body_ok s d =
     (valid_model_field (get_or_null d ''model'') \<and>
      (get_or_null d ''stream'' = JNull \<or> (\<exists>b. get_or_null d ''stream'' = JBool b)) \<and>
      (\<exists>t. set (token_values d) \<subseteq> {JInt t} \<and> 1 \<le> t \<and> t \<le> max 1 (st_max_output_tokens s)) \<and>
      field_holds is_array d ''messages'' \<and> field_holds is_array d ''tools'' \<and>
      field_holds (\<lambda>v. is_text v \<or> is_array v) d ''input'')"

lemma one_value: "\<not> 1 < length (remdups vs) \<Longrightarrow> vs = [] \<or> (\<exists>v. set vs = {v})"
proof (cases vs)
  case (Cons v us)
  moreover assume "\<not> 1 < length (remdups vs)"
  then have "card (set vs) \<le> 1" by (simp add: length_remdups_card_conv)
  ultimately have "card (set vs) = 1" by (metis One_nat_def card_gt_0_iff finite_set le_antisym
      list.set_intros(1) empty_iff Suc_leI)
  then show ?thesis by (metis card_1_singletonE)
qed simp

lemma check_body_ok:
  assumes "check_body s d = Inr d'"
  shows "d' = d \<and> body_ok s d"
proof -
  have c: "valid_model_field (get_or_null d ''model'')"
      "\<not> (case get_or_null d ''stream'' of JNull \<Rightarrow> False | JBool _ \<Rightarrow> False | _ \<Rightarrow> True)"
      "list_all (valid_tokens (st_max_output_tokens s)) (token_values d)" "\<not> 1 < length (remdups (token_values d))"
      "field_holds is_array d ''messages''" "field_holds is_array d ''tools''"
      "field_holds (\<lambda>v. is_text v \<or> is_array v) d ''input''" "d' = d"
    using assms unfolding check_body_def bindE_eq_Inr fail_if_Inr by auto
  have "get_or_null d ''stream'' = JNull \<or> (\<exists>b. get_or_null d ''stream'' = JBool b)"
    using c(2) by (cases "get_or_null d ''stream''") auto
  moreover have "\<exists>t. set (token_values d) \<subseteq> {JInt t} \<and> 1 \<le> t \<and> t \<le> max 1 (st_max_output_tokens s)"
    using one_value[OF c(4)]
  proof
    assume "token_values d = []"
    then show ?thesis by (intro exI[of _ 1]) simp
  next
    assume "\<exists>v. set (token_values d) = {v}"
    then obtain v where v: "set (token_values d) = {v}" by blast
    then have "valid_tokens (st_max_output_tokens s) v" using c(3) by (simp add: list_all_iff)
    then show ?thesis using v by (cases v) (auto simp: valid_tokens_def)
  qed
  ultimately show ?thesis using c unfolding body_ok_def by blast
qed

text \<open>
  A request that \<open>body\<close> accepts has at most \<open>max_request_bytes\<close> bytes and is a JSON object whose
  model, if any, is a short text without line breaks, whose stream flag is a boolean, whose token
  limits are one and the same integer between 1 and the configured maximum, and whose messages,
  tools and input have their types.
\<close>

theorem request_body_sound:
  assumes "request_body decode s chunks = Inr d"
  shows "(chunks = [] \<or> int (length (concat chunks)) \<le> st_max_request_bytes s) \<and> body_ok s d \<and>
    (\<exists>t. decode (concat chunks) = JsonText t \<and> json_loads t = Some (JObj d))"
proof -
  obtain raw where raw: "read_body (st_max_request_bytes s) 0 chunks = Some raw"
    using assms by (auto simp: request_body_def split: option.splits)
  note body = assms[unfolded request_body_def raw option.case]
  obtain t v where t: "decode raw = JsonText t" and v: "strict_loads t = Some v"
    using body by (cases "decode raw") (auto split: option.splits)
  then have loads: "json_loads t = Some v" by (simp add: strict_loads_def split: if_splits)
  obtain e where e: "v = JObj e" using body by (cases v) (simp_all add: t v)
  then have "check_body s e = Inr d" using body by (simp add: t v as_body_def split: sum.splits)
  then have "d = e" "body_ok s d" using check_body_ok by blast+
  then show ?thesis using read_body_spec[OF raw] t loads e by auto
qed

definition demo_body :: string where
  "demo_body = ''{'' @ json_str ''max_tokens'' @ '':5}''"

lemma demo_body_run: "request_body JsonText two_providers [demo_body] = Inr [(''max_tokens'', JInt 5)]"
proof -
  have p: "json_loads demo_body = Some (JObj [(''max_tokens'', JInt 5)])"
    "\<not> constant_outside False demo_body"
    "length demo_body = 16"
    by code_simp+
  have "st_max_request_bytes two_providers = 4194304" "st_max_output_tokens two_providers = 131072"
    by (simp_all add: two_providers_def)
  then show ?thesis
    unfolding request_body_def read_body.simps p(3) strict_loads_def
    by (simp add: p(1,2) as_body_def check_body_def fail_if_def valid_model_field_def get_or_null_def token_values_def
        token_fields_def List.map_filter_def valid_tokens_def field_holds_def)
qed

theorem request_body_sound_witness:
  "request_body JsonText two_providers [demo_body] = Inr [(''max_tokens'', JInt 5)] \<and>
   body_ok two_providers [(''max_tokens'', JInt 5)]"
  using request_body_sound[OF demo_body_run] demo_body_run by simp

text \<open>
  A request is let in exactly if one of its two credentials is a configured key, or no key is
  configured and unauthenticated access is switched on; with keys configured the switch has no effect,
  and a missing credential never matches.
\<close>

theorem authenticate_iff:
  "(authenticate sha256 allow_env s x_api_key authorization = Inr ()) =
     (if st_client_key_hashes s = [] then py_lower allow_env = ''true''
      else (\<exists>k. x_api_key = Some k \<and> k \<noteq> [] \<and> sha256 k \<in> set (st_client_key_hashes s)) \<or>
           (bearer_token authorization \<noteq> [] \<and> sha256 (bearer_token authorization) \<in> set (st_client_key_hashes s)))"
  by (auto simp: authenticate_def Let_def verify_client_key_iff split: option.splits)

section \<open>Streaming requests are checked before they start\<close>

definition same_but_model :: "json dict \<Rightarrow> json dict \<Rightarrow> bool" where
  "same_but_model p q = (\<forall>k. k \<noteq> ''model'' \<longrightarrow> dict_get p k = dict_get q k)"

lemma same_but_modelD: "same_but_model p q \<Longrightarrow> k \<noteq> ''model'' \<Longrightarrow> dict_get_default p k v = dict_get_default q k v"
  by (simp add: same_but_model_def dict_get_default_eq)

lemma copy_keys_cong:
  "(\<And>k. k \<in> fst ` set keys \<Longrightarrow> dict_get p k = dict_get q k) \<Longrightarrow> copy_keys keys p r = copy_keys keys q r"
  unfolding copy_keys_def by (induction keys arbitrary: r) auto

lemma copy_keys_same:
  "same_but_model p q \<Longrightarrow> ''model'' \<notin> fst ` set keys \<Longrightarrow> copy_keys keys p r = copy_keys keys q r"
  by (rule copy_keys_cong) (metis same_but_model_def)

lemma anthropic_to_openai_same: "same_but_model p q \<Longrightarrow> anthropic_to_openai p m = anthropic_to_openai q m"
  using same_but_modelD[of p q] copy_keys_same[of p q]
  by (simp add: anthropic_to_openai_def anthropic_system_def get_or_null_def)

lemma responses_to_chat_same:
  assumes "same_but_model p q"
  shows "responses_to_chat p m = responses_to_chat q m"
proof -
  have "dict_get p ''instructions'' = dict_get q ''instructions''" using assms by (simp add: same_but_model_def)
  then show ?thesis using same_but_modelD[OF assms] copy_keys_same[OF assms]
    by (simp add: responses_to_chat_def responses_keys_def)
qed

lemma same_but_model_set: "same_but_model (dict_set k w (dict_set ''model'' v p)) (dict_set k w p)"
  by (simp add: same_but_model_def dict_get_set)

lemma validate_target_payload:
  "returns (validate_target ep payload cl m) \<Longrightarrow> returns (stream_payload ep payload cl m)"
  using anthropic_to_openai_same[OF same_but_model_set[of "''stream''" "JBool True" "JStr m" payload], of m]
    responses_to_chat_same[OF same_but_model_set[of "''stream''" "JBool True" "JStr m" payload], of m]
  by (cases ep) (auto simp: validate_target_def stream_payload_def Let_def returns_bindE split: if_splits)

lemma foldE_unit: "foldE (\<lambda>_ t. f t) () ts = Inr () \<Longrightarrow> t \<in> set ts \<Longrightarrow> f t = Inr ()"
  by (induction ts) (auto simp: res_simps)

text \<open>
  Once a streaming request is validated, no candidate's stream can fail on the conversion of the
  request: with the 200 status already sent, a client never loses its stream to a malformed request.
\<close>

theorem validated_stream_converts:
  assumes "validate_stream_request r m payload ep = Inr ()"
    and "t \<in> set (route_candidates m)" "dict_get (ro_clients r) (rt_provider t) = Some cl"
  shows "\<exists>p. stream_payload ep payload cl (rt_model t) = Inr p \<and>
    stream_operation created source ep payload name cl (rt_model t) w =
      (case source cl (provider_endpoint ep (pc_api (cl_config cl))) p w of
         (x, w') \<Rightarrow> (translate_stream created ep (pc_api (cl_config cl)) name x, w'))"
proof -
  have "(case dict_get (ro_clients r) (rt_provider t) of
         None \<Rightarrow> Inr ()
       | Some cl \<Rightarrow> (case validate_target ep payload cl (rt_model t) of Inl _ \<Rightarrow> Inl bad_request | Inr _ \<Rightarrow> Inr ()))
      = (Inr () :: http_exception + unit)"
    using assms(1,2) unfolding validate_stream_request_def by (rule foldE_unit)
  then have "returns (validate_target ep payload cl (rt_model t))"
    by (simp add: assms(3) returns_def split: sum.splits)
  then obtain p where "stream_payload ep payload cl (rt_model t) = Inr p"
    using validate_target_payload unfolding returns_iff by blast
  then show ?thesis by (simp add: stream_operation_def)
qed

theorem validated_stream_converts_witness:
  "\<exists>p. stream_payload MessagesEndpoint demo_request demo_client ''gpt'' = Inr p"
proof -
  define r :: "provider_client router" where "r = \<lparr>ro_settings = two_providers, ro_clients = [(''a'', demo_client)],
    ro_capabilities = \<lparr>rg_ttl_seconds = 0, rg_records = [], rg_configured = []\<rparr>\<rparr>"
  define m where "m = \<lparr>mr_alias = ''x'', mr_primary = \<lparr>rt_provider = ''a'', rt_model = ''gpt''\<rparr>, mr_fallbacks = []\<rparr>"
  have conv: "returns (anthropic_to_openai (dict_set ''stream'' (JBool True) demo_request) ''gpt'')"
    by (simp add: anthropic_to_openai_def demo_request_def dict_set_def anthropic_system_def get_or_null_def
        blocks_to_text_def anthropic_turns[OF demo_turns_ok] anthropic_tool_def)
  have "validate_stream_request r m demo_request MessagesEndpoint = Inr ()"
    using conv by (auto simp: validate_stream_request_def m_def r_def route_candidates_def validate_target_def
        demo_client_def returns_iff)
  then show ?thesis
    using validated_stream_converts[of r m demo_request MessagesEndpoint "mr_primary m" demo_client 0
        "\<lambda>cl ep p w. (([], Exhausted), w)" "[]" "()"]
    by (auto simp: m_def r_def route_candidates_def)
qed

section \<open>What a reply says\<close>

lemma model_of_public: "dict_get (public_model_response d n) ''model'' = Some (JStr n)"
  by (simp add: public_model_response_def dict_get_set)

lemma model_of_anthropic: "openai_to_anthropic d n = Inr r \<Longrightarrow> dict_get r ''model'' = Some (JStr n)"
  unfolding openai_to_anthropic_def bindE_eq_Inr by (elim exE conjE) (simp only: sum.inject, erule subst, simp)

lemma model_of_chat: "anthropic_to_openai_response c d n = Inr r \<Longrightarrow> dict_get r ''model'' = Some (JStr n)"
  unfolding anthropic_to_openai_response_def bindE_eq_Inr
  by (elim exE conjE) (simp only: split_beta bindE_eq_Inr Let_def, elim exE conjE, simp only: sum.inject, erule subst, simp)

lemma model_of_responses: "chat_to_responses d n = Inr r \<Longrightarrow> dict_get r ''model'' = Some (JStr n)"
  unfolding chat_to_responses_def bindE_eq_Inr Let_def
  by (elim exE conjE) (simp only: sum.inject, erule subst, simp)

definition replies_with :: "string \<Rightarrow> reply outcome \<Rightarrow> bool" where
  "replies_with n x = (case x of Returned (Inr d) \<Rightarrow> dict_get d ''model'' = Some (JStr n) | _ \<Rightarrow> True)"

lemma replies_then: "(\<And>d. replies_with n (f d)) \<Longrightarrow> replies_with n (fst (then_reply f x))"
  by (cases x, rename_tac y w, case_tac y) (simp_all add: then_reply_def replies_with_def)

lemma replies_convert: "(\<And>d w. replies_with n (fst (f d w))) \<Longrightarrow> replies_with n (fst (convert_request r f w))"
  by (cases r) (simp_all add: convert_request_def replies_with_def)

lemma replies_provider: "(\<And>d. r = Inr d \<Longrightarrow> dict_get d ''model'' = Some (JStr n)) \<Longrightarrow> replies_with n (provider_response r)"
  by (cases r) (simp_all add: provider_response_def replies_with_def)

lemma replies_public: "replies_with n (Returned (Inr (public_model_response d n)))"
  by (simp add: replies_with_def model_of_public)

lemma replies_chain: "replies_with n (case anthropic_to_openai_response c d n of
    Inl _ \<Rightarrow> Raised invalid_response | Inr chat \<Rightarrow> provider_response (chat_to_responses chat n))"
  using replies_provider[OF model_of_responses]
  by (auto simp: replies_with_def[of n "Raised invalid_response"] split: sum.split)

lemma endpoint_replies: "replies_with n (fst (endpoint_call ep env p n cl m w))"
proof (cases ep)
  case ChatEndpoint
  then show ?thesis
    by (auto simp: endpoint_call_def chat_call_def Let_def
        intro!: replies_then replies_convert replies_provider replies_public model_of_chat)
next
  case MessagesEndpoint
  then show ?thesis
    by (auto simp: endpoint_call_def messages_call_def Let_def
        intro!: replies_then replies_convert replies_provider replies_public model_of_anthropic)
next
  case ResponsesEndpoint
  then show ?thesis
    by (auto simp: endpoint_call_def responses_call_def Let_def
        intro!: replies_then replies_convert replies_provider replies_public replies_chain model_of_responses)
qed

text \<open>
  Every JSON reply of the three endpoints, for whatever provider answered and with whatever it
  wrote, names the public alias of the route as its model and never the provider's model.
\<close>

theorem reply_names_public_model:
  assumes "fst (handle env source now r ep chunks w) = JsonReply d"
  shows "\<exists>payload m. request_body (ge_decode env) (ro_settings r) chunks = Inr payload \<and>
    route now r (model_field payload) = Inr m \<and> dict_get d ''model'' = Some (JStr (mr_alias m))"
proof -
  obtain payload m where p: "request_body (ge_decode env) (ro_settings r) chunks = Inr payload"
      "route now r (model_field payload) = Inr m"
      "fst (finish_call (execute r m (endpoint_call ep env payload (mr_alias m)) w)) = JsonReply d"
    using assms by (auto simp: handle_def handle_payload_def split: sum.splits body_failure.splits if_splits prod.splits)
  define op where "op = endpoint_call ep env payload (mr_alias m)"
  have "replies_with (mr_alias m) (fst (execute r m op w))"
    using call_fallback.run_cases[of "route_candidates m" "ro_clients r" op w "[]"]
      endpoint_replies[of "mr_alias m" ep env payload]
    unfolding execute_def op_def[symmetric] by (auto simp: replies_with_def[of _ "Raised _"])
  then have "dict_get d ''model'' = Some (JStr (mr_alias m))"
    using p(3) unfolding op_def[symmetric]
    by (cases "execute r m op w") (auto simp: finish_call_def replies_with_def split: outcome.splits sum.splits)
  then show ?thesis using p(1,2) by blast
qed

definition demo_router :: "provider_client router" where
  "demo_router = \<lparr>ro_settings = two_providers, ro_clients = [(''a'', demo_client)],
     ro_capabilities = \<lparr>rg_ttl_seconds = 0, rg_records = [], rg_configured = []\<rparr>\<rparr>"

definition demo_env :: gateway_env where
  "demo_env = \<lparr>ge_decode = JsonText, ge_uniform = (\<lambda>lo hi. hi),
     ge_server = (\<lambda>n q i. \<lparr>ex_duration = 1, ex_answer = body_answer 200 [''{'', ''}''], ex_others = id, ex_sleep_others = id\<rparr>),
     ge_created = 0\<rparr>"

definition demo_world :: gateway_world where
  "demo_world = \<lparr>gw_breakers = (\<lambda>_. new_breaker 5 30), gw_time = 0, gw_calls = 0, gw_requests = 0\<rparr>"

abbreviation no_source :: "provider_client \<Rightarrow> string \<Rightarrow> json dict \<Rightarrow> gateway_world \<Rightarrow> (string list \<times> stream_end) \<times> gateway_world" where
  "no_source \<equiv> \<lambda>cl ep p w. (([], Exhausted), w)"

lemma demo_route: "route 0 demo_router None = Inr \<lparr>mr_alias = ''auto'',
    mr_primary = \<lparr>rt_provider = ''a'', rt_model = ''m''\<rparr>, mr_fallbacks = [\<lparr>rt_provider = ''b'', rt_model = ''n''\<rparr>]\<rparr>"
  by (simp add: route_def route_name_def demo_router_def dict_defs route_candidates_def target_available_def cap_get_def)

lemma demo_exchange: "request_outcome JsonText 5 (body_answer 200 [''{'', ''}'']) = Returned []"
proof -
  have "json_loads ''{}'' = Some (JObj [])" by code_simp
  then show ?thesis by (simp add: request_outcome_def body_answer_def read_object_def)
qed

lemma demo_client_sel [simp]:
  "pc_api (cl_config demo_client) = ''openai''" "cl_max_response_bytes demo_client = 5"
  "pc_name (cl_config demo_client) = ''a''"
  "max_attempts (policy_of (cl_config demo_client)) = 3"
  "total_timeout_seconds (policy_of (cl_config demo_client)) = 135"
  by (simp_all add: demo_client_def policy_of_def)

lemma demo_post: "fst (post_json demo_env demo_client ep p demo_world) = Returned []"
  by (simp add: post_json_def client_json_def call_def call_outcome_def demo_exchange demo_env_def demo_world_def
      before_call_def new_breaker_def numeral_3_eq_3 Let_def)

lemma demo_call: "fst (handle demo_env no_source 0 demo_router ChatEndpoint [demo_body] demo_world)
    = JsonReply [(''model'', JStr ''auto'')]"
proof -
  have body: "request_body (ge_decode demo_env) (ro_settings demo_router) [demo_body] = Inr [(''max_tokens'', JInt 5)]"
    using demo_body_run by (simp add: demo_env_def demo_router_def)
  obtain w where "post_json demo_env demo_client ''chat/completions''
      (dict_set ''model'' (JStr ''m'') [(''max_tokens'', JInt 5)]) demo_world = (Returned [], w)"
    using demo_post by (metis prod.collapse)
  then have "chat_call demo_env [(''max_tokens'', JInt 5)] ''auto'' demo_client ''m'' demo_world
      = (Returned (Inr [(''model'', JStr ''auto'')]), w)"
    by (simp add: chat_call_def then_reply_def public_model_response_def dict_set_def)
  then show ?thesis
    unfolding handle_def body
    by (simp add: handle_payload_def model_field_def get_or_null_def dict_get_default_def demo_route execute_def
        route_candidates_def endpoint_call_def dict_get_def[of "ro_clients demo_router"] demo_router_def[THEN arg_cong[where f = ro_clients]] finish_call_def)
qed

theorem reply_names_public_model_witness:
  "\<exists>d. fst (handle demo_env no_source 0 demo_router ChatEndpoint [demo_body] demo_world) = JsonReply d \<and>
     dict_get d ''model'' = Some (JStr ''auto'')"
  using reply_names_public_model[OF demo_call] demo_call demo_body_run demo_route
  by (auto simp: demo_env_def demo_router_def model_field_def get_or_null_def)

section \<open>How much one request can cost\<close>

lemma call_operations: "nat (max_attempts pol) \<le> n \<Longrightarrow> end_operations (call pol uniform env b t) \<le> n"
  using call_from_end_within[of t t pol env 0 "nat (max_attempts pol)" uniform None b]
  by (simp add: end_within_def call_def)

lemma post_json_requests:
  "provider_config_ok (cl_config cl) \<Longrightarrow>
     gw_requests w \<le> gw_requests (snd (post_json env cl ep p w)) \<and>
     gw_requests (snd (post_json env cl ep p w)) \<le> gw_requests w + 10"
proof -
  assume ok: "provider_config_ok (cl_config cl)"
  then have "nat (max_attempts (policy_of (cl_config cl))) \<le> 10" by (auto simp: provider_config_ok_def policy_of_def)
  then show ?thesis
    by (simp add: post_json_def client_json_def Let_def call_operations)
qed

lemma then_reply_world [simp]: "snd (then_reply f x) = snd x"
  by (cases x, rename_tac y w, case_tac y) (simp_all add: then_reply_def)

lemma convert_request_cases:
  "snd (convert_request r f w) = w \<or> (\<exists>d. r = Inr d \<and> snd (convert_request r f w) = snd (f d w))"
  by (cases r) (simp_all add: convert_request_def)

lemma endpoint_requests:
  assumes "provider_config_ok (cl_config cl)"
  shows "gw_requests w \<le> gw_requests (snd (endpoint_call ep env p n cl m w)) \<and>
    gw_requests (snd (endpoint_call ep env p n cl m w)) \<le> gw_requests w + 10"
proof (cases ep)
  case ChatEndpoint
  then show ?thesis using post_json_requests[OF assms]
    by (auto simp: endpoint_call_def chat_call_def Let_def convert_request_def split: sum.split)
next
  case MessagesEndpoint
  then show ?thesis using post_json_requests[OF assms]
    by (auto simp: endpoint_call_def messages_call_def Let_def convert_request_def split: sum.split)
next
  case ResponsesEndpoint
  then show ?thesis using post_json_requests[OF assms]
    by (auto simp: endpoint_call_def responses_call_def Let_def convert_request_def split: sum.split)
qed

definition clients_ok :: "provider_client router \<Rightarrow> bool" where
  "clients_ok r = list_all (\<lambda>kv. provider_config_ok (cl_config (snd kv))) (ro_clients r)"

lemma clients_okD: "clients_ok r \<Longrightarrow> dict_get (ro_clients r) k = Some cl \<Longrightarrow> provider_config_ok (cl_config cl)"
  by (auto simp: clients_ok_def dict_get_def list_all_iff dest!: map_of_SomeD)

lemma passed_requests:
  assumes "clients_ok r"
  shows "passed P (ro_clients r) (endpoint_call ep env p n) ts w = Some w' \<Longrightarrow>
    gw_requests w' \<le> gw_requests w + 10 * length ts"
proof (induction ts arbitrary: w)
  case (Cons t ts)
  show ?case
  proof (cases "dict_get (ro_clients r) (rt_provider t)")
    case None
    then show ?thesis using Cons.IH[of w] Cons.prems by auto
  next
    case (Some cl)
    obtain o1 w1 where op: "endpoint_call ep env p n cl (rt_model t) w = (o1, w1)" by force
    then have "passed P (ro_clients r) (endpoint_call ep env p n) ts w1 = Some w'"
      using Cons.prems Some by (auto split: if_splits)
    from Cons.IH[OF this] show ?thesis
      using endpoint_requests[OF clients_okD[OF assms Some], of w ep env p n "rt_model t"] op by simp
  qed
qed simp

text \<open>
  Answering one request that does not stream costs at most ten HTTP requests for each candidate
  of its route, whatever the providers answer.
\<close>

theorem request_cost_bounded:
  assumes "clients_ok r"
  shows "gw_requests (snd (execute r m (endpoint_call ep env p n) w))
    \<le> gw_requests w + 10 * length (route_candidates m)"
proof -
  let ?op = "endpoint_call ep env p n"
  consider (all) msgs w' where "passed call_passes (ro_clients r) ?op (route_candidates m) w = Some w'"
      "execute_from (ro_clients r) ?op (route_candidates m) [] w = (Raised (all_failed msgs), w')"
    | (one) before t after w1 cl where "route_candidates m = before @ t # after"
      "passed call_passes (ro_clients r) ?op before w = Some w1" "dict_get (ro_clients r) (rt_provider t) = Some cl"
      "execute_from (ro_clients r) ?op (route_candidates m) [] w = ?op cl (rt_model t) w1"
    using call_fallback.run_cases[of "route_candidates m" "ro_clients r" ?op w "[]"] by auto
  then show ?thesis
  proof cases
    case all
    then show ?thesis using passed_requests[OF assms all(1)] by (simp add: execute_def)
  next
    case one
    have "gw_requests (snd (?op cl (rt_model t) w1)) \<le> gw_requests w1 + 10"
      using endpoint_requests[OF clients_okD[OF assms one(3)]] by blast
    moreover have "gw_requests w1 \<le> gw_requests w + 10 * length before" by (rule passed_requests[OF assms one(2)])
    ultimately show ?thesis using one(1,4) by (simp add: execute_def)
  qed
qed

lemma demo_clients_ok: "clients_ok demo_router"
  by (simp add: clients_ok_def demo_router_def demo_client_ok)

theorem request_cost_bounded_witness:
  "gw_requests (snd (execute demo_router (the_elem {m. route 0 demo_router None = Inr m})
     (endpoint_call ChatEndpoint demo_env [] ''auto'') demo_world)) \<le> 20"
  using request_cost_bounded[OF demo_clients_ok, where m = "the_elem {m. route 0 demo_router None = Inr m}"
      and ep = ChatEndpoint and env = demo_env and p = "[]" and n = "''auto''" and w = demo_world]
  by (simp add: demo_route demo_world_def route_candidates_def)

section \<open>Every failure becomes a reply\<close>

definition known_failure :: "http_answer \<Rightarrow> bool" where
  "known_failure a = (case a of Inl e \<Rightarrow> e \<noteq> OtherFailure | Inr r \<Rightarrow> hr_broken r \<noteq> Some OtherFailure)"

definition settled :: "'a outcome \<Rightarrow> bool" where
  "settled x = (case x of Returned _ \<Rightarrow> True | Raised _ \<Rightarrow> True | _ \<Rightarrow> False)"

lemma settled_simps [simp]: "settled (Returned x)" "settled (Raised e)" "\<not> settled RaisedTimeout" "\<not> settled RaisedOther"
  by (simp_all add: settled_def)

lemma request_failed_settled: "e \<noteq> OtherFailure \<Longrightarrow> settled (request_failed e)"
  by (cases e) (simp_all add: request_failed_def)

lemma read_broken: "read_at_most n cs b = Inl e \<Longrightarrow> b = Some e" "read_bounded m t cs b = Inl e \<Longrightarrow> b = Some e"
  by (induction cs arbitrary: n t) (auto simp: res_simps split: option.splits if_splits)

lemma request_outcome_settled:
  "known_failure a \<Longrightarrow> (\<And>raw. decode raw \<noteq> TooManyDigits \<and> decode raw \<noteq> TooDeep) \<Longrightarrow> settled (request_outcome decode m a)"
  using request_failed_settled
  by (auto simp: known_failure_def request_outcome_def read_object_def split: sum.splits json_bytes.split option.split json.split
      dest: read_broken)

lemma call_from_settled:
  "(\<And>j. settled (att_outcome (env j))) \<Longrightarrow> 0 < n \<or> last_error \<noteq> None \<Longrightarrow>
     (\<exists>x. end_result (call_from pol uniform env started i n last_error b t) = CallOk x) \<or>
     (\<exists>e. end_result (call_from pol uniform env started i n last_error b t) = CallErr e)"
proof (induction n arbitrary: i last_error b t)
  case (Suc n)
  have "settled (att_outcome (env i))" by (rule Suc.prems(1))
  then show ?case using Suc.IH[OF Suc.prems(1)]
    by (cases "att_outcome (env i)") (auto simp: Let_def split: sum.split)
qed (auto split: option.split)

definition env_known :: "gateway_env \<Rightarrow> bool" where
  "env_known env = ((\<forall>n q i. known_failure (ex_answer (ge_server env n q i))) \<and>
     (\<forall>raw. ge_decode env raw \<noteq> TooManyDigits \<and> ge_decode env raw \<noteq> TooDeep))"

lemma post_json_settled:
  assumes "env_known env" "provider_config_ok (cl_config cl)"
  shows "settled (fst (post_json env cl ep p w))"
proof -
  define att where "att = (\<lambda>i. let x = ge_server env (gw_calls w) (client_request cl ''POST'' (client_url cl ep) (Some (JObj p))) i
    in \<lparr>att_duration = ex_duration x, att_outcome = request_outcome (ge_decode env) (cl_max_response_bytes cl) (ex_answer x),
        att_others = ex_others x, sleep_others = ex_sleep_others x\<rparr>)"
  have "settled (att_outcome (att j))" for j
    using assms(1) by (simp add: att_def Let_def env_known_def request_outcome_settled)
  moreover have "0 < nat (max_attempts (policy_of (cl_config cl)))"
    using assms(2) by (auto simp: policy_of_def provider_config_ok_def)
  ultimately have "(\<exists>x. end_result (client_json (ge_decode env) (ge_uniform env) (ge_server env (gw_calls w)) cl ''POST''
        (client_url cl ep) (Some (JObj p)) (gw_breakers w (pc_name (cl_config cl))) (gw_time w)) = CallOk x) \<or>
      (\<exists>e. end_result (client_json (ge_decode env) (ge_uniform env) (ge_server env (gw_calls w)) cl ''POST''
        (client_url cl ep) (Some (JObj p)) (gw_breakers w (pc_name (cl_config cl))) (gw_time w)) = CallErr e)"
    unfolding client_json_def call_def att_def[symmetric] by (intro call_from_settled) auto
  then show ?thesis by (auto simp: post_json_def Let_def call_outcome_def)
qed

lemma settled_then: "settled (fst x) \<Longrightarrow> (\<And>d. settled (f d)) \<Longrightarrow> settled (fst (then_reply f x))"
  by (cases x, rename_tac y w, case_tac y) (simp_all add: then_reply_def)

lemma settled_convert: "(\<And>d w. settled (fst (f d w))) \<Longrightarrow> settled (fst (convert_request r f w))"
  by (cases r) (simp_all add: convert_request_def)

lemma settled_provider [simp]: "settled (provider_response r)"
  by (cases r) (simp_all add: provider_response_def)

lemma endpoint_settled:
  assumes "env_known env" "provider_config_ok (cl_config cl)"
  shows "settled (fst (endpoint_call ep env p n cl m w))"
  using post_json_settled[OF assms]
  by (cases ep) (auto simp: endpoint_call_def chat_call_def messages_call_def responses_call_def Let_def
      intro!: settled_then settled_convert split: sum.split)


lemma demo_env_known: "env_known demo_env"
  by (auto simp: env_known_def demo_env_def body_answer_def known_failure_def)


section \<open>Round trip of a response\<close>

text \<open>An Anthropic response with texts and tool calls (id, name, input), as the API writes it.\<close>

definition answer_content :: "string list \<Rightarrow> (string \<times> string \<times> json dict) list \<Rightarrow> json" where
  "answer_content texts calls = JArr (map text_block texts @ map use_block calls)"

definition call_ok :: "string \<times> string \<times> json dict \<Rightarrow> bool" where
  "call_ok c = (case c of (i, n, d) \<Rightarrow> i \<noteq> [] \<and> n \<noteq> [] \<and> wf_json (JObj d))"

lemma response_texts:
  "foldE response_block (ts, cs) (map text_block us) = Inr (ts @ us, cs)"
  by (induction us arbitrary: ts) (simp_all add: response_block_def text_block_def text_part_def get_or_null_def)

lemma response_uses:
  "list_all call_ok us \<Longrightarrow> foldE response_block (ts, cs) (map use_block us) = Inr (ts, cs @ map turn_call us)"
proof (induction us arbitrary: cs)
  case (Cons u us)
  obtain i n d where "u = (i, n, d)" by (cases u)
  then show ?case using Cons
    by (simp add: response_block_def use_block_def turn_call_def call_ok_def get_or_null_def)
qed simp

lemma chat_text: "chat_text_parts (if t = [] then JNull else JStr t) = Inr (if t = [] then [] else [t])"
  by (simp add: chat_text_parts_def)

lemma calls_back: "list_all call_ok us \<Longrightarrow> mapE tool_use_block (map turn_call us) = Inr (map use_block us)"
  by (rule openai_calls) (auto simp: list_all_iff call_ok_def)

text \<open>
  An Anthropic response converted to Chat Completions and back keeps its text, joined in one
  block, and every tool call with its input, and reports a tool use exactly when there is a call.
\<close>

theorem response_round_trip:
  assumes "get_or_null p ''content'' = answer_content texts calls" "list_all call_ok calls"
    and "anthropic_to_openai_response created p m = Inr q"
  shows "\<exists>r. openai_to_anthropic q m = Inr r \<and>
    dict_get r ''content'' = Some (answer_content (if concat texts = [] then [] else [concat texts]) calls) \<and>
    dict_get r ''stop_reason'' = Some (JStr (if calls \<noteq> [] then ''tool_use''
      else if get_or_null p ''stop_reason'' = JStr ''max_tokens'' then ''max_tokens'' else ''end_turn''))"
proof -
  have fold: "foldE response_block ([], []) (map text_block texts @ map use_block calls)
      = Inr (texts, map turn_call calls)"
    by (simp add: foldE_append response_texts response_uses[OF assms(2)])
  obtain usage where u: "dict_get_default p ''usage'' (JObj []) = JObj usage"
    using assms(3) unfolding anthropic_to_openai_response_def assms(1) answer_content_def
    by (cases "dict_get_default p ''usage'' (JObj [])") (simp_all add: fold)
  define i where "i = (case get_or_null p ''id'' of JStr i \<Rightarrow> JStr i | _ \<Rightarrow> JStr ''chatcmpl_zeaz'')"
  have q: "q = [(''id'', i),
             (''object'', JStr ''chat.completion''), (''created'', JInt created), (''model'', JStr m),
             (''choices'', JArr [JObj
                [(''index'', JInt 0),
                 (''message'', JObj ([(''role'', JStr ''assistant''),
                    (''content'', if concat texts = [] then JNull else JStr (concat texts))]
                    @ (if calls = [] then [] else [(''tool_calls'', JArr (map turn_call calls))]))),
                 (''finish_reason'', JStr (if calls \<noteq> [] then ''tool_calls''
                    else if get_or_null p ''stop_reason'' = JStr ''max_tokens'' then ''length'' else ''stop''))]]),
             (''usage'', JObj [(''prompt_tokens'', JInt (safe_count (dict_get_default usage ''input_tokens'' (JInt 0)))),
                (''completion_tokens'', JInt (safe_count (dict_get_default usage ''output_tokens'' (JInt 0)))),
                (''total_tokens'', JInt (safe_count (dict_get_default usage ''input_tokens'' (JInt 0))
                    + safe_count (dict_get_default usage ''output_tokens'' (JInt 0))))])]"
    using assms(3) unfolding anthropic_to_openai_response_def assms(1) answer_content_def i_def
    by (simp add: fold u Let_def)
  show ?thesis unfolding q
    by (cases "calls = []"; cases "concat texts = []")
      (simp_all add: openai_to_anthropic_def first_choice_def get_or_null_def[of "_ # _"] or_else_def
        chat_text_parts_def calls_back[OF assms(2)] stop_reason_of_def answer_content_def text_block_def)
qed

definition demo_answer :: "json dict" where
  "demo_answer = [(''content'', answer_content [''a'', ''b''] [(''c1'', ''add'', [(''x'', JInt 1)])])]"

theorem response_round_trip_witness:
  "\<exists>q r. anthropic_to_openai_response 0 demo_answer ''m'' = Inr q \<and> openai_to_anthropic q ''m'' = Inr r \<and>
     dict_get r ''content'' = Some (answer_content [''ab''] [(''c1'', ''add'', [(''x'', JInt 1)])])"
proof -
  have ok: "list_all call_ok [(''c1'', ''add'', [(''x'', JInt 1)])]" by (simp add: call_ok_def)
  have c: "get_or_null demo_answer ''content'' = answer_content [''a'', ''b''] [(''c1'', ''add'', [(''x'', JInt 1)])]"
    by (simp add: demo_answer_def get_or_null_def)
  have fold: "foldE response_block ([], []) (map text_block [''a'', ''b''] @ map use_block [(''c1'', ''add'', [(''x'', JInt 1)])])
      = Inr ([''a'', ''b''], map turn_call [(''c1'', ''add'', [(''x'', JInt 1)])])"
    unfolding foldE_append response_texts by (simp only: bindE_Inr response_uses[OF ok] append_Nil)
  obtain q where "anthropic_to_openai_response 0 demo_answer ''m'' = Inr q"
    unfolding anthropic_to_openai_response_def c answer_content_def json.case bindE_Inr fold
    by (simp add: demo_answer_def Let_def)
  then show ?thesis using response_round_trip[OF c ok, of 0 "''m''"] by auto
qed

end
