(* ===== verification/Boundary.thy ===== *)
theory Boundary
  imports PyFloat RequestLimits Security
begin

text \<open>
  The middleware around every request (\<open>request_boundary\<close> of \<open>src/zeaz_provider/main.py\<close>) with the
  audit records of \<open>src/zeaz_provider/audit.py\<close> and the metrics of \<open>observability.py\<close>: the reply with
  its limits and headers as a function, and the life of many requests that share the limiter as a
  state machine. Header names are in lower case, as Starlette keeps them; the hash and the formatting
  of times are parameters.
\<close>

section \<open>Audit records\<close>

definition known_paths :: "string list" where
  "known_paths = [''/health/live'', ''/health/ready'', ''/metrics'', ''/v1/chat/completions'', ''/v1/messages'',
     ''/v1/models'', ''/v1/models/refresh'', ''/v1/responses'']"

definition known_methods :: "string list" where
  "known_methods = [''DELETE'', ''GET'', ''HEAD'', ''OPTIONS'', ''PATCH'', ''POST'', ''PUT'']"

definition audit_path :: "string \<Rightarrow> string" where
  "audit_path p = (if p \<in> set known_paths then p else ''unmatched'')"

text \<open>\<open>str.upper\<close> on ASCII letters; no other character's upper case is one of \<open>known_methods\<close>'s.\<close>

definition upper_char :: "char \<Rightarrow> char" where
  "upper_char c = (if 97 \<le> code_of c \<and> code_of c \<le> 122 then char_of (code_of c - 32) else c)"

definition audit_method :: "string \<Rightarrow> string" where
  "audit_method m = (let normalized = map upper_char m in if normalized \<in> set known_methods then normalized else ''OTHER'')"

record audit_event =
  ae_timestamp :: string
  ae_request_id :: string
  ae_method :: string
  ae_path :: string
  ae_status_code :: int
  ae_duration_ms :: real
  ae_client_id :: string
  ae_rate_limited :: bool

definition emit_request_audit ::
  "(string \<Rightarrow> string) \<Rightarrow> string \<Rightarrow> string \<Rightarrow> string \<Rightarrow> string \<Rightarrow> int \<Rightarrow> real \<Rightarrow> string \<Rightarrow> bool \<Rightarrow> audit_event" where
  "emit_request_audit sha256 timestamp rid meth p status duration_ms client_id limited =
     \<lparr>ae_timestamp = timestamp, ae_request_id = sha256 rid, ae_method = audit_method meth, ae_path = audit_path p,
      ae_status_code = status, ae_duration_ms = real_of_int (round_half_even (max 0 duration_ms * 1000)) / 1000,
      ae_client_id = client_id, ae_rate_limited = limited\<rparr>"

section \<open>Metrics\<close>

text \<open>The gauge, the counter by its labels and the observations of the histogram by theirs.\<close>

record metrics =
  mt_in_flight :: int
  mt_requests :: "string \<times> string \<times> int \<Rightarrow> nat"
  mt_durations :: "string \<times> string \<Rightarrow> real list"

definition new_metrics :: metrics where
  "new_metrics = \<lparr>mt_in_flight = 0, mt_requests = (\<lambda>_. 0), mt_durations = (\<lambda>_. [])\<rparr>"

definition start_request :: "metrics \<Rightarrow> metrics" where
  "start_request m = m\<lparr>mt_in_flight := mt_in_flight m + 1\<rparr>"

definition finish_request :: "string \<Rightarrow> string \<Rightarrow> int \<Rightarrow> real \<Rightarrow> metrics \<Rightarrow> metrics" where
  "finish_request meth p status duration_seconds m =
     (let duration = max 0 duration_seconds
      in m\<lparr>mt_in_flight := mt_in_flight m - 1,
           mt_requests := (mt_requests m)((meth, p, status) := mt_requests m (meth, p, status) + 1),
           mt_durations := (mt_durations m)((meth, p) := mt_durations m (meth, p) @ [duration])\<rparr>)"

section \<open>The reply\<close>

text \<open>
  A response with its body at once, or with an iterator: its chunks, and whether it ends without an
  exception.
\<close>

datatype body = Whole string | Iterated "string list" bool

record reply_message =
  rp_status :: int
  rp_headers :: "string dict"
  rp_body :: body

definition error_body :: "string \<Rightarrow> string \<Rightarrow> string" where
  "error_body kind message = ''{'' @ json_str ''error'' @ '':{'' @ json_str ''type'' @ '':'' @ json_str kind @ '','' @
     json_str ''message'' @ '':'' @ json_str message @ ''}}''"

definition json_error :: "int \<Rightarrow> string \<Rightarrow> string \<Rightarrow> string dict \<Rightarrow> reply_message" where
  "json_error status kind message headers =
     (let b = error_body kind message
      in \<lparr>rp_status = status, rp_headers = headers @ [(''content-length'', int_str (int (length b))),
            (''content-type'', ''application/json'')], rp_body = Whole b\<rparr>)"

definition over_capacity :: reply_message where
  "over_capacity = json_error 503 ''service_unavailable'' ''Request concurrency limit exceeded'' [(''retry-after'', ''1'')]"

definition limiter_unavailable :: reply_message where
  "limiter_unavailable = json_error 503 ''service_unavailable'' ''Rate-limit service unavailable'' []"

definition rate_exceeded :: reply_message where
  "rate_exceeded = json_error 429 ''rate_limit_error'' ''Rate limit exceeded'' [(''retry-after'', ''60'')]"

definition response_limit_error :: reply_message where
  "response_limit_error = json_error 502 ''response_limit_error'' ''Response exceeded configured byte limit'' []"

definition security_headers :: "string \<Rightarrow> int \<Rightarrow> reply_message \<Rightarrow> reply_message" where
  "security_headers correlation_id remaining r = r\<lparr>rp_headers :=
     dict_set ''cache-control'' ''no-store'' (dict_set ''referrer-policy'' ''no-referrer''
       (dict_set ''x-content-type-options'' ''nosniff'' (dict_set ''x-ratelimit-remaining'' (int_str remaining)
         (dict_set ''x-request-id'' correlation_id (rp_headers r)))))\<rparr>"

definition is_event_stream :: "reply_message \<Rightarrow> bool" where
  "is_event_stream r = starts_with ''text/event-stream'' (dict_get_default (rp_headers r) ''content-type'' [])"

text \<open>The loop that collects a body: \<open>Inl ()\<close> is an exception of the iterator, \<open>Inr None\<close> the limit.\<close>

fun collect_body :: "nat \<Rightarrow> nat \<Rightarrow> string list \<Rightarrow> bool \<Rightarrow> unit + string option" where
  "collect_body maximum t [] ok = (if ok then Inr (Some []) else Inl ())"
| "collect_body maximum t (chunk # chunks) ok =
     (if t + length chunk > maximum then Inr None
      else bindE (collect_body maximum (t + length chunk) chunks ok) (\<lambda>rest.
        Inr (map_option (\<lambda>b. chunk @ b) rest)))"

definition bounded_response :: "reply_message \<Rightarrow> nat \<Rightarrow> unit + reply_message" where
  "bounded_response r maximum = (case rp_body r of
     Iterated chunks ok \<Rightarrow>
       bindE (collect_body maximum 0 chunks ok) (\<lambda>collected. Inr (case collected of
         None \<Rightarrow> response_limit_error
       | Some b \<Rightarrow> r\<lparr>rp_headers := filter (\<lambda>kv. fst kv \<noteq> ''content-length'') (rp_headers r)
                      @ [(''content-length'', int_str (int (length b)))], rp_body := Whole b\<rparr>))
   | Whole b \<Rightarrow> Inr (if length b > maximum then response_limit_error else r))"

text \<open>
  The choice of the response. \<open>allow\<close> is the rate limiter (\<open>None\<close>: \<open>RateLimitBackendError\<close>), \<open>call_next\<close>
  the application (\<open>None\<close>: it raises). The result: the response, what remains of the rate, and
  whether the request was rate limited.
\<close>

definition choose_response ::
  "('r \<Rightarrow> (bool \<times> int) option \<times> 'r) \<Rightarrow> ('h \<Rightarrow> reply_message option \<times> 'h) \<Rightarrow> bool \<Rightarrow> 'r \<times> 'h
     \<Rightarrow> (reply_message option \<times> int \<times> bool) \<times> 'r \<times> 'h" where
  "choose_response allow call_next acquired w = (case w of (rate, app) \<Rightarrow>
     if \<not> acquired then ((Some over_capacity, 0, False), rate, app)
     else (case allow rate of
        (None, rate') \<Rightarrow> ((Some limiter_unavailable, 0, False), rate', app)
      | (Some (allowed, remaining), rate') \<Rightarrow>
          if \<not> allowed then ((Some rate_exceeded, remaining, True), rate', app)
          else (case call_next app of (response, app') \<Rightarrow> ((response, remaining, False), rate', app'))))"

text \<open>
  What the middleware does with the response: it sends it and finalizes with a status, or gives the
  server the limited body of a stream (and does not finalize), or raises after finalizing.
\<close>

datatype boundary_end = Sent reply_message | Streams reply_message "string list" | Reraised int

definition finish_response :: "nat \<Rightarrow> string \<Rightarrow> int \<Rightarrow> reply_message option \<Rightarrow> boundary_end" where
  "finish_response maximum correlation_id remaining response = (case response of
     None \<Rightarrow> Reraised 500
   | Some r0 \<Rightarrow>
       (let r = security_headers correlation_id remaining r0
        in if is_event_stream r then Streams r (case rp_body r of Whole b \<Rightarrow> [b] | Iterated chunks _ \<Rightarrow> chunks)
           else (case bounded_response r maximum of
              Inl _ \<Rightarrow> Reraised (rp_status r)
            | Inr bounded \<Rightarrow> Sent (security_headers correlation_id remaining bounded))))"

text \<open>
  \<open>limited_body\<close>: the chunks sent of those that the source yields before it ends, raises or the
  stream is closed, and the status that the \<open>finally\<close> clause finalizes with.
\<close>

definition limited_body :: "nat \<Rightarrow> int \<Rightarrow> string list \<Rightarrow> string list \<times> int" where
  "limited_body maximum stream_status yielded =
     (case bounded_stream yielded maximum of
        (sent, exceeded) \<Rightarrow> (sent, if exceeded then 502 else stream_status))"

section \<open>The life of a request\<close>

record incoming =
  in_request_id :: "string option"
  in_method :: string
  in_path :: string
  in_authorization :: "string option"
  in_api_key :: "string option"
  in_peer :: string

record task =
  tk_request_id :: string
  tk_method :: string
  tk_path :: string
  tk_bucket :: string
  tk_started :: real
  tk_acquired :: bool
  tk_rate_limited :: bool
  tk_finalized :: bool

text \<open>\<open>Gone\<close>: cancelled while it waited for a slot, or a stream whose body was never iterated.\<close>

datatype phase = Queued | Admitted | Streaming "string list" int | Done | Gone

record ('r, 'h) gateway_state =
  gs_limiter :: concurrency_limiter
  gs_rate :: 'r
  gs_app :: 'h
  gs_metrics :: metrics
  gs_audit :: "audit_event list"
  gs_tasks :: "(task \<times> phase) list"

text \<open>\<open>None\<close>: \<open>release\<close> raises.\<close>

definition finalize ::
  "(string \<Rightarrow> string) \<Rightarrow> string \<Rightarrow> real \<Rightarrow> int \<Rightarrow> task \<Rightarrow> ('r, 'h) gateway_state \<Rightarrow> (task \<times> ('r, 'h) gateway_state) option" where
  "finalize sha256 timestamp now final_status t s =
     (if tk_finalized t then Some (t, s)
      else
        (let duration = now - tk_started t;
             s' = s\<lparr>gs_metrics := finish_request (audit_method (tk_method t)) (audit_path (tk_path t)) final_status duration
                      (gs_metrics s),
                    gs_audit := gs_audit s @ [emit_request_audit sha256 timestamp (tk_request_id t) (tk_method t) (tk_path t)
                      final_status (duration * 1000) (tk_bucket t) (tk_rate_limited t)]\<rparr>
         in if tk_acquired t then
              map_option (\<lambda>l. (t\<lparr>tk_finalized := True\<rparr>, s'\<lparr>gs_limiter := l\<rparr>)) (release (gs_limiter s'))
            else Some (t\<lparr>tk_finalized := True\<rparr>, s')))"

text \<open>
  The start of \<open>request_boundary\<close> up to the end of \<open>try_acquire\<close>, or to where it waits. \<open>peer\<close> is the
  address that \<open>client_ip\<close> gives.
\<close>

definition begin_request :: "(string \<Rightarrow> string) \<Rightarrow> string \<Rightarrow> real \<Rightarrow> incoming \<Rightarrow> ('r, 'h) gateway_state \<Rightarrow> ('r, 'h) gateway_state" where
  "begin_request sha256 fresh now r s =
     (let t = \<lparr>tk_request_id = request_id fresh (in_request_id r), tk_method = in_method r, tk_path = in_path r,
                tk_bucket = client_bucket sha256 (in_authorization r) (in_api_key r) (in_peer r), tk_started = now,
                tk_acquired = False, tk_rate_limited = False, tk_finalized = False\<rparr>
      in (case try_acquire (gs_limiter s) of
            (Acquired b, l) \<Rightarrow> s\<lparr>gs_metrics := start_request (gs_metrics s), gs_limiter := l,
                                 gs_tasks := gs_tasks s @ [(t\<lparr>tk_acquired := b\<rparr>, Admitted)]\<rparr>
          | (Suspended, l) \<Rightarrow> s\<lparr>gs_metrics := start_request (gs_metrics s), gs_limiter := l,
                                 gs_tasks := gs_tasks s @ [(t, Queued)]\<rparr>))"

definition set_task :: "nat \<Rightarrow> task \<times> phase \<Rightarrow> ('r, 'h) gateway_state \<Rightarrow> ('r, 'h) gateway_state" where
  "set_task i tp s = s\<lparr>gs_tasks := (gs_tasks s)[i := tp]\<rparr>"

text \<open>The body of the middleware for the admitted task \<open>i\<close>.\<close>

definition serve_request ::
  "(string \<Rightarrow> string) \<Rightarrow> string \<Rightarrow> (string \<Rightarrow> 'r \<Rightarrow> (bool \<times> int) option \<times> 'r) \<Rightarrow> (task \<Rightarrow> 'h \<Rightarrow> reply_message option \<times> 'h)
     \<Rightarrow> nat \<Rightarrow> real \<Rightarrow> nat \<Rightarrow> task \<Rightarrow> ('r, 'h) gateway_state \<Rightarrow> (boundary_end \<times> ('r, 'h) gateway_state) option" where
  "serve_request sha256 timestamp allow call_next maximum now i t s =
     (case choose_response (allow (tk_bucket t)) (call_next t) (tk_acquired t) (gs_rate s, gs_app s) of
        ((response, remaining, limited), rate, app) \<Rightarrow>
          (let t1 = t\<lparr>tk_rate_limited := limited\<rparr>;
               s1 = s\<lparr>gs_rate := rate, gs_app := app\<rparr>;
               e = finish_response maximum (tk_request_id t) remaining response;
               close = (\<lambda>status. map_option (\<lambda>(t2, s2). (e, set_task i (t2, Done) s2))
                 (finalize sha256 timestamp now status t1 s1))
           in (case e of
                 Sent r \<Rightarrow> close (rp_status r)
               | Reraised status \<Rightarrow> close status
               | Streams r chunks \<Rightarrow> Some (e, set_task i (t1, Streaming chunks (rp_status r)) s1))))"

text \<open>The stream of task \<open>i\<close> ends, raises or is closed after it yielded the chunks \<open>yielded\<close>.\<close>

definition end_stream ::
  "(string \<Rightarrow> string) \<Rightarrow> string \<Rightarrow> nat \<Rightarrow> real \<Rightarrow> nat \<Rightarrow> task \<Rightarrow> int \<Rightarrow> string list \<Rightarrow> ('r, 'h) gateway_state
     \<Rightarrow> (string list \<times> ('r, 'h) gateway_state) option" where
  "end_stream sha256 timestamp maximum now i t status yielded s =
     (case limited_body maximum status yielded of
        (sent, final) \<Rightarrow> map_option (\<lambda>(t2, s2). (sent, set_task i (t2, Done) s2)) (finalize sha256 timestamp now final t s))"

section \<open>What is sent\<close>

lemma security_header_values:
  "dict_get (rp_headers (security_headers c n r)) ''x-request-id'' = Some c"
  "dict_get (rp_headers (security_headers c n r)) ''x-ratelimit-remaining'' = Some (int_str n)"
  "dict_get (rp_headers (security_headers c n r)) ''x-content-type-options'' = Some ''nosniff''"
  "dict_get (rp_headers (security_headers c n r)) ''cache-control'' = Some ''no-store''"
  "rp_status (security_headers c n r) = rp_status r" "rp_body (security_headers c n r) = rp_body r"
  by (simp_all add: security_headers_def dict_get_set)

lemma collect_body_spec:
  "collect_body maximum t chunks ok = Inr (Some b) \<Longrightarrow> t \<le> maximum \<Longrightarrow> b = concat chunks \<and> t + length b \<le> maximum"
proof (induction chunks arbitrary: t b)
  case (Cons c cs)
  then obtain b' where b: "collect_body maximum (t + length c) cs ok = Inr (Some b')" "b = c @ b'"
      "t + length c \<le> maximum"
    by (auto simp: res_simps split: if_splits)
  then show ?case using Cons.IH[OF b(1)] by auto
qed (auto split: if_splits)

lemma limit_body_short: "\<exists>b. rp_body response_limit_error = Whole b \<and> length b \<le> 1024"
proof -
  have "length (error_body ''response_limit_error'' ''Response exceeded configured byte limit'') \<le> 1024" by code_simp
  then show ?thesis by (simp add: response_limit_error_def json_error_def Let_def)
qed

lemma bounded_response_size:
  assumes "bounded_response r maximum = Inr r'" "1024 \<le> maximum"
  shows "\<exists>b. rp_body r' = Whole b \<and> length b \<le> maximum"
proof (cases "rp_body r")
  case (Whole b)
  then show ?thesis using assms limit_body_short by (auto simp: bounded_response_def split: if_splits)
next
  case (Iterated chunks ok)
  then obtain c where c: "collect_body maximum 0 chunks ok = Inr c"
    "r' = (case c of None \<Rightarrow> response_limit_error
       | Some b \<Rightarrow> r\<lparr>rp_headers := filter (\<lambda>kv. fst kv \<noteq> ''content-length'') (rp_headers r)
                      @ [(''content-length'', int_str (int (length b)))], rp_body := Whole b\<rparr>)"
    using assms(1) by (auto simp: bounded_response_def res_simps)
  show ?thesis
  proof (cases c)
    case None
    then show ?thesis using c(2) limit_body_short assms(2) by auto
  next
    case (Some b)
    then have "length b \<le> maximum" using c(1) collect_body_spec[of maximum 0 chunks ok b] by auto
    then show ?thesis using c(2) Some by simp
  qed
qed

lemma limited_body_size: "stream_size (fst (limited_body maximum status chunks)) \<le> maximum"
  using bounded_from_spec[of 0 maximum chunks] by (auto simp: limited_body_def bounded_stream_def split: prod.split)

text \<open>
  Every response that leaves the gateway carries the request's identifier, the rate that remains
  and the security headers, and has at most the configured number of bytes, a stream as well; a
  request over a limit is answered 503 or 429 without the application being called.
\<close>

theorem boundary_reply:
  assumes "1024 \<le> maximum"
    and "choose_response allow call_next acquired (rate, app) = ((response, remaining, limited), rate', app')"
  shows "(case finish_response maximum cid remaining response of
       Sent r \<Rightarrow> dict_get (rp_headers r) ''x-request-id'' = Some cid \<and>
         dict_get (rp_headers r) ''x-ratelimit-remaining'' = Some (int_str remaining) \<and>
         dict_get (rp_headers r) ''cache-control'' = Some ''no-store'' \<and>
         (\<exists>b. rp_body r = Whole b \<and> length b \<le> maximum)
     | Streams r chunks \<Rightarrow> dict_get (rp_headers r) ''x-request-id'' = Some cid \<and>
         dict_get (rp_headers r) ''cache-control'' = Some ''no-store'' \<and>
         stream_size (fst (limited_body maximum (rp_status r) chunks)) \<le> maximum
     | Reraised status \<Rightarrow> response = None \<and> status = 500 \<or> (\<exists>r. response = Some r \<and> rp_status r = status)) \<and>
   (if \<not> acquired then response = Some over_capacity \<and> app' = app
    else case fst (allow rate) of
      None \<Rightarrow> response = Some limiter_unavailable \<and> app' = app
    | Some (False, _) \<Rightarrow> response = Some rate_exceeded \<and> limited \<and> app' = app
    | Some (True, _) \<Rightarrow> (response, app') = call_next app \<and> limited = False)"
proof
  show "case finish_response maximum cid remaining response of
       Sent r \<Rightarrow> dict_get (rp_headers r) ''x-request-id'' = Some cid \<and>
         dict_get (rp_headers r) ''x-ratelimit-remaining'' = Some (int_str remaining) \<and>
         dict_get (rp_headers r) ''cache-control'' = Some ''no-store'' \<and>
         (\<exists>b. rp_body r = Whole b \<and> length b \<le> maximum)
     | Streams r chunks \<Rightarrow> dict_get (rp_headers r) ''x-request-id'' = Some cid \<and>
         dict_get (rp_headers r) ''cache-control'' = Some ''no-store'' \<and>
         stream_size (fst (limited_body maximum (rp_status r) chunks)) \<le> maximum
     | Reraised status \<Rightarrow> response = None \<and> status = 500 \<or> (\<exists>r. response = Some r \<and> rp_status r = status)"
    using bounded_response_size[OF _ assms(1)]
    by (auto simp: finish_response_def Let_def security_header_values limited_body_size split: option.split sum.split)
  show "if \<not> acquired then response = Some over_capacity \<and> app' = app
    else case fst (allow rate) of
      None \<Rightarrow> response = Some limiter_unavailable \<and> app' = app
    | Some (False, _) \<Rightarrow> response = Some rate_exceeded \<and> limited \<and> app' = app
    | Some (True, _) \<Rightarrow> (response, app') = call_next app \<and> limited = False"
    using assms(2) by (auto simp: choose_response_def split: option.splits prod.splits bool.splits if_splits)
qed

definition limited_allow :: "int \<Rightarrow> (bool \<times> int) option \<times> int" where
  "limited_allow n = (Some (0 < n, max 0 (n - 1)), n - 1)"

theorem boundary_reply_witness:
  "\<exists>r. finish_response 1024 ''id'' 0 (Some rate_exceeded) = Sent r \<and>
     dict_get (rp_headers r) ''x-request-id'' = Some ''id'' \<and> (\<exists>b. rp_body r = Whole b \<and> length b \<le> 1024)"
proof -
  have c: "choose_response limited_allow (\<lambda>h :: unit. (None, h)) True (0, ()) = ((Some rate_exceeded, 0, True), -1, ())"
    by (simp add: choose_response_def limited_allow_def)
  have "\<not> is_event_stream (security_headers ''id'' 0 rate_exceeded) \<and>
      (case bounded_response (security_headers ''id'' 0 rate_exceeded) 1024 of Inl _ \<Rightarrow> False | Inr _ \<Rightarrow> True)"
    by code_simp
  then obtain r where "finish_response 1024 ''id'' 0 (Some rate_exceeded) = Sent r"
    by (auto simp: finish_response_def split: sum.splits)
  then show ?thesis using boundary_reply[OF _ c, of 1024 "''id''"] by auto
qed

section \<open>Many requests\<close>

text \<open>
  The steps between two awaits that matter to the shared state. A queued task may be resumed by a
  release or cancelled; the order in which waiters are woken is left open.
\<close>

inductive gateway_step ::
  "(string \<Rightarrow> string) \<Rightarrow> (string \<Rightarrow> 'r \<Rightarrow> (bool \<times> int) option \<times> 'r) \<Rightarrow> (task \<Rightarrow> 'h \<Rightarrow> reply_message option \<times> 'h) \<Rightarrow> nat
     \<Rightarrow> ('r, 'h) gateway_state \<Rightarrow> ('r, 'h) gateway_state \<Rightarrow> bool"
  for sha256 allow call_next maximum where
  step_begin: "gateway_step sha256 allow call_next maximum s (begin_request sha256 fresh now r s)"
| step_admit: "i < length (gs_tasks s) \<Longrightarrow> gs_tasks s ! i = (t, Queued) \<Longrightarrow>
    resume_acquire (gs_limiter s) = Some (Acquired b, l) \<Longrightarrow>
    gateway_step sha256 allow call_next maximum s (set_task i (t\<lparr>tk_acquired := b\<rparr>, Admitted) (s\<lparr>gs_limiter := l\<rparr>))"
| step_cancel: "i < length (gs_tasks s) \<Longrightarrow> gs_tasks s ! i = (t, Queued) \<Longrightarrow>
    l \<in> {cancel_waiting (gs_limiter s), cancel_woken (gs_limiter s)} \<Longrightarrow> l = Some l' \<Longrightarrow>
    gateway_step sha256 allow call_next maximum s (set_task i (t, Gone) (s\<lparr>gs_limiter := l'\<rparr>))"
| step_serve: "i < length (gs_tasks s) \<Longrightarrow> gs_tasks s ! i = (t, Admitted) \<Longrightarrow>
    serve_request sha256 timestamp allow call_next maximum now i t s = Some (e, s') \<Longrightarrow>
    gateway_step sha256 allow call_next maximum s s'"
| step_end_stream: "i < length (gs_tasks s) \<Longrightarrow> gs_tasks s ! i = (t, Streaming chunks status) \<Longrightarrow> yielded = take n chunks \<Longrightarrow>
    end_stream sha256 timestamp maximum now i t status yielded s = Some (sent, s') \<Longrightarrow>
    gateway_step sha256 allow call_next maximum s s'"
| step_never_started: "i < length (gs_tasks s) \<Longrightarrow> gs_tasks s ! i = (t, Streaming chunks status) \<Longrightarrow>
    gateway_step sha256 allow call_next maximum s (set_task i (t, Gone) s)"

inductive_cases gateway_stepE: "gateway_step sha256 allow call_next maximum s s'"

definition gateway_init :: "int \<Rightarrow> ('r, 'h) gateway_state \<Rightarrow> bool" where
  "gateway_init limit s = (gs_limiter s = new_concurrency_limiter limit \<and> gs_metrics s = new_metrics \<and>
     gs_audit s = [] \<and> gs_tasks s = [])"

definition how_many :: "('a \<Rightarrow> bool) \<Rightarrow> 'a list \<Rightarrow> int" where
  "how_many P xs = int (length (filter P xs))"

lemma how_many_simps [simp]:
  "how_many P [] = 0" "how_many P (x # xs) = of_bool (P x) + how_many P xs"
  "how_many P (xs @ [x]) = how_many P xs + of_bool (P x)"
  by (simp_all add: how_many_def)

lemma how_many_update:
  "i < length xs \<Longrightarrow> how_many P (xs[i := x]) = how_many P xs - of_bool (P (xs ! i)) + of_bool (P x)"
proof (induction xs arbitrary: i)
  case (Cons y ys)
  then show ?case by (cases i) auto
qed simp

lemma how_many_pos: "i < length xs \<Longrightarrow> P (xs ! i) \<Longrightarrow> 1 \<le> how_many P xs"
  by (auto simp: how_many_def Suc_le_eq filter_empty_conv intro: nth_mem)

definition open_task :: "task \<times> phase \<Rightarrow> bool" where
  "open_task tp = (\<not> tk_finalized (fst tp))"

definition holds_slot :: "task \<times> phase \<Rightarrow> bool" where
  "holds_slot tp = (tk_acquired (fst tp) \<and> \<not> tk_finalized (fst tp))"

definition lost_slot :: "task \<times> phase \<Rightarrow> bool" where
  "lost_slot tp = (snd tp = Gone \<and> holds_slot tp)"

definition task_ok :: "task \<times> phase \<Rightarrow> bool" where
  "task_ok tp = ((tk_finalized (fst tp) = (snd tp = Done)) \<and> (snd tp = Queued \<longrightarrow> \<not> tk_acquired (fst tp)))"

definition event_ok :: "audit_event \<Rightarrow> bool" where
  "event_ok e = (ae_method e \<in> set known_methods \<union> {''OTHER''} \<and> ae_path e \<in> set known_paths \<union> {''unmatched''} \<and>
     0 \<le> ae_duration_ms e)"

definition gateway_inv :: "int \<Rightarrow> ('r, 'h) gateway_state \<Rightarrow> bool" where
  "gateway_inv limit s =
     (limiter_inv limit (gs_limiter s) \<and> cl_active (gs_limiter s) = how_many holds_slot (gs_tasks s) \<and>
      mt_in_flight (gs_metrics s) = how_many open_task (gs_tasks s) \<and>
      int (length (gs_audit s)) = how_many (\<lambda>tp. snd tp = Done) (gs_tasks s) \<and>
      list_all task_ok (gs_tasks s) \<and> list_all event_ok (gs_audit s))"

lemma list_all_update: "list_all P xs \<Longrightarrow> P x \<Longrightarrow> list_all P (xs[i := x])"
  by (auto simp: list_all_iff dest: subsetD[OF set_update_subset_insert])

lemma emit_event_ok: "event_ok (emit_request_audit h ts rid m p st d c l)"
  by (auto simp: event_ok_def emit_request_audit_def audit_method_def audit_path_def Let_def intro: round_nonneg)

text \<open>What a step does to task \<open>i\<close> and to the shared state: the conditions under which the invariant is kept.\<close>

lemma inv_update:
  assumes "gateway_inv limit s" "i < length (gs_tasks s)" "gs_tasks s ! i = tp" "gs_tasks s' = (gs_tasks s)[i := tp']"
    and "limiter_inv limit (gs_limiter s')"
    and "cl_active (gs_limiter s') = cl_active (gs_limiter s) - of_bool (holds_slot tp) + of_bool (holds_slot tp')"
    and "mt_in_flight (gs_metrics s') = mt_in_flight (gs_metrics s) - of_bool (open_task tp) + of_bool (open_task tp')"
    and "gs_audit s' = gs_audit s @ es" "int (length es) = of_bool (snd tp' = Done) - of_bool (snd tp = Done)"
    and "task_ok tp'" "list_all event_ok es"
  shows "gateway_inv limit s'"
  using assms by (auto simp: gateway_inv_def how_many_update list_all_update)

lemma inv_task:
  assumes "gateway_inv limit s" "i < length (gs_tasks s)" "gs_tasks s ! i = tp"
  shows "task_ok tp" "holds_slot tp \<Longrightarrow> 1 \<le> cl_active (gs_limiter s)" "limiter_inv limit (gs_limiter s)"
proof -
  show "task_ok tp" "limiter_inv limit (gs_limiter s)" using assms by (auto simp: gateway_inv_def list_all_length)
  show "1 \<le> cl_active (gs_limiter s)" if "holds_slot tp"
    using assms how_many_pos[of i "gs_tasks s" holds_slot] that by (simp add: gateway_inv_def)
qed

lemma resume_active: "resume_acquire l = Some (r, l') \<Longrightarrow> r = Acquired True \<and> cl_active l' = cl_active l + 1"
  by (auto simp: resume_acquire_def split: if_splits)

lemma cancel_active:
  "cancel_waiting l = Some l' \<Longrightarrow> cl_active l' = cl_active l" "cancel_woken l = Some l' \<Longrightarrow> cl_active l' = cl_active l"
  by (auto simp: cancel_waiting_def cancel_woken_def sem_release_def split: if_splits option.splits)

lemma release_active: "release l = Some l' \<Longrightarrow> cl_active l' = cl_active l - 1"
  by (auto simp: release_def sem_release_def split: if_splits option.splits)

lemma acquire_active:
  "try_acquire l = (Acquired b, l') \<Longrightarrow> b \<and> cl_active l' = cl_active l + 1"
  "try_acquire l = (Suspended, l') \<Longrightarrow> cl_active l' = cl_active l"
  by (auto simp: try_acquire_def Let_def split: if_splits option.splits)

lemma finalize_inv:
  assumes "gateway_inv limit s" "i < length (gs_tasks s)" "gs_tasks s ! i = (t0, ph)" "ph \<noteq> Done"
    and "tk_acquired t = tk_acquired t0" "\<not> tk_finalized t"
    and "gs_limiter s1 = gs_limiter s" "gs_metrics s1 = gs_metrics s" "gs_audit s1 = gs_audit s" "gs_tasks s1 = gs_tasks s"
    and "finalize sha256 ts now st t s1 = Some (t2, s2)"
  shows "gateway_inv limit (set_task i (t2, Done) s2)"
proof -
  have t0: "\<not> tk_finalized t0" "limiter_inv limit (gs_limiter s)"
    using inv_task[OF assms(1-3)] assms(4) by (auto simp: task_ok_def)
  let ?e = "emit_request_audit sha256 ts (tk_request_id t) (tk_method t) (tk_path t) st ((now - tk_started t) * 1000)
    (tk_bucket t) (tk_rate_limited t)"
  have f: "t2 = t\<lparr>tk_finalized := True\<rparr>" "gs_audit s2 = gs_audit s @ [?e]" "gs_tasks s2 = gs_tasks s"
    "mt_in_flight (gs_metrics s2) = mt_in_flight (gs_metrics s) - 1"
    using assms(6-11) by (auto simp: finalize_def Let_def finish_request_def split: if_splits)
  have l: "limiter_inv limit (gs_limiter s2) \<and> cl_active (gs_limiter s2) = cl_active (gs_limiter s) - of_bool (tk_acquired t)"
  proof (cases "tk_acquired t")
    case True
    then have "release (gs_limiter s) = Some (gs_limiter s2)"
      using assms(6-11) by (auto simp: finalize_def Let_def)
    then show ?thesis using release_active limiter_inv_release[OF _ t0(2)] True by simp
  next
    case False
    then have "gs_limiter s2 = gs_limiter s" using assms(6-11) by (auto simp: finalize_def Let_def)
    then show ?thesis using t0(2) False by simp
  qed
  show ?thesis
    by (rule inv_update[OF assms(1-3), where es = "[?e]" and tp' = "(t2, Done)"])
      (use f l t0 assms(4,5) in \<open>auto simp: set_task_def holds_slot_def open_task_def task_ok_def emit_event_ok\<close>)
qed

lemma begin_inv: "gateway_inv limit s \<Longrightarrow> gateway_inv limit (begin_request sha256 fresh now r s)"
proof -
  assume inv: "gateway_inv limit s"
  obtain a l where a: "try_acquire (gs_limiter s) = (a, l)" by force
  have l: "limiter_inv limit l" using limiter_inv_acquire[of limit "gs_limiter s"] inv a by (simp add: gateway_inv_def)
  show ?thesis
    using inv l acquire_active[of "gs_limiter s"]
    by (cases a) (auto simp: begin_request_def a Let_def gateway_inv_def start_request_def holds_slot_def open_task_def task_ok_def)
qed

lemma serve_inv:
  assumes "gateway_inv limit s" "i < length (gs_tasks s)" "gs_tasks s ! i = (t, Admitted)"
    and "serve_request sha256 ts allow call_next maximum now i t s = Some (e, s')"
  shows "gateway_inv limit s'"
proof -
  have t: "\<not> tk_finalized t" using inv_task(1)[OF assms(1-3)] by (simp add: task_ok_def)
  obtain response remaining limited rate app where c:
    "choose_response (allow (tk_bucket t)) (call_next t) (tk_acquired t) (gs_rate s, gs_app s) = ((response, remaining, limited), rate, app)"
    by (metis prod.exhaust)
  let ?t1 = "t\<lparr>tk_rate_limited := limited\<rparr>" and ?s1 = "s\<lparr>gs_rate := rate, gs_app := app\<rparr>"
  note run = assms(4)[unfolded serve_request_def c prod.case Let_def]
  have close: "gateway_inv limit (set_task i (t2, Done) s2)" if "finalize sha256 ts now st ?t1 ?s1 = Some (t2, s2)" for st t2 s2
    by (rule finalize_inv[OF assms(1-3) _ _ _ _ _ _ _ that]) (use t in simp_all)
  show ?thesis
  proof (cases "finish_response maximum (tk_request_id t) remaining response")
    case (Streams r chunks)
    then have s': "s' = set_task i (?t1, Streaming chunks (rp_status r)) ?s1" using run by simp
    show ?thesis
      by (rule inv_update[OF assms(1-3), where es = "[]" and tp' = "(?t1, Streaming chunks (rp_status r))"])
        (use t inv_task(3)[OF assms(1-3)] in \<open>auto simp: s' set_task_def holds_slot_def open_task_def task_ok_def\<close>)
  qed (use run close in auto)
qed

lemma gateway_inv_step:
  assumes "gateway_step sha256 allow call_next maximum s s'" and inv: "gateway_inv limit s"
  shows "gateway_inv limit s'"
  using assms(1)
proof (cases rule: gateway_step.cases)
  case (step_begin fresh now r)
  then show ?thesis using begin_inv[OF inv] by simp
next
  case (step_admit i t b l)
  show ?thesis
    by (rule inv_update[OF inv step_admit(2,3), where es = "[]" and tp' = "(t\<lparr>tk_acquired := b\<rparr>, Admitted)"])
      (use inv_task[OF inv step_admit(2,3)] resume_active[OF step_admit(4)] limiter_inv_resume[OF step_admit(4)] in
        \<open>auto simp: step_admit(1) set_task_def holds_slot_def open_task_def task_ok_def\<close>)
next
  case (step_cancel i t l l')
  have "limiter_inv limit l' \<and> cl_active l' = cl_active (gs_limiter s)"
    using step_cancel(4,5) inv_task(3)[OF inv step_cancel(2,3)] cancel_active limiter_inv_cancel_waiting limiter_inv_cancel_woken
    by (auto dest: sym)
  then show ?thesis
    using inv_task[OF inv step_cancel(2,3)]
    by - (rule inv_update[OF inv step_cancel(2,3), where es = "[]" and tp' = "(t, Gone)"],
        auto simp: step_cancel(1) set_task_def holds_slot_def open_task_def task_ok_def)
next
  case (step_serve i t timestamp now e)
  then show ?thesis using serve_inv[OF inv] by blast
next
  case (step_end_stream i t chunks status yielded n timestamp now sent)
  then obtain t2 s2 final where "finalize sha256 timestamp now final t s = Some (t2, s2)" "s' = set_task i (t2, Done) s2"
    by (auto simp: end_stream_def split: prod.splits)
  moreover have "\<not> tk_finalized t" using inv_task(1)[OF inv step_end_stream(1,2)] by (simp add: task_ok_def)
  ultimately show ?thesis using finalize_inv[OF inv step_end_stream(1,2), of t s] by auto
next
  case (step_never_started i t chunks status)
  show ?thesis
    by (rule inv_update[OF inv step_never_started(2,3), where es = "[]" and tp' = "(t, Gone)"])
      (use inv_task[OF inv step_never_started(2,3)] in
        \<open>auto simp: step_never_started(1) set_task_def holds_slot_def open_task_def task_ok_def\<close>)
qed

interpretation gateway_machine: invariant_machine "gateway_init limit" "gateway_step sha256 allow call_next maximum"
  "gateway_inv limit" for limit sha256 allow call_next maximum
proof
  show "gateway_inv limit s" if "gateway_init limit s" for s :: "('a, 'b) gateway_state"
    using that by (simp add: gateway_init_def gateway_inv_def new_metrics_def limiter_inv_def new_concurrency_limiter_def)
qed (rule gateway_inv_step)

lemma finalize_total: "gateway_inv limit s \<Longrightarrow> i < length (gs_tasks s) \<Longrightarrow> gs_tasks s ! i = (t, ph) \<Longrightarrow>
    finalize sha256 ts now st t s \<noteq> None"
  using inv_task(2)[of limit s i "(t, ph)"]
  by (cases "tk_finalized t"; cases "tk_acquired t") (simp_all add: finalize_def Let_def holds_slot_def release_def)

text \<open>
  C1: however many requests run, wait, stream or fail at once, the concurrency limiter counts exactly
  the requests that were let in and not finalized, the gauge exactly those not finalized; one audit
  record is written for each finalized request and no other, all of them with a known method and path
  and never with what the client wrote there; and finalizing never fails.
\<close>

theorem boundary_accounts:
  assumes "reaches (gateway_init limit) (gateway_step sha256 allow call_next maximum) s"
  shows "cl_active (gs_limiter s) = how_many holds_slot (gs_tasks s) \<and> (limit \<le> 0 \<or> cl_active (gs_limiter s) \<le> limit) \<and>
    mt_in_flight (gs_metrics s) = how_many open_task (gs_tasks s) \<and>
    int (length (gs_audit s)) = how_many (\<lambda>tp. snd tp = Done) (gs_tasks s) \<and>
    list_all (\<lambda>tp. tk_finalized (fst tp) = (snd tp = Done)) (gs_tasks s) \<and>
    list_all event_ok (gs_audit s) \<and>
    list_all (\<lambda>tp. finalize sha256 ts now st (fst tp) s \<noteq> None) (gs_tasks s)"
proof -
  have inv: "gateway_inv limit s" using assms by (rule gateway_machine.reachable_inv)
  have "finalize sha256 ts now st (fst tp) s \<noteq> None" if tp: "tp \<in> set (gs_tasks s)" for tp
  proof -
    obtain i where "i < length (gs_tasks s)" "gs_tasks s ! i = (fst tp, snd tp)"
      using tp by (auto simp: in_set_conv_nth)
    then show ?thesis by (rule finalize_total[OF inv])
  qed
  moreover have "limit \<le> 0 \<or> cl_active (gs_limiter s) \<le> limit"
    using inv by (auto simp: gateway_inv_def limiter_inv_def split: option.splits)
  ultimately show ?thesis using inv by (auto simp: gateway_inv_def list_all_iff task_ok_def)
qed

section \<open>Slots that are lost\<close>

text \<open>A step neither ends nor restarts a task that is gone.\<close>

lemma lost_kept:
  assumes "gateway_step sha256 allow call_next maximum s s'" "gateway_inv limit s"
  shows "how_many lost_slot (gs_tasks s) \<le> how_many lost_slot (gs_tasks s')"
proof -
  have upd: "how_many lost_slot (gs_tasks s) \<le> how_many lost_slot ((gs_tasks s)[i := tp])"
    if "i < length (gs_tasks s)" "snd (gs_tasks s ! i) \<noteq> Gone" for i tp
    using that how_many_update[of i "gs_tasks s" lost_slot tp] by (simp add: lost_slot_def)
  have fin: "gs_tasks s2 = gs_tasks s1" if "finalize sha256 ts now st t s1 = Some (t2, s2)" for ts now st t t2 s1 s2
    using that by (auto simp: finalize_def Let_def split: if_splits)
  from assms(1) show ?thesis
  proof (cases rule: gateway_step.cases)
    case (step_begin fresh now r)
    then show ?thesis by (auto simp: begin_request_def Let_def split: prod.split acquire_result.split)
  next
    case (step_serve i t ts now e)
    have "\<exists>t' ph. gs_tasks s' = (gs_tasks s)[i := (t', ph)]"
      using step_serve(3) unfolding serve_request_def Let_def
      by (auto simp: set_task_def dest!: fin split: prod.splits boundary_end.splits) blast+
    then show ?thesis using upd[OF step_serve(1)] step_serve(2) by auto
  next
    case (step_end_stream i t chunks status yielded n ts now sent)
    have "\<exists>t' ph. gs_tasks s' = (gs_tasks s)[i := (t', ph)]"
      using step_end_stream(4) by (auto simp: end_stream_def set_task_def dest!: fin split: prod.splits) blast+
    then show ?thesis using upd[OF step_end_stream(1)] step_end_stream(2) by auto
  qed (use upd in \<open>auto simp: set_task_def\<close>)
qed

lemma how_many_mono: "(\<And>x. P x \<Longrightarrow> Q x) \<Longrightarrow> how_many P xs \<le> how_many Q xs"
  by (induction xs) auto

text \<open>
  A stream whose body is never iterated (the client left before the first byte) is not
  finalized, and no later step frees its slot: when as many streams are lost as there are slots,
  every later request waits for a slot forever, none is answered and none is refused.
\<close>

theorem lost_streams_block_gateway:
  assumes "reaches (gateway_init limit) (gateway_step sha256 allow call_next maximum) s" "0 < limit"
    and "limit \<le> how_many lost_slot (gs_tasks s)"
    and "(gateway_step sha256 allow call_next maximum)\<^sup>*\<^sup>* s s'"
  shows "fst (try_acquire (gs_limiter s')) = Suspended \<and> resume_acquire (gs_limiter s') = None"
proof -
  have inv: "gateway_inv limit s" using assms(1) by (rule gateway_machine.reachable_inv)
  from assms(4) have "gateway_inv limit s' \<and> limit \<le> how_many lost_slot (gs_tasks s')"
  proof (induction rule: rtranclp_induct)
    case base
    then show ?case using inv assms(3) by simp
  next
    case (step y z)
    then show ?case using gateway_inv_step lost_kept by fastforce
  qed
  then have inv': "limiter_inv limit (gs_limiter s')" and "limit \<le> cl_active (gs_limiter s')"
    using how_many_mono[of lost_slot holds_slot "gs_tasks s'"] by (auto simp: gateway_inv_def lost_slot_def)
  then have "cl_sem (gs_limiter s') = Some 0 \<and> cl_woken (gs_limiter s') = 0"
    using assms(2) by (auto simp: limiter_inv_def split: option.splits)
  then show ?thesis
    using inv' assms(2) by (auto simp: try_acquire_def resume_acquire_def limiter_inv_def)
qed

text \<open>One slot and one stream that is lost.\<close>

definition empty_gateway :: "(int, unit) gateway_state" where
  "empty_gateway = \<lparr>gs_limiter = new_concurrency_limiter 1, gs_rate = 9, gs_app = (), gs_metrics = new_metrics,
     gs_audit = [], gs_tasks = []\<rparr>"

definition demo_request_in :: incoming where
  "demo_request_in = \<lparr>in_request_id = Some ''r1'', in_method = ''POST'', in_path = ''/v1/messages'', in_authorization = None,
     in_api_key = Some ''k'', in_peer = ''peer''\<rparr>"

definition demo_stream :: "task \<Rightarrow> unit \<Rightarrow> reply_message option \<times> unit" where
  "demo_stream t h = (Some \<lparr>rp_status = 200, rp_headers = [(''content-type'', ''text/event-stream'')],
     rp_body = Iterated [''data: 1''] True\<rparr>, h)"

definition begun :: "(int, unit) gateway_state" where
  "begun = begin_request id ''f'' 0 demo_request_in empty_gateway"

abbreviation demo_step :: "(int, unit) gateway_state \<Rightarrow> (int, unit) gateway_state \<Rightarrow> bool" where
  "demo_step \<equiv> gateway_step id (\<lambda>_. limited_allow) demo_stream 1024"

lemma reaches_begun: "reaches (gateway_init 1) demo_step begun"
proof -
  have "reaches (gateway_init 1) demo_step empty_gateway"
    by (rule reaches_init) (simp add: gateway_init_def empty_gateway_def)
  then show ?thesis unfolding begun_def by (rule reaches_step) (rule step_begin)
qed

lemma event_stream_headers: "is_event_stream (security_headers c n r) = is_event_stream r"
  by (simp add: is_event_stream_def security_headers_def dict_get_default_eq dict_get_set)

lemma demo_lost: "\<exists>s. reaches (gateway_init 1) demo_step s \<and> how_many lost_slot (gs_tasks s) = 1"
proof -
  define t where "t = \<lparr>tk_request_id = ''r1'', tk_method = ''POST'', tk_path = ''/v1/messages'', tk_bucket = ''k'',
    tk_started = 0, tk_acquired = True, tk_rate_limited = False, tk_finalized = False\<rparr>"
  have "request_id ''f'' (Some ''r1'') = ''r1''" by code_simp
  then have b: "gs_tasks begun = [(t, Admitted)]" "gs_rate begun = 9"
    by (simp_all add: begun_def begin_request_def try_acquire_def Let_def empty_gateway_def new_concurrency_limiter_def
        demo_request_in_def client_bucket_def non_empty_def t_def)
  define r where "r = \<lparr>rp_status = 200, rp_headers = [(''content-type'', ''text/event-stream'')],
     rp_body = Iterated [''data: 1''] True\<rparr>"
  have "is_event_stream r" by (simp add: is_event_stream_def r_def dict_get_default_def)
  then have f: "finish_response 1024 ''r1'' 8 (Some r) = Streams (security_headers ''r1'' 8 r) [''data: 1'']"
    by (simp add: finish_response_def Let_def event_stream_headers security_header_values) (simp add: r_def)
  have c: "choose_response limited_allow (demo_stream t) True (9, ()) = ((Some r, 8, False), 8, ())"
    by (simp add: choose_response_def limited_allow_def demo_stream_def r_def)
  have t: "tk_bucket t = ''k''" "tk_acquired t" "tk_request_id t = ''r1''" "t\<lparr>tk_rate_limited := False\<rparr> = t"
    by (simp_all add: t_def)
  have app: "gs_app begun = ()" by simp
  obtain e s1 chunks status where s1: "serve_request id ''ts'' (\<lambda>_. limited_allow) demo_stream 1024 1 0 t begun = Some (e, s1)"
      "gs_tasks s1 = [(t, Streaming chunks status)]"
    by (simp add: serve_request_def t b app c f set_task_def Let_def)
  have r1: "reaches (gateway_init 1) demo_step s1"
    by (rule reaches_step[OF reaches_begun step_serve[OF _ _ s1(1)]]) (simp_all add: b)
  have "reaches (gateway_init 1) demo_step (set_task 0 (t, Gone) s1)"
    by (rule reaches_step[OF r1 step_never_started]) (simp_all add: s1(2))
  moreover have "how_many lost_slot (gs_tasks (set_task 0 (t, Gone) s1)) = 1"
    by (simp add: set_task_def s1(2) lost_slot_def holds_slot_def t_def)
  ultimately show ?thesis by blast
qed

theorem lost_streams_block_gateway_witness:
  "\<exists>s. reaches (gateway_init 1) demo_step s \<and> fst (try_acquire (gs_limiter s)) = Suspended"
proof -
  obtain s where s: "reaches (gateway_init 1) demo_step s" "how_many lost_slot (gs_tasks s) = 1" using demo_lost by blast
  show ?thesis using lost_streams_block_gateway[OF s(1) _ _ rtranclp.rtrancl_refl] s by auto
qed

theorem boundary_accounts_witness:
  "cl_active (gs_limiter begun) = 1 \<and> how_many holds_slot (gs_tasks begun) = 1 \<and> gs_audit begun = []"
proof -
  have "how_many holds_slot (gs_tasks begun) = 1" "gs_audit begun = []"
    by (simp_all add: begun_def begin_request_def try_acquire_def Let_def empty_gateway_def new_concurrency_limiter_def
        holds_slot_def)
  then show ?thesis using boundary_accounts[OF reaches_begun] by simp
qed

end
