(* ===== verification/StreamContract.thy ===== *)
theory StreamContract
  imports Streaming
begin

text \<open>
  What the streaming translations guarantee their clients: the frames they print are read back as
  they were meant (no frame is merged, split or injected by a provider's text), the Anthropic event
  sequence follows the protocol, and rewriting a model name keeps every event.
\<close>

section \<open>Frames on the wire\<close>

text \<open>
  A codec whose values are sent in frames: the printed form of a framed value fits in one line, so a
  frame is read as exactly one event.
\<close>

locale sse_codec = json_codec dumps loads wf
  for dumps :: "'v \<Rightarrow> string" and loads :: "string \<Rightarrow> 'v option" and wf :: "'v \<Rightarrow> bool" +
  fixes event_ok :: "string \<Rightarrow> bool"
    and framed :: "'v \<Rightarrow> bool"
    and print_frame :: "string \<Rightarrow> 'v \<Rightarrow> string"
  assumes frame_read: "event_ok e \<Longrightarrow> framed v \<Longrightarrow> wf v \<Longrightarrow>
      sse_frames (crlf_to_lf (print_frame e v)) = ([(e, dumps v)], [])"
begin

lemma feed_frames:
  "list_all (\<lambda>(e, v). event_ok e \<and> framed v \<and> wf v) fs \<Longrightarrow>
     sse_feed [] (map (\<lambda>(e, v). print_frame e v) fs) = (map (\<lambda>(e, v). (e, dumps v)) fs, [])"
  by (induction fs) (auto simp: frame_read)

lemma frames_read_back:
  assumes "list_all (\<lambda>(e, v). event_ok e \<and> framed v \<and> wf v) fs"
  shows "sse_events (map (\<lambda>(e, v). print_frame e v) fs) x = map (\<lambda>(e, v). (e, dumps v)) fs \<and>
    map (\<lambda>(e, raw). loads raw) (map (\<lambda>(e, v). (e, dumps v)) fs) = map (\<lambda>(e, v). Some v) fs"
  using assms feed_frames[OF assms] by (auto simp: sse_events_def py_strip_def py_lstrip_def py_rstrip_def
    list_all_iff codec_roundtrip)

end

lemma dumps_object_plain: "wf_json (JObj d) \<Longrightarrow> plain_data (json_dumps (JObj d))"
  using py_json.codec_one_line[of "JObj d"]
  by (simp add: plain_data_def plain_line_def py_space_def code_of_def)

definition is_object :: "json \<Rightarrow> bool" where
  "is_object v = (case v of JObj _ \<Rightarrow> True | _ \<Rightarrow> False)"

lemma object_plain: "is_object v \<Longrightarrow> wf_json v \<Longrightarrow> plain_data (json_dumps v)"
  using dumps_object_plain by (cases v) (simp_all add: is_object_def)

interpretation event_stream: sse_codec json_dumps json_loads wf_json plain_event is_object event_data
proof
  show "sse_frames (crlf_to_lf (event_data e v)) = ([(e, json_dumps v)], [])"
    if "plain_event e" "is_object v" "wf_json v" for e v
    using event_lines_read[OF that(1) object_plain[OF that(2,3)]] by (simp only: event_data_def)
qed

interpretation data_stream: sse_codec json_dumps json_loads wf_json "\<lambda>e. e = ''message''" is_object "\<lambda>e. sse_data"
proof
  show "sse_frames (crlf_to_lf (sse_data v)) = ([(e, json_dumps v)], [])"
    if "e = ''message''" "is_object v" "wf_json v" for e v
    using data_line_read[OF object_plain[OF that(2,3)]] by (simp only: sse_data_def that(1))
qed

section \<open>The frames of the translation to Anthropic\<close>

text \<open>What every step of a generator keeps of what it yields, its end included.\<close>

lemma run_events_all:
  assumes "run_events f s es = (out, flow)" "P s"
    and "\<And>s e ys s'. e \<in> set es \<Longrightarrow> P s \<Longrightarrow> f s e = (ys, s') \<Longrightarrow>
      list_all Q ys \<and> (\<forall>t. s' = Go t \<or> s' = Leave t \<longrightarrow> P t)"
  shows "list_all Q out \<and> (\<forall>t. flow = Go t \<or> flow = Leave t \<longrightarrow> P t)"
  using assms
proof (induction es arbitrary: s out flow)
  case Nil
  then show ?case by auto
next
  case (Cons e es)
  obtain o1 f1 where step: "f s e = (o1, f1)" by force
  note kept = Cons.prems(3)[OF _ Cons.prems(2) step, simplified]
  show ?case
  proof (cases f1)
    case (Go t)
    obtain o2 f2 where rest: "run_events f t es = (o2, f2)" by force
    have "P t" using kept Go by simp
    have "list_all Q o2 \<and> (\<forall>t. f2 = Go t \<or> f2 = Leave t \<longrightarrow> P t)"
      by (rule Cons.IH[OF rest \<open>P t\<close>]) (rule Cons.prems(3)[OF list.set_intros(2)])
    then show ?thesis using Cons.prems(1) kept step Go rest by auto
  qed (use Cons.prems(1) kept step in auto)
qed

lemma generate_all:
  assumes "\<And>s. P s \<Longrightarrow> list_all Q (finish s)" "P s"
    and "\<And>s e ys s'. P s \<Longrightarrow> f s e = (ys, s') \<Longrightarrow> list_all Q ys \<and> (\<forall>t. s' = Go t \<or> s' = Leave t \<longrightarrow> P t)"
  shows "list_all Q (fst (generate f s finish chunks x))"
proof -
  obtain out flow where run: "run_events f s (sse_events chunks x) = (out, flow)" by force
  have "list_all Q out \<and> (\<forall>t. flow = Go t \<or> flow = Leave t \<longrightarrow> P t)"
    by (rule run_events_all[where P = P and Q = Q, OF run assms(2)]) (rule assms(3))
  then show ?thesis using assms(1) run by (cases flow) (auto simp: generate_def)
qed

definition good_frame :: "frame \<Rightarrow> bool" where
  "good_frame f = (case f of (e, v) \<Rightarrow> plain_event e \<and> is_object v \<and> wf_json v)"

lemma plain_names:
  "plain_event ''error''" "plain_event ''message_start''" "plain_event ''content_block_start''"
  "plain_event ''content_block_delta''" "plain_event ''content_block_stop''" "plain_event ''message_delta''"
  "plain_event ''message_stop''"
  by (simp_all add: plain_event_def safe_event_char_def code_of_def)

lemma good_frames:
  "good_frame error_frame" "good_frame (message_start_frame i m)" "good_frame message_stop_frame"
  "good_frame (block_start_frame n text_block_value)" "good_frame (block_start_frame n (tool_block_value i m))"
  "good_frame (block_delta_frame n (text_delta_value t))" "good_frame (block_delta_frame n (json_delta_value t))"
  "good_frame (block_stop_frame n)" "good_frame (message_delta_frame s k)"
  by (simp_all add: good_frame_def plain_names is_object_def error_frame_def protocol_error_def
      message_start_frame_def message_stop_frame_def block_start_frame_def text_block_value_def tool_block_value_def
      block_delta_frame_def text_delta_value_def json_delta_value_def block_stop_frame_def message_delta_frame_def)

lemma good_start_message: "list_all good_frame (fst (start_message m s))"
  by (simp add: start_message_def good_frames)

lemma good_emit_text: "list_all good_frame (fst (emit_text t s))"
  by (simp add: emit_text_def good_frames)

lemma good_open_tool_block: "list_all good_frame (fst (open_tool_block c s))"
  by (simp add: open_tool_block_def good_frames Let_def)

lemma good_emit_calls: "list_all good_frame (fst (emit_calls s calls))"
proof (induction s calls rule: emit_calls.induct)
  case (2 s raw calls)
  show ?case
  proof (cases raw)
    case (JObj call)
    obtain o1 s1 where op: "open_tool_block call s = (o1, s1)" by force
    then have "list_all good_frame o1" using good_open_tool_block[of call s] by simp
    then show ?thesis using 2(1)[OF JObj op[symmetric]] 2(2)[OF JObj op[symmetric]] op JObj
      by (cases "call_arguments call") (auto simp: good_frames split: prod.split)
  qed (simp_all add: good_frames)
qed simp

lemma good_emit_finish: "list_all good_frame (emit_finish f s)"
proof -
  have "list_all good_frame (map block_stop_frame ns)" for ns
    by (induction ns) (simp_all add: good_frames)
  then show ?thesis by (simp add: emit_finish_def good_frames)
qed

lemma good_step: "list_all good_frame (fst (to_anthropic_step m s e))"
proof -
  have "list_all good_frame (fst (delta_step data choice delta s))" for data choice delta s
    using good_emit_text good_emit_calls
    unfolding delta_step_def emit_delta_def
    by (auto simp: good_frames good_emit_finish Let_def split: json.split option.split prod.split)
      (metis fst_conv)+
  then show ?thesis using good_start_message
    unfolding to_anthropic_step_def
    by (auto simp: good_frames split: option.split prod.split) (metis fst_conv)+
qed

lemma good_anthropic_frames: "list_all good_frame (fst (to_anthropic_frames m chunks x))"
  unfolding to_anthropic_frames_def
proof (rule generate_all[where P = "\<lambda>_. True"])
  show "list_all good_frame (finish_message m s)" for s
    by (simp add: finish_message_def good_start_message good_frames)
  show "list_all good_frame ys \<and> (\<forall>t. s' = Go t \<or> s' = Leave t \<longrightarrow> True)"
    if "to_anthropic_step m s e = (ys, s')" for s e ys s'
    using good_step[of m s e] that by simp
qed simp

text \<open>
  C38: a client that parses the translated Anthropic stream, however it is cut into chunks of whole
  frames, reads exactly the frames the translation meant, and parsing the data of each gives its
  value back: no text of the provider can merge, split or inject an event.
\<close>

theorem anthropic_stream_read_back:
  "sse_events (fst (chat_to_anthropic_stream m chunks x)) y
     = map (\<lambda>(e, v). (e, json_dumps v)) (fst (to_anthropic_frames m chunks x)) \<and>
   map (\<lambda>(e, raw). json_loads raw) (sse_events (fst (chat_to_anthropic_stream m chunks x)) y)
     = map (\<lambda>(e, v). Some v) (fst (to_anthropic_frames m chunks x))"
proof -
  have "list_all (\<lambda>(e, v). plain_event e \<and> is_object v \<and> wf_json v) (fst (to_anthropic_frames m chunks x))"
    using good_anthropic_frames[of m chunks x] by (simp add: good_frame_def[abs_def])
  note read = event_stream.frames_read_back[OF this, of y]
  show ?thesis using read by (simp add: chat_to_anthropic_stream_def split_beta)
qed

section \<open>One event per frame in every generator\<close>

definition one_event :: "string \<Rightarrow> bool" where
  "one_event t = (\<exists>e d. sse_frames (crlf_to_lf t) = ([(e, d)], []) \<and>
     (d = done_marker \<or> (\<exists>v. json_loads d = Some v)))"

lemma wf_dict_set: "wf_json (JObj d) \<Longrightarrow> wf_json v \<Longrightarrow> wf_json (JObj (dict_set k v d))"
  by (simp add: distinct_dict_set list_all_dict_set)

lemma wf_get: "wf_json (JObj d) \<Longrightarrow> get_or_null d k = v \<Longrightarrow> wf_json v"
  by (auto simp: get_or_null_def dict_get_default_def list_all_iff split: option.splits dest!: map_of_SomeD)

lemma one_event_data: "is_object v \<Longrightarrow> wf_json v \<Longrightarrow> one_event (sse_data v)"
  using data_stream.frame_read[of "''message''" v] py_json.codec_roundtrip[of v] by (auto simp: one_event_def)

lemma one_event_frame: "good_frame f \<Longrightarrow> one_event (event_data (fst f) (snd f))"
  using event_stream.frame_read[of "fst f" "snd f"] py_json.codec_roundtrip[of "snd f"]
  by (auto simp: one_event_def good_frame_def)

lemma plain_done: "plain_data done_marker"
  by (simp add: plain_data_def plain_line_def done_marker_def is_linebreak_def py_space_def code_of_def)

lemma sse_frame_read:
  assumes "plain_data d"
  shows "sse_frames (crlf_to_lf (sse_frame e d)) = ([(safe_event e, d)], [])"
proof (cases "safe_event e = ''message''")
  case True
  then have "sse_frame e d = ''data: '' @ d @ blank_line" by (simp add: sse_frame_def)
  then show ?thesis using data_line_read[OF assms] True by (simp only:)
next
  case False
  then have "plain_event (safe_event e)" by (auto simp: safe_event_def plain_event_def split: if_splits)
  moreover have "sse_frame e d = ''event: '' @ safe_event e @ [newline] @ ''data: '' @ d @ blank_line"
    using False by (simp add: sse_frame_def)
  ultimately show ?thesis using event_lines_read[OF _ assms] by (simp only:)
qed

lemma done_frame_read: "sse_frames (crlf_to_lf done_frame) = ([(''message'', done_marker)], [])"
  unfolding done_frame_def by (rule data_line_read[OF plain_done])

lemma sse_json_wf: "sse_json raw = Some d \<Longrightarrow> wf_json (JObj d)"
  using json_loads_wf[of raw "JObj d"]
  by (cases "json_loads raw") (auto simp: sse_json_def simp del: wf_json.simps split: json.splits)

lemma rewrite_top_wf: "wf_json (JObj d) \<Longrightarrow> wf_json (JObj (rewrite_top m d))"
  using wf_dict_set[of d "JStr m"] by (simp add: rewrite_top_def)

lemma rewrite_nested_wf:
  assumes "wf_json (JObj d)"
  shows "wf_json (JObj (rewrite_nested k m d))"
proof (cases "get_or_null d k")
  case (JObj inner)
  then have "wf_json (JObj inner)" using wf_get[OF assms] by blast
  then have "wf_json (JObj (dict_set ''model'' (JStr m) inner))" by (rule wf_dict_set) simp
  then show ?thesis using wf_dict_set[OF assms] rewrite_top_wf[OF assms] JObj
    by (simp add: rewrite_nested_def del: wf_json.simps)
qed (use rewrite_top_wf[OF assms] in \<open>simp_all add: rewrite_nested_def\<close>)

lemma rewrite_data_wf: "wf_json (JObj d) \<Longrightarrow> wf_json (JObj (rewrite_data p m d))"
  by (cases p) (simp_all only: rewrite_data_def protocol.case rewrite_top_wf rewrite_nested_wf)

lemma rewritten_plain: "sse_json raw = Some d \<Longrightarrow> plain_data (json_dumps (JObj (rewrite_data p m d)))"
  by (rule dumps_object_plain[OF rewrite_data_wf[OF sse_json_wf]])

lemma one_event_rewrite: "list_all one_event (fst (rewrite_step p m s e))"
proof -
  obtain ev raw where e: "e = (ev, raw)" by force
  have "one_event (sse_frame ev done_marker)" using sse_frame_read[OF plain_done] by (auto simp: one_event_def)
  moreover have "one_event (sse_data (JObj [(''error'', protocol_error)]))"
    by (rule one_event_data) (simp_all add: is_object_def protocol_error_def)
  moreover have "one_event (sse_frame ev (json_dumps (JObj (rewrite_data p m d))))" if "sse_json raw = Some d" for d
    using sse_frame_read[OF rewritten_plain[OF that]] py_json.codec_roundtrip[OF rewrite_data_wf[OF sse_json_wf[OF that]]]
    unfolding one_event_def by blast
  ultimately show ?thesis by (auto simp: rewrite_step_def e split: option.split)
qed

lemma chat_chunk_wf:
  "wf_json (JObj d) \<Longrightarrow> wf_json f \<Longrightarrow> wf_json (JObj (chat_chunk i c m d f))"
  by (simp add: chat_chunk_def)

lemma usage_chunk_wf: "wf_json (JObj d) \<Longrightarrow> wf_json (JObj (usage_chunk u d))"
  unfolding usage_chunk_def by (simp add: distinct_dict_set list_all_dict_set)

definition good_value :: "json \<Rightarrow> bool" where
  "good_value v = (is_object v \<and> wf_json v)"

lemma good_value_simps:
  "good_value protocol_error" "good_value (JObj [(''error'', protocol_error)])" "good_value responses_error"
  "wf_json (JObj d) \<Longrightarrow> wf_json f \<Longrightarrow> good_value (JObj (chat_chunk i c m d f))"
  "good_value (JObj (usage_chunk u (chat_chunk i c m [] (JStr t))))"
  using chat_chunk_wf[of d f] usage_chunk_wf[OF chat_chunk_wf[of "[]" "JStr t"]]
  by (simp_all add: good_value_def is_object_def protocol_error_def responses_error_def del: wf_json.simps(3))
    simp_all

lemma good_to_chat: "list_all good_value (fst (to_chat_step c m s e))"
proof -
  have d: "wf_json (JObj (tool_delta i items))" if "wf_json (JObj ((''index'', JInt i) # items))" for i items
    using that by (simp add: tool_delta_def)
  have "list_all good_value (fst (block_start_step (\<lambda>delta. JObj (chat_chunk i c m delta JNull)) s data))" for i data
    by (auto simp: block_start_step_def Let_def intro!: good_value_simps d)
  moreover have "list_all good_value (fst (block_delta_step (\<lambda>delta. JObj (chat_chunk i c m delta JNull)) s data))" for i data
    by (auto simp: block_delta_step_def Let_def split: json.split intro!: good_value_simps d)
  ultimately show ?thesis
    by (auto simp: to_chat_step_def Let_def split: option.split prod.split intro!: good_value_simps)
qed

lemma good_to_responses: "list_all good_value (fst (to_responses_step m s e))"
proof -
  have "list_all good_value (response_created i m)" "good_value (output_text_delta t)"
    "good_value (response_completed i m u)" for i t u
    by (simp_all add: good_value_def is_object_def response_created_def output_text_delta_def
        response_completed_def responses_usage_def Let_def)
  then show ?thesis
    by (auto simp: to_responses_step_def Let_def good_value_simps split: option.split prod.split json.split)
qed

lemma one_event_datas: "list_all good_value vs \<Longrightarrow> list_all one_event (map sse_data vs)"
  by (induction vs) (simp_all add: good_value_def one_event_data)

lemma one_event_done: "one_event done_frame"
  using done_frame_read by (auto simp: one_event_def)

lemma one_event_data_frames:
  assumes "\<And>s e. list_all good_value (fst (f s e))"
  shows "list_all one_event (fst (generate (data_frames f) s (\<lambda>_. [done_frame]) chunks x))"
proof (rule generate_all[where P = "\<lambda>_. True"])
  show "list_all one_event ys \<and> (\<forall>t. s' = Go t \<or> s' = Leave t \<longrightarrow> True)"
    if "data_frames f s e = (ys, s')" for s e ys s'
    using that one_event_datas[OF assms[of s e]] by (auto simp: data_frames_def split: prod.splits)
qed (simp_all add: one_event_done)

text \<open>
  Every chunk any of the four generators yields is exactly one event, whose data is JSON or the
  end marker, whatever the provider's stream holds and however it ends.
\<close>

theorem generators_emit_single_events:
  "list_all one_event (fst (rewrite_sse_model p m chunks x)) \<and>
   list_all one_event (fst (anthropic_to_chat_stream c m chunks x)) \<and>
   list_all one_event (fst (chat_to_anthropic_stream m chunks x)) \<and>
   list_all one_event (fst (chat_to_responses_stream m chunks x))"
proof (intro conjI)
  show "list_all one_event (fst (rewrite_sse_model p m chunks x))"
    unfolding rewrite_sse_model_def
  proof (rule generate_all[where P = "\<lambda>_. True"])
    show "list_all one_event ys \<and> (\<forall>t. s' = Go t \<or> s' = Leave t \<longrightarrow> True)"
      if "rewrite_step p m s e = (ys, s')" for s e ys s'
      using one_event_rewrite[of p m s e] that by simp
  qed simp_all
  show "list_all one_event (fst (anthropic_to_chat_stream c m chunks x))"
    unfolding anthropic_to_chat_stream_def by (rule one_event_data_frames) (rule good_to_chat)
  show "list_all one_event (fst (chat_to_responses_stream m chunks x))"
    unfolding chat_to_responses_stream_def by (rule one_event_data_frames) (rule good_to_responses)
  have "list_all one_event (map (\<lambda>(event, v). event_data event v) fs)" if "list_all good_frame fs" for fs
    using that one_event_frame by (induction fs) fastforce+
  then show "list_all one_event (fst (chat_to_anthropic_stream m chunks x))"
    using good_anthropic_frames[of m chunks x] by (simp add: chat_to_anthropic_stream_def split_beta)
qed

section \<open>Rewriting keeps every event\<close>

definition rewritable :: "sse_event \<Rightarrow> bool" where
  "rewritable e = (snd e = done_marker \<or> sse_json (snd e) \<noteq> None)"

definition rewritten :: "protocol \<Rightarrow> string \<Rightarrow> sse_event \<Rightarrow> sse_event" where
  "rewritten p m e = (safe_event (fst e), if snd e = done_marker then done_marker
     else (case sse_json (snd e) of Some d \<Rightarrow> json_dumps (JObj (rewrite_data p m d)) | None \<Rightarrow> snd e))"

lemma run_rewrite:
  "list_all rewritable es \<Longrightarrow> run_events (rewrite_step p m) () es =
     (map (\<lambda>e. sse_frame (fst e) (snd (rewritten p m e))) es, Go ())"
proof (induction es)
  case (Cons e es)
  obtain ev raw where e: "e = (ev, raw)" by force
  show ?case using Cons by (auto simp: e rewritable_def rewrite_step_def rewritten_def split: option.split)
qed simp

lemma rewritten_read:
  "rewritable e \<Longrightarrow> sse_frames (crlf_to_lf (sse_frame (fst e) (snd (rewritten p m e)))) = ([rewritten p m e], [])"
  using sse_frame_read[OF plain_done] sse_frame_read[OF rewritten_plain]
  by (auto simp: rewritable_def rewritten_def split: option.splits)

text \<open>
  As long as the provider's events are JSON objects or the end marker, a client reads from the
  rewritten stream the same events in the same order, each with its name (an unprintable one becomes
  \<open>message\<close>) and its data with only the model field replaced, and the stream ends as the
  provider's does.
\<close>

theorem rewrite_preserves_events:
  assumes "list_all rewritable (sse_events chunks x)"
  shows "sse_events (fst (rewrite_sse_model p m chunks x)) y = map (rewritten p m) (sse_events chunks x) \<and>
    snd (rewrite_sse_model p m chunks x) = x"
proof -
  have out: "rewrite_sse_model p m chunks x
      = (map (\<lambda>e. sse_frame (fst e) (snd (rewritten p m e))) (sse_events chunks x), x)"
    by (simp add: rewrite_sse_model_def generate_def run_rewrite[OF assms])
  have "sse_feed [] (map (\<lambda>e. sse_frame (fst e) (snd (rewritten p m e))) es) = (map (rewritten p m) es, [])"
    if "list_all rewritable es" for es
    using that by (induction es) (auto simp: rewritten_read)
  from this[OF assms] show ?thesis
    by (simp add: out sse_events_def py_strip_def py_lstrip_def py_rstrip_def)
qed

definition demo_stream :: "string list" where
  "demo_stream = [''data: {'' @ json_str ''model'' @ '':'' @ json_str ''m'' @ ''}'' @ blank_line, done_frame]"

lemma demo_stream_events: "list_all rewritable (sse_events demo_stream Exhausted)"
  by code_simp

theorem rewrite_preserves_events_witness:
  "sse_events (fst (rewrite_sse_model ChatProtocol ''zeaz'' demo_stream Exhausted)) Exhausted
     = map (rewritten ChatProtocol ''zeaz'') (sse_events demo_stream Exhausted) \<and>
   map fst (sse_events demo_stream Exhausted) = [''message'', ''message'']"
proof -
  have "map fst (sse_events demo_stream Exhausted) = [''message'', ''message'']" by code_simp
  then show ?thesis
    using rewrite_preserves_events[OF demo_stream_events, of ChatProtocol "''zeaz''" Exhausted] by simp
qed

end
