(* ===== verification/EventProtocol.thy ===== *)
theory EventProtocol
  imports Streaming
begin

text \<open>
  The protocol of an Anthropic event stream as an abstract acceptor, and the simulation that shows
  that \<open>chat_to_anthropic_stream\<close> follows it for every Chat Completions stream whose text does not
  start after its tool calls; and what happens when it does.
\<close>

section \<open>The protocol\<close>

definition frame_field :: "frame \<Rightarrow> string \<Rightarrow> json" where
  "frame_field f k = (case snd f of JObj d \<Rightarrow> get_or_null d k | _ \<Rightarrow> JNull)"

definition value_type :: "json \<Rightarrow> json" where
  "value_type v = (case v of JObj d \<Rightarrow> get_or_null d ''type'' | _ \<Rightarrow> JNull)"

text \<open>What has been announced: the message, and the kind of each content block in order.\<close>

record announced =
  an_message :: bool
  an_blocks :: "json list"

definition nothing_announced :: announced where
  "nothing_announced = \<lparr>an_message = False, an_blocks = []\<rparr>"

definition block_at :: "announced \<Rightarrow> json \<Rightarrow> json option" where
  "block_at a index = (case index of
     JInt i \<Rightarrow> if 0 \<le> i \<and> nat i < length (an_blocks a) then Some (an_blocks a ! nat i) else None
   | _ \<Rightarrow> None)"

definition delta_fits :: "json \<Rightarrow> json \<Rightarrow> bool" where
  "delta_fits block delta =
     (block = JStr ''text'' \<and> delta = JStr ''text_delta'' \<or> block = JStr ''tool_use'' \<and> delta = JStr ''input_json_delta'')"

definition accept_frame :: "announced \<Rightarrow> frame \<Rightarrow> announced option" where
  "accept_frame a f =
     (if fst f = ''message_start'' then (if an_message a then None else Some (a\<lparr>an_message := True\<rparr>))
      else if fst f = ''content_block_start'' then
        (if an_message a \<and> frame_field f ''index'' = JInt (int (length (an_blocks a)))
         then Some (a\<lparr>an_blocks := an_blocks a @ [value_type (frame_field f ''content_block'')]\<rparr>) else None)
      else if fst f = ''content_block_delta'' then
        (case block_at a (frame_field f ''index'') of
           Some block \<Rightarrow> if delta_fits block (value_type (frame_field f ''delta'')) then Some a else None
         | None \<Rightarrow> None)
      else if fst f = ''content_block_stop'' then
        (if block_at a (frame_field f ''index'') = None then None else Some a)
      else if fst f = ''message_delta'' \<or> fst f = ''message_stop'' then (if an_message a then Some a else None)
      else if fst f = ''error'' then Some a
      else None)"

fun accept_frames :: "announced \<Rightarrow> frame list \<Rightarrow> announced option" where
  "accept_frames a [] = Some a"
| "accept_frames a (f # fs) = Option.bind (accept_frame a f) (\<lambda>b. accept_frames b fs)"

lemma accept_append: "accept_frames a (fs @ gs) = Option.bind (accept_frames a fs) (\<lambda>b. accept_frames b gs)"
  by (induction fs arbitrary: a) (auto split: bind_splits)

lemma accept_simps:
  "accept_frame a error_frame = Some a"
  "accept_frame a (message_start_frame x m) = (if an_message a then None else Some (a\<lparr>an_message := True\<rparr>))"
  "accept_frame a message_stop_frame = (if an_message a then Some a else None)"
  "accept_frame a (message_delta_frame s k) = (if an_message a then Some a else None)"
  "accept_frame a (block_stop_frame i) = (if block_at a (JInt i) = None then None else Some a)"
  "accept_frame a (block_start_frame i text_block_value) =
     (if an_message a \<and> i = int (length (an_blocks a)) then Some (a\<lparr>an_blocks := an_blocks a @ [JStr ''text'']\<rparr>) else None)"
  "accept_frame a (block_start_frame i (tool_block_value x y)) =
     (if an_message a \<and> i = int (length (an_blocks a)) then Some (a\<lparr>an_blocks := an_blocks a @ [JStr ''tool_use'']\<rparr>) else None)"
  "accept_frame a (block_delta_frame i (text_delta_value t)) =
     (if block_at a (JInt i) = Some (JStr ''text'') then Some a else None)"
  "accept_frame a (block_delta_frame i (json_delta_value t)) =
     (if block_at a (JInt i) = Some (JStr ''tool_use'') then Some a else None)"
  by (auto simp: accept_frame_def error_frame_def message_start_frame_def message_stop_frame_def
      message_delta_frame_def block_stop_frame_def block_start_frame_def block_delta_frame_def
      frame_field_def value_type_def get_or_null_def dict_get_default_def text_block_value_def tool_block_value_def
      text_delta_value_def json_delta_value_def delta_fits_def split: option.split)

section \<open>The simulation\<close>

definition simulates :: "anthropic_state \<Rightarrow> announced \<Rightarrow> bool" where
  "simulates s a =
     (an_message a = as_started s \<and> int (length (an_blocks a)) = as_next_block s \<and>
      (as_text_started s \<longrightarrow> block_at a (JInt 0) = Some (JStr ''text'')) \<and>
      (\<forall>c b. map_of (as_tool_blocks s) c = Some b \<longrightarrow> block_at a (JInt b) = Some (JStr ''tool_use'')) \<and>
      (as_tool_blocks s = [] \<and> \<not> as_text_started s \<longrightarrow> as_next_block s = 0))"

lemma block_at_append: "block_at a i = Some v \<Longrightarrow> block_at (a\<lparr>an_blocks := an_blocks a @ vs\<rparr>) i = Some v"
  by (cases i) (auto simp: block_at_def nth_append split: if_splits)

lemma block_at_last: "block_at (a\<lparr>an_blocks := an_blocks a @ [v]\<rparr>) (JInt (int (length (an_blocks a)))) = Some v"
  by (simp add: block_at_def)

lemma block_at_message [simp]: "block_at (a\<lparr>an_message := x\<rparr>) i = block_at a i"
  by (cases i) (simp_all add: block_at_def)

lemma start_message_accepted:
  assumes "simulates s a"
  shows "\<exists>b. accept_frames a (fst (start_message m s)) = Some b \<and> simulates (snd (start_message m s)) b \<and>
    as_started (snd (start_message m s)) \<and> as_tool_blocks (snd (start_message m s)) = as_tool_blocks s \<and>
    as_text_started (snd (start_message m s)) = as_text_started s"
  using assms by (auto simp: start_message_def accept_simps simulates_def)

lemma emit_text_accepted:
  assumes "simulates s a" "as_started s" "as_text_started s \<or> as_tool_blocks s = []"
  shows "\<exists>b. accept_frames a (fst (emit_text t s)) = Some b \<and> simulates (snd (emit_text t s)) b \<and>
    as_started (snd (emit_text t s)) \<and> as_tool_blocks (snd (emit_text t s)) = as_tool_blocks s \<and>
    as_text_started (snd (emit_text t s))"
proof (cases "as_text_started s")
  case True
  then show ?thesis using assms by (simp add: emit_text_def accept_simps simulates_def)
next
  case False
  then have "an_blocks a = []" "as_tool_blocks s = []" "an_message a" "as_next_block s = 0"
    using assms by (auto simp: simulates_def)
  then show ?thesis using False assms
    by (simp add: emit_text_def accept_simps simulates_def block_at_def)
qed

lemma open_tool_accepted:
  assumes "simulates s a" "as_started s"
  shows "\<exists>b. accept_frames a (fst (open_tool_block call s)) = Some b \<and> simulates (snd (open_tool_block call s)) b \<and>
    as_started (snd (open_tool_block call s)) \<and>
    map_of (as_tool_blocks (snd (open_tool_block call s))) (safe_index (get_or_null call ''index'')) \<noteq> None \<and>
    as_text_started (snd (open_tool_block call s)) = as_text_started s"
proof (cases "map_of (as_tool_blocks s) (safe_index (get_or_null call ''index''))")
  case None
  define b where "b = a\<lparr>an_blocks := an_blocks a @ [JStr ''tool_use'']\<rparr>"
  have "accept_frames a (fst (open_tool_block call s)) = Some b"
    using None assms by (simp add: open_tool_block_def Let_def accept_simps simulates_def b_def)
  moreover have "simulates (snd (open_tool_block call s)) b"
    using None assms block_at_append[of a _ _ "[JStr ''tool_use'']"] block_at_last[of a "JStr ''tool_use''"]
    unfolding simulates_def b_def by (auto simp: open_tool_block_def Let_def update_conv' split: if_splits)
  ultimately show ?thesis using None assms(2) by (auto simp: open_tool_block_def Let_def update_conv')
next
  case (Some x)
  then show ?thesis using assms by (simp add: open_tool_block_def Let_def)
qed

lemma emit_calls_accepted:
  assumes "simulates s a" "as_started s" "emit_calls s calls = (out, r)"
  shows "\<exists>b. accept_frames a out = Some b \<and> (\<forall>t. r = Some t \<longrightarrow> simulates t b \<and> as_started t \<and>
    as_text_started t = as_text_started s \<and> (calls = [] \<longrightarrow> t = s))"
  using assms
proof (induction calls arbitrary: s a out r)
  case Nil
  then show ?case by auto
next
  case (Cons raw calls)
  show ?case
  proof (cases raw)
    case (JObj call)
    obtain o1 s1 where op: "open_tool_block call s = (o1, s1)" by force
    then obtain b where b: "accept_frames a o1 = Some b" "simulates s1 b" "as_started s1"
        "map_of (as_tool_blocks s1) (safe_index (get_or_null call ''index'')) \<noteq> None"
        "as_text_started s1 = as_text_started s"
      using open_tool_accepted[OF Cons.prems(1,2), of call] by auto
    obtain o2 r2 where rest: "emit_calls s1 calls = (o2, r2)" by force
    obtain c where c: "accept_frames b o2 = Some c" "\<forall>t. r2 = Some t \<longrightarrow> simulates t c \<and> as_started t \<and>
        as_text_started t = as_text_started s1"
      using Cons.IH[OF b(2,3) rest] by blast
    have delta: "accept_frame b (block_delta_frame (tool_block_of call s1) (json_delta_value t)) = Some b" for t
      using b(2,4) by (auto simp: accept_simps tool_block_of_def simulates_def)
    show ?thesis using Cons.prems(3) JObj op rest b c delta
      by (cases "call_arguments call") (auto simp: accept_append accept_simps)
  qed (use Cons.prems(3) in \<open>auto simp: accept_simps\<close>)
qed

lemma emit_finish_accepted:
  assumes "simulates s a" "as_started s"
  shows "accept_frames a (emit_finish finish s) = Some a"
proof -
  have "accept_frames a (map block_stop_frame ns) = Some a" if "set ns \<subseteq> {0..<as_next_block s}" for ns
    using that assms(1) by (induction ns) (auto simp: accept_simps block_at_def simulates_def)
  moreover have "set [0..as_next_block s - 1] \<subseteq> {0..<as_next_block s}" by auto
  ultimately have "accept_frames a (map block_stop_frame [0..as_next_block s - 1]) = Some a" by blast
  then show ?thesis
    using assms by (simp add: emit_finish_def accept_append accept_simps simulates_def)
qed

section \<open>Streams whose text does not start after a tool call\<close>

definition event_delta :: "sse_event \<Rightarrow> json dict option" where
  "event_delta e = (case sse_json (snd e) of None \<Rightarrow> None | Some data \<Rightarrow> map_option snd (choice_delta data))"

definition has_text :: "sse_event \<Rightarrow> bool" where
  "has_text e = (case event_delta e of None \<Rightarrow> False
     | Some delta \<Rightarrow> (case get_or_null delta ''content'' of JStr _ \<Rightarrow> True | _ \<Rightarrow> False))"

definition has_calls :: "sse_event \<Rightarrow> bool" where
  "has_calls e = (case event_delta e of None \<Rightarrow> False
     | Some delta \<Rightarrow> (case delta_calls delta of Some (_ # _) \<Rightarrow> True | _ \<Rightarrow> False))"

fun text_leads :: "bool \<Rightarrow> bool \<Rightarrow> sse_event list \<Rightarrow> bool" where
  "text_leads text calls [] = True"
| "text_leads text calls (e # es) =
     ((has_text e \<and> \<not> text \<longrightarrow> \<not> calls) \<and> text_leads (text \<or> has_text e) (calls \<or> has_calls e) es)"

definition delta_text :: "json dict \<Rightarrow> bool" where
  "delta_text delta = (case get_or_null delta ''content'' of JStr _ \<Rightarrow> True | _ \<Rightarrow> False)"

lemma emit_delta_accepted:
  assumes "simulates s a" "as_started s" "emit_delta delta s = Some (out, t)"
    and "delta_text delta \<and> \<not> as_text_started s \<longrightarrow> as_tool_blocks s = []"
  shows "\<exists>b. accept_frames a out = Some b \<and> simulates t b \<and> as_started t \<and>
    as_tool_blocks t = as_tool_blocks s \<and> (as_text_started t \<longleftrightarrow> as_text_started s \<or> delta_text delta)"
proof (cases "get_or_null delta ''content''")
  case (JStr x)
  then have out: "out = fst (emit_text x s)" "t = snd (emit_text x s)"
    using assms(3) by (simp_all add: emit_delta_def)
  have "as_text_started s \<or> as_tool_blocks s = []" using assms(4) JStr by (auto simp: delta_text_def)
  then show ?thesis using emit_text_accepted[OF assms(1,2), of x] JStr by (simp add: out delta_text_def)
qed (use assms in \<open>auto simp: emit_delta_def delta_text_def\<close>)

lemma count_usage_sim: "simulates (count_usage d s) a = simulates s a" "as_started (count_usage d s) = as_started s"
  "as_text_started (count_usage d s) = as_text_started s" "as_tool_blocks (count_usage d s) = as_tool_blocks s"
  by (simp_all add: count_usage_def Let_def simulates_def)

text \<open>
  What a step keeps: the simulation, and the two facts about the past that the next delta needs.
\<close>

definition leads_inv :: "bool \<Rightarrow> bool \<Rightarrow> anthropic_state \<Rightarrow> bool" where
  "leads_inv text calls s = ((text \<longrightarrow> as_text_started s) \<and> (as_tool_blocks s \<noteq> [] \<longrightarrow> calls))"

lemma delta_step_accepted:
  assumes "simulates s a" "as_started s" "leads_inv text calls s"
    and "delta_text delta \<and> \<not> text \<longrightarrow> \<not> calls"
    and "delta_step data choice delta s = (out, flow)"
  shows "\<exists>b. accept_frames a out = Some b \<and> (\<forall>t. flow \<noteq> Leave t) \<and>
    (\<forall>t. flow = Go t \<longrightarrow> simulates t b \<and>
       leads_inv (text \<or> delta_text delta) (calls \<or> (case delta_calls delta of Some (_ # _) \<Rightarrow> True | _ \<Rightarrow> False)) t)"
proof (cases "emit_delta delta s")
  case None
  then show ?thesis using assms(5) by (auto simp: delta_step_def accept_simps)
next
  case (Some tx)
  obtain texts s1 where tx: "tx = (texts, s1)" by (cases tx)
  have "delta_text delta \<and> \<not> as_text_started s \<longrightarrow> as_tool_blocks s = []"
    using assms(3,4) by (auto simp: leads_inv_def)
  then obtain b where b: "accept_frames a texts = Some b" "simulates s1 b" "as_started s1"
      "as_tool_blocks s1 = as_tool_blocks s" "as_text_started s1 \<longleftrightarrow> as_text_started s \<or> delta_text delta"
    using emit_delta_accepted[OF assms(1,2) Some[unfolded tx]] by blast
  show ?thesis
  proof (cases "delta_calls delta")
    case None
    then show ?thesis using assms(5) Some b tx by (auto simp: delta_step_def accept_append accept_simps)
  next
    case calls: (Some cs)
    obtain o2 r where run: "emit_calls s1 cs = (o2, r)" by force
    obtain c where c: "accept_frames b o2 = Some c" "\<forall>t. r = Some t \<longrightarrow> simulates t c \<and> as_started t \<and>
        as_text_started t = as_text_started s1 \<and> (cs = [] \<longrightarrow> t = s1)"
      using emit_calls_accepted[OF b(2,3) run] by blast
    show ?thesis
    proof (cases r)
      case None
      then show ?thesis using assms(5) Some b tx c calls run by (auto simp: delta_step_def accept_append)
    next
      case (Some t)
      have fin: "accept_frames c (emit_finish f (count_usage data t)) = Some c" for f
        using c(2) Some by (intro emit_finish_accepted) (auto simp: count_usage_sim)
      have "leads_inv (text \<or> delta_text delta) (calls \<or> (case delta_calls delta of Some (_ # _) \<Rightarrow> True | _ \<Rightarrow> False))
          (count_usage data t)"
        using c(2) Some b assms(3) calls by (cases cs) (auto simp: leads_inv_def count_usage_sim)
      moreover have "flow = Go (count_usage data t)"
          "out = texts @ o2 @ emit_finish (get_or_null choice ''finish_reason'') (count_usage data t)"
        using assms(5) \<open>emit_delta delta s = Some tx\<close> tx calls run Some by (simp_all add: delta_step_def Let_def)
      ultimately show ?thesis using b(1) c fin Some by (auto simp: accept_append count_usage_sim)
    qed
  qed
qed

lemma to_anthropic_step_accepted:
  assumes "simulates s a" "leads_inv text calls s" "has_text e \<and> \<not> text \<longrightarrow> \<not> calls"
    and "to_anthropic_step m s e = (out, flow)"
  shows "\<exists>b. accept_frames a out = Some b \<and> (\<forall>t. flow = Leave t \<longrightarrow> simulates t b) \<and>
    (\<forall>t. flow = Go t \<longrightarrow> simulates t b \<and> leads_inv (text \<or> has_text e) (calls \<or> has_calls e) t)"
proof (cases "snd e = done_marker")
  case True
  then show ?thesis using assms by (auto simp: to_anthropic_step_def)
next
  case False
  note step = assms(4)[unfolded to_anthropic_step_def if_not_P[OF False]]
  show ?thesis
  proof (cases "sse_json (snd e)")
    case None
    then show ?thesis using step by (auto simp: accept_simps)
  next
    case data: (Some data)
    show ?thesis
    proof (cases "dict_has data ''error''")
      case True
      then show ?thesis using step data by (auto simp: accept_simps)
    next
      case no_error: False
      define s0 where "s0 = s\<lparr>as_message_id := safe_string (get_or_null data ''id'') (as_message_id s)\<rparr>"
      have "simulates s0 a" "leads_inv text calls s0" using assms(1,2) by (simp_all add: s0_def simulates_def leads_inv_def)
      obtain o1 s1 where st: "start_message m s0 = (o1, s1)" by force
      then obtain b where b: "accept_frames a o1 = Some b" "simulates s1 b" "as_started s1" "leads_inv text calls s1"
        using start_message_accepted[OF \<open>simulates s0 a\<close>, of m] \<open>leads_inv text calls s0\<close>
        by (auto simp: leads_inv_def)
      show ?thesis
      proof (cases "choice_delta data")
        case None
        then show ?thesis using step data no_error st b
          by (auto simp: s0_def[symmetric] accept_append accept_simps)
      next
        case (Some cd)
        obtain choice delta where cd: "cd = (choice, delta)" by (cases cd)
        obtain o2 f2 where ds: "delta_step data choice delta s1 = (o2, f2)" by force
        have facts: "has_text e = delta_text delta"
          "has_calls e = (case delta_calls delta of Some (_ # _) \<Rightarrow> True | _ \<Rightarrow> False)"
          using data Some cd by (simp_all add: has_text_def has_calls_def event_delta_def delta_text_def)
        have "out = o1 @ o2" "flow = f2"
          using step data no_error st Some cd ds by (simp_all add: s0_def[symmetric])
        then show ?thesis
          using delta_step_accepted[OF b(2,3,4) _ ds] assms(3) b(1) unfolding facts by (auto simp: accept_append)
      qed
    qed
  qed
qed

lemma run_accepted:
  assumes "simulates s a" "leads_inv text calls s" "text_leads text calls es"
    and "run_events (to_anthropic_step m) s es = (out, flow)"
  shows "\<exists>b. accept_frames a out = Some b \<and> (\<forall>t. flow = Go t \<or> flow = Leave t \<longrightarrow> simulates t b)"
  using assms
proof (induction es arbitrary: s a "text" calls out flow)
  case Nil
  then show ?case by auto
next
  case (Cons e es)
  obtain o1 f1 where step: "to_anthropic_step m s e = (o1, f1)" by force
  have "has_text e \<and> \<not> text \<longrightarrow> \<not> calls" and rest: "text_leads (text \<or> has_text e) (calls \<or> has_calls e) es"
    using Cons.prems(3) by simp_all
  then obtain b where b: "accept_frames a o1 = Some b" "\<forall>t. f1 = Leave t \<longrightarrow> simulates t b"
      "\<forall>t. f1 = Go t \<longrightarrow> simulates t b \<and> leads_inv (text \<or> has_text e) (calls \<or> has_calls e) t"
    using to_anthropic_step_accepted[OF Cons.prems(1,2) _ step] by blast
  show ?case
  proof (cases f1)
    case (Go t)
    obtain o2 f2 where run: "run_events (to_anthropic_step m) t es = (o2, f2)" by force
    obtain c where "accept_frames b o2 = Some c" "\<forall>t. f2 = Go t \<or> f2 = Leave t \<longrightarrow> simulates t c"
      using Cons.IH[OF _ _ rest run] b(3) Go by blast
    moreover have "out = o1 @ o2" "flow = f2" using Cons.prems(4) step Go run by simp_all
    ultimately show ?thesis using b(1) by (simp add: accept_append)
  next
    case (Leave t)
    then show ?thesis using Cons.prems(4) step b by auto
  next
    case Done
    then show ?thesis using Cons.prems(4) step b(1) by simp
  qed
qed

text \<open>
  C39: whatever the provider sends, as long as its text does not start after a tool call, the
  translated stream follows the Anthropic protocol: at most one \<open>message_start\<close>, before everything
  but errors; content blocks announced with the indices 0, 1, 2, \<dots>; deltas and stops only for announced
  blocks, text deltas for text blocks and JSON deltas for tool blocks.
\<close>

theorem anthropic_stream_follows_protocol:
  assumes "text_leads False False (sse_events chunks x)"
  shows "accept_frames nothing_announced (fst (to_anthropic_frames m chunks x)) \<noteq> None"
proof -
  have init: "simulates new_anthropic_state nothing_announced" "leads_inv False False new_anthropic_state"
    by (simp_all add: simulates_def new_anthropic_state_def nothing_announced_def leads_inv_def)
  have fin: "accept_frames a (finish_message m s) \<noteq> None" if sim: "simulates s a" for s a
  proof -
    obtain b where "accept_frames a (fst (start_message m s)) = Some b" "simulates (snd (start_message m s)) b"
        "as_started (snd (start_message m s))"
      using start_message_accepted[OF sim, of m] by blast
    then show ?thesis by (simp add: finish_message_def accept_append accept_simps simulates_def)
  qed
  obtain out flow where run: "run_events (to_anthropic_step m) new_anthropic_state (sse_events chunks x) = (out, flow)"
    by force
  obtain b where b: "accept_frames nothing_announced out = Some b"
      "\<forall>t. flow = Go t \<or> flow = Leave t \<longrightarrow> simulates t b"
    using run_accepted[OF init assms run] by blast
  have "accept_frames nothing_announced (out @ finish_message m t) \<noteq> None" if "flow = Go t \<or> flow = Leave t" for t
  proof -
    have "simulates t b" using b(2) that by blast
    then show ?thesis using fin[of t b] b(1) by (simp add: accept_append)
  qed
  then show ?thesis using b(1) by (cases flow) (simp_all add: to_anthropic_frames_def generate_def run)
qed

definition chat_line :: "json \<Rightarrow> string" where
  "chat_line delta = sse_data (JObj [(''choices'', JArr [JObj [(''delta'', delta)]])])"

definition text_delta_line :: string where
  "text_delta_line = chat_line (JObj [(''content'', JStr ''hi'')])"

definition call_delta_line :: string where
  "call_delta_line = chat_line (JObj [(''tool_calls'', JArr [JObj [(''index'', JInt 0)]])])"

theorem anthropic_stream_follows_protocol_witness:
  "accept_frames nothing_announced
     (fst (to_anthropic_frames ''m'' [text_delta_line, call_delta_line, done_frame] Exhausted)) \<noteq> None"
proof (rule anthropic_stream_follows_protocol)
  show "text_leads False False (sse_events [text_delta_line, call_delta_line, done_frame] Exhausted)"
    by code_simp
qed

text \<open>
  When a tool call comes before the text, the text block is announced with index 0 again, which
  the protocol refuses: the client sees two blocks 0.
\<close>

theorem text_after_tool_call_collides:
  "map (\<lambda>f. (fst f, frame_field f ''index''))
     (fst (to_anthropic_frames ''m'' [call_delta_line, text_delta_line, done_frame] Exhausted))
   = [(''message_start'', JNull), (''content_block_start'', JInt 0), (''content_block_start'', JInt 0),
      (''content_block_delta'', JInt 0), (''message_stop'', JNull)] \<and>
   accept_frames nothing_announced
     (fst (to_anthropic_frames ''m'' [call_delta_line, text_delta_line, done_frame] Exhausted)) = None"
  by (rule conjI; code_simp)

end
