(* ===== verification/AgentSchemas.thy ===== *)
theory AgentSchemas
  imports PyFloat
begin

text \<open>
  The records of the agent (\<open>zeaz_agent/schemas.py\<close>) with the checks that creating one performs: a
  constructor returns the record or the \<open>ValidationError\<close> (a \<open>ValueError\<close>) that Pydantic raises. A
  UUID is its text. The image blocks' base64 and URL checks belong to the Python library and are left
  out.
\<close>

section \<open>Names\<close>

definition ascii_alpha :: "char \<Rightarrow> bool" where
  "ascii_alpha c = (65 \<le> code_of c \<and> code_of c \<le> 90 \<or> 97 \<le> code_of c \<and> code_of c \<le> 122)"

definition ascii_alnum :: "char \<Rightarrow> bool" where
  "ascii_alnum c = (ascii_alpha c \<or> is_digit c)"

definition identifier_text :: "string \<Rightarrow> bool" where
  "identifier_text s = (s \<noteq> [] \<and> length s \<le> 128 \<and> ascii_alnum (hd s) \<and> list_all (\<lambda>c. ascii_alnum c \<or> c \<in> set ''_.:-'') (tl s))"

definition tool_name :: "string \<Rightarrow> bool" where
  "tool_name s = (s \<noteq> [] \<and> length s \<le> 128 \<and> ascii_alpha (hd s) \<and> list_all (\<lambda>c. ascii_alnum c \<or> c \<in> set ''_.-'') (tl s))"

definition text_between :: "nat \<Rightarrow> nat \<Rightarrow> string \<Rightarrow> bool" where
  "text_between lo hi s = (lo \<le> length s \<and> length s \<le> hi)"

definition check :: "bool \<Rightarrow> string \<Rightarrow> unit res" where
  "check ok message = (if ok then Inr () else Inl (ValueError message))"

lemma check_Inr [res_simps]: "check ok m = Inr u \<longleftrightarrow> ok"
  by (simp add: check_def)

lemma check_Inl [res_simps]: "check ok m = Inl e \<longleftrightarrow> \<not> ok \<and> e = ValueError m"
  by (auto simp: check_def)

lemma check_simps [simp]: "check True m = Inr ()" "check False m = Inl (ValueError m)"
  by (simp_all add: check_def)

section \<open>Times\<close>

text \<open>A \<open>datetime\<close>: the instant in microseconds, and the UTC offset where it has one.\<close>

record py_datetime =
  dt_instant :: int
  dt_offset :: "int option"

definition has_timezone :: "py_datetime \<Rightarrow> bool" where
  "has_timezone t = (dt_offset t \<noteq> None)"

section \<open>Tokens\<close>

record token_budget =
  max_context_tokens :: int
  max_output_tokens :: int
  max_total_tokens :: int

definition TokenBudget :: "int \<Rightarrow> int \<Rightarrow> int \<Rightarrow> token_budget res" where
  "TokenBudget context output_tokens total_tokens =
     bindE (check (128 \<le> context \<and> context \<le> 10000000) ''max_context_tokens'') (\<lambda>_.
     bindE (check (1 \<le> output_tokens \<and> output_tokens \<le> 1000000) ''max_output_tokens'') (\<lambda>_.
     bindE (check (2 \<le> total_tokens \<and> total_tokens \<le> 1000000000) ''max_total_tokens'') (\<lambda>_.
     bindE (check (output_tokens < total_tokens) ''max_output_tokens must be lower than max_total_tokens'') (\<lambda>_.
     Inr \<lparr>max_context_tokens = context, max_output_tokens = output_tokens, max_total_tokens = total_tokens\<rparr>))))"

record token_usage =
  input_tokens :: int
  output_tokens :: int

definition TokenUsage :: "int \<Rightarrow> int \<Rightarrow> token_usage res" where
  "TokenUsage i n = bindE (check (0 \<le> i \<and> 0 \<le> n) ''token usage'') (\<lambda>_. Inr \<lparr>input_tokens = i, output_tokens = n\<rparr>)"

definition total_tokens :: "token_usage \<Rightarrow> int" where
  "total_tokens u = input_tokens u + output_tokens u"

definition usage_plus :: "token_usage \<Rightarrow> token_usage \<Rightarrow> token_usage res" where
  "usage_plus u v = TokenUsage (input_tokens u + input_tokens v) (output_tokens u + output_tokens v)"

section \<open>Tool calls\<close>

text \<open>\<open>_CREDENTIAL_FIELD.fullmatch\<close>, ignoring case.\<close>

definition credential_names :: "string list" where
  "credential_names =
     concat (map (\<lambda>(a, b). [a @ b, a @ ''_'' @ b, a @ ''-'' @ b])
       [(''api'', ''key''), (''provider'', ''key''), (''access'', ''token''), (''refresh'', ''token'')])
     @ [''authorization'', ''credential'', ''password'', ''secret'']"

definition credential_field :: "string \<Rightarrow> bool" where
  "credential_field k = (py_lower k \<in> set credential_names)"

fun inspect :: "nat \<Rightarrow> json \<Rightarrow> unit res"
  and inspect_list :: "nat \<Rightarrow> json list \<Rightarrow> unit res"
  and inspect_members :: "nat \<Rightarrow> json dict \<Rightarrow> unit res" where
  "inspect depth v =
     (if depth > 32 then Inl (ValueError ''tool arguments exceed the nesting limit'')
      else (case v of
          JObj kvs \<Rightarrow> inspect_members depth kvs
        | JArr vs \<Rightarrow> inspect_list depth vs
        | _ \<Rightarrow> Inr ()))"
| "inspect_list depth [] = Inr ()"
| "inspect_list depth (v # vs) = bindE (inspect (depth + 1) v) (\<lambda>_. inspect_list depth vs)"
| "inspect_members depth [] = Inr ()"
| "inspect_members depth ((k, v) # kvs) =
     (if credential_field k then Inl (ValueError ''provider credentials are forbidden in tool arguments'')
      else bindE (inspect (depth + 1) v) (\<lambda>_. inspect_members depth kvs))"

record tool_call =
  tc_id :: string
  tc_name :: string
  tc_arguments :: "json dict"

definition ToolCall :: "string \<Rightarrow> string \<Rightarrow> json dict \<Rightarrow> tool_call res" where
  "ToolCall i n arguments =
     bindE (check (identifier_text i) ''id'') (\<lambda>_.
     bindE (check (tool_name n) ''name'') (\<lambda>_.
     bindE (inspect 0 (JObj arguments)) (\<lambda>_.
     Inr \<lparr>tc_id = i, tc_name = n, tc_arguments = arguments\<rparr>)))"

record tool_result =
  tr_tool_call_id :: string
  tr_output :: json
  tr_is_error :: bool

record tool_definition =
  td_name :: string
  td_description :: string
  td_parameters :: "json dict"
  td_mutating :: bool

section \<open>Turns and sessions\<close>

record image_source =
  is_type :: string
  is_media_type :: string
  is_data :: string

datatype content_block = TextBlock string | ImageBlock image_source string | ToolCallBlock tool_call
  | ToolResultBlock tool_result

record model_output =
  mo_blocks :: "content_block list"
  mo_usage :: token_usage

datatype agent_role = SystemRole | UserRole | AssistantRole | ToolRole

datatype turn_status = TurnPending | TurnRunning | TurnCompleted | TurnFailed | TurnCancelled

datatype session_status = Active | Completed | Failed | Cancelled

datatype execution_mode = NormalMode | PlanMode

record turn =
  tn_id :: string
  tn_session_id :: string
  tn_correlation_id :: string
  tn_sequence :: int
  tn_role :: agent_role
  tn_status :: turn_status
  tn_content :: "content_block list"
  tn_created_at :: py_datetime

definition is_call :: "content_block \<Rightarrow> bool" where
  "is_call b = (case b of ToolCallBlock _ \<Rightarrow> True | _ \<Rightarrow> False)"

definition is_result :: "content_block \<Rightarrow> bool" where
  "is_result b = (case b of ToolResultBlock _ \<Rightarrow> True | _ \<Rightarrow> False)"

definition Turn :: "turn \<Rightarrow> turn res" where
  "Turn t =
     bindE (check (0 \<le> tn_sequence t) ''sequence'') (\<lambda>_.
     bindE (check (1 \<le> length (tn_content t) \<and> length (tn_content t) \<le> 1024) ''content'') (\<lambda>_.
     bindE (check (has_timezone (tn_created_at t)) ''created_at must include a UTC offset'') (\<lambda>_.
     let has_call = list_ex is_call (tn_content t); has_result = list_ex is_result (tn_content t)
     in bindE (check (\<not> (has_call \<and> tn_role t \<noteq> AssistantRole)) ''tool calls are only valid on assistant turns'') (\<lambda>_.
        bindE (check (\<not> (has_result \<and> tn_role t \<noteq> ToolRole)) ''tool results are only valid on tool turns'') (\<lambda>_.
        bindE (check (\<not> (tn_role t = ToolRole \<and> \<not> has_result)) ''tool turns must contain a tool result'') (\<lambda>_.
        Inr t))))))"

record session =
  ss_id :: string
  ss_revision :: int
  ss_status :: session_status
  ss_execution_mode :: execution_mode
  ss_token_budget :: token_budget
  ss_token_usage :: token_usage
  ss_turns :: "turn list"
  ss_created_at :: py_datetime
  ss_updated_at :: py_datetime

text \<open>The loop over the turns: the identifiers seen and the sequences.\<close>

fun check_turns :: "string \<Rightarrow> string list \<Rightarrow> turn list \<Rightarrow> unit res" where
  "check_turns sid turn_ids [] = Inr ()"
| "check_turns sid turn_ids (t # ts) =
     bindE (check (tn_session_id t = sid) ''every turn must belong to this session'') (\<lambda>_.
     bindE (check (tn_id t \<notin> set turn_ids) ''turn IDs must be unique'') (\<lambda>_.
     check_turns sid (tn_id t # turn_ids) ts))"

definition validate_turn_history :: "session \<Rightarrow> session res" where
  "validate_turn_history s =
     bindE (check (\<not> dt_instant (ss_updated_at s) < dt_instant (ss_created_at s)) ''updated_at cannot precede created_at'') (\<lambda>_.
     bindE (check (\<not> total_tokens (ss_token_usage s) > max_total_tokens (ss_token_budget s))
       ''token usage exceeds the session budget'') (\<lambda>_.
     bindE (check_turns (ss_id s) [] (ss_turns s)) (\<lambda>_.
     let sequences = map tn_sequence (ss_turns s)
     in bindE (check (sequences = sort sequences \<and> length sequences = length (remdups sequences))
          ''turn sequences must be strictly increasing'') (\<lambda>_. Inr s))))"

definition Session :: "session \<Rightarrow> session res" where
  "Session s =
     bindE (check (0 \<le> ss_revision s) ''revision'') (\<lambda>_.
     bindE (check (length (ss_turns s) \<le> 100000) ''turns'') (\<lambda>_.
     bindE (check (has_timezone (ss_created_at s) \<and> has_timezone (ss_updated_at s)) ''timestamps must include a UTC offset'') (\<lambda>_.
     validate_turn_history s)))"

section \<open>What the records satisfy\<close>

fun no_credentials :: "json \<Rightarrow> bool" where
  "no_credentials (JArr vs) = list_all no_credentials vs"
| "no_credentials (JObj kvs) = list_all (\<lambda>kv. \<not> credential_field (fst kv) \<and> no_credentials (snd kv)) kvs"
| "no_credentials v = True"

lemma inspect_no_credentials:
  "inspect d v = Inr u \<Longrightarrow> no_credentials v"
  "inspect_list d vs = Inr u \<Longrightarrow> list_all no_credentials vs"
  "inspect_members d kvs = Inr u \<Longrightarrow> list_all (\<lambda>kv. \<not> credential_field (fst kv) \<and> no_credentials (snd kv)) kvs"
proof (induction d v and d vs and d kvs arbitrary: u and u and u rule: inspect_inspect_list_inspect_members.induct)
  case (1 depth v)
  then show ?case by (cases v) (auto split: if_splits)
qed (auto simp: res_simps split: if_splits)

definition tool_call_ok :: "tool_call \<Rightarrow> bool" where
  "tool_call_ok c = (identifier_text (tc_id c) \<and> tool_name (tc_name c) \<and> no_credentials (JObj (tc_arguments c)))"

lemma ToolCall_ok: "ToolCall i n a = Inr c \<Longrightarrow> tool_call_ok c \<and> tc_id c = i \<and> tc_name c = n \<and> tc_arguments c = a"
  using inspect_no_credentials(1)[of 0 "JObj a"] by (auto simp: ToolCall_def tool_call_ok_def res_simps)

definition turn_ok :: "turn \<Rightarrow> bool" where
  "turn_ok t = (0 \<le> tn_sequence t \<and> tn_content t \<noteq> [] \<and> length (tn_content t) \<le> 1024 \<and> has_timezone (tn_created_at t) \<and>
     (\<forall>b \<in> set (tn_content t). (is_call b \<longrightarrow> tn_role t = AssistantRole) \<and> (is_result b \<longrightarrow> tn_role t = ToolRole)) \<and>
     (tn_role t = ToolRole \<longrightarrow> (\<exists>b \<in> set (tn_content t). is_result b)))"

lemma Turn_ok: "Turn t = Inr t' \<longleftrightarrow> t' = t \<and> turn_ok t"
  by (auto simp: Turn_def turn_ok_def res_simps Let_def list_ex_iff Suc_le_eq)

definition history_ok :: "string \<Rightarrow> turn list \<Rightarrow> bool" where
  "history_ok sid ts = (list_all (\<lambda>t. tn_session_id t = sid) ts \<and> distinct (map tn_id ts) \<and> sorted_wrt (<) (map tn_sequence ts))"

lemma check_turns_ok:
  "check_turns sid ids ts = Inr u \<longleftrightarrow>
     list_all (\<lambda>t. tn_session_id t = sid) ts \<and> distinct (map tn_id ts) \<and> set ids \<inter> tn_id ` set ts = {}"
  by (induction ts arbitrary: ids) (auto simp: res_simps)

lemma strictly_increasing:
  fixes xs :: "int list"
  shows "xs = sort xs \<and> length xs = length (remdups xs) \<longleftrightarrow> sorted_wrt (<) xs"
proof -
  have "length xs = length (remdups xs) \<longleftrightarrow> distinct xs"
    by (metis card_distinct distinct_remdups_id length_remdups_card_conv)
  moreover have "xs = sort xs \<longleftrightarrow> sorted xs" by (metis sort_key_id_if_sorted sorted_sort map_ident)
  ultimately show ?thesis by (simp add: strict_sorted_iff)
qed

definition session_ok :: "session \<Rightarrow> bool" where
  "session_ok s = (0 \<le> ss_revision s \<and> length (ss_turns s) \<le> 100000 \<and> has_timezone (ss_created_at s) \<and>
     has_timezone (ss_updated_at s) \<and> dt_instant (ss_created_at s) \<le> dt_instant (ss_updated_at s) \<and>
     total_tokens (ss_token_usage s) \<le> max_total_tokens (ss_token_budget s) \<and> history_ok (ss_id s) (ss_turns s))"

lemma Session_ok: "Session s = Inr s' \<longleftrightarrow> s' = s \<and> session_ok s"
  unfolding Session_def validate_turn_history_def Let_def bindE_eq_Inr check_Inr check_turns_ok strictly_increasing
    session_ok_def history_ok_def
  by auto

end
