(* ===== verification/CanonicalJson.thy ===== *)
theory CanonicalJson
  imports JsonCodec "HOL-Library.Multiset" "HOL-Library.List_Lexorder" "HOL-Library.Char_ord"
begin

text \<open>
  The canonical bytes that the agent hashes: \<open>json.dumps(v, ensure_ascii=False, separators=(",", ":"),
  sort_keys=True, allow_nan=False).encode()\<close>. Main result: two values have the same canonical bytes
  exactly if they differ only in the order of keys (\<open>canonical_inject\<close>). The printer that escapes
  nothing but control characters is related to the one of \<open>PyJson\<close> character by character, so
  the round trip proved there carries over.
\<close>

section \<open>Printing\<close>

fun has_nan :: "json \<Rightarrow> bool" where
  "has_nan (JFloat t) = (t \<in> {''NaN'', ''Infinity'', ''-Infinity''})"
| "has_nan (JArr vs) = list_ex has_nan vs"
| "has_nan (JObj kvs) = list_ex (\<lambda>kv. has_nan (snd kv)) kvs"
| "has_nan _ = False"

definition esc_raw :: "char \<Rightarrow> string" where
  "esc_raw c = (if code_of c < 127 then esc_char c else [c])"

definition raw_str :: "string \<Rightarrow> string" where
  "raw_str s = dquote # concat (map esc_raw s) @ [dquote]"

fun json_raw :: "json \<Rightarrow> string"
  and raw_elems :: "json list \<Rightarrow> string"
  and raw_members :: "(string \<times> json) list \<Rightarrow> string" where
  "json_raw JNull = ''null''"
| "json_raw (JBool b) = (if b then ''true'' else ''false'')"
| "json_raw (JInt i) = int_str i"
| "json_raw (JFloat t) = t"
| "json_raw (JStr s) = raw_str s"
| "json_raw (JArr vs) = CHR ''['' # raw_elems vs @ '']''"
| "json_raw (JObj kvs) = CHR ''{'' # raw_members kvs @ ''}''"
| "raw_elems [] = []"
| "raw_elems [v] = json_raw v"
| "raw_elems (v # w # vs) = json_raw v @ CHR '','' # raw_elems (w # vs)"
| "raw_members [] = []"
| "raw_members [(k, v)] = raw_str k @ CHR '':'' # json_raw v"
| "raw_members ((k, v) # w # kvs) = raw_str k @ CHR '':'' # json_raw v @ CHR '','' # raw_members (w # kvs)"

text \<open>\<open>sort_keys\<close>: by code points, at every level.\<close>

fun sort_json :: "json \<Rightarrow> json" where
  "sort_json (JArr vs) = JArr (map sort_json vs)"
| "sort_json (JObj kvs) = JObj (sort_key fst (map (\<lambda>kv. (fst kv, sort_json (snd kv))) kvs))"
| "sort_json v = v"

definition utf8_char :: "char \<Rightarrow> string" where
  "utf8_char c = (let n = code_of c in if n < 128 then [c] else [char_of (192 + n div 64), char_of (128 + n mod 64)])"

definition utf8_encode :: "string \<Rightarrow> string" where
  "utf8_encode s = concat (map utf8_char s)"

text \<open>\<open>None\<close> is the \<open>ValueError\<close> of \<open>allow_nan=False\<close>.\<close>

definition canonical :: "json \<Rightarrow> string option" where
  "canonical v = (if has_nan v then None else Some (utf8_encode (json_raw (sort_json v))))"

text \<open>Two values that Python regards as the same tree of dictionaries and lists, whatever the order of keys.\<close>

definition same_json :: "json \<Rightarrow> json \<Rightarrow> bool" where
  "same_json v w = (sort_json v = sort_json w)"

section \<open>The canonical bytes determine the value\<close>

definition ascii_char :: "char \<Rightarrow> string" where
  "ascii_char c = (if 32 \<le> code_of c \<and> code_of c \<le> 126 then [c]
     else [bslash, CHR ''u'', CHR ''0'', CHR ''0'', hexdig (code_of c div 16), hexdig (code_of c mod 16)])"

definition to_ascii :: "string \<Rightarrow> string" where
  "to_ascii s = concat (map ascii_char s)"

lemma to_ascii_simps [simp]: "to_ascii [] = []" "to_ascii (c # s) = ascii_char c @ to_ascii s"
  "to_ascii (s @ t) = to_ascii s @ to_ascii t"
  by (simp_all add: to_ascii_def)

lemma ascii_printable: "printable c \<Longrightarrow> ascii_char c = [c]"
  by (simp add: ascii_char_def printable_def)

lemma to_ascii_printable: "list_all printable s \<Longrightarrow> to_ascii s = s"
  by (induction s) (auto simp: ascii_printable)

lemma to_ascii_esc: "to_ascii (esc_raw c) = esc_char c"
proof (cases "code_of c < 127")
  case True
  then show ?thesis by (simp add: esc_raw_def to_ascii_printable esc_char_printable)
next
  case False
  then have "c \<noteq> dquote" "c \<noteq> bslash" "c \<noteq> newline" "c \<noteq> creturn" "c \<noteq> CHR 0x09" "c \<noteq> CHR 0x0C" "c \<noteq> CHR 0x08"
    by (auto simp: code_of_def)
  then show ?thesis using False by (simp add: esc_raw_def esc_char_def ascii_char_def)
qed

lemma to_ascii_str: "to_ascii (raw_str s) = json_str s"
proof -
  have "to_ascii (concat (map esc_raw s)) = concat (map esc_char s)"
    by (induction s) (simp_all add: to_ascii_esc)
  then show ?thesis by (simp add: raw_str_def json_str_def ascii_char_def code_of_def)
qed

lemma ascii_letters: "97 \<le> code_of c \<Longrightarrow> code_of c \<le> 122 \<Longrightarrow> ascii_char c = [c]"
  by (simp add: ascii_char_def)

lemma ascii_literals:
  "ascii_char (CHR '','') = '',''" "ascii_char (CHR '':'') = '':''" "ascii_char (CHR ''['') = ''[''"
  "ascii_char (CHR '']'') = '']''" "ascii_char (CHR ''{'') = ''{''" "ascii_char (CHR ''}'') = ''}''"
  by (simp_all add: ascii_char_def code_of_def)

lemma to_ascii_raw:
  "wf_json v \<Longrightarrow> to_ascii (json_raw v) = json_dumps v"
  "list_all wf_json vs \<Longrightarrow> to_ascii (raw_elems vs) = dumps_elems vs"
  "list_all (\<lambda>kv. wf_json (snd kv)) kvs \<Longrightarrow> to_ascii (raw_members kvs) = dumps_members kvs"
proof (induction v and vs and kvs rule: json_raw_raw_elems_raw_members.induct)
  case (3 i)
  then show ?case using num_text_printable[OF int_str_num_chars] by (simp add: to_ascii_printable)
next
  case (4 t)
  then show ?case using float_text_printable[of t] by (simp add: to_ascii_printable)
qed (simp_all add: ascii_literals to_ascii_str ascii_letters code_of_def)

lemma set_sort_members: "set (sort_key f xs) = set xs"
  by simp

lemma wf_sort_json: "wf_json v \<Longrightarrow> wf_json (sort_json v)"
proof (induction v rule: sort_json.induct)
  case (2 kvs)
  have "distinct (map fst (sort_key fst (map (\<lambda>kv. (fst kv, sort_json (snd kv))) kvs)))"
  proof -
    have "mset (map fst (sort_key fst (map (\<lambda>kv. (fst kv, sort_json (snd kv))) kvs))) = mset (map fst kvs)"
      by (simp add: o_def multiset.map_comp)
    moreover have "distinct (map fst kvs)" using 2(2) by simp
    ultimately show ?thesis by (metis mset_eq_imp_distinct_iff)
  qed
  then show ?case using 2 by (auto simp: list_all_iff)
qed (auto simp: list_all_iff)

fun utf8_decode :: "string \<Rightarrow> string" where
  "utf8_decode [] = []"
| "utf8_decode (c # cs) =
     (if code_of c < 128 then c # utf8_decode cs
      else (case cs of [] \<Rightarrow> [] | d # ds \<Rightarrow> char_of ((code_of c - 192) * 64 + (code_of d - 128)) # utf8_decode ds))"

lemma utf8_decode_encode: "utf8_decode (utf8_encode s) = s"
proof (induction s)
  case (Cons c s)
  show ?case
  proof (cases "code_of c < 128")
    case True
    then show ?thesis using Cons by (simp add: utf8_encode_def utf8_char_def)
  next
    case False
    have b: "code_of c div 64 < 4" "code_of c mod 64 < 64" using code_of_less[of c] by linarith+
    then have "char_of ((code_of (char_of (192 + code_of c div 64) :: char) - 192) * 64
        + (code_of (char_of (128 + code_of c mod 64) :: char) - 128)) = c"
      by (simp add: code_of_char_of)
    then show ?thesis using Cons False b by (simp add: utf8_encode_def utf8_char_def Let_def code_of_char_of)
  qed
qed (simp add: utf8_encode_def)

lemma utf8_inject: "utf8_encode s = utf8_encode t \<longleftrightarrow> s = t"
  by (metis utf8_decode_encode)

lemma json_raw_inject:
  assumes "wf_json v" "wf_json w" "json_raw v = json_raw w"
  shows "v = w"
proof -
  have "json_dumps v = json_dumps w" using to_ascii_raw(1)[OF assms(1)] to_ascii_raw(1)[OF assms(2)] assms(3) by simp
  then show ?thesis using py_json.codec_injective[OF assms(1,2)] by simp
qed

theorem canonical_inject:
  assumes "wf_json v" "wf_json w" "canonical v = Some s"
  shows "canonical w = Some s \<longleftrightarrow> \<not> has_nan w \<and> same_json v w"
proof -
  have s: "s = utf8_encode (json_raw (sort_json v))" using assms(3) by (simp add: canonical_def split: if_splits)
  have "json_raw (sort_json w) = json_raw (sort_json v) \<longleftrightarrow> sort_json w = sort_json v"
    using json_raw_inject[OF wf_sort_json[OF assms(2)] wf_sort_json[OF assms(1)]] by auto
  then show ?thesis by (auto simp: canonical_def same_json_def s utf8_inject)
qed

text \<open>
  Where a value is recognized by the hash of its canonical bytes, the one thing that can go wrong is that these bytes and
  the other ones, which differ, have the same hash. The two texts are those that the program compares.
\<close>

definition hash_clash :: "(string \<Rightarrow> string) \<Rightarrow> string \<Rightarrow> string \<Rightarrow> bool" where
  "hash_clash h x y = (x \<noteq> y \<and> h x = h y)"

definition json_clash :: "(string \<Rightarrow> string) \<Rightarrow> json \<Rightarrow> json \<Rightarrow> bool" where
  "json_clash h v w = (case (canonical v, canonical w) of (Some x, Some y) \<Rightarrow> hash_clash h x y | _ \<Rightarrow> False)"

lemma same_hash_same_json:
  assumes "wf_json v" "wf_json w" "canonical v = Some x" "canonical w = Some y" "h x = h y" "\<not> json_clash h v w"
  shows "same_json v w"
  using assms(3-6) canonical_inject[OF assms(1-3)] by (simp add: json_clash_def hash_clash_def)

lemma clash_free_inj: "inj h \<Longrightarrow> \<not> hash_clash h x y" "inj h \<Longrightarrow> \<not> json_clash h v w"
  by (auto simp: json_clash_def hash_clash_def dest: injD split: option.splits)

text \<open>Equal dictionaries have equal members.\<close>

lemma map_of_sorted_keys: "distinct (map fst xs) \<Longrightarrow> map_of (sort_key fst xs) = map_of xs"
  by (rule map_of_inject_set[THEN iffD2]) (auto simp: distinct_map inj_on_def)

lemma map_of_sorted_members:
  assumes "distinct (map fst d)"
  shows "map_of (sort_key fst (map (\<lambda>kv. (fst kv, sort_json (snd kv))) d)) k = map_option sort_json (map_of d k)"
proof -
  have "map_of (map (\<lambda>kv. (fst kv, sort_json (snd kv))) d) k = map_option sort_json (map_of d k)"
    by (induction d) auto
  moreover have "distinct (map fst (map (\<lambda>kv. (fst kv, sort_json (snd kv))) d))" using assms by (simp add: o_def)
  ultimately show ?thesis by (simp only: map_of_sorted_keys)
qed

lemma same_json_member:
  assumes "same_json (JObj d) (JObj e)" "distinct (map fst d)" "distinct (map fst e)"
  shows "map_option sort_json (map_of d k) = map_option sort_json (map_of e k)"
  using assms map_of_sorted_members[OF assms(2), of k] map_of_sorted_members[OF assms(3), of k]
  by (simp add: same_json_def)

end
