(* ===== verification/Permissions.thy ===== *)
theory Permissions
  imports AgentSchemas CanonicalJson
begin

text \<open>
  Tool permissions (\<open>zeaz_agent/permissions.py\<close>): the rules and the choice among those that match, the
  decision bound to one exact call by the digest of its arguments, its resolution by a user, and the
  check before execution. Fresh UUIDs, the clock and SHA-256 are parameters.
\<close>

section \<open>Outcomes and their order\<close>

datatype permission_outcome = Allow | Deny | Ask

datatype decision_source = PolicySource | DefaultSource | UserSource

fun precedence :: "permission_outcome \<Rightarrow> nat" where
  "precedence Deny = 2"
| "precedence Ask = 1"
| "precedence Allow = 0"

lemma precedence_inject: "precedence x = precedence y \<longleftrightarrow> x = y"
  by (cases x; cases y) simp_all

text \<open>Outcomes are ordered by their precedence: allow, ask, deny.\<close>

instantiation permission_outcome :: linorder
begin

definition "x \<le> y \<longleftrightarrow> precedence x \<le> precedence y"

definition "x < y \<longleftrightarrow> precedence x < precedence y"

instance
  by intro_classes (auto simp: less_eq_permission_outcome_def less_permission_outcome_def precedence_inject)

end

lemma outcome_order [simp]: "Allow \<le> x" "x \<le> Deny" "Ask \<le> x \<longleftrightarrow> x \<noteq> Allow" "x \<le> Allow \<longleftrightarrow> x = Allow" "Deny \<le> x \<longleftrightarrow> x = Deny"
  by (cases x; simp add: less_eq_permission_outcome_def)+

text \<open>The key \<open>(-priority, -precedence, id)\<close>, compared lexicographically.\<close>

datatype rule_rank = RuleKey (key_priority: int) (key_effect: permission_outcome) (key_id: string)

instantiation rule_rank :: linorder
begin

definition "x < y \<longleftrightarrow> key_priority y < key_priority x \<or> key_priority x = key_priority y \<and>
  (key_effect y < key_effect x \<or> key_effect x = key_effect y \<and> key_id x < key_id y)"

definition "x \<le> y \<longleftrightarrow> x = y \<or> x < (y :: rule_rank)"

instance
proof
  fix x y z :: rule_rank
  show "x < y \<longleftrightarrow> x \<le> y \<and> \<not> y \<le> x" "x \<le> x" "x \<le> y \<Longrightarrow> y \<le> x \<Longrightarrow> x = y"
    by (auto simp: less_eq_rule_rank_def less_rule_rank_def)
  show "x \<le> y \<Longrightarrow> y \<le> z \<Longrightarrow> x \<le> z"
    unfolding less_eq_rule_rank_def less_rule_rank_def by (elim disjE conjE) (auto dest: less_trans)
  show "x \<le> y \<or> y \<le> x"
    unfolding less_eq_rule_rank_def less_rule_rank_def
    by (cases x; cases y) (auto simp: not_less_iff_gr_or_eq)
qed

end

section \<open>Rules\<close>

record permission_rule =
  pr_id :: string
  pr_effect :: permission_outcome
  pr_tool_pattern :: string
  pr_argument_equals :: "json dict"
  pr_priority :: int
  pr_reason :: string

definition rule_pattern :: "string \<Rightarrow> bool" where
  "rule_pattern s = (text_between 1 128 s \<and> list_all (\<lambda>c. ascii_alnum c \<or> c \<in> set ''*?_.-'') s)"

definition reason :: "string \<Rightarrow> bool" where
  "reason s = text_between 1 4096 s"

definition actor :: "string \<Rightarrow> bool" where
  "actor s = (text_between 1 128 s \<and> ascii_alnum (hd s) \<and> list_all (\<lambda>c. ascii_alnum c \<or> c \<in> set ''_.:@-'') (tl s))"

definition PermissionRule :: "permission_rule \<Rightarrow> permission_rule res" where
  "PermissionRule r =
     bindE (check (identifier_text (pr_id r)) ''id'') (\<lambda>_.
     bindE (check (rule_pattern (pr_tool_pattern r)) ''tool_pattern'') (\<lambda>_.
     bindE (check (-10000 \<le> pr_priority r \<and> pr_priority r \<le> 10000) ''priority'') (\<lambda>_.
     bindE (check (reason (pr_reason r)) ''reason'') (\<lambda>_. Inr r))))"

text \<open>\<open>fnmatchcase\<close> on the patterns a rule may have: the wildcards are \<open>*\<close> and \<open>?\<close>.\<close>

fun fnmatch :: "string \<Rightarrow> string \<Rightarrow> bool" where
  "fnmatch [] s = (s = [])"
| "fnmatch (p # ps) [] = (p = CHR ''*'' \<and> fnmatch ps [])"
| "fnmatch (p # ps) (c # cs) =
     (if p = CHR ''*'' then fnmatch ps (c # cs) \<or> fnmatch (p # ps) cs
      else (p = CHR ''?'' \<or> p = c) \<and> fnmatch ps cs)"

definition rule_matches :: "permission_rule \<Rightarrow> tool_call \<Rightarrow> bool" where
  "rule_matches r call = (fnmatch (pr_tool_pattern r) (tc_name call) \<and>
     list_all (\<lambda>(k, expected). case dict_get (tc_arguments call) k of None \<Rightarrow> False | Some v \<Rightarrow> py_eq v expected)
       (pr_argument_equals r))"

section \<open>Decisions\<close>

record permission_decision =
  pd_id :: string
  pd_session_id :: string
  pd_correlation_id :: string
  pd_tool_call_id :: string
  pd_tool_name :: string
  pd_arguments_sha256 :: string
  pd_outcome :: permission_outcome
  pd_source :: decision_source
  pd_rule_id :: "string option"
  pd_decided_by :: string
  pd_reason :: string
  pd_resolved_from :: "string option"
  pd_created_at :: py_datetime

text \<open>The fields that the callers cannot get wrong (those of a call and the digest) are not checked again.\<close>

definition PermissionDecision :: "permission_decision \<Rightarrow> permission_decision res" where
  "PermissionDecision d =
     bindE (check (actor (pd_decided_by d)) ''decided_by'') (\<lambda>_.
     bindE (check (reason (pd_reason d)) ''reason'') (\<lambda>_.
     bindE (check (has_timezone (pd_created_at d)) ''created_at must include a UTC offset'') (\<lambda>_.
     bindE (check (\<not> (pd_source d = PolicySource \<and> pd_rule_id d = None)) ''policy decisions require a rule_id'') (\<lambda>_.
     bindE (check (\<not> (pd_source d = UserSource \<and> pd_resolved_from d = None)) ''user decisions must resolve an ask decision'') (\<lambda>_.
     bindE (check (\<not> (pd_source d \<noteq> UserSource \<and> pd_resolved_from d \<noteq> None)) ''only user decisions may have resolved_from'') (\<lambda>_.
     Inr d))))))"

definition arguments_digest :: "(string \<Rightarrow> string) \<Rightarrow> tool_call \<Rightarrow> string res" where
  "arguments_digest sha256 call = (case canonical (JObj (tc_arguments call)) of
     None \<Rightarrow> Inl (ValueError ''Out of range float values are not JSON compliant'')
   | Some bytes \<Rightarrow> Inr (sha256 bytes))"

record permission_policy =
  pp_rules :: "permission_rule list"
  pp_default :: permission_outcome

definition PermissionPolicy :: "permission_rule list \<Rightarrow> permission_outcome \<Rightarrow> permission_policy res" where
  "PermissionPolicy rules outcome =
     bindE (check (length rules \<le> 10000) ''permission policy exceeds the rule limit'') (\<lambda>_.
     bindE (check (distinct (map pr_id rules)) ''permission rule IDs must be unique'') (\<lambda>_.
     Inr \<lparr>pp_rules = rules, pp_default = outcome\<rparr>))"

definition rule_key :: "permission_rule \<Rightarrow> rule_rank" where
  "rule_key r = RuleKey (pr_priority r) (pr_effect r) (pr_id r)"

text \<open>\<open>min(matching, key=...)\<close>: the first of the smallest.\<close>

definition min_by :: "('a \<Rightarrow> 'k::linorder) \<Rightarrow> 'a \<Rightarrow> 'a list \<Rightarrow> 'a" where
  "min_by key x xs = foldl (\<lambda>best y. if key y < key best then y else best) x xs"

definition outcome_value :: "permission_outcome \<Rightarrow> string" where
  "outcome_value x = (case x of Allow \<Rightarrow> ''allow'' | Deny \<Rightarrow> ''deny'' | Ask \<Rightarrow> ''ask'')"

definition decide ::
  "(string \<Rightarrow> string) \<Rightarrow> string \<Rightarrow> py_datetime \<Rightarrow> permission_policy \<Rightarrow> tool_call \<Rightarrow> string \<Rightarrow> string \<Rightarrow> permission_decision res" where
  "decide sha256 fresh now p call sid cid =
     bindE (arguments_digest sha256 call) (\<lambda>digest.
     let d = \<lparr>pd_id = fresh, pd_session_id = sid, pd_correlation_id = cid, pd_tool_call_id = tc_id call,
              pd_tool_name = tc_name call, pd_arguments_sha256 = digest, pd_outcome = pp_default p, pd_source = DefaultSource,
              pd_rule_id = None, pd_decided_by = ''default-policy'',
              pd_reason = ''no matching rule; default is '' @ outcome_value (pp_default p),
              pd_resolved_from = None, pd_created_at = now\<rparr>
     in (case filter (\<lambda>r. rule_matches r call) (pp_rules p) of
           [] \<Rightarrow> PermissionDecision d
         | r0 # rs \<Rightarrow>
             (let r = min_by rule_key r0 rs
              in PermissionDecision (d\<lparr>pd_outcome := pr_effect r, pd_source := PolicySource, pd_rule_id := Some (pr_id r),
                   pd_decided_by := ''policy'', pd_reason := pr_reason r\<rparr>))))"

definition resolve_ask ::
  "string \<Rightarrow> py_datetime \<Rightarrow> permission_decision \<Rightarrow> permission_outcome \<Rightarrow> string \<Rightarrow> string \<Rightarrow> permission_decision res" where
  "resolve_ask fresh now d outcome decided_by why =
     bindE (check (pd_outcome d = Ask) ''only ask decisions can be resolved'') (\<lambda>_.
     bindE (check (outcome \<in> {Allow, Deny}) ''an ask decision must resolve to allow or deny'') (\<lambda>_.
     PermissionDecision (d\<lparr>pd_id := fresh, pd_outcome := outcome, pd_source := UserSource, pd_decided_by := decided_by,
       pd_reason := why, pd_resolved_from := Some (pd_id d), pd_created_at := now\<rparr>)))"

text \<open>\<open>PermissionError\<close> is \<open>Inl (Refused message)\<close>.\<close>

datatype refusal = Refused string | Failed_with py_exc

definition refuse_unless :: "bool \<Rightarrow> string \<Rightarrow> refusal + unit" where
  "refuse_unless ok message = (if ok then Inr () else Inl (Refused message))"

definition as_refusal :: "'a res \<Rightarrow> refusal + 'a" where
  "as_refusal r = (case r of Inl e \<Rightarrow> Inl (Failed_with e) | Inr x \<Rightarrow> Inr x)"

definition require_allowed ::
  "(string \<Rightarrow> string) \<Rightarrow> tool_call \<Rightarrow> permission_decision \<Rightarrow> string \<Rightarrow> string \<Rightarrow> refusal + unit" where
  "require_allowed sha256 call d sid cid =
     bindE (refuse_unless (pd_outcome d = Allow) ''tool call does not have an allow decision'') (\<lambda>_.
     bindE (as_refusal (arguments_digest sha256 call)) (\<lambda>digest.
     refuse_unless ((pd_session_id d, pd_correlation_id d, pd_tool_call_id d, pd_tool_name d, pd_arguments_sha256 d)
         = (sid, cid, tc_id call, tc_name call, digest)) ''allow decision does not match the tool call context''))"

section \<open>The choice of a rule\<close>

lemma min_by_Cons: "min_by key x (y # ys) = min_by key (if key y < key x then y else x) ys"
  by (simp add: min_by_def)

lemma min_by_least: "min_by key x xs \<in> set (x # xs) \<and> (\<forall>y \<in> set (x # xs). key (min_by key x xs) \<le> key y)"
proof (induction xs arbitrary: x)
  case (Cons z zs)
  show ?case using Cons.IH[of "if key z < key x then z else x"] unfolding min_by_Cons by (auto split: if_splits)
qed (simp add: min_by_def)

lemma rule_key_priority: "rule_key r \<le> rule_key r' \<Longrightarrow> pr_priority r' \<le> pr_priority r"
  by (auto simp: rule_key_def less_eq_rule_rank_def less_rule_rank_def)

lemma rule_key_effect: "rule_key r \<le> rule_key r' \<Longrightarrow> pr_priority r' = pr_priority r \<Longrightarrow> pr_effect r' \<le> pr_effect r"
  by (auto simp: rule_key_def less_eq_rule_rank_def less_rule_rank_def)

definition policy_ok :: "permission_policy \<Rightarrow> bool" where
  "policy_ok p = distinct (map pr_id (pp_rules p))"

lemma PermissionPolicy_ok: "PermissionPolicy rules x = Inr p \<Longrightarrow> policy_ok p \<and> pp_rules p = rules \<and> pp_default p = x"
  by (auto simp: PermissionPolicy_def policy_ok_def res_simps)

definition matching :: "permission_policy \<Rightarrow> tool_call \<Rightarrow> permission_rule list" where
  "matching p call = filter (\<lambda>r. rule_matches r call) (pp_rules p)"

text \<open>The matching rules of the highest priority.\<close>

definition top_rules :: "permission_policy \<Rightarrow> tool_call \<Rightarrow> permission_rule set" where
  "top_rules p call = {r \<in> set (matching p call). \<forall>r' \<in> set (matching p call). pr_priority r' \<le> pr_priority r}"

lemma chosen_rule:
  assumes "matching p call = r0 # rs"
  shows "min_by rule_key r0 rs \<in> top_rules p call \<and> (\<forall>r \<in> top_rules p call. pr_effect r \<le> pr_effect (min_by rule_key r0 rs))"
proof -
  let ?r = "min_by rule_key r0 rs"
  have m: "?r \<in> set (matching p call)" "\<And>r. r \<in> set (matching p call) \<Longrightarrow> rule_key ?r \<le> rule_key r"
    using min_by_least[of rule_key r0 rs] unfolding assms by blast+
  then have top: "?r \<in> top_rules p call" using rule_key_priority by (auto simp: top_rules_def)
  moreover have "pr_effect r \<le> pr_effect ?r" if "r \<in> top_rules p call" for r
  proof (rule rule_key_effect)
    show "rule_key ?r \<le> rule_key r" using m(2) that by (simp add: top_rules_def)
    show "pr_priority r = pr_priority ?r" using that top by (auto simp: top_rules_def intro: antisym)
  qed
  ultimately show ?thesis by blast
qed

lemma PermissionDecision_Inr: "PermissionDecision d = Inr d' \<Longrightarrow> d' = d"
  by (auto simp: PermissionDecision_def res_simps)

lemma decide_cases:
  assumes "decide sha256 fresh now p call sid cid = Inr d"
  shows "pd_session_id d = sid \<and> pd_correlation_id d = cid \<and> pd_tool_call_id d = tc_id call \<and> pd_tool_name d = tc_name call \<and>
    arguments_digest sha256 call = Inr (pd_arguments_sha256 d) \<and>
    (matching p call = [] \<and> pd_outcome d = pp_default p \<and> pd_rule_id d = None \<or>
     (\<exists>r0 rs. matching p call = r0 # rs \<and> pd_outcome d = pr_effect (min_by rule_key r0 rs) \<and>
        pd_rule_id d = Some (pr_id (min_by rule_key r0 rs))))"
  using assms unfolding decide_def matching_def[symmetric]
  by (cases "matching p call") (auto simp: res_simps Let_def dest!: PermissionDecision_Inr)

text \<open>
  C4: the outcome of a decision is the most restrictive effect (deny before ask before allow) among
  the matching rules of the highest priority, so a call is allowed by rule only if every one of them
  allows it, and the default where no rule matches; with unique rule identifiers it does not depend
  on the order in which the rules are given.
\<close>

theorem decision_most_restrictive:
  assumes "decide sha256 fresh now p call sid cid = Inr d"
  shows "(if matching p call = [] then pd_outcome d = pp_default p
     else pd_outcome d \<in> pr_effect ` top_rules p call \<and> (\<forall>r \<in> top_rules p call. pr_effect r \<le> pd_outcome d)) \<and>
   (pd_outcome d = Allow \<longrightarrow> matching p call = [] \<and> pp_default p = Allow \<or> (\<forall>r \<in> top_rules p call. pr_effect r = Allow)) \<and>
   (\<forall>q. mset (pp_rules q) = mset (pp_rules p) \<and> pp_default q = pp_default p \<longrightarrow>
     (\<forall>e. decide sha256 fresh now q call sid cid = Inr e \<longrightarrow> pd_outcome e = pd_outcome d))"
proof -
  have outcome: "if matching q call = [] then pd_outcome e = pp_default q
     else pd_outcome e \<in> pr_effect ` top_rules q call \<and> (\<forall>r \<in> top_rules q call. pr_effect r \<le> pd_outcome e)"
    if "decide sha256 fresh now q call sid cid = Inr e" for q e
    using decide_cases[OF that] chosen_rule[of q call] by auto
  have same: "pd_outcome e = pd_outcome d"
    if q: "mset (pp_rules q) = mset (pp_rules p)" "pp_default q = pp_default p"
      and e: "decide sha256 fresh now q call sid cid = Inr e" for q e
  proof -
    have m: "set (matching q call) = set (matching p call)" using mset_eq_setD[OF q(1)] by (auto simp: matching_def)
    then have "top_rules q call = top_rules p call" "matching q call = [] \<longleftrightarrow> matching p call = []"
      by (simp_all add: top_rules_def flip: set_empty2)
    then show ?thesis using outcome[OF e] outcome[OF assms] q(2) by (auto split: if_splits intro: antisym)
  qed
  have "matching p call = [] \<and> pp_default p = Allow \<or> (\<forall>r \<in> top_rules p call. pr_effect r = Allow)" if "pd_outcome d = Allow"
    using outcome[OF assms] that by (auto split: if_splits)
  then show ?thesis using outcome[OF assms] same by blast
qed

section \<open>A decision is for one call\<close>

definition arguments_wf :: "tool_call \<Rightarrow> bool" where
  "arguments_wf c = wf_json (JObj (tc_arguments c))"

abbreviation same_arguments :: "tool_call \<Rightarrow> tool_call \<Rightarrow> bool" where
  "same_arguments c c' \<equiv> same_json (JObj (tc_arguments c)) (JObj (tc_arguments c'))"

abbreviation arguments_clash :: "(string \<Rightarrow> string) \<Rightarrow> tool_call \<Rightarrow> tool_call \<Rightarrow> bool" where
  "arguments_clash sha256 c c' \<equiv> json_clash sha256 (JObj (tc_arguments c)) (JObj (tc_arguments c'))"

lemma same_digest:
  assumes "arguments_digest sha256 c = Inr h" "arguments_digest sha256 c' = Inr h" "arguments_wf c" "arguments_wf c'"
  shows "same_arguments c c' \<or> arguments_clash sha256 c c'"
proof -
  obtain x y where "canonical (JObj (tc_arguments c)) = Some x" "canonical (JObj (tc_arguments c')) = Some y" "sha256 x = sha256 y"
    using assms(1,2) by (auto simp: arguments_digest_def split: option.splits)
  then show ?thesis using same_hash_same_json assms(3,4) by (auto simp: arguments_wf_def)
qed

lemma require_allowed_Inr:
  "require_allowed sha256 call d sid cid = Inr () \<Longrightarrow> pd_outcome d = Allow \<and> pd_session_id d = sid \<and>
     pd_correlation_id d = cid \<and> pd_tool_call_id d = tc_id call \<and> pd_tool_name d = tc_name call \<and>
     arguments_digest sha256 call = Inr (pd_arguments_sha256 d)"
  by (auto simp: require_allowed_def refuse_unless_def as_refusal_def res_simps split: if_splits sum.splits)

text \<open>
  C5: a decision of the policy on one call, resolved by the user or not, lets a call run only if that
  is the same call in the same context: same session, correlation, identifier and tool, and the same
  arguments up to the order of keys, unless the canonical bytes of just these two arguments differ and have the same
  SHA-256. No decision that denies or asks lets anything run.
\<close>

theorem allow_binds_call:
  assumes "decide sha256 fresh now p call sid cid = Inr d"
    and "d' = d \<or> resolve_ask fresh' now' d outcome who why = Inr d'"
    and "require_allowed sha256 call' d' sid' cid' = Inr ()"
    and "arguments_wf call" "arguments_wf call'"
  shows "pd_outcome d' = Allow \<and> (pd_outcome d = Allow \<or> pd_outcome d = Ask \<and> outcome = Allow) \<and>
    sid' = sid \<and> cid' = cid \<and> tc_id call' = tc_id call \<and> tc_name call' = tc_name call \<and>
    (same_arguments call call' \<or> arguments_clash sha256 call call')"
proof -
  have kept: "pd_session_id d' = pd_session_id d \<and> pd_correlation_id d' = pd_correlation_id d \<and>
      pd_tool_call_id d' = pd_tool_call_id d \<and> pd_tool_name d' = pd_tool_name d \<and>
      pd_arguments_sha256 d' = pd_arguments_sha256 d \<and>
      (pd_outcome d' = pd_outcome d \<or> pd_outcome d = Ask \<and> pd_outcome d' = outcome)"
    using assms(2) by (auto simp: resolve_ask_def res_simps dest!: PermissionDecision_Inr)
  note r = require_allowed_Inr[OF assms(3)] and d = decide_cases[OF assms(1)]
  have "same_arguments call call' \<or> arguments_clash sha256 call call'"
    by (rule same_digest[OF _ _ assms(4,5)]) (use r d kept in auto)
  then show ?thesis using r d kept by auto
qed

section \<open>Witnesses\<close>

definition demo_tool_call :: tool_call where
  "demo_tool_call = \<lparr>tc_id = ''c1'', tc_name = ''fs.read'', tc_arguments = [(''path'', JStr ''a'')]\<rparr>"

definition demo_policy :: permission_policy where
  "demo_policy = \<lparr>pp_rules =
     [\<lparr>pr_id = ''r1'', pr_effect = Allow, pr_tool_pattern = ''fs.*'', pr_argument_equals = [], pr_priority = 0, pr_reason = ''ok''\<rparr>,
      \<lparr>pr_id = ''r2'', pr_effect = Ask, pr_tool_pattern = ''*'', pr_argument_equals = [(''path'', JStr ''a'')], pr_priority = 0,
       pr_reason = ''look''\<rparr>], pp_default = Deny\<rparr>"

definition noon :: py_datetime where
  "noon = \<lparr>dt_instant = 0, dt_offset = Some 0\<rparr>"

lemma demo_matching: "matching demo_policy demo_tool_call = pp_rules demo_policy"
  by code_simp

lemma demo_arguments: "arguments_wf demo_tool_call" "canonical (JObj (tc_arguments demo_tool_call)) \<noteq> None"
  by (simp_all add: arguments_wf_def demo_tool_call_def canonical_def)

lemma demo_decision:
  "\<exists>d. decide id ''u1'' noon demo_policy demo_tool_call ''s'' ''k'' = Inr d \<and> pd_outcome d = Ask \<and> pd_id d = ''u1'' \<and>
     has_timezone (pd_created_at d)"
proof -
  obtain bytes where b: "canonical (JObj (tc_arguments demo_tool_call)) = Some bytes" using demo_arguments by blast
  have m: "filter (\<lambda>r. rule_matches r demo_tool_call) (pp_rules demo_policy) = pp_rules demo_policy"
    using demo_matching unfolding matching_def .
  have a: "actor ''policy''" "reason ''look''" by code_simp+
  show ?thesis
    unfolding decide_def arguments_digest_def b m
    by (simp add: demo_policy_def min_by_def rule_key_def less_rule_rank_def less_permission_outcome_def
        PermissionDecision_def a noon_def has_timezone_def)
qed

theorem decision_most_restrictive_witness:
  "\<exists>d. decide id ''u1'' noon demo_policy demo_tool_call ''s'' ''k'' = Inr d \<and> pd_outcome d = Ask \<and>
     pd_outcome d \<in> pr_effect ` top_rules demo_policy demo_tool_call"
proof -
  obtain d where d: "decide id ''u1'' noon demo_policy demo_tool_call ''s'' ''k'' = Inr d" "pd_outcome d = Ask"
    using demo_decision by blast
  have "matching demo_policy demo_tool_call \<noteq> []" by (simp add: demo_matching) (simp add: demo_policy_def)
  then show ?thesis using decision_most_restrictive[OF d(1)] d by auto
qed

theorem allow_binds_call_witness:
  "\<exists>d d'. decide id ''u1'' noon demo_policy demo_tool_call ''s'' ''k'' = Inr d \<and>
     resolve_ask ''u2'' noon d Allow ''alice'' ''fine'' = Inr d' \<and>
     require_allowed id demo_tool_call d' ''s'' ''k'' = Inr () \<and> pd_outcome d' = Allow"
proof -
  obtain d where d: "decide id ''u1'' noon demo_policy demo_tool_call ''s'' ''k'' = Inr d" "pd_outcome d = Ask"
    using demo_decision by blast
  have a: "actor ''alice''" "reason ''fine''" by code_simp+
  obtain d' where r: "resolve_ask ''u2'' noon d Allow ''alice'' ''fine'' = Inr d'"
    by (simp add: resolve_ask_def PermissionDecision_def d(2) a noon_def has_timezone_def)
  have "require_allowed id demo_tool_call d' ''s'' ''k'' = Inr ()"
    using decide_cases[OF d(1)] r
    by (auto simp: require_allowed_def resolve_ask_def refuse_unless_def as_refusal_def res_simps dest!: PermissionDecision_Inr)
  then show ?thesis using allow_binds_call[OF d(1) disjI2[OF r] _ demo_arguments(1) demo_arguments(1)] d r by blast
qed

end
