(* ===== verification/Plans.thy ===== *)
theory Plans
  imports Permissions
begin

text \<open>
  Plan mode (\<open>zeaz_agent/plan.py\<close>): planned actions, plans and their digest, approvals, and the check
  that a mutating call needs both an allow decision and an exact action of an approved plan. The text
  of a timestamp in the plan's JSON is a parameter.
\<close>

section \<open>Plans and approvals\<close>

record planned_action =
  pa_tool_call_id :: string
  pa_tool_name :: string
  pa_arguments_sha256 :: string

definition action_from_call :: "(string \<Rightarrow> string) \<Rightarrow> tool_call \<Rightarrow> planned_action res" where
  "action_from_call sha256 call = bindE (arguments_digest sha256 call) (\<lambda>digest.
     Inr \<lparr>pa_tool_call_id = tc_id call, pa_tool_name = tc_name call, pa_arguments_sha256 = digest\<rparr>)"

definition action_matches :: "(string \<Rightarrow> string) \<Rightarrow> planned_action \<Rightarrow> tool_call \<Rightarrow> bool res" where
  "action_matches sha256 a call =
     (if pa_tool_call_id a \<noteq> tc_id call then Inr False
      else if pa_tool_name a \<noteq> tc_name call then Inr False
      else bindE (arguments_digest sha256 call) (\<lambda>digest. Inr (pa_arguments_sha256 a = digest)))"

record plan_step =
  ps_id :: string
  ps_description :: string
  ps_action :: "planned_action option"

record plan =
  pl_id :: string
  pl_session_id :: string
  pl_summary :: string
  pl_steps :: "plan_step list"
  pl_created_at :: py_datetime

definition Plan :: "plan \<Rightarrow> plan res" where
  "Plan p =
     bindE (check (text_between 1 1000000 (pl_summary p)) ''summary'') (\<lambda>_.
     bindE (check (1 \<le> length (pl_steps p) \<and> length (pl_steps p) \<le> 256) ''steps'') (\<lambda>_.
     bindE (check (list_all (\<lambda>s. identifier_text (ps_id s) \<and> text_between 1 1000000 (ps_description s)) (pl_steps p)) ''steps'') (\<lambda>_.
     bindE (check (has_timezone (pl_created_at p)) ''created_at must include a UTC offset'') (\<lambda>_.
     bindE (check (distinct (map ps_id (pl_steps p))) ''plan step IDs must be unique'') (\<lambda>_. Inr p)))))"

record plan_approval =
  ap_id :: string
  ap_plan_id :: string
  ap_session_id :: string
  ap_plan_sha256 :: string
  ap_approved_by :: string
  ap_reason :: string
  ap_created_at :: py_datetime

definition PlanApproval :: "plan_approval \<Rightarrow> plan_approval res" where
  "PlanApproval a =
     bindE (check (actor (ap_approved_by a)) ''approved_by'') (\<lambda>_.
     bindE (check (reason (ap_reason a)) ''reason'') (\<lambda>_.
     bindE (check (has_timezone (ap_created_at a)) ''created_at must include a UTC offset'') (\<lambda>_. Inr a)))"

text \<open>\<open>model_dump(mode="json")\<close>.\<close>

definition action_json :: "planned_action option \<Rightarrow> json" where
  "action_json x = (case x of None \<Rightarrow> JNull
   | Some a \<Rightarrow> JObj [(''tool_call_id'', JStr (pa_tool_call_id a)), (''tool_name'', JStr (pa_tool_name a)),
       (''arguments_sha256'', JStr (pa_arguments_sha256 a))])"

definition step_json :: "plan_step \<Rightarrow> json" where
  "step_json s = JObj [(''id'', JStr (ps_id s)), (''description'', JStr (ps_description s)), (''action'', action_json (ps_action s))]"

definition plan_json :: "(py_datetime \<Rightarrow> string) \<Rightarrow> plan \<Rightarrow> json" where
  "plan_json isotime p = JObj [(''schema_version'', JStr ''1''), (''id'', JStr (pl_id p)), (''session_id'', JStr (pl_session_id p)),
     (''summary'', JStr (pl_summary p)), (''steps'', JArr (map step_json (pl_steps p))),
     (''created_at'', JStr (isotime (pl_created_at p)))]"

text \<open>A plan holds no float, so its canonical form exists.\<close>

definition plan_bytes :: "(py_datetime \<Rightarrow> string) \<Rightarrow> plan \<Rightarrow> string" where
  "plan_bytes isotime p = utf8_encode (json_raw (sort_json (plan_json isotime p)))"

definition plan_digest :: "(string \<Rightarrow> string) \<Rightarrow> (py_datetime \<Rightarrow> string) \<Rightarrow> plan \<Rightarrow> string" where
  "plan_digest sha256 isotime p = sha256 (plan_bytes isotime p)"

definition approve_plan ::
  "(string \<Rightarrow> string) \<Rightarrow> (py_datetime \<Rightarrow> string) \<Rightarrow> string \<Rightarrow> py_datetime \<Rightarrow> plan \<Rightarrow> string \<Rightarrow> string \<Rightarrow> plan_approval res" where
  "approve_plan sha256 isotime fresh now p approved_by why =
     PlanApproval \<lparr>ap_id = fresh, ap_plan_id = pl_id p, ap_session_id = pl_session_id p,
       ap_plan_sha256 = plan_digest sha256 isotime p, ap_approved_by = approved_by, ap_reason = why, ap_created_at = now\<rparr>"

section \<open>Plan mode\<close>

definition set_plan_mode :: "py_datetime \<Rightarrow> session \<Rightarrow> bool \<Rightarrow> session res" where
  "set_plan_mode now s enabled =
     bindE (check (ss_status s = Active) ''only active sessions can change execution mode'') (\<lambda>_.
     let mode = if enabled then PlanMode else NormalMode
     in if ss_execution_mode s = mode then Inr s
        else Session (s\<lparr>ss_revision := ss_revision s + 1, ss_execution_mode := mode, ss_updated_at := now\<rparr>))"

definition is_mutating :: "tool_call \<Rightarrow> tool_definition list \<Rightarrow> bool res" where
  "is_mutating call definitions =
     (case filter (\<lambda>d. td_name d = tc_name call) definitions of
        [] \<Rightarrow> Inr True
      | [d] \<Rightarrow> Inr (td_mutating d)
      | _ \<Rightarrow> Inl (ValueError ''tool definition names must be unique''))"

text \<open>\<open>any(...)\<close> over the steps stops at the first that matches.\<close>

fun any_action_matches :: "(string \<Rightarrow> string) \<Rightarrow> plan_step list \<Rightarrow> tool_call \<Rightarrow> bool res" where
  "any_action_matches sha256 [] call = Inr False"
| "any_action_matches sha256 (s # steps) call =
     (case ps_action s of
        None \<Rightarrow> any_action_matches sha256 steps call
      | Some a \<Rightarrow> bindE (action_matches sha256 a call) (\<lambda>b. if b then Inr True else any_action_matches sha256 steps call))"

definition require_plan_allows ::
  "(string \<Rightarrow> string) \<Rightarrow> (py_datetime \<Rightarrow> string) \<Rightarrow> session \<Rightarrow> tool_call \<Rightarrow> tool_definition list \<Rightarrow> plan option
     \<Rightarrow> plan_approval option \<Rightarrow> refusal + unit" where
  "require_plan_allows sha256 isotime s call definitions p approval =
     (if ss_execution_mode s \<noteq> PlanMode then Inr ()
      else bindE (as_refusal (is_mutating call definitions)) (\<lambda>mutating.
        if \<not> mutating then Inr ()
        else (case (p, approval) of
            (Some p, Some a) \<Rightarrow>
              bindE (refuse_unless (\<not> (pl_session_id p \<noteq> ss_id s \<or>
                  (ap_plan_id a, ap_session_id a, ap_plan_sha256 a) \<noteq> (pl_id p, ss_id s, plan_digest sha256 isotime p)))
                ''plan approval does not match the session and exact plan'') (\<lambda>_.
              bindE (as_refusal (any_action_matches sha256 (pl_steps p) call)) (\<lambda>b.
              refuse_unless b ''mutating tool call is not an exact action in the approved plan''))
          | _ \<Rightarrow> Inl (Refused ''plan mode blocks mutation until a plan is approved''))))"

definition require_execution_allowed ::
  "(string \<Rightarrow> string) \<Rightarrow> (py_datetime \<Rightarrow> string) \<Rightarrow> session \<Rightarrow> tool_call \<Rightarrow> permission_decision \<Rightarrow> tool_definition list \<Rightarrow> string
     \<Rightarrow> plan option \<Rightarrow> plan_approval option \<Rightarrow> refusal + unit" where
  "require_execution_allowed sha256 isotime s call d definitions cid p approval =
     bindE (require_allowed sha256 call d (ss_id s) cid) (\<lambda>_.
     require_plan_allows sha256 isotime s call definitions p approval)"

section \<open>The digest of a plan\<close>

lemma map_of_sort_key: "distinct (map fst kvs) \<Longrightarrow> map_of (sort_key fst kvs) = map_of kvs"
  by (intro map_of_inject_set[THEN iffD2]) (auto simp: distinct_map intro!: inj_onI dest: inj_onD)

lemma same_json_get:
  assumes "same_json (JObj kvs) (JObj kws)" "distinct (map fst kvs)" "distinct (map fst kws)"
  shows "map_option sort_json (dict_get kvs k) = map_option sort_json (dict_get kws k)"
proof -
  have get: "map_of (sort_key fst (map (\<lambda>kv. (fst kv, sort_json (snd kv))) d)) j = map_option sort_json (dict_get d j)"
    if "distinct (map fst d)" for d :: "json dict" and j
  proof -
    have m: "map fst (map (\<lambda>kv. (fst kv, sort_json (snd kv))) d) = map fst d" by simp
    have "map_of (sort_key fst (map (\<lambda>kv. (fst kv, sort_json (snd kv))) d)) = map_of (map (\<lambda>kv. (fst kv, sort_json (snd kv))) d)"
      by (rule map_of_sort_key) (use that in \<open>simp only: m\<close>)
    moreover have "map_of (map (\<lambda>kv. (fst kv, sort_json (snd kv))) d) j = map_option sort_json (map_of d j)"
      by (induction d) auto
    ultimately show ?thesis by (simp add: dict_get_def)
  qed
  show ?thesis using assms(1) get[OF assms(2), of k] get[OF assms(3), of k] by (simp add: same_json_def)
qed

lemma action_json_plain: "wf_json (action_json x)" "\<not> has_nan (action_json x)"
  by (cases x; simp add: action_json_def)+

lemma step_json_plain: "wf_json (step_json s)" "\<not> has_nan (step_json s)"
  by (simp_all add: step_json_def action_json_plain)

lemma plan_json_plain: "wf_json (plan_json isotime p)" "\<not> has_nan (plan_json isotime p)"
  by (simp_all add: plan_json_def step_json_plain list_all_iff list_ex_iff)

lemma same_action: "sort_json (action_json x) = sort_json (action_json y) \<Longrightarrow> x = y"
proof -
  assume "sort_json (action_json x) = sort_json (action_json y)"
  then have s: "same_json (action_json x) (action_json y)" by (simp add: same_json_def)
  show ?thesis
  proof (cases "x = None \<or> y = None")
    case True
    then show ?thesis using s by (cases x; cases y) (simp_all add: action_json_def same_json_def)
  next
    case False
    then obtain a b where xy: "x = Some a" "y = Some b" by auto
    note get = same_json_get[OF s[unfolded xy action_json_def option.case]]
    have "a = b" using get[of "''tool_call_id''"] get[of "''tool_name''"] get[of "''arguments_sha256''"]
      by (simp add: dict_get_def)
    then show ?thesis by (simp add: xy)
  qed
qed

lemma same_step: "sort_json (step_json s) = sort_json (step_json t) \<Longrightarrow> s = t"
proof -
  assume "sort_json (step_json s) = sort_json (step_json t)"
  then have "same_json (step_json s) (step_json t)" by (simp add: same_json_def)
  note get = same_json_get[OF this[unfolded step_json_def]]
  have "ps_id s = ps_id t" "ps_description s = ps_description t"
    "sort_json (action_json (ps_action s)) = sort_json (action_json (ps_action t))"
    using get[of "''id''"] get[of "''description''"] get[of "''action''"] by (simp_all add: dict_get_def)
  then show ?thesis using same_action by simp
qed

definition same_plan :: "plan \<Rightarrow> plan \<Rightarrow> bool" where
  "same_plan p q = (pl_id p = pl_id q \<and> pl_session_id p = pl_session_id q \<and> pl_summary p = pl_summary q \<and> pl_steps p = pl_steps q)"

lemma same_plan_digest:
  assumes "plan_digest sha256 isotime p = plan_digest sha256 isotime q"
  shows "same_plan p q \<or> hash_clash sha256 (plan_bytes isotime p) (plan_bytes isotime q)"
proof (cases "json_raw (sort_json (plan_json isotime p)) = json_raw (sort_json (plan_json isotime q))")
  case True
  then have "same_json (plan_json isotime p) (plan_json isotime q)"
    using json_raw_inject[OF wf_sort_json wf_sort_json, OF plan_json_plain(1) plan_json_plain(1)] by (simp add: same_json_def)
  note get = same_json_get[OF this[unfolded plan_json_def]]
  have "pl_id p = pl_id q" "pl_session_id p = pl_session_id q" "pl_summary p = pl_summary q"
    "map (\<lambda>s. sort_json (step_json s)) (pl_steps p) = map (\<lambda>s. sort_json (step_json s)) (pl_steps q)"
    using get[of "''id''"] get[of "''session_id''"] get[of "''summary''"] get[of "''steps''"]
    by (simp_all add: dict_get_def o_def)
  then have "same_plan p q"
    using same_step by (simp add: same_plan_def list_eq_iff_nth_eq)
  then show ?thesis ..
next
  case False
  then have "utf8_encode (json_raw (sort_json (plan_json isotime p))) \<noteq> utf8_encode (json_raw (sort_json (plan_json isotime q)))"
    by (simp add: utf8_inject)
  then show ?thesis using assms by (simp add: plan_digest_def hash_clash_def plan_bytes_def)
qed

section \<open>What plan mode lets run\<close>

lemma any_action:
  "any_action_matches sha256 steps call = Inr True \<Longrightarrow>
     \<exists>s \<in> set steps. \<exists>a. ps_action s = Some a \<and> action_matches sha256 a call = Inr True"
  by (induction steps) (auto simp: res_simps split: option.splits if_splits)

lemma action_matches_digest: "action_matches sha256 a call = Inr True \<Longrightarrow> pa_tool_call_id a = tc_id call \<and>
    pa_tool_name a = tc_name call \<and> arguments_digest sha256 call = Inr (pa_arguments_sha256 a)"
  by (auto simp: action_matches_def res_simps split: if_splits)

lemma as_refusal_Inr [res_simps]: "as_refusal r = Inr x \<longleftrightarrow> r = Inr x"
  by (auto simp: as_refusal_def split: sum.splits)

lemma refuse_unless_Inr [res_simps]: "refuse_unless ok m = Inr u \<longleftrightarrow> ok"
  by (simp add: refuse_unless_def)

lemma plan_allows_Inr:
  assumes "require_plan_allows sha256 isotime s call definitions p approval = Inr ()"
    and "ss_execution_mode s = PlanMode" "is_mutating call definitions \<noteq> Inr False"
  shows "\<exists>q a. p = Some q \<and> approval = Some a \<and> pl_session_id q = ss_id s \<and>
    (ap_plan_id a, ap_session_id a, ap_plan_sha256 a) = (pl_id q, ss_id s, plan_digest sha256 isotime q) \<and>
    any_action_matches sha256 (pl_steps q) call = Inr True"
  using assms by (auto simp: require_plan_allows_def res_simps split: if_splits option.splits)

text \<open>The action has the digest of this call, and whatever call it was made from has these arguments.\<close>

definition action_is_call :: "(string \<Rightarrow> string) \<Rightarrow> planned_action \<Rightarrow> tool_call \<Rightarrow> bool" where
  "action_is_call sha256 act call = (pa_tool_call_id act = tc_id call \<and> pa_tool_name act = tc_name call \<and>
     arguments_digest sha256 call = Inr (pa_arguments_sha256 act) \<and>
     (\<forall>c. arguments_wf c \<and> action_from_call sha256 c = Inr act \<longrightarrow>
        tc_id c = tc_id call \<and> tc_name c = tc_name call \<and> (same_arguments c call \<or> arguments_clash sha256 c call)))"

lemma matching_action:
  assumes "action_matches sha256 act call = Inr True" "arguments_wf call"
  shows "action_is_call sha256 act call"
proof -
  note m = action_matches_digest[OF assms(1)]
  have "same_arguments c call \<or> arguments_clash sha256 c call" if "arguments_wf c" "action_from_call sha256 c = Inr act" for c
  proof -
    have "arguments_digest sha256 c = Inr (pa_arguments_sha256 act)" using that(2) by (auto simp: action_from_call_def res_simps)
    then show ?thesis using same_digest[OF _ _ that(1) assms(2)] m by blast
  qed
  then show ?thesis using m by (auto simp: action_is_call_def action_from_call_def res_simps)
qed

text \<open>
  C6: in plan mode a call of a tool that is not known to be read-only runs only with a permission that allows it in this
  session and only if the plan at hand bears the identifier and the session of the one that was approved, and has an
  action with the identifier, the tool and the digest of the arguments of this call. The plan at hand is the approved
  one in its summary and all its steps, unless the hashed texts of just these two plans differ and have the same SHA-256; the
  arguments are those of any call that the action was made from, up to the order of keys, unless the canonical bytes of just these two
  arguments differ and have the same SHA-256.
\<close>

theorem plan_mode_runs_approved_actions:
  assumes "require_execution_allowed sha256 isotime s call d definitions cid p (Some a) = Inr ()"
    and "ss_execution_mode s = PlanMode" "is_mutating call definitions \<noteq> Inr False"
    and "approve_plan sha256 isotime fresh now approved who why = Inr a" "arguments_wf call"
  shows "pd_outcome d = Allow \<and> pd_session_id d = ss_id s \<and> pd_tool_call_id d = tc_id call \<and> pd_tool_name d = tc_name call \<and>
    (\<exists>q. p = Some q \<and> pl_id q = pl_id approved \<and> pl_session_id q = ss_id s \<and> pl_session_id approved = ss_id s \<and>
       (same_plan approved q \<or> hash_clash sha256 (plan_bytes isotime approved) (plan_bytes isotime q)) \<and>
       (\<exists>st \<in> set (pl_steps q). \<exists>act. ps_action st = Some act \<and> action_is_call sha256 act call))"
proof -
  have r: "require_allowed sha256 call d (ss_id s) cid = Inr ()"
    "require_plan_allows sha256 isotime s call definitions p (Some a) = Inr ()"
    using assms(1) by (auto simp: require_execution_allowed_def res_simps)
  obtain q where q: "p = Some q" "pl_session_id q = ss_id s" "ap_plan_id a = pl_id q" "ap_session_id a = ss_id s"
      "ap_plan_sha256 a = plan_digest sha256 isotime q" "any_action_matches sha256 (pl_steps q) call = Inr True"
    using plan_allows_Inr[OF r(2) assms(2,3)] by auto
  have a: "ap_plan_sha256 a = plan_digest sha256 isotime approved" "ap_plan_id a = pl_id approved" "ap_session_id a = pl_session_id approved"
    using assms(4) by (auto simp: approve_plan_def PlanApproval_def res_simps)
  obtain st act where act: "st \<in> set (pl_steps q)" "ps_action st = Some act" "action_matches sha256 act call = Inr True"
    using any_action[OF q(6)] by blast
  have "action_is_call sha256 act call" by (rule matching_action[OF act(3) assms(5)])
  then show ?thesis using same_plan_digest[of sha256 isotime approved q] require_allowed_Inr[OF r(1)] q a act(1,2) by auto
qed

definition plan_session :: session where
  "plan_session = \<lparr>ss_id = ''s'', ss_revision = 0, ss_status = Active, ss_execution_mode = PlanMode,
     ss_token_budget = \<lparr>max_context_tokens = 1000, max_output_tokens = 100, max_total_tokens = 10000\<rparr>,
     ss_token_usage = \<lparr>input_tokens = 0, output_tokens = 0\<rparr>, ss_turns = [], ss_created_at = noon, ss_updated_at = noon\<rparr>"

theorem plan_mode_runs_approved_actions_witness:
  "\<exists>p a d. approve_plan id (\<lambda>_. []) ''ap'' noon p ''alice'' ''fine'' = Inr a \<and>
     require_execution_allowed id (\<lambda>_. []) plan_session demo_tool_call d [] ''k'' (Some p) (Some a) = Inr () \<and>
     (\<exists>st \<in> set (pl_steps p). \<exists>act. ps_action st = Some act \<and> action_is_call id act demo_tool_call) \<and> pd_outcome d = Allow"
proof -
  obtain h where h: "arguments_digest id demo_tool_call = Inr h"
    using demo_arguments(2) by (auto simp: arguments_digest_def split: option.splits)
  define act where "act = \<lparr>pa_tool_call_id = ''c1'', pa_tool_name = ''fs.read'', pa_arguments_sha256 = h\<rparr>"
  define p where "p = \<lparr>pl_id = ''p'', pl_session_id = ''s'', pl_summary = ''read'',
    pl_steps = [\<lparr>ps_id = ''1'', ps_description = ''read'', ps_action = Some act\<rparr>], pl_created_at = noon\<rparr>"
  define d where "d = \<lparr>pd_id = ''u'', pd_session_id = ''s'', pd_correlation_id = ''k'', pd_tool_call_id = ''c1'',
    pd_tool_name = ''fs.read'', pd_arguments_sha256 = h, pd_outcome = Allow, pd_source = PolicySource, pd_rule_id = Some ''r1'',
    pd_decided_by = ''policy'', pd_reason = ''ok'', pd_resolved_from = None, pd_created_at = noon\<rparr>"
  have ac: "actor ''alice''" "reason ''fine''" by code_simp+
  obtain a where a: "approve_plan id (\<lambda>_. []) ''ap'' noon p ''alice'' ''fine'' = Inr a"
    by (simp add: approve_plan_def PlanApproval_def ac noon_def has_timezone_def)
  have c: "tc_id demo_tool_call = ''c1''" "tc_name demo_tool_call = ''fs.read''" by (simp_all add: demo_tool_call_def)
  have "require_allowed id demo_tool_call d ''s'' ''k'' = Inr ()"
    by (simp add: require_allowed_def refuse_unless_def as_refusal_def h d_def c)
  moreover have "require_plan_allows id (\<lambda>_. []) plan_session demo_tool_call [] (Some p) (Some a) = Inr ()"
    using a by (auto simp: require_plan_allows_def plan_session_def is_mutating_def as_refusal_def refuse_unless_def p_def
        approve_plan_def PlanApproval_def res_simps action_matches_def c act_def h)
  ultimately have run: "require_execution_allowed id (\<lambda>_. []) plan_session demo_tool_call d [] ''k'' (Some p) (Some a) = Inr ()"
    by (simp add: require_execution_allowed_def plan_session_def)
  have mode: "ss_execution_mode plan_session = PlanMode" "is_mutating demo_tool_call [] \<noteq> Inr False"
    by (simp_all add: plan_session_def is_mutating_def)
  show ?thesis using plan_mode_runs_approved_actions[OF run mode a demo_arguments(1)] a run by blast
qed

end
