(* ===== verification/AgentLoop.thy ===== *)
theory AgentLoop
  imports Plans
begin

text \<open>
  The agent's state machine (\<open>zeaz_agent/loop.py\<close>) and the projection of its history into a context
  window (\<open>zeaz_agent/context.py\<close>). The token counter, the model client, UUIDs, the clock, SHA-256,
  \<open>uuid5\<close> and the JSON that Pydantic writes for a turn are parameters. The audit sink is the list of the
  events that reached it; that appending to it may fail is not modelled here (see \<open>AuditLedger\<close>).
\<close>

section \<open>Compaction\<close>

definition role_value :: "agent_role \<Rightarrow> string" where
  "role_value r = (case r of SystemRole \<Rightarrow> ''system'' | UserRole \<Rightarrow> ''user'' | AssistantRole \<Rightarrow> ''assistant'' | ToolRole \<Rightarrow> ''tool'')"

definition block_excerpt :: "content_block \<Rightarrow> string" where
  "block_excerpt b = (case b of
     TextBlock s \<Rightarrow> s
   | ImageBlock src _ \<Rightarrow> ''[image '' @ is_media_type src @ '']''
   | ToolCallBlock c \<Rightarrow> ''[tool call '' @ tc_name c @ '' id='' @ tc_id c @ '']''
   | ToolResultBlock r \<Rightarrow> ''[tool result id='' @ tr_tool_call_id r @ '' '' @
       (if tr_is_error r then ''error'' else ''completed'') @ '']'')"

definition turn_excerpt :: "turn \<Rightarrow> string" where
  "turn_excerpt t = py_join '' '' (map block_excerpt (tn_content t))"

text \<open>The lines of the summary after the first: \<open>remaining\<close> characters may still be used.\<close>

fun summary_lines :: "int \<Rightarrow> turn list \<Rightarrow> string list" where
  "summary_lines remaining [] = []"
| "summary_lines remaining (t # ts) =
     (if remaining \<le> 0 then []
      else (let line = take (nat remaining) (role_value (tn_role t) @ '': '' @ turn_excerpt t)
            in line # summary_lines (remaining - (int (length line) + 1)) ts))"

record context_env =
  ce_sha256 :: "string \<Rightarrow> string"
  ce_uuid5 :: "string \<Rightarrow> string \<Rightarrow> string"
  ce_dump :: "turn \<Rightarrow> string"
  ce_count :: "turn list \<Rightarrow> tool_definition list \<Rightarrow> nat"

definition summary_text :: "context_env \<Rightarrow> int \<Rightarrow> turn list \<Rightarrow> string" where
  "summary_text env max_chars omitted =
     (let first = ''[Deterministic context summary: '' @ nat_str (length omitted) @ '' earlier turns; sha256='' @
            ce_sha256 env (py_join [newline] (map (ce_dump env) omitted)) @ '']''
      in py_join [newline] (first # summary_lines (max_chars - int (length first) - 1) omitted))"

definition summary_turn :: "context_env \<Rightarrow> int \<Rightarrow> turn list \<Rightarrow> turn" where
  "summary_turn env max_chars omitted =
     (let digest = ce_sha256 env (py_join [newline] (map (ce_dump env) omitted));
          namespace = tn_session_id (hd omitted)
      in \<lparr>tn_id = ce_uuid5 env namespace (''context-summary:'' @ digest), tn_session_id = namespace,
          tn_correlation_id = ce_uuid5 env namespace (''context-correlation:'' @ digest),
          tn_sequence = tn_sequence (last omitted), tn_role = SystemRole, tn_status = TurnCompleted,
          tn_content = [TextBlock (summary_text env max_chars omitted)], tn_created_at = tn_created_at (last omitted)\<rparr>)"

record compaction_result =
  cr_turns :: "turn list"
  cr_estimated_tokens :: nat
  cr_omitted_turns :: nat

datatype agent_error = ContextLimitExceeded | TokenBudgetExceeded string | RuntimeError string | Invalid py_exc
  | ClientFailed

text \<open>The inner loop: the results that answer a turn just omitted are omitted with it.\<close>

fun drop_results :: "nat \<Rightarrow> turn list \<Rightarrow> turn list \<Rightarrow> turn list \<times> turn list" where
  "drop_results minimum omitted [] = (omitted, [])"
| "drop_results minimum omitted (t # ts) =
     (if tn_role t = ToolRole \<and> length (t # ts) > minimum then drop_results minimum (omitted @ [t]) ts
      else (omitted, t # ts))"

lemma drop_results_split: "drop_results minimum omitted ts = (om, rest) \<Longrightarrow>
    \<exists>dropped. ts = dropped @ rest \<and> om = omitted @ dropped \<and> (dropped = [] \<or> minimum \<le> length rest)"
  by (induction minimum omitted ts rule: drop_results.induct) (fastforce split: if_splits)+

lemma drop_results_length: "(om, rest) = drop_results minimum omitted ts \<Longrightarrow> length rest \<le> length ts"
  using drop_results_split[of minimum omitted ts om rest] by auto

function compact_from ::
  "context_env \<Rightarrow> int \<Rightarrow> tool_definition list \<Rightarrow> nat \<Rightarrow> nat \<Rightarrow> turn list \<Rightarrow> turn list \<Rightarrow> turn list
     \<Rightarrow> agent_error + compaction_result" where
  "compact_from env max_chars tools limit minimum leading omitted removable =
     (if length removable > minimum then
        (case drop_results minimum (omitted @ [hd removable]) (tl removable) of (om, rest) \<Rightarrow>
           (let projected = leading @ [summary_turn env max_chars om] @ rest;
                estimate = ce_count env projected tools
            in if estimate \<le> limit
               then Inr \<lparr>cr_turns = projected, cr_estimated_tokens = estimate, cr_omitted_turns = length om\<rparr>
               else compact_from env max_chars tools limit minimum leading om rest))
      else Inl ContextLimitExceeded)"
  by pat_completeness auto
termination
  apply (relation "measure (\<lambda>(_, _, _, _, _, _, _, removable). length removable)")
   apply simp
  apply simp
  apply (drule drop_results_length)
  apply (case_tac removable; force split: prod.split dest: drop_results_length[OF sym])
  done

declare compact_from.simps [simp del]

definition compact ::
  "context_env \<Rightarrow> nat \<Rightarrow> int \<Rightarrow> turn list \<Rightarrow> tool_definition list \<Rightarrow> int \<Rightarrow> agent_error + compaction_result" where
  "compact env min_recent max_chars turns tools token_limit =
     (if token_limit < 1 then Inl ContextLimitExceeded
      else
        (let estimate = ce_count env turns tools
         in if int estimate \<le> token_limit
            then Inr \<lparr>cr_turns = turns, cr_estimated_tokens = estimate, cr_omitted_turns = 0\<rparr>
            else
              (let leading = takeWhile (\<lambda>t. tn_role t = SystemRole) turns; removable = drop (length leading) turns
               in compact_from env max_chars tools (nat token_limit) (min min_recent (length removable)) leading [] removable)))"

section \<open>The loop\<close>

record audit_record =
  ar_session_id :: string
  ar_correlation_id :: string
  ar_event_type :: string
  ar_subject_id :: "string option"
  ar_details :: "json dict"

text \<open>What the operations change besides the session: how many UUIDs and clock readings were used, and the audit.\<close>

record agent_world =
  aw_uuids :: nat
  aw_ticks :: nat
  aw_events :: "audit_record list"

record agent_env =
  ae_uuid :: "nat \<Rightarrow> string"
  ae_clock :: "nat \<Rightarrow> py_datetime"
  ae_context :: context_env
  ae_respond :: "turn list \<Rightarrow> tool_definition list \<Rightarrow> int \<Rightarrow> string \<Rightarrow> model_output option"

record loop_config =
  lc_model :: string
  lc_max_output_tokens :: int
  lc_max_turns :: nat
  lc_min_recent_turns :: nat
  lc_max_summary_chars :: int

type_synonym 'a step = "agent_world \<Rightarrow> (agent_error + 'a) \<times> agent_world"

definition return_step :: "agent_error + 'a \<Rightarrow> 'a step" where
  "return_step r w = (r, w)"

definition bind_step :: "'a step \<Rightarrow> ('a \<Rightarrow> 'b step) \<Rightarrow> 'b step" where
  "bind_step m f w = (case m w of (Inl e, w') \<Rightarrow> (Inl e, w') | (Inr x, w') \<Rightarrow> f x w')"

definition require :: "bool \<Rightarrow> agent_error \<Rightarrow> unit step" where
  "require ok e = return_step (if ok then Inr () else Inl e)"

definition valid :: "'a res \<Rightarrow> 'a step" where
  "valid r = return_step (case r of Inl e \<Rightarrow> Inl (Invalid e) | Inr x \<Rightarrow> Inr x)"

definition fresh_uuid :: "agent_env \<Rightarrow> string step" where
  "fresh_uuid env w = (Inr (ae_uuid env (aw_uuids w)), w\<lparr>aw_uuids := aw_uuids w + 1\<rparr>)"

definition read_clock :: "agent_env \<Rightarrow> py_datetime step" where
  "read_clock env w = (Inr (ae_clock env (aw_ticks w)), w\<lparr>aw_ticks := aw_ticks w + 1\<rparr>)"

definition emit :: "session \<Rightarrow> string \<Rightarrow> string \<Rightarrow> string option \<Rightarrow> json dict \<Rightarrow> unit step" where
  "emit s cid event_type subject details w =
     (Inr (), w\<lparr>aw_events := aw_events w @ [\<lparr>ar_session_id = ss_id s, ar_correlation_id = cid, ar_event_type = event_type,
        ar_subject_id = subject, ar_details = details\<rparr>]\<rparr>)"

definition next_sequence :: "session \<Rightarrow> int" where
  "next_sequence s = (if ss_turns s = [] then 0 else tn_sequence (last (ss_turns s)) + 1)"

definition pending_calls :: "session \<Rightarrow> tool_call list" where
  "pending_calls s = (if ss_turns s = [] \<or> tn_role (last (ss_turns s)) \<noteq> AssistantRole then []
     else List.map_filter (\<lambda>b. case b of ToolCallBlock c \<Rightarrow> Some c | _ \<Rightarrow> None) (tn_content (last (ss_turns s))))"

definition append_turn :: "agent_env \<Rightarrow> session \<Rightarrow> turn \<Rightarrow> nat \<Rightarrow> token_usage \<Rightarrow> session step" where
  "append_turn env s t maximum added =
     bind_step (require (length (ss_turns s) < maximum) (RuntimeError ''session turn limit exceeded'')) (\<lambda>_.
     bind_step (valid (usage_plus (ss_token_usage s) added)) (\<lambda>usage.
     bind_step (read_clock env) (\<lambda>now.
     valid (Session (s\<lparr>ss_revision := ss_revision s + 1, ss_token_usage := usage, ss_turns := ss_turns s @ [t],
       ss_updated_at := now\<rparr>)))))"

definition new_turn :: "agent_env \<Rightarrow> session \<Rightarrow> string option \<Rightarrow> agent_role \<Rightarrow> content_block list \<Rightarrow> turn step" where
  "new_turn env s correlation role content =
     bind_step (fresh_uuid env) (\<lambda>i.
     bind_step (case correlation of Some c \<Rightarrow> return_step (Inr c) | None \<Rightarrow> fresh_uuid env) (\<lambda>cid.
     bind_step (read_clock env) (\<lambda>now.
     valid (Turn \<lparr>tn_id = i, tn_session_id = ss_id s, tn_correlation_id = cid, tn_sequence = next_sequence s, tn_role = role,
       tn_status = TurnCompleted, tn_content = content, tn_created_at = now\<rparr>))))"

definition validate_usage :: "token_usage \<Rightarrow> session \<Rightarrow> int \<Rightarrow> unit step" where
  "validate_usage u s output_limit =
     (let remaining = max_total_tokens (ss_token_budget s) - total_tokens (ss_token_usage s)
      in bind_step (require (\<not> input_tokens u > max_context_tokens (ss_token_budget s))
           (TokenBudgetExceeded ''provider reported input usage above the context limit'')) (\<lambda>_.
         bind_step (require (\<not> output_tokens u > output_limit)
           (TokenBudgetExceeded ''provider reported output usage above the requested limit'')) (\<lambda>_.
         require (\<not> total_tokens u > remaining)
           (TokenBudgetExceeded ''provider reported usage above the remaining session budget''))))"

datatype run_status = RunCompleted | RequiresAction

record run_result =
  rr_status :: run_status
  rr_session :: session
  rr_pending_tool_calls :: "tool_call list"

definition block_call :: "content_block \<Rightarrow> tool_call option" where
  "block_call b = (case b of ToolCallBlock c \<Rightarrow> Some c | _ \<Rightarrow> None)"

text \<open>\<open>except: emit; raise\<close>.\<close>

definition on_error :: "'a step \<Rightarrow> unit step \<Rightarrow> 'a step" where
  "on_error m handler w = (case m w of (Inl e, w') \<Rightarrow> (Inl e, snd (handler w')) | (Inr x, w') \<Rightarrow> (Inr x, w'))"

definition infer :: "agent_env \<Rightarrow> loop_config \<Rightarrow> session \<Rightarrow> tool_definition list \<Rightarrow> run_result step" where
  "infer env cfg s tools =
     bind_step (fresh_uuid env) (\<lambda>cid.
     let remaining = max_total_tokens (ss_token_budget s) - total_tokens (ss_token_usage s)
     in bind_step (require (remaining > 1) (TokenBudgetExceeded ''session token budget is exhausted'')) (\<lambda>_.
     let input_limit = min (max_context_tokens (ss_token_budget s)) (remaining - 1)
     in bind_step (return_step (case compact (ae_context env) (lc_min_recent_turns cfg) (lc_max_summary_chars cfg) (ss_turns s) tools
           input_limit of
         Inl ContextLimitExceeded \<Rightarrow> Inl (TokenBudgetExceeded ''session context cannot fit the remaining budget'') | r \<Rightarrow> r)) (\<lambda>context.
     let output_limit = min (lc_max_output_tokens cfg)
           (min (max_output_tokens (ss_token_budget s)) (remaining - int (cr_estimated_tokens context)))
     in bind_step (require (output_limit \<ge> 1) (TokenBudgetExceeded ''no output-token budget remains'')) (\<lambda>_.
     bind_step (if cr_omitted_turns context \<noteq> 0 then
         emit s cid ''context.compacted'' None [(''omitted_turns'', JInt (int (cr_omitted_turns context))),
           (''projected_turns'', JInt (int (length (cr_turns context)))),
           (''estimated_input_tokens'', JInt (int (cr_estimated_tokens context)))]
       else return_step (Inr ())) (\<lambda>_.
     bind_step (emit s cid ''model.requested'' None [(''model'', JStr (lc_model cfg)),
         (''turn_count'', JInt (int (length (cr_turns context)))), (''max_output_tokens'', JInt output_limit)]) (\<lambda>_.
     bind_step (on_error (return_step (case ae_respond env (cr_turns context) tools output_limit cid of
         None \<Rightarrow> Inl ClientFailed | Some out \<Rightarrow> Inr out)) (emit s cid ''model.failed'' None [])) (\<lambda>out.
     bind_step (on_error (validate_usage (mo_usage out) s output_limit) (emit s cid ''model.failed'' None [])) (\<lambda>_.
     bind_step (new_turn env s (Some cid) AssistantRole (mo_blocks out)) (\<lambda>assistant.
     bind_step (append_turn env s assistant (lc_max_turns cfg) (mo_usage out)) (\<lambda>updated.
     let calls = List.map_filter block_call (mo_blocks out)
     in bind_step (emit updated cid ''model.completed'' (Some (tn_id assistant))
         [(''block_count'', JInt (int (length (mo_blocks out)))), (''tool_call_count'', JInt (int (length calls))),
          (''input_tokens'', JInt (input_tokens (mo_usage out))), (''output_tokens'', JInt (output_tokens (mo_usage out)))]) (\<lambda>_.
     return_step (Inr \<lparr>rr_status = (if calls \<noteq> [] then RequiresAction else RunCompleted), rr_session = updated,
       rr_pending_tool_calls = calls\<rparr>))))))))))))"

definition no_usage :: token_usage where
  "no_usage = \<lparr>input_tokens = 0, output_tokens = 0\<rparr>"

definition start ::
  "agent_env \<Rightarrow> loop_config \<Rightarrow> session \<Rightarrow> content_block list \<Rightarrow> tool_definition list \<Rightarrow> string option \<Rightarrow> run_result step" where
  "start env cfg s content tools correlation =
     bind_step (require (ss_status s = Active) (Invalid (ValueError ''only active sessions can be advanced''))) (\<lambda>_.
     bind_step (require (content \<noteq> []) (Invalid (ValueError ''user content cannot be empty''))) (\<lambda>_.
     bind_step (require (\<not> list_ex (\<lambda>b. is_call b \<or> is_result b) content)
       (Invalid (ValueError ''user input cannot inject tool calls or tool results''))) (\<lambda>_.
     bind_step (require (\<not> length (ss_turns s) + 2 > lc_max_turns cfg) (RuntimeError ''session turn limit exceeded'')) (\<lambda>_.
     bind_step (new_turn env s correlation UserRole content) (\<lambda>t.
     bind_step (append_turn env s t (lc_max_turns cfg) no_usage) (\<lambda>updated.
     bind_step (emit updated (tn_correlation_id t) ''turn.user_appended'' (Some (tn_id t))
         [(''sequence'', JInt (tn_sequence t)), (''block_count'', JInt (int (length (tn_content t))))]) (\<lambda>_.
     infer env cfg updated tools)))))))"

definition resume ::
  "agent_env \<Rightarrow> loop_config \<Rightarrow> session \<Rightarrow> tool_result list \<Rightarrow> tool_definition list \<Rightarrow> string option \<Rightarrow> run_result step" where
  "resume env cfg s results tools correlation =
     (let expected = pending_calls s; result_ids = map tr_tool_call_id results
      in bind_step (require (expected \<noteq> []) (Invalid (ValueError ''session has no pending tool calls''))) (\<lambda>_.
         bind_step (require (\<not> (length result_ids \<noteq> length (remdups result_ids) \<or> set result_ids \<noteq> tc_id ` set expected))
           (Invalid (ValueError ''tool results must match every pending call exactly once''))) (\<lambda>_.
         bind_step (require (\<not> length (ss_turns s) + 2 > lc_max_turns cfg) (RuntimeError ''session turn limit exceeded'')) (\<lambda>_.
         bind_step (new_turn env s correlation ToolRole (map ToolResultBlock results)) (\<lambda>t.
         bind_step (append_turn env s t (lc_max_turns cfg) no_usage) (\<lambda>updated.
         bind_step (emit updated (tn_correlation_id t) ''turn.tool_results_appended'' (Some (tn_id t))
             [(''sequence'', JInt (tn_sequence t)), (''result_count'', JInt (int (length results)))]) (\<lambda>_.
         infer env cfg updated tools)))))))"

section \<open>What a context keeps\<close>

lemma compact_from_spec:
  "compact_from env mc tools limit minimum leading om rm = Inr r \<Longrightarrow>
     \<exists>dropped rest. rm = dropped @ rest \<and> dropped \<noteq> [] \<and> minimum \<le> length rest \<and>
       cr_turns r = leading @ [summary_turn env mc (om @ dropped)] @ rest \<and>
       cr_estimated_tokens r = ce_count env (cr_turns r) tools \<and> cr_estimated_tokens r \<le> limit \<and>
       cr_omitted_turns r = length (om @ dropped)"
proof (induction env mc tools limit minimum leading om rm rule: compact_from.induct)
  case (1 env mc tools limit minimum leading om rm)
  have long: "length rm > minimum" using "1.prems" by (simp add: compact_from.simps split: if_splits)
  then obtain t ts where rm: "rm = t # ts" by (cases rm) auto
  obtain om' rest where d: "drop_results minimum (om @ [t]) ts = (om', rest)" by force
  obtain dropped where split: "ts = dropped @ rest" "om' = (om @ [t]) @ dropped" "dropped = [] \<or> minimum \<le> length rest"
    using drop_results_split[OF d] by blast
  have len: "minimum \<le> length rest" using split(1,3) long rm by auto
  have run: "compact_from env mc tools limit minimum leading om rm =
      (if ce_count env (leading @ [summary_turn env mc om'] @ rest) tools \<le> limit
       then Inr \<lparr>cr_turns = leading @ [summary_turn env mc om'] @ rest,
           cr_estimated_tokens = ce_count env (leading @ [summary_turn env mc om'] @ rest) tools, cr_omitted_turns = length om'\<rparr>
       else compact_from env mc tools limit minimum leading om' rest)"
    unfolding compact_from.simps[of env mc tools limit minimum leading om rm] using long by (simp add: rm d Let_def)
  show ?case
  proof (cases "ce_count env (leading @ [summary_turn env mc om'] @ rest) tools \<le> limit")
    case True
    then have "r = \<lparr>cr_turns = leading @ [summary_turn env mc om'] @ rest,
        cr_estimated_tokens = ce_count env (leading @ [summary_turn env mc om'] @ rest) tools, cr_omitted_turns = length om'\<rparr>"
      using run "1.prems" by simp
    then show ?thesis using split len rm True by (intro exI[of _ "t # dropped"] exI[of _ rest]) simp
  next
    case False
    then have "compact_from env mc tools limit minimum leading om' rest = Inr r" using run "1.prems" by simp
    have "(om', rest) = drop_results minimum (om @ [hd rm]) (tl rm)" using d rm by simp
    from "1.IH"[OF long this refl refl False \<open>compact_from env mc tools limit minimum leading om' rest = Inr r\<close>] obtain dr rs where
      r: "rest = dr @ rs" "dr \<noteq> []" "minimum \<le> length rs" "cr_turns r = leading @ [summary_turn env mc (om' @ dr)] @ rs"
        "cr_estimated_tokens r = ce_count env (cr_turns r) tools" "cr_estimated_tokens r \<le> limit"
        "cr_omitted_turns r = length (om' @ dr)"
      by auto
    show ?thesis using r split(1,2) rm by (intro exI[of _ "t # dropped @ dr"] exI[of _ rs]) simp
  qed
qed

lemma compact_from_fails:
  "compact_from env mc tools limit minimum leading om rm = Inl e \<Longrightarrow> e = ContextLimitExceeded \<and>
     (minimum < length rm \<longrightarrow> limit < ce_count env (leading @ [summary_turn env mc (om @ take (length rm - minimum) rm)]
        @ drop (length rm - minimum) rm) tools)"
proof (induction env mc tools limit minimum leading om rm rule: compact_from.induct)
  case (1 env mc tools limit minimum leading om rm)
  show ?case
  proof (cases "length rm > minimum")
    case False
    then show ?thesis using "1.prems" by (simp add: compact_from.simps)
  next
    case long: True
    then obtain t ts where rm: "rm = t # ts" by (cases rm) auto
    obtain om' rest where d: "drop_results minimum (om @ [t]) ts = (om', rest)" by force
    obtain dropped where split: "ts = dropped @ rest" "om' = (om @ [t]) @ dropped" "dropped = [] \<or> minimum \<le> length rest"
      using drop_results_split[OF d] by blast
    have len: "minimum \<le> length rest" using split(1,3) long rm by auto
    have run: "compact_from env mc tools limit minimum leading om rm =
        (if ce_count env (leading @ [summary_turn env mc om'] @ rest) tools \<le> limit
         then Inr \<lparr>cr_turns = leading @ [summary_turn env mc om'] @ rest,
             cr_estimated_tokens = ce_count env (leading @ [summary_turn env mc om'] @ rest) tools, cr_omitted_turns = length om'\<rparr>
         else compact_from env mc tools limit minimum leading om' rest)"
      unfolding compact_from.simps[of env mc tools limit minimum leading om rm] using long by (simp add: rm d Let_def)
    have over: "\<not> ce_count env (leading @ [summary_turn env mc om'] @ rest) tools \<le> limit"
      and next_run: "compact_from env mc tools limit minimum leading om' rest = Inl e"
      using run "1.prems" by (auto split: if_splits)
    have "(om', rest) = drop_results minimum (om @ [hd rm]) (tl rm)" using d rm by simp
    from "1.IH"[OF long this refl refl over next_run]
    have ih: "e = ContextLimitExceeded" "minimum < length rest \<longrightarrow> limit < ce_count env (leading @
        [summary_turn env mc (om' @ take (length rest - minimum) rest)] @ drop (length rest - minimum) rest) tools"
      by auto
    have eq: "om @ take (length rm - minimum) rm = om' @ take (length rest - minimum) rest \<and>
        drop (length rm - minimum) rm = drop (length rest - minimum) rest"
      using len by (simp add: rm split(1,2) Suc_diff_le)
    show ?thesis
    proof (cases "minimum < length rest")
      case True
      then show ?thesis using ih eq by simp
    next
      case False
      then have "length rest = minimum" using len by simp
      then show ?thesis using ih(1) eq over by simp
    qed
  qed
qed

definition leading_system :: "turn list \<Rightarrow> turn list" where
  "leading_system ts = takeWhile (\<lambda>t. tn_role t = SystemRole) ts"

text \<open>
  A context that is built fits the limit and holds either all turns or the leading system turns,
  one summary of the omitted ones and an unbroken run of the most recent turns, never fewer than the
  configured number; it is refused only when even the shortest such context does not fit. The loop
  ends for every history.
\<close>

theorem compaction_keeps_recent:
  "case compact env min_recent max_chars turns tools token_limit of
     Inr r \<Rightarrow> int (cr_estimated_tokens r) \<le> token_limit \<and> cr_estimated_tokens r = ce_count env (cr_turns r) tools \<and>
       (cr_omitted_turns r = 0 \<and> cr_turns r = turns \<or>
        (\<exists>omitted recent. turns = leading_system turns @ omitted @ recent \<and> omitted \<noteq> [] \<and> cr_omitted_turns r = length omitted \<and>
           cr_turns r = leading_system turns @ [summary_turn env max_chars omitted] @ recent \<and> min_recent \<le> length recent))
   | Inl e \<Rightarrow> e = ContextLimitExceeded \<and> (token_limit < 1 \<or> token_limit < int (ce_count env turns tools) \<and>
       (\<exists>omitted recent. turns = leading_system turns @ omitted @ recent \<and>
          (length recent \<le> min_recent) \<and>
          (omitted = [] \<or> token_limit < int (ce_count env (leading_system turns @ [summary_turn env max_chars omitted] @ recent) tools))))"
proof -
  define rm where "rm = drop (length (leading_system turns)) turns"
  have turns: "turns = leading_system turns @ rm"
    unfolding rm_def leading_system_def by (metis takeWhile_eq_take append_take_drop_id)
  define run where "run = compact_from env max_chars tools (nat token_limit) (min min_recent (length rm)) (leading_system turns) [] rm"
  have c: "compact env min_recent max_chars turns tools token_limit =
      (if token_limit < 1 then Inl ContextLimitExceeded
       else if int (ce_count env turns tools) \<le> token_limit
            then Inr \<lparr>cr_turns = turns, cr_estimated_tokens = ce_count env turns tools, cr_omitted_turns = 0\<rparr> else run)"
    by (simp add: compact_def Let_def run_def rm_def leading_system_def)
  consider (small) "token_limit < 1" | (fits) "1 \<le> token_limit" "int (ce_count env turns tools) \<le> token_limit"
    | (loop) "1 \<le> token_limit" "token_limit < int (ce_count env turns tools)" by linarith
  then show ?thesis
  proof cases
    case loop
    then have c: "compact env min_recent max_chars turns tools token_limit = run" using c by simp
    show ?thesis
    proof (cases run)
      case (Inr r)
      from compact_from_spec[OF Inr[unfolded run_def]] obtain dropped rest where
        r: "rm = dropped @ rest" "dropped \<noteq> []" "min min_recent (length rm) \<le> length rest"
          "cr_turns r = leading_system turns @ [summary_turn env max_chars dropped] @ rest"
          "cr_estimated_tokens r = ce_count env (cr_turns r) tools" "cr_estimated_tokens r \<le> nat token_limit"
          "cr_omitted_turns r = length dropped" by auto
      have "length rest < length rm" using r(1,2) by (cases dropped) auto
      then have "min_recent \<le> length rest" using r(3) by linarith
      moreover have "turns = leading_system turns @ dropped @ rest" using turns r(1) by simp
      moreover have "int (cr_estimated_tokens r) \<le> token_limit" using r(6) loop(1) by linarith
      ultimately show ?thesis using r(2,4,5,7) unfolding c Inr sum.case by blast
    next
      case (Inl e)
      note f = compact_from_fails[OF Inl[unfolded run_def], unfolded append_Nil]
      let ?m = "min min_recent (length rm)"
      have split: "turns = leading_system turns @ take (length rm - ?m) rm @ drop (length rm - ?m) rm" using turns by simp
      have "length (drop (length rm - ?m) rm) \<le> min_recent" by simp
      moreover have "take (length rm - ?m) rm = [] \<or> token_limit < int (ce_count env (leading_system turns @
          [summary_turn env max_chars (take (length rm - ?m) rm)] @ drop (length rm - ?m) rm) tools)"
        using f loop(1) by (cases "?m < length rm") auto
      ultimately show ?thesis using f split loop unfolding c Inl sum.case by blast
    qed
  qed (simp_all add: c)
qed

section \<open>What a run does\<close>

named_theorems step_simps \<open>inversion of computations that returned\<close>

lemma bind_step_Inr [step_simps]: "bind_step m f w = (Inr y, w'') \<longleftrightarrow> (\<exists>x w'. m w = (Inr x, w') \<and> f x w' = (Inr y, w''))"
  by (auto simp: bind_step_def split: prod.splits sum.splits)

lemma return_step_Inr [step_simps]: "return_step r w = (Inr x, w') \<longleftrightarrow> r = Inr x \<and> w' = w"
  by (auto simp: return_step_def)

lemma require_Inr [step_simps]: "require ok e w = (Inr x, w') \<longleftrightarrow> ok \<and> w' = w"
  by (auto simp: require_def return_step_def)

lemma valid_Inr [step_simps]: "valid r w = (Inr x, w') \<longleftrightarrow> r = Inr x \<and> w' = w"
  by (auto simp: valid_def return_step_def split: sum.splits)

lemma on_error_Inr [step_simps]: "on_error m h w = (Inr x, w') \<longleftrightarrow> m w = (Inr x, w')"
  by (auto simp: on_error_def split: prod.splits sum.splits)

lemma emit_Inr [step_simps]: "emit s c t i d w = (Inr x, w') \<longleftrightarrow> w' = snd (emit s c t i d w)"
  by (auto simp: emit_def)

lemma new_turn_spec:
  "new_turn env s c role content w = (Inr t, w') \<Longrightarrow> turn_ok t \<and> tn_session_id t = ss_id s \<and> tn_sequence t = next_sequence s \<and>
     tn_role t = role \<and> tn_content t = content \<and> (\<forall>x. c = Some x \<longrightarrow> tn_correlation_id t = x)"
  unfolding new_turn_def step_simps Turn_ok by (elim exE conjE) (auto split: option.splits simp: step_simps)

lemma append_turn_spec:
  "append_turn env s t n u w = (Inr s', w') \<Longrightarrow> session_ok s' \<and> length (ss_turns s) < n \<and> ss_turns s' = ss_turns s @ [t] \<and>
     ss_id s' = ss_id s \<and> ss_status s' = ss_status s \<and> ss_execution_mode s' = ss_execution_mode s \<and>
     ss_token_budget s' = ss_token_budget s \<and> ss_revision s' = ss_revision s + 1 \<and> ss_created_at s' = ss_created_at s \<and>
     input_tokens (ss_token_usage s') = input_tokens (ss_token_usage s) + input_tokens u \<and>
     output_tokens (ss_token_usage s') = output_tokens (ss_token_usage s) + output_tokens u"
  unfolding append_turn_def step_simps Session_ok usage_plus_def TokenUsage_def res_simps by (elim exE conjE) auto

lemma validate_usage_Inr: "validate_usage u s n w = (Inr x, w') \<Longrightarrow>
    input_tokens u \<le> max_context_tokens (ss_token_budget s) \<and> output_tokens u \<le> n \<and>
    total_tokens (ss_token_usage s) + total_tokens u \<le> max_total_tokens (ss_token_budget s)"
  by (auto simp: validate_usage_def step_simps Let_def)

text \<open>What a model is asked and answers, in terms of the session before and after.\<close>

definition asked ::
  "agent_env \<Rightarrow> loop_config \<Rightarrow> tool_definition list \<Rightarrow> session \<Rightarrow> run_result \<Rightarrow> bool" where
  "asked env cfg tools s r = (\<exists>context limit cid out a.
     ae_respond env (cr_turns context) tools limit cid = Some out \<and>
     compact (ae_context env) (lc_min_recent_turns cfg) (lc_max_summary_chars cfg) (ss_turns s) tools
       (min (max_context_tokens (ss_token_budget s)) (max_total_tokens (ss_token_budget s) - total_tokens (ss_token_usage s) - 1))
       = Inr context \<and>
     1 \<le> limit \<and> limit \<le> lc_max_output_tokens cfg \<and> limit \<le> max_output_tokens (ss_token_budget s) \<and>
     int (cr_estimated_tokens context) + limit \<le> max_total_tokens (ss_token_budget s) - total_tokens (ss_token_usage s) \<and>
     output_tokens (mo_usage out) \<le> limit \<and> input_tokens (mo_usage out) \<le> max_context_tokens (ss_token_budget s) \<and>
     ss_turns (rr_session r) = ss_turns s @ [a] \<and> tn_role a = AssistantRole \<and> tn_content a = mo_blocks out \<and>
     tn_correlation_id a = cid \<and>
     rr_pending_tool_calls r = List.map_filter block_call (mo_blocks out) \<and>
     total_tokens (ss_token_usage (rr_session r)) = total_tokens (ss_token_usage s) + total_tokens (mo_usage out))"

lemma infer_spec:
  assumes "infer env cfg s tools w = (Inr r, w')"
  shows "asked env cfg tools s r \<and> session_ok (rr_session r) \<and> ss_revision (rr_session r) = ss_revision s + 1 \<and>
    ss_id (rr_session r) = ss_id s \<and> ss_status (rr_session r) = ss_status s \<and> ss_token_budget (rr_session r) = ss_token_budget s \<and>
    ss_execution_mode (rr_session r) = ss_execution_mode s \<and>
    (rr_status r = RequiresAction) = (rr_pending_tool_calls r \<noteq> []) \<and> length (ss_turns (rr_session r)) \<le> lc_max_turns cfg"
proof -
  let ?remaining = "max_total_tokens (ss_token_budget s) - total_tokens (ss_token_usage s)"
  obtain cid "context" out a updated w1 w2 w3 w4 w5 w6 w7 where
    ctx: "(case compact (ae_context env) (lc_min_recent_turns cfg) (lc_max_summary_chars cfg) (ss_turns s) tools
        (min (max_context_tokens (ss_token_budget s)) (?remaining - 1)) of
          Inl ContextLimitExceeded \<Rightarrow> Inl (TokenBudgetExceeded ''session context cannot fit the remaining budget'') | x \<Rightarrow> x) = Inr context"
    and limit: "1 \<le> min (lc_max_output_tokens cfg) (min (max_output_tokens (ss_token_budget s)) (?remaining - int (cr_estimated_tokens context)))"
    and out: "(case ae_respond env (cr_turns context) tools (min (lc_max_output_tokens cfg) (min (max_output_tokens (ss_token_budget s))
          (?remaining - int (cr_estimated_tokens context)))) cid of None \<Rightarrow> Inl ClientFailed | Some out \<Rightarrow> Inr out) = Inr out"
    and usage: "validate_usage (mo_usage out) s (min (lc_max_output_tokens cfg) (min (max_output_tokens (ss_token_budget s))
          (?remaining - int (cr_estimated_tokens context)))) w1 = (Inr (), w2)"
    and turn: "new_turn env s (Some cid) AssistantRole (mo_blocks out) w3 = (Inr a, w4)"
    and app: "append_turn env s a (lc_max_turns cfg) (mo_usage out) w5 = (Inr updated, w6)"
    and r: "r = \<lparr>rr_status = (if List.map_filter block_call (mo_blocks out) \<noteq> [] then RequiresAction else RunCompleted),
      rr_session = updated, rr_pending_tool_calls = List.map_filter block_call (mo_blocks out)\<rparr>"
    using assms unfolding infer_def Let_def step_simps by (elim exE conjE) simp
  have compacted: "compact (ae_context env) (lc_min_recent_turns cfg) (lc_max_summary_chars cfg) (ss_turns s) tools
      (min (max_context_tokens (ss_token_budget s)) (?remaining - 1)) = Inr context"
    using ctx by (simp split: sum.splits agent_error.splits)
  have out: "ae_respond env (cr_turns context) tools (min (lc_max_output_tokens cfg) (min (max_output_tokens (ss_token_budget s))
          (?remaining - int (cr_estimated_tokens context)))) cid = Some out"
    using out by (simp split: option.splits)
  note t = new_turn_spec[OF turn] and ap = append_turn_spec[OF app] and u = validate_usage_Inr[OF usage]
  have "asked env cfg tools s r"
    unfolding asked_def
    by (rule exI[of _ "context"], rule exI[of _ "min (lc_max_output_tokens cfg) (min (max_output_tokens (ss_token_budget s))
          (?remaining - int (cr_estimated_tokens context)))"], rule exI[of _ cid], rule exI[of _ out], rule exI[of _ a])
      (use compacted out limit t ap u r in \<open>auto simp: total_tokens_def\<close>)
  then show ?thesis using ap r by auto
qed

lemma pending_after: "asked env cfg tools s r \<Longrightarrow> pending_calls (rr_session r) = rr_pending_tool_calls r"
  by (auto simp: asked_def pending_calls_def block_call_def[abs_def])

text \<open>What both entry points do once their checks have passed.\<close>

definition two_turns :: "agent_env \<Rightarrow> loop_config \<Rightarrow> tool_definition list \<Rightarrow> session \<Rightarrow> agent_role \<Rightarrow> content_block list \<Rightarrow> run_result \<Rightarrow> bool" where
  "two_turns env cfg tools s role content r =
     (session_ok (rr_session r) \<and> ss_revision (rr_session r) = ss_revision s + 2 \<and>
      length (ss_turns (rr_session r)) \<le> lc_max_turns cfg \<and>
      ss_id (rr_session r) = ss_id s \<and> ss_status (rr_session r) = ss_status s \<and>
      ss_token_budget (rr_session r) = ss_token_budget s \<and> ss_execution_mode (rr_session r) = ss_execution_mode s \<and>
      (rr_status r = RequiresAction) = (rr_pending_tool_calls r \<noteq> []) \<and> pending_calls (rr_session r) = rr_pending_tool_calls r \<and>
      (\<exists>mid t. ss_turns mid = ss_turns s @ [t] \<and> turn_ok t \<and> tn_role t = role \<and> tn_content t = content \<and>
         ss_token_usage mid = ss_token_usage s \<and> ss_token_budget mid = ss_token_budget s \<and> asked env cfg tools mid r))"

lemma two_turns_run:
  assumes "new_turn env s c role content w1 = (Inr t, w2)" "append_turn env s t (lc_max_turns cfg) no_usage w2 = (Inr mid, w3)"
    and "infer env cfg mid tools w4 = (Inr r, w5)"
  shows "two_turns env cfg tools s role content r"
proof -
  note t = new_turn_spec[OF assms(1)] and mid = append_turn_spec[OF assms(2)] and r = infer_spec[OF assms(3)]
  have "ss_token_usage mid = ss_token_usage s" using mid by (simp add: no_usage_def token_usage.equality)
  then show ?thesis unfolding two_turns_def using t mid r pending_after by (intro conjI exI[of _ mid] exI[of _ t]) auto
qed

text \<open>
  C12: a run that returns has appended exactly the user's turn and one turn of the model to a history
  that stays valid (sequences strictly increasing, identifiers unique, calls only in the model's turns
  and results only in tool turns); the model was asked with a context that fits, for an output that
  fits the budget with it, and the usage it reported is added and stays within the session's budget.
\<close>

theorem start_extends_session:
  assumes "start env cfg s content tools c w = (Inr r, w')"
  shows "ss_status s = Active \<and> two_turns env cfg tools s UserRole content r"
proof -
  obtain t mid w1 w2 w3 w4 where "ss_status s = Active" "new_turn env s c UserRole content w1 = (Inr t, w2)"
      "append_turn env s t (lc_max_turns cfg) no_usage w2 = (Inr mid, w3)" "infer env cfg mid tools w4 = (Inr r, w')"
    using assms unfolding start_def step_simps by (elim exE conjE) simp
  then show ?thesis using two_turns_run by blast
qed

text \<open>
  A session that waits for tools goes on only with one result for each pending call and none for
  any other, and they are the content of the tool turn that is appended before the model is asked.
\<close>

theorem resume_answers_pending:
  assumes "resume env cfg s results tools c w = (Inr r, w')"
  shows "pending_calls s \<noteq> [] \<and> two_turns env cfg tools s ToolRole (map ToolResultBlock results) r \<and>
    distinct (map tr_tool_call_id results) \<and>
    (\<forall>call \<in> set (pending_calls s). \<exists>!x. x \<in> set results \<and> tr_tool_call_id x = tc_id call) \<and>
    (\<forall>x \<in> set results. \<exists>call \<in> set (pending_calls s). tr_tool_call_id x = tc_id call)"
proof -
  obtain t mid w1 w2 w3 w4 where r: "pending_calls s \<noteq> []"
      "length (map tr_tool_call_id results) = length (remdups (map tr_tool_call_id results))"
      "set (map tr_tool_call_id results) = tc_id ` set (pending_calls s)"
      "new_turn env s c ToolRole (map ToolResultBlock results) w1 = (Inr t, w2)"
      "append_turn env s t (lc_max_turns cfg) no_usage w2 = (Inr mid, w3)" "infer env cfg mid tools w4 = (Inr r, w')"
    using assms unfolding resume_def Let_def step_simps by (elim exE conjE) simp
  have d: "distinct (map tr_tool_call_id results)"
    using r(2) by (metis card_distinct length_remdups_card_conv)
  have "\<exists>!x. x \<in> set results \<and> tr_tool_call_id x = tc_id call" if "call \<in> set (pending_calls s)" for call
  proof -
    have "tc_id call \<in> tr_tool_call_id ` set results" using r(3) that by auto
    then obtain x where x: "x \<in> set results" "tr_tool_call_id x = tc_id call" by auto
    then show ?thesis using d by (intro ex1I[of _ x]) (auto simp: distinct_map inj_on_def)
  qed
  moreover have "\<forall>x \<in> set results. \<exists>call \<in> set (pending_calls s). tr_tool_call_id x = tc_id call"
    using r(3) by (auto simp: set_eq_iff image_iff)
  ultimately show ?thesis using two_turns_run[OF r(4-6)] r(1) d by blast
qed

section \<open>A session of one call\<close>

definition demo_agent :: agent_env where
  "demo_agent = \<lparr>ae_uuid = (\<lambda>n. replicate n (CHR ''u'')), ae_clock = (\<lambda>_. noon),
     ae_context = \<lparr>ce_sha256 = id, ce_uuid5 = (\<lambda>n s. s), ce_dump = (\<lambda>_. []), ce_count = (\<lambda>ts _. 10 * length ts)\<rparr>,
     ae_respond = (\<lambda>_ _ _ _. Some \<lparr>mo_blocks = [ToolCallBlock demo_tool_call], mo_usage = \<lparr>input_tokens = 5, output_tokens = 3\<rparr>\<rparr>)\<rparr>"

definition demo_config :: loop_config where
  "demo_config = \<lparr>lc_model = ''zeaz-auto'', lc_max_output_tokens = 4096, lc_max_turns = 1000, lc_min_recent_turns = 2,
     lc_max_summary_chars = 8192\<rparr>"

definition idle_world :: agent_world where
  "idle_world = \<lparr>aw_uuids = 0, aw_ticks = 0, aw_events = []\<rparr>"

lemma return_step_apply: "return_step r w = (r, w)"
  by (simp add: return_step_def)

lemmas step_runs = bind_step_def require_def return_step_apply valid_def fresh_uuid_def read_clock_def emit_def new_turn_def append_turn_def
  next_sequence_def Turn_def usage_plus_def TokenUsage_def Session_def validate_turn_history_def has_timezone_def is_call_def
  is_result_def on_error_def validate_usage_def total_tokens_def no_usage_def compact_def infer_def Let_def List.map_filter_def block_call_def

lemma demo_start: "\<exists>r w. start demo_agent demo_config (plan_session\<lparr>ss_execution_mode := NormalMode\<rparr>) [TextBlock ''hi''] [] None idle_world
    = (Inr r, w) \<and> rr_pending_tool_calls r = [demo_tool_call]"
  by (simp add: start_def step_runs demo_agent_def demo_config_def plan_session_def noon_def idle_world_def)

theorem start_extends_session_witness:
  "\<exists>r w. start demo_agent demo_config (plan_session\<lparr>ss_execution_mode := NormalMode\<rparr>) [TextBlock ''hi''] [] None idle_world = (Inr r, w) \<and>
     session_ok (rr_session r) \<and> pending_calls (rr_session r) = [demo_tool_call]"
proof -
  obtain r w where r: "start demo_agent demo_config (plan_session\<lparr>ss_execution_mode := NormalMode\<rparr>) [TextBlock ''hi''] [] None idle_world
      = (Inr r, w)" "rr_pending_tool_calls r = [demo_tool_call]"
    using demo_start by blast
  show ?thesis using start_extends_session[OF r(1)] r unfolding two_turns_def by auto
qed

text \<open>A session whose last turn calls a tool.\<close>

definition demo_turn :: "string \<Rightarrow> int \<Rightarrow> agent_role \<Rightarrow> content_block list \<Rightarrow> turn" where
  "demo_turn i n role content = \<lparr>tn_id = i, tn_session_id = ''s'', tn_correlation_id = ''k'', tn_sequence = n, tn_role = role,
     tn_status = TurnCompleted, tn_content = content, tn_created_at = noon\<rparr>"

definition waiting_session :: "session_status \<Rightarrow> session" where
  "waiting_session st = plan_session\<lparr>ss_status := st, ss_execution_mode := NormalMode,
     ss_turns := [demo_turn ''a'' 0 UserRole [TextBlock ''hi''], demo_turn ''b'' 1 AssistantRole [ToolCallBlock demo_tool_call]]\<rparr>"

definition demo_result :: tool_result where
  "demo_result = \<lparr>tr_tool_call_id = ''c1'', tr_output = JNull, tr_is_error = False\<rparr>"

lemma waiting_pending: "pending_calls (waiting_session st) = [demo_tool_call]"
  by (simp add: pending_calls_def waiting_session_def demo_turn_def List.map_filter_def)

lemma demo_resume:
  "\<exists>r w. resume demo_agent demo_config (waiting_session st) [demo_result] [] None idle_world = (Inr r, w) \<and>
     ss_status (rr_session r) = st"
  unfolding resume_def waiting_pending Let_def
  by (simp add: step_runs waiting_session_def demo_turn_def demo_result_def demo_agent_def demo_config_def plan_session_def
      noon_def idle_world_def demo_tool_call_def)

theorem resume_answers_pending_witness:
  "\<exists>r w. resume demo_agent demo_config (waiting_session Active) [demo_result] [] None idle_world = (Inr r, w) \<and>
     two_turns demo_agent demo_config [] (waiting_session Active) ToolRole [ToolResultBlock demo_result] r"
proof -
  obtain r w where r: "resume demo_agent demo_config (waiting_session Active) [demo_result] [] None idle_world = (Inr r, w)"
    using demo_resume by blast
  show ?thesis using resume_answers_pending[OF r] r by auto
qed

section \<open>Where the loop is looser than it seems\<close>

text \<open>
  \<open>start\<close> refuses a session that is not active; \<open>resume\<close> does not look at the status and asks the
  model on behalf of a cancelled session.
\<close>

theorem resume_runs_cancelled_session:
  "\<exists>r w. resume demo_agent demo_config (waiting_session Cancelled) [demo_result] [] None idle_world = (Inr r, w) \<and>
     ss_status (rr_session r) = Cancelled \<and>
     fst (start demo_agent demo_config (waiting_session Cancelled) [TextBlock ''hi''] [] None idle_world)
       = Inl (Invalid (ValueError ''only active sessions can be advanced''))"
  using demo_resume[of Cancelled]
  by (simp add: start_def bind_step_def require_def return_step_apply waiting_session_def)

text \<open>
  When the number of recent turns to keep is reached right after a model's turn with a tool call
  is omitted, the result that answers the call stays: the context starts, after the summary, with a
  tool result that no call precedes.
\<close>

theorem compaction_can_orphan_result:
  "\<exists>r. compact (ae_context demo_agent) 2 8192
      [demo_turn ''a'' 0 UserRole [TextBlock ''hi''], demo_turn ''b'' 1 AssistantRole [ToolCallBlock demo_tool_call],
       demo_turn ''c'' 2 ToolRole [ToolResultBlock demo_result], demo_turn ''d'' 3 AssistantRole [TextBlock ''done'']] [] 35 = Inr r \<and>
    map tn_role (cr_turns r) = [SystemRole, ToolRole, AssistantRole] \<and>
    \<not> list_ex (\<lambda>t. list_ex is_call (tn_content t)) (cr_turns r)"
  by (simp add: compact_def demo_agent_def demo_turn_def compact_from.simps Let_def summary_turn_def is_call_def demo_result_def)

end
