(* ===== verification/RevisionStore.thy ===== *)
theory RevisionStore
  imports Prelude
begin

text \<open>
  The contract of a store with optimistic concurrency, which the session store and the memory store of
  the agent share. \<open>row_of\<close> is what the store keeps of a record: its revision and the rest. A successful
  write replaces one row by one with a higher revision, a save only where the row has the expected
  revision, and a load reports the row's revision. Two things follow for every such store: a save sees
  the row that was loaded, and a stale save fails.
\<close>

definition revision_below :: "int \<times> 'd \<Rightarrow> int \<times> 'd \<Rightarrow> bool" where
  "revision_below r r' = (r' = r \<or> fst r < fst r')"

locale revision_store =
  fixes key_of :: "'r \<Rightarrow> 'k"
    and rev_of :: "'r \<Rightarrow> int"
    and store_create :: "'r \<Rightarrow> 'db \<Rightarrow> 'e + 'db"
    and store_load :: "'db \<Rightarrow> 'k \<Rightarrow> 'e + 'r"
    and store_save :: "'r \<Rightarrow> int \<Rightarrow> 'db \<Rightarrow> 'e + 'db"
    and row_of :: "'db \<Rightarrow> 'k \<Rightarrow> (int \<times> 'd) option"
  assumes create_row: "store_create s db = Inr db' \<Longrightarrow>
      row_of db (key_of s) = None \<and> (\<exists>d. row_of db' = (row_of db)(key_of s \<mapsto> (rev_of s, d)))"
    and save_row: "store_save s e db = Inr db' \<Longrightarrow>
      e < rev_of s \<and> (\<exists>d d'. row_of db (key_of s) = Some (e, d) \<and> row_of db' = (row_of db)(key_of s \<mapsto> (rev_of s, d')))"
    and load_row: "store_load db k = Inr s \<Longrightarrow> key_of s = k \<and> (\<exists>d. row_of db k = Some (rev_of s, d))"
    and save_conflict: "row_of db (key_of s) = Some (v, d) \<Longrightarrow> v \<noteq> e \<Longrightarrow> \<not> returns (store_save s e db)"
begin

inductive write_op :: "'db \<Rightarrow> 'db \<Rightarrow> bool" where
  write_create: "store_create s db = Inr db' \<Longrightarrow> write_op db db'"
| write_save: "store_save s e db = Inr db' \<Longrightarrow> write_op db db'"

end

text \<open>Revisions only grow, and a row whose revision is the same again is the same row.\<close>

sublocale revision_store < revisions: growing_rows write_op row_of revision_below
proof
  show "write_op db db' \<Longrightarrow> row_of db k = Some r \<Longrightarrow> \<exists>r'. row_of db' k = Some r' \<and> revision_below r r'" for db db' k r
    by (cases r) (auto simp: revision_below_def elim!: write_op.cases dest!: create_row save_row)
qed (auto simp: revision_below_def)

context revision_store
begin

lemma writes_row:
  assumes "write_op\<^sup>*\<^sup>* db db'" "row_of db k = Some (v, d)"
  shows "row_of db' k = Some (v, d) \<or> (\<exists>v' d'. row_of db' k = Some (v', d') \<and> v < v')"
  using revisions.row_grows[OF assms] by (auto simp: revision_below_def)

lemma save_sees_loaded_row:
  assumes "store_load db k = Inr s0" "write_op\<^sup>*\<^sup>* db db1" "store_save s1 (rev_of s0) db1 = Inr db2" "key_of s1 = k"
  shows "row_of db1 k = row_of db k"
proof -
  obtain d where d: "row_of db k = Some (rev_of s0, d)" using load_row[OF assms(1)] by blast
  then show ?thesis using writes_row[OF assms(2) d] save_row[OF assms(3)] assms(4) by auto
qed

lemma stale_save_fails:
  assumes "store_save s1 e db1 = Inr db2" "write_op\<^sup>*\<^sup>* db2 db3" "key_of s2 = key_of s1"
  shows "\<not> returns (store_save s2 e db3)"
proof -
  obtain d where d: "row_of db2 (key_of s1) = Some (rev_of s1, d)" "e < rev_of s1" using save_row[OF assms(1)] by auto
  obtain v d' where "row_of db3 (key_of s2) = Some (v, d')" "rev_of s1 \<le> v" using writes_row[OF assms(2) d(1)] assms(3) by force
  then show ?thesis using save_conflict d(2) by fastforce
qed

end

end
