(* ===== verification/SessionStore.thy ===== *)
theory SessionStore
  imports AgentSchemas CanonicalJson RevisionStore
begin

text \<open>
  Resumable sessions with optimistic concurrency (\<open>zeaz_agent/session_store.py\<close>). The database is the
  table \<open>sessions\<close>, a map from identifiers to revisions and documents; each operation is one SQLite
  transaction. What Pydantic writes for a session and reads back is a parameter. The checks of the
  database file's owner and mode, and SQLite's own failures, are not modelled. The contract of the
  \<open>SessionStore\<close> protocol is the locale \<open>revision_store\<close>.
\<close>

datatype store_error = SessionNotFound | SessionConflict | SessionIntegrityError string | StoreValueError string

type_synonym session_table = "string \<Rightarrow> (int \<times> string) option"

record session_codec =
  sc_dump :: "session \<Rightarrow> string"
  sc_validate :: "string \<Rightarrow> session option"

definition encode_session :: "session_codec \<Rightarrow> nat \<Rightarrow> session \<Rightarrow> store_error + string" where
  "encode_session codec maximum s =
     (let document = sc_dump codec s
      in if length (utf8_encode document) > maximum then Inl (StoreValueError ''session exceeds the configured size limit'')
         else Inr document)"

definition create_session :: "session_codec \<Rightarrow> nat \<Rightarrow> session \<Rightarrow> session_table \<Rightarrow> store_error + session_table" where
  "create_session codec maximum s db =
     bindE (encode_session codec maximum s) (\<lambda>document.
     if db (ss_id s) \<noteq> None \<or> ss_revision s < 0 then Inl SessionConflict
     else Inr (db(ss_id s \<mapsto> (ss_revision s, document))))"

definition load_session :: "session_codec \<Rightarrow> nat \<Rightarrow> session_table \<Rightarrow> string \<Rightarrow> store_error + session" where
  "load_session codec maximum db sid =
     (case db sid of
        None \<Rightarrow> Inl SessionNotFound
      | Some (revision, document) \<Rightarrow>
          if length (utf8_encode document) > maximum then Inl (SessionIntegrityError ''stored session exceeds the size limit'')
          else (case sc_validate codec document of
              None \<Rightarrow> Inl (SessionIntegrityError ''stored session failed schema validation'')
            | Some s \<Rightarrow>
                if ss_id s \<noteq> sid \<or> ss_revision s \<noteq> revision
                then Inl (SessionIntegrityError ''stored session identity or revision is inconsistent'')
                else Inr s))"

definition save_session :: "session_codec \<Rightarrow> nat \<Rightarrow> session \<Rightarrow> int \<Rightarrow> session_table \<Rightarrow> store_error + session_table" where
  "save_session codec maximum s expected_revision db =
     (if expected_revision < 0 then Inl (StoreValueError ''expected_revision cannot be negative'')
      else if ss_revision s \<le> expected_revision
      then Inl (StoreValueError ''new session revision must exceed expected_revision'')
      else bindE (encode_session codec maximum s) (\<lambda>document.
        (case db (ss_id s) of
           Some (revision, _) \<Rightarrow>
             if revision = expected_revision then Inr (db(ss_id s \<mapsto> (ss_revision s, document)))
             else Inl SessionConflict
         | None \<Rightarrow> Inl SessionNotFound)))"

interpretation sqlite: revision_store ss_id ss_revision "create_session codec maximum" "load_session codec maximum" "save_session codec maximum" "\<lambda>db. db"
  for codec maximum
proof
  fix s :: session and db db' :: session_table
  show "create_session codec maximum s db = Inr db' \<Longrightarrow>
      db (ss_id s) = None \<and> (\<exists>d. db' = db(ss_id s \<mapsto> (ss_revision s, d)))"
    by (cases "db (ss_id s)") (auto simp: create_session_def res_simps split: if_splits)
  show "load_session codec maximum db sid = Inr s \<Longrightarrow> ss_id s = sid \<and> (\<exists>d. db sid = Some (ss_revision s, d))" for sid
    by (auto simp: load_session_def split: option.splits prod.splits if_splits)
  fix e :: int
  show "save_session codec maximum s e db = Inr db' \<Longrightarrow>
      e < ss_revision s \<and> (\<exists>d d'. db (ss_id s) = Some (e, d) \<and> db' = db(ss_id s \<mapsto> (ss_revision s, d')))"
    by (auto simp: save_session_def res_simps split: option.splits prod.splits if_splits)
  show "db (ss_id s) = Some (v, d) \<Longrightarrow> v \<noteq> e \<Longrightarrow> \<not> returns (save_session codec maximum s e db)" for v d
    by (auto simp: save_session_def returns_bindE)
qed

section \<open>No lost updates\<close>

text \<open>A write of any client.\<close>

inductive store_write :: "session_codec \<Rightarrow> nat \<Rightarrow> session_table \<Rightarrow> session_table \<Rightarrow> bool" for codec maximum where
  "create_session codec maximum s db = Inr db' \<Longrightarrow> store_write codec maximum db db'"
| "save_session codec maximum s e db = Inr db' \<Longrightarrow> store_write codec maximum db db'"

lemma store_write_eq: "sqlite.write_op codec maximum = store_write codec maximum"
  by (intro ext) (auto elim!: sqlite.write_op.cases store_write.cases intro: sqlite.write_op.intros store_write.intros)

text \<open>
  C9: a client that loads a session and saves its next revision succeeds only if no other client has
  written the session in between, and once it has, every save that expects the old revision fails
  whatever is written meanwhile: no update is lost. What was saved is what is loaded.
\<close>

theorem no_lost_update:
  assumes "load_session codec maximum db sid = Inr s0" "(store_write codec maximum)\<^sup>*\<^sup>* db db1"
    and "save_session codec maximum s1 (ss_revision s0) db1 = Inr db2" "ss_id s1 = sid"
    and "(store_write codec maximum)\<^sup>*\<^sup>* db2 db3" "sc_validate codec (sc_dump codec s1) = Some s1"
  shows "db1 sid = db sid \<and> load_session codec maximum db2 sid = Inr s1 \<and> ss_revision s0 < ss_revision s1 \<and>
    (\<forall>s2. ss_id s2 = sid \<longrightarrow> \<not> returns (save_session codec maximum s2 (ss_revision s0) db3)) \<and>
    (\<forall>other. other \<noteq> sid \<longrightarrow> db2 other = db1 other)"
proof -
  have "db1 sid = db sid"
    by (rule sqlite.save_sees_loaded_row[OF assms(1) _ assms(3,4)]) (use assms(2) in \<open>simp add: store_write_eq\<close>)
  moreover have "load_session codec maximum db2 sid = Inr s1 \<and> ss_revision s0 < ss_revision s1 \<and>
      (\<forall>other. other \<noteq> sid \<longrightarrow> db2 other = db1 other)"
  proof -
    have e: "encode_session codec maximum s1 = Inr (sc_dump codec s1) \<and> db2 = db1(ss_id s1 \<mapsto> (ss_revision s1, sc_dump codec s1)) \<and>
        ss_revision s0 < ss_revision s1 \<and> length (utf8_encode (sc_dump codec s1)) \<le> maximum"
      using assms(3) by (auto simp: save_session_def encode_session_def res_simps Let_def not_le split: option.splits prod.splits if_splits)
    then have "load_session codec maximum db2 sid = Inr s1" using assms(4,6) by (simp add: load_session_def)
    then show ?thesis using e assms(4) by simp
  qed
  moreover have "\<not> returns (save_session codec maximum s2 (ss_revision s0) db3)" if "ss_id s2 = sid" for s2
    by (rule sqlite.stale_save_fails[OF assms(3)]) (use assms(4,5) that in \<open>simp_all add: store_write_eq\<close>)
  ultimately show ?thesis by blast
qed

definition demo_session :: "int \<Rightarrow> session" where
  "demo_session n = \<lparr>ss_id = ''s'', ss_revision = n, ss_status = Active, ss_execution_mode = NormalMode,
     ss_token_budget = \<lparr>max_context_tokens = 1000, max_output_tokens = 100, max_total_tokens = 10000\<rparr>,
     ss_token_usage = \<lparr>input_tokens = 0, output_tokens = 0\<rparr>, ss_turns = [], ss_created_at = \<lparr>dt_instant = 0, dt_offset = Some 0\<rparr>,
     ss_updated_at = \<lparr>dt_instant = 0, dt_offset = Some 0\<rparr>\<rparr>"

definition demo_codec :: session_codec where
  "demo_codec = \<lparr>sc_dump = (\<lambda>s. int_str (ss_revision s)), sc_validate = (\<lambda>d. Some (demo_session (int_of_text d)))\<rparr>"

theorem no_lost_update_witness:
  "\<exists>db1 db2. create_session demo_codec 1000 (demo_session 0) (\<lambda>_. None) = Inr db1 \<and>
     save_session demo_codec 1000 (demo_session 1) 0 db1 = Inr db2 \<and> load_session demo_codec 1000 db2 ''s'' = Inr (demo_session 1) \<and>
     \<not> returns (save_session demo_codec 1000 (demo_session 5) 0 db2)"
proof -
  define db1 :: session_table where "db1 = (\<lambda>_. None)(''s'' \<mapsto> (0, int_str 0))"
  define db2 :: session_table where "db2 = db1(''s'' \<mapsto> (1, int_str 1))"
  have sizes: "length (utf8_encode (int_str 0)) \<le> 1000" "length (utf8_encode (int_str 1)) \<le> 1000" by code_simp+
  have c: "create_session demo_codec 1000 (demo_session 0) (\<lambda>_. None) = Inr db1"
    using sizes(1) by (simp add: create_session_def encode_session_def demo_codec_def demo_session_def db1_def Let_def)
  have l: "load_session demo_codec 1000 db1 ''s'' = Inr (demo_session 0)"
    using sizes(1) by (simp add: load_session_def demo_codec_def db1_def int_of_text_int_str) (simp add: demo_session_def)
  have s: "save_session demo_codec 1000 (demo_session 1) (ss_revision (demo_session 0)) db1 = Inr db2"
    using sizes(2) by (simp add: save_session_def encode_session_def demo_codec_def demo_session_def db1_def db2_def Let_def)
  have v: "sc_validate demo_codec (sc_dump demo_codec (demo_session 1)) = Some (demo_session 1)"
    by (simp add: demo_codec_def int_of_text_int_str) (simp add: demo_session_def)
  have i: "ss_id (demo_session n) = ''s''" "ss_revision (demo_session n) = n" for n by (simp_all add: demo_session_def)
  show ?thesis
    using no_lost_update[OF l rtranclp.rtrancl_refl s i(1) rtranclp.rtrancl_refl v] c s by (auto simp: i)
qed

end
