(* ===== verification/AuditLedger.thy ===== *)
theory AuditLedger
  imports Plans
begin

text \<open>
  The audit ledger (\<open>zeaz_agent/audit.py\<close>): an append-only file of canonical JSON lines, each with the
  hash of its predecessor. The file is the list of its bytes; opening and locking it, its owner and
  mode, and failures of the system calls are not modelled. The text of a time, SHA-256 and
  Pydantic's reading of a line (\<open>decode\<close>) are parameters.
\<close>

section \<open>Events and entries\<close>

definition zero_hash :: string where
  "zero_hash = replicate 64 (CHR ''0'')"

definition lower_start :: "string \<Rightarrow> bool" where
  "lower_start s = (s \<noteq> [] \<and> hd s \<in> set ''abcdefghijklmnopqrstuvwxyz'' \<and>
     list_all (\<lambda>c. c \<in> set ''abcdefghijklmnopqrstuvwxyz_'' \<or> is_digit c) (tl s))"

definition event_type_ok :: "string \<Rightarrow> bool" where
  "event_type_ok s = (length s \<le> 128 \<and> (let parts = split_char (CHR ''.'') s
     in 2 \<le> length parts \<and> length parts \<le> 8 \<and> list_all lower_start parts))"

text \<open>\<open>_SENSITIVE_KEY.fullmatch\<close>, ignoring case.\<close>

definition sensitive_names :: "string list" where
  "sensitive_names =
     concat (map (\<lambda>(a, b). [a @ b, a @ ''_'' @ b, a @ ''-'' @ b])
       [(''api'', ''key''), (''client'', ''key''), (''access'', ''token''), (''refresh'', ''token'')])
     @ [''authorization'', ''credential'', ''password'', ''secret'', ''prompt'', ''message'', ''messages'', ''content'', ''request_body'']"

definition sensitive_key :: "string \<Rightarrow> bool" where
  "sensitive_key k = (py_lower k \<in> set sensitive_names)"

record ledger_event =
  le_id :: string
  le_sequence :: int
  le_session_id :: string
  le_correlation_id :: string
  le_event_type :: string
  le_actor :: string
  le_subject_id :: "string option"
  le_details :: "json dict"
  le_created_at :: py_datetime

definition AuditEvent :: "ledger_event \<Rightarrow> ledger_event res" where
  "AuditEvent e =
     bindE (check (0 \<le> le_sequence e) ''sequence'') (\<lambda>_.
     bindE (check (event_type_ok (le_event_type e)) ''event_type'') (\<lambda>_.
     bindE (check (actor (le_actor e)) ''actor'') (\<lambda>_.
     bindE (check (case le_subject_id e of None \<Rightarrow> True | Some i \<Rightarrow> identifier_text i) ''subject_id'') (\<lambda>_.
     bindE (check (has_timezone (le_created_at e)) ''created_at must include a UTC offset'') (\<lambda>_. Inr e)))))"

record ledger_entry =
  en_event :: ledger_event
  en_previous_sha256 :: string
  en_sha256 :: string

record ledger_env =
  ld_sha256 :: "string \<Rightarrow> string"
  ld_isotime :: "py_datetime \<Rightarrow> string"
  ld_decode :: "string \<Rightarrow> ledger_entry option"
  ld_max_log_bytes :: nat
  ld_max_event_bytes :: nat

definition event_json :: "ledger_env \<Rightarrow> ledger_event \<Rightarrow> json" where
  "event_json env e = JObj [(''schema_version'', JStr ''1''), (''id'', JStr (le_id e)), (''sequence'', JInt (le_sequence e)),
     (''session_id'', JStr (le_session_id e)), (''correlation_id'', JStr (le_correlation_id e)),
     (''event_type'', JStr (le_event_type e)), (''actor'', JStr (le_actor e)),
     (''subject_id'', case le_subject_id e of None \<Rightarrow> JNull | Some i \<Rightarrow> JStr i),
     (''details'', JObj (le_details e)), (''created_at'', JStr (ld_isotime env (le_created_at e)))]"

definition digest_input :: "ledger_env \<Rightarrow> ledger_event \<Rightarrow> string \<Rightarrow> json" where
  "digest_input env e previous = JObj [(''event'', event_json env e), (''previous_sha256'', JStr previous)]"

definition entry_json :: "ledger_env \<Rightarrow> ledger_entry \<Rightarrow> json" where
  "entry_json env n = JObj [(''event'', event_json env (en_event n)), (''previous_sha256'', JStr (en_previous_sha256 n)),
     (''sha256'', JStr (en_sha256 n))]"

datatype ledger_error = AuditIntegrityError string | LedgerValueError string

definition canonical_bytes :: "json \<Rightarrow> ledger_error + string" where
  "canonical_bytes v = (case canonical v of None \<Rightarrow> Inl (LedgerValueError ''Out of range float values are not JSON compliant'')
     | Some b \<Rightarrow> Inr b)"

definition entry_digest :: "ledger_env \<Rightarrow> ledger_event \<Rightarrow> string \<Rightarrow> ledger_error + string" where
  "entry_digest env e previous = bindE (canonical_bytes (digest_input env e previous)) (\<lambda>b. Inr (ld_sha256 env b))"

section \<open>Sanitizing\<close>

text \<open>A comprehension over a dictionary assigns in order: keys that become equal keep the last value.\<close>

fun sanitize :: "nat \<Rightarrow> json \<Rightarrow> json res"
  and sanitize_list :: "nat \<Rightarrow> json list \<Rightarrow> json list res"
  and sanitize_members :: "nat \<Rightarrow> json dict \<Rightarrow> json dict res" where
  "sanitize depth v =
     (if depth > 16 then Inl (ValueError ''audit details exceed the nesting limit'')
      else (case v of
          JObj kvs \<Rightarrow>
            if length kvs > 256 then Inl (ValueError ''audit details contain too many object fields'')
            else bindE (sanitize_members depth kvs) (\<lambda>d. Inr (JObj (dict_of_pairs d)))
        | JArr vs \<Rightarrow>
            if length vs > 256 then Inl (ValueError ''audit details contain too many array items'')
            else bindE (sanitize_list depth vs) (\<lambda>us. Inr (JArr us))
        | JStr s \<Rightarrow> Inr (JStr (take 4096 s))
        | _ \<Rightarrow> Inr v))"
| "sanitize_list depth [] = Inr []"
| "sanitize_list depth (v # vs) = bindE (sanitize (depth + 1) v) (\<lambda>u. bindE (sanitize_list depth vs) (\<lambda>us. Inr (u # us)))"
| "sanitize_members depth [] = Inr []"
| "sanitize_members depth ((k, v) # kvs) =
     bindE (if sensitive_key k then Inr (JStr ''[REDACTED]'') else sanitize (depth + 1) v) (\<lambda>u.
     bindE (sanitize_members depth kvs) (\<lambda>d. Inr ((take 128 k, u) # d)))"

section \<open>Appending and verifying\<close>

text \<open>\<open>bytes.splitlines\<close>.\<close>

definition drop_newline :: "string \<Rightarrow> string" where
  "drop_newline s = (if s \<noteq> [] \<and> hd s = newline then tl s else s)"

lemma drop_newline_length [termination_simp]: "length (drop_newline s) < Suc (length s)"
  by (cases s) (auto simp: drop_newline_def)

fun byte_lines :: "string \<Rightarrow> string list" where
  "byte_lines [] = []"
| "byte_lines (c # cs) =
     (if c = newline then [] # byte_lines cs
      else if c = creturn then [] # byte_lines (drop_newline cs)
      else (case byte_lines cs of [] \<Rightarrow> [[c]] | l # ls \<Rightarrow> (c # l) # ls))"

definition decode_entry :: "ledger_env \<Rightarrow> string \<Rightarrow> ledger_error + ledger_entry" where
  "decode_entry env line = (case ld_decode env line of
     None \<Rightarrow> Inl (AuditIntegrityError ''audit record failed schema validation'') | Some n \<Rightarrow> Inr n)"

definition last_entry :: "ledger_env \<Rightarrow> string \<Rightarrow> ledger_error + ledger_entry option" where
  "last_entry env file =
     (if file = [] then Inr None
      else if last file \<noteq> newline then Inl (AuditIntegrityError ''audit log ends with a partial record'')
      else
        (let start = length file - ld_max_event_bytes env; ls = byte_lines (drop start file)
         in if start \<noteq> 0 \<and> length ls < 2 then Inl (AuditIntegrityError ''last audit record exceeds its configured size'')
            else bindE (decode_entry env (last ls)) (\<lambda>n. Inr (Some n))))"

record ledger_request =
  lq_session_id :: string
  lq_correlation_id :: string
  lq_event_type :: string
  lq_actor :: string
  lq_subject_id :: "string option"
  lq_details :: "json dict"

definition as_ledger :: "'a res \<Rightarrow> ledger_error + 'a" where
  "as_ledger r = (case r of Inl (ValueError m) \<Rightarrow> Inl (LedgerValueError m) | Inl _ \<Rightarrow> Inl (LedgerValueError []) | Inr x \<Rightarrow> Inr x)"

definition sanitized_details :: "json dict \<Rightarrow> json dict res" where
  "sanitized_details d = bindE (sanitize 0 (JObj d)) (\<lambda>v. case v of JObj e \<Rightarrow> Inr e | _ \<Rightarrow> Inl TypeError)"

definition append_event ::
  "ledger_env \<Rightarrow> string \<Rightarrow> py_datetime \<Rightarrow> ledger_request \<Rightarrow> string \<Rightarrow> ledger_error + (ledger_entry \<times> string)" where
  "append_event env fresh now q file =
     (if length file > ld_max_log_bytes env then Inl (AuditIntegrityError ''audit log exceeds its configured size'')
      else bindE (last_entry env file) (\<lambda>previous.
        bindE (as_ledger (sanitized_details (lq_details q))) (\<lambda>details.
        bindE (as_ledger (AuditEvent \<lparr>le_id = fresh,
            le_sequence = (case previous of None \<Rightarrow> 0 | Some p \<Rightarrow> le_sequence (en_event p) + 1),
            le_session_id = lq_session_id q, le_correlation_id = lq_correlation_id q, le_event_type = lq_event_type q,
            le_actor = lq_actor q, le_subject_id = lq_subject_id q, le_details = details, le_created_at = now\<rparr>)) (\<lambda>event.
        let previous_hash = (case previous of None \<Rightarrow> zero_hash | Some p \<Rightarrow> en_sha256 p)
        in bindE (entry_digest env event previous_hash) (\<lambda>digest.
           let entry = \<lparr>en_event = event, en_previous_sha256 = previous_hash, en_sha256 = digest\<rparr>
           in bindE (canonical_bytes (entry_json env entry)) (\<lambda>b.
              let encoded = b @ [newline]
              in if length encoded > ld_max_event_bytes env then Inl (LedgerValueError ''audit event exceeds its configured size'')
                 else if length file + length encoded > ld_max_log_bytes env
                 then Inl (LedgerValueError ''audit log has reached its configured size'')
                 else Inr (entry, file @ encoded)))))))"

fun verify_from :: "ledger_env \<Rightarrow> int \<Rightarrow> string \<Rightarrow> string list \<Rightarrow> ledger_error + ledger_entry list" where
  "verify_from env sequence previous [] = Inr []"
| "verify_from env sequence previous (line # ls) =
     (if length line + 1 > ld_max_event_bytes env then Inl (AuditIntegrityError ''audit record exceeds its configured size'')
      else bindE (decode_entry env line) (\<lambda>n.
        if le_sequence (en_event n) \<noteq> sequence then Inl (AuditIntegrityError ''audit sequence is not contiguous'')
        else if en_previous_sha256 n \<noteq> previous then Inl (AuditIntegrityError ''audit hash chain is broken'')
        else bindE (entry_digest env (en_event n) previous) (\<lambda>digest.
          if en_sha256 n \<noteq> digest then Inl (AuditIntegrityError ''audit record digest is invalid'')
          else bindE (verify_from env (sequence + 1) (en_sha256 n) ls) (\<lambda>ns. Inr (n # ns)))))"

definition verify :: "ledger_env \<Rightarrow> string \<Rightarrow> ledger_error + ledger_entry list" where
  "verify env file =
     (if length file > ld_max_log_bytes env then Inl (AuditIntegrityError ''audit log exceeds its configured size'')
      else if file \<noteq> [] \<and> last file \<noteq> newline then Inl (AuditIntegrityError ''audit log ends with a partial record'')
      else verify_from env 0 zero_hash (byte_lines file))"

section \<open>What is recorded\<close>

definition source_value :: "decision_source \<Rightarrow> string" where
  "source_value x = (case x of PolicySource \<Rightarrow> ''policy'' | DefaultSource \<Rightarrow> ''default'' | UserSource \<Rightarrow> ''user'')"

definition text_or_null :: "string option \<Rightarrow> json" where
  "text_or_null x = (case x of None \<Rightarrow> JNull | Some s \<Rightarrow> JStr s)"

definition record_permission_decision ::
  "ledger_env \<Rightarrow> string \<Rightarrow> py_datetime \<Rightarrow> permission_decision \<Rightarrow> string \<Rightarrow> ledger_error + (ledger_entry \<times> string)" where
  "record_permission_decision env fresh now d =
     append_event env fresh now \<lparr>lq_session_id = pd_session_id d, lq_correlation_id = pd_correlation_id d,
       lq_event_type = ''tool.permission_decided'', lq_actor = pd_decided_by d, lq_subject_id = Some (pd_tool_call_id d),
       lq_details = [(''decision_id'', JStr (pd_id d)), (''tool_name'', JStr (pd_tool_name d)),
         (''outcome'', JStr (outcome_value (pd_outcome d))), (''source'', JStr (source_value (pd_source d))),
         (''rule_id'', text_or_null (pd_rule_id d)), (''resolved_from'', text_or_null (pd_resolved_from d))]\<rparr>"

definition record_plan_approval ::
  "ledger_env \<Rightarrow> string \<Rightarrow> py_datetime \<Rightarrow> plan_approval \<Rightarrow> string \<Rightarrow> string \<Rightarrow> ledger_error + (ledger_entry \<times> string)" where
  "record_plan_approval env fresh now a cid =
     append_event env fresh now \<lparr>lq_session_id = ap_session_id a, lq_correlation_id = cid, lq_event_type = ''plan.approved'',
       lq_actor = ap_approved_by a, lq_subject_id = Some (ap_plan_id a),
       lq_details = [(''approval_id'', JStr (ap_id a)), (''plan_sha256'', JStr (ap_plan_sha256 a))]\<rparr>"

section \<open>Lines\<close>

definition plain :: "string \<Rightarrow> bool" where
  "plain s = list_all (\<lambda>c. 32 \<le> code_of c) s"

lemma plain_simps [simp]: "plain []" "plain (c # s) \<longleftrightarrow> 32 \<le> code_of c \<and> plain s" "plain (s @ t) \<longleftrightarrow> plain s \<and> plain t"
  by (simp_all add: plain_def)

lemma printable_plain: "list_all printable s \<Longrightarrow> plain s"
  by (auto simp: plain_def printable_def list_all_iff)

lemma plain_esc: "plain (esc_raw c)"
  using printable_plain[OF esc_char_printable, of c] by (simp add: esc_raw_def)

lemma plain_str: "plain (raw_str s)"
  by (induction s) (simp_all add: raw_str_def plain_esc code_of_def)

lemma plain_raw:
  "wf_json v \<Longrightarrow> plain (json_raw v)"
  "list_all wf_json vs \<Longrightarrow> plain (raw_elems vs)"
  "list_all (\<lambda>kv. wf_json (snd kv)) kvs \<Longrightarrow> plain (raw_members kvs)"
proof (induction v and vs and kvs rule: json_raw_raw_elems_raw_members.induct)
  case (3 i)
  then show ?case using num_text_printable[OF int_str_num_chars] by (simp add: printable_plain)
next
  case (4 t)
  then show ?case using float_text_printable[of t] by (simp add: printable_plain)
qed (simp_all add: plain_str code_of_def)

lemma plain_utf8: "plain s \<Longrightarrow> plain (utf8_encode s)"
proof (induction s)
  case (Cons c s)
  have "code_of c div 64 < 4" using code_of_less[of c] by linarith
  then show ?case using Cons by (auto simp: utf8_encode_def utf8_char_def Let_def)
qed (simp add: utf8_encode_def)

lemma canonical_plain: "wf_json v \<Longrightarrow> canonical v = Some b \<Longrightarrow> plain b \<and> b \<noteq> []"
proof -
  assume v: "wf_json v" and b: "canonical v = Some b"
  then have e: "b = utf8_encode (json_raw (sort_json v))" by (simp add: canonical_def split: if_splits)
  have "json_dumps (sort_json v) \<noteq> []" using json_dumps_hd[OF wf_sort_json[OF v]] by blast
  then have "json_raw (sort_json v) \<noteq> []" using to_ascii_raw(1)[OF wf_sort_json[OF v]] by fastforce
  then have "b \<noteq> []" unfolding e by (metis utf8_decode_encode utf8_decode.simps(1))
  then show ?thesis using plain_utf8[OF plain_raw(1)[OF wf_sort_json[OF v]]] e by simp
qed

definition ledger_file :: "string list \<Rightarrow> string" where
  "ledger_file ls = concat (map (\<lambda>l. l @ [newline]) ls)"

lemma ledger_file_simps [simp]: "ledger_file [] = []" "ledger_file (l # ls) = l @ newline # ledger_file ls"
  "ledger_file (ls @ ms) = ledger_file ls @ ledger_file ms"
  by (simp_all add: ledger_file_def)

lemma byte_lines_line: "plain l \<Longrightarrow> byte_lines (l @ newline # s) = l # byte_lines s"
  by (induction l) (auto simp: code_of_def)

lemma byte_lines_file: "list_all plain ls \<Longrightarrow> byte_lines (ledger_file ls) = ls"
  by (induction ls) (simp_all add: byte_lines_line)

lemma plain_drop: "plain l \<Longrightarrow> plain (drop n l)"
  by (auto simp: plain_def list_all_iff dest: in_set_dropD)

lemma byte_lines_tail:
  "list_all plain ls \<Longrightarrow> byte_lines (drop k (ledger_file ls)) = [] \<or>
     (\<exists>pre l post j. ls = pre @ l # post \<and> byte_lines (drop k (ledger_file ls)) = drop j l # post)"
proof (induction ls arbitrary: k)
  case (Cons l ls)
  show ?case
  proof (cases "k \<le> length l")
    case True
    then have "byte_lines (drop k (ledger_file (l # ls))) = drop k l # ls"
      using Cons.prems byte_lines_line[OF plain_drop, of l k "ledger_file ls"] byte_lines_file[of ls] by simp
    then show ?thesis by (intro disjI2 exI[of _ "[]"] exI[of _ l] exI[of _ ls] exI[of _ k]) simp
  next
    case False
    then have d: "drop k (ledger_file (l # ls)) = drop (k - length l - 1) (ledger_file ls)"
      by (simp add: drop_Cons' )
    have plain: "list_all plain ls" using Cons.prems by simp
    show ?thesis unfolding d using Cons.IH[OF plain, of "k - length l - 1"]
    proof
      assume "\<exists>pre m post j. ls = pre @ m # post \<and> byte_lines (drop (k - length l - 1) (ledger_file ls)) = drop j m # post"
      then obtain pre m post j where
        "ls = pre @ m # post" "byte_lines (drop (k - length l - 1) (ledger_file ls)) = drop j m # post" by blast
      then show "byte_lines (drop (k - length l - 1) (ledger_file ls)) = [] \<or> (\<exists>pre m post j. l # ls = pre @ m # post \<and>
          byte_lines (drop (k - length l - 1) (ledger_file ls)) = drop j m # post)"
        by (intro disjI2 exI[of _ "l # pre"] exI[of _ m] exI[of _ post] exI[of _ j]) simp
    qed simp
  qed
qed simp

lemma last_line:
  assumes "list_all plain ls" "ls \<noteq> []" "k = 0 \<or> 2 \<le> length (byte_lines (drop k (ledger_file ls)))"
  shows "last (byte_lines (drop k (ledger_file ls))) = last ls"
proof (cases "k = 0")
  case True
  then show ?thesis using byte_lines_file[OF assms(1)] by simp
next
  case False
  then have two: "2 \<le> length (byte_lines (drop k (ledger_file ls)))" using assms(3) by simp
  then obtain pre l post j where "ls = pre @ l # post" "byte_lines (drop k (ledger_file ls)) = drop j l # post"
    using byte_lines_tail[OF assms(1), of k] by auto
  then show ?thesis using two by (cases "post = []") auto
qed

lemma ledger_file_last: "ls \<noteq> [] \<Longrightarrow> ledger_file ls \<noteq> [] \<and> last (ledger_file ls) = newline"
  by (cases ls rule: rev_cases) simp_all

lemma ledger_file_length: "length (ledger_file ls) = sum_list (map (\<lambda>l. length l + 1) ls)"
  by (induction ls) simp_all

section \<open>What is sanitized\<close>

lemma wf_dict_of_pairs_list: "list_all (\<lambda>kv. wf_json (snd kv)) d \<Longrightarrow> wf_json (JObj (dict_of_pairs d))"
  by (rule wf_dict_of_pairs)

lemma sanitize_wf:
  "wf_json v \<Longrightarrow> sanitize n v = Inr u \<Longrightarrow> wf_json u"
  "list_all wf_json vs \<Longrightarrow> sanitize_list n vs = Inr us \<Longrightarrow> list_all wf_json us"
  "list_all (\<lambda>kv. wf_json (snd kv)) kvs \<Longrightarrow> sanitize_members n kvs = Inr d \<Longrightarrow> list_all (\<lambda>kv. wf_json (snd kv)) d"
proof (induction n v and n vs and n kvs arbitrary: u and us and d rule: sanitize_sanitize_list_sanitize_members.induct)
  case (1 n v)
  then show ?case by (cases v) (auto simp: res_simps wf_dict_of_pairs_list simp del: wf_json.simps(3) split: if_splits dest: wf_json.simps(3)[THEN iffD1])
qed (auto simp: res_simps split: if_splits)

section \<open>Entries read back\<close>

definition sorted_details :: "json dict \<Rightarrow> json dict" where
  "sorted_details d = sort_key fst (map (\<lambda>kv. (fst kv, sort_json (snd kv))) d)"

definition normal_event :: "ledger_event \<Rightarrow> ledger_event" where
  "normal_event e = e\<lparr>le_details := sorted_details (le_details e)\<rparr>"

definition normal :: "ledger_entry \<Rightarrow> ledger_entry" where
  "normal n = n\<lparr>en_event := normal_event (en_event n)\<rparr>"

lemma sort_json_idem: "sort_json (sort_json v) = sort_json v"
proof (induction v rule: sort_json.induct)
  case (2 kvs)
  have "map (\<lambda>kv. (fst kv, sort_json (snd kv))) (sort_key fst (map (\<lambda>kv. (fst kv, sort_json (snd kv))) kvs))
      = sort_key fst (map (\<lambda>kv. (fst kv, sort_json (snd kv))) kvs)"
    by (rule map_idI) (use 2 in auto)
  then show ?case by (simp add: sort_key_id_if_sorted)
qed simp_all

lemma has_nan_sort: "has_nan (sort_json v) = has_nan v"
  by (induction v rule: sort_json.induct) (auto simp: list_ex_iff)

lemma canonical_cong: "sort_json v = sort_json w \<Longrightarrow> canonical v = canonical w"
  using has_nan_sort[of v] has_nan_sort[of w] by (simp add: canonical_def)

lemma event_json_normal: "sort_json (event_json env (normal_event e)) = sort_json (event_json env e)"
  using sort_json_idem[of "JObj (le_details e)"] by (simp add: event_json_def normal_event_def sorted_details_def)

lemma entry_digest_normal: "entry_digest env (normal_event e) p = entry_digest env e p"
proof -
  have "canonical (digest_input env (normal_event e) p) = canonical (digest_input env e p)"
    by (rule canonical_cong) (simp add: digest_input_def event_json_normal)
  then show ?thesis by (simp add: entry_digest_def canonical_bytes_def)
qed

text \<open>Pydantic reads a line that the ledger wrote as the entry, with the details in the order of the line.\<close>

definition reads_back :: "ledger_env \<Rightarrow> ledger_entry \<Rightarrow> bool" where
  "reads_back env n = (case canonical (entry_json env n) of None \<Rightarrow> True | Some b \<Rightarrow> ld_decode env b = Some (normal n))"

section \<open>What append builds, verify accepts\<close>

fun chain :: "ledger_env \<Rightarrow> int \<Rightarrow> string \<Rightarrow> ledger_entry list \<Rightarrow> bool" where
  "chain env k p [] = True"
| "chain env k p (n # ns) = (le_sequence (en_event n) = k \<and> en_previous_sha256 n = p \<and>
     entry_digest env (en_event n) p = Inr (en_sha256 n) \<and> chain env (k + 1) (en_sha256 n) ns)"

lemma chain_append: "chain env k p (ns @ [n]) \<longleftrightarrow> chain env k p ns \<and> le_sequence (en_event n) = k + int (length ns) \<and>
    en_previous_sha256 n = (if ns = [] then p else en_sha256 (last ns)) \<and>
    entry_digest env (en_event n) (en_previous_sha256 n) = Inr (en_sha256 n)"
  by (induction ns arbitrary: k p) auto

definition line_ok :: "ledger_env \<Rightarrow> string \<Rightarrow> ledger_entry \<Rightarrow> bool" where
  "line_ok env l n = (canonical (entry_json env n) = Some l \<and> plain l \<and> length l + 1 \<le> ld_max_event_bytes env)"

definition ledger_ok :: "ledger_env \<Rightarrow> string \<Rightarrow> ledger_entry list \<Rightarrow> bool" where
  "ledger_ok env file ns = (\<exists>ls. list_all2 (line_ok env) ls ns \<and> file = ledger_file ls \<and> chain env 0 zero_hash ns \<and>
     length file \<le> ld_max_log_bytes env)"

lemma normal_sel:
  "le_sequence (normal_event e) = le_sequence e" "en_previous_sha256 (normal n) = en_previous_sha256 n"
  "en_sha256 (normal n) = en_sha256 n" "en_event (normal n) = normal_event (en_event n)"
  by (simp_all add: normal_def normal_event_def)

lemma lines_plain: "list_all2 (line_ok env) ls ns \<Longrightarrow> list_all plain ls"
  by (induction rule: list_all2_induct) (simp_all add: line_ok_def)

lemma decode_line: "line_ok env l n \<Longrightarrow> reads_back env n \<Longrightarrow> decode_entry env l = Inr (normal n)"
  by (simp add: line_ok_def reads_back_def decode_entry_def)

lemma verify_lines:
  "list_all2 (line_ok env) ls ns \<Longrightarrow> list_all (reads_back env) ns \<Longrightarrow> chain env k p ns \<Longrightarrow>
     verify_from env k p ls = Inr (map normal ns)"
proof (induction arbitrary: k p rule: list_all2_induct)
  case (Cons l ls n ns)
  moreover have "length l + 1 \<le> ld_max_event_bytes env" using Cons.hyps(1) by (simp add: line_ok_def)
  ultimately show ?case by (simp add: decode_line normal_sel entry_digest_normal)
qed simp

lemma last_entry_ok:
  assumes "ledger_ok env file ns" "list_all (reads_back env) ns" "last_entry env file = Inr previous"
  shows "previous = (if ns = [] then None else Some (normal (last ns)))"
proof -
  obtain ls where ls: "list_all2 (line_ok env) ls ns" "file = ledger_file ls" using assms(1) by (auto simp: ledger_ok_def)
  show ?thesis
  proof (cases "ls = []")
    case True
    then show ?thesis using ls assms(3) by (simp add: last_entry_def)
  next
    case False
    let ?k = "length file - ld_max_event_bytes env"
    have ns: "ns \<noteq> []" using False ls(1) by auto
    note run = assms(3)[unfolded last_entry_def Let_def]
    have two: "?k = 0 \<or> 2 \<le> length (byte_lines (drop ?k file))"
      and d: "bindE (decode_entry env (last (byte_lines (drop ?k file)))) (\<lambda>n. Inr (Some n)) = Inr previous"
      using run ledger_file_last[OF False] by (auto simp: ls(2) not_less split: if_splits)
    have "last (byte_lines (drop ?k file)) = last ls"
      using last_line[OF lines_plain[OF ls(1)] False] two ls(2) by blast
    moreover have "line_ok env (last ls) (last ns)" "reads_back env (last ns)"
      using ls(1) ns assms(2) False by (auto simp: list_all2_conv_all_nth last_conv_nth list_all_iff)
    ultimately show ?thesis using d ns decode_line by simp
  qed
qed

lemma append_event_ok:
  assumes ok: "ledger_ok env file ns" and rb: "list_all (reads_back env) ns"
    and wf: "wf_json (JObj (lq_details q))" and run: "append_event env fresh now q file = Inr (n, file')"
  shows "ledger_ok env file' (ns @ [n]) \<and> le_session_id (en_event n) = lq_session_id q \<and>
    sanitized_details (lq_details q) = Inr (le_details (en_event n))"
proof -
  obtain previous details event digest b where r:
    "last_entry env file = Inr previous" "sanitized_details (lq_details q) = Inr details"
    "AuditEvent \<lparr>le_id = fresh, le_sequence = (case previous of None \<Rightarrow> 0 | Some p \<Rightarrow> le_sequence (en_event p) + 1),
       le_session_id = lq_session_id q, le_correlation_id = lq_correlation_id q, le_event_type = lq_event_type q,
       le_actor = lq_actor q, le_subject_id = lq_subject_id q, le_details = details, le_created_at = now\<rparr> = Inr event"
    "entry_digest env event (case previous of None \<Rightarrow> zero_hash | Some p \<Rightarrow> en_sha256 p) = Inr digest"
    "n = \<lparr>en_event = event, en_previous_sha256 = (case previous of None \<Rightarrow> zero_hash | Some p \<Rightarrow> en_sha256 p), en_sha256 = digest\<rparr>"
    "canonical_bytes (entry_json env n) = Inr b" "length (b @ [newline]) \<le> ld_max_event_bytes env"
    "length file + length (b @ [newline]) \<le> ld_max_log_bytes env" "file' = file @ b @ [newline]"
    using run unfolding append_event_def Let_def res_simps
    by (auto simp: res_simps as_ledger_def not_less split: if_splits sum.splits py_exc.splits)
  have ev: "event = \<lparr>le_id = fresh, le_sequence = (case previous of None \<Rightarrow> 0 | Some p \<Rightarrow> le_sequence (en_event p) + 1),
       le_session_id = lq_session_id q, le_correlation_id = lq_correlation_id q, le_event_type = lq_event_type q,
       le_actor = lq_actor q, le_subject_id = lq_subject_id q, le_details = details, le_created_at = now\<rparr>"
    using r(3) by (auto simp: AuditEvent_def res_simps)
  obtain u where u: "sanitize 0 (JObj (lq_details q)) = Inr u" "(case u of JObj e \<Rightarrow> Inr e | _ \<Rightarrow> Inl TypeError) = Inr details"
    using r(2) unfolding sanitized_details_def bindE_eq_Inr by blast
  have "u = JObj details" using u(2) by (cases u) simp_all
  then have "wf_json (JObj details)" using sanitize_wf(1)[OF wf u(1)] by blast
  then have "wf_json (entry_json env n)"
    by (simp add: entry_json_def event_json_def r(5) ev split: option.split)
  moreover have can: "canonical (entry_json env n) = Some b" using r(6) by (auto simp: canonical_bytes_def split: option.splits)
  ultimately have line: "line_ok env b n" using canonical_plain r(7) by (simp add: line_ok_def)
  obtain ls where ls: "list_all2 (line_ok env) ls ns" "file = ledger_file ls" "chain env 0 zero_hash ns"
    using ok by (auto simp: ledger_ok_def)
  have prev: "previous = (if ns = [] then None else Some (normal (last ns)))" by (rule last_entry_ok[OF ok rb r(1)])
  have "le_sequence (en_event n) = int (length ns)"
  proof (cases ns rule: rev_cases)
    case (snoc ms m)
    then show ?thesis using ls(3) prev by (simp add: r(5) ev chain_append normal_def normal_event_def)
  qed (simp add: r(5) ev prev)
  moreover have "en_previous_sha256 n = (if ns = [] then zero_hash else en_sha256 (last ns))"
    by (simp add: r(5) prev normal_def)
  moreover have "entry_digest env (en_event n) (en_previous_sha256 n) = Inr (en_sha256 n)" using r(4) by (simp add: r(5))
  ultimately have "chain env 0 zero_hash (ns @ [n])" using ls(3) by (simp add: chain_append)
  then have "ledger_ok env file' (ns @ [n])"
    unfolding ledger_ok_def
    by (intro exI[of _ "ls @ [b]"] conjI) (use ls(1) line r(8) in \<open>simp_all add: ls(2) r(9) list_all2_appendI\<close>)
  then show ?thesis using r(2) by (simp add: r(5) ev)
qed

lemma verify_ok:
  assumes "ledger_ok env file ns" "list_all (reads_back env) ns"
  shows "verify env file = Inr (map normal ns)"
proof -
  obtain ls where ls: "list_all2 (line_ok env) ls ns" "file = ledger_file ls" "chain env 0 zero_hash ns"
      "length file \<le> ld_max_log_bytes env"
    using assms(1) by (auto simp: ledger_ok_def)
  have "file = [] \<or> last file = newline" using ledger_file_last[of ls] ls(2) by (cases "ls = []") auto
  then show ?thesis
    using verify_lines[OF ls(1) assms(2) ls(3)] ls(4) byte_lines_file[OF lines_plain[OF ls(1)]] by (auto simp: verify_def ls(2))
qed

text \<open>A run of appends to a new log; \<open>fresh\<close> and \<open>clock\<close> give the identifier and time of each event.\<close>

definition append_all ::
  "ledger_env \<Rightarrow> (nat \<Rightarrow> string) \<Rightarrow> (nat \<Rightarrow> py_datetime) \<Rightarrow> ledger_request list \<Rightarrow> ledger_error + (string \<times> ledger_entry list)" where
  "append_all env fresh clock qs =
     foldE (\<lambda>(file, ns) q. bindE (append_event env (fresh (length ns)) (clock (length ns)) q file) (\<lambda>(n, file').
       Inr (file', ns @ [n]))) ([], []) qs"

definition records_request :: "ledger_request \<Rightarrow> ledger_entry \<Rightarrow> bool" where
  "records_request q n = (le_session_id (en_event n) = lq_session_id q \<and>
     sanitized_details (lq_details q) = Inr (le_details (en_event n)))"

lemma append_all_ok:
  "append_all env fresh clock qs = Inr (file, ns) \<Longrightarrow> list_all (\<lambda>q. wf_json (JObj (lq_details q))) qs \<Longrightarrow>
     list_all (reads_back env) ns \<Longrightarrow> ledger_ok env file ns \<and> list_all2 records_request qs ns"
proof (induction qs arbitrary: "file" ns rule: rev_induct)
  case Nil
  then show ?case by (auto simp: append_all_def ledger_ok_def)
next
  case (snoc q qs)
  obtain f ms n where r: "append_all env fresh clock qs = Inr (f, ms)"
      "append_event env (fresh (length ms)) (clock (length ms)) q f = Inr (n, file)" "ns = ms @ [n]"
    using snoc.prems(1) by (auto simp: append_all_def foldE_append res_simps)
  have "ledger_ok env f ms \<and> list_all2 records_request qs ms"
    by (rule snoc.IH[OF r(1)]) (use snoc.prems(2,3) in \<open>simp_all add: r(3)\<close>)
  moreover have "list_all (reads_back env) ms" "wf_json (JObj (lq_details q))" using snoc.prems(2,3) by (simp_all add: r(3))
  ultimately have "ledger_ok env file (ms @ [n]) \<and> records_request q n" "list_all2 records_request qs ms"
    using append_event_ok[OF _ _ _ r(2)] by (auto simp: records_request_def)
  then show ?case by (simp add: r(3) list_all2_appendI)
qed

text \<open>
  C8: a log built by appending is accepted by \<open>verify\<close>, which returns one entry for each event that
  was appended, in order, each for the session it was appended for and with its details sanitized.
\<close>

theorem append_then_verify:
  assumes "append_all env fresh clock qs = Inr (file, ns)" "list_all (\<lambda>q. wf_json (JObj (lq_details q))) qs"
    and "list_all (reads_back env) ns"
  shows "verify env file = Inr (map normal ns) \<and> list_all2 records_request qs ns"
  using append_all_ok[OF assms] verify_ok[OF _ assms(3)] by blast

section \<open>Tampering\<close>

lemma verify_chain: "verify_from env k p ls = Inr ns \<Longrightarrow> chain env k p ns"
  by (induction ls arbitrary: k p ns) (auto simp: res_simps split: if_splits)

definition details_wf :: "ledger_entry \<Rightarrow> bool" where
  "details_wf n = wf_json (JObj (le_details (en_event n)))"

lemma digest_input_wf: "details_wf n \<Longrightarrow> wf_json (digest_input env (en_event n) p)"
  by (simp add: details_wf_def digest_input_def event_json_def split: option.split)

abbreviation entries_clash :: "ledger_env \<Rightarrow> ledger_entry \<Rightarrow> ledger_entry \<Rightarrow> bool" where
  "entries_clash env n m \<equiv> json_clash (ld_sha256 env) (digest_input env (en_event n) (en_previous_sha256 n))
     (digest_input env (en_event m) (en_previous_sha256 m))"

lemma same_entry_digest:
  assumes "entry_digest env (en_event n) (en_previous_sha256 n) = Inr h" "entry_digest env (en_event m) (en_previous_sha256 m) = Inr h"
    and "details_wf n" "details_wf m" "\<not> entries_clash env n m"
  shows "en_previous_sha256 n = en_previous_sha256 m \<and> same_json (event_json env (en_event n)) (event_json env (en_event m))"
proof -
  obtain x y where x: "canonical (digest_input env (en_event n) (en_previous_sha256 n)) = Some x"
      "canonical (digest_input env (en_event m) (en_previous_sha256 m)) = Some y" "ld_sha256 env x = ld_sha256 env y"
    using assms(1,2) by (auto simp: entry_digest_def canonical_bytes_def res_simps split: option.splits)
  have "same_json (digest_input env (en_event n) (en_previous_sha256 n)) (digest_input env (en_event m) (en_previous_sha256 m))"
    by (rule same_hash_same_json[OF digest_input_wf[OF assms(3)] digest_input_wf[OF assms(4)] x assms(5)])
  note get = same_json_get[OF this[unfolded digest_input_def]]
  show ?thesis using get[of "''previous_sha256''"] get[of "''event''"] by (simp add: dict_get_def same_json_def)
qed

lemma same_event_sequence:
  "same_json (event_json env e) (event_json env f) \<Longrightarrow> le_sequence e = le_sequence f"
proof -
  assume "same_json (event_json env e) (event_json env f)"
  from same_json_get[OF this[unfolded event_json_def], of "''sequence''"] show ?thesis by (simp add: dict_get_def)
qed

definition same_entry :: "ledger_env \<Rightarrow> ledger_entry \<Rightarrow> ledger_entry \<Rightarrow> bool" where
  "same_entry env n m = (same_json (event_json env (en_event n)) (event_json env (en_event m)) \<and>
     en_previous_sha256 n = en_previous_sha256 m \<and> en_sha256 n = en_sha256 m)"

lemma chains_agree:
  "chain env 0 zero_hash ns \<Longrightarrow> chain env 0 zero_hash ms \<Longrightarrow> ns \<noteq> [] \<Longrightarrow> ms \<noteq> [] \<Longrightarrow> list_all details_wf ns \<Longrightarrow>
     list_all details_wf ms \<Longrightarrow> en_sha256 (last ns) = en_sha256 (last ms) \<Longrightarrow>
     (\<And>n m. n \<in> set ns \<Longrightarrow> m \<in> set ms \<Longrightarrow> \<not> entries_clash env n m) \<Longrightarrow> list_all2 (same_entry env) ns ms"
proof (induction ns arbitrary: ms rule: rev_induct)
  case (snoc n ns)
  obtain ms' m where ms: "ms = ms' @ [m]" using snoc.prems(4) by (cases ms rule: rev_cases) auto
  note n = snoc.prems(1)[unfolded chain_append add_0] and m = snoc.prems(2)[unfolded ms chain_append add_0]
  have h: "en_sha256 n = en_sha256 m" using snoc.prems(7) by (simp add: ms)
  have same: "en_previous_sha256 n = en_previous_sha256 m" "same_json (event_json env (en_event n)) (event_json env (en_event m))"
  proof -
    have "\<not> entries_clash env n m" by (rule snoc.prems(8)) (simp_all add: ms)
    moreover have "entry_digest env (en_event n) (en_previous_sha256 n) = Inr (en_sha256 n)"
      "entry_digest env (en_event m) (en_previous_sha256 m) = Inr (en_sha256 n)" "details_wf n" "details_wf m"
      using conjunct2[OF conjunct2[OF conjunct2[OF n]]] conjunct2[OF conjunct2[OF conjunct2[OF m]]] h snoc.prems(5,6) by (auto simp: ms)
    ultimately show "en_previous_sha256 n = en_previous_sha256 m" "same_json (event_json env (en_event n)) (event_json env (en_event m))"
      using same_entry_digest by blast+
  qed
  then have len: "length ns = length ms'" using same_event_sequence[OF same(2)] n m by simp
  have "list_all2 (same_entry env) ns ms'"
  proof (cases "ns = []")
    case True
    then show ?thesis using len by simp
  next
    case ne: False
    then have "ms' \<noteq> []" using len by auto
    then have "en_sha256 (last ns) = en_sha256 (last ms')" using same(1) n m ne by simp
    then show ?thesis using snoc.IH[of ms'] n m ne \<open>ms' \<noteq> []\<close> snoc.prems(5,6,8) by (simp add: ms)
  qed
  moreover have "same_entry env n m" using same h by (simp add: same_entry_def)
  ultimately show ?case by (simp add: ms list_all2_appendI)
qed simp

text \<open>
  C7: whoever keeps the hash of the last entry can tell whether the log was changed: two logs that
  \<open>verify\<close> accepts and that end with the same hash have the same entries from the first to the last, unless
  the canonical bytes of an entry of the one and an entry of the other differ and have the same SHA-256. Nothing can be
  altered, inserted or removed before it.
\<close>

theorem ledger_tamper_evident:
  assumes "verify env file = Inr ns" "verify env other = Inr ms" "ns \<noteq> []" "ms \<noteq> []"
    and "en_sha256 (last ns) = en_sha256 (last ms)" "list_all details_wf ns" "list_all details_wf ms"
    and "\<And>n m. n \<in> set ns \<Longrightarrow> m \<in> set ms \<Longrightarrow> \<not> entries_clash env n m"
  shows "list_all2 (same_entry env) ns ms"
  by (rule chains_agree)
    (use assms verify_chain in \<open>auto simp: verify_def split: if_splits\<close>)

section \<open>A record of the largest size\<close>

lemma last_entry_full:
  assumes "ledger_ok env file ns" "2 \<le> length ns" "canonical (entry_json env (last ns)) = Some b"
    and "length b + 1 = ld_max_event_bytes env"
  shows "last_entry env file = Inl (AuditIntegrityError ''last audit record exceeds its configured size'')"
proof -
  obtain ls where ls: "list_all2 (line_ok env) ls ns" "file = ledger_file ls" using assms(1) by (auto simp: ledger_ok_def)
  have len: "length ls = length ns" using list_all2_lengthD[OF ls(1)] .
  have "ls \<noteq> []" using len assms(2) by auto
  then obtain l ms where ms: "ls = ms @ [l]" by (metis rev_exhaust)
  have mne: "ms \<noteq> []" using len assms(2) ms by auto
  have "line_ok env (last ls) (last ns)"
    using list_all2_nthD[OF ls(1), of "length ls - 1"] assms(2) len
    by (simp add: last_conv_nth) (metis last_conv_nth length_0_conv not_numeral_le_zero One_nat_def diff_less less_numeral_extra(1)
        less_le_trans pos2)
  then have l: "l = b" "plain b" using assms(3) ms by (auto simp: line_ok_def)
  have f: "file = ledger_file ms @ b @ [newline]" by (simp add: ls(2) ms l)
  have "ledger_file ms \<noteq> []" using ledger_file_last[OF mne] by simp
  moreover have "length file - ld_max_event_bytes env = length (ledger_file ms)" using f assms(4) by simp
  moreover have "byte_lines (drop (length (ledger_file ms)) file) = [b]"
    using byte_lines_line[OF l(2), of "[]"] by (simp add: f)
  ultimately show ?thesis by (simp add: last_entry_def f)
qed

text \<open>
  \<open>append\<close> accepts a record of exactly \<open>max_event_bytes\<close>, and \<open>verify\<close> accepts the log with it, but
  when it is not the first record no later event can be appended: the log refuses its own last line.
\<close>

theorem full_record_stops_ledger:
  assumes "append_all env fresh clock qs = Inr (file, ns)" "list_all (\<lambda>q. wf_json (JObj (lq_details q))) qs"
    and "list_all (reads_back env) ns" "2 \<le> length ns"
    and "canonical (entry_json env (last ns)) = Some b" "length b + 1 = ld_max_event_bytes env"
  shows "verify env file = Inr (map normal ns) \<and>
    append_event env i now q file = Inl (AuditIntegrityError ''last audit record exceeds its configured size'')"
proof -
  have ok: "ledger_ok env file ns" using append_all_ok[OF assms(1-3)] by blast
  have "length file \<le> ld_max_log_bytes env" using ok by (auto simp: ledger_ok_def)
  then show ?thesis using last_entry_full[OF ok assms(4-6)] verify_ok[OF ok assms(3)] by (simp add: append_event_def)
qed

section \<open>A log of two events\<close>

text \<open>The second event is padded so that its line has the smallest limit that the ledger accepts, 1024 bytes.\<close>

definition epoch :: py_datetime where
  "epoch = \<lparr>dt_instant = 0, dt_offset = Some 0\<rparr>"

definition padding :: "nat \<Rightarrow> json dict" where
  "padding n = [(''p'', JStr (replicate n (CHR ''p'')))]"

definition demo_entry :: "int \<Rightarrow> nat \<Rightarrow> string \<Rightarrow> ledger_entry" where
  "demo_entry k n prev = \<lparr>en_event = \<lparr>le_id = ''e'', le_sequence = k, le_session_id = ''s'', le_correlation_id = ''k'',
     le_event_type = ''a.b'', le_actor = ''x'', le_subject_id = None, le_details = padding n, le_created_at = epoch\<rparr>,
     en_previous_sha256 = prev, en_sha256 = ''h''\<rparr>"

definition blank_ledger :: ledger_env where
  "blank_ledger = \<lparr>ld_sha256 = (\<lambda>_. ''h''), ld_isotime = (\<lambda>_. []), ld_decode = (\<lambda>_. None), ld_max_log_bytes = 4096,
     ld_max_event_bytes = 1024\<rparr>"

definition demo_bytes :: "ledger_entry \<Rightarrow> string" where
  "demo_bytes n = utf8_encode (json_raw (sort_json (entry_json blank_ledger n)))"

definition full_padding :: nat where
  "full_padding = 1023 - length (demo_bytes (demo_entry 1 0 ''h''))"

definition demo_entries :: "ledger_entry list" where
  "demo_entries = [demo_entry 0 0 zero_hash, demo_entry 1 full_padding ''h'']"

definition demo_ledger :: ledger_env where
  "demo_ledger = blank_ledger\<lparr>ld_decode := map_of (map (\<lambda>n. (demo_bytes n, normal n)) demo_entries)\<rparr>"

definition demo_ledger_request :: "nat \<Rightarrow> ledger_request" where
  "demo_ledger_request n = \<lparr>lq_session_id = ''s'', lq_correlation_id = ''k'', lq_event_type = ''a.b'', lq_actor = ''x'',
     lq_subject_id = None, lq_details = padding n\<rparr>"

lemma demo_ledger_sel [simp]: "ld_sha256 demo_ledger = (\<lambda>_. ''h'')" "ld_max_log_bytes demo_ledger = 4096"
  "ld_max_event_bytes demo_ledger = 1024" "ld_decode demo_ledger = map_of (map (\<lambda>n. (demo_bytes n, normal n)) demo_entries)"
  by (simp_all add: demo_ledger_def blank_ledger_def)

lemma demo_json: "entry_json demo_ledger n = entry_json blank_ledger n"
  by (simp add: entry_json_def event_json_def demo_ledger_def)

lemma demo_canonical: "canonical (entry_json demo_ledger (demo_entry k n prev)) = Some (demo_bytes (demo_entry k n prev))"
  by (simp add: demo_json canonical_def demo_bytes_def) (simp add: entry_json_def event_json_def demo_entry_def padding_def)

lemma utf8_append: "utf8_encode (s @ t) = utf8_encode s @ utf8_encode t"
  by (simp add: utf8_encode_def)

lemma utf8_Cons: "utf8_encode (c # s) = utf8_char c @ utf8_encode s"
  by (simp add: utf8_encode_def)

lemma utf8_pad: "utf8_encode (raw_str (replicate n (CHR ''p''))) = dquote # replicate n (CHR ''p'') @ [dquote]"
proof -
  have "concat (map esc_raw (replicate n (CHR ''p''))) = replicate n (CHR ''p'')"
    by (induction n) (simp_all add: esc_raw_def esc_char_def code_of_def)
  moreover have "utf8_encode (replicate n (CHR ''p'')) = replicate n (CHR ''p'')"
    by (induction n) (simp_all add: utf8_encode_def utf8_char_def code_of_def)
  ultimately show ?thesis by (simp add: raw_str_def utf8_append utf8_Cons utf8_char_def code_of_def utf8_encode_def[of "[]"])
qed

lemma demo_length: "length (demo_bytes (demo_entry k n prev)) = length (demo_bytes (demo_entry k 0 prev)) + n"
  using utf8_pad[of 0]
  by (simp add: demo_bytes_def entry_json_def event_json_def demo_entry_def padding_def utf8_append utf8_Cons utf8_pad)

lemma demo_short: "length (demo_bytes (demo_entry 0 0 zero_hash)) \<le> 1000" "length (demo_bytes (demo_entry 1 0 ''h'')) \<le> 1000"
  by code_simp+

lemma demo_full: "length (demo_bytes (demo_entry 1 full_padding ''h'')) = 1023"
  using demo_length[of 1 full_padding "''h''"] demo_short(2) full_padding_def by linarith

lemma demo_details: "sanitized_details (padding n) = Inr (padding (min n 4096))"
proof -
  have "\<not> sensitive_key ''p''" by code_simp
  then show ?thesis by (simp add: sanitized_details_def padding_def dict_of_pairs_distinct take_replicate)
qed

lemma demo_append_event:
  assumes "last_entry demo_ledger bytes = Inr previous" "n \<le> 4096" "length bytes + 1024 \<le> 4096"
    and "k = (case previous of None \<Rightarrow> 0 | Some p \<Rightarrow> le_sequence (en_event p) + 1)" "0 \<le> k"
    and "prev = (case previous of None \<Rightarrow> zero_hash | Some p \<Rightarrow> en_sha256 p)"
    and "length (demo_bytes (demo_entry k n prev)) + 1 \<le> 1024"
  shows "append_event demo_ledger ''e'' epoch (demo_ledger_request n) bytes
    = Inr (demo_entry k n prev, bytes @ demo_bytes (demo_entry k n prev) @ [newline])"
proof -
  have ok: "event_type_ok ''a.b''" "actor ''x''" by code_simp+
  have d: "sanitized_details (lq_details (demo_ledger_request n)) = Inr (padding n)"
    using assms(2) by (simp add: demo_ledger_request_def demo_details)
  let ?event = "en_event (demo_entry k n prev)"
  have ev: "AuditEvent \<lparr>le_id = ''e'', le_sequence = k, le_session_id = ''s'', le_correlation_id = ''k'', le_event_type = ''a.b'',
      le_actor = ''x'', le_subject_id = None, le_details = padding n, le_created_at = epoch\<rparr> = Inr ?event"
    using assms(5) by (simp add: AuditEvent_def ok has_timezone_def epoch_def demo_entry_def)
  have dig: "entry_digest demo_ledger ?event prev = Inr ''h''"
    by (simp add: entry_digest_def canonical_bytes_def canonical_def digest_input_def event_json_def demo_entry_def padding_def)
  have b: "canonical_bytes (entry_json demo_ledger (demo_entry k n prev)) = Inr (demo_bytes (demo_entry k n prev))"
    by (simp add: canonical_bytes_def demo_canonical)
  show ?thesis
    unfolding append_event_def assms(1) d using assms(3,7)
    by (simp add: as_ledger_def demo_ledger_request_def ev dig b assms(4)[symmetric] assms(6)[symmetric] Let_def)
      (use ev dig b assms(6) in \<open>simp add: demo_entry_def\<close>)
qed

lemma demo_plain: "plain (demo_bytes (demo_entry k n prev))"
proof -
  have "wf_json (entry_json demo_ledger (demo_entry k n prev))"
    by (simp add: entry_json_def event_json_def demo_entry_def padding_def)
  then show ?thesis using canonical_plain[OF _ demo_canonical] by blast
qed

lemma demo_first: "append_event demo_ledger ''e'' epoch (demo_ledger_request 0) []
    = Inr (demo_entry 0 0 zero_hash, demo_bytes (demo_entry 0 0 zero_hash) @ [newline])"
  using demo_append_event[of "[]" None 0 0 zero_hash] demo_short(1) by (simp add: last_entry_def)

lemma demo_second: "append_event demo_ledger ''e'' epoch (demo_ledger_request full_padding) (demo_bytes (demo_entry 0 0 zero_hash) @ [newline])
    = Inr (demo_entry 1 full_padding ''h'', (demo_bytes (demo_entry 0 0 zero_hash) @ [newline])
        @ demo_bytes (demo_entry 1 full_padding ''h'') @ [newline])"
proof (rule demo_append_event)
  let ?line = "demo_bytes (demo_entry 0 0 zero_hash)"
  have "byte_lines (?line @ [newline]) = [?line]" using byte_lines_line[OF demo_plain, of 0 0 zero_hash "[]"] by simp
  moreover have "ld_decode demo_ledger ?line = Some (normal (demo_entry 0 0 zero_hash))" by (simp add: demo_entries_def)
  ultimately show "last_entry demo_ledger (?line @ [newline]) = Inr (Some (normal (demo_entry 0 0 zero_hash)))"
    using demo_short(1) by (simp add: last_entry_def decode_entry_def)
qed (use demo_short(1) demo_full in \<open>simp_all add: full_padding_def normal_sel demo_entry_def\<close>)

lemma demo_log: "append_all demo_ledger (\<lambda>_. ''e'') (\<lambda>_. epoch) [demo_ledger_request 0, demo_ledger_request full_padding]
    = Inr ((demo_bytes (demo_entry 0 0 zero_hash) @ [newline]) @ demo_bytes (demo_entry 1 full_padding ''h'') @ [newline], demo_entries)"
  unfolding append_all_def foldE.simps by (simp add: demo_first demo_second[simplified] demo_entries_def)

lemma demo_bytes_differ: "demo_bytes (demo_entry 0 0 zero_hash) \<noteq> demo_bytes (demo_entry 1 full_padding ''h'')"
  using demo_short(1) demo_full by auto

lemma demo_reads_back: "list_all (reads_back demo_ledger) demo_entries"
  using demo_bytes_differ by (simp add: demo_entries_def reads_back_def demo_canonical)

lemma demo_requests_wf: "list_all (\<lambda>q. wf_json (JObj (lq_details q))) [demo_ledger_request 0, demo_ledger_request full_padding]"
  by (simp add: demo_ledger_request_def padding_def)

theorem append_then_verify_witness:
  "\<exists>log. append_all demo_ledger (\<lambda>_. ''e'') (\<lambda>_. epoch) [demo_ledger_request 0, demo_ledger_request full_padding] = Inr (log, demo_entries) \<and>
     verify demo_ledger log = Inr (map normal demo_entries)"
  using demo_log append_then_verify[OF demo_log demo_requests_wf demo_reads_back] by blast

theorem full_record_stops_ledger_witness:
  "\<exists>log. verify demo_ledger log = Inr (map normal demo_entries) \<and>
     append_event demo_ledger ''e'' epoch (demo_ledger_request 0) log
       = Inl (AuditIntegrityError ''last audit record exceeds its configured size'')"
proof -
  have "2 \<le> length demo_entries" "canonical (entry_json demo_ledger (last demo_entries)) = Some (demo_bytes (last demo_entries))"
    "length (demo_bytes (last demo_entries)) + 1 = ld_max_event_bytes demo_ledger"
    by (simp_all add: demo_entries_def demo_canonical demo_full)
  then show ?thesis
    using full_record_stops_ledger[OF demo_log demo_requests_wf demo_reads_back] by blast
qed

text \<open>Two files, with the keys of the details in different orders, and a hash that is one-to-one.\<close>

definition reordered_event :: "int \<Rightarrow> ledger_event" where
  "reordered_event k = (en_event (demo_entry k 0 []))\<lparr>le_details := [(''q'', JNull), (''p'', JNull)]\<rparr>"

definition digest_text :: "ledger_event \<Rightarrow> string \<Rightarrow> string" where
  "digest_text e p = utf8_encode (json_raw (sort_json (digest_input blank_ledger e p)))"

definition reordered_entries :: "ledger_entry list" where
  "reordered_entries = (let d = digest_text (reordered_event 0) zero_hash in
     [\<lparr>en_event = reordered_event 0, en_previous_sha256 = zero_hash, en_sha256 = d\<rparr>,
      \<lparr>en_event = reordered_event 1, en_previous_sha256 = d, en_sha256 = digest_text (reordered_event 1) d\<rparr>])"

definition plain_ledger :: ledger_env where
  "plain_ledger = blank_ledger\<lparr>ld_sha256 := id,
     ld_decode := map_of (zip [''a'', ''b'', ''c'', ''d''] (reordered_entries @ map normal reordered_entries))\<rparr>"

lemma reordered_digest: "entry_digest plain_ledger (reordered_event k) p = Inr (digest_text (reordered_event k) p)"
  by (simp add: entry_digest_def canonical_bytes_def canonical_def digest_text_def digest_input_def event_json_def plain_ledger_def
      blank_ledger_def reordered_event_def demo_entry_def)

lemma reordered_verified:
  "verify plain_ledger (''a'' @ [newline] @ ''b'' @ [newline]) = Inr reordered_entries"
  "verify plain_ledger (''c'' @ [newline] @ ''d'' @ [newline]) = Inr (map normal reordered_entries)"
proof -
  have "byte_lines (''a'' @ [newline] @ ''b'' @ [newline]) = [''a'', ''b'']" "byte_lines (''c'' @ [newline] @ ''d'' @ [newline]) = [''c'', ''d'']"
    by code_simp+
  moreover have "le_sequence (reordered_event k) = k" for k by (simp add: reordered_event_def demo_entry_def)
  moreover have "ld_max_log_bytes plain_ledger = 4096" "ld_max_event_bytes plain_ledger = 1024"
    "ld_decode plain_ledger = map_of (zip [''a'', ''b'', ''c'', ''d''] (reordered_entries @ map normal reordered_entries))"
    by (simp_all add: plain_ledger_def blank_ledger_def)
  ultimately show "verify plain_ledger (''a'' @ [newline] @ ''b'' @ [newline]) = Inr reordered_entries"
    "verify plain_ledger (''c'' @ [newline] @ ''d'' @ [newline]) = Inr (map normal reordered_entries)"
    by (simp_all add: verify_def decode_entry_def reordered_entries_def reordered_digest Let_def normal_sel entry_digest_normal)
qed

theorem ledger_tamper_evident_witness:
  "reordered_entries \<noteq> map normal reordered_entries \<and>
   list_all2 (same_entry plain_ledger) reordered_entries (map normal reordered_entries)"
proof -
  have "\<not> entries_clash plain_ledger n m" for n m by (rule clash_free_inj) (simp add: plain_ledger_def)
  moreover have "list_all details_wf reordered_entries" "list_all details_wf (map normal reordered_entries)"
      "en_sha256 (last reordered_entries) = en_sha256 (last (map normal reordered_entries))" "reordered_entries \<noteq> []"
    by (simp_all add: reordered_entries_def Let_def details_wf_def normal_sel normal_event_def sorted_details_def reordered_event_def)
  moreover have "le_details (normal_event (reordered_event 0)) \<noteq> le_details (reordered_event 0)"
    by (simp add: normal_event_def sorted_details_def reordered_event_def)
  then have "reordered_entries \<noteq> map normal reordered_entries" by (auto simp: reordered_entries_def Let_def normal_def)
  ultimately show ?thesis using ledger_tamper_evident[OF reordered_verified] by simp
qed

end
