(* ===== verification/ControlStore.thy ===== *)
theory ControlStore
  imports AgentSchemas CanonicalJson "HOL-Library.Product_Lexorder"
begin

text \<open>
  The control plane's database and its model catalogue (\<open>zeaz_control/models.py\<close>). The database is a
  record with one association list for each table, in the order of insertion and with distinct
  keys; a row's payload is of a type of its own, which a codec (Pydantic's \<open>model_dump_json\<close> and
  \<open>model_validate_json\<close>) writes and reads. A transaction is a function from the database to an error,
  after which it is rolled back, or to the database it commits. The checks of the database file's
  owner and mode are not modelled.
\<close>

section \<open>Names and errors\<close>

datatype control_error = BatchError string | IdempotencyConflict string | FileError string | UsageError string
  | ControlRuntimeError string | ControlValueError string | IntegrityError | AdapterError string

definition control_identifier :: "string \<Rightarrow> bool" where
  "control_identifier s = (s \<noteq> [] \<and> length s \<le> 256 \<and> ascii_alnum (hd s) \<and> list_all (\<lambda>c. ascii_alnum c \<or> c \<in> set ''_.:/-'') (tl s))"

definition lower_or_digit :: "char \<Rightarrow> bool" where
  "lower_or_digit c = (97 \<le> code_of c \<and> code_of c \<le> 122 \<or> is_digit c)"

definition provider_name :: "string \<Rightarrow> bool" where
  "provider_name s = (s \<noteq> [] \<and> length s \<le> 64 \<and> lower_or_digit (hd s) \<and> \<not> is_digit (hd s) \<and>
     list_all (\<lambda>c. lower_or_digit c \<or> c \<in> set ''_-'') (tl s))"

definition extension_field :: "string \<Rightarrow> bool" where
  "extension_field s = (s \<noteq> [] \<and> length s \<le> 64 \<and> lower_or_digit (hd s) \<and> \<not> is_digit (hd s) \<and>
     list_all (\<lambda>c. lower_or_digit c \<or> c \<in> set ''_.-'') (tl s))"

text \<open>\<open>ProviderExtendedModel\<close>: the extensions are at most eight dictionaries, all under the provider's name.\<close>

type_synonym extensions = "json dict dict"

definition extensions_ok :: "string \<Rightarrow> extensions \<Rightarrow> bool" where
  "extensions_ok provider exts =
     (provider_name provider \<and> length exts \<le> 8 \<and>
      list_all (\<lambda>(namespace, entries). provider_name namespace \<and> list_all (\<lambda>kv. extension_field (fst kv)) entries) exts \<and>
      list_all (\<lambda>kv. fst kv = provider) exts)"

definition extensions_json :: "extensions \<Rightarrow> json" where
  "extensions_json exts = JObj (map (\<lambda>kv. (fst kv, JObj (snd kv))) exts)"

definition control_check :: "bool \<Rightarrow> control_error \<Rightarrow> control_error + unit" where
  "control_check ok e = (if ok then Inr () else Inl e)"

lemma control_check_Inr [res_simps]: "control_check ok e = Inr u \<longleftrightarrow> ok"
  by (simp add: control_check_def)

lemma control_check_Inl [res_simps]: "control_check ok e = Inl x \<longleftrightarrow> \<not> ok \<and> x = e"
  by (auto simp: control_check_def)

lemma control_check_simps [simp]: "control_check True e = Inr ()" "control_check False e = Inl e"
  by (simp_all add: control_check_def)

section \<open>The database\<close>

text \<open>A codec of rows; \<open>codec_sound\<close> is what Pydantic documents of a model it wrote itself.\<close>

record ('a, 'p) row_codec =
  rc_dump :: "'a \<Rightarrow> 'p"
  rc_validate :: "'p \<Rightarrow> 'a option"

definition codec_sound :: "('a, 'p) row_codec \<Rightarrow> bool" where
  "codec_sound c = (\<forall>x. rc_validate c (rc_dump c x) = Some x)"

lemma codec_sound_back [simp]: "codec_sound c \<Longrightarrow> rc_validate c (rc_dump c x) = Some x"
  by (simp add: codec_sound_def)

record audit_row =
  au_id :: string
  au_event_type :: string
  au_subject_id :: string
  au_details_json :: string
  au_created_at :: string

record 'p idempotency_row =
  ir_request_sha256 :: string
  ir_completed :: bool
  ir_response :: "'p option"
  ir_created_at :: string
  ir_completed_at :: "string option"

record 'p control_db =
  db_models :: "((string \<times> string \<times> string \<times> string) \<times> 'p) list"
  db_audit :: "audit_row list"
  db_files :: "((string \<times> string \<times> string) \<times> 'p) list"
  db_batches :: "((string \<times> string \<times> string) \<times> 'p) list"
  db_idempotency :: "((string \<times> string \<times> string \<times> string) \<times> 'p idempotency_row) list"
  db_usage :: "(string \<times> 'p) list"
  db_costs :: "(string \<times> string \<times> 'p) list"

definition empty_db :: "'p control_db" where
  "empty_db = \<lparr>db_models = [], db_audit = [], db_files = [], db_batches = [], db_idempotency = [], db_usage = [], db_costs = []\<rparr>"

text \<open>
  \<open>_append_audit\<close>: the identifier is unique in the table. The sequence number of a row is its
  position, since rows are only ever added at the end.
\<close>

definition append_audit ::
  "(py_datetime \<Rightarrow> string) \<Rightarrow> string \<Rightarrow> string \<Rightarrow> string \<Rightarrow> json dict \<Rightarrow> py_datetime \<Rightarrow> 'p control_db \<Rightarrow> control_error + 'p control_db" where
  "append_audit isotime event_id event_type subject_id details created_at db =
     (if event_id \<in> set (map au_id (db_audit db)) then Inl IntegrityError
      else Inr (db\<lparr>db_audit := db_audit db @ [\<lparr>au_id = event_id, au_event_type = event_type, au_subject_id = subject_id,
          au_details_json = json_dumps (sort_json (JObj details)), au_created_at = isotime created_at\<rparr>]\<rparr>))"

text \<open>The scope of a record in a subject: its parts, joined by colons.\<close>

definition scope_text :: "string list \<Rightarrow> string" where
  "scope_text parts = py_join '':'' parts"

lemma append_audit_Inr [res_simps]:
  "append_audit isotime i ty sid details now db = Inr db' \<longleftrightarrow>
     i \<notin> set (map au_id (db_audit db)) \<and>
     db' = db\<lparr>db_audit := db_audit db @ [\<lparr>au_id = i, au_event_type = ty, au_subject_id = sid,
          au_details_json = json_dumps (sort_json (JObj details)), au_created_at = isotime now\<rparr>]\<rparr>"
  by (auto simp: append_audit_def)

section \<open>Models\<close>

datatype catalogue_lifecycle = ActiveModel | DeprecatedModel | RetiredModel | UnknownModel

definition lifecycle_value :: "catalogue_lifecycle \<Rightarrow> string" where
  "lifecycle_value l = (case l of ActiveModel \<Rightarrow> ''active'' | DeprecatedModel \<Rightarrow> ''deprecated''
     | RetiredModel \<Rightarrow> ''retired'' | UnknownModel \<Rightarrow> ''unknown'')"

record discovered_model =
  dm_provider :: string
  dm_extensions :: extensions
  dm_account :: string
  dm_region :: string
  dm_model :: string
  dm_lifecycle :: catalogue_lifecycle
  dm_capabilities :: "json dict"
  dm_source :: string
  dm_observed_at :: py_datetime

definition DiscoveredModel :: "discovered_model \<Rightarrow> control_error + discovered_model" where
  "DiscoveredModel m =
     bindE (control_check (extensions_ok (dm_provider m) (dm_extensions m))
       (ControlValueError ''extensions must use the record provider namespace'')) (\<lambda>_.
     bindE (control_check (control_identifier (dm_account m) \<and> control_identifier (dm_region m) \<and> control_identifier (dm_model m))
       (ControlValueError ''identifier'')) (\<lambda>_.
     bindE (control_check (text_between 1 256 (dm_source m)) (ControlValueError ''source'')) (\<lambda>_.
     bindE (control_check (has_timezone (dm_observed_at m)) (ControlValueError ''observed_at must include a UTC offset'')) (\<lambda>_.
     Inr m))))"

record model_record =
  md_model :: discovered_model
  md_revision :: int
  md_missing_observations :: int
  md_reconciled_at :: py_datetime

text \<open>The fields of a model that are compared, as \<open>model_dump\<close> gives them without \<open>observed_at\<close>.\<close>

definition comparable :: "discovered_model \<Rightarrow> json" where
  "comparable m = JObj [(''provider'', JStr (dm_provider m)), (''extensions'', extensions_json (dm_extensions m)),
     (''schema_version'', JStr ''1''), (''account'', JStr (dm_account m)), (''region'', JStr (dm_region m)),
     (''model'', JStr (dm_model m)), (''lifecycle'', JStr (lifecycle_value (dm_lifecycle m))),
     (''capabilities'', JObj (dm_capabilities m)), (''source'', JStr (dm_source m))]"

record reconciliation =
  rn_discovered :: int
  rn_created :: int
  rn_updated :: int
  rn_unchanged :: int
  rn_missing :: int
  rn_retired :: int

definition reconciliation_details :: "reconciliation \<Rightarrow> json dict" where
  "reconciliation_details n = [(''discovered'', JInt (rn_discovered n)), (''created'', JInt (rn_created n)),
     (''updated'', JInt (rn_updated n)), (''unchanged'', JInt (rn_unchanged n)), (''missing'', JInt (rn_missing n)),
     (''retired'', JInt (rn_retired n))]"

type_synonym 'p model_table = "((string \<times> string \<times> string \<times> string) \<times> 'p) list"

definition model_key :: "discovered_model \<Rightarrow> string \<times> string \<times> string \<times> string" where
  "model_key m = (dm_provider m, dm_account m, dm_region m, dm_model m)"

definition in_scope :: "string \<Rightarrow> string \<Rightarrow> string \<Rightarrow> string \<times> string \<times> string \<times> string \<Rightarrow> bool" where
  "in_scope provider account region k = (case k of (p, a, r, _) \<Rightarrow> (p, a, r) = (provider, account, region))"

text \<open>\<open>existing\<close>: the catalogue's records of the scope, by model.\<close>

definition existing_models ::
  "(model_record, 'p) row_codec \<Rightarrow> string \<Rightarrow> string \<Rightarrow> string \<Rightarrow> 'p model_table \<Rightarrow> control_error + model_record dict" where
  "existing_models codec provider account region rows =
     mapE (\<lambda>((_, _, _, model), payload). case rc_validate codec payload of
         None \<Rightarrow> Inl (ControlRuntimeError ''stored model record is invalid'')
       | Some r \<Rightarrow> Inr (model, r))
       (filter (\<lambda>row. in_scope provider account region (fst row)) rows)"

text \<open>One pass of the loop over the discovered models, and one of the loop over those that are missing.\<close>

definition observed_model_record :: "model_record option \<Rightarrow> py_datetime \<Rightarrow> discovered_model \<Rightarrow> model_record" where
  "observed_model_record previous reconciled_at m =
     \<lparr>md_model = m,
       md_revision = (case previous of None \<Rightarrow> 1
         | Some r \<Rightarrow> if py_eq (comparable (md_model r)) (comparable m) \<and> md_missing_observations r = 0
             then md_revision r else md_revision r + 1),
       md_missing_observations = 0, md_reconciled_at = reconciled_at\<rparr>"

definition count_observed :: "model_record option \<Rightarrow> discovered_model \<Rightarrow> reconciliation \<Rightarrow> reconciliation" where
  "count_observed previous m n = (case previous of
     None \<Rightarrow> n\<lparr>rn_created := rn_created n + 1\<rparr>
   | Some r \<Rightarrow> if py_eq (comparable (md_model r)) (comparable m) \<and> md_missing_observations r = 0
       then n\<lparr>rn_unchanged := rn_unchanged n + 1\<rparr> else n\<lparr>rn_updated := rn_updated n + 1\<rparr>)"

definition observe_model ::
  "(model_record, 'p) row_codec \<Rightarrow> py_datetime \<Rightarrow> model_record dict \<Rightarrow> discovered_model
     \<Rightarrow> 'p model_table \<times> reconciliation \<Rightarrow> 'p model_table \<times> reconciliation" where
  "observe_model codec reconciled_at existing m x =
     (AList.update (model_key m) (rc_dump codec (observed_model_record (dict_get existing (dm_model m)) reconciled_at m)) (fst x),
      count_observed (dict_get existing (dm_model m)) m (snd x))"

definition retires :: "int \<Rightarrow> model_record \<Rightarrow> bool" where
  "retires retire_after r = (md_missing_observations r + 1 \<ge> retire_after \<and> dm_lifecycle (md_model r) \<noteq> RetiredModel)"

definition missed_record :: "int \<Rightarrow> py_datetime \<Rightarrow> model_record \<Rightarrow> model_record" where
  "missed_record retire_after reconciled_at r =
     r\<lparr>md_model := (if retires retire_after r then (md_model r)\<lparr>dm_lifecycle := RetiredModel\<rparr> else md_model r),
       md_missing_observations := md_missing_observations r + 1, md_revision := md_revision r + 1,
       md_reconciled_at := reconciled_at\<rparr>"

definition miss_model ::
  "(model_record, 'p) row_codec \<Rightarrow> int \<Rightarrow> py_datetime \<Rightarrow> string \<times> string \<times> string \<Rightarrow> discovered_model list
     \<Rightarrow> string \<times> model_record \<Rightarrow> 'p model_table \<times> reconciliation \<Rightarrow> 'p model_table \<times> reconciliation" where
  "miss_model codec retire_after reconciled_at scope discovered mr x =
     (case (scope, mr) of ((p, a, g), (model, r)) \<Rightarrow>
        if model \<in> set (map dm_model discovered) then x
        else (AList.update (p, a, g, model) (rc_dump codec (missed_record retire_after reconciled_at r)) (fst x),
          (snd x)\<lparr>rn_missing := rn_missing (snd x) + 1,
            rn_retired := rn_retired (snd x) + (if retires retire_after r then 1 else 0)\<rparr>))"

definition reconcile_models ::
  "(model_record, 'p) row_codec \<Rightarrow> (py_datetime \<Rightarrow> string) \<Rightarrow> string \<Rightarrow> discovered_model list \<Rightarrow> string \<Rightarrow> string \<Rightarrow> string
     \<Rightarrow> int \<Rightarrow> py_datetime \<Rightarrow> 'p control_db \<Rightarrow> control_error + reconciliation \<times> 'p control_db" where
  "reconcile_models codec isotime fresh discovered provider account region retire_after reconciled_at db =
     bindE (control_check (1 \<le> retire_after \<and> retire_after \<le> 100)
       (ControlValueError ''retire_after_missing must be between 1 and 100'')) (\<lambda>_.
     bindE (control_check (has_timezone reconciled_at) (ControlValueError ''reconciled_at must include a UTC offset'')) (\<lambda>_.
     bindE (control_check (distinct (map dm_model discovered)) (ControlValueError ''discovery contains duplicate model IDs'')) (\<lambda>_.
     bindE (control_check (list_all (\<lambda>m. (dm_provider m, dm_account m, dm_region m) = (provider, account, region)) discovered)
       (ControlValueError ''discovery scope does not match its adapter'')) (\<lambda>_.
     bindE (existing_models codec provider account region (db_models db)) (\<lambda>existing.
     let none = \<lparr>rn_discovered = int (length discovered), rn_created = 0, rn_updated = 0, rn_unchanged = 0, rn_missing = 0, rn_retired = 0\<rparr>;
         x = fold (observe_model codec reconciled_at existing) discovered (db_models db, none);
         y = fold (miss_model codec retire_after reconciled_at (provider, account, region) discovered) existing x
     in bindE (append_audit isotime fresh ''control.models.reconciled'' (scope_text [provider, account, region])
            (reconciliation_details (snd y)) reconciled_at (db\<lparr>db_models := fst y\<rparr>)) (\<lambda>db'.
        Inr (snd y, db')))))))"

section \<open>Pages\<close>

text \<open>
  The loop over the pages of a provider's list, which \<open>ModelReconciler.refresh\<close> and
  \<open>BatchService.refresh\<close> share: \<open>list_page\<close> is the adapter's answer to its n-th call, and \<open>item_check\<close>
  what is checked of an item before it is kept.
\<close>

record 'a page =
  pg_items :: "'a list"
  pg_next_cursor :: "string option"

record page_errors =
  pe_duplicate :: control_error
  pe_item_limit :: control_error
  pe_repeated :: control_error
  pe_page_limit :: control_error

definition keep_item ::
  "('a \<Rightarrow> control_error + unit) \<Rightarrow> ('a \<Rightarrow> string) \<Rightarrow> page_errors \<Rightarrow> int \<Rightarrow> 'a list \<Rightarrow> 'a \<Rightarrow> control_error + 'a list" where
  "keep_item item_check ident errs max_items items x =
     bindE (item_check x) (\<lambda>_.
     bindE (control_check (ident x \<notin> set (map ident items)) (pe_duplicate errs)) (\<lambda>_.
     bindE (control_check (\<not> int (length (items @ [x])) > max_items) (pe_item_limit errs)) (\<lambda>_.
     Inr (items @ [x]))))"

fun collect_pages ::
  "('a \<Rightarrow> control_error + unit) \<Rightarrow> ('a \<Rightarrow> string) \<Rightarrow> page_errors \<Rightarrow> int \<Rightarrow> (nat \<Rightarrow> string option \<Rightarrow> control_error + 'a page)
     \<Rightarrow> nat \<Rightarrow> nat \<Rightarrow> string option \<Rightarrow> string list \<Rightarrow> 'a list \<Rightarrow> control_error + 'a list" where
  "collect_pages item_check ident errs max_items list_page i 0 cursor cursors items = Inl (pe_page_limit errs)"
| "collect_pages item_check ident errs max_items list_page i (Suc n) cursor cursors items =
     bindE (list_page i cursor) (\<lambda>page.
     bindE (foldE (keep_item item_check ident errs max_items) items (pg_items page)) (\<lambda>items.
     case pg_next_cursor page of
       None \<Rightarrow> Inr items
     | Some c \<Rightarrow>
         if c \<in> set cursors then Inl (pe_repeated errs)
         else collect_pages item_check ident errs max_items list_page (i + 1) n (Some c) (c # cursors) items))"

record model_reconciler =
  ml_page_size :: int
  ml_max_pages :: int
  ml_max_models :: int
  ml_retire_after_missing :: int

definition ModelReconciler :: "model_reconciler \<Rightarrow> control_error + model_reconciler" where
  "ModelReconciler c =
     bindE (control_check (1 \<le> ml_page_size c \<and> ml_page_size c \<le> 1000) (ControlValueError ''page_size must be between 1 and 1000'')) (\<lambda>_.
     bindE (control_check (1 \<le> ml_max_pages c \<and> ml_max_pages c \<le> 10000) (ControlValueError ''max_pages must be between 1 and 10000'')) (\<lambda>_.
     bindE (control_check (ml_page_size c \<le> ml_max_models c \<and> ml_max_models c \<le> 1000000)
       (ControlValueError ''max_models must be between one page and 1000000'')) (\<lambda>_.
     bindE (control_check (1 \<le> ml_retire_after_missing c \<and> ml_retire_after_missing c \<le> 100)
       (ControlValueError ''retire_after_missing must be between 1 and 100'')) (\<lambda>_.
     Inr c))))"

definition model_page_errors :: page_errors where
  "model_page_errors =
     \<lparr>pe_duplicate = ControlRuntimeError ''provider model pagination returned a duplicate model'',
       pe_item_limit = ControlRuntimeError ''provider model discovery exceeded its item limit'',
       pe_repeated = ControlRuntimeError ''provider model pagination repeated a cursor'',
       pe_page_limit = ControlRuntimeError ''provider model discovery exceeded its page limit''\<rparr>"

definition refresh_models ::
  "(model_record, 'p) row_codec \<Rightarrow> (py_datetime \<Rightarrow> string) \<Rightarrow> string \<Rightarrow> model_reconciler \<Rightarrow> string \<Rightarrow> string \<Rightarrow> string
     \<Rightarrow> (nat \<Rightarrow> string option \<Rightarrow> control_error + discovered_model page) \<Rightarrow> py_datetime \<Rightarrow> 'p control_db
     \<Rightarrow> control_error + reconciliation \<times> 'p control_db" where
  "refresh_models codec isotime fresh c provider account region list_page now db =
     bindE (collect_pages (\<lambda>_. Inr ()) dm_model model_page_errors (ml_max_models c) list_page 0 (nat (ml_max_pages c)) None [] [])
       (\<lambda>models. reconcile_models codec isotime fresh models provider account region (ml_retire_after_missing c) now db)"

section \<open>Queries\<close>

text \<open>\<open>ControlStore.models\<close>: the rows of the given provider, account and region, in the order of their keys.\<close>

definition wanted :: "string option \<Rightarrow> string \<Rightarrow> bool" where
  "wanted choice v = (case choice of None \<Rightarrow> True | Some w \<Rightarrow> v = w)"

definition stored_models ::
  "(model_record, 'p) row_codec \<Rightarrow> string option \<Rightarrow> string option \<Rightarrow> string option \<Rightarrow> 'p control_db \<Rightarrow> control_error + model_record list" where
  "stored_models codec provider account region db =
     mapE (\<lambda>row. case rc_validate codec (snd row) of
         None \<Rightarrow> Inl (ControlRuntimeError ''stored model record is invalid'') | Some r \<Rightarrow> Inr r)
       (sort_key fst (filter (\<lambda>((p, a, g, _), _). wanted provider p \<and> wanted account a \<and> wanted region g) (db_models db)))"

text \<open>
  The page of a table keyed by provider, account and identifier that \<open>BatchService.list\<close> and
  \<open>ControlFileService.list\<close> select: \<open>WHERE provider = ? AND account = ? AND id > ? ORDER BY id LIMIT ?\<close>,
  with one row more than the page holds. SQLite compares the bytes of the texts, which orders them
  like their code points.
\<close>

type_synonym 'p scoped_table = "((string \<times> string \<times> string) \<times> 'p) list"

definition scope_rows :: "string \<Rightarrow> string \<Rightarrow> 'p scoped_table \<Rightarrow> (string \<times> 'p) list" where
  "scope_rows provider account rows =
     sort_key fst (map (\<lambda>((_, _, i), payload). (i, payload)) (filter (\<lambda>((p, a, _), _). p = provider \<and> a = account) rows))"

definition decode_row :: "control_error \<Rightarrow> ('a, 'p) row_codec \<Rightarrow> string \<times> 'p \<Rightarrow> control_error + 'a" where
  "decode_row e codec row = (case rc_validate codec (snd row) of None \<Rightarrow> Inl e | Some r \<Rightarrow> Inr r)"

definition select_page ::
  "control_error \<Rightarrow> ('a, 'p) row_codec \<Rightarrow> string \<Rightarrow> string \<Rightarrow> int \<Rightarrow> 'p scoped_table \<Rightarrow> string option \<Rightarrow> control_error + 'a page" where
  "select_page invalid codec provider account limit rows after =
     bindE (control_check (1 \<le> limit \<and> limit \<le> 100) (ControlValueError ''limit must be between 1 and 100'')) (\<lambda>_.
     let selected = take (nat limit + 1) (filter (\<lambda>row. case after of None \<Rightarrow> True | Some a \<Rightarrow> a < fst row) (scope_rows provider account rows));
         more = length selected > nat limit;
         shown = take (nat limit) selected
     in bindE (mapE (decode_row invalid codec) shown) (\<lambda>items.
        Inr \<lparr>pg_items = items, pg_next_cursor = if more \<and> shown \<noteq> [] then Some (fst (last shown)) else None\<rparr>))"

section \<open>What a refresh collects\<close>

text \<open>\<open>pages\<close> are the provider's pages from its i-th answer on, each at the cursor of the one before, up to the last.\<close>

fun page_chain :: "(nat \<Rightarrow> string option \<Rightarrow> control_error + 'a page) \<Rightarrow> nat \<Rightarrow> string option \<Rightarrow> 'a page list \<Rightarrow> bool" where
  "page_chain list_page i cursor [] = False"
| "page_chain list_page i cursor (p # ps) =
     (list_page i cursor = Inr p \<and>
      (case pg_next_cursor p of None \<Rightarrow> ps = [] | Some c \<Rightarrow> page_chain list_page (i + 1) (Some c) ps))"

definition page_cursors :: "'a page list \<Rightarrow> string list" where
  "page_cursors ps = map (the \<circ> pg_next_cursor) (filter (\<lambda>p. pg_next_cursor p \<noteq> None) ps)"

lemma page_cursors_simps [simp]:
  "page_cursors [] = []"
  "page_cursors (p # ps) = (case pg_next_cursor p of None \<Rightarrow> page_cursors ps | Some c \<Rightarrow> c # page_cursors ps)"
  by (auto simp: page_cursors_def split: option.splits)

lemma keep_items_Inr:
  assumes "distinct (map ident items)" "int (length items) \<le> max_items"
  shows "foldE (keep_item item_check ident errs max_items) items xs = Inr ys \<longleftrightarrow>
     ys = items @ xs \<and> list_all (\<lambda>x. returns (item_check x)) xs \<and> distinct (map ident (items @ xs)) \<and>
     int (length (items @ xs)) \<le> max_items"
  using assms
proof (induction xs arbitrary: items)
  case (Cons x xs)
  show ?case
  proof (cases "returns (item_check x) \<and> ident x \<notin> ident ` set items \<and> int (length items) + 1 \<le> max_items")
    case True
    then have "keep_item item_check ident errs max_items items x = Inr (items @ [x])"
      by (auto simp: keep_item_def returns_iff)
    then show ?thesis using Cons.IH[of "items @ [x]"] Cons.prems True by auto
  next
    case False
    then show ?thesis by (auto simp: keep_item_def res_simps returns_iff)
  qed
qed auto

lemma collect_pages_Inr:
  assumes "distinct (map ident items)" "int (length items) \<le> max_items" "distinct cursors"
  shows "collect_pages item_check ident errs max_items list_page i n cursor cursors items = Inr ys \<longleftrightarrow>
     (\<exists>ps. page_chain list_page i cursor ps \<and> length ps \<le> n \<and> distinct (cursors @ page_cursors ps) \<and>
        ys = items @ concat (map pg_items ps) \<and> list_all (\<lambda>x. returns (item_check x)) (concat (map pg_items ps)) \<and>
        distinct (map ident ys) \<and> int (length ys) \<le> max_items)"
  using assms
proof (induction n arbitrary: i cursor cursors items)
  case 0
  have "\<not> page_chain list_page i cursor ps" if "length ps \<le> 0" for ps using that by simp
  then show ?case by auto
next
  case (Suc n)
  let ?R = "\<lambda>i n cursor cursors items ps. page_chain list_page i cursor ps \<and> length ps \<le> n \<and> distinct (cursors @ page_cursors ps) \<and>
        ys = items @ concat (map pg_items ps) \<and> list_all (\<lambda>x. returns (item_check x)) (concat (map pg_items ps)) \<and>
        distinct (map ident ys) \<and> int (length ys) \<le> max_items"
  have nonempty: "(\<exists>ps. ?R i (Suc n) cursor cursors items ps) \<longleftrightarrow> (\<exists>p ps. ?R i (Suc n) cursor cursors items (p # ps))"
    by (metis page_chain.simps(1) neq_Nil_conv)
  show ?case
  proof (cases "list_page i cursor")
    case (Inl e)
    then show ?thesis unfolding nonempty by simp
  next
    case (Inr p)
    show ?thesis
    proof (cases "foldE (keep_item item_check ident errs max_items) items (pg_items p)")
      case (Inl e)
      then have bad: "\<not> (list_all (\<lambda>x. returns (item_check x)) (pg_items p) \<and> distinct (map ident (items @ pg_items p)) \<and>
          int (length (items @ pg_items p)) \<le> max_items)"
        using keep_items_Inr[OF Suc.prems(1,2), of item_check errs "pg_items p" "items @ pg_items p"] by auto
      have "\<not> ?R i (Suc n) cursor cursors items (q # ps)" for q ps
      proof
        assume r: "?R i (Suc n) cursor cursors items (q # ps)"
        then have q: "q = p" using Inr by simp
        have ys: "ys = (items @ pg_items p) @ concat (map pg_items ps)" using r q by simp
        have "distinct (map ident ys)" using r by blast
        then have "distinct (map ident (items @ pg_items p))" unfolding ys map_append[of ident "items @ pg_items p"] by auto
        moreover have "int (length ys) \<le> max_items" using r by blast
        then have "int (length (items @ pg_items p)) \<le> max_items" unfolding ys by simp
        moreover have "list_all (\<lambda>x. returns (item_check x)) (pg_items p)" using r q by simp
        ultimately show False using bad by simp
      qed
      moreover have "collect_pages item_check ident errs max_items list_page i (Suc n) cursor cursors items \<noteq> Inr ys"
        using Inl Inr by simp
      ultimately show ?thesis unfolding nonempty by blast
    next
      case kept: (Inr zs)
      then have zs: "zs = items @ pg_items p" "list_all (\<lambda>x. returns (item_check x)) (pg_items p)"
          "distinct (map ident zs)" "int (length zs) \<le> max_items"
        using keep_items_Inr[OF Suc.prems(1,2), of item_check errs "pg_items p" zs] by auto
      show ?thesis
      proof (cases "pg_next_cursor p")
        case None
        then show ?thesis unfolding nonempty using Inr kept zs Suc.prems(3) by auto
      next
        case (Some c)
        show ?thesis
        proof (cases "c \<in> set cursors")
          case True
          then show ?thesis unfolding nonempty using Inr kept Some by auto
        next
          case False
          then show ?thesis unfolding nonempty
            using Inr kept Some Suc.IH[of zs "c # cursors" "i + 1" "Some c"] zs Suc.prems(3) by auto
        qed
      qed
    qed
  qed
qed

text \<open>
  A refresh that goes through collected exactly the pages of the provider's list up to its last one,
  with no cursor and no model twice and within the limits; and any such list is collected.
\<close>

theorem refresh_collects_every_page:
  fixes list_page :: "nat \<Rightarrow> string option \<Rightarrow> control_error + discovered_model page"
  assumes "ModelReconciler c = Inr c"
  shows "collect_pages (\<lambda>_. Inr ()) dm_model model_page_errors (ml_max_models c) list_page 0 (nat (ml_max_pages c)) None [] [] = Inr models \<longleftrightarrow>
    (\<exists>ps. page_chain list_page 0 None ps \<and> length ps \<le> nat (ml_max_pages c) \<and> distinct (page_cursors ps) \<and>
       models = concat (map pg_items ps) \<and> distinct (map dm_model models) \<and> int (length models) \<le> ml_max_models c)"
proof -
  have "0 \<le> ml_max_models c" using assms by (auto simp: ModelReconciler_def res_simps)
  moreover have all: "list_all (\<lambda>x. returns (Inr () :: control_error + unit)) xs" for xs :: "discovered_model list"
    by (simp add: list_all_iff)
  ultimately show ?thesis by (subst collect_pages_Inr) (simp_all add: all)
qed

section \<open>Listing page by page\<close>

lemma distinct_map_sort: "distinct (map f xs) \<Longrightarrow> distinct (map f (sort_key g xs))"
  by (simp only: distinct_map set_sort distinct_sort)

lemma sorted_scope_rows:
  assumes "distinct (map fst rows)"
  shows "sorted_wrt (<) (map fst (scope_rows p a rows))"
proof -
  let ?rows = "filter (\<lambda>((p', a', _), _). p' = p \<and> a' = a) rows"
  let ?ids = "map (\<lambda>((_, _, i), payload). (i, payload)) ?rows"
  have keys: "map (\<lambda>i. (p, a, i)) (map fst ?ids) = map fst ?rows" by (induction rows) auto
  have "distinct (map fst ?rows)" using assms by (rule distinct_map_filter)
  then have "distinct (map (\<lambda>i. (p, a, i)) (map fst ?ids))" unfolding keys .
  then have "distinct (map fst ?ids)" by (simp only: distinct_map)
  then have "distinct (map fst (scope_rows p a rows))"
    unfolding scope_rows_def by (rule distinct_map_sort)
  then show ?thesis by (simp add: strict_sorted_iff scope_rows_def)
qed

lemma filter_after_take:
  fixes rows :: "(string \<times> 'p) list"
  assumes "sorted_wrt (<) (map fst rows)" "0 < n" "n \<le> length rows"
  shows "filter (\<lambda>row. fst (last (take n rows)) < fst row) rows = drop n rows"
proof -
  have last: "last (take n rows) = rows ! (n - 1)" using assms(2,3) by (subst last_conv_nth) (auto simp: min_def)
  have lt: "fst (rows ! i) < fst (rows ! j)" if "i < j" "j < length rows" for i j
    using sorted_wrt_nth_less[OF assms(1) that(1)] that by simp
  have "filter (\<lambda>row. fst (rows ! (n - 1)) < fst row) (take n rows) = []"
    unfolding filter_empty_conv
  proof
    fix row assume "row \<in> set (take n rows)"
    then obtain i where "i < n" "row = rows ! i" "i < length rows" by (auto simp: in_set_conv_nth)
    then show "\<not> fst (rows ! (n - 1)) < fst row"
    proof (cases "i = n - 1")
      case False
      then have "fst row < fst (rows ! (n - 1))" using lt[of i "n - 1"] \<open>i < n\<close> \<open>row = rows ! i\<close> assms(3) by simp
      then show ?thesis by (rule order_less_not_sym)
    qed simp
  qed
  moreover have "filter (\<lambda>row. fst (rows ! (n - 1)) < fst row) (drop n rows) = drop n rows"
  proof (rule filter_True, rule ballI)
    fix row assume "row \<in> set (drop n rows)"
    then obtain i where "row = rows ! (n + i)" "n + i < length rows" by (auto simp: in_set_conv_nth)
    then show "fst (rows ! (n - 1)) < fst row" using lt[of "n - 1" "n + i"] assms(2) by simp
  qed
  ultimately show ?thesis unfolding last
    by (metis append_take_drop_id filter_append append_Nil)
qed

lemma sorted_drop_rows:
  fixes rows :: "(string \<times> 'p) list"
  shows "sorted_wrt (<) (map fst rows) \<Longrightarrow> sorted_wrt (<) (map fst (drop n rows))"
  by (simp add: drop_map[symmetric] sorted_wrt_drop)

text \<open>
  Whoever follows the cursors of a list gets every row of the scope exactly once, in the order of the
  identifiers, in full pages except for the last, as long as nothing is written meanwhile.
\<close>

lemma select_pages_from:
  assumes "1 \<le> limit" "limit \<le> 100" "distinct (map fst table)"
    and "list_all2 (\<lambda>row x. rc_validate codec (snd row) = Some x) (scope_rows p a table) xs"
    and "filter (\<lambda>row. case after of None \<Rightarrow> True | Some c \<Rightarrow> c < fst row) (scope_rows p a table) = drop n (scope_rows p a table)"
  shows "\<exists>ps. page_chain (\<lambda>_. select_page invalid codec p a limit table) i after ps \<and> concat (map pg_items ps) = drop n xs \<and>
    list_all (\<lambda>pg. int (length (pg_items pg)) = limit) (butlast ps) \<and> int (length (pg_items (last ps))) \<le> limit"
  using assms(5)
proof (induction "length xs - n" arbitrary: n after i rule: less_induct)
  case less
  let ?rows = "scope_rows p a table"
  let ?l = "nat limit"
  have len: "length ?rows = length xs" using assms(4) by (rule list_all2_lengthD)
  have decode: "mapE (decode_row invalid codec) (take ?l (drop n ?rows)) = Inr (take ?l (drop n xs))"
    using assms(4) unfolding mapE_eq_Inr
    by (auto simp: list_all2_conv_all_nth decode_row_def)
  have page: "select_page invalid codec p a limit table after = Inr \<lparr>pg_items = take ?l (drop n xs),
      pg_next_cursor = if ?l < length (drop n ?rows) then Some (fst (last (take ?l (drop n ?rows)))) else None\<rparr>"
  proof -
    let ?X = "drop n ?rows"
    have shown: "take ?l (take (?l + 1) ?X) = take ?l ?X" by (simp add: min_def)
    have more: "length (take (?l + 1) ?X) > ?l \<longleftrightarrow> ?l < length ?X" by auto
    have full: "?l < length ?X \<and> take ?l ?X \<noteq> [] \<longleftrightarrow> ?l < length ?X" using assms(1) by auto
    show ?thesis unfolding select_page_def less.prems Let_def shown more full decode using assms(1,2) by simp
  qed
  show ?case
  proof (cases "?l < length (drop n ?rows)")
    case False
    then have "take ?l (drop n xs) = drop n xs" using len by simp
    then show ?thesis using page False assms(1) len by (intro exI[of _ "[\<lparr>pg_items = drop n xs, pg_next_cursor = None\<rparr>]"]) auto
  next
    case True
    let ?c = "fst (last (take ?l (drop n ?rows)))"
    have sorted: "sorted_wrt (<) (map fst ?rows)" by (rule sorted_scope_rows[OF assms(3)])
    have last: "last (take ?l (drop n ?rows)) = last (take (n + ?l) ?rows)"
      using True assms(1) by (subst (1 2) last_conv_nth) (auto simp: min_def)
    have rest: "filter (\<lambda>row. case Some ?c of None \<Rightarrow> True | Some c \<Rightarrow> c < fst row) ?rows = drop (n + ?l) ?rows"
      unfolding last using filter_after_take[OF sorted, of "n + ?l"] True assms(1) by simp
    have smaller: "length xs - (n + ?l) < length xs - n" using True len assms(1) by auto
    obtain ps where ps: "page_chain (\<lambda>_. select_page invalid codec p a limit table) (i + 1) (Some ?c) ps"
        "concat (map pg_items ps) = drop (n + ?l) xs" "list_all (\<lambda>pg. int (length (pg_items pg)) = limit) (butlast ps)"
        "int (length (pg_items (last ps))) \<le> limit"
      using less.hyps[OF smaller rest, of "i + 1"] by blast
    have "ps \<noteq> []" using ps(1) by auto
    moreover have "take ?l (drop n xs) @ drop (n + ?l) xs = drop n xs"
      using append_take_drop_id[of ?l "drop n xs"] by (simp add: add.commute)
    moreover have "int (length (take ?l (drop n xs))) = limit" using True len assms(1) by simp
    ultimately show ?thesis
      using page True ps
      by (intro exI[of _ "\<lparr>pg_items = take ?l (drop n xs), pg_next_cursor = Some ?c\<rparr> # ps"]) simp
  qed
qed

lemma select_pages_complete:
  assumes "1 \<le> limit" "limit \<le> 100" "distinct (map fst table)"
    and "list_all2 (\<lambda>row x. rc_validate codec (snd row) = Some x) (scope_rows p a table) xs"
  shows "\<exists>ps. page_chain (\<lambda>_. select_page invalid codec p a limit table) 0 None ps \<and> concat (map pg_items ps) = xs \<and>
    list_all (\<lambda>pg. int (length (pg_items pg)) = limit) (butlast ps) \<and> int (length (pg_items (last ps))) \<le> limit"
  using select_pages_from[OF assms, of None 0 invalid 0] by simp

section \<open>What a reconciliation does\<close>

lemma map_of_fold_observe:
  assumes "distinct (map model_key ms)"
  shows "map_of (fst (fold (observe_model codec now existing) ms x)) k =
     (case find (\<lambda>m. model_key m = k) ms of
        Some m \<Rightarrow> Some (rc_dump codec (observed_model_record (dict_get existing (dm_model m)) now m))
      | None \<Rightarrow> map_of (fst x) k)"
  using assms
proof (induction ms arbitrary: x)
  case (Cons m ms)
  have "find (\<lambda>m'. model_key m' = model_key m) ms = None" using Cons.prems by (auto simp: find_None_iff) (metis image_eqI)
  then show ?case using Cons by (auto simp: observe_model_def update_conv split: option.splits)
qed simp

lemma map_of_fold_miss:
  assumes "distinct (map fst rs)"
  shows "map_of (fst (fold (miss_model codec retire_after now (p, a, g) ms) rs x)) k =
     (case k of (p', a', g', model) \<Rightarrow>
        if (p', a', g') = (p, a, g) \<and> model \<notin> set (map dm_model ms) then
          (case map_of rs model of Some r \<Rightarrow> Some (rc_dump codec (missed_record retire_after now r)) | None \<Rightarrow> map_of (fst x) k)
        else map_of (fst x) k)"
  using assms
proof (induction rs arbitrary: x)
  case (Cons mr rs)
  obtain model r where mr: "mr = (model, r)" by (cases mr)
  have new: "map_of rs model = None" using Cons.prems mr by (simp add: map_of_eq_None_iff)
  show ?case using Cons new mr by (auto simp: miss_model_def update_conv split: option.splits prod.splits)
qed (simp split: prod.splits)

lemma existing_models_keys:
  assumes "existing_models codec p a g rows = Inr es" "distinct (map fst rows)"
  shows "distinct (map fst es)" "dict_get es model = Option.bind (map_of rows (p, a, g, model)) (rc_validate codec)"
proof -
  let ?rows = "filter (\<lambda>row. in_scope p a g (fst row)) rows"
  have all: "list_all2 (\<lambda>row e. fst row = (p, a, g, fst e) \<and> rc_validate codec (snd row) = Some (snd e)) ?rows es"
    using assms(1)
  proof (induction rows arbitrary: es)
    case (Cons row rows)
    obtain p' a' g' m payload where row: "row = ((p', a', g', m), payload)" by (metis prod.exhaust)
    show ?case
    proof (cases "in_scope p a g (fst row)")
      case True
      then obtain r es' where "rc_validate codec payload = Some r" "es = (m, r) # es'" "existing_models codec p a g rows = Inr es'"
        using Cons.prems by (auto simp: existing_models_def row bindE_eq_Inr split: option.splits)
      then show ?thesis using Cons.IH True by (simp add: row in_scope_def)
    next
      case False
      then show ?thesis using Cons by (simp add: existing_models_def)
    qed
  qed (simp add: existing_models_def)
  have d: "distinct (map fst ?rows)" using assms(2) by (rule distinct_map_filter)
  have keys: "map fst ?rows = map (\<lambda>e. (p, a, g, fst e)) es" using all by (auto simp: list_all2_conv_all_nth intro: nth_equalityI)
  show "distinct (map fst es)" using d unfolding keys by (simp add: distinct_map inj_on_def)
  have "map_of ?rows (p, a, g, model) = map_of rows (p, a, g, model)"
    by (induction rows) (auto simp: in_scope_def)
  moreover have "map_of es model = Option.bind (map_of ?rows (p, a, g, model)) (rc_validate codec)"
    using all by (induction rule: list_all2_induct) auto
  ultimately show "dict_get es model = Option.bind (map_of rows (p, a, g, model)) (rc_validate codec)"
    by (simp add: dict_get_def)
qed

text \<open>The catalogue's record of a model.\<close>

definition model_row ::
  "(model_record, 'p) row_codec \<Rightarrow> 'p control_db \<Rightarrow> string \<times> string \<times> string \<times> string \<Rightarrow> model_record option" where
  "model_row codec db k = Option.bind (map_of (db_models db) k) (rc_validate codec)"

definition models_wf :: "'p control_db \<Rightarrow> bool" where
  "models_wf db = distinct (map fst (db_models db))"

text \<open>What one reconciliation makes of one row, given what was discovered of its model.\<close>

definition reconcile_row :: "int \<Rightarrow> py_datetime \<Rightarrow> discovered_model option \<Rightarrow> model_record option \<Rightarrow> model_record option" where
  "reconcile_row retire_after now found previous = (case found of
     Some m \<Rightarrow> Some (observed_model_record previous now m)
   | None \<Rightarrow> map_option (missed_record retire_after now) previous)"

definition same_as_stored :: "model_record option \<Rightarrow> discovered_model \<Rightarrow> bool" where
  "same_as_stored previous m = (case previous of None \<Rightarrow> False
     | Some r \<Rightarrow> py_eq (comparable (md_model r)) (comparable m) \<and> md_missing_observations r = 0)"

lemma fold_observe_counts:
  fixes es :: "model_record dict"
  defines "P \<equiv> \<lambda>m. dict_get es (dm_model m)"
  shows "snd (fold (observe_model codec now es) ms x) = (snd x)
     \<lparr>rn_created := rn_created (snd x) + int (length (filter (\<lambda>m. P m = None) ms)),
      rn_updated := rn_updated (snd x) + int (length (filter (\<lambda>m. P m \<noteq> None \<and> \<not> same_as_stored (P m) m) ms)),
      rn_unchanged := rn_unchanged (snd x) + int (length (filter (\<lambda>m. same_as_stored (P m) m) ms))\<rparr>"
proof (induction ms arbitrary: x)
  case (Cons m ms)
  show ?case using Cons.IH[of "observe_model codec now es m x"]
    by (auto simp: observe_model_def count_observed_def P_def same_as_stored_def split: option.splits)
qed simp

lemma fold_miss_counts:
  fixes ms :: "discovered_model list"
  defines "gone \<equiv> \<lambda>mr. fst mr \<notin> set (map dm_model ms)"
  shows "snd (fold (miss_model codec retire_after now (p, a, g) ms) rs x) = (snd x)
     \<lparr>rn_missing := rn_missing (snd x) + int (length (filter gone rs)),
      rn_retired := rn_retired (snd x) + int (length (filter (\<lambda>mr. gone mr \<and> retires retire_after (snd mr)) rs))\<rparr>"
proof (induction rs arbitrary: x)
  case (Cons r rs)
  show ?case using Cons.IH[of "miss_model codec retire_after now (p, a, g) ms r x"]
    by (auto simp: miss_model_def gone_def split: prod.splits)
qed simp

lemma length_filter_keys:
  assumes "distinct (map fst rs)" "\<And>k. map_of rs k = f k"
  shows "length (filter P rs) = card {k. \<exists>r. f k = Some r \<and> P (k, r)}"
proof -
  have f: "f = map_of rs" using assms(2) by auto
  have "length (filter P rs) = length (map fst (filter P rs))" by simp
  also have "\<dots> = card (fst ` set (filter P rs))"
    using distinct_card[OF distinct_map_filter[OF assms(1)], of P] by simp
  also have "fst ` set (filter P rs) = {k. \<exists>r. f k = Some r \<and> P (k, r)}"
    unfolding f using assms(1) by (force simp: map_of_eq_Some_iff)
  finally show ?thesis .
qed

definition reconciled ::
  "(model_record, 'p) row_codec \<Rightarrow> discovered_model list \<Rightarrow> string \<times> string \<times> string \<Rightarrow> int \<Rightarrow> py_datetime \<Rightarrow> model_record dict
     \<Rightarrow> 'p control_db \<Rightarrow> 'p model_table \<times> reconciliation" where
  "reconciled codec ms scope retire_after now es db =
     fold (miss_model codec retire_after now scope ms) es (fold (observe_model codec now es) ms (db_models db,
       \<lparr>rn_discovered = int (length ms), rn_created = 0, rn_updated = 0, rn_unchanged = 0, rn_missing = 0, rn_retired = 0\<rparr>))"

lemma reconcile_models_Inr:
  assumes "reconcile_models codec isotime fresh ms p a g retire_after now db = Inr (n, db')" "models_wf db" "codec_sound codec"
  obtains es row where "distinct (map dm_model ms)" "list_all (\<lambda>m. (dm_provider m, dm_account m, dm_region m) = (p, a, g)) ms"
    "distinct (map fst es)" "\<And>model. map_of es model = model_row codec db (p, a, g, model)"
    "n = snd (reconciled codec ms (p, a, g) retire_after now es db)"
    "db' = db\<lparr>db_models := fst (reconciled codec ms (p, a, g) retire_after now es db), db_audit := db_audit db @ [row]\<rparr>"
    "au_id row \<notin> au_id ` set (db_audit db)" "1 \<le> retire_after"
proof -
  obtain es where es: "existing_models codec p a g (db_models db) = Inr es"
    using assms(1) by (auto simp: reconcile_models_def res_simps)
  note keys = existing_models_keys[OF es assms(2)[unfolded models_wf_def]]
  show ?thesis
    by (rule that[of es, OF _ _ keys(1)])
      (use assms(1) es keys(2) in \<open>auto simp: reconcile_models_def reconciled_def res_simps Let_def model_row_def dict_get_def\<close>)
qed

lemma find_in_scope:
  "list_all (\<lambda>m. (dm_provider m, dm_account m, dm_region m) = (p, a, g)) ms \<Longrightarrow>
     find (\<lambda>m. model_key m = (p', a', g', model)) ms = (if (p', a', g') = (p, a, g) then find (\<lambda>m. dm_model m = model) ms else None)"
  by (induction ms) (auto simp: model_key_def)

lemma distinct_model_keys: "distinct (map dm_model ms) \<Longrightarrow> distinct (map model_key ms)"
  by (induction ms) (force simp: model_key_def)+

lemma fold_distinct_keys:
  assumes "\<And>y x. distinct (map fst (fst x)) \<Longrightarrow> distinct (map fst (fst (f y x)))" "distinct (map fst (fst x))"
  shows "distinct (map fst (fst (fold f ys x)))"
  using assms(2)
proof (induction ys arbitrary: x)
  case (Cons y ys)
  show ?case using Cons.IH[OF assms(1)[OF Cons.prems]] by simp
qed simp

lemma observe_distinct: "distinct (map fst (fst x)) \<Longrightarrow> distinct (map fst (fst (observe_model codec now es m x)))"
  by (simp add: observe_model_def distinct_update)

lemma miss_distinct: "distinct (map fst (fst x)) \<Longrightarrow> distinct (map fst (fst (miss_model codec retire_after now scope ms r x)))"
  by (simp add: miss_model_def distinct_update split: prod.splits)

lemma reconcile_rows:
  assumes "reconcile_models codec isotime fresh ms p a g retire_after now db = Inr (n, db')" "models_wf db" "codec_sound codec"
  shows "models_wf db'"
    and "model_row codec db' (p', a', g', model) =
      (if (p', a', g') = (p, a, g)
       then reconcile_row retire_after now (find (\<lambda>m. dm_model m = model) ms) (model_row codec db (p, a, g, model))
       else model_row codec db (p', a', g', model))"
proof -
  obtain es row where r: "distinct (map dm_model ms)" "list_all (\<lambda>m. (dm_provider m, dm_account m, dm_region m) = (p, a, g)) ms"
      "distinct (map fst es)" "\<And>model. map_of es model = model_row codec db (p, a, g, model)"
    and db': "db_models db' = fst (reconciled codec ms (p, a, g) retire_after now es db)"
    by (rule reconcile_models_Inr[OF assms]) simp
  show "models_wf db'"
    using assms(2) unfolding models_wf_def db' reconciled_def
    by (intro fold_distinct_keys[OF miss_distinct] fold_distinct_keys[OF observe_distinct]) simp_all
  show "model_row codec db' (p', a', g', model) =
      (if (p', a', g') = (p, a, g)
       then reconcile_row retire_after now (find (\<lambda>m. dm_model m = model) ms) (model_row codec db (p, a, g, model))
       else model_row codec db (p', a', g', model))"
  proof (cases "find (\<lambda>m. dm_model m = model) ms")
    case None
    then have "model \<notin> dm_model ` set ms" by (auto simp: find_None_iff)
    then show ?thesis using None r(4)[of model] assms(3)
      by (simp add: model_row_def db' reconciled_def map_of_fold_miss[OF r(3)] map_of_fold_observe[OF distinct_model_keys[OF r(1)]]
        find_in_scope[OF r(2)] reconcile_row_def split: option.splits)
  next
    case (Some m)
    then have m: "model \<in> dm_model ` set ms" "dm_model m = model" by (auto simp: find_Some_iff)
    then show ?thesis using Some r(4)[of model] assms(3)
      by (simp add: model_row_def db' reconciled_def map_of_fold_miss[OF r(3)] map_of_fold_observe[OF distinct_model_keys[OF r(1)]]
        find_in_scope[OF r(2)] reconcile_row_def dict_get_def)
  qed
qed

text \<open>
  A reconciliation treats the catalogue row by row: what was discovered is stored, with a new revision
  exactly if it differs from the last observation or was missing, what was not is counted as missed
  and retired at the threshold, and no row of another account or region changes. Its counters are
  the numbers of those rows.
\<close>

theorem reconcile_by_rows:
  assumes "reconcile_models codec isotime fresh ms p a g retire_after now db = Inr (n, db')" "models_wf db" "codec_sound codec"
  defines "old \<equiv> \<lambda>model. model_row codec db (p, a, g, model)"
  shows "models_wf db' \<and>
    (\<forall>p' a' g' model. model_row codec db' (p', a', g', model) =
      (if (p', a', g') = (p, a, g) then reconcile_row retire_after now (find (\<lambda>m. dm_model m = model) ms) (old model)
       else model_row codec db (p', a', g', model))) \<and>
    n = \<lparr>rn_discovered = int (length ms),
      rn_created = int (length (filter (\<lambda>m. old (dm_model m) = None) ms)),
      rn_updated = int (length (filter (\<lambda>m. old (dm_model m) \<noteq> None \<and> \<not> same_as_stored (old (dm_model m)) m) ms)),
      rn_unchanged = int (length (filter (\<lambda>m. same_as_stored (old (dm_model m)) m) ms)),
      rn_missing = int (card {model. \<exists>r. old model = Some r \<and> model \<notin> set (map dm_model ms)}),
      rn_retired = int (card {model. \<exists>r. old model = Some r \<and> model \<notin> set (map dm_model ms) \<and> retires retire_after r})\<rparr> \<and>
    (\<exists>row. db' = db\<lparr>db_models := db_models db', db_audit := db_audit db @ [row]\<rparr> \<and> au_id row \<notin> au_id ` set (db_audit db))"
proof (intro conjI)
  show "models_wf db'" using reconcile_rows(1)[OF assms(1-3)] .
  show "\<forall>p' a' g' model. model_row codec db' (p', a', g', model) =
      (if (p', a', g') = (p, a, g) then reconcile_row retire_after now (find (\<lambda>m. dm_model m = model) ms) (old model)
       else model_row codec db (p', a', g', model))"
    using reconcile_rows(2)[OF assms(1-3)] unfolding old_def by blast
  obtain es row where r: "distinct (map fst es)" "\<And>model. map_of es model = old model"
      "n = snd (reconciled codec ms (p, a, g) retire_after now es db)"
      and db': "db' = db\<lparr>db_models := fst (reconciled codec ms (p, a, g) retire_after now es db), db_audit := db_audit db @ [row]\<rparr>"
      "au_id row \<notin> au_id ` set (db_audit db)"
    unfolding old_def by (rule reconcile_models_Inr[OF assms(1-3)]) blast
  show "\<exists>row. db' = db\<lparr>db_models := db_models db', db_audit := db_audit db @ [row]\<rparr> \<and> au_id row \<notin> au_id ` set (db_audit db)"
    using db' by (intro exI[of _ row]) simp
  have get: "dict_get es model = old model" for model using r(2) by (simp add: dict_get_def)
  note card = length_filter_keys[OF r(1,2)]
  show "n = \<lparr>rn_discovered = int (length ms),
      rn_created = int (length (filter (\<lambda>m. old (dm_model m) = None) ms)),
      rn_updated = int (length (filter (\<lambda>m. old (dm_model m) \<noteq> None \<and> \<not> same_as_stored (old (dm_model m)) m) ms)),
      rn_unchanged = int (length (filter (\<lambda>m. same_as_stored (old (dm_model m)) m) ms)),
      rn_missing = int (card {model. \<exists>r. old model = Some r \<and> model \<notin> set (map dm_model ms)}),
      rn_retired = int (card {model. \<exists>r. old model = Some r \<and> model \<notin> set (map dm_model ms) \<and> retires retire_after r})\<rparr>"
    unfolding r(3) reconciled_def fold_miss_counts fold_observe_counts get card fst_conv snd_conv by simp
qed

text \<open>Successive reconciliations of one scope, each with its identifier, its time and what it discovered.\<close>

definition reconcile_runs ::
  "(model_record, 'p) row_codec \<Rightarrow> (py_datetime \<Rightarrow> string) \<Rightarrow> string \<times> string \<times> string \<Rightarrow> int
     \<Rightarrow> (string \<times> py_datetime \<times> discovered_model list) list \<Rightarrow> 'p control_db \<Rightarrow> control_error + 'p control_db" where
  "reconcile_runs codec isotime scope retire_after runs db =
     (case scope of (p, a, g) \<Rightarrow>
        foldE (\<lambda>db (fresh, now, ms). bindE (reconcile_models codec isotime fresh ms p a g retire_after now db) (\<lambda>x. Inr (snd x))) db runs)"

lemma reconcile_runs_Cons:
  assumes "reconcile_runs codec isotime (p, a, g) n ((fresh, now, ms) # runs) db = Inr db'" "models_wf db" "codec_sound codec"
  obtains db1 where "reconcile_runs codec isotime (p, a, g) n runs db1 = Inr db'" "models_wf db1"
    "\<And>p' a' g' model. model_row codec db1 (p', a', g', model) =
      (if (p', a', g') = (p, a, g) then reconcile_row n now (find (\<lambda>m. dm_model m = model) ms) (model_row codec db (p, a, g, model))
       else model_row codec db (p', a', g', model))"
proof -
  obtain r db1 where one: "reconcile_models codec isotime fresh ms p a g n now db = Inr (r, db1)"
      and rest: "reconcile_runs codec isotime (p, a, g) n runs db1 = Inr db'"
    using assms(1) by (auto simp: reconcile_runs_def res_simps)
  show ?thesis by (rule that[OF rest reconcile_rows[OF one assms(2,3)]])
qed

text \<open>
  A model that a provider stops listing is retired exactly when \<open>retire_after_missing\<close> reconciliations in
  a row have missed it, counting those before; until then, its life cycle is left as it was.
  Every miss is a revision of its own.
\<close>

theorem missing_model_retires:
  assumes "reconcile_runs codec isotime (p, a, g) n runs db = Inr db'" "models_wf db" "codec_sound codec"
    and "model_row codec db (p, a, g, model) = Some r" "runs \<noteq> []"
    and "\<forall>(fresh, now, ms) \<in> set runs. model \<notin> set (map dm_model ms)"
  shows "\<exists>r'. model_row codec db' (p, a, g, model) = Some r' \<and>
    md_missing_observations r' = md_missing_observations r + int (length runs) \<and>
    md_revision r' = md_revision r + int (length runs) \<and>
    md_model r' = (md_model r)\<lparr>dm_lifecycle :=
      if n \<le> md_missing_observations r + int (length runs) then RetiredModel else dm_lifecycle (md_model r)\<rparr>"
  using assms(1,2,4-6)
proof (induction runs arbitrary: db r)
  case (Cons run runs)
  obtain fresh now ms where run: "run = (fresh, now, ms)" by (metis prod.exhaust)
  obtain db1 where db1: "reconcile_runs codec isotime (p, a, g) n runs db1 = Inr db'" "models_wf db1"
      "model_row codec db1 (p, a, g, model) = reconcile_row n now (find (\<lambda>m. dm_model m = model) ms) (Some r)"
    using reconcile_runs_Cons[OF Cons.prems(1)[unfolded run] Cons.prems(2) assms(3)] Cons.prems(3) by metis
  have "find (\<lambda>m. dm_model m = model) ms = None" using Cons.prems(5) run by (auto simp: find_None_iff)
  then have row: "model_row codec db1 (p, a, g, model) = Some (missed_record n now r)"
    using db1(3) by (simp add: reconcile_row_def)
  have one: "md_model (missed_record n now r) = (md_model r)\<lparr>dm_lifecycle :=
      if n \<le> md_missing_observations r + 1 then RetiredModel else dm_lifecycle (md_model r)\<rparr>"
    by (auto simp: missed_record_def retires_def intro!: discovered_model.equality)
  show ?case
  proof (cases "runs = []")
    case True
    then show ?thesis using db1(1) row one by (simp add: reconcile_runs_def missed_record_def)
  next
    case False
    have "\<forall>(fresh, now, ms) \<in> set runs. model \<notin> set (map dm_model ms)" using Cons.prems(5) by simp
    from Cons.IH[OF db1(1,2) row False this] show ?thesis
      by (auto simp: one missed_record_def retires_def algebra_simps intro!: discovered_model.equality)
  qed
qed simp

text \<open>
  Reconciling again what was just reconciled changes nothing that is compared: every model counts as
  unchanged and keeps its revision. (A model with a \<open>NaN\<close> in it is never equal to itself.)
\<close>

theorem reconcile_again_unchanged:
  assumes "reconcile_models codec isotime fresh ms p a g n now db = Inr (x, db')" "models_wf db" "codec_sound codec"
    and "reconcile_models codec isotime fresh' ms p a g n now' db' = Inr (x', db'')"
    and "list_all (\<lambda>m. py_eq (comparable m) (comparable m)) ms"
  shows "rn_created x' = 0 \<and> rn_updated x' = 0 \<and> rn_unchanged x' = int (length ms) \<and>
    (\<forall>m \<in> set ms. \<exists>r r'. model_row codec db' (model_key m) = Some r \<and> model_row codec db'' (model_key m) = Some r' \<and>
       md_model r' = m \<and> md_model r = m \<and> md_revision r' = md_revision r)"
proof -
  have wf: "models_wf db'" by (rule reconcile_rows(1)[OF assms(1-3)])
  obtain es row where d: "distinct (map dm_model ms)" "list_all (\<lambda>m. (dm_provider m, dm_account m, dm_region m) = (p, a, g)) ms"
      and get: "\<And>model. map_of es model = model_row codec db' (p, a, g, model)"
      and x': "x' = snd (reconciled codec ms (p, a, g) n now' es db')"
    by (rule reconcile_models_Inr[OF assms(4) wf assms(3)]) blast
  have found: "find (\<lambda>m'. dm_model m' = dm_model m) ms = Some m" if "m \<in> set ms" for m
    using that d(1) by (induction ms) force+
  have stored: "model_row codec db' (p, a, g, dm_model m) = Some (observed_model_record (model_row codec db (p, a, g, dm_model m)) now m)"
    if "m \<in> set ms" for m
    using reconcile_rows(2)[OF assms(1-3), of p a g "dm_model m"] found[OF that] by (simp add: reconcile_row_def)
  have same: "same_as_stored (model_row codec db' (p, a, g, dm_model m)) m" if "m \<in> set ms" for m
    using stored[OF that] that assms(5) by (simp add: same_as_stored_def observed_model_record_def list_all_iff)
  have counts: "filter (\<lambda>m. same_as_stored (dict_get es (dm_model m)) m) ms = ms"
      "filter (\<lambda>m. dict_get es (dm_model m) = None) ms = []"
      "filter (\<lambda>m. dict_get es (dm_model m) \<noteq> None \<and> \<not> same_as_stored (dict_get es (dm_model m)) m) ms = []"
    using same stored by (auto simp: dict_get_def get filter_id_conv filter_empty_conv)
  have "rn_created x' = 0 \<and> rn_updated x' = 0 \<and> rn_unchanged x' = int (length ms)"
    unfolding x' reconciled_def fold_miss_counts fold_observe_counts counts by simp
  moreover have "\<exists>r r'. model_row codec db' (model_key m) = Some r \<and> model_row codec db'' (model_key m) = Some r' \<and>
       md_model r' = m \<and> md_model r = m \<and> md_revision r' = md_revision r" if m: "m \<in> set ms" for m
  proof -
    have key: "model_key m = (p, a, g, dm_model m)" using d(2) m by (auto simp: model_key_def list_all_iff)
    show ?thesis
      using reconcile_rows(2)[OF assms(4) wf assms(3), of p a g "dm_model m"] found[OF m] stored[OF m] m assms(5)
      by (auto simp: key reconcile_row_def observed_model_record_def list_all_iff)
  qed
  ultimately show ?thesis by blast
qed

section \<open>A catalogue\<close>

definition demo_reconciler :: model_reconciler where
  "demo_reconciler = \<lparr>ml_page_size = 1, ml_max_pages = 3, ml_max_models = 10, ml_retire_after_missing = 2\<rparr>"

definition demo_pages :: "nat \<Rightarrow> string option \<Rightarrow> control_error + discovered_model page" where
  "demo_pages n cursor = Inr \<lparr>pg_items = [], pg_next_cursor = if n = 0 then Some ''c'' else None\<rparr>"

theorem refresh_collects_every_page_witness:
  "collect_pages (\<lambda>_. Inr ()) dm_model model_page_errors (ml_max_models demo_reconciler) demo_pages 0
     (nat (ml_max_pages demo_reconciler)) None [] [] = Inr []"
proof -
  have c: "ModelReconciler demo_reconciler = Inr demo_reconciler" by (simp add: ModelReconciler_def demo_reconciler_def)
  show ?thesis
    by (rule refresh_collects_every_page[OF c, THEN iffD2],
        rule exI[where x = "[\<lparr>pg_items = [], pg_next_cursor = Some ''c''\<rparr>, \<lparr>pg_items = [], pg_next_cursor = None\<rparr>]"])
       (simp add: demo_pages_def demo_reconciler_def)
qed

definition plain_codec :: "('a, 'a) row_codec" where
  "plain_codec = \<lparr>rc_dump = (\<lambda>x. x), rc_validate = Some\<rparr>"

lemma plain_codec_sound [simp]: "codec_sound plain_codec"
  by (simp add: plain_codec_def codec_sound_def)

definition demo_time :: "int \<Rightarrow> py_datetime" where
  "demo_time t = \<lparr>dt_instant = t, dt_offset = Some 0\<rparr>"

definition demo_model :: "string \<Rightarrow> discovered_model" where
  "demo_model name = \<lparr>dm_provider = ''p'', dm_extensions = [], dm_account = ''a'', dm_region = ''g'', dm_model = name,
     dm_lifecycle = ActiveModel, dm_capabilities = [], dm_source = ''api'', dm_observed_at = demo_time 0\<rparr>"

definition demo_catalogue :: "model_record control_db" where
  "demo_catalogue = empty_db\<lparr>db_models := [((''p'', ''a'', ''g'', ''old''),
     \<lparr>md_model = demo_model ''old'', md_revision = 3, md_missing_observations = 0, md_reconciled_at = demo_time 1\<rparr>)]\<rparr>"

lemma demo_catalogue_wf [simp]: "models_wf demo_catalogue"
  by (simp add: demo_catalogue_def models_wf_def empty_db_def)

lemmas demo_catalogue_simps = demo_catalogue_def empty_db_def plain_codec_def demo_model_def demo_time_def has_timezone_def
  append_audit_def existing_models_def in_scope_def observe_model_def miss_model_def model_row_def model_key_def

theorem reconcile_by_rows_witness:
  "\<exists>n db'. reconcile_models plain_codec (\<lambda>_. ''t'') ''id'' [demo_model ''new''] ''p'' ''a'' ''g'' 2 (demo_time 5) demo_catalogue = Inr (n, db') \<and>
     rn_created n = 1 \<and> models_wf db' \<and> model_row plain_codec db' (''p'', ''a'', ''g'', ''new'') \<noteq> None"
proof -
  obtain n db' where r: "reconcile_models plain_codec (\<lambda>_. ''t'') ''id'' [demo_model ''new''] ''p'' ''a'' ''g'' 2 (demo_time 5) demo_catalogue = Inr (n, db')"
    by (simp add: reconcile_models_def demo_catalogue_simps)
  from reconcile_by_rows[OF r demo_catalogue_wf plain_codec_sound] show ?thesis
    by (intro exI[of _ n] exI[of _ db'] conjI r) (simp_all add: reconcile_row_def demo_catalogue_simps)
qed

theorem missing_model_retires_witness:
  "\<exists>db' r'. reconcile_runs plain_codec (\<lambda>_. ''t'') (''p'', ''a'', ''g'') 2 [(''i'', demo_time 2, []), (''j'', demo_time 3, [])] demo_catalogue = Inr db' \<and>
     model_row plain_codec db' (''p'', ''a'', ''g'', ''old'') = Some r' \<and> dm_lifecycle (md_model r') = RetiredModel"
proof -
  obtain db' where r: "reconcile_runs plain_codec (\<lambda>_. ''t'') (''p'', ''a'', ''g'') 2
      [(''i'', demo_time 2, []), (''j'', demo_time 3, [])] demo_catalogue = Inr db'"
    by (simp add: reconcile_runs_def reconcile_models_def demo_catalogue_simps)
  have row: "model_row plain_codec demo_catalogue (''p'', ''a'', ''g'', ''old'') =
      Some \<lparr>md_model = demo_model ''old'', md_revision = 3, md_missing_observations = 0, md_reconciled_at = demo_time 1\<rparr>"
    by (simp add: demo_catalogue_simps)
  from missing_model_retires[OF r demo_catalogue_wf plain_codec_sound row] show ?thesis using r by auto
qed

theorem reconcile_again_unchanged_witness:
  "\<exists>x db' x' db''. reconcile_models plain_codec (\<lambda>_. ''t'') ''i'' [demo_model ''new''] ''p'' ''a'' ''g'' 2 (demo_time 5) demo_catalogue = Inr (x, db') \<and>
     reconcile_models plain_codec (\<lambda>_. ''t'') ''j'' [demo_model ''new''] ''p'' ''a'' ''g'' 2 (demo_time 6) db' = Inr (x', db'') \<and>
     rn_unchanged x' = 1"
proof -
  have eq: "py_eq (comparable (demo_model ''new'')) (comparable (demo_model ''new''))"
    by (simp add: comparable_def demo_model_def extensions_json_def dict_get_def)
  have "returns (bindE (reconcile_models plain_codec (\<lambda>_. ''t'') ''i'' [demo_model ''new''] ''p'' ''a'' ''g'' 2 (demo_time 5) demo_catalogue)
      (\<lambda>y. reconcile_models plain_codec (\<lambda>_. ''t'') ''j'' [demo_model ''new''] ''p'' ''a'' ''g'' 2 (demo_time 6) (snd y)))"
    by (simp add: reconcile_models_def demo_catalogue_simps)
  then obtain x db' x' db'' where r: "reconcile_models plain_codec (\<lambda>_. ''t'') ''i'' [demo_model ''new''] ''p'' ''a'' ''g'' 2 (demo_time 5) demo_catalogue = Inr (x, db')"
      "reconcile_models plain_codec (\<lambda>_. ''t'') ''j'' [demo_model ''new''] ''p'' ''a'' ''g'' 2 (demo_time 6) db' = Inr (x', db'')"
    by (auto simp: returns_iff bindE_eq_Inr)
  from reconcile_again_unchanged[OF r(1) demo_catalogue_wf plain_codec_sound r(2)] eq r show ?thesis by auto
qed

end
