(* ===== verification/UsageCosts.thy ===== *)
theory UsageCosts
  imports ControlStore
begin

text \<open>
  Usage and cost events (\<open>zeaz_control/usage.py\<close>): each is ingested once under its identifier, in a
  transaction with its audit row, and a cost refers to a usage event of the same provider, account
  and model. An exact decimal is its coefficient and its exponent of ten.
\<close>

record usage_event =
  ue_id :: string
  ue_provider :: string
  ue_extensions :: extensions
  ue_account :: string
  ue_model :: string
  ue_input_tokens :: int
  ue_output_tokens :: int
  ue_cached_input_tokens :: int
  ue_requests :: int
  ue_source :: string
  ue_observed_at :: py_datetime

definition UsageEvent :: "usage_event \<Rightarrow> control_error + usage_event" where
  "UsageEvent e =
     bindE (control_check (extensions_ok (ue_provider e) (ue_extensions e))
       (ControlValueError ''extensions must use the record provider namespace'')) (\<lambda>_.
     bindE (control_check (list_all control_identifier [ue_id e, ue_account e, ue_model e]) (ControlValueError ''identifier'')) (\<lambda>_.
     bindE (control_check (list_all (\<lambda>n. 0 \<le> n \<and> n \<le> 10000000000) [ue_input_tokens e, ue_output_tokens e, ue_cached_input_tokens e])
       (ControlValueError ''tokens'')) (\<lambda>_.
     bindE (control_check (1 \<le> ue_requests e \<and> ue_requests e \<le> 1000000000) (ControlValueError ''requests'')) (\<lambda>_.
     bindE (control_check (text_between 1 256 (ue_source e)) (ControlValueError ''source'')) (\<lambda>_.
     bindE (control_check (has_timezone (ue_observed_at e)) (ControlValueError ''observed_at must include a UTC offset'')) (\<lambda>_.
     Inr e))))))"

record cost_event =
  co_id :: string
  co_usage_event_id :: string
  co_provider :: string
  co_extensions :: extensions
  co_account :: string
  co_model :: string
  co_amount :: "int \<times> int"
  co_currency :: string
  co_pricing_source :: string
  co_pricing_observed_on :: string
  co_observed_at :: py_datetime

record 'p usage_env =
  uv_usage :: "(usage_event, 'p) row_codec"
  uv_costs :: "(cost_event, 'p) row_codec"
  uv_sha256 :: "'p \<Rightarrow> string"
  uv_isotime :: "py_datetime \<Rightarrow> string"

text \<open>\<open>None\<close> from the codec is the \<open>ValidationError\<close> of a stored event.\<close>

definition stored_event :: "('a, 'p) row_codec \<Rightarrow> 'p \<Rightarrow> control_error + 'a" where
  "stored_event codec payload = (case rc_validate codec payload of
     None \<Rightarrow> Inl (ControlValueError ''stored event'') | Some e \<Rightarrow> Inr e)"

definition ingest_usage ::
  "'p usage_env \<Rightarrow> string \<Rightarrow> usage_event \<Rightarrow> 'p control_db \<Rightarrow> control_error + usage_event \<times> 'p control_db" where
  "ingest_usage env fresh e db =
     (let encoded = rc_dump (uv_usage env) e
      in case map_of (db_usage db) (ue_id e) of
           Some payload \<Rightarrow>
             bindE (control_check (payload = encoded) (UsageError ''usage event ID conflicts with stored payload'')) (\<lambda>_.
             bindE (stored_event (uv_usage env) payload) (\<lambda>stored. Inr (stored, db)))
         | None \<Rightarrow>
             bindE (append_audit (uv_isotime env) fresh ''control.usage.ingested'' (ue_id e)
               [(''payload_sha256'', JStr (uv_sha256 env encoded))] (ue_observed_at e)
               (db\<lparr>db_usage := db_usage db @ [(ue_id e, encoded)]\<rparr>)) (\<lambda>db'. Inr (e, db')))"

definition cost_scope :: "cost_event \<Rightarrow> string \<times> string \<times> string" where
  "cost_scope c = (co_provider c, co_account c, co_model c)"

definition usage_scope :: "usage_event \<Rightarrow> string \<times> string \<times> string" where
  "usage_scope e = (ue_provider e, ue_account e, ue_model e)"

definition ingest_cost ::
  "'p usage_env \<Rightarrow> string \<Rightarrow> cost_event \<Rightarrow> 'p control_db \<Rightarrow> control_error + cost_event \<times> 'p control_db" where
  "ingest_cost env fresh c db =
     (let encoded = rc_dump (uv_costs env) c
      in case map_of (db_usage db) (co_usage_event_id c) of
           None \<Rightarrow> Inl (UsageError ''cost event references unknown usage'')
         | Some payload \<Rightarrow>
             bindE (case rc_validate (uv_usage env) payload of
                 None \<Rightarrow> Inl (UsageError ''stored usage event is invalid'') | Some e \<Rightarrow> Inr e) (\<lambda>e.
             bindE (control_check (cost_scope c = usage_scope e) (UsageError ''cost event scope does not match usage'')) (\<lambda>_.
             case map_of (db_costs db) (co_id c) of
               Some (_, row) \<Rightarrow>
                 bindE (control_check (row = encoded) (UsageError ''cost event ID conflicts with stored payload'')) (\<lambda>_.
                 bindE (stored_event (uv_costs env) row) (\<lambda>stored. Inr (stored, db)))
             | None \<Rightarrow>
                 bindE (append_audit (uv_isotime env) fresh ''control.cost.ingested'' (co_id c)
                   [(''payload_sha256'', JStr (uv_sha256 env encoded)), (''pricing_source'', JStr (co_pricing_source c)),
                    (''pricing_observed_on'', JStr (co_pricing_observed_on c))] (co_observed_at c)
                   (db\<lparr>db_costs := db_costs db @ [(co_id c, co_usage_event_id c, encoded)]\<rparr>)) (\<lambda>db'. Inr (c, db')))))"

definition list_events :: "('a, 'p) row_codec \<Rightarrow> (string \<times> 'p) list \<Rightarrow> control_error + 'a list" where
  "list_events codec rows =
     mapE (decode_row (UsageError ''stored usage or cost event is invalid'') codec) (sort_key fst rows)"

definition usage_list :: "'p usage_env \<Rightarrow> 'p control_db \<Rightarrow> control_error + usage_event list" where
  "usage_list env db = list_events (uv_usage env) (db_usage db)"

definition cost_list :: "'p usage_env \<Rightarrow> 'p control_db \<Rightarrow> control_error + cost_event list" where
  "cost_list env db = list_events (uv_costs env) (map (\<lambda>row. (fst row, snd (snd row))) (db_costs db))"

section \<open>Events are ingested once\<close>

text \<open>The transactions on the database: those of this service, and all that leave its tables alone.\<close>

inductive usage_txn :: "'p usage_env \<Rightarrow> 'p control_db \<Rightarrow> 'p control_db \<Rightarrow> bool" for env :: "'p usage_env" where
  txn_usage: "ingest_usage env fresh e db = Inr (x, db') \<Longrightarrow> usage_txn env db db'"
| txn_cost: "ingest_cost env fresh c db = Inr (y, db') \<Longrightarrow> usage_txn env db db'"
| txn_elsewhere: "db_usage db' = db_usage db \<Longrightarrow> db_costs db' = db_costs db \<Longrightarrow> usage_txn env db db'"

lemma ingest_usage_Inr:
  "ingest_usage env fresh e db = Inr (x, db') \<Longrightarrow>
     (case map_of (db_usage db) (ue_id e) of
        Some payload \<Rightarrow> payload = rc_dump (uv_usage env) e \<and> db' = db
      | None \<Rightarrow> x = e \<and> db_usage db' = db_usage db @ [(ue_id e, rc_dump (uv_usage env) e)] \<and>
          length (db_audit db') = length (db_audit db) + 1) \<and> db_costs db' = db_costs db"
  by (auto simp: ingest_usage_def Let_def res_simps split: option.splits)

lemma ingest_cost_Inr:
  "ingest_cost env fresh c db = Inr (x, db') \<Longrightarrow>
     (\<exists>payload e. map_of (db_usage db) (co_usage_event_id c) = Some payload \<and> rc_validate (uv_usage env) payload = Some e \<and>
        cost_scope c = usage_scope e) \<and>
     (case map_of (db_costs db) (co_id c) of
        Some row \<Rightarrow> snd row = rc_dump (uv_costs env) c \<and> db' = db
      | None \<Rightarrow> x = c \<and> db_costs db' = db_costs db @ [(co_id c, co_usage_event_id c, rc_dump (uv_costs env) c)] \<and>
          length (db_audit db') = length (db_audit db) + 1) \<and> db_usage db' = db_usage db"
  by (auto simp: ingest_cost_def Let_def res_simps split: option.splits prod.splits)

definition usage_row :: "'p control_db \<Rightarrow> string \<Rightarrow> 'p option" where
  "usage_row db i = map_of (db_usage db) i"

definition cost_row :: "'p control_db \<Rightarrow> string \<Rightarrow> (string \<times> 'p) option" where
  "cost_row db i = map_of (db_costs db) i"

interpretation usage_rows: growing_rows "usage_txn env" usage_row "(=)" for env
proof
  show "usage_txn env db db' \<Longrightarrow> usage_row db i = Some p \<Longrightarrow> \<exists>p'. usage_row db' i = Some p' \<and> p = p'" for db db' :: "'a control_db" and i p
    by (induction rule: usage_txn.induct)
       (auto simp: usage_row_def map_add_def dest!: ingest_usage_Inr ingest_cost_Inr split: option.splits)
qed auto

interpretation cost_rows: growing_rows "usage_txn env" cost_row "(=)" for env
proof
  show "usage_txn env db db' \<Longrightarrow> cost_row db i = Some p \<Longrightarrow> \<exists>p'. cost_row db' i = Some p' \<and> p = p'" for db db' :: "'a control_db" and i p
    by (induction rule: usage_txn.induct)
       (auto simp: cost_row_def map_add_def dest!: ingest_usage_Inr ingest_cost_Inr split: option.splits)
qed auto

text \<open>
  An event that was ingested is stored for good: ingesting it again, at any later time, gives the same
  event and changes nothing (so it is counted once), and another event under its identifier is refused.
\<close>

theorem usage_ingested_once:
  assumes "ingest_usage env fresh e db = Inr (x, db1)" "(usage_txn env)\<^sup>*\<^sup>* db1 db2" "codec_sound (uv_usage env)"
  shows "\<forall>fresh' e'. ue_id e' = ue_id e \<longrightarrow>
    ingest_usage env fresh' e' db2 =
      (if rc_dump (uv_usage env) e' = rc_dump (uv_usage env) e then Inr (e, db2)
       else Inl (UsageError ''usage event ID conflicts with stored payload''))"
proof -
  have "usage_row db1 (ue_id e) = Some (rc_dump (uv_usage env) e)"
    using ingest_usage_Inr[OF assms(1)] by (auto simp: usage_row_def map_add_def split: option.splits)
  then have "usage_row db2 (ue_id e) = Some (rc_dump (uv_usage env) e)"
    using usage_rows.row_grows[OF assms(2)] by auto
  then show ?thesis using assms(3) by (auto simp: ingest_usage_def usage_row_def stored_event_def Let_def)
qed

text \<open>Every cost refers to a usage event of its provider, account and model.\<close>

definition costs_ok :: "'p usage_env \<Rightarrow> 'p control_db \<Rightarrow> bool" where
  "costs_ok env db \<longleftrightarrow> (\<forall>i uid payload. cost_row db i = Some (uid, payload) \<longrightarrow>
     (\<exists>c e p. rc_validate (uv_costs env) payload = Some c \<and> co_id c = i \<and> co_usage_event_id c = uid \<and>
        usage_row db uid = Some p \<and> rc_validate (uv_usage env) p = Some e \<and> cost_scope c = usage_scope e))"

lemma costs_ok_step:
  assumes "usage_txn env db db'" "costs_ok env db" "codec_sound (uv_costs env)"
  shows "costs_ok env db'"
  unfolding costs_ok_def
proof (intro allI impI)
  fix i uid payload
  assume row: "cost_row db' i = Some (uid, payload)"
  have kept: "usage_row db u = Some p \<Longrightarrow> usage_row db' u = Some p" for u p
    using usage_rows.row_step[OF assms(1)] by blast
  show "\<exists>c e p. rc_validate (uv_costs env) payload = Some c \<and> co_id c = i \<and> co_usage_event_id c = uid \<and>
      usage_row db' uid = Some p \<and> rc_validate (uv_usage env) p = Some e \<and> cost_scope c = usage_scope e"
  proof (cases "cost_row db i = Some (uid, payload)")
    case True
    then show ?thesis using assms(2) kept unfolding costs_ok_def by meson
  next
    case False
    from assms(1) obtain fresh c x where c: "ingest_cost env fresh c db = Inr (x, db')"
      using False row by (cases rule: usage_txn.cases) (auto simp: cost_row_def dest: ingest_usage_Inr)
    from ingest_cost_Inr[OF c] False row have "i = co_id c \<and> uid = co_usage_event_id c \<and> payload = rc_dump (uv_costs env) c"
      by (auto simp: cost_row_def map_add_def split: option.splits if_splits)
    then show ?thesis using ingest_cost_Inr[OF c] assms(3) kept by (fastforce simp: usage_row_def)
  qed
qed

text \<open>
  In every state that ingestion leads to, each stored cost can be read, refers to a stored usage event of
  the same provider, account and model, and is listed under its own identifier.
\<close>

theorem costs_refer_to_usage:
  assumes "(usage_txn env)\<^sup>*\<^sup>* empty_db db" "codec_sound (uv_costs env)" "cost_row db i = Some (uid, payload)"
  shows "\<exists>c e p. rc_validate (uv_costs env) payload = Some c \<and> co_id c = i \<and> co_usage_event_id c = uid \<and>
     usage_row db uid = Some p \<and> rc_validate (uv_usage env) p = Some e \<and>
     co_provider c = ue_provider e \<and> co_account c = ue_account e \<and> co_model c = ue_model e"
proof -
  have "costs_ok env (empty_db :: 'a control_db)" by (simp add: costs_ok_def cost_row_def empty_db_def)
  with assms(1) have "costs_ok env db" by (induction rule: rtranclp_induct) (auto intro: costs_ok_step assms(2))
  then obtain c e p where "rc_validate (uv_costs env) payload = Some c" "co_id c = i" "co_usage_event_id c = uid"
      "usage_row db uid = Some p" "rc_validate (uv_usage env) p = Some e" "cost_scope c = usage_scope e"
    using assms(3) unfolding costs_ok_def by blast
  then show ?thesis by (intro exI[of _ c] exI[of _ e] exI[of _ p]) (simp add: cost_scope_def usage_scope_def)
qed

section \<open>An event and its cost\<close>

datatype demo_event = UsagePayload usage_event | CostPayload cost_event

definition demo_usage_env :: "demo_event usage_env" where
  "demo_usage_env = \<lparr>uv_usage = \<lparr>rc_dump = UsagePayload, rc_validate = (\<lambda>p. case p of UsagePayload e \<Rightarrow> Some e | _ \<Rightarrow> None)\<rparr>,
     uv_costs = \<lparr>rc_dump = CostPayload, rc_validate = (\<lambda>p. case p of CostPayload e \<Rightarrow> Some e | _ \<Rightarrow> None)\<rparr>,
     uv_sha256 = (\<lambda>_. ''h''), uv_isotime = (\<lambda>_. ''t'')\<rparr>"

definition demo_usage :: usage_event where
  "demo_usage = \<lparr>ue_id = ''u'', ue_provider = ''p'', ue_extensions = [], ue_account = ''a'', ue_model = ''m'', ue_input_tokens = 3,
     ue_output_tokens = 4, ue_cached_input_tokens = 0, ue_requests = 1, ue_source = ''s'', ue_observed_at = demo_time 0\<rparr>"

definition demo_cost :: cost_event where
  "demo_cost = \<lparr>co_id = ''c'', co_usage_event_id = ''u'', co_provider = ''p'', co_extensions = [], co_account = ''a'', co_model = ''m'',
     co_amount = (12, -3), co_currency = ''EUR'', co_pricing_source = ''s'', co_pricing_observed_on = ''2026-01-01'',
     co_observed_at = demo_time 0\<rparr>"

lemma demo_ingest_usage:
  "\<exists>db1. ingest_usage demo_usage_env ''i'' demo_usage empty_db = Inr (demo_usage, db1) \<and>
     (\<exists>db2. ingest_cost demo_usage_env ''j'' demo_cost db1 = Inr (demo_cost, db2) \<and> cost_row db2 ''c'' = Some (''u'', CostPayload demo_cost))"
  by (simp add: ingest_usage_def ingest_cost_def append_audit_def empty_db_def demo_usage_env_def demo_usage_def demo_cost_def
      cost_scope_def usage_scope_def cost_row_def)

theorem usage_ingested_once_witness:
  "\<exists>db1. ingest_usage demo_usage_env ''i'' demo_usage empty_db = Inr (demo_usage, db1) \<and>
     ingest_usage demo_usage_env ''j'' demo_usage db1 = Inr (demo_usage, db1)"
proof -
  obtain db1 where i: "ingest_usage demo_usage_env ''i'' demo_usage empty_db = Inr (demo_usage, db1)" using demo_ingest_usage by blast
  have "codec_sound (uv_usage demo_usage_env)" by (simp add: codec_sound_def demo_usage_env_def)
  from usage_ingested_once[OF i rtranclp.rtrancl_refl this] show ?thesis using i by auto
qed

theorem costs_refer_to_usage_witness:
  "\<exists>db. (usage_txn demo_usage_env)\<^sup>*\<^sup>* empty_db db \<and> cost_row db ''c'' = Some (''u'', CostPayload demo_cost) \<and> usage_row db ''u'' \<noteq> None"
proof -
  obtain db1 db2 where i: "ingest_usage demo_usage_env ''i'' demo_usage empty_db = Inr (demo_usage, db1)"
      "ingest_cost demo_usage_env ''j'' demo_cost db1 = Inr (demo_cost, db2)" "cost_row db2 ''c'' = Some (''u'', CostPayload demo_cost)"
    using demo_ingest_usage by blast
  have run: "(usage_txn demo_usage_env)\<^sup>*\<^sup>* empty_db db2"
    using txn_usage[OF i(1)] txn_cost[OF i(2)] by (meson rtranclp.simps)
  have "codec_sound (uv_costs demo_usage_env)" by (simp add: codec_sound_def demo_usage_env_def)
  from costs_refer_to_usage[OF run this i(3)] show ?thesis using run i(3) by auto
qed

end
