(* ===== verification/ControlFiles.thy ===== *)
theory ControlFiles
  imports ControlStore "HOL-Library.Sublist"
begin

text \<open>
  The control plane's files (\<open>zeaz_control/files.py\<close>): what may be uploaded, the checks of its content,
  the catalogue of the uploaded files, and the download with its integrity check. Bytes are
  characters; a chunk is \<open>None\<close> where the source yields something that is not \<open>bytes\<close>. The provider's
  answers, SHA-256, and the decoding of a line by \<open>json.loads\<close> (\<open>None\<close> where it raises
  \<open>UnicodeDecodeError\<close>) are arguments. The staging file is its content; its mode and the failures of
  the system calls are not modelled.
\<close>

section \<open>Records\<close>

datatype file_purpose = BatchPurpose | FineTunePurpose | VisionPurpose | AssistantsPurpose | UserDataPurpose | EvalsPurpose

definition purpose_value :: "file_purpose \<Rightarrow> string" where
  "purpose_value x = (case x of BatchPurpose \<Rightarrow> ''batch'' | FineTunePurpose \<Rightarrow> ''fine_tune'' | VisionPurpose \<Rightarrow> ''vision''
     | AssistantsPurpose \<Rightarrow> ''assistants'' | UserDataPurpose \<Rightarrow> ''user_data'' | EvalsPurpose \<Rightarrow> ''evals'')"

record file_record =
  fr_provider :: string
  fr_extensions :: extensions
  fr_account :: string
  fr_id :: string
  fr_filename :: string
  fr_bytes :: int
  fr_sha256 :: string
  fr_media_type :: string
  fr_purpose :: file_purpose
  fr_created_at :: py_datetime

definition filename_ok :: "string \<Rightarrow> bool" where
  "filename_ok s = (\<not> (s \<in> {''.'', ''..''} \<or> starts_with ''.'' s \<or> CHR ''/'' \<in> set s \<or> bslash \<in> set s \<or> CHR 0x00 \<in> set s \<or>
     length (utf8_encode s) > 255))"

definition validate_filename :: "string \<Rightarrow> control_error + string" where
  "validate_filename s =
     bindE (control_check (filename_ok s) (ControlValueError ''filename must be a portable visible basename'')) (\<lambda>_. Inr s)"

definition sha256_text :: "string \<Rightarrow> bool" where
  "sha256_text s = (length s = 64 \<and> list_all (\<lambda>c. is_digit c \<or> 97 \<le> code_of c \<and> code_of c \<le> 102) s)"

definition media_token :: "string \<Rightarrow> bool" where
  "media_token s = (s \<noteq> [] \<and> lower_or_digit (hd s) \<and> list_all (\<lambda>c. lower_or_digit c \<or> c \<in> set ''!#$&^_.+-'') (tl s))"

definition media_type_text :: "string \<Rightarrow> bool" where
  "media_type_text s = (length s \<le> 127 \<and> (case split_char CHR ''/'' s of [a, b] \<Rightarrow> media_token a \<and> media_token b | _ \<Rightarrow> False))"

definition FileRecord :: "file_record \<Rightarrow> control_error + file_record" where
  "FileRecord r =
     bindE (control_check (extensions_ok (fr_provider r) (fr_extensions r))
       (ControlValueError ''extensions must use the record provider namespace'')) (\<lambda>_.
     bindE (control_check (control_identifier (fr_account r) \<and> control_identifier (fr_id r)) (ControlValueError ''identifier'')) (\<lambda>_.
     bindE (control_check (text_between 1 255 (fr_filename r)) (ControlValueError ''filename'')) (\<lambda>_.
     bindE (control_check (0 \<le> fr_bytes r \<and> fr_bytes r \<le> 1073741824) (ControlValueError ''bytes'')) (\<lambda>_.
     bindE (control_check (sha256_text (fr_sha256 r)) (ControlValueError ''sha256'')) (\<lambda>_.
     bindE (control_check (media_type_text (fr_media_type r)) (ControlValueError ''media_type'')) (\<lambda>_.
     bindE (validate_filename (fr_filename r)) (\<lambda>_.
     bindE (control_check (has_timezone (fr_created_at r)) (ControlValueError ''created_at must include a UTC offset'')) (\<lambda>_.
     Inr r))))))))"

record file_policy =
  max_upload_bytes :: int
  max_download_bytes :: int
  max_chunk_bytes :: int
  max_jsonl_line_bytes :: int
  max_jsonl_lines :: int

definition FilePolicy :: "file_policy \<Rightarrow> control_error + file_policy" where
  "FilePolicy c =
     bindE (control_check (1024 \<le> max_upload_bytes c \<and> max_upload_bytes c \<le> 1073741824) (ControlValueError ''max_upload_bytes'')) (\<lambda>_.
     bindE (control_check (1024 \<le> max_download_bytes c \<and> max_download_bytes c \<le> 1073741824) (ControlValueError ''max_download_bytes'')) (\<lambda>_.
     bindE (control_check (1024 \<le> max_chunk_bytes c \<and> max_chunk_bytes c \<le> 4194304) (ControlValueError ''max_chunk_bytes'')) (\<lambda>_.
     bindE (control_check (128 \<le> max_jsonl_line_bytes c \<and> max_jsonl_line_bytes c \<le> 16777216) (ControlValueError ''max_jsonl_line_bytes'')) (\<lambda>_.
     bindE (control_check (1 \<le> max_jsonl_lines c \<and> max_jsonl_lines c \<le> 1000000) (ControlValueError ''max_jsonl_lines'')) (\<lambda>_.
     Inr c)))))"

definition default_file_policy :: file_policy where
  "default_file_policy = \<lparr>max_upload_bytes = 209715200, max_download_bytes = 536870912, max_chunk_bytes = 1048576,
     max_jsonl_line_bytes = 1048576, max_jsonl_lines = 50000\<rparr>"

definition purpose_media :: "file_purpose \<Rightarrow> string list" where
  "purpose_media x =
     (let images = [''image/jpeg'', ''image/png'', ''image/gif'', ''image/webp''];
          documents = [''application/pdf'', ''application/jsonl'', ''text/plain''] @ images
      in (case x of
            BatchPurpose \<Rightarrow> [''application/jsonl'']
          | FineTunePurpose \<Rightarrow> [''application/jsonl'']
          | EvalsPurpose \<Rightarrow> [''application/jsonl'']
          | VisionPurpose \<Rightarrow> images
          | AssistantsPurpose \<Rightarrow> documents
          | UserDataPurpose \<Rightarrow> ''application/octet-stream'' # documents))"

definition require_media_type :: "file_purpose \<Rightarrow> string \<Rightarrow> control_error + unit" where
  "require_media_type x media_type =
     control_check (media_type \<in> set (purpose_media x)) (ControlValueError ''media type is not allowed for this file purpose'')"

section \<open>Content\<close>

text \<open>\<open>_spool_upload\<close>: \<open>failure\<close> is the exception that the source ends with, if it does.\<close>

fun spool_upload ::
  "int \<Rightarrow> int \<Rightarrow> string \<Rightarrow> string option list \<Rightarrow> control_error option \<Rightarrow> control_error + string" where
  "spool_upload maximum max_chunk content [] (Some e) = Inl e"
| "spool_upload maximum max_chunk content [] None =
     (if content = [] then Inl (FileError ''upload cannot be empty'') else Inr content)"
| "spool_upload maximum max_chunk content (None # chunks) failure = Inl (FileError ''upload yielded an invalid chunk'')"
| "spool_upload maximum max_chunk content (Some chunk # chunks) failure =
     (if chunk = [] then Inl (FileError ''upload yielded an invalid chunk'')
      else if int (length chunk) > max_chunk then Inl (FileError ''upload chunk exceeds its byte limit'')
      else if int (length (content @ chunk)) > maximum then Inl (FileError ''upload exceeds its byte limit'')
      else spool_upload maximum max_chunk (content @ chunk) chunks failure)"

text \<open>The lines that \<open>readline\<close> returns, each with its line feed.\<close>

fun file_lines :: "string \<Rightarrow> string list" where
  "file_lines [] = []"
| "file_lines (c # s) =
     (if c = newline then [c] # file_lines s
      else (case file_lines s of [] \<Rightarrow> [[c]] | l # ls \<Rightarrow> (c # l) # ls))"

definition batch_line :: "json dict \<Rightarrow> bool" where
  "batch_line d = (set (map fst d) = {''custom_id'', ''method'', ''url'', ''body''} \<and> get_or_null d ''method'' = JStr ''POST'')"

definition validate_line ::
  "(string \<Rightarrow> string option) \<Rightarrow> file_purpose \<Rightarrow> file_policy \<Rightarrow> nat \<Rightarrow> string \<Rightarrow> control_error + nat" where
  "validate_line decode x c n line =
     bindE (control_check (\<not> int (length line) > max_jsonl_line_bytes c) (FileError ''JSONL line exceeds its byte limit'')) (\<lambda>_.
     bindE (control_check (\<not> int (n + 1) > max_jsonl_lines c) (FileError ''JSONL file has too many lines'')) (\<lambda>_.
     case Option.bind (decode line) json_loads of
       None \<Rightarrow> Inl (FileError ''JSONL file contains an invalid line'')
     | Some (JObj d) \<Rightarrow>
         bindE (control_check (x = BatchPurpose \<longrightarrow> batch_line d) (FileError ''batch JSONL line has an invalid request shape''))
           (\<lambda>_. Inr (n + 1))
     | Some _ \<Rightarrow> Inl (FileError ''JSONL lines must be JSON objects'')))"

definition validate_jsonl :: "(string \<Rightarrow> string option) \<Rightarrow> file_purpose \<Rightarrow> file_policy \<Rightarrow> string \<Rightarrow> control_error + unit" where
  "validate_jsonl decode x c content =
     bindE (foldE (validate_line decode x c) 0 (file_lines content)) (\<lambda>n.
     control_check (n \<noteq> 0) (FileError ''JSONL file cannot be empty''))"

text \<open>The strict UTF-8 decoder: no overlong form, no surrogate, nothing above U+10FFFF.\<close>

definition byte_in :: "nat \<Rightarrow> nat \<Rightarrow> char \<Rightarrow> bool" where
  "byte_in lo hi c = (lo \<le> code_of c \<and> code_of c \<le> hi)"

abbreviation continuation :: "char \<Rightarrow> bool" where
  "continuation \<equiv> byte_in 128 191"

fun utf8_valid :: "string \<Rightarrow> bool" where
  "utf8_valid [] = True"
| "utf8_valid (a # s) =
     (if code_of a < 128 then utf8_valid s
      else (case s of
          [] \<Rightarrow> False
        | b # s1 \<Rightarrow>
            if byte_in 194 223 a then continuation b \<and> utf8_valid s1
            else (case s1 of
                [] \<Rightarrow> False
              | c # s2 \<Rightarrow>
                  if byte_in 224 239 a then
                    (if code_of a = 224 then byte_in 160 191 b else if code_of a = 237 then byte_in 128 159 b else continuation b) \<and>
                    continuation c \<and> utf8_valid s2
                  else (case s2 of
                      [] \<Rightarrow> False
                    | d # s3 \<Rightarrow>
                        byte_in 240 244 a \<and>
                        (if code_of a = 240 then byte_in 144 191 b else if code_of a = 244 then byte_in 128 143 b else continuation b) \<and>
                        continuation c \<and> continuation d \<and> utf8_valid s3))))"

definition png_signature :: string where
  "png_signature = [CHR 0x89, CHR ''P'', CHR ''N'', CHR ''G'', CHR 0x0D, CHR 0x0A, CHR 0x1A, CHR 0x0A]"

definition jpeg_signature :: string where
  "jpeg_signature = [CHR 0xFF, CHR 0xD8, CHR 0xFF]"

definition validate_content ::
  "(string \<Rightarrow> string option) \<Rightarrow> string \<Rightarrow> string \<Rightarrow> file_purpose \<Rightarrow> file_policy \<Rightarrow> string \<Rightarrow> control_error + unit" where
  "validate_content decode filename media_type x c content =
     (let prefix = take 32 content
      in if media_type = ''application/pdf'' then
           control_check (starts_with ''%PDF-'' prefix) (FileError ''declared PDF content has an invalid signature'')
         else if media_type = ''image/png'' then
           control_check (starts_with png_signature prefix) (FileError ''declared PNG content has an invalid signature'')
         else if media_type = ''image/jpeg'' then
           control_check (starts_with jpeg_signature prefix) (FileError ''declared JPEG content has an invalid signature'')
         else if media_type = ''image/gif'' then
           control_check (starts_with ''GIF87a'' prefix \<or> starts_with ''GIF89a'' prefix)
             (FileError ''declared GIF content has an invalid signature'')
         else if media_type = ''image/webp'' then
           control_check (starts_with ''RIFF'' prefix \<and> take 4 (drop 8 prefix) = ''WEBP'')
             (FileError ''declared WebP content has an invalid signature'')
         else if media_type = ''application/jsonl'' then
           bindE (control_check (suffix ''.jsonl'' (py_lower filename)) (FileError ''JSONL uploads require a .jsonl filename'')) (\<lambda>_.
           validate_jsonl decode x c content)
         else if media_type = ''text/plain'' then control_check (utf8_valid content) (FileError ''text upload must be valid UTF-8'')
         else Inr ())"

section \<open>The service\<close>

text \<open>\<open>fe_accounts\<close> gives the account of each configured adapter.\<close>

record 'p file_env =
  fe_codec :: "(file_record, 'p) row_codec"
  fe_policy :: file_policy
  fe_accounts :: "string dict"
  fe_sha256 :: "string \<Rightarrow> string"
  fe_decode :: "string \<Rightarrow> string option"
  fe_isotime :: "py_datetime \<Rightarrow> string"

definition file_adapter :: "'p file_env \<Rightarrow> string \<Rightarrow> control_error + string" where
  "file_adapter env provider = (case dict_get (fe_accounts env) provider of
     None \<Rightarrow> Inl (FileError ''file provider is not configured'') | Some account \<Rightarrow> Inr account)"

definition file_key :: "file_record \<Rightarrow> string \<times> string \<times> string" where
  "file_key r = (fr_provider r, fr_account r, fr_id r)"

definition put_record ::
  "'p file_env \<Rightarrow> string \<Rightarrow> py_datetime \<Rightarrow> file_record \<Rightarrow> 'p control_db \<Rightarrow> control_error + 'p control_db" where
  "put_record env fresh now r db =
     (if map_of (db_files db) (file_key r) \<noteq> None then Inl IntegrityError
      else append_audit (fe_isotime env) fresh ''control.file.created'' (scope_text [fr_provider r, fr_account r, fr_id r])
        [(''bytes'', JInt (fr_bytes r)), (''media_type'', JStr (fr_media_type r)),
         (''purpose'', JStr (purpose_value (fr_purpose r))), (''sha256'', JStr (fr_sha256 r))] now
        (db\<lparr>db_files := db_files db @ [(file_key r, rc_dump (fe_codec env) r)]\<rparr>))"

text \<open>\<open>answer\<close> is what the adapter's \<open>upload_file\<close> returns or raises.\<close>

definition upload ::
  "'p file_env \<Rightarrow> string \<Rightarrow> py_datetime \<Rightarrow> string \<Rightarrow> string option list \<Rightarrow> control_error option \<Rightarrow> string \<Rightarrow> string \<Rightarrow> file_purpose
     \<Rightarrow> control_error + file_record \<Rightarrow> 'p control_db \<Rightarrow> control_error + file_record \<times> 'p control_db" where
  "upload env fresh now provider chunks failure filename media_type x answer db =
     bindE (file_adapter env provider) (\<lambda>account.
     bindE (validate_filename filename) (\<lambda>name.
     bindE (require_media_type x media_type) (\<lambda>_.
     bindE (spool_upload (max_upload_bytes (fe_policy env)) (max_chunk_bytes (fe_policy env)) [] chunks failure) (\<lambda>content.
     bindE (validate_content (fe_decode env) name media_type x (fe_policy env) content) (\<lambda>_.
     bindE answer (\<lambda>r.
     bindE (control_check (\<not> (fr_provider r \<noteq> provider \<or> fr_account r \<noteq> account \<or> fr_filename r \<noteq> name \<or>
         fr_bytes r \<noteq> int (length content) \<or> fr_sha256 r \<noteq> fe_sha256 env content \<or> fr_media_type r \<noteq> media_type \<or>
         fr_purpose r \<noteq> x)) (FileError ''provider file metadata does not match the validated upload'')) (\<lambda>_.
     bindE (put_record env fresh now r db) (\<lambda>db'.
     Inr (r, db')))))))))"

definition list_files ::
  "'p file_env \<Rightarrow> string \<Rightarrow> string \<Rightarrow> int \<Rightarrow> 'p control_db \<Rightarrow> string option \<Rightarrow> control_error + file_record page" where
  "list_files env provider account limit db after =
     select_page (FileError ''stored file metadata is invalid'') (fe_codec env) provider account limit (db_files db) after"

definition get_file :: "'p file_env \<Rightarrow> string \<Rightarrow> string \<Rightarrow> string \<Rightarrow> 'p control_db \<Rightarrow> control_error + file_record" where
  "get_file env provider account file_id db = (case map_of (db_files db) (provider, account, file_id) of
     None \<Rightarrow> Inl (FileError ''file was not found'')
   | Some payload \<Rightarrow> (case rc_validate (fe_codec env) payload of
         None \<Rightarrow> Inl (FileError ''stored file metadata is invalid'') | Some r \<Rightarrow> Inr r))"

text \<open>The chunks that \<open>download\<close> yields, and the exception it ends with, if it does.\<close>

fun download_from ::
  "'p file_env \<Rightarrow> file_record \<Rightarrow> string \<Rightarrow> string option list \<Rightarrow> control_error option \<Rightarrow> string list \<times> control_error option" where
  "download_from env r got [] (Some e) = ([], Some e)"
| "download_from env r got [] None =
     ([], if int (length got) \<noteq> fr_bytes r \<or> fe_sha256 env got \<noteq> fr_sha256 r
          then Some (FileError ''provider file download failed its integrity check'') else None)"
| "download_from env r got (None # chunks) failure = ([], Some (FileError ''provider file download yielded an invalid chunk''))"
| "download_from env r got (Some chunk # chunks) failure =
     (if chunk = [] then ([], Some (FileError ''provider file download yielded an invalid chunk''))
      else if int (length chunk) > max_chunk_bytes (fe_policy env)
      then ([], Some (FileError ''provider file download chunk is excessive''))
      else if int (length (got @ chunk)) > min (fr_bytes r) (max_download_bytes (fe_policy env))
      then ([], Some (FileError ''provider file download exceeded its byte limit''))
      else (case download_from env r (got @ chunk) chunks failure of (out, e) \<Rightarrow> (chunk # out, e)))"

definition download ::
  "'p file_env \<Rightarrow> string \<Rightarrow> string \<Rightarrow> string \<Rightarrow> string option list \<Rightarrow> control_error option \<Rightarrow> 'p control_db
     \<Rightarrow> string list \<times> control_error option" where
  "download env provider account file_id chunks failure db =
     (case bindE (get_file env provider account file_id db) (\<lambda>r.
           bindE (file_adapter env provider) (\<lambda>a.
           bindE (control_check (a = account) (FileError ''file adapter account does not match'')) (\<lambda>_. Inr r))) of
        Inl e \<Rightarrow> ([], Some e)
      | Inr r \<Rightarrow> download_from env r [] chunks failure)"

definition delete_file ::
  "'p file_env \<Rightarrow> string \<Rightarrow> py_datetime \<Rightarrow> string \<Rightarrow> string \<Rightarrow> string \<Rightarrow> control_error + unit \<Rightarrow> 'p control_db
     \<Rightarrow> control_error + 'p control_db" where
  "delete_file env fresh now provider account file_id answer db =
     bindE (get_file env provider account file_id db) (\<lambda>_.
     bindE (file_adapter env provider) (\<lambda>a.
     bindE (control_check (a = account) (FileError ''file adapter account does not match'')) (\<lambda>_.
     bindE answer (\<lambda>_.
     append_audit (fe_isotime env) fresh ''control.file.deleted'' (scope_text [provider, account, file_id]) [] now
       (db\<lparr>db_files := AList.delete (provider, account, file_id) (db_files db)\<rparr>)))))"

section \<open>What is uploaded\<close>

lemma spool_upload_Inr:
  "spool_upload maximum max_chunk content chunks failure = Inr out \<Longrightarrow>
     failure = None \<and> (\<exists>cs. chunks = map Some cs \<and> out = content @ concat cs \<and> list_all (\<lambda>c. c \<noteq> [] \<and> int (length c) \<le> max_chunk) cs) \<and>
     out \<noteq> [] \<and> (int (length content) \<le> maximum \<longrightarrow> int (length out) \<le> maximum)"
proof (induction maximum max_chunk content chunks failure rule: spool_upload.induct)
  case (4 maximum max_chunk content chunk chunks failure)
  then have ok: "chunk \<noteq> []" "int (length chunk) \<le> max_chunk" "int (length (content @ chunk)) \<le> maximum"
      "spool_upload maximum max_chunk (content @ chunk) chunks failure = Inr out"
    by (auto split: if_splits)
  have "chunk \<noteq> [] \<Longrightarrow> \<not> int (length chunk) > max_chunk \<Longrightarrow> \<not> int (length (content @ chunk)) > maximum \<Longrightarrow>
      spool_upload maximum max_chunk (content @ chunk) chunks failure = Inr out \<Longrightarrow> failure = None \<and>
      (\<exists>cs. chunks = map Some cs \<and> out = (content @ chunk) @ concat cs \<and> list_all (\<lambda>c. c \<noteq> [] \<and> int (length c) \<le> max_chunk) cs) \<and>
      out \<noteq> [] \<and> (int (length (content @ chunk)) \<le> maximum \<longrightarrow> int (length out) \<le> maximum)"
    by (rule "4.IH")
  then obtain cs where "failure = None" "chunks = map Some cs" "out = (content @ chunk) @ concat cs"
      "list_all (\<lambda>c. c \<noteq> [] \<and> int (length c) \<le> max_chunk) cs" "out \<noteq> []" "int (length out) \<le> maximum"
    using ok by auto
  then show ?case using ok by (intro conjI exI[of _ "chunk # cs"]) auto
qed (auto split: if_splits)

text \<open>What a line of an accepted JSONL file is.\<close>

definition jsonl_line_ok :: "(string \<Rightarrow> string option) \<Rightarrow> file_purpose \<Rightarrow> file_policy \<Rightarrow> string \<Rightarrow> bool" where
  "jsonl_line_ok decode x c line = (int (length line) \<le> max_jsonl_line_bytes c \<and>
     (\<exists>t d. decode line = Some t \<and> json_loads t = Some (JObj d) \<and> (x = BatchPurpose \<longrightarrow> batch_line d)))"

lemma validate_line_Inr:
  "validate_line decode x c n line = Inr m \<longleftrightarrow> m = n + 1 \<and> int m \<le> max_jsonl_lines c \<and> jsonl_line_ok decode x c line"
  by (auto simp: validate_line_def res_simps jsonl_line_ok_def bind_eq_Some_conv split: option.splits json.splits)

lemma validate_lines_Inr:
  "foldE (validate_line decode x c) n ls = Inr m \<longleftrightarrow>
     m = n + length ls \<and> (ls \<noteq> [] \<longrightarrow> int m \<le> max_jsonl_lines c) \<and> list_all (jsonl_line_ok decode x c) ls"
proof (induction ls arbitrary: n)
  case (Cons l ls)
  show ?case by (auto simp: bindE_eq_Inr validate_line_Inr Cons.IH)
qed auto

lemma concat_file_lines: "concat (file_lines s) = s"
  by (induction s) (auto split: list.splits)

lemma validate_jsonl_Inr:
  "validate_jsonl decode x c content = Inr () \<longleftrightarrow>
     content \<noteq> [] \<and> int (length (file_lines content)) \<le> max_jsonl_lines c \<and> list_all (jsonl_line_ok decode x c) (file_lines content)"
proof -
  have "file_lines content = [] \<longleftrightarrow> content = []" using concat_file_lines[of content] by (cases content) auto
  then show ?thesis by (auto simp: validate_jsonl_def bindE_eq_Inr validate_lines_Inr res_simps)
qed

text \<open>
  An upload that goes through has stored the provider's record of exactly the bytes that were sent:
  their number and hash, under the name, media type and purpose that were asked for and that fit each
  other. A JSONL upload consists of lines within the limits, each a JSON object and, for a batch, a
  request. The record can be read back, and nothing else of the catalogue changed. An upload that fails
  leaves the database as it was, since it has no other.
\<close>

theorem upload_stores_validated_content:
  assumes "upload env fresh now provider chunks failure filename media_type x answer db = Inr (r, db')"
    and "codec_sound (fe_codec env)" "0 \<le> max_upload_bytes (fe_policy env)"
  shows "\<exists>cs content. chunks = map Some cs \<and> content = concat cs \<and> content \<noteq> [] \<and>
    int (length content) \<le> max_upload_bytes (fe_policy env) \<and> answer = Inr r \<and>
    fr_bytes r = int (length content) \<and> fr_sha256 r = fe_sha256 env content \<and> fr_filename r = filename \<and>
    fr_media_type r = media_type \<and> media_type \<in> set (purpose_media x) \<and> fr_purpose r = x \<and> filename_ok filename \<and>
    (media_type = ''application/jsonl'' \<longrightarrow> int (length (file_lines content)) \<le> max_jsonl_lines (fe_policy env) \<and>
       list_all (jsonl_line_ok (fe_decode env) x (fe_policy env)) (file_lines content)) \<and>
    (media_type = ''text/plain'' \<longrightarrow> utf8_valid content) \<and>
    get_file env provider (fr_account r) (fr_id r) db' = Inr r \<and>
    (\<forall>k. k \<noteq> file_key r \<longrightarrow> map_of (db_files db') k = map_of (db_files db) k) \<and> map_of (db_files db) (file_key r) = None"
proof -
  obtain account content where u: "filename_ok filename" "media_type \<in> set (purpose_media x)"
      "spool_upload (max_upload_bytes (fe_policy env)) (max_chunk_bytes (fe_policy env)) [] chunks failure = Inr content"
      "validate_content (fe_decode env) filename media_type x (fe_policy env) content = Inr ()"
      "answer = Inr r" "fr_provider r = provider" "fr_filename r = filename" "fr_bytes r = int (length content)"
      "fr_sha256 r = fe_sha256 env content" "fr_media_type r = media_type" "fr_purpose r = x"
      "put_record env fresh now r db = Inr db'"
    using assms(1) unfolding upload_def validate_filename_def require_media_type_def by (auto simp: res_simps)
  obtain cs where cs: "chunks = map Some cs" "content = concat cs" "content \<noteq> []" "int (length content) \<le> max_upload_bytes (fe_policy env)"
    using spool_upload_Inr[OF u(3)] assms(3) by auto
  have put: "map_of (db_files db) (file_key r) = None"
      "db_files db' = db_files db @ [(file_key r, rc_dump (fe_codec env) r)]"
    using u(12) by (auto simp: put_record_def res_simps split: if_splits)
  have "media_type = ''application/jsonl'' \<Longrightarrow> validate_jsonl (fe_decode env) x (fe_policy env) content = Inr ()"
      and plain: "media_type = ''text/plain'' \<Longrightarrow> utf8_valid content"
    using u(4) by (auto simp: validate_content_def res_simps)
  then have jsonl: "media_type = ''application/jsonl'' \<Longrightarrow> int (length (file_lines content)) \<le> max_jsonl_lines (fe_policy env) \<and>
       list_all (jsonl_line_ok (fe_decode env) x (fe_policy env)) (file_lines content)"
    unfolding validate_jsonl_Inr by blast
  have get: "get_file env provider (fr_account r) (fr_id r) db' = Inr r"
    using put u(6) assms(2) by (auto simp: get_file_def file_key_def map_add_def)
  have frame: "\<forall>k. k \<noteq> file_key r \<longrightarrow> map_of (db_files db') k = map_of (db_files db) k"
    using put(2) by (auto simp: map_add_def split: option.splits)
  show ?thesis using u cs jsonl plain get frame put(1) by blast
qed

text \<open>
  What a download hands on is within the limits, at every moment the first chunks of what the provider
  sends; and one that ends without an error handed on exactly the bytes that were uploaded, by
  their number and their hash.
\<close>

lemma download_from_spec:
  "download_from env r got chunks failure = (out, e) \<Longrightarrow>
     prefix (map Some out) chunks \<and> (int (length got) \<le> min (fr_bytes r) (max_download_bytes (fe_policy env)) \<longrightarrow>
       int (length (got @ concat out)) \<le> min (fr_bytes r) (max_download_bytes (fe_policy env))) \<and>
     (e = None \<longrightarrow> chunks = map Some out \<and> failure = None \<and> int (length (got @ concat out)) = fr_bytes r \<and>
        fe_sha256 env (got @ concat out) = fr_sha256 r)"
proof (induction env r got chunks failure arbitrary: out rule: download_from.induct)
  case (4 env r got chunk chunks failure)
  show ?case
  proof (cases "chunk = [] \<or> int (length chunk) > max_chunk_bytes (fe_policy env) \<or>
      int (length (got @ chunk)) > min (fr_bytes r) (max_download_bytes (fe_policy env))")
    case True
    then have "out = [] \<and> e \<noteq> None" using "4.prems" by (auto split: if_splits)
    then show ?thesis by simp
  next
    case False
    then obtain out' where o: "out = chunk # out'" "download_from env r (got @ chunk) chunks failure = (out', e)"
      using "4.prems" by (auto split: prod.splits if_splits)
    from False have "int (length (got @ chunk)) \<le> min (fr_bytes r) (max_download_bytes (fe_policy env))" by linarith
    then show ?thesis using "4.IH"[OF _ _ _ o(2)] False o(1) by auto
  qed
qed (auto split: if_splits)

text \<open>
  What \<open>download\<close> has handed on is always a beginning of what the provider sends, within the recorded
  size and the limit; the stream ends without an exception only when it is complete and its size
  and hash are those on record.
\<close>

theorem download_integrity:
  assumes "download env provider account file_id chunks failure db = (out, e)"
    and "get_file env provider account file_id db = Inr r" "0 \<le> fr_bytes r" "0 \<le> max_download_bytes (fe_policy env)"
  shows "prefix (map Some out) chunks \<and> int (length (concat out)) \<le> min (fr_bytes r) (max_download_bytes (fe_policy env)) \<and>
    (e = None \<longrightarrow> chunks = map Some out \<and> int (length (concat out)) = fr_bytes r \<and> fe_sha256 env (concat out) = fr_sha256 r)"
proof (cases "download env provider account file_id chunks failure db = download_from env r [] chunks failure")
  case True
  then have "download_from env r [] chunks failure = (out, e)" using assms(1) by simp
  from download_from_spec[OF this] show ?thesis using assms(3,4) by auto
next
  case False
  then have "out = [] \<and> e \<noteq> None" using assms(1,2) by (auto simp: download_def bindE_def split: sum.splits)
  then show ?thesis using assms(3,4) by auto
qed

section \<open>The catalogue\<close>

text \<open>
  Whoever follows the cursors of \<open>list\<close> gets every file of the account exactly once, in the order of
  the identifiers, in full pages except for the last one.
\<close>

theorem list_files_complete:
  assumes "1 \<le> limit" "limit \<le> 100" "distinct (map fst (db_files db))"
    and "list_all (\<lambda>row. rc_validate (fe_codec env) (snd row) \<noteq> None) (db_files db)"
  shows "\<exists>ps. page_chain (\<lambda>_. list_files env provider account limit db) 0 None ps \<and>
    concat (map pg_items ps) = map (\<lambda>row. the (rc_validate (fe_codec env) (snd row))) (scope_rows provider account (db_files db)) \<and>
    list_all (\<lambda>pg. int (length (pg_items pg)) = limit) (butlast ps) \<and> int (length (pg_items (last ps))) \<le> limit \<and>
    sorted_wrt (<) (map fst (scope_rows provider account (db_files db))) \<and>
    set (scope_rows provider account (db_files db)) = {(i, payload). ((provider, account, i), payload) \<in> set (db_files db)}"
proof -
  have rows: "set (scope_rows provider account (db_files db)) = {(i, payload). ((provider, account, i), payload) \<in> set (db_files db)}"
    by (force simp: scope_rows_def)
  have decodes: "rc_validate (fe_codec env) (snd row) \<noteq> None" if "row \<in> set (scope_rows provider account (db_files db))" for row
    using that assms(4) unfolding rows list_all_iff by fastforce
  have "list_all2 (\<lambda>row x. rc_validate (fe_codec env) (snd row) = Some x) (scope_rows provider account (db_files db))
      (map (\<lambda>row. the (rc_validate (fe_codec env) (snd row))) (scope_rows provider account (db_files db)))"
    using decodes[OF nth_mem] by (auto simp: list_all2_conv_all_nth)
  from select_pages_complete[OF assms(1-3) this] rows sorted_scope_rows[OF assms(3), of provider account]
  show ?thesis unfolding list_files_def by blast
qed

text \<open>
  Deleting what was just uploaded brings the catalogue back to what it was before, and the file is no
  longer found; both events are recorded.
\<close>

theorem delete_undoes_upload:
  assumes "upload env fresh now provider chunks failure filename media_type x answer db = Inr (r, db')" "codec_sound (fe_codec env)"
    and "fresh' \<notin> au_id ` set (db_audit db')"
  shows "\<exists>db''. delete_file env fresh' now' provider (fr_account r) (fr_id r) (Inr ()) db' = Inr db'' \<and>
    db_files db'' = db_files db \<and> get_file env provider (fr_account r) (fr_id r) db'' = Inl (FileError ''file was not found'') \<and>
    length (db_audit db'') = length (db_audit db) + 2"
proof -
  have u: "file_adapter env provider = Inr (fr_account r)" "fr_provider r = provider" "put_record env fresh now r db = Inr db'"
    using assms(1) by (auto simp: upload_def res_simps)
  then have put: "map_of (db_files db) (file_key r) = None"
      "db_files db' = db_files db @ [(file_key r, rc_dump (fe_codec env) r)]" "length (db_audit db') = length (db_audit db) + 1"
    by (auto simp: put_record_def res_simps split: if_splits)
  have key: "file_key r = (provider, fr_account r, fr_id r)" using u(2) by (simp add: file_key_def)
  have "AList.delete (file_key r) (db_files db) = db_files db"
    using put(1) by (simp add: AList.delete_eq filter_id_conv map_of_eq_None_iff) force
  then have del: "AList.delete (file_key r) (db_files db') = db_files db" unfolding put(2) by (simp add: AList.delete_eq)
  have get: "get_file env provider (fr_account r) (fr_id r) db' = Inr r"
    using put assms(2) by (simp add: get_file_def key map_add_def)
  show ?thesis
    using u(1) get del put(1,3) assms(3) by (simp add: delete_file_def append_audit_def key get_file_def)
qed

section \<open>A file\<close>

definition demo_file_env :: "file_record file_env" where
  "demo_file_env = \<lparr>fe_codec = plain_codec, fe_policy = default_file_policy, fe_accounts = [(''p'', ''a'')],
     fe_sha256 = (\<lambda>s. ''h''), fe_decode = Some, fe_isotime = (\<lambda>_. ''t'')\<rparr>"

definition demo_file :: "string \<Rightarrow> file_record" where
  "demo_file i = \<lparr>fr_provider = ''p'', fr_extensions = [], fr_account = ''a'', fr_id = i, fr_filename = ''f.txt'', fr_bytes = 3,
     fr_sha256 = ''h'', fr_media_type = ''text/plain'', fr_purpose = UserDataPurpose, fr_created_at = demo_time 0\<rparr>"

definition demo_files :: "file_record control_db" where
  "demo_files = empty_db\<lparr>db_files := [((''p'', ''a'', ''y''), demo_file ''y''), ((''p'', ''a'', ''x''), demo_file ''x'')]\<rparr>"

lemma demo_upload:
  "\<exists>db'. upload demo_file_env ''u'' (demo_time 1) ''p'' [Some ''ab'', Some ''c''] None ''f.txt'' ''text/plain'' UserDataPurpose
     (Inr (demo_file ''z'')) demo_files = Inr (demo_file ''z'', db') \<and> db_audit db' \<noteq> [] \<and> au_id ` set (db_audit db') = {''u''}"
  by (simp add: upload_def file_adapter_def demo_file_env_def dict_get_def validate_filename_def filename_ok_def starts_with_def
      utf8_encode_def utf8_char_def code_of_def require_media_type_def purpose_media_def default_file_policy_def validate_content_def
      demo_file_def demo_files_def put_record_def file_key_def append_audit_def empty_db_def)

lemma demo_file_env_codec [simp]: "codec_sound (fe_codec demo_file_env)"
  by (simp add: demo_file_env_def)

theorem upload_stores_validated_content_witness:
  "\<exists>db'. upload demo_file_env ''u'' (demo_time 1) ''p'' [Some ''ab'', Some ''c''] None ''f.txt'' ''text/plain'' UserDataPurpose
     (Inr (demo_file ''z'')) demo_files = Inr (demo_file ''z'', db') \<and> get_file demo_file_env ''p'' ''a'' ''z'' db' = Inr (demo_file ''z'')"
proof -
  obtain db' where u: "upload demo_file_env ''u'' (demo_time 1) ''p'' [Some ''ab'', Some ''c''] None ''f.txt'' ''text/plain'' UserDataPurpose
     (Inr (demo_file ''z'')) demo_files = Inr (demo_file ''z'', db')" using demo_upload by blast
  have "0 \<le> max_upload_bytes (fe_policy demo_file_env)" by (simp add: demo_file_env_def default_file_policy_def)
  from upload_stores_validated_content[OF u demo_file_env_codec this] have "get_file demo_file_env ''p'' ''a'' ''z'' db' = Inr (demo_file ''z'')"
    by (auto simp: demo_file_def)
  then show ?thesis using u by blast
qed

theorem delete_undoes_upload_witness:
  "\<exists>db' db''. upload demo_file_env ''u'' (demo_time 1) ''p'' [Some ''ab'', Some ''c''] None ''f.txt'' ''text/plain'' UserDataPurpose
     (Inr (demo_file ''z'')) demo_files = Inr (demo_file ''z'', db') \<and>
     delete_file demo_file_env ''v'' (demo_time 2) ''p'' (fr_account (demo_file ''z'')) (fr_id (demo_file ''z'')) (Inr ()) db' = Inr db'' \<and>
     db_files db'' = db_files demo_files"
proof -
  obtain db' where u: "upload demo_file_env ''u'' (demo_time 1) ''p'' [Some ''ab'', Some ''c''] None ''f.txt'' ''text/plain'' UserDataPurpose
     (Inr (demo_file ''z'')) demo_files = Inr (demo_file ''z'', db')" "au_id ` set (db_audit db') = {''u''}" using demo_upload by blast
  have "''v'' \<notin> au_id ` set (db_audit db')" using u(2) by simp
  from delete_undoes_upload[OF u(1) demo_file_env_codec this] show ?thesis using u(1) by blast
qed

theorem list_files_complete_witness:
  "\<exists>ps. page_chain (\<lambda>_. list_files demo_file_env ''p'' ''a'' 1 demo_files) 0 None ps \<and> length (concat (map pg_items ps)) = 2"
proof -
  have d: "distinct (map fst (db_files demo_files))" by (simp add: demo_files_def empty_db_def)
  have v: "list_all (\<lambda>row. rc_validate (fe_codec demo_file_env) (snd row) \<noteq> None) (db_files demo_files)"
    by (simp add: demo_files_def empty_db_def demo_file_env_def plain_codec_def)
  have "length (scope_rows ''p'' ''a'' (db_files demo_files)) = 2" by (simp add: scope_rows_def demo_files_def empty_db_def)
  then show ?thesis using list_files_complete[OF _ _ d v, of 1 "''p''" "''a''"] by auto
qed

theorem download_integrity_witness:
  "download demo_file_env ''p'' ''a'' ''x'' [Some ''ab'', Some ''c''] None demo_files = ([''ab'', ''c''], None) \<and>
   int (length (concat [''ab'', ''c''])) = fr_bytes (demo_file ''x'')"
proof -
  have g: "get_file demo_file_env ''p'' ''a'' ''x'' demo_files = Inr (demo_file ''x'')"
    by (simp add: get_file_def demo_files_def empty_db_def demo_file_env_def plain_codec_def)
  have d: "download demo_file_env ''p'' ''a'' ''x'' [Some ''ab'', Some ''c''] None demo_files = ([''ab'', ''c''], None)"
    unfolding download_def g by (simp add: file_adapter_def demo_file_env_def dict_get_def default_file_policy_def demo_file_def)
  have "0 \<le> fr_bytes (demo_file ''x'')" "0 \<le> max_download_bytes (fe_policy demo_file_env)"
    by (simp_all add: demo_file_def demo_file_env_def default_file_policy_def)
  from download_integrity[OF d g this] show ?thesis using d by blast
qed

end
