(* ===== verification/Batches.thy ===== *)
theory Batches
  imports ControlFiles
begin

text \<open>
  The control plane's message batches (\<open>zeaz_control/batches.py\<close>): the records, the two transactions
  behind an idempotency key (\<open>_reserve\<close> and \<open>_complete\<close>), submission, cancellation, refresh, retrieval,
  and the stream of results. An adapter's answer is an argument. Between the two transactions of one
  operation other clients' transactions may run; what they make of the database is the argument
  \<open>others\<close>.
\<close>

section \<open>Records\<close>

datatype batch_status = Validating | InProgress | Finalizing | BatchCompleted | BatchFailed | BatchExpired | Cancelling | BatchCancelled

definition batch_status_value :: "batch_status \<Rightarrow> string" where
  "batch_status_value x = (case x of Validating \<Rightarrow> ''validating'' | InProgress \<Rightarrow> ''in_progress'' | Finalizing \<Rightarrow> ''finalizing''
     | BatchCompleted \<Rightarrow> ''completed'' | BatchFailed \<Rightarrow> ''failed'' | BatchExpired \<Rightarrow> ''expired'' | Cancelling \<Rightarrow> ''cancelling''
     | BatchCancelled \<Rightarrow> ''cancelled'')"

definition terminal_statuses :: "batch_status set" where
  "terminal_statuses = {BatchCompleted, BatchFailed, BatchExpired, BatchCancelled}"

record batch_counts =
  bc_total :: int
  bc_completed :: int
  bc_failed :: int

definition BatchCounts :: "int \<Rightarrow> int \<Rightarrow> int \<Rightarrow> control_error + batch_counts" where
  "BatchCounts t c f =
     bindE (control_check (list_all (\<lambda>n. 0 \<le> n \<and> n \<le> 1000000) [t, c, f]) (ControlValueError ''counts'')) (\<lambda>_.
     bindE (control_check (\<not> c + f > t) (ControlValueError ''completed plus failed cannot exceed total'')) (\<lambda>_.
     Inr \<lparr>bc_total = t, bc_completed = c, bc_failed = f\<rparr>))"

record batch_submission =
  bs_provider :: string
  bs_extensions :: extensions
  bs_account :: string
  bs_input_file_id :: string
  bs_endpoint :: string
  bs_metadata :: "string dict"

definition batch_endpoints :: "string list" where
  "batch_endpoints = [''/v1/responses'', ''/v1/chat/completions'', ''/v1/messages'']"

definition BatchSubmission :: "batch_submission \<Rightarrow> control_error + batch_submission" where
  "BatchSubmission s =
     bindE (control_check (extensions_ok (bs_provider s) (bs_extensions s))
       (ControlValueError ''extensions must use the record provider namespace'')) (\<lambda>_.
     bindE (control_check (control_identifier (bs_account s) \<and> control_identifier (bs_input_file_id s)) (ControlValueError ''identifier'')) (\<lambda>_.
     bindE (control_check (bs_endpoint s \<in> set batch_endpoints) (ControlValueError ''endpoint'')) (\<lambda>_.
     bindE (control_check (length (bs_metadata s) \<le> 16 \<and>
         list_all (\<lambda>kv. text_between 1 64 (fst kv) \<and> text_between 0 512 (snd kv)) (bs_metadata s)) (ControlValueError ''metadata'')) (\<lambda>_.
     Inr s))))"

text \<open>\<open>submission.model_dump(mode="json")\<close>\<close>

definition submission_json :: "batch_submission \<Rightarrow> json" where
  "submission_json s = JObj [(''provider'', JStr (bs_provider s)), (''extensions'', extensions_json (bs_extensions s)),
     (''schema_version'', JStr ''1''), (''account'', JStr (bs_account s)), (''input_file_id'', JStr (bs_input_file_id s)),
     (''endpoint'', JStr (bs_endpoint s)), (''completion_window'', JStr ''24h''),
     (''metadata'', JObj (map (\<lambda>kv. (fst kv, JStr (snd kv))) (bs_metadata s)))]"

record batch_record =
  br_provider :: string
  br_extensions :: extensions
  br_account :: string
  br_id :: string
  br_input_file_id :: string
  br_endpoint :: string
  br_status :: batch_status
  br_counts :: batch_counts
  br_output_file_id :: "string option"
  br_error_file_id :: "string option"
  br_created_at :: py_datetime
  br_updated_at :: py_datetime

definition identifier_or_none :: "string option \<Rightarrow> bool" where
  "identifier_or_none x = (case x of None \<Rightarrow> True | Some s \<Rightarrow> control_identifier s)"

definition BatchRecord :: "batch_record \<Rightarrow> control_error + batch_record" where
  "BatchRecord r =
     bindE (control_check (extensions_ok (br_provider r) (br_extensions r))
       (ControlValueError ''extensions must use the record provider namespace'')) (\<lambda>_.
     bindE (control_check (list_all control_identifier [br_account r, br_id r, br_input_file_id r]) (ControlValueError ''identifier'')) (\<lambda>_.
     bindE (control_check (text_between 1 128 (br_endpoint r)) (ControlValueError ''endpoint'')) (\<lambda>_.
     bindE (control_check (identifier_or_none (br_output_file_id r) \<and> identifier_or_none (br_error_file_id r)) (ControlValueError ''identifier'')) (\<lambda>_.
     bindE (control_check (has_timezone (br_created_at r) \<and> has_timezone (br_updated_at r))
       (ControlValueError ''batch timestamps must include a UTC offset'')) (\<lambda>_.
     bindE (control_check (\<not> dt_instant (br_updated_at r) < dt_instant (br_created_at r))
       (ControlValueError ''batch update cannot precede creation'')) (\<lambda>_.
     Inr r))))))"

text \<open>\<open>None\<close> is JSON's null.\<close>

record batch_result =
  bt_batch_id :: string
  bt_custom_id :: string
  bt_status_code :: "int option"
  bt_response :: json
  bt_error_code :: "string option"

definition BatchResult :: "batch_result \<Rightarrow> control_error + batch_result" where
  "BatchResult r =
     bindE (control_check (control_identifier (bt_batch_id r) \<and> control_identifier (bt_custom_id r)) (ControlValueError ''identifier'')) (\<lambda>_.
     bindE (control_check (case bt_status_code r of None \<Rightarrow> True | Some n \<Rightarrow> 100 \<le> n \<and> n \<le> 599) (ControlValueError ''status_code'')) (\<lambda>_.
     bindE (control_check (case bt_error_code r of None \<Rightarrow> True | Some e \<Rightarrow> identifier_text e) (ControlValueError ''error_code'')) (\<lambda>_.
     bindE (control_check (\<not> ((bt_response r = JNull) = (bt_error_code r = None)))
       (ControlValueError ''batch result must contain exactly one response or error'')) (\<lambda>_.
     bindE (control_check (\<not> (bt_response r \<noteq> JNull \<and> bt_status_code r = None))
       (ControlValueError ''batch response requires an HTTP status'')) (\<lambda>_.
     Inr r)))))"

section \<open>Transactions\<close>

record 'p batch_env =
  be_codec :: "(batch_record, 'p) row_codec"
  be_files :: "(file_record, 'p) row_codec"
  be_accounts :: "string dict"
  be_sha256 :: "string \<Rightarrow> string"
  be_isotime :: "py_datetime \<Rightarrow> string"
  be_max_result_count :: int
  be_max_result_bytes :: int
  be_result_size :: "batch_result \<Rightarrow> nat"

definition BatchService :: "'p batch_env \<Rightarrow> control_error + 'p batch_env" where
  "BatchService env =
     bindE (control_check (be_accounts env \<noteq> []) (ControlValueError ''at least one batch adapter is required'')) (\<lambda>_.
     bindE (control_check (1 \<le> be_max_result_count env \<and> be_max_result_count env \<le> 10000000)
       (ControlValueError ''max_result_count is invalid'')) (\<lambda>_.
     bindE (control_check (1024 \<le> be_max_result_bytes env \<and> be_max_result_bytes env \<le> 10737418240)
       (ControlValueError ''max_result_bytes is invalid'')) (\<lambda>_.
     Inr env)))"

definition batch_digest :: "(string \<Rightarrow> string) \<Rightarrow> json \<Rightarrow> control_error + string" where
  "batch_digest sha256 v = (case canonical v of
     None \<Rightarrow> Inl (ControlValueError ''Out of range float values are not JSON compliant'') | Some b \<Rightarrow> Inr (sha256 b))"

definition batch_key :: "batch_record \<Rightarrow> string \<times> string \<times> string" where
  "batch_key r = (br_provider r, br_account r, br_id r)"

definition upsert_batch :: "(batch_record, 'p) row_codec \<Rightarrow> batch_record \<Rightarrow> 'p control_db \<Rightarrow> control_error + 'p control_db" where
  "upsert_batch codec r db =
     bindE (case map_of (db_batches db) (batch_key r) of
         None \<Rightarrow> Inr ()
       | Some payload \<Rightarrow> (case rc_validate codec payload of
             None \<Rightarrow> Inl (BatchError ''stored batch record is invalid'')
           | Some previous \<Rightarrow>
               bindE (control_check (\<not> dt_instant (br_updated_at r) < dt_instant (br_updated_at previous))
                 (BatchError ''provider returned a stale batch update'')) (\<lambda>_.
               bindE (control_check (\<not> (br_status previous \<in> terminal_statuses \<and> br_status r \<noteq> br_status previous))
                 (BatchError ''provider batch regressed from a terminal status'')) (\<lambda>_.
               control_check (\<not> (bc_completed (br_counts r) < bc_completed (br_counts previous) \<or>
                   bc_failed (br_counts r) < bc_failed (br_counts previous))) (BatchError ''provider batch counts regressed'')))))
       (\<lambda>_. Inr (db\<lparr>db_batches := AList.update (batch_key r) (rc_dump codec r) (db_batches db)\<rparr>))"

definition reserve ::
  "'p batch_env \<Rightarrow> string \<Rightarrow> string \<Rightarrow> string \<Rightarrow> string \<Rightarrow> string \<Rightarrow> py_datetime \<Rightarrow> 'p control_db
     \<Rightarrow> control_error + batch_record option \<times> 'p control_db" where
  "reserve env operation provider account key request_sha now db =
     bindE (control_check (identifier_text key) (BatchError ''idempotency key is invalid'')) (\<lambda>_.
     case map_of (db_idempotency db) (operation, provider, account, key) of
       None \<Rightarrow> Inr (None, db\<lparr>db_idempotency := db_idempotency db @ [((operation, provider, account, key),
           \<lparr>ir_request_sha256 = request_sha, ir_completed = False, ir_response = None,
             ir_created_at = be_isotime env now, ir_completed_at = None\<rparr>)]\<rparr>)
     | Some row \<Rightarrow>
         bindE (control_check (ir_request_sha256 row = request_sha) (IdempotencyConflict ''idempotency key payload does not match'')) (\<lambda>_.
         if ir_completed row then
           (case Option.bind (ir_response row) (rc_validate (be_codec env)) of
              None \<Rightarrow> Inl (BatchError ''stored idempotency response is invalid'') | Some r \<Rightarrow> Inr (Some r, db))
         else Inr (None, db)))"

definition complete ::
  "'p batch_env \<Rightarrow> string \<Rightarrow> string \<Rightarrow> string \<Rightarrow> batch_record \<Rightarrow> string \<Rightarrow> string \<Rightarrow> py_datetime \<Rightarrow> 'p control_db
     \<Rightarrow> control_error + 'p control_db" where
  "complete env operation key request_sha r event_type fresh now db =
     (let k = (operation, br_provider r, br_account r, key)
      in case map_of (db_idempotency db) k of
        None \<Rightarrow> Inl (IdempotencyConflict ''idempotency reservation changed'')
      | Some row \<Rightarrow>
          bindE (control_check (ir_request_sha256 row = request_sha) (IdempotencyConflict ''idempotency reservation changed'')) (\<lambda>_.
          if ir_completed row then Inr db
          else bindE (upsert_batch (be_codec env) r db) (\<lambda>db1.
            append_audit (be_isotime env) fresh event_type (scope_text [br_provider r, br_account r, br_id r])
              [(''idempotency_key_sha256'', JStr (be_sha256 env key))] now
              (db1\<lparr>db_idempotency := AList.update k (row\<lparr>ir_completed := True, ir_response := Some (rc_dump (be_codec env) r),
                 ir_completed_at := Some (be_isotime env now)\<rparr>) (db_idempotency db1)\<rparr>))))"

section \<open>The service\<close>

definition batch_adapter :: "'p batch_env \<Rightarrow> string \<Rightarrow> control_error + string" where
  "batch_adapter env provider = (case dict_get (be_accounts env) provider of
     None \<Rightarrow> Inl (BatchError ''batch provider is not configured'') | Some account \<Rightarrow> Inr account)"

definition adapter_for :: "'p batch_env \<Rightarrow> string \<Rightarrow> string \<Rightarrow> control_error + unit" where
  "adapter_for env provider account =
     bindE (batch_adapter env provider) (\<lambda>a. control_check (a = account) (BatchError ''batch adapter account does not match''))"

definition validate_record_scope :: "string \<Rightarrow> string \<Rightarrow> batch_record \<Rightarrow> control_error + unit" where
  "validate_record_scope provider account r =
     control_check ((br_provider r, br_account r) = (provider, account)) (BatchError ''provider batch scope does not match'')"

definition require_batch_file :: "'p batch_env \<Rightarrow> batch_submission \<Rightarrow> 'p control_db \<Rightarrow> control_error + file_record" where
  "require_batch_file env s db =
     (case map_of (db_files db) (bs_provider s, bs_account s, bs_input_file_id s) of
        None \<Rightarrow> Inl (BatchError ''batch input file was not found'')
      | Some payload \<Rightarrow> (case rc_validate (be_files env) payload of
            None \<Rightarrow> Inl (BatchError ''stored batch input file is invalid'')
          | Some f \<Rightarrow> bindE (control_check (fr_purpose f = BatchPurpose) (BatchError ''batch input file has the wrong purpose''))
              (\<lambda>_. Inr f)))"

definition get_batch :: "'p batch_env \<Rightarrow> string \<Rightarrow> string \<Rightarrow> string \<Rightarrow> 'p control_db \<Rightarrow> control_error + batch_record" where
  "get_batch env provider account batch_id db = (case map_of (db_batches db) (provider, account, batch_id) of
     None \<Rightarrow> Inl (BatchError ''batch was not found'')
   | Some payload \<Rightarrow> (case rc_validate (be_codec env) payload of
         None \<Rightarrow> Inl (BatchError ''stored batch record is invalid'') | Some r \<Rightarrow> Inr r))"

text \<open>
  What \<open>submit\<close> and \<open>cancel\<close> share: reserve the key, answer from it if it was completed, otherwise obtain
  a record and complete the key with it. The reservation is committed before the adapter is asked,
  so it is kept when the rest fails.
\<close>

definition with_key ::
  "'p batch_env \<Rightarrow> string \<Rightarrow> string \<Rightarrow> string \<Rightarrow> string \<Rightarrow> string \<Rightarrow> string \<Rightarrow> string \<Rightarrow> py_datetime
     \<Rightarrow> control_error + batch_record \<Rightarrow> ('p control_db \<Rightarrow> 'p control_db) \<Rightarrow> 'p control_db
     \<Rightarrow> (control_error + batch_record) \<times> 'p control_db" where
  "with_key env operation event_type provider account key request_sha fresh now obtained others db =
     (case reserve env operation provider account key request_sha now db of
        Inl e \<Rightarrow> (Inl e, db)
      | Inr (Some r, db1) \<Rightarrow> (Inr r, db1)
      | Inr (None, db1) \<Rightarrow>
          (let db2 = others db1
           in case bindE obtained (\<lambda>r. bindE (complete env operation key request_sha r event_type fresh now db2) (\<lambda>db3. Inr (r, db3))) of
                Inl e \<Rightarrow> (Inl e, db2)
              | Inr (r, db3) \<Rightarrow> (Inr r, db3)))"

definition submitted :: "batch_submission \<Rightarrow> control_error + batch_record \<Rightarrow> control_error + batch_record" where
  "submitted s answer =
     bindE answer (\<lambda>r.
     bindE (validate_record_scope (bs_provider s) (bs_account s) r) (\<lambda>_.
     bindE (control_check (\<not> (br_input_file_id r \<noteq> bs_input_file_id s \<or> br_endpoint r \<noteq> bs_endpoint s))
       (BatchError ''provider batch does not match its submission'')) (\<lambda>_. Inr r)))"

definition submit ::
  "'p batch_env \<Rightarrow> string \<Rightarrow> py_datetime \<Rightarrow> batch_submission \<Rightarrow> string \<Rightarrow> control_error + batch_record
     \<Rightarrow> ('p control_db \<Rightarrow> 'p control_db) \<Rightarrow> 'p control_db \<Rightarrow> (control_error + batch_record) \<times> 'p control_db" where
  "submit env fresh now s key answer others db =
     (case bindE (adapter_for env (bs_provider s) (bs_account s)) (\<lambda>_.
           bindE (require_batch_file env s db) (\<lambda>_.
           batch_digest (be_sha256 env) (submission_json s))) of
        Inl e \<Rightarrow> (Inl e, db)
      | Inr request_sha \<Rightarrow>
          with_key env ''batch.create'' ''control.batch.created'' (bs_provider s) (bs_account s) key request_sha fresh now
            (submitted s answer) others db)"

definition cancelled ::
  "string \<Rightarrow> string \<Rightarrow> string \<Rightarrow> batch_record \<Rightarrow> control_error + batch_record \<Rightarrow> control_error + batch_record" where
  "cancelled provider account batch_id previous answer =
     (if br_status previous \<in> {BatchCompleted, BatchFailed, BatchExpired, BatchCancelled} then Inr previous
      else bindE answer (\<lambda>r.
        bindE (validate_record_scope provider account r) (\<lambda>_.
        bindE (control_check (br_id r = batch_id) (BatchError ''provider cancelled a different batch'')) (\<lambda>_. Inr r))))"

definition cancel ::
  "'p batch_env \<Rightarrow> string \<Rightarrow> py_datetime \<Rightarrow> string \<Rightarrow> string \<Rightarrow> string \<Rightarrow> string \<Rightarrow> control_error + batch_record
     \<Rightarrow> ('p control_db \<Rightarrow> 'p control_db) \<Rightarrow> 'p control_db \<Rightarrow> (control_error + batch_record) \<times> 'p control_db" where
  "cancel env fresh now provider account batch_id key answer others db =
     (case bindE (get_batch env provider account batch_id db) (\<lambda>previous.
           bindE (adapter_for env provider account) (\<lambda>_.
           bindE (batch_digest (be_sha256 env) (JObj [(''batch_id'', JStr batch_id)])) (\<lambda>request_sha. Inr (previous, request_sha)))) of
        Inl e \<Rightarrow> (Inl e, db)
      | Inr (previous, request_sha) \<Rightarrow>
          with_key env ''batch.cancel'' ''control.batch.cancelled'' provider account key request_sha fresh now
            (cancelled provider account batch_id previous answer) others db)"

definition batch_page_errors :: page_errors where
  "batch_page_errors =
     \<lparr>pe_duplicate = BatchError ''provider batch pagination returned a duplicate batch'',
       pe_item_limit = BatchError ''provider batch list exceeded its item limit'',
       pe_repeated = BatchError ''provider batch pagination repeated a cursor'',
       pe_page_limit = BatchError ''provider batch list exceeded its page limit''\<rparr>"

text \<open>The transaction that stores what a refresh or a retrieval obtained.\<close>

definition store_batches ::
  "'p batch_env \<Rightarrow> batch_record list \<Rightarrow> string \<Rightarrow> string \<Rightarrow> string \<Rightarrow> json dict \<Rightarrow> py_datetime \<Rightarrow> 'p control_db
     \<Rightarrow> control_error + 'p control_db" where
  "store_batches env rs fresh event_type subject details now db =
     bindE (foldE (\<lambda>db r. upsert_batch (be_codec env) r db) db rs) (append_audit (be_isotime env) fresh event_type subject details now)"

definition refresh_batches ::
  "'p batch_env \<Rightarrow> string \<Rightarrow> py_datetime \<Rightarrow> string \<Rightarrow> int \<Rightarrow> int \<Rightarrow> int \<Rightarrow> (nat \<Rightarrow> string option \<Rightarrow> control_error + batch_record page)
     \<Rightarrow> 'p control_db \<Rightarrow> control_error + int \<times> 'p control_db" where
  "refresh_batches env fresh now provider page_size max_pages max_batches list_page db =
     bindE (batch_adapter env provider) (\<lambda>account.
     bindE (control_check (1 \<le> page_size \<and> page_size \<le> 100 \<and> 1 \<le> max_pages \<and> max_pages \<le> 10000)
       (ControlValueError ''batch pagination limits are invalid'')) (\<lambda>_.
     bindE (control_check (page_size \<le> max_batches \<and> max_batches \<le> 1000000) (ControlValueError ''max_batches is invalid'')) (\<lambda>_.
     bindE (collect_pages (validate_record_scope provider account) br_id batch_page_errors max_batches list_page 0 (nat max_pages) None [] []) (\<lambda>rs.
     bindE (store_batches env rs fresh ''control.batches.reconciled'' (scope_text [provider, account])
       [(''count'', JInt (int (length rs)))] now db) (\<lambda>db'.
     Inr (int (length rs), db'))))))"

definition retrieve ::
  "'p batch_env \<Rightarrow> string \<Rightarrow> py_datetime \<Rightarrow> string \<Rightarrow> string \<Rightarrow> string \<Rightarrow> control_error + batch_record \<Rightarrow> 'p control_db
     \<Rightarrow> control_error + batch_record \<times> 'p control_db" where
  "retrieve env fresh now provider account batch_id answer db =
     bindE (adapter_for env provider account) (\<lambda>_.
     bindE answer (\<lambda>r.
     bindE (validate_record_scope provider account r) (\<lambda>_.
     bindE (control_check (br_id r = batch_id) (BatchError ''provider returned a different batch'')) (\<lambda>_.
     bindE (store_batches env [r] fresh ''control.batch.refreshed'' (scope_text [provider, account, batch_id])
       [(''status'', JStr (batch_status_value (br_status r)))] now db) (\<lambda>db'.
     Inr (r, db'))))))"

definition list_batches ::
  "'p batch_env \<Rightarrow> string \<Rightarrow> string \<Rightarrow> int \<Rightarrow> 'p control_db \<Rightarrow> string option \<Rightarrow> control_error + batch_record page" where
  "list_batches env provider account limit db after =
     select_page (BatchError ''stored batch record is invalid'') (be_codec env) provider account limit (db_batches db) after"

text \<open>The results that \<open>results\<close> yields, and the exception it ends with, if it does.\<close>

fun results_from ::
  "'p batch_env \<Rightarrow> string \<Rightarrow> string list \<Rightarrow> int \<Rightarrow> int \<Rightarrow> batch_result list \<Rightarrow> control_error option
     \<Rightarrow> batch_result list \<times> control_error option" where
  "results_from env batch_id seen n total_bytes [] failure = ([], failure)"
| "results_from env batch_id seen n total_bytes (r # rs) failure =
     (if bt_batch_id r \<noteq> batch_id then ([], Some (BatchError ''provider returned a result for another batch''))
      else if bt_custom_id r \<in> set seen then ([], Some (BatchError ''provider returned a duplicate batch result''))
      else
        (let n' = n + 1; total' = total_bytes + int (be_result_size env r)
         in if n' > be_max_result_count env \<or> total' > be_max_result_bytes env
            then ([], Some (BatchError ''batch results exceeded their configured limit''))
            else (case results_from env batch_id (bt_custom_id r # seen) n' total' rs failure of (out, e) \<Rightarrow> (r # out, e))))"

definition batch_results ::
  "'p batch_env \<Rightarrow> string \<Rightarrow> string \<Rightarrow> string \<Rightarrow> batch_result list \<Rightarrow> control_error option \<Rightarrow> 'p control_db
     \<Rightarrow> batch_result list \<times> control_error option" where
  "batch_results env provider account batch_id rs failure db =
     (case bindE (get_batch env provider account batch_id db) (\<lambda>_. adapter_for env provider account) of
        Inl e \<Rightarrow> ([], Some e)
      | Inr _ \<Rightarrow> results_from env batch_id [] 0 0 rs failure)"

section \<open>The history of a batch\<close>

definition batch_row :: "(batch_record, 'p) row_codec \<Rightarrow> 'p control_db \<Rightarrow> string \<times> string \<times> string \<Rightarrow> batch_record option" where
  "batch_row codec db k = Option.bind (map_of (db_batches db) k) (rc_validate codec)"

text \<open>How a batch may go on.\<close>

definition advances :: "batch_record \<Rightarrow> batch_record \<Rightarrow> bool" where
  "advances r r' \<longleftrightarrow> dt_instant (br_updated_at r) \<le> dt_instant (br_updated_at r') \<and>
     (br_status r \<in> terminal_statuses \<longrightarrow> br_status r' = br_status r) \<and>
     bc_completed (br_counts r) \<le> bc_completed (br_counts r') \<and> bc_failed (br_counts r) \<le> bc_failed (br_counts r')"

lemma advances_refl [simp]: "advances r r"
  by (simp add: advances_def)

lemma advances_trans: "advances r r' \<Longrightarrow> advances r' r'' \<Longrightarrow> advances r r''"
  by (auto simp: advances_def)

lemma upsert_batch_Inr [res_simps]:
  "upsert_batch codec r db = Inr db' \<longleftrightarrow>
     db' = db\<lparr>db_batches := AList.update (batch_key r) (rc_dump codec r) (db_batches db)\<rparr> \<and>
     (case map_of (db_batches db) (batch_key r) of None \<Rightarrow> True
      | Some payload \<Rightarrow> \<exists>previous. rc_validate codec payload = Some previous \<and> advances previous r)"
  by (auto simp: upsert_batch_def bindE_eq_Inr advances_def control_check_def not_less split: option.splits if_splits)

lemma upsert_grows:
  assumes "upsert_batch codec r db = Inr db'" "codec_sound codec" "batch_row codec db k = Some x"
  shows "\<exists>y. batch_row codec db' k = Some y \<and> advances x y"
  using assms by (cases "k = batch_key r") (auto simp: res_simps batch_row_def update_conv bind_eq_Some_conv split: option.splits)

lemma upsert_frame: "upsert_batch codec r db = Inr db' \<Longrightarrow> db_idempotency db' = db_idempotency db \<and> db_files db' = db_files db"
  by (auto simp: res_simps)

lemma upserts_grow:
  assumes "foldE (\<lambda>db r. upsert_batch codec r db) db rs = Inr db'" "codec_sound codec" "batch_row codec db k = Some x"
  shows "\<exists>y. batch_row codec db' k = Some y \<and> advances x y"
proof -
  have "\<exists>y. batch_row codec d k = Some y \<and> advances x y \<Longrightarrow> upsert_batch codec r d = Inr d' \<Longrightarrow>
      \<exists>y. batch_row codec d' k = Some y \<and> advances x y" for d r d'
    using upsert_grows[OF _ assms(2)] advances_trans by blast
  from foldE_invariant[of "\<lambda>db r. upsert_batch codec r db", OF assms(1), of "\<lambda>d. \<exists>y. batch_row codec d k = Some y \<and> advances x y", OF _ this]
  show ?thesis using assms(3) by auto
qed

lemma upserts_frame:
  "foldE (\<lambda>db r. upsert_batch codec r db) db rs = Inr db' \<Longrightarrow> db_idempotency db' = db_idempotency db"
  by (rule foldE_invariant[of "\<lambda>db r. upsert_batch codec r db" db rs db' "\<lambda>d. db_idempotency d = db_idempotency db"])
     (auto dest: upsert_frame)

text \<open>
  The transactions on the database of a service whose codec reads back what it wrote: those of the
  batch service, by any number of clients, and all those that leave its two tables alone.
\<close>

inductive batch_txn :: "'p batch_env \<Rightarrow> 'p control_db \<Rightarrow> 'p control_db \<Rightarrow> bool" for env :: "'p batch_env" where
  txn_reserve: "codec_sound (be_codec env) \<Longrightarrow>
     reserve env operation provider account key request_sha now db = Inr (x, db') \<Longrightarrow> batch_txn env db db'"
| txn_complete: "codec_sound (be_codec env) \<Longrightarrow>
     complete env operation key request_sha r event_type fresh now db = Inr db' \<Longrightarrow> batch_txn env db db'"
| txn_store: "codec_sound (be_codec env) \<Longrightarrow> store_batches env rs fresh event_type subject details now db = Inr db' \<Longrightarrow> batch_txn env db db'"
| txn_other: "codec_sound (be_codec env) \<Longrightarrow> db_batches db' = db_batches db \<Longrightarrow> db_idempotency db' = db_idempotency db \<Longrightarrow>
     batch_txn env db db'"

lemma reserve_Inr:
  "reserve env operation provider account key request_sha now db = Inr (x, db') \<longleftrightarrow>
     identifier_text key \<and>
     (case map_of (db_idempotency db) (operation, provider, account, key) of
        None \<Rightarrow> x = None \<and> db' = db\<lparr>db_idempotency := db_idempotency db @ [((operation, provider, account, key),
           \<lparr>ir_request_sha256 = request_sha, ir_completed = False, ir_response = None,
             ir_created_at = be_isotime env now, ir_completed_at = None\<rparr>)]\<rparr>
      | Some row \<Rightarrow> ir_request_sha256 row = request_sha \<and> db' = db \<and>
          (if ir_completed row then x \<noteq> None \<and> x = Option.bind (ir_response row) (rc_validate (be_codec env)) else x = None))"
  by (auto simp: reserve_def res_simps split: option.splits if_splits)

lemma complete_Inr:
  "complete env operation key request_sha r event_type fresh now db = Inr db' \<longleftrightarrow>
     (\<exists>row. map_of (db_idempotency db) (operation, br_provider r, br_account r, key) = Some row \<and> ir_request_sha256 row = request_sha \<and>
        (if ir_completed row then db' = db
         else \<exists>db1. upsert_batch (be_codec env) r db = Inr db1 \<and>
           append_audit (be_isotime env) fresh event_type (scope_text [br_provider r, br_account r, br_id r])
             [(''idempotency_key_sha256'', JStr (be_sha256 env key))] now
             (db1\<lparr>db_idempotency := AList.update (operation, br_provider r, br_account r, key)
                (row\<lparr>ir_completed := True, ir_response := Some (rc_dump (be_codec env) r),
                  ir_completed_at := Some (be_isotime env now)\<rparr>) (db_idempotency db1)\<rparr>) = Inr db'))"
  by (auto simp: complete_def Let_def bindE_eq_Inr control_check_Inr split: option.splits)

interpretation batch_rows: growing_rows "batch_txn env" "batch_row (be_codec env)" advances for env
proof
  show "batch_txn env db db' \<Longrightarrow> batch_row (be_codec env) db k = Some r \<Longrightarrow>
      \<exists>r'. batch_row (be_codec env) db' k = Some r' \<and> advances r r'" for db db' :: "'a control_db" and k r
  proof (induction rule: batch_txn.induct)
    case (txn_reserve operation provider account key request_sha now db x db')
    then show ?case by (auto simp: reserve_Inr batch_row_def split: option.splits intro!: exI[of _ r])
  next
    case (txn_complete operation key request_sha r' event_type fresh now db db')
    then have "db' = db \<or> (\<exists>db1. upsert_batch (be_codec env) r' db = Inr db1 \<and> db_batches db' = db_batches db1)"
      unfolding complete_Inr append_audit_Inr by (auto split: if_splits)
    then show ?case using upsert_grows[OF _ txn_complete(1,3)] txn_complete(3) by (fastforce simp: batch_row_def)
  next
    case (txn_store rs fresh event_type subject details now db db')
    then obtain db1 where "foldE (\<lambda>db r. upsert_batch (be_codec env) r db) db rs = Inr db1" "db_batches db' = db_batches db1"
      by (auto simp: store_batches_def bindE_eq_Inr append_audit_Inr)
    then show ?case using upserts_grow[OF _ txn_store(1,3)] by (simp add: batch_row_def)
  next
    case (txn_other db' db)
    then show ?case by (simp add: batch_row_def)
  qed
qed (auto intro: advances_trans)

text \<open>
  C35: Whatever clients do, in any interleaving of their transactions, a stored batch is never lost, its time
  of update never goes back, its counts of completed and failed requests never fall, and once it
  is completed, failed, expired or cancelled, it stays so.
\<close>

theorem batch_history_monotone:
  assumes "(batch_txn env)\<^sup>*\<^sup>* db db'" "batch_row (be_codec env) db k = Some r"
  shows "\<exists>r'. batch_row (be_codec env) db' k = Some r' \<and>
    dt_instant (br_updated_at r) \<le> dt_instant (br_updated_at r') \<and>
    bc_completed (br_counts r) \<le> bc_completed (br_counts r') \<and> bc_failed (br_counts r) \<le> bc_failed (br_counts r') \<and>
    (br_status r \<in> {BatchCompleted, BatchFailed, BatchExpired, BatchCancelled} \<longrightarrow> br_status r' = br_status r)"
  using batch_rows.row_grows[OF assms] by (auto simp: advances_def terminal_statuses_def)

section \<open>Idempotency keys\<close>

definition key_row :: "'p control_db \<Rightarrow> string \<times> string \<times> string \<times> string \<Rightarrow> 'p idempotency_row option" where
  "key_row db k = map_of (db_idempotency db) k"

definition reserved_below :: "'p idempotency_row \<Rightarrow> 'p idempotency_row \<Rightarrow> bool" where
  "reserved_below row row' \<longleftrightarrow> ir_request_sha256 row' = ir_request_sha256 row \<and> (ir_completed row \<longrightarrow> row' = row)"

lemma reserve_rows:
  assumes "reserve env operation provider account key request_sha now db = Inr (x, db')"
  shows "key_row db k = Some row \<Longrightarrow> key_row db' k = Some row"
    and "key_row db' k = Some row \<Longrightarrow> key_row db k = Some row \<or> \<not> ir_completed row"
  using assms by (auto simp: reserve_Inr key_row_def map_add_def split: option.splits if_splits)

lemma complete_rows:
  assumes "complete env operation key request_sha r event_type fresh now db = Inr db'"
  defines "k0 \<equiv> (operation, br_provider r, br_account r, key)"
  obtains "db' = db" "\<exists>row. key_row db k0 = Some row \<and> ir_request_sha256 row = request_sha \<and> ir_completed row"
  | row row' where "key_row db k0 = Some row" "\<not> ir_completed row" "ir_request_sha256 row = request_sha"
      "ir_request_sha256 row' = request_sha" "ir_completed row'" "ir_response row' = Some (rc_dump (be_codec env) r)"
      "key_row db' = (key_row db)(k0 \<mapsto> row')"
      "db_batches db' = AList.update (batch_key r) (rc_dump (be_codec env) r) (db_batches db)"
      "length (db_audit db') = length (db_audit db) + 1"
proof -
  obtain row where row: "map_of (db_idempotency db) k0 = Some row" "ir_request_sha256 row = request_sha"
      "if ir_completed row then db' = db
       else \<exists>db1. upsert_batch (be_codec env) r db = Inr db1 \<and>
           append_audit (be_isotime env) fresh event_type (scope_text [br_provider r, br_account r, br_id r])
             [(''idempotency_key_sha256'', JStr (be_sha256 env key))] now
             (db1\<lparr>db_idempotency := AList.update k0
                (row\<lparr>ir_completed := True, ir_response := Some (rc_dump (be_codec env) r),
                  ir_completed_at := Some (be_isotime env now)\<rparr>) (db_idempotency db1)\<rparr>) = Inr db'"
    using assms unfolding complete_Inr by blast
  show ?thesis
  proof (cases "ir_completed row")
    case True
    then show ?thesis using row that(1) by (auto simp: key_row_def)
  next
    case False
    let ?row' = "row\<lparr>ir_completed := True, ir_response := Some (rc_dump (be_codec env) r), ir_completed_at := Some (be_isotime env now)\<rparr>"
    show ?thesis
      by (rule that(2)[of row ?row'])
        (use row False in \<open>auto simp: key_row_def append_audit_Inr upsert_batch_Inr update_conv' fun_eq_iff\<close>)
  qed
qed

lemma store_batches_frame:
  "store_batches env rs fresh event_type subject details now db = Inr db' \<Longrightarrow> key_row db' = key_row db"
  by (auto simp: store_batches_def bindE_eq_Inr append_audit_Inr key_row_def fun_eq_iff dest!: upserts_frame)

interpretation reservations: growing_rows "batch_txn env" key_row reserved_below for env
proof
  show "batch_txn env db db' \<Longrightarrow> key_row db k = Some row \<Longrightarrow> \<exists>row'. key_row db' k = Some row' \<and> reserved_below row row'"
    for db db' :: "'a control_db" and k row
  proof (induction rule: batch_txn.induct)
    case (txn_reserve operation provider account key request_sha now db x db')
    then show ?case using reserve_rows(1) by (fastforce simp: reserved_below_def)
  next
    case (txn_complete operation key request_sha r event_type fresh now db db')
    from txn_complete(2) show ?case
      by (rule complete_rows) (use txn_complete(3) in \<open>auto simp: reserved_below_def\<close>)
  next
    case (txn_store rs fresh event_type subject details now db db')
    then show ?case using store_batches_frame by (metis reserved_below_def)
  next
    case (txn_other db' db)
    then show ?case by (simp add: key_row_def reserved_below_def)
  qed
qed (auto simp: reserved_below_def)

text \<open>A completed key has a response that can be read.\<close>

definition responses_ok :: "'p batch_env \<Rightarrow> 'p control_db \<Rightarrow> bool" where
  "responses_ok env db \<longleftrightarrow> (\<forall>k row. key_row db k = Some row \<longrightarrow> ir_completed row \<longrightarrow>
     Option.bind (ir_response row) (rc_validate (be_codec env)) \<noteq> None)"

interpretation batch_machine: invariant_machine "\<lambda>db. db_idempotency db = []" "batch_txn env" "responses_ok env" for env
proof
  show "batch_txn env db db' \<Longrightarrow> responses_ok env db \<Longrightarrow> responses_ok env db'" for db db' :: "'a control_db"
  proof (induction rule: batch_txn.induct)
    case (txn_reserve operation provider account key request_sha now db x db')
    then show ?case unfolding responses_ok_def using reserve_rows(2) by metis
  next
    case (txn_complete operation key request_sha r event_type fresh now db db')
    from txn_complete(2) show ?case
      by (rule complete_rows) (use txn_complete(1,3) in \<open>auto simp: responses_ok_def\<close>)
  next
    case (txn_store rs fresh event_type subject details now db db')
    then show ?case using store_batches_frame by (metis responses_ok_def)
  next
    case (txn_other db' db)
    then show ?case by (simp add: responses_ok_def key_row_def)
  qed
qed (simp add: responses_ok_def key_row_def)

lemma responses_ok_runs: "(batch_txn env)\<^sup>*\<^sup>* db db' \<Longrightarrow> responses_ok env db \<Longrightarrow> responses_ok env db'"
  by (induction rule: rtranclp_induct) (auto intro: batch_machine.inv_step)

text \<open>A key that was completed answers the same request with the stored response, and refuses any other.\<close>

lemma completed_key_replays:
  assumes "key_row db (operation, provider, account, key) = Some row" "ir_completed row" "identifier_text key"
    and "Option.bind (ir_response row) (rc_validate (be_codec env)) = Some r0"
  shows "with_key env operation event_type provider account key sha fresh now obtained others db =
    (if sha = ir_request_sha256 row then Inr r0 else Inl (IdempotencyConflict ''idempotency key payload does not match''), db)"
  using assms by (auto simp: with_key_def reserve_def key_row_def)

text \<open>After an operation under a key has returned, the key is completed.\<close>

lemma with_key_completes:
  assumes "with_key env operation event_type provider account key sha fresh now obtained others db = (Inr r, db')"
    and "\<And>d. (batch_txn env)\<^sup>*\<^sup>* d (others d)" "codec_sound (be_codec env)" "responses_ok env db"
    and "\<And>r. obtained = Inr r \<Longrightarrow> br_provider r = provider \<and> br_account r = account"
  shows "(batch_txn env)\<^sup>*\<^sup>* db db' \<and> identifier_text key \<and>
    (\<exists>row r0. key_row db' (operation, provider, account, key) = Some row \<and> ir_request_sha256 row = sha \<and> ir_completed row \<and>
       Option.bind (ir_response row) (rc_validate (be_codec env)) = Some r0 \<and> ((\<forall>d. others d = d) \<longrightarrow> r0 = r))"
proof -
  let ?k = "(operation, provider, account, key)"
  obtain x db1 where res: "reserve env operation provider account key sha now db = Inr (x, db1)"
    using assms(1) by (auto simp: with_key_def split: sum.splits option.splits prod.splits)
  have first: "batch_txn env db db1" by (rule txn_reserve[OF assms(3) res])
  have ident: "identifier_text key" using res by (simp add: reserve_Inr)
  show ?thesis
  proof (cases x)
    case (Some r1)
    then have "r = r1" "db' = db1" using assms(1) res by (auto simp: with_key_def)
    then show ?thesis using res Some first ident
      by (auto simp: reserve_Inr key_row_def split: option.splits if_splits dest!: sym[of "Some r1"])
  next
    case None
    then obtain db3 where c: "obtained = Inr r" "complete env operation key sha r event_type fresh now (others db1) = Inr db3" "db' = db3"
      using assms(1) res by (auto simp: with_key_def res_simps Let_def split: sum.splits prod.splits)
    have scope: "(operation, br_provider r, br_account r, key) = ?k" using assms(5)[OF c(1)] by simp
    have mid: "(batch_txn env)\<^sup>*\<^sup>* db (others db1)" using first assms(2)[of db1] by (rule converse_rtranclp_into_rtranclp)
    have runs: "(batch_txn env)\<^sup>*\<^sup>* db db'"
      using mid txn_complete[OF assms(3) c(2)] c(3) by (simp add: rtranclp.rtrancl_into_rtrancl)
    have pending: "key_row db1 ?k = Some row \<Longrightarrow> \<not> ir_completed row" for row
      using res None assms(4) by (auto simp: reserve_Inr key_row_def responses_ok_def split: option.splits if_splits)
    from c(2) have "\<exists>row r0. key_row db' ?k = Some row \<and> ir_request_sha256 row = sha \<and> ir_completed row \<and>
       Option.bind (ir_response row) (rc_validate (be_codec env)) = Some r0 \<and> ((\<forall>d. others d = d) \<longrightarrow> r0 = r)"
    proof (rule complete_rows)
      assume "db3 = others db1" and "\<exists>row. key_row (others db1) (operation, br_provider r, br_account r, key) = Some row \<and>
          ir_request_sha256 row = sha \<and> ir_completed row"
      then show ?thesis using responses_ok_runs[OF mid assms(4)] pending c(3) unfolding scope responses_ok_def
        by (metis option.exhaust)
    next
      fix row row'
      assume "key_row db3 = (key_row (others db1))((operation, br_provider r, br_account r, key) \<mapsto> row')"
        "ir_request_sha256 row' = sha" "ir_completed row'" "ir_response row' = Some (rc_dump (be_codec env) r)"
      then show ?thesis unfolding scope c(3) using assms(3) by auto
    qed
    then show ?thesis using runs ident by blast
  qed
qed

lemma submitted_scope: "submitted s answer = Inr r \<Longrightarrow> br_provider r = bs_provider s \<and> br_account r = bs_account s \<and>
    br_input_file_id r = bs_input_file_id s \<and> br_endpoint r = bs_endpoint s \<and> answer = Inr r"
  by (auto simp: submitted_def validate_record_scope_def res_simps)


text \<open>
  A first submission under a key that goes through, undisturbed, has stored exactly the batch that the
  provider returned, which is one for its provider, account, input file and endpoint; one that fails
  after the reservation stores nothing but the pending key, and the same submission can be tried
  again and asks the provider again.
\<close>

theorem submit_outcome:
  assumes "key_row db (''batch.create'', bs_provider s, bs_account s, key) = None" "identifier_text key" "codec_sound (be_codec env)"
    and "adapter_for env (bs_provider s) (bs_account s) = Inr ()" "returns (require_batch_file env s db)"
    and "batch_digest (be_sha256 env) (submission_json s) = Inr sha"
  shows "case submit env fresh now s key answer (\<lambda>d. d) db of
      (Inr r, db1) \<Rightarrow> answer = Inr r \<and> br_provider r = bs_provider s \<and> br_account r = bs_account s \<and>
        br_input_file_id r = bs_input_file_id s \<and> br_endpoint r = bs_endpoint s \<and>
        batch_row (be_codec env) db1 (batch_key r) = Some r \<and> length (db_audit db1) = length (db_audit db) + 1
    | (Inl e, db1) \<Rightarrow> db_batches db1 = db_batches db \<and> db_audit db1 = db_audit db \<and>
        (\<forall>fresh' now' answer'. fst (submit env fresh' now' s key answer' (\<lambda>d. d) db1) =
           bindE (submitted s answer') (\<lambda>r. bindE (complete env ''batch.create'' key sha r ''control.batch.created'' fresh' now' db1)
             (\<lambda>_. Inr r)))"
proof -
  let ?k = "(''batch.create'', bs_provider s, bs_account s, key)"
  obtain f where input: "require_batch_file env s db = Inr f" using assms(5) by (auto simp: returns_iff)
  obtain db1 where res: "\<And>n. reserve env ''batch.create'' (bs_provider s) (bs_account s) key sha now db = Inr (None, db1)"
      and db1: "db_batches db1 = db_batches db" "db_audit db1 = db_audit db" "db_files db1 = db_files db"
        "\<exists>row. key_row db1 ?k = Some row \<and> ir_request_sha256 row = sha \<and> \<not> ir_completed row"
    using assms(1,2) by (auto simp: reserve_def key_row_def map_add_def)
  have again: "reserve env ''batch.create'' (bs_provider s) (bs_account s) key sha now' db1 = Inr (None, db1)" for now'
    using db1(4) assms(2) by (auto simp: reserve_def key_row_def)
  have input1: "require_batch_file env s db1 = Inr f" using input db1(3) by (simp add: require_batch_file_def)
  let ?again = "\<lambda>answer fresh now. bindE (submitted s answer) (\<lambda>r.
      bindE (complete env ''batch.create'' key sha r ''control.batch.created'' fresh now db1) (\<lambda>db3. Inr (r, db3)))"
  have run: "submit env fresh now s key answer (\<lambda>d. d) db = (case ?again answer fresh now of Inl e \<Rightarrow> (Inl e, db1) | Inr (r, db3) \<Rightarrow> (Inr r, db3))"
    using assms(4,6) input res by (simp add: submit_def with_key_def)
  have rerun: "submit env fresh' now' s key answer' (\<lambda>d. d) db1 =
      (case ?again answer' fresh' now' of Inl e \<Rightarrow> (Inl e, db1) | Inr (r, db3) \<Rightarrow> (Inr r, db3))" for fresh' now' answer'
    using assms(4,6) input1 again by (simp add: submit_def with_key_def)
  show ?thesis
  proof (cases "?again answer fresh now")
    case (Inl e)
    have "fst (submit env fresh' now' s key answer' (\<lambda>d. d) db1) =
        bindE (submitted s answer') (\<lambda>r. bindE (complete env ''batch.create'' key sha r ''control.batch.created'' fresh' now' db1)
             (\<lambda>_. Inr r))" for fresh' now' answer'
      unfolding rerun by (auto simp: bindE_def split: sum.splits)
    then show ?thesis unfolding run Inl using db1 by simp
  next
    case (Inr x)
    then obtain r db3 where x: "x = (r, db3)" "submitted s answer = Inr r"
        "complete env ''batch.create'' key sha r ''control.batch.created'' fresh now db1 = Inr db3"
      by (auto simp: bindE_eq_Inr)
    note scope = submitted_scope[OF x(2)]
    from x(3) have "batch_row (be_codec env) db3 (batch_key r) = Some r \<and> length (db_audit db3) = length (db_audit db1) + 1"
      by (rule complete_rows) (use db1(4) scope assms(3) in \<open>auto simp: batch_row_def update_conv\<close>)
    then show ?thesis unfolding run Inr x(1) using scope db1(2) by simp
  qed
qed

section \<open>Results\<close>

lemma results_from_spec:
  "results_from env i seen n b rs failure = (out, e) \<Longrightarrow>
     prefix out rs \<and> distinct (map bt_custom_id out) \<and> set (map bt_custom_id out) \<inter> set seen = {} \<and>
     list_all (\<lambda>r. bt_batch_id r = i) out \<and>
     (n \<le> be_max_result_count env \<longrightarrow> n + int (length out) \<le> be_max_result_count env) \<and>
     (b \<le> be_max_result_bytes env \<longrightarrow> b + int (sum_list (map (be_result_size env) out)) \<le> be_max_result_bytes env) \<and>
     (e = None \<longrightarrow> out = rs \<and> failure = None)"
proof (induction env i seen n b rs failure arbitrary: out rule: results_from.induct)
  case (2 env i seen n b r rs failure)
  show ?case
  proof (cases "bt_batch_id r \<noteq> i \<or> bt_custom_id r \<in> set seen \<or> n + 1 > be_max_result_count env \<or>
      b + int (be_result_size env r) > be_max_result_bytes env")
    case True
    then have "out = [] \<and> e \<noteq> None" using "2.prems" by (auto simp: Let_def split: if_splits)
    then show ?thesis by auto
  next
    case False
    then obtain out' where o: "out = r # out'"
        "results_from env i (bt_custom_id r # seen) (n + 1) (b + int (be_result_size env r)) rs failure = (out', e)"
      using "2.prems" by (auto simp: Let_def split: prod.splits if_splits)
    have bounds: "n + 1 \<le> be_max_result_count env" "b + int (be_result_size env r) \<le> be_max_result_bytes env" using False by auto
    from "2.IH"[OF _ _ refl refl _ o(2)] False show ?thesis unfolding o(1) using bounds by auto
  qed
qed auto

text \<open>
  The results that are handed on are the provider's first ones, all of the batch asked for, none
  twice, and within the limits on their number and size; a stream that ends without an error had them all.
\<close>

theorem batch_results_bounded:
  assumes "batch_results env provider account batch_id rs failure db = (out, e)" "BatchService env = Inr env"
  shows "prefix out rs \<and> distinct (map bt_custom_id out) \<and> (\<forall>r \<in> set out. bt_batch_id r = batch_id) \<and>
    int (length out) \<le> be_max_result_count env \<and> int (sum_list (map (be_result_size env) out)) \<le> be_max_result_bytes env \<and>
    (e = None \<longrightarrow> out = rs \<and> failure = None)"
proof -
  have pos: "0 \<le> be_max_result_count env" "0 \<le> be_max_result_bytes env" using assms(2) by (auto simp: BatchService_def res_simps)
  show ?thesis
  proof (cases "batch_results env provider account batch_id rs failure db = results_from env batch_id [] 0 0 rs failure")
    case True
    then have "results_from env batch_id [] 0 0 rs failure = (out, e)" using assms(1) by simp
    from results_from_spec[OF this] pos show ?thesis by (auto simp: list_all_iff)
  next
    case False
    then have "out = [] \<and> e \<noteq> None" using assms(1) by (auto simp: batch_results_def split: sum.splits)
    then show ?thesis using pos by auto
  qed
qed

section \<open>A batch\<close>

datatype demo_payload = FilePayload file_record | BatchPayload batch_record

definition demo_batch_env :: "demo_payload batch_env" where
  "demo_batch_env = \<lparr>be_codec = \<lparr>rc_dump = BatchPayload, rc_validate = (\<lambda>p. case p of BatchPayload r \<Rightarrow> Some r | _ \<Rightarrow> None)\<rparr>,
     be_files = \<lparr>rc_dump = FilePayload, rc_validate = (\<lambda>p. case p of FilePayload r \<Rightarrow> Some r | _ \<Rightarrow> None)\<rparr>,
     be_accounts = [(''p'', ''a'')], be_sha256 = (\<lambda>s. ''h''), be_isotime = (\<lambda>_. ''t''), be_max_result_count = 10,
     be_max_result_bytes = 1024, be_result_size = (\<lambda>_. 100)\<rparr>"

definition demo_batch :: "batch_status \<Rightarrow> int \<Rightarrow> batch_record" where
  "demo_batch status n = \<lparr>br_provider = ''p'', br_extensions = [], br_account = ''a'', br_id = ''b'', br_input_file_id = ''f'',
     br_endpoint = ''/v1/responses'', br_status = status, br_counts = \<lparr>bc_total = 5, bc_completed = n, bc_failed = 0\<rparr>,
     br_output_file_id = None, br_error_file_id = None, br_created_at = demo_time 0, br_updated_at = demo_time n\<rparr>"

definition demo_submission :: batch_submission where
  "demo_submission = \<lparr>bs_provider = ''p'', bs_extensions = [], bs_account = ''a'', bs_input_file_id = ''f'',
     bs_endpoint = ''/v1/responses'', bs_metadata = []\<rparr>"

definition demo_batch_db :: "demo_payload control_db" where
  "demo_batch_db = empty_db\<lparr>db_files := [((''p'', ''a'', ''f''), FilePayload (demo_file ''f''\<lparr>fr_purpose := BatchPurpose\<rparr>))]\<rparr>"

lemma demo_batch_codec [simp]: "codec_sound (be_codec demo_batch_env)"
  by (simp add: demo_batch_env_def codec_sound_def)

lemmas demo_batch_simps = demo_batch_db_def demo_batch_env_def demo_batch_def demo_submission_def empty_db_def demo_time_def

lemma demo_submit:
  "\<exists>db1. submit demo_batch_env ''u'' (demo_time 1) demo_submission ''k'' (Inr (demo_batch InProgress 1)) (\<lambda>d. d) demo_batch_db =
     (Inr (demo_batch InProgress 1), db1) \<and> db_files db1 = db_files demo_batch_db"
  by (simp add: submit_def with_key_def adapter_for_def batch_adapter_def require_batch_file_def batch_digest_def canonical_def
      submission_json_def extensions_json_def reserve_def complete_def submitted_def validate_record_scope_def upsert_batch_def
      append_audit_def identifier_text_def ascii_alnum_def ascii_alpha_def code_of_def dict_get_def demo_batch_simps)

lemma demo_pre:
  "responses_ok demo_batch_env demo_batch_db" "adapter_for demo_batch_env ''p'' ''a'' = Inr ()"
  "returns (require_batch_file demo_batch_env demo_submission demo_batch_db)"
  "batch_digest (be_sha256 demo_batch_env) (submission_json demo_submission) = Inr ''h''" "identifier_text ''k''"
  by (simp_all add: responses_ok_def key_row_def adapter_for_def batch_adapter_def require_batch_file_def batch_digest_def canonical_def
      submission_json_def extensions_json_def identifier_text_def ascii_alnum_def ascii_alpha_def code_of_def dict_get_def demo_batch_simps)


theorem submit_outcome_witness:
  "\<exists>db1. submit demo_batch_env ''u'' (demo_time 1) demo_submission ''k'' (Inr (demo_batch InProgress 1)) (\<lambda>d. d) demo_batch_db =
     (Inr (demo_batch InProgress 1), db1) \<and>
     batch_row (be_codec demo_batch_env) db1 (''p'', ''a'', ''b'') = Some (demo_batch InProgress 1)"
proof -
  obtain db1 where s: "submit demo_batch_env ''u'' (demo_time 1) demo_submission ''k'' (Inr (demo_batch InProgress 1)) (\<lambda>d. d) demo_batch_db =
     (Inr (demo_batch InProgress 1), db1)" using demo_submit by blast
  have sub: "bs_provider demo_submission = ''p''" "bs_account demo_submission = ''a''" by (simp_all add: demo_submission_def)
  have new: "key_row demo_batch_db (''batch.create'', ''p'', ''a'', ''k'') = None" by (simp add: key_row_def demo_batch_simps)
  have "batch_key (demo_batch InProgress 1) = (''p'', ''a'', ''b'')" by (simp add: batch_key_def demo_batch_def)
  with submit_outcome[where s = demo_submission, unfolded sub, OF new demo_pre(5) demo_batch_codec demo_pre(2-4),
      of "Inr (demo_batch InProgress 1)" "''u''" "demo_time 1"] s
  show ?thesis by auto
qed

theorem batch_history_monotone_witness:
  "\<exists>db db'. batch_row (be_codec demo_batch_env) db (''p'', ''a'', ''b'') = Some (demo_batch InProgress 1) \<and>
     (batch_txn demo_batch_env)\<^sup>*\<^sup>* db db' \<and> db' \<noteq> db \<and>
     (\<exists>r'. batch_row (be_codec demo_batch_env) db' (''p'', ''a'', ''b'') = Some r' \<and> 1 \<le> bc_completed (br_counts r'))"
proof -
  let ?db = "demo_batch_db\<lparr>db_batches := [((''p'', ''a'', ''b''), BatchPayload (demo_batch InProgress 1))]\<rparr>"
  obtain db' where s: "store_batches demo_batch_env [demo_batch BatchCompleted 5] ''u'' ''e'' ''s'' [] (demo_time 5) ?db = Inr db'" "db' \<noteq> ?db"
    by (simp add: store_batches_def upsert_batch_def batch_key_def append_audit_def terminal_statuses_def demo_batch_simps)
  have run: "(batch_txn demo_batch_env)\<^sup>*\<^sup>* ?db db'" using txn_store[OF demo_batch_codec s(1)] by (rule r_into_rtranclp)
  have row: "batch_row (be_codec demo_batch_env) ?db (''p'', ''a'', ''b'') = Some (demo_batch InProgress 1)"
    by (simp add: batch_row_def demo_batch_env_def)
  have "bc_completed (br_counts (demo_batch InProgress 1)) = 1" by (simp add: demo_batch_def)
  with batch_history_monotone[OF run row] row run s(2) show ?thesis by metis
qed

theorem batch_results_bounded_witness:
  "\<exists>out e. batch_results demo_batch_env ''p'' ''a'' ''b'' [] None
     (demo_batch_db\<lparr>db_batches := [((''p'', ''a'', ''b''), BatchPayload (demo_batch BatchCompleted 5))]\<rparr>) = (out, e) \<and>
     int (length out) \<le> be_max_result_count demo_batch_env"
proof -
  have "BatchService demo_batch_env = Inr demo_batch_env" by (simp add: BatchService_def demo_batch_env_def)
  then show ?thesis using batch_results_bounded by (metis surj_pair)
qed

end
