(* ===== verification/HttpText.thy ===== *)
theory HttpText
  imports AgentSchemas CanonicalJson
begin

text \<open>
  What the clients of the providers' APIs share: the answer of the HTTP library to a request, the quoting of an
  identifier that becomes part of a path (\<open>urllib.parse.quote\<close> with \<open>safe=""\<close>), and \<open>str.isalnum\<close>, with
  which identifiers and idempotency keys are checked.
\<close>

section \<open>Answers\<close>

text \<open>What the HTTP library does: it fails, or answers with a status and chunks that may break off.\<close>

datatype control_exchange = RequestFailed | Answered bool int "string list" bool

section \<open>Letters and digits\<close>

text \<open>\<open>str.isalnum\<close> on the characters up to 255.\<close>

definition py_isalnum :: "char \<Rightarrow> bool" where
  "py_isalnum c = (ascii_alnum c \<or> code_of c \<in> {170, 178, 179, 181, 185, 186, 188, 189, 190} \<or>
     192 \<le> code_of c \<and> code_of c \<noteq> 215 \<and> code_of c \<noteq> 247)"

lemma ascii_alnum_code: "ascii_alnum c \<Longrightarrow> code_of c < 128"
  by (auto simp: ascii_alnum_def ascii_alpha_def is_digit_def)

lemma py_isalnum_ascii: "code_of c < 128 \<Longrightarrow> py_isalnum c = ascii_alnum c"
  by (auto simp: py_isalnum_def)

section \<open>Quoting\<close>

text \<open>\<open>urllib.parse.quote(s, safe="")\<close>\<close>

definition unreserved :: "char \<Rightarrow> bool" where
  "unreserved c = (ascii_alnum c \<or> c \<in> set ''_.-~'')"

definition upper_hex :: "nat \<Rightarrow> char" where
  "upper_hex n = ''0123456789ABCDEF'' ! n"

definition quote_byte :: "char \<Rightarrow> string" where
  "quote_byte c = (if unreserved c then [c] else [CHR ''%'', upper_hex (code_of c div 16), upper_hex (code_of c mod 16)])"

definition url_quote :: "string \<Rightarrow> string" where
  "url_quote s = concat (map quote_byte (utf8_encode s))"

text \<open>The value of an upper-case hexadecimal digit, and the decoding of a quoted text into its bytes.\<close>

definition upper_hex_value :: "char \<Rightarrow> nat" where
  "upper_hex_value c = (if is_digit c then code_of c - 48 else code_of c - 55)"

fun unquote :: "string \<Rightarrow> string" where
  "unquote [] = []"
| "unquote [c] = [c]"
| "unquote [c, d] = [c, d]"
| "unquote (c # d # e # s) =
     (if c = CHR ''%'' then char_of (16 * upper_hex_value d + upper_hex_value e) # unquote s else c # unquote (d # e # s))"

lemma upper_hex_back: "n < 16 \<Longrightarrow> upper_hex_value (upper_hex n) = n"
  by (simp add: upper_hex_def upper_hex_value_def is_digit_def code_of_def eval_nat_numeral less_Suc_eq split: if_splits) auto

lemma unquote_plain: "c \<noteq> CHR ''%'' \<Longrightarrow> unquote (c # s) = c # unquote s"
  by (cases s rule: unquote.cases) auto

lemma unquote_byte: "unquote (quote_byte c @ s) = c # unquote s"
proof (cases "unreserved c")
  case True
  then have "c \<noteq> CHR ''%''" by (auto simp: unreserved_def ascii_alnum_def ascii_alpha_def is_digit_def code_of_def)
  then show ?thesis using True by (simp add: quote_byte_def unquote_plain)
next
  case False
  have d: "code_of c div 16 < 16" "code_of c mod 16 < 16" by (simp_all add: code_of_def div_less_iff_less_mult)
  have "char_of (16 * upper_hex_value (upper_hex (code_of c div 16)) + upper_hex_value (upper_hex (code_of c mod 16))) = char_of (code_of c)"
    by (simp only: upper_hex_back[OF d(1)] upper_hex_back[OF d(2)] mult_div_mod_eq)
  then have "char_of (16 * upper_hex_value (upper_hex (code_of c div 16)) + upper_hex_value (upper_hex (code_of c mod 16))) = c"
    by (simp add: code_of_def)
  then show ?thesis using False by (simp add: quote_byte_def)
qed

lemma unquote_quote: "unquote (url_quote s) = utf8_encode s"
proof -
  have "unquote (concat (map quote_byte bs)) = bs" for bs
    by (induction bs) (simp_all add: unquote_byte)
  then show ?thesis by (simp add: url_quote_def)
qed

text \<open>
  An identifier that is put into a path cannot leave its segment: its quoted form consists of
  unreserved characters and percent signs only, and different identifiers have different forms.
\<close>

theorem url_quote_safe:
  "set (url_quote s) \<subseteq> {c. unreserved c} \<union> {CHR ''%''} \<and> CHR ''/'' \<notin> set (url_quote s) \<and> CHR ''?'' \<notin> set (url_quote s) \<and>
   (url_quote s = url_quote t \<longleftrightarrow> s = t)"
proof -
  have hex: "unreserved (upper_hex n)" if "n < 16" for n
    using that by (simp add: upper_hex_def unreserved_def ascii_alnum_def ascii_alpha_def is_digit_def code_of_def eval_nat_numeral less_Suc_eq) auto
  have "code_of c div 16 < 16" for c by (simp add: code_of_def div_less_iff_less_mult)
  then have "set (quote_byte c) \<subseteq> {c. unreserved c} \<union> {CHR ''%''}" for c
    using hex by (auto simp: quote_byte_def)
  then have all: "set (url_quote s) \<subseteq> {c. unreserved c} \<union> {CHR ''%''}" by (fastforce simp: url_quote_def)
  moreover have "\<not> unreserved (CHR ''/'')" "\<not> unreserved (CHR ''?'')"
    by (simp_all add: unreserved_def ascii_alnum_def ascii_alpha_def is_digit_def code_of_def)
  moreover have "url_quote s = url_quote t \<longleftrightarrow> s = t" using unquote_quote[of s] unquote_quote[of t] utf8_inject by metis
  ultimately show ?thesis by auto
qed

end
