(* ===== verification/ControlAdapters.thy ===== *)
theory ControlAdapters
  imports Batches HttpText
begin

text \<open>
  The providers' control APIs (\<open>zeaz_control/adapters.py\<close>): one bounded exchange, the requests of each
  operation, and the conversion of what the providers answer into the control plane's records. The
  HTTP library is the argument \<open>server\<close>; how Pydantic reads an integer field (\<open>lax_int\<close>) and how
  \<open>json.loads\<close> decodes bytes (\<open>decode\<close>) are arguments as well. Opening the staged file and closing
  the client are not modelled.
\<close>

section \<open>Exchanges\<close>

record control_request =
  cq_method :: string
  cq_url :: string
  cq_headers :: "string dict"
  cq_params :: "json dict"
  cq_data :: "string dict"
  cq_files :: "(string \<times> string \<times> string \<times> string) list"
  cq_json :: "json option"

fun read_body_within :: "int \<Rightarrow> string \<Rightarrow> string list \<Rightarrow> bool \<Rightarrow> control_error + string" where
  "read_body_within maximum body [] broken = (if broken then Inl (AdapterError ''provider control API request failed'') else Inr body)"
| "read_body_within maximum body (chunk # chunks) broken =
     (if int (length (body @ chunk)) > maximum then Inl (AdapterError ''provider control API response exceeded its byte limit'')
      else read_body_within maximum (body @ chunk) chunks broken)"

record control_adapter =
  ca_provider :: string
  ca_account :: string
  ca_region :: string
  ca_base_url :: string
  ca_credential :: string
  ca_api_version :: string
  ca_max_response_bytes :: int

definition status_failure :: "string \<Rightarrow> int \<Rightarrow> control_error" where
  "status_failure api status = AdapterError (api @ '' failed with HTTP '' @ int_str status)"

definition request_json ::
  "(string \<Rightarrow> string option) \<Rightarrow> control_adapter \<Rightarrow> (control_request \<Rightarrow> control_exchange) \<Rightarrow> control_request \<Rightarrow> control_error + json dict" where
  "request_json decode ad server q = (case server q of
     RequestFailed \<Rightarrow> Inl (AdapterError ''provider control API request failed'')
   | Answered redirect status chunks broken \<Rightarrow>
       bindE (control_check (\<not> redirect) (AdapterError ''provider control API redirects are forbidden'')) (\<lambda>_.
       bindE (control_check (\<not> (status < 200 \<or> status \<ge> 300)) (status_failure ''provider control API'' status)) (\<lambda>_.
       bindE (read_body_within (ca_max_response_bytes ad) [] chunks broken) (\<lambda>body.
       case Option.bind (decode body) json_loads of
         None \<Rightarrow> Inl (AdapterError ''provider control API returned invalid JSON'')
       | Some (JObj d) \<Rightarrow> Inr d
       | Some _ \<Rightarrow> Inl (AdapterError ''provider control API returned a non-object response'')))))"

definition bearer :: "control_adapter \<Rightarrow> string" where
  "bearer ad = ''Bearer '' @ ca_credential ad"

definition plain_request :: "control_adapter \<Rightarrow> string \<Rightarrow> string \<Rightarrow> string dict \<Rightarrow> control_request" where
  "plain_request ad meth path headers = \<lparr>cq_method = meth, cq_url = ca_base_url ad @ path, cq_headers = headers,
     cq_params = [], cq_data = [], cq_files = [], cq_json = None\<rparr>"

definition read_headers :: "control_adapter \<Rightarrow> string dict" where
  "read_headers ad = [(''authorization'', bearer ad), (''accept'', ''application/json'')]"

definition write_headers :: "control_adapter \<Rightarrow> string \<Rightarrow> string dict" where
  "write_headers ad key = [(''authorization'', bearer ad), (''content-type'', ''application/json''), (''idempotency-key'', key)]"

section \<open>Conversions\<close>

definition is_text_value :: "json \<Rightarrow> bool" where
  "is_text_value v = (case v of JStr _ \<Rightarrow> True | _ \<Rightarrow> False)"

definition text_of_json :: "json \<Rightarrow> string" where
  "text_of_json v = (case v of JStr s \<Rightarrow> s | _ \<Rightarrow> [])"

text \<open>\<open>isinstance(v, int)\<close>, which a \<open>bool\<close> is as well, and its value.\<close>

definition int_instance :: "json \<Rightarrow> int option" where
  "int_instance v = (case v of JInt i \<Rightarrow> Some i | JBool b \<Rightarrow> Some (if b then 1 else 0) | _ \<Rightarrow> None)"

definition scalar_value :: "json \<Rightarrow> bool" where
  "scalar_value v = (is_text_value v \<or> int_instance v \<noteq> None)"

definition keep_fields :: "(json \<Rightarrow> bool) \<Rightarrow> string list \<Rightarrow> json dict \<Rightarrow> json dict" where
  "keep_fields ok keys d = map (\<lambda>k. (k, get_or_null d k)) (filter (\<lambda>k. ok (get_or_null d k)) keys)"

text \<open>\<open>datetime.fromtimestamp(t, tz=UTC)\<close>, up to the end of the year 9999; beyond it raises.\<close>

definition from_timestamp :: "int \<Rightarrow> control_error + py_datetime" where
  "from_timestamp t = (if t > 253402300799 then Inl (ControlValueError ''year is out of range'')
     else Inr \<lparr>dt_instant = t * 1000000, dt_offset = Some 0\<rparr>)"

definition catalogue_lifecycle_of :: "json \<Rightarrow> catalogue_lifecycle" where
  "catalogue_lifecycle_of v =
     (let s = py_lower (py_str v)
      in if s = ''active'' then ActiveModel else if s = ''deprecated'' then DeprecatedModel
         else if s = ''retired'' then RetiredModel else UnknownModel)"

definition provider_model ::
  "string \<Rightarrow> string list \<Rightarrow> string \<Rightarrow> string \<Rightarrow> string \<Rightarrow> string \<Rightarrow> py_datetime \<Rightarrow> json \<Rightarrow> control_error + discovered_model" where
  "provider_model provider keys source message account region observed_at v =
     (case v of
        JObj d \<Rightarrow>
          if \<not> is_text_value (get_or_null d ''id'') then Inl (AdapterError message)
          else DiscoveredModel \<lparr>dm_provider = provider, dm_extensions = [(provider, keep_fields scalar_value keys d)], dm_account = account,
            dm_region = region, dm_model = text_of_json (get_or_null d ''id''), dm_lifecycle = catalogue_lifecycle_of (get_or_null d ''status''),
            dm_capabilities = [], dm_source = source, dm_observed_at = observed_at\<rparr>
      | _ \<Rightarrow> Inl (AdapterError message))"

definition openai_model :: "string \<Rightarrow> string \<Rightarrow> py_datetime \<Rightarrow> json \<Rightarrow> control_error + discovered_model" where
  "openai_model = provider_model ''openai'' [''created'', ''owned_by'', ''object''] ''openai_models_api''
     ''OpenAI Models API returned an invalid model''"

definition anthropic_model :: "string \<Rightarrow> string \<Rightarrow> py_datetime \<Rightarrow> json \<Rightarrow> control_error + discovered_model" where
  "anthropic_model = provider_model ''anthropic'' [''created_at'', ''display_name'', ''type''] ''anthropic_models_api''
     ''Anthropic Models API returned an invalid model''"

definition openai_purpose :: "file_purpose \<Rightarrow> string" where
  "openai_purpose x = (case x of BatchPurpose \<Rightarrow> ''batch'' | FineTunePurpose \<Rightarrow> ''fine-tune'' | VisionPurpose \<Rightarrow> ''vision''
     | AssistantsPurpose \<Rightarrow> ''assistants'' | UserDataPurpose \<Rightarrow> ''user_data'' | EvalsPurpose \<Rightarrow> ''evals'')"

definition openai_file :: "string \<Rightarrow> string \<Rightarrow> int \<Rightarrow> string \<Rightarrow> string \<Rightarrow> file_purpose \<Rightarrow> json dict \<Rightarrow> control_error + file_record" where
  "openai_file account filename bytes sha256 media_type x d =
     bindE (control_check (is_text_value (get_or_null d ''id'') \<and> py_eq (get_or_null d ''filename'') (JStr filename) \<and>
         py_eq (get_or_null d ''bytes'') (JInt bytes)) (AdapterError ''OpenAI Files API returned invalid upload metadata'')) (\<lambda>_.
     bindE (case int_instance (get_or_null d ''created_at'') of
         Some t \<Rightarrow> if t < 0 then Inl (AdapterError ''OpenAI Files API returned an invalid creation time'') else Inr t
       | None \<Rightarrow> Inl (AdapterError ''OpenAI Files API returned an invalid creation time'')) (\<lambda>created.
     bindE (control_check (py_eq (get_or_null d ''purpose'') (JStr (openai_purpose x)))
       (AdapterError ''OpenAI Files API returned a mismatched purpose'')) (\<lambda>_.
     bindE (from_timestamp created) (\<lambda>created_at.
     FileRecord \<lparr>fr_provider = ''openai'',
       fr_extensions = [(''openai'', keep_fields scalar_value [''object'', ''status'', ''expires_at''] d)], fr_account = account,
       fr_id = text_of_json (get_or_null d ''id''), fr_filename = filename, fr_bytes = bytes, fr_sha256 = sha256,
       fr_media_type = media_type, fr_purpose = x, fr_created_at = created_at\<rparr>))))"

definition batch_status_of :: "string \<Rightarrow> batch_status option" where
  "batch_status_of s = find (\<lambda>x. batch_status_value x = s)
     [Validating, InProgress, Finalizing, BatchCompleted, BatchFailed, BatchExpired, Cancelling, BatchCancelled]"

text \<open>\<open>BatchCounts(...)\<close> with what Pydantic makes of the three values; any failure is the adapter's error.\<close>

definition openai_counts :: "(json \<Rightarrow> int option) \<Rightarrow> json \<Rightarrow> control_error + batch_counts" where
  "openai_counts lax_int v =
     (let invalid = AdapterError ''OpenAI Batch API returned invalid request counts''
      in case v of
        JObj c \<Rightarrow>
          (case (lax_int (get_or_null c ''total''), lax_int (get_or_null c ''completed''), lax_int (get_or_null c ''failed'')) of
             (Some t, Some n, Some f) \<Rightarrow> (case BatchCounts t n f of Inl _ \<Rightarrow> Inl invalid | Inr counts \<Rightarrow> Inr counts)
           | _ \<Rightarrow> Inl invalid)
      | _ \<Rightarrow> Inl invalid)"

definition update_fields :: "string list" where
  "update_fields = [''in_progress_at'', ''finalizing_at'', ''completed_at'', ''failed_at'', ''expired_at'', ''cancelling_at'', ''cancelled_at'']"

definition update_times :: "json dict \<Rightarrow> int list" where
  "update_times d = filter (\<lambda>t. t \<ge> 0) (List.map_filter (\<lambda>k. int_instance (get_or_null d k)) update_fields)"

definition optional_text :: "string \<Rightarrow> json \<Rightarrow> control_error + string option" where
  "optional_text message v = (case v of JNull \<Rightarrow> Inr None | JStr s \<Rightarrow> Inr (Some s) | _ \<Rightarrow> Inl (AdapterError message))"

definition text_or_object :: "json \<Rightarrow> bool" where
  "text_or_object v = (case v of JStr _ \<Rightarrow> True | JObj _ \<Rightarrow> True | _ \<Rightarrow> False)"

definition openai_batch :: "(json \<Rightarrow> int option) \<Rightarrow> string \<Rightarrow> json \<Rightarrow> control_error + batch_record" where
  "openai_batch lax_int account v = (case v of
     JObj d \<Rightarrow>
       bindE (control_check (list_all (\<lambda>k. is_text_value (get_or_null d k)) [''id'', ''input_file_id'', ''endpoint'', ''status''])
         (AdapterError ''OpenAI Batch API returned invalid batch metadata'')) (\<lambda>_.
       bindE (case batch_status_of (text_of_json (get_or_null d ''status'')) of
           None \<Rightarrow> Inl (AdapterError ''OpenAI Batch API returned an unknown status'') | Some x \<Rightarrow> Inr x) (\<lambda>status.
       bindE (openai_counts lax_int (get_or_null d ''request_counts'')) (\<lambda>counts.
       bindE (case int_instance (get_or_null d ''created_at'') of
           Some t \<Rightarrow> if t < 0 then Inl (AdapterError ''OpenAI Batch API returned invalid timestamps'') else Inr t
         | None \<Rightarrow> Inl (AdapterError ''OpenAI Batch API returned invalid timestamps'')) (\<lambda>created.
       bindE (from_timestamp created) (\<lambda>created_at.
       bindE (from_timestamp (fold max (update_times d) created)) (\<lambda>updated_at.
       bindE (optional_text ''OpenAI Batch API returned invalid output file metadata'' (get_or_null d ''output_file_id'')) (\<lambda>output_file_id.
       bindE (optional_text ''OpenAI Batch API returned invalid error file metadata'' (get_or_null d ''error_file_id'')) (\<lambda>error_file_id.
       BatchRecord \<lparr>br_provider = ''openai'',
         br_extensions = [(''openai'', keep_fields text_or_object [''completion_window'', ''model'', ''metadata'', ''usage''] d)],
         br_account = account, br_id = text_of_json (get_or_null d ''id''), br_input_file_id = text_of_json (get_or_null d ''input_file_id''),
         br_endpoint = text_of_json (get_or_null d ''endpoint''), br_status = status, br_counts = counts,
         br_output_file_id = output_file_id, br_error_file_id = error_file_id, br_created_at = created_at,
         br_updated_at = updated_at\<rparr>))))))))
   | _ \<Rightarrow> Inl (AdapterError ''OpenAI Batch API returned a non-object batch''))"

text \<open>A status code that is absent stays absent; any other value must be one that Pydantic reads as an integer.\<close>

definition lax_status :: "(json \<Rightarrow> int option) \<Rightarrow> json \<Rightarrow> control_error + int option" where
  "lax_status lax_int v = (if v = JNull then Inr None
     else (case lax_int v of None \<Rightarrow> Inl (ControlValueError ''status_code'') | Some n \<Rightarrow> Inr (Some n)))"

definition openai_batch_result ::
  "(string \<Rightarrow> string option) \<Rightarrow> (json \<Rightarrow> int option) \<Rightarrow> string \<Rightarrow> string \<Rightarrow> control_error + batch_result" where
  "openai_batch_result decode lax_int batch_id line = (case Option.bind (decode line) json_loads of
     None \<Rightarrow> Inl (AdapterError ''OpenAI batch output contains invalid JSONL'')
   | Some v \<Rightarrow>
       (case v of
          JObj d \<Rightarrow>
            if \<not> is_text_value (get_or_null d ''custom_id'') then Inl (AdapterError ''OpenAI batch output contains an invalid result'')
            else
              (let custom_id = text_of_json (get_or_null d ''custom_id'')
               in case (get_or_null d ''response'', get_or_null d ''error'') of
                    (JObj r, JNull) \<Rightarrow>
                      (case bindE (lax_status lax_int (get_or_null r ''status_code'')) (\<lambda>status.
                          BatchResult \<lparr>bt_batch_id = batch_id, bt_custom_id = custom_id, bt_status_code = status,
                            bt_response = get_or_null r ''body'', bt_error_code = None\<rparr>) of
                         Inl _ \<Rightarrow> Inl (AdapterError ''OpenAI batch response is invalid'') | Inr x \<Rightarrow> Inr x)
                  | (JNull, JObj e) \<Rightarrow>
                      (case get_or_null e ''code'' of
                         JStr code \<Rightarrow> BatchResult \<lparr>bt_batch_id = batch_id, bt_custom_id = custom_id, bt_status_code = None,
                            bt_response = JNull, bt_error_code = Some code\<rparr>
                       | _ \<Rightarrow> Inl (AdapterError ''OpenAI batch result is ambiguous''))
                  | _ \<Rightarrow> Inl (AdapterError ''OpenAI batch result is ambiguous''))
        | _ \<Rightarrow> Inl (AdapterError ''OpenAI batch output contains an invalid result'')))"

section \<open>Operations\<close>

definition next_cursor :: "string \<Rightarrow> json dict \<Rightarrow> control_error + string option" where
  "next_cursor api d = (case dict_get_default d ''has_more'' (JBool False) of
     JBool False \<Rightarrow> Inr None
   | JBool True \<Rightarrow> (case get_or_null d ''last_id'' of
         JStr s \<Rightarrow> if s = [] then Inl (AdapterError (api @ '' omitted its next cursor'')) else Inr (Some s)
       | _ \<Rightarrow> Inl (AdapterError (api @ '' omitted its next cursor'')))
   | _ \<Rightarrow> Inl (AdapterError (api @ '' returned invalid pagination'')))"

definition data_list :: "string \<Rightarrow> int \<Rightarrow> json dict \<Rightarrow> control_error + json list" where
  "data_list message limit d = (case get_or_null d ''data'' of
     JArr vs \<Rightarrow> if int (length vs) > limit then Inl (AdapterError message) else Inr vs
   | _ \<Rightarrow> Inl (AdapterError message))"

definition openai_list_models ::
  "(string \<Rightarrow> string option) \<Rightarrow> control_adapter \<Rightarrow> py_datetime \<Rightarrow> (control_request \<Rightarrow> control_exchange) \<Rightarrow> string option \<Rightarrow> int
     \<Rightarrow> control_error + discovered_model page" where
  "openai_list_models decode ad observed server cursor limit =
     bindE (control_check (cursor = None) (AdapterError ''OpenAI Models API does not support a cursor'')) (\<lambda>_.
     bindE (control_check (1 \<le> limit \<and> limit \<le> 1000) (ControlValueError ''limit must be between 1 and 1000'')) (\<lambda>_.
     bindE (request_json decode ad server (plain_request ad ''GET'' ''/v1/models'' (read_headers ad))) (\<lambda>d.
     bindE (data_list ''OpenAI Models API returned an invalid model list'' 1000 d) (\<lambda>vs.
     bindE (mapE (openai_model (ca_account ad) (ca_region ad) observed) vs) (\<lambda>items.
     Inr \<lparr>pg_items = items, pg_next_cursor = None\<rparr>)))))"

definition cursor_param :: "string \<Rightarrow> string option \<Rightarrow> json dict" where
  "cursor_param k cursor = (case cursor of None \<Rightarrow> [] | Some c \<Rightarrow> [(k, JStr c)])"

definition anthropic_list_models ::
  "(string \<Rightarrow> string option) \<Rightarrow> control_adapter \<Rightarrow> py_datetime \<Rightarrow> (control_request \<Rightarrow> control_exchange) \<Rightarrow> string option \<Rightarrow> int
     \<Rightarrow> control_error + discovered_model page" where
  "anthropic_list_models decode ad observed server cursor limit =
     bindE (control_check (1 \<le> limit \<and> limit \<le> 1000) (ControlValueError ''limit must be between 1 and 1000'')) (\<lambda>_.
     bindE (request_json decode ad server ((plain_request ad ''GET'' ''/v1/models''
         [(''x-api-key'', ca_credential ad), (''anthropic-version'', ca_api_version ad), (''accept'', ''application/json'')])
         \<lparr>cq_params := (''limit'', JInt limit) # cursor_param ''after_id'' cursor\<rparr>)) (\<lambda>d.
     bindE (data_list ''Anthropic Models API returned an invalid model list'' limit d) (\<lambda>vs.
     bindE (mapE (anthropic_model (ca_account ad) (ca_region ad) observed) vs) (\<lambda>items.
     bindE (next_cursor ''Anthropic Models API'' d) (\<lambda>c.
     Inr \<lparr>pg_items = items, pg_next_cursor = c\<rparr>)))))"

definition openai_upload_file ::
  "(string \<Rightarrow> string option) \<Rightarrow> control_adapter \<Rightarrow> (control_request \<Rightarrow> control_exchange) \<Rightarrow> string \<Rightarrow> string \<Rightarrow> string \<Rightarrow> file_purpose
     \<Rightarrow> string \<Rightarrow> control_error + file_record" where
  "openai_upload_file decode ad server content filename media_type x sha256 =
     bindE (request_json decode ad server ((plain_request ad ''POST'' ''/v1/files'' (read_headers ad))
         \<lparr>cq_data := [(''purpose'', openai_purpose x)], cq_files := [(''file'', filename, content, media_type)]\<rparr>)) (\<lambda>d.
     openai_file (ca_account ad) filename (int (length content)) sha256 media_type x d)"

definition openai_delete_file ::
  "(string \<Rightarrow> string option) \<Rightarrow> control_adapter \<Rightarrow> (control_request \<Rightarrow> control_exchange) \<Rightarrow> string \<Rightarrow> control_error + unit" where
  "openai_delete_file decode ad server file_id =
     bindE (request_json decode ad server (plain_request ad ''DELETE'' (''/v1/files/'' @ url_quote file_id) (read_headers ad))) (\<lambda>d.
     control_check (py_eq (get_or_null d ''id'') (JStr file_id) \<and> get_or_null d ''deleted'' = JBool True)
       (AdapterError ''provider did not confirm file deletion''))"

definition openai_submit_batch ::
  "(string \<Rightarrow> string option) \<Rightarrow> (json \<Rightarrow> int option) \<Rightarrow> control_adapter \<Rightarrow> (control_request \<Rightarrow> control_exchange) \<Rightarrow> batch_submission
     \<Rightarrow> string \<Rightarrow> control_error + batch_record" where
  "openai_submit_batch decode lax_int ad server s key =
     bindE (control_check (\<not> (bs_provider s \<noteq> ca_provider ad \<or> bs_account s \<noteq> ca_account ad))
       (AdapterError ''batch submission scope does not match adapter'')) (\<lambda>_.
     bindE (control_check (bs_endpoint s \<noteq> ''/v1/messages'') (AdapterError ''OpenAI does not support the Messages batch endpoint'')) (\<lambda>_.
     bindE (request_json decode ad server ((plain_request ad ''POST'' ''/v1/batches'' (write_headers ad key))
         \<lparr>cq_json := Some (JObj [(''input_file_id'', JStr (bs_input_file_id s)), (''endpoint'', JStr (bs_endpoint s)),
            (''completion_window'', JStr ''24h''), (''metadata'', JObj (map (\<lambda>kv. (fst kv, JStr (snd kv))) (bs_metadata s)))])\<rparr>)) (\<lambda>d.
     openai_batch lax_int (ca_account ad) (JObj d))))"

definition openai_list_batches ::
  "(string \<Rightarrow> string option) \<Rightarrow> (json \<Rightarrow> int option) \<Rightarrow> control_adapter \<Rightarrow> (control_request \<Rightarrow> control_exchange) \<Rightarrow> string option \<Rightarrow> int
     \<Rightarrow> control_error + batch_record page" where
  "openai_list_batches decode lax_int ad server cursor limit =
     bindE (control_check (1 \<le> limit \<and> limit \<le> 100) (ControlValueError ''limit must be between 1 and 100'')) (\<lambda>_.
     bindE (request_json decode ad server ((plain_request ad ''GET'' ''/v1/batches'' (read_headers ad))
         \<lparr>cq_params := (''limit'', JInt limit) # cursor_param ''after'' cursor\<rparr>)) (\<lambda>d.
     bindE (data_list ''OpenAI Batch API returned an invalid list'' limit d) (\<lambda>vs.
     bindE (mapE (openai_batch lax_int (ca_account ad)) vs) (\<lambda>items.
     bindE (next_cursor ''OpenAI Batch API'' d) (\<lambda>c.
     Inr \<lparr>pg_items = items, pg_next_cursor = c\<rparr>)))))"

definition openai_get_batch ::
  "(string \<Rightarrow> string option) \<Rightarrow> (json \<Rightarrow> int option) \<Rightarrow> control_adapter \<Rightarrow> (control_request \<Rightarrow> control_exchange) \<Rightarrow> string
     \<Rightarrow> control_error + batch_record" where
  "openai_get_batch decode lax_int ad server batch_id =
     bindE (request_json decode ad server (plain_request ad ''GET'' (''/v1/batches/'' @ url_quote batch_id) (read_headers ad))) (\<lambda>d.
     openai_batch lax_int (ca_account ad) (JObj d))"

definition openai_cancel_batch ::
  "(string \<Rightarrow> string option) \<Rightarrow> (json \<Rightarrow> int option) \<Rightarrow> control_adapter \<Rightarrow> (control_request \<Rightarrow> control_exchange) \<Rightarrow> string \<Rightarrow> string
     \<Rightarrow> control_error + batch_record" where
  "openai_cancel_batch decode lax_int ad server batch_id key =
     bindE (request_json decode ad server ((plain_request ad ''POST'' (''/v1/batches/'' @ url_quote batch_id @ ''/cancel'')
         (write_headers ad key))\<lparr>cq_json := Some (JObj [])\<rparr>)) (\<lambda>d.
     openai_batch lax_int (ca_account ad) (JObj d))"

text \<open>The chunks that \<open>download_file\<close> yields, and how it ends.\<close>

definition openai_download_file ::
  "control_adapter \<Rightarrow> (control_request \<Rightarrow> control_exchange) \<Rightarrow> string \<Rightarrow> string list \<times> control_error option" where
  "openai_download_file ad server file_id =
     (case server (plain_request ad ''GET'' (''/v1/files/'' @ url_quote file_id @ ''/content'')
         [(''authorization'', bearer ad), (''accept'', ''application/octet-stream'')]) of
        RequestFailed \<Rightarrow> ([], Some (AdapterError ''provider file download failed''))
      | Answered redirect status chunks broken \<Rightarrow>
          if redirect then ([], Some (AdapterError ''provider file redirects are forbidden''))
          else if status < 200 \<or> status \<ge> 300 then ([], Some (status_failure ''provider file download'' status))
          else (filter (\<lambda>c. c \<noteq> []) chunks, if broken then Some (AdapterError ''provider file download failed'') else None))"

definition max_line_bytes :: int where
  "max_line_bytes = 16777216"

definition long_line :: control_error where
  "long_line = AdapterError ''batch result line exceeded its byte limit''"

text \<open>
  The loop over the lines in the buffer: the results it yields, and the rest of the buffer or the
  exception it ends with.
\<close>

function take_lines ::
  "(string \<Rightarrow> control_error + batch_result) \<Rightarrow> string \<Rightarrow> batch_result list \<times> (control_error + string)" where
  "take_lines convert buffer =
     (if newline \<in> set buffer then
        (let line = takeWhile (\<lambda>c. c \<noteq> newline) buffer; rest = drop (length line + 1) buffer
         in if int (length line) > max_line_bytes then ([], Inl long_line)
            else if line = [] then take_lines convert rest
            else (case convert line of
                Inl e \<Rightarrow> ([], Inl e)
              | Inr r \<Rightarrow> (case take_lines convert rest of (out, end) \<Rightarrow> (r # out, end))))
      else ([], Inr buffer))"
  by pat_completeness auto
termination
  apply (relation "measure (length \<circ> snd)")
    apply simp
   apply (force dest: length_pos_if_in_set)+
  done

declare take_lines.simps [simp del]

fun result_lines ::
  "(string \<Rightarrow> control_error + batch_result) \<Rightarrow> string \<Rightarrow> string list \<Rightarrow> control_error option \<Rightarrow> batch_result list \<times> control_error option" where
  "result_lines convert buffer [] (Some e) = ([], Some e)"
| "result_lines convert buffer [] None =
     (if buffer = [] then ([], None)
      else if int (length buffer) > max_line_bytes then ([], Some long_line)
      else (case convert buffer of Inl e \<Rightarrow> ([], Some e) | Inr r \<Rightarrow> ([r], None)))"
| "result_lines convert buffer (chunk # chunks) failure =
     (let buffer' = buffer @ chunk
      in if int (length buffer') > max_line_bytes \<and> newline \<notin> set buffer' then ([], Some long_line)
         else (case take_lines convert buffer' of
             (out, Inl e) \<Rightarrow> (out, Some e)
           | (out, Inr rest) \<Rightarrow> (case result_lines convert rest chunks failure of (out', e) \<Rightarrow> (out @ out', e))))"

definition openai_batch_results ::
  "(string \<Rightarrow> string option) \<Rightarrow> (json \<Rightarrow> int option) \<Rightarrow> control_adapter \<Rightarrow> (control_request \<Rightarrow> control_exchange) \<Rightarrow> batch_record
     \<Rightarrow> batch_result list \<times> control_error option" where
  "openai_batch_results decode lax_int ad server b =
     (if br_provider b \<noteq> ca_provider ad \<or> br_account b \<noteq> ca_account ad
      then ([], Some (AdapterError ''batch result scope does not match adapter''))
      else (case br_output_file_id b of
          None \<Rightarrow> ([], Some (AdapterError ''batch has no output file''))
        | Some file_id \<Rightarrow>
            (case openai_download_file ad server file_id of
               (chunks, e) \<Rightarrow> result_lines (openai_batch_result decode lax_int (br_id b)) [] chunks e)))"

section \<open>Lines and chunks\<close>

text \<open>The results of the lines one after another, up to the first that cannot be converted.\<close>

fun convert_all ::
  "(string \<Rightarrow> control_error + batch_result) \<Rightarrow> string list \<Rightarrow> batch_result list \<times> control_error option" where
  "convert_all convert [] = ([], None)"
| "convert_all convert (l # ls) =
     (case convert l of Inl e \<Rightarrow> ([], Some e) | Inr r \<Rightarrow> (case convert_all convert ls of (out, e) \<Rightarrow> (r # out, e)))"

abbreviation nonempty :: "string list \<Rightarrow> string list" where
  "nonempty \<equiv> filter (\<lambda>l. l \<noteq> [])"

abbreviation newline_split :: "string \<Rightarrow> string list" where
  "newline_split \<equiv> split_char newline"

lemma convert_all_append:
  "convert_all convert (ls @ ms) = (case convert_all convert ls of
     (out, None) \<Rightarrow> (case convert_all convert ms of (out', e) \<Rightarrow> (out @ out', e)) | (out, Some e) \<Rightarrow> (out, Some e))"
  by (induction ls) (auto split: sum.splits prod.splits option.splits)

lemma newline_split_not_Nil [simp]: "newline_split s \<noteq> []"
  by (induction s) (auto split: list.splits)

lemma newline_split_plain: "newline \<notin> set s \<Longrightarrow> newline_split s = [s]"
  by (induction s) auto

lemma newline_split_line:
  "newline \<in> set s \<Longrightarrow>
     newline_split s = takeWhile (\<lambda>c. c \<noteq> newline) s # newline_split (drop (length (takeWhile (\<lambda>c. c \<noteq> newline) s) + 1) s)"
  by (induction s) (auto split: list.splits)

lemma newline_split_append:
  "newline_split (s @ t) = butlast (newline_split s) @ newline_split (last (newline_split s) @ t)"
proof (induction s)
  case (Cons c s)
  then show ?case by (cases "newline_split s"; cases "newline_split (s @ t)") (auto split: list.splits if_splits)
qed simp

lemma hd_newline_split: "newline \<notin> set s \<Longrightarrow> hd (newline_split (s @ t)) = s @ hd (newline_split t)"
  by (induction s) (auto split: list.splits)

lemma last_newline_split: "newline \<notin> set (last (newline_split s))"
  by (induction s) (auto split: list.splits)

text \<open>\<open>take_lines\<close> converts the complete lines and keeps the rest.\<close>

lemma take_lines_eq:
  assumes "list_all (\<lambda>l. int (length l) \<le> max_line_bytes) (newline_split buffer)"
  shows "take_lines convert buffer = (case convert_all convert (nonempty (butlast (newline_split buffer))) of
     (out, None) \<Rightarrow> (out, Inr (last (newline_split buffer))) | (out, Some e) \<Rightarrow> (out, Inl e))"
  using assms
proof (induction convert buffer rule: take_lines.induct)
  case (1 convert buffer)
  show ?case
  proof (cases "newline \<in> set buffer")
    case False
    then show ?thesis by (simp add: take_lines.simps newline_split_plain)
  next
    case True
    let ?line = "takeWhile (\<lambda>c. c \<noteq> newline) buffer"
    let ?rest = "drop (length ?line + 1) buffer"
    have split: "newline_split buffer = ?line # newline_split ?rest" by (rule newline_split_line[OF True])
    have parts: "last (newline_split buffer) = last (newline_split ?rest)" "butlast (newline_split buffer) = ?line # butlast (newline_split ?rest)"
      unfolding split by (simp_all add: last_ConsR)
    have short: "int (length ?line) \<le> max_line_bytes" "list_all (\<lambda>l. int (length l) \<le> max_line_bytes) (newline_split ?rest)"
      using "1.prems" unfolding split by simp_all
    have not_long: "\<not> int (length ?line) > max_line_bytes" using short(1) by simp
    show ?thesis
    proof (cases "?line = []")
      case True': True
      have "take_lines convert buffer = take_lines convert ?rest"
        using True not_long True' by (simp add: take_lines.simps[of convert buffer] Let_def)
      then show ?thesis using "1.IH"(1)[OF True refl refl not_long True' short(2)] unfolding parts by (simp add: True')
    next
      case False
      have step: "take_lines convert buffer = (case convert ?line of Inl e \<Rightarrow> ([], Inl e)
          | Inr r \<Rightarrow> (case take_lines convert ?rest of (out, end) \<Rightarrow> (r # out, end)))"
        by (simp only: take_lines.simps[of convert buffer] Let_def True not_long False if_True if_False)
      show ?thesis
      proof (cases "convert ?line")
        case (Inl e)
        then show ?thesis unfolding step parts using False by simp
      next
        case (Inr r)
        from "1.IH"(2)[OF True refl refl not_long False Inr short(2)] show ?thesis
          unfolding step parts using False Inr by (auto split: prod.splits option.splits)
      qed
    qed
  qed
qed

lemma result_lines_eq:
  assumes "list_all (\<lambda>l. int (length l) \<le> max_line_bytes) (newline_split (buffer @ concat chunks))" "newline \<notin> set buffer"
  shows "result_lines convert buffer chunks None = convert_all convert (nonempty (newline_split (buffer @ concat chunks)))"
  using assms
proof (induction chunks arbitrary: buffer)
  case Nil
  then show ?case by (auto simp: newline_split_plain split: sum.splits)
next
  case (Cons chunk chunks)
  let ?b = "buffer @ chunk"
  have all: "newline_split (buffer @ concat (chunk # chunks)) = butlast (newline_split ?b) @ newline_split (last (newline_split ?b) @ concat chunks)"
    using newline_split_append[of ?b "concat chunks"] by simp
  have first: "hd (newline_split (last (newline_split ?b) @ concat chunks)) = last (newline_split ?b) @ hd (newline_split (concat chunks))"
    by (rule hd_newline_split[OF last_newline_split])
  have "list_all (\<lambda>l. int (length l) \<le> max_line_bytes) (newline_split (last (newline_split ?b) @ concat chunks))"
    using Cons.prems(1) unfolding all by simp
  then have "int (length (hd (newline_split (last (newline_split ?b) @ concat chunks)))) \<le> max_line_bytes"
    by (simp add: list_all_iff)
  then have "int (length (last (newline_split ?b))) \<le> max_line_bytes" unfolding first by simp
  then have short: "list_all (\<lambda>l. int (length l) \<le> max_line_bytes) (newline_split ?b)"
    using Cons.prems(1) unfolding all
    by (subst append_butlast_last_id[of "newline_split ?b", symmetric]) (simp_all del: append_butlast_last_id)
  have no_long: "\<not> (int (length ?b) > max_line_bytes \<and> newline \<notin> set ?b)"
  proof
    assume long: "int (length ?b) > max_line_bytes \<and> newline \<notin> set ?b"
    then have one: "newline_split ?b = [?b]" by (intro newline_split_plain) simp
    have "int (length ?b) \<le> max_line_bytes" using short unfolding one by simp
    then show False using long by linarith
  qed
  have rest: "list_all (\<lambda>l. int (length l) \<le> max_line_bytes) (newline_split (last (newline_split ?b) @ concat chunks))"
    using Cons.prems(1) unfolding all by simp
  show ?case
    using Cons.IH[OF rest last_newline_split] no_long
    unfolding all by (auto simp: take_lines_eq[OF short] convert_all_append Let_def split: prod.splits option.splits)
qed

text \<open>
  The results that are read from a file do not depend on how its bytes arrive: they are those of its
  nonempty lines, one after another up to the first that is not a result, as long as no line is
  longer than 16 MiB.
\<close>

theorem batch_results_by_lines:
  assumes "list_all (\<lambda>l. int (length l) \<le> max_line_bytes) (split_char newline (concat chunks))"
  shows "result_lines convert [] chunks None = convert_all convert (filter (\<lambda>l. l \<noteq> []) (split_char newline (concat chunks)))"
  using result_lines_eq[of "[]" chunks convert] assms by simp

section \<open>Conversions\<close>

lemma fold_max_ge: "(x::int) \<le> fold max ts x"
proof (induction ts arbitrary: x)
  case (Cons t ts)
  have "x \<le> max t x" by simp
  also have "\<dots> \<le> fold max ts (max t x)" by (rule Cons.IH)
  finally show ?case by simp
qed simp

lemma constructors_same:
  "BatchRecord r = Inr x \<Longrightarrow> x = r" "DiscoveredModel m = Inr y \<Longrightarrow> y = m" "FileRecord f = Inr z \<Longrightarrow> z = f"
  "BatchCounts t c e = Inr w \<Longrightarrow> w = \<lparr>bc_total = t, bc_completed = c, bc_failed = e\<rparr>"
  by (auto simp: BatchRecord_def DiscoveredModel_def FileRecord_def BatchCounts_def res_simps)

text \<open>
  Whatever JSON the provider answers with, a batch that is made of it is a valid record under the
  adapter's provider and account, with the identifiers, endpoint and status that were sent, with
  counts that add up, and updated no earlier than created.
\<close>

theorem openai_batch_valid:
  assumes "openai_batch lax_int account v = Inr r"
  shows "BatchRecord r = Inr r \<and> br_provider r = ''openai'' \<and> br_account r = account \<and>
    (\<exists>d. v = JObj d \<and> get_or_null d ''id'' = JStr (br_id r) \<and> get_or_null d ''input_file_id'' = JStr (br_input_file_id r) \<and>
       get_or_null d ''endpoint'' = JStr (br_endpoint r) \<and> get_or_null d ''status'' = JStr (batch_status_value (br_status r))) \<and>
    0 \<le> bc_completed (br_counts r) \<and> 0 \<le> bc_failed (br_counts r) \<and>
    bc_completed (br_counts r) + bc_failed (br_counts r) \<le> bc_total (br_counts r) \<and>
    dt_instant (br_created_at r) \<le> dt_instant (br_updated_at r)"
proof -
  obtain d where d: "v = JObj d" using assms by (cases v) (auto simp: openai_batch_def)
  obtain status counts created created_at updated_at out err where
      texts: "list_all (\<lambda>k. is_text_value (get_or_null d k)) [''id'', ''input_file_id'', ''endpoint'', ''status'']"
      and status: "batch_status_of (text_of_json (get_or_null d ''status'')) = Some status"
      and counts: "openai_counts lax_int (get_or_null d ''request_counts'') = Inr counts"
      and r: "BatchRecord \<lparr>br_provider = ''openai'',
         br_extensions = [(''openai'', keep_fields text_or_object [''completion_window'', ''model'', ''metadata'', ''usage''] d)],
         br_account = account, br_id = text_of_json (get_or_null d ''id''), br_input_file_id = text_of_json (get_or_null d ''input_file_id''),
         br_endpoint = text_of_json (get_or_null d ''endpoint''), br_status = status, br_counts = counts,
         br_output_file_id = out, br_error_file_id = err, br_created_at = created_at, br_updated_at = updated_at\<rparr> = Inr r"
    using assms unfolding d openai_batch_def by (auto simp: bindE_eq_Inr control_check_Inr split: option.splits)
  have rec: "r = \<lparr>br_provider = ''openai'',
         br_extensions = [(''openai'', keep_fields text_or_object [''completion_window'', ''model'', ''metadata'', ''usage''] d)],
         br_account = account, br_id = text_of_json (get_or_null d ''id''), br_input_file_id = text_of_json (get_or_null d ''input_file_id''),
         br_endpoint = text_of_json (get_or_null d ''endpoint''), br_status = status, br_counts = counts,
         br_output_file_id = out, br_error_file_id = err, br_created_at = created_at, br_updated_at = updated_at\<rparr>"
    by (rule constructors_same(1)[OF r])
  have valid: "BatchRecord r = Inr r" using r unfolding rec .
  then have order: "dt_instant (br_created_at r) \<le> dt_instant (br_updated_at r)" by (auto simp: BatchRecord_def res_simps)
  have "0 \<le> bc_completed counts \<and> 0 \<le> bc_failed counts \<and> bc_completed counts + bc_failed counts \<le> bc_total counts"
    using counts by (auto simp: openai_counts_def BatchCounts_def res_simps Let_def control_check_def bindE_def
        split: json.splits option.splits sum.splits if_splits)
  moreover have "batch_status_value status = text_of_json (get_or_null d ''status'')"
    using status unfolding batch_status_of_def find_Some_iff by blast
  moreover have "get_or_null d k = JStr (text_of_json (get_or_null d k))" if "is_text_value (get_or_null d k)" for k
    using that by (simp add: is_text_value_def text_of_json_def split: json.splits)
  ultimately show ?thesis using valid order texts d unfolding rec by simp
qed

section \<open>Exchanges\<close>

lemma read_body_within_Inr:
  "read_body_within maximum body chunks broken = Inr out \<Longrightarrow> \<not> broken \<and> out = body @ concat chunks \<and>
     (int (length body) \<le> maximum \<longrightarrow> int (length out) \<le> maximum)"
  by (induction maximum body chunks broken rule: read_body_within.induct) (auto split: if_splits)

text \<open>
  An operation gets an object only from a complete successful answer within the byte limit, which
  was no redirect.
\<close>

theorem control_exchange_policy:
  assumes "request_json decode ad server q = Inr d" "0 \<le> ca_max_response_bytes ad"
  shows "\<exists>status chunks t. server q = Answered False status chunks False \<and> 200 \<le> status \<and> status < 300 \<and>
    int (length (concat chunks)) \<le> ca_max_response_bytes ad \<and> decode (concat chunks) = Some t \<and> json_loads t = Some (JObj d)"
proof -
  obtain redirect status chunks broken where s: "server q = Answered redirect status chunks broken"
    using assms(1) by (cases "server q") (auto simp: request_json_def)
  obtain body where b: "\<not> redirect" "200 \<le> status" "status < 300" "read_body_within (ca_max_response_bytes ad) [] chunks broken = Inr body"
      "Option.bind (decode body) json_loads = Some (JObj d)"
  proof -
    obtain body where body: "\<not> redirect" "200 \<le> status" "status < 300" "read_body_within (ca_max_response_bytes ad) [] chunks broken = Inr body"
        "(case Option.bind (decode body) json_loads of None \<Rightarrow> Inl (AdapterError ''provider control API returned invalid JSON'')
          | Some (JObj d) \<Rightarrow> Inr d | Some _ \<Rightarrow> Inl (AdapterError ''provider control API returned a non-object response'')) = Inr d"
      using assms(1) unfolding request_json_def s control_exchange.case bindE_eq_Inr control_check_Inr
      by (metis linorder_not_le linorder_not_less)
    then show ?thesis using that by (cases "Option.bind (decode body) json_loads") (auto split: json.splits)
  qed
  from read_body_within_Inr[OF b(4)] b s assms(2) show ?thesis by (auto simp: bind_eq_Some_conv)
qed

section \<open>An exchange\<close>

definition demo_adapter :: control_adapter where
  "demo_adapter = \<lparr>ca_provider = ''openai'', ca_account = ''a'', ca_region = ''g'', ca_base_url = ''https://h'', ca_credential = ''k'',
     ca_api_version = [], ca_max_response_bytes = 1024\<rparr>"

theorem control_exchange_policy_witness:
  "\<exists>d. request_json Some demo_adapter (\<lambda>_. Answered False 200 [''{'', ''}''] False) (plain_request demo_adapter ''GET'' ''/'' []) = Inr d \<and>
     json_loads ''{}'' = Some (JObj d)"
proof -
  have j: "json_loads ''{}'' = Some (JObj [])" by code_simp
  have r: "request_json Some demo_adapter (\<lambda>_. Answered False 200 [''{'', ''}''] False) (plain_request demo_adapter ''GET'' ''/'' []) = Inr []"
    by (simp add: request_json_def demo_adapter_def j)
  from control_exchange_policy[OF r] have "json_loads ''{}'' = Some (JObj [])" by (auto simp: demo_adapter_def)
  then show ?thesis using r by blast
qed

theorem batch_results_by_lines_witness:
  "result_lines (\<lambda>l. Inr \<lparr>bt_batch_id = l, bt_custom_id = l, bt_status_code = None, bt_response = JNull, bt_error_code = None\<rparr>) []
     [''a'' @ [newline] @ ''b'', ''c'' @ [newline, newline]] None =
   ([\<lparr>bt_batch_id = ''a'', bt_custom_id = ''a'', bt_status_code = None, bt_response = JNull, bt_error_code = None\<rparr>,
     \<lparr>bt_batch_id = ''bc'', bt_custom_id = ''bc'', bt_status_code = None, bt_response = JNull, bt_error_code = None\<rparr>], None)"
  by (subst batch_results_by_lines) (simp_all add: max_line_bytes_def)

definition demo_batch_json :: "json dict" where
  "demo_batch_json = [(''id'', JStr ''b''), (''input_file_id'', JStr ''f''), (''endpoint'', JStr ''/v1/responses''),
     (''status'', JStr ''completed''), (''created_at'', JInt 5), (''completed_at'', JInt 7),
     (''request_counts'', JObj [(''total'', JInt 2), (''completed'', JInt 1), (''failed'', JInt 1)])]"

theorem openai_batch_valid_witness:
  "\<exists>r. openai_batch int_instance ''a'' (JObj demo_batch_json) = Inr r \<and> BatchRecord r = Inr r \<and> br_account r = ''a''"
proof -
  have "returns (openai_batch int_instance ''a'' (JObj demo_batch_json))" by code_simp
  then obtain r where r: "openai_batch int_instance ''a'' (JObj demo_batch_json) = Inr r" by (auto simp: returns_iff)
  from openai_batch_valid[OF r] r show ?thesis by blast
qed

end
