(* ===== verification/Subagents.thy ===== *)
theory Subagents
  imports AgentSchemas
begin

text \<open>
  The scheduler of subagents (\<open>zeaz_agent/subagents.py\<close>). \<open>SubagentManager\<close> is a record with the table
  of its subagents, its counters and the semaphore. The event loop interleaves the stretches of
  code between two suspension points, and each of them is one function here: \<open>spawn\<close>, the first step
  of the task that \<open>spawn\<close> creates (\<open>begin_task\<close>), a step after waiting for the semaphore
  (\<open>resume_task\<close>), the step in which the worker has ended (\<open>end_task\<close>) and \<open>cancel\<close>. The lock is never
  contended, because no task awaits anything while it holds it, so it does not occur.
\<close>

section \<open>Records\<close>

datatype subagent_status = SubPending | SubRunning | SubCompleted | SubFailed | SubCancelled | SubTimedOut

definition subagent_status_value :: "subagent_status \<Rightarrow> string" where
  "subagent_status_value s = (case s of SubPending \<Rightarrow> ''pending'' | SubRunning \<Rightarrow> ''running'' | SubCompleted \<Rightarrow> ''completed''
     | SubFailed \<Rightarrow> ''failed'' | SubCancelled \<Rightarrow> ''cancelled'' | SubTimedOut \<Rightarrow> ''timed_out'')"

record subagent_limits =
  sl_max_concurrent :: int
  sl_max_total :: int
  sl_max_depth :: int
  sl_max_tokens_per_agent :: int
  sl_max_total_tokens :: int

definition SubagentLimits :: "subagent_limits \<Rightarrow> subagent_limits res" where
  "SubagentLimits l =
     bindE (check (1 \<le> sl_max_concurrent l \<and> sl_max_concurrent l \<le> 128) ''max_concurrent'') (\<lambda>_.
     bindE (check (1 \<le> sl_max_total l \<and> sl_max_total l \<le> 10000) ''max_total'') (\<lambda>_.
     bindE (check (1 \<le> sl_max_depth l \<and> sl_max_depth l \<le> 32) ''max_depth'') (\<lambda>_.
     bindE (check (1 \<le> sl_max_tokens_per_agent l \<and> sl_max_tokens_per_agent l \<le> 10000000) ''max_tokens_per_agent'') (\<lambda>_.
     bindE (check (1 \<le> sl_max_total_tokens l \<and> sl_max_total_tokens l \<le> 1000000000) ''max_total_tokens'') (\<lambda>_.
     Inr l)))))"

record subagent_request =
  sq_id :: string
  sq_session_id :: string
  sq_correlation_id :: string
  sq_parent_id :: "string option"
  sq_depth :: int
  sq_task :: string
  sq_token_budget :: int

definition SubagentRequest :: "subagent_request \<Rightarrow> subagent_request res" where
  "SubagentRequest q =
     bindE (check (1 \<le> sq_depth q) ''depth'') (\<lambda>_.
     bindE (check (text_between 1 100000 (sq_task q)) ''task'') (\<lambda>_.
     bindE (check (1 \<le> sq_token_budget q) ''token_budget'') (\<lambda>_. Inr q)))"

record subagent_completion =
  sc_output :: string
  sc_usage :: token_usage

record subagent_result =
  sr_request :: subagent_request
  sr_status :: subagent_status
  sr_output :: string
  sr_usage :: token_usage
  sr_error_code :: "string option"

text \<open>
  A task has not run yet, waits for the semaphore (or was woken and has not run since), is inside of
  it, has returned a result, or has ended with an exception. \<open>st_pending_cancel\<close> is asyncio's mark that
  \<open>cancel\<close> was called on the task.
\<close>

datatype task_state = TaskCreated | TaskQueued | TaskInside | TaskReturned | TaskRaised

record sub_state =
  st_request :: subagent_request
  st_cancelled :: bool
  st_task :: task_state
  st_pending_cancel :: bool
  st_reservation :: int
  st_running :: bool
  st_result :: "subagent_result option"

record manager =
  mg_limits :: subagent_limits
  mg_audit :: bool
  mg_states :: "(string \<times> sub_state) list"
  mg_total_started :: int
  mg_consumed_tokens :: int
  mg_active_reservations :: int
  mg_permits :: nat
  mg_waiting :: "string list"
  mg_woken :: "string list"
  mg_events :: "(string \<times> string \<times> json dict) list"

definition SubagentManager :: "subagent_limits \<Rightarrow> bool \<Rightarrow> manager" where
  "SubagentManager limits audit =
     \<lparr>mg_limits = limits, mg_audit = audit, mg_states = [], mg_total_started = 0, mg_consumed_tokens = 0,
       mg_active_reservations = 0, mg_permits = nat (sl_max_concurrent limits), mg_waiting = [], mg_woken = [], mg_events = []\<rparr>"

datatype subagent_error = SubagentLimitError string | SubagentInvalid py_exc | UnknownSubagent | AuditFailed | TaskFailed

definition limit_check :: "bool \<Rightarrow> string \<Rightarrow> subagent_error + unit" where
  "limit_check ok message = (if ok then Inr () else Inl (SubagentLimitError message))"

lemma limit_check_Inr [res_simps]: "limit_check ok m = Inr u \<longleftrightarrow> ok"
  by (simp add: limit_check_def)

definition state_of :: "manager \<Rightarrow> string \<Rightarrow> sub_state option" where
  "state_of m i = map_of (mg_states m) i"

definition set_state :: "string \<Rightarrow> sub_state \<Rightarrow> manager \<Rightarrow> manager" where
  "set_state i st m = m\<lparr>mg_states := AList.update i st (mg_states m)\<rparr>"

text \<open>\<open>_emit\<close>; \<open>accepted\<close> says whether the sink takes the event or raises (\<open>None\<close>).\<close>

definition emit_event :: "bool \<Rightarrow> string \<Rightarrow> string \<Rightarrow> json dict \<Rightarrow> manager \<Rightarrow> manager option" where
  "emit_event accepted i event_type details m =
     (if \<not> mg_audit m then Some m
      else if accepted then Some (m\<lparr>mg_events := mg_events m @ [(event_type, i, details)]\<rparr>) else None)"

section \<open>Spawning\<close>

definition parent_depth :: "manager \<Rightarrow> string \<Rightarrow> string option \<Rightarrow> subagent_error + int" where
  "parent_depth m session_id parent_id = (case parent_id of
     None \<Rightarrow> Inr 1
   | Some p \<Rightarrow>
       (case state_of m p of
          None \<Rightarrow> Inl (SubagentLimitError ''subagent parent is not actively running'')
        | Some parent \<Rightarrow>
            bindE (limit_check (\<not> (\<not> st_running parent \<or> st_result parent \<noteq> None)) ''subagent parent is not actively running'') (\<lambda>_.
            bindE (limit_check (sq_session_id (st_request parent) = session_id) ''subagent parent belongs to another session'') (\<lambda>_.
            Inr (sq_depth (st_request parent) + 1)))))"

definition spawn ::
  "bool \<Rightarrow> string \<Rightarrow> string \<Rightarrow> string \<Rightarrow> string option \<Rightarrow> string \<Rightarrow> int \<Rightarrow> manager \<Rightarrow> subagent_error + subagent_request \<times> manager" where
  "spawn accepted fresh session_id correlation_id parent_id task token_budget m =
     bindE (limit_check (\<not> mg_total_started m \<ge> sl_max_total (mg_limits m)) ''subagent lifetime count limit exceeded'') (\<lambda>_.
     bindE (limit_check (1 \<le> token_budget \<and> token_budget \<le> sl_max_tokens_per_agent (mg_limits m))
       ''subagent token budget exceeds the per-agent limit'') (\<lambda>_.
     bindE (parent_depth m session_id parent_id) (\<lambda>depth.
     bindE (limit_check (\<not> depth > sl_max_depth (mg_limits m)) ''subagent depth limit exceeded'') (\<lambda>_.
     bindE (limit_check (\<not> mg_consumed_tokens m + mg_active_reservations m + token_budget > sl_max_total_tokens (mg_limits m))
       ''subagent aggregate token budget exceeded'') (\<lambda>_.
     bindE (case SubagentRequest \<lparr>sq_id = fresh, sq_session_id = session_id, sq_correlation_id = correlation_id,
           sq_parent_id = parent_id, sq_depth = depth, sq_task = task, sq_token_budget = token_budget\<rparr> of
         Inl e \<Rightarrow> Inl (SubagentInvalid e) | Inr q \<Rightarrow> Inr q) (\<lambda>q.
     case emit_event accepted fresh ''subagent.spawned'' [(''depth'', JInt depth), (''token_budget'', JInt token_budget)] m of
       None \<Rightarrow> Inl AuditFailed
     | Some m1 \<Rightarrow>
         Inr (q, (set_state fresh \<lparr>st_request = q, st_cancelled = False, st_task = TaskCreated, st_pending_cancel = False,
             st_reservation = token_budget, st_running = False, st_result = None\<rparr> m1)
           \<lparr>mg_total_started := mg_total_started m + 1,
            mg_active_reservations := mg_active_reservations m + token_budget\<rparr>)))))))"

section \<open>The semaphore\<close>

text \<open>
  \<open>asyncio.Semaphore\<close>: a permit that is given back goes to the first task that waits, and a task that goes
  on after it has waited hands out what is free.
\<close>

definition sem_give :: "manager \<Rightarrow> manager" where
  "sem_give m = (case mg_waiting m of
     [] \<Rightarrow> m\<lparr>mg_permits := mg_permits m + 1\<rparr>
   | w # ws \<Rightarrow> m\<lparr>mg_waiting := ws, mg_woken := mg_woken m @ [w]\<rparr>)"

definition sem_wake :: "manager \<Rightarrow> manager" where
  "sem_wake m = (let n = min (mg_permits m) (length (mg_waiting m))
     in m\<lparr>mg_permits := mg_permits m - n, mg_waiting := drop n (mg_waiting m), mg_woken := mg_woken m @ take n (mg_waiting m)\<rparr>)"

section \<open>The task\<close>

definition no_tokens :: token_usage where
  "no_tokens = \<lparr>input_tokens = 0, output_tokens = 0\<rparr>"

definition error_result :: "subagent_request \<Rightarrow> subagent_status \<Rightarrow> string \<Rightarrow> subagent_result" where
  "error_result q status code =
     \<lparr>sr_request = q, sr_status = status, sr_output = [], sr_usage = no_tokens, sr_error_code = Some code\<rparr>"

definition charged_tokens :: "int \<Rightarrow> subagent_result \<Rightarrow> int" where
  "charged_tokens reservation r = (if sr_status r = SubCompleted then total_tokens (sr_usage r) else reservation)"

text \<open>\<open>_finalize\<close>; when the sink refuses the last event, the task ends with that exception.\<close>

definition finalize_task :: "bool \<Rightarrow> string \<Rightarrow> sub_state \<Rightarrow> subagent_result \<Rightarrow> manager \<Rightarrow> manager" where
  "finalize_task accepted i st r m =
     (let charged = charged_tokens (st_reservation st) r;
          st1 = st\<lparr>st_running := False, st_result := Some r\<rparr>;
          m1 = m\<lparr>mg_active_reservations := mg_active_reservations m - st_reservation st,
                 mg_consumed_tokens := mg_consumed_tokens m + charged\<rparr>
      in case emit_event accepted i (''subagent.'' @ subagent_status_value (sr_status r))
           [(''charged_tokens'', JInt charged), (''reported_tokens'', JInt (total_tokens (sr_usage r)))] m1 of
         None \<Rightarrow> set_state i (st1\<lparr>st_task := TaskRaised\<rparr>) m1
       | Some m2 \<Rightarrow> set_state i (st1\<lparr>st_task := TaskReturned\<rparr>) m2)"

datatype worker_outcome = WorkerReturned subagent_completion | WorkerTimedOut | WorkerCancelled | WorkerRaised

definition task_result :: "subagent_request \<Rightarrow> worker_outcome \<Rightarrow> subagent_result" where
  "task_result q x = (case x of
     WorkerReturned c \<Rightarrow>
       if total_tokens (sc_usage c) > sq_token_budget q then error_result q SubFailed ''token_budget_exceeded''
       else \<lparr>sr_request = q, sr_status = SubCompleted, sr_output = sc_output c, sr_usage = sc_usage c, sr_error_code = None\<rparr>
   | WorkerTimedOut \<Rightarrow> error_result q SubTimedOut ''timeout''
   | WorkerCancelled \<Rightarrow> error_result q SubCancelled ''cancelled''
   | WorkerRaised \<Rightarrow> error_result q SubFailed ''worker_failed'')"

text \<open>The handlers of \<open>_execute\<close>: a timeout and a cancellation set the token, and all end in \<open>_finalize\<close>.\<close>

definition conclude :: "bool \<Rightarrow> string \<Rightarrow> sub_state \<Rightarrow> worker_outcome \<Rightarrow> manager \<Rightarrow> manager" where
  "conclude accepted i st x m =
     finalize_task accepted i (st\<lparr>st_cancelled := (st_cancelled st \<or> x = WorkerTimedOut \<or> x = WorkerCancelled)\<rparr>)
       (task_result (st_request st) x) m"

text \<open>The task has its permit: it marks itself as running and calls the worker, unless it is cancelled or its start cannot be recorded.\<close>

definition enter_task :: "bool \<Rightarrow> bool \<Rightarrow> string \<Rightarrow> sub_state \<Rightarrow> manager \<Rightarrow> manager" where
  "enter_task accepted accepted' i st m =
     (if st_cancelled st then conclude accepted' i st WorkerCancelled (sem_give m)
      else (case emit_event accepted i ''subagent.started'' [] m of
          None \<Rightarrow> conclude accepted' i st WorkerRaised (sem_give m)
        | Some m1 \<Rightarrow> set_state i (st\<lparr>st_running := True, st_task := TaskInside\<rparr>) m1))"

text \<open>
  The first step. A cancellation that came before it is thrown into a coroutine that has not
  started, so none of its handlers runs.
\<close>

definition begin_task :: "bool \<Rightarrow> bool \<Rightarrow> string \<Rightarrow> manager \<Rightarrow> manager option" where
  "begin_task accepted accepted' i m = (case state_of m i of
     None \<Rightarrow> None
   | Some st \<Rightarrow>
       if st_task st \<noteq> TaskCreated then None
       else if st_pending_cancel st then Some (set_state i (st\<lparr>st_task := TaskRaised\<rparr>) m)
       else if 0 < mg_permits m \<and> mg_waiting m = [] \<and> mg_woken m = []
       then Some (enter_task accepted accepted' i st (m\<lparr>mg_permits := mg_permits m - 1\<rparr>))
       else Some (set_state i (st\<lparr>st_task := TaskQueued\<rparr>) (m\<lparr>mg_waiting := mg_waiting m @ [i]\<rparr>)))"

text \<open>A queued task runs again when it was handed a permit or was cancelled; one that was cancelled gives the permit back.\<close>

definition resume_task :: "bool \<Rightarrow> bool \<Rightarrow> string \<Rightarrow> manager \<Rightarrow> manager option" where
  "resume_task accepted accepted' i m = (case state_of m i of
     None \<Rightarrow> None
   | Some st \<Rightarrow>
       if st_task st \<noteq> TaskQueued then None
       else if i \<in> set (mg_woken m) then
         (let m1 = m\<lparr>mg_woken := removeAll i (mg_woken m)\<rparr>
          in Some (if st_pending_cancel st
                   then conclude accepted' i st WorkerCancelled (sem_wake (m1\<lparr>mg_permits := mg_permits m1 + 1\<rparr>))
                   else enter_task accepted accepted' i st (sem_wake m1)))
       else if st_pending_cancel st then Some (conclude accepted' i st WorkerCancelled (sem_wake m))
       else None)"

text \<open>The worker has ended in one way or another; a worker may ignore that it is cancelled.\<close>

definition end_task :: "bool \<Rightarrow> string \<Rightarrow> worker_outcome \<Rightarrow> manager \<Rightarrow> manager option" where
  "end_task accepted i x m = (case state_of m i of
     None \<Rightarrow> None
   | Some st \<Rightarrow> if st_task st \<noteq> TaskInside then None else Some (conclude accepted i st x (sem_give m)))"

section \<open>Cancellation, results and usage\<close>

text \<open>\<open>_descendants_including\<close>: sweeps over the table until one adds nothing.\<close>

definition sweep :: "(string \<times> sub_state) list \<Rightarrow> string set \<Rightarrow> string set" where
  "sweep states targets = fold (\<lambda>(i, st) ts. case sq_parent_id (st_request st) of
       Some p \<Rightarrow> if p \<in> ts \<and> i \<notin> ts then insert i ts else ts | None \<Rightarrow> ts) states targets"

lemma sweep_Cons: "sweep (x # xs) ts = sweep xs (case sq_parent_id (st_request (snd x)) of
    Some p \<Rightarrow> if p \<in> ts \<and> fst x \<notin> ts then insert (fst x) ts else ts | None \<Rightarrow> ts)"
  by (cases x) (simp add: sweep_def split: option.split)

lemma sweep_grows: "ts \<subseteq> sweep states ts"
proof (induction states arbitrary: ts)
  case (Cons x xs)
  show ?case unfolding sweep_Cons by (rule order_trans[OF _ Cons]) (auto split: option.splits)
qed (simp add: sweep_def)

lemma sweep_keys: "sweep states ts \<subseteq> ts \<union> fst ` set states"
proof (induction states arbitrary: ts)
  case (Cons x xs)
  show ?case unfolding sweep_Cons by (rule order_trans[OF Cons]) (auto split: option.splits)
qed (simp add: sweep_def)

function descendants_from :: "(string \<times> sub_state) list \<Rightarrow> string set \<Rightarrow> string set" where
  "descendants_from states targets =
     (if sweep states targets = targets then targets else descendants_from states (sweep states targets))"
  by auto
termination
proof (relation "measure (\<lambda>(states, targets). card (fst ` set states - targets))")
  fix states targets
  assume "sweep states targets \<noteq> targets"
  then have "fst ` set states - sweep states targets \<subset> fst ` set states - targets"
    using sweep_grows[of targets states] sweep_keys[of states targets] by blast
  then show "((states, sweep states targets), states, targets) \<in> measure (\<lambda>(states, targets). card (fst ` set states - targets))"
    by (simp add: psubset_card_mono)
qed simp

declare descendants_from.simps [simp del]

definition cancel_state :: "sub_state \<Rightarrow> sub_state" where
  "cancel_state st = st\<lparr>st_cancelled := True,
     st_pending_cancel := (st_pending_cancel st \<or> st_task st \<in> {TaskCreated, TaskQueued, TaskInside})\<rparr>"

definition cancel_subagent :: "string \<Rightarrow> manager \<Rightarrow> subagent_error + manager" where
  "cancel_subagent i m = (case state_of m i of
     None \<Rightarrow> Inl UnknownSubagent
   | Some _ \<Rightarrow>
       (let targets = descendants_from (mg_states m) {i}
        in Inr (m\<lparr>mg_states := map (\<lambda>(j, st). (j, if j \<in> targets \<and> st_result st = None then cancel_state st else st)) (mg_states m),
             mg_waiting := filter (\<lambda>j. j \<notin> targets) (mg_waiting m)\<rparr>)))"

text \<open>\<open>wait\<close>: \<open>None\<close> while the task has not ended.\<close>

definition wait_subagent :: "string \<Rightarrow> manager \<Rightarrow> subagent_error + subagent_result option" where
  "wait_subagent i m = (case state_of m i of
     None \<Rightarrow> Inl UnknownSubagent
   | Some st \<Rightarrow> (case st_task st of TaskReturned \<Rightarrow> Inr (st_result st) | TaskRaised \<Rightarrow> Inl TaskFailed | _ \<Rightarrow> Inr None))"

definition manager_usage :: "manager \<Rightarrow> int \<times> int \<times> int" where
  "manager_usage m = (mg_total_started m, mg_consumed_tokens m, mg_active_reservations m)"

inductive manager_step :: "manager \<Rightarrow> manager \<Rightarrow> bool" where
  step_spawn: "spawn accepted fresh session_id correlation_id parent_id task token_budget m = Inr (q, m')
     \<Longrightarrow> state_of m fresh = None \<Longrightarrow> manager_step m m'"
| step_begin: "begin_task accepted accepted' i m = Some m' \<Longrightarrow> manager_step m m'"
| step_resume: "resume_task accepted accepted' i m = Some m' \<Longrightarrow> manager_step m m'"
| step_end: "end_task accepted i x m = Some m'
     \<Longrightarrow> (\<forall>c. x = WorkerReturned c \<longrightarrow> TokenUsage (input_tokens (sc_usage c)) (AgentSchemas.output_tokens (sc_usage c)) = Inr (sc_usage c))
     \<Longrightarrow> manager_step m m'"
| step_cancel: "cancel_subagent i m = Inr m' \<Longrightarrow> manager_step m m'"

section \<open>Sums over the subagents\<close>

definition state_sum :: "(sub_state \<Rightarrow> int) \<Rightarrow> manager \<Rightarrow> int" where
  "state_sum f m = sum_list (map (\<lambda>kv. f (snd kv)) (mg_states m))"

lemma sum_update:
  "map_of xs i = Some a \<Longrightarrow> sum_list (map (\<lambda>kv. f (snd kv)) (AList.update i b xs)) = sum_list (map (\<lambda>kv. f (snd kv)) xs) - f a + (f b :: int)"
  by (induction xs) auto

lemma sum_insert:
  "map_of xs i = None \<Longrightarrow> sum_list (map (\<lambda>kv. f (snd kv)) (AList.update i b xs)) = sum_list (map (\<lambda>kv. f (snd kv)) xs) + (f b :: int)"
  by (induction xs) auto

lemma length_update_known: "map_of xs i = Some a \<Longrightarrow> length (AList.update i b xs) = length xs"
  by (induction xs) auto

lemma state_sum_set [simp]: "state_of m i = Some st \<Longrightarrow> state_sum f (set_state i st' m) = state_sum f m - f st + f st'"
  by (simp add: state_sum_def set_state_def state_of_def sum_update)

lemma state_sum_new [simp]: "state_of m i = None \<Longrightarrow> state_sum f (set_state i st' m) = state_sum f m + f st'"
  by (simp add: state_sum_def set_state_def state_of_def sum_insert)

lemma state_of_set [simp]: "state_of (set_state i st m) j = (if j = i then Some st else state_of m j)"
  by (simp add: state_of_def set_state_def update_conv)

lemma set_state_simps [simp]:
  "mg_limits (set_state i st m) = mg_limits m" "mg_audit (set_state i st m) = mg_audit m"
  "mg_total_started (set_state i st m) = mg_total_started m" "mg_consumed_tokens (set_state i st m) = mg_consumed_tokens m"
  "mg_active_reservations (set_state i st m) = mg_active_reservations m" "mg_permits (set_state i st m) = mg_permits m"
  "mg_waiting (set_state i st m) = mg_waiting m" "mg_woken (set_state i st m) = mg_woken m"
  by (simp_all add: set_state_def)

text \<open>Nothing but the log is changed by an event, and nothing of the table by the semaphore.\<close>

definition same_table :: "manager \<Rightarrow> manager \<Rightarrow> bool" where
  "same_table m m' = (mg_limits m' = mg_limits m \<and> mg_states m' = mg_states m \<and> mg_total_started m' = mg_total_started m \<and>
     mg_consumed_tokens m' = mg_consumed_tokens m \<and> mg_active_reservations m' = mg_active_reservations m)"

lemma same_table_refl [simp]: "same_table m m"
  by (simp add: same_table_def)

lemma same_table_of: "same_table m m' \<Longrightarrow> state_of m' i = state_of m i"
  by (simp add: same_table_def state_of_def)

lemma emit_event_Some:
  "emit_event ok i ty d m = Some m' \<Longrightarrow> same_table m m' \<and> mg_permits m' = mg_permits m \<and> mg_waiting m' = mg_waiting m \<and> mg_woken m' = mg_woken m"
  by (auto simp: emit_event_def same_table_def split: if_splits)

lemma sem_give_table [simp]: "same_table m (sem_give m)"
  by (simp add: sem_give_def same_table_def split: list.split)

lemma sem_wake_table [simp]: "same_table m (sem_wake m)"
  by (simp add: sem_wake_def same_table_def Let_def)

section \<open>Accounting\<close>

definition reserved :: "sub_state \<Rightarrow> int" where
  "reserved st = (if st_result st = None then st_reservation st else 0)"

definition charged :: "sub_state \<Rightarrow> int" where
  "charged st = (case st_result st of None \<Rightarrow> 0 | Some r \<Rightarrow> charged_tokens (st_reservation st) r)"

definition inside :: "sub_state \<Rightarrow> int" where
  "inside st = (if st_task st = TaskInside then 1 else 0)"

definition tokens_ok :: "manager \<Rightarrow> bool" where
  "tokens_ok m = (mg_active_reservations m = state_sum reserved m \<and> mg_consumed_tokens m = state_sum charged m \<and>
     mg_consumed_tokens m + mg_active_reservations m \<le> sl_max_total_tokens (mg_limits m) \<and>
     mg_total_started m = int (length (mg_states m)) \<and> mg_total_started m \<le> sl_max_total (mg_limits m))"

text \<open>What a single subagent satisfies.\<close>

definition local_ok :: "subagent_limits \<Rightarrow> sub_state \<Rightarrow> bool" where
  "local_ok l st = (st_reservation st = sq_token_budget (st_request st) \<and> 1 \<le> st_reservation st \<and>
     st_reservation st \<le> sl_max_tokens_per_agent l \<and>
     (case st_task st of TaskCreated \<Rightarrow> st_result st = None \<and> \<not> st_running st | TaskQueued \<Rightarrow> st_result st = None \<and> \<not> st_running st
        | TaskInside \<Rightarrow> st_result st = None \<and> st_running st | TaskReturned \<Rightarrow> st_result st \<noteq> None \<and> \<not> st_running st
        | TaskRaised \<Rightarrow> \<not> st_running st) \<and>
     (st_pending_cancel st \<and> st_task st \<in> {TaskCreated, TaskQueued} \<longrightarrow> st_cancelled st) \<and>
     (\<forall>r. st_result st = Some r \<longrightarrow> sr_request r = st_request st \<and> 0 \<le> charged_tokens (st_reservation st) r \<and>
        charged_tokens (st_reservation st) r \<le> st_reservation st))"

definition states_ok :: "manager \<Rightarrow> bool" where
  "states_ok m = (distinct (map fst (mg_states m)) \<and> list_all (\<lambda>kv. local_ok (mg_limits m) (snd kv)) (mg_states m))"

lemma states_ok_of: "states_ok m \<Longrightarrow> state_of m i = Some st \<Longrightarrow> local_ok (mg_limits m) st"
  unfolding states_ok_def state_of_def by (auto simp: list_all_iff dest!: map_of_SomeD)

lemma states_ok_set: "states_ok m \<Longrightarrow> local_ok (mg_limits m) st \<Longrightarrow> states_ok (set_state i st m)"
  using list_all_dict_set[of "\<lambda>kv. local_ok (mg_limits m) (snd kv)" "mg_states m" i st]
  by (simp add: states_ok_def set_state_def dict_set_def distinct_update)

text \<open>The semaphore: \<open>k\<close> is the number of permits that the running stretch of code holds.\<close>

definition permits_ok :: "int \<Rightarrow> manager \<Rightarrow> bool" where
  "permits_ok k m = (int (mg_permits m) + int (length (mg_woken m)) + state_sum inside m + k = sl_max_concurrent (mg_limits m))"

text \<open>Nobody waits while a permit is free, unless a woken task is about to hand it out.\<close>

definition idle_ok :: "manager \<Rightarrow> bool" where
  "idle_ok m = (mg_waiting m \<noteq> [] \<longrightarrow> mg_permits m = 0 \<or> mg_woken m \<noteq> [])"

definition queue_ok :: "manager \<Rightarrow> bool" where
  "queue_ok m = (distinct (mg_waiting m @ mg_woken m) \<and>
     (\<forall>i \<in> set (mg_waiting m). \<exists>st. state_of m i = Some st \<and> st_task st = TaskQueued \<and> \<not> st_pending_cancel st) \<and>
     (\<forall>i \<in> set (mg_woken m). \<exists>st. state_of m i = Some st \<and> st_task st = TaskQueued))"

text \<open>Whoever is queued can go on some day: it waits, was woken, or has a cancellation to handle.\<close>

definition queued_ok :: "manager \<Rightarrow> string set \<Rightarrow> bool" where
  "queued_ok m X = (\<forall>i st. state_of m i = Some st \<longrightarrow> st_task st = TaskQueued \<longrightarrow> i \<notin> X \<longrightarrow>
     i \<in> set (mg_waiting m) \<union> set (mg_woken m) \<or> st_pending_cancel st)"

text \<open>The tree of subagents; it only depends on their requests.\<close>

definition tree_ok :: "manager \<Rightarrow> bool" where
  "tree_ok m = (\<forall>i st. state_of m i = Some st \<longrightarrow> sq_id (st_request st) = i \<and> 1 \<le> sq_depth (st_request st) \<and>
     sq_depth (st_request st) \<le> sl_max_depth (mg_limits m) \<and>
     (case sq_parent_id (st_request st) of None \<Rightarrow> sq_depth (st_request st) = 1
      | Some p \<Rightarrow> \<exists>ps. state_of m p = Some ps \<and> sq_session_id (st_request ps) = sq_session_id (st_request st) \<and>
          sq_depth (st_request st) = sq_depth (st_request ps) + 1))"

definition manager_ok :: "manager \<Rightarrow> bool" where
  "manager_ok m = (tokens_ok m \<and> states_ok m \<and> permits_ok 0 m \<and> idle_ok m \<and> queue_ok m \<and> queued_ok m {} \<and> tree_ok m)"

lemma tree_ok_requests:
  assumes "\<And>i. map_option st_request (state_of m' i) = map_option st_request (state_of m i)" "mg_limits m' = mg_limits m" "tree_ok m"
  shows "tree_ok m'"
  unfolding tree_ok_def
proof (intro allI impI)
  fix i st'
  have same: "\<exists>st. state_of n i = Some st \<and> st_request st = st_request st'"
    if "\<And>i. map_option st_request (state_of n' i) = map_option st_request (state_of n i)" "state_of n' i = Some st'" for n n' i st'
    using that(1)[of i] that(2) by (metis map_option_eq_Some option.simps(9))
  assume "state_of m' i = Some st'"
  then obtain st where st: "state_of m i = Some st" "st_request st = st_request st'" using same[OF assms(1)] by blast
  have parent: "\<exists>ps'. state_of m' p = Some ps' \<and> st_request ps' = st_request ps" if "state_of m p = Some ps" for p ps
    using same[of m m' p ps] assms(1) that by metis
  have tree: "sq_id (st_request st) = i \<and> 1 \<le> sq_depth (st_request st) \<and> sq_depth (st_request st) \<le> sl_max_depth (mg_limits m) \<and>
     (case sq_parent_id (st_request st) of None \<Rightarrow> sq_depth (st_request st) = 1
      | Some p \<Rightarrow> \<exists>ps. state_of m p = Some ps \<and> sq_session_id (st_request ps) = sq_session_id (st_request st) \<and>
          sq_depth (st_request st) = sq_depth (st_request ps) + 1)"
    using assms(3) st(1) unfolding tree_ok_def by blast
  show "sq_id (st_request st') = i \<and> 1 \<le> sq_depth (st_request st') \<and> sq_depth (st_request st') \<le> sl_max_depth (mg_limits m') \<and>
     (case sq_parent_id (st_request st') of None \<Rightarrow> sq_depth (st_request st') = 1
      | Some p \<Rightarrow> \<exists>ps. state_of m' p = Some ps \<and> sq_session_id (st_request ps) = sq_session_id (st_request st') \<and>
          sq_depth (st_request st') = sq_depth (st_request ps) + 1)"
    using tree parent unfolding st(2) assms(2) by (fastforce split: option.splits)
qed

lemma same_table_ok:
  assumes "same_table m m'"
  shows "tokens_ok m' = tokens_ok m" "states_ok m' = states_ok m" "state_sum f m' = state_sum f m" "tree_ok m' = tree_ok m"
proof -
  have of: "state_of m' = state_of m" using same_table_of[OF assms] by (rule ext)
  show "tree_ok m' = tree_ok m" using assms unfolding tree_ok_def of by (simp add: same_table_def)
qed (use assms in \<open>simp_all add: same_table_def tokens_ok_def states_ok_def state_sum_def\<close>)

section \<open>Every step keeps the accounts\<close>

lemma permits_ok_give: "permits_ok k m \<Longrightarrow> permits_ok (k - 1) (sem_give m)"
  by (auto simp: permits_ok_def sem_give_def state_sum_def split: list.splits)

lemma permits_ok_wake: "permits_ok k m \<Longrightarrow> permits_ok k (sem_wake m)"
  by (auto simp: permits_ok_def sem_wake_def state_sum_def Let_def min_def split: if_splits)

lemma idle_ok_sem [simp]: "idle_ok (sem_give m)" "idle_ok (sem_wake m)"
  by (auto simp: idle_ok_def sem_give_def sem_wake_def Let_def min_def split: list.split)

lemma queue_ok_give: "queue_ok m \<Longrightarrow> queue_ok (sem_give m)"
  by (auto simp: queue_ok_def sem_give_def state_of_def split: list.splits)

lemma queue_ok_wake: "queue_ok m \<Longrightarrow> queue_ok (sem_wake m)"
proof -
  assume q: "queue_ok m"
  let ?n = "min (mg_permits m) (length (mg_waiting m))"
  have d: "distinct (mg_waiting m)" "distinct (mg_woken m)" "set (mg_waiting m) \<inter> set (mg_woken m) = {}"
    using q by (auto simp: queue_ok_def)
  have "set (take ?n (mg_waiting m)) \<inter> set (drop ?n (mg_waiting m)) = {}"
    by (rule set_take_disj_set_drop_if_distinct[OF d(1)]) simp
  then have "distinct (drop ?n (mg_waiting m) @ mg_woken m @ take ?n (mg_waiting m))"
    using d by (auto dest: in_set_takeD in_set_dropD)
  then show ?thesis using q by (auto simp: queue_ok_def sem_wake_def state_of_def Let_def dest: in_set_takeD in_set_dropD)
qed

lemma queued_ok_cong:
  assumes "state_of m' = state_of m" "set (mg_waiting m) \<union> set (mg_woken m) \<subseteq> set (mg_waiting m') \<union> set (mg_woken m')" "queued_ok m X"
  shows "queued_ok m' X"
  using assms(2,3) unfolding queued_ok_def assms(1) by blast

lemma queued_ok_give: "queued_ok m X \<Longrightarrow> queued_ok (sem_give m) X"
  by (rule queued_ok_cong) (auto simp: sem_give_def state_of_def fun_eq_iff split: list.split)

lemma queued_ok_wake: "queued_ok m X \<Longrightarrow> queued_ok (sem_wake m) X"
proof (rule queued_ok_cong)
  show "set (mg_waiting m) \<union> set (mg_woken m) \<subseteq> set (mg_waiting (sem_wake m)) \<union> set (mg_woken (sem_wake m))"
    by (simp add: sem_wake_def Let_def) (metis Un_iff append_take_drop_id set_append subsetI)
qed (simp_all add: sem_wake_def state_of_def fun_eq_iff Let_def)

text \<open>What \<open>conclude\<close> does to the manager, but for the log.\<close>

lemma conclude_states:
  "\<exists>ts. ts \<in> {TaskReturned, TaskRaised} \<and> mg_states (conclude accepted i st x m) = AList.update i
     (st\<lparr>st_cancelled := (st_cancelled st \<or> x = WorkerTimedOut \<or> x = WorkerCancelled), st_running := False,
         st_result := Some (task_result (st_request st) x), st_task := ts\<rparr>) (mg_states m)"
  by (rule exI[of _ "if mg_audit m \<and> \<not> accepted then TaskRaised else TaskReturned"])
    (auto simp: conclude_def finalize_task_def Let_def emit_event_def set_state_def)

lemma conclude_sel [simp]:
  "mg_limits (conclude accepted i st x m) = mg_limits m" "mg_total_started (conclude accepted i st x m) = mg_total_started m"
  "mg_permits (conclude accepted i st x m) = mg_permits m" "mg_waiting (conclude accepted i st x m) = mg_waiting m"
  "mg_woken (conclude accepted i st x m) = mg_woken m"
  "mg_active_reservations (conclude accepted i st x m) = mg_active_reservations m - st_reservation st"
  "mg_consumed_tokens (conclude accepted i st x m) = mg_consumed_tokens m + charged_tokens (st_reservation st) (task_result (st_request st) x)"
  by (auto simp: conclude_def finalize_task_def Let_def emit_event_def)

definition outcome_ok :: "worker_outcome \<Rightarrow> bool" where
  "outcome_ok x = (case x of WorkerReturned c \<Rightarrow> 0 \<le> total_tokens (sc_usage c) | _ \<Rightarrow> True)"

lemma task_result_charged:
  "outcome_ok x \<Longrightarrow> 1 \<le> sq_token_budget q \<Longrightarrow>
     0 \<le> charged_tokens (sq_token_budget q) (task_result q x) \<and> charged_tokens (sq_token_budget q) (task_result q x) \<le> sq_token_budget q
     \<and> sr_request (task_result q x) = q"
  by (auto simp: outcome_ok_def task_result_def charged_tokens_def error_result_def split: worker_outcome.splits)

definition active :: "sub_state \<Rightarrow> bool" where
  "active st = (st_task st \<in> {TaskCreated, TaskQueued, TaskInside})"

text \<open>Concluding an active subagent keeps everything; if it was inside, the permit it had is free.\<close>

lemma conclude_keeps:
  assumes "state_of m i = Some st" "active st" "outcome_ok x" "i \<notin> set (mg_waiting m)" "i \<notin> set (mg_woken m)"
    and "tokens_ok m" "states_ok m" "queue_ok m" "queued_ok m {i}" "tree_ok m" "permits_ok k m"
  shows "tokens_ok (conclude accepted i st x m) \<and> states_ok (conclude accepted i st x m) \<and> queue_ok (conclude accepted i st x m) \<and>
    queued_ok (conclude accepted i st x m) {} \<and> tree_ok (conclude accepted i st x m) \<and>
    permits_ok (k + inside st) (conclude accepted i st x m)"
proof -
  let ?r = "task_result (st_request st) x"
  let ?m = "conclude accepted i st x m"
  obtain ts where ts: "ts \<in> {TaskReturned, TaskRaised}" and c: "mg_states ?m = mg_states (set_state i
     (st\<lparr>st_cancelled := (st_cancelled st \<or> x = WorkerTimedOut \<or> x = WorkerCancelled), st_running := False,
         st_result := Some ?r, st_task := ts\<rparr>) m)" (is "_ = mg_states (set_state i ?st m)")
    using conclude_states[of accepted i st x m] by (auto simp: set_state_def)
  have of: "state_of ?m j = (if j = i then Some ?st else state_of m j)" for j
    using c by (simp add: state_of_def set_state_def update_conv)
  have l: "local_ok (mg_limits m) st" using states_ok_of[OF assms(7,1)] .
  have none: "st_result st = None" using l assms(2) by (auto simp: local_ok_def active_def)
  have res: "0 \<le> charged_tokens (st_reservation st) ?r" "charged_tokens (st_reservation st) ?r \<le> st_reservation st" "sr_request ?r = st_request st"
    using task_result_charged[OF assms(3), of "st_request st"] l by (auto simp: local_ok_def)
  have sum: "state_sum f ?m = state_sum f (set_state i ?st m)" for f by (simp add: state_sum_def c)
  have sums: "state_sum reserved ?m = state_sum reserved m - st_reservation st"
    "state_sum charged ?m = state_sum charged m + charged_tokens (st_reservation st) ?r"
    "state_sum inside ?m = state_sum inside m - inside st"
    using assms(1) none ts by (auto simp: sum reserved_def charged_def inside_def)
  have "length (mg_states ?m) = length (mg_states m)" using c assms(1) by (simp add: set_state_def state_of_def length_update_known)
  then have tokens: "tokens_ok ?m" using assms(6) sums res(1,2) by (simp add: tokens_ok_def)
  have "local_ok (mg_limits m) ?st" using l res ts by (auto simp: local_ok_def)
  then have states: "states_ok ?m" using states_ok_set[OF assms(7)] c by (simp add: states_ok_def)
  have queue: "queue_ok ?m" using assms(4,5,8) unfolding queue_ok_def of conclude_sel by fastforce
  have queued: "queued_ok ?m {}" using assms(9) ts unfolding queued_ok_def of by auto
  have "tree_ok ?m" by (rule tree_ok_requests[OF _ _ assms(10)]) (auto simp: of assms(1))
  then show ?thesis using tokens states queue queued assms(11) sums(3) by (auto simp: permits_ok_def inside_def)
qed

lemma sem_give_of [simp]: "state_of (sem_give m) = state_of m" "state_of (sem_wake m) = state_of m"
  using same_table_of[OF sem_give_table] same_table_of[OF sem_wake_table] by (auto simp: fun_eq_iff)

lemma sem_outside:
  "i \<notin> set (mg_waiting m) \<union> set (mg_woken m) \<Longrightarrow> i \<notin> set (mg_waiting (sem_give m)) \<union> set (mg_woken (sem_give m))"
  "i \<notin> set (mg_waiting m) \<union> set (mg_woken m) \<Longrightarrow> i \<notin> set (mg_waiting (sem_wake m)) \<union> set (mg_woken (sem_wake m))"
  by (auto simp: sem_give_def sem_wake_def Let_def split: list.splits dest: in_set_takeD in_set_dropD)

lemma tokens_ok_set:
  assumes "state_of m i = Some st" "st_result st' = st_result st" "st_reservation st' = st_reservation st"
  shows "tokens_ok (set_state i st' m) = tokens_ok m"
proof -
  have "length (mg_states (set_state i st' m)) = length (mg_states m)"
    using length_update_known[of "mg_states m" i st st'] assms(1) by (simp add: set_state_def state_of_def)
  moreover have "reserved st' = reserved st" "charged st' = charged st" using assms(2,3) by (simp_all add: reserved_def charged_def split: option.split)
  ultimately show ?thesis using assms(1) by (simp add: tokens_ok_def)
qed

text \<open>What holds in the middle of a step of subagent \<open>i\<close>, which is in none of the queues and holds \<open>k\<close> permits.\<close>

definition amid :: "int \<Rightarrow> string \<Rightarrow> manager \<Rightarrow> bool" where
  "amid k i m = (tokens_ok m \<and> states_ok m \<and> queue_ok m \<and> queued_ok m {i} \<and> tree_ok m \<and> permits_ok k m \<and>
     i \<notin> set (mg_waiting m) \<union> set (mg_woken m))"

lemma amid_give: "amid k i m \<Longrightarrow> amid (k - 1) i (sem_give m)"
  using sem_outside(1)[of i m] permits_ok_give[of k m] queue_ok_give[of m] queued_ok_give[of m "{i}"]
  unfolding amid_def same_table_ok[OF sem_give_table] by blast

lemma amid_wake: "amid k i m \<Longrightarrow> amid k i (sem_wake m)"
  using sem_outside(2)[of i m] permits_ok_wake[of k m] queue_ok_wake[of m] queued_ok_wake[of m "{i}"]
  unfolding amid_def same_table_ok[OF sem_wake_table] by blast

lemma amid_conclude:
  assumes "amid (- inside st) i m" "state_of m i = Some st" "active st" "outcome_ok x" "idle_ok m"
  shows "manager_ok (conclude accepted i st x m)"
  using conclude_keeps[OF assms(2-4), of "- inside st" accepted] assms(1,5) by (auto simp: amid_def manager_ok_def idle_ok_def)

lemma amid_set:
  assumes "amid 1 i m" "state_of m i = Some st" "active st" "st_task st \<noteq> TaskInside" "idle_ok m"
  shows "manager_ok (set_state i (st\<lparr>st_running := True, st_task := TaskInside\<rparr>) m)"
proof -
  let ?st = "st\<lparr>st_running := True, st_task := TaskInside\<rparr>"
  have l: "local_ok (mg_limits m) st" using assms(1,2) states_ok_of by (auto simp: amid_def)
  then have none: "st_result st = None" using assms(3) by (auto simp: local_ok_def active_def)
  then have "local_ok (mg_limits m) ?st" using l by (simp add: local_ok_def)
  moreover have "tokens_ok (set_state i ?st m)"
    using assms(1,2) none by (simp add: amid_def tokens_ok_set[OF assms(2)])
  moreover have "queue_ok (set_state i ?st m)" using assms(1) unfolding amid_def queue_ok_def by (simp; fastforce)
  moreover have "queued_ok (set_state i ?st m) {}" using assms(1) unfolding amid_def queued_ok_def by auto
  moreover have "permits_ok 0 (set_state i ?st m)" using assms(1,2,4) by (auto simp: amid_def permits_ok_def inside_def)
  moreover have "tree_ok (set_state i ?st m)" by (rule tree_ok_requests[of _ m]) (use assms(1,2) in \<open>auto simp: amid_def\<close>)
  ultimately show ?thesis using assms(1,5) states_ok_set by (auto simp: manager_ok_def amid_def idle_ok_def)
qed

lemma enter_task_ok:
  assumes "amid 1 i m" "state_of m i = Some st" "active st" "st_task st \<noteq> TaskInside" "idle_ok m"
  shows "manager_ok (enter_task accepted accepted' i st m)"
proof (cases "st_cancelled st \<or> emit_event accepted i ''subagent.started'' [] m = None")
  case True
  have "amid (- inside st) i (sem_give m)" using amid_give[OF assms(1)] assms(4) by (simp add: inside_def)
  then show ?thesis using amid_conclude[OF _ _ assms(3)] assms(2) True
    by (auto simp: enter_task_def outcome_ok_def)
next
  case False
  then obtain m1 where m1: "emit_event accepted i ''subagent.started'' [] m = Some m1" by auto
  note e = emit_event_Some[OF m1]
  then have of: "state_of m1 = state_of m" using same_table_of[of m m1] by (simp add: fun_eq_iff)
  have t: "same_table m m1" using e by blast
  have "amid 1 i m1" using assms(1) e unfolding amid_def queue_ok_def queued_ok_def permits_ok_def same_table_ok[OF t] of
    by (simp add: same_table_def)
  moreover have "idle_ok m1" using assms(5) e by (simp add: idle_ok_def)
  ultimately show ?thesis using amid_set[of i m1 st] of assms(2-4) False m1 by (simp add: enter_task_def)
qed

lemma requests_set: "state_of m i = Some st \<Longrightarrow> st_request st' = st_request st \<Longrightarrow>
    map_option st_request (state_of (set_state i st' m) j) = map_option st_request (state_of m j)"
  by simp

lemma begin_task_ok:
  assumes "begin_task accepted accepted' i m = Some m'" "manager_ok m"
  shows "manager_ok m'"
proof -
  obtain st where st: "state_of m i = Some st" "st_task st = TaskCreated"
    using assms(1) by (auto simp: begin_task_def split: option.splits if_splits)
  have ok: "tokens_ok m" "states_ok m" "permits_ok 0 m" "queue_ok m" "queued_ok m {}" "tree_ok m" "idle_ok m"
    using assms(2) by (auto simp: manager_ok_def)
  have l: "local_ok (mg_limits m) st" using states_ok_of[OF ok(2) st(1)] .
  have out: "i \<notin> set (mg_waiting m) \<union> set (mg_woken m)" using ok(4) st by (auto simp: queue_ok_def)
  consider "st_pending_cancel st" | "\<not> st_pending_cancel st" "0 < mg_permits m" "mg_waiting m = []" "mg_woken m = []"
    | "\<not> st_pending_cancel st" "\<not> (0 < mg_permits m \<and> mg_waiting m = [] \<and> mg_woken m = [])" by metis
  then show ?thesis
  proof cases
    case 1
    let ?st = "st\<lparr>st_task := TaskRaised\<rparr>"
    have m': "m' = set_state i ?st m" using assms(1) st 1 by (auto simp: begin_task_def)
    have "tokens_ok m'" using ok(1) by (simp add: m' tokens_ok_set[OF st(1)])
    moreover have "states_ok m'" unfolding m' by (rule states_ok_set[OF ok(2)]) (use l st(2) in \<open>auto simp: local_ok_def\<close>)
    moreover have "permits_ok 0 m'" using ok(3) st by (auto simp: m' permits_ok_def inside_def)
    moreover have "queue_ok m'" using ok(4) out unfolding m' queue_ok_def by (simp; fastforce)
    moreover have "queued_ok m' {}" using ok(5) unfolding m' queued_ok_def by auto
    moreover have "tree_ok m'" unfolding m' by (rule tree_ok_requests[OF requests_set[OF st(1)] _ ok(6)]) simp_all
    ultimately show ?thesis using ok(7) by (simp add: manager_ok_def idle_ok_def m')
  next
    case 2
    let ?m = "m\<lparr>mg_permits := mg_permits m - 1\<rparr>"
    have m': "m' = enter_task accepted accepted' i st ?m" using assms(1) st 2 by (auto simp: begin_task_def)
    have t: "same_table m ?m" by (simp add: same_table_def)
    have of: "state_of ?m = state_of m" using same_table_of[OF t] by (simp add: fun_eq_iff)
    have "amid 1 i ?m" using ok out 2 unfolding amid_def same_table_ok[OF t] queue_ok_def queued_ok_def permits_ok_def of
      by (auto simp: same_table_ok(3)[OF t])
    then show ?thesis unfolding m' by (rule enter_task_ok) (use st of 2 in \<open>simp_all add: active_def idle_ok_def\<close>)
  next
    case 3
    let ?st = "st\<lparr>st_task := TaskQueued\<rparr>" and ?m = "m\<lparr>mg_waiting := mg_waiting m @ [i]\<rparr>"
    have m': "m' = set_state i ?st ?m" using assms(1) st 3 by (auto simp: begin_task_def)
    have t: "same_table m ?m" by (simp add: same_table_def)
    have of: "state_of ?m = state_of m" using same_table_of[OF t] by (simp add: fun_eq_iff)
    have of': "state_of ?m i = Some st" using of st by simp
    have "tokens_ok m'" using ok(1) by (simp add: m' tokens_ok_set[OF of'] same_table_ok[OF t])
    moreover have "states_ok m'" unfolding m' by (rule states_ok_set) (use l st(2) ok(2) same_table_ok[OF t] in \<open>auto simp: local_ok_def\<close>)
    moreover have "permits_ok 0 m'" using ok(3) st 3 by (auto simp: m' permits_ok_def inside_def of same_table_ok(3)[OF t])
    moreover have "queue_ok m'" using ok(4) out 3(1) unfolding m' queue_ok_def by (simp add: of)
    moreover have "queued_ok m' {}" using ok(5) unfolding m' queued_ok_def by (auto simp: of)
    moreover have "tree_ok m'" unfolding m'
      by (rule tree_ok_requests[OF requests_set[OF of']]) (use ok(6) same_table_ok(4)[OF t] in simp_all)
    moreover have "idle_ok m'" using ok(7) 3 by (auto simp: idle_ok_def m')
    ultimately show ?thesis by (simp add: manager_ok_def)
  qed
qed

lemma amid_take_out:
  assumes "manager_ok m" "state_of m i = Some st" "i \<in> set (mg_woken m)"
  shows "amid 1 i (m\<lparr>mg_woken := removeAll i (mg_woken m)\<rparr>)"
proof -
  let ?m = "m\<lparr>mg_woken := removeAll i (mg_woken m)\<rparr>"
  have t: "same_table m ?m" by (simp add: same_table_def)
  have of: "state_of ?m = state_of m" using same_table_of[OF t] by (simp add: fun_eq_iff)
  have d: "distinct (mg_woken m)" "i \<notin> set (mg_waiting m)" using assms(1,3) by (auto simp: manager_ok_def queue_ok_def)
  have len: "length (mg_woken m) = Suc (length (removeAll i (mg_woken m)))"
    using length_remove1[of i "mg_woken m"] assms(3) d(1) length_pos_if_in_set[OF assms(3)] by (simp add: distinct_remove1_removeAll)
  show ?thesis using assms(1) d len unfolding manager_ok_def amid_def same_table_ok[OF t] queue_ok_def queued_ok_def permits_ok_def of
    by (auto simp: same_table_ok(3)[OF t] distinct_removeAll)
qed

lemma resume_task_ok:
  assumes "resume_task accepted accepted' i m = Some m'" "manager_ok m"
  shows "manager_ok m'"
proof -
  obtain st where st: "state_of m i = Some st" "st_task st = TaskQueued"
    using assms(1) by (auto simp: resume_task_def split: option.splits if_splits)
  have a: "active st" using st(2) by (simp add: active_def)
  show ?thesis
  proof (cases "i \<in> set (mg_woken m)")
    case True
    let ?m = "m\<lparr>mg_woken := removeAll i (mg_woken m)\<rparr>"
    have amid: "amid 1 i ?m" by (rule amid_take_out[OF assms(2) st(1) True])
    have of: "state_of ?m i = Some st" using st(1) by (simp add: state_of_def)
    show ?thesis
    proof (cases "st_pending_cancel st")
      case True
      let ?n = "?m\<lparr>mg_permits := mg_permits ?m + 1\<rparr>"
      have t: "same_table ?m ?n" by (simp add: same_table_def)
      have of': "state_of ?n = state_of ?m" using same_table_of[OF t] by (simp add: fun_eq_iff)
      have "amid 0 i ?n" using amid unfolding amid_def same_table_ok[OF t] queue_ok_def queued_ok_def permits_ok_def of'
        by (simp add: same_table_ok(3)[OF t])
      then have "amid 0 i (sem_wake ?n)" by (rule amid_wake)
      moreover have "m' = conclude accepted' i st WorkerCancelled (sem_wake ?n)"
        using assms(1) st \<open>i \<in> set (mg_woken m)\<close> True by (auto simp: resume_task_def Let_def)
      ultimately show ?thesis using amid_conclude[of st i "sem_wake ?n" WorkerCancelled accepted'] of of' st(2) a
        by (simp add: inside_def outcome_ok_def)
    next
      case False
      then have "m' = enter_task accepted accepted' i st (sem_wake ?m)" using assms(1) st \<open>i \<in> set (mg_woken m)\<close> by (auto simp: resume_task_def Let_def)
      then show ?thesis using enter_task_ok[OF amid_wake[OF amid] _ a] of st(2) by simp
    qed
  next
    case False
    then have p: "st_pending_cancel st" "m' = conclude accepted' i st WorkerCancelled (sem_wake m)"
      using assms(1) st by (auto simp: resume_task_def split: if_splits)
    have "i \<notin> set (mg_waiting m)" using assms(2) st p(1) by (auto simp: manager_ok_def queue_ok_def)
    then have "amid 0 i m" using assms(2) False by (auto simp: manager_ok_def amid_def queued_ok_def)
    then show ?thesis using amid_conclude[of st i "sem_wake m"] amid_wake[of 0 i m] st a p(2) by (simp add: inside_def outcome_ok_def)
  qed
qed

lemma end_task_ok:
  assumes "end_task accepted i x m = Some m'" "manager_ok m" "outcome_ok x"
  shows "manager_ok m'"
proof -
  obtain st where st: "state_of m i = Some st" "st_task st = TaskInside" and m': "m' = conclude accepted i st x (sem_give m)"
    using assms(1) by (auto simp: end_task_def split: option.splits if_splits)
  have "amid 0 i m" using assms(2) st by (auto simp: manager_ok_def amid_def queue_ok_def queued_ok_def)
  then have "amid (- inside st) i (sem_give m)" using amid_give[of 0 i m] st(2) by (simp add: inside_def)
  then show ?thesis unfolding m' by (rule amid_conclude) (use st assms(3) in \<open>simp_all add: active_def\<close>)
qed

lemma spawn_Inr:
  "spawn accepted fresh sid cid parent task budget m = Inr (q, m') \<longleftrightarrow>
     (\<exists>depth m1. mg_total_started m < sl_max_total (mg_limits m) \<and> 1 \<le> budget \<and> budget \<le> sl_max_tokens_per_agent (mg_limits m) \<and>
       parent_depth m sid parent = Inr depth \<and> depth \<le> sl_max_depth (mg_limits m) \<and>
       mg_consumed_tokens m + mg_active_reservations m + budget \<le> sl_max_total_tokens (mg_limits m) \<and>
       q = \<lparr>sq_id = fresh, sq_session_id = sid, sq_correlation_id = cid, sq_parent_id = parent, sq_depth = depth, sq_task = task,
         sq_token_budget = budget\<rparr> \<and> 1 \<le> depth \<and> text_between 1 100000 task \<and>
       emit_event accepted fresh ''subagent.spawned'' [(''depth'', JInt depth), (''token_budget'', JInt budget)] m = Some m1 \<and>
       m' = (set_state fresh \<lparr>st_request = q, st_cancelled = False, st_task = TaskCreated, st_pending_cancel = False,
             st_reservation = budget, st_running = False, st_result = None\<rparr> m1)
           \<lparr>mg_total_started := mg_total_started m + 1, mg_active_reservations := mg_active_reservations m + budget\<rparr>)"
proof -
  have request: "(case SubagentRequest q' of Inl e \<Rightarrow> Inl (SubagentInvalid e) | Inr q \<Rightarrow> Inr q) = Inr r \<longleftrightarrow>
    r = q' \<and> 1 \<le> sq_depth q' \<and> text_between 1 100000 (sq_task q') \<and> 1 \<le> sq_token_budget q'" for q' r
    by (cases "SubagentRequest q'") (auto simp: SubagentRequest_def bindE_def check_def split: if_splits)
  show ?thesis
    unfolding spawn_def bindE_eq_Inr limit_check_Inr request not_le not_less
    by (auto split: option.splits)
qed

lemma length_update_new: "map_of xs i = None \<Longrightarrow> length (AList.update i b xs) = Suc (length xs)"
  by (induction xs) auto

lemma spawn_ok:
  assumes "spawn accepted fresh sid cid parent task budget m = Inr (q, m')" "state_of m fresh = None" "manager_ok m"
  shows "manager_ok m'"
proof -
  obtain depth m1 where s: "mg_total_started m < sl_max_total (mg_limits m)" "1 \<le> budget" "budget \<le> sl_max_tokens_per_agent (mg_limits m)"
    "parent_depth m sid parent = Inr depth" "depth \<le> sl_max_depth (mg_limits m)"
    "mg_consumed_tokens m + mg_active_reservations m + budget \<le> sl_max_total_tokens (mg_limits m)"
    "q = \<lparr>sq_id = fresh, sq_session_id = sid, sq_correlation_id = cid, sq_parent_id = parent, sq_depth = depth, sq_task = task,
         sq_token_budget = budget\<rparr>" "1 \<le> depth"
    "emit_event accepted fresh ''subagent.spawned'' [(''depth'', JInt depth), (''token_budget'', JInt budget)] m = Some m1"
    and m': "m' = (set_state fresh \<lparr>st_request = q, st_cancelled = False, st_task = TaskCreated, st_pending_cancel = False,
             st_reservation = budget, st_running = False, st_result = None\<rparr> m1)
           \<lparr>mg_total_started := mg_total_started m + 1, mg_active_reservations := mg_active_reservations m + budget\<rparr>"
      (is "_ = (set_state fresh ?st m1)\<lparr>mg_total_started := _, mg_active_reservations := _\<rparr>")
    using assms(1) unfolding spawn_Inr by metis
  note e = emit_event_Some[OF s(9)]
  then have t: "same_table m m1" by blast
  have of1: "state_of m1 = state_of m" using same_table_of[OF t] by (simp add: fun_eq_iff)
  have of: "state_of m' j = (if j = fresh then Some ?st else state_of m j)" for j
    using of1[unfolded fun_eq_iff, THEN spec, of j] by (simp add: m' state_of_def set_state_def update_conv)
  have sum: "state_sum f m' = state_sum f m + f ?st" for f
    using assms(2) of1 same_table_ok(3)[OF t, of f] state_sum_new[of m1 fresh f ?st] by (simp add: m' state_sum_def)
  have len: "length (mg_states m') = Suc (length (mg_states m))"
    using assms(2) t by (simp add: m' set_state_def same_table_def state_of_def length_update_new)
  have ok: "tokens_ok m" "states_ok m" "permits_ok 0 m" "queue_ok m" "queued_ok m {}" "tree_ok m" "idle_ok m"
    using assms(3) by (auto simp: manager_ok_def)
  have same: "mg_limits m' = mg_limits m" "mg_consumed_tokens m' = mg_consumed_tokens m" "mg_permits m' = mg_permits m"
    "mg_waiting m' = mg_waiting m" "mg_woken m' = mg_woken m" "mg_total_started m' = mg_total_started m + 1"
    "mg_active_reservations m' = mg_active_reservations m + budget"
    using e by (auto simp: m' same_table_def)
  have "tokens_ok m'" using ok(1) s(1,6) len by (simp add: tokens_ok_def same sum) (simp add: reserved_def charged_def)
  moreover have "states_ok m'"
  proof -
    have "states_ok m1" using ok(2) same_table_ok(2)[OF t] by simp
    moreover have "local_ok (mg_limits m1) ?st" using s(2,3,7) t by (simp add: local_ok_def same_table_def)
    ultimately show ?thesis using states_ok_set[of m1 ?st fresh] by (simp add: m' states_ok_def set_state_def)
  qed
  moreover have "permits_ok 0 m'" using ok(3) by (simp add: permits_ok_def same sum) (simp add: inside_def)
  moreover have "idle_ok m'" using ok(7) by (simp add: idle_ok_def same)
  moreover have "queue_ok m'" using ok(4) assms(2) unfolding queue_ok_def same of by (metis option.distinct(1))
  moreover have "queued_ok m' {}" using ok(5) unfolding queued_ok_def same of by auto
  moreover have "tree_ok m'"
  proof -
    have depth: "case parent of None \<Rightarrow> depth = 1 | Some p \<Rightarrow> \<exists>ps. state_of m p = Some ps \<and> sq_session_id (st_request ps) = sid
        \<and> depth = sq_depth (st_request ps) + 1"
      using s(4) by (auto simp: parent_depth_def res_simps split: option.splits)
    show ?thesis unfolding tree_ok_def
    proof (intro allI impI)
      fix i st assume i: "state_of m' i = Some st"
      have later: "\<exists>ps. state_of m' p = Some ps \<and> P ps" if "\<exists>ps. state_of m p = Some ps \<and> P ps" for p P
        using that of assms(2) by (metis option.distinct(1))
      show "sq_id (st_request st) = i \<and> 1 \<le> sq_depth (st_request st) \<and> sq_depth (st_request st) \<le> sl_max_depth (mg_limits m') \<and>
         (case sq_parent_id (st_request st) of None \<Rightarrow> sq_depth (st_request st) = 1
          | Some p \<Rightarrow> \<exists>ps. state_of m' p = Some ps \<and> sq_session_id (st_request ps) = sq_session_id (st_request st) \<and>
              sq_depth (st_request st) = sq_depth (st_request ps) + 1)"
      proof (cases "i = fresh")
        case True
        then have "st = ?st" using i of by simp
        then show ?thesis using s(5,7,8) True depth later by (auto simp: same split: option.splits)
      next
        case False
        then have "state_of m i = Some st" using i of by simp
        note node = ok(6)[unfolded tree_ok_def, rule_format, OF this]
        show ?thesis using node later by (cases "sq_parent_id (st_request st)") (simp_all add: same)
      qed
    qed
  qed
  ultimately show ?thesis by (simp add: manager_ok_def)
qed

lemma cancel_state_sel [simp]:
  "st_request (cancel_state st) = st_request st" "st_result (cancel_state st) = st_result st" "st_task (cancel_state st) = st_task st"
  "st_reservation (cancel_state st) = st_reservation st" "st_running (cancel_state st) = st_running st" "st_cancelled (cancel_state st)"
  by (simp_all add: cancel_state_def)

lemma local_ok_cancel: "local_ok l st \<Longrightarrow> st_result st = None \<Longrightarrow> local_ok l (cancel_state st)"
  by (cases "st_task st") (simp_all add: local_ok_def)

definition cancel_target :: "string set \<Rightarrow> string \<Rightarrow> sub_state \<Rightarrow> sub_state" where
  "cancel_target targets j st = (if j \<in> targets \<and> st_result st = None then cancel_state st else st)"

lemma cancel_target_sel [simp]:
  "st_request (cancel_target X j st) = st_request st" "st_result (cancel_target X j st) = st_result st"
  "st_task (cancel_target X j st) = st_task st" "st_reservation (cancel_target X j st) = st_reservation st"
  "st_running (cancel_target X j st) = st_running st"
  by (simp_all add: cancel_target_def)

lemma map_of_map_keyed: "map_of (map (\<lambda>(j, st). (j, f j st)) xs) i = map_option (f i) (map_of xs i)"
  by (induction xs) auto

lemma cancel_subagent_Inr:
  "cancel_subagent i m = Inr m' \<longleftrightarrow> state_of m i \<noteq> None \<and>
     m' = m\<lparr>mg_states := map (\<lambda>(j, st). (j, cancel_target (descendants_from (mg_states m) {i}) j st)) (mg_states m),
       mg_waiting := filter (\<lambda>j. j \<notin> descendants_from (mg_states m) {i}) (mg_waiting m)\<rparr>"
  by (auto simp: cancel_subagent_def cancel_target_def Let_def split: option.splits)

lemma cancel_ok:
  assumes "cancel_subagent i m = Inr m'" "manager_ok m"
  shows "manager_ok m'"
proof -
  define X where "X = descendants_from (mg_states m) {i}"
  have m': "m' = m\<lparr>mg_states := map (\<lambda>(j, st). (j, cancel_target X j st)) (mg_states m),
      mg_waiting := filter (\<lambda>j. j \<notin> X) (mg_waiting m)\<rparr>"
    using assms(1) by (simp add: cancel_subagent_Inr X_def)
  have of: "state_of m' j = map_option (cancel_target X j) (state_of m j)" for j
    by (simp add: m' state_of_def map_of_map_keyed)
  have sum: "state_sum f m' = state_sum f m" if "\<And>j st. f (cancel_target X j st) = f st" for f
    using that by (simp add: m' state_sum_def o_def case_prod_beta)
  have sums: "state_sum reserved m' = state_sum reserved m" "state_sum charged m' = state_sum charged m" "state_sum inside m' = state_sum inside m"
    by (rule sum, simp add: reserved_def charged_def inside_def split: option.split)+
  have ok: "tokens_ok m" "states_ok m" "permits_ok 0 m" "queue_ok m" "queued_ok m {}" "tree_ok m" "idle_ok m"
    using assms(2) by (auto simp: manager_ok_def)
  have same: "mg_limits m' = mg_limits m" "mg_consumed_tokens m' = mg_consumed_tokens m" "mg_permits m' = mg_permits m"
    "mg_waiting m' = filter (\<lambda>j. j \<notin> X) (mg_waiting m)" "mg_woken m' = mg_woken m" "mg_total_started m' = mg_total_started m"
    "mg_active_reservations m' = mg_active_reservations m" "length (mg_states m') = length (mg_states m)"
    by (simp_all add: m')
  have "tokens_ok m'" using ok(1) by (simp add: tokens_ok_def same sums)
  moreover have "states_ok m'"
  proof -
    have "local_ok l (cancel_target X j st)" if "local_ok l st" for l j st
      using that local_ok_cancel by (simp add: cancel_target_def)
    moreover have "map fst (map (\<lambda>(j, st). (j, cancel_target X j st)) xs) = map fst xs" for xs :: "(string \<times> sub_state) list"
      by (induction xs) auto
    ultimately show ?thesis using ok(2) by (auto simp: states_ok_def m' list_all_iff simp del: map_map)
  qed
  moreover have "permits_ok 0 m'" using ok(3) by (simp add: permits_ok_def same sums)
  moreover have "idle_ok m'" using ok(7) by (auto simp: idle_ok_def same)
  moreover have "queue_ok m'"
  proof -
    have keep: "cancel_target X j st = st" if "j \<notin> X" for j st using that by (simp add: cancel_target_def)
    show ?thesis using ok(4) unfolding queue_ok_def same of by (fastforce simp: keep)
  qed
  moreover have "queued_ok m' {}"
    unfolding queued_ok_def
  proof (intro allI impI)
    fix j st' assume j: "state_of m' j = Some st'" "st_task st' = TaskQueued"
    then obtain st where st: "state_of m j = Some st" "st' = cancel_target X j st" by (auto simp: of)
    then have "j \<in> set (mg_waiting m) \<union> set (mg_woken m) \<or> st_pending_cancel st" using ok(5) j by (auto simp: queued_ok_def)
    moreover have "st_result st = None" using states_ok_of[OF ok(2) st(1)] j(2) st(2) by (simp add: local_ok_def)
    ultimately show "j \<in> set (mg_waiting m') \<union> set (mg_woken m') \<or> st_pending_cancel st'"
      using st(2) j(2) by (auto simp: same cancel_target_def cancel_state_def)
  qed
  moreover have "tree_ok m'"
  proof (rule tree_ok_requests[OF _ _ ok(6)])
    show "map_option st_request (state_of m' j) = map_option st_request (state_of m j)" for j
      by (cases "state_of m j") (simp_all add: of)
  qed (simp add: same)
  ultimately show ?thesis by (simp add: manager_ok_def)
qed

definition manager_start :: "subagent_limits \<Rightarrow> manager \<Rightarrow> bool" where
  "manager_start limits m = (SubagentLimits limits = Inr limits \<and> (\<exists>audit. m = SubagentManager limits audit))"

lemma sem_limits [simp]: "mg_limits (sem_give m) = mg_limits m" "mg_limits (sem_wake m) = mg_limits m"
  by (simp_all add: sem_give_def sem_wake_def Let_def split: list.split)

lemma enter_limits [simp]: "mg_limits (enter_task a a' i st m) = mg_limits m"
  by (auto simp: enter_task_def emit_event_def)

lemma step_limits: "manager_step m m' \<Longrightarrow> mg_limits m' = mg_limits m"
proof (induction rule: manager_step.induct)
  case step_spawn
  then show ?case by (auto simp: spawn_Inr emit_event_def split: if_splits)
qed (auto simp: begin_task_def resume_task_def end_task_def Let_def cancel_subagent_Inr split: option.splits if_splits)

interpretation subagent_machine: invariant_machine "manager_start limits" manager_step "\<lambda>m. manager_ok m \<and> mg_limits m = limits" for limits
proof
  show "manager_ok m \<and> mg_limits m = limits" if "manager_start limits m" for m
  proof -
    have "1 \<le> sl_max_concurrent limits \<and> 1 \<le> sl_max_total limits \<and> 1 \<le> sl_max_total_tokens limits"
      using that by (auto simp: manager_start_def SubagentLimits_def res_simps)
    then show ?thesis using that
      by (auto simp: manager_start_def SubagentManager_def manager_ok_def tokens_ok_def states_ok_def permits_ok_def idle_ok_def queue_ok_def
          queued_ok_def tree_ok_def state_sum_def state_of_def)
  qed
  have "manager_ok m'" if "manager_step m m'" "manager_ok m" for m m'
    using that(1)
  proof (cases rule: manager_step.cases)
    case (step_end accepted i x)
    have "outcome_ok x" using step_end(2) by (cases x) (auto simp: outcome_ok_def TokenUsage_def total_tokens_def res_simps)
    then show ?thesis using end_task_ok[OF step_end(1) that(2)] by blast
  next
    case step_spawn
    from spawn_ok[OF this that(2)] show ?thesis .
  next
    case step_begin
    from begin_task_ok[OF this that(2)] show ?thesis .
  next
    case step_resume
    from resume_task_ok[OF this that(2)] show ?thesis .
  next
    case step_cancel
    from cancel_ok[OF this that(2)] show ?thesis .
  qed
  then show "manager_ok m' \<and> mg_limits m' = limits" if "manager_step m m'" "manager_ok m \<and> mg_limits m = limits" for m m'
    using step_limits[OF that(1)] that by blast
qed

section \<open>Limits\<close>

lemma state_sum_member:
  assumes "\<And>kv. kv \<in> set (mg_states m) \<Longrightarrow> 0 \<le> f (snd kv)" "state_of m i = Some st"
  shows "f st \<le> state_sum f m"
proof -
  have "(i, st) \<in> set (mg_states m)" using assms(2) map_of_SomeD by (simp add: state_of_def)
  then have "f st \<in> set (map (\<lambda>kv. f (snd kv)) (mg_states m))" by force
  then have "f st \<le> sum_list (map (\<lambda>kv. f (snd kv)) (mg_states m))" by (rule member_le_sum_list) (use assms(1) in auto)
  then show ?thesis by (simp add: state_sum_def)
qed

lemma running_is_inside: "local_ok l st \<Longrightarrow> st_running st = (st_task st = TaskInside)"
  by (cases "st_task st") (auto simp: local_ok_def)

lemma length_filter_sum: "int (length (filter P xs)) = sum_list (map (\<lambda>x. if P x then 1 else 0) xs)"
  by (induction xs) auto

text \<open>
  C13: However spawning, the steps of the tasks and cancellations interleave, the manager keeps within its
  limits: at most \<open>max_concurrent\<close> workers run at once, at most \<open>max_total\<close> subagents are ever started, the
  tokens charged and reserved stay within \<open>max_total_tokens\<close>, and they are exactly what the finished
  subagents are charged for and the others have reserved. A subagent has its parent's session and
  is one level below it, at most \<open>max_depth\<close> deep; and nobody waits for a free permit for ever.
\<close>

theorem subagent_limits_hold:
  assumes "reaches (manager_start l) manager_step m"
  shows "int (length (filter (\<lambda>kv. st_running (snd kv)) (mg_states m))) \<le> sl_max_concurrent l \<and>
    mg_total_started m = int (length (mg_states m)) \<and> mg_total_started m \<le> sl_max_total l \<and>
    mg_consumed_tokens m + mg_active_reservations m \<le> sl_max_total_tokens l \<and>
    mg_active_reservations m = sum_list (map (\<lambda>kv. if st_result (snd kv) = None then st_reservation (snd kv) else 0) (mg_states m)) \<and>
    mg_consumed_tokens m = sum_list (map (\<lambda>kv. case st_result (snd kv) of None \<Rightarrow> 0
      | Some r \<Rightarrow> if sr_status r = SubCompleted then total_tokens (sr_usage r) else st_reservation (snd kv)) (mg_states m)) \<and>
    (mg_waiting m \<noteq> [] \<longrightarrow> mg_permits m = 0 \<or> mg_woken m \<noteq> []) \<and>
    (\<forall>i st. state_of m i = Some st \<longrightarrow> sq_id (st_request st) = i \<and> 1 \<le> sq_depth (st_request st) \<and>
      sq_depth (st_request st) \<le> sl_max_depth l \<and> st_reservation st = sq_token_budget (st_request st) \<and>
      1 \<le> st_reservation st \<and> st_reservation st \<le> sl_max_tokens_per_agent l \<and>
      (\<forall>p. sq_parent_id (st_request st) = Some p \<longrightarrow> (\<exists>ps. state_of m p = Some ps \<and>
        sq_session_id (st_request ps) = sq_session_id (st_request st) \<and> sq_depth (st_request st) = sq_depth (st_request ps) + 1)))"
proof -
  have l: "mg_limits m = l" using subagent_machine.reachable_inv[OF assms] by blast
  have ok: "tokens_ok m" "states_ok m" "permits_ok 0 m" "tree_ok m" "idle_ok m"
    using subagent_machine.reachable_inv[OF assms] by (auto simp: manager_ok_def)
  have "st_running (snd kv) = (st_task (snd kv) = TaskInside)" if "kv \<in> set (mg_states m)" for kv
    using ok(2) running_is_inside that by (auto simp: states_ok_def list_all_iff)
  then have "filter (\<lambda>kv. st_running (snd kv)) (mg_states m) = filter (\<lambda>kv. st_task (snd kv) = TaskInside) (mg_states m)"
    by (rule filter_cong[OF refl])
  then have "int (length (filter (\<lambda>kv. st_running (snd kv)) (mg_states m))) = state_sum inside m"
    by (simp add: length_filter_sum state_sum_def inside_def)
  then have run: "int (length (filter (\<lambda>kv. st_running (snd kv)) (mg_states m))) \<le> sl_max_concurrent l"
    using ok(3) l by (simp add: permits_ok_def)
  have each: "sq_id (st_request st) = i \<and> 1 \<le> sq_depth (st_request st) \<and>
      sq_depth (st_request st) \<le> sl_max_depth l \<and> st_reservation st = sq_token_budget (st_request st) \<and>
      1 \<le> st_reservation st \<and> st_reservation st \<le> sl_max_tokens_per_agent l \<and>
      (\<forall>p. sq_parent_id (st_request st) = Some p \<longrightarrow> (\<exists>ps. state_of m p = Some ps \<and>
        sq_session_id (st_request ps) = sq_session_id (st_request st) \<and> sq_depth (st_request st) = sq_depth (st_request ps) + 1))"
    if "state_of m i = Some st" for i st
  proof -
    have "st_reservation st = sq_token_budget (st_request st) \<and> 1 \<le> st_reservation st \<and> st_reservation st \<le> sl_max_tokens_per_agent l"
      using states_ok_of[OF ok(2) that] l unfolding local_ok_def by blast
    then show ?thesis using ok(4)[unfolded tree_ok_def, rule_format, OF that] l
      by (cases "sq_parent_id (st_request st)") simp_all
  qed
  note tokens = ok(1)[unfolded tokens_ok_def state_sum_def reserved_def charged_def charged_tokens_def l]
  have idle: "mg_waiting m \<noteq> [] \<longrightarrow> mg_permits m = 0 \<or> mg_woken m \<noteq> []" using ok(5) by (simp add: idle_ok_def)
  show ?thesis using each tokens by (intro conjI run idle) ((elim conjE, assumption) | blast)+
qed

section \<open>Cancellation\<close>

definition child_of :: "manager \<Rightarrow> string \<Rightarrow> string \<Rightarrow> bool" where
  "child_of m p i = (\<exists>st. state_of m i = Some st \<and> sq_parent_id (st_request st) = Some p)"

definition children_among :: "(string \<times> sub_state) list \<Rightarrow> string set \<Rightarrow> string set" where
  "children_among states ts = {i. \<exists>st p. (i, st) \<in> set states \<and> sq_parent_id (st_request st) = Some p \<and> p \<in> ts}"

lemma sweep_closed: "sweep states ts = ts \<Longrightarrow> children_among states ts \<subseteq> ts"
proof (induction states arbitrary: ts)
  case (Cons x xs)
  let ?ts = "case sq_parent_id (st_request (snd x)) of Some p \<Rightarrow> if p \<in> ts \<and> fst x \<notin> ts then insert (fst x) ts else ts | None \<Rightarrow> ts"
  have "ts \<subseteq> ?ts" by (auto split: option.splits)
  moreover have "?ts \<subseteq> ts" using Cons.prems sweep_grows[of ?ts xs] by (simp add: sweep_Cons)
  ultimately have ts: "?ts = ts" by blast
  then have "sweep xs ts = ts" using Cons.prems by (simp add: sweep_Cons)
  then have "children_among xs ts \<subseteq> ts" by (rule Cons.IH)
  moreover have "fst x \<in> ts" if "sq_parent_id (st_request (snd x)) = Some p" "p \<in> ts" for p
    using ts that by (auto split: if_splits)
  ultimately show ?case by (auto simp: children_among_def)
qed (simp add: children_among_def)

lemma sweep_reached:
  assumes "\<And>p i st. (i, st) \<in> set states \<Longrightarrow> sq_parent_id (st_request st) = Some p \<Longrightarrow> p \<in> R \<Longrightarrow> i \<in> R" "ts \<subseteq> R"
  shows "sweep states ts \<subseteq> R"
  using assms
proof (induction states arbitrary: ts)
  case (Cons x xs)
  show ?case unfolding sweep_Cons
  proof (rule Cons.IH)
    show "(case sq_parent_id (st_request (snd x)) of Some p \<Rightarrow> if p \<in> ts \<and> fst x \<notin> ts then insert (fst x) ts else ts | None \<Rightarrow> ts) \<subseteq> R"
      using Cons.prems(1)[of "fst x" "snd x"] Cons.prems(2) by (auto split: option.splits)
  qed (use Cons.prems(1) in \<open>meson list.set_intros(2)\<close>)
qed (simp add: sweep_def)

lemma descendants_from_closed:
  "targets \<subseteq> descendants_from states targets \<and>
     children_among states (descendants_from states targets) \<subseteq> descendants_from states targets"
proof (induction states targets rule: descendants_from.induct)
  case (1 states targets)
  show ?case
  proof (cases "sweep states targets = targets")
    case True
    then show ?thesis using sweep_closed[OF True] by (simp add: descendants_from.simps[of states targets])
  next
    case False
    then show ?thesis using 1[OF False] sweep_grows[of targets states] by (simp add: descendants_from.simps[of states targets]) blast
  qed
qed

lemma descendants_from_reached:
  assumes "\<And>p i st. (i, st) \<in> set states \<Longrightarrow> sq_parent_id (st_request st) = Some p \<Longrightarrow> p \<in> R \<Longrightarrow> i \<in> R" "targets \<subseteq> R"
  shows "descendants_from states targets \<subseteq> R"
  using assms
proof (induction states targets rule: descendants_from.induct)
  case (1 states targets)
  show ?case
  proof (cases "sweep states targets = targets")
    case True
    then show ?thesis using "1.prems"(2) by (simp add: descendants_from.simps[of states targets])
  next
    case False
    have "descendants_from states (sweep states targets) \<subseteq> R"
      by (rule 1(1)[OF False "1.prems"(1) sweep_reached[OF "1.prems"]])
    then show ?thesis using False by (simp add: descendants_from.simps[of states targets])
  qed
qed

lemma descendants_are_reachable:
  assumes "distinct (map fst (mg_states m))"
  shows "descendants_from (mg_states m) {i} = {j. (child_of m)\<^sup>*\<^sup>* i j}"
proof
  have child: "child_of m p j \<longleftrightarrow> (\<exists>st. (j, st) \<in> set (mg_states m) \<and> sq_parent_id (st_request st) = Some p)" for p j
    using assms by (auto simp: child_of_def state_of_def)
  show "descendants_from (mg_states m) {i} \<subseteq> {j. (child_of m)\<^sup>*\<^sup>* i j}"
  proof (rule descendants_from_reached)
    show "j \<in> {j. (child_of m)\<^sup>*\<^sup>* i j}"
      if "(j, st) \<in> set (mg_states m)" "sq_parent_id (st_request st) = Some p" "p \<in> {j. (child_of m)\<^sup>*\<^sup>* i j}" for p j st
      using that rtranclp.rtrancl_into_rtrancl[of "child_of m" i p j] by (auto simp: child)
  qed simp
  have "j \<in> descendants_from (mg_states m) {i}" if "(child_of m)\<^sup>*\<^sup>* i j" for j
    using that
  proof (induction rule: rtranclp_induct)
    case base
    then show ?case using descendants_from_closed by blast
  next
    case (step p j)
    then show ?case using descendants_from_closed[of "{i}" "mg_states m"] by (auto simp: children_among_def child)
  qed
  then show "{j. (child_of m)\<^sup>*\<^sup>* i j} \<subseteq> descendants_from (mg_states m) {i}" by blast
qed

section \<open>What stays as it is\<close>

text \<open>
  Once a queued subagent is cancelled it never enters the semaphore, and one whose task has ended keeps its
  result or, if its task was cancelled before its first step, stays without one.
\<close>

definition barred :: "sub_state \<Rightarrow> bool" where
  "barred st = (st_task st \<noteq> TaskInside \<and> (st_task st \<in> {TaskCreated, TaskQueued} \<longrightarrow> st_pending_cancel st))"

definition ended :: "sub_state \<Rightarrow> bool" where
  "ended st = (st_task st \<in> {TaskReturned, TaskRaised})"

definition later :: "sub_state \<Rightarrow> sub_state \<Rightarrow> bool" where
  "later st st' = (st_request st' = st_request st \<and> st_reservation st' = st_reservation st \<and> (barred st \<longrightarrow> barred st') \<and>
     (st_cancelled st \<longrightarrow> st_cancelled st') \<and> (ended st \<longrightarrow> st_task st' = st_task st \<and> st_result st' = st_result st))"

lemma later_refl [simp]: "later st st"
  by (simp add: later_def)

lemma later_trans: "later st st' \<Longrightarrow> later st' st'' \<Longrightarrow> later st st''"
  by (auto simp: later_def ended_def)

lemma conclude_later:
  assumes "state_of m i = Some st0" "\<not> ended st0" "st_request st = st_request st0" "st_reservation st = st_reservation st0"
    "st_cancelled st0 \<longrightarrow> st_cancelled st" "state_of m k = Some r"
  shows "\<exists>r'. state_of (conclude a i st x m) k = Some r' \<and> later r r'"
proof -
  obtain ts where ts: "ts \<in> {TaskReturned, TaskRaised}" and c: "mg_states (conclude a i st x m) = AList.update i
     (st\<lparr>st_cancelled := (st_cancelled st \<or> x = WorkerTimedOut \<or> x = WorkerCancelled), st_running := False,
         st_result := Some (task_result (st_request st) x), st_task := ts\<rparr>) (mg_states m)"
    using conclude_states[of a i st x m] by blast
  then show ?thesis using assms by (auto simp: state_of_def update_conv later_def barred_def)
qed

lemma set_state_later:
  "state_of m i = Some st \<Longrightarrow> later st st' \<Longrightarrow> state_of m k = Some r \<Longrightarrow> \<exists>r'. state_of (set_state i st' m) k = Some r' \<and> later r r'"
  by auto

lemma enter_later:
  assumes "state_of m i = Some st" "\<not> ended st" "\<not> barred st \<or> st_cancelled st" "state_of m k = Some r"
  shows "\<exists>r'. state_of (enter_task a a' i st m) k = Some r' \<and> later r r'"
proof (cases "st_cancelled st \<or> emit_event a i ''subagent.started'' [] m = None")
  case True
  then show ?thesis using conclude_later[of "sem_give m" i st st k r] assms by (auto simp: enter_task_def)
next
  case False
  then obtain m1 where m1: "emit_event a i ''subagent.started'' [] m = Some m1" by auto
  then have of: "state_of m1 = state_of m" using same_table_of[of m m1] emit_event_Some[OF m1] by (simp add: fun_eq_iff)
  have "later st (st\<lparr>st_running := True, st_task := TaskInside\<rparr>)" using assms(2,3) False by (simp add: later_def)
  then show ?thesis using set_state_later[of m1 i st _ k r] assms of False m1 by (auto simp: enter_task_def)
qed

lemma step_later:
  assumes "manager_step m m'" "manager_ok m" "state_of m k = Some r"
  shows "\<exists>r'. state_of m' k = Some r' \<and> later r r'"
  using assms(1)
proof (cases rule: manager_step.cases)
  case (step_spawn accepted fresh sid cid parent task budget q)
  then obtain m1 d st where m1: "emit_event accepted fresh ''subagent.spawned'' d m = Some m1" and "mg_states m' = AList.update fresh st (mg_states m1)"
    by (auto simp: spawn_Inr set_state_def)
  then show ?thesis using assms(3) step_spawn(2) same_table_of[of m m1] emit_event_Some[OF m1]
    by (auto simp: state_of_def update_conv same_table_def)
next
  case (step_begin a a' i)
  then obtain st where st: "state_of m i = Some st" "st_task st = TaskCreated" by (auto simp: begin_task_def split: option.splits if_splits)
  have l: "local_ok (mg_limits m) st" using states_ok_of st(1) assms(2) by (auto simp: manager_ok_def)
  consider "m' = set_state i (st\<lparr>st_task := TaskRaised\<rparr>) m"
    | "\<not> st_pending_cancel st" "m' = enter_task a a' i st (m\<lparr>mg_permits := mg_permits m - 1\<rparr>)"
    | "\<not> st_pending_cancel st" "m' = set_state i (st\<lparr>st_task := TaskQueued\<rparr>) (m\<lparr>mg_waiting := mg_waiting m @ [i]\<rparr>)"
    using step_begin st by (auto simp: begin_task_def split: if_splits)
  then show ?thesis
  proof cases
    case 1
    then show ?thesis using st assms(3) by (auto simp: later_def barred_def ended_def)
  next
    case 2
    then show ?thesis using st assms(3) enter_later[of "m\<lparr>mg_permits := mg_permits m - 1\<rparr>" i st k r a a']
      by (auto simp: state_of_def ended_def barred_def)
  next
    case 3
    then show ?thesis using st assms(3) set_state_later[of "m\<lparr>mg_waiting := mg_waiting m @ [i]\<rparr>" i st _ k r]
      by (auto simp: state_of_def later_def ended_def barred_def)
  qed
next
  case (step_resume a a' i)
  then obtain st where st: "state_of m i = Some st" "st_task st = TaskQueued" by (auto simp: resume_task_def split: option.splits if_splits)
  let ?m = "m\<lparr>mg_woken := removeAll i (mg_woken m)\<rparr>"
  have of: "state_of ?m = state_of m" "state_of (?m\<lparr>mg_permits := p\<rparr>) = state_of m" for p by (simp_all add: state_of_def fun_eq_iff)
  have conc: ?thesis if "m' = conclude a' i st WorkerCancelled (sem_wake n)" "state_of n = state_of m" for n
    using st assms(3) that conclude_later[of "sem_wake n" i st st k r] by (auto simp: ended_def)
  have enter: ?thesis if "\<not> st_pending_cancel st" "m' = enter_task a a' i st (sem_wake ?m)"
    using st assms(3) that of enter_later[of "sem_wake ?m" i st k r] by (auto simp: ended_def barred_def)
  show ?thesis
  proof (cases "i \<in> set (mg_woken m) \<and> \<not> st_pending_cancel st")
    case True
    then show ?thesis using step_resume st enter by (auto simp: resume_task_def Let_def)
  next
    case False
    then have "m' = conclude a' i st WorkerCancelled (sem_wake (?m\<lparr>mg_permits := mg_permits ?m + 1\<rparr>)) \<or>
        m' = conclude a' i st WorkerCancelled (sem_wake m)"
      using step_resume st by (auto simp: resume_task_def Let_def split: if_splits)
    then show ?thesis using conc of by blast
  qed
next
  case (step_end a i x)
  then obtain st where "state_of m i = Some st" "st_task st = TaskInside" "m' = conclude a i st x (sem_give m)"
    by (auto simp: end_task_def split: option.splits if_splits)
  then show ?thesis using assms(3) conclude_later[of "sem_give m" i st st k r a x] by (auto simp: ended_def)
next
  case (step_cancel i)
  then show ?thesis using assms(3)
    by (auto simp: cancel_subagent_Inr state_of_def map_of_map_keyed cancel_target_def cancel_state_def later_def barred_def ended_def)
qed

definition run_step :: "manager \<Rightarrow> manager \<Rightarrow> bool" where
  "run_step m m' = (manager_ok m \<and> manager_step m m')"

interpretation subagent_rows: growing_rows run_step state_of later
proof
  show "\<exists>r'. state_of m' k = Some r' \<and> later r r'" if "run_step m m'" "state_of m k = Some r" for m m' k r
    using step_later that by (auto simp: run_step_def)
qed (auto intro: later_trans)

lemma runs_ok:
  assumes "manager_step\<^sup>*\<^sup>* m m'" "manager_ok m"
  shows "run_step\<^sup>*\<^sup>* m m' \<and> manager_ok m'"
  using assms(1)
proof (induction rule: rtranclp_induct)
  case (step y z)
  have "manager_ok z" using subagent_machine.inv_step[OF step.hyps(2), of "mg_limits y"] step.IH by blast
  moreover have "run_step y z" using step by (simp add: run_step_def)
  ultimately show ?case using step.IH rtranclp.rtrancl_into_rtrancl[of run_step m y z] by blast
qed (simp add: assms(2))

lemma state_later:
  assumes "manager_step\<^sup>*\<^sup>* m m'" "manager_ok m" "state_of m i = Some st"
  shows "\<exists>st'. state_of m' i = Some st' \<and> later st st' \<and> local_ok (mg_limits m') st'"
proof -
  obtain st' where "state_of m' i = Some st'" "later st st'"
    using subagent_rows.row_grows[OF conjunct1[OF runs_ok[OF assms(1,2)]] assms(3)] by blast
  then show ?thesis using runs_ok[OF assms(1,2)] states_ok_of by (auto simp: manager_ok_def)
qed

text \<open>
  C14: Cancelling a subagent cancels exactly those of its descendants, itself included, that have no
  result yet: their tokens are set for good, and of those that were not inside the semaphore none ever
  runs its worker, whatever happens next.
\<close>

theorem cancel_reaches_descendants:
  assumes "reaches (manager_start l) manager_step m" "cancel_subagent i m = Inr m1" "manager_step\<^sup>*\<^sup>* m1 m2"
    and "state_of m j = Some st"
  shows "if (child_of m)\<^sup>*\<^sup>* i j \<and> st_result st = None
    then \<exists>st2. state_of m2 j = Some st2 \<and> st_cancelled st2 \<and> (st_task st \<noteq> TaskInside \<longrightarrow> \<not> st_running st2)
    else state_of m1 j = Some st"
proof -
  have ok: "manager_ok m" using subagent_machine.reachable_inv[OF assms(1)] by blast
  have ok1: "manager_ok m1" by (rule cancel_ok[OF assms(2) ok])
  have "distinct (map fst (mg_states m))" using ok by (simp add: manager_ok_def states_ok_def)
  then have m1: "state_of m1 j = Some (if (child_of m)\<^sup>*\<^sup>* i j \<and> st_result st = None then cancel_state st else st)"
    using assms(2,4) by (auto simp: cancel_subagent_Inr state_of_def map_of_map_keyed cancel_target_def descendants_are_reachable)
  show ?thesis
  proof (cases "(child_of m)\<^sup>*\<^sup>* i j \<and> st_result st = None")
    case True
    then have "state_of m1 j = Some (cancel_state st)" using m1 by simp
    then obtain st2 where st2: "state_of m2 j = Some st2" "later (cancel_state st) st2" "local_ok (mg_limits m2) st2"
      using state_later[OF assms(3) ok1] by blast
    have "\<not> st_running st2" if "st_task st \<noteq> TaskInside"
    proof -
      have "barred (cancel_state st)" using that by (auto simp: barred_def cancel_state_def)
      then have "st_task st2 \<noteq> TaskInside" using st2(2) by (simp add: later_def barred_def)
      then show ?thesis using running_is_inside[OF st2(3)] by simp
    qed
    then show ?thesis using True st2 by (auto simp: later_def)
  next
    case False
    then show ?thesis using m1 by auto
  qed
qed

text \<open>
  A subagent that is cancelled before the first step of its task is lost: the coroutine never starts, so
  \<open>_finalize\<close> does not run. It never gets a result, waiting for it fails, and its reservation is
  held for ever, so that no later subagent can use those tokens.
\<close>

theorem cancel_before_first_step_leaks:
  assumes "reaches (manager_start l) manager_step m" "state_of m i = Some st" "st_task st = TaskCreated" "st_pending_cancel st"
    and "begin_task a a' i m = Some m1" "manager_step\<^sup>*\<^sup>* m1 m2"
  shows "wait_subagent i m2 = Inl TaskFailed \<and> map_option st_result (state_of m2 i) = Some None \<and>
    sq_token_budget (st_request st) \<le> mg_active_reservations m2"
proof -
  have ok: "manager_ok m" using subagent_machine.reachable_inv[OF assms(1)] by blast
  have ok1: "manager_ok m1" by (rule begin_task_ok[OF assms(5) ok])
  have l: "local_ok (mg_limits m) st" using ok states_ok_of assms(2) by (auto simp: manager_ok_def)
  have "m1 = set_state i (st\<lparr>st_task := TaskRaised\<rparr>) m" using assms(2-5) by (simp add: begin_task_def)
  then have m1: "state_of m1 i = Some (st\<lparr>st_task := TaskRaised\<rparr>)" by simp
  obtain st2 where st2: "state_of m2 i = Some st2" "later (st\<lparr>st_task := TaskRaised\<rparr>) st2" using state_later[OF assms(6) ok1 m1] by blast
  have facts: "st_task st2 = TaskRaised" "st_result st2 = None" "st_reservation st2 = sq_token_budget (st_request st)"
    using st2(2) l assms(3) by (auto simp: later_def ended_def local_ok_def)
  have ok2: "tokens_ok m2" "states_ok m2" using runs_ok[OF assms(6) ok1] by (auto simp: manager_ok_def)
  have "reserved st2 \<le> state_sum reserved m2"
    by (rule state_sum_member[OF _ st2(1)]) (use ok2(2) in \<open>auto simp: states_ok_def list_all_iff local_ok_def reserved_def\<close>)
  then show ?thesis using st2(1) facts ok2(1) by (simp add: wait_subagent_def tokens_ok_def reserved_def)
qed

section \<open>Witnesses\<close>

definition demo_limits :: subagent_limits where
  "demo_limits = \<lparr>sl_max_concurrent = 1, sl_max_total = 8, sl_max_depth = 2, sl_max_tokens_per_agent = 10, sl_max_total_tokens = 10\<rparr>"

definition demo_subagent :: subagent_request where
  "demo_subagent = \<lparr>sq_id = ''a'', sq_session_id = ''s'', sq_correlation_id = ''c'', sq_parent_id = None, sq_depth = 1,
     sq_task = ''t'', sq_token_budget = 10\<rparr>"

definition demo_state :: "bool \<Rightarrow> sub_state" where
  "demo_state c = \<lparr>st_request = demo_subagent, st_cancelled = c, st_task = TaskCreated, st_pending_cancel = c, st_reservation = 10,
     st_running = False, st_result = None\<rparr>"

definition demo_manager :: "bool \<Rightarrow> manager" where
  "demo_manager c = (SubagentManager demo_limits False)\<lparr>mg_states := [(''a'', demo_state c)], mg_total_started := 1,
     mg_active_reservations := 10\<rparr>"

lemma demo_cancelled: "cancel_subagent ''a'' (demo_manager False) = Inr (demo_manager True)"
  by (simp add: cancel_subagent_def demo_manager_def state_of_def demo_state_def cancel_state_def descendants_from.simps sweep_def
      demo_subagent_def SubagentManager_def)

lemma demo_spawned: "reaches (manager_start demo_limits) manager_step (demo_manager False)"
proof (rule reaches_step)
  show "reaches (manager_start demo_limits) manager_step (SubagentManager demo_limits False)"
    by (rule reaches_init) (auto simp: manager_start_def SubagentLimits_def demo_limits_def)
  have "spawn True ''a'' ''s'' ''c'' None ''t'' 10 (SubagentManager demo_limits False) = Inr (demo_subagent, demo_manager False)"
    by (simp add: spawn_Inr parent_depth_def emit_event_def SubagentManager_def demo_limits_def demo_subagent_def demo_manager_def
        demo_state_def set_state_def text_between_def)
  then show "manager_step (SubagentManager demo_limits False) (demo_manager False)"
    by (rule step_spawn) (simp add: state_of_def SubagentManager_def)
qed

theorem subagent_limits_hold_witness: "mg_active_reservations (demo_manager False) \<le> 10"
  using subagent_limits_hold[OF demo_spawned] by (simp add: demo_manager_def SubagentManager_def demo_limits_def)

theorem cancel_reaches_descendants_witness: "\<exists>st. state_of (demo_manager True) ''a'' = Some st \<and> st_cancelled st"
proof -
  have "state_of (demo_manager False) ''a'' = Some (demo_state False)" by (simp add: demo_manager_def state_of_def)
  from cancel_reaches_descendants[OF demo_spawned demo_cancelled _ this] show ?thesis by (auto simp: demo_state_def)
qed

theorem cancel_before_first_step_leaks_witness:
  "\<exists>m. begin_task True True ''a'' (demo_manager True) = Some m \<and> wait_subagent ''a'' m = Inl TaskFailed \<and> 10 \<le> mg_active_reservations m \<and>
    spawn True ''b'' ''s'' ''c'' None ''t'' 1 m = Inl (SubagentLimitError ''subagent aggregate token budget exceeded'')"
proof -
  have st: "state_of (demo_manager True) ''a'' = Some (demo_state True)" by (simp add: demo_manager_def state_of_def)
  obtain m where m: "begin_task True True ''a'' (demo_manager True) = Some m" using st by (simp add: begin_task_def demo_state_def)
  have "reaches (manager_start demo_limits) manager_step (demo_manager True)"
    by (rule reaches_step[OF demo_spawned]) (rule step_cancel[OF demo_cancelled])
  from cancel_before_first_step_leaks[OF this st _ _ m, of m]
  have w: "wait_subagent ''a'' m = Inl TaskFailed" "10 \<le> mg_active_reservations m" by (simp_all add: demo_state_def demo_subagent_def)
  have "m = set_state ''a'' (demo_state True\<lparr>st_task := TaskRaised\<rparr>) (demo_manager True)"
    using m st by (simp add: begin_task_def demo_state_def)
  then have "spawn True ''b'' ''s'' ''c'' None ''t'' 1 m = Inl (SubagentLimitError ''subagent aggregate token budget exceeded'')"
    by (simp add: spawn_def limit_check_def demo_manager_def SubagentManager_def demo_limits_def parent_depth_def)
  then show ?thesis using m w by blast
qed

end
