(* ===== verification/Hooks.thy ===== *)
theory Hooks
  imports AgentSchemas CanonicalJson
begin

text \<open>
  The tool hooks of the agent (\<open>zeaz_agent/hooks.py\<close>): snapshots of a call, the invocation of one hook
  with its failure policy, and the chain that stops at the first denial. A hook's callback is a function
  from the context to the way it ends, the expiry of its deadline included; SHA-256 is a parameter.
\<close>

section \<open>Records\<close>

datatype hook_phase = PreTool | PostTool

datatype hook_failure_policy = FailClosed | FailOpen

datatype hook_verdict = HookAllow | HookDeny

record hook_context =
  hc_phase :: hook_phase
  hc_session_id :: string
  hc_correlation_id :: string
  hc_tool_call_id :: string
  hc_tool_name :: string
  hc_input_json :: string
  hc_input_sha256 :: string
  hc_output_json :: "string option"
  hc_output_sha256 :: "string option"

record hook_decision =
  hd_verdict :: hook_verdict
  hd_reason_code :: string

definition reason_code_text :: "string \<Rightarrow> bool" where
  "reason_code_text s = (s \<noteq> [] \<and> length s \<le> 64 \<and> 97 \<le> code_of (hd s) \<and> code_of (hd s) \<le> 122 \<and>
     list_all (\<lambda>c. 97 \<le> code_of c \<and> code_of c \<le> 122 \<or> is_digit c \<or> c = CHR ''_'') (tl s))"

definition HookDecision :: "hook_verdict \<Rightarrow> string \<Rightarrow> hook_decision res" where
  "HookDecision v code = bindE (check (reason_code_text code) ''reason_code'') (\<lambda>_.
     Inr \<lparr>hd_verdict = v, hd_reason_code = code\<rparr>)"

record hook_outcome =
  oc_name :: string
  oc_phase :: hook_phase
  oc_failure_policy :: hook_failure_policy
  oc_verdict :: hook_verdict
  oc_reason_code :: string
  oc_failed :: bool
  oc_timed_out :: bool

text \<open>How the awaited callback ends. A decision that is not a \<open>HookDecision\<close> raises a \<open>TypeError\<close>.\<close>

datatype callback_end = Decided hook_decision | DecidedOtherwise | CallbackRaised | CallbackTimedOut | CallbackCancelled

record tool_hook =
  hk_name :: string
  hk_phase :: hook_phase
  hk_timeout_seconds :: real
  hk_failure_policy :: hook_failure_policy
  hk_callback :: "hook_context \<Rightarrow> callback_end"

definition ToolHook :: "tool_hook \<Rightarrow> tool_hook res" where
  "ToolHook h =
     bindE (check (tool_name (hk_name h)) ''name'') (\<lambda>_.
     bindE (check (0 < hk_timeout_seconds h \<and> hk_timeout_seconds h \<le> 60) ''timeout_seconds'') (\<lambda>_. Inr h))"

datatype hook_error = HookValueError string | HookDenied hook_outcome | HookCancelled

record hook_runner =
  hr_hooks :: "tool_hook list"
  hr_max_snapshot_bytes :: int

definition hook_check :: "bool \<Rightarrow> string \<Rightarrow> hook_error + unit" where
  "hook_check ok message = (if ok then Inr () else Inl (HookValueError message))"

lemma hook_check_Inr [res_simps]: "hook_check ok m = Inr u \<longleftrightarrow> ok"
  by (simp add: hook_check_def)

lemma hook_check_Inl [res_simps]: "hook_check ok m = Inl e \<longleftrightarrow> \<not> ok \<and> e = HookValueError m"
  by (auto simp: hook_check_def)

definition ToolHookRunner :: "tool_hook list \<Rightarrow> int \<Rightarrow> int \<Rightarrow> hook_error + hook_runner" where
  "ToolHookRunner hooks max_hooks max_snapshot_bytes =
     bindE (hook_check (1 \<le> max_hooks \<and> max_hooks \<le> 1024) ''max_hooks must be between 1 and 1024'') (\<lambda>_.
     bindE (hook_check (\<not> int (length hooks) > max_hooks) ''hook count exceeds the configured limit'') (\<lambda>_.
     bindE (hook_check (distinct (map hk_name hooks)) ''hook names must be unique'') (\<lambda>_.
     bindE (hook_check (1024 \<le> max_snapshot_bytes \<and> max_snapshot_bytes \<le> 16777216)
       ''max_snapshot_bytes must be between 1 KiB and 16 MiB'') (\<lambda>_.
     Inr \<lparr>hr_hooks = hooks, hr_max_snapshot_bytes = max_snapshot_bytes\<rparr>))))"

section \<open>Running hooks\<close>

definition snapshot_json :: "json \<Rightarrow> int \<Rightarrow> hook_error + string" where
  "snapshot_json v maximum = (case canonical v of
     None \<Rightarrow> Inl (HookValueError ''hook snapshot value must be JSON'')
   | Some encoded \<Rightarrow>
       if int (length encoded) > maximum then Inl (HookValueError ''hook snapshot exceeds the byte limit'') else Inr encoded)"

definition failure_outcome :: "tool_hook \<Rightarrow> string \<Rightarrow> bool \<Rightarrow> hook_outcome" where
  "failure_outcome h code timed_out =
     \<lparr>oc_name = hk_name h, oc_phase = hk_phase h, oc_failure_policy = hk_failure_policy h,
       oc_verdict = (if hk_failure_policy h = FailClosed then HookDeny else HookAllow), oc_reason_code = code,
       oc_failed = True, oc_timed_out = timed_out\<rparr>"

definition invoke_hook :: "tool_hook \<Rightarrow> hook_context \<Rightarrow> hook_error + hook_outcome" where
  "invoke_hook h ctx = (case hk_callback h ctx of
     Decided d \<Rightarrow> Inr \<lparr>oc_name = hk_name h, oc_phase = hk_phase h, oc_failure_policy = hk_failure_policy h,
       oc_verdict = hd_verdict d, oc_reason_code = hd_reason_code d, oc_failed = False, oc_timed_out = False\<rparr>
   | CallbackCancelled \<Rightarrow> Inl HookCancelled
   | CallbackTimedOut \<Rightarrow> Inr (failure_outcome h ''hook_timeout'' True)
   | DecidedOtherwise \<Rightarrow> Inr (failure_outcome h ''hook_failure'' False)
   | CallbackRaised \<Rightarrow> Inr (failure_outcome h ''hook_failure'' False))"

text \<open>The loop over the hooks; the first component lists the hooks whose callbacks were called.\<close>

fun run_chain :: "hook_phase \<Rightarrow> hook_context \<Rightarrow> tool_hook list \<Rightarrow> hook_outcome list \<Rightarrow> tool_hook list \<times> (hook_error + hook_outcome list)" where
  "run_chain phase ctx [] outcomes = ([], Inr outcomes)"
| "run_chain phase ctx (h # hs) outcomes =
     (if hk_phase h \<noteq> phase then run_chain phase ctx hs outcomes
      else (case invoke_hook h ctx of
          Inl e \<Rightarrow> ([h], Inl e)
        | Inr r \<Rightarrow>
            if oc_verdict r = HookDeny then ([h], Inl (HookDenied r))
            else (case run_chain phase ctx hs (outcomes @ [r]) of (called, res) \<Rightarrow> (h # called, res))))"

definition hook_snapshot ::
  "(string \<Rightarrow> string) \<Rightarrow> hook_runner \<Rightarrow> hook_phase \<Rightarrow> tool_call \<Rightarrow> string \<Rightarrow> string \<Rightarrow> json option \<Rightarrow> hook_error + hook_context" where
  "hook_snapshot sha256 r phase call session_id correlation_id output_marker =
     bindE (snapshot_json (JObj (tc_arguments call)) (hr_max_snapshot_bytes r)) (\<lambda>input_json.
     bindE (case output_marker of None \<Rightarrow> Inr None
       | Some v \<Rightarrow> bindE (snapshot_json v (hr_max_snapshot_bytes r)) (\<lambda>b. Inr (Some b))) (\<lambda>output_json.
     Inr \<lparr>hc_phase = phase, hc_session_id = session_id, hc_correlation_id = correlation_id, hc_tool_call_id = tc_id call,
       hc_tool_name = tc_name call, hc_input_json = input_json, hc_input_sha256 = sha256 input_json,
       hc_output_json = output_json, hc_output_sha256 = map_option sha256 output_json\<rparr>))"

definition run_hooks ::
  "(string \<Rightarrow> string) \<Rightarrow> hook_runner \<Rightarrow> hook_phase \<Rightarrow> tool_call \<Rightarrow> string \<Rightarrow> string \<Rightarrow> json option
     \<Rightarrow> tool_hook list \<times> (hook_error + hook_outcome list)" where
  "run_hooks sha256 r phase call session_id correlation_id output_marker =
     (case hook_snapshot sha256 r phase call session_id correlation_id output_marker of
        Inl e \<Rightarrow> ([], Inl e)
      | Inr ctx \<Rightarrow> run_chain phase ctx (hr_hooks r) [])"

definition run_pre :: "(string \<Rightarrow> string) \<Rightarrow> hook_runner \<Rightarrow> tool_call \<Rightarrow> string \<Rightarrow> string \<Rightarrow> tool_hook list \<times> (hook_error + hook_outcome list)" where
  "run_pre sha256 r call session_id correlation_id = run_hooks sha256 r PreTool call session_id correlation_id None"

definition run_post ::
  "(string \<Rightarrow> string) \<Rightarrow> hook_runner \<Rightarrow> tool_call \<Rightarrow> json \<Rightarrow> string \<Rightarrow> string \<Rightarrow> tool_hook list \<times> (hook_error + hook_outcome list)" where
  "run_post sha256 r call v session_id correlation_id = run_hooks sha256 r PostTool call session_id correlation_id (Some v)"

section \<open>The chain\<close>

text \<open>Whether a hook lets the call pass: it allowed it, or it failed and is open.\<close>

definition passes :: "hook_context \<Rightarrow> tool_hook \<Rightarrow> bool" where
  "passes ctx h = (case hk_callback h ctx of Decided d \<Rightarrow> hd_verdict d = HookAllow | CallbackCancelled \<Rightarrow> False
     | _ \<Rightarrow> hk_failure_policy h = FailOpen)"

lemma hook_verdict_cases: "v \<noteq> HookDeny \<longleftrightarrow> v = HookAllow"
  by (cases v) auto

lemma invoke_passes: "passes ctx h \<longleftrightarrow> (\<exists>r. invoke_hook h ctx = Inr r \<and> oc_verdict r = HookAllow)"
  by (cases "hk_failure_policy h") (auto simp: passes_def invoke_hook_def failure_outcome_def split: callback_end.splits)

lemma invoke_name: "invoke_hook h ctx = Inr r \<Longrightarrow> oc_name r = hk_name h \<and> oc_phase r = hk_phase h"
  by (auto simp: invoke_hook_def failure_outcome_def split: callback_end.splits)

definition chain_result :: "hook_context \<Rightarrow> hook_outcome list \<Rightarrow> tool_hook list \<Rightarrow> tool_hook list \<times> (hook_error + hook_outcome list)" where
  "chain_result ctx outcomes hs =
     (let passed = takeWhile (passes ctx) hs; rest = dropWhile (passes ctx) hs
      in case rest of
           [] \<Rightarrow> (passed, Inr (outcomes @ map (\<lambda>h. projr (invoke_hook h ctx)) passed))
         | h # _ \<Rightarrow> (passed @ [h], Inl (case invoke_hook h ctx of Inl e \<Rightarrow> e | Inr r \<Rightarrow> HookDenied r)))"

lemma run_chain_eq: "run_chain phase ctx hs outcomes = chain_result ctx outcomes (filter (\<lambda>h. hk_phase h = phase) hs)"
proof (induction hs arbitrary: outcomes)
  case (Cons h hs)
  show ?case
  proof (cases "hk_phase h = phase")
    case True
    show ?thesis
    proof (cases "passes ctx h")
      case pass: True
      then obtain r where "invoke_hook h ctx = Inr r" "oc_verdict r = HookAllow" using invoke_passes by blast
      then show ?thesis using True pass Cons.IH[of "outcomes @ [r]"]
        by (cases "dropWhile (passes ctx) (filter (\<lambda>h. hk_phase h = phase) hs)") (simp_all add: chain_result_def Let_def del: dropWhile_eq_Nil_conv)
    next
      case False
      then show ?thesis using True invoke_passes[of ctx h] by (auto simp: chain_result_def hook_verdict_cases split: sum.split)
    qed
  qed (simp add: Cons.IH)
qed (simp add: chain_result_def)

text \<open>
  The hooks of a phase are called in their order, all on one and the same context, up to the first that does
  not let the call pass: a denial, a cancellation, or the failure of a hook that is not open. Only
  when all of them let it pass there is a result, one outcome for each hook; and in it every
  hook that fails closed has really decided to allow the call.
\<close>

theorem hook_chain_order:
  assumes "hook_snapshot sha256 r phase call sid cid out = Inr ctx"
  defines "hs \<equiv> filter (\<lambda>h. hk_phase h = phase) (hr_hooks r)"
  shows "run_hooks sha256 r phase call sid cid out =
      (case dropWhile (passes ctx) hs of
         [] \<Rightarrow> (hs, Inr (map (\<lambda>h. projr (invoke_hook h ctx)) hs))
       | h # _ \<Rightarrow> (takeWhile (passes ctx) hs @ [h], Inl (case invoke_hook h ctx of Inl e \<Rightarrow> e | Inr o1 \<Rightarrow> HookDenied o1))) \<and>
    (\<forall>called os. run_hooks sha256 r phase call sid cid out = (called, Inr os) \<longrightarrow> map oc_name os = map hk_name hs \<and>
       (\<forall>h \<in> set hs. hk_failure_policy h = FailClosed \<longrightarrow> (\<exists>d. hk_callback h ctx = Decided d \<and> hd_verdict d = HookAllow)))"
proof -
  have run: "run_hooks sha256 r phase call sid cid out = chain_result ctx [] hs"
    using assms by (simp add: run_hooks_def run_chain_eq)
  have all: "takeWhile (passes ctx) hs = hs" if "dropWhile (passes ctx) hs = []"
    using that takeWhile_dropWhile_id[of "passes ctx" hs] by simp
  have first: "chain_result ctx [] hs = (case dropWhile (passes ctx) hs of
         [] \<Rightarrow> (hs, Inr (map (\<lambda>h. projr (invoke_hook h ctx)) hs))
       | h # _ \<Rightarrow> (takeWhile (passes ctx) hs @ [h], Inl (case invoke_hook h ctx of Inl e \<Rightarrow> e | Inr o1 \<Rightarrow> HookDenied o1)))"
  proof (cases "dropWhile (passes ctx) hs")
    case Nil
    show ?thesis unfolding chain_result_def Let_def Nil all[OF Nil] by simp
  qed (simp add: chain_result_def Let_def)
  have "map oc_name os = map hk_name hs \<and>
       (\<forall>h \<in> set hs. hk_failure_policy h = FailClosed \<longrightarrow> (\<exists>d. hk_callback h ctx = Decided d \<and> hd_verdict d = HookAllow))"
    if "chain_result ctx [] hs = (called, Inr os)" for called os
  proof -
    have d: "dropWhile (passes ctx) hs = []" and os: "os = map (\<lambda>h. projr (invoke_hook h ctx)) hs"
      using that first by (auto split: list.splits)
    have p: "passes ctx h" if "h \<in> set hs" for h using all[OF d] that by (metis set_takeWhileD)
    have "oc_name (projr (invoke_hook h ctx)) = hk_name h" if "h \<in> set hs" for h
      using p[OF that] invoke_name[of h ctx] by (auto simp: invoke_passes)
    moreover have "\<exists>d. hk_callback h ctx = Decided d \<and> hd_verdict d = HookAllow" if "h \<in> set hs" "hk_failure_policy h = FailClosed" for h
      using p[OF that(1)] that(2) by (auto simp: passes_def split: callback_end.splits)
    ultimately show ?thesis using os by simp
  qed
  then show ?thesis using run first by simp
qed

text \<open>
  What the hooks see determines the call: two snapshots with the same bytes are of arguments that differ
  at most in the order of their keys. A snapshot fails exactly if a value is not JSON or too long.
\<close>

theorem hook_snapshot_faithful:
  assumes "hook_snapshot sha256 r phase call sid cid out = Inr ctx" "hook_snapshot sha256 r' phase' call' sid' cid' out' = Inr ctx'"
    and "wf_json (JObj (tc_arguments call))" "wf_json (JObj (tc_arguments call'))" "hc_input_json ctx = hc_input_json ctx'"
  shows "same_json (JObj (tc_arguments call)) (JObj (tc_arguments call')) \<and> hc_input_sha256 ctx = sha256 (hc_input_json ctx) \<and>
    int (length (hc_input_json ctx)) \<le> hr_max_snapshot_bytes r \<and> hc_tool_name ctx = tc_name call \<and> hc_tool_call_id ctx = tc_id call"
proof -
  have a: "canonical (JObj (tc_arguments call)) = Some (hc_input_json ctx)" "int (length (hc_input_json ctx)) \<le> hr_max_snapshot_bytes r"
    "hc_input_sha256 ctx = sha256 (hc_input_json ctx)" "hc_tool_name ctx = tc_name call" "hc_tool_call_id ctx = tc_id call"
    using assms(1) by (auto simp: hook_snapshot_def snapshot_json_def res_simps split: option.splits if_splits)
  have "canonical (JObj (tc_arguments call')) = Some (hc_input_json ctx')"
    using assms(2) by (auto simp: hook_snapshot_def snapshot_json_def res_simps split: option.splits if_splits)
  then show ?thesis using canonical_inject[OF assms(3,4) a(1)] assms(5) a(2-) by simp
qed

section \<open>Witnesses\<close>

definition demo_hook :: "string \<Rightarrow> hook_failure_policy \<Rightarrow> callback_end \<Rightarrow> tool_hook" where
  "demo_hook n x e = \<lparr>hk_name = n, hk_phase = PreTool, hk_timeout_seconds = 1, hk_failure_policy = x, hk_callback = \<lambda>_. e\<rparr>"

definition demo_runner :: hook_runner where
  "demo_runner = \<lparr>hr_hooks = [demo_hook ''a'' FailOpen CallbackRaised, demo_hook ''b'' FailClosed CallbackTimedOut,
     demo_hook ''c'' FailClosed CallbackRaised], hr_max_snapshot_bytes = 1024\<rparr>"

definition demo_hook_call :: tool_call where
  "demo_hook_call = \<lparr>tc_id = ''i'', tc_name = ''t'', tc_arguments = []\<rparr>"

lemma demo_snapshot: "returns (hook_snapshot (\<lambda>s. s) demo_runner PreTool demo_hook_call ''s'' ''c'' None)"
  by (simp add: hook_snapshot_def snapshot_json_def canonical_def demo_hook_call_def demo_runner_def utf8_encode_def utf8_char_def code_of_def)

theorem hook_chain_order_witness:
  "\<exists>r. run_pre (\<lambda>s. s) demo_runner demo_hook_call ''s'' ''c'' =
     ([demo_hook ''a'' FailOpen CallbackRaised, demo_hook ''b'' FailClosed CallbackTimedOut], Inl (HookDenied r)) \<and> oc_timed_out r"
proof -
  obtain ctx where "hook_snapshot (\<lambda>s. s) demo_runner PreTool demo_hook_call ''s'' ''c'' None = Inr ctx"
    using demo_snapshot by (auto simp: returns_iff)
  from hook_chain_order[OF this] show ?thesis
    by (simp add: run_pre_def demo_runner_def demo_hook_def passes_def invoke_hook_def failure_outcome_def)
qed

theorem hook_snapshot_faithful_witness:
  "\<exists>ctx. hook_snapshot (\<lambda>s. s) demo_runner PreTool demo_hook_call ''s'' ''c'' None = Inr ctx \<and> hc_input_sha256 ctx = hc_input_json ctx"
proof -
  obtain ctx where c: "hook_snapshot (\<lambda>s. s) demo_runner PreTool demo_hook_call ''s'' ''c'' None = Inr ctx"
    using demo_snapshot by (auto simp: returns_iff)
  from hook_snapshot_faithful[OF c c] c show ?thesis by (simp add: demo_hook_call_def)
qed

end
