(* ===== verification/AgentMemory.thy ===== *)
theory AgentMemory
  imports AgentSchemas CanonicalJson RevisionStore "HOL-Library.Product_Lexorder"
begin

text \<open>
  The memory store of the agent (\<open>zeaz_agent/memory.py\<close>): records in namespaces, writes with optimistic
  concurrency, and the search with its escaped \<open>LIKE\<close> pattern. The database is the table \<open>memories\<close>, an
  association list under the primary key; SQLite's \<open>LIKE\<close> and \<open>ORDER BY\<close> are modelled as documented, for
  texts without NUL. What Pydantic writes for a record and reads back, and \<open>isoformat\<close>, are parameters.
\<close>

section \<open>Records\<close>

datatype memory_kind = Episodic | Semantic | Preference

record memory_record =
  mr_id :: string
  mr_namespace :: string
  mr_key :: string
  mr_kind :: memory_kind
  mr_content :: string
  mr_tags :: "string list"
  mr_metadata :: "json dict"
  mr_revision :: int
  mr_created_at :: py_datetime
  mr_updated_at :: py_datetime

definition memory_tag :: "string \<Rightarrow> bool" where
  "memory_tag s = (s \<noteq> [] \<and> length s \<le> 64 \<and> ascii_alnum (hd s) \<and> list_all (\<lambda>c. ascii_alnum c \<or> c \<in> set ''_.:-'') (tl s))"

definition MemoryRecord :: "memory_record \<Rightarrow> memory_record res" where
  "MemoryRecord r =
     bindE (check (identifier_text (mr_namespace r) \<and> identifier_text (mr_key r)) ''namespace'') (\<lambda>_.
     bindE (check (text_between 1 65536 (mr_content r)) ''content'') (\<lambda>_.
     bindE (check (length (mr_tags r) \<le> 64 \<and> list_all memory_tag (mr_tags r)) ''tags'') (\<lambda>_.
     bindE (check (0 \<le> mr_revision r) ''revision'') (\<lambda>_.
     bindE (check (has_timezone (mr_created_at r) \<and> has_timezone (mr_updated_at r)) ''memory timestamps must include a UTC offset'') (\<lambda>_.
     bindE (check (\<not> dt_instant (mr_updated_at r) < dt_instant (mr_created_at r)) ''updated_at cannot precede created_at'') (\<lambda>_.
     bindE (check (distinct (mr_tags r)) ''memory tags must be unique'') (\<lambda>_. Inr r)))))))"

datatype memory_error = MemoryNotFound | MemoryConflict string | MemoryIntegrityError string | MemoryValueError string

definition memory_check :: "bool \<Rightarrow> memory_error \<Rightarrow> memory_error + unit" where
  "memory_check ok e = (if ok then Inr () else Inl e)"

lemma memory_check_Inr [res_simps]: "memory_check ok e = Inr u \<longleftrightarrow> ok"
  by (simp add: memory_check_def)

record memory_row =
  mw_key :: string
  mw_revision :: int
  mw_content :: string
  mw_document :: string
  mw_updated_at :: string

type_synonym memory_table = "((string \<times> string) \<times> memory_row) list"

record memory_env =
  me_dump :: "memory_record \<Rightarrow> string"
  me_validate :: "string \<Rightarrow> memory_record option"
  me_isotime :: "py_datetime \<Rightarrow> string"
  me_max_record_bytes :: int

definition memory_key :: "memory_record \<Rightarrow> string \<times> string" where
  "memory_key r = (mr_namespace r, mr_id r)"

definition encode_memory :: "memory_env \<Rightarrow> memory_record \<Rightarrow> memory_error + string" where
  "encode_memory env r =
     (let document = me_dump env r
      in if int (length (utf8_encode document)) > me_max_record_bytes env
         then Inl (MemoryValueError ''memory record exceeds the configured size limit'') else Inr document)"

definition decode_memory :: "memory_env \<Rightarrow> string \<times> string \<Rightarrow> memory_row \<Rightarrow> memory_error + memory_record" where
  "decode_memory env k row =
     bindE (memory_check (\<not> int (length (utf8_encode (mw_document row))) > me_max_record_bytes env)
       (MemoryIntegrityError ''stored memory exceeds the size limit'')) (\<lambda>_.
     case me_validate env (mw_document row) of
       None \<Rightarrow> Inl (MemoryIntegrityError ''stored memory failed schema validation'')
     | Some r \<Rightarrow>
         bindE (memory_check (\<not> (mr_namespace r \<noteq> fst k \<or> mr_id r \<noteq> snd k \<or> mr_revision r \<noteq> mw_revision row \<or> mr_content r \<noteq> mw_content row))
           (MemoryIntegrityError ''stored memory indexes are inconsistent'')) (\<lambda>_. Inr r))"

definition memory_row_of :: "memory_env \<Rightarrow> memory_record \<Rightarrow> string \<Rightarrow> memory_row" where
  "memory_row_of env r document = \<lparr>mw_key = mr_key r, mw_revision = mr_revision r, mw_content = mr_content r,
     mw_document = document, mw_updated_at = me_isotime env (mr_updated_at r)\<rparr>"

definition insert_memory :: "memory_env \<Rightarrow> memory_record \<Rightarrow> memory_table \<Rightarrow> memory_error + memory_table" where
  "insert_memory env r db =
     bindE (encode_memory env r) (\<lambda>document.
     bindE (memory_check (map_of db (memory_key r) = None \<and> 0 \<le> mr_revision r) (MemoryConflict ''memory already exists'')) (\<lambda>_.
     Inr (db @ [(memory_key r, memory_row_of env r document)])))"

definition update_memory :: "memory_env \<Rightarrow> memory_record \<Rightarrow> int \<Rightarrow> memory_table \<Rightarrow> memory_error + memory_table" where
  "update_memory env r expected_revision db =
     bindE (encode_memory env r) (\<lambda>document.
     bindE (memory_check (\<not> expected_revision < 0) (MemoryValueError ''expected_revision cannot be negative'')) (\<lambda>_.
     bindE (memory_check (\<not> mr_revision r \<le> expected_revision) (MemoryValueError ''new memory revision must exceed expected_revision'')) (\<lambda>_.
     case map_of db (memory_key r) of
       None \<Rightarrow> Inl MemoryNotFound
     | Some row \<Rightarrow>
         if mw_revision row = expected_revision then Inr (AList.update (memory_key r) (memory_row_of env r document) db)
         else Inl (MemoryConflict ''memory revision changed concurrently''))))"

definition put_memory :: "memory_env \<Rightarrow> memory_record \<Rightarrow> int option \<Rightarrow> memory_table \<Rightarrow> memory_error + memory_table" where
  "put_memory env r expected_revision db = (case expected_revision of
     None \<Rightarrow> insert_memory env r db | Some e \<Rightarrow> update_memory env r e db)"

definition get_memory :: "memory_env \<Rightarrow> memory_table \<Rightarrow> string \<times> string \<Rightarrow> memory_error + memory_record" where
  "get_memory env db k = (case map_of db k of None \<Rightarrow> Inl MemoryNotFound | Some row \<Rightarrow> decode_memory env k row)"

section \<open>Search\<close>

definition percent :: char where "percent = CHR ''%''"

definition underscore :: char where "underscore = CHR ''_''"

text \<open>\<open>s.replace(c, "\\" + c)\<close>.\<close>

definition replace_char :: "char \<Rightarrow> string \<Rightarrow> string" where
  "replace_char c s = concat (map (\<lambda>d. if d = c then [bslash, c] else [d]) s)"

definition like_pattern :: "string \<Rightarrow> string" where
  "like_pattern query = [percent] @ replace_char underscore (replace_char percent (replace_char bslash query)) @ [percent]"

text \<open>SQLite's \<open>LIKE\<close> with \<open>ESCAPE '\'\<close>: letters of ASCII in either case are the same.\<close>

definition fold_case :: "char \<Rightarrow> char" where
  "fold_case c = (if 65 \<le> code_of c \<and> code_of c \<le> 90 then char_of (code_of c + 32) else c)"

fun like :: "string \<Rightarrow> string \<Rightarrow> bool" where
  "like [] t = (t = [])"
| "like (p # ps) t =
     (if p = bslash then (case ps of [] \<Rightarrow> False
        | q # qs \<Rightarrow> (case t of [] \<Rightarrow> False | c # cs \<Rightarrow> fold_case c = fold_case q \<and> like qs cs))
      else if p = percent then like ps t \<or> (case t of [] \<Rightarrow> False | c # cs \<Rightarrow> like (p # ps) cs)
      else (case t of [] \<Rightarrow> False | c # cs \<Rightarrow> (p = underscore \<or> fold_case c = fold_case p) \<and> like ps cs))"

text \<open>\<open>ORDER BY updated_at DESC, memory_id ASC\<close>.\<close>

definition row_before :: "(string \<times> string) \<times> memory_row \<Rightarrow> (string \<times> string) \<times> memory_row \<Rightarrow> bool" where
  "row_before x y = (mw_updated_at (snd y) < mw_updated_at (snd x) \<or>
     mw_updated_at (snd x) = mw_updated_at (snd y) \<and> snd (fst x) < snd (fst y))"

fun insert_row :: "(string \<times> string) \<times> memory_row \<Rightarrow> memory_table \<Rightarrow> memory_table" where
  "insert_row x [] = [x]"
| "insert_row x (y # ys) = (if row_before y x then y # insert_row x ys else x # y # ys)"

definition order_rows :: "memory_table \<Rightarrow> memory_table" where
  "order_rows rows = foldr insert_row rows []"

definition row_matches :: "string \<Rightarrow> string \<Rightarrow> (string \<times> string) \<times> memory_row \<Rightarrow> bool" where
  "row_matches namespace pattern x = (fst (fst x) = namespace \<and> (like pattern (mw_content (snd x)) \<or> like pattern (mw_key (snd x))))"

definition search_memory :: "memory_env \<Rightarrow> memory_table \<Rightarrow> string \<Rightarrow> string \<Rightarrow> int \<Rightarrow> memory_error + memory_record list" where
  "search_memory env db namespace query limit =
     bindE (memory_check (1 \<le> length query \<and> length query \<le> 256)
       (MemoryValueError ''memory query must contain between 1 and 256 characters'')) (\<lambda>_.
     bindE (memory_check (1 \<le> limit \<and> limit \<le> 100) (MemoryValueError ''memory search limit must be between 1 and 100'')) (\<lambda>_.
     mapE (\<lambda>x. decode_memory env (fst x) (snd x))
       (take (nat limit) (order_rows (filter (row_matches namespace (like_pattern query)) db)))))"

section \<open>Writes\<close>

definition memory_revisions :: "memory_table \<Rightarrow> string \<times> string \<Rightarrow> (int \<times> memory_row) option" where
  "memory_revisions db k = map_option (\<lambda>row. (mw_revision row, row)) (map_of db k)"

lemma insert_memory_Inr:
  "insert_memory env r db = Inr db' \<longleftrightarrow> map_of db (memory_key r) = None \<and> 0 \<le> mr_revision r \<and>
     int (length (utf8_encode (me_dump env r))) \<le> me_max_record_bytes env \<and>
     db' = db @ [(memory_key r, memory_row_of env r (me_dump env r))]"
  by (auto simp: insert_memory_def encode_memory_def Let_def res_simps)

lemma update_memory_Inr:
  "update_memory env r e db = Inr db' \<longleftrightarrow> 0 \<le> e \<and> e < mr_revision r \<and>
     int (length (utf8_encode (me_dump env r))) \<le> me_max_record_bytes env \<and>
     (\<exists>row. map_of db (memory_key r) = Some row \<and> mw_revision row = e) \<and>
     db' = AList.update (memory_key r) (memory_row_of env r (me_dump env r)) db"
  by (auto simp: update_memory_def encode_memory_def Let_def res_simps split: option.splits if_splits)

interpretation memories: revision_store memory_key mr_revision "insert_memory env" "get_memory env" "update_memory env" memory_revisions
  for env
proof
  fix r :: memory_record and db db' :: memory_table and e :: int
  have revisions: "memory_revisions (AList.update k row db) = (memory_revisions db)(k \<mapsto> (mw_revision row, row))"
      "map_of db k = None \<Longrightarrow> memory_revisions (db @ [(k, row)]) = (memory_revisions db)(k \<mapsto> (mw_revision row, row))" for k row
    by (auto simp: memory_revisions_def update_conv fun_eq_iff map_add_def split: option.split)
  show "insert_memory env r db = Inr db' \<Longrightarrow>
      memory_revisions db (memory_key r) = None \<and> (\<exists>d. memory_revisions db' = (memory_revisions db)(memory_key r \<mapsto> (mr_revision r, d)))"
    using revisions(2)[of "memory_key r"] by (auto simp: insert_memory_Inr memory_row_of_def) (simp add: memory_revisions_def)
  show "update_memory env r e db = Inr db' \<Longrightarrow> e < mr_revision r \<and>
      (\<exists>d d'. memory_revisions db (memory_key r) = Some (e, d) \<and> memory_revisions db' = (memory_revisions db)(memory_key r \<mapsto> (mr_revision r, d')))"
    using revisions(1) by (auto simp: update_memory_Inr memory_row_of_def) (simp add: memory_revisions_def)
  show "get_memory env db k = Inr r \<Longrightarrow> memory_key r = k \<and> (\<exists>d. memory_revisions db k = Some (mr_revision r, d))" for k
    by (auto simp: get_memory_def decode_memory_def memory_key_def memory_revisions_def res_simps prod_eq_iff split: option.splits)
  show "memory_revisions db (memory_key r) = Some (v, d) \<Longrightarrow> v \<noteq> e \<Longrightarrow> \<not> returns (update_memory env r e db)" for v d
    by (auto simp: returns_iff update_memory_Inr memory_revisions_def)
qed

inductive memory_write :: "memory_env \<Rightarrow> memory_table \<Rightarrow> memory_table \<Rightarrow> bool" for env where
  "put_memory env r e db = Inr db' \<Longrightarrow> memory_write env db db'"

lemma memory_write_eq: "memories.write_op env = memory_write env"
proof (intro ext iffI)
  show "memory_write env db db'" if "memories.write_op env db db'" for db db'
    using that
  proof cases
    case (write_create r)
    then show ?thesis by (intro memory_write.intros[of env r None]) (simp add: put_memory_def)
  next
    case (write_save r e)
    then show ?thesis by (intro memory_write.intros[of env r "Some e"]) (simp add: put_memory_def)
  qed
  show "memories.write_op env db db'" if "memory_write env db db'" for db db'
    using that by cases (auto simp: put_memory_def split: option.splits intro: memories.write_op.intros)
qed

text \<open>
  An update of a memory that was read succeeds only if nobody has written it since, and then every
  other update of the revision that was read fails, whatever is written in between. What was put is
  what is got, and no other memory changes.
\<close>

theorem memory_update_not_lost:
  assumes "get_memory env db k = Inr r0" "(memory_write env)\<^sup>*\<^sup>* db db1"
    and "put_memory env r (Some (mr_revision r0)) db1 = Inr db2" "memory_key r = k"
    and "(memory_write env)\<^sup>*\<^sup>* db2 db3" "me_validate env (me_dump env r) = Some r"
  shows "get_memory env db1 k = Inr r0 \<and> get_memory env db2 k = Inr r \<and> mr_revision r0 < mr_revision r \<and>
    (\<forall>k'. k' \<noteq> k \<longrightarrow> get_memory env db2 k' = get_memory env db1 k') \<and>
    (\<forall>r'. memory_key r' = k \<longrightarrow> \<not> returns (put_memory env r' (Some (mr_revision r0)) db3))"
proof -
  have u: "update_memory env r (mr_revision r0) db1 = Inr db2" using assms(3) by (simp add: put_memory_def)
  have "memory_revisions db1 k = memory_revisions db k"
    by (rule memories.save_sees_loaded_row[OF assms(1) _ u assms(4)]) (use assms(2) in \<open>simp add: memory_write_eq\<close>)
  then have "map_of db1 k = map_of db k" by (cases "map_of db1 k"; cases "map_of db k") (simp_all add: memory_revisions_def)
  then have "get_memory env db1 k = Inr r0" using assms(1) by (simp add: get_memory_def)
  moreover have "get_memory env db2 k = Inr r"
  proof -
    have "map_of db2 k = Some (memory_row_of env r (me_dump env r))" "int (length (utf8_encode (me_dump env r))) \<le> me_max_record_bytes env"
      using u assms(4) by (auto simp: update_memory_Inr update_conv)
    then show ?thesis using assms(4,6)
      by (simp add: get_memory_def decode_memory_def memory_row_of_def memory_check_def) (auto simp: memory_key_def)
  qed
  moreover have "mr_revision r0 < mr_revision r \<and> (\<forall>k'. k' \<noteq> k \<longrightarrow> get_memory env db2 k' = get_memory env db1 k')"
    using u assms(4) by (auto simp: update_memory_Inr get_memory_def update_conv)
  moreover have "\<not> returns (put_memory env r' (Some (mr_revision r0)) db3)" if "memory_key r' = k" for r'
    using memories.stale_save_fails[OF u, of db3 r'] assms(4,5) that by (simp add: memory_write_eq put_memory_def)
  ultimately show ?thesis by blast
qed

section \<open>What a search finds\<close>

definition escape_char :: "char \<Rightarrow> string" where
  "escape_char c = (if c = bslash \<or> c = percent \<or> c = underscore then [bslash, c] else [c])"

lemma escaped_query:
  "replace_char underscore (replace_char percent (replace_char bslash q)) = concat (map escape_char q)"
  by (induction q) (auto simp: replace_char_def percent_def underscore_def escape_char_def)

declare like.simps(2) [simp del]

lemma like_escaped: "like (escape_char c @ ps) t \<longleftrightarrow> (\<exists>d u. t = d # u \<and> fold_case d = fold_case c \<and> like ps u)"
  by (cases t) (auto simp: escape_char_def like.simps(2))

lemma like_percent: "like (percent # ps) t \<longleftrightarrow> like ps t \<or> (\<exists>c u. t = c # u \<and> like (percent # ps) u)"
proof -
  have "percent \<noteq> bslash" by (simp add: percent_def)
  then show ?thesis by (subst like.simps(2)) (auto split: list.split)
qed

lemma like_literal:
  "like (concat (map escape_char q) @ ps) t \<longleftrightarrow> (\<exists>m u. t = m @ u \<and> map fold_case m = map fold_case q \<and> like ps u)"
proof (induction q arbitrary: t)
  case (Cons c q)
  have "like (concat (map escape_char (c # q)) @ ps) t \<longleftrightarrow>
      (\<exists>d v. t = d # v \<and> fold_case d = fold_case c \<and> (\<exists>m u. v = m @ u \<and> map fold_case m = map fold_case q \<and> like ps u))"
    by (simp add: like_escaped Cons.IH)
  also have "\<dots> \<longleftrightarrow> (\<exists>m u. t = m @ u \<and> map fold_case m = map fold_case (c # q) \<and> like ps u)"
    (is "?A \<longleftrightarrow> ?B")
  proof
    assume ?A
    then obtain d m u where "t = (d # m) @ u \<and> map fold_case (d # m) = map fold_case (c # q) \<and> like ps u" by auto
    then show ?B by blast
  next
    assume ?B
    then obtain d m u where "t = d # (m @ u) \<and> fold_case d = fold_case c \<and> map fold_case m = map fold_case q \<and> like ps u"
      by (auto simp: map_eq_Cons_conv)
    then show ?A by blast
  qed
  finally show ?case .
qed simp

lemma like_any: "like (percent # ps) t \<longleftrightarrow> (\<exists>a u. t = a @ u \<and> like ps u)"
proof (induction t)
  case Nil
  then show ?case using like_percent[of ps "[]"] by simp
next
  case (Cons c t)
  have "like (percent # ps) (c # t) \<longleftrightarrow> like ps (c # t) \<or> like (percent # ps) t" using like_percent[of ps "c # t"] by simp
  also have "\<dots> \<longleftrightarrow> like ps (c # t) \<or> (\<exists>a u. t = a @ u \<and> like ps u)" by (simp add: Cons.IH)
  also have "\<dots> \<longleftrightarrow> (\<exists>a u. c # t = a @ u \<and> like ps u)" by (metis append_Cons append_Nil list.exhaust list.inject)
  finally show ?case .
qed

text \<open>The pattern of a query finds it anywhere in a text, as it stands but for the case of ASCII letters.\<close>

definition occurs :: "string \<Rightarrow> string \<Rightarrow> bool" where
  "occurs query t = (\<exists>a m b. t = a @ m @ b \<and> map fold_case m = map fold_case query)"

lemma like_pattern_occurs: "like (like_pattern query) t \<longleftrightarrow> occurs query t"
proof -
  have "like (like_pattern query) t \<longleftrightarrow> (\<exists>a u. t = a @ u \<and> (\<exists>m v. u = m @ v \<and> map fold_case m = map fold_case query \<and> like [percent] v))"
    by (simp only: like_pattern_def append_Cons append_Nil like_any escaped_query like_literal)
  moreover have "like [percent] v = True" for v by (simp add: like_any)
  ultimately show ?thesis by (simp add: occurs_def) blast
qed

lemma set_insert_row [simp]: "set (insert_row x ys) = insert x (set ys)"
  by (induction ys) auto

lemma mset_insert_row: "length (insert_row x ys) = Suc (length ys)" "distinct (x # ys) \<Longrightarrow> distinct (insert_row x ys)"
  by (induction ys) auto

lemma set_order_rows [simp]: "set (order_rows rows) = set rows"
  by (induction rows) (simp_all add: order_rows_def)

lemma distinct_order_rows: "distinct rows \<Longrightarrow> distinct (order_rows rows)"
  by (induction rows) (use set_order_rows in \<open>auto simp: order_rows_def intro!: mset_insert_row(2)\<close>)

lemma row_before_trans: "row_before x y \<Longrightarrow> row_before y z \<Longrightarrow> row_before x z"
  by (auto simp: row_before_def)

lemma insert_row_sorted:
  assumes "sorted_wrt row_before ys" "\<And>y. y \<in> set ys \<Longrightarrow> row_before x y \<or> row_before y x"
  shows "sorted_wrt row_before (insert_row x ys)"
  using assms
proof (induction ys)
  case (Cons y ys)
  show ?case
  proof (cases "row_before y x")
    case True
    then show ?thesis using Cons by (simp del: split_paired_All)
  next
    case False
    then have "row_before x y" using Cons.prems(2)[of y] by simp
    moreover have "row_before x z" if "z \<in> set ys" for z
      using row_before_trans[OF \<open>row_before x y\<close>, of z] Cons.prems(1) that by simp
    ultimately show ?thesis using False Cons.prems(1) by simp
  qed
qed simp

lemma order_rows_sorted:
  assumes "distinct (map fst rows)" "\<And>x. x \<in> set rows \<Longrightarrow> fst (fst x) = namespace"
  shows "sorted_wrt row_before (order_rows rows)"
  using assms
proof (induction rows)
  case (Cons x rows)
  have "row_before x y \<or> row_before y x" if "y \<in> set rows" for y
  proof -
    have "fst y \<in> fst ` set rows" using that by (rule imageI)
    moreover have "fst x \<notin> fst ` set rows" using Cons.prems(1) by simp
    ultimately have "fst x \<noteq> fst y" by metis
    moreover have "fst (fst x) = fst (fst y)" using Cons.prems(2)[of x] Cons.prems(2)[of y] that by simp
    ultimately have "snd (fst x) \<noteq> snd (fst y)" by (simp add: prod_eq_iff)
    then show ?thesis using linorder_less_linear[of "snd (fst x)" "snd (fst y)"]
        linorder_less_linear[of "mw_updated_at (snd x)" "mw_updated_at (snd y)"]
      unfolding row_before_def by metis
  qed
  moreover have "sorted_wrt row_before (order_rows rows)" using Cons by auto
  ultimately show ?case using insert_row_sorted[of "order_rows rows" x] set_order_rows[of rows] by (simp add: order_rows_def)
qed (simp add: order_rows_def)

text \<open>Every row holds the record that its document describes; writes keep that.\<close>

definition row_ok :: "memory_env \<Rightarrow> (string \<times> string) \<times> memory_row \<Rightarrow> bool" where
  "row_ok env x = (\<exists>r. decode_memory env (fst x) (snd x) = Inr r \<and> memory_key r = fst x \<and> mw_key (snd x) = mr_key r \<and>
     mw_content (snd x) = mr_content r \<and> mw_updated_at (snd x) = me_isotime env (mr_updated_at r))"

definition memories_ok :: "memory_env \<Rightarrow> memory_table \<Rightarrow> bool" where
  "memories_ok env db = (distinct (map fst db) \<and> list_all (row_ok env) db)"

lemma row_of_ok:
  assumes "me_validate env (me_dump env r) = Some r" "int (length (utf8_encode (me_dump env r))) \<le> me_max_record_bytes env"
  shows "row_ok env (memory_key r, memory_row_of env r (me_dump env r))"
  unfolding row_ok_def
proof (rule exI[of _ r])
  show "decode_memory env (fst (memory_key r, memory_row_of env r (me_dump env r))) (snd (memory_key r, memory_row_of env r (me_dump env r))) = Inr r \<and>
     memory_key r = fst (memory_key r, memory_row_of env r (me_dump env r)) \<and>
     mw_key (snd (memory_key r, memory_row_of env r (me_dump env r))) = mr_key r \<and>
     mw_content (snd (memory_key r, memory_row_of env r (me_dump env r))) = mr_content r \<and>
     mw_updated_at (snd (memory_key r, memory_row_of env r (me_dump env r))) = me_isotime env (mr_updated_at r)"
    using assms by (simp add: decode_memory_def memory_check_def memory_row_of_def memory_key_def)
qed

lemma list_all_alist_update: "list_all P d \<Longrightarrow> P (k, v) \<Longrightarrow> list_all P (AList.update k v d)"
  by (induction d) auto

text \<open>A write of a record that Pydantic can read back.\<close>

inductive sound_write :: "memory_env \<Rightarrow> memory_table \<Rightarrow> memory_table \<Rightarrow> bool" for env where
  "put_memory env r e db = Inr db' \<Longrightarrow> me_validate env (me_dump env r) = Some r \<Longrightarrow> sound_write env db db'"

lemma put_memory_ok:
  assumes "put_memory env r e db = Inr db'" "me_validate env (me_dump env r) = Some r" "memories_ok env db"
  shows "memories_ok env db'"
proof -
  have ok: "row_ok env (memory_key r, memory_row_of env r (me_dump env r))" if "int (length (utf8_encode (me_dump env r))) \<le> me_max_record_bytes env"
    by (rule row_of_ok[OF assms(2) that])
  show ?thesis
  proof (cases e)
    case None
    then have "insert_memory env r db = Inr db'" using assms(1) by (simp add: put_memory_def)
    then show ?thesis using assms(3) ok by (auto simp: insert_memory_Inr memories_ok_def map_of_eq_None_iff)
  next
    case (Some v)
    then have "update_memory env r v db = Inr db'" using assms(1) by (simp add: put_memory_def)
    then show ?thesis using assms(3) ok by (auto simp: update_memory_Inr memories_ok_def distinct_update intro: list_all_alist_update)
  qed
qed

interpretation memory_machine: invariant_machine "\<lambda>db. db = []" "sound_write env" "memories_ok env" for env
  by unfold_locales (auto simp: memories_ok_def elim!: sound_write.cases dest: put_memory_ok)

text \<open>
  In every table that writes lead to, a search finds the first \<open>limit\<close> of exactly those memories of the
  namespace whose content or key contains the query, up to the case of ASCII letters and with \<open>%\<close>, \<open>_\<close> and
  the backslash as ordinary characters. They come in the order of the texts of their times, the latest
  first, and then of their identifiers; no memory of another namespace is found.
\<close>

theorem search_is_exact:
  assumes "reaches (\<lambda>db. db = []) (sound_write env) db"
    and "1 \<le> length query" "length query \<le> 256" "1 \<le> limit" "limit \<le> 100"
  shows "\<exists>found. search_memory env db namespace query limit = Inr (take (nat limit) found) \<and> distinct (map mr_id found) \<and>
    sorted_wrt (\<lambda>r r'. me_isotime env (mr_updated_at r') < me_isotime env (mr_updated_at r) \<or>
      me_isotime env (mr_updated_at r') = me_isotime env (mr_updated_at r) \<and> mr_id r < mr_id r') found \<and>
    (\<forall>r. r \<in> set found \<longleftrightarrow> get_memory env db (namespace, mr_id r) = Inr r \<and> (occurs query (mr_content r) \<or> occurs query (mr_key r)))"
proof -
  have ok: "distinct (map fst db)" "\<And>x. x \<in> set db \<Longrightarrow> row_ok env x"
    using memory_machine.reachable_inv[OF assms(1)] by (auto simp: memories_ok_def list_all_iff)
  define rows where "rows = order_rows (filter (row_matches namespace (like_pattern query)) db)"
  define dec where "dec x = projr (decode_memory env (fst x) (snd x))" for x
  have set_rows: "set rows = {x \<in> set db. row_matches namespace (like_pattern query) x}" by (auto simp: rows_def)
  have dec: "decode_memory env (fst x) (snd x) = Inr (dec x) \<and> memory_key (dec x) = fst x \<and> mw_key (snd x) = mr_key (dec x) \<and>
      mw_content (snd x) = mr_content (dec x) \<and> mw_updated_at (snd x) = me_isotime env (mr_updated_at (dec x))" if "x \<in> set db" for x
    using ok(2)[OF that] by (auto simp: row_ok_def dec_def)
  let ?found = "map dec rows"
  have namespace: "fst (fst x) = namespace" if "x \<in> set rows" for x using that by (simp add: set_rows row_matches_def)
  have ident: "mr_id (dec x) = snd (fst x)" if "x \<in> set rows" for x
    using dec[of x] that by (auto simp: set_rows memory_key_def prod_eq_iff)
  have "sorted_wrt row_before rows"
    unfolding rows_def by (rule order_rows_sorted) (auto simp: row_matches_def distinct_map_filter ok(1))
  then have sorted: "sorted_wrt (\<lambda>r r'. me_isotime env (mr_updated_at r') < me_isotime env (mr_updated_at r) \<or>
      me_isotime env (mr_updated_at r') = me_isotime env (mr_updated_at r) \<and> mr_id r < mr_id r') ?found"
    unfolding sorted_wrt_map
    by (rule sorted_wrt_mono_rel[rotated]) (use dec ident set_rows in \<open>auto simp: row_before_def\<close>)
  have distinct: "distinct (map mr_id ?found)"
  proof -
    have "distinct rows" unfolding rows_def using ok(1) by (intro distinct_order_rows distinct_filter) (simp add: distinct_map)
    moreover have "inj_on (\<lambda>x. mr_id (dec x)) (set rows)"
    proof (rule inj_onI)
      fix x y assume xy: "x \<in> set rows" "y \<in> set rows" "mr_id (dec x) = mr_id (dec y)"
      then have "fst x = fst y" using ident namespace by (simp add: prod_eq_iff)
      then show "x = y" using xy(1,2) ok(1) by (auto simp: set_rows distinct_map dest: inj_onD)
    qed
    ultimately show ?thesis by (simp add: distinct_map o_def)
  qed
  have found: "r \<in> set ?found \<longleftrightarrow> get_memory env db (namespace, mr_id r) = Inr r \<and> (occurs query (mr_content r) \<or> occurs query (mr_key r))" for r
  proof
    assume "r \<in> set ?found"
    then obtain x where x: "x \<in> set rows" "r = dec x" by auto
    then have k: "fst x = (namespace, mr_id r)" using namespace ident by (simp add: prod_eq_iff)
    have in_db: "x \<in> set db" "row_matches namespace (like_pattern query) x" using x by (auto simp: set_rows)
    have "map_of db (fst x) = Some (snd x)" using ok(1) in_db(1) by (simp add: map_of_is_SomeI)
    then show "get_memory env db (namespace, mr_id r) = Inr r \<and> (occurs query (mr_content r) \<or> occurs query (mr_key r))"
      using dec[OF in_db(1)] in_db(2) x(2) k by (auto simp: get_memory_def row_matches_def like_pattern_occurs)
  next
    assume r: "get_memory env db (namespace, mr_id r) = Inr r \<and> (occurs query (mr_content r) \<or> occurs query (mr_key r))"
    then obtain row where row: "map_of db (namespace, mr_id r) = Some row" "decode_memory env (namespace, mr_id r) row = Inr r"
      by (auto simp: get_memory_def split: option.splits)
    let ?x = "((namespace, mr_id r), row)"
    have x: "?x \<in> set db" using row(1) by (rule map_of_SomeD)
    then have "dec ?x = r" using dec[OF x] row(2) by simp
    moreover have "?x \<in> set rows" using x dec[OF x] \<open>dec ?x = r\<close> r by (auto simp: set_rows row_matches_def like_pattern_occurs)
    ultimately show "r \<in> set ?found" by force
  qed
  have "mapE (\<lambda>x. decode_memory env (fst x) (snd x)) (take (nat limit) rows) = Inr (map dec (take (nat limit) rows))"
    by (rule mapE_pure) (use dec set_rows in \<open>auto dest!: in_set_takeD\<close>)
  then have "search_memory env db namespace query limit = Inr (take (nat limit) ?found)"
    using assms(2-5) by (simp add: search_memory_def memory_check_def rows_def take_map)
  then show ?thesis using sorted distinct found by blast
qed

section \<open>Witnesses\<close>

definition demo_memory :: "int \<Rightarrow> memory_record" where
  "demo_memory n = \<lparr>mr_id = ''i'', mr_namespace = ''n'', mr_key = ''k'', mr_kind = Semantic, mr_content = ''100% Sure'', mr_tags = [],
     mr_metadata = [], mr_revision = n, mr_created_at = \<lparr>dt_instant = 0, dt_offset = Some 0\<rparr>,
     mr_updated_at = \<lparr>dt_instant = 0, dt_offset = Some 0\<rparr>\<rparr>"

definition demo_memory_env :: memory_env where
  "demo_memory_env = \<lparr>me_dump = \<lambda>r. int_str (mr_revision r), me_validate = \<lambda>d. Some (demo_memory (int_of_text d)), me_isotime = \<lambda>_. ''t'',
     me_max_record_bytes = 1024\<rparr>"

lemma demo_memory_codec: "me_validate demo_memory_env (me_dump demo_memory_env (demo_memory n)) = Some (demo_memory n)"
  by (simp add: demo_memory_env_def int_of_text_int_str) (simp add: demo_memory_def)

definition demo_table :: "int \<Rightarrow> memory_table" where
  "demo_table n = [((''n'', ''i''), memory_row_of demo_memory_env (demo_memory n) (int_str n))]"

lemma demo_put:
  "put_memory demo_memory_env (demo_memory 0) None [] = Inr (demo_table 0)"
  "put_memory demo_memory_env (demo_memory 1) (Some 0) (demo_table 0) = Inr (demo_table 1)"
proof -
  have sizes: "length (utf8_encode (int_str 0)) \<le> 1024" "length (utf8_encode (int_str 1)) \<le> 1024" by code_simp+
  show "put_memory demo_memory_env (demo_memory 0) None [] = Inr (demo_table 0)"
    using sizes(1) by (simp add: put_memory_def insert_memory_Inr demo_table_def) (simp add: demo_memory_env_def demo_memory_def memory_key_def)
  show "put_memory demo_memory_env (demo_memory 1) (Some 0) (demo_table 0) = Inr (demo_table 1)"
    using sizes(2) by (simp add: put_memory_def update_memory_Inr demo_table_def memory_row_of_def)
      (simp add: demo_memory_env_def demo_memory_def memory_key_def)
qed

lemma demo_get: "get_memory demo_memory_env (demo_table 0) (''n'', ''i'') = Inr (demo_memory 0)"
proof -
  have sizes: "length (utf8_encode (int_str 0)) \<le> 1024" by code_simp
  then show ?thesis
    by (simp add: get_memory_def demo_table_def decode_memory_def memory_check_def memory_row_of_def demo_memory_env_def int_of_text_int_str)
      (simp add: demo_memory_def)
qed

theorem memory_update_not_lost_witness:
  "get_memory demo_memory_env (demo_table 1) (''n'', ''i'') = Inr (demo_memory 1) \<and>
   \<not> returns (put_memory demo_memory_env (demo_memory 7) (Some 0) (demo_table 1))"
proof -
  have k: "memory_key (demo_memory n) = (''n'', ''i'')" "mr_revision (demo_memory n) = n" for n by (simp_all add: demo_memory_def memory_key_def)
  show ?thesis
    using memory_update_not_lost[OF demo_get rtranclp.rtrancl_refl _ k(1) rtranclp.rtrancl_refl demo_memory_codec, of 1 "demo_table 1"]
      demo_put(2) by (auto simp: k)
qed

theorem search_is_exact_witness: "\<exists>r. search_memory demo_memory_env (demo_table 0) ''n'' ''0% s'' 5 = Inr [r] \<and> mr_id r = ''i''"
proof -
  have "reaches (\<lambda>db. db = []) (sound_write demo_memory_env) (demo_table 0)"
    by (rule reaches_step[where s = "[]"], rule reaches_init, simp, rule sound_write.intros[OF demo_put(1) demo_memory_codec])
  from search_is_exact[OF this, of "''0% s''" 5 "''n''"] obtain found where
    f: "search_memory demo_memory_env (demo_table 0) ''n'' ''0% s'' 5 = Inr (take 5 found)" "distinct (map mr_id found)"
      "\<forall>r. r \<in> set found \<longleftrightarrow> get_memory demo_memory_env (demo_table 0) (''n'', mr_id r) = Inr r \<and>
        (occurs ''0% s'' (mr_content r) \<or> occurs ''0% s'' (mr_key r))"
    by auto
  have "map fold_case ''0% S'' = map fold_case ''0% s''" by code_simp
  then have "occurs ''0% s'' ''100% Sure''" unfolding occurs_def
    by (intro exI[of _ "''10''"] exI[of _ "''0% S''"] exI[of _ "''ure''"] conjI) simp_all
  then have "demo_memory 0 \<in> set found" using f(3) demo_get by (simp add: demo_memory_def)
  moreover have "r = demo_memory 0" if "r \<in> set found" for r
  proof -
    have g: "get_memory demo_memory_env (demo_table 0) (''n'', mr_id r) = Inr r" using that f(3) by blast
    then have "map_of (demo_table 0) (''n'', mr_id r) \<noteq> None" by (simp add: get_memory_def split: option.splits)
    then have "mr_id r = ''i''" by (simp add: demo_table_def split: if_splits)
    then show ?thesis using g demo_get by simp
  qed
  moreover have "distinct found" using f(2) by (simp add: distinct_map)
  ultimately have "found = [demo_memory 0]"
    by (metis distinct.simps(2) list.set_intros(1) list.set_intros(2) neq_Nil_conv empty_iff list.set(1))
  then show ?thesis using f(1) by (simp add: demo_memory_def)
qed

end
