(* ===== verification/McpTransport.thy ===== *)
theory McpTransport
  imports AgentSchemas CanonicalJson Streaming
begin

text \<open>
  The MCP transports of the agent (\<open>zeaz_agent/mcp.py\<close>): the method policy, JSON-RPC requests and
  responses, the HTTPS transport with its session, and the stdio transport with what its process has
  written and nobody has read. The HTTP library, the process, the decoding of bytes and how Pydantic
  reads an integer are parameters; the checks of the endpoint, the executable and the environment are
  not modelled.
\<close>

section \<open>Policy and messages\<close>

datatype mcp_error = MCPError string | MCPPolicyError string | MCPProtocolError string | MCPRemoteError int | MCPValueError string

definition mcp_check :: "bool \<Rightarrow> mcp_error \<Rightarrow> mcp_error + unit" where
  "mcp_check ok e = (if ok then Inr () else Inl e)"

lemma mcp_check_Inr [res_simps]: "mcp_check ok e = Inr u \<longleftrightarrow> ok"
  by (simp add: mcp_check_def)

lemma mcp_check_Inl [res_simps]: "mcp_check ok e = Inl x \<longleftrightarrow> \<not> ok \<and> x = e"
  by (auto simp: mcp_check_def)

lemma mcp_check_simps [simp]: "mcp_check True e = Inr ()" "mcp_check False e = Inl e"
  by (simp_all add: mcp_check_def)

definition method_char :: "char \<Rightarrow> bool" where
  "method_char c = (ascii_alnum c \<or> c \<in> set ''_./-'')"

definition MCPMethodPolicy :: "string list \<Rightarrow> mcp_error + string list" where
  "MCPMethodPolicy allowed_methods =
     (let methods = remdups allowed_methods
      in bindE (mcp_check (\<not> (methods = [] \<or> length methods > 256)) (MCPValueError ''allowed_methods must contain between 1 and 256 methods'')) (\<lambda>_.
         bindE (mcp_check (\<not> list_ex (\<lambda>m. m = [] \<or> length m > 128 \<or> list_ex (\<lambda>c. \<not> method_char c) m) methods)
           (MCPValueError ''allowed_methods contains an invalid method'')) (\<lambda>_. Inr methods)))"

definition require_method :: "string list \<Rightarrow> string \<Rightarrow> mcp_error + unit" where
  "require_method methods m = mcp_check (m \<in> set methods) (MCPPolicyError ''MCP method is not allowed'')"

definition validate_limits :: "real \<Rightarrow> int \<Rightarrow> mcp_error + unit" where
  "validate_limits timeout_seconds max_bytes =
     bindE (mcp_check (0 < timeout_seconds \<and> timeout_seconds \<le> 600) (MCPValueError ''timeout_seconds must be between 0 and 600'')) (\<lambda>_.
     mcp_check (1024 \<le> max_bytes \<and> max_bytes \<le> 67108864) (MCPValueError ''message byte limit must be between 1 KiB and 64 MiB''))"

definition request_payload :: "int \<Rightarrow> string \<Rightarrow> json dict option \<Rightarrow> json" where
  "request_payload request_id m params = JObj ([(''jsonrpc'', JStr ''2.0''), (''id'', JInt request_id), (''method'', JStr m)] @
     (case params of None \<Rightarrow> [] | Some p \<Rightarrow> [(''params'', JObj p)]))"

definition encode_request :: "json \<Rightarrow> int \<Rightarrow> mcp_error + string" where
  "encode_request payload maximum =
     (if has_nan payload then Inl (MCPProtocolError ''MCP request is not valid JSON'')
      else (let encoded = utf8_encode (json_raw payload)
        in bindE (mcp_check (\<not> int (length encoded) > maximum) (MCPProtocolError ''MCP request exceeds the message-size limit'')) (\<lambda>_.
           Inr encoded)))"

definition decode_json_message :: "(string \<Rightarrow> string option) \<Rightarrow> string \<Rightarrow> mcp_error + json dict" where
  "decode_json_message decode content = (case Option.bind (decode content) json_loads of
     None \<Rightarrow> Inl (MCPProtocolError ''MCP peer returned invalid JSON'')
   | Some (JObj d) \<Rightarrow> Inr d
   | Some _ \<Rightarrow> Inl (MCPProtocolError ''MCP peer returned a non-object message''))"

text \<open>\<open>MCPResponse.model_validate\<close> of a message whose version and identifier were compared before: what is left is the error.\<close>

definition error_code_of :: "(json \<Rightarrow> int option) \<Rightarrow> json dict \<Rightarrow> mcp_error + int option" where
  "error_code_of lax_int message =
     (let invalid = MCPProtocolError ''MCP response failed schema validation''
      in if \<not> set (map fst message) \<subseteq> {''jsonrpc'', ''id'', ''result'', ''error''} then Inl invalid
         else (case get_or_null message ''error'' of
             JNull \<Rightarrow> Inr None
           | JObj e \<Rightarrow>
               (case (lax_int (get_or_null e ''code''), get_or_null e ''message'') of
                  (Some code, JStr _) \<Rightarrow> if set (map fst e) \<subseteq> {''code'', ''message'', ''data''} then Inr (Some code) else Inl invalid
                | _ \<Rightarrow> Inl invalid)
           | _ \<Rightarrow> Inl invalid))"

definition result_for_request :: "(json \<Rightarrow> int option) \<Rightarrow> json dict \<Rightarrow> int \<Rightarrow> mcp_error + json" where
  "result_for_request lax_int message request_id =
     bindE (mcp_check (\<not> (get_or_null message ''jsonrpc'' \<noteq> JStr ''2.0'' \<or> \<not> py_eq (get_or_null message ''id'') (JInt request_id)))
       (MCPProtocolError ''MCP response does not match the request'')) (\<lambda>_.
     bindE (mcp_check (dict_has message ''result'' \<noteq> dict_has message ''error'')
       (MCPProtocolError ''MCP response must contain exactly one of result or error'')) (\<lambda>_.
     bindE (error_code_of lax_int message) (\<lambda>error.
     case error of Some code \<Rightarrow> Inl (MCPRemoteError code) | None \<Rightarrow> Inr (get_or_null message ''result''))))"

section \<open>Streamable HTTP\<close>

function split_events :: "string \<Rightarrow> string list" where
  "split_events s = (case split_once blank_line s of None \<Rightarrow> [s] | Some (a, b) \<Rightarrow> a # split_events b)"
  by auto
termination
  by (relation "measure length") (auto dest: split_once_length)

declare split_events.simps [simp del]

definition mcp_event_data :: "string \<Rightarrow> string" where
  "mcp_event_data event = py_join [newline] (map (\<lambda>l. py_lstrip (drop 5 l)) (filter (starts_with ''data:'') (py_splitlines event)))"

fun find_response :: "(string \<Rightarrow> string option) \<Rightarrow> int \<Rightarrow> string list \<Rightarrow> mcp_error + json dict" where
  "find_response decode request_id [] = Inl (MCPProtocolError ''MCP SSE stream omitted the matching response'')"
| "find_response decode request_id (event # events) =
     (if mcp_event_data event = [] then find_response decode request_id events
      else bindE (decode_json_message decode (utf8_encode (mcp_event_data event))) (\<lambda>message.
        if py_eq (get_or_null message ''id'') (JInt request_id) then Inr message else find_response decode request_id events))"

definition response_from_sse :: "(string \<Rightarrow> string option) \<Rightarrow> string \<Rightarrow> int \<Rightarrow> int \<Rightarrow> mcp_error + json dict" where
  "response_from_sse decode content request_id maximum_events = (case decode content of
     None \<Rightarrow> Inl (MCPProtocolError ''MCP SSE response is not UTF-8'')
   | Some t \<Rightarrow>
       (let events = split_events (crlf_to_lf t)
        in bindE (mcp_check (\<not> int (length events) > maximum_events) (MCPProtocolError ''MCP SSE response has too many events'')) (\<lambda>_.
           find_response decode request_id events)))"

fun bounded_http_body :: "int \<Rightarrow> string \<Rightarrow> string list \<Rightarrow> bool \<Rightarrow> mcp_error + string" where
  "bounded_http_body maximum body [] broken = (if broken then Inl (MCPError ''MCP HTTPS request failed'') else Inr body)"
| "bounded_http_body maximum body (chunk # chunks) broken =
     (if int (length (body @ chunk)) > maximum then Inl (MCPProtocolError ''MCP response exceeds the byte limit'')
      else bounded_http_body maximum (body @ chunk) chunks broken)"

datatype mcp_exchange = McpFailed | McpAnswered bool int "string option" string "string list" bool

record mcp_http =
  mh_endpoint :: string
  mh_methods :: "string list"
  mh_max_response_bytes :: int
  mh_max_sse_events :: int
  mh_next_id :: int
  mh_session_id :: "string option"

definition ascii_text :: "string \<Rightarrow> bool" where
  "ascii_text s = list_all (\<lambda>c. code_of c < 128) s"

definition media_type_of :: "string \<Rightarrow> string" where
  "media_type_of header = py_strip (case split_once '';'' header of None \<Rightarrow> header | Some (a, _) \<Rightarrow> a)"

text \<open>What the answer to a posted message comes to, and the session identifier it leaves.\<close>

definition mcp_answer ::
  "(string \<Rightarrow> string option) \<Rightarrow> (json \<Rightarrow> int option) \<Rightarrow> mcp_http \<Rightarrow> int \<Rightarrow> mcp_exchange \<Rightarrow> (mcp_error + json) \<times> string option" where
  "mcp_answer decode lax_int t request_id x = (case x of
     McpFailed \<Rightarrow> (Inl (MCPError ''MCP HTTPS request failed''), mh_session_id t)
   | McpAnswered redirect status session_id content_type chunks broken \<Rightarrow>
       if redirect then (Inl (MCPPolicyError ''MCP redirects are forbidden''), mh_session_id t)
       else if status < 200 \<or> status \<ge> 300 then (Inl (MCPError (''MCP request failed with HTTP '' @ int_str status)), mh_session_id t)
       else if (case session_id of None \<Rightarrow> False | Some s \<Rightarrow> \<not> ascii_text s \<or> \<not> (1 \<le> length s \<and> length s \<le> 1024))
       then (Inl (MCPProtocolError ''MCP session identifier is invalid''), mh_session_id t)
       else
         (bindE (bounded_http_body (mh_max_response_bytes t) [] chunks broken) (\<lambda>body.
          bindE (if media_type_of content_type = ''application/json'' then decode_json_message decode body
            else if media_type_of content_type = ''text/event-stream'' then response_from_sse decode body request_id (mh_max_sse_events t)
            else Inl (MCPProtocolError ''MCP response has an unsupported content type'')) (\<lambda>message.
          result_for_request lax_int message request_id)),
          case session_id of None \<Rightarrow> mh_session_id t | Some s \<Rightarrow> Some s))"

definition mcp_headers :: "mcp_http \<Rightarrow> string dict" where
  "mcp_headers t = [(''accept'', ''application/json, text/event-stream''), (''content-type'', ''application/json'')] @
     (case mh_session_id t of None \<Rightarrow> [] | Some s \<Rightarrow> [(''mcp-session-id'', s)])"

definition mcp_http_request ::
  "(string \<Rightarrow> string option) \<Rightarrow> (json \<Rightarrow> int option) \<Rightarrow> (string \<Rightarrow> string dict \<Rightarrow> string \<Rightarrow> mcp_exchange) \<Rightarrow> string \<Rightarrow> json dict option
     \<Rightarrow> mcp_http \<Rightarrow> (mcp_error + json) \<times> mcp_http" where
  "mcp_http_request decode lax_int server m params t =
     (case require_method (mh_methods t) m of
        Inl e \<Rightarrow> (Inl e, t)
      | Inr _ \<Rightarrow>
          (let request_id = mh_next_id t; t1 = t\<lparr>mh_next_id := request_id + 1\<rparr>
           in case encode_request (request_payload request_id m params) (mh_max_response_bytes t) of
                Inl e \<Rightarrow> (Inl e, t1)
              | Inr encoded \<Rightarrow>
                  (case mcp_answer decode lax_int t1 request_id (server (mh_endpoint t) (mcp_headers t1) encoded) of
                     (r, session_id) \<Rightarrow> (r, t1\<lparr>mh_session_id := session_id\<rparr>))))"

section \<open>Stdio\<close>

text \<open>
  \<open>sd_unread\<close> are the lines the process has written and \<open>request\<close> has not read. \<open>serve\<close> is what the
  process writes when it reads a message; \<open>trouble\<close> is how the exchange fails otherwise.
\<close>

record mcp_stdio =
  sd_methods :: "string list"
  sd_max_message_bytes :: int
  sd_running :: bool
  sd_next_id :: int
  sd_unread :: "string list"

datatype stdio_trouble = StartFails | TimesOut | Disconnects

definition start_process :: "stdio_trouble option \<Rightarrow> mcp_stdio \<Rightarrow> mcp_error + mcp_stdio" where
  "start_process trouble s =
     (if sd_running s then Inr s
      else if trouble = Some StartFails then Inl (MCPError ''MCP stdio server failed to start'')
      else Inr (s\<lparr>sd_running := True, sd_unread := []\<rparr>))"

definition abort_process :: "mcp_stdio \<Rightarrow> mcp_stdio" where
  "abort_process s = s\<lparr>sd_running := False, sd_unread := []\<rparr>"

definition aclose :: "mcp_stdio \<Rightarrow> mcp_stdio" where
  "aclose s = s\<lparr>sd_running := False, sd_unread := []\<rparr>"

definition timed_out :: mcp_error where
  "timed_out = MCPProtocolError ''MCP stdio response timed out or exceeded its limit''"

text \<open>
  The line that was read, which is empty at the end of the stream; the reader of the process has room
  for one byte more than the limit and fails on a line that is longer still.
\<close>

definition read_line ::
  "(string \<Rightarrow> string option) \<Rightarrow> (json \<Rightarrow> int option) \<Rightarrow> int \<Rightarrow> string \<Rightarrow> mcp_stdio \<Rightarrow> (mcp_error + json) \<times> mcp_stdio" where
  "read_line decode lax_int request_id line s =
     (if int (length (takeWhile (\<lambda>c. c \<noteq> newline) line)) > sd_max_message_bytes s + 1 then (Inl timed_out, abort_process s)
      else if line = [] then (Inl (MCPError ''MCP stdio server disconnected''), abort_process s)
      else if int (length line) > sd_max_message_bytes s \<or> last line \<noteq> newline
      then (Inl (MCPProtocolError ''MCP stdio response exceeds the message-size limit''), abort_process s)
      else (bindE (decode_json_message decode (butlast line)) (\<lambda>message. result_for_request lax_int message request_id), s))"

definition stdio_request ::
  "(string \<Rightarrow> string option) \<Rightarrow> (json \<Rightarrow> int option) \<Rightarrow> (string \<Rightarrow> string list) \<Rightarrow> stdio_trouble option \<Rightarrow> string \<Rightarrow> json dict option
     \<Rightarrow> mcp_stdio \<Rightarrow> (mcp_error + json) \<times> mcp_stdio" where
  "stdio_request decode lax_int serve trouble m params s =
     (case bindE (require_method (sd_methods s) m) (\<lambda>_. start_process trouble s) of
        Inl e \<Rightarrow> (Inl e, s)
      | Inr s1 \<Rightarrow>
          (let request_id = sd_next_id s1; s2 = s1\<lparr>sd_next_id := request_id + 1\<rparr>
           in case bindE (encode_request (request_payload request_id m params) (sd_max_message_bytes s)) (\<lambda>e.
                  bindE (mcp_check (\<not> int (length (e @ [newline])) > sd_max_message_bytes s)
                    (MCPProtocolError ''MCP request exceeds the message-size limit'')) (\<lambda>_. Inr (e @ [newline]))) of
                Inl e \<Rightarrow> (Inl e, s2)
              | Inr encoded \<Rightarrow>
                  (if trouble = Some TimesOut then (Inl timed_out, abort_process s2)
                   else if trouble = Some Disconnects then (Inl (MCPError ''MCP stdio server disconnected''), abort_process s2)
                   else (case sd_unread s2 @ serve encoded of
                       [] \<Rightarrow> (Inl timed_out, abort_process s2)
                     | line # rest \<Rightarrow> read_line decode lax_int request_id line (s2\<lparr>sd_unread := rest\<rparr>)))))"

section \<open>Responses belong to their requests\<close>

lemma number_eq_int [simp]: "number_eq (JInt i) (JInt j) \<longleftrightarrow> i = j"
  by (simp add: number_eq_def number_value_def)

lemma result_for_request_Inr:
  "result_for_request lax_int message i = Inr v \<longleftrightarrow> get_or_null message ''jsonrpc'' = JStr ''2.0'' \<and> py_eq (get_or_null message ''id'') (JInt i) \<and>
     dict_has message ''result'' \<noteq> dict_has message ''error'' \<and> error_code_of lax_int message = Inr None \<and> v = get_or_null message ''result''"
  by (auto simp: result_for_request_def res_simps split: option.splits)

lemma bounded_http_body_Inr:
  "bounded_http_body maximum body chunks broken = Inr content \<Longrightarrow> \<not> broken \<and> content = body @ concat chunks \<and>
     (int (length body) \<le> maximum \<longrightarrow> int (length content) \<le> maximum)"
proof (induction chunks arbitrary: body)
  case Nil
  then show ?case by (auto split: if_splits)
next
  case (Cons chunk chunks)
  then have "\<not> int (length (body @ chunk)) > maximum" "bounded_http_body maximum (body @ chunk) chunks broken = Inr content"
    by (simp_all split: if_splits)
  moreover have "int (length (body @ chunk)) \<le> maximum" using calculation(1) by linarith
  ultimately have "\<not> broken \<and> content = (body @ chunk) @ concat chunks \<and> int (length content) \<le> maximum"
    using Cons.IH[of "body @ chunk"] by blast
  then show ?case by auto
qed

lemma find_response_Inr:
  "find_response decode i events = Inr message \<Longrightarrow> py_eq (get_or_null message ''id'') (JInt i) \<and>
     (\<exists>event \<in> set events. decode_json_message decode (utf8_encode (mcp_event_data event)) = Inr message)"
  by (induction events) (auto simp: res_simps split: if_splits)

lemma mcp_answer_Inr:
  assumes "mcp_answer decode lax_int t i (McpAnswered redirect status session content_type chunks broken) = (Inr v, s)"
  shows "\<not> redirect" "200 \<le> status" "status < 300"
    "bindE (bounded_http_body (mh_max_response_bytes t) [] chunks broken) (\<lambda>body.
          bindE (if media_type_of content_type = ''application/json'' then decode_json_message decode body
            else if media_type_of content_type = ''text/event-stream'' then response_from_sse decode body i (mh_max_sse_events t)
            else Inl (MCPProtocolError ''MCP response has an unsupported content type'')) (\<lambda>message.
          result_for_request lax_int message i)) = Inr v"
  using assms unfolding mcp_answer_def mcp_exchange.case by (simp_all only: split: if_splits) simp_all

text \<open>
  What an HTTPS request returns is the result of a response that names this very request, taken from a
  complete successful answer within the byte limit, for a method that the policy allows; and no
  two requests of a transport have the same identifier.
\<close>

theorem http_request_matched:
  assumes "mcp_http_request decode lax_int server m params t = (Inr v, t')" "0 \<le> mh_max_response_bytes t"
  shows "m \<in> set (mh_methods t) \<and> mh_next_id t' = mh_next_id t + 1 \<and>
    (\<exists>encoded status session content_type chunks message. encode_request (request_payload (mh_next_id t) m params) (mh_max_response_bytes t) = Inr encoded \<and>
       server (mh_endpoint t) (mcp_headers t) encoded = McpAnswered False status session content_type chunks False \<and>
       200 \<le> status \<and> status < 300 \<and> int (length (concat chunks)) \<le> mh_max_response_bytes t \<and>
       (decode_json_message decode (concat chunks) = Inr message \<or>
        (\<exists>text event. decode (concat chunks) = Some text \<and> event \<in> set (split_events (crlf_to_lf text)) \<and>
          decode_json_message decode (utf8_encode (mcp_event_data event)) = Inr message)) \<and>
       py_eq (get_or_null message ''id'') (JInt (mh_next_id t)) \<and> v = get_or_null message ''result'')"
proof -
  let ?i = "mh_next_id t" and ?t = "t\<lparr>mh_next_id := mh_next_id t + 1\<rparr>"
  have headers: "mcp_headers ?t = mcp_headers t" by (simp add: mcp_headers_def)
  obtain encoded session_id where r: "m \<in> set (mh_methods t)" "encode_request (request_payload ?i m params) (mh_max_response_bytes t) = Inr encoded"
    and a: "mcp_answer decode lax_int ?t ?i (server (mh_endpoint t) (mcp_headers t) encoded) = (Inr v, session_id)"
    and t': "t' = ?t\<lparr>mh_session_id := session_id\<rparr>"
    using assms(1) by (auto simp: mcp_http_request_def Let_def require_method_def mcp_check_def headers split: sum.splits prod.splits if_splits)
  obtain redirect status session content_type chunks broken where
    x: "server (mh_endpoint t) (mcp_headers t) encoded = McpAnswered redirect status session content_type chunks broken"
    using a by (cases "server (mh_endpoint t) (mcp_headers t) encoded") (auto simp: mcp_answer_def)
  have ok: "\<not> redirect" "200 \<le> status" "status < 300"
    and v: "bindE (bounded_http_body (mh_max_response_bytes t) [] chunks broken) (\<lambda>body.
          bindE (if media_type_of content_type = ''application/json'' then decode_json_message decode body
            else if media_type_of content_type = ''text/event-stream'' then response_from_sse decode body ?i (mh_max_sse_events ?t)
            else Inl (MCPProtocolError ''MCP response has an unsupported content type'')) (\<lambda>message.
          result_for_request lax_int message ?i)) = Inr v"
    using a[unfolded x] mcp_answer_Inr[of decode lax_int ?t ?i redirect status session content_type chunks broken v session_id] by simp_all
  obtain body message where b: "bounded_http_body (mh_max_response_bytes t) [] chunks broken = Inr body"
    and m: "decode_json_message decode body = Inr message \<or> response_from_sse decode body ?i (mh_max_sse_events t) = Inr message"
    and res: "result_for_request lax_int message ?i = Inr v"
    using v by (auto simp: res_simps split: if_splits)
  note b' = bounded_http_body_Inr[OF b]
  have "decode_json_message decode (concat chunks) = Inr message \<or>
        (\<exists>text event. decode (concat chunks) = Some text \<and> event \<in> set (split_events (crlf_to_lf text)) \<and>
          decode_json_message decode (utf8_encode (mcp_event_data event)) = Inr message)"
    using m b' by (auto simp: response_from_sse_def Let_def res_simps dest: find_response_Inr split: option.splits)
  then show ?thesis using r x ok b' res t' assms(2) by (auto simp: result_for_request_Inr)
qed


section \<open>The pipe stays in step, or never again\<close>

fun stdio_run ::
  "(string \<Rightarrow> string option) \<Rightarrow> (json \<Rightarrow> int option) \<Rightarrow> (string \<Rightarrow> string list) \<Rightarrow> (string \<times> json dict option) list
     \<Rightarrow> mcp_stdio \<Rightarrow> (mcp_error + json) list \<times> mcp_stdio" where
  "stdio_run decode lax_int serve [] s = ([], s)"
| "stdio_run decode lax_int serve ((m, params) # calls) s =
     (case stdio_request decode lax_int serve None m params s of (r, s1) \<Rightarrow>
        (case stdio_run decode lax_int serve calls s1 of (rs, s2) \<Rightarrow> (r # rs, s2)))"

definition whole_line :: "int \<Rightarrow> string \<Rightarrow> bool" where
  "whole_line maximum line = (line \<noteq> [] \<and> last line = newline \<and> int (length line) \<le> maximum)"

text \<open>A line that answers the request \<open>i\<close> with a result, and a line that can answer no request from \<open>i\<close> on.\<close>

definition answers :: "(string \<Rightarrow> string option) \<Rightarrow> int \<Rightarrow> int \<Rightarrow> string \<Rightarrow> bool" where
  "answers decode maximum i line = (whole_line maximum line \<and> (case decode_json_message decode (butlast line) of
     Inl _ \<Rightarrow> False
   | Inr message \<Rightarrow> get_or_null message ''jsonrpc'' = JStr ''2.0'' \<and> get_or_null message ''id'' = JInt i \<and>
       dict_has message ''result'' \<and> set (map fst message) \<subseteq> {''jsonrpc'', ''id'', ''result''}))"

definition stale :: "(string \<Rightarrow> string option) \<Rightarrow> int \<Rightarrow> int \<Rightarrow> string \<Rightarrow> bool" where
  "stale decode maximum i line = (whole_line maximum line \<and> (case decode_json_message decode (butlast line) of
     Inl _ \<Rightarrow> False
   | Inr message \<Rightarrow> (case get_or_null message ''id'' of JNull \<Rightarrow> True | JInt j \<Rightarrow> j < i | _ \<Rightarrow> False)))"

fun answered ::
  "(string \<Rightarrow> string option) \<Rightarrow> (string \<Rightarrow> string list) \<Rightarrow> string list \<Rightarrow> int \<Rightarrow> int \<Rightarrow> (string \<times> json dict option) list \<Rightarrow> bool" where
  "answered decode serve methods maximum i [] = True"
| "answered decode serve methods maximum i ((m, params) # calls) =
     (m \<in> set methods \<and> (case encode_request (request_payload i m params) maximum of
         Inl _ \<Rightarrow> False
       | Inr e \<Rightarrow> int (length e) < maximum \<and>
           (case serve (e @ [newline]) of [line] \<Rightarrow> answers decode maximum i line | _ \<Rightarrow> False)) \<and>
      answered decode serve methods maximum (i + 1) calls)"

definition mismatch :: mcp_error where
  "mismatch = MCPProtocolError ''MCP response does not match the request''"

lemma map_of_None_outside: "set (map fst d) \<subseteq> keys \<Longrightarrow> k \<notin> keys \<Longrightarrow> map_of d k = None"
  by (auto simp: map_of_eq_None_iff)

lemma takeWhile_le: "length (takeWhile P xs) \<le> length xs"
  by (induction xs) auto

lemma read_line_answers:
  assumes "answers decode (sd_max_message_bytes s) i line"
  shows "\<exists>v. read_line decode lax_int i line s = (Inr v, s)"
proof -
  obtain message where m: "decode_json_message decode (butlast line) = Inr message" "get_or_null message ''jsonrpc'' = JStr ''2.0''"
    "get_or_null message ''id'' = JInt i" "dict_has message ''result''" "set (map fst message) \<subseteq> {''jsonrpc'', ''id'', ''result''}"
    and line: "whole_line (sd_max_message_bytes s) line"
    using assms by (auto simp: answers_def split: sum.splits)
  have "\<not> dict_has message ''error''" "get_or_null message ''error'' = JNull"
    using map_of_None_outside[OF m(5), of "''error''"] by (simp_all add: get_or_null_def dict_get_default_def dict_has_def)
  then have "result_for_request lax_int message i = Inr (get_or_null message ''result'')"
    using m by (auto simp: result_for_request_Inr error_code_of_def Let_def)
  moreover have "\<not> int (length (takeWhile (\<lambda>c. c \<noteq> newline) line)) > sd_max_message_bytes s + 1"
    using line takeWhile_le[of "\<lambda>c. c \<noteq> newline" line] by (simp add: whole_line_def)
  ultimately show ?thesis using line m(1) by (simp add: read_line_def whole_line_def)
qed

lemma read_line_stale:
  assumes "stale decode (sd_max_message_bytes s) i line"
  shows "read_line decode lax_int i line s = (Inl mismatch, s)"
proof -
  obtain message where m: "decode_json_message decode (butlast line) = Inr message" "\<not> py_eq (get_or_null message ''id'') (JInt i)"
    and line: "whole_line (sd_max_message_bytes s) line"
    using assms by (auto simp: stale_def split: sum.splits json.splits)
  have "result_for_request lax_int message i = Inl mismatch"
    using m by (simp add: result_for_request_def mismatch_def)
  moreover have "\<not> int (length (takeWhile (\<lambda>c. c \<noteq> newline) line)) > sd_max_message_bytes s + 1"
    using line takeWhile_le[of "\<lambda>c. c \<noteq> newline" line] by (simp add: whole_line_def)
  ultimately show ?thesis using line m(1) by (simp add: read_line_def whole_line_def)
qed

lemma answers_stale: "answers decode maximum i line \<Longrightarrow> i < j \<Longrightarrow> stale decode maximum j line"
  by (auto simp: answers_def stale_def split: sum.splits)

lemma stdio_request_in_step:
  assumes "sd_running s" "answered decode serve (sd_methods s) (sd_max_message_bytes s) (sd_next_id s) ((m, params) # calls)"
  obtains line where "answers decode (sd_max_message_bytes s) (sd_next_id s) line"
    and "stdio_request decode lax_int serve None m params s =
      (case sd_unread s @ [line] of l # rest \<Rightarrow> read_line decode lax_int (sd_next_id s) l (s\<lparr>sd_next_id := sd_next_id s + 1, sd_unread := rest\<rparr>))"
proof -
  obtain e line where e: "encode_request (request_payload (sd_next_id s) m params) (sd_max_message_bytes s) = Inr e"
      "int (length e) < sd_max_message_bytes s" "serve (e @ [newline]) = [line]" "m \<in> set (sd_methods s)"
    and line: "answers decode (sd_max_message_bytes s) (sd_next_id s) line"
    using assms(2) by (auto split: sum.splits list.splits)
  show thesis
    using that[OF line] e assms(1)
    by (simp add: stdio_request_def require_method_def start_process_def Let_def mcp_check_def split: list.split)
qed

lemma stdio_run_in_step:
  assumes "sd_running s" "sd_unread s = []" "answered decode serve (sd_methods s) (sd_max_message_bytes s) (sd_next_id s) calls"
  shows "list_all (\<lambda>r. \<exists>v. r = Inr v) (fst (stdio_run decode lax_int serve calls s))"
  using assms
proof (induction calls arbitrary: s)
  case (Cons call calls)
  obtain m params where call: "call = (m, params)" by fastforce
  let ?s = "s\<lparr>sd_next_id := sd_next_id s + 1, sd_unread := []\<rparr>"
  obtain line where line: "answers decode (sd_max_message_bytes s) (sd_next_id s) line"
    and r: "stdio_request decode lax_int serve None m params s = read_line decode lax_int (sd_next_id s) line ?s"
    using stdio_request_in_step[OF Cons.prems(1) Cons.prems(3)[unfolded call], of lax_int] Cons.prems(2) by auto
  obtain v where v: "stdio_request decode lax_int serve None m params s = (Inr v, ?s)"
    using read_line_answers[of decode ?s "sd_next_id s" line lax_int] line r by auto
  have "list_all (\<lambda>r. \<exists>v. r = Inr v) (fst (stdio_run decode lax_int serve calls ?s))"
    by (rule Cons.IH) (use Cons.prems in \<open>simp_all add: call\<close>)
  then show ?case by (simp add: call v case_prod_unfold)
qed simp

lemma stdio_run_out_of_step:
  assumes "sd_running s" "sd_unread s = [old]" "stale decode (sd_max_message_bytes s) (sd_next_id s) old"
    "answered decode serve (sd_methods s) (sd_max_message_bytes s) (sd_next_id s) calls"
  shows "list_all (\<lambda>r. r = Inl mismatch) (fst (stdio_run decode lax_int serve calls s))"
  using assms
proof (induction calls arbitrary: s old)
  case (Cons call calls)
  obtain m params where call: "call = (m, params)" by fastforce
  obtain line where line: "answers decode (sd_max_message_bytes s) (sd_next_id s) line"
    and r: "stdio_request decode lax_int serve None m params s =
      read_line decode lax_int (sd_next_id s) old (s\<lparr>sd_next_id := sd_next_id s + 1, sd_unread := [line]\<rparr>)"
    using stdio_request_in_step[OF Cons.prems(1) Cons.prems(4)[unfolded call], of lax_int] Cons.prems(2) by auto
  let ?s = "s\<lparr>sd_next_id := sd_next_id s + 1, sd_unread := [line]\<rparr>"
  have v: "stdio_request decode lax_int serve None m params s = (Inl mismatch, ?s)"
    using read_line_stale[of decode ?s "sd_next_id s" old lax_int] Cons.prems(3) r by simp
  have "list_all (\<lambda>r. r = Inl mismatch) (fst (stdio_run decode lax_int serve calls ?s))"
    by (rule Cons.IH[where old = line]) (use Cons.prems answers_stale[OF line] in \<open>simp_all add: call\<close>)
  then show ?case by (simp add: call v case_prod_unfold)
qed simp


definition echo_server :: "string \<Rightarrow> string list" where
  "echo_server sent = (if starts_with ''{!jsonrpc!:!2.0!,!id!:1,'' (map (\<lambda>c. if c = dquote then CHR ''!'' else c) sent)
     then [map (\<lambda>c. if c = CHR ''!'' then dquote else c) ''{!jsonrpc!:!2.0!,!id!:1,!result!:7}'' @ [newline]]
     else [map (\<lambda>c. if c = CHR ''!'' then dquote else c) ''{!jsonrpc!:!2.0!,!id!:2,!result!:8}'' @ [newline]])"

definition late_line :: string where
  "late_line = map (\<lambda>c. if c = CHR ''!'' then dquote else c) ''{!jsonrpc!:!2.0!,!method!:!note!}'' @ [newline]"

definition stdio_at :: "string list \<Rightarrow> mcp_stdio" where
  "stdio_at lines = \<lparr>sd_methods = [''ping''], sd_max_message_bytes = 1024, sd_running = True, sd_next_id = 1, sd_unread = lines\<rparr>"

lemma echo_answers: "answered Some echo_server [''ping''] 1024 1 [(''ping'', None), (''ping'', None)]"
  by code_simp

lemma late_line_stale: "stale Some 1024 1 late_line"
  by code_simp


text \<open>A response with a null error is no JSON-RPC response, and its caller is told that the call succeeded with null.\<close>

theorem null_error_is_a_result:
  "result_for_request lax_int [(''jsonrpc'', JStr ''2.0''), (''id'', JInt i), (''error'', JNull)] i = Inr JNull"
  by (simp add: result_for_request_Inr error_code_of_def get_or_null_def dict_get_default_def dict_has_def)

definition http_at :: mcp_http where
  "http_at = \<lparr>mh_endpoint = ''https://mcp.example/'', mh_methods = [''ping''], mh_max_response_bytes = 1024, mh_max_sse_events = 4,
     mh_next_id = 1, mh_session_id = None\<rparr>"

theorem http_request_matched_witness:
  "let server = (\<lambda>_ _ sent. McpAnswered False 200 None ''application/json'' [hd (echo_server sent)] False);
       out = mcp_http_request Some (\<lambda>_. None) server ''ping'' None http_at
   in fst out = Inr (JInt 7) \<and> mh_next_id (snd out) = 2"
proof -
  let ?server = "\<lambda>_ _ sent. McpAnswered False 200 None ''application/json'' [hd (echo_server sent)] False"
  let ?out = "mcp_http_request Some (\<lambda>_. None) ?server ''ping'' None http_at"
  have r: "fst ?out = Inr (JInt 7)" by code_simp
  have "mcp_http_request Some (\<lambda>_. None) ?server ''ping'' None http_at = (Inr (JInt 7), snd ?out)" using r by (metis prod.collapse)
  from http_request_matched[OF this] have "mh_next_id (snd ?out) = 2" by (simp add: http_at_def)
  then show ?thesis using r by (simp only: Let_def)
qed

end
