(* ===== verification/Deletion.thy ===== *)
theory Deletion
  imports HttpText
begin

text \<open>
  The permanent deletion of resources (\<open>zeaz_enterprise/deletion.py\<close>): a preview with the digest of what
  would be deleted, and an execution that is bound to it by the confirmation, the digest of the target as it is
  now and one or two authorizations. The resolver, the verifier of authorizations, the executor and SHA-256
  are parameters; a callback that raises is None. The calls of the executor are recorded.
\<close>

section \<open>Names and records\<close>

datatype deletion_error = DeletionControlError string | DeletionValueError string | DeletionTypeError string | ReceiptInvalid

definition deletion_check :: "bool \<Rightarrow> deletion_error \<Rightarrow> deletion_error + unit" where
  "deletion_check ok e = (if ok then Inr () else Inl e)"

lemma deletion_check_Inr [res_simps]: "deletion_check ok e = Inr u \<longleftrightarrow> ok"
  by (simp add: deletion_check_def)

lemma deletion_check_Inl [res_simps]: "deletion_check ok e = Inl x \<longleftrightarrow> \<not> ok \<and> x = e"
  by (auto simp: deletion_check_def)

lemma deletion_check_simps [simp]: "deletion_check True e = Inr ()" "deletion_check False e = Inl e"
  by (simp_all add: deletion_check_def)

definition deletion_identifier :: "string \<Rightarrow> bool" where
  "deletion_identifier s = (s \<noteq> [] \<and> length s \<le> 255 \<and> ascii_alnum (hd s) \<and> list_all (\<lambda>c. ascii_alnum c \<or> c \<in> set ''_.:/-'') (tl s))"

definition hex_digest :: "string \<Rightarrow> bool" where
  "hex_digest s = (length s = 64 \<and> list_all (\<lambda>c. is_digit c \<or> 97 \<le> code_of c \<and> code_of c \<le> 102) s)"

definition idempotency_text :: "string \<Rightarrow> bool" where
  "idempotency_text s = (1 \<le> length s \<and> length s \<le> 255 \<and> list_all (\<lambda>c. ascii_alnum c \<or> c \<in> set ''._:-'') s)"

definition resource_type_text :: "string \<Rightarrow> bool" where
  "resource_type_text s = (s \<noteq> [] \<and> length s \<le> 64 \<and> 97 \<le> code_of (hd s) \<and> code_of (hd s) \<le> 122 \<and>
     list_all (\<lambda>c. 97 \<le> code_of c \<and> code_of c \<le> 122 \<or> is_digit c \<or> c = CHR ''_'') (tl s))"

record deletion_target =
  dl_provider :: string
  dl_resource_type :: string
  dl_resource_id :: string
  dl_organization_id :: string

definition DeletionTarget :: "deletion_target \<Rightarrow> deletion_target res" where
  "DeletionTarget t =
     bindE (check (dl_provider t \<in> {''anthropic'', ''openai''}) ''provider'') (\<lambda>_.
     bindE (check (resource_type_text (dl_resource_type t)) ''resource_type'') (\<lambda>_.
     bindE (check (deletion_identifier (dl_resource_id t)) ''resource_id'') (\<lambda>_.
     bindE (check (deletion_identifier (dl_organization_id t)) ''organization_id'') (\<lambda>_. Inr t))))"

record resolved_target =
  rv_target :: deletion_target
  rv_organization_wide :: bool
  rv_display_name :: string
  rv_state :: "json dict"
  rv_dependent_resource_ids :: "string list"

definition ResolvedDeletionTarget :: "resolved_target \<Rightarrow> resolved_target res" where
  "ResolvedDeletionTarget r =
     bindE (check (1 \<le> length (rv_display_name r) \<and> length (rv_display_name r) \<le> 256) ''display_name'') (\<lambda>_.
     bindE (check (length (rv_state r) \<le> 32 \<and> list_all (\<lambda>kv. resource_type_text (fst kv)) (rv_state r)) ''state'') (\<lambda>_.
     bindE (check (length (rv_dependent_resource_ids r) \<le> 1000 \<and> list_all deletion_identifier (rv_dependent_resource_ids r))
       ''dependent_resource_ids'') (\<lambda>_.
     bindE (check (distinct (rv_dependent_resource_ids r)) ''dependent resource IDs must be unique'') (\<lambda>_. Inr r))))"

record deletion_preview =
  pv_plan_id :: string
  pv_target :: deletion_target
  pv_resolved :: resolved_target
  pv_resolution_digest :: string
  pv_required_approvals :: int
  pv_created_at :: py_datetime
  pv_expires_at :: py_datetime

definition confirmation_text :: "deletion_preview \<Rightarrow> string" where
  "confirmation_text p = ''DELETE '' @ dl_provider (pv_target p) @ ''/'' @ dl_resource_type (pv_target p) @ ''/'' @
     dl_resource_id (pv_target p) @ '' '' @ pv_resolution_digest p"

record authorization_grant =
  gr_principal_id :: string
  gr_plan_id :: string
  gr_resolution_digest :: string
  gr_allow :: bool
  gr_issued_at :: py_datetime
  gr_expires_at :: py_datetime

definition AuthorizationGrant :: "authorization_grant \<Rightarrow> authorization_grant res" where
  "AuthorizationGrant g =
     bindE (check (deletion_identifier (gr_principal_id g)) ''principal_id'') (\<lambda>_.
     bindE (check (hex_digest (gr_resolution_digest g)) ''resolution_digest'') (\<lambda>_.
     bindE (check (\<not> (\<not> has_timezone (gr_issued_at g) \<or> \<not> has_timezone (gr_expires_at g) \<or>
         dt_instant (gr_issued_at g) \<ge> dt_instant (gr_expires_at g))) ''authorization validity window is invalid'') (\<lambda>_. Inr g)))"

record deletion_receipt =
  rc_plan_id :: string
  rc_target :: deletion_target
  rc_resolution_digest :: string
  rc_authorizing_principal_ids :: "string list"
  rc_provider_operation_id :: string
  rc_idempotency_key :: string
  rc_deleted_at :: py_datetime

definition DeletionReceipt :: "deletion_receipt \<Rightarrow> deletion_error + deletion_receipt" where
  "DeletionReceipt r =
     bindE (deletion_check (hex_digest (rc_resolution_digest r) \<and> list_all deletion_identifier (rc_authorizing_principal_ids r) \<and>
       1 \<le> length (rc_authorizing_principal_ids r) \<and> length (rc_authorizing_principal_ids r) \<le> 2 \<and>
       deletion_identifier (rc_provider_operation_id r) \<and> idempotency_text (rc_idempotency_key r)) ReceiptInvalid) (\<lambda>_. Inr r)"

section \<open>The coordinator\<close>

record coordinator =
  dc_resolver :: "deletion_target \<Rightarrow> resolved_target option"
  dc_verifier :: "string \<Rightarrow> authorization_grant option"
  dc_executor :: "resolved_target \<Rightarrow> string \<Rightarrow> string option"
  dc_preview_lifetime :: int
  dc_sha256 :: "string \<Rightarrow> string"

definition PermanentDeletionCoordinator :: "coordinator \<Rightarrow> deletion_error + coordinator" where
  "PermanentDeletionCoordinator c =
     bindE (deletion_check (60 \<le> dc_preview_lifetime c \<and> dc_preview_lifetime c \<le> 3600)
       (DeletionValueError ''preview lifetime must be between 1 minute and 1 hour'')) (\<lambda>_. Inr c)"

definition target_json :: "deletion_target \<Rightarrow> json" where
  "target_json t = JObj [(''provider'', JStr (dl_provider t)), (''resource_type'', JStr (dl_resource_type t)),
     (''resource_id'', JStr (dl_resource_id t)), (''organization_id'', JStr (dl_organization_id t))]"

definition resolved_members :: "resolved_target \<Rightarrow> json dict" where
  "resolved_members r = [(''target'', target_json (rv_target r)), (''organization_wide'', JBool (rv_organization_wide r)),
     (''display_name'', JStr (rv_display_name r)), (''state'', JObj (rv_state r)),
     (''dependent_resource_ids'', JArr (map JStr (rv_dependent_resource_ids r)))]"

definition resolution_digest :: "(string \<Rightarrow> string) \<Rightarrow> resolved_target \<Rightarrow> deletion_error + string" where
  "resolution_digest sha256 r = (case canonical (JObj (resolved_members r)) of
     None \<Rightarrow> Inl (DeletionValueError ''Out of range float values are not JSON compliant'')
   | Some encoded \<Rightarrow> Inr (sha256 encoded))"

definition aware :: "py_datetime \<Rightarrow> deletion_error + unit" where
  "aware t = deletion_check (has_timezone t) (DeletionControlError ''deletion control clock must be timezone-aware'')"

text \<open>\<open>a < b\<close> of datetimes, which raises when only one of the two has a time zone.\<close>

definition datetime_less :: "py_datetime \<Rightarrow> py_datetime \<Rightarrow> deletion_error + bool" where
  "datetime_less a b = (if has_timezone a = has_timezone b then Inr (dt_instant a < dt_instant b)
     else Inl (DeletionTypeError ''can't compare offset-naive and offset-aware datetimes''))"

text \<open>\<open>hmac.compare_digest\<close> of two texts, which raises for characters outside of ASCII.\<close>

definition compare_digest :: "string \<Rightarrow> string \<Rightarrow> deletion_error + bool" where
  "compare_digest a b = (if list_all (\<lambda>c. code_of c < 128) (a @ b) then Inr (a = b)
     else Inl (DeletionTypeError ''comparing strings with non-ASCII characters is not supported''))"

definition resolve_target :: "coordinator \<Rightarrow> deletion_target \<Rightarrow> deletion_error + resolved_target" where
  "resolve_target c t = (case dc_resolver c t of
     None \<Rightarrow> Inl (DeletionControlError ''deletion target resolution failed'')
   | Some r \<Rightarrow> bindE (deletion_check (rv_target r = t) (DeletionControlError ''resolver returned a mismatched deletion target'')) (\<lambda>_. Inr r))"

definition preview_deletion :: "coordinator \<Rightarrow> py_datetime \<Rightarrow> string \<Rightarrow> deletion_target \<Rightarrow> deletion_error + deletion_preview" where
  "preview_deletion c now fresh t =
     bindE (aware now) (\<lambda>_.
     bindE (resolve_target c t) (\<lambda>r.
     bindE (resolution_digest (dc_sha256 c) r) (\<lambda>digest.
     Inr \<lparr>pv_plan_id = fresh, pv_target = t, pv_resolved = r, pv_resolution_digest = digest,
       pv_required_approvals = (if rv_organization_wide r then 2 else 1), pv_created_at = now,
       pv_expires_at = now\<lparr>dt_instant := dt_instant now + 1000000 * dc_preview_lifetime c\<rparr>\<rparr>)))"

definition verify_grant :: "coordinator \<Rightarrow> deletion_preview \<Rightarrow> py_datetime \<Rightarrow> string \<Rightarrow> deletion_error + authorization_grant" where
  "verify_grant c p now token = (case dc_verifier c token of
     None \<Rightarrow> Inl (DeletionControlError ''deletion authorization verification failed'')
   | Some g \<Rightarrow> bindE (deletion_check (\<not> (\<not> gr_allow g \<or> gr_plan_id g \<noteq> pv_plan_id p \<or> gr_resolution_digest g \<noteq> pv_resolution_digest p \<or>
         dt_instant now < dt_instant (gr_issued_at g) \<or> dt_instant now \<ge> dt_instant (gr_expires_at g)))
       (DeletionControlError ''deletion authorization is invalid or unbound'')) (\<lambda>_. Inr g))"

definition idempotency_key :: "string \<Rightarrow> deletion_error + string" where
  "idempotency_key s =
     bindE (deletion_check (\<not> (\<not> (1 \<le> length s \<and> length s \<le> 255) \<or> list_ex (\<lambda>c. \<not> (py_isalnum c \<or> c \<in> set ''._:-'')) s))
       (DeletionValueError ''idempotency key is invalid'')) (\<lambda>_. Inr s)"

definition valid_identifier :: "string \<Rightarrow> bool" where
  "valid_identifier s = (1 \<le> length s \<and> length s \<le> 255 \<and> py_isalnum (hd s) \<and> list_all (\<lambda>c. py_isalnum c \<or> c \<in> set ''_.:/-'') s)"

text \<open>All that \<open>execute\<close> does before it calls the executor: the target as it is now, who authorized, and the key.\<close>

definition authorize_deletion ::
  "coordinator \<Rightarrow> py_datetime \<Rightarrow> deletion_preview \<Rightarrow> string \<Rightarrow> string list \<Rightarrow> string \<Rightarrow> deletion_error + resolved_target \<times> string list \<times> string" where
  "authorize_deletion c now p confirmation tokens key =
     bindE (aware now) (\<lambda>_.
     bindE (bindE (datetime_less now (pv_created_at p)) (\<lambda>early. if early then Inr True
       else bindE (datetime_less now (pv_expires_at p)) (\<lambda>alive. Inr (\<not> alive)))) (\<lambda>invalid.
     bindE (deletion_check (\<not> invalid) (DeletionControlError ''deletion preview is expired or not yet valid'')) (\<lambda>_.
     bindE (compare_digest confirmation (confirmation_text p)) (\<lambda>confirmed.
     bindE (deletion_check confirmed (DeletionControlError ''explicit deletion confirmation does not match'')) (\<lambda>_.
     bindE (deletion_check (int (length tokens) = pv_required_approvals p) (DeletionControlError ''required authorization count does not match'')) (\<lambda>_.
     bindE (resolve_target c (pv_target p)) (\<lambda>current.
     bindE (resolution_digest (dc_sha256 c) current) (\<lambda>digest.
     bindE (deletion_check (digest = pv_resolution_digest p) (DeletionControlError ''deletion target changed after dry-run'')) (\<lambda>_.
     bindE (mapE (verify_grant c p now) tokens) (\<lambda>grants.
     bindE (deletion_check (distinct (map gr_principal_id grants)) (DeletionControlError ''authorizations must come from distinct principals'')) (\<lambda>_.
     bindE (idempotency_key key) (\<lambda>k.
     Inr (current, map gr_principal_id grants, k)))))))))))))"

definition execute_deletion ::
  "coordinator \<Rightarrow> py_datetime \<Rightarrow> py_datetime \<Rightarrow> deletion_preview \<Rightarrow> string \<Rightarrow> string list \<Rightarrow> string
     \<Rightarrow> (deletion_error + deletion_receipt) \<times> (resolved_target \<times> string) list" where
  "execute_deletion c now after p confirmation tokens key =
     (case authorize_deletion c now p confirmation tokens key of
        Inl e \<Rightarrow> (Inl e, [])
      | Inr (current, principals, k) \<Rightarrow>
          (case dc_executor c current k of
             None \<Rightarrow> Inl (DeletionControlError ''provider deletion failed'')
           | Some operation_id \<Rightarrow>
               bindE (deletion_check (valid_identifier operation_id) (DeletionControlError ''provider deletion returned an invalid operation ID'')) (\<lambda>_.
               bindE (aware after) (\<lambda>_.
               DeletionReceipt \<lparr>rc_plan_id = pv_plan_id p, rc_target = pv_target p, rc_resolution_digest = pv_resolution_digest p,
                 rc_authorizing_principal_ids = principals, rc_provider_operation_id = operation_id, rc_idempotency_key = k,
                 rc_deleted_at = after\<rparr>)),
           [(current, k)]))"

section \<open>What an execution needs\<close>

text \<open>Two resolutions of the same content: all that the digest covers, whatever the order of the keys of the state.\<close>

definition same_resolution :: "resolved_target \<Rightarrow> resolved_target \<Rightarrow> bool" where
  "same_resolution r q = (rv_target r = rv_target q \<and> rv_organization_wide r = rv_organization_wide q \<and>
     rv_display_name r = rv_display_name q \<and> same_json (JObj (rv_state r)) (JObj (rv_state q)) \<and>
     rv_dependent_resource_ids r = rv_dependent_resource_ids q)"

lemma resolved_members_distinct: "distinct (map fst (resolved_members r))"
  by (simp add: resolved_members_def)

lemma resolved_members_wf: "wf_json (JObj (rv_state r)) \<Longrightarrow> wf_json (JObj (resolved_members r))"
  by (simp add: resolved_members_def target_json_def list_all_iff)

lemma same_members: 
  assumes "same_json (JObj (resolved_members r)) (JObj (resolved_members q))"
  shows "same_resolution r q"
proof -
  note member = same_json_member[OF assms resolved_members_distinct resolved_members_distinct]
  have target: "same_json (target_json (rv_target r)) (target_json (rv_target q))"
    using member[of "''target''"] by (simp add: resolved_members_def same_json_def)
  note field = same_json_member[OF target[unfolded target_json_def], simplified]
  have "rv_target r = rv_target q"
    using field[of "''provider''"] field[of "''resource_type''"] field[of "''resource_id''"] field[of "''organization_id''"]
    by (intro deletion_target.equality) simp_all
  moreover have "map JStr (rv_dependent_resource_ids r) = map JStr (rv_dependent_resource_ids q)"
    using member[of "''dependent_resource_ids''"] by (simp add: resolved_members_def o_def)
  moreover have "inj JStr" by (simp add: inj_def)
  ultimately show ?thesis
    using member[of "''organization_wide''"] member[of "''display_name''"] member[of "''state''"]
    by (simp add: same_resolution_def resolved_members_def same_json_def inj_map_eq_map)
qed

abbreviation resolutions_clash :: "(string \<Rightarrow> string) \<Rightarrow> resolved_target \<Rightarrow> resolved_target \<Rightarrow> bool" where
  "resolutions_clash h r q \<equiv> json_clash h (JObj (resolved_members r)) (JObj (resolved_members q))"

lemma resolution_digest_binds:
  assumes "resolution_digest sha256 r = Inr d" "resolution_digest sha256 q = Inr d" "wf_json (JObj (rv_state r))" "wf_json (JObj (rv_state q))"
  shows "same_resolution r q \<or> resolutions_clash sha256 r q"
proof -
  obtain a b where "canonical (JObj (resolved_members r)) = Some a" "canonical (JObj (resolved_members q)) = Some b" "sha256 a = sha256 b"
    using assms(1,2) by (auto simp: resolution_digest_def split: option.splits)
  then show ?thesis
    using same_hash_same_json[OF resolved_members_wf[OF assms(3)] resolved_members_wf[OF assms(4)]] same_members by blast
qed

lemma authorize_deletion_Inr:
  assumes "authorize_deletion c now p confirmation tokens key = Inr (current, principals, k)"
  shows "has_timezone now" "dt_instant (pv_created_at p) \<le> dt_instant now" "dt_instant now < dt_instant (pv_expires_at p)"
    "confirmation = confirmation_text p" "int (length tokens) = pv_required_approvals p"
    "resolve_target c (pv_target p) = Inr current" "resolution_digest (dc_sha256 c) current = Inr (pv_resolution_digest p)"
    "k = key" "idempotency_key key = Inr key" "distinct principals"
    "\<exists>grants. mapE (verify_grant c p now) tokens = Inr grants \<and> principals = map gr_principal_id grants"
  using assms by (auto simp: authorize_deletion_def res_simps aware_def datetime_less_def compare_digest_def idempotency_key_def split: if_splits)

lemma verify_grant_Inr:
  "verify_grant c p now token = Inr g \<longleftrightarrow> dc_verifier c token = Some g \<and> gr_allow g \<and> gr_plan_id g = pv_plan_id p \<and>
     gr_resolution_digest g = pv_resolution_digest p \<and> dt_instant (gr_issued_at g) \<le> dt_instant now \<and> dt_instant now < dt_instant (gr_expires_at g)"
  by (auto simp: verify_grant_def res_simps split: option.splits)

lemma execute_called:
  "snd (execute_deletion c now after p confirmation tokens key) \<noteq> [] \<longleftrightarrow>
     (\<exists>current principals k. authorize_deletion c now p confirmation tokens key = Inr (current, principals, k) \<and>
        snd (execute_deletion c now after p confirmation tokens key) = [(current, k)])"
  by (auto simp: execute_deletion_def split: sum.splits prod.splits)

text \<open>
  C19: Between a preview and a later execution the target may have changed. The executor is called at
  most once and only for the content that was previewed, up to the order of the keys of its state (unless the canonical bytes of
  just these two contents differ and have the same hash),
  within the lifetime of the preview, with its confirmation, and with as many allowing grants for this plan and
  content as the preview asks for, two for one that is organization-wide, each in its window and from different principals.
\<close>

theorem deletion_needs_authorization:
  assumes "preview_deletion c now0 fresh t = Inr p"
    and "snd (execute_deletion (c\<lparr>dc_resolver := later\<rparr>) now after p confirmation tokens key) \<noteq> []"
    and "\<And>r. dc_resolver c t = Some r \<Longrightarrow> wf_json (JObj (rv_state r))" "\<And>r. later t = Some r \<Longrightarrow> wf_json (JObj (rv_state r))"
  shows "\<exists>current grants. snd (execute_deletion (c\<lparr>dc_resolver := later\<rparr>) now after p confirmation tokens key) = [(current, key)] \<and>
    later t = Some current \<and> (same_resolution current (pv_resolved p) \<or> resolutions_clash (dc_sha256 c) current (pv_resolved p)) \<and>
    confirmation = confirmation_text p \<and> dt_instant now0 \<le> dt_instant now \<and>
    dt_instant now < dt_instant now0 + 1000000 * dc_preview_lifetime c \<and>
    length grants = (if rv_organization_wide (pv_resolved p) then 2 else 1) \<and> distinct (map gr_principal_id grants) \<and>
    list_all2 (\<lambda>token g. dc_verifier c token = Some g \<and> gr_allow g \<and> gr_plan_id g = fresh \<and>
      gr_resolution_digest g = pv_resolution_digest p \<and> dt_instant (gr_issued_at g) \<le> dt_instant now \<and>
      dt_instant now < dt_instant (gr_expires_at g)) tokens grants"
proof -
  let ?c = "c\<lparr>dc_resolver := later\<rparr>"
  obtain r where r: "dc_resolver c t = Some r" "resolution_digest (dc_sha256 c) r = Inr (pv_resolution_digest p)" and p: "pv_resolved p = r"
    "pv_plan_id p = fresh" "pv_target p = t" "pv_required_approvals p = (if rv_organization_wide r then 2 else 1)"
    "pv_created_at p = now0" "dt_instant (pv_expires_at p) = dt_instant now0 + 1000000 * dc_preview_lifetime c"
    using assms(1) by (auto simp: preview_deletion_def resolve_target_def res_simps split: option.splits)
  obtain current principals k where a: "authorize_deletion ?c now p confirmation tokens key = Inr (current, principals, k)"
    and called: "snd (execute_deletion ?c now after p confirmation tokens key) = [(current, k)]"
    using assms(2) by (auto simp: execute_called)
  note a' = authorize_deletion_Inr[OF a]
  obtain grants where grants: "list_all2 (\<lambda>token g. verify_grant ?c p now token = Inr g) tokens grants" "principals = map gr_principal_id grants"
    using a'(11) by (auto simp: res_simps)
  have current: "later t = Some current" using a'(6) p(3) by (auto simp: resolve_target_def res_simps split: option.splits)
  have "same_resolution current r \<or> resolutions_clash (dc_sha256 c) current r"
    using resolution_digest_binds[of "dc_sha256 c" current "pv_resolution_digest p" r] a'(7) r assms(3,4) current by simp
  moreover have "list_all2 (\<lambda>token g. dc_verifier c token = Some g \<and> gr_allow g \<and> gr_plan_id g = fresh \<and>
      gr_resolution_digest g = pv_resolution_digest p \<and> dt_instant (gr_issued_at g) \<le> dt_instant now \<and>
      dt_instant now < dt_instant (gr_expires_at g)) tokens grants"
    using grants(1) by (rule list_all2_mono) (simp add: verify_grant_Inr p)
  moreover have "length grants = (if rv_organization_wide r then 2 else 1)"
    using list_all2_lengthD[OF grants(1)] a'(5) p(4) by (auto split: if_splits)
  ultimately show ?thesis
    using called current a'(2,3,4,8,10) p grants(2) by (intro exI[of _ current] exI[of _ grants]) simp
qed

lemma valid_identifier_ascii: 
  assumes "valid_identifier s"
  shows "deletion_identifier s \<longleftrightarrow> list_all (\<lambda>c. code_of c < 128) s"
proof -
  have marks: "list_all (\<lambda>c. code_of c < 128) ''_.:/-''" by code_simp
  obtain c cs where s: "s = c # cs" using assms by (cases s) (auto simp: valid_identifier_def)
  have "deletion_identifier s \<longleftrightarrow> ascii_alnum c \<and> list_all (\<lambda>c. ascii_alnum c \<or> c \<in> set ''_.:/-'') cs"
    using assms by (simp add: s deletion_identifier_def valid_identifier_def)
  also have "\<dots> \<longleftrightarrow> list_all (\<lambda>c. code_of c < 128) s"
    using assms marks by (auto simp: s valid_identifier_def list_all_iff py_isalnum_ascii dest: ascii_alnum_code)
  finally show ?thesis .
qed

lemma idempotency_key_ascii:
  assumes "idempotency_key s = Inr k"
  shows "idempotency_text k \<longleftrightarrow> list_all (\<lambda>c. code_of c < 128) k"
proof -
  have marks: "list_all (\<lambda>c. code_of c < 128) ''._:-''" by code_simp
  show ?thesis
    using assms marks by (auto simp: idempotency_key_def idempotency_text_def res_simps list_all_iff list_ex_iff py_isalnum_ascii dest: ascii_alnum_code)
qed

text \<open>
  Once the provider has deleted the resource, the receipt exists exactly when the idempotency key and the
  identifier of the operation are ASCII: both are checked with \<open>isalnum\<close>, which accepts other letters, and the
  record of the receipt then refuses them, after the deletion.
\<close>

theorem receipt_lost_after_deletion:
  assumes "authorize_deletion c now p confirmation tokens key = Inr (current, principals, k)" "dc_executor c current k = Some operation_id"
    and "valid_identifier operation_id" "has_timezone after" "pv_required_approvals p \<in> {1, 2}"
    and "\<And>s. hex_digest (dc_sha256 c s)" "\<And>token g. dc_verifier c token = Some g \<Longrightarrow> AuthorizationGrant g = Inr g"
  shows "snd (execute_deletion c now after p confirmation tokens key) = [(current, k)] \<and>
    (if list_all (\<lambda>c. code_of c < 128) (k @ operation_id) then \<exists>r. fst (execute_deletion c now after p confirmation tokens key) = Inr r
     else fst (execute_deletion c now after p confirmation tokens key) = Inl ReceiptInvalid)"
proof -
  note a = authorize_deletion_Inr[OF assms(1)]
  obtain grants where grants: "list_all2 (\<lambda>token g. verify_grant c p now token = Inr g) tokens grants" "principals = map gr_principal_id grants"
    using a(11) by (auto simp: res_simps)
  have "list_all deletion_identifier principals"
    using grants assms(7) by (auto simp: list_all_length list_all2_conv_all_nth verify_grant_Inr AuthorizationGrant_def res_simps)
  moreover have "1 \<le> length principals" "length principals \<le> 2" 
    using list_all2_lengthD[OF grants(1)] grants(2) a(5) assms(5) by auto
  moreover have "hex_digest (pv_resolution_digest p)"
    using a(7) by (auto simp: resolution_digest_def split: option.splits) (metis assms(6))
  ultimately show ?thesis
    using assms(1-4) valid_identifier_ascii[OF assms(3)] idempotency_key_ascii[of key k] a(8,9)
    by (simp add: execute_deletion_def aware_def DeletionReceipt_def deletion_check_def)
qed

section \<open>An example\<close>

definition demo_target :: deletion_target where
  "demo_target = \<lparr>dl_provider = ''openai'', dl_resource_type = ''project'', dl_resource_id = ''p1'', dl_organization_id = ''org''\<rparr>"

definition demo_resolved :: resolved_target where
  "demo_resolved = \<lparr>rv_target = demo_target, rv_organization_wide = True, rv_display_name = ''P'', rv_state = [(''a'', JInt 1)],
     rv_dependent_resource_ids = []\<rparr>"

definition demo_coordinator :: coordinator where
  "demo_coordinator = \<lparr>dc_resolver = (\<lambda>_. Some demo_resolved),
     dc_verifier = (\<lambda>token. Some \<lparr>gr_principal_id = token, gr_plan_id = ''plan'', gr_resolution_digest = replicate 64 CHR ''0'', gr_allow = True,
       gr_issued_at = \<lparr>dt_instant = 0, dt_offset = Some 0\<rparr>, gr_expires_at = \<lparr>dt_instant = 9, dt_offset = Some 0\<rparr>\<rparr>),
     dc_executor = (\<lambda>_ _. Some ''op''), dc_preview_lifetime = 900, dc_sha256 = (\<lambda>_. replicate 64 CHR ''0'')\<rparr>"

definition demo_when :: "int \<Rightarrow> py_datetime" where
  "demo_when i = \<lparr>dt_instant = i, dt_offset = Some 0\<rparr>"

definition demo_preview :: deletion_preview where
  "demo_preview = \<lparr>pv_plan_id = ''plan'', pv_target = demo_target, pv_resolved = demo_resolved, pv_resolution_digest = replicate 64 CHR ''0'',
     pv_required_approvals = 2, pv_created_at = demo_when 1, pv_expires_at = demo_when 900000001\<rparr>"

lemma demo_previewed: "preview_deletion demo_coordinator (demo_when 1) ''plan'' demo_target = Inr demo_preview"
  by code_simp

text \<open>A target whose state comes back with its keys in another order, and a hash that tells texts by their length and their last character.\<close>

definition length_hash :: "string \<Rightarrow> string" where
  "length_hash s = replicate 62 CHR ''0'' @ [digit_char (length s mod 10), (if s = [] then CHR ''0'' else if last s = CHR ''}'' then CHR ''1'' else CHR ''2'')]"

definition stateful_resolution :: "json dict \<Rightarrow> resolved_target" where
  "stateful_resolution state = demo_resolved\<lparr>rv_state := state\<rparr>"

definition stateful_coordinator :: coordinator where
  "stateful_coordinator = demo_coordinator\<lparr>dc_resolver := \<lambda>_. Some (stateful_resolution [(''a'', JInt 1), (''b'', JNull)]), dc_sha256 := length_hash,
     dc_verifier := \<lambda>token. Some \<lparr>gr_principal_id = token, gr_plan_id = ''plan'',
       gr_resolution_digest = length_hash (replicate 198 CHR ''}''), gr_allow = True,
       gr_issued_at = demo_when 0, gr_expires_at = demo_when 9\<rparr>\<rparr>"

definition stateful_preview :: deletion_preview where
  "stateful_preview = demo_preview\<lparr>pv_resolved := stateful_resolution [(''a'', JInt 1), (''b'', JNull)],
     pv_resolution_digest := length_hash (replicate 198 CHR ''}'')\<rparr>"

lemma stateful_previewed: "preview_deletion stateful_coordinator (demo_when 1) ''plan'' demo_target = Inr stateful_preview"
  by code_simp

definition reordered_coordinator :: coordinator where
  "reordered_coordinator = stateful_coordinator\<lparr>dc_resolver := \<lambda>_. Some (stateful_resolution [(''b'', JNull), (''a'', JInt 1)])\<rparr>"

lemma reordered_executed:
  "snd (execute_deletion reordered_coordinator (demo_when 2) (demo_when 3) stateful_preview (confirmation_text stateful_preview) [''u'', ''v''] ''k'')
     = [(stateful_resolution [(''b'', JNull), (''a'', JInt 1)], ''k'')]"
  by code_simp

lemma reordered_same_bytes:
  "canonical (JObj (resolved_members (stateful_resolution [(''b'', JNull), (''a'', JInt 1)])))
     = canonical (JObj (resolved_members (stateful_resolution [(''a'', JInt 1), (''b'', JNull)])))"
  by code_simp

theorem deletion_needs_authorization_witness:
  "dt_instant (demo_when 1) \<le> dt_instant (demo_when 2) \<and>
   same_resolution (stateful_resolution [(''b'', JNull), (''a'', JInt 1)]) (pv_resolved stateful_preview)"
proof -
  let ?current = "stateful_resolution [(''b'', JNull), (''a'', JInt 1)]"
  have wf: "wf_json (JObj (rv_state (stateful_resolution [(''a'', JInt 1), (''b'', JNull)])))" "wf_json (JObj (rv_state ?current))" by code_simp+
  have "\<not> resolutions_clash h ?current (pv_resolved stateful_preview)" for h
    using reordered_same_bytes by (simp add: stateful_preview_def json_clash_def hash_clash_def split: option.splits)
  then show ?thesis
    using deletion_needs_authorization[OF stateful_previewed, of "\<lambda>_. Some ?current" "demo_when 2" "demo_when 3" "confirmation_text stateful_preview"
      "[''u'', ''v'']" "''k''"] wf reordered_executed[unfolded reordered_coordinator_def] by (auto simp: stateful_coordinator_def)
qed

theorem receipt_lost_after_deletion_witness:
  "fst (execute_deletion (demo_coordinator\<lparr>dc_verifier := \<lambda>token. if token = ''u'' \<or> token = ''v'' then dc_verifier demo_coordinator token else None\<rparr>)
     (demo_when 2) (demo_when 3) demo_preview (confirmation_text demo_preview) [''u'', ''v''] [char_of (233 :: nat)]) = Inl ReceiptInvalid"
proof -
  let ?c = "demo_coordinator\<lparr>dc_verifier := \<lambda>token. if token = ''u'' \<or> token = ''v'' then dc_verifier demo_coordinator token else None\<rparr>"
  have a: "authorize_deletion ?c (demo_when 2) demo_preview (confirmation_text demo_preview) [''u'', ''v''] [char_of (233 :: nat)]
      = Inr (demo_resolved, [''u'', ''v''], [char_of (233 :: nat)])"
    by code_simp
  have "valid_identifier ''op''" "hex_digest (replicate 64 CHR ''0'')" by code_simp+
  moreover have "AuthorizationGrant g = Inr g" if "dc_verifier ?c token = Some g" for token g
  proof -
    have "map_option AuthorizationGrant (dc_verifier demo_coordinator ''u'') = map_option Inr (dc_verifier demo_coordinator ''u'')"
      "map_option AuthorizationGrant (dc_verifier demo_coordinator ''v'') = map_option Inr (dc_verifier demo_coordinator ''v'')"
      by code_simp+
    then show ?thesis using that by (auto split: if_splits)
  qed
  moreover have "\<not> list_all (\<lambda>c. code_of c < 128) ([char_of (233 :: nat)] @ ''op'')" by code_simp
  ultimately show ?thesis
    using receipt_lost_after_deletion[OF a, of "''op''" "demo_when 3"]
    by (simp add: demo_coordinator_def demo_when_def has_timezone_def demo_preview_def del: char_of_nat)
qed

end
