(* ===== verification/Webhooks.thy ===== *)
theory Webhooks
  imports AgentSchemas CanonicalJson
begin

text \<open>
  Webhooks of the enterprise package (\<open>zeaz_enterprise/webhooks.py\<close>): the signature, the freshness and the
  schema of a delivery, and the store that remembers which events were received. HMAC-SHA256, the decoding of
  bytes and Pydantic's reading of a datetime are parameters; the clock's reading is an argument. Creating the
  database file is not modelled.
\<close>

section \<open>Records\<close>

datatype webhook_error = WebhookVerificationError string | WebhookValueError string

definition webhook_check :: "bool \<Rightarrow> string \<Rightarrow> webhook_error + unit" where
  "webhook_check ok m = (if ok then Inr () else Inl (WebhookVerificationError m))"

lemma webhook_check_Inr [res_simps]: "webhook_check ok m = Inr u \<longleftrightarrow> ok"
  by (simp add: webhook_check_def)

lemma webhook_check_Inl [res_simps]: "webhook_check ok m = Inl e \<longleftrightarrow> \<not> ok \<and> e = WebhookVerificationError m"
  by (auto simp: webhook_check_def)

definition lower_letter :: "char \<Rightarrow> bool" where
  "lower_letter c = (97 \<le> code_of c \<and> code_of c \<le> 122)"

definition snake_char :: "char \<Rightarrow> bool" where
  "snake_char c = (lower_letter c \<or> is_digit c \<or> c = CHR ''_'')"

definition snake_word :: "string \<Rightarrow> bool" where
  "snake_word s = (s \<noteq> [] \<and> lower_letter (hd s) \<and> list_all snake_char (tl s))"

definition webhook_type :: "string \<Rightarrow> bool" where
  "webhook_type s = (case split_once ''.'' s of None \<Rightarrow> False | Some (a, b) \<Rightarrow> snake_word a \<and> snake_word b)"

definition webhook_identifier :: "string \<Rightarrow> bool" where
  "webhook_identifier s = (s \<noteq> [] \<and> length s \<le> 255 \<and> ascii_alnum (hd s) \<and> list_all (\<lambda>c. ascii_alnum c \<or> c \<in> set ''_.:-'') (tl s))"

record webhook_data =
  wd_type :: string
  wd_id :: string
  wd_organization_id :: string
  wd_workspace_id :: string
  wd_details :: "json dict"

definition WebhookData :: "webhook_data \<Rightarrow> bool" where
  "WebhookData d = (webhook_type (wd_type d) \<and> webhook_identifier (wd_id d) \<and> webhook_identifier (wd_organization_id d) \<and>
     webhook_identifier (wd_workspace_id d) \<and> length (wd_details d) \<le> 16 \<and>
     list_all (\<lambda>kv. snake_word (fst kv) \<and> length (fst kv) \<le> 64) (wd_details d))"

record webhook_event =
  we_id :: string
  we_created_at :: py_datetime
  we_data :: webhook_data

record verified_webhook =
  vw_event :: webhook_event
  vw_duplicate :: bool

section \<open>Base64\<close>

text \<open>\<open>base64.b64decode(s, validate=True)\<close>: the loop of \<open>binascii.a2b_base64\<close> in the strict mode of CPython 3.11.\<close>

definition base64_value :: "char \<Rightarrow> nat option" where
  "base64_value c = (let n = code_of c in
     if 65 \<le> n \<and> n \<le> 90 then Some (n - 65) else if 97 \<le> n \<and> n \<le> 122 then Some (n - 71) else if is_digit c then Some (n + 4)
     else if c = CHR ''+'' then Some 62 else if c = CHR ''/'' then Some 63 else None)"

text \<open>The position in the group of four, the bits left over, the padding seen, and the output.\<close>

fun base64_run :: "nat \<Rightarrow> nat \<Rightarrow> nat \<Rightarrow> bool \<Rightarrow> string \<Rightarrow> string \<Rightarrow> string option" where
  "base64_run quad left pads padded acc [] = (if quad = 0 then Some (rev acc) else None)"
| "base64_run quad left pads padded acc (c # cs) =
     (if c = CHR ''='' then
        (if 2 \<le> quad \<and> quad + (pads + 1) \<ge> 4 then (if cs \<noteq> [] then None else Some (rev acc))
         else base64_run quad left (if 2 \<le> quad then pads + 1 else pads) True acc cs)
      else (case base64_value c of
          None \<Rightarrow> None
        | Some v \<Rightarrow>
            if padded then None
            else if quad = 0 then base64_run 1 v 0 padded acc cs
            else if quad = 1 then base64_run 2 (v mod 16) 0 padded (char_of (left * 4 + v div 16) # acc) cs
            else if quad = 2 then base64_run 3 (v mod 4) 0 padded (char_of (left * 16 + v div 4) # acc) cs
            else base64_run 0 0 0 padded (char_of (left * 64 + v) # acc) cs))"

definition b64decode :: "string \<Rightarrow> string option" where
  "b64decode s = (if s \<noteq> [] \<and> hd s = CHR ''='' then None else base64_run 0 0 0 False [] s)"

section \<open>The store\<close>

type_synonym replay_table = "(string \<times> int) list"

definition SQLiteWebhookReplayStore :: "int \<Rightarrow> webhook_error + int" where
  "SQLiteWebhookReplayStore retention_seconds =
     (if \<not> (300 \<le> retention_seconds \<and> retention_seconds \<le> 31536000)
      then Inl (WebhookValueError ''retention_seconds must be between 5 minutes and 1 year'') else Inr retention_seconds)"

text \<open>One transaction: old rows are deleted, then the event is inserted unless it is there.\<close>

definition claim_event :: "int \<Rightarrow> string \<Rightarrow> int \<Rightarrow> replay_table \<Rightarrow> bool \<times> replay_table" where
  "claim_event retention event_id received_at db =
     (let kept = filter (\<lambda>row. \<not> snd row < received_at - retention) db
      in if dict_has kept event_id then (False, kept) else (True, kept @ [(event_id, received_at)]))"

section \<open>Verification\<close>

record webhook_env =
  wh_hmac :: "string \<Rightarrow> string \<Rightarrow> string"
  wh_decode :: "string \<Rightarrow> string option"
  wh_datetime :: "json \<Rightarrow> py_datetime option"

record webhook_verifier =
  wv_key :: string
  wv_retention :: int
  wv_tolerance :: int
  wv_max_body_bytes :: int

definition AnthropicWebhookVerifier :: "string \<Rightarrow> int \<Rightarrow> int \<Rightarrow> int \<Rightarrow> webhook_error + webhook_verifier" where
  "AnthropicWebhookVerifier encoded retention tolerance_seconds max_body_bytes =
     (if \<not> starts_with ''whsec_'' encoded then Inl (WebhookValueError ''webhook signing secret must use the whsec_ prefix'')
      else (case b64decode (drop 6 encoded) of
          None \<Rightarrow> Inl (WebhookValueError ''webhook signing secret is malformed'')
        | Some key \<Rightarrow>
            if length key \<noteq> 32 then Inl (WebhookValueError ''webhook signing secret must decode to 32 bytes'')
            else if \<not> (1 \<le> tolerance_seconds \<and> tolerance_seconds \<le> 900) then Inl (WebhookValueError ''tolerance_seconds must be between 1 and 900'')
            else if \<not> (256 \<le> max_body_bytes \<and> max_body_bytes \<le> 16777216) then Inl (WebhookValueError ''max_body_bytes must be between 256 B and 16 MiB'')
            else Inr \<lparr>wv_key = key, wv_retention = retention, wv_tolerance = tolerance_seconds, wv_max_body_bytes = max_body_bytes\<rparr>))"

definition webhook_header :: "string dict \<Rightarrow> string \<Rightarrow> webhook_error + string" where
  "webhook_header headers name =
     bindE (webhook_check (\<not> (dict_get_default headers name [] = [] \<or> length (dict_get_default headers name []) > 8192))
       (''required '' @ name @ '' header is invalid'')) (\<lambda>_. Inr (dict_get_default headers name []))"

text \<open>\<open>s.split()\<close>\<close>

fun split_spaces :: "string \<Rightarrow> string list" where
  "split_spaces [] = []"
| "split_spaces (c # cs) =
     (if py_space c then split_spaces cs
      else (case cs of
          [] \<Rightarrow> [[c]]
        | d # _ \<Rightarrow> if py_space d then [c] # split_spaces cs
                  else (case split_spaces cs of [] \<Rightarrow> [[c]] | w # ws \<Rightarrow> (c # w) # ws)))"

definition signature_of :: "string \<Rightarrow> string option" where
  "signature_of part = (case split_once '','' part of
     None \<Rightarrow> None
   | Some (version, signature) \<Rightarrow>
       if version \<noteq> ''v1'' then None
       else (case b64decode signature of None \<Rightarrow> None | Some candidate \<Rightarrow> if length candidate = 32 then Some candidate else None))"

definition signatures :: "string \<Rightarrow> webhook_error + string list" where
  "signatures s = (let decoded = List.map_filter signature_of (split_spaces s)
     in bindE (webhook_check (\<not> (decoded = [] \<or> length decoded > 16)) ''webhook signature header is invalid'') (\<lambda>_. Inr decoded))"

definition required_data :: "string list" where
  "required_data = [''type'', ''id'', ''organization_id'', ''workspace_id'']"

definition text_member :: "json dict \<Rightarrow> string \<Rightarrow> string" where
  "text_member d k = (case get_or_null d k of JStr s \<Rightarrow> s | _ \<Rightarrow> [])"

definition event_of :: "webhook_env \<Rightarrow> json dict \<Rightarrow> webhook_event option" where
  "event_of env value = (case get_or_null value ''data'' of
     JObj data \<Rightarrow>
       (let d = \<lparr>wd_type = text_member data ''type'', wd_id = text_member data ''id'', wd_organization_id = text_member data ''organization_id'',
             wd_workspace_id = text_member data ''workspace_id'', wd_details = filter (\<lambda>kv. fst kv \<notin> set required_data) data\<rparr>
        in if \<not> list_all (\<lambda>k. dict_has data k) required_data \<or> length data > 20 \<or> \<not> WebhookData d \<or>
              get_or_null value ''type'' \<noteq> JStr ''event'' \<or> \<not> webhook_identifier (text_member value ''id'') then None
           else (case wh_datetime env (get_or_null value ''created_at'') of
               None \<Rightarrow> None
             | Some t \<Rightarrow> if has_timezone t then Some \<lparr>we_id = text_member value ''id'', we_created_at = t, we_data = d\<rparr> else None))
   | _ \<Rightarrow> None)"

definition webhook_event_of :: "webhook_env \<Rightarrow> string \<Rightarrow> webhook_error + webhook_event" where
  "webhook_event_of env body =
     (case Option.bind (wh_decode env body) json_loads of
        Some (JObj value) \<Rightarrow>
          (case (if set (map fst value) = {''type'', ''id'', ''created_at'', ''data''} then event_of env value else None) of
             None \<Rightarrow> Inl (WebhookVerificationError ''webhook payload is invalid'') | Some e \<Rightarrow> Inr e)
      | _ \<Rightarrow> Inl (WebhookVerificationError ''webhook payload is invalid''))"

definition normalized_headers :: "string dict \<Rightarrow> string dict" where
  "normalized_headers headers = dict_of_pairs (map (\<lambda>kv. (py_lower (fst kv), snd kv)) headers)"

text \<open>Everything \<open>verify\<close> does before it claims the event.\<close>

definition authenticate_delivery :: "webhook_env \<Rightarrow> webhook_verifier \<Rightarrow> int \<Rightarrow> string \<Rightarrow> string dict \<Rightarrow> webhook_error + webhook_event" where
  "authenticate_delivery env v now body headers =
     bindE (webhook_check (\<not> (body = [] \<or> int (length body) > wv_max_body_bytes v)) ''webhook body is invalid or too large'') (\<lambda>_.
     bindE (webhook_header (normalized_headers headers) ''webhook-id'') (\<lambda>webhook_id.
     bindE (webhook_header (normalized_headers headers) ''webhook-timestamp'') (\<lambda>timestamp_text.
     bindE (webhook_header (normalized_headers headers) ''webhook-signature'') (\<lambda>signature_text.
     case py_int_of_str timestamp_text of
       None \<Rightarrow> Inl (WebhookVerificationError ''webhook timestamp is invalid'')
     | Some timestamp \<Rightarrow>
         bindE (webhook_check (\<not> \<bar>now - timestamp\<bar> > wv_tolerance v) ''webhook timestamp is stale'') (\<lambda>_.
         (let expected = wh_hmac env (wv_key v) (utf8_encode webhook_id @ ''.'' @ utf8_encode timestamp_text @ ''.'' @ body)
          in bindE (signatures signature_text) (\<lambda>candidates.
             bindE (webhook_check (list_ex (\<lambda>candidate. expected = candidate) candidates) ''webhook signature is invalid'') (\<lambda>_.
             bindE (webhook_event_of env body) (\<lambda>event.
             bindE (webhook_check (\<not> we_id event \<noteq> webhook_id) ''webhook ID does not match signed delivery'') (\<lambda>_. Inr event))))))))))"

definition verify_webhook ::
  "webhook_env \<Rightarrow> webhook_verifier \<Rightarrow> int \<Rightarrow> string \<Rightarrow> string dict \<Rightarrow> replay_table \<Rightarrow> (webhook_error + verified_webhook) \<times> replay_table" where
  "verify_webhook env v now body headers db =
     (case authenticate_delivery env v now body headers of
        Inl e \<Rightarrow> (Inl e, db)
      | Inr event \<Rightarrow>
          (case claim_event (wv_retention v) (we_id event) now db of
             (claimed, db') \<Rightarrow> (Inr \<lparr>vw_event = event, vw_duplicate = (\<not> claimed)\<rparr>, db')))"

section \<open>Replays\<close>

text \<open>
  A claim by any verifier at a time up to \<open>T\<close>. The rows that no such claim deletes are those received at
  most the retention before \<open>T\<close>; they stay as they are.
\<close>

definition claims_until :: "int \<Rightarrow> int \<Rightarrow> replay_table \<Rightarrow> replay_table \<Rightarrow> bool" where
  "claims_until retention T db db' = (\<exists>event_id r. r \<le> T \<and> db' = snd (claim_event retention event_id r db))"

definition kept_until :: "int \<Rightarrow> int \<Rightarrow> replay_table \<Rightarrow> string \<Rightarrow> int option" where
  "kept_until retention T db event_id = map_of (filter (\<lambda>row. \<not> snd row < T - retention) db) event_id"

lemma claim_keeps:
  assumes "r \<le> T" "kept_until retention T db k = Some i"
  shows "kept_until retention T (snd (claim_event retention event_id r db)) k = Some i"
proof -
  have "filter (\<lambda>row. \<not> snd row < T - retention) (filter (\<lambda>row. \<not> snd row < r - retention) db)
      = filter (\<lambda>row. \<not> snd row < T - retention) db"
    using assms(1) by (auto simp: conj_commute intro!: filter_cong)
  then show ?thesis
    using assms(2) by (auto simp: kept_until_def claim_event_def Let_def map_add_Some_iff)
qed

interpretation claims: growing_rows "claims_until retention T" "kept_until retention T" "(=)" for retention T
  by unfold_locales (auto simp: claims_until_def claim_keeps)

lemma kept_has: "kept_until retention T db k = Some i \<Longrightarrow> dict_has (filter (\<lambda>row. \<not> snd row < T - retention) db) k"
  by (simp add: kept_until_def dict_has_def)

lemma new_claim_kept:
  assumes "claim_event retention event_id now db = (True, db')" "T \<le> now + retention"
  shows "kept_until retention T db' event_id = Some now"
proof -
  let ?kept = "filter (\<lambda>row. \<not> snd row < now - retention) db"
  have db': "db' = ?kept @ [(event_id, now)]" "map_of ?kept event_id = None"
    using assms(1) by (auto simp: claim_event_def Let_def dict_has_def split: if_splits)
  have "map_of (filter P ?kept) event_id = None" for P
    using db'(2) by (auto simp: map_of_eq_None_iff)
  then show ?thesis using assms(2) by (auto simp: kept_until_def db'(1) map_add_Some_iff)
qed

lemma verify_webhook_Inr:
  "verify_webhook env v now body headers db = (Inr w, db') \<longleftrightarrow>
     authenticate_delivery env v now body headers = Inr (vw_event w) \<and> claim_event (wv_retention v) (we_id (vw_event w)) now db = (\<not> vw_duplicate w, db')"
  by (cases w) (auto simp: verify_webhook_def split: sum.splits prod.splits)

lemma authenticate_delivery_Inr:
  assumes "authenticate_delivery env v now body headers = Inr event"
  shows "body \<noteq> []" "int (length body) \<le> wv_max_body_bytes v"
    "\<exists>webhook_id timestamp_text timestamp signature_text candidates.
       webhook_header (normalized_headers headers) ''webhook-id'' = Inr webhook_id \<and>
       webhook_header (normalized_headers headers) ''webhook-timestamp'' = Inr timestamp_text \<and>
       webhook_header (normalized_headers headers) ''webhook-signature'' = Inr signature_text \<and>
       py_int_of_str timestamp_text = Some timestamp \<and> \<bar>now - timestamp\<bar> \<le> wv_tolerance v \<and>
       signatures signature_text = Inr candidates \<and>
       wh_hmac env (wv_key v) (utf8_encode webhook_id @ ''.'' @ utf8_encode timestamp_text @ ''.'' @ body) \<in> set candidates \<and>
       webhook_event_of env body = Inr event \<and> we_id event = webhook_id"
  using assms by (auto simp: authenticate_delivery_def Let_def res_simps list_ex_iff split: option.splits)

text \<open>
  C20: A delivery that was accepted as new and is sent again, with the same timestamp and event identifier, is accepted
  as a duplicate only, whatever other deliveries were claimed in between by this or other verifiers of the store, if
  the store remembers for at least twice the tolerance.
\<close>

theorem webhook_replay_detected:
  assumes "verify_webhook env v now body headers db = (Inr w, db1)" "\<not> vw_duplicate w"
    and "(claims_until (wv_retention v) now')\<^sup>*\<^sup>* db1 db2"
    and "verify_webhook env v now' body' headers' db2 = (Inr w', db3)" "we_id (vw_event w') = we_id (vw_event w)"
    and "webhook_header (normalized_headers headers') ''webhook-timestamp'' = webhook_header (normalized_headers headers) ''webhook-timestamp''"
    and "2 * wv_tolerance v \<le> wv_retention v"
  shows "vw_duplicate w'"
proof -
  let ?ret = "wv_retention v" and ?id = "we_id (vw_event w)"
  have claim: "claim_event ?ret ?id now db = (True, db1)" "claim_event ?ret ?id now' db2 = (\<not> vw_duplicate w', db3)"
    and auth: "authenticate_delivery env v now body headers = Inr (vw_event w)" "authenticate_delivery env v now' body' headers' = Inr (vw_event w')"
    using assms(1,2,4,5) by (simp_all add: verify_webhook_Inr)
  obtain timestamp where "\<bar>now - timestamp\<bar> \<le> wv_tolerance v" "\<bar>now' - timestamp\<bar> \<le> wv_tolerance v"
    using authenticate_delivery_Inr(3)[OF auth(1)] authenticate_delivery_Inr(3)[OF auth(2)] assms(6) by auto
  then have "now' \<le> now + ?ret" using assms(7) by linarith
  then have "kept_until ?ret now' db1 ?id = Some now" by (rule new_claim_kept[OF claim(1)])
  then have "kept_until ?ret now' db2 ?id = Some now" using claims.row_grows[OF assms(3)] by blast
  then show ?thesis using kept_has claim(2) by (auto simp: claim_event_def Let_def split: if_splits)
qed

lemma authenticate_delivery_fresh:
  assumes "authenticate_delivery env v now body headers = Inr event" "webhook_header (normalized_headers headers) ''webhook-timestamp'' = Inr text"
    "py_int_of_str text = Some timestamp" "\<bar>now' - timestamp\<bar> \<le> wv_tolerance v"
  shows "authenticate_delivery env v now' body headers = Inr event"
  using assms by (auto simp: authenticate_delivery_def Let_def res_simps split: option.splits)

text \<open>
  A store that remembers for less than twice the tolerance, which both constructors accept, lets a replay through: a
  delivery that arrives with the fastest clock that is tolerated is new once more with the slowest.
\<close>

theorem short_retention_accepts_replay:
  assumes "verify_webhook env v (timestamp - wv_tolerance v) body headers [] = (Inr w, db)"
    and "webhook_header (normalized_headers headers) ''webhook-timestamp'' = Inr text" "py_int_of_str text = Some timestamp"
    and "wv_retention v < 2 * wv_tolerance v"
  shows "fst (verify_webhook env v (timestamp + wv_tolerance v) body headers db) = Inr w \<and> \<not> vw_duplicate w"
proof -
  have auth: "authenticate_delivery env v (timestamp - wv_tolerance v) body headers = Inr (vw_event w)"
    and claim: "claim_event (wv_retention v) (we_id (vw_event w)) (timestamp - wv_tolerance v) [] = (\<not> vw_duplicate w, db)"
    using assms(1) by (simp_all add: verify_webhook_Inr)
  have new: "\<not> vw_duplicate w" and db: "db = [(we_id (vw_event w), timestamp - wv_tolerance v)]"
    using claim by (simp_all add: claim_event_def dict_has_def)
  have "0 \<le> wv_tolerance v" using authenticate_delivery_Inr(3)[OF auth] by (auto intro: order_trans[OF abs_ge_zero])
  then have "authenticate_delivery env v (timestamp + wv_tolerance v) body headers = Inr (vw_event w)"
    by (intro authenticate_delivery_fresh[OF auth assms(2,3)]) simp
  moreover have "claim_event (wv_retention v) (we_id (vw_event w)) (timestamp + wv_tolerance v) db = (True, [(we_id (vw_event w), timestamp + wv_tolerance v)])"
    using assms(4) by (simp add: claim_event_def db dict_has_def)
  ultimately show ?thesis using new by (cases w) (simp add: verify_webhook_def)
qed

section \<open>An example\<close>

definition demo_delivery :: string where
  "demo_delivery = map (\<lambda>c. if c = CHR ''!'' then dquote else c)
     ''{!type!:!event!,!id!:!e1!,!created_at!:0,!data!:{!type!:!a.b!,!id!:!i!,!organization_id!:!o!,!workspace_id!:!w!}}''"

definition demo_headers :: "string dict" where
  "demo_headers = [(''Webhook-Id'', ''e1''), (''Webhook-Timestamp'', ''1000''), (''Webhook-Signature'', ''v1,'' @ concat (replicate 10 ''QUFB'') @ ''QUE='')]"

definition demo_webhook_env :: webhook_env where
  "demo_webhook_env = \<lparr>wh_hmac = (\<lambda>_ _. replicate 32 CHR ''A''), wh_decode = Some, wh_datetime = (\<lambda>_. Some \<lparr>dt_instant = 0, dt_offset = Some 0\<rparr>)\<rparr>"

definition demo_verifier :: "int \<Rightarrow> webhook_verifier" where
  "demo_verifier tolerance = \<lparr>wv_key = replicate 32 CHR ''k'', wv_retention = 600, wv_tolerance = tolerance, wv_max_body_bytes = 256\<rparr>"

definition demo_delivered :: webhook_event where
  "demo_delivered = \<lparr>we_id = ''e1'', we_created_at = \<lparr>dt_instant = 0, dt_offset = Some 0\<rparr>, we_data =
     \<lparr>wd_type = ''a.b'', wd_id = ''i'', wd_organization_id = ''o'', wd_workspace_id = ''w'', wd_details = []\<rparr>\<rparr>"

lemma demo_timestamp: "webhook_header (normalized_headers demo_headers) ''webhook-timestamp'' = Inr ''1000''" "py_int_of_str ''1000'' = Some 1000"
  by code_simp+

lemma demo_header: "webhook_header (normalized_headers demo_headers) ''webhook-id'' = Inr ''e1''"
  "webhook_header (normalized_headers demo_headers) ''webhook-signature'' = Inr (''v1,'' @ concat (replicate 10 ''QUFB'') @ ''QUE='')"
  by code_simp+

lemma demo_signature: "signatures (''v1,'' @ concat (replicate 10 ''QUFB'') @ ''QUE='') = Inr [replicate 32 CHR ''A'']"
  by code_simp

lemma demo_parsed: "webhook_event_of demo_webhook_env demo_delivery = Inr demo_delivered"
  by code_simp

lemma demo_size: "demo_delivery \<noteq> [] \<and> int (length demo_delivery) \<le> 256"
  by code_simp

lemma demo_authentic:
  assumes "0 \<le> tolerance"
  shows "authenticate_delivery demo_webhook_env (demo_verifier tolerance) 1000 demo_delivery demo_headers = Inr demo_delivered"
proof -
  have "wh_hmac demo_webhook_env k m = replicate 32 CHR ''A''" for k m by (simp add: demo_webhook_env_def)
  moreover have "we_id demo_delivered = ''e1''" by (simp add: demo_delivered_def)
  ultimately show ?thesis
    using assms demo_size demo_signature demo_parsed
    by (simp add: authenticate_delivery_def demo_timestamp demo_header demo_verifier_def webhook_check_def Let_def del: concat.simps replicate.simps)
qed

lemma demo_accepted:
  assumes "\<bar>now - 1000\<bar> \<le> tolerance" "tolerance = 300 \<or> tolerance = 900"
  shows "verify_webhook demo_webhook_env (demo_verifier tolerance) now demo_delivery demo_headers [] = (Inr \<lparr>vw_event = demo_delivered, vw_duplicate = False\<rparr>, [(''e1'', now)])"
proof -
  have "authenticate_delivery demo_webhook_env (demo_verifier tolerance) now demo_delivery demo_headers = Inr demo_delivered"
    using assms by (intro authenticate_delivery_fresh[OF demo_authentic demo_timestamp]) (auto simp: demo_verifier_def)
  then show ?thesis by (simp add: verify_webhook_def claim_event_def dict_has_def demo_delivered_def)
qed

theorem webhook_replay_detected_witness:
  "fst (verify_webhook demo_webhook_env (demo_verifier 300) 1100 demo_delivery demo_headers [(''e1'', 900)])
     = Inr \<lparr>vw_event = demo_delivered, vw_duplicate = True\<rparr>"
proof -
  have "authenticate_delivery demo_webhook_env (demo_verifier 300) 1100 demo_delivery demo_headers = Inr demo_delivered"
    by (intro authenticate_delivery_fresh[OF demo_authentic demo_timestamp]) (simp_all add: demo_verifier_def)
  then obtain w db where again: "verify_webhook demo_webhook_env (demo_verifier 300) 1100 demo_delivery demo_headers [(''e1'', 900)] = (Inr w, db)"
    "vw_event w = demo_delivered"
    by (cases "claim_event 600 ''e1'' 1100 [(''e1'', 900)]") (simp add: verify_webhook_def demo_verifier_def demo_delivered_def)
  have "vw_duplicate w"
    using webhook_replay_detected[OF demo_accepted[of 900 300] _ _ again(1) _ refl] again(2)
    by (simp add: demo_verifier_def)
  then show ?thesis using again by (cases w) simp
qed

theorem short_retention_accepts_replay_witness:
  "fst (verify_webhook demo_webhook_env (demo_verifier 900) 1900 demo_delivery demo_headers [(''e1'', 100)])
     = Inr \<lparr>vw_event = demo_delivered, vw_duplicate = False\<rparr>"
  using short_retention_accepts_replay[OF _ demo_timestamp, where env = demo_webhook_env and v = "demo_verifier 900"] demo_accepted[of 100 900]
  by (simp add: demo_verifier_def)

end
