(* ===== verification/SandboxOutput.thy ===== *)
theory SandboxOutput
  imports PyText
begin

text \<open>
  The output of a sandboxed job (\<open>zeaz_sandbox/streaming.py\<close>): a redactor of literal secrets for each channel
  and the streamer that shares one budget of bytes between the two. A byte is a character; whether the
  consumer takes an emission is an argument.
\<close>

section \<open>The redactor\<close>

definition redacted :: string where
  "redacted = ''[REDACTED]''"

text \<open>
  \<open>_drain\<close>: what is emitted and what stays in the buffer. A secret is not empty, so that a match takes the
  first byte and the rest of the secret.
\<close>

function drain :: "string list \<Rightarrow> bool \<Rightarrow> string \<Rightarrow> string \<times> string" where
  "drain secrets final [] = ([], [])"
| "drain secrets final (b # bs) =
     (case find (\<lambda>secret. starts_with secret (b # bs)) secrets of
        Some secret \<Rightarrow> (case drain secrets final (drop (length secret - 1) bs) of (out, rest) \<Rightarrow> (redacted @ out, rest))
      | None \<Rightarrow>
          if \<not> final \<and> list_ex (\<lambda>secret. length (b # bs) < length secret \<and> starts_with (b # bs) secret) secrets then ([], b # bs)
          else (case drain secrets final bs of (out, rest) \<Rightarrow> (b # out, rest)))"
  by pat_completeness auto
termination
  by (relation "measure (\<lambda>(_, _, buffer). length buffer)") auto

declare drain.simps(2) [simp del]

section \<open>The streamer\<close>

datatype output_channel = Stdout | Stderr

datatype output_error = OutputSinkError | OutputRuntimeError string | OutputValueError string

record streamer =
  so_secrets :: "string list"
  so_max_bytes :: int
  so_stdout_bytes :: int
  so_stderr_bytes :: int
  so_total_bytes :: int
  so_truncated :: bool
  so_finished :: bool
  so_stdout_buffer :: string
  so_stderr_buffer :: string

text \<open>\<open>sorted(set(secrets), key=len, reverse=True)\<close>; the order of secrets of one length does not matter.\<close>

fun insert_secret :: "string \<Rightarrow> string list \<Rightarrow> string list" where
  "insert_secret s [] = [s]"
| "insert_secret s (t # ts) = (if length s < length t then t # insert_secret s ts else s # t # ts)"

definition sorted_secrets :: "string list \<Rightarrow> string list" where
  "sorted_secrets secrets = foldr insert_secret (remdups secrets) []"

definition BoundedOutputStreamer :: "int \<Rightarrow> string list \<Rightarrow> real \<Rightarrow> output_error + streamer" where
  "BoundedOutputStreamer max_bytes secrets emit_timeout_seconds =
     (if \<not> (1024 \<le> max_bytes \<and> max_bytes \<le> 67108864) then Inl (OutputValueError ''max_bytes must be between 1 KiB and 64 MiB'')
      else if length (sorted_secrets secrets) > 128 \<or>
          list_ex (\<lambda>s. \<not> (4 \<le> length s \<and> length s \<le> 4096) \<or> char_of (0 :: nat) \<in> set s) (sorted_secrets secrets)
      then Inl (OutputValueError ''redaction secrets must be 4-4096 non-NUL bytes'')
      else if \<not> (0 < emit_timeout_seconds \<and> emit_timeout_seconds \<le> 30) then Inl (OutputValueError ''emit_timeout_seconds must be between 0 and 30'')
      else Inr \<lparr>so_secrets = sorted_secrets secrets, so_max_bytes = max_bytes, so_stdout_bytes = 0, so_stderr_bytes = 0, so_total_bytes = 0,
        so_truncated = False, so_finished = False, so_stdout_buffer = [], so_stderr_buffer = []\<rparr>)"

definition channel_buffer :: "output_channel \<Rightarrow> streamer \<Rightarrow> string" where
  "channel_buffer channel s = (case channel of Stdout \<Rightarrow> so_stdout_buffer s | Stderr \<Rightarrow> so_stderr_buffer s)"

definition set_buffer :: "output_channel \<Rightarrow> string \<Rightarrow> streamer \<Rightarrow> streamer" where
  "set_buffer channel buffer s = (case channel of Stdout \<Rightarrow> s\<lparr>so_stdout_buffer := buffer\<rparr> | Stderr \<Rightarrow> s\<lparr>so_stderr_buffer := buffer\<rparr>)"

definition count_bytes :: "output_channel \<Rightarrow> int \<Rightarrow> streamer \<Rightarrow> streamer" where
  "count_bytes channel n s = (case channel of
     Stdout \<Rightarrow> s\<lparr>so_stdout_bytes := so_stdout_bytes s + n, so_total_bytes := so_total_bytes s + n\<rparr>
   | Stderr \<Rightarrow> s\<lparr>so_stderr_bytes := so_stderr_bytes s + n, so_total_bytes := so_total_bytes s + n\<rparr>)"

text \<open>What reached the consumer, the result, and the state; nothing of a refused emission is kept.\<close>

definition feed_output ::
  "bool \<Rightarrow> output_channel \<Rightarrow> string \<Rightarrow> streamer \<Rightarrow> (output_error + bool) \<times> (output_channel \<times> string) list \<times> streamer" where
  "feed_output taken channel data s =
     (if data = [] then (Inr (\<not> so_truncated s), [], s)
      else if so_finished s then (Inl (OutputRuntimeError ''output streamer is already finished''), [], s)
      else
        (let accepted = take (nat (so_max_bytes s - so_total_bytes s)) data;
             n = int (length accepted);
             s1 = count_bytes channel n s;
             (out, rest) = (if accepted = [] then ([], channel_buffer channel s) else drain (so_secrets s) False (channel_buffer channel s @ accepted));
             s2 = set_buffer channel rest s1;
             s3 = (if n \<noteq> int (length data) then s2\<lparr>so_truncated := True\<rparr> else s2)
         in if out = [] then (Inr (\<not> so_truncated s3), [], s3)
            else if \<not> taken then (Inl OutputSinkError, [], s2)
            else (Inr (\<not> so_truncated s3), [(channel, out)], s3)))"

definition finish_channel :: "output_channel \<Rightarrow> bool \<Rightarrow> streamer \<Rightarrow> bool \<times> (output_channel \<times> string) list \<times> streamer" where
  "finish_channel channel taken s =
     (case drain (so_secrets s) True (channel_buffer channel s) of (trailing, rest) \<Rightarrow>
        if trailing = [] then (True, [], set_buffer channel rest s)
        else if taken then (True, [(channel, trailing)], set_buffer channel rest s)
        else (False, [], set_buffer channel rest s))"

definition finish_output :: "bool \<Rightarrow> bool \<Rightarrow> streamer \<Rightarrow> (output_error + unit) \<times> (output_channel \<times> string) list \<times> streamer" where
  "finish_output taken taken' s =
     (if so_finished s then (Inr (), [], s)
      else (case finish_channel Stdout taken (s\<lparr>so_finished := True\<rparr>) of (ok, out, s1) \<Rightarrow>
        if \<not> ok then (Inl OutputSinkError, out, s1)
        else (case finish_channel Stderr taken' s1 of (ok', out', s2) \<Rightarrow>
          (if ok' then Inr () else Inl OutputSinkError, out @ out', s2))))"

section \<open>Redaction does not depend on the chunks\<close>

text \<open>The whole text at once.\<close>

definition redact :: "string list \<Rightarrow> string \<Rightarrow> string" where
  "redact secrets t = fst (drain secrets True t)"

definition prefix_free :: "string list \<Rightarrow> bool" where
  "prefix_free secrets = list_all (\<lambda>s. list_all (\<lambda>t. starts_with s t \<longrightarrow> s = t) secrets) secrets"

lemma starts_with_more: "starts_with p s \<Longrightarrow> starts_with p (s @ t)"
  by (auto simp: starts_with_append_iff)

lemma starts_with_longer: "starts_with p (s @ t) \<Longrightarrow> length p \<le> length s \<Longrightarrow> starts_with p s"
  by (simp add: starts_with_def)

lemma starts_with_length: "starts_with p s \<Longrightarrow> length p \<le> length s"
  by (auto simp: starts_with_append_iff)

lemma starts_with_shorter: "starts_with p (s @ t) \<Longrightarrow> length s \<le> length p \<Longrightarrow> starts_with s p"
  by (auto simp: starts_with_append_iff append_eq_append_conv2)

lemma find_append_secret:
  assumes "prefix_free secrets" "find (\<lambda>s. starts_with s x) secrets = Some s"
  shows "find (\<lambda>s. starts_with s (x @ y)) secrets = Some s"
proof -
  obtain i where i: "i < length secrets" "starts_with (secrets ! i) x" "s = secrets ! i" "\<And>j. j < i \<Longrightarrow> \<not> starts_with (secrets ! j) x"
    using assms(2) by (auto simp: find_Some_iff)
  have "\<not> starts_with (secrets ! j) (x @ y)" if "j < i" for j
  proof
    assume s: "starts_with (secrets ! j) (x @ y)"
    then have longer: "length x < length (secrets ! j)" using starts_with_longer i(4)[OF that] by (meson not_le)
    have "starts_with x (secrets ! j)" using starts_with_shorter[OF s] longer by simp
    then have "starts_with (secrets ! i) (secrets ! j)" using i(2) by (auto simp: starts_with_append_iff)
    moreover have "secrets ! i \<noteq> secrets ! j" using longer starts_with_length[OF i(2)] by auto
    ultimately show False using assms(1) i(1) that by (simp add: prefix_free_def list_all_length)
  qed
  then show ?thesis using i starts_with_more by (auto simp: find_Some_iff)
qed

lemma find_none_append:
  assumes "find (\<lambda>s. starts_with s x) secrets = None" "\<not> list_ex (\<lambda>s. length x < length s \<and> starts_with x s) secrets"
  shows "find (\<lambda>s. starts_with s (x @ y)) secrets = None"
proof -
  have "\<not> starts_with s (x @ y)" if "s \<in> set secrets" for s
  proof
    assume s: "starts_with s (x @ y)"
    show False
    proof (cases "length s \<le> length x")
      case True
      then show False using starts_with_longer[OF s] assms(1) that by (simp add: find_None_iff)
    next
      case False
      then show False using starts_with_shorter[OF s] assms(2) that by (simp add: list_ex_iff)
    qed
  qed
  then show ?thesis by (simp add: find_None_iff)
qed

lemma drain_nil [simp]: "drain secrets True t = (redact secrets t, [])"
proof -
  have "snd (drain secrets True t) = []"
  proof (induction secrets "True" t rule: drain.induct)
    case (2 secrets b bs)
    then show ?case by (auto simp: drain.simps(2) split: option.splits prod.splits)
  qed simp
  then show ?thesis by (simp add: redact_def prod_eq_iff)
qed

lemma redact_Nil [simp]: "redact secrets [] = []"
  by (simp add: redact_def)

lemma redact_Cons:
  "redact secrets (b # bs) = (case find (\<lambda>s. starts_with s (b # bs)) secrets of
     Some s \<Rightarrow> redacted @ redact secrets (drop (length s - 1) bs) | None \<Rightarrow> b # redact secrets bs)"
proof -
  have "drain secrets True (b # bs) = (case find (\<lambda>s. starts_with s (b # bs)) secrets of
     Some s \<Rightarrow> (redacted @ redact secrets (drop (length s - 1) bs), []) | None \<Rightarrow> (b # redact secrets bs, []))"
    by (subst drain.simps(2)) (simp split: option.split)
  then show ?thesis by (simp split: option.splits)
qed

lemma redact_after_drain:
  assumes "prefix_free secrets" "[] \<notin> set secrets" "drain secrets False x = (out, rest)"
  shows "redact secrets (x @ y) = out @ redact secrets (rest @ y)"
  using assms(3)
proof (induction "length x" arbitrary: x out rest rule: less_induct)
  case less
  show ?case
  proof (cases x)
    case Nil
    then show ?thesis using less.prems by simp
  next
    case (Cons b bs)
    show ?thesis
    proof (cases "find (\<lambda>s. starts_with s x) secrets")
      case (Some s)
      have s: "s \<in> set secrets" "starts_with s x" using Some by (auto simp: find_Some_iff)
      then have fits: "length s - 1 \<le> length bs" "s \<noteq> []"
        using Cons assms(2) starts_with_length[of s x] by auto
      obtain o1 where o1: "drain secrets False (drop (length s - 1) bs) = (o1, rest)" "out = redacted @ o1"
        using less.prems Some Cons by (auto simp: drain.simps(2) split: prod.splits)
      have "redact secrets (drop (length s - 1) bs @ y) = o1 @ redact secrets (rest @ y)"
        by (rule less.hyps[OF _ o1(1)]) (simp add: Cons)
      then show ?thesis
        using find_append_secret[OF assms(1) Some, of y] o1(2) fits(1) by (simp add: Cons redact_Cons)
    next
      case None
      show ?thesis
      proof (cases "list_ex (\<lambda>s. length x < length s \<and> starts_with x s) secrets")
        case True
        then have "out = [] \<and> rest = x" using less.prems None Cons by (auto simp: drain.simps(2))
        then show ?thesis by simp
      next
        case False
        obtain o1 where o1: "drain secrets False bs = (o1, rest)" "out = b # o1"
          using less.prems None False Cons by (auto simp: drain.simps(2) split: prod.splits)
        have "redact secrets (bs @ y) = o1 @ redact secrets (rest @ y)" by (rule less.hyps[OF _ o1(1)]) (simp add: Cons)
        then show ?thesis using find_none_append[OF None False, of y] o1(2) by (simp add: Cons redact_Cons)
      qed
    qed
  qed
qed

section \<open>What a run emits\<close>

fun feed_all :: "(output_channel \<times> string) list \<Rightarrow> streamer \<Rightarrow> (output_channel \<times> string) list \<times> streamer" where
  "feed_all [] s = ([], s)"
| "feed_all ((c, d) # fs) s =
     (case feed_output True c d s of (_, out, s1) \<Rightarrow> (case feed_all fs s1 of (outs, s2) \<Rightarrow> (out @ outs, s2)))"

definition run_output :: "(output_channel \<times> string) list \<Rightarrow> streamer \<Rightarrow> (output_channel \<times> string) list \<times> streamer" where
  "run_output fs s = (case feed_all fs s of (outs, s1) \<Rightarrow> (case finish_output True True s1 of (_, out, s2) \<Rightarrow> (outs @ out, s2)))"

text \<open>The text of a channel, and the first bytes of all that was fed, in the order in which it was fed.\<close>

definition text_of_channel :: "output_channel \<Rightarrow> (output_channel \<times> string) list \<Rightarrow> string" where
  "text_of_channel c fs = concat (map snd (filter (\<lambda>f. fst f = c) fs))"

fun within_budget :: "int \<Rightarrow> (output_channel \<times> string) list \<Rightarrow> (output_channel \<times> string) list" where
  "within_budget n [] = []"
| "within_budget n ((c, d) # fs) = (c, take (nat n) d) # within_budget (n - int (length (take (nat n) d))) fs"

lemma text_of_channel_simps [simp]:
  "text_of_channel c [] = []"
  "text_of_channel c ((c', d) # fs) = (if c' = c then d @ text_of_channel c fs else text_of_channel c fs)"
  "text_of_channel c (fs @ gs) = text_of_channel c fs @ text_of_channel c gs"
  by (simp_all add: text_of_channel_def)

lemma channel_buffer_set [simp]: "channel_buffer c (set_buffer c' b s) = (if c = c' then b else channel_buffer c s)"
  by (cases c; cases c') (simp_all add: channel_buffer_def set_buffer_def)

lemma set_buffer_select [simp]:
  "so_secrets (set_buffer c b s) = so_secrets s" "so_max_bytes (set_buffer c b s) = so_max_bytes s"
  "so_total_bytes (set_buffer c b s) = so_total_bytes s" "so_finished (set_buffer c b s) = so_finished s"
  "so_stdout_bytes (set_buffer c b s) = so_stdout_bytes s" "so_stderr_bytes (set_buffer c b s) = so_stderr_bytes s"
  by (cases c; simp add: set_buffer_def)+

lemma count_bytes_select [simp]:
  "so_secrets (count_bytes c n s) = so_secrets s" "so_max_bytes (count_bytes c n s) = so_max_bytes s"
  "so_total_bytes (count_bytes c n s) = so_total_bytes s + n" "so_finished (count_bytes c n s) = so_finished s"
  "so_stdout_bytes (count_bytes c n s) + so_stderr_bytes (count_bytes c n s) = so_stdout_bytes s + so_stderr_bytes s + n"
  "channel_buffer k (count_bytes c n s) = channel_buffer k s"
  by (cases c; cases k; simp add: count_bytes_def channel_buffer_def)+

lemma channel_buffer_truncated [simp]: "channel_buffer k (s\<lparr>so_truncated := b\<rparr>) = channel_buffer k s"
  by (cases k) (simp_all add: channel_buffer_def)

definition streamer_ok :: "streamer \<Rightarrow> bool" where
  "streamer_ok s = (\<not> so_finished s \<and> 0 \<le> so_total_bytes s \<and> so_total_bytes s \<le> so_max_bytes s \<and>
     so_total_bytes s = so_stdout_bytes s + so_stderr_bytes s)"

text \<open>One call: with the accepted bytes, the text that has come so far on a channel has been emitted or is in the buffer.\<close>

lemma feed_output_step:
  assumes "streamer_ok s" "feed_output True c d s = (r, out, s1)" "prefix_free (so_secrets s)" "[] \<notin> set (so_secrets s)"
  shows "streamer_ok s1" "so_secrets s1 = so_secrets s" "so_max_bytes s1 = so_max_bytes s"
    "so_total_bytes s1 = so_total_bytes s + int (length (take (nat (so_max_bytes s - so_total_bytes s)) d))"
    "redact (so_secrets s) (channel_buffer k s @ text_of_channel k [(c, take (nat (so_max_bytes s - so_total_bytes s)) d)] @ y)
       = text_of_channel k out @ redact (so_secrets s) (channel_buffer k s1 @ y)"
proof -
  let ?a = "take (nat (so_max_bytes s - so_total_bytes s)) d"
  have all: "streamer_ok s1 \<and> so_secrets s1 = so_secrets s \<and> so_max_bytes s1 = so_max_bytes s \<and>
    so_total_bytes s1 = so_total_bytes s + int (length ?a) \<and>
    redact (so_secrets s) (channel_buffer k s @ text_of_channel k [(c, ?a)] @ y) = text_of_channel k out @ redact (so_secrets s) (channel_buffer k s1 @ y)"
  proof (cases "d = []")
    case True
    then show ?thesis using assms(1,2) by (auto simp: feed_output_def)
  next
    case False
    obtain o1 rest where d: "(if ?a = [] then ([], channel_buffer c s) else drain (so_secrets s) False (channel_buffer c s @ ?a)) = (o1, rest)"
      by fastforce
    have emitted: "redact (so_secrets s) ((channel_buffer c s @ ?a) @ y) = o1 @ redact (so_secrets s) (rest @ y)" for y
      using d redact_after_drain[OF assms(3,4), of "channel_buffer c s @ ?a" o1 rest y] by (auto split: if_splits)
    define s2 where "s2 = set_buffer c rest (count_bytes c (int (length ?a)) s)"
    have s1: "s1 = s2 \<or> s1 = s2\<lparr>so_truncated := True\<rparr>" and out: "out = (if o1 = [] then [] else [(c, o1)])"
      using assms(1,2) False unfolding feed_output_def Let_def d s2_def[symmetric] prod.case
      by (auto simp: streamer_ok_def split: if_splits)
    have "int (length ?a) \<le> so_max_bytes s - so_total_bytes s"
      using assms(1) length_take[of "nat (so_max_bytes s - so_total_bytes s)" d] unfolding streamer_ok_def by linarith
    then have ok: "streamer_ok s2" using assms(1) unfolding streamer_ok_def s2_def set_buffer_select count_bytes_select by linarith
    then have rest: "streamer_ok s1" "so_secrets s1 = so_secrets s" "so_max_bytes s1 = so_max_bytes s"
        "so_total_bytes s1 = so_total_bytes s + int (length ?a)" "channel_buffer k s1 = (if k = c then rest else channel_buffer k s)"
      using s1 by (auto simp: s2_def streamer_ok_def simp del: length_take)
    show ?thesis using rest out emitted[of y] by (cases "c = k") (simp_all del: length_take)
  qed
  show "streamer_ok s1" "so_secrets s1 = so_secrets s" "so_max_bytes s1 = so_max_bytes s" using all by blast+
  show "so_total_bytes s1 = so_total_bytes s + int (length ?a)" using all by blast
  show "redact (so_secrets s) (channel_buffer k s @ text_of_channel k [(c, ?a)] @ y)
    = text_of_channel k out @ redact (so_secrets s) (channel_buffer k s1 @ y)" using all by blast
qed

lemma feed_all_steps:
  assumes "streamer_ok s" "feed_all fs s = (outs, s1)" "prefix_free (so_secrets s)" "[] \<notin> set (so_secrets s)"
  shows "streamer_ok s1 \<and> so_secrets s1 = so_secrets s \<and> so_max_bytes s1 = so_max_bytes s \<and>
    redact (so_secrets s) (channel_buffer k s @ text_of_channel k (within_budget (so_max_bytes s - so_total_bytes s) fs) @ y)
      = text_of_channel k outs @ redact (so_secrets s) (channel_buffer k s1 @ y)"
  using assms
proof (induction fs arbitrary: s outs)
  case (Cons f fs)
  obtain c d where f: "f = (c, d)" by fastforce
  obtain r out s' where step: "feed_output True c d s = (r, out, s')" using prod_cases3 by blast
  obtain outs' where later: "feed_all fs s' = (outs', s1)" "outs = out @ outs'"
    using Cons.prems(2) by (auto simp: f step split: prod.splits)
  note one = feed_output_step[OF Cons.prems(1) step Cons.prems(3,4)]
  have ih: "streamer_ok s1 \<and> so_secrets s1 = so_secrets s' \<and> so_max_bytes s1 = so_max_bytes s' \<and>
    redact (so_secrets s') (channel_buffer k s' @ text_of_channel k (within_budget (so_max_bytes s' - so_total_bytes s') fs) @ y)
      = text_of_channel k outs' @ redact (so_secrets s') (channel_buffer k s1 @ y)"
    by (rule Cons.IH[OF one(1) later(1)]) (use Cons.prems(3,4) one(2) in simp_all)
  define taken where "taken = take (nat (so_max_bytes s - so_total_bytes s)) d"
  define budget where "budget = so_max_bytes s' - so_total_bytes s'"
  have "so_max_bytes s - so_total_bytes s - int (length taken) = budget"
    using one(3,4) by (simp add: budget_def taken_def)
  then have cut: "within_budget (so_max_bytes s - so_total_bytes s) (f # fs) = (c, taken) # within_budget budget fs"
    by (simp add: f flip: taken_def)
  have "redact (so_secrets s) (channel_buffer k s @ text_of_channel k [(c, taken)] @ text_of_channel k (within_budget budget fs) @ y)
      = text_of_channel k out @ text_of_channel k outs' @ redact (so_secrets s) (channel_buffer k s1 @ y)"
    using one(5)[of k "text_of_channel k (within_budget budget fs) @ y"] ih one(2) by (simp only: taken_def budget_def)
  then show ?case using ih one(2,3) by (cases "c = k") (simp_all add: cut later(2))
qed simp

lemma finish_output_emits:
  assumes "\<not> so_finished s" "finish_output True True s = (r, out, s')"
  shows "text_of_channel k out = redact (so_secrets s) (channel_buffer k s) \<and> so_finished s' \<and> so_max_bytes s' = so_max_bytes s \<and>
    so_total_bytes s' = so_total_bytes s \<and> so_stdout_bytes s' = so_stdout_bytes s \<and> so_stderr_bytes s' = so_stderr_bytes s"
  using assms
  by (cases k; auto simp: finish_output_def finish_channel_def channel_buffer_def set_buffer_def split: if_splits prod.splits)

lemma run_output_redacts:
  assumes "BoundedOutputStreamer max_bytes secrets timeout = Inr s" "prefix_free (so_secrets s)" "run_output fs s = (outs, s')"
  shows "text_of_channel k outs = redact (so_secrets s) (text_of_channel k (within_budget max_bytes fs)) \<and>
    so_total_bytes s' = so_stdout_bytes s' + so_stderr_bytes s' \<and> so_total_bytes s' \<le> max_bytes"
proof -
  have s: "streamer_ok s" "so_max_bytes s = max_bytes" "so_total_bytes s = 0" "[] \<notin> set (so_secrets s)" "channel_buffer k s = []"
    using assms(1) by (fastforce simp: BoundedOutputStreamer_def streamer_ok_def channel_buffer_def list_ex_iff split: if_splits output_channel.split)+
  obtain o1 s1 where fed: "feed_all fs s = (o1, s1)" by fastforce
  obtain r o2 where last: "finish_output True True s1 = (r, o2, s')" "outs = o1 @ o2"
    using assms(3) by (auto simp: run_output_def fed split: prod.splits)
  note steps = feed_all_steps[OF s(1) fed assms(2) s(4), of k "[]"]
  have ok: "streamer_ok s1" "so_max_bytes s1 = max_bytes" "so_secrets s1 = so_secrets s" using steps s(2) by simp_all
  then have "\<not> so_finished s1" by (simp add: streamer_ok_def)
  note fin = finish_output_emits[OF this last(1), of k]
  show ?thesis using steps fin ok s last(2) by (simp add: streamer_ok_def)
qed

text \<open>
  C23: Whatever the chunks are and however the channels interleave, a channel's consumer gets the redaction of the text of its
  channel within the byte budget, as if it had come at once, if no secret is the beginning of another.
\<close>

theorem output_redacted_as_one:
  assumes "BoundedOutputStreamer max_bytes secrets timeout = Inr s" "prefix_free (so_secrets s)" "run_output fs s = (outs, s')"
  shows "text_of_channel k outs = redact (so_secrets s) (text_of_channel k (within_budget max_bytes fs)) \<and>
    so_total_bytes s' = so_stdout_bytes s' + so_stderr_bytes s' \<and> so_total_bytes s' \<le> max_bytes"
  by (rule run_output_redacts[OF assms])

lemma redact_short:
  assumes "\<And>s. s \<in> set secrets \<Longrightarrow> length t < length s"
  shows "redact secrets t = t"
  using assms
proof (induction t)
  case (Cons b bs)
  have "find (\<lambda>s. starts_with s (b # bs)) secrets = None"
    using Cons.prems starts_with_length[of _ "b # bs"] by (fastforce simp: find_None_iff)
  then show ?case using Cons by (auto simp: redact_Cons dest: Suc_lessD)
qed simp

text \<open>
  Without that condition redaction depends on the chunks: when one secret is the beginning of another, and a chunk ends with
  the shorter one, the rest of the longer one is emitted, although the longer one is redacted when it comes at once.
\<close>

theorem longer_secret_leaks:
  assumes "s \<noteq> []" "t \<noteq> []" "length t < length s"
  shows "drain [s @ t, s] False s = (redacted, []) \<and> redact [s @ t, s] t = t \<and> redact [s @ t, s] (s @ t) = redacted"
proof -
  obtain b bs where s: "s = b # bs" using assms(1) by (cases s) auto
  have "\<not> starts_with (s @ t) s" using assms(2) by (auto dest!: starts_with_length)
  moreover have "starts_with s s" "starts_with (s @ t) (s @ t)" by (simp_all add: starts_with_def)
  ultimately have "drain [s @ t, s] False s = (redacted, [])" "redact [s @ t, s] (s @ t) = redacted"
    unfolding s append_Cons redact_Cons drain.simps(2) by (simp_all del: starts_with_Cons)
  moreover have "redact [s @ t, s] t = t" by (rule redact_short) (use assms(3) in auto)
  ultimately show ?thesis by simp
qed

lemma redact_padding:
  assumes "\<And>s. s \<in> set secrets \<Longrightarrow> s \<noteq> [] \<and> hd s \<noteq> c"
  shows "redact secrets (replicate n c @ t) = replicate n c @ redact secrets t"
proof (induction n)
  case (Suc n)
  have "\<not> starts_with s (c # replicate n c @ t)" if "s \<in> set secrets" for s
    using assms[OF that] by (cases s) auto
  then have "find (\<lambda>s. starts_with s (c # replicate n c @ t)) secrets = None" by (simp add: find_None_iff)
  then show ?case using Suc by (simp add: redact_Cons)
qed simp

text \<open>
  A secret that the byte budget cuts off is emitted up to its last byte: what is held back as the possible beginning of a
  secret is emitted in the end.
\<close>

theorem cut_secret_leaks:
  assumes "BoundedOutputStreamer max_bytes [secret] timeout = Inr s" "int n + int (length secret) = max_bytes + 1"
  shows "text_of_channel Stdout (fst (run_output [(Stdout, replicate n (char_of (0 :: nat)) @ secret)] s))
    = replicate n (char_of (0 :: nat)) @ butlast secret"
proof -
  let ?nul = "char_of (0 :: nat) :: char"
  have s: "so_secrets s = [secret]" "4 \<le> length secret" "?nul \<notin> set secret"
    using assms(1) by (auto simp: BoundedOutputStreamer_def sorted_secrets_def split: if_splits)
  then have "prefix_free (so_secrets s)" by (simp add: prefix_free_def)
  note run = run_output_redacts[OF assms(1) this prod.collapse[symmetric], of Stdout "[(Stdout, replicate n ?nul @ secret)]"]
  have "take (nat max_bytes) (replicate n ?nul @ secret) = replicate n ?nul @ butlast secret"
  proof -
    have "nat max_bytes - n = length secret - 1" "n \<le> nat max_bytes" using assms(2) s(2) by linarith+
    then show ?thesis by (simp add: butlast_conv_take)
  qed
  moreover have "redact [secret] (replicate n ?nul @ butlast secret) = replicate n ?nul @ redact [secret] (butlast secret)"
    using s(2,3) by (intro redact_padding) (cases secret; auto)
  moreover have "redact [secret] (butlast secret) = butlast secret" by (rule redact_short) (use s(2) in auto)
  ultimately show ?thesis using run s(1) by simp
qed

section \<open>An example\<close>

definition demo_streamer :: streamer where
  "demo_streamer = \<lparr>so_secrets = [''hush''], so_max_bytes = 1024, so_stdout_bytes = 0, so_stderr_bytes = 0, so_total_bytes = 0,
     so_truncated = False, so_finished = False, so_stdout_buffer = [], so_stderr_buffer = []\<rparr>"

lemma demo_streamer_made: "BoundedOutputStreamer 1024 [''hush''] 5 = Inr demo_streamer"
  by (simp add: BoundedOutputStreamer_def sorted_secrets_def demo_streamer_def) code_simp

theorem output_redacted_as_one_witness:
  "text_of_channel Stdout (fst (run_output [(Stdout, ''a hu''), (Stderr, ''e''), (Stdout, ''sh b'')] demo_streamer)) = ''a [REDACTED] b''"
proof -
  have "prefix_free (so_secrets demo_streamer)" by code_simp
  from output_redacted_as_one[OF demo_streamer_made this prod.collapse[symmetric], of Stdout "[(Stdout, ''a hu''), (Stderr, ''e''), (Stdout, ''sh b'')]"]
  have "text_of_channel Stdout (fst (run_output [(Stdout, ''a hu''), (Stderr, ''e''), (Stdout, ''sh b'')] demo_streamer)) = redact [''hush''] ''a hush b''"
    by (simp add: demo_streamer_def)
  moreover have "redact [''hush''] ''a hush b'' = ''a [REDACTED] b''" by code_simp
  ultimately show ?thesis by simp
qed

theorem longer_secret_leaks_witness: "redact [''hush12'', ''hush''] ''12'' = ''12''"
  using longer_secret_leaks[of "''hush''" "''12''"] by simp

theorem cut_secret_leaks_witness:
  "text_of_channel Stdout (fst (run_output [(Stdout, replicate 1021 (char_of (0 :: nat)) @ ''hush'')] demo_streamer))
    = replicate 1021 (char_of (0 :: nat)) @ ''hus''"
  using cut_secret_leaks[OF demo_streamer_made, of 1021] by simp

end
