(* ===== verification/SandboxJobs.thy ===== *)
theory SandboxJobs
  imports AgentSchemas CanonicalJson
begin

text \<open>
  Jobs of the sandbox (\<open>zeaz_sandbox/schemas.py\<close>): policies, job specifications, approvals that are bound to
  the digest of one job, requests and receipts, with the checks that Pydantic runs. SHA-256 and the parsing of
  an address (\<open>ipaddress\<close>) are parameters; a UUID and a path are their texts.
\<close>

section \<open>Names\<close>

definition lower_alnum :: "char \<Rightarrow> bool" where
  "lower_alnum c = (97 \<le> code_of c \<and> code_of c \<le> 122 \<or> is_digit c)"

definition sha256_hex :: "string \<Rightarrow> bool" where
  "sha256_hex s = (length s = 64 \<and> list_all (\<lambda>c. is_digit c \<or> 97 \<le> code_of c \<and> code_of c \<le> 102) s)"

definition actor_text :: "string \<Rightarrow> bool" where
  "actor_text s = (s \<noteq> [] \<and> length s \<le> 128 \<and> ascii_alnum (hd s) \<and> list_all (\<lambda>c. ascii_alnum c \<or> c \<in> set ''_.:@-'') (tl s))"

definition apparmor_text :: "string \<Rightarrow> bool" where
  "apparmor_text s = (s \<noteq> [] \<and> length s \<le> 128 \<and> ascii_alnum (hd s) \<and> list_all (\<lambda>c. ascii_alnum c \<or> c \<in> set ''_.-'') (tl s))"

definition failure_text :: "string \<Rightarrow> bool" where
  "failure_text s = (s \<noteq> [] \<and> length s \<le> 64 \<and> lower_alnum (hd s) \<and> \<not> is_digit (hd s) \<and>
     list_all (\<lambda>c. lower_alnum c \<or> c = CHR ''_'') (tl s))"

text \<open>\<open>[a-z0-9]+(?:[._-][a-z0-9]+)*\<close>\<close>

fun separated_runs :: "string \<Rightarrow> bool" where
  "separated_runs [] = False"
| "separated_runs [c] = lower_alnum c"
| "separated_runs (c # d # cs) = (lower_alnum c \<and> (if d \<in> set ''._-'' then separated_runs cs else separated_runs (d # cs)))"

definition image_reference :: "string \<Rightarrow> bool" where
  "image_reference s = (length s \<le> 512 \<and> (case split_once ''@sha256:'' s of
     None \<Rightarrow> False | Some (name, digest) \<Rightarrow> list_all separated_runs (split_char CHR ''/'' name) \<and> sha256_hex digest))"

section \<open>Policies\<close>

datatype workspace_access = ReadOnly | ReadWrite

datatype network_mode = NetworkDisabled | AllowList

record egress_destination =
  eg_host :: string
  eg_ports :: "int list"

definition host_label :: "string \<Rightarrow> bool" where
  "host_label s = (s \<noteq> [] \<and> length s \<le> 63 \<and> ascii_alnum (hd s) \<and> ascii_alnum (last s) \<and> list_all (\<lambda>c. ascii_alnum c \<or> c = CHR ''-'') s)"

definition hostname_text :: "string \<Rightarrow> bool" where
  "hostname_text s = (let t = (if s \<noteq> [] \<and> last s = CHR ''.'' then butlast s else s)
     in length t \<le> 253 \<and> list_all host_label (split_char CHR ''.'' t))"

definition normalized_host :: "string \<Rightarrow> string" where
  "normalized_host s = rev (dropWhile (\<lambda>c. c = CHR ''.'') (rev (py_lower s)))"

text \<open>\<open>forbidden\<close> is None for a text that is no address, and else whether the address is loopback, link-local, multicast, unspecified or that of the metadata service.\<close>

definition EgressDestination :: "(string \<Rightarrow> bool option) \<Rightarrow> egress_destination \<Rightarrow> egress_destination res" where
  "EgressDestination forbidden d =
     (let h = normalized_host (eg_host d)
      in bindE (check (eg_host d \<noteq> [] \<and> length (eg_host d) \<le> 253 \<and> eg_ports d \<noteq> [] \<and> length (eg_ports d) \<le> 64) ''egress destination'') (\<lambda>_.
         bindE (check (\<not> (hd (eg_host d) = CHR ''['' \<or> CHR ''*'' \<in> set (eg_host d) \<or> h = [])) ''egress host must be exact'') (\<lambda>_.
         bindE (case forbidden h of
             Some bad \<Rightarrow> check (\<not> bad) ''loopback, link-local, and metadata addresses are forbidden''
           | None \<Rightarrow> bindE (check (hostname_text (eg_host d)) ''egress host is invalid'') (\<lambda>_.
               check (h \<notin> {''localhost'', ''metadata.google.internal''}) ''loopback and metadata destinations are forbidden'')) (\<lambda>_.
         bindE (check (list_all (\<lambda>p. 1 \<le> p \<and> p \<le> 65535) (eg_ports d) \<and> distinct (eg_ports d))
           ''egress ports must be unique values from 1 through 65535'') (\<lambda>_.
         Inr \<lparr>eg_host = h, eg_ports = sort (eg_ports d)\<rparr>)))))"

record sandbox_limits =
  sx_timeout_seconds :: int
  sx_cpu_cores :: json
  sx_memory_bytes :: int
  sx_process_count :: int
  sx_file_bytes :: int
  sx_temporary_bytes :: int
  sx_output_bytes :: int

definition cpu_cores_ok :: "json \<Rightarrow> bool" where
  "cpu_cores_ok v = (case number_value v of Some (Finite r) \<Rightarrow> 0 < r \<and> r \<le> 32 | _ \<Rightarrow> False)"

definition SandboxLimits :: "sandbox_limits \<Rightarrow> sandbox_limits res" where
  "SandboxLimits x =
     bindE (check (1 \<le> sx_timeout_seconds x \<and> sx_timeout_seconds x \<le> 3600) ''timeout_seconds'') (\<lambda>_.
     bindE (check (cpu_cores_ok (sx_cpu_cores x)) ''cpu_cores'') (\<lambda>_.
     bindE (check (16777216 \<le> sx_memory_bytes x \<and> sx_memory_bytes x \<le> 68719476736) ''memory_bytes'') (\<lambda>_.
     bindE (check (1 \<le> sx_process_count x \<and> sx_process_count x \<le> 4096) ''process_count'') (\<lambda>_.
     bindE (check (4096 \<le> sx_file_bytes x \<and> sx_file_bytes x \<le> 10737418240) ''file_bytes'') (\<lambda>_.
     bindE (check (1048576 \<le> sx_temporary_bytes x \<and> sx_temporary_bytes x \<le> 10737418240) ''temporary_bytes'') (\<lambda>_.
     bindE (check (1024 \<le> sx_output_bytes x \<and> sx_output_bytes x \<le> 67108864) ''output_bytes'') (\<lambda>_. Inr x)))))))"

record sandbox_policy =
  sp_limits :: sandbox_limits
  sp_workspace_access :: workspace_access
  sp_network_mode :: network_mode
  sp_allowed_destinations :: "egress_destination list"
  sp_apparmor_profile :: string

definition SandboxPolicy :: "sandbox_policy \<Rightarrow> sandbox_policy res" where
  "SandboxPolicy p =
     bindE (check (length (sp_allowed_destinations p) \<le> 128) ''allowed_destinations'') (\<lambda>_.
     bindE (check (apparmor_text (sp_apparmor_profile p)) ''apparmor_profile'') (\<lambda>_.
     bindE (check (\<not> (sp_network_mode p = NetworkDisabled \<and> sp_allowed_destinations p \<noteq> [])) ''disabled networking cannot have allowed destinations'') (\<lambda>_.
     bindE (check (\<not> (sp_network_mode p = AllowList \<and> sp_allowed_destinations p = [])) ''allow-list networking requires at least one destination'') (\<lambda>_.
     bindE (check (distinct (map (\<lambda>d. (eg_host d, eg_ports d)) (sp_allowed_destinations p))) ''egress destinations must be unique'') (\<lambda>_. Inr p)))))"

section \<open>Jobs and approvals\<close>

record job_spec =
  js_id :: string
  js_session_id :: string
  js_correlation_id :: string
  js_image :: string
  js_command :: "string list"
  js_workspace :: string
  js_policy :: sandbox_policy

definition nul :: char where
  "nul = char_of (0 :: nat)"

definition JobSpec :: "job_spec \<Rightarrow> job_spec res" where
  "JobSpec j =
     bindE (check (image_reference (js_image j)) ''image'') (\<lambda>_.
     bindE (check (js_command j \<noteq> [] \<and> length (js_command j) \<le> 128 \<and> list_all (\<lambda>a. length a \<le> 16384) (js_command j)) ''command'') (\<lambda>_.
     bindE (check (list_all (\<lambda>a. nul \<notin> set a) (js_command j)) ''command argv cannot contain NUL bytes'') (\<lambda>_.
     bindE (check (\<not> sum_list (map (\<lambda>a. length (utf8_encode a)) (js_command j)) > 65536) ''command argv exceeds the total byte limit'') (\<lambda>_.
     bindE (check (\<not> (\<not> starts_with ''/'' (js_workspace j) \<or> list_ex (\<lambda>part. part \<in> {''.'', ''..''}) (split_char CHR ''/'' (js_workspace j))))
       ''workspace path must be absolute and normalized'') (\<lambda>_.
     bindE (check (nul \<notin> set (js_workspace j)) ''workspace path cannot contain NUL bytes'') (\<lambda>_. Inr j))))))"

definition limits_members :: "sandbox_limits \<Rightarrow> json dict" where
  "limits_members x = [(''timeout_seconds'', JInt (sx_timeout_seconds x)), (''cpu_cores'', sx_cpu_cores x),
     (''memory_bytes'', JInt (sx_memory_bytes x)), (''process_count'', JInt (sx_process_count x)), (''file_bytes'', JInt (sx_file_bytes x)),
     (''temporary_bytes'', JInt (sx_temporary_bytes x)), (''output_bytes'', JInt (sx_output_bytes x))]"

definition destination_members :: "egress_destination \<Rightarrow> json dict" where
  "destination_members d = [(''host'', JStr (eg_host d)), (''ports'', JArr (map JInt (eg_ports d)))]"

definition policy_members :: "sandbox_policy \<Rightarrow> json dict" where
  "policy_members p = [(''schema_version'', JStr ''1''), (''limits'', JObj (limits_members (sp_limits p))),
     (''workspace_access'', JStr (case sp_workspace_access p of ReadOnly \<Rightarrow> ''read_only'' | ReadWrite \<Rightarrow> ''read_write'')),
     (''network_mode'', JStr (case sp_network_mode p of NetworkDisabled \<Rightarrow> ''disabled'' | AllowList \<Rightarrow> ''allow_list'')),
     (''allowed_destinations'', JArr (map (\<lambda>d. JObj (destination_members d)) (sp_allowed_destinations p))),
     (''seccomp_profile'', JStr ''builtin''), (''apparmor_profile'', JStr (sp_apparmor_profile p))]"

definition spec_members :: "job_spec \<Rightarrow> json dict" where
  "spec_members j = [(''schema_version'', JStr ''1''), (''id'', JStr (js_id j)), (''session_id'', JStr (js_session_id j)),
     (''correlation_id'', JStr (js_correlation_id j)), (''image'', JStr (js_image j)), (''command'', JArr (map JStr (js_command j))),
     (''workspace'', JStr (js_workspace j)), (''policy'', JObj (policy_members (js_policy j)))]"

text \<open>\<open>json.dumps\<close> refuses no value of a specification, as its only float is a finite number.\<close>

definition spec_bytes :: "json dict \<Rightarrow> string" where
  "spec_bytes d = utf8_encode (json_raw (sort_json (JObj d)))"

definition job_spec_digest :: "(string \<Rightarrow> string) \<Rightarrow> job_spec \<Rightarrow> string" where
  "job_spec_digest sha256 j = sha256 (spec_bytes (spec_members j))"

definition policy_digest :: "(string \<Rightarrow> string) \<Rightarrow> sandbox_policy \<Rightarrow> string" where
  "policy_digest sha256 p = sha256 (spec_bytes (policy_members p))"

record execution_approval =
  ea_id :: string
  ea_job_id :: string
  ea_session_id :: string
  ea_spec_sha256 :: string
  ea_approved_by :: string
  ea_permission_decision_id :: string
  ea_created_at :: py_datetime
  ea_expires_at :: py_datetime

definition ExecutionApproval :: "execution_approval \<Rightarrow> execution_approval res" where
  "ExecutionApproval a =
     bindE (check (sha256_hex (ea_spec_sha256 a)) ''spec_sha256'') (\<lambda>_.
     bindE (check (actor_text (ea_approved_by a)) ''approved_by'') (\<lambda>_.
     bindE (check (has_timezone (ea_created_at a) \<and> has_timezone (ea_expires_at a)) ''approval timestamps must include a UTC offset'') (\<lambda>_.
     bindE (check (\<not> dt_instant (ea_expires_at a) \<le> dt_instant (ea_created_at a)) ''approval must expire after it is created'') (\<lambda>_.
     bindE (check (\<not> dt_instant (ea_expires_at a) - dt_instant (ea_created_at a) > 3600000000) ''approval lifetime cannot exceed one hour'') (\<lambda>_. Inr a)))))"

definition approve_job ::
  "(string \<Rightarrow> string) \<Rightarrow> string \<Rightarrow> job_spec \<Rightarrow> string \<Rightarrow> string \<Rightarrow> py_datetime \<Rightarrow> int \<Rightarrow> execution_approval res" where
  "approve_job sha256 fresh j approved_by decision created lifetime_seconds =
     bindE (check (1 \<le> lifetime_seconds \<and> lifetime_seconds \<le> 3600) ''approval lifetime must be between 1 and 3600 seconds'') (\<lambda>_.
     bindE (check (has_timezone created) ''approval time must include a UTC offset'') (\<lambda>_.
     ExecutionApproval \<lparr>ea_id = fresh, ea_job_id = js_id j, ea_session_id = js_session_id j, ea_spec_sha256 = job_spec_digest sha256 j,
       ea_approved_by = approved_by, ea_permission_decision_id = decision, ea_created_at = created,
       ea_expires_at = created\<lparr>dt_instant := dt_instant created + 1000000 * lifetime_seconds\<rparr>\<rparr>))"

record job_request =
  jr_spec :: job_spec
  jr_approval :: execution_approval

definition JobRequest :: "(string \<Rightarrow> string) \<Rightarrow> job_request \<Rightarrow> job_request res" where
  "JobRequest sha256 r =
     bindE (check (\<not> (ea_job_id (jr_approval r) \<noteq> js_id (jr_spec r) \<or> ea_session_id (jr_approval r) \<noteq> js_session_id (jr_spec r) \<or>
         ea_spec_sha256 (jr_approval r) \<noteq> job_spec_digest sha256 (jr_spec r))) ''execution approval does not match the exact job'') (\<lambda>_. Inr r)"

text \<open>\<open>require_current_approval\<close>; its caller treats both of its exceptions alike.\<close>

definition approval_current :: "job_request \<Rightarrow> py_datetime \<Rightarrow> bool" where
  "approval_current r now = (has_timezone now \<and>
     \<not> (dt_instant now < dt_instant (ea_created_at (jr_approval r)) \<or> dt_instant now \<ge> dt_instant (ea_expires_at (jr_approval r))))"

section \<open>Receipts\<close>

datatype execution_state = Rejected | Completed | Failed | Cancelled

record execution_receipt =
  er_job_id :: string
  er_session_id :: string
  er_correlation_id :: string
  er_approval_id :: string
  er_image_digest :: string
  er_policy_sha256 :: string
  er_state :: execution_state
  er_exit_code :: "int option"
  er_started_at :: "py_datetime option"
  er_finished_at :: py_datetime
  er_stdout_bytes :: int
  er_stderr_bytes :: int
  er_output_truncated :: bool
  er_cleanup_complete :: bool
  er_failure_code :: "string option"

definition ExecutionReceipt :: "execution_receipt \<Rightarrow> execution_receipt res" where
  "ExecutionReceipt r =
     bindE (check (starts_with ''sha256:'' (er_image_digest r) \<and> sha256_hex (drop 7 (er_image_digest r)) \<and> sha256_hex (er_policy_sha256 r)) ''digests'') (\<lambda>_.
     bindE (check (case er_exit_code r of None \<Rightarrow> True | Some c \<Rightarrow> 0 \<le> c \<and> c \<le> 255) ''exit_code'') (\<lambda>_.
     bindE (check (0 \<le> er_stdout_bytes r \<and> 0 \<le> er_stderr_bytes r) ''output bytes'') (\<lambda>_.
     bindE (check (case er_failure_code r of None \<Rightarrow> True | Some c \<Rightarrow> failure_text c) ''failure_code'') (\<lambda>_.
     bindE (check ((case er_started_at r of None \<Rightarrow> True | Some t \<Rightarrow> has_timezone t) \<and> has_timezone (er_finished_at r)) ''receipt timestamps must include a UTC offset'') (\<lambda>_.
     bindE (check (\<not> (case er_started_at r of None \<Rightarrow> False | Some t \<Rightarrow> dt_instant (er_finished_at r) < dt_instant t)) ''receipt cannot finish before it starts'') (\<lambda>_.
     bindE (check (\<not> (er_state r = Rejected \<and> er_started_at r \<noteq> None)) ''a rejected job cannot have a start time'') (\<lambda>_.
     bindE (check (\<not> (er_state r = Completed \<and> er_exit_code r \<noteq> Some 0)) ''a completed job requires exit code zero'') (\<lambda>_.
     bindE (check (\<not> (er_state r = Completed \<and> \<not> er_cleanup_complete r)) ''a completed job requires completed cleanup'') (\<lambda>_.
     bindE (check (\<not> (er_state r \<in> {Rejected, Cancelled} \<and> er_exit_code r \<noteq> None)) ''rejected and cancelled jobs cannot have an exit code'') (\<lambda>_.
     bindE (check (\<not> (er_state r \<noteq> Completed \<and> er_failure_code r = None)) ''non-completed receipts require a failure code'') (\<lambda>_. Inr r)))))))))))"

section \<open>An approval is one of a single job\<close>

lemma cpu_plain: "cpu_cores_ok v \<Longrightarrow> sort_json v = v"
  by (cases v) (auto simp: cpu_cores_ok_def number_value_def)

lemma distinct_members [simp]:
  "distinct (map fst (limits_members x))" "distinct (map fst (destination_members d))"
  "distinct (map fst (policy_members p))" "distinct (map fst (spec_members j))"
  by (simp_all add: limits_members_def destination_members_def policy_members_def spec_members_def)

lemma inj_JInt: "inj JInt" and inj_JStr: "inj JStr"
  by (simp_all add: inj_def)

lemma destination_inject: "same_json (JObj (destination_members d)) (JObj (destination_members e)) \<Longrightarrow> d = e"
  using same_json_member[of "destination_members d" "destination_members e" "''host''"]
    same_json_member[of "destination_members d" "destination_members e" "''ports''"]
  by (intro egress_destination.equality) (simp_all add: destination_members_def o_def inj_map_eq_map[OF inj_JInt])

lemma limits_inject:
  assumes "same_json (JObj (limits_members x)) (JObj (limits_members y))" "cpu_cores_ok (sx_cpu_cores x)" "cpu_cores_ok (sx_cpu_cores y)"
  shows "x = y"
proof -
  note member = same_json_member[OF assms(1) distinct_members(1) distinct_members(1)]
  show ?thesis
    using member[of "''timeout_seconds''"] member[of "''cpu_cores''"] member[of "''memory_bytes''"] member[of "''process_count''"]
      member[of "''file_bytes''"] member[of "''temporary_bytes''"] member[of "''output_bytes''"] cpu_plain[OF assms(2)] cpu_plain[OF assms(3)]
    by (intro sandbox_limits.equality) (simp_all add: limits_members_def)
qed

lemma policy_inject:
  assumes "same_json (JObj (policy_members p)) (JObj (policy_members q))"
    and "cpu_cores_ok (sx_cpu_cores (sp_limits p))" "cpu_cores_ok (sx_cpu_cores (sp_limits q))"
  shows "p = q"
proof -
  note member = same_json_member[OF assms(1) distinct_members(3) distinct_members(3)]
  have limits: "sp_limits p = sp_limits q"
    using member[of "''limits''"] by (intro limits_inject assms(2,3)) (simp add: policy_members_def same_json_def)
  have inj: "inj (\<lambda>d. sort_json (JObj (destination_members d)))"
    using destination_inject by (auto simp: inj_def same_json_def simp del: sort_json.simps)
  have "map (\<lambda>d. sort_json (JObj (destination_members d))) (sp_allowed_destinations p)
      = map (\<lambda>d. sort_json (JObj (destination_members d))) (sp_allowed_destinations q)"
    using member[of "''allowed_destinations''"] by (simp add: policy_members_def o_def)
  then have "sp_allowed_destinations p = sp_allowed_destinations q" using inj_map_eq_map[OF inj] by blast
  moreover have "sp_workspace_access p = sp_workspace_access q" "sp_network_mode p = sp_network_mode q"
    using member[of "''workspace_access''"] member[of "''network_mode''"]
    by (auto simp: policy_members_def split: workspace_access.splits network_mode.splits)
  ultimately show ?thesis using limits member[of "''apparmor_profile''"] by (intro sandbox_policy.equality) (simp_all add: policy_members_def)
qed

lemma spec_inject:
  assumes "same_json (JObj (spec_members j)) (JObj (spec_members k))"
    and "cpu_cores_ok (sx_cpu_cores (sp_limits (js_policy j)))" "cpu_cores_ok (sx_cpu_cores (sp_limits (js_policy k)))"
  shows "j = k"
proof -
  note member = same_json_member[OF assms(1) distinct_members(4) distinct_members(4)]
  have "js_policy j = js_policy k"
    using member[of "''policy''"] by (intro policy_inject assms(2,3)) (simp add: spec_members_def same_json_def)
  moreover have "js_command j = js_command k"
    using member[of "''command''"] by (simp add: spec_members_def o_def inj_map_eq_map[OF inj_JStr])
  ultimately show ?thesis
    using member[of "''id''"] member[of "''session_id''"] member[of "''correlation_id''"] member[of "''image''"] member[of "''workspace''"]
    by (intro job_spec.equality) (simp_all add: spec_members_def)
qed

lemma spec_members_wf: "wf_json (sx_cpu_cores (sp_limits (js_policy j))) \<Longrightarrow> wf_json (JObj (spec_members j))"
  by (simp add: spec_members_def policy_members_def limits_members_def destination_members_def list_all_iff)

text \<open>
  C24: An approval admits one job only: a request that carries the approval of an accepted request with a specification
  that differs from the accepted one, in any field to the last of its policy, is refused, provided that the canonical bytes of just
  these two specifications do not have the same SHA-256 although they differ. The limits are ones that the schema accepts.
\<close>

theorem approval_binds_job:
  assumes "JobRequest sha256 r = Inr r" "jr_approval r' = jr_approval r" "jr_spec r' \<noteq> jr_spec r"
    and "\<not> hash_clash sha256 (spec_bytes (spec_members (jr_spec r))) (spec_bytes (spec_members (jr_spec r')))"
    and "SandboxLimits (sp_limits (js_policy (jr_spec r))) = Inr x" "SandboxLimits (sp_limits (js_policy (jr_spec r'))) = Inr x'"
    and "wf_json (sx_cpu_cores (sp_limits (js_policy (jr_spec r))))" "wf_json (sx_cpu_cores (sp_limits (js_policy (jr_spec r'))))"
  shows "\<exists>e. JobRequest sha256 r' = Inl e"
proof (rule ccontr)
  let ?j = "jr_spec r" and ?k = "jr_spec r'"
  assume "\<nexists>e. JobRequest sha256 r' = Inl e"
  then obtain q where "JobRequest sha256 r' = Inr q" by (cases "JobRequest sha256 r'") auto
  then have "sha256 (spec_bytes (spec_members ?j)) = sha256 (spec_bytes (spec_members ?k))"
    using assms(1,2) by (simp add: JobRequest_def res_simps job_spec_digest_def)
  then have "json_raw (sort_json (JObj (spec_members ?j))) = json_raw (sort_json (JObj (spec_members ?k)))"
    using assms(4) by (simp add: hash_clash_def spec_bytes_def utf8_inject)
  then have "same_json (JObj (spec_members ?j)) (JObj (spec_members ?k))"
    unfolding same_json_def by (intro json_raw_inject wf_sort_json spec_members_wf assms(7,8))
  moreover have "cpu_cores_ok (sx_cpu_cores (sp_limits (js_policy ?j)))" "cpu_cores_ok (sx_cpu_cores (sp_limits (js_policy ?k)))"
    using assms(5,6) by (auto simp: SandboxLimits_def res_simps)
  ultimately show False using spec_inject assms(3) by metis
qed

section \<open>An example\<close>

definition demo_at :: "int \<Rightarrow> py_datetime" where
  "demo_at i = \<lparr>dt_instant = i, dt_offset = Some 0\<rparr>"

definition demo_job_policy :: sandbox_policy where
  "demo_job_policy = \<lparr>sp_limits = \<lparr>sx_timeout_seconds = 120, sx_cpu_cores = JInt 1, sx_memory_bytes = 16777216, sx_process_count = 64,
     sx_file_bytes = 4096, sx_temporary_bytes = 1048576, sx_output_bytes = 1024\<rparr>, sp_workspace_access = ReadOnly,
     sp_network_mode = NetworkDisabled, sp_allowed_destinations = [], sp_apparmor_profile = ''docker-default''\<rparr>"

definition zeros :: string where
  "zeros = replicate 64 CHR ''0''"

definition demo_job :: job_spec where
  "demo_job = \<lparr>js_id = ''j-1'', js_session_id = ''s'', js_correlation_id = ''c'', js_image = ''img@sha256:'' @ zeros, js_command = [''run''],
     js_workspace = ''/w'', js_policy = demo_job_policy\<rparr>"

definition demo_job_request :: job_request where
  "demo_job_request = \<lparr>jr_spec = demo_job, jr_approval = \<lparr>ea_id = ''a'', ea_job_id = ''j-1'', ea_session_id = ''s'', ea_spec_sha256 = zeros,
     ea_approved_by = ''u'', ea_permission_decision_id = ''d'', ea_created_at = demo_at 0, ea_expires_at = demo_at 100\<rparr>\<rparr>"

lemma demo_image: "image_reference (js_image demo_job)" "sha256_hex zeros"
  by code_simp+

lemma demo_command: "list_all (\<lambda>a. nul \<notin> set a) [''run'', ''/w'']" "sum_list (map (\<lambda>a. length (utf8_encode a)) [''run'']) = 3"
    "split_char CHR ''/'' ''/w'' = [[], ''w'']"
  by code_simp+

lemma demo_job_valid: "JobSpec demo_job = Inr demo_job" 
  using demo_image(1) demo_command by (simp add: JobSpec_def res_simps demo_job_def starts_with_def)

definition marked_hash :: "string \<Rightarrow> string" where
  "marked_hash s = replicate 63 CHR ''0'' @ [if s = spec_bytes (spec_members demo_job) then CHR ''0'' else CHR ''1'']"

definition changed_request :: job_request where
  "changed_request = demo_job_request\<lparr>jr_spec := demo_job\<lparr>js_policy := demo_job_policy\<lparr>sp_workspace_access := ReadWrite\<rparr>\<rparr>\<rparr>"

theorem approval_binds_job_witness:
  "JobRequest marked_hash demo_job_request = Inr demo_job_request \<and> (\<exists>e. JobRequest marked_hash changed_request = Inl e)"
proof -
  let ?changed = "jr_spec changed_request"
  have "marked_hash (spec_bytes (spec_members demo_job)) = zeros" by (simp add: marked_hash_def zeros_def replicate_append_same numeral_eq_Suc)
  then have request: "JobRequest marked_hash demo_job_request = Inr demo_job_request"
    by (simp add: JobRequest_def demo_job_request_def demo_job_def job_spec_digest_def)
  have limits: "sp_limits (js_policy (jr_spec demo_job_request)) = sp_limits demo_job_policy" "sp_limits (js_policy ?changed) = sp_limits demo_job_policy"
    by (simp_all add: changed_request_def demo_job_request_def demo_job_def)
  have ok: "SandboxLimits (sp_limits demo_job_policy) = Inr (sp_limits demo_job_policy)" "wf_json (sx_cpu_cores (sp_limits demo_job_policy))"
    by (simp_all add: demo_job_policy_def SandboxLimits_def cpu_cores_ok_def number_value_def)
  have differs: "?changed \<noteq> jr_spec demo_job_request" "jr_approval changed_request = jr_approval demo_job_request"
    by (simp_all add: changed_request_def demo_job_request_def demo_job_def demo_job_policy_def)
  have "\<not> hash_clash marked_hash (spec_bytes (spec_members (jr_spec demo_job_request))) (spec_bytes (spec_members ?changed))"
    by (simp add: hash_clash_def marked_hash_def demo_job_request_def)
  from approval_binds_job[OF request differs(2,1) this] show ?thesis using request limits ok by simp
qed

end
