(* ===== verification/SandboxCommands.thy ===== *)
theory SandboxCommands
  imports SandboxJobs
begin

text \<open>
  What the backends of the sandbox share (\<open>zeaz_sandbox/backend.py\<close>): the records they exchange with the
  service, and the runner of a runtime's command line. A runner is a parameter that may answer each command
  differently, after what was run before; an operation gets the commands that were run so far and adds its own.
\<close>

section \<open>Records\<close>

record network_attachment =
  na_docker_network :: string
  na_proxy_url :: "string option"
  na_cleanup_token :: "string option"

datatype stop_reason = Exited | StopTimedOut | OutputLimit | StopCancelled | OutputFailure | RuntimeFailure

record container_result =
  cr_reason :: stop_reason
  cr_exit_code :: "int option"
  cr_stdout_bytes :: int
  cr_stderr_bytes :: int
  cr_output_truncated :: bool

section \<open>Commands\<close>

text \<open>The sanitized error of a backend, a \<open>ValueError\<close>, an \<open>AttributeError\<close>, an \<open>OSError\<close>, and what the consumer of the output raises.\<close>

datatype backend_error = SandboxBackendError string | BackendValueError string | BackendAttributeError | BackendOSError | BackendSinkError

definition backend_check :: "bool \<Rightarrow> backend_error \<Rightarrow> backend_error + unit" where
  "backend_check ok e = (if ok then Inr () else Inl e)"

lemma backend_check_Inr [res_simps]: "backend_check ok e = Inr u \<longleftrightarrow> ok"
  by (simp add: backend_check_def)

lemma backend_check_Inl [res_simps]: "backend_check ok e = Inl x \<longleftrightarrow> \<not> ok \<and> x = e"
  by (auto simp: backend_check_def)

record command =
  cm_argv :: "string list"
  cm_timeout :: int
  cm_max_stdout :: int
  cm_max_stderr :: int

record command_output =
  co_returncode :: int
  co_stdout :: string
  co_stderr :: string

type_synonym runner = "command list \<Rightarrow> command \<Rightarrow> backend_error + command_output"

type_synonym 'a run = "(backend_error + 'a) \<times> command list"

definition run_command :: "runner \<Rightarrow> command \<Rightarrow> command list \<Rightarrow> command_output run" where
  "run_command runner c hist = (runner hist c, hist @ [c])"

text \<open>A step after a step that returned, and a result that is decided without a command, whatever state is threaded.\<close>

type_synonym ('a, 's) run_outcome = "(backend_error + 'a) \<times> 's"

definition and_then :: "('a, 's) run_outcome \<Rightarrow> ('a \<Rightarrow> 's \<Rightarrow> ('b, 's) run_outcome) \<Rightarrow> ('b, 's) run_outcome" where
  "and_then r f = (case r of (Inl e, hist) \<Rightarrow> (Inl e, hist) | (Inr x, hist) \<Rightarrow> f x hist)"

definition decide_run :: "backend_error + 'a \<Rightarrow> 's \<Rightarrow> ('a, 's) run_outcome" where
  "decide_run x hist = (x, hist)"

text \<open>\<open>try: ... except Exception: undo; raise\<close>, where an exception of \<open>undo\<close> is swallowed.\<close>

definition on_failure :: "('a, 's) run_outcome \<Rightarrow> ('s \<Rightarrow> ('b, 's) run_outcome) \<Rightarrow> ('a, 's) run_outcome" where
  "on_failure r undo = (case r of (Inl e, hist) \<Rightarrow> (Inl e, snd (undo hist)) | (Inr x, hist) \<Rightarrow> (Inr x, hist))"

lemma and_then_Inr [res_simps]: "and_then r f = (Inr y, hist2) \<longleftrightarrow> (\<exists>x hist1. r = (Inr x, hist1) \<and> f x hist1 = (Inr y, hist2))"
  by (auto simp: and_then_def split: prod.splits sum.splits)

lemma and_then_simps [simp]: "and_then (Inr x, hist) f = f x hist" "and_then (Inl e, hist) f = (Inl e, hist)"
  by (simp_all add: and_then_def)

lemma on_failure_Inr [res_simps]: "on_failure r undo = (Inr x, hist) \<longleftrightarrow> r = (Inr x, hist)"
  by (auto simp: on_failure_def split: prod.splits sum.splits)

lemma on_failure_simps [simp]: "on_failure (Inr x, hist) undo = (Inr x, hist)" "on_failure (Inl e, hist) undo = (Inl e, snd (undo hist))"
  by (simp_all add: on_failure_def)

section \<open>The runner of subprocesses\<close>

definition runtime_environment :: "string dict \<Rightarrow> backend_error + string dict" where
  "runtime_environment env =
     bindE (backend_check (\<not> (length env > 16 \<or> list_ex (\<lambda>(k, v). k \<notin> {''DOCKER_HOST'', ''XDG_RUNTIME_DIR'', ''HOME'', ''PATH''} \<or> v = [] \<or>
         nul \<in> set v \<or> newline \<in> set v \<or> length v > 4096 \<or> k = ''PATH'' \<and> v \<noteq> ''/usr/sbin:/usr/bin:/sbin:/bin'') env))
       (BackendValueError ''runtime CLI environment contains an unsupported value'')) (\<lambda>_. Inr env)"

text \<open>The bytes of a pipe that are kept, and whether there were more than the limit. The rest is read and dropped.\<close>

fun read_pipe :: "int \<Rightarrow> int \<Rightarrow> string list \<Rightarrow> string \<times> bool" where
  "read_pipe maximum got [] = ([], False)"
| "read_pipe maximum got (chunk # chunks) =
     (let remaining = maximum - got;
          accepted = (if remaining > 0 then take (nat remaining) chunk else []);
          (kept, over) = read_pipe maximum (got + int (length accepted)) chunks
      in (accepted @ kept, int (length chunk) > remaining \<or> over))"

lemma read_pipe_eq:
  "0 \<le> got \<Longrightarrow> got \<le> maximum \<Longrightarrow>
     read_pipe maximum got chunks = (take (nat (maximum - got)) (concat chunks), int (length (concat chunks)) > maximum - got)"
proof (induction chunks arbitrary: got)
  case (Cons chunk chunks)
  obtain n where n: "maximum = got + int n" using Cons.prems(2) zle_iff_zadd by blast
  have kept: "(if 0 < maximum - got then take (nat (maximum - got)) chunk else []) = take n chunk" by (simp add: n)
  have "read_pipe maximum (got + int (length (take n chunk))) chunks
      = (take (nat (maximum - (got + int (length (take n chunk))))) (concat chunks), int (length (concat chunks)) > maximum - (got + int (length (take n chunk))))"
    using Cons.prems by (intro Cons.IH) (simp_all add: n)
  moreover have "maximum - (got + int (length (take n chunk))) = int (n - length chunk)" by (simp add: n)
  ultimately have "read_pipe maximum (got + int (length (take n chunk))) chunks
      = (take (n - length chunk) (concat chunks), n - length chunk < length (concat chunks))" by simp
  moreover have "(n < l \<or> n - l < m) = (n < l + m)" for l m :: nat by arith
  ultimately show ?case by (simp only: read_pipe.simps Let_def kept split_conv) (simp add: n, linarith)
qed simp

text \<open>
  A process: whether it starts, what its pipes give, what comes first (its exit, a pipe over its limit, or
  neither within the time), and its return code. Pipes are read to their end in each case.
\<close>

datatype first_event = FirstExit | FirstOverflow | NothingInTime

record process_run =
  pr_starts :: bool
  pr_pipes :: bool
  pr_stdout :: "string list"
  pr_stderr :: "string list"
  pr_first :: first_event
  pr_returncode :: int

definition CommandOutput :: "command_output \<Rightarrow> backend_error + command_output" where
  "CommandOutput c = bindE (backend_check (length (co_stdout c) \<le> 1048576 \<and> length (co_stderr c) \<le> 65536) (BackendValueError ''CommandResult'')) (\<lambda>_. Inr c)"

definition subprocess_run :: "command \<Rightarrow> process_run \<Rightarrow> backend_error + command_output" where
  "subprocess_run c p =
     bindE (backend_check (pr_starts p) (SandboxBackendError ''container runtime command failed to start'')) (\<lambda>_.
     bindE (backend_check (pr_pipes p) (SandboxBackendError ''container runtime pipes are unavailable'')) (\<lambda>_.
     let stdout = fst (read_pipe (cm_max_stdout c) 0 (pr_stdout p)); stderr = fst (read_pipe (cm_max_stderr c) 0 (pr_stderr p)) in
     bindE (backend_check (pr_first p \<noteq> NothingInTime) (SandboxBackendError ''container runtime command timed out'')) (\<lambda>_.
     bindE (backend_check (pr_first p \<noteq> FirstOverflow) (SandboxBackendError ''container runtime response exceeded its byte limit'')) (\<lambda>_.
     CommandOutput \<lparr>co_returncode = pr_returncode p, co_stdout = stdout, co_stderr = stderr\<rparr>))))"

text \<open>
  A process that has exited before the reader notices the overflow: its output is cut at the limit and taken
  for all there was.
\<close>

theorem early_exit_hides_overflow:
  assumes "pr_starts p" "pr_pipes p" "pr_first p = FirstExit" "0 \<le> cm_max_stdout c" "cm_max_stdout c \<le> 1048576" "0 \<le> cm_max_stderr c" "cm_max_stderr c \<le> 65536"
  shows "subprocess_run c p = Inr \<lparr>co_returncode = pr_returncode p, co_stdout = take (nat (cm_max_stdout c)) (concat (pr_stdout p)),
    co_stderr = take (nat (cm_max_stderr c)) (concat (pr_stderr p))\<rparr>"
  using assms by (simp add: subprocess_run_def backend_check_def read_pipe_eq CommandOutput_def min_le_iff_disj nat_le_iff)

section \<open>Identifiers of containers\<close>

definition validate_container_id :: "string \<Rightarrow> backend_error + string" where
  "validate_container_id value = bindE (backend_check (sha256_hex value) (BackendValueError ''container ID is invalid'')) (\<lambda>_. Inr value)"

definition ascii_only :: "string \<Rightarrow> bool" where
  "ascii_only s = list_all (\<lambda>c. code_of c < 128) s"

text \<open>The text after the last occurrence of a separator, as \<open>rsplit(sep, 1)[1]\<close> gives it.\<close>

fun after_last :: "string \<Rightarrow> string \<Rightarrow> string option" where
  "after_last sep [] = None"
| "after_last sep (c # cs) = (case after_last sep cs of
     Some rest \<Rightarrow> Some rest
   | None \<Rightarrow> if starts_with sep (c # cs) then Some (drop (length sep) (c # cs)) else None)"

text \<open>A command that must succeed.\<close>

definition run_required :: "runner \<Rightarrow> command \<Rightarrow> string \<Rightarrow> command list \<Rightarrow> command_output run" where
  "run_required runner c message hist =
     and_then (run_command runner c hist) (\<lambda>r. decide_run (bindE (backend_check (co_returncode r = 0) (SandboxBackendError message)) (\<lambda>_. Inr r)))"

lemma run_required_eq:
  "run_required runner cmd message hist = ((case runner hist cmd of Inl e \<Rightarrow> Inl e
     | Inr r \<Rightarrow> if co_returncode r = 0 then Inr r else Inl (SandboxBackendError message)), hist @ [cmd])"
  by (auto simp: run_required_def run_command_def decide_run_def backend_check_def and_then_def split: sum.splits)

end
