(* ===== verification/SandboxService.thy ===== *)
theory SandboxService
  imports SandboxOutput SandboxCommands
begin

text \<open>
  The sandbox service (\<open>zeaz_sandbox/service.py\<close>): its database of receipts and active executions, the
  execution of a job with its clean-up, cancellation and sandbox_reconciliation. The backend is a parameter: for each call
  how it ends. Between two calls of the backend other tasks of the service may run, which is the function
  \<open>other\<close> of the number of the call.
\<close>

section \<open>The store\<close>

record active_execution =
  ax_container_id :: "string option"
  ax_attachment :: network_attachment

record sandbox_service =
  sv_ready :: bool
  sv_live :: "(string \<times> bool) list"
  sv_receipts :: "(string \<times> execution_receipt) list"
  sv_active :: "(string \<times> active_execution) list"

datatype service_error = SandboxServiceError string | BackendRaised | StoreIntegrityError | ReceiptRefused py_exc | ServiceCancelled

text \<open>\<open>container_id\<close> is unique among the rows.\<close>

definition record_active :: "string \<Rightarrow> active_execution \<Rightarrow> sandbox_service \<Rightarrow> sandbox_service option" where
  "record_active i x s =
     (if ax_container_id x \<noteq> None \<and> list_ex (\<lambda>(j, y). j \<noteq> i \<and> ax_container_id y = ax_container_id x) (sv_active s) then None
      else Some (s\<lparr>sv_active := AList.update i x (sv_active s)\<rparr>))"

definition finalize_receipt :: "execution_receipt \<Rightarrow> sandbox_service \<Rightarrow> service_error + sandbox_service" where
  "finalize_receipt r s =
     (if map_of (sv_receipts s) (er_job_id r) \<noteq> None then Inl StoreIntegrityError
      else Inr (s\<lparr>sv_receipts := sv_receipts s @ [(er_job_id r, r)],
        sv_active := (if er_cleanup_complete r then AList.delete (er_job_id r) (sv_active s) else sv_active s)\<rparr>))"

definition clear_active :: "string \<Rightarrow> sandbox_service \<Rightarrow> sandbox_service" where
  "clear_active i s = s\<lparr>sv_active := AList.delete i (sv_active s)\<rparr>"

section \<open>The backend\<close>

text \<open>A call returns, raises \<open>SandboxBackendError\<close>, is cancelled with its task, or raises something else.\<close>

datatype 'a backend_end = Returned 'a | BackendFailed | TaskCancelled | CallFailed

record sandbox_backend =
  bk_prepare :: "job_spec \<Rightarrow> network_attachment backend_end"
  bk_create :: "job_spec \<Rightarrow> string \<Rightarrow> network_attachment \<Rightarrow> string backend_end"
  bk_execute :: "string \<Rightarrow> int \<Rightarrow> container_result backend_end"
  bk_remove :: "string \<Rightarrow> unit backend_end"
  bk_cleanup :: "network_attachment \<Rightarrow> unit backend_end"

section \<open>One execution\<close>

record job_attempt =
  at_attachment :: "network_attachment option"
  at_container :: "string option"
  at_started :: "py_datetime option"
  at_execution :: "container_result option"
  at_failure :: "string option"
  at_cancelled :: bool

definition blank_attempt :: job_attempt where
  "blank_attempt = \<lparr>at_attachment = None, at_container = None, at_started = None, at_execution = None, at_failure = None, at_cancelled = False\<rparr>"

text \<open>The handlers of \<open>execute\<close>.\<close>

definition ended_by :: "'a backend_end \<Rightarrow> job_attempt \<Rightarrow> job_attempt" where
  "ended_by e a = (case e of
     Returned _ \<Rightarrow> a
   | BackendFailed \<Rightarrow> a\<lparr>at_failure := Some ''backend_failure''\<rparr>
   | TaskCancelled \<Rightarrow> a\<lparr>at_failure := Some ''cancelled'', at_cancelled := True\<rparr>
   | CallFailed \<Rightarrow> a\<lparr>at_failure := Some ''execution_failure''\<rparr>)"

definition job_name :: "string \<Rightarrow> string" where
  "job_name i = ''zeaz-job-'' @ filter (\<lambda>c. c \<noteq> CHR ''-'') i"

definition run_attempt ::
  "(nat \<Rightarrow> sandbox_service \<Rightarrow> sandbox_service) \<Rightarrow> sandbox_backend \<Rightarrow> py_datetime \<Rightarrow> string list \<Rightarrow> job_spec \<Rightarrow> sandbox_service \<Rightarrow> job_attempt \<times> sandbox_service" where
  "run_attempt other b started secrets spec s =
     (case bk_prepare b spec of
        Returned attachment \<Rightarrow>
          (let a1 = blank_attempt\<lparr>at_attachment := Some attachment\<rparr>; s1 = other 0 s in
           case record_active (js_id spec) \<lparr>ax_container_id = None, ax_attachment = attachment\<rparr> s1 of
             None \<Rightarrow> (ended_by (CallFailed :: unit backend_end) a1, s1)
           | Some s2 \<Rightarrow>
               (case bk_create b spec (job_name (js_id spec)) attachment of
                  Returned container_id \<Rightarrow>
                    (let a2 = a1\<lparr>at_container := Some container_id\<rparr>; s3 = other 1 s2 in
                     case record_active (js_id spec) \<lparr>ax_container_id = Some container_id, ax_attachment = attachment\<rparr> s3 of
                       None \<Rightarrow> (ended_by (CallFailed :: unit backend_end) a2, s3)
                     | Some s4 \<Rightarrow>
                         (let a3 = a2\<lparr>at_started := Some started\<rparr> in
                          case BoundedOutputStreamer (sx_output_bytes (sp_limits (js_policy spec))) secrets 5 of
                            Inl _ \<Rightarrow> (ended_by (CallFailed :: unit backend_end) a3, s4)
                          | Inr _ \<Rightarrow>
                              (case bk_execute b container_id (sx_timeout_seconds (sp_limits (js_policy spec))) of
                                 Returned r \<Rightarrow> (a3\<lparr>at_execution := Some r\<rparr>, other 2 s4)
                               | e \<Rightarrow> (ended_by e a3, other 2 s4))))
                | e \<Rightarrow> (ended_by e a1, other 1 s2)))
      | e \<Rightarrow> (ended_by e blank_attempt, other 0 s))"

text \<open>The clean-up; None when a cancellation interrupts it, which no handler catches.\<close>

definition clean_step :: "'a option \<Rightarrow> ('a \<Rightarrow> unit backend_end) \<Rightarrow> bool option" where
  "clean_step x f = (case x of None \<Rightarrow> Some True | Some v \<Rightarrow> (case f v of Returned _ \<Rightarrow> Some True | TaskCancelled \<Rightarrow> None | _ \<Rightarrow> Some False))"

definition clean_up :: "sandbox_backend \<Rightarrow> job_attempt \<Rightarrow> bool option" where
  "clean_up b a = (case clean_step (at_container a) (bk_remove b) of
     None \<Rightarrow> None
   | Some removed \<Rightarrow> (case clean_step (at_attachment a) (bk_cleanup b) of None \<Rightarrow> None | Some detached \<Rightarrow> Some (removed \<and> detached)))"

definition map_execution :: "container_result option \<Rightarrow> string option \<Rightarrow> execution_state \<times> int option \<times> string option" where
  "map_execution execution failure = (case execution of
     None \<Rightarrow> (Failed, None, Some (case failure of None \<Rightarrow> ''execution_failure'' | Some c \<Rightarrow> c))
   | Some r \<Rightarrow> (case cr_reason r of
       StopCancelled \<Rightarrow> (Cancelled, None, Some ''cancelled'')
     | StopTimedOut \<Rightarrow> (Failed, None, Some ''timeout'')
     | OutputLimit \<Rightarrow> (Failed, None, Some ''output_limit'')
     | OutputFailure \<Rightarrow> (Failed, None, Some ''output_failure'')
     | RuntimeFailure \<Rightarrow> (Failed, None, Some ''runtime_failure'')
     | Exited \<Rightarrow> if cr_exit_code r = Some 0 then (Completed, Some 0, None) else (Failed, cr_exit_code r, Some ''nonzero_exit'')))"

definition image_digest :: "string \<Rightarrow> string" where
  "image_digest reference = ''sha256:'' @ (case split_once ''@sha256:'' reference of None \<Rightarrow> [] | Some (_, d) \<Rightarrow> d)"

definition make_receipt ::
  "(string \<Rightarrow> string) \<Rightarrow> job_request \<Rightarrow> execution_state \<Rightarrow> int option \<Rightarrow> py_datetime option \<Rightarrow> py_datetime \<Rightarrow> container_result option \<Rightarrow> bool
     \<Rightarrow> string option \<Rightarrow> execution_receipt res" where
  "make_receipt sha256 q state exit_code started finished execution cleanup_complete failure =
     ExecutionReceipt \<lparr>er_job_id = js_id (jr_spec q), er_session_id = js_session_id (jr_spec q), er_correlation_id = js_correlation_id (jr_spec q),
       er_approval_id = ea_id (jr_approval q), er_image_digest = image_digest (js_image (jr_spec q)),
       er_policy_sha256 = policy_digest sha256 (js_policy (jr_spec q)), er_state = state, er_exit_code = exit_code, er_started_at = started,
       er_finished_at = finished, er_stdout_bytes = (case execution of None \<Rightarrow> 0 | Some r \<Rightarrow> cr_stdout_bytes r),
       er_stderr_bytes = (case execution of None \<Rightarrow> 0 | Some r \<Rightarrow> cr_stderr_bytes r),
       er_output_truncated = (case execution of None \<Rightarrow> False | Some r \<Rightarrow> cr_output_truncated r),
       er_cleanup_complete = cleanup_complete, er_failure_code = failure\<rparr>"

definition final_state :: "job_attempt \<Rightarrow> bool \<Rightarrow> execution_state \<times> int option \<times> string option" where
  "final_state a cleanup_complete =
     (case (if at_cancelled a then (Cancelled, None, Some ''cancelled'') else map_execution (at_execution a) (at_failure a)) of
        (state, exit_code, failure) \<Rightarrow>
          if \<not> cleanup_complete \<and> state = Completed then (Failed, None, Some ''cleanup_failure'') else (state, exit_code, failure))"

definition forget_job :: "string \<Rightarrow> sandbox_service \<Rightarrow> sandbox_service" where
  "forget_job i s = s\<lparr>sv_live := AList.delete i (sv_live s)\<rparr>"

text \<open>The first part of \<open>execute\<close>: a request without a current approval gets its receipt, a known job is refused, any other is registered.\<close>

definition admit_job ::
  "(string \<Rightarrow> string) \<Rightarrow> job_request \<Rightarrow> py_datetime \<Rightarrow> sandbox_service \<Rightarrow> (service_error + execution_receipt option) \<times> sandbox_service" where
  "admit_job sha256 q now s =
     (let i = js_id (jr_spec q) in
      if \<not> sv_ready s then (Inl (SandboxServiceError ''sandbox service has not passed its runtime probe''), s)
      else if \<not> approval_current q now then
        (case make_receipt sha256 q Rejected None None now None True (Some ''approval_invalid'') of
           Inl e \<Rightarrow> (Inl (ReceiptRefused e), s)
         | Inr r \<Rightarrow> (case finalize_receipt r s of Inl e \<Rightarrow> (Inl e, s) | Inr s' \<Rightarrow> (Inr (Some r), s')))
      else if map_of (sv_live s) i \<noteq> None \<or> map_of (sv_receipts s) i \<noteq> None then (Inl (SandboxServiceError ''job has already been submitted''), s)
      else (Inr None, s\<lparr>sv_live := (i, False) # sv_live s\<rparr>))"

text \<open>The last part: a receipt that cannot be made leaves the job registered, one that cannot be stored does not.\<close>

definition conclude_job ::
  "(string \<Rightarrow> string) \<Rightarrow> job_request \<Rightarrow> job_attempt \<Rightarrow> bool \<Rightarrow> py_datetime \<Rightarrow> sandbox_service \<Rightarrow> (service_error + execution_receipt) \<times> sandbox_service" where
  "conclude_job sha256 q a cleanup_complete finished s =
     (case final_state a cleanup_complete of (state, exit_code, failure) \<Rightarrow>
       (case make_receipt sha256 q state exit_code (at_started a) finished (at_execution a) cleanup_complete failure of
          Inl e \<Rightarrow> (Inl (ReceiptRefused e), s)
        | Inr r \<Rightarrow> (case finalize_receipt r s of
             Inl e \<Rightarrow> (Inl e, forget_job (js_id (jr_spec q)) s)
           | Inr s' \<Rightarrow> (Inr r, forget_job (js_id (jr_spec q)) s'))))"

definition execute_job ::
  "(string \<Rightarrow> string) \<Rightarrow> (nat \<Rightarrow> sandbox_service \<Rightarrow> sandbox_service) \<Rightarrow> sandbox_backend \<Rightarrow> job_request \<Rightarrow> string list
     \<Rightarrow> py_datetime \<Rightarrow> py_datetime \<Rightarrow> py_datetime \<Rightarrow> sandbox_service \<Rightarrow> (service_error + execution_receipt) \<times> sandbox_service" where
  "execute_job sha256 other b q secrets now started finished s =
     (case admit_job sha256 q now s of
        (Inl e, s1) \<Rightarrow> (Inl e, s1)
      | (Inr (Some r), s1) \<Rightarrow> (Inr r, s1)
      | (Inr None, s1) \<Rightarrow>
          (case run_attempt other b started secrets (jr_spec q) s1 of (a, s2) \<Rightarrow>
             (case clean_up b a of
                None \<Rightarrow> (Inl ServiceCancelled, other 3 s2)
              | Some cleanup_complete \<Rightarrow> conclude_job sha256 q a cleanup_complete finished (other 3 s2))))"

definition cancel_job :: "string \<Rightarrow> sandbox_service \<Rightarrow> bool \<times> sandbox_service" where
  "cancel_job i s = (if map_of (sv_live s) i = None then (False, s) else (True, s\<lparr>sv_live := AList.update i True (sv_live s)\<rparr>))"

section \<open>Reconciliation\<close>

record sandbox_reconciliation =
  rn_inspected :: int
  rn_cleaned :: int
  rn_failed :: int

text \<open>What was removed, the counters, and the store; \<open>removes\<close> and \<open>detaches\<close> say which clean-ups of the backend go through.\<close>

definition tally :: "bool \<Rightarrow> sandbox_reconciliation \<Rightarrow> sandbox_reconciliation" where
  "tally ok n = n\<lparr>rn_inspected := rn_inspected n + 1, rn_cleaned := rn_cleaned n + (if ok then 1 else 0),
     rn_failed := rn_failed n + (if ok then 0 else 1)\<rparr>"

fun reconcile_entries ::
  "(string \<Rightarrow> bool) \<Rightarrow> (network_attachment \<Rightarrow> bool) \<Rightarrow> string list \<Rightarrow> string list \<Rightarrow> (string \<times> active_execution) list
     \<Rightarrow> string list \<times> sandbox_reconciliation \<times> sandbox_service \<Rightarrow> string list \<times> sandbox_reconciliation \<times> sandbox_service" where
  "reconcile_entries removes detaches managed live [] w = w"
| "reconcile_entries removes detaches managed live ((i, x) # rows) (removed, n, s) =
     (if i \<in> set live then reconcile_entries removes detaches managed live rows (removed, n, s)
      else
        (let asked = (case ax_container_id x of None \<Rightarrow> [] | Some c \<Rightarrow> if c \<in> set managed then [c] else []);
             ok = list_all removes asked \<and> detaches (ax_attachment x)
         in reconcile_entries removes detaches managed live rows (removed @ asked, tally ok n, if ok then clear_active i s else s)))"

fun remove_orphans :: "(string \<Rightarrow> bool) \<Rightarrow> string list \<Rightarrow> string list \<times> sandbox_reconciliation \<Rightarrow> string list \<times> sandbox_reconciliation" where
  "remove_orphans removes [] w = w"
| "remove_orphans removes (c # cs) (removed, n) = remove_orphans removes cs (removed @ [c], tally (removes c) n)"

definition journaled_containers :: "(string \<times> active_execution) list \<Rightarrow> string list" where
  "journaled_containers journal = List.map_filter (\<lambda>(_, x). ax_container_id x) journal"

definition reconcile ::
  "(string \<Rightarrow> bool) \<Rightarrow> (network_attachment \<Rightarrow> bool) \<Rightarrow> string list option \<Rightarrow> (sandbox_service \<Rightarrow> sandbox_service) \<Rightarrow> sandbox_service
     \<Rightarrow> service_error + (string list \<times> sandbox_reconciliation) \<times> sandbox_service" where
  "reconcile removes detaches managed meanwhile s =
     (if \<not> sv_ready s then Inl (SandboxServiceError ''sandbox service has not passed its runtime probe'')
      else (case managed of
          None \<Rightarrow> Inl BackendRaised
        | Some containers \<Rightarrow>
            (let journal = sv_active s; live = map fst (sv_live (meanwhile s)) in
             case reconcile_entries removes detaches containers live journal ([], \<lparr>rn_inspected = 0, rn_cleaned = 0, rn_failed = 0\<rparr>, meanwhile s) of
               (removed, n, s') \<Rightarrow>
                 Inr (remove_orphans removes (sort (filter (\<lambda>c. c \<notin> set (journaled_containers journal)) (remdups containers))) (removed, n), s'))))"


section \<open>What a receipt says\<close>

lemma ExecutionReceipt_Inr:
  "ExecutionReceipt r = Inr r' \<longleftrightarrow> r' = r \<and> starts_with ''sha256:'' (er_image_digest r) \<and> sha256_hex (drop 7 (er_image_digest r)) \<and>
     sha256_hex (er_policy_sha256 r) \<and> (case er_exit_code r of None \<Rightarrow> True | Some c \<Rightarrow> 0 \<le> c \<and> c \<le> 255) \<and>
     0 \<le> er_stdout_bytes r \<and> 0 \<le> er_stderr_bytes r \<and> (case er_failure_code r of None \<Rightarrow> True | Some c \<Rightarrow> failure_text c) \<and>
     (case er_started_at r of None \<Rightarrow> True | Some t \<Rightarrow> has_timezone t \<and> dt_instant t \<le> dt_instant (er_finished_at r)) \<and>
     has_timezone (er_finished_at r) \<and> \<not> (er_state r = Rejected \<and> er_started_at r \<noteq> None) \<and>
     \<not> (er_state r = Completed \<and> (er_exit_code r \<noteq> Some 0 \<or> \<not> er_cleanup_complete r)) \<and>
     \<not> (er_state r \<in> {Rejected, Cancelled} \<and> er_exit_code r \<noteq> None) \<and> \<not> (er_state r \<noteq> Completed \<and> er_failure_code r = None)"
  by (auto simp: ExecutionReceipt_def res_simps not_less split: option.splits)

lemma make_receipt_Inr:
  assumes "make_receipt sha256 q state exit_code started finished execution cleaned failure = Inr r"
  shows "er_job_id r = js_id (jr_spec q)" "er_state r = state" "er_cleanup_complete r = cleaned" "er_exit_code r = exit_code"
    "er_failure_code r = failure"
  using assms by (auto simp: make_receipt_def ExecutionReceipt_Inr)

lemma finalize_receipt_Inr:
  "finalize_receipt r s = Inr s' \<longleftrightarrow> map_of (sv_receipts s) (er_job_id r) = None \<and>
     s' = s\<lparr>sv_receipts := sv_receipts s @ [(er_job_id r, r)],
       sv_active := (if er_cleanup_complete r then AList.delete (er_job_id r) (sv_active s) else sv_active s)\<rparr>"
  by (auto simp: finalize_receipt_def)

lemma run_attempt_shape:
  assumes "run_attempt other b started secrets spec s = (a, s')"
  shows "(case at_attachment a of None \<Rightarrow> at_container a = None | Some x \<Rightarrow> bk_prepare b spec = Returned x)"
    "(case at_container a of None \<Rightarrow> at_execution a = None
      | Some c \<Rightarrow> \<exists>x. at_attachment a = Some x \<and> bk_create b spec (job_name (js_id spec)) x = Returned c)"
    "(case at_execution a of None \<Rightarrow> True
      | Some r \<Rightarrow> \<exists>c. at_container a = Some c \<and> bk_execute b c (sx_timeout_seconds (sp_limits (js_policy spec))) = Returned r)"
    "at_started a = None \<or> at_started a = Some started"
    "(case at_failure a of None \<Rightarrow> True | Some f \<Rightarrow> f \<in> {''backend_failure'', ''cancelled'', ''execution_failure''})"
  using assms by (auto simp: run_attempt_def Let_def blank_attempt_def ended_by_def split: backend_end.splits option.splits sum.splits)

lemma clean_step_True: "clean_step x f = Some True \<longleftrightarrow> (case x of None \<Rightarrow> True | Some v \<Rightarrow> f v = Returned ())"
  by (auto simp: clean_step_def split: option.splits backend_end.splits)

lemma final_state_cases:
  assumes "final_state a cleaned = (state, exit_code, failure)"
  shows "state \<noteq> Rejected"
    "state = Completed \<Longrightarrow> cleaned \<and> \<not> at_cancelled a \<and> exit_code = Some 0 \<and> (\<exists>e. at_execution a = Some e \<and> cr_reason e = Exited \<and> cr_exit_code e = Some 0)"
    "state = Cancelled \<Longrightarrow> exit_code = None"
    "state \<noteq> Completed \<Longrightarrow> failure \<noteq> None"
  using assms
  by (auto simp: final_state_def map_execution_def dest: sym split: if_splits prod.splits option.splits stop_reason.splits)

lemma conclude_job_Inr:
  assumes "conclude_job sha256 q a cleaned finished s = (Inr r, s')"
  obtains state exit_code failure where "final_state a cleaned = (state, exit_code, failure)"
    "make_receipt sha256 q state exit_code (at_started a) finished (at_execution a) cleaned failure = Inr r"
    "map_of (sv_receipts s) (er_job_id r) = None" "sv_receipts s' = sv_receipts s @ [(er_job_id r, r)]"
    "sv_active s' = (if cleaned then AList.delete (er_job_id r) (sv_active s) else sv_active s)"
    "sv_live s' = AList.delete (js_id (jr_spec q)) (sv_live s)"
proof -
  obtain state exit_code failure where f: "final_state a cleaned = (state, exit_code, failure)" using prod_cases3 by blast
  have r: "make_receipt sha256 q state exit_code (at_started a) finished (at_execution a) cleaned failure = Inr r"
    using assms by (auto simp: conclude_job_def f split: sum.splits)
  note made = make_receipt_Inr[OF r]
  show thesis using assms made(3) that[OF f r] by (auto simp: conclude_job_def f r finalize_receipt_Inr forget_job_def split: sum.splits)
qed

lemma admit_job_cases:
  "admit_job sha256 q now s = (Inr None, s') \<longleftrightarrow> sv_ready s \<and> approval_current q now \<and> map_of (sv_live s) (js_id (jr_spec q)) = None \<and>
     map_of (sv_receipts s) (js_id (jr_spec q)) = None \<and> s' = s\<lparr>sv_live := (js_id (jr_spec q), False) # sv_live s\<rparr>"
  "admit_job sha256 q now s = (Inr (Some r), s') \<longleftrightarrow> sv_ready s \<and> \<not> approval_current q now \<and>
     make_receipt sha256 q Rejected None None now None True (Some ''approval_invalid'') = Inr r \<and> finalize_receipt r s = Inr s'"
  by (auto simp: admit_job_def Let_def split: sum.splits)

lemma execute_job_Inr:
  assumes "execute_job sha256 other b q secrets now started finished s = (Inr r, s')"
  shows "admit_job sha256 q now s = (Inr (Some r), s') \<or>
    (\<exists>s1 a s2 cleaned. admit_job sha256 q now s = (Inr None, s1) \<and> run_attempt other b started secrets (jr_spec q) s1 = (a, s2) \<and>
      clean_up b a = Some cleaned \<and> conclude_job sha256 q a cleaned finished (other 3 s2) = (Inr r, s'))"
  using assms by (auto simp: execute_job_def split: prod.splits sum.splits option.splits)

lemma clean_up_True:
  "clean_up b a = Some True \<longleftrightarrow> clean_step (at_container a) (bk_remove b) = Some True \<and> clean_step (at_attachment a) (bk_cleanup b) = Some True"
  by (auto simp: clean_up_def split: option.splits)

text \<open>
  C25: A receipt is one of the requested job and is what the store holds. It says \<open>rejected\<close> exactly without a current
  approval, and \<open>completed\<close> only if the container that was made for this job exited with zero and container and network
  were cleaned up; when it says that the clean-up is complete, the journal has no entry of the job any more.
\<close>

theorem receipt_tells_outcome:
  assumes "execute_job sha256 other b q secrets now started finished s = (Inr r, s')"
  shows "er_job_id r = js_id (jr_spec q) \<and> map_of (sv_receipts s') (js_id (jr_spec q)) = Some r \<and>
    (er_state r = Rejected \<longleftrightarrow> \<not> approval_current q now) \<and>
    (er_cleanup_complete r \<longrightarrow> map_of (sv_active s') (js_id (jr_spec q)) = None) \<and>
    (er_state r = Completed \<longrightarrow> (\<exists>x c e. bk_prepare b (jr_spec q) = Returned x \<and>
       bk_create b (jr_spec q) (job_name (js_id (jr_spec q))) x = Returned c \<and>
       bk_execute b c (sx_timeout_seconds (sp_limits (js_policy (jr_spec q)))) = Returned e \<and> cr_reason e = Exited \<and> cr_exit_code e = Some 0 \<and>
       bk_remove b c = Returned () \<and> bk_cleanup b x = Returned ()))"
  using execute_job_Inr[OF assms]
proof (elim disjE exE conjE)
  assume "admit_job sha256 q now s = (Inr (Some r), s')"
  then have a: "\<not> approval_current q now" "make_receipt sha256 q Rejected None None now None True (Some ''approval_invalid'') = Inr r"
    "finalize_receipt r s = Inr s'" by (simp_all add: admit_job_cases)
  note made = make_receipt_Inr[OF a(2)]
  show ?thesis using a(1,3) made(1-3) by (auto simp: finalize_receipt_Inr map_add_def delete_conv)
next
  fix s1 a s2 cleaned
  assume adm: "admit_job sha256 q now s = (Inr None, s1)" and run: "run_attempt other b started secrets (jr_spec q) s1 = (a, s2)"
    and clean: "clean_up b a = Some cleaned" and con: "conclude_job sha256 q a cleaned finished (other 3 s2) = (Inr r, s')"
  obtain state exit_code failure where f: "final_state a cleaned = (state, exit_code, failure)"
    and r: "make_receipt sha256 q state exit_code (at_started a) finished (at_execution a) cleaned failure = Inr r"
    and st: "map_of (sv_receipts (other 3 s2)) (er_job_id r) = None" "sv_receipts s' = sv_receipts (other 3 s2) @ [(er_job_id r, r)]"
      "sv_active s' = (if cleaned then AList.delete (er_job_id r) (sv_active (other 3 s2)) else sv_active (other 3 s2))"
    using con by (rule conclude_job_Inr)
  note made = make_receipt_Inr[OF r]
  have done_by: "\<exists>x c e. bk_prepare b (jr_spec q) = Returned x \<and> bk_create b (jr_spec q) (job_name (js_id (jr_spec q))) x = Returned c \<and>
       bk_execute b c (sx_timeout_seconds (sp_limits (js_policy (jr_spec q)))) = Returned e \<and> cr_reason e = Exited \<and> cr_exit_code e = Some 0 \<and>
       bk_remove b c = Returned () \<and> bk_cleanup b x = Returned ()" if "state = Completed"
    using final_state_cases(2)[OF f that] run_attempt_shape(1-3)[OF run] clean
    by (auto simp: clean_up_True clean_step_True split: option.splits)
  show ?thesis
    using adm st made(1-3) final_state_cases(1)[OF f] done_by
    by (auto simp: admit_job_cases map_add_def delete_conv)
qed

section \<open>The steps of the service\<close>

inductive service_step :: "(string \<Rightarrow> string) \<Rightarrow> sandbox_service \<Rightarrow> sandbox_service \<Rightarrow> bool" for sha256 where
  step_start: "service_step sha256 s (s\<lparr>sv_ready := True\<rparr>)"
| step_admit: "admit_job sha256 q now s = (r, s') \<Longrightarrow> service_step sha256 s s'"
| step_journal: "record_active i x s = Some s' \<Longrightarrow> service_step sha256 s s'"
| step_conclude: "conclude_job sha256 q a cleaned finished s = (r, s') \<Longrightarrow> service_step sha256 s s'"
| step_cancel: "service_step sha256 s (snd (cancel_job i s))"
| step_clear: "service_step sha256 s (clear_active i s)"

definition container_of :: "(string \<times> active_execution) list \<Rightarrow> string \<Rightarrow> string option" where
  "container_of d i = Option.bind (map_of d i) ax_container_id"

definition active_unique :: "(string \<times> active_execution) list \<Rightarrow> bool" where
  "active_unique d = (distinct (map fst d) \<and> (\<forall>i j c. container_of d i = Some c \<longrightarrow> container_of d j = Some c \<longrightarrow> i = j))"

lemma container_of_delete: "container_of (AList.delete k d) i = (if i = k then None else container_of d i)"
  by (simp add: container_of_def delete_conv)

lemma container_of_update: "container_of (AList.update k x d) i = (if i = k then ax_container_id x else container_of d i)"
  by (simp add: container_of_def update_conv)

lemma container_of_row: "distinct (map fst d) \<Longrightarrow> (i, x) \<in> set d \<Longrightarrow> container_of d i = ax_container_id x"
  by (simp add: container_of_def)

lemma active_unique_delete: "active_unique d \<Longrightarrow> active_unique (AList.delete k d)"
  by (simp add: active_unique_def distinct_delete container_of_delete)

lemma active_unique_update:
  assumes "active_unique d" "ax_container_id x = None \<or> (\<forall>j y. (j, y) \<in> set d \<longrightarrow> j \<noteq> i \<longrightarrow> ax_container_id y \<noteq> ax_container_id x)"
  shows "active_unique (AList.update i x d)"
proof -
  have fresh: False if c: "ax_container_id x = Some c" and "j \<noteq> i" and d: "container_of d j = Some c" for c j
  proof -
    obtain y where "map_of d j = Some y" "ax_container_id y = Some c" using d by (auto simp: container_of_def bind_eq_Some_conv)
    then show False using assms(2) c \<open>j \<noteq> i\<close> map_of_SomeD by fastforce
  qed
  have "k = l" if "container_of (AList.update i x d) k = Some c" "container_of (AList.update i x d) l = Some c" for k l c
    using that fresh assms(1) unfolding active_unique_def container_of_update by (cases "k = i"; cases "l = i") (simp_all, blast+)
  then show ?thesis using assms(1) by (simp add: active_unique_def distinct_update)
qed

lemma step_unique: "service_step sha256 s s' \<Longrightarrow> active_unique (sv_active s) \<Longrightarrow> active_unique (sv_active s')"
proof (induction rule: service_step.induct)
  case (step_admit q now s r s')
  then show ?case
    by (auto simp: admit_job_def Let_def finalize_receipt_def active_unique_delete split: if_splits sum.splits)
next
  case (step_journal i x s s')
  then show ?case
    by (auto simp: record_active_def list_ex_iff intro!: active_unique_update split: if_splits)
next
  case (step_conclude q a cleaned finished s r s')
  then show ?case
    by (auto simp: conclude_job_def forget_job_def finalize_receipt_def active_unique_delete split: if_splits sum.splits prod.splits)
qed (auto simp: cancel_job_def clear_active_def active_unique_delete)

definition service_start :: "sandbox_service \<Rightarrow> bool" where
  "service_start s = (sv_live s = [] \<and> active_unique (sv_active s))"

interpretation service_machine: invariant_machine service_start "service_step sha256" "\<lambda>s. active_unique (sv_active s)" for sha256
  by unfold_locales (auto simp: service_start_def step_unique)

lemma step_receipt:
  "service_step sha256 s s' \<Longrightarrow> map_of (sv_receipts s) k = Some r \<Longrightarrow> map_of (sv_receipts s') k = Some r"
proof (induction rule: service_step.induct)
  case (step_admit q now s r s')
  then show ?case by (auto simp: admit_job_def Let_def finalize_receipt_def map_add_def split: if_splits sum.splits option.splits)
next
  case (step_conclude q a cleaned finished s r s')
  then show ?case
    by (auto simp: conclude_job_def forget_job_def finalize_receipt_def map_add_def split: if_splits sum.splits prod.splits option.splits)
qed (auto simp: cancel_job_def clear_active_def record_active_def split: if_splits)

interpretation receipts: growing_rows "service_step sha256" "\<lambda>s k. map_of (sv_receipts s) k" "(=)" for sha256
  by unfold_locales (auto dest: step_receipt)

section \<open>Errors and clean-up\<close>

lemma prefix_hex: "sha256_hex d \<Longrightarrow> starts_with ''sha256:'' (''sha256:'' @ d) \<and> sha256_hex (drop 7 (''sha256:'' @ d))"
  by simp

lemma image_digest_ok: "JobSpec j = Inr j \<Longrightarrow> \<exists>d. image_digest (js_image j) = ''sha256:'' @ d \<and> sha256_hex d"
  by (auto simp: JobSpec_def image_reference_def image_digest_def res_simps split: option.splits)

definition result_ok :: "container_result \<Rightarrow> bool" where
  "result_ok e = ((case cr_exit_code e of None \<Rightarrow> True | Some c \<Rightarrow> 0 \<le> c \<and> c \<le> 255) \<and> 0 \<le> cr_stdout_bytes e \<and> 0 \<le> cr_stderr_bytes e)"

lemma failure_codes: "list_all failure_text [''backend_failure'', ''cancelled'', ''execution_failure'', ''timeout'', ''output_limit'', ''output_failure'',
    ''runtime_failure'', ''nonzero_exit'', ''cleanup_failure'', ''approval_invalid'']"
  by code_simp

lemma final_state_fields:
  assumes "final_state a cleaned = (state, exit_code, failure)"
    "case at_failure a of None \<Rightarrow> True | Some f \<Rightarrow> f \<in> {''backend_failure'', ''cancelled'', ''execution_failure''}"
    "case at_execution a of None \<Rightarrow> True | Some e \<Rightarrow> result_ok e"
  shows "case exit_code of None \<Rightarrow> True | Some c \<Rightarrow> 0 \<le> c \<and> c \<le> 255" "case failure of None \<Rightarrow> True | Some f \<Rightarrow> failure_text f"
  using assms failure_codes
  by (auto simp: final_state_def map_execution_def result_ok_def split: if_splits prod.splits option.splits stop_reason.splits)

lemma receipt_made:
  assumes "JobSpec (jr_spec q) = Inr (jr_spec q)" "\<And>s. sha256_hex (sha256 s)" "run_attempt other b started secrets (jr_spec q) s1 = (a, s2)"
    and "\<And>c t e. bk_execute b c t = Returned e \<Longrightarrow> result_ok e" "has_timezone started" "has_timezone finished" "dt_instant started \<le> dt_instant finished"
    and "final_state a cleaned = (state, exit_code, failure)"
  shows "\<exists>r. make_receipt sha256 q state exit_code (at_started a) finished (at_execution a) cleaned failure = Inr r"
proof -
  note shape = run_attempt_shape[OF assms(3)]
  have e: "case at_execution a of None \<Rightarrow> True | Some e \<Rightarrow> result_ok e" using shape(3) assms(4) by (auto split: option.splits)
  note fields = final_state_fields[OF assms(8) shape(5) e]
  note cases = final_state_cases[OF assms(8)]
  obtain d where d: "image_digest (js_image (jr_spec q)) = ''sha256:'' @ d" "sha256_hex d" using image_digest_ok[OF assms(1)] by blast
  have start: "case at_started a of None \<Rightarrow> True | Some t \<Rightarrow> has_timezone t \<and> dt_instant t \<le> dt_instant finished"
    using shape(4) assms(5,7) by (auto split: option.split)
  have bytes: "0 \<le> (case at_execution a of None \<Rightarrow> 0 | Some r \<Rightarrow> cr_stdout_bytes r)" "0 \<le> (case at_execution a of None \<Rightarrow> 0 | Some r \<Rightarrow> cr_stderr_bytes r)"
    using e by (auto simp: result_ok_def split: option.splits)
  show ?thesis
    unfolding make_receipt_def ExecutionReceipt_Inr
    using d prefix_hex[OF d(2)] assms(2,6) start bytes fields cases
    by (cases "at_started a") (auto simp: policy_digest_def)
qed

text \<open>Only other tasks of the service store a receipt of the job while it runs.\<close>

definition stored_meanwhile :: "(nat \<Rightarrow> sandbox_service \<Rightarrow> sandbox_service) \<Rightarrow> string \<Rightarrow> bool" where
  "stored_meanwhile other i = (\<exists>k s. k \<le> 3 \<and> map_of (sv_receipts s) i = None \<and> map_of (sv_receipts (other k s)) i \<noteq> None)"

lemma run_attempt_receipts:
  assumes "run_attempt other b started secrets spec s = (a, s')" "map_of (sv_receipts s) i = None" "\<not> stored_meanwhile other i"
  shows "map_of (sv_receipts s') i = None"
proof -
  have others: "map_of (sv_receipts (other k t)) i = None" if "map_of (sv_receipts t) i = None" "k \<le> 3" for k t
    using assms(3) that unfolding stored_meanwhile_def by blast
  have journal: "sv_receipts t' = sv_receipts t" if "record_active j x t = Some t'" for j x t t'
    using that by (auto simp: record_active_def split: if_splits)
  show ?thesis
    using assms(1,2) by (auto simp: run_attempt_def Let_def others journal split: backend_end.splits option.splits sum.splits)
qed

lemma clean_step_None: "clean_step x f = None \<longleftrightarrow> (\<exists>v. x = Some v \<and> f v = TaskCancelled)"
  by (auto simp: clean_step_def split: option.splits backend_end.splits)

lemma clean_up_None: "clean_up b a = None \<Longrightarrow> (\<exists>c. bk_remove b c = TaskCancelled) \<or> (\<exists>x. bk_cleanup b x = TaskCancelled)"
  by (auto simp: clean_up_def clean_step_None split: option.splits)

text \<open>
  However the backend's calls end, an execution that is admitted ends with a receipt, which the store holds, unless another
  task stores a receipt of the job in the meantime or a call of the clean-up itself is cancelled.
\<close>

theorem execution_reports:
  assumes "admit_job sha256 q now s = (Inr None, s1)" "JobSpec (jr_spec q) = Inr (jr_spec q)" "\<And>s. sha256_hex (sha256 s)"
    and "\<And>c t e. bk_execute b c t = Returned e \<Longrightarrow> result_ok e" "has_timezone started" "has_timezone finished" "dt_instant started \<le> dt_instant finished"
  shows "case execute_job sha256 other b q secrets now started finished s of
      (Inr r, s') \<Rightarrow> er_state r \<noteq> Rejected \<and> map_of (sv_receipts s') (js_id (jr_spec q)) = Some r \<and> map_of (sv_live s') (js_id (jr_spec q)) = None
    | (Inl e, s') \<Rightarrow> e = StoreIntegrityError \<and> stored_meanwhile other (js_id (jr_spec q)) \<or>
        e = ServiceCancelled \<and> ((\<exists>c. bk_remove b c = TaskCancelled) \<or> (\<exists>x. bk_cleanup b x = TaskCancelled))"
proof -
  obtain a s2 where run: "run_attempt other b started secrets (jr_spec q) s1 = (a, s2)" by fastforce
  show ?thesis
  proof (cases "clean_up b a")
    case None
    then show ?thesis using clean_up_None[OF None] by (simp add: execute_job_def assms(1) run)
  next
    case (Some cleaned)
    obtain state exit_code failure where f: "final_state a cleaned = (state, exit_code, failure)" using prod_cases3 by blast
    have "\<exists>r. make_receipt sha256 q state exit_code (at_started a) finished (at_execution a) cleaned failure = Inr r"
      by (rule receipt_made[OF assms(2) _ run _ assms(5-7) f]) (use assms(3,4) in blast)+
    then obtain r where r: "make_receipt sha256 q state exit_code (at_started a) finished (at_execution a) cleaned failure = Inr r"
      by blast
    have "map_of (sv_receipts s1) (js_id (jr_spec q)) = None" using assms(1) by (simp add: admit_job_cases)
    then have free: "map_of (sv_receipts (other 3 s2)) (js_id (jr_spec q)) = None \<or> stored_meanwhile other (js_id (jr_spec q))"
      using run_attempt_receipts[OF run] unfolding stored_meanwhile_def by (metis le_refl)
    show ?thesis
      using make_receipt_Inr(1,2)[OF r] final_state_cases(1)[OF f] free
      by (auto simp: execute_job_def assms(1) run Some conclude_job_def f r finalize_receipt_def forget_job_def delete_conv map_add_def)
  qed
qed

text \<open>
  A request whose approval has expired gets its rejection stored without a look at whether its job runs: the journal
  entry of the running job is deleted, and the receipt of the run cannot be stored any more.
\<close>

theorem expired_resubmission_erases_running_job:
  assumes "execute_job sha256 other b q secrets now started finished s = (Inr r, s')" "\<not> approval_current q now"
  shows "map_of (sv_active s') (js_id (jr_spec q)) = None \<and> sv_live s' = sv_live s \<and>
    (\<forall>a cleaned finished' r'. fst (conclude_job sha256 q a cleaned finished' s') \<noteq> Inr r')"
proof -
  have a: "make_receipt sha256 q Rejected None None now None True (Some ''approval_invalid'') = Inr r" "finalize_receipt r s = Inr s'"
    using execute_job_Inr[OF assms(1)] assms(2) by (auto simp: admit_job_cases)
  note made = make_receipt_Inr[OF a(1)]
  have s': "map_of (sv_receipts s') (js_id (jr_spec q)) = Some r" "map_of (sv_active s') (js_id (jr_spec q)) = None" "sv_live s' = sv_live s"
    using a(2) made(1,3) by (auto simp: finalize_receipt_Inr map_add_def delete_conv)
  have "fst (conclude_job sha256 q x cleaned finished' s') \<noteq> Inr r'" for x cleaned finished' r'
  proof
    assume "fst (conclude_job sha256 q x cleaned finished' s') = Inr r'"
    then obtain s'' where "conclude_job sha256 q x cleaned finished' s' = (Inr r', s'')" by (metis prod.collapse)
    then obtain state exit_code failure where r': "make_receipt sha256 q state exit_code (at_started x) finished' (at_execution x) cleaned failure = Inr r'"
      and none: "map_of (sv_receipts s') (er_job_id r') = None"
      by (rule conclude_job_Inr)
    show False using none s'(1) make_receipt_Inr(1)[OF r'] by simp
  qed
  then show ?thesis using s' by blast
qed

text \<open>A cancellation during the clean-up leaves the job registered for good: it is never executed again, and sandbox_reconciliation passes over it.\<close>

lemma interrupted_cleanup:
  assumes "execute_job sha256 (\<lambda>_ s. s) b q secrets now started finished s = (Inl ServiceCancelled, s')"
  shows "map_of (sv_live s') (js_id (jr_spec q)) \<noteq> None"
proof -
  obtain s1 a where adm: "admit_job sha256 q now s = (Inr None, s1)" and run: "run_attempt (\<lambda>_ s. s) b started secrets (jr_spec q) s1 = (a, s')"
    using assms by (auto simp: execute_job_def conclude_job_def admit_job_def Let_def finalize_receipt_def split: prod.splits sum.splits option.splits if_splits)
  have "sv_live s' = sv_live s1"
    using run by (auto simp: run_attempt_def record_active_def Let_def split: backend_end.splits option.splits sum.splits if_splits)
  then show ?thesis using adm by (simp add: admit_job_cases)
qed

section \<open>What sandbox_reconciliation removes\<close>

text \<open>The managed container of a journal entry, which is removed first, and whether both calls for the entry succeed.\<close>

definition entry_container :: "string list \<Rightarrow> active_execution \<Rightarrow> string list" where
  "entry_container managed x = (case ax_container_id x of None \<Rightarrow> [] | Some c \<Rightarrow> if c \<in> set managed then [c] else [])"

definition entry_cleaned :: "(string \<Rightarrow> bool) \<Rightarrow> (network_attachment \<Rightarrow> bool) \<Rightarrow> string list \<Rightarrow> active_execution \<Rightarrow> bool" where
  "entry_cleaned removes detaches managed x = (list_all removes (entry_container managed x) \<and> detaches (ax_attachment x))"

definition stale_entries :: "string list \<Rightarrow> (string \<times> active_execution) list \<Rightarrow> (string \<times> active_execution) list" where
  "stale_entries live rows = filter (\<lambda>row. fst row \<notin> set live) rows"

lemma reconcile_entries_result:
  "reconcile_entries removes detaches managed live rows (removed, n, s) = (removed', n', s') \<Longrightarrow>
    removed' = removed @ concat (map (\<lambda>row. entry_container managed (snd row)) (stale_entries live rows)) \<and>
    rn_inspected n' = rn_inspected n + int (length (stale_entries live rows)) \<and>
    rn_cleaned n' = rn_cleaned n + int (length (filter (\<lambda>row. entry_cleaned removes detaches managed (snd row)) (stale_entries live rows))) \<and>
    rn_failed n' = rn_failed n + int (length (filter (\<lambda>row. \<not> entry_cleaned removes detaches managed (snd row)) (stale_entries live rows))) \<and>
    (\<forall>i. map_of (sv_active s') i = (if \<exists>x. (i, x) \<in> set (stale_entries live rows) \<and> entry_cleaned removes detaches managed x
       then None else map_of (sv_active s) i))"
proof (induction rows arbitrary: removed n s)
  case (Cons row rows)
  obtain i x where row: "row = (i, x)" by fastforce
  show ?case
  proof (cases "i \<in> set live")
    case True
    then show ?thesis using Cons.IH[of removed n s] Cons.prems by (simp add: row stale_entries_def)
  next
    case False
    let ?ok = "entry_cleaned removes detaches managed x"
    have later: "reconcile_entries removes detaches managed live rows (removed @ entry_container managed x, tally ?ok n, if ?ok then clear_active i s else s)
        = (removed', n', s')"
      using Cons.prems False unfolding row reconcile_entries.simps Let_def entry_cleaned_def entry_container_def by simp
    have stale: "stale_entries live ((i, x) # rows) = (i, x) # stale_entries live rows" using False by (simp add: stale_entries_def)
    have cleared: "map_of (sv_active (if ?ok then clear_active i s else s)) j = (if ?ok \<and> j = i then None else map_of (sv_active s) j)" for j
      by (simp add: clear_active_def delete_conv)
    note ih = Cons.IH[OF later]
    have "map_of (sv_active s') j = (if \<exists>y. (j, y) \<in> set ((i, x) # stale_entries live rows) \<and> entry_cleaned removes detaches managed y
       then None else map_of (sv_active s) j)" for j
      using ih cleared[of j] by (auto split: if_splits)
    then show ?thesis using ih unfolding row stale by (simp add: tally_def)
  qed
qed (auto simp: stale_entries_def)

lemma remove_orphans_result:
  "remove_orphans removes cs (removed, n) = (removed', n') \<Longrightarrow> removed' = removed @ cs \<and>
     rn_inspected n' = rn_inspected n + int (length cs) \<and> rn_cleaned n' = rn_cleaned n + int (length (filter removes cs)) \<and>
     rn_failed n' = rn_failed n + int (length (filter (\<lambda>c. \<not> removes c) cs))"
proof (induction cs arbitrary: removed n)
  case (Cons c cs)
  then have "remove_orphans removes cs (removed @ [c], tally (removes c) n) = (removed', n')" by simp
  from Cons.IH[OF this] show ?case by (simp add: tally_def)
qed simp

lemma set_journaled: "c \<in> set (journaled_containers d) \<longleftrightarrow> (\<exists>i x. (i, x) \<in> set d \<and> ax_container_id x = Some c)"
  by (force simp: journaled_containers_def map_filter_def)

lemma set_entry_container: "c \<in> set (entry_container managed x) \<longleftrightarrow> ax_container_id x = Some c \<and> c \<in> set managed"
  by (auto simp: entry_container_def split: option.splits)

lemma distinct_entry_containers:
  assumes "distinct (map fst rows)"
    and "\<And>i x j y c. (i, x) \<in> set rows \<Longrightarrow> (j, y) \<in> set rows \<Longrightarrow> ax_container_id x = Some c \<Longrightarrow> ax_container_id y = Some c \<Longrightarrow> i = j"
  shows "distinct (concat (map (\<lambda>row. entry_container managed (snd row)) (stale_entries live rows)))"
  using assms
proof (induction rows)
  case (Cons row rows)
  obtain i x where row: "row = (i, x)" by fastforce
  have rest: "distinct (concat (map (\<lambda>row. entry_container managed (snd row)) (stale_entries live rows)))"
    using Cons.prems by (intro Cons.IH) (simp, meson list.set_intros(2))
  have "c \<notin> set (concat (map (\<lambda>row. entry_container managed (snd row)) (stale_entries live rows)))" if "ax_container_id x = Some c" for c
  proof
    assume "c \<in> set (concat (map (\<lambda>row. entry_container managed (snd row)) (stale_entries live rows)))"
    then obtain j y where "(j, y) \<in> set rows" "ax_container_id y = Some c" by (auto simp: stale_entries_def set_entry_container)
    then show False using Cons.prems(1) Cons.prems(2)[of i x j y c] that by (force simp: row)
  qed
  then have "distinct (entry_container managed x @ concat (map (\<lambda>row. entry_container managed (snd row)) (stale_entries live rows)))"
    using rest by (cases "ax_container_id x") (auto simp: entry_container_def)
  then show ?case using rest by (simp add: stale_entries_def row)
qed (simp add: stale_entries_def)

text \<open>
  C27: From any reachable state a reconciliation asks the backend, once for each, to remove exactly the managed containers that the
  journal does not give to a job that runs. It inspects each journal entry of a job that does not run and each managed container that is
  in no entry, once, and counts it as cleaned exactly if its calls succeed; an entry leaves the journal exactly if it is cleaned. So it also
  removes the container of a running job between its creation and its entry in the journal, and the proxies of running jobs, which carry
  the same label and are in no entry.
\<close>

theorem reconcile_removes_exactly:
  assumes "reaches service_start (service_step sha256) s" "reconcile removes detaches (Some managed) meanwhile s = Inr ((removed, n), s')"
  defines "stale \<equiv> stale_entries (map fst (sv_live (meanwhile s))) (sv_active s)"
    and "orphans \<equiv> filter (\<lambda>c. c \<notin> set (journaled_containers (sv_active s))) (remdups managed)"
  shows "distinct removed \<and> (c \<in> set removed \<longleftrightarrow> c \<in> set managed \<and>
      \<not> (\<exists>i x. (i, x) \<in> set (sv_active s) \<and> map_of (sv_live (meanwhile s)) i \<noteq> None \<and> ax_container_id x = Some c)) \<and>
    rn_inspected n = int (length stale) + int (length orphans) \<and>
    rn_cleaned n = int (length (filter (\<lambda>row. entry_cleaned removes detaches managed (snd row)) stale)) + int (length (filter removes orphans)) \<and>
    rn_inspected n = rn_cleaned n + rn_failed n \<and>
    map_of (sv_active s') j = (if \<exists>x. (j, x) \<in> set stale \<and> entry_cleaned removes detaches managed x then None else map_of (sv_active (meanwhile s)) j)"
proof -
  have unique: "active_unique (sv_active s)" by (rule service_machine.reachable_inv[OF assms(1)])
  let ?live = "map fst (sv_live (meanwhile s))" and ?zero = "\<lparr>rn_inspected = 0, rn_cleaned = 0, rn_failed = 0\<rparr>"
  let ?entries = "concat (map (\<lambda>row. entry_container managed (snd row)) stale)"
  obtain removed1 n1 where rows: "reconcile_entries removes detaches managed ?live (sv_active s) ([], ?zero, meanwhile s) = (removed1, n1, s')"
    and last: "remove_orphans removes (sort orphans) (removed1, n1) = (removed, n)"
    using assms(2) by (auto simp: reconcile_def Let_def orphans_def split: if_splits prod.splits)
  note r = reconcile_entries_result[OF rows, folded stale_def] and o = remove_orphans_result[OF last]
  have removed: "removed = ?entries @ sort orphans" using r o by simp
  have live: "i \<in> set ?live \<longleftrightarrow> map_of (sv_live (meanwhile s)) i \<noteq> None" for i by (auto simp: map_of_eq_None_iff)
  have same: "i = j" if "(i, x) \<in> set (sv_active s)" "(j, y) \<in> set (sv_active s)" "ax_container_id x = Some c" "ax_container_id y = Some c" for i j x y c
    using unique that container_of_row[of "sv_active s" i x] container_of_row[of "sv_active s" j y] unfolding active_unique_def by auto
  have in_entries: "c \<in> set ?entries \<longleftrightarrow> (\<exists>i x. (i, x) \<in> set (sv_active s) \<and> i \<notin> set ?live \<and> ax_container_id x = Some c \<and> c \<in> set managed)" for c
    by (force simp: stale_def stale_entries_def set_entry_container)
  have in_orphans: "c \<in> set orphans \<longleftrightarrow> c \<in> set managed \<and> \<not> (\<exists>i x. (i, x) \<in> set (sv_active s) \<and> ax_container_id x = Some c)" for c
    using set_journaled[of c "sv_active s"] by (auto simp: orphans_def)
  have "distinct ?entries"
    unfolding stale_def by (rule distinct_entry_containers) (use unique in \<open>simp add: active_unique_def\<close>, rule same)
  moreover have "set ?entries \<inter> set orphans = {}" using in_entries in_orphans by blast
  ultimately have "distinct removed" unfolding removed by (simp add: orphans_def)
  moreover have "c \<in> set removed \<longleftrightarrow> c \<in> set managed \<and>
      \<not> (\<exists>i x. (i, x) \<in> set (sv_active s) \<and> map_of (sv_live (meanwhile s)) i \<noteq> None \<and> ax_container_id x = Some c)"
    using in_entries[of c] in_orphans[of c] same unfolding removed live[symmetric] by (simp only: set_append Un_iff set_sort) blast
  moreover have sorted: "length (filter P (sort orphans)) = length (filter P orphans)" for P by (simp add: filter_sort)
  have "rn_inspected n = int (length stale) + int (length orphans)"
    "rn_cleaned n = int (length (filter (\<lambda>row. entry_cleaned removes detaches managed (snd row)) stale)) + int (length (filter removes orphans))"
    "rn_failed n = int (length (filter (\<lambda>row. \<not> entry_cleaned removes detaches managed (snd row)) stale)) + int (length (filter (\<lambda>c. \<not> removes c) orphans))"
    using r o by (simp_all add: sorted)
  moreover from this have "rn_inspected n = rn_cleaned n + rn_failed n"
    using sum_length_filter_compl[of "\<lambda>row. entry_cleaned removes detaches managed (snd row)" stale] sum_length_filter_compl[of removes orphans] by linarith
  ultimately show ?thesis using r by blast
qed

section \<open>An example\<close>

definition demo_backend :: sandbox_backend where
  "demo_backend = \<lparr>bk_prepare = (\<lambda>_. Returned \<lparr>na_docker_network = ''none'', na_proxy_url = None, na_cleanup_token = None\<rparr>),
     bk_create = (\<lambda>_ _ _. Returned ''c1''),
     bk_execute = (\<lambda>_ _. Returned \<lparr>cr_reason = Exited, cr_exit_code = Some 0, cr_stdout_bytes = 3, cr_stderr_bytes = 0, cr_output_truncated = False\<rparr>),
     bk_remove = (\<lambda>_. Returned ()), bk_cleanup = (\<lambda>_. Returned ())\<rparr>"

definition demo_service :: sandbox_service where
  "demo_service = \<lparr>sv_ready = True, sv_live = [], sv_receipts = [], sv_active = []\<rparr>"

definition demo_run :: "(service_error + execution_receipt) \<times> sandbox_service" where
  "demo_run = execute_job (\<lambda>_. zeros) (\<lambda>_ s. s) demo_backend demo_job_request [] (demo_at 1) (demo_at 2) (demo_at 3) demo_service"

lemma demo_runs: "case demo_run of (Inr r, _) \<Rightarrow> er_state r = Completed | _ \<Rightarrow> False"
  unfolding demo_run_def by code_simp

theorem receipt_tells_outcome_witness:
  "case demo_run of (Inr r, s') \<Rightarrow> map_of (sv_receipts s') ''j-1'' = Some r \<and> map_of (sv_active s') ''j-1'' = None | _ \<Rightarrow> False"
proof -
  obtain r s' where run: "demo_run = (Inr r, s')" "er_state r = Completed"
    using demo_runs by (auto split: prod.splits sum.splits)
  note told = receipt_tells_outcome[OF run(1)[unfolded demo_run_def]]
  have "\<not> er_state r = Rejected" "js_id (jr_spec demo_job_request) = ''j-1''" using run(2) by (simp_all add: demo_job_request_def demo_job_def)
  moreover have "er_cleanup_complete r"
  proof -
    have "case demo_run of (Inr r, _) \<Rightarrow> er_cleanup_complete r | _ \<Rightarrow> False" unfolding demo_run_def by code_simp
    then show ?thesis unfolding run(1) by simp
  qed
  ultimately show ?thesis using told unfolding run(1) by simp
qed

lemma demo_admitted: "admit_job (\<lambda>_. zeros) demo_job_request (demo_at 1) demo_service = (Inr None, demo_service\<lparr>sv_live := [(''j-1'', False)]\<rparr>)"
  by code_simp

lemma demo_result_ok: "bk_execute demo_backend c t = Returned e \<Longrightarrow> result_ok e"
  by (auto simp: demo_backend_def result_ok_def)

lemma demo_times: "has_timezone (demo_at i)" "dt_instant (demo_at 2) \<le> dt_instant (demo_at 3)"
  by (simp_all add: demo_at_def has_timezone_def)

theorem execution_reports_witness:
  "case demo_run of (Inr r, s') \<Rightarrow> er_state r \<noteq> Rejected \<and> map_of (sv_receipts s') ''j-1'' = Some r | _ \<Rightarrow> False"
proof -
  have i: "js_id (jr_spec demo_job_request) = ''j-1''" by (simp add: demo_job_request_def demo_job_def)
  have quiet: "\<not> stored_meanwhile (\<lambda>_ s. s) i" for i by (auto simp: stored_meanwhile_def)
  have certain: "bk_remove demo_backend c \<noteq> TaskCancelled" "bk_cleanup demo_backend x \<noteq> TaskCancelled" for c x by (simp_all add: demo_backend_def)
  have spec: "jr_spec demo_job_request = demo_job" by (simp add: demo_job_request_def)
  have told: "case demo_run of
      (Inr r, s') \<Rightarrow> er_state r \<noteq> Rejected \<and> map_of (sv_receipts s') (js_id (jr_spec demo_job_request)) = Some r \<and> map_of (sv_live s') (js_id (jr_spec demo_job_request)) = None
    | (Inl e, s') \<Rightarrow> e = StoreIntegrityError \<and> stored_meanwhile (\<lambda>_ s. s) (js_id (jr_spec demo_job_request)) \<or>
        e = ServiceCancelled \<and> ((\<exists>c. bk_remove demo_backend c = TaskCancelled) \<or> (\<exists>x. bk_cleanup demo_backend x = TaskCancelled))"
    unfolding demo_run_def
  proof (rule execution_reports)
    show "admit_job (\<lambda>_. zeros) demo_job_request (demo_at 1) demo_service = (Inr None, demo_service\<lparr>sv_live := [(''j-1'', False)]\<rparr>)"
      by (rule demo_admitted)
    show "JobSpec (jr_spec demo_job_request) = Inr (jr_spec demo_job_request)" unfolding spec by (rule demo_job_valid)
    show "sha256_hex zeros" by (rule demo_image)
    show "result_ok e" if "bk_execute demo_backend c t = Returned e" for c t e by (rule demo_result_ok[OF that])
  qed (rule demo_times)+
  obtain out s' where run: "demo_run = (out, s')" by fastforce
  show ?thesis using told quiet certain unfolding run i prod.case by (cases out) simp_all
qed

definition demo_running :: sandbox_service where
  "demo_running = demo_service\<lparr>sv_live := [(''j-1'', False)], sv_active := [(''j-1'', \<lparr>ax_container_id = Some ''c1'',
     ax_attachment = \<lparr>na_docker_network = ''none'', na_proxy_url = None, na_cleanup_token = None\<rparr>\<rparr>)]\<rparr>"

definition demo_resubmitted :: "(service_error + execution_receipt) \<times> sandbox_service" where
  "demo_resubmitted = execute_job (\<lambda>_. zeros) (\<lambda>_ s. s) demo_backend demo_job_request [] (demo_at 200) (demo_at 201) (demo_at 202) demo_running"

theorem expired_resubmission_erases_running_job_witness:
  "(case fst demo_resubmitted of Inr r \<Rightarrow> er_state r = Rejected | _ \<Rightarrow> False) \<and> map_of (sv_active (snd demo_resubmitted)) ''j-1'' = None"
proof -
  have r: "case fst demo_resubmitted of Inr r \<Rightarrow> er_state r = Rejected | _ \<Rightarrow> False" unfolding demo_resubmitted_def by code_simp
  then obtain r where "fst demo_resubmitted = Inr r" by (auto split: sum.splits)
  then obtain s' where out: "demo_resubmitted = (Inr r, s')" by (metis prod.collapse)
  have late: "\<not> approval_current demo_job_request (demo_at 200)" by code_simp
  have "js_id (jr_spec demo_job_request) = ''j-1''" by (simp add: demo_job_request_def demo_job_def)
  then have "map_of (sv_active s') ''j-1'' = None"
    using expired_resubmission_erases_running_job[OF out[unfolded demo_resubmitted_def] late] by simp
  then show ?thesis using r unfolding out by simp
qed

theorem reconcile_removes_exactly_witness:
  "case reconcile (\<lambda>_. True) (\<lambda>_. True) (Some [''c1'', ''proxy'']) (\<lambda>s. s\<lparr>sv_live := [(''j-1'', False)]\<rparr>)
      (demo_service\<lparr>sv_active := [(''j-1'', \<lparr>ax_container_id = Some ''c1'',
         ax_attachment = \<lparr>na_docker_network = ''n'', na_proxy_url = None, na_cleanup_token = None\<rparr>\<rparr>)]\<rparr>) of
    Inr ((removed, n), _) \<Rightarrow> ''proxy'' \<in> set removed \<and> ''c1'' \<notin> set removed | Inl _ \<Rightarrow> False"
proof -
  let ?x = "\<lparr>ax_container_id = Some ''c1'', ax_attachment = \<lparr>na_docker_network = ''n'', na_proxy_url = None, na_cleanup_token = None\<rparr>\<rparr>"
  let ?s = "demo_service\<lparr>sv_active := [(''j-1'', ?x)]\<rparr>" and ?live = "\<lambda>s :: sandbox_service. s\<lparr>sv_live := [(''j-1'', False)]\<rparr>"
  have "service_start ?s" by (simp add: service_start_def demo_service_def active_unique_def container_of_def)
  then have reach: "reaches service_start (service_step (\<lambda>_. zeros)) ?s" by (rule reaches_init)
  obtain removed n s' where out: "reconcile (\<lambda>_. True) (\<lambda>_. True) (Some [''c1'', ''proxy'']) ?live ?s = Inr ((removed, n), s')"
  proof -
    have "case reconcile (\<lambda>_. True) (\<lambda>_. True) (Some [''c1'', ''proxy'']) ?live ?s of Inl _ \<Rightarrow> False | Inr _ \<Rightarrow> True" by code_simp
    then show thesis
    proof (cases "reconcile (\<lambda>_. True) (\<lambda>_. True) (Some [''c1'', ''proxy'']) ?live ?s")
      case (Inr out)
      obtain removed n s' where "out = ((removed, n), s')" by (metis prod.collapse)
      then show thesis using Inr that by blast
    qed simp
  qed
  have "''proxy'' \<in> set removed" "''c1'' \<notin> set removed"
    using reconcile_removes_exactly[OF reach out, of "''proxy''"] reconcile_removes_exactly[OF reach out, of "''c1''"] by auto
  then show ?thesis by (simp add: out)
qed

end
