(* ===== verification/EgressProxy.thy ===== *)
theory EgressProxy
  imports SandboxJobs "HOL-Library.Word" "HOL-Library.Sublist"
begin

text \<open>
  The SOCKS5 proxy in front of a sandboxed job (\<open>zeaz_sandbox/egress_proxy.py\<close>): the policy of destinations, the
  choice of an address, the handshake with a client and the relay with its budget of bytes. A byte is a
  character. Parameters: what a name resolves to, which connections open, the registry of global addresses, the
  texts of IPv6 addresses (\<open>ipaddress\<close>), and whether the interpreter looks through IPv4-mapped addresses. The
  semaphore that bounds the connections and the sockets themselves are not modelled.
\<close>

section \<open>Addresses\<close>

datatype ip_address = IPv4 "32 word" | IPv6 "128 word"

record ip_lib =
  il_look_through :: bool
  il_global :: "ip_address \<Rightarrow> bool"
  il_text6 :: "128 word \<Rightarrow> string"
  il_parse6 :: "string \<Rightarrow> 128 word option"

definition byte_of :: "nat \<Rightarrow> 32 word \<Rightarrow> int" where
  "byte_of k w = uint w div 256 ^ k mod 256"

definition ipv4_text :: "32 word \<Rightarrow> string" where
  "ipv4_text w = py_join ''.'' (map (\<lambda>k. int_str (byte_of k w)) [3, 2, 1, 0])"

text \<open>Four decimal octets without leading zeros.\<close>

definition octet_ok :: "string \<Rightarrow> bool" where
  "octet_ok s = (s \<noteq> [] \<and> list_all is_digit s \<and> length s \<le> 3 \<and> (hd s = CHR ''0'' \<longrightarrow> length s = 1) \<and> digits_val s \<le> 255)"

definition ipv4_parse :: "string \<Rightarrow> 32 word option" where
  "ipv4_parse s = (let octets = split_char CHR ''.'' s in
     if length octets = 4 \<and> list_all octet_ok octets then Some (word_of_int (foldl (\<lambda>n t. 256 * n + int (digits_val t)) 0 octets)) else None)"

definition ip_text :: "ip_lib \<Rightarrow> ip_address \<Rightarrow> string" where
  "ip_text lib a = (case a of IPv4 w \<Rightarrow> ipv4_text w | IPv6 w \<Rightarrow> il_text6 lib w)"

definition ip_parse :: "ip_lib \<Rightarrow> string \<Rightarrow> ip_address option" where
  "ip_parse lib s = (case ipv4_parse s of Some w \<Rightarrow> Some (IPv4 w) | None \<Rightarrow> map_option IPv6 (il_parse6 lib s))"

definition address_value :: "string \<Rightarrow> int" where
  "address_value bytes = foldl (\<lambda>n c. 256 * n + int (code_of c)) 0 bytes"

text \<open>The classes of \<open>ipaddress\<close>; an IPv4-mapped address is the IPv4 address where the interpreter looks through it.\<close>

definition viewed :: "ip_lib \<Rightarrow> ip_address \<Rightarrow> ip_address" where
  "viewed lib a = (case a of
     IPv6 w \<Rightarrow> if il_look_through lib \<and> drop_bit 32 w = 0xFFFF then IPv4 (ucast w) else a
   | _ \<Rightarrow> a)"

definition is_loopback :: "ip_lib \<Rightarrow> ip_address \<Rightarrow> bool" where
  "is_loopback lib a = (case viewed lib a of IPv4 w \<Rightarrow> drop_bit 24 w = 127 | IPv6 w \<Rightarrow> w = 1)"

definition is_link_local :: "ip_lib \<Rightarrow> ip_address \<Rightarrow> bool" where
  "is_link_local lib a = (case viewed lib a of IPv4 w \<Rightarrow> drop_bit 16 w = 0xA9FE | IPv6 w \<Rightarrow> drop_bit 118 w = 0x3FA)"

definition is_multicast :: "ip_lib \<Rightarrow> ip_address \<Rightarrow> bool" where
  "is_multicast lib a = (case viewed lib a of IPv4 w \<Rightarrow> drop_bit 28 w = 0xE | IPv6 w \<Rightarrow> drop_bit 120 w = 0xFF)"

definition is_unspecified :: "ip_lib \<Rightarrow> ip_address \<Rightarrow> bool" where
  "is_unspecified lib a = (case viewed lib a of IPv4 w \<Rightarrow> w = 0 | IPv6 w \<Rightarrow> w = 0)"

text \<open>The addresses that are never allowed; a job's destination is checked against the same ones.\<close>

definition forbidden_address :: "ip_lib \<Rightarrow> ip_address \<Rightarrow> bool" where
  "forbidden_address lib a =
     (is_loopback lib a \<or> is_link_local lib a \<or> is_multicast lib a \<or> is_unspecified lib a \<or> ip_text lib a = ''169.254.169.254'')"

definition safe_resolution :: "ip_lib \<Rightarrow> ip_address \<Rightarrow> ip_address option \<Rightarrow> bool" where
  "safe_resolution lib a explicitly_allowed =
     (if forbidden_address lib a then False
      else (case explicitly_allowed of Some e \<Rightarrow> a = e | None \<Rightarrow> il_global lib a))"

section \<open>The policy\<close>

datatype proxy_error = ProxyValueError string | ProxyEOF

definition proxy_check :: "bool \<Rightarrow> proxy_error \<Rightarrow> proxy_error + unit" where
  "proxy_check ok e = (if ok then Inr () else Inl e)"

lemma proxy_check_Inr [res_simps]: "proxy_check ok e = Inr u \<longleftrightarrow> ok"
  by (simp add: proxy_check_def)

lemma proxy_check_Inl [res_simps]: "proxy_check ok e = Inl x \<longleftrightarrow> \<not> ok \<and> x = e"
  by (auto simp: proxy_check_def)

text \<open>\<open>str.rpartition\<close> where the separator occurs.\<close>

definition rpartition :: "char \<Rightarrow> string \<Rightarrow> (string \<times> string) option" where
  "rpartition c s = (if c \<in> set s
     then Some (rev (tl (dropWhile (\<lambda>d. d \<noteq> c) (rev s))), rev (takeWhile (\<lambda>d. d \<noteq> c) (rev s))) else None)"

text \<open>The digits that \<open>int\<close> refuses although \<open>isdigit\<close> is true of them end with a \<open>ValueError\<close> as well.\<close>

definition parse_destination :: "string \<Rightarrow> proxy_error + string \<times> int" where
  "parse_destination value = (case rpartition CHR '':'' value of
     None \<Rightarrow> Inl (ProxyValueError ''destination must be host:port'')
   | Some (host, raw_port) \<Rightarrow>
       bindE (proxy_check (host \<noteq> [] \<and> raw_port \<noteq> [] \<and> list_all is_digit raw_port) (ProxyValueError ''destination must be host:port'')) (\<lambda>_.
       bindE (proxy_check (1 \<le> digits_val raw_port \<and> digits_val raw_port \<le> 65535) (ProxyValueError ''destination port is invalid'')) (\<lambda>_.
       Inr (normalized_host host, int (digits_val raw_port)))))"

type_synonym destination_policy = "int list dict"

definition add_port :: "string \<times> int \<Rightarrow> destination_policy \<Rightarrow> destination_policy" where
  "add_port hp allowed = dict_set (fst hp) (List.insert (snd hp) (dict_get_default allowed (fst hp) [])) allowed"

definition ports_of :: "destination_policy \<Rightarrow> nat" where
  "ports_of d = sum_list (map (\<lambda>kv. length (snd kv)) d)"

definition DestinationPolicy :: "string list \<Rightarrow> proxy_error + destination_policy" where
  "DestinationPolicy values =
     bindE (mapE parse_destination values) (\<lambda>pairs.
     let allowed = fold add_port pairs []
     in bindE (proxy_check (\<not> (allowed = [] \<or> ports_of allowed > 8192))
          (ProxyValueError ''destination policy is empty or excessive'')) (\<lambda>_. Inr allowed))"

definition policy_allows :: "destination_policy \<Rightarrow> string \<Rightarrow> int \<Rightarrow> bool" where
  "policy_allows pol host port = (port \<in> set (dict_get_default pol (normalized_host host) []))"

datatype resolution = Records "string list" | LookupOSError | LookupValueError

text \<open>The loop over the records: the texts of the safe addresses, each once.\<close>

fun safe_addresses :: "ip_lib \<Rightarrow> ip_address option \<Rightarrow> string list \<Rightarrow> string list \<Rightarrow> proxy_error + string list" where
  "safe_addresses lib literal addresses [] = Inr addresses"
| "safe_addresses lib literal addresses (sockaddr # records) = (case ip_parse lib sockaddr of
     None \<Rightarrow> Inl (ProxyValueError ''address'')
   | Some a \<Rightarrow>
       if \<not> safe_resolution lib a literal then safe_addresses lib literal addresses records
       else if ip_text lib a \<in> set addresses then safe_addresses lib literal addresses records
       else safe_addresses lib literal (addresses @ [ip_text lib a]) records)"

definition resolve :: "ip_lib \<Rightarrow> (string \<Rightarrow> int \<Rightarrow> resolution) \<Rightarrow> destination_policy \<Rightarrow> string \<Rightarrow> int \<Rightarrow> proxy_error + string list" where
  "resolve lib getaddrinfo pol host port =
     (if \<not> policy_allows pol host port then Inr []
      else (case getaddrinfo host port of
          LookupOSError \<Rightarrow> Inr []
        | LookupValueError \<Rightarrow> Inl (ProxyValueError ''host'')
        | Records records \<Rightarrow> safe_addresses lib (ip_parse lib host) [] records))"

section \<open>The handshake\<close>

text \<open>What the client sends is a text of bytes; a read beyond its end fails.\<close>

definition readexactly :: "nat \<Rightarrow> string \<Rightarrow> proxy_error + string \<times> string" where
  "readexactly n bytes = (if length bytes < n then Inl ProxyEOF else Inr (take n bytes, drop n bytes))"

definition read_address :: "ip_lib \<Rightarrow> nat \<Rightarrow> string \<Rightarrow> proxy_error + string \<times> string" where
  "read_address lib address_type bytes =
     (if address_type = 1 then bindE (readexactly 4 bytes) (\<lambda>(a, rest). Inr (ip_text lib (IPv4 (word_of_int (address_value a))), rest))
      else if address_type = 4 then bindE (readexactly 16 bytes) (\<lambda>(a, rest). Inr (ip_text lib (IPv6 (word_of_int (address_value a))), rest))
      else if address_type = 3 then
        bindE (readexactly 1 bytes) (\<lambda>(n, rest).
        bindE (proxy_check (1 \<le> code_of (hd n) \<and> code_of (hd n) \<le> 253) (ProxyValueError ''invalid SOCKS domain length'')) (\<lambda>_.
        bindE (readexactly (code_of (hd n)) rest) (\<lambda>(name, rest1).
        bindE (proxy_check (list_all (\<lambda>c. code_of c < 128) name) (ProxyValueError ''SOCKS domain is not ASCII'')) (\<lambda>_. Inr (name, rest1)))))
      else Inl (ProxyValueError ''unsupported SOCKS address type''))"

definition bytes_of :: "nat list \<Rightarrow> string" where
  "bytes_of ns = map char_of ns"

definition socks_reply :: "nat \<Rightarrow> string" where
  "socks_reply status = bytes_of [5, status, 0, 1, 0, 0, 0, 0, 0, 0]"

datatype socks_request = CommandUnsupported | Connect string int string

definition read_request :: "ip_lib \<Rightarrow> string \<Rightarrow> proxy_error + socks_request" where
  "read_request lib bytes =
     bindE (readexactly 4 bytes) (\<lambda>(header, rest).
     bindE (proxy_check (\<not> (code_of (header ! 0) \<noteq> 5 \<or> code_of (header ! 2) \<noteq> 0)) (ProxyValueError ''invalid SOCKS request'')) (\<lambda>_.
     if code_of (header ! 1) \<noteq> 1 then Inr CommandUnsupported
     else
       bindE (read_address lib (code_of (header ! 3)) rest) (\<lambda>(host, rest1).
       bindE (readexactly 2 rest1) (\<lambda>(port, rest2). Inr (Connect host (address_value port) rest2)))))"

text \<open>The loop over the addresses: the first one that can be connected to.\<close>

fun connect_first :: "ip_lib \<Rightarrow> (string \<Rightarrow> int \<Rightarrow> bool) \<Rightarrow> int \<Rightarrow> string list \<Rightarrow> proxy_error + string option" where
  "connect_first lib opens port [] = Inr None"
| "connect_first lib opens port (address # addresses) = (case ip_parse lib address of
     None \<Rightarrow> Inl (ProxyValueError ''address'')
   | Some _ \<Rightarrow> if opens address port then Inr (Some address) else connect_first lib opens port addresses)"

text \<open>How \<open>_handle\<close> ends: closed after a reply, or with a relay to an address and a port and the bytes that follow.\<close>

datatype proxy_end = ProxyCloses | ProxyRelays string int string

definition serve_socks ::
  "ip_lib \<Rightarrow> (string \<Rightarrow> int \<Rightarrow> resolution) \<Rightarrow> (string \<Rightarrow> int \<Rightarrow> bool) \<Rightarrow> destination_policy \<Rightarrow> string \<Rightarrow> string \<times> (proxy_error + proxy_end)" where
  "serve_socks lib getaddrinfo opens pol bytes = (case read_request lib bytes of
     Inl e \<Rightarrow> ([], Inl e)
   | Inr CommandUnsupported \<Rightarrow> (socks_reply 7, Inr ProxyCloses)
   | Inr (Connect host port rest) \<Rightarrow> (case resolve lib getaddrinfo pol host port of
         Inl e \<Rightarrow> ([], Inl e)
       | Inr addresses \<Rightarrow>
           if addresses = [] then (socks_reply 2, Inr ProxyCloses)
           else (case connect_first lib opens port addresses of
               Inl e \<Rightarrow> ([], Inl e)
             | Inr None \<Rightarrow> (socks_reply 1, Inr ProxyCloses)
             | Inr (Some address) \<Rightarrow> (socks_reply 0, Inr (ProxyRelays address port rest)))))"

text \<open>\<open>_handle\<close> up to the relay: what is written to the client, and how it ends.\<close>

definition socks_handle ::
  "ip_lib \<Rightarrow> (string \<Rightarrow> int \<Rightarrow> resolution) \<Rightarrow> (string \<Rightarrow> int \<Rightarrow> bool) \<Rightarrow> destination_policy \<Rightarrow> string \<Rightarrow> string \<times> (proxy_error + proxy_end)" where
  "socks_handle lib getaddrinfo opens pol bytes =
     (case bindE (readexactly 2 bytes) (\<lambda>(greeting, rest).
        bindE (proxy_check (\<not> (code_of (greeting ! 0) \<noteq> 5 \<or> code_of (greeting ! 1) = 0)) (ProxyValueError ''invalid SOCKS greeting'')) (\<lambda>_.
        readexactly (code_of (greeting ! 1)) rest)) of
       Inl e \<Rightarrow> ([], Inl e)
     | Inr (methods, rest) \<Rightarrow>
         if char_of (0 :: nat) \<notin> set methods then (bytes_of [5, 255], Inr ProxyCloses)
         else (case serve_socks lib getaddrinfo opens pol rest of (written, ending) \<Rightarrow> (bytes_of [5, 0] @ written, ending)))"

text \<open>\<open>handle\<close> swallows these errors and closes the client's connection.\<close>

record proxy_limits =
  px_max_connections :: int
  px_idle_timeout_seconds :: int
  px_max_connection_bytes :: int

definition SocksEgressProxy :: "proxy_limits \<Rightarrow> proxy_error + proxy_limits" where
  "SocksEgressProxy l =
     bindE (proxy_check (1 \<le> px_max_connections l \<and> px_max_connections l \<le> 4096) (ProxyValueError ''max_connections is invalid'')) (\<lambda>_.
     bindE (proxy_check (1 \<le> px_idle_timeout_seconds l \<and> px_idle_timeout_seconds l \<le> 600) (ProxyValueError ''idle_timeout_seconds is invalid'')) (\<lambda>_.
     bindE (proxy_check (1024 \<le> px_max_connection_bytes l \<and> px_max_connection_bytes l \<le> 1073741824) (ProxyValueError ''max_connection_bytes is invalid'')) (\<lambda>_.
     Inr l)))"

section \<open>The relay\<close>

text \<open>
  Two tasks copy in opposite directions and share one budget. For each direction: what the source has not
  delivered yet, the chunk that was read and not yet counted, and what was written to the destination.
\<close>

datatype relay_way = Upward | Downward

record relay =
  rl_remaining :: int
  rl_unread :: "relay_way \<Rightarrow> string"
  rl_chunk :: "relay_way \<Rightarrow> string"
  rl_written :: "relay_way \<Rightarrow> string"
  rl_ended :: "relay_way \<Rightarrow> bool"
  rl_exceeded :: bool
  rl_broken :: bool

text \<open>\<open>source.read(min(65536, remaining + 1))\<close> gives a part of what is there, at least a byte.\<close>

definition relay_read :: "relay_way \<Rightarrow> nat \<Rightarrow> relay \<Rightarrow> relay" where
  "relay_read w n r = r\<lparr>rl_chunk := (rl_chunk r)(w := take n (rl_unread r w)), rl_unread := (rl_unread r)(w := drop n (rl_unread r w))\<rparr>"

text \<open>The chunk is counted under the lock and written; one over the budget ends the group of both tasks.\<close>

definition relay_count :: "relay_way \<Rightarrow> relay \<Rightarrow> relay" where
  "relay_count w r = (let n = int (length (rl_chunk r w)) in
     if n > rl_remaining r then r\<lparr>rl_exceeded := True\<rparr>
     else r\<lparr>rl_remaining := rl_remaining r - n, rl_written := (rl_written r)(w := rl_written r w @ rl_chunk r w), rl_chunk := (rl_chunk r)(w := [])\<rparr>)"

definition relay_eof :: "relay_way \<Rightarrow> relay \<Rightarrow> relay" where
  "relay_eof w r = r\<lparr>rl_ended := (rl_ended r)(w := True)\<rparr>"

text \<open>A connection that fails ends the group as well, as does the timeout of the whole connection.\<close>

definition relay_break :: "relay \<Rightarrow> relay" where
  "relay_break r = r\<lparr>rl_broken := True\<rparr>"

definition relay_running :: "relay_way \<Rightarrow> relay \<Rightarrow> bool" where
  "relay_running w r = (\<not> rl_exceeded r \<and> \<not> rl_broken r \<and> \<not> rl_ended r w)"

inductive relay_step :: "relay \<Rightarrow> relay \<Rightarrow> bool" where
  relay_reads: "relay_running w r \<Longrightarrow> rl_chunk r w = [] \<Longrightarrow> 0 < n \<Longrightarrow> n \<le> length (rl_unread r w) \<Longrightarrow>
    int n \<le> min 65536 (rl_remaining r + 1) \<Longrightarrow> relay_step r (relay_read w n r)"
| relay_counts: "relay_running w r \<Longrightarrow> rl_chunk r w \<noteq> [] \<Longrightarrow> relay_step r (relay_count w r)"
| relay_breaks: "relay_running w r \<Longrightarrow> relay_step r (relay_break r)"
| relay_ends: "relay_running w r \<Longrightarrow> rl_chunk r w = [] \<Longrightarrow> rl_unread r w = [] \<Longrightarrow> relay_step r (relay_eof w r)"

inductive_simps relay_step_simps: "relay_step r r'"

definition relay_start :: "int \<Rightarrow> (relay_way \<Rightarrow> string) \<Rightarrow> relay \<Rightarrow> bool" where
  "relay_start maximum sent r = (0 \<le> maximum \<and> r = \<lparr>rl_remaining = maximum, rl_unread = sent, rl_chunk = (\<lambda>_. []), rl_written = (\<lambda>_. []),
     rl_ended = (\<lambda>_. False), rl_exceeded = False, rl_broken = False\<rparr>)"

definition relay_ok :: "int \<Rightarrow> (relay_way \<Rightarrow> string) \<Rightarrow> relay \<Rightarrow> bool" where
  "relay_ok maximum sent r =
     ((\<forall>w. sent w = rl_written r w @ rl_chunk r w @ rl_unread r w) \<and>
      rl_remaining r + int (length (rl_written r Upward)) + int (length (rl_written r Downward)) = maximum \<and> 0 \<le> rl_remaining r \<and>
      (\<forall>w. rl_ended r w \<longrightarrow> rl_chunk r w = [] \<and> rl_unread r w = []) \<and>
      (rl_exceeded r \<longrightarrow> (\<exists>w. rl_remaining r < int (length (rl_chunk r w)))))"

lemma relay_step_ok:
  assumes "relay_step r r'" "relay_ok maximum sent r"
  shows "relay_ok maximum sent r'"
  using assms
proof (cases rule: relay_step.cases)
  case (relay_reads w n)
  then show ?thesis using assms(2) by (auto simp: relay_ok_def relay_read_def relay_running_def)
next
  case (relay_counts w)
  then show ?thesis using assms(2) by (cases w) (auto simp: relay_ok_def relay_count_def relay_running_def Let_def)
next
  case (relay_breaks w)
  then show ?thesis using assms(2) by (auto simp: relay_ok_def relay_break_def relay_running_def)
next
  case (relay_ends w)
  then show ?thesis using assms(2) by (auto simp: relay_ok_def relay_eof_def relay_running_def)
qed

interpretation relays: invariant_machine "relay_start maximum sent" relay_step "relay_ok maximum sent" for maximum sent
proof
  show "relay_ok maximum sent r" if "relay_start maximum sent r" for r
    using that by (auto simp: relay_start_def relay_ok_def)
qed (rule relay_step_ok)

section \<open>Texts of addresses\<close>

lemma dot_not_digit: "\<not> is_digit CHR ''.''" "\<not> is_digit CHR '':''"
  by (simp_all add: is_digit_def code_of_def)

lemma length_nat_str: "n < 10 ^ k \<Longrightarrow> 0 < k \<Longrightarrow> length (nat_str n) \<le> k"
proof (induction n arbitrary: k rule: nat_str.induct)
  case (1 n)
  show ?case
  proof (cases "n < 10")
    case True
    then show ?thesis using "1.prems" by (subst nat_str.simps) simp
  next
    case False
    then obtain j where j: "k = Suc j" "0 < j" using "1.prems" by (cases k) (auto, metis gr0I power_0 power_one_right mult.right_neutral)
    have "length (nat_str (n div 10)) \<le> j" using False j "1.prems" by (intro "1.IH") (auto simp: less_mult_imp_div_less mult.commute)
    then show ?thesis using False j by (subst nat_str.simps) simp
  qed
qed

lemma octet_ok_nat_str: "n \<le> 255 \<Longrightarrow> octet_ok (nat_str n)"
  using length_nat_str[of n 3] hd_nat_str[of n] nat_str_digits[of n]
  by (cases "n = 0") (simp_all add: octet_ok_def digits_val_nat_str nat_str_0 is_digit_def code_of_def, simp add: digits_val_def code_of_def)

lemma bytes_of_value:
  assumes "0 \<le> n" "n < (4294967296 :: int)"
  shows "256 * (256 * (256 * (n div 256 ^ 3 mod 256) + n div 256 ^ 2 mod 256) + n div 256 ^ 1 mod 256) + n div 256 ^ 0 mod 256 = n"
proof -
  have powers: "(256 :: int) ^ 3 = 16777216" "(256 :: int) ^ 2 = 65536" "(256 :: int) ^ 1 = 256" "(256 :: int) ^ 0 = 1" by simp_all
  have byte: "256 * (m div 256) + m mod 256 = m" for m :: int by (rule mult_div_mod_eq)
  have parts: "n div 65536 div 256 = n div 16777216" "n div 256 div 256 = n div 65536"
    using zdiv_zmult2_eq[of 256 n 65536] zdiv_zmult2_eq[of 256 n 256] by (simp_all add: mult.commute)
  have "n div 16777216 \<le> 255" using zdiv_mono1[of n 4294967295 16777216] assms by simp
  moreover have "0 \<le> n div 16777216" using assms(1) by simp
  ultimately have "n div 16777216 mod 256 = n div 16777216" by simp
  then show ?thesis using byte[of "n div 65536"] byte[of "n div 256"] byte[of n] unfolding parts powers div_by_1 by argo
qed

lemma ipv4_parse_text: "ipv4_parse (ipv4_text w) = Some w"
proof -
  let ?octets = "map (\<lambda>k. nat_str (nat (byte_of k w))) [3, 2, 1, 0]"
  have byte: "0 \<le> byte_of k w \<and> byte_of k w \<le> 255" for k
    using pos_mod_bound[of 256 "uint w div 256 ^ k"] by (simp add: byte_of_def)
  have texts: "ipv4_text w = py_join ''.'' ?octets"
    using byte by (simp add: ipv4_text_def int_str_def linorder_not_less)
  have digits: "CHR ''.'' \<notin> set (nat_str n)" for n
    using nat_str_digits[of n] dot_not_digit by (auto simp: list_all_iff)
  have split: "split_char CHR ''.'' (ipv4_text w) = ?octets"
    unfolding texts by (rule split_char_join) (use digits in auto)
  have "list_all octet_ok ?octets" using byte by (simp add: octet_ok_nat_str nat_le_iff)
  moreover have "0 \<le> uint w" "uint w < 4294967296" using uint_bounded[of w] by simp_all
  then have "256 * (256 * (256 * byte_of 3 w + byte_of 2 w) + byte_of 1 w) + byte_of 0 w = uint w"
    unfolding byte_of_def by (rule bytes_of_value)
  moreover have "foldl (\<lambda>n t. 256 * n + int (digits_val t)) 0 ?octets = 256 * (256 * (256 * byte_of 3 w + byte_of 2 w) + byte_of 1 w) + byte_of 0 w"
    using byte by (simp add: digits_val_nat_str)
  ultimately show ?thesis unfolding ipv4_parse_def Let_def split by simp
qed

text \<open>The host of a request with an IPv4 address is read as that address.\<close>

lemma ipv4_request_host:
  assumes "read_address lib 1 bytes = Inr (host, rest)"
  shows "ip_parse lib host = Some (IPv4 (word_of_int (address_value (take 4 bytes))))"
  using assms by (auto simp: read_address_def readexactly_def ip_parse_def ip_text_def ipv4_parse_text res_simps split: if_splits)

section \<open>What the proxy connects to\<close>

lemma safe_addresses_Inr:
  assumes "safe_addresses lib literal addresses records = Inr out" "t \<in> set out"
  shows "t \<in> set addresses \<or> (\<exists>sockaddr a. sockaddr \<in> set records \<and> ip_parse lib sockaddr = Some a \<and> safe_resolution lib a literal \<and> t = ip_text lib a)"
  using assms
proof (induction lib literal addresses records rule: safe_addresses.induct)
  case (2 lib literal addresses sockaddr records)
  then show ?case by (fastforce split: option.splits if_splits)
qed simp

lemma connect_first_Some:
  "connect_first lib opens port addresses = Inr (Some address) \<Longrightarrow> address \<in> set addresses \<and> opens address port"
  by (induction lib opens port addresses rule: connect_first.induct) (auto split: option.splits if_splits)

lemma serve_request_relays:
  assumes "serve_socks lib getaddrinfo opens pol bytes = (written, Inr (ProxyRelays address port rest))"
  shows "\<exists>host addresses. read_request lib bytes = Inr (Connect host port rest) \<and> resolve lib getaddrinfo pol host port = Inr addresses \<and>
    address \<in> set addresses \<and> opens address port \<and> written = socks_reply 0"
  using assms
  by (auto simp: serve_socks_def split: sum.splits socks_request.splits if_splits option.splits dest: connect_first_Some)

text \<open>The bytes of the request, after the greeting and its methods, and the host and port that a client asks for.\<close>

definition request_bytes :: "string \<Rightarrow> string" where
  "request_bytes bytes = drop (2 + code_of (bytes ! 1)) bytes"

lemma socks_handle_relays:
  assumes "socks_handle lib getaddrinfo opens pol bytes = (written, Inr (ProxyRelays address port rest))"
  shows "\<exists>host addresses. read_request lib (request_bytes bytes) = Inr (Connect host port rest) \<and>
    resolve lib getaddrinfo pol host port = Inr addresses \<and> address \<in> set addresses \<and> opens address port \<and> written = bytes_of [5, 0] @ socks_reply 0"
proof -
  obtain written' where serve: "serve_socks lib getaddrinfo opens pol (request_bytes bytes) = (written', Inr (ProxyRelays address port rest))"
      and w: "written = bytes_of [5, 0] @ written'"
    using assms by (auto simp: socks_handle_def readexactly_def request_bytes_def proxy_check_def add.commute split: sum.splits prod.splits if_splits)
  show ?thesis using serve_request_relays[OF serve] w by blast
qed

lemma resolve_Inr:
  assumes "resolve lib getaddrinfo pol host port = Inr addresses" "t \<in> set addresses"
  shows "policy_allows pol host port \<and> (\<exists>records sockaddr a. getaddrinfo host port = Records records \<and> sockaddr \<in> set records \<and>
    ip_parse lib sockaddr = Some a \<and> safe_resolution lib a (ip_parse lib host) \<and> t = ip_text lib a)"
  using assms safe_addresses_Inr[of lib "ip_parse lib host" "[]"]
  by (fastforce simp: resolve_def split: if_splits resolution.splits)

section \<open>What the policy allows\<close>

lemma add_ports_allow:
  "p \<in> set (dict_get_default (fold add_port pairs d) h []) \<longleftrightarrow> (h, p) \<in> set pairs \<or> p \<in> set (dict_get_default d h [])"
proof (induction pairs arbitrary: d)
  case (Cons hp pairs)
  have "p \<in> set (dict_get_default (add_port hp d) h []) \<longleftrightarrow> (h, p) = hp \<or> p \<in> set (dict_get_default d h [])"
    by (cases hp) (auto simp: add_port_def dict_get_default_eq dict_get_set)
  then show ?case using Cons.IH[of "add_port hp d"] by auto
qed simp

lemma DestinationPolicy_allows:
  assumes "DestinationPolicy values = Inr pol"
  shows "policy_allows pol host port \<longleftrightarrow> (\<exists>v \<in> set values. parse_destination v = Inr (normalized_host host, port))"
proof -
  obtain pairs where pairs: "list_all2 (\<lambda>v p. parse_destination v = Inr p) values pairs" "pol = fold add_port pairs []"
    using assms by (auto simp: DestinationPolicy_def Let_def res_simps)
  from pairs(1) have "x \<in> set pairs \<longleftrightarrow> (\<exists>v \<in> set values. parse_destination v = Inr x)" for x
    by (induction rule: list_all2_induct) auto
  then show ?thesis by (simp only: policy_allows_def pairs(2) add_ports_allow) (simp add: dict_get_default_eq dict_get_def)
qed

lemma ports_of_update: "ports_of (AList.update h ps d) + length (dict_get_default d h []) \<le> ports_of d + length ps"
  by (induction d) (auto simp: ports_of_def dict_get_default_eq dict_get_def)

lemma ports_of_add_port: "ports_of (add_port hp d) \<le> Suc (ports_of d)"
  using ports_of_update[of "fst hp" "List.insert (snd hp) (dict_get_default d (fst hp) [])" d]
  by (auto simp: add_port_def dict_set_def List.insert_def split: if_splits)

lemma add_ports_size: "ports_of (fold add_port pairs d) \<le> ports_of d + length pairs"
proof (induction pairs arbitrary: d)
  case (Cons hp pairs)
  have "fold add_port (hp # pairs) d = fold add_port pairs (add_port hp d)" by simp
  then show ?case using le_trans[OF Cons.IH[of "add_port hp d"] add_right_mono[OF ports_of_add_port[of hp d]]] by simp
qed simp

lemma add_ports_nonempty: "d \<noteq> [] \<or> pairs \<noteq> [] \<Longrightarrow> fold add_port pairs d \<noteq> []"
proof (induction pairs arbitrary: d)
  case (Cons hp pairs)
  have "add_port hp d \<noteq> []" by (cases d) (simp_all add: add_port_def dict_set_def)
  then show ?case using Cons.IH by simp
qed simp

text \<open>A value of the form that the controller writes.\<close>

lemma rpartition_port: "list_all is_digit port \<Longrightarrow> rpartition CHR '':'' (host @ CHR '':'' # port) = Some (host, port)"
proof -
  assume digits: "list_all is_digit port"
  then have stop: "\<forall>c \<in> set (rev port). c \<noteq> CHR '':''" using dot_not_digit(2) by (auto simp: list_all_iff)
  show ?thesis using takeWhile_append2[of "rev port" "\<lambda>d. d \<noteq> CHR '':''" "CHR '':'' # rev host"]
      dropWhile_append2[of "rev port" "\<lambda>d. d \<noteq> CHR '':''" "CHR '':'' # rev host"] stop
    by (simp add: rpartition_def)
qed

lemma parse_written_destination:
  assumes "host \<noteq> []" "1 \<le> port" "port \<le> 65535"
  shows "parse_destination (host @ '':'' @ int_str port) = Inr (normalized_host host, port)"
proof -
  have "int_str port = nat_str (nat port)" using assms(2) by (simp add: int_str_def)
  then show ?thesis using assms rpartition_port[OF nat_str_digits, of host "nat port"] nat_str_digits[of "nat port"]
    by (simp add: parse_destination_def proxy_check_def digits_val_nat_str Suc_le_eq nat_le_iff)
qed

lemma lower_char_twice [simp]: "lower_char (lower_char c) = lower_char c"
proof -
  have "code_of c < 256" by (simp add: code_of_def)
  then show ?thesis by (auto simp: lower_char_def Let_def)
qed

section \<open>Properties\<close>

text \<open>
  Whatever a client sends, the proxy relays only for a host and port that it was asked for and that its policy allows, to
  an address that the name resolved to and that the check accepts; it is the address that the client named, or a global one
  where the client named no address.
\<close>

theorem proxy_connects_as_allowed:
  assumes "socks_handle lib getaddrinfo opens pol bytes = (written, Inr (ProxyRelays address port rest))"
  shows "\<exists>host a records r. read_request lib (request_bytes bytes) = Inr (Connect host port rest) \<and> policy_allows pol host port \<and>
    getaddrinfo host port = Records records \<and> r \<in> set records \<and> ip_parse lib r = Some a \<and>
    address = ip_text lib a \<and> \<not> forbidden_address lib a \<and> (case ip_parse lib host of Some e \<Rightarrow> a = e | None \<Rightarrow> il_global lib a)"
proof -
  obtain host addresses where req: "read_request lib (request_bytes bytes) = Inr (Connect host port rest)"
      and h: "resolve lib getaddrinfo pol host port = Inr addresses" "address \<in> set addresses"
    using socks_handle_relays[OF assms] by blast
  obtain records sockaddr a where r: "getaddrinfo host port = Records records" "sockaddr \<in> set records" "ip_parse lib sockaddr = Some a"
      "safe_resolution lib a (ip_parse lib host)" "address = ip_text lib a"
    using resolve_Inr[OF h] by blast
  then have "\<not> forbidden_address lib a \<and> (case ip_parse lib host of Some e \<Rightarrow> a = e | None \<Rightarrow> il_global lib a)"
    by (auto simp: safe_resolution_def split: if_splits option.splits)
  then show ?thesis using req r resolve_Inr[OF h] by blast
qed

text \<open>
  The metadata service itself is forbidden; as an IPv4-mapped address it is only where the interpreter looks through these.
\<close>

definition metadata_address :: ip_address where
  "metadata_address = IPv4 0xA9FEA9FE"

definition mapped_metadata :: ip_address where
  "mapped_metadata = IPv6 0xFFFFA9FEA9FE"

lemma metadata_forbidden:
  "forbidden_address lib metadata_address" "il_look_through lib \<Longrightarrow> forbidden_address lib mapped_metadata"
proof -
  have "drop_bit 16 (0xA9FEA9FE :: 32 word) = 0xA9FE" by code_simp
  then show "forbidden_address lib metadata_address"
    by (simp add: forbidden_address_def is_link_local_def viewed_def metadata_address_def)
  have "drop_bit 32 (0xFFFFA9FEA9FE :: 128 word) = 0xFFFF" by code_simp
  moreover have "drop_bit 16 (ucast (0xFFFFA9FEA9FE :: 128 word) :: 32 word) = 0xA9FE" by code_simp
  ultimately show "forbidden_address lib mapped_metadata" if "il_look_through lib"
    using that by (simp add: forbidden_address_def is_link_local_def viewed_def mapped_metadata_def)
qed


definition demo_ip_lib :: ip_lib where
  "demo_ip_lib = \<lparr>il_look_through = False, il_global = (\<lambda>a. case a of IPv4 w \<Rightarrow> drop_bit 24 w = 93 | IPv6 _ \<Rightarrow> False),
     il_text6 = (\<lambda>w. if drop_bit 32 w = 0xFFFF then ''::ffff:a9fe:a9fe'' else ''::''), il_parse6 = (\<lambda>_. None)\<rparr>"

definition demo_records :: "string \<Rightarrow> int \<Rightarrow> resolution" where
  "demo_records host port = Records [''10.0.0.7'', ''93.184.216.34'']"

definition demo_socks :: string where
  "demo_socks = bytes_of [5, 1, 0, 5, 1, 0, 3, 11] @ ''example.com'' @ bytes_of [1, 187] @ ''hi''"

lemma demo_relays:
  "socks_handle demo_ip_lib demo_records (\<lambda>_ _. True) [(''example.com'', [443])] demo_socks
     = (bytes_of [5, 0] @ socks_reply 0, Inr (ProxyRelays ''93.184.216.34'' 443 ''hi''))"
  by code_simp

text \<open>The policy is asked only for the host and the port of the request.\<close>

lemma socks_handle_policy:
  assumes "read_request lib (request_bytes bytes) = Inr (Connect host port rest)" "policy_allows pol host port = policy_allows pol2 host port"
  shows "socks_handle lib getaddrinfo opens pol bytes = socks_handle lib getaddrinfo opens pol2 bytes"
proof -
  have "serve_socks lib getaddrinfo opens pol (request_bytes bytes) = serve_socks lib getaddrinfo opens pol2 (request_bytes bytes)"
    using assms by (simp add: serve_socks_def resolve_def)
  moreover have "rest1 = request_bytes bytes"
    if "bindE (readexactly 2 bytes) (\<lambda>(greeting, rest).
        bindE (proxy_check (\<not> (code_of (greeting ! 0) \<noteq> 5 \<or> code_of (greeting ! 1) = 0)) (ProxyValueError ''invalid SOCKS greeting'')) (\<lambda>_.
        readexactly (code_of (greeting ! 1)) rest)) = Inr (methods, rest1)" for methods rest1
    using that by (auto simp: readexactly_def request_bytes_def proxy_check_def add.commute split: if_splits)
  ultimately show ?thesis by (auto simp: socks_handle_def split: sum.splits)
qed

lemma demo_request: "read_request demo_ip_lib (request_bytes demo_socks) = Inr (Connect ''example.com'' 443 ''hi'')"
  by code_simp

lemma demo_relays_allowed:
  assumes "policy_allows pol ''example.com'' 443"
  shows "socks_handle demo_ip_lib demo_records (\<lambda>_ _. True) pol demo_socks = (bytes_of [5, 0] @ socks_reply 0, Inr (ProxyRelays ''93.184.216.34'' 443 ''hi''))"
proof -
  have "policy_allows [(''example.com'', [443])] ''example.com'' 443" by code_simp
  with socks_handle_policy[OF demo_request, of pol "[(''example.com'', [443])]"] demo_relays assms show ?thesis by simp
qed

theorem proxy_connects_as_allowed_witness:
  "\<exists>host a. policy_allows [(''example.com'', [443])] host 443 \<and> ''93.184.216.34'' = ip_text demo_ip_lib a \<and> \<not> forbidden_address demo_ip_lib a"
  using proxy_connects_as_allowed[OF demo_relays] by blast

definition demo_sent :: "relay_way \<Rightarrow> string" where
  "demo_sent w = (case w of Upward \<Rightarrow> ''abc'' | Downward \<Rightarrow> ''de'')"

definition demo_relay :: relay where
  "demo_relay = \<lparr>rl_remaining = 4, rl_unread = demo_sent, rl_chunk = (\<lambda>_. []), rl_written = (\<lambda>_. []),
     rl_ended = (\<lambda>_. False), rl_exceeded = False, rl_broken = False\<rparr>"

lemma demo_relay_exceeds: "reaches (relay_start 4 demo_sent) relay_step (relay_count Downward (relay_count Upward (relay_read Downward 2 (relay_read Upward 3 demo_relay))))"
proof -
  let ?r1 = "relay_read Upward 3 demo_relay" and ?r2 = "relay_read Downward 2 (relay_read Upward 3 demo_relay)"
  note defs = relay_running_def relay_read_def relay_count_def Let_def demo_relay_def demo_sent_def
  have "reaches (relay_start 4 demo_sent) relay_step demo_relay"
    by (rule reaches_init) (simp add: relay_start_def demo_relay_def)
  moreover have "relay_step demo_relay ?r1" by (rule relay_reads) (simp_all add: defs)
  moreover have "relay_step ?r1 ?r2" by (rule relay_reads) (simp_all add: defs)
  moreover have "relay_step ?r2 (relay_count Upward ?r2)" by (rule relay_counts) (simp_all add: defs)
  moreover have "relay_step (relay_count Upward ?r2) (relay_count Downward (relay_count Upward ?r2))" by (rule relay_counts) (simp_all add: defs)
  ultimately show ?thesis by (blast intro: reaches_step)
qed


text \<open>
  Where the interpreter does not look through IPv4-mapped addresses, the mapped metadata address is none of the
  forbidden ones: a policy that names it lets a job reach it.
\<close>

theorem mapped_metadata_allowed:
  "\<not> forbidden_address demo_ip_lib mapped_metadata \<and> safe_resolution demo_ip_lib mapped_metadata (Some mapped_metadata) \<and>
   forbidden_address (demo_ip_lib\<lparr>il_look_through := True\<rparr>) mapped_metadata"
  by code_simp

end
