(* ===== verification/EgressControl.thy ===== *)
theory EgressControl
  imports EgressProxy SandboxCommands
begin

text \<open>
  The controller of the egress of a job (\<open>zeaz_sandbox/egress.py\<close>): an internal network for each job and a proxy
  in front of it that is started with the job's destinations, and the clean-up of both from a token. The
  decoding of bytes is a parameter.
\<close>

section \<open>The controller\<close>

definition pinned_digest :: "string \<Rightarrow> bool" where
  "pinned_digest reference = (case after_last ''@sha256:'' reference of None \<Rightarrow> False | Some digest \<Rightarrow> sha256_hex digest)"

record egress_controller =
  ec_proxy_image :: string
  ec_docker :: string

definition unix_socket_url :: "string \<Rightarrow> bool" where
  "unix_socket_url s = (starts_with ''unix:///'' s \<and> nul \<notin> set s)"

definition DockerProxyEgressController :: "string \<Rightarrow> string \<Rightarrow> string \<Rightarrow> backend_error + egress_controller" where
  "DockerProxyEgressController proxy_image docker_path docker_host =
     bindE (backend_check (pinned_digest proxy_image) (BackendValueError ''proxy_image must be pinned by SHA-256 digest'')) (\<lambda>_.
     bindE (backend_check (unix_socket_url docker_host) (BackendValueError ''docker_host must be an absolute unix socket URL'')) (\<lambda>_.
     Inr \<lparr>ec_proxy_image = proxy_image, ec_docker = docker_path\<rparr>))"

definition proxy_container_id :: "string \<Rightarrow> backend_error + string" where
  "proxy_container_id value =
     bindE (backend_check (ascii_only value \<and> sha256_hex (py_strip value)) (SandboxBackendError ''container runtime returned an invalid proxy ID'')) (\<lambda>_.
     Inr (py_strip value))"

definition job_hex :: "string \<Rightarrow> string" where
  "job_hex i = filter (\<lambda>c. c \<noteq> CHR ''-'') i"

definition network_name :: "job_spec \<Rightarrow> string" where
  "network_name job = ''zeaz-net-'' @ job_hex (js_id job)"

section \<open>Its commands\<close>

definition egress_command :: "string list \<Rightarrow> command" where
  "egress_command argv = \<lparr>cm_argv = argv, cm_timeout = 30, cm_max_stdout = 65536, cm_max_stderr = 16384\<rparr>"

definition undo_command :: "string list \<Rightarrow> command" where
  "undo_command argv = \<lparr>cm_argv = argv, cm_timeout = 30, cm_max_stdout = 4096, cm_max_stderr = 16384\<rparr>"

definition remove_proxy :: "egress_controller \<Rightarrow> string \<Rightarrow> command" where
  "remove_proxy c i = undo_command [ec_docker c, ''rm'', ''--force'', i]"

definition remove_network :: "egress_controller \<Rightarrow> string \<Rightarrow> command" where
  "remove_network c n = undo_command [ec_docker c, ''network'', ''rm'', n]"

definition inspect_proxy_image :: "egress_controller \<Rightarrow> command" where
  "inspect_proxy_image c = \<lparr>cm_argv = [ec_docker c, ''image'', ''inspect'', ''--format'', ''{{json .RepoDigests}}'', ec_proxy_image c],
     cm_timeout = 15, cm_max_stdout = 65536, cm_max_stderr = 16384\<rparr>"

definition create_network :: "egress_controller \<Rightarrow> job_spec \<Rightarrow> command" where
  "create_network c job = egress_command [ec_docker c, ''network'', ''create'', ''--internal'', ''--driver'', ''bridge'',
     ''--label'', ''zeaz.sandbox.job='' @ js_id job, network_name job]"

definition allow_values :: "egress_destination list \<Rightarrow> string list" where
  "allow_values ds = concat (map (\<lambda>d. map (\<lambda>p. eg_host d @ '':'' @ int_str p) (eg_ports d)) ds)"

definition allow_args :: "egress_destination list \<Rightarrow> string list" where
  "allow_args ds = concat (map (\<lambda>v. [''--allow'', v]) (allow_values ds))"

text \<open>\<open>argparse\<close> in the proxy: a value that begins like an option is refused.\<close>

fun parse_allow :: "string list \<Rightarrow> string list option" where
  "parse_allow [] = Some []"
| "parse_allow (option # value # args) =
     (if option = ''--allow'' \<and> \<not> starts_with ''-'' value then map_option (Cons value) (parse_allow args) else None)"
| "parse_allow [option] = None"

definition create_proxy :: "egress_controller \<Rightarrow> job_spec \<Rightarrow> command" where
  "create_proxy c job = egress_command ([ec_docker c, ''create'', ''--name'', ''zeaz-egress-'' @ job_hex (js_id job),
     ''--label'', ''zeaz.sandbox.job='' @ js_id job, ''--label'', ''zeaz.sandbox.role=egress'', ''--network'', ''bridge'',
     ''--read-only'', ''--user'', ''65532:65532'', ''--cap-drop'', ''ALL'', ''--security-opt'', ''no-new-privileges=true'',
     ''--security-opt'', ''seccomp=builtin'', ''--security-opt'', ''apparmor='' @ sp_apparmor_profile (js_policy job),
     ''--pids-limit'', ''32'', ''--cpus'', ''0.25'', ''--memory'', ''67108864'', ''--memory-swap'', ''67108864'',
     ''--tmpfs'', ''/tmp:rw,noexec,nosuid,nodev,size=16777216'', ec_proxy_image c] @ allow_args (sp_allowed_destinations (js_policy job)))"

definition connect_proxy :: "egress_controller \<Rightarrow> job_spec \<Rightarrow> string \<Rightarrow> command" where
  "connect_proxy c job i = egress_command [ec_docker c, ''network'', ''connect'', ''--alias'', ''egress-proxy'', network_name job, i]"

definition start_proxy :: "egress_controller \<Rightarrow> string \<Rightarrow> command" where
  "start_proxy c i = egress_command [ec_docker c, ''start'', i]"

lemmas egress_commands = egress_command_def undo_command_def remove_proxy_def remove_network_def inspect_proxy_image_def create_network_def
  create_proxy_def connect_proxy_def start_proxy_def

section \<open>Its operations\<close>

definition verify_proxy_image :: "(string \<Rightarrow> string option) \<Rightarrow> egress_controller \<Rightarrow> runner \<Rightarrow> command list \<Rightarrow> unit run" where
  "verify_proxy_image decode c runner hist =
     and_then (run_required runner (inspect_proxy_image c) ''trusted egress proxy image is unavailable'' hist) (\<lambda>r. decide_run
       (case Option.bind (decode (co_stdout r)) json_loads of
          None \<Rightarrow> Inl (SandboxBackendError ''egress proxy image metadata is invalid'')
        | Some v \<Rightarrow> backend_check (case v of JArr digests \<Rightarrow> JStr (ec_proxy_image c) \<in> set digests | _ \<Rightarrow> False)
            (SandboxBackendError ''egress proxy image digest does not match'')))"

text \<open>\<open>json.dumps(..., sort_keys=True)\<close> with the keys in their order.\<close>

definition cleanup_token :: "string \<Rightarrow> string \<Rightarrow> string" where
  "cleanup_token network proxy_id = json_dumps (JObj [(''network'', JStr network), (''proxy_id'', JStr proxy_id), (''schema_version'', JStr ''1'')])"

text \<open>What follows the creation of the network: the proxy is removed if it cannot be attached or started.\<close>

definition launch_proxy :: "egress_controller \<Rightarrow> runner \<Rightarrow> job_spec \<Rightarrow> command list \<Rightarrow> string run" where
  "launch_proxy c runner job hist =
     and_then (run_required runner (create_proxy c job) ''sandbox egress proxy creation failed'' hist) (\<lambda>r hist1.
     and_then (decide_run (proxy_container_id (co_stdout r)) hist1) (\<lambda>i hist2.
     on_failure
       (and_then (run_required runner (connect_proxy c job i) ''sandbox egress proxy attachment failed'' hist2) (\<lambda>_ hist3.
        and_then (run_required runner (start_proxy c i) ''sandbox egress proxy start failed'' hist3) (\<lambda>_. decide_run (Inr i))))
       (run_command runner (remove_proxy c i))))"

definition prepare_egress :: "(string \<Rightarrow> string option) \<Rightarrow> egress_controller \<Rightarrow> runner \<Rightarrow> job_spec \<Rightarrow> command list \<Rightarrow> network_attachment run" where
  "prepare_egress decode c runner job hist =
     and_then (decide_run (backend_check (sp_network_mode (js_policy job) = AllowList)
       (SandboxBackendError ''egress controller requires allow-list policy'')) hist) (\<lambda>_ hist1.
     and_then (verify_proxy_image decode c runner hist1) (\<lambda>_ hist2.
     and_then
       (on_failure
         (and_then (run_required runner (create_network c job) ''sandbox egress network creation failed'' hist2) (\<lambda>_. launch_proxy c runner job))
         (run_command runner (remove_network c (network_name job)))) (\<lambda>i.
     decide_run (Inr \<lparr>na_docker_network = network_name job, na_proxy_url = Some ''socks5h://egress-proxy:1080'',
       na_cleanup_token = Some (cleanup_token (network_name job) i)\<rparr>))))"

text \<open>
  The checks of \<open>cleanup\<close>. A missing \<open>proxy_id\<close> is a \<open>KeyError\<close>, which is sanitized; one that is no text has
  no \<open>encode\<close>.
\<close>

definition read_token :: "network_attachment \<Rightarrow> string \<Rightarrow> backend_error + string \<times> string" where
  "read_token attachment token = (case json_loads token of
     Some (JObj d) \<Rightarrow>
       bindE (backend_check (get_or_null d ''schema_version'' = JStr ''1'' \<and> get_or_null d ''network'' = JStr (na_docker_network attachment))
         (SandboxBackendError ''sandbox egress cleanup token is invalid'')) (\<lambda>_.
       case dict_get d ''proxy_id'' of
         None \<Rightarrow> Inl (SandboxBackendError ''sandbox egress cleanup token is invalid'')
       | Some (JStr i) \<Rightarrow>
           bindE (proxy_container_id i) (\<lambda>_.
           bindE (backend_check (starts_with ''zeaz-net-'' (na_docker_network attachment) \<and> length (na_docker_network attachment) = 41)
             (SandboxBackendError ''sandbox egress cleanup token is invalid'')) (\<lambda>_. Inr (i, na_docker_network attachment)))
       | Some _ \<Rightarrow> Inl BackendAttributeError)
   | _ \<Rightarrow> Inl (SandboxBackendError ''sandbox egress cleanup token is invalid''))"

definition cleanup_egress :: "egress_controller \<Rightarrow> runner \<Rightarrow> network_attachment \<Rightarrow> command list \<Rightarrow> unit run" where
  "cleanup_egress c runner attachment hist = (case na_cleanup_token attachment of
     None \<Rightarrow> (Inr (), hist)
   | Some token \<Rightarrow>
       and_then (decide_run (read_token attachment token) hist) (\<lambda>(i, network) hist1.
       and_then (run_command runner (remove_proxy c i) hist1) (\<lambda>proxy_result hist2.
       and_then (run_command runner (remove_network c network) hist2) (\<lambda>network_result.
       decide_run (backend_check (co_returncode proxy_result = 0 \<and> co_returncode network_result = 0) (SandboxBackendError ''sandbox egress cleanup failed''))))))"

section \<open>From the policy of a job to the policy of its proxy\<close>

lemma normalized_host_take: "\<exists>k. normalized_host s = take k (map lower_char s)"
proof -
  have "rev (drop n (rev t)) = take (length t - n) t" for n and t :: string by (simp add: rev_drop)
  then show ?thesis unfolding normalized_host_def py_lower_def dropWhile_eq_drop by blast
qed

lemma dropWhile_twice: "dropWhile P (dropWhile P xs) = dropWhile P xs"
  by (induction xs) simp_all

lemma normalized_host_twice [simp]: "normalized_host (normalized_host s) = normalized_host s"
proof -
  obtain k where "normalized_host s = take k (map lower_char s)" using normalized_host_take by blast
  then have "py_lower (normalized_host s) = normalized_host s" by (simp add: py_lower_def take_map)
  then show ?thesis by (subst normalized_host_def) (simp add: normalized_host_def dropWhile_twice)
qed

lemma normalized_host_hd: "normalized_host s \<noteq> [] \<Longrightarrow> s \<noteq> [] \<and> hd (normalized_host s) = lower_char (hd s)"
proof -
  assume nonempty: "normalized_host s \<noteq> []"
  obtain k where "normalized_host s = take k (map lower_char s)" using normalized_host_take by blast
  then show ?thesis using nonempty by (cases s; cases k) auto
qed

lemma lower_alnum_not_dash: "c = CHR ''.'' \<or> ascii_alnum c \<Longrightarrow> lower_char c \<noteq> CHR ''-''"
proof -
  assume "c = CHR ''.'' \<or> ascii_alnum c"
  then have "code_of c \<noteq> 45 \<and> code_of c \<noteq> 13 \<and> code_of c < 128" by (auto simp: ascii_alnum_def ascii_alpha_def is_digit_def code_of_def)
  then have "code_of (lower_char c) \<noteq> 45" by (auto simp: lower_char_def Let_def)
  then show ?thesis by (auto simp: code_of_def)
qed

lemma destination_valid:
  assumes "EgressDestination forbidden raw = Inr d" "\<forall>h. forbidden h \<noteq> None \<longrightarrow> hd h \<noteq> CHR ''-''"
  shows "eg_host d \<noteq> [] \<and> normalized_host (eg_host d) = eg_host d \<and> \<not> starts_with ''-'' (eg_host d) \<and> eg_ports d \<noteq> [] \<and> length (eg_ports d) \<le> 64 \<and>
    list_all (\<lambda>p. 1 \<le> p \<and> p \<le> 65535) (eg_ports d)"
proof -
  let ?h = "normalized_host (eg_host raw)"
  have d: "eg_host d = ?h" "eg_ports d = sort (eg_ports raw)" "?h \<noteq> []" "eg_ports raw \<noteq> []" "length (eg_ports raw) \<le> 64"
      "list_all (\<lambda>p. 1 \<le> p \<and> p \<le> 65535) (eg_ports raw)" "forbidden ?h \<noteq> None \<or> hostname_text (eg_host raw)"
    using assms(1) by (auto simp: EgressDestination_def Let_def res_simps split: option.splits)
  have "hd ?h \<noteq> CHR ''-''"
  proof (cases "forbidden ?h = None")
    case True
    then have "hostname_text (eg_host raw)" using d(7) by blast
    moreover obtain c cs where raw: "eg_host raw = c # cs" using normalized_host_hd[OF d(3)] by (cases "eg_host raw") auto
    ultimately have "c = CHR ''.'' \<or> ascii_alnum c"
      by (auto simp: hostname_text_def Let_def host_label_def split: if_splits list.splits)
    then show ?thesis using normalized_host_hd[OF d(3)] raw lower_alnum_not_dash[of c] by simp
  qed (use assms(2) in blast)
  then have "\<not> starts_with ''-'' ?h" using d(3) by (cases ?h) (auto simp: starts_with_def)
  moreover have "sort (eg_ports raw) \<noteq> []" using d(4) by (metis length_0_conv length_sort)
  ultimately show ?thesis using d by (simp add: list_all_iff)
qed

lemma parse_allow_args: "\<forall>v \<in> set vs. \<not> starts_with ''-'' v \<Longrightarrow> parse_allow (concat (map (\<lambda>v. [''--allow'', v]) vs)) = Some vs"
  by (induction vs) simp_all

lemma mapE_members: "mapE f xs = Inr ys \<Longrightarrow> y \<in> set ys \<Longrightarrow> \<exists>x \<in> set xs. f x = Inr y"
  unfolding mapE_eq_Inr by (induction rule: list_all2_induct) auto

lemma allow_values_accepted:
  assumes "\<And>d. d \<in> set ds \<Longrightarrow> eg_host d \<noteq> [] \<and> normalized_host (eg_host d) = eg_host d \<and> list_all (\<lambda>p. 1 \<le> p \<and> p \<le> 65535) (eg_ports d)"
  shows "mapE parse_destination (allow_values ds) = Inr (concat (map (\<lambda>d. map (\<lambda>p. (eg_host d, p)) (eg_ports d)) ds))"
proof -
  let ?pairs = "concat (map (\<lambda>d. map (\<lambda>p. (eg_host d, p)) (eg_ports d)) ds)"
  have texts: "allow_values ds = map (\<lambda>(h, p). h @ '':'' @ int_str p) ?pairs" by (simp add: allow_values_def map_concat o_def)
  have parsed: "parse_destination (eg_host d @ '':'' @ int_str p) = Inr (eg_host d, p)" if "d \<in> set ds" "p \<in> set (eg_ports d)" for d p
    using parse_written_destination[of "eg_host d" p] assms[OF that(1)] that(2) by (simp add: list_all_iff)
  have "mapE (\<lambda>x. parse_destination (case x of (h, p) \<Rightarrow> h @ '':'' @ int_str p)) ?pairs = Inr (map (\<lambda>x. x) ?pairs)"
    by (rule mapE_pure) (use parsed in auto)
  moreover have "mapE f (map g xs) = mapE (\<lambda>x. f (g x)) xs" for f :: "string \<Rightarrow> proxy_error + string \<times> int" and g and xs :: "(string \<times> int) list"
    by (induction xs) simp_all
  ultimately show ?thesis unfolding texts by simp
qed

lemma ports_bounded: "\<forall>d \<in> set ds. length (eg_ports d) \<le> 64 \<Longrightarrow> length (concat (map (\<lambda>d. map (f d) (eg_ports d)) ds)) \<le> 64 * length ds"
  by (induction ds) auto

lemma pairs_of_destinations:
  "(h, p) \<in> set (concat (map (\<lambda>d. map (\<lambda>p. (eg_host d, p)) (eg_ports d)) ds)) \<longleftrightarrow> (\<exists>d \<in> set ds. eg_host d = h \<and> p \<in> set (eg_ports d))"
  by (induction ds) auto

lemma ports_exist: "ds \<noteq> [] \<Longrightarrow> \<forall>d \<in> set ds. eg_ports d \<noteq> [] \<Longrightarrow> concat (map (\<lambda>d. map (f d) (eg_ports d)) ds) \<noteq> []"
  by (cases ds) auto

lemma allow_values_policy:
  assumes "\<And>d. d \<in> set ds \<Longrightarrow> eg_host d \<noteq> [] \<and> normalized_host (eg_host d) = eg_host d \<and> eg_ports d \<noteq> [] \<and> length (eg_ports d) \<le> 64 \<and>
      list_all (\<lambda>p. 1 \<le> p \<and> p \<le> 65535) (eg_ports d)"
    and "ds \<noteq> []" "length ds \<le> 128"
  shows "\<exists>pol. DestinationPolicy (allow_values ds) = Inr pol \<and>
    (\<forall>host port. policy_allows pol host port \<longleftrightarrow> (\<exists>d \<in> set ds. eg_host d = normalized_host host \<and> port \<in> set (eg_ports d)))"
proof -
  let ?pairs = "concat (map (\<lambda>d. map (\<lambda>p. (eg_host d, p)) (eg_ports d)) ds)" and ?pol = "fold add_port (concat (map (\<lambda>d. map (\<lambda>p. (eg_host d, p)) (eg_ports d)) ds)) []"
  have parsed: "mapE parse_destination (allow_values ds) = Inr ?pairs" using assms(1) by (intro allow_values_accepted) blast
  have "?pol \<noteq> []" using assms(1) by (intro add_ports_nonempty disjI2 ports_exist[OF assms(2)]) blast
  moreover have "ports_of ?pol \<le> 8192"
    using add_ports_size[of ?pairs "[]"] ports_bounded[of ds "\<lambda>d p. (eg_host d, p)"] assms(1,3) by (force simp: ports_of_def)
  ultimately have "DestinationPolicy (allow_values ds) = Inr ?pol"
    by (simp add: DestinationPolicy_def parsed proxy_check_def Let_def)
  moreover have "policy_allows ?pol host port \<longleftrightarrow> (\<exists>d \<in> set ds. eg_host d = normalized_host host \<and> port \<in> set (eg_ports d))" for host port
    unfolding policy_allows_def add_ports_allow pairs_of_destinations by (simp add: dict_get_default_eq dict_get_def)
  ultimately show ?thesis by blast
qed

section \<open>Properties\<close>


section \<open>What the controller leaves behind\<close>

lemma hex_strip: "sha256_hex s \<Longrightarrow> ascii_only s \<and> py_strip s = s"
proof -
  assume hex: "sha256_hex s"
  have char: "\<not> py_space c \<and> code_of c < 128" if "c \<in> set s" for c
    using hex that by (auto simp: sha256_hex_def list_all_iff py_space_def is_digit_def)
  have "s \<noteq> []" using hex by (auto simp: sha256_hex_def)
  then have ends: "\<not> py_space (hd s)" "\<not> py_space (hd (rev s))" using char[of "hd s"] char[of "last s"] by (simp_all add: hd_rev)
  have "py_lstrip s = s" by (rule lstrip_id) (use ends in blast)
  moreover have "dropWhile py_space (rev s) = rev s" using ends(2) by (cases "rev s") simp_all
  ultimately have "py_strip s = s" by (simp add: py_strip_def py_rstrip_def)
  then show ?thesis using char by (simp add: ascii_only_def list_all_iff)
qed

lemma proxy_container_id_Inr: "proxy_container_id value = Inr i \<Longrightarrow> sha256_hex i"
  by (auto simp: proxy_container_id_def res_simps)

text \<open>The identifier of the proxy, where the runtime reports that it was created and the identifier can be read.\<close>

definition created_proxy :: "egress_controller \<Rightarrow> runner \<Rightarrow> job_spec \<Rightarrow> command list \<Rightarrow> string option" where
  "created_proxy c runner job hist = (case runner hist (create_proxy c job) of
     Inl _ \<Rightarrow> None
   | Inr out \<Rightarrow> if co_returncode out = 0 then (case proxy_container_id (co_stdout out) of Inl _ \<Rightarrow> None | Inr i \<Rightarrow> Some i) else None)"

lemma created_proxy_hex: "created_proxy c runner job hist = Some i \<Longrightarrow> sha256_hex i"
  by (auto simp: created_proxy_def dest: proxy_container_id_Inr split: sum.splits if_splits)

lemma launch_proxy_ran:
  assumes "launch_proxy c runner job hist = (r, hist')"
  obtains e where "r = Inl e" "created_proxy c runner job hist = None" "hist' = hist @ [create_proxy c job]"
    | e i where "r = Inl e" "created_proxy c runner job hist = Some i" "hist' = hist @ [create_proxy c job, connect_proxy c job i, remove_proxy c i]"
    | e i where "r = Inl e" "created_proxy c runner job hist = Some i"
        "hist' = hist @ [create_proxy c job, connect_proxy c job i, start_proxy c i, remove_proxy c i]"
    | i where "r = Inr i" "created_proxy c runner job hist = Some i" "hist' = hist @ [create_proxy c job, connect_proxy c job i, start_proxy c i]"
proof (cases "created_proxy c runner job hist")
  case (Some i)
  then obtain out where o: "runner hist (create_proxy c job) = Inr out" "co_returncode out = 0" "proxy_container_id (co_stdout out) = Inr i"
    by (auto simp: created_proxy_def split: sum.splits if_splits)
  then show ?thesis using assms that(2-4) Some unfolding launch_proxy_def run_required_eq run_command_def decide_run_def
    by (auto simp: and_then_def on_failure_def o split: sum.splits if_splits)
next
  case None
  then have "\<exists>e. r = Inl e \<and> hist' = hist @ [create_proxy c job]"
    using assms unfolding launch_proxy_def run_required_eq decide_run_def created_proxy_def
    by (auto simp: and_then_def split: sum.splits if_splits)
  then show ?thesis using that(1) None by blast
qed

lemma token_read_back:
  assumes "sha256_hex i" "length (job_hex (js_id job)) = 32"
    "na_docker_network a = network_name job" "na_cleanup_token a = Some (cleanup_token (network_name job) i)"
  shows "cleanup_egress c runner a hist =
    (case runner hist (remove_proxy c i) of Inl e \<Rightarrow> (Inl e, hist @ [remove_proxy c i])
     | Inr x \<Rightarrow> (case runner (hist @ [remove_proxy c i]) (remove_network c (network_name job)) of
         Inl e \<Rightarrow> (Inl e, hist @ [remove_proxy c i, remove_network c (network_name job)])
       | Inr y \<Rightarrow> (backend_check (co_returncode x = 0 \<and> co_returncode y = 0) (SandboxBackendError ''sandbox egress cleanup failed''),
           hist @ [remove_proxy c i, remove_network c (network_name job)])))"
proof -
  have "json_loads (cleanup_token (network_name job) i) = Some (JObj [(''network'', JStr (network_name job)), (''proxy_id'', JStr i), (''schema_version'', JStr ''1'')])"
    unfolding cleanup_token_def by (rule json_loads_dumps) simp
  moreover have "starts_with ''zeaz-net-'' (network_name job)" "length (network_name job) = 41"
    using assms(2) by (simp_all add: network_name_def starts_with_def)
  moreover have "proxy_container_id i = Inr i" using hex_strip[OF assms(1)] assms(1) by (simp add: proxy_container_id_def backend_check_def)
  ultimately have "read_token a (cleanup_token (network_name job) i) = Inr (i, network_name job)"
    by (simp add: read_token_def assms(3) backend_check_def dict_defs get_or_null_def)
  then show ?thesis by (simp add: cleanup_egress_def assms(4) run_command_def decide_run_def and_then_def split: sum.splits)
qed


section \<open>An example\<close>

definition demo_egress_controller :: egress_controller where
  "demo_egress_controller = \<lparr>ec_proxy_image = ''proxy@sha256:'' @ replicate 64 CHR ''a'', ec_docker = ''/usr/bin/docker''\<rparr>"

definition demo_destination :: egress_destination where
  "demo_destination = \<lparr>eg_host = ''Example.com'', eg_ports = [443]\<rparr>"


definition demo_egress_job :: job_spec where
  "demo_egress_job = \<lparr>js_id = replicate 32 CHR ''1'', js_session_id = ''s'', js_correlation_id = ''c'',
     js_image = ''job@sha256:'' @ replicate 64 CHR ''b'', js_command = [''run''], js_workspace = ''/work'',
     js_policy = \<lparr>sp_limits = \<lparr>sx_timeout_seconds = 60, sx_cpu_cores = JInt 1, sx_memory_bytes = 16777216, sx_process_count = 8,
         sx_file_bytes = 4096, sx_temporary_bytes = 1048576, sx_output_bytes = 1024\<rparr>,
       sp_workspace_access = ReadOnly, sp_network_mode = AllowList, sp_allowed_destinations = [\<lparr>eg_host = ''example.com'', eg_ports = [443]\<rparr>],
       sp_apparmor_profile = ''docker-default''\<rparr>\<rparr>"

text \<open>A runtime in which the proxy does not start.\<close>

definition demo_egress_runner :: runner where
  "demo_egress_runner hist cmd =
     (let verb = cm_argv cmd ! 1 in
      Inr \<lparr>co_returncode = (if verb = ''start'' then 1 else 0),
        co_stdout = (if verb = ''image'' then json_dumps (JArr [JStr (ec_proxy_image demo_egress_controller)])
          else replicate 64 CHR ''c'' @ [newline]), co_stderr = []\<rparr>)"

lemma demo_egress_fails:
  "prepare_egress Some demo_egress_controller demo_egress_runner demo_egress_job [] =
     (Inl (SandboxBackendError ''sandbox egress proxy start failed''),
      [inspect_proxy_image demo_egress_controller, create_network demo_egress_controller demo_egress_job,
       create_proxy demo_egress_controller demo_egress_job, connect_proxy demo_egress_controller demo_egress_job (replicate 64 CHR ''c''),
       start_proxy demo_egress_controller (replicate 64 CHR ''c''), remove_proxy demo_egress_controller (replicate 64 CHR ''c''),
       remove_network demo_egress_controller (network_name demo_egress_job)])"
  by code_simp


text \<open>
  The other case: the runtime creates the proxy and answers with a text that holds no identifier. The attempt fails, the
  network is removed, and no command removes the proxy.
\<close>

definition demo_unreadable_runner :: runner where
  "demo_unreadable_runner hist cmd = (case demo_egress_runner hist cmd of
     Inr out \<Rightarrow> Inr (if cm_argv cmd ! 1 = ''create'' then out\<lparr>co_stdout := ''created''\<rparr> else out) | Inl e \<Rightarrow> Inl e)"

theorem unreadable_id_leaves_proxy:
  "prepare_egress Some demo_egress_controller demo_unreadable_runner demo_egress_job [] =
     (Inl (SandboxBackendError ''container runtime returned an invalid proxy ID''),
      [inspect_proxy_image demo_egress_controller, create_network demo_egress_controller demo_egress_job,
       create_proxy demo_egress_controller demo_egress_job, remove_network demo_egress_controller (network_name demo_egress_job)])"
  by code_simp

end
