(* ===== verification/DockerBackend.thy ===== *)
theory DockerBackend
  imports EgressControl
begin

text \<open>
  The backend that runs jobs with a rootless Docker (\<open>zeaz_sandbox/backend.py\<close>): its probe, the check of an
  image, the command line that creates a container, the check of what the runtime applied, and the execution,
  removal and inventory of containers. Parameters: the runner, the decoding of bytes, and which paths are
  executables or directories of the caller.
\<close>

section \<open>The backend\<close>

record docker_backend =
  db_docker :: string
  db_profiles :: "string list"
  db_controller :: "egress_controller option"
  db_probed :: bool

definition profile_name :: "string \<Rightarrow> bool" where
  "profile_name s = (s \<noteq> [] \<and> length s \<le> 128 \<and> list_all (\<lambda>c. ascii_alnum c \<or> c \<in> set ''_.-'') s)"

definition RootlessDockerBackend :: "(string \<Rightarrow> bool) \<Rightarrow> string \<Rightarrow> egress_controller option \<Rightarrow> string list \<Rightarrow> string \<Rightarrow> backend_error + docker_backend" where
  "RootlessDockerBackend executable docker_path controller profiles docker_host =
     bindE (backend_check (executable docker_path) (BackendValueError ''Docker CLI must be an absolute executable regular file'')) (\<lambda>_.
     bindE (backend_check (unix_socket_url docker_host \<and> length docker_host \<le> 4096) (BackendValueError ''docker_host must be an absolute unix socket URL'')) (\<lambda>_.
     bindE (backend_check (profiles \<noteq> [] \<and> length (remdups profiles) \<le> 32 \<and> list_all profile_name profiles)
       (BackendValueError ''allowed AppArmor profiles are invalid'')) (\<lambda>_.
     Inr \<lparr>db_docker = docker_path, db_profiles = remdups profiles, db_controller = controller, db_probed = False\<rparr>)))"

definition require_probe :: "docker_backend \<Rightarrow> backend_error + unit" where
  "require_probe b = backend_check (db_probed b) (SandboxBackendError ''container runtime isolation has not been verified'')"

definition docker_command :: "docker_backend \<Rightarrow> string list \<Rightarrow> int \<Rightarrow> int \<Rightarrow> command" where
  "docker_command b args timeout_seconds max_stdout = \<lparr>cm_argv = db_docker b # args, cm_timeout = timeout_seconds, cm_max_stdout = max_stdout, cm_max_stderr = 16384\<rparr>"

definition docker_probe :: "(string \<Rightarrow> string option) \<Rightarrow> docker_backend \<Rightarrow> runner \<Rightarrow> command list \<Rightarrow> docker_backend run" where
  "docker_probe decode b runner hist =
     and_then (run_required runner (docker_command b [''info'', ''--format'', ''{{json .SecurityOptions}}''] 10 16384)
       ''rootless container runtime is unavailable'' hist) (\<lambda>r. decide_run
     (case Option.bind (decode (co_stdout r)) json_loads of
        None \<Rightarrow> Inl (SandboxBackendError ''container runtime returned invalid security metadata'')
      | Some v \<Rightarrow>
          bindE (backend_check (case v of JArr options \<Rightarrow>
              JStr ''name=rootless'' \<in> set options \<and> JStr ''name=seccomp,profile=builtin'' \<in> set options \<and> JStr ''name=apparmor'' \<in> set options
            | _ \<Rightarrow> False) (SandboxBackendError ''container runtime must prove rootless, seccomp, and AppArmor isolation'')) (\<lambda>_.
          Inr (b\<lparr>db_probed := True\<rparr>))))"

definition docker_prepare_network :: "(string \<Rightarrow> string option) \<Rightarrow> docker_backend \<Rightarrow> runner \<Rightarrow> job_spec \<Rightarrow> command list \<Rightarrow> network_attachment run" where
  "docker_prepare_network decode b runner job hist =
     (if sp_network_mode (js_policy job) = NetworkDisabled
      then (Inr \<lparr>na_docker_network = ''none'', na_proxy_url = None, na_cleanup_token = None\<rparr>, hist)
      else (case db_controller b of
          None \<Rightarrow> (Inl (SandboxBackendError ''allow-list networking has no secure egress controller''), hist)
        | Some c \<Rightarrow>
            and_then (prepare_egress decode c runner job hist) (\<lambda>attachment. decide_run
              (bindE (backend_check (na_docker_network attachment \<notin> {[], ''host'', ''bridge'', ''default''})
                (SandboxBackendError ''egress controller returned an unsafe network'')) (\<lambda>_. Inr attachment)))))"

definition docker_cleanup_network :: "docker_backend \<Rightarrow> runner \<Rightarrow> network_attachment \<Rightarrow> command list \<Rightarrow> unit run" where
  "docker_cleanup_network b runner attachment hist =
     (if na_cleanup_token attachment = None then (Inr (), hist)
      else (case db_controller b of
          None \<Rightarrow> (Inl (SandboxBackendError ''network cleanup controller is unavailable''), hist)
        | Some c \<Rightarrow> cleanup_egress c runner attachment hist))"

section \<open>Images\<close>

text \<open>Two JSON values with a bar between them, as the format of \<open>inspect\<close> gives them.\<close>

definition two_values :: "(string \<Rightarrow> string option) \<Rightarrow> string \<Rightarrow> (json \<times> json) option" where
  "two_values decode out = Option.bind (decode out) (\<lambda>t. Option.bind (split_once ''|'' (py_strip t)) (\<lambda>(a, b).
     Option.bind (json_loads a) (\<lambda>v. Option.bind (json_loads b) (\<lambda>w. Some (v, w)))))"

definition inspect_image :: "docker_backend \<Rightarrow> string \<Rightarrow> command" where
  "inspect_image b reference = docker_command b [''image'', ''inspect'', ''--format'', ''{{json .RepoDigests}}|{{json .Config.Volumes}}'', reference] 15 65536"

definition docker_verify_image :: "(string \<Rightarrow> string option) \<Rightarrow> docker_backend \<Rightarrow> runner \<Rightarrow> string \<Rightarrow> command list \<Rightarrow> string run" where
  "docker_verify_image decode b runner reference hist =
     and_then (decide_run (require_probe b) hist) (\<lambda>_ hist1.
     and_then (run_required runner (inspect_image b reference) ''approved image is not available locally'' hist1) (\<lambda>r. decide_run
     (case two_values decode (co_stdout r) of
        None \<Rightarrow> Inl (SandboxBackendError ''container image metadata is invalid'')
      | Some (digests, volumes) \<Rightarrow>
          bindE (backend_check (case digests of JArr ds \<Rightarrow> JStr reference \<in> set ds | _ \<Rightarrow> False)
            (SandboxBackendError ''local image does not match its approved digest'')) (\<lambda>_.
          bindE (backend_check (volumes = JNull \<or> volumes = JObj []) (SandboxBackendError ''sandbox images cannot declare implicit volumes'')) (\<lambda>_.
          case after_last ''@sha256:'' reference of
            None \<Rightarrow> Inl (BackendValueError ''list index out of range'')
          | Some digest \<Rightarrow> Inr (''sha256:'' @ digest))))))"

section \<open>The command line of a container\<close>

text \<open>\<open>f"{value:.3f}".rstrip("0").rstrip(".")\<close> of a number that is not negative.\<close>

definition three_digits :: "int \<Rightarrow> string" where
  "three_digits n = int_str (n div 100) @ int_str (n div 10 mod 10) @ int_str (n mod 10)"

definition rstrip_char :: "char \<Rightarrow> string \<Rightarrow> string" where
  "rstrip_char c s = rev (dropWhile (\<lambda>d. d = c) (rev s))"

definition format_cpu :: "json \<Rightarrow> string" where
  "format_cpu v = (case number_value v of
     Some (Finite r) \<Rightarrow>
       (let n = round_half_even (r * 1000)
        in rstrip_char CHR ''.'' (rstrip_char CHR ''0'' (int_str (n div 1000) @ ''.'' @ three_digits (n mod 1000))))
   | _ \<Rightarrow> [])"

definition container_name_ok :: "string \<Rightarrow> bool" where
  "container_name_ok s = (starts_with ''zeaz-job-'' s \<and> length s \<le> 128 \<and> list_all (\<lambda>c. lower_alnum c \<or> c = CHR ''-'') s)"

definition mount_argument :: "job_spec \<Rightarrow> string" where
  "mount_argument job = ''type=bind,src='' @ js_workspace job @ '',dst=/workspace'' @
     (if sp_workspace_access (js_policy job) = ReadOnly then '',readonly'' else [])"

definition proxy_environment :: "network_attachment \<Rightarrow> string list" where
  "proxy_environment attachment = (case na_proxy_url attachment of
     None \<Rightarrow> []
   | Some url \<Rightarrow> [''--env'', ''HTTP_PROXY='' @ url, ''--env'', ''HTTPS_PROXY='' @ url, ''--env'', ''ALL_PROXY='' @ url, ''--env'', ''NO_PROXY=''])"

definition container_options :: "job_spec \<Rightarrow> string \<Rightarrow> network_attachment \<Rightarrow> string list" where
  "container_options job container_name attachment =
     (let l = sp_limits (js_policy job) in
      [''--name'', container_name, ''--label'', ''zeaz.sandbox.job='' @ js_id job, ''--network'', na_docker_network attachment,
       ''--read-only'', ''--user'', ''65532:65532'', ''--cap-drop'', ''ALL'', ''--security-opt'', ''no-new-privileges=true'',
       ''--security-opt'', ''seccomp=builtin'', ''--security-opt'', ''apparmor='' @ sp_apparmor_profile (js_policy job),
       ''--pids-limit'', int_str (sx_process_count l), ''--cpus'', format_cpu (sx_cpu_cores l), ''--memory'', int_str (sx_memory_bytes l),
       ''--memory-swap'', int_str (sx_memory_bytes l), ''--ulimit'', ''fsize='' @ int_str (sx_file_bytes l) @ '':'' @ int_str (sx_file_bytes l),
       ''--ulimit'', ''nofile=1024:1024'',
       ''--tmpfs'', ''/tmp:rw,noexec,nosuid,nodev,mode=700,uid=65532,gid=65532,size='' @ int_str (sx_temporary_bytes l),
       ''--mount'', mount_argument job, ''--workdir'', ''/workspace'', ''--env'', ''HOME=/tmp'', ''--env'', ''TMPDIR=/tmp''] @ proxy_environment attachment)"

definition create_argv ::
  "docker_backend \<Rightarrow> (string \<Rightarrow> bool) \<Rightarrow> job_spec \<Rightarrow> string \<Rightarrow> network_attachment \<Rightarrow> backend_error + string list" where
  "create_argv b own_directory job container_name attachment =
     bindE (require_probe b) (\<lambda>_.
     bindE (backend_check (own_directory (js_workspace job)) (SandboxBackendError ''workspace must be a real caller-owned directory'')) (\<lambda>_.
     bindE (backend_check (container_name_ok container_name) (BackendValueError ''container_name is invalid'')) (\<lambda>_.
     bindE (backend_check (sp_apparmor_profile (js_policy job) \<in> set (db_profiles b)) (SandboxBackendError ''requested AppArmor profile is not allowed'')) (\<lambda>_.
     Inr ([db_docker b, ''create''] @ container_options job container_name attachment @ [''--entrypoint'', hd (js_command job), js_image job] @ tl (js_command job))))))"

section \<open>Containers\<close>

definition inspect_container :: "docker_backend \<Rightarrow> string \<Rightarrow> command" where
  "inspect_container b i = docker_command b [''inspect'', ''--format'', ''{{json .AppArmorProfile}}|{{json .HostConfig.SecurityOpt}}'', i] 15 16384"

definition isolation_options :: "string \<Rightarrow> string list" where
  "isolation_options profile = [''no-new-privileges=true'', ''seccomp=builtin'', ''apparmor='' @ profile]"

definition verify_isolation :: "(string \<Rightarrow> string option) \<Rightarrow> docker_backend \<Rightarrow> runner \<Rightarrow> string \<Rightarrow> string \<Rightarrow> command list \<Rightarrow> unit run" where
  "verify_isolation decode b runner profile i hist =
     and_then (run_required runner (inspect_container b i) ''container isolation metadata is unavailable'' hist) (\<lambda>r. decide_run
     (case two_values decode (co_stdout r) of
        None \<Rightarrow> Inl (SandboxBackendError ''container isolation metadata is invalid'')
      | Some (actual, options) \<Rightarrow>
          backend_check (actual = JStr profile \<and> (case options of JArr os \<Rightarrow> set (map JStr (isolation_options profile)) \<subseteq> set os | _ \<Rightarrow> False))
            (SandboxBackendError ''container runtime did not apply the required isolation policy'')))"

definition remove_command :: "docker_backend \<Rightarrow> string \<Rightarrow> command" where
  "remove_command b i = docker_command b [''rm'', ''--force'', i] 30 4096"

definition docker_remove :: "docker_backend \<Rightarrow> runner \<Rightarrow> string \<Rightarrow> command list \<Rightarrow> unit run" where
  "docker_remove b runner i hist =
     and_then (decide_run (validate_container_id i) hist) (\<lambda>_ hist1.
     and_then (run_required runner (remove_command b i) ''sandbox container cleanup failed'' hist1) (\<lambda>_. decide_run (Inr ())))"

definition kill_command :: "docker_backend \<Rightarrow> string \<Rightarrow> command" where
  "kill_command b i = docker_command b [''kill'', i] 15 4096"

definition docker_kill :: "docker_backend \<Rightarrow> runner \<Rightarrow> string \<Rightarrow> command list \<Rightarrow> unit run" where
  "docker_kill b runner i hist =
     and_then (decide_run (validate_container_id i) hist) (\<lambda>_ hist1.
     and_then (run_required runner (kill_command b i) ''sandbox container could not be stopped'' hist1) (\<lambda>_. decide_run (Inr ())))"

text \<open>An answer that is not ASCII is a \<open>UnicodeDecodeError\<close>, which is a \<open>ValueError\<close>.\<close>

definition created_id :: "string \<Rightarrow> backend_error + string" where
  "created_id out =
     bindE (backend_check (ascii_only out) (BackendValueError ''ascii'')) (\<lambda>_.
     bindE (backend_check (sha256_hex (py_strip out)) (SandboxBackendError ''container runtime returned an invalid container ID'')) (\<lambda>_. Inr (py_strip out)))"

definition create_command :: "string list \<Rightarrow> command" where
  "create_command argv = \<lparr>cm_argv = argv, cm_timeout = 30, cm_max_stdout = 4096, cm_max_stderr = 16384\<rparr>"

definition docker_create ::
  "(string \<Rightarrow> string option) \<Rightarrow> docker_backend \<Rightarrow> runner \<Rightarrow> (string \<Rightarrow> bool) \<Rightarrow> job_spec \<Rightarrow> string \<Rightarrow> network_attachment \<Rightarrow> command list \<Rightarrow> string run" where
  "docker_create decode b runner own_directory job container_name attachment hist =
     and_then (docker_verify_image decode b runner (js_image job) hist) (\<lambda>_ hist1.
     and_then (decide_run (create_argv b own_directory job container_name attachment) hist1) (\<lambda>argv hist2.
     and_then (run_required runner (create_command argv) ''sandbox container creation failed'' hist2) (\<lambda>r hist3.
     and_then (decide_run (created_id (co_stdout r)) hist3) (\<lambda>i hist4.
     on_failure (and_then (verify_isolation decode b runner (sp_apparmor_profile (js_policy job)) i hist4) (\<lambda>_. decide_run (Inr i)))
       (docker_remove b runner i)))))"

definition docker_containers :: "docker_backend \<Rightarrow> runner \<Rightarrow> command list \<Rightarrow> string list run" where
  "docker_containers b runner hist =
     and_then (decide_run (require_probe b) hist) (\<lambda>_ hist1.
     and_then (run_required runner (docker_command b [''ps'', ''--all'', ''--quiet'', ''--filter'', ''label=zeaz.sandbox.job'', ''--no-trunc''] 15 1048576)
       ''sandbox container inventory failed'' hist1) (\<lambda>r. decide_run
     (bindE (backend_check (ascii_only (co_stdout r)) (SandboxBackendError ''sandbox container inventory is invalid'')) (\<lambda>_.
      let ids = filter (\<lambda>line. line \<noteq> []) (py_splitlines (co_stdout r)) in
      bindE (backend_check (length ids \<le> 10000) (SandboxBackendError ''sandbox container inventory is excessive'')) (\<lambda>_.
      mapE validate_container_id ids)))))"

section \<open>Execution\<close>

text \<open>
  What the wait for the job ends with: nothing within the time, or some of its events at once: the cancellation,
  the limit of the output, the readers (with or without an exception), and the exit of the process, whose code is
  known in the end in any case.
\<close>

record watched =
  wt_nothing :: bool
  wt_cancelled :: bool
  wt_output_limit :: bool
  wt_readers :: "bool option"
  wt_process :: bool
  wt_exit_code :: int

definition exited_with :: "int \<Rightarrow> stop_reason \<times> int option" where
  "exited_with code = (if code < 0 \<or> code > 255 then (RuntimeFailure, None) else (Exited, Some code))"

definition docker_stop_reason :: "watched \<Rightarrow> stop_reason \<times> int option" where
  "docker_stop_reason w =
     (if wt_nothing w then (StopTimedOut, None)
      else if wt_cancelled w then (StopCancelled, None)
      else if wt_output_limit w then (OutputLimit, None)
      else (case wt_readers w of
          Some True \<Rightarrow> (OutputFailure, None)
        | Some False \<Rightarrow> exited_with (wt_exit_code w)
        | None \<Rightarrow> if wt_process w then exited_with (wt_exit_code w) else (RuntimeFailure, None)))"

text \<open>
  Whether the process starts and has its pipes, what is waited for, and what \<open>finish\<close> leaves the streamer with, if it
  does not raise.
\<close>

record attached_run =
  ar_starts :: bool
  ar_pipes :: bool
  ar_watched :: watched
  ar_streamer :: "(int \<times> int \<times> bool) option"

definition docker_execute :: "docker_backend \<Rightarrow> runner \<Rightarrow> string \<Rightarrow> attached_run \<Rightarrow> command list \<Rightarrow> container_result run" where
  "docker_execute b runner i a hist =
     and_then (decide_run (bindE (require_probe b) (\<lambda>_. validate_container_id i)) hist) (\<lambda>_ hist1.
     and_then (decide_run (bindE (backend_check (ar_starts a) (SandboxBackendError ''sandbox container failed to start'')) (\<lambda>_.
       backend_check (ar_pipes a) (SandboxBackendError ''sandbox output pipes are unavailable''))) hist1) (\<lambda>_ hist2.
     let (reason, exit_code) = docker_stop_reason (ar_watched a) in
     and_then (if reason \<noteq> Exited then docker_kill b runner i hist2 else (Inr (), hist2)) (\<lambda>_. decide_run
     (case ar_streamer a of
        None \<Rightarrow> Inl BackendSinkError
      | Some (stdout_bytes, stderr_bytes, truncated) \<Rightarrow>
          Inr \<lparr>cr_reason = reason, cr_exit_code = exit_code, cr_stdout_bytes = stdout_bytes, cr_stderr_bytes = stderr_bytes, cr_output_truncated = truncated\<rparr>))))"

section \<open>What a creation runs\<close>

lemmas docker_commands = docker_command_def inspect_image_def inspect_container_def remove_command_def kill_command_def create_command_def

definition image_approved :: "(string \<Rightarrow> string option) \<Rightarrow> string \<Rightarrow> command_output \<Rightarrow> bool" where
  "image_approved decode reference out = (co_returncode out = 0 \<and> (\<exists>ds volumes. two_values decode (co_stdout out) = Some (JArr ds, volumes) \<and>
     JStr reference \<in> set ds \<and> (volumes = JNull \<or> volumes = JObj [])))"

definition isolation_shown :: "(string \<Rightarrow> string option) \<Rightarrow> string \<Rightarrow> command_output \<Rightarrow> bool" where
  "isolation_shown decode profile out = (co_returncode out = 0 \<and> (\<exists>os. two_values decode (co_stdout out) = Some (JStr profile, JArr os) \<and>
     (\<forall>x \<in> set (isolation_options profile). JStr x \<in> set os)))"

lemma docker_verify_image_ran:
  assumes "docker_verify_image decode b runner reference hist = (r, hist')"
  shows "(hist' = hist \<or> hist' = hist @ [inspect_image b reference]) \<and>
    (\<forall>digest. r = Inr digest \<longrightarrow> hist' = hist @ [inspect_image b reference] \<and>
       (\<exists>out. runner hist (inspect_image b reference) = Inr out \<and> image_approved decode reference out))"
  using assms unfolding docker_verify_image_def run_required_eq decide_run_def require_probe_def
  by (auto simp: and_then_def backend_check_def image_approved_def split: sum.splits if_splits option.splits prod.splits json.splits)

lemma verify_isolation_ran:
  assumes "verify_isolation decode b runner profile i hist = (r, hist')"
  shows "hist' = hist @ [inspect_container b i] \<and>
    (r = Inr () \<longrightarrow> (\<exists>out. runner hist (inspect_container b i) = Inr out \<and> isolation_shown decode profile out))"
  using assms unfolding verify_isolation_def run_required_eq decide_run_def
  by (auto simp: and_then_def backend_check_def isolation_shown_def split: sum.splits if_splits option.splits prod.splits json.splits)

lemma docker_remove_ran: "sha256_hex i \<Longrightarrow> snd (docker_remove b runner i hist) = hist @ [remove_command b i]"
  unfolding docker_remove_def run_required_eq decide_run_def validate_container_id_def
  by (auto simp: and_then_def backend_check_def split: sum.splits)

lemma created_id_Inr: "created_id out = Inr i \<Longrightarrow> sha256_hex i \<and> i = py_strip out"
  by (auto simp: created_id_def res_simps)

text \<open>The creation after its checks: the command is run, and the container is inspected if its identifier can be read.\<close>

lemma docker_create_ran:
  assumes "docker_create decode b runner own_directory job name attachment hist = (r, hist')"
  obtains e where "r = Inl e" "hist' = hist \<or> hist' = hist @ [inspect_image b (js_image job)]"
  | e argv where "r = Inl e" "hist' = hist @ [inspect_image b (js_image job), create_command argv]"
  | e argv i where "r = Inl e" "sha256_hex i" "hist' = hist @ [inspect_image b (js_image job), create_command argv, inspect_container b i, remove_command b i]"
  | argv i out0 out1 out2 where "r = Inr i" "sha256_hex i" "create_argv b own_directory job name attachment = Inr argv"
      "hist' = hist @ [inspect_image b (js_image job), create_command argv, inspect_container b i]"
      "runner hist (inspect_image b (js_image job)) = Inr out0" "image_approved decode (js_image job) out0"
      "runner (hist @ [inspect_image b (js_image job)]) (create_command argv) = Inr out1" "co_returncode out1 = 0" "i = py_strip (co_stdout out1)"
      "runner (hist @ [inspect_image b (js_image job), create_command argv]) (inspect_container b i) = Inr out2"
      "isolation_shown decode (sp_apparmor_profile (js_policy job)) out2"
proof -
  let ?look = "inspect_image b (js_image job)"
  obtain r0 h0 where v: "docker_verify_image decode b runner (js_image job) hist = (r0, h0)" by (cases "docker_verify_image decode b runner (js_image job) hist")
  note v' = docker_verify_image_ran[OF v]
  show thesis
  proof (cases r0)
    case (Inl e)
    then show thesis using assms v v' that(1)[of e] by (simp add: docker_create_def)
  next
    case (Inr digest)
    then have h0: "h0 = hist @ [?look]" using v' by blast
    obtain out0 where out0: "runner hist ?look = Inr out0" "image_approved decode (js_image job) out0" using v' Inr by blast
    show thesis
    proof (cases "create_argv b own_directory job name attachment")
      case (Inl e)
      then show thesis using assms v Inr h0 that(1)[of e] \<open>r0 = Inr digest\<close> by (simp add: docker_create_def decide_run_def)
    next
      case argv: (Inr argv)
      have run: "docker_create decode b runner own_directory job name attachment hist =
          and_then (run_required runner (create_command argv) ''sandbox container creation failed'' (hist @ [?look])) (\<lambda>out hist3.
          and_then (decide_run (created_id (co_stdout out)) hist3) (\<lambda>i hist4.
          on_failure (and_then (verify_isolation decode b runner (sp_apparmor_profile (js_policy job)) i hist4) (\<lambda>_. decide_run (Inr i)))
            (docker_remove b runner i)))"
        using v \<open>r0 = Inr digest\<close> h0 argv by (simp add: docker_create_def decide_run_def)
      show thesis
      proof (cases "\<exists>out1 i. runner (hist @ [?look]) (create_command argv) = Inr out1 \<and> co_returncode out1 = 0 \<and> created_id (co_stdout out1) = Inr i")
        case False
        then have "\<exists>e. r = Inl e \<and> hist' = hist @ [?look, create_command argv]"
          using assms unfolding run run_required_eq decide_run_def
          by (cases "runner (hist @ [?look]) (create_command argv)"; cases "created_id (co_stdout (projr (runner (hist @ [?look]) (create_command argv))))")
            (auto simp: and_then_def split: if_splits dest: sym[of "Inl _"])
        then show thesis using that(2) by blast
      next
        case True
        then obtain out1 i where o: "runner (hist @ [?look]) (create_command argv) = Inr out1" "co_returncode out1 = 0" "created_id (co_stdout out1) = Inr i" by blast
        obtain r1 h1 where w: "verify_isolation decode b runner (sp_apparmor_profile (js_policy job)) i (hist @ [?look, create_command argv]) = (r1, h1)"
          by (cases "verify_isolation decode b runner (sp_apparmor_profile (js_policy job)) i (hist @ [?look, create_command argv])")
        note w' = verify_isolation_ran[OF w]
        have hex: "sha256_hex i" "i = py_strip (co_stdout out1)" using created_id_Inr[OF o(3)] by blast+
        show thesis
        proof (cases r1)
          case (Inl e)
          then have "r = Inl e \<and> hist' = hist @ [?look, create_command argv, inspect_container b i, remove_command b i]"
            using assms w' docker_remove_ran[OF hex(1)] unfolding run run_required_eq decide_run_def
            by (simp add: and_then_def o w)
          then show thesis using that(3) hex by blast
        next
          case (Inr u)
          then obtain out2 where out2: "runner (hist @ [?look, create_command argv]) (inspect_container b i) = Inr out2"
              "isolation_shown decode (sp_apparmor_profile (js_policy job)) out2" using w' by auto
          have "r = Inr i \<and> hist' = hist @ [?look, create_command argv, inspect_container b i]"
            using assms w' Inr unfolding run run_required_eq decide_run_def by (simp add: and_then_def o w)
          then show thesis using that(4) hex argv out0 o out2 by blast
        qed
      qed
    qed
  qed
qed

section \<open>The options as Docker reads them\<close>

text \<open>
  What follows \<open>docker create\<close>: options, each with the next argument as its value except for a flag, then the image, and
  then the arguments of the program.
\<close>

fun docker_options :: "string list \<Rightarrow> (string \<times> string) list \<times> string list" where
  "docker_options [] = ([], [])"
| "docker_options [a] = (if starts_with ''-'' a then ([(a, [])], []) else ([], [a]))"
| "docker_options (a # v # args) =
     (if \<not> starts_with ''-'' a then ([], a # v # args)
      else if a = ''--read-only'' then (let (opts, rest) = docker_options (v # args) in ((a, []) # opts, rest))
      else (let (opts, rest) = docker_options args in ((a, v) # opts, rest)))"

definition option_values :: "(string \<times> string) list \<Rightarrow> string \<Rightarrow> string list" where
  "option_values opts k = map snd (filter (\<lambda>(k', _). k' = k) opts)"

text \<open>
  The container that a job may get: a read-only root, an unprivileged user, no capabilities, the security options, the network of
  the attachment, the limits of the policy, one mount, the program of the job, and no option of any other name.
\<close>

definition confined_options :: "job_spec \<Rightarrow> string \<Rightarrow> network_attachment \<Rightarrow> (string \<times> string) list \<Rightarrow> bool" where
  "confined_options job name attachment opts =
     (let l = sp_limits (js_policy job); ov = option_values opts in
      list_all (\<lambda>(k, _). k \<in> set [''--name'', ''--label'', ''--network'', ''--read-only'', ''--user'', ''--cap-drop'', ''--security-opt'', ''--pids-limit'',
        ''--cpus'', ''--memory'', ''--memory-swap'', ''--ulimit'', ''--tmpfs'', ''--mount'', ''--workdir'', ''--env'', ''--entrypoint'']) opts \<and>
      ov ''--name'' = [name] \<and> ov ''--label'' = [''zeaz.sandbox.job='' @ js_id job] \<and>
      ov ''--read-only'' = [[]] \<and> ov ''--user'' = [''65532:65532''] \<and> ov ''--cap-drop'' = [''ALL''] \<and>
      ov ''--security-opt'' = isolation_options (sp_apparmor_profile (js_policy job)) \<and> ov ''--network'' = [na_docker_network attachment] \<and>
      ov ''--pids-limit'' = [int_str (sx_process_count l)] \<and> ov ''--cpus'' = [format_cpu (sx_cpu_cores l)] \<and>
      ov ''--memory'' = [int_str (sx_memory_bytes l)] \<and> ov ''--memory-swap'' = [int_str (sx_memory_bytes l)] \<and>
      ov ''--ulimit'' = [''fsize='' @ int_str (sx_file_bytes l) @ '':'' @ int_str (sx_file_bytes l), ''nofile=1024:1024''] \<and>
      ov ''--tmpfs'' = [''/tmp:rw,noexec,nosuid,nodev,mode=700,uid=65532,gid=65532,size='' @ int_str (sx_temporary_bytes l)] \<and>
      ov ''--mount'' = [mount_argument job] \<and> ov ''--workdir'' = [''/workspace''] \<and> ov ''--entrypoint'' = [hd (js_command job)] \<and>
      ov ''--env'' = [''HOME=/tmp'', ''TMPDIR=/tmp''] @ (case na_proxy_url attachment of None \<Rightarrow> []
        | Some url \<Rightarrow> [''HTTP_PROXY='' @ url, ''HTTPS_PROXY='' @ url, ''ALL_PROXY='' @ url, ''NO_PROXY='']))"

lemma docker_option_steps:
  "a \<noteq> ''--read-only'' \<Longrightarrow> starts_with ''-'' a \<Longrightarrow> docker_options (a # v # args) = ((a, v) # fst (docker_options args), snd (docker_options args))"
  "docker_options (''--read-only'' # v # args) = ((''--read-only'', []) # fst (docker_options (v # args)), snd (docker_options (v # args)))"
  "\<not> starts_with ''-'' a \<Longrightarrow> docker_options (a # args) = ([], a # args)"
  by (auto simp: split_beta starts_with_def) (cases args; simp add: starts_with_def)

lemma create_argv_options:
  assumes "create_argv b own_directory job name attachment = Inr argv" "\<not> starts_with ''-'' (js_image job)"
  shows "\<exists>args opts. argv = [db_docker b, ''create''] @ args \<and> docker_options args = (opts, js_image job # tl (js_command job)) \<and>
    confined_options job name attachment opts"
proof -
  let ?args = "container_options job name attachment @ [''--entrypoint'', hd (js_command job), js_image job] @ tl (js_command job)"
  have argv: "argv = [db_docker b, ''create''] @ ?args" using assms(1) by (auto simp: create_argv_def res_simps)
  have "snd (docker_options ?args) = js_image job # tl (js_command job)" "confined_options job name attachment (fst (docker_options ?args))"
    using assms(2)
    by (cases "na_proxy_url attachment";
      simp add: container_options_def Let_def proxy_environment_def docker_option_steps starts_with_def confined_options_def option_values_def isolation_options_def)+
  then show ?thesis using argv by (metis prod.collapse)
qed

lemma image_no_option: "image_reference s \<Longrightarrow> \<not> starts_with ''-'' s"
proof -
  assume "image_reference s"
  then obtain name digest where s: "split_once ''@sha256:'' s = Some (name, digest)" "list_all separated_runs (split_char CHR ''/'' name)"
    by (auto simp: image_reference_def split: option.splits)
  have "s = name @ ''@sha256:'' @ digest" using split_once_Some[OF s(1)] .
  moreover have "lower_alnum c" if "name = c # cs" for c cs
  proof -
    have runs: "separated_runs (c # p) \<Longrightarrow> lower_alnum c" for p by (cases p) auto
    show ?thesis
    proof (cases "c = CHR ''/''")
      case True
      then show ?thesis using s(2) that by simp
    next
      case False
      then show ?thesis using s(2) that runs by (auto split: list.splits)
    qed
  qed
  moreover have "\<not> lower_alnum CHR ''-''" by code_simp
  ultimately show ?thesis by (cases name) (auto simp: starts_with_def)
qed

text \<open>
  The path of the workspace is written into the mount option, whose fields are separated by commas. Without a comma
  the fields are the intended ones.
\<close>

lemma mount_fields:
  assumes "CHR '','' \<notin> set (js_workspace job)"
  shows "split_char CHR '','' (mount_argument job) = [''type=bind'', ''src='' @ js_workspace job, ''dst=/workspace''] @
    (if sp_workspace_access (js_policy job) = ReadOnly then [''readonly''] else [])"
proof -
  let ?parts = "[''type=bind'', ''src='' @ js_workspace job, ''dst=/workspace''] @ (if sp_workspace_access (js_policy job) = ReadOnly then [''readonly''] else [])"
  have "mount_argument job = py_join [CHR '',''] ?parts" by (simp add: mount_argument_def)
  moreover have "split_char CHR '','' (py_join [CHR '',''] ?parts) = ?parts" by (rule split_char_join) (use assms in \<open>auto split: if_splits\<close>)
  ultimately show ?thesis by simp
qed

section \<open>Properties\<close>

text \<open>
  C30: A container that is returned was created from an image whose digest the runtime holds and that declares no volumes, with
  a command line that, read as Docker reads it, has a read-only root, an unprivileged user, all capabilities dropped, the
  three security options with the job's AppArmor profile, the network of the attachment, the limits of the policy, one mount
  option, exactly the values of \<open>confined_options\<close> and no option of another name, and then the image and the program of
  the job; the mount is the bind of the workspace, read-only where the policy says so, if its path has no comma (with a comma
  the option has further fields, \<open>workspace_comma_adds_source\<close>). The runtime has shown the AppArmor profile and the security
  options for this very container. If the creation fails after the container was inspected, it ends with its removal.
\<close>

theorem docker_container_verified:
  assumes "docker_create decode b runner own_directory job name attachment hist = (r, hist')" "JobSpec job = Inr job"
  shows "case r of
     Inr i \<Rightarrow> sha256_hex i \<and> (\<exists>args opts out0 out1 out2. docker_options args = (opts, js_image job # tl (js_command job)) \<and>
       confined_options job name attachment opts \<and>
       (CHR '','' \<notin> set (js_workspace job) \<longrightarrow> map (split_char CHR '','') (option_values opts ''--mount'') =
          [[''type=bind'', ''src='' @ js_workspace job, ''dst=/workspace''] @ (if sp_workspace_access (js_policy job) = ReadOnly then [''readonly''] else [])]) \<and>
       hist' = hist @ [inspect_image b (js_image job), create_command ([db_docker b, ''create''] @ args), inspect_container b i] \<and>
       runner hist (inspect_image b (js_image job)) = Inr out0 \<and> image_approved decode (js_image job) out0 \<and>
       runner (hist @ [inspect_image b (js_image job)]) (create_command ([db_docker b, ''create''] @ args)) = Inr out1 \<and> i = py_strip (co_stdout out1) \<and>
       runner (hist @ [inspect_image b (js_image job), create_command ([db_docker b, ''create''] @ args)]) (inspect_container b i) = Inr out2 \<and>
       isolation_shown decode (sp_apparmor_profile (js_policy job)) out2)
   | Inl e \<Rightarrow> (\<exists>added. hist' = hist @ added \<and> (\<forall>i. inspect_container b i \<in> set added \<longrightarrow> last added = remove_command b i))"
  using assms(1)
proof (cases rule: docker_create_ran)
  case (1 e)
  then show ?thesis by (auto simp: docker_commands)
next
  case (2 e argv)
  then show ?thesis by (simp add: docker_commands)
next
  case (3 e argv i)
  then show ?thesis
    by (intro sum.case_eq_if[THEN iffD2]) (auto simp: docker_commands intro!: exI[of _ "[inspect_image b (js_image job), create_command argv, inspect_container b i, remove_command b i]"])
next
  case (4 argv i out0 out1 out2)
  have "\<not> starts_with ''-'' (js_image job)" using assms(2) by (intro image_no_option) (auto simp: JobSpec_def res_simps)
  then obtain args opts where o: "argv = [db_docker b, ''create''] @ args" "docker_options args = (opts, js_image job # tl (js_command job))"
      "confined_options job name attachment opts"
    using create_argv_options[OF 4(3)] by blast
  have "option_values opts ''--mount'' = [mount_argument job]" using o(3) by (simp add: confined_options_def Let_def)
  then show ?thesis using 4 o mount_fields[of job] by (simp (no_asm_simp) only: sum.case) (intro conjI exI[of _ args] exI[of _ opts]; simp)
qed

definition demo_docker :: docker_backend where
  "demo_docker = \<lparr>db_docker = ''/usr/bin/docker'', db_profiles = [''docker-default''], db_controller = None, db_probed = True\<rparr>"

definition demo_job_spec :: job_spec where
  "demo_job_spec = demo_egress_job\<lparr>js_workspace := ''/home/u/w,src=/etc'',
     js_policy := (js_policy demo_egress_job)\<lparr>sp_network_mode := NetworkDisabled, sp_allowed_destinations := []\<rparr>\<rparr>"

definition demo_plain_job :: job_spec where
  "demo_plain_job = demo_job_spec\<lparr>js_workspace := ''/home/u/w''\<rparr>"

definition demo_none :: network_attachment where
  "demo_none = \<lparr>na_docker_network = ''none'', na_proxy_url = None, na_cleanup_token = None\<rparr>"

definition demo_image_answer :: string where
  "demo_image_answer = json_dumps (JArr [JStr (js_image demo_plain_job)]) @ ''|null''"

definition demo_isolation_answer :: "string \<Rightarrow> string" where
  "demo_isolation_answer profile = json_dumps (JStr profile) @ ''|'' @ json_dumps (JArr (map JStr (isolation_options ''docker-default'')))"

text \<open>A runtime that does what it is asked, and one that does not apply the AppArmor profile.\<close>

definition demo_docker_runner :: "string \<Rightarrow> runner" where
  "demo_docker_runner profile hist cmd =
     (let verb = cm_argv cmd ! 1 in
      Inr \<lparr>co_returncode = 0,
        co_stdout = (if verb = ''image'' then demo_image_answer
          else if verb = ''inspect'' then demo_isolation_answer profile
          else replicate 64 CHR ''c'' @ [newline]), co_stderr = []\<rparr>)"

lemma demo_docker_values:
  "two_values Some demo_image_answer = Some (JArr [JStr (js_image demo_plain_job)], JNull)"
  "two_values Some (demo_isolation_answer ''docker-default'')
     = Some (JStr ''docker-default'', JArr (map JStr (isolation_options ''docker-default'')))"
  "two_values Some (demo_isolation_answer ''unconfined'')
     = Some (JStr ''unconfined'', JArr (map JStr (isolation_options ''docker-default'')))"
  "created_id (replicate 64 CHR ''c'' @ [newline]) = Inr (replicate 64 CHR ''c'')" "after_last ''@sha256:'' (js_image demo_plain_job) = Some (replicate 64 CHR ''b'')"
  "container_name_ok ''zeaz-job-1''"
  by code_simp+

lemma demo_docker_argv:
  "create_argv demo_docker (\<lambda>_. True) demo_plain_job ''zeaz-job-1'' demo_none = Inr ([''/usr/bin/docker'', ''create''] @
     container_options demo_plain_job ''zeaz-job-1'' demo_none @ [''--entrypoint'', ''run'', js_image demo_plain_job])"
  using demo_docker_values(6)
  by (simp add: create_argv_def require_probe_def backend_check_def demo_docker_def demo_plain_job_def demo_job_spec_def demo_egress_job_def)

lemma demo_docker_created:
  "fst (docker_create Some demo_docker (demo_docker_runner ''docker-default'') (\<lambda>_. True) demo_plain_job ''zeaz-job-1'' demo_none []) = Inr (replicate 64 CHR ''c'')"
  "fst (docker_create Some demo_docker (demo_docker_runner ''unconfined'') (\<lambda>_. True) demo_plain_job ''zeaz-job-1'' demo_none [])
     = Inl (SandboxBackendError ''container runtime did not apply the required isolation policy'')"
proof -
  have profile: "sp_apparmor_profile (js_policy demo_plain_job) = ''docker-default''" "db_probed demo_docker"
    by (simp_all add: demo_plain_job_def demo_job_spec_def demo_egress_job_def demo_docker_def)
  note steps = docker_create_def docker_verify_image_def verify_isolation_def run_required_eq decide_run_def require_probe_def backend_check_def
    and_then_def on_failure_def demo_docker_argv demo_docker_runner_def docker_commands demo_docker_values profile Let_def
  show "fst (docker_create Some demo_docker (demo_docker_runner ''docker-default'') (\<lambda>_. True) demo_plain_job ''zeaz-job-1'' demo_none []) = Inr (replicate 64 CHR ''c'')"
    by (simp add: steps isolation_options_def)
  show "fst (docker_create Some demo_docker (demo_docker_runner ''unconfined'') (\<lambda>_. True) demo_plain_job ''zeaz-job-1'' demo_none [])
      = Inl (SandboxBackendError ''container runtime did not apply the required isolation policy'')"
    by (simp add: steps isolation_options_def)
qed

lemma demo_plain_valid: "JobSpec demo_plain_job = Inr demo_plain_job"
proof -
  have "image_reference (js_image demo_plain_job)" "list_all (\<lambda>a. nul \<notin> set a) (js_command demo_plain_job)" "nul \<notin> set (js_workspace demo_plain_job)"
    "starts_with ''/'' (js_workspace demo_plain_job)" "\<not> list_ex (\<lambda>part. part \<in> {''.'', ''..''}) (split_char CHR ''/'' (js_workspace demo_plain_job))"
    "utf8_encode ''run'' = ''run''" by code_simp+
  moreover have "js_command demo_plain_job = [''run'']" by (simp add: demo_plain_job_def demo_job_spec_def demo_egress_job_def)
  ultimately show ?thesis by (simp add: JobSpec_def check_def)
qed

theorem docker_container_verified_witness:
  "(\<exists>args opts. docker_options args = (opts, [js_image demo_plain_job]) \<and> option_values opts ''--cap-drop'' = [''ALL''] \<and>
      map (split_char CHR '','') (option_values opts ''--mount'') = [[''type=bind'', ''src=/home/u/w'', ''dst=/workspace'', ''readonly'']]) \<and>
   (\<exists>added. snd (docker_create Some demo_docker (demo_docker_runner ''unconfined'') (\<lambda>_. True) demo_plain_job ''zeaz-job-1'' demo_none []) = [] @ added)"
proof
  show "\<exists>added. snd (docker_create Some demo_docker (demo_docker_runner ''unconfined'') (\<lambda>_. True) demo_plain_job ''zeaz-job-1'' demo_none []) = [] @ added"
    using docker_container_verified[of Some demo_docker "demo_docker_runner ''unconfined''" "\<lambda>_. True" demo_plain_job "''zeaz-job-1''" demo_none "[]",
        OF prod.collapse[symmetric] demo_plain_valid]
    unfolding demo_docker_created by auto
  have plain: "js_workspace demo_plain_job = ''/home/u/w''" "sp_workspace_access (js_policy demo_plain_job) = ReadOnly" "tl (js_command demo_plain_job) = []"
    by (simp_all add: demo_plain_job_def demo_job_spec_def demo_egress_job_def)
  show "\<exists>args opts. docker_options args = (opts, [js_image demo_plain_job]) \<and> option_values opts ''--cap-drop'' = [''ALL''] \<and>
      map (split_char CHR '','') (option_values opts ''--mount'') = [[''type=bind'', ''src=/home/u/w'', ''dst=/workspace'', ''readonly'']]"
  proof -
    obtain args opts where o: "docker_options args = (opts, js_image demo_plain_job # tl (js_command demo_plain_job))"
        "confined_options demo_plain_job ''zeaz-job-1'' demo_none opts"
      and mount: "CHR '','' \<notin> set (js_workspace demo_plain_job) \<longrightarrow> map (split_char CHR '','') (option_values opts ''--mount'') =
          [[''type=bind'', ''src='' @ js_workspace demo_plain_job, ''dst=/workspace''] @
            (if sp_workspace_access (js_policy demo_plain_job) = ReadOnly then [''readonly''] else [])]"
      using docker_container_verified[of Some demo_docker "demo_docker_runner ''docker-default''" "\<lambda>_. True" demo_plain_job "''zeaz-job-1''" demo_none "[]",
          OF prod.collapse[symmetric] demo_plain_valid]
      unfolding demo_docker_created sum.case by (elim exE conjE)
    have fields: "map (split_char CHR '','') (option_values opts ''--mount'') = [[''type=bind'', ''src=/home/u/w'', ''dst=/workspace'', ''readonly'']]"
      using mount by (simp add: plain)
    have "option_values opts ''--cap-drop'' = [''ALL'']" using o(2) unfolding confined_options_def Let_def by blast
    then show ?thesis using o(1) fields unfolding plain by (intro exI[of _ args] exI[of _ opts] conjI)
  qed
qed

text \<open>With a comma in the path of its workspace, a job that passes every check has a second source in its mount option.\<close>

theorem workspace_comma_adds_source:
  "JobSpec demo_job_spec = Inr demo_job_spec \<and>
   split_char CHR '','' (mount_argument demo_job_spec) = [''type=bind'', ''src=/home/u/w'', ''src=/etc'', ''dst=/workspace'', ''readonly'']"
proof
  have "image_reference (js_image demo_job_spec)" "list_all (\<lambda>a. nul \<notin> set a) (js_command demo_job_spec)" "nul \<notin> set (js_workspace demo_job_spec)"
    "starts_with ''/'' (js_workspace demo_job_spec)" "\<not> list_ex (\<lambda>part. part \<in> {''.'', ''..''}) (split_char CHR ''/'' (js_workspace demo_job_spec))"
    "utf8_encode ''run'' = ''run''" by code_simp+
  moreover have "js_command demo_job_spec = [''run'']" by (simp add: demo_job_spec_def demo_egress_job_def)
  ultimately show "JobSpec demo_job_spec = Inr demo_job_spec" by (simp add: JobSpec_def check_def)
  show "split_char CHR '','' (mount_argument demo_job_spec) = [''type=bind'', ''src=/home/u/w'', ''src=/etc'', ''dst=/workspace'', ''readonly'']"
    by code_simp
qed

text \<open>A share of a processor that the limits accept is written as \<open>--cpus 0\<close>, which sets no limit.\<close>

lemma tiny_share_text: "py_float_of_str ''0.0004'' = Some (Finite (1 / 2500))"
proof -
  have parts: "takeWhile (\<lambda>c. c \<noteq> CHR ''e'') ''0.0004'' = ''0.0004''" "dropWhile (\<lambda>c. c \<noteq> CHR ''e'') ''0.0004'' = []"
    "takeWhile (\<lambda>c. c \<noteq> CHR ''.'') ''0.0004'' = ''0''" "underscored_digits ''0''" "underscored_digits ''0004''"
    "digits_val (filter is_digit (''0'' @ ''0004'')) = 4" "length (filter is_digit ''0004'') = 4"
    "py_lower (py_strip ''0.0004'') = ''0.0004''" "drop (length ''0'' + 1) ''0.0004'' = ''0004''" by code_simp+
  have "unsigned_float ''0.0004'' = Some (Finite (1 / 2500))"
    unfolding unsigned_float_def Let_def parts by (simp add: is_digit_def code_of_def power_int_def power_divide)
  then show ?thesis by (simp add: py_float_of_str_def parts(8) Let_def)
qed

lemma tiny_share_value: "number_value (JFloat ''0.0004'') = Some (Finite (7378697629483821 / 18446744073709551616))"
proof -
  have "high_bit (1 / 2500) = -12" by (simp add: high_bit_def compute_floorlog)
  moreover have "round_half_even (18446744073709551616 / 2500) = 7378697629483821" by (simp add: round_half_even_def)
  ultimately show ?thesis by (simp add: number_value_def tiny_share_text nearest_double_def power_int_def power_divide)
qed

theorem tiny_share_written_as_zero:
  "cpu_cores_ok (JFloat ''0.0004'') \<and> format_cpu (JFloat ''0.0004'') = ''0''"
proof -
  have "round_half_even (7378697629483821 / 18446744073709551616 * 1000) = 0" by (simp add: round_half_even_def)
  moreover have "rstrip_char CHR ''.'' (rstrip_char CHR ''0'' (int_str (0 div 1000) @ ''.'' @ three_digits (0 mod 1000))) = ''0''" by code_simp
  ultimately show ?thesis by (simp add: cpu_cores_ok_def format_cpu_def tiny_share_value)
qed

text \<open>When the answer to the creation holds no identifier, nothing is removed.\<close>

theorem unreadable_id_leaves_container:
  assumes "docker_verify_image decode b runner (js_image job) hist = (Inr digest, hist1)" "create_argv b own_directory job name attachment = Inr argv"
    "runner hist1 (create_command argv) = Inr out" "co_returncode out = 0" "created_id (co_stdout out) = Inl e"
  shows "docker_create decode b runner own_directory job name attachment hist = (Inl e, hist1 @ [create_command argv])"
  using assms by (simp add: docker_create_def run_required_eq decide_run_def and_then_def)

end
