(* ===== verification/LxcBackend.thy ===== *)
theory LxcBackend
  imports DockerBackend
begin

text \<open>
  The backend that runs jobs in unprivileged LXC containers (\<open>zeaz_sandbox/lxc_backend.py\<close>): the configuration
  it writes for a job, the start with the checks of what the runtime applied, and the execution, removal and
  inventory. Its state is the directories of definitions below the state root, each with its configuration or
  without one, the commands of the jobs, and the commands that were run. Parameters: the runner, the caller's user
  and group, which paths are what, and the files of AppArmor and seccomp.
\<close>

section \<open>The backend\<close>

record lxc_backend =
  lx_start :: string
  lx_stop :: string
  lx_attach :: string
  lx_info :: string
  lx_state_root :: string
  lx_profile :: string
  lx_subuid_start :: int
  lx_subgid_start :: int
  lx_job_uid :: int
  lx_images :: "string dict"

record lxc_state =
  ls_probed :: bool
  ls_definitions :: "(string \<times> string option) list"
  ls_commands :: "string list dict"
  ls_ran :: "command list"

definition safe_token :: "string \<Rightarrow> bool" where
  "safe_token s = (s \<noteq> [] \<and> length s \<le> 128 \<and> list_all (\<lambda>c. lower_alnum c \<or> c \<in> set ''_.-'') s)"

text \<open>\<open>private\<close> and \<open>trusted\<close> say which paths are accepted as the state root and as root file systems.\<close>

definition RootlessLxcBackend :: "(string \<Rightarrow> bool) \<Rightarrow> (string \<Rightarrow> bool) \<Rightarrow> (string \<Rightarrow> bool) \<Rightarrow> lxc_backend \<Rightarrow> backend_error + lxc_backend" where
  "RootlessLxcBackend executable private_root trusted b =
     bindE (backend_check (list_all executable [lx_start b, lx_stop b, lx_attach b, lx_info b]) (BackendValueError ''LXC command paths'')) (\<lambda>_.
     bindE (backend_check (private_root (lx_state_root b)) (BackendValueError ''LXC state root must be private and caller-owned'')) (\<lambda>_.
     bindE (backend_check (safe_token (lx_profile b)) (BackendValueError ''AppArmor profile is invalid'')) (\<lambda>_.
     bindE (backend_check (65536 \<le> lx_subuid_start b \<and> lx_subuid_start b \<le> 2000000000) (BackendValueError ''subuid_start is invalid'')) (\<lambda>_.
     bindE (backend_check (65536 \<le> lx_subgid_start b \<and> lx_subgid_start b \<le> 2000000000) (BackendValueError ''subgid_start is invalid'')) (\<lambda>_.
     bindE (backend_check (1 \<le> lx_job_uid b \<and> lx_job_uid b \<le> 65534) (BackendValueError ''job_uid is invalid'')) (\<lambda>_.
     bindE (backend_check (list_all (\<lambda>(_, rootfs). trusted rootfs \<and> newline \<notin> set rootfs \<and> length rootfs \<le> 2048) (lx_images b))
       (BackendValueError ''LXC rootfs'')) (\<lambda>_.
     bindE (backend_check (lx_images b \<noteq> []) (BackendValueError ''at least one digest-bound LXC image is required'')) (\<lambda>_. Inr b))))))))"

definition lxc_container_name :: "string \<Rightarrow> backend_error + string" where
  "lxc_container_name s = bindE (backend_check (container_name_ok s) (BackendValueError ''LXC container name is invalid'')) (\<lambda>_. Inr s)"

definition lxc_run :: "runner \<Rightarrow> command \<Rightarrow> lxc_state \<Rightarrow> (command_output, lxc_state) run_outcome" where
  "lxc_run runner cmd s = (runner (ls_ran s) cmd, s\<lparr>ls_ran := ls_ran s @ [cmd]\<rparr>)"

definition lxc_command :: "string list \<Rightarrow> int \<Rightarrow> int \<Rightarrow> command" where
  "lxc_command argv timeout_seconds max_stderr = \<lparr>cm_argv = argv, cm_timeout = timeout_seconds, cm_max_stdout = 4096, cm_max_stderr = max_stderr\<rparr>"

definition state_command :: "lxc_backend \<Rightarrow> string \<Rightarrow> command" where
  "state_command b name = lxc_command [lx_info b, ''--name'', name, ''--lxcpath'', lx_state_root b, ''--state'', ''--no-humanize''] 10 4096"

definition stop_command :: "lxc_backend \<Rightarrow> string \<Rightarrow> command" where
  "stop_command b name = lxc_command [lx_stop b, ''--name'', name, ''--lxcpath'', lx_state_root b, ''--kill''] 15 4096"

definition start_command :: "lxc_backend \<Rightarrow> string \<Rightarrow> command" where
  "start_command b name = lxc_command [lx_start b, ''--name'', name, ''--lxcpath'', lx_state_root b, ''--daemon''] 30 16384"

definition attach_argv :: "lxc_backend \<Rightarrow> string \<Rightarrow> string list \<Rightarrow> string list" where
  "attach_argv b name args = [lx_attach b, ''--name'', name, ''--lxcpath'', lx_state_root b, ''--uid'', int_str (lx_job_uid b), ''--gid'', int_str (lx_job_uid b),
     ''--clear-env'', ''--set-var'', ''HOME=/tmp'', ''--set-var'', ''TMPDIR=/tmp'', ''--''] @ args"

definition lxc_probe :: "lxc_backend \<Rightarrow> string option \<Rightarrow> bool \<Rightarrow> runner \<Rightarrow> lxc_state \<Rightarrow> (unit, lxc_state) run_outcome" where
  "lxc_probe b apparmor_status seccomp_policy runner s =
     and_then (decide_run (case apparmor_status of
         None \<Rightarrow> Inl (SandboxBackendError ''AppArmor runtime status is unavailable'')
       | Some t \<Rightarrow> bindE (backend_check (py_strip t = ''Y'') (SandboxBackendError ''AppArmor is not enabled'')) (\<lambda>_.
           backend_check seccomp_policy (SandboxBackendError ''LXC seccomp policy is unavailable''))) s) (\<lambda>_ s1.
     and_then (lxc_run runner (lxc_command [lx_info b, ''--version''] 10 4096) s1) (\<lambda>r s2.
     if co_returncode r \<noteq> 0 then (Inl (SandboxBackendError ''unprivileged LXC runtime is unavailable''), s2)
     else (Inr (), s2\<lparr>ls_probed := True\<rparr>)))"

definition lxc_prepare_network :: "job_spec \<Rightarrow> backend_error + network_attachment" where
  "lxc_prepare_network job =
     bindE (backend_check (sp_network_mode (js_policy job) = NetworkDisabled) (SandboxBackendError ''LXC backend supports only network-disabled jobs'')) (\<lambda>_.
     Inr \<lparr>na_docker_network = ''none'', na_proxy_url = None, na_cleanup_token = None\<rparr>)"

definition lxc_cleanup_network :: "network_attachment \<Rightarrow> backend_error + unit" where
  "lxc_cleanup_network attachment = backend_check (na_docker_network attachment = ''none'') (SandboxBackendError ''unexpected LXC network cleanup request'')"

definition lxc_verify_image :: "lxc_backend \<Rightarrow> lxc_state \<Rightarrow> string \<Rightarrow> backend_error + string" where
  "lxc_verify_image b s reference =
     bindE (backend_check (ls_probed s) (SandboxBackendError ''LXC backend has not passed its runtime probe'')) (\<lambda>_.
     bindE (backend_check (dict_has (lx_images b) reference) (SandboxBackendError ''approved LXC image is not provisioned'')) (\<lambda>_.
     case after_last ''@sha256:'' reference of None \<Rightarrow> Inl (BackendValueError ''list index out of range'') | Some digest \<Rightarrow> Inr (''sha256:'' @ digest)))"

section \<open>The configuration of a job\<close>

text \<open>Where a range of identifiers in the container begins, where it begins on the host, and its length.\<close>

definition id_ranges :: "int \<Rightarrow> int \<Rightarrow> int \<Rightarrow> (int \<times> int \<times> int) list" where
  "id_ranges sub_start job_id caller = [(0, sub_start, job_id), (job_id, caller, 1), (job_id + 1, sub_start + job_id + 1, 65536 - job_id - 1)]"

definition idmap_line :: "string \<Rightarrow> int \<times> int \<times> int \<Rightarrow> string" where
  "idmap_line kind r = (case r of (inside, host, how_many) \<Rightarrow>
     ''lxc.idmap = '' @ kind @ '' '' @ int_str inside @ '' '' @ int_str host @ '' '' @ int_str how_many)"

definition cpu_quota :: "json \<Rightarrow> int" where
  "cpu_quota v = (case number_value v of Some (Finite r) \<Rightarrow> max 1 (round_half_even (r * 100000)) | _ \<Rightarrow> 1)"

definition config_lines :: "lxc_backend \<Rightarrow> int \<Rightarrow> int \<Rightarrow> job_spec \<Rightarrow> string \<Rightarrow> string list" where
  "config_lines b uid gid job rootfs =
     (let l = sp_limits (js_policy job);
          access = ''bind,create=dir'' @ (if sp_workspace_access (js_policy job) = ReadOnly then '',ro'' else [])
      in [''lxc.include = /usr/share/lxc/config/common.conf'', ''lxc.include = /usr/share/lxc/config/userns.conf'', ''lxc.arch = linux64'',
          ''lxc.rootfs.path = dir:'' @ rootfs, ''lxc.net.0.type = empty'', ''lxc.apparmor.profile = '' @ lx_profile b, ''lxc.cap.keep = none''] @
         map (idmap_line ''u'') (id_ranges (lx_subuid_start b) (lx_job_uid b) uid) @
         map (idmap_line ''g'') (id_ranges (lx_subgid_start b) (lx_job_uid b) gid) @
         [''lxc.cgroup2.pids.max = '' @ int_str (sx_process_count l), ''lxc.cgroup2.memory.max = '' @ int_str (sx_memory_bytes l),
          ''lxc.cgroup2.memory.swap.max = 0'', ''lxc.cgroup2.cpu.max = '' @ int_str (cpu_quota (sx_cpu_cores l)) @ '' 100000'',
          ''lxc.prlimit.fsize = '' @ int_str (sx_file_bytes l), ''lxc.prlimit.nofile = 1024'',
          ''lxc.mount.entry = '' @ js_workspace job @ '' workspace none '' @ access @ '' 0 0'',
          ''lxc.mount.entry = tmpfs tmp tmpfs rw,nosuid,nodev,noexec,size='' @ int_str (sx_temporary_bytes l) @ '',mode=1777,create=dir 0 0'',
          ''lxc.mount.entry = tmpfs run tmpfs rw,nosuid,nodev,noexec,size=4194304,mode=755,create=dir 0 0''])"

definition render_config :: "lxc_backend \<Rightarrow> int \<Rightarrow> int \<Rightarrow> job_spec \<Rightarrow> string \<Rightarrow> string" where
  "render_config b uid gid job rootfs = py_join [newline] (config_lines b uid gid job rootfs) @ [newline]"

section \<open>Containers\<close>

definition container_state :: "lxc_backend \<Rightarrow> runner \<Rightarrow> string \<Rightarrow> lxc_state \<Rightarrow> (string option, lxc_state) run_outcome" where
  "container_state b runner name s =
     and_then (lxc_run runner (state_command b name) s) (\<lambda>r. decide_run
       (if co_returncode r \<noteq> 0 then Inr None
        else if ascii_only (co_stdout r) then Inr (Some (py_strip (co_stdout r)))
        else Inl (SandboxBackendError ''LXC state metadata is invalid'')))"

definition stop_if_present :: "lxc_backend \<Rightarrow> runner \<Rightarrow> string \<Rightarrow> lxc_state \<Rightarrow> (unit, lxc_state) run_outcome" where
  "stop_if_present b runner name s =
     and_then (container_state b runner name s) (\<lambda>now s1.
     if now = None \<or> now = Some ''STOPPED'' then (Inr (), s1)
     else if now \<noteq> Some ''RUNNING'' then (Inl (SandboxBackendError ''LXC container has an unsafe runtime state''), s1)
     else
       and_then (lxc_run runner (stop_command b name) s1) (\<lambda>r s2.
       if co_returncode r \<noteq> 0 then (Inl (SandboxBackendError ''LXC container could not be stopped''), s2)
       else
         and_then (container_state b runner name s2) (\<lambda>after. decide_run
           (backend_check (after = Some ''STOPPED'') (SandboxBackendError ''LXC container could not be stopped'')))))"

text \<open>Without its configuration a definition is not removed: the missing file ends the removal.\<close>

definition remove_definition :: "string \<Rightarrow> lxc_state \<Rightarrow> lxc_state" where
  "remove_definition name s = (case map_of (ls_definitions s) name of
     Some (Some _) \<Rightarrow> s\<lparr>ls_definitions := AList.delete name (ls_definitions s)\<rparr>
   | _ \<Rightarrow> s)"

definition attach_capture :: "lxc_backend \<Rightarrow> runner \<Rightarrow> string \<Rightarrow> string list \<Rightarrow> lxc_state \<Rightarrow> (string, lxc_state) run_outcome" where
  "attach_capture b runner name args s =
     and_then (lxc_run runner (lxc_command (attach_argv b name args) 10 4096) s) (\<lambda>r. decide_run
       (bindE (backend_check (co_returncode r = 0) (SandboxBackendError ''LXC isolation probe failed'')) (\<lambda>_.
        bindE (backend_check (ascii_only (co_stdout r)) (SandboxBackendError ''LXC isolation probe returned invalid data'')) (\<lambda>_.
        Inr (py_strip (co_stdout r))))))"

definition tab :: char where
  "tab = char_of (9 :: nat)"

definition no_effective_capabilities :: string where
  "no_effective_capabilities = ''CapEff:'' @ [tab] @ ''0000000000000000''"

definition isolation_applied :: "lxc_backend \<Rightarrow> job_spec \<Rightarrow> string \<times> string \<times> string \<times> string \<Rightarrow> bool" where
  "isolation_applied b job actual = (case actual of (profile, status, pids, memory) \<Rightarrow>
     profile = lx_profile b @ '' (enforce)'' \<and> contains no_effective_capabilities status \<and>
     pids = int_str (sx_process_count (sp_limits (js_policy job))) \<and> memory = int_str (sx_memory_bytes (sp_limits (js_policy job))))"

text \<open>\<open>bytes.strip\<close> drops the six ASCII spaces; \<open>str.strip\<close>, used on decoded answers, drops more.\<close>

definition byte_space :: "char \<Rightarrow> bool" where
  "byte_space c = (c = CHR '' '' \<or> 9 \<le> code_of c \<and> code_of c \<le> 13)"

definition bytes_strip :: "string \<Rightarrow> string" where
  "bytes_strip s = rev (dropWhile byte_space (rev (dropWhile byte_space s)))"

definition verify_started :: "lxc_backend \<Rightarrow> runner \<Rightarrow> string \<Rightarrow> job_spec \<Rightarrow> lxc_state \<Rightarrow> (unit, lxc_state) run_outcome" where
  "verify_started b runner name job s =
     and_then (lxc_run runner (state_command b name) s) (\<lambda>r s1.
     if co_returncode r \<noteq> 0 \<or> bytes_strip (co_stdout r) \<noteq> ''RUNNING'' then (Inl (SandboxBackendError ''LXC container did not reach running state''), s1)
     else
       and_then (attach_capture b runner name [''/bin/cat'', ''/proc/self/attr/current''] s1) (\<lambda>profile s2.
       and_then (attach_capture b runner name [''/bin/cat'', ''/proc/self/status''] s2) (\<lambda>status s3.
       and_then (attach_capture b runner name [''/bin/cat'', ''/sys/fs/cgroup/pids.max''] s3) (\<lambda>pids s4.
       and_then (attach_capture b runner name [''/bin/cat'', ''/sys/fs/cgroup/memory.max''] s4) (\<lambda>memory. decide_run
         (backend_check (isolation_applied b job (profile, status, pids, memory))
           (SandboxBackendError ''LXC runtime did not apply the required isolation policy'')))))))"

text \<open>The start of a definition that was just made; when it fails the container is stopped and the definition removed.\<close>

definition start_definition :: "lxc_backend \<Rightarrow> runner \<Rightarrow> string \<Rightarrow> job_spec \<Rightarrow> lxc_state \<Rightarrow> (unit, lxc_state) run_outcome" where
  "start_definition b runner name job s =
     and_then (lxc_run runner (start_command b name) s) (\<lambda>r s1.
     if co_returncode r \<noteq> 0 then (Inl (SandboxBackendError ''LXC container failed to start''), s1) else verify_started b runner name job s1)"

text \<open>
  \<open>written\<close> says whether the configuration could be written; when it could not, the directory of the definition
  is there without it.
\<close>

definition define_container :: "string \<Rightarrow> string option \<Rightarrow> lxc_state \<Rightarrow> lxc_state" where
  "define_container name config s = s\<lparr>ls_definitions := (name, config) # ls_definitions s\<rparr>"

definition may_create :: "lxc_backend \<Rightarrow> (string \<Rightarrow> bool) \<Rightarrow> job_spec \<Rightarrow> string \<Rightarrow> network_attachment \<Rightarrow> lxc_state \<Rightarrow> backend_error + unit" where
  "may_create b own_directory job container_name attachment s =
     bindE (lxc_verify_image b s (js_image job)) (\<lambda>_.
     bindE (backend_check (na_docker_network attachment = ''none'' \<and> na_proxy_url attachment = None) (SandboxBackendError ''LXC network attachment is unsafe'')) (\<lambda>_.
     bindE (backend_check (sp_apparmor_profile (js_policy job) = lx_profile b) (SandboxBackendError ''requested LXC AppArmor profile is not allowed'')) (\<lambda>_.
     bindE (lxc_container_name container_name) (\<lambda>name.
     bindE (backend_check (own_directory (js_workspace job)) (SandboxBackendError ''workspace must be a real caller-owned directory'')) (\<lambda>_.
     backend_check (map_of (ls_definitions s) name = None) (SandboxBackendError ''LXC job definition already exists''))))))"

definition lxc_create ::
  "lxc_backend \<Rightarrow> int \<Rightarrow> int \<Rightarrow> (string \<Rightarrow> bool) \<Rightarrow> bool \<Rightarrow> runner \<Rightarrow> job_spec \<Rightarrow> string \<Rightarrow> network_attachment \<Rightarrow> lxc_state \<Rightarrow> (string, lxc_state) run_outcome" where
  "lxc_create b uid gid own_directory written runner job name attachment s =
     and_then (decide_run (may_create b own_directory job name attachment s) s) (\<lambda>_ s1.
     let config = render_config b uid gid job (dict_get_default (lx_images b) (js_image job) []) in
     (case (if written then start_definition b runner name job (define_container name (Some config) s1)
            else (Inl BackendOSError, define_container name None s1)) of
        (Inr _, s2) \<Rightarrow> (Inr name, s2\<lparr>ls_commands := dict_set name (js_command job) (ls_commands s2)\<rparr>)
      | (Inl e, s2) \<Rightarrow> and_then (stop_if_present b runner name s2) (\<lambda>_ s3. (Inl e, remove_definition name s3))))"

definition lxc_remove :: "lxc_backend \<Rightarrow> runner \<Rightarrow> string \<Rightarrow> lxc_state \<Rightarrow> (unit, lxc_state) run_outcome" where
  "lxc_remove b runner container_id s =
     and_then (decide_run (lxc_container_name container_id) s) (\<lambda>name s1.
     and_then (stop_if_present b runner name s1) (\<lambda>_ s2.
     (Inr (), remove_definition name (s2\<lparr>ls_commands := AList.delete name (ls_commands s2)\<rparr>))))"

definition lxc_containers :: "lxc_state \<Rightarrow> string list" where
  "lxc_containers s = sort (filter container_name_ok (map fst (ls_definitions s)))"

definition lxc_stop_reason :: "watched \<Rightarrow> stop_reason \<times> int option" where
  "lxc_stop_reason w =
     (if wt_nothing w then (StopTimedOut, None)
      else if wt_cancelled w then (StopCancelled, None)
      else if wt_output_limit w then (OutputLimit, None)
      else if wt_readers w = Some True then (OutputFailure, None)
      else exited_with (wt_exit_code w))"

definition lxc_execute :: "lxc_backend \<Rightarrow> runner \<Rightarrow> string \<Rightarrow> attached_run \<Rightarrow> lxc_state \<Rightarrow> (container_result, lxc_state) run_outcome" where
  "lxc_execute b runner container_id a s =
     and_then (decide_run (
       bindE (lxc_container_name container_id) (\<lambda>name.
       bindE (backend_check (dict_has (ls_commands s) name) (SandboxBackendError ''LXC job command is unavailable'')) (\<lambda>_.
       bindE (backend_check (ar_starts a) (SandboxBackendError ''LXC job failed to start'')) (\<lambda>_.
       bindE (backend_check (ar_pipes a) (SandboxBackendError ''LXC output pipes are unavailable'')) (\<lambda>_. Inr name))))) s) (\<lambda>name s1.
     let (reason, exit_code) = lxc_stop_reason (ar_watched a) in
     and_then (if reason \<noteq> Exited then stop_if_present b runner name s1 else (Inr (), s1)) (\<lambda>_. decide_run
     (case ar_streamer a of
        None \<Rightarrow> Inl BackendSinkError
      | Some (stdout_bytes, stderr_bytes, truncated) \<Rightarrow>
          Inr \<lparr>cr_reason = reason, cr_exit_code = exit_code, cr_stdout_bytes = stdout_bytes, cr_stderr_bytes = stderr_bytes, cr_output_truncated = truncated\<rparr>)))"

section \<open>A start that returns was verified\<close>

text \<open>The commands of a start that gets as far as its last check.\<close>

definition probe_command :: "lxc_backend \<Rightarrow> string \<Rightarrow> string \<Rightarrow> command" where
  "probe_command b name path = lxc_command (attach_argv b name [''/bin/cat'', path]) 10 4096"

definition shown :: "runner \<Rightarrow> command list \<Rightarrow> command \<Rightarrow> string \<Rightarrow> bool" where
  "shown runner hist cmd t = (case runner hist cmd of Inr out \<Rightarrow> co_returncode out = 0 \<and> ascii_only (co_stdout out) \<and> py_strip (co_stdout out) = t | Inl _ \<Rightarrow> False)"

text \<open>The last command asked for the state of the container, and the answer was that it is stopped or that there is none.\<close>

definition seen_stopped :: "lxc_backend \<Rightarrow> runner \<Rightarrow> string \<Rightarrow> lxc_state \<Rightarrow> bool" where
  "seen_stopped b runner name s = (ls_ran s \<noteq> [] \<and> last (ls_ran s) = state_command b name \<and>
     (case runner (butlast (ls_ran s)) (state_command b name) of
        Inr out \<Rightarrow> co_returncode out \<noteq> 0 \<or> py_strip (co_stdout out) = ''STOPPED''
      | Inl _ \<Rightarrow> False))"

text \<open>What a step leaves alone: it only adds to the commands that were run.\<close>

definition only_ran :: "lxc_state \<Rightarrow> lxc_state \<Rightarrow> bool" where
  "only_ran s s' = (\<exists>added. s' = s\<lparr>ls_ran := ls_ran s @ added\<rparr>)"

lemma only_ran_refl [simp]: "only_ran s s"
  by (auto simp: only_ran_def intro!: exI[of _ "[]"])

lemma only_ran_trans: "only_ran s s1 \<Longrightarrow> only_ran s1 s2 \<Longrightarrow> only_ran s s2"
  by (auto simp: only_ran_def)

lemma only_ran_same: "only_ran s s' \<Longrightarrow> ls_definitions s' = ls_definitions s \<and> ls_commands s' = ls_commands s \<and> ls_probed s' = ls_probed s"
  by (auto simp: only_ran_def)

lemma lxc_run_only: "only_ran s (snd (lxc_run runner cmd s))"
  by (auto simp: only_ran_def lxc_run_def)

lemma decide_run_only: "only_ran s (snd (decide_run x s))"
  by (simp add: decide_run_def)

lemma and_then_only:
  assumes "only_ran s (snd r)" "\<And>x. fst r = Inr x \<Longrightarrow> only_ran (snd r) (snd (f x (snd r)))"
  shows "only_ran s (snd (and_then r f))"
  using assms by (cases r) (auto simp: and_then_def split: sum.splits intro: only_ran_trans)

lemmas only_intros = and_then_only lxc_run_only decide_run_only

lemma container_state_only: "only_ran s (snd (container_state b runner name s))"
  unfolding container_state_def by (intro only_intros)

lemma stop_if_present_only: "only_ran s (snd (stop_if_present b runner name s))"
  unfolding stop_if_present_def by (auto intro!: only_intros container_state_only)

lemma attach_capture_only: "only_ran s (snd (attach_capture b runner name args s))"
  unfolding attach_capture_def by (intro only_intros)

lemma start_definition_only: "only_ran s (snd (start_definition b runner name job s))"
  unfolding start_definition_def verify_started_def by (auto intro!: only_intros attach_capture_only)

lemma container_state_ran:
  "container_state b runner name s = (Inr now, s') \<Longrightarrow> now = None \<or> now = Some ''STOPPED'' \<Longrightarrow> seen_stopped b runner name s'"
  by (auto simp: container_state_def lxc_run_def decide_run_def seen_stopped_def res_simps split: if_splits)

lemma stop_if_present_stopped: "stop_if_present b runner name s = (Inr u, s') \<Longrightarrow> seen_stopped b runner name s'"
  by (auto simp: stop_if_present_def decide_run_def res_simps split: if_splits dest!: container_state_ran)

lemma attach_capture_shown:
  "attach_capture b runner name [''/bin/cat'', path] s = (Inr t, s') \<Longrightarrow>
     s' = s\<lparr>ls_ran := ls_ran s @ [probe_command b name path]\<rparr> \<and> shown runner (ls_ran s) (probe_command b name path) t"
  by (auto simp: attach_capture_def lxc_run_def decide_run_def shown_def probe_command_def res_simps split: sum.splits)

text \<open>The commands of a start, in order, and what the last four of them answered.\<close>

definition started_commands :: "lxc_backend \<Rightarrow> string \<Rightarrow> command list" where
  "started_commands b name = [start_command b name, state_command b name, probe_command b name ''/proc/self/attr/current'',
     probe_command b name ''/proc/self/status'', probe_command b name ''/sys/fs/cgroup/pids.max'', probe_command b name ''/sys/fs/cgroup/memory.max'']"

definition policy_shown :: "lxc_backend \<Rightarrow> runner \<Rightarrow> string \<Rightarrow> job_spec \<Rightarrow> command list \<Rightarrow> bool" where
  "policy_shown b runner name job hist =
     (let limits = sp_limits (js_policy job); at_step = (\<lambda>k. hist @ take k (started_commands b name)) in
      shown runner (at_step 2) (probe_command b name ''/proc/self/attr/current'') (lx_profile b @ '' (enforce)'') \<and>
      (\<exists>status. shown runner (at_step 3) (probe_command b name ''/proc/self/status'') status \<and> contains no_effective_capabilities status) \<and>
      shown runner (at_step 4) (probe_command b name ''/sys/fs/cgroup/pids.max'') (int_str (sx_process_count limits)) \<and>
      shown runner (at_step 5) (probe_command b name ''/sys/fs/cgroup/memory.max'') (int_str (sx_memory_bytes limits)))"

lemma start_definition_shown:
  assumes "start_definition b runner name job s = (Inr u, s')"
  shows "s' = s\<lparr>ls_ran := ls_ran s @ started_commands b name\<rparr> \<and> policy_shown b runner name job (ls_ran s)"
  using assms
  by (auto simp: start_definition_def verify_started_def lxc_run_def decide_run_def isolation_applied_def policy_shown_def started_commands_def Let_def res_simps
      split: if_splits dest!: attach_capture_shown)

lemma may_create_free: "may_create b own_directory job name attachment s = Inr u \<Longrightarrow>
    ls_probed s \<and> dict_has (lx_images b) (js_image job) \<and> map_of (ls_definitions s) name = None \<and> container_name_ok name"
  by (auto simp: may_create_def lxc_verify_image_def lxc_container_name_def res_simps split: option.splits)

lemma remove_new_definition:
  "map_of (ls_definitions s) name = None \<Longrightarrow> ls_definitions s' = (name, Some config) # ls_definitions s \<Longrightarrow>
     ls_definitions (remove_definition name s') = ls_definitions s"
  by (simp add: remove_definition_def delete_conv) (simp add: filter_id_conv map_of_eq_None_iff)

lemma remove_definition_keeps [simp]:
  "ls_commands (remove_definition name s) = ls_commands s" "ls_ran (remove_definition name s) = ls_ran s"
  by (auto simp: remove_definition_def split: option.splits)

lemma undone_start:
  assumes "map_of (ls_definitions s) name = None" "only_ran (define_container name config s) s'"
      "stop_if_present b runner name s2 = (Inr u, s')"
  shows "ls_commands (remove_definition name s') = ls_commands s \<and> seen_stopped b runner name (remove_definition name s') \<and>
     ls_definitions (remove_definition name s') = (case config of Some _ \<Rightarrow> ls_definitions s | None \<Rightarrow> (name, None) # ls_definitions s)"
proof -
  have same: "ls_definitions s' = (name, config) # ls_definitions s" "ls_commands s' = ls_commands s"
    using only_ran_same[OF assms(2)] by (simp_all add: define_container_def)
  have "ls_definitions (remove_definition name s') = (name, None) # ls_definitions s" if "config = None"
    using same that by (simp add: remove_definition_def)
  then show ?thesis using same stop_if_present_stopped[OF assms(3)] remove_new_definition[OF assms(1)]
    by (auto simp: seen_stopped_def split: option.splits)
qed


lemma int_str_chars: "list_all (\<lambda>c. 45 \<le> code_of c \<and> code_of c \<le> 57) (int_str i)"
proof -
  have "list_all (\<lambda>c. 45 \<le> code_of c \<and> code_of c \<le> 57) (nat_str n)" for n
    using nat_str_digits[of n] by (auto simp: list_all_iff is_digit_def)
  then show ?thesis by (simp add: int_str_def code_of_def)
qed

definition demo_lxc :: lxc_backend where
  "demo_lxc = \<lparr>lx_start = ''/usr/bin/lxc-start'', lx_stop = ''/usr/bin/lxc-stop'', lx_attach = ''/usr/bin/lxc-attach'', lx_info = ''/usr/bin/lxc-info'',
     lx_state_root = ''/state'', lx_profile = ''lxc-container-default-cgns'', lx_subuid_start = 100000, lx_subgid_start = 100000, lx_job_uid = 65532,
     lx_images = [(js_image demo_job_spec, ''/images/job'')]\<rparr>"

definition demo_lxc_job :: job_spec where
  "demo_lxc_job = demo_job_spec\<lparr>js_workspace := ''/home/u/w'' @ newline # ''lxc.cap.keep = sys_admin'' @ newline # ''#'',
     js_policy := (js_policy demo_job_spec)\<lparr>sp_apparmor_profile := ''lxc-container-default-cgns''\<rparr>\<rparr>"

definition demo_lxc_state :: lxc_state where
  "demo_lxc_state = \<lparr>ls_probed = True, ls_definitions = [], ls_commands = [], ls_ran = []\<rparr>"

text \<open>A runtime that applies the policy and stops a container when asked to, with a given AppArmor profile in force.\<close>

definition demo_lxc_runner :: "string \<Rightarrow> runner" where
  "demo_lxc_runner profile hist cmd =
     (let asked = last (cm_argv cmd);
          stopped = list_ex (\<lambda>c. last (cm_argv c) = ''--kill'') hist in
      Inr \<lparr>co_returncode = 0,
        co_stdout = (if asked = ''--no-humanize'' then (if stopped then ''STOPPED'' else ''RUNNING'')
          else if asked = ''/proc/self/attr/current'' then profile
          else if asked = ''/proc/self/status'' then no_effective_capabilities
          else if asked = ''/sys/fs/cgroup/pids.max'' then int_str 8
          else if asked = ''/sys/fs/cgroup/memory.max'' then int_str 16777216 else []), co_stderr = []\<rparr>)"

lemma int_str_plain: "c \<in> set (int_str i) \<Longrightarrow> 45 \<le> code_of c \<and> code_of c \<le> 57"
  using int_str_chars[of i] by (auto simp: list_all_iff)

lemma py_strip_plain:
  assumes "\<And>c. c \<in> set s \<Longrightarrow> \<not> py_space c"
  shows "py_strip s = s"
proof -
  have "dropWhile py_space s = s" "dropWhile py_space (rev s) = rev s"
    using assms by (auto simp: dropWhile_eq_self_iff hd_rev)
  then show ?thesis by (simp add: py_strip_def py_lstrip_def py_rstrip_def)
qed

lemma int_str_answer: "ascii_only (int_str i) \<and> py_strip (int_str i) = int_str i"
  by (auto simp: ascii_only_def list_all_iff py_space_def intro!: py_strip_plain dest: int_str_plain)

lemma demo_lxc_strips:
  "bytes_strip ''RUNNING'' = ''RUNNING''" "py_strip ''RUNNING'' = ''RUNNING''" "py_strip ''STOPPED'' = ''STOPPED''"
  "ascii_only ''RUNNING''" "ascii_only ''STOPPED''"
  "py_strip ''lxc-container-default-cgns (enforce)'' = ''lxc-container-default-cgns (enforce)''" "ascii_only ''lxc-container-default-cgns (enforce)''"
  "py_strip ''unconfined'' = ''unconfined''" "ascii_only ''unconfined''"
  "py_strip no_effective_capabilities = no_effective_capabilities" "ascii_only no_effective_capabilities" "contains no_effective_capabilities no_effective_capabilities"
  "container_name_ok ''zeaz-job-1''" "after_last ''@sha256:'' (js_image demo_lxc_job) = Some (replicate 64 CHR ''b'')"
  by code_simp+

lemma demo_lxc_may:
  "may_create demo_lxc (\<lambda>_. True) demo_lxc_job ''zeaz-job-1'' demo_none demo_lxc_state = Inr ()"
  using demo_lxc_strips(13,14)
  by (simp add: may_create_def lxc_verify_image_def lxc_container_name_def backend_check_def demo_lxc_state_def demo_none_def demo_lxc_def demo_lxc_job_def
      dict_has_def)

lemma demo_lxc_limits: "sp_limits (js_policy demo_lxc_job) = sp_limits (js_policy demo_egress_job)"
    "sx_process_count (sp_limits (js_policy demo_egress_job)) = 8" "sx_memory_bytes (sp_limits (js_policy demo_egress_job)) = 16777216"
  by (simp_all add: demo_lxc_job_def demo_job_spec_def demo_egress_job_def)

lemmas demo_lxc_steps = demo_lxc_strips int_str_answer demo_lxc_limits start_definition_def verify_started_def attach_capture_def stop_if_present_def
  container_state_def lxc_run_def demo_lxc_runner_def decide_run_def backend_check_def isolation_applied_def start_command_def state_command_def
  stop_command_def lxc_command_def attach_argv_def define_container_def

lemma demo_lxc_profile: "lx_profile demo_lxc = ''lxc-container-default-cgns''"
  by (simp add: demo_lxc_def)

lemma demo_lxc_empty: "ls_ran demo_lxc_state = []" "ls_definitions demo_lxc_state = []" "ls_commands demo_lxc_state = []"
  by (simp_all add: demo_lxc_state_def)

lemma demo_lxc_outcomes:
  "fst (lxc_create demo_lxc 1000 1000 (\<lambda>_. True) True (demo_lxc_runner ''lxc-container-default-cgns (enforce)'') demo_lxc_job ''zeaz-job-1'' demo_none demo_lxc_state)
     = Inr ''zeaz-job-1''"
  "fst (lxc_create demo_lxc 1000 1000 (\<lambda>_. True) True (demo_lxc_runner ''unconfined'') demo_lxc_job ''zeaz-job-1'' demo_none demo_lxc_state)
     = Inl (SandboxBackendError ''LXC runtime did not apply the required isolation policy'')"
  by (simp_all add: lxc_create_def demo_lxc_may demo_lxc_steps demo_lxc_profile demo_lxc_empty)


text \<open>A container is removed only after it was last seen stopped or absent.\<close>

theorem lxc_removed_when_stopped:
  assumes "lxc_remove b runner name s = (r, s')"
  shows "case r of
     Inr _ \<Rightarrow> seen_stopped b runner name s' \<and> dict_get (ls_commands s') name = None \<and>
       (\<forall>other. other \<noteq> name \<longrightarrow> map_of (ls_definitions s') other = map_of (ls_definitions s) other \<and> dict_get (ls_commands s') other = dict_get (ls_commands s) other)
   | Inl _ \<Rightarrow> ls_definitions s' = ls_definitions s \<and> ls_commands s' = ls_commands s"
proof -
  obtain q s2 where stop: "stop_if_present b runner name s = (q, s2)" by fastforce
  have same: "ls_definitions s2 = ls_definitions s \<and> ls_commands s2 = ls_commands s" 
    using only_ran_same[OF stop_if_present_only[of s b runner name]] stop by simp
  have kept: "map_of (ls_definitions (remove_definition name t)) other = map_of (ls_definitions t) other" if "other \<noteq> name" for other t
    using that by (auto simp: remove_definition_def delete_conv' split: option.splits)
  show ?thesis using assms stop same kept
    by (cases q) (auto simp: lxc_remove_def decide_run_def lxc_container_name_def backend_check_def and_then_def seen_stopped_def dict_get_def delete_conv'
      split: if_splits dest!: stop_if_present_stopped)
qed

section \<open>The configuration\<close>

text \<open>The identifiers of the host that the ranges give an identifier of the container.\<close>

definition mapped_ids :: "(int \<times> int \<times> int) list \<Rightarrow> int \<Rightarrow> int list" where
  "mapped_ids ranges i = concat (map (\<lambda>(inside, host, how_many). if inside \<le> i \<and> i < inside + how_many then [host + (i - inside)] else []) ranges)"

theorem ids_mapped_once:
  assumes "RootlessLxcBackend executable private_root trusted b = Inr b'" "0 \<le> i" "i < 65536"
  shows "mapped_ids (id_ranges (lx_subuid_start b') (lx_job_uid b') uid) i = [if i = lx_job_uid b' then uid else lx_subuid_start b' + i]"
  using assms by (auto simp: RootlessLxcBackend_def mapped_ids_def id_ranges_def res_simps)

lemma newline_code: "code_of newline = 10"
  by code_simp

lemma int_str_line: "newline \<notin> set (int_str i)"
  using int_str_plain[of newline i] newline_code by auto

lemma py_join_last: "ps \<noteq> [] \<Longrightarrow> py_join sep (ps @ [[]]) = py_join sep ps @ sep"
  by (induction sep ps rule: py_join.induct) auto

lemma config_lines_some: "config_lines b uid gid job rootfs \<noteq> []"
  by (simp add: config_lines_def Let_def)

lemma py_join_member: "x \<in> set ps \<Longrightarrow> \<exists>p q. py_join sep ps = p @ x @ q"
proof (induction sep ps rule: py_join.induct)
  case (3 sep s t ts)
  then consider "py_join sep (s # t # ts) = [] @ x @ (sep @ py_join sep (t # ts))" | p q where "py_join sep (s # t # ts) = (s @ sep @ p) @ x @ q" by auto
  then show ?case by cases blast+
qed (auto intro: exI[of _ "[]"])

lemma workspace_line: "\<exists>l1 l2. l1 @ js_workspace job @ l2 \<in> set (config_lines b uid gid job rootfs)"
proof -
  have "(''lxc.mount.entry = '' @ js_workspace job @ '' workspace none '' @ access) \<in> set (config_lines b uid gid job rootfs)"
    if "access = (''bind,create=dir'' @ (if sp_workspace_access (js_policy job) = ReadOnly then '',ro'' else [])) @ '' 0 0''" for access
    using that by (simp add: config_lines_def Let_def)
  then show ?thesis by blast
qed

lemma workspace_rendered:
  assumes "js_workspace job = p @ [newline] @ t @ [newline] @ q"
  shows "\<exists>before after. render_config b uid gid job rootfs = before @ [newline] @ t @ [newline] @ after"
proof -
  obtain l1 l2 where "l1 @ js_workspace job @ l2 \<in> set (config_lines b uid gid job rootfs)" using workspace_line by blast
  from py_join_member[OF this, of "[newline]"] obtain p2 q2
    where "render_config b uid gid job rootfs = (p2 @ l1 @ p) @ [newline] @ t @ [newline] @ (q @ l2 @ q2 @ [newline])"
    using assms by (auto simp: render_config_def)
  then show ?thesis by blast
qed

text \<open>
  The lines of the configuration are the intended ones when neither the root file system nor the workspace holds a
  line break; for the first this is checked, for the second it is not.
\<close>

theorem config_as_rendered:
  assumes "newline \<notin> set (js_workspace job)" "newline \<notin> set rootfs" "safe_token (lx_profile b)"
  shows "split_char newline (render_config b uid gid job rootfs) = config_lines b uid gid job rootfs @ [[]]"
proof -
  let ?lines = "config_lines b uid gid job rootfs"
  have "\<not> (lower_alnum newline \<or> newline \<in> set ''_.-'')" by code_simp
  then have "newline \<notin> set (lx_profile b)" using assms(3) unfolding safe_token_def list_all_iff by blast
  then have plain: "newline \<notin> set p" if "p \<in> set ?lines" for p
    using that assms int_str_line newline_code by (auto simp: config_lines_def Let_def idmap_line_def id_ranges_def code_of_def split: if_splits)
  have "render_config b uid gid job rootfs = py_join [newline] (?lines @ [[]])"
    by (simp add: render_config_def py_join_last config_lines_some)
  then show ?thesis using plain by (simp only:) (rule split_char_join, auto)
qed

text \<open>A job that passes every check gives its container a line of its own choice by the name of its workspace.\<close>

theorem workspace_line_break_adds_setting:
  "JobSpec demo_lxc_job = Inr demo_lxc_job \<and>
   (\<exists>before after. render_config b uid gid demo_lxc_job rootfs = before @ [newline] @ ''lxc.cap.keep = sys_admin'' @ [newline] @ after)"
proof
  have "image_reference (js_image demo_lxc_job)" "list_all (\<lambda>a. nul \<notin> set a) (js_command demo_lxc_job)" "nul \<notin> set (js_workspace demo_lxc_job)"
    "starts_with ''/'' (js_workspace demo_lxc_job)" "\<not> list_ex (\<lambda>part. part \<in> {''.'', ''..''}) (split_char CHR ''/'' (js_workspace demo_lxc_job))"
    "utf8_encode ''run'' = ''run''" by code_simp+
  moreover have "js_command demo_lxc_job = [''run'']" by (simp add: demo_lxc_job_def demo_job_spec_def demo_egress_job_def)
  ultimately show "JobSpec demo_lxc_job = Inr demo_lxc_job" by (simp add: JobSpec_def check_def)
  have "js_workspace demo_lxc_job = ''/home/u/w'' @ [newline] @ ''lxc.cap.keep = sys_admin'' @ [newline] @ ''#''" by (simp add: demo_lxc_job_def)
  then show "\<exists>before after. render_config b uid gid demo_lxc_job rootfs = before @ [newline] @ ''lxc.cap.keep = sys_admin'' @ [newline] @ after"
    by (rule workspace_rendered)
qed

text \<open>A definition whose configuration was never written is not removed by any removal, and its name cannot be used again.\<close>

theorem definition_without_config_stays:
  assumes "map_of (ls_definitions s) name = Some None"
  shows "map_of (ls_definitions (snd (lxc_remove b runner name s))) name = Some None"
    "\<exists>e. fst (lxc_create b uid gid own_directory written runner job name attachment s) = Inl e"
proof -
  obtain q s2 where stop: "stop_if_present b runner name s = (q, s2)" by fastforce
  then have "map_of (ls_definitions s2) name = Some None" using assms only_ran_same[OF stop_if_present_only[of s b runner name]] by simp
  then show "map_of (ls_definitions (snd (lxc_remove b runner name s))) name = Some None"
    using assms stop by (cases q) (auto simp: lxc_remove_def decide_run_def lxc_container_name_def backend_check_def remove_definition_def)
  obtain e where "may_create b own_directory job name attachment s = Inl e"
    using may_create_free[of b own_directory job name attachment s] assms by (cases "may_create b own_directory job name attachment s") auto
  then show "\<exists>e. fst (lxc_create b uid gid own_directory written runner job name attachment s) = Inl e"
    by (simp add: lxc_create_def decide_run_def)
qed

end
