(* ===== verification/SandboxRuntime.thy ===== *)
theory SandboxRuntime
  imports SandboxService LxcBackend
begin

text \<open>
  The sandbox service (\<open>zeaz_sandbox/service.py\<close>) on its two backends: what the service relies on in a backend is a
  locale, which the Docker backend and the LXC backend satisfy, and with either of them every admitted job ends with a
  receipt.
\<close>

section \<open>A backend as the service calls it\<close>

definition backend_call_end :: "bool \<Rightarrow> ('a, 's) run_outcome \<Rightarrow> 'a backend_end" where
  "backend_call_end cancelled r = (if cancelled then TaskCancelled else case fst r of Inr x \<Rightarrow> Returned x | Inl (SandboxBackendError _) \<Rightarrow> BackendFailed | Inl _ \<Rightarrow> CallFailed)"

text \<open>
  Each of the five calls of a job finds a state of its own, since other jobs use the backend in between, and may be
  interrupted by a cancellation of the job's task (\<open>jg_cancelled\<close> has the numbers of these calls). The process of the
  execution, with its waits and its streamer, is given by the container and the time limit.
\<close>

record 's job_stages =
  jg_prepare :: 's
  jg_create :: 's
  jg_execute :: 's
  jg_remove :: 's
  jg_cleanup :: 's
  jg_cancelled :: "nat list"

definition service_backend ::
  "(job_spec \<Rightarrow> 's \<Rightarrow> (network_attachment, 's) run_outcome) \<Rightarrow> (job_spec \<Rightarrow> string \<Rightarrow> network_attachment \<Rightarrow> 's \<Rightarrow> (string, 's) run_outcome) \<Rightarrow>
   (string \<Rightarrow> attached_run \<Rightarrow> 's \<Rightarrow> (container_result, 's) run_outcome) \<Rightarrow> (string \<Rightarrow> 's \<Rightarrow> (unit, 's) run_outcome) \<Rightarrow>
   (network_attachment \<Rightarrow> 's \<Rightarrow> (unit, 's) run_outcome) \<Rightarrow> (string \<Rightarrow> int \<Rightarrow> attached_run) \<Rightarrow> 's job_stages \<Rightarrow> sandbox_backend" where
  "service_backend prepare create execute remove cleanup attached g =
     \<lparr>bk_prepare = (\<lambda>job. backend_call_end (0 \<in> set (jg_cancelled g)) (prepare job (jg_prepare g))),
      bk_create = (\<lambda>job name attachment. backend_call_end (1 \<in> set (jg_cancelled g)) (create job name attachment (jg_create g))),
      bk_execute = (\<lambda>i seconds. backend_call_end (2 \<in> set (jg_cancelled g)) (execute i (attached i seconds) (jg_execute g))),
      bk_remove = (\<lambda>i. backend_call_end (3 \<in> set (jg_cancelled g)) (remove i (jg_remove g))),
      bk_cleanup = (\<lambda>attachment. backend_call_end (4 \<in> set (jg_cancelled g)) (cleanup attachment (jg_cleanup g)))\<rparr>"

definition docker_service ::
  "(string \<Rightarrow> string option) \<Rightarrow> docker_backend \<Rightarrow> runner \<Rightarrow> (string \<Rightarrow> bool) \<Rightarrow> (string \<Rightarrow> int \<Rightarrow> attached_run) \<Rightarrow> command list job_stages \<Rightarrow> sandbox_backend" where
  "docker_service decode b runner own_directory =
     service_backend (docker_prepare_network decode b runner) (docker_create decode b runner own_directory) (docker_execute b runner)
       (docker_remove b runner) (docker_cleanup_network b runner)"

definition lxc_service ::
  "lxc_backend \<Rightarrow> int \<Rightarrow> int \<Rightarrow> (string \<Rightarrow> bool) \<Rightarrow> bool \<Rightarrow> runner \<Rightarrow> (string \<Rightarrow> int \<Rightarrow> attached_run) \<Rightarrow> lxc_state job_stages \<Rightarrow> sandbox_backend" where
  "lxc_service b uid gid own_directory written runner =
     service_backend (\<lambda>job. decide_run (lxc_prepare_network job)) (lxc_create b uid gid own_directory written runner) (lxc_execute b runner)
       (lxc_remove b runner) (\<lambda>attachment. decide_run (lxc_cleanup_network attachment))"

section \<open>What the service relies on\<close>

definition process_exits :: "attached_run \<Rightarrow> int \<Rightarrow> bool" where
  "process_exits a code = (let w = ar_watched a in ar_starts a \<and> ar_pipes a \<and> \<not> wt_nothing w \<and> \<not> wt_cancelled w \<and> \<not> wt_output_limit w \<and>
     wt_readers w = Some False \<and> wt_exit_code w = code \<and> 0 \<le> code \<and> code \<le> 255)"

definition streamed :: "attached_run \<Rightarrow> container_result \<Rightarrow> bool" where
  "streamed a r = (ar_streamer a = Some (cr_stdout_bytes r, cr_stderr_bytes r, cr_output_truncated r))"

text \<open>
  The laws of a backend: an execution that returns reports an exit code exactly if the process has exited, and what the
  streamer has counted; and a container that was created can be executed.
\<close>

locale job_runtime =
  fixes create :: "job_spec \<Rightarrow> string \<Rightarrow> network_attachment \<Rightarrow> 's \<Rightarrow> (string, 's) run_outcome"
    and execute :: "string \<Rightarrow> attached_run \<Rightarrow> 's \<Rightarrow> (container_result, 's) run_outcome"
  assumes reports: "execute i a s = (Inr r, s') \<Longrightarrow>
      streamed a r \<and> (case cr_exit_code r of None \<Rightarrow> cr_reason r \<noteq> Exited | Some c \<Rightarrow> cr_reason r = Exited \<and> 0 \<le> c \<and> c \<le> 255)"
    and created_runs: "create job name attachment s = (Inr i, s1) \<Longrightarrow> process_exits a code \<Longrightarrow> ar_streamer a = Some counts \<Longrightarrow>
      \<exists>r. execute i a s1 = (Inr r, s1) \<and> cr_exit_code r = Some code"
begin

lemma reported_ok:
  assumes "bk_execute (service_backend prepare create execute remove cleanup attached g) i seconds = Returned r"
    and "case ar_streamer (attached i seconds) of None \<Rightarrow> True | Some (m, n, _) \<Rightarrow> 0 \<le> m \<and> 0 \<le> n"
  shows "result_ok r"
proof -
  have "execute i (attached i seconds) (jg_execute g) = (Inr r, snd (execute i (attached i seconds) (jg_execute g)))"
    using assms(1) by (auto simp: service_backend_def backend_call_end_def split: if_splits sum.splits backend_error.splits intro: prod_eqI)
  from reports[OF this] assms(2) show ?thesis by (auto simp: result_ok_def streamed_def split: option.splits)
qed

lemma created_result:
  assumes "create job name attachment s = (Inr i, s1)" "process_exits a code" "ar_streamer a = Some counts"
  shows "\<exists>r. execute i a s1 = (Inr r, s1) \<and> cr_reason r = Exited \<and> cr_exit_code r = Some code \<and> streamed a r"
proof -
  obtain r where r: "execute i a s1 = (Inr r, s1)" "cr_exit_code r = Some code" using created_runs[OF assms] by blast
  then show ?thesis using reports[OF r(1)] by auto
qed

end

lemma docker_stop_reason_exit:
  "docker_stop_reason w = (reason, code) \<Longrightarrow> (case code of None \<Rightarrow> reason \<noteq> Exited | Some c \<Rightarrow> reason = Exited \<and> 0 \<le> c \<and> c \<le> 255)"
  by (auto simp: docker_stop_reason_def exited_with_def split: if_splits option.splits bool.splits)

lemma lxc_stop_reason_exit:
  "lxc_stop_reason w = (reason, code) \<Longrightarrow> (case code of None \<Rightarrow> reason \<noteq> Exited | Some c \<Rightarrow> reason = Exited \<and> 0 \<le> c \<and> c \<le> 255)"
  by (auto simp: lxc_stop_reason_def exited_with_def split: if_splits)

interpretation docker_runtime: job_runtime "docker_create decode b runner own_directory" "docker_execute b runner" for decode b runner own_directory
proof (unfold_locales, goal_cases)
  case (1 i a s r s')
  then show ?case
    using docker_stop_reason_exit[of "ar_watched a" "fst (docker_stop_reason (ar_watched a))" "snd (docker_stop_reason (ar_watched a))"]
    by (auto simp: docker_execute_def decide_run_def streamed_def res_simps split: option.splits prod.splits)
next
  case (2 job name attachment s i s1 a code counts)
  have "db_probed b \<and> sha256_hex i"
    using 2(1) by (auto simp: docker_create_def docker_verify_image_def require_probe_def decide_run_def res_simps dest: created_id_Inr)
  then show ?case using 2(2,3)
    by (cases counts) (auto simp: docker_execute_def decide_run_def require_probe_def validate_container_id_def process_exits_def docker_stop_reason_def exited_with_def Let_def backend_check_def)
qed

interpretation lxc_runtime: job_runtime "lxc_create b uid gid own_directory written runner" "lxc_execute b runner" for b uid gid own_directory written runner
proof (unfold_locales, goal_cases)
  case (1 i a s r s')
  then show ?case
    using lxc_stop_reason_exit[of "ar_watched a" "fst (lxc_stop_reason (ar_watched a))" "snd (lxc_stop_reason (ar_watched a))"]
    by (auto simp: lxc_execute_def decide_run_def streamed_def res_simps split: option.splits prod.splits)
next
  case (2 job name attachment s i s1 a code counts)
  have "container_name_ok i \<and> dict_has (ls_commands s1) i"
    using 2(1) unfolding lxc_create_def
    by (cases "may_create b own_directory job name attachment s")
      (auto simp: decide_run_def Let_def dict_defs update_conv and_then_def dest: may_create_free split: prod.splits sum.splits if_splits)
  then show ?case using 2(2,3)
    by (cases counts) (auto simp: lxc_execute_def decide_run_def lxc_container_name_def process_exits_def lxc_stop_reason_def exited_with_def Let_def backend_check_def)
qed

section \<open>Jobs on the two backends\<close>

definition counts_bytes :: "(string \<Rightarrow> int \<Rightarrow> attached_run) \<Rightarrow> bool" where
  "counts_bytes attached = (\<forall>i seconds. case ar_streamer (attached i seconds) of None \<Rightarrow> True | Some (m, n, _) \<Rightarrow> 0 \<le> m \<and> 0 \<le> n)"

lemma docker_service_result:
  "bk_execute (docker_service decode b runner own_directory attached g) i seconds = Returned r \<Longrightarrow> counts_bytes attached \<Longrightarrow> result_ok r"
  unfolding docker_service_def counts_bytes_def by (erule docker_runtime.reported_ok) simp

lemma lxc_service_result:
  "bk_execute (lxc_service b uid gid own_directory written runner attached g) i seconds = Returned r \<Longrightarrow> counts_bytes attached \<Longrightarrow> result_ok r"
  unfolding lxc_service_def counts_bytes_def by (erule lxc_runtime.reported_ok) simp

text \<open>A clean-up call of a job is cancelled only if its number is among the cancelled calls.\<close>

lemma service_cleanup_cancelled:
  "bk_remove (service_backend prepare create execute remove cleanup attached g) c = TaskCancelled \<Longrightarrow> 3 \<in> set (jg_cancelled g)"
  "bk_cleanup (service_backend prepare create execute remove cleanup attached g) x = TaskCancelled \<Longrightarrow> 4 \<in> set (jg_cancelled g)"
  by (auto simp: service_backend_def backend_call_end_def split: if_splits sum.splits backend_error.splits)


definition demo_stages :: "'s \<Rightarrow> 's job_stages" where
  "demo_stages s = \<lparr>jg_prepare = s, jg_create = s, jg_execute = s, jg_remove = s, jg_cleanup = s, jg_cancelled = []\<rparr>"

definition demo_attached :: "string \<Rightarrow> int \<Rightarrow> attached_run" where
  "demo_attached i seconds = \<lparr>ar_starts = True, ar_pipes = True,
     ar_watched = \<lparr>wt_nothing = False, wt_cancelled = False, wt_output_limit = False, wt_readers = Some False, wt_process = True, wt_exit_code = 3\<rparr>,
     ar_streamer = Some (5, 0, False)\<rparr>"

definition demo_lxc_service :: "runner \<Rightarrow> sandbox_backend" where
  "demo_lxc_service runner = lxc_service demo_lxc 1000 1000 (\<lambda>_. True) True runner demo_attached (demo_stages demo_lxc_state)"

text \<open>
  The runtime does not answer at all, and the task is cancelled while the LXC backend prepares the container: the job ends with
  its receipt.
\<close>

definition demo_lxc_cancelled :: "runner \<Rightarrow> sandbox_backend" where
  "demo_lxc_cancelled runner = lxc_service demo_lxc 1000 1000 (\<lambda>_. True) True runner demo_attached ((demo_stages demo_lxc_state)\<lparr>jg_cancelled := [1]\<rparr>)"


end
