(* ===== verification/Plugins.thy ===== *)
theory Plugins
  imports AgentSchemas "HOL-Library.Product_Lexorder" "HOL-Library.List_Lexorder" "HOL-Library.Char_ord"
begin

text \<open>
  The plugin packages of the agent (\<open>zeaz_agent/plugins.py\<close>): the reader of signed archives and the
  registry with its installation, activation, removal and restoration. The verification of a signature, the ZIP
  format, SHA-256 and the manifest's JSON are parameters. A directory below the registry's root is named by what
  its path is made of, and its content is a dictionary from relative paths to bytes; owners, modes and links are not modelled.
\<close>

section \<open>Paths and manifests\<close>

text \<open>\<open>validate_resource_path\<close> of \<open>zeaz_agent/skills.py\<close>; \<open>PurePosixPath\<close> drops empty parts and \<open>.\<close>\<close>

definition resource_char :: "char \<Rightarrow> bool" where
  "resource_char c = (ascii_alnum c \<or> c \<in> set ''._/-'')"

definition path_parts :: "string \<Rightarrow> string list" where
  "path_parts s = filter (\<lambda>p. p \<noteq> [] \<and> p \<noteq> ''.'') (split_char CHR ''/'' s)"

definition validate_resource_path :: "string \<Rightarrow> string res" where
  "validate_resource_path s =
     bindE (check (s \<noteq> [] \<and> length s \<le> 255 \<and> ascii_alnum (hd s) \<and> list_all resource_char (tl s)) ''resource path is not portable'') (\<lambda>_.
     bindE (check (\<not> list_ex (starts_with ''.'') (path_parts s)) ''resource path must stay within the package'') (\<lambda>_.
     bindE (check (py_join ''/'' (path_parts s) = s) ''resource path must be normalized'') (\<lambda>_. Inr s)))"

definition lower_or_digit_char :: "char \<Rightarrow> bool" where
  "lower_or_digit_char c = (97 \<le> code_of c \<and> code_of c \<le> 122 \<or> is_digit c)"

definition plugin_name :: "string \<Rightarrow> bool" where
  "plugin_name s = (length s \<le> 64 \<and> s \<noteq> [] \<and> \<not> is_digit (hd s) \<and>
     list_all (\<lambda>p. p \<noteq> [] \<and> list_all lower_or_digit_char p) (split_char CHR ''-'' s))"

definition version_number :: "string \<Rightarrow> bool" where
  "version_number s = (s \<noteq> [] \<and> list_all is_digit s \<and> (hd s = CHR ''0'' \<longrightarrow> s = ''0''))"

definition dotted_parts :: "string \<Rightarrow> bool" where
  "dotted_parts s = list_all (\<lambda>p. p \<noteq> [] \<and> list_all (\<lambda>c. ascii_alnum c \<or> c = CHR ''-'') p) (split_char CHR ''.'' s)"

definition version_core :: "string \<Rightarrow> bool" where
  "version_core s = (length (split_char CHR ''.'' s) = 3 \<and> list_all version_number (split_char CHR ''.'' s))"

definition semver :: "string \<Rightarrow> bool" where
  "semver s = (length s \<le> 128 \<and>
     (case split_once ''+'' s of None \<Rightarrow> True | Some (_, build) \<Rightarrow> dotted_parts build) \<and>
     (let release = (case split_once ''+'' s of None \<Rightarrow> s | Some (a, _) \<Rightarrow> a)
      in case split_once ''-'' release of None \<Rightarrow> version_core release | Some (core, pre) \<Rightarrow> version_core core \<and> dotted_parts pre))"

definition hex_sha256 :: "string \<Rightarrow> bool" where
  "hex_sha256 s = (length s = 64 \<and> list_all (\<lambda>c. is_digit c \<or> 97 \<le> code_of c \<and> code_of c \<le> 102) s)"

record plugin_file =
  pf_path :: string
  pf_size :: int
  pf_sha256 :: string

definition PluginFile :: "plugin_file \<Rightarrow> plugin_file res" where
  "PluginFile f =
     bindE (check (0 \<le> pf_size f \<and> pf_size f \<le> 16777216) ''size'') (\<lambda>_.
     bindE (check (hex_sha256 (pf_sha256 f)) ''sha256'') (\<lambda>_.
     bindE (validate_resource_path (pf_path f)) (\<lambda>_.
     bindE (check (pf_path f \<noteq> ''plugin.json'') ''plugin.json cannot list itself'') (\<lambda>_. Inr f))))"

record plugin_manifest =
  pm_name :: string
  pm_version :: string
  pm_description :: string
  pm_files :: "plugin_file list"

definition PluginManifest :: "plugin_manifest \<Rightarrow> plugin_manifest res" where
  "PluginManifest m =
     bindE (check (plugin_name (pm_name m)) ''name'') (\<lambda>_.
     bindE (check (semver (pm_version m)) ''version'') (\<lambda>_.
     bindE (check (1 \<le> length (pm_description m) \<and> length (pm_description m) \<le> 4096) ''description'') (\<lambda>_.
     bindE (check (1 \<le> length (pm_files m) \<and> length (pm_files m) \<le> 1024) ''files'') (\<lambda>_.
     bindE (mapE PluginFile (pm_files m)) (\<lambda>_.
     bindE (check (distinct (map (\<lambda>f. py_lower (pf_path f)) (pm_files m))) ''plugin file paths must be portable and unique'') (\<lambda>_. Inr m))))))"

section \<open>Archives\<close>

datatype plugin_error = PluginPackageError string | PluginRegistryError string | PluginValueError string | PluginIOError

definition plugin_check :: "bool \<Rightarrow> plugin_error \<Rightarrow> plugin_error + unit" where
  "plugin_check ok e = (if ok then Inr () else Inl e)"

lemma plugin_check_Inr [res_simps]: "plugin_check ok e = Inr u \<longleftrightarrow> ok"
  by (simp add: plugin_check_def)

lemma plugin_check_Inl [res_simps]: "plugin_check ok e = Inl x \<longleftrightarrow> \<not> ok \<and> x = e"
  by (auto simp: plugin_check_def)

text \<open>An entry as \<open>zipfile\<close> lists it, with what reading it gives, None for a failure.\<close>

record zip_entry =
  ze_filename :: string
  ze_orig_filename :: string
  ze_is_dir :: bool
  ze_encrypted :: bool
  ze_stored_or_deflated :: bool
  ze_special_file :: bool
  ze_file_size :: int
  ze_compress_size :: int
  ze_content :: "string option"

record plugin_env =
  pl_keys :: "string dict"
  pl_openssl :: "string \<Rightarrow> string \<Rightarrow> string \<Rightarrow> bool"
  pl_unzip :: "string \<Rightarrow> zip_entry list option"
  pl_manifest :: "string \<Rightarrow> plugin_manifest option"
  pl_sha256 :: "string \<Rightarrow> string"

record archive_limits =
  al_max_archive_bytes :: int
  al_max_expanded_bytes :: int
  al_max_file_bytes :: int
  al_max_entries :: int
  al_max_expansion_ratio :: int

definition PluginArchiveReader :: "archive_limits \<Rightarrow> plugin_error + archive_limits" where
  "PluginArchiveReader l =
     bindE (plugin_check (1024 \<le> al_max_archive_bytes l \<and> al_max_archive_bytes l \<le> 1073741824)
       (PluginValueError ''max_archive_bytes must be between 1 KiB and 1 GiB'')) (\<lambda>_.
     bindE (plugin_check (al_max_archive_bytes l \<le> al_max_expanded_bytes l \<and> al_max_expanded_bytes l \<le> 2147483648)
       (PluginValueError ''max_expanded_bytes must be between archive size and 2 GiB'')) (\<lambda>_.
     bindE (plugin_check (1024 \<le> al_max_file_bytes l \<and> al_max_file_bytes l \<le> al_max_expanded_bytes l) (PluginValueError ''max_file_bytes is invalid'')) (\<lambda>_.
     bindE (plugin_check (1 \<le> al_max_entries l \<and> al_max_entries l \<le> 10000) (PluginValueError ''max_entries must be between 1 and 10000'')) (\<lambda>_.
     bindE (plugin_check (1 \<le> al_max_expansion_ratio l \<and> al_max_expansion_ratio l \<le> 1000)
       (PluginValueError ''max_expansion_ratio must be between 1 and 1000'')) (\<lambda>_. Inr l)))))"

text \<open>
  \<open>OpenSSLEd25519Verifier\<close>: the trusted keys by their names, checked when the verifier is made. The \<open>openssl\<close>
  process is a parameter: it accepts a payload, a signature and a public key, or not.
\<close>

definition OpenSSLEd25519Verifier :: "string dict \<Rightarrow> plugin_error + string dict" where
  "OpenSSLEd25519Verifier keys =
     bindE (plugin_check (\<not> (keys = [] \<or> length keys > 256)) (PluginValueError ''public_keys must contain between 1 and 256 keys'')) (\<lambda>_.
     bindE (plugin_check (\<not> list_ex (\<lambda>(key_id, content). key_id = [] \<or> length key_id > 128 \<or>
         list_ex (\<lambda>c. \<not> (ascii_alnum c \<or> c \<in> set ''_.-'')) key_id \<or> \<not> (1 \<le> length content \<and> length content \<le> 16384)) keys)
       (PluginValueError ''trusted public key configuration is invalid'')) (\<lambda>_. Inr keys))"

definition verify_signature :: "plugin_env \<Rightarrow> string \<Rightarrow> string \<Rightarrow> string \<Rightarrow> plugin_error + unit" where
  "verify_signature env payload signature key_id = (case dict_get (pl_keys env) key_id of
     None \<Rightarrow> Inl (PluginPackageError ''plugin signing key is not trusted'')
   | Some public_key \<Rightarrow>
       bindE (plugin_check (length signature = 64) (PluginPackageError ''plugin signature has an invalid size'')) (\<lambda>_.
       plugin_check (pl_openssl env payload signature public_key) (PluginPackageError ''plugin signature verification failed'')))"

definition nul_char :: char where
  "nul_char = char_of (0 :: nat)"

definition validate_zip_entry :: "zip_entry \<Rightarrow> plugin_error + string" where
  "validate_zip_entry z =
     bindE (plugin_check (\<not> (nul_char \<in> set (ze_orig_filename z) \<or> ze_orig_filename z \<noteq> ze_filename z \<or> ze_is_dir z))
       (PluginPackageError ''plugin archive contains an invalid entry'')) (\<lambda>_.
     bindE (case validate_resource_path (ze_filename z) of
         Inl _ \<Rightarrow> Inl (PluginPackageError ''plugin archive contains an invalid path'') | Inr name \<Rightarrow> Inr name) (\<lambda>name.
     bindE (plugin_check (\<not> ze_encrypted z) (PluginPackageError ''encrypted plugin archive entries are forbidden'')) (\<lambda>_.
     bindE (plugin_check (ze_stored_or_deflated z) (PluginPackageError ''plugin archive compression method is forbidden'')) (\<lambda>_.
     bindE (plugin_check (\<not> ze_special_file z) (PluginPackageError ''plugin archive links and devices are forbidden'')) (\<lambda>_. Inr name)))))"

text \<open>The loop over the entries: the names so far and their size.\<close>

definition scan_entry :: "archive_limits \<Rightarrow> string list \<times> int \<Rightarrow> zip_entry \<Rightarrow> plugin_error + string list \<times> int" where
  "scan_entry l st z =
     bindE (validate_zip_entry z) (\<lambda>name.
     bindE (plugin_check (\<not> (name \<in> set (fst st) \<or> py_lower name \<in> py_lower ` set (fst st)))
       (PluginPackageError ''plugin archive contains duplicate paths'')) (\<lambda>_.
     bindE (plugin_check (\<not> ze_file_size z > al_max_file_bytes l) (PluginPackageError ''plugin archive entry exceeds its size limit'')) (\<lambda>_.
     bindE (plugin_check (\<not> snd st + ze_file_size z > al_max_expanded_bytes l)
       (PluginPackageError ''plugin archive exceeds its expansion limit'')) (\<lambda>_.
     bindE (plugin_check (\<not> ze_file_size z > max 1 (ze_compress_size z) * al_max_expansion_ratio l)
       (PluginPackageError ''plugin archive entry exceeds its expansion ratio'')) (\<lambda>_.
     Inr (fst st @ [name], snd st + ze_file_size z))))))"

definition read_zip_member :: "zip_entry list \<Rightarrow> string \<Rightarrow> int \<Rightarrow> plugin_error + string" where
  "read_zip_member entries name maximum = (case find (\<lambda>z. ze_filename z = name) entries of
     None \<Rightarrow> Inl PluginIOError
   | Some z \<Rightarrow> (case ze_content z of
       None \<Rightarrow> Inl (PluginPackageError ''plugin archive entry could not be read safely'')
     | Some content \<Rightarrow>
         bindE (plugin_check (\<not> int (length content) > maximum) (PluginPackageError ''plugin archive entry exceeds its size limit'')) (\<lambda>_. Inr content)))"

definition parse_manifest :: "plugin_env \<Rightarrow> string \<Rightarrow> plugin_manifest option" where
  "parse_manifest env content = (case pl_manifest env content of
     None \<Rightarrow> None | Some m \<Rightarrow> (case PluginManifest m of Inl _ \<Rightarrow> None | Inr m' \<Rightarrow> Some m'))"

definition read_declared :: "plugin_env \<Rightarrow> archive_limits \<Rightarrow> zip_entry list \<Rightarrow> plugin_file \<Rightarrow> plugin_error + string \<times> string" where
  "read_declared env l entries f =
     bindE (read_zip_member entries (pf_path f) (al_max_file_bytes l)) (\<lambda>content.
     bindE (plugin_check (int (length content) = pf_size f) (PluginPackageError ''plugin file size does not match its manifest'')) (\<lambda>_.
     bindE (plugin_check (pl_sha256 env content = pf_sha256 f) (PluginPackageError ''plugin file checksum does not match its manifest'')) (\<lambda>_.
     Inr (pf_path f, content))))"

type_synonym package = "(string \<times> string) list"

definition read_archive ::
  "plugin_env \<Rightarrow> archive_limits \<Rightarrow> string \<Rightarrow> string \<Rightarrow> string \<Rightarrow> plugin_error + plugin_manifest \<times> package \<times> string" where
  "read_archive env l archive signature key_id =
     bindE (plugin_check (\<not> int (length archive) > al_max_archive_bytes l) (PluginPackageError ''plugin archive is not a bounded regular file'')) (\<lambda>_.
     bindE (verify_signature env archive signature key_id) (\<lambda>_.
     case pl_unzip env archive of
       None \<Rightarrow> Inl (PluginPackageError ''plugin archive is not a valid ZIP file'')
     | Some entries \<Rightarrow>
         bindE (plugin_check (2 \<le> int (length entries) \<and> int (length entries) \<le> al_max_entries l + 1)
           (PluginPackageError ''plugin archive entry count is invalid'')) (\<lambda>_.
         bindE (foldE (scan_entry l) ([], 0) entries) (\<lambda>(names, total).
         bindE (plugin_check (''plugin.json'' \<in> set names) (PluginPackageError ''plugin archive has no manifest'')) (\<lambda>_.
         bindE (read_zip_member entries ''plugin.json'' (min (al_max_file_bytes l) 65536)) (\<lambda>manifest_bytes.
         case parse_manifest env manifest_bytes of
           None \<Rightarrow> Inl (PluginPackageError ''plugin manifest failed schema validation'')
         | Some m \<Rightarrow>
             bindE (plugin_check (set names = set (map pf_path (pm_files m)) \<union> {''plugin.json''})
               (PluginPackageError ''plugin archive files do not exactly match its manifest'')) (\<lambda>_.
             bindE (mapE (read_declared env l entries) (pm_files m)) (\<lambda>contents.
             Inr (m, (''plugin.json'', manifest_bytes) # contents, pl_sha256 env archive)))))))))"

section \<open>The registry\<close>

datatype place = Installed string string | Trash string

record plugin_row =
  pw_enabled :: bool
  pw_archive_sha256 :: string
  pw_signing_key_id :: string
  pw_install_path :: place

record removed_row =
  rw_name :: string
  rw_version :: string
  rw_archive_sha256 :: string
  rw_signing_key_id :: string
  rw_trash_path :: place

record plugin_registry =
  pg_plugins :: "((string \<times> string) \<times> plugin_row) list"
  pg_removed :: "(string \<times> removed_row) list"
  pg_directories :: "(place \<times> package) list"

definition is_directory :: "plugin_registry \<Rightarrow> place \<Rightarrow> bool" where
  "is_directory s p = (map_of (pg_directories s) p \<noteq> None)"

definition rename_directory :: "place \<Rightarrow> place \<Rightarrow> plugin_registry \<Rightarrow> plugin_registry" where
  "rename_directory p q s = (case map_of (pg_directories s) p of
     None \<Rightarrow> s | Some x \<Rightarrow> s\<lparr>pg_directories := AList.update q x (AList.delete p (pg_directories s))\<rparr>)"

definition remove_tree :: "place \<Rightarrow> plugin_registry \<Rightarrow> plugin_registry" where
  "remove_tree p s = s\<lparr>pg_directories := AList.delete p (pg_directories s)\<rparr>"

definition insert_plugin :: "string \<times> string \<Rightarrow> plugin_row \<Rightarrow> plugin_registry \<Rightarrow> plugin_registry" where
  "insert_plugin k r s = s\<lparr>pg_plugins := AList.update k r (pg_plugins s)\<rparr>"

definition delete_plugin :: "string \<times> string \<Rightarrow> plugin_registry \<Rightarrow> plugin_registry" where
  "delete_plugin k s = s\<lparr>pg_plugins := AList.delete k (pg_plugins s)\<rparr>"

text \<open>
  What goes wrong after the checks: the process dies between the rename of the directory and the commit
  of the database, the database refuses, or the audit sink does.
\<close>

datatype registry_trouble = NoTrouble | Dies | DatabaseFails | AuditFails

text \<open>
  The models \<open>InstalledPlugin\<close> and \<open>RemovedPlugin\<close> are made after the commit; they restrict the name of the
  signing key more than the verifier does.
\<close>

definition key_id_text :: "string \<Rightarrow> bool" where
  "key_id_text s = (s \<noteq> [] \<and> length s \<le> 128 \<and> ascii_alnum (hd s) \<and> list_all (\<lambda>c. ascii_alnum c \<or> c \<in> set ''_.-'') (tl s))"

definition InstalledPlugin :: "plugin_row \<Rightarrow> plugin_error + plugin_row" where
  "InstalledPlugin r = bindE (plugin_check (key_id_text (pw_signing_key_id r)) (PluginValueError ''signing_key_id'')) (\<lambda>_. Inr r)"

definition RemovedPlugin :: "removed_row \<Rightarrow> plugin_error + removed_row" where
  "RemovedPlugin x = bindE (plugin_check (key_id_text (rw_signing_key_id x)) (PluginValueError ''signing_key_id'')) (\<lambda>_. Inr x)"

text \<open>\<open>_write_package\<close>: a file cannot be made below another file.\<close>

definition package_writable :: "package \<Rightarrow> bool" where
  "package_writable files = list_all (\<lambda>f. \<not> list_ex (\<lambda>g. starts_with (fst f @ ''/'') (fst g)) files) files"

text \<open>The files are written below a temporary name and published with one rename; a failure before or after it leaves nothing behind.\<close>

definition install_plugin ::
  "plugin_env \<Rightarrow> archive_limits \<Rightarrow> registry_trouble \<Rightarrow> string \<Rightarrow> string \<Rightarrow> string \<Rightarrow> plugin_registry \<Rightarrow> (plugin_error + plugin_row) \<times> plugin_registry" where
  "install_plugin env l trouble archive signature key_id s =
     (case read_archive env l archive signature key_id of
        Inl e \<Rightarrow> (Inl e, s)
      | Inr (m, files, digest) \<Rightarrow>
          (let k = (pm_name m, pm_version m); target = Installed (pm_name m) (pm_version m) in
           case map_of (pg_plugins s) k of
             Some r \<Rightarrow>
               if pw_archive_sha256 r \<noteq> digest \<or> \<not> is_directory s target
               then (Inl (PluginRegistryError ''installed plugin state conflicts with the archive''), s) else (InstalledPlugin r, s)
           | None \<Rightarrow>
               if is_directory s target then (Inl (PluginRegistryError ''plugin version directory already exists''), s)
               else if \<not> package_writable files then (Inl PluginIOError, s)
               else
                 (let r = \<lparr>pw_enabled = False, pw_archive_sha256 = digest, pw_signing_key_id = key_id, pw_install_path = target\<rparr>;
                      s1 = s\<lparr>pg_directories := AList.update target files (pg_directories s)\<rparr>
                  in if trouble = Dies then (Inl PluginIOError, s1)
                     else if trouble = DatabaseFails then (Inl PluginIOError, remove_tree target s1)
                     else if \<not> returns (InstalledPlugin r) then (InstalledPlugin r, insert_plugin k r s1)
                     else if trouble = AuditFails then (Inl PluginIOError, remove_tree target (delete_plugin k (insert_plugin k r s1)))
                     else (Inr r, insert_plugin k r s1))))"

text \<open>
  \<open>_validate_installed_package\<close>: the walk over the files (\<open>os.walk\<close> in the order of the list), then the
  manifest, the inventory and the declared files.
\<close>

definition walk_file :: "string list \<Rightarrow> string \<times> string \<Rightarrow> plugin_error + string list" where
  "walk_file inventory f = (case validate_resource_path (fst f) of
     Inl _ \<Rightarrow> Inl (PluginRegistryError ''installed plugin contains an invalid path'')
   | Inr _ \<Rightarrow> bindE (plugin_check (\<not> length (List.insert (fst f) inventory) > 1025) (PluginRegistryError ''installed plugin has too many files'')) (\<lambda>_.
       Inr (List.insert (fst f) inventory)))"

definition check_installed_file :: "plugin_env \<Rightarrow> package \<Rightarrow> plugin_file \<Rightarrow> plugin_error + unit" where
  "check_installed_file env files f = (case map_of files (pf_path f) of
     None \<Rightarrow> Inl (PluginRegistryError ''installed plugin file is unavailable'')
   | Some content \<Rightarrow>
       bindE (plugin_check (\<not> int (length content) > pf_size f) (PluginRegistryError ''installed plugin file is unavailable'')) (\<lambda>_.
       plugin_check (\<not> (int (length content) \<noteq> pf_size f \<or> pl_sha256 env content \<noteq> pf_sha256 f))
         (PluginRegistryError ''installed plugin integrity check failed'')))"

definition validate_installed :: "plugin_env \<Rightarrow> package \<Rightarrow> plugin_error + plugin_manifest" where
  "validate_installed env files =
     bindE (foldE walk_file [] files) (\<lambda>inventory.
     case map_of files ''plugin.json'' of
       None \<Rightarrow> Inl (PluginRegistryError ''installed plugin manifest is unavailable'')
     | Some content \<Rightarrow>
         bindE (plugin_check (\<not> length content > 65536) (PluginRegistryError ''installed plugin manifest is unavailable'')) (\<lambda>_.
         case parse_manifest env content of
           None \<Rightarrow> Inl (PluginRegistryError ''installed plugin manifest is invalid'')
         | Some m \<Rightarrow>
             bindE (plugin_check (set inventory = set (map pf_path (pm_files m)) \<union> {''plugin.json''})
               (PluginRegistryError ''installed plugin inventory does not match its manifest'')) (\<lambda>_.
             bindE (mapE (check_installed_file env files) (pm_files m)) (\<lambda>_. Inr m))))"

definition set_flag :: "bool \<Rightarrow> string \<times> string \<Rightarrow> plugin_registry \<Rightarrow> plugin_registry" where
  "set_flag b k s = s\<lparr>pg_plugins := map (\<lambda>(j, r). (j, if j = k then r\<lparr>pw_enabled := b\<rparr> else r)) (pg_plugins s)\<rparr>"

definition disable_all :: "string \<Rightarrow> plugin_registry \<Rightarrow> plugin_registry" where
  "disable_all name s = s\<lparr>pg_plugins := map (\<lambda>(j, r). (j, if fst j = name then r\<lparr>pw_enabled := False\<rparr> else r)) (pg_plugins s)\<rparr>"

definition restore_flags :: "((string \<times> string) \<times> plugin_row) list \<Rightarrow> plugin_registry \<Rightarrow> plugin_registry" where
  "restore_flags rows s = fold (\<lambda>row. set_flag (pw_enabled (snd row)) (fst row)) rows s"

text \<open>What the code checks of the directory before it changes a flag.\<close>

definition enabling_check :: "plugin_env \<Rightarrow> bool \<Rightarrow> plugin_row \<Rightarrow> plugin_registry \<Rightarrow> plugin_error + unit" where
  "enabling_check env enabled r s = (case map_of (pg_directories s) (pw_install_path r) of
     None \<Rightarrow> Inl (PluginRegistryError ''plugin installation is unavailable'')
   | Some files \<Rightarrow> if enabled then bindE (validate_installed env files) (\<lambda>_. Inr ()) else Inr ())"

definition set_enabled ::
  "plugin_env \<Rightarrow> registry_trouble \<Rightarrow> string \<Rightarrow> string \<Rightarrow> bool \<Rightarrow> plugin_registry \<Rightarrow> (plugin_error + plugin_row) \<times> plugin_registry" where
  "set_enabled env trouble name version enabled s =
     (case map_of (pg_plugins s) (name, version) of
        None \<Rightarrow> (Inl (PluginRegistryError ''plugin version is not installed''), s)
      | Some r \<Rightarrow>
          if pw_install_path r \<noteq> Installed name version then (Inl (PluginRegistryError ''plugin installation is unavailable''), s)
          else (case enabling_check env enabled r s of
              Inl e \<Rightarrow> (Inl e, s)
            | Inr _ \<Rightarrow>
                (let previous = filter (\<lambda>row. fst (fst row) = name) (pg_plugins s);
                     s1 = set_flag enabled (name, version) (if enabled then disable_all name s else s);
                     r1 = r\<lparr>pw_enabled := enabled\<rparr>
                 in if trouble = Dies \<or> trouble = DatabaseFails then (Inl PluginIOError, s)
                    else if \<not> returns (InstalledPlugin r1) then (InstalledPlugin r1, s1)
                    else if trouble = AuditFails then (Inl PluginIOError, restore_flags previous (disable_all name s1))
                    else (Inr r1, s1))))"

definition insert_removed :: "string \<Rightarrow> removed_row \<Rightarrow> plugin_registry \<Rightarrow> plugin_registry" where
  "insert_removed i x s = s\<lparr>pg_removed := AList.update i x (pg_removed s)\<rparr>"

definition delete_removed :: "string \<Rightarrow> plugin_registry \<Rightarrow> plugin_registry" where
  "delete_removed i s = s\<lparr>pg_removed := AList.delete i (pg_removed s)\<rparr>"

definition remove_plugin ::
  "registry_trouble \<Rightarrow> string \<Rightarrow> string \<Rightarrow> string \<Rightarrow> plugin_registry \<Rightarrow> (plugin_error + removed_row) \<times> plugin_registry" where
  "remove_plugin trouble removal_id name version s =
     (case map_of (pg_plugins s) (name, version) of
        None \<Rightarrow> (Inl (PluginRegistryError ''plugin version is not installed''), s)
      | Some r \<Rightarrow>
          if pw_enabled r then (Inl (PluginRegistryError ''disable the plugin before removal''), s)
          else if \<not> is_directory s (pw_install_path r) then (Inl (PluginRegistryError ''plugin installation is unavailable''), s)
          else
            (let source = pw_install_path r; trash = Trash removal_id; s1 = rename_directory source trash s;
                 x = \<lparr>rw_name = name, rw_version = version, rw_archive_sha256 = pw_archive_sha256 r,
                      rw_signing_key_id = pw_signing_key_id r, rw_trash_path = trash\<rparr>;
                 s2 = delete_plugin (name, version) (insert_removed removal_id x s1)
             in if trouble = Dies then (Inl PluginIOError, s1)
                else if trouble = DatabaseFails then (Inl PluginIOError, rename_directory trash source s1)
                else if \<not> returns (RemovedPlugin x) then (RemovedPlugin x, s2)
                else if trouble = AuditFails
                then (Inl PluginIOError, delete_removed removal_id (insert_plugin (name, version) (r\<lparr>pw_enabled := False\<rparr>) (rename_directory trash source s2)))
                else (Inr x, s2)))"

definition restore_plugin :: "registry_trouble \<Rightarrow> string \<Rightarrow> plugin_registry \<Rightarrow> (plugin_error + plugin_row) \<times> plugin_registry" where
  "restore_plugin trouble removal_id s =
     (case map_of (pg_removed s) removal_id of
        None \<Rightarrow> (Inl (PluginRegistryError ''removed plugin is not recoverable''), s)
      | Some x \<Rightarrow>
          (let k = (rw_name x, rw_version x); trash = rw_trash_path x; target = Installed (rw_name x) (rw_version x) in
           if \<not> is_directory s trash \<or> is_directory s target
           then (Inl (PluginRegistryError ''removed plugin files cannot be restored safely''), s)
           else
             (let s1 = rename_directory trash target s;
                  r = \<lparr>pw_enabled = False, pw_archive_sha256 = rw_archive_sha256 x,
                       pw_signing_key_id = rw_signing_key_id x, pw_install_path = target\<rparr>;
                  s2 = delete_removed removal_id (insert_plugin k r s1)
              in if trouble = Dies then (Inl PluginIOError, s1)
                 else if trouble = DatabaseFails \<or> map_of (pg_plugins s) k \<noteq> None then (Inl PluginIOError, rename_directory target trash s1)
                 else if \<not> returns (InstalledPlugin r) then (InstalledPlugin r, s2)
                 else if trouble = AuditFails
                 then (Inl PluginIOError, delete_plugin k (insert_removed removal_id x (rename_directory target trash s2)))
                 else (Inr r, s2))))"

definition list_plugins :: "plugin_registry \<Rightarrow> plugin_error + ((string \<times> string) \<times> plugin_row) list" where
  "list_plugins s = bindE (mapE (\<lambda>kr. bindE (InstalledPlugin (snd kr)) (\<lambda>r. Inr (fst kr, r))) (sort_key fst (pg_plugins s))) Inr"

section \<open>The archive that is read\<close>

text \<open>What the signature covers, and what is taken from the archive.\<close>

definition files_as_declared :: "plugin_env \<Rightarrow> plugin_manifest \<Rightarrow> package \<Rightarrow> bool" where
  "files_as_declared env m files =
     list_all2 (\<lambda>d f. fst f = pf_path d \<and> int (length (snd f)) = pf_size d \<and> pl_sha256 env (snd f) = pf_sha256 d) (pm_files m) files"

lemma read_zip_memberD:
  "read_zip_member entries name maximum = Inr content \<Longrightarrow>
     int (length content) \<le> maximum \<and> (\<exists>z \<in> set entries. ze_filename z = name \<and> ze_content z = Some content)"
  by (auto simp: read_zip_member_def res_simps find_Some_iff split: option.splits)

lemma read_declaredD:
  "read_declared env l entries d = Inr f \<Longrightarrow>
     fst f = pf_path d \<and> int (length (snd f)) = pf_size d \<and> pl_sha256 env (snd f) = pf_sha256 d"
  by (auto simp: read_declared_def res_simps)

lemma validate_resource_path_same: "validate_resource_path s = Inr t \<Longrightarrow> t = s"
  by (auto simp: validate_resource_path_def res_simps)

lemma parse_manifestD: "parse_manifest env content = Some m \<Longrightarrow> PluginManifest m = Inr m"
  by (auto simp: parse_manifest_def PluginManifest_def res_simps split: option.splits sum.splits)

lemma scan_entryD:
  "scan_entry l st z = Inr st' \<Longrightarrow>
     validate_resource_path (ze_filename z) = Inr (ze_filename z) \<and> st' = (fst st @ [ze_filename z], snd st + ze_file_size z) \<and>
     ze_file_size z \<le> al_max_file_bytes l \<and> snd st' \<le> al_max_expanded_bytes l \<and> ze_filename z \<notin> set (fst st)"
  using validate_resource_path_same
  by (auto simp: scan_entry_def validate_zip_entry_def res_simps split: sum.splits)

lemma scan_names:
  assumes "foldE (scan_entry l) st zs = Inr st'"
  shows "fst st' = fst st @ map ze_filename zs \<and> list_all (\<lambda>z. validate_resource_path (ze_filename z) = Inr (ze_filename z)) zs \<and>
    snd st' = snd st + sum_list (map ze_file_size zs)"
  using assms
proof (induction zs arbitrary: st)
  case Nil
  then show ?case by simp
next
  case (Cons z zs)
  obtain st1 where st1: "scan_entry l st z = Inr st1" "foldE (scan_entry l) st1 zs = Inr st'" using Cons.prems by (auto simp: res_simps)
  show ?case using Cons.IH[OF st1(2)] scan_entryD[OF st1(1)] by simp
qed

lemma scan_bounded:
  assumes "foldE (scan_entry l) ([], 0) zs = Inr st'" "0 \<le> al_max_expanded_bytes l"
  shows "snd st' \<le> al_max_expanded_bytes l"
  using foldE_invariant[OF assms(1), of "\<lambda>st. snd st \<le> al_max_expanded_bytes l"] assms(2) scan_entryD by fastforce

lemma read_archiveD:
  assumes "read_archive env l archive signature key_id = Inr (m, files, digest)"
  shows "verify_signature env archive signature key_id = Inr () \<and> digest = pl_sha256 env archive \<and> PluginManifest m = Inr m \<and>
    int (length archive) \<le> al_max_archive_bytes l \<and>
    (\<exists>entries bytes contents. pl_unzip env archive = Some entries \<and> parse_manifest env bytes = Some m \<and> files = (''plugin.json'', bytes) # contents \<and>
       foldE (scan_entry l) ([], 0) entries = Inr (map ze_filename entries, sum_list (map ze_file_size entries)) \<and>
       set (map ze_filename entries) = set (map fst files) \<and> files_as_declared env m contents)"
proof -
  obtain entries names total bytes contents where c:
      "int (length archive) \<le> al_max_archive_bytes l" "verify_signature env archive signature key_id = Inr ()"
      "pl_unzip env archive = Some entries" "foldE (scan_entry l) ([], 0) entries = Inr (names, total)"
      "parse_manifest env bytes = Some m" "set names = set (map pf_path (pm_files m)) \<union> {''plugin.json''}"
      "mapE (read_declared env l entries) (pm_files m) = Inr contents"
      "files = (''plugin.json'', bytes) # contents" "digest = pl_sha256 env archive"
    using assms unfolding read_archive_def by (auto simp: bindE_eq_Inr plugin_check_Inr split: option.splits)
  have names: "names = map ze_filename entries" "total = sum_list (map ze_file_size entries)" using scan_names[OF c(4)] by simp_all
  have contents: "files_as_declared env m contents"
    using c(7) unfolding files_as_declared_def mapE_eq_Inr by (auto elim!: list_all2_mono dest: read_declaredD)
  then have "map fst contents = map pf_path (pm_files m)"
    unfolding files_as_declared_def by (induction rule: list_all2_induct) auto
  then have "set (map ze_filename entries) = set (map fst files)" using c(6,8) names(1) by auto
  then show ?thesis using c contents names parse_manifestD by (auto intro!: exI)
qed

text \<open>An accepted path has no empty, hidden or parent part: what is written stays below the package.\<close>

definition path_confined :: "string \<Rightarrow> bool" where
  "path_confined s = list_all (\<lambda>p. p \<noteq> [] \<and> hd p \<noteq> CHR ''.'') (split_char CHR ''/'' s)"

lemma resource_path_confined:
  assumes "validate_resource_path s = Inr t"
  shows "path_confined s"
proof -
  have s: "s \<noteq> []" "\<not> list_ex (starts_with ''.'') (path_parts s)" "py_join ''/'' (path_parts s) = s"
    using assms by (auto simp: validate_resource_path_def res_simps)
  have ne: "path_parts s \<noteq> []" using s(1,3) by auto
  have "split_char CHR ''/'' (py_join ''/'' (path_parts s)) = path_parts s"
    by (rule split_char_join[OF ne]) (auto simp: path_parts_def dest: split_char_parts)
  then have "split_char CHR ''/'' s = path_parts s" using s(3) by simp
  then have "p \<in> set (path_parts s)" if "p \<in> set (split_char CHR ''/'' s)" for p using that by simp
  moreover have "p \<noteq> [] \<and> hd p \<noteq> CHR ''.''" if p: "p \<in> set (path_parts s)" for p
  proof -
    have "p \<noteq> []" "\<not> starts_with ''.'' p" using p s(2) by (auto simp: path_parts_def list_ex_iff)
    then show ?thesis by (cases p rule: list.exhaust) auto
  qed
  ultimately show ?thesis by (simp add: path_confined_def list_all_iff)
qed

lemma read_archive_paths:
  assumes "read_archive env l archive signature key_id = Inr (m, files, digest)" "f \<in> set files"
  shows "path_confined (fst f)"
proof -
  obtain entries where e: "foldE (scan_entry l) ([], 0) entries = Inr (map ze_filename entries, sum_list (map ze_file_size entries))"
      "set (map ze_filename entries) = set (map fst files)"
    using read_archiveD[OF assms(1)] by blast
  have "list_all (\<lambda>z. validate_resource_path (ze_filename z) = Inr (ze_filename z)) entries" using scan_names[OF e(1)] by simp
  moreover have "fst f \<in> set (map ze_filename entries)" unfolding e(2) using assms(2) by auto
  ultimately show ?thesis by (auto simp: list_all_iff intro: resource_path_confined)
qed

section \<open>The operations on the registry\<close>

named_theorems registry_simps \<open>what the primitive updates do to the rows and directories\<close>

lemma map_of_flags: "map_of (map (\<lambda>(j, r). (j, f j r)) xs) k = map_option (f k) (map_of xs k)"
  by (induction xs) auto

lemma insert_plugin_select [registry_simps]:
  "map_of (pg_plugins (insert_plugin k r s)) = (map_of (pg_plugins s))(k \<mapsto> r)"
  "pg_removed (insert_plugin k r s) = pg_removed s" "pg_directories (insert_plugin k r s) = pg_directories s"
  by (simp_all add: insert_plugin_def update_conv')

lemma delete_plugin_select [registry_simps]:
  "map_of (pg_plugins (delete_plugin k s)) = (map_of (pg_plugins s))(k := None)"
  "pg_removed (delete_plugin k s) = pg_removed s" "pg_directories (delete_plugin k s) = pg_directories s"
  by (simp_all add: delete_plugin_def delete_conv')

lemma insert_removed_select [registry_simps]:
  "pg_plugins (insert_removed i x s) = pg_plugins s"
  "map_of (pg_removed (insert_removed i x s)) = (map_of (pg_removed s))(i \<mapsto> x)" "pg_directories (insert_removed i x s) = pg_directories s"
  by (simp_all add: insert_removed_def update_conv')

lemma delete_removed_select [registry_simps]:
  "pg_plugins (delete_removed i s) = pg_plugins s"
  "map_of (pg_removed (delete_removed i s)) = (map_of (pg_removed s))(i := None)" "pg_directories (delete_removed i s) = pg_directories s"
  by (simp_all add: delete_removed_def delete_conv')

lemma remove_tree_select [registry_simps]:
  "pg_plugins (remove_tree p s) = pg_plugins s" "pg_removed (remove_tree p s) = pg_removed s"
  "map_of (pg_directories (remove_tree p s)) = (map_of (pg_directories s))(p := None)"
  by (simp_all add: remove_tree_def delete_conv')

lemma rename_directory_rows [registry_simps]:
  "pg_plugins (rename_directory p q s) = pg_plugins s" "pg_removed (rename_directory p q s) = pg_removed s"
  by (simp_all add: rename_directory_def split: option.split)

lemma rename_directory_select [registry_simps]:
  "map_of (pg_directories (rename_directory p q s)) = (case map_of (pg_directories s) p of
     None \<Rightarrow> map_of (pg_directories s) | Some x \<Rightarrow> (map_of (pg_directories s))(p := None, q \<mapsto> x))"
  by (simp add: rename_directory_def update_conv' delete_conv' split: option.split)

lemma set_flag_select [registry_simps]:
  "map_of (pg_plugins (set_flag b k s)) j = map_option (\<lambda>r. if j = k then r\<lparr>pw_enabled := b\<rparr> else r) (map_of (pg_plugins s) j)"
  "pg_removed (set_flag b k s) = pg_removed s" "pg_directories (set_flag b k s) = pg_directories s"
  by (simp_all add: set_flag_def map_of_flags)

lemma disable_all_select [registry_simps]:
  "map_of (pg_plugins (disable_all n s)) j = map_option (\<lambda>r. if fst j = n then r\<lparr>pw_enabled := False\<rparr> else r) (map_of (pg_plugins s) j)"
  "pg_removed (disable_all n s) = pg_removed s" "pg_directories (disable_all n s) = pg_directories s"
  by (simp_all add: disable_all_def map_of_flags)

lemma plugin_keys [registry_simps]:
  "map fst (pg_plugins (set_flag b k s)) = map fst (pg_plugins s)" "map fst (pg_plugins (disable_all n s)) = map fst (pg_plugins s)"
  by (simp_all add: set_flag_def disable_all_def case_prod_unfold comp_def)

text \<open>The compensation of \<open>set_enabled\<close> puts every flag back.\<close>

lemma restore_flags_rest [registry_simps]:
  "pg_removed (restore_flags rows s) = pg_removed s" "pg_directories (restore_flags rows s) = pg_directories s"
  "map fst (pg_plugins (restore_flags rows s)) = map fst (pg_plugins s)"
  by (induction rows arbitrary: s) (simp_all add: restore_flags_def registry_simps)

lemma restore_flags_select:
  "distinct (map fst rows) \<Longrightarrow> map_of (pg_plugins (restore_flags rows s)) j
     = map_option (\<lambda>r. case map_of rows j of None \<Rightarrow> r | Some old \<Rightarrow> r\<lparr>pw_enabled := pw_enabled old\<rparr>) (map_of (pg_plugins s) j)"
proof (induction rows arbitrary: s)
  case Nil
  then show ?case by (simp add: restore_flags_def option.map_ident)
next
  case (Cons row rows)
  have "restore_flags (row # rows) s = restore_flags rows (set_flag (pw_enabled (snd row)) (fst row) s)" by (simp add: restore_flags_def)
  moreover have "map_of rows (fst row) = None" using Cons.prems by (simp add: map_of_eq_None_iff)
  ultimately show ?case
    using Cons by (cases row) (auto simp: registry_simps option.map_comp comp_def split: option.splits intro!: option.map_cong)
qed

section \<open>What the registry promises\<close>

text \<open>
  A row stands for a directory with a package that was read from an archive signed with the row's key,
  installed or in the trash; every directory has its row; at most one version of a name is enabled.
\<close>

definition signed_package :: "plugin_env \<Rightarrow> archive_limits \<Rightarrow> string \<times> string \<Rightarrow> string \<Rightarrow> string \<Rightarrow> package \<Rightarrow> bool" where
  "signed_package env l k key_id digest files =
     (\<exists>archive signature m. read_archive env l archive signature key_id = Inr (m, files, digest) \<and> k = (pm_name m, pm_version m))"

type_synonym plugin_rows = "string \<times> string \<Rightarrow> plugin_row option"
type_synonym removed_rows = "string \<Rightarrow> removed_row option"
type_synonym directories = "place \<Rightarrow> package option"

definition installed_backed :: "plugin_env \<Rightarrow> archive_limits \<Rightarrow> plugin_rows \<Rightarrow> directories \<Rightarrow> bool" where
  "installed_backed env l P D = (\<forall>k r. P k = Some r \<longrightarrow> pw_install_path r = Installed (fst k) (snd k) \<and>
     (\<exists>files. D (Installed (fst k) (snd k)) = Some files \<and> signed_package env l k (pw_signing_key_id r) (pw_archive_sha256 r) files))"

definition removed_backed :: "plugin_env \<Rightarrow> archive_limits \<Rightarrow> removed_rows \<Rightarrow> directories \<Rightarrow> bool" where
  "removed_backed env l G D = (\<forall>i x. G i = Some x \<longrightarrow> rw_trash_path x = Trash i \<and>
     (\<exists>files. D (Trash i) = Some files \<and> signed_package env l (rw_name x, rw_version x) (rw_signing_key_id x) (rw_archive_sha256 x) files))"

definition directories_known :: "plugin_rows \<Rightarrow> removed_rows \<Rightarrow> directories \<Rightarrow> bool" where
  "directories_known P G D = (\<forall>n v i. (D (Installed n v) \<noteq> None \<longrightarrow> P (n, v) \<noteq> None) \<and> (D (Trash i) \<noteq> None \<longrightarrow> G i \<noteq> None))"

definition one_enabled :: "plugin_rows \<Rightarrow> bool" where
  "one_enabled P = (\<forall>n v v' r r'. P (n, v) = Some r \<longrightarrow> pw_enabled r \<longrightarrow> P (n, v') = Some r' \<longrightarrow> pw_enabled r' \<longrightarrow> v = v')"

definition maps_ok :: "plugin_env \<Rightarrow> archive_limits \<Rightarrow> plugin_rows \<Rightarrow> removed_rows \<Rightarrow> directories \<Rightarrow> bool" where
  "maps_ok env l P G D = (installed_backed env l P D \<and> removed_backed env l G D \<and> directories_known P G D \<and> one_enabled P)"

definition registry_ok :: "plugin_env \<Rightarrow> archive_limits \<Rightarrow> plugin_registry \<Rightarrow> bool" where
  "registry_ok env l s = (distinct (map fst (pg_plugins s)) \<and>
     maps_ok env l (map_of (pg_plugins s)) (map_of (pg_removed s)) (map_of (pg_directories s)))"

lemmas maps_ok_defs = maps_ok_def installed_backed_def removed_backed_def directories_known_def one_enabled_def

lemma maps_ok_install:
  assumes "maps_ok env l P G D" "P k = None" "\<not> pw_enabled r" "pw_install_path r = Installed (fst k) (snd k)"
    "signed_package env l k (pw_signing_key_id r) (pw_archive_sha256 r) files"
  shows "maps_ok env l (P(k \<mapsto> r)) G (D(Installed (fst k) (snd k) \<mapsto> files))"
  unfolding maps_ok_def
proof (intro conjI)
  show "installed_backed env l (P(k \<mapsto> r)) (D(Installed (fst k) (snd k) \<mapsto> files))"
    using assms unfolding maps_ok_def installed_backed_def by (auto simp: prod_eq_iff)
  show "removed_backed env l G (D(Installed (fst k) (snd k) \<mapsto> files))"
    using assms unfolding maps_ok_def removed_backed_def by auto
  show "directories_known (P(k \<mapsto> r)) G (D(Installed (fst k) (snd k) \<mapsto> files))"
    using assms unfolding maps_ok_def directories_known_def by (auto simp: prod_eq_iff)
  show "one_enabled (P(k \<mapsto> r))"
    using assms unfolding maps_ok_def one_enabled_def by (auto split: if_splits)
qed

lemma maps_ok_remove:
  assumes "maps_ok env l P G D" "P k = Some r" "G i = None" "D (Installed (fst k) (snd k)) = Some files"
    "x = \<lparr>rw_name = fst k, rw_version = snd k, rw_archive_sha256 = pw_archive_sha256 r, rw_signing_key_id = pw_signing_key_id r, rw_trash_path = Trash i\<rparr>"
  shows "maps_ok env l (P(k := None)) (G(i \<mapsto> x)) (D(Installed (fst k) (snd k) := None, Trash i \<mapsto> files))"
  unfolding maps_ok_def
proof (intro conjI)
  let ?D = "D(Installed (fst k) (snd k) := None, Trash i \<mapsto> files)"
  show "installed_backed env l (P(k := None)) ?D"
    using assms unfolding maps_ok_def installed_backed_def by (auto simp: prod_eq_iff)
  have "signed_package env l k (pw_signing_key_id r) (pw_archive_sha256 r) files"
    using assms(1,2,4) unfolding maps_ok_def installed_backed_def by fastforce
  then show "removed_backed env l (G(i \<mapsto> x)) ?D"
    using assms unfolding maps_ok_def removed_backed_def by auto
  show "directories_known (P(k := None)) (G(i \<mapsto> x)) ?D"
    using assms unfolding maps_ok_def directories_known_def by (auto simp: prod_eq_iff)
  show "one_enabled (P(k := None))"
    using assms unfolding maps_ok_def one_enabled_def by (auto split: if_splits)
qed

lemma maps_ok_restore:
  assumes "maps_ok env l P G D" "G i = Some x" "P (rw_name x, rw_version x) = None" "D (Trash i) = Some files"
    "r = \<lparr>pw_enabled = False, pw_archive_sha256 = rw_archive_sha256 x, pw_signing_key_id = rw_signing_key_id x, pw_install_path = Installed (rw_name x) (rw_version x)\<rparr>"
  shows "maps_ok env l (P((rw_name x, rw_version x) \<mapsto> r)) (G(i := None)) (D(Trash i := None, Installed (rw_name x) (rw_version x) \<mapsto> files))"
  unfolding maps_ok_def
proof (intro conjI)
  let ?k = "(rw_name x, rw_version x)"
  let ?D = "D(Trash i := None, Installed (rw_name x) (rw_version x) \<mapsto> files)"
  have "signed_package env l ?k (rw_signing_key_id x) (rw_archive_sha256 x) files"
    using assms(1,2,4) unfolding maps_ok_def removed_backed_def by fastforce
  then show "installed_backed env l (P(?k \<mapsto> r)) ?D"
    using assms unfolding maps_ok_def installed_backed_def by auto
  show "removed_backed env l (G(i := None)) ?D"
    using assms unfolding maps_ok_def removed_backed_def by auto
  show "directories_known (P(?k \<mapsto> r)) (G(i := None)) ?D"
    using assms unfolding maps_ok_def directories_known_def by auto
  show "one_enabled (P(?k \<mapsto> r))"
    using assms unfolding maps_ok_def one_enabled_def by (auto split: if_splits)
qed

text \<open>Flags: the row keeps everything else, and enabling one version disables the others.\<close>

lemma maps_ok_flags:
  assumes "maps_ok env l P G D" "one_enabled P'" "\<And>k. P' k = map_option (\<lambda>r. r\<lparr>pw_enabled := b k r\<rparr>) (P k)"
  shows "maps_ok env l P' G D"
  using assms unfolding maps_ok_def installed_backed_def directories_known_def by (auto simp: assms(3))

section \<open>What an operation does to the registry\<close>

definition registry_maps :: "plugin_registry \<Rightarrow> plugin_rows \<times> removed_rows \<times> directories" where
  "registry_maps s = (map_of (pg_plugins s), map_of (pg_removed s), map_of (pg_directories s))"

lemma registry_ok_maps: "registry_ok env l s = (distinct (map fst (pg_plugins s)) \<and> (case registry_maps s of (P, G, D) \<Rightarrow> maps_ok env l P G D))"
  by (simp add: registry_ok_def registry_maps_def)

lemma distinct_rows:
  "distinct (map fst (pg_plugins s)) \<Longrightarrow> distinct (map fst (pg_plugins (insert_plugin k r s)))"
  "distinct (map fst (pg_plugins s)) \<Longrightarrow> distinct (map fst (pg_plugins (delete_plugin k s)))"
  by (simp_all add: insert_plugin_def delete_plugin_def distinct_update distinct_delete)

text \<open>
  For each operation, a lemma says that it changes nothing that can be looked up, or makes the one change
  it is for; the process does not die.
\<close>

lemma install_outcome:
  assumes "install_plugin env l trouble archive signature key_id s = (res, t)" "trouble \<noteq> Dies"
    "distinct (map fst (pg_plugins s))"
  shows "distinct (map fst (pg_plugins t)) \<and> (registry_maps t = registry_maps s \<or>
    (\<exists>m files digest r. read_archive env l archive signature key_id = Inr (m, files, digest) \<and>
       map_of (pg_plugins s) (pm_name m, pm_version m) = None \<and> map_of (pg_directories s) (Installed (pm_name m) (pm_version m)) = None \<and>
       r = \<lparr>pw_enabled = False, pw_archive_sha256 = digest, pw_signing_key_id = key_id, pw_install_path = Installed (pm_name m) (pm_version m)\<rparr> \<and>
       (returns res \<or> \<not> key_id_text key_id) \<and>
       registry_maps t = ((map_of (pg_plugins s))((pm_name m, pm_version m) \<mapsto> r), map_of (pg_removed s),
         (map_of (pg_directories s))(Installed (pm_name m) (pm_version m) \<mapsto> files))))"
proof (cases "read_archive env l archive signature key_id")
  case (Inl e)
  then show ?thesis using assms by (simp add: install_plugin_def)
next
  case (Inr a)
  obtain m files digest where a: "a = (m, files, digest)" by (cases a)
  let ?k = "(pm_name m, pm_version m)" and ?p = "Installed (pm_name m) (pm_version m)"
  let ?r = "\<lparr>pw_enabled = False, pw_archive_sha256 = digest, pw_signing_key_id = key_id, pw_install_path = ?p\<rparr>"
  let ?s1 = "s\<lparr>pg_directories := AList.update ?p files (pg_directories s)\<rparr>"
  show ?thesis
  proof (cases "map_of (pg_plugins s) ?k \<noteq> None \<or> is_directory s ?p \<or> \<not> package_writable files")
    case True
    then have "t = s" using assms(1) Inr a by (auto simp: install_plugin_def Let_def split: if_splits option.splits)
    then show ?thesis using assms(3) by simp
  next
    case False
    then have d: "map_of (pg_directories s) ?p = None" and p: "map_of (pg_plugins s) ?k = None" by (simp_all add: is_directory_def)
    have maps1: "registry_maps ?s1 = (map_of (pg_plugins s), map_of (pg_removed s), (map_of (pg_directories s))(?p \<mapsto> files))"
      by (simp add: registry_maps_def update_conv')
    have run: "(res, t) = (if trouble = DatabaseFails then (Inl PluginIOError, remove_tree ?p ?s1)
        else if \<not> returns (InstalledPlugin ?r) then (InstalledPlugin ?r, insert_plugin ?k ?r ?s1)
        else if trouble = AuditFails then (Inl PluginIOError, remove_tree ?p (delete_plugin ?k (insert_plugin ?k ?r ?s1)))
        else (Inr ?r, insert_plugin ?k ?r ?s1))"
      using assms(1,2) False Inr a p by (simp add: install_plugin_def Let_def is_directory_def)
    have undo: "registry_maps (remove_tree ?p ?s1) = registry_maps s"
        "registry_maps (remove_tree ?p (delete_plugin ?k (insert_plugin ?k ?r ?s1))) = registry_maps s"
      using maps1 d p by (auto simp: registry_maps_def registry_simps fun_eq_iff)
    have new: "registry_maps (insert_plugin ?k ?r ?s1) = ((map_of (pg_plugins s))(?k \<mapsto> ?r), map_of (pg_removed s), (map_of (pg_directories s))(?p \<mapsto> files))"
      using maps1 by (simp add: registry_maps_def registry_simps)
    have dist: "distinct (map fst (pg_plugins t))"
      using run assms(3) by (auto simp: registry_simps intro!: distinct_rows split: if_splits)
    have "InstalledPlugin ?r = Inr ?r \<or> \<not> key_id_text key_id" by (simp add: InstalledPlugin_def plugin_check_def)
    then have "registry_maps t = registry_maps s \<or> (returns res \<or> \<not> key_id_text key_id) \<and> t = insert_plugin ?k ?r ?s1"
      using run undo by (auto split: if_splits)
    then show ?thesis using dist new Inr a d p by auto
  qed
qed

text \<open>The flags after \<open>set_enabled\<close>.\<close>

definition new_flag :: "bool \<Rightarrow> string \<times> string \<Rightarrow> string \<times> string \<Rightarrow> plugin_row \<Rightarrow> bool" where
  "new_flag enabled k j r = (if j = k then enabled else if enabled \<and> fst j = fst k then False else pw_enabled r)"

lemma flags_set:
  "map_of (pg_plugins (set_flag enabled k (if enabled then disable_all (fst k) s else s))) j
     = map_option (\<lambda>r. r\<lparr>pw_enabled := new_flag enabled k j r\<rparr>) (map_of (pg_plugins s) j)"
  by (cases "map_of (pg_plugins s) j"; cases "j = k") (auto simp: registry_simps new_flag_def)

lemma map_of_filter_keys: "map_of (filter (\<lambda>row. P (fst row)) xs) j = (if P j then map_of xs j else None)"
  by (induction xs) auto

lemma flags_restored:
  assumes "distinct (map fst (pg_plugins s))" "\<And>j. map_of (pg_plugins s1) j = map_option (\<lambda>r. r\<lparr>pw_enabled := b j r\<rparr>) (map_of (pg_plugins s) j)"
    "\<And>j r. map_of (pg_plugins s) j = Some r \<Longrightarrow> fst j \<noteq> name \<Longrightarrow> b j r = pw_enabled r"
  shows "map_of (pg_plugins (restore_flags (filter (\<lambda>row. fst (fst row) = name) (pg_plugins s)) (disable_all name s1))) = map_of (pg_plugins s)"
proof
  fix j
  let ?rows = "filter (\<lambda>row. fst (fst row) = name) (pg_plugins s)"
  have dist: "distinct (map fst ?rows)" using assms(1) by (rule distinct_map_filter)
  have rows: "map_of ?rows j = (if fst j = name then map_of (pg_plugins s) j else None)" by (rule map_of_filter_keys)
  show "map_of (pg_plugins (restore_flags ?rows (disable_all name s1))) j = map_of (pg_plugins s) j"
    using assms(3)[of j] by (cases "map_of (pg_plugins s) j") (auto simp: restore_flags_select[OF dist] rows registry_simps assms(2))
qed

lemma set_enabled_outcome:
  assumes "set_enabled env trouble name version enabled s = (res, t)" "distinct (map fst (pg_plugins s))"
  shows "distinct (map fst (pg_plugins t)) \<and> (registry_maps t = registry_maps s \<or>
    (\<exists>r. map_of (pg_plugins s) (name, version) = Some r \<and> (returns res \<or> \<not> key_id_text (pw_signing_key_id r)) \<and> enabling_check env enabled r s = Inr () \<and>
       registry_maps t = ((\<lambda>j. map_option (\<lambda>r. r\<lparr>pw_enabled := new_flag enabled (name, version) j r\<rparr>) (map_of (pg_plugins s) j)),
         map_of (pg_removed s), map_of (pg_directories s))))"
proof (cases "\<exists>r. map_of (pg_plugins s) (name, version) = Some r \<and> pw_install_path r = Installed name version \<and> enabling_check env enabled r s = Inr () \<and>
    trouble \<noteq> Dies \<and> trouble \<noteq> DatabaseFails")
  case False
  then have "t = s" using assms(1) by (auto simp: set_enabled_def Let_def split: if_splits option.splits sum.splits)
  then show ?thesis using assms(2) by simp
next
  case True
  then obtain r where r: "map_of (pg_plugins s) (name, version) = Some r" "pw_install_path r = Installed name version" "enabling_check env enabled r s = Inr ()"
      "trouble \<noteq> Dies" "trouble \<noteq> DatabaseFails" by blast
  let ?s1 = "set_flag enabled (name, version) (if enabled then disable_all name s else s)"
  let ?undo = "restore_flags (filter (\<lambda>row. fst (fst row) = name) (pg_plugins s)) (disable_all name ?s1)"
  let ?r1 = "r\<lparr>pw_enabled := enabled\<rparr>"
  have run: "(res, t) = (if \<not> returns (InstalledPlugin ?r1) then (InstalledPlugin ?r1, ?s1)
      else if trouble = AuditFails then (Inl PluginIOError, ?undo) else (Inr ?r1, ?s1))"
    using assms(1) r by (simp add: set_enabled_def Let_def)
  have s1: "map_of (pg_plugins ?s1) j = map_option (\<lambda>r. r\<lparr>pw_enabled := new_flag enabled (name, version) j r\<rparr>) (map_of (pg_plugins s) j)" for j
    by (rule flags_set[of enabled "(name, version)" s j, unfolded fst_conv])
  have maps1: "registry_maps ?s1 = ((\<lambda>j. map_option (\<lambda>r. r\<lparr>pw_enabled := new_flag enabled (name, version) j r\<rparr>) (map_of (pg_plugins s) j)),
      map_of (pg_removed s), map_of (pg_directories s))"
    by (simp add: registry_maps_def s1 fun_eq_iff) (simp add: registry_simps)
  have "map_of (pg_plugins ?undo) = map_of (pg_plugins s)"
    by (rule flags_restored[OF assms(2) s1]) (auto simp: new_flag_def)
  then have undone: "registry_maps ?undo = registry_maps s" by (simp add: registry_maps_def registry_simps)
  have keys: "map fst (pg_plugins ?s1) = map fst (pg_plugins s)" "map fst (pg_plugins ?undo) = map fst (pg_plugins s)" by (simp_all add: registry_simps)
  have dist: "distinct (map fst (pg_plugins t))" using run assms(2) keys by (auto split: if_splits)
  have "InstalledPlugin ?r1 = Inr ?r1 \<or> \<not> key_id_text (pw_signing_key_id r)" by (simp add: InstalledPlugin_def plugin_check_def)
  then have "t = ?undo \<or> (returns res \<or> \<not> key_id_text (pw_signing_key_id r)) \<and> t = ?s1" using run by (auto split: if_splits)
  then show ?thesis using dist r(1,3) maps1 undone by auto
qed

text \<open>A directory moved and moved back.\<close>

lemma rename_there_and_back:
  assumes "map_of (pg_directories s) p = Some x" "map_of (pg_directories s) q = None"
  shows "map_of (pg_directories (rename_directory p q s)) = (map_of (pg_directories s))(p := None, q \<mapsto> x)"
    "map_of (pg_directories t) = (map_of (pg_directories s))(p := None, q \<mapsto> x) \<Longrightarrow>
       map_of (pg_directories (rename_directory q p t)) = map_of (pg_directories s)"
  using assms by (auto simp: registry_simps fun_eq_iff)

lemma remove_outcome:
  assumes "remove_plugin trouble i name version s = (res, t)" "trouble \<noteq> Dies" "registry_ok env l s"
    "map_of (pg_removed s) i = None" "map_of (pg_directories s) (Trash i) = None"
  shows "distinct (map fst (pg_plugins t)) \<and> (registry_maps t = registry_maps s \<or>
    (\<exists>r x files. map_of (pg_plugins s) (name, version) = Some r \<and> \<not> pw_enabled r \<and> (returns res \<or> \<not> key_id_text (pw_signing_key_id r)) \<and>
       map_of (pg_directories s) (Installed name version) = Some files \<and>
       x = \<lparr>rw_name = name, rw_version = version, rw_archive_sha256 = pw_archive_sha256 r, rw_signing_key_id = pw_signing_key_id r, rw_trash_path = Trash i\<rparr> \<and>
       registry_maps t = ((map_of (pg_plugins s))((name, version) := None), (map_of (pg_removed s))(i \<mapsto> x),
         (map_of (pg_directories s))(Installed name version := None, Trash i \<mapsto> files))))"
proof (cases "\<exists>r. map_of (pg_plugins s) (name, version) = Some r \<and> \<not> pw_enabled r \<and> is_directory s (pw_install_path r)")
  case False
  then have "t = s" using assms(1) by (auto simp: remove_plugin_def Let_def split: if_splits option.splits)
  then show ?thesis using assms(3) by (simp add: registry_ok_def)
next
  case True
  let ?k = "(name, version)" and ?p = "Installed name version" and ?q = "Trash i"
  obtain r where r: "map_of (pg_plugins s) ?k = Some r" "\<not> pw_enabled r" using True by blast
  have path: "pw_install_path r = ?p"
    using assms(3) r(1) unfolding registry_ok_def maps_ok_def installed_backed_def by fastforce
  obtain files where d: "map_of (pg_directories s) ?p = Some files" using True r(1) path by (auto simp: is_directory_def)
  let ?s1 = "rename_directory ?p ?q s"
  let ?x = "\<lparr>rw_name = name, rw_version = version, rw_archive_sha256 = pw_archive_sha256 r, rw_signing_key_id = pw_signing_key_id r, rw_trash_path = ?q\<rparr>"
  let ?s2 = "delete_plugin ?k (insert_removed i ?x ?s1)"
  let ?undo = "delete_removed i (insert_plugin ?k (r\<lparr>pw_enabled := False\<rparr>) (rename_directory ?q ?p ?s2))"
  have run: "(res, t) = (if trouble = DatabaseFails then (Inl PluginIOError, rename_directory ?q ?p ?s1)
      else if \<not> returns (RemovedPlugin ?x) then (RemovedPlugin ?x, ?s2)
      else if trouble = AuditFails then (Inl PluginIOError, ?undo) else (Inr ?x, ?s2))"
    using assms(1,2) r d by (simp add: remove_plugin_def Let_def path is_directory_def)
  note moved = rename_there_and_back[OF d assms(5)]
  have dirs2: "map_of (pg_directories ?s2) = (map_of (pg_directories s))(?p := None, ?q \<mapsto> files)"
    unfolding delete_plugin_select insert_removed_select by (rule moved(1))
  have maps2: "registry_maps ?s2 = ((map_of (pg_plugins s))(?k := None), (map_of (pg_removed s))(i \<mapsto> ?x), (map_of (pg_directories s))(?p := None, ?q \<mapsto> files))"
    using dirs2 by (simp add: registry_maps_def) (simp add: registry_simps)
  have back1: "registry_maps (rename_directory ?q ?p ?s1) = registry_maps s"
    using moved(2)[OF moved(1)] by (simp add: registry_maps_def rename_directory_rows)
  have "r\<lparr>pw_enabled := False\<rparr> = r" using r(2) by simp
  then have "map_of (pg_plugins ?undo) = map_of (pg_plugins s)" "map_of (pg_removed ?undo) = map_of (pg_removed s)"
    using r(1) assms(4) by (auto simp: registry_simps fun_eq_iff)
  moreover have "map_of (pg_directories ?undo) = map_of (pg_directories s)"
    unfolding delete_removed_select insert_plugin_select by (rule moved(2)[OF dirs2])
  ultimately have back2: "registry_maps ?undo = registry_maps s" by (simp add: registry_maps_def)
  have "distinct (map fst (pg_plugins s))" using assms(3) by (simp add: registry_ok_def)
  then have dist: "distinct (map fst (pg_plugins t))"
    using run by (auto simp: registry_simps intro!: distinct_rows split: if_splits)
  have "RemovedPlugin ?x = Inr ?x \<or> \<not> key_id_text (pw_signing_key_id r)" by (simp add: RemovedPlugin_def plugin_check_def)
  then have "registry_maps t = registry_maps s \<or> (returns res \<or> \<not> key_id_text (pw_signing_key_id r)) \<and> t = ?s2"
    using run back1 back2 by (auto split: if_splits)
  then show ?thesis using dist r d maps2 by auto
qed

lemma restore_outcome:
  assumes "restore_plugin trouble i s = (res, t)" "trouble \<noteq> Dies" "registry_ok env l s"
  shows "distinct (map fst (pg_plugins t)) \<and> (registry_maps t = registry_maps s \<or>
    (\<exists>x r files. map_of (pg_removed s) i = Some x \<and> map_of (pg_plugins s) (rw_name x, rw_version x) = None \<and> (returns res \<or> \<not> key_id_text (rw_signing_key_id x)) \<and>
       map_of (pg_directories s) (Trash i) = Some files \<and>
       r = \<lparr>pw_enabled = False, pw_archive_sha256 = rw_archive_sha256 x, pw_signing_key_id = rw_signing_key_id x, pw_install_path = Installed (rw_name x) (rw_version x)\<rparr> \<and>
       registry_maps t = ((map_of (pg_plugins s))((rw_name x, rw_version x) \<mapsto> r), (map_of (pg_removed s))(i := None),
         (map_of (pg_directories s))(Trash i := None, Installed (rw_name x) (rw_version x) \<mapsto> files))))"
proof (cases "\<exists>x. map_of (pg_removed s) i = Some x \<and> is_directory s (rw_trash_path x) \<and> \<not> is_directory s (Installed (rw_name x) (rw_version x))")
  case False
  then have "t = s" using assms(1) by (auto simp: restore_plugin_def Let_def split: if_splits option.splits)
  then show ?thesis using assms(3) by (simp add: registry_ok_def)
next
  case True
  then obtain x where x: "map_of (pg_removed s) i = Some x" by blast
  let ?k = "(rw_name x, rw_version x)" and ?p = "Installed (rw_name x) (rw_version x)" and ?q = "Trash i"
  have path: "rw_trash_path x = ?q"
    using assms(3) x unfolding registry_ok_def maps_ok_def removed_backed_def by fastforce
  obtain files where d: "map_of (pg_directories s) ?q = Some files" "map_of (pg_directories s) ?p = None"
    using True x path by (auto simp: is_directory_def)
  let ?s1 = "rename_directory ?q ?p s"
  let ?r = "\<lparr>pw_enabled = False, pw_archive_sha256 = rw_archive_sha256 x, pw_signing_key_id = rw_signing_key_id x, pw_install_path = ?p\<rparr>"
  let ?s2 = "delete_removed i (insert_plugin ?k ?r ?s1)"
  let ?undo = "delete_plugin ?k (insert_removed i x (rename_directory ?p ?q ?s2))"
  have run: "(res, t) = (if trouble = DatabaseFails \<or> map_of (pg_plugins s) ?k \<noteq> None then (Inl PluginIOError, rename_directory ?p ?q ?s1)
      else if \<not> returns (InstalledPlugin ?r) then (InstalledPlugin ?r, ?s2)
      else if trouble = AuditFails then (Inl PluginIOError, ?undo) else (Inr ?r, ?s2))"
    using assms(1,2) x d by (simp add: restore_plugin_def Let_def path is_directory_def)
  note moved = rename_there_and_back[OF d]
  have dirs2: "map_of (pg_directories ?s2) = (map_of (pg_directories s))(?q := None, ?p \<mapsto> files)"
    unfolding insert_plugin_select delete_removed_select by (rule moved(1))
  have maps2: "registry_maps ?s2 = ((map_of (pg_plugins s))(?k \<mapsto> ?r), (map_of (pg_removed s))(i := None), (map_of (pg_directories s))(?q := None, ?p \<mapsto> files))"
    using dirs2 by (simp add: registry_maps_def) (simp add: registry_simps)
  have back1: "registry_maps (rename_directory ?p ?q ?s1) = registry_maps s"
    using moved(2)[OF moved(1)] by (simp add: registry_maps_def rename_directory_rows)
  have back2: "registry_maps ?undo = registry_maps s" if "map_of (pg_plugins s) ?k = None"
  proof -
    have "map_of (pg_plugins ?undo) = map_of (pg_plugins s)" "map_of (pg_removed ?undo) = map_of (pg_removed s)"
      using that x by (auto simp: registry_simps fun_eq_iff)
    moreover have "map_of (pg_directories ?undo) = map_of (pg_directories s)"
      unfolding delete_plugin_select insert_removed_select by (rule moved(2)[OF dirs2])
    ultimately show ?thesis by (simp add: registry_maps_def)
  qed
  have "distinct (map fst (pg_plugins s))" using assms(3) by (simp add: registry_ok_def)
  then have dist: "distinct (map fst (pg_plugins t))"
    using run by (auto simp: registry_simps intro!: distinct_rows split: if_splits)
  have "InstalledPlugin ?r = Inr ?r \<or> \<not> key_id_text (rw_signing_key_id x)" by (simp add: InstalledPlugin_def plugin_check_def)
  then have "registry_maps t = registry_maps s \<or> (returns res \<or> \<not> key_id_text (rw_signing_key_id x)) \<and> map_of (pg_plugins s) ?k = None \<and> t = ?s2"
    using run back1 back2 by (auto split: if_splits)
  then show ?thesis using dist x d maps2 by auto
qed

section \<open>Every operation\<close>

datatype plugin_op = InstallOp string string string | EnableOp string string bool | RemoveOp string string string | RestoreOp string

fun run_plugin_op :: "plugin_env \<Rightarrow> archive_limits \<Rightarrow> registry_trouble \<Rightarrow> plugin_op \<Rightarrow> plugin_registry \<Rightarrow> (plugin_error + unit) \<times> plugin_registry" where
  "run_plugin_op env l trouble (InstallOp archive signature key_id) s = map_prod (map_sum id (\<lambda>_. ())) id (install_plugin env l trouble archive signature key_id s)"
| "run_plugin_op env l trouble (EnableOp name version enabled) s = map_prod (map_sum id (\<lambda>_. ())) id (set_enabled env trouble name version enabled s)"
| "run_plugin_op env l trouble (RemoveOp i name version) s = map_prod (map_sum id (\<lambda>_. ())) id (remove_plugin trouble i name version s)"
| "run_plugin_op env l trouble (RestoreOp i) s = map_prod (map_sum id (\<lambda>_. ())) id (restore_plugin trouble i s)"

text \<open>\<open>uuid4\<close> gives a removal a name that no row and no directory has.\<close>

fun op_fresh :: "plugin_op \<Rightarrow> plugin_registry \<Rightarrow> bool" where
  "op_fresh (RemoveOp i name version) s = (map_of (pg_removed s) i = None \<and> map_of (pg_directories s) (Trash i) = None)"
| "op_fresh _ s = True"

definition key_names_portable :: "plugin_env \<Rightarrow> bool" where
  "key_names_portable env = list_all (\<lambda>kv. key_id_text (fst kv)) (pl_keys env)"

lemma signed_package_key:
  assumes "signed_package env l k key_id digest files" "key_names_portable env"
  shows "key_id_text key_id"
proof -
  obtain archive signature where "verify_signature env archive signature key_id = Inr ()"
    using assms(1) read_archiveD unfolding signed_package_def by blast
  then obtain public_key where "(key_id, public_key) \<in> set (pl_keys env)"
    by (auto simp: verify_signature_def dict_get_def dest: map_of_SomeD split: option.splits)
  then show ?thesis using assms(2) by (auto simp: key_names_portable_def list_all_iff)
qed

lemma returns_mapE: "returns (mapE f xs) \<Longrightarrow> x \<in> set xs \<Longrightarrow> returns (f x)"
  by (induction xs) (auto simp: returns_bindE)

lemma returns_map_sum [simp]: "returns (map_sum f g r) = returns r"
  by (cases r) simp_all

lemma one_enabled_flags:
  assumes "one_enabled P" "P k \<noteq> None"
  shows "one_enabled (\<lambda>j. map_option (\<lambda>r. r\<lparr>pw_enabled := new_flag enabled k j r\<rparr>) (P j))"
  unfolding one_enabled_def
proof (intro allI impI)
  fix n v v' r r'
  assume a: "map_option (\<lambda>r. r\<lparr>pw_enabled := new_flag enabled k (n, v) r\<rparr>) (P (n, v)) = Some r" "pw_enabled r"
    "map_option (\<lambda>r. r\<lparr>pw_enabled := new_flag enabled k (n, v') r\<rparr>) (P (n, v')) = Some r'" "pw_enabled r'"
  obtain q where q: "P (n, v) = Some q" "new_flag enabled k (n, v) q" using a(1,2) by auto
  obtain q' where q': "P (n, v') = Some q'" "new_flag enabled k (n, v') q'" using a(3,4) by auto
  show "v = v'"
    using q q' assms(1) unfolding one_enabled_def new_flag_def by (auto split: if_splits)
qed

text \<open>Each operation keeps the promises, and an error that is not about the name of a signing key leaves every row and directory as it was.\<close>

definition kept :: "plugin_env \<Rightarrow> archive_limits \<Rightarrow> plugin_registry \<Rightarrow> 'e + 'a \<Rightarrow> plugin_registry \<Rightarrow> bool" where
  "kept env l s res t = (registry_ok env l t \<and> (registry_maps t = registry_maps s \<or> returns res \<or> \<not> key_names_portable env))"

lemma kept_same: "registry_ok env l s \<Longrightarrow> distinct (map fst (pg_plugins t)) \<Longrightarrow> registry_maps t = registry_maps s \<Longrightarrow> kept env l s res t"
  by (simp add: kept_def registry_ok_maps)

lemma kept_changed:
  assumes "maps_ok env l P G D" "registry_maps t = (P, G, D)" "distinct (map fst (pg_plugins t))"
    "returns res \<or> \<not> key_id_text key_id" "\<exists>k digest files. signed_package env l k key_id digest files"
  shows "kept env l s res t"
  using assms signed_package_key unfolding kept_def by (auto simp: registry_ok_maps)

lemma install_keeps:
  assumes "install_plugin env l trouble archive signature key_id s = (res, t)" "trouble \<noteq> Dies" "registry_ok env l s"
  shows "kept env l s res t"
proof -
  have ok: "maps_ok env l (map_of (pg_plugins s)) (map_of (pg_removed s)) (map_of (pg_directories s))"
    and dist: "distinct (map fst (pg_plugins s))" using assms(3) by (simp_all add: registry_ok_def)
  note out = install_outcome[OF assms(1,2) dist]
  show ?thesis
  proof (cases "registry_maps t = registry_maps s")
    case True
    then show ?thesis using out kept_same[OF assms(3)] by blast
  next
    case False
    let ?k = "\<lambda>m. (pm_name m, pm_version m)" and ?p = "\<lambda>m. Installed (pm_name m) (pm_version m)"
    from False obtain m files digest r where o: "read_archive env l archive signature key_id = Inr (m, files, digest)"
        "map_of (pg_plugins s) (?k m) = None" "returns res \<or> \<not> key_id_text key_id"
        "r = \<lparr>pw_enabled = False, pw_archive_sha256 = digest, pw_signing_key_id = key_id, pw_install_path = ?p m\<rparr>"
        "registry_maps t = ((map_of (pg_plugins s))(?k m \<mapsto> r), map_of (pg_removed s), (map_of (pg_directories s))(?p m \<mapsto> files))"
      using out by blast
    have signed: "signed_package env l (?k m) key_id digest files" using o(1) unfolding signed_package_def by blast
    have "maps_ok env l ((map_of (pg_plugins s))(?k m \<mapsto> r)) (map_of (pg_removed s)) ((map_of (pg_directories s))(?p m \<mapsto> files))"
      using maps_ok_install[OF ok o(2), of r files] signed o(4) by simp
    then show ?thesis using kept_changed[OF _ o(5) _ o(3)] out signed by blast
  qed
qed

lemma set_enabled_keeps:
  assumes "set_enabled env trouble name version enabled s = (res, t)" "registry_ok env l s"
  shows "kept env l s res t"
proof -
  let ?P = "map_of (pg_plugins s)"
  have ok: "maps_ok env l ?P (map_of (pg_removed s)) (map_of (pg_directories s))"
    and dist: "distinct (map fst (pg_plugins s))" using assms(2) by (simp_all add: registry_ok_def)
  note out = set_enabled_outcome[OF assms(1) dist]
  show ?thesis
  proof (cases "registry_maps t = registry_maps s")
    case True
    then show ?thesis using out kept_same[OF assms(2)] by blast
  next
    case False
    let ?P' = "\<lambda>j. map_option (\<lambda>r. r\<lparr>pw_enabled := new_flag enabled (name, version) j r\<rparr>) (?P j)"
    from False obtain r where o: "?P (name, version) = Some r" "returns res \<or> \<not> key_id_text (pw_signing_key_id r)"
        "registry_maps t = (?P', map_of (pg_removed s), map_of (pg_directories s))"
      using out by blast
    have "one_enabled ?P'" using one_enabled_flags[of ?P "(name, version)" enabled] ok o(1) by (simp add: maps_ok_def)
    then have "maps_ok env l ?P' (map_of (pg_removed s)) (map_of (pg_directories s))" by (rule maps_ok_flags[OF ok]) (rule refl)
    moreover have "\<exists>k digest files. signed_package env l k (pw_signing_key_id r) digest files"
      using ok o(1) unfolding maps_ok_def installed_backed_def by blast
    ultimately show ?thesis using kept_changed[OF _ o(3) _ o(2)] out by blast
  qed
qed

lemma remove_keeps:
  assumes "remove_plugin trouble i name version s = (res, t)" "trouble \<noteq> Dies" "registry_ok env l s"
    "map_of (pg_removed s) i = None" "map_of (pg_directories s) (Trash i) = None"
  shows "kept env l s res t"
proof -
  have ok: "maps_ok env l (map_of (pg_plugins s)) (map_of (pg_removed s)) (map_of (pg_directories s))" using assms(3) by (simp add: registry_ok_def)
  note out = remove_outcome[OF assms]
  show ?thesis
  proof (cases "registry_maps t = registry_maps s")
    case True
    then show ?thesis using out kept_same[OF assms(3)] by blast
  next
    case False
    let ?k = "(name, version)" and ?p = "Installed name version"
    from False obtain r x files where o: "map_of (pg_plugins s) ?k = Some r" "returns res \<or> \<not> key_id_text (pw_signing_key_id r)"
        "map_of (pg_directories s) ?p = Some files"
        "x = \<lparr>rw_name = name, rw_version = version, rw_archive_sha256 = pw_archive_sha256 r, rw_signing_key_id = pw_signing_key_id r, rw_trash_path = Trash i\<rparr>"
        "registry_maps t = ((map_of (pg_plugins s))(?k := None), (map_of (pg_removed s))(i \<mapsto> x), (map_of (pg_directories s))(?p := None, Trash i \<mapsto> files))"
      using out by blast
    have "maps_ok env l ((map_of (pg_plugins s))(?k := None)) ((map_of (pg_removed s))(i \<mapsto> x)) ((map_of (pg_directories s))(?p := None, Trash i \<mapsto> files))"
      using maps_ok_remove[OF ok o(1) assms(4), of files x] o(3,4) by simp
    moreover have "\<exists>k digest files. signed_package env l k (pw_signing_key_id r) digest files"
      using ok o(1) unfolding maps_ok_def installed_backed_def by blast
    ultimately show ?thesis using kept_changed[OF _ o(5) _ o(2)] out by blast
  qed
qed

lemma restore_keeps:
  assumes "restore_plugin trouble i s = (res, t)" "trouble \<noteq> Dies" "registry_ok env l s"
  shows "kept env l s res t"
proof -
  have ok: "maps_ok env l (map_of (pg_plugins s)) (map_of (pg_removed s)) (map_of (pg_directories s))" using assms(3) by (simp add: registry_ok_def)
  note out = restore_outcome[OF assms]
  show ?thesis
  proof (cases "registry_maps t = registry_maps s")
    case True
    then show ?thesis using out kept_same[OF assms(3)] by blast
  next
    case False
    let ?k = "\<lambda>x. (rw_name x, rw_version x)" and ?p = "\<lambda>x. Installed (rw_name x) (rw_version x)"
    from False obtain x r files where o: "map_of (pg_removed s) i = Some x" "map_of (pg_plugins s) (?k x) = None"
        "returns res \<or> \<not> key_id_text (rw_signing_key_id x)" "map_of (pg_directories s) (Trash i) = Some files"
        "r = \<lparr>pw_enabled = False, pw_archive_sha256 = rw_archive_sha256 x, pw_signing_key_id = rw_signing_key_id x, pw_install_path = ?p x\<rparr>"
        "registry_maps t = ((map_of (pg_plugins s))(?k x \<mapsto> r), (map_of (pg_removed s))(i := None), (map_of (pg_directories s))(Trash i := None, ?p x \<mapsto> files))"
      using out by blast
    note new = maps_ok_restore[OF ok o(1,2,4,5)]
    have "\<exists>k digest files. signed_package env l k (rw_signing_key_id x) digest files"
      using ok o(1) unfolding maps_ok_def removed_backed_def by blast
    then show ?thesis using kept_changed[OF new o(6) _ o(3)] out by blast
  qed
qed

lemma kept_result [simp]: "kept env l s (map_sum f g res) t = kept env l s res t"
  by (cases res) (simp_all add: kept_def)

lemma run_plugin_op_keeps:
  assumes "run_plugin_op env l trouble op s = (res, t)" "trouble \<noteq> Dies" "registry_ok env l s" "op_fresh op s"
  shows "kept env l s res t"
proof (cases op)
  case (InstallOp archive signature key_id)
  then show ?thesis using assms
    by (cases "install_plugin env l trouble archive signature key_id s") (auto intro: install_keeps)
next
  case (EnableOp name version enabled)
  then show ?thesis using assms
    by (cases "set_enabled env trouble name version enabled s") (auto intro: set_enabled_keeps)
next
  case (RemoveOp i name version)
  then show ?thesis using assms
    by (cases "remove_plugin trouble i name version s") (auto intro: remove_keeps)
next
  case (RestoreOp i)
  then show ?thesis using assms
    by (cases "restore_plugin trouble i s") (auto intro: restore_keeps)
qed

section \<open>The registry over its lifetime\<close>

definition PluginRegistry :: "plugin_registry \<Rightarrow> bool" where
  "PluginRegistry s = (s = \<lparr>pg_plugins = [], pg_removed = [], pg_directories = []\<rparr>)"

inductive plugin_step :: "plugin_env \<Rightarrow> archive_limits \<Rightarrow> plugin_registry \<Rightarrow> plugin_registry \<Rightarrow> bool" for env l where
  plugin_stepI: "op_fresh op s \<Longrightarrow> trouble \<noteq> Dies \<Longrightarrow> run_plugin_op env l trouble op s = (res, t) \<Longrightarrow> plugin_step env l s t"

interpretation plugins: invariant_machine PluginRegistry "plugin_step env l" "registry_ok env l" for env l
proof
  show "PluginRegistry s \<Longrightarrow> registry_ok env l s" for s
    by (simp add: PluginRegistry_def registry_ok_def maps_ok_defs)
  show "plugin_step env l s t \<Longrightarrow> registry_ok env l s \<Longrightarrow> registry_ok env l t" for s t
    using run_plugin_op_keeps by (auto simp: kept_def elim!: plugin_step.cases)
qed

section \<open>A small package\<close>

definition demo_sha :: "string \<Rightarrow> string" where
  "demo_sha s = replicate 63 CHR ''0'' @ [if length s = 2 then CHR ''2'' else CHR ''a'']"

definition demo_plugin :: plugin_manifest where
  "demo_plugin = \<lparr>pm_name = ''notes'', pm_version = ''1.2.0'', pm_description = ''Notes'',
     pm_files = [\<lparr>pf_path = ''lib/run.py'', pf_size = 2, pf_sha256 = replicate 63 CHR ''0'' @ ''2''\<rparr>]\<rparr>"

definition demo_zip_entry :: "string \<Rightarrow> string \<Rightarrow> zip_entry" where
  "demo_zip_entry name content = \<lparr>ze_filename = name, ze_orig_filename = name, ze_is_dir = False, ze_encrypted = False,
     ze_stored_or_deflated = True, ze_special_file = False, ze_file_size = int (length content),
     ze_compress_size = int (length content), ze_content = Some content\<rparr>"

definition demo_plugin_env :: plugin_env where
  "demo_plugin_env = \<lparr>pl_keys = [(''release'', ''PUBLIC''), (''_old'', ''PUBLIC'')], pl_openssl = (\<lambda>payload signature key. signature = replicate 64 CHR ''s''),
     pl_unzip = (\<lambda>archive. if archive = ''PK'' then Some [demo_zip_entry ''plugin.json'' ''{...}'', demo_zip_entry ''lib/run.py'' ''go''] else None),
     pl_manifest = (\<lambda>content. if content = ''{...}'' then Some demo_plugin else None), pl_sha256 = demo_sha\<rparr>"

definition demo_archive_limits :: archive_limits where
  "demo_archive_limits = \<lparr>al_max_archive_bytes = 67108864, al_max_expanded_bytes = 268435456, al_max_file_bytes = 16777216,
     al_max_entries = 1024, al_max_expansion_ratio = 100\<rparr>"

definition demo_package :: package where
  "demo_package = [(''plugin.json'', ''{...}''), (''lib/run.py'', ''go'')]"

definition demo_row :: "string \<Rightarrow> plugin_row" where
  "demo_row key_id = \<lparr>pw_enabled = False, pw_archive_sha256 = demo_sha ''PK'', pw_signing_key_id = key_id, pw_install_path = Installed ''notes'' ''1.2.0''\<rparr>"

definition demo_installed :: "string \<Rightarrow> plugin_registry" where
  "demo_installed key_id = \<lparr>pg_plugins = [((''notes'', ''1.2.0''), demo_row key_id)], pg_removed = [], pg_directories = [(Installed ''notes'' ''1.2.0'', demo_package)]\<rparr>"

definition empty_registry :: plugin_registry where
  "empty_registry = \<lparr>pg_plugins = [], pg_removed = [], pg_directories = []\<rparr>"

lemma demo_manifest_accepted: "PluginManifest demo_plugin = Inr demo_plugin"
  by code_simp

lemma demo_read:
  "read_archive demo_plugin_env demo_archive_limits ''PK'' (replicate 64 CHR ''s'') ''release'' = Inr (demo_plugin, demo_package, demo_sha ''PK'')"
  "read_archive demo_plugin_env demo_archive_limits ''PK'' (replicate 64 CHR ''s'') ''_old'' = Inr (demo_plugin, demo_package, demo_sha ''PK'')"
  by code_simp+

lemma demo_trusted_keys: "OpenSSLEd25519Verifier (pl_keys demo_plugin_env) = Inr (pl_keys demo_plugin_env)"
  by code_simp

lemma demo_install: "install_plugin demo_plugin_env demo_archive_limits NoTrouble ''PK'' (replicate 64 CHR ''s'') ''release'' empty_registry = (Inr (demo_row ''release''), demo_installed ''release'')"
  by code_simp

lemma demo_reached: "reaches PluginRegistry (plugin_step demo_plugin_env demo_archive_limits) (demo_installed ''release'')"
proof (rule reaches_step)
  show "reaches PluginRegistry (plugin_step demo_plugin_env demo_archive_limits) empty_registry"
    by (rule reaches_init) (simp add: PluginRegistry_def empty_registry_def)
  show "plugin_step demo_plugin_env demo_archive_limits empty_registry (demo_installed ''release'')"
    by (rule plugin_stepI[where op = "InstallOp ''PK'' (replicate 64 CHR ''s'') ''release''" and trouble = NoTrouble]) (simp_all add: demo_install)
qed

section \<open>Properties\<close>

text \<open>
  An archive is read only if the 64-byte signature of exactly its bytes verifies under the trusted key that
  the caller names; the digest is the archive's; the files are the manifest and the files it declares, each
  with the declared size and SHA-256; no path leaves the package.
\<close>

theorem archive_read_exact:
  assumes "read_archive env l archive signature key_id = Inr (m, files, digest)"
  shows "(\<exists>public_key. dict_get (pl_keys env) key_id = Some public_key \<and> pl_openssl env archive signature public_key) \<and>
    length signature = 64 \<and> digest = pl_sha256 env archive \<and>
    (\<exists>manifest contents. files = (''plugin.json'', manifest) # contents \<and> parse_manifest env manifest = Some m \<and> files_as_declared env m contents) \<and>
    (\<forall>f \<in> set files. path_confined (fst f))"
proof -
  note read = read_archiveD[OF assms]
  have "verify_signature env archive signature key_id = Inr ()" using read by simp
  then have "(\<exists>public_key. dict_get (pl_keys env) key_id = Some public_key \<and> pl_openssl env archive signature public_key) \<and> length signature = 64"
    by (auto simp: verify_signature_def res_simps split: option.splits)
  then show ?thesis using read read_archive_paths[OF assms] by blast
qed

theorem archive_read_exact_witness:
  "\<exists>public_key. dict_get (pl_keys demo_plugin_env) ''release'' = Some public_key \<and> pl_openssl demo_plugin_env ''PK'' (replicate 64 CHR ''s'') public_key"
  using archive_read_exact[OF demo_read(1)] by blast



text \<open>
  C22: whatever fails while the process lives (a check, the database, the audit sink), an operation that raises
  leaves every row and every directory of the registry as it was, where the trusted keys have names that a
  plugin's record accepts.
\<close>

theorem failed_operation_changes_nothing:
  assumes "reaches PluginRegistry (plugin_step env l) s" "op_fresh op s" "trouble \<noteq> Dies" "key_names_portable env"
    "run_plugin_op env l trouble op s = (Inl e, t)"
  shows "map_of (pg_plugins t) = map_of (pg_plugins s) \<and> map_of (pg_removed t) = map_of (pg_removed s) \<and>
    map_of (pg_directories t) = map_of (pg_directories s)"
  using run_plugin_op_keeps[OF assms(5,3) plugins.reachable_inv[OF assms(1)] assms(2)] assms(4)
  by (simp add: kept_def registry_maps_def)

definition demo_release_env :: plugin_env where
  "demo_release_env = demo_plugin_env\<lparr>pl_keys := [(''release'', ''PUBLIC'')]\<rparr>"

lemma demo_audit_fails:
  "fst (run_plugin_op demo_release_env demo_archive_limits AuditFails (InstallOp ''PK'' (replicate 64 CHR ''s'') ''release'') empty_registry) = Inl PluginIOError"
  "key_names_portable demo_release_env"
  by code_simp+

theorem failed_operation_changes_nothing_witness:
  "map_of (pg_plugins (snd (run_plugin_op demo_release_env demo_archive_limits AuditFails (InstallOp ''PK'' (replicate 64 CHR ''s'') ''release'') empty_registry))) = Map.empty \<and>
   map_of (pg_directories (snd (run_plugin_op demo_release_env demo_archive_limits AuditFails (InstallOp ''PK'' (replicate 64 CHR ''s'') ''release'') empty_registry))) = Map.empty"
proof (cases "run_plugin_op demo_release_env demo_archive_limits AuditFails (InstallOp ''PK'' (replicate 64 CHR ''s'') ''release'') empty_registry")
  case (Pair res t)
  have res: "res = Inl PluginIOError" using demo_audit_fails(1) unfolding Pair by simp
  have start: "reaches PluginRegistry (plugin_step demo_release_env demo_archive_limits) empty_registry"
    by (rule reaches_init) (simp add: PluginRegistry_def empty_registry_def)
  have "map_of (pg_plugins t) = map_of (pg_plugins empty_registry) \<and> map_of (pg_removed t) = map_of (pg_removed empty_registry) \<and>
      map_of (pg_directories t) = map_of (pg_directories empty_registry)"
    by (rule failed_operation_changes_nothing[OF start _ _ demo_audit_fails(2) Pair[unfolded res]]) simp_all
  then show ?thesis unfolding Pair by (simp add: empty_registry_def)
qed

text \<open>
  The verifier trusts keys whose names a plugin's record refuses. With such a key an installation that
  nothing disturbs raises after its commit: the row and the directory stay, and from then on the plugins
  cannot be listed.
\<close>

theorem unportable_key_breaks_registry:
  assumes "read_archive env l archive signature key_id = Inr (m, files, digest)" "\<not> key_id_text key_id"
    "map_of (pg_plugins s) (pm_name m, pm_version m) = None" "\<not> is_directory s (Installed (pm_name m) (pm_version m))" "package_writable files"
    "install_plugin env l NoTrouble archive signature key_id s = (res, t)"
  shows "\<not> returns res \<and> map_of (pg_plugins t) (pm_name m, pm_version m) \<noteq> None \<and> is_directory t (Installed (pm_name m) (pm_version m)) \<and>
    \<not> returns (list_plugins t)"
proof -
  let ?k = "(pm_name m, pm_version m)" and ?p = "Installed (pm_name m) (pm_version m)"
  let ?r = "\<lparr>pw_enabled = False, pw_archive_sha256 = digest, pw_signing_key_id = key_id, pw_install_path = ?p\<rparr>"
  let ?t = "insert_plugin ?k ?r (s\<lparr>pg_directories := AList.update ?p files (pg_directories s)\<rparr>)"
  have refused: "InstalledPlugin ?r = Inl (PluginValueError ''signing_key_id'')" using assms(2) by (simp add: InstalledPlugin_def plugin_check_def)
  have run: "res = Inl (PluginValueError ''signing_key_id'')" "t = ?t"
    using assms(1,3-6) refused by (simp_all add: install_plugin_def Let_def)
  have row: "map_of (pg_plugins t) ?k = Some ?r" and dir: "is_directory t ?p"
    by (simp_all add: run(2) is_directory_def registry_simps update_conv')
  have "(?k, ?r) \<in> set (sort_key fst (pg_plugins t))" using map_of_SomeD[OF row] by simp
  then have "\<not> returns (mapE (\<lambda>kr. bindE (InstalledPlugin (snd kr)) (\<lambda>r. Inr (fst kr, r))) (sort_key fst (pg_plugins t)))"
    using refused by (auto dest: returns_mapE)
  then have "\<not> returns (list_plugins t)" by (auto simp: list_plugins_def returns_iff res_simps)
  then show ?thesis using run(1) row dir by simp
qed

theorem unportable_key_breaks_registry_witness:
  "OpenSSLEd25519Verifier (pl_keys demo_plugin_env) = Inr (pl_keys demo_plugin_env) \<and>
   \<not> returns (list_plugins (snd (install_plugin demo_plugin_env demo_archive_limits NoTrouble ''PK'' (replicate 64 CHR ''s'') ''_old'' empty_registry)))"
proof -
  have "\<not> key_id_text ''_old''" "package_writable demo_package" by code_simp+
  then show ?thesis
    using unportable_key_breaks_registry[OF demo_read(2), of empty_registry] demo_trusted_keys
    by (cases "install_plugin demo_plugin_env demo_archive_limits NoTrouble ''PK'' (replicate 64 CHR ''s'') ''_old'' empty_registry")
      (simp add: empty_registry_def is_directory_def)
qed

text \<open>
  A process that dies between the rename of an installation and its commit leaves a directory that no row
  knows: every later installation of that version fails.
\<close>

theorem interrupted_install_blocks:
  assumes "read_archive env l archive signature key_id = Inr (m, files, digest)"
    "map_of (pg_plugins s) (pm_name m, pm_version m) = None" "\<not> is_directory s (Installed (pm_name m) (pm_version m))" "package_writable files"
    "install_plugin env l Dies archive signature key_id s = (res, t)"
    "read_archive env l archive' signature' key_id' = Inr (m', files', digest')" "pm_name m' = pm_name m" "pm_version m' = pm_version m"
  shows "install_plugin env l trouble archive' signature' key_id' t = (Inl (PluginRegistryError ''plugin version directory already exists''), t)"
proof -
  have "t = s\<lparr>pg_directories := AList.update (Installed (pm_name m) (pm_version m)) files (pg_directories s)\<rparr>"
    using assms(1-5) by (simp add: install_plugin_def Let_def)
  then have "map_of (pg_plugins t) (pm_name m, pm_version m) = None" "is_directory t (Installed (pm_name m) (pm_version m))"
    using assms(2) by (simp_all add: is_directory_def update_conv')
  then show ?thesis using assms(6-8) by (simp add: install_plugin_def)
qed

theorem interrupted_install_blocks_witness:
  "fst (install_plugin demo_plugin_env demo_archive_limits NoTrouble ''PK'' (replicate 64 CHR ''s'') ''release''
      (snd (install_plugin demo_plugin_env demo_archive_limits Dies ''PK'' (replicate 64 CHR ''s'') ''release'' empty_registry)))
   = Inl (PluginRegistryError ''plugin version directory already exists'')"
proof -
  have "package_writable demo_package" by code_simp
  then show ?thesis
    using interrupted_install_blocks[OF demo_read(1) _ _ _ _ demo_read(1), of empty_registry _ _ NoTrouble]
    by (cases "install_plugin demo_plugin_env demo_archive_limits Dies ''PK'' (replicate 64 CHR ''s'') ''release'' empty_registry")
      (simp add: empty_registry_def is_directory_def)
qed

end
