(* ===== verification/PagedApi.thy ===== *)
theory PagedApi
  imports HttpText
begin

text \<open>
  What the four clients of the enterprise APIs share (\<open>zeaz_enterprise/admin.py\<close>, \<open>compliance.py\<close>,
  \<open>managed_agents.py\<close>, \<open>agent_memory.py\<close>): one bounded exchange that answers with a JSON object, and the loop
  that collects the pages of a listing. Each file has its own copy of the loop; they differ in the keys of a page,
  the field that identifies an item, the cursor and the texts of the errors, which a \<open>page_style\<close> holds.
  The HTTP library is a server that may answer each request differently: its first argument numbers them.
\<close>

section \<open>Errors and exchanges\<close>

text \<open>The sanitized error of a client, the \<open>ValueError\<close> of an argument, and what escapes both.\<close>

datatype api_error = ApiError string | ApiValueError string | ApiTypeError string | ApiEscapes string

definition api_check :: "bool \<Rightarrow> api_error \<Rightarrow> api_error + unit" where
  "api_check ok e = (if ok then Inr () else Inl e)"

lemma api_check_Inr [res_simps]: "api_check ok e = Inr u \<longleftrightarrow> ok"
  by (simp add: api_check_def)

lemma api_check_Inl [res_simps]: "api_check ok e = Inl x \<longleftrightarrow> \<not> ok \<and> x = e"
  by (auto simp: api_check_def)

text \<open>\<open>except (KeyError, TypeError, ValueError, ValidationError) as exc: raise ...Error(message)\<close>\<close>

definition sanitized :: "string \<Rightarrow> api_error + 'a \<Rightarrow> api_error + 'a" where
  "sanitized message r = (case r of
     Inl (ApiValueError _) \<Rightarrow> Inl (ApiError message) | Inl (ApiTypeError _) \<Rightarrow> Inl (ApiError message) | Inl e \<Rightarrow> Inl e | Inr x \<Rightarrow> Inr x)"

lemma sanitized_Inr [res_simps]: "sanitized message r = Inr x \<longleftrightarrow> r = Inr x"
  by (auto simp: sanitized_def split: sum.splits api_error.splits)

record api_request =
  aq_method :: string
  aq_url :: string
  aq_headers :: "string dict"
  aq_params :: "(string \<times> json) list"
  aq_json :: "json option"

type_synonym api_server = "nat \<Rightarrow> api_request \<Rightarrow> control_exchange"

record api_client =
  ac_base_url :: string
  ac_secret :: string
  ac_max_response_bytes :: int

text \<open>What Pydantic and the standard library read: the bytes of a body, a time, a UUID, a truth value, a number.\<close>

record api_codec =
  cd_decode :: "string \<Rightarrow> string option"
  cd_datetime :: "string \<Rightarrow> py_datetime option"
  cd_time :: "json \<Rightarrow> py_datetime option"
  cd_uuid :: "json \<Rightarrow> string option"
  cd_bool :: "json \<Rightarrow> bool option"
  cd_int :: "json \<Rightarrow> int option"

text \<open>The constructors' checks: a URL is accepted as an HTTPS origin by a parameter, and trailing slashes are dropped.\<close>

definition rstrip_slashes :: "string \<Rightarrow> string" where
  "rstrip_slashes s = rev (dropWhile (\<lambda>c. c = CHR ''/'') (rev s))"

definition new_client :: "(string \<Rightarrow> bool) \<Rightarrow> int \<Rightarrow> string \<Rightarrow> string \<Rightarrow> rat \<Rightarrow> int \<Rightarrow> api_error + api_client" where
  "new_client https_origin most secret base_url timeout_seconds max_response_bytes =
     bindE (api_check (https_origin base_url) (ApiValueError ''base_url must be a credential-free HTTPS origin'')) (\<lambda>_.
     bindE (api_check (0 < timeout_seconds \<and> timeout_seconds \<le> 300) (ApiValueError ''timeout_seconds must be between 0 and 300'')) (\<lambda>_.
     bindE (api_check (1024 \<le> max_response_bytes \<and> max_response_bytes \<le> most) (ApiValueError ''max_response_bytes'')) (\<lambda>_.
     Inr \<lparr>ac_base_url = rstrip_slashes base_url, ac_secret = secret, ac_max_response_bytes = max_response_bytes\<rparr>)))"

fun read_api_body :: "string \<Rightarrow> int \<Rightarrow> string \<Rightarrow> string list \<Rightarrow> bool \<Rightarrow> api_error + string" where
  "read_api_body api maximum body [] broken = (if broken then Inl (ApiError (api @ '' request failed'')) else Inr body)"
| "read_api_body api maximum body (chunk # chunks) broken =
     (if int (length (body @ chunk)) > maximum then Inl (ApiError (api @ '' response exceeded its byte limit''))
      else read_api_body api maximum (body @ chunk) chunks broken)"

definition api_object :: "string \<Rightarrow> api_codec \<Rightarrow> int \<Rightarrow> control_exchange \<Rightarrow> api_error + json dict" where
  "api_object api cd maximum exchange = (case exchange of
     RequestFailed \<Rightarrow> Inl (ApiError (api @ '' request failed''))
   | Answered redirect status chunks broken \<Rightarrow>
       bindE (api_check (\<not> redirect) (ApiError (api @ '' redirects are forbidden''))) (\<lambda>_.
       bindE (api_check (200 \<le> status \<and> status < 300) (ApiError (api @ '' failed with HTTP '' @ int_str status))) (\<lambda>_.
       bindE (read_api_body api maximum [] chunks broken) (\<lambda>body.
       case Option.bind (cd_decode cd body) json_loads of
         None \<Rightarrow> Inl (ApiError (api @ '' returned invalid JSON''))
       | Some (JObj d) \<Rightarrow> Inr d
       | Some _ \<Rightarrow> Inl (ApiError (api @ '' returned a non-object response'')))))) "

section \<open>Fields\<close>

definition az_letter :: "char \<Rightarrow> bool" where
  "az_letter c = (97 \<le> code_of c \<and> code_of c \<le> 122)"

text \<open>A field that must be a text with a property.\<close>

definition text_field :: "json dict \<Rightarrow> string \<Rightarrow> (string \<Rightarrow> bool) \<Rightarrow> api_error + string" where
  "text_field d k ok = (case get_or_null d k of JStr s \<Rightarrow> if ok s then Inr s else Inl (ApiValueError k) | _ \<Rightarrow> Inl (ApiValueError k))"

definition object_field :: "json dict \<Rightarrow> string \<Rightarrow> api_error + json dict" where
  "object_field d k = (case get_or_null d k of JObj x \<Rightarrow> Inr x | _ \<Rightarrow> Inl (ApiValueError k))"

definition rfc3339 :: "api_codec \<Rightarrow> json \<Rightarrow> api_error + py_datetime" where
  "rfc3339 cd v = (case v of
     JStr s \<Rightarrow> (case cd_datetime cd s of
         None \<Rightarrow> Inl (ApiValueError ''datetime'')
       | Some t \<Rightarrow> bindE (api_check (has_timezone t) (ApiValueError ''timestamp must include a UTC offset'')) (\<lambda>_. Inr t))
   | _ \<Rightarrow> Inl (ApiValueError ''invalid RFC3339 timestamp''))"

definition keys_are :: "string list \<Rightarrow> json dict \<Rightarrow> bool" where
  "keys_are ks d = (set (map fst d) = set ks)"

section \<open>Pages\<close>

record page_style =
  ps_items :: "json dict \<Rightarrow> api_error + json list"
  ps_next :: "json dict \<Rightarrow> json list \<Rightarrow> api_error + string option"
  ps_id_field :: string
  ps_invalid_item :: string
  ps_invalid_id :: string
  ps_duplicate :: string
  ps_item_limit :: string
  ps_bad_cursor :: string
  ps_page_limit :: string

text \<open>The loop over the items of a page: the identifiers and the items so far.\<close>

fun append_items :: "page_style \<Rightarrow> int \<Rightarrow> string list \<Rightarrow> json dict list \<Rightarrow> json list \<Rightarrow> api_error + string list \<times> json dict list" where
  "append_items st maximum ids items [] = Inr (ids, items)"
| "append_items st maximum ids items (v # vs) = (case v of
     JObj d \<Rightarrow> (case get_or_null d (ps_id_field st) of
         JStr i \<Rightarrow>
           if i \<in> set ids then Inl (ApiError (ps_duplicate st))
           else if int (length items + 1) > maximum then Inl (ApiError (ps_item_limit st))
           else append_items st maximum (ids @ [i]) (items @ [d]) vs
       | _ \<Rightarrow> Inl (ApiError (ps_invalid_id st)))
   | _ \<Rightarrow> Inl (ApiError (ps_invalid_item st)))"

text \<open>
  The loop over the pages, at most as many as the first number says; the second number counts the requests.
  \<open>ask t cursor\<close> is the request number \<open>t\<close> with a cursor.
\<close>

fun page_loop ::
  "page_style \<Rightarrow> int \<Rightarrow> (nat \<Rightarrow> string option \<Rightarrow> api_error + json dict) \<Rightarrow> nat \<Rightarrow> nat \<Rightarrow> string option \<Rightarrow> string list
     \<Rightarrow> string list \<Rightarrow> json dict list \<Rightarrow> api_error + json dict list" where
  "page_loop st maximum ask 0 t cursor cursors ids items = Inl (ApiError (ps_page_limit st))"
| "page_loop st maximum ask (Suc n) t cursor cursors ids items =
     bindE (ask t cursor) (\<lambda>page.
     bindE (ps_items st page) (\<lambda>raw.
     bindE (append_items st maximum ids items raw) (\<lambda>(ids1, items1).
     bindE (ps_next st page raw) (\<lambda>next_cursor.
     case next_cursor of
       None \<Rightarrow> Inr items1
     | Some c \<Rightarrow>
         if c \<in> set cursors \<or> raw = [] then Inl (ApiError (ps_bad_cursor st))
         else page_loop st maximum ask n (Suc t) (Some c) (c # cursors) ids1 items1))))"

definition list_pages ::
  "page_style \<Rightarrow> int \<Rightarrow> int \<Rightarrow> string \<Rightarrow> string \<Rightarrow> (nat \<Rightarrow> string option \<Rightarrow> api_error + json dict) \<Rightarrow> int \<Rightarrow> int \<Rightarrow> int \<Rightarrow> api_error + json dict list" where
  "list_pages st largest_page largest_items limits_message items_message ask page_size max_pages max_items =
     bindE (api_check (1 \<le> page_size \<and> page_size \<le> largest_page \<and> 1 \<le> max_pages \<and> max_pages \<le> 10000) (ApiValueError limits_message)) (\<lambda>_.
     bindE (api_check (page_size \<le> max_items \<and> max_items \<le> largest_items) (ApiValueError items_message)) (\<lambda>_.
     page_loop st max_items ask (nat max_pages) 0 None [] [] []))"

definition after_param :: "string \<Rightarrow> string option \<Rightarrow> (string \<times> json) list" where
  "after_param k cursor = (case cursor of None \<Rightarrow> [] | Some c \<Rightarrow> [(k, JStr c)])"

definition page_data :: "string \<Rightarrow> int \<Rightarrow> json dict \<Rightarrow> api_error + json list" where
  "page_data message page_size d = (case get_or_null d ''data'' of
     JArr raw \<Rightarrow> if int (length raw) > page_size then Inl (ApiError message) else Inr raw
   | _ \<Rightarrow> Inl (ApiError message))"

definition page_flag :: "string \<Rightarrow> json dict \<Rightarrow> api_error + bool" where
  "page_flag message d = (case get_or_null d ''has_more'' of JBool b \<Rightarrow> Inr b | _ \<Rightarrow> Inl (ApiError message))"

text \<open>A cursor that is the identifier of the page's last item, and an opaque token.\<close>

definition last_id_cursor :: "string \<Rightarrow> json dict \<Rightarrow> json list \<Rightarrow> api_error + string option" where
  "last_id_cursor message d raw = (case get_or_null d ''last_id'' of
     JStr c \<Rightarrow> if c \<noteq> [] \<and> raw \<noteq> [] \<and> (case last raw of JObj item \<Rightarrow> get_or_null item ''id'' = JStr c | _ \<Rightarrow> False)
       then Inr (Some c) else Inl (ApiError message)
   | _ \<Rightarrow> Inl (ApiError message))"

definition token_cursor :: "string \<Rightarrow> json \<Rightarrow> api_error + string option" where
  "token_cursor message v = (case v of
     JStr c \<Rightarrow> if c \<noteq> [] \<and> length c \<le> 4096 then Inr (Some c) else Inl (ApiError message) | _ \<Rightarrow> Inl (ApiError message))"

section \<open>What a listing returns\<close>

text \<open>
  The pages that were read: each is the answer to the request with the cursor of the page before, and the last
  one has no successor.
\<close>

fun listing_chain :: "page_style \<Rightarrow> (nat \<Rightarrow> string option \<Rightarrow> api_error + json dict) \<Rightarrow> nat \<Rightarrow> string option \<Rightarrow> (json dict \<times> json list) list \<Rightarrow> bool" where
  "listing_chain st ask t cursor [] = False"
| "listing_chain st ask t cursor ((page, raw) # rest) =
     (ask t cursor = Inr page \<and> ps_items st page = Inr raw \<and>
      (case ps_next st page raw of
         Inl _ \<Rightarrow> False | Inr None \<Rightarrow> rest = [] | Inr (Some c) \<Rightarrow> raw \<noteq> [] \<and> listing_chain st ask (Suc t) (Some c) rest))"

definition item_ids :: "page_style \<Rightarrow> json dict list \<Rightarrow> json list" where
  "item_ids st items = map (\<lambda>d. get_or_null d (ps_id_field st)) items"

lemma append_items_Inr:
  assumes "append_items st maximum ids items raw = Inr (ids1, items1)" "item_ids st items = map JStr ids" "distinct ids" "int (length items) \<le> maximum"
  shows "\<exists>new. raw = map JObj new \<and> items1 = items @ new \<and> item_ids st items1 = map JStr ids1 \<and> distinct ids1 \<and> int (length items1) \<le> maximum"
  using assms
proof (induction st maximum ids items raw rule: append_items.induct)
  case (2 st maximum ids items v vs)
  obtain d i where d: "v = JObj d" "get_or_null d (ps_id_field st) = JStr i" "i \<notin> set ids" "int (length items + 1) \<le> maximum"
      "append_items st maximum (ids @ [i]) (items @ [d]) vs = Inr (ids1, items1)"
    using "2.prems"(1) by (auto split: json.splits if_splits)
  have pre: "item_ids st (items @ [d]) = map JStr (ids @ [i])" "distinct (ids @ [i])" "int (length (items @ [d])) \<le> maximum"
    using "2.prems"(2,3) d(2,3,4) by (simp_all add: item_ids_def)
  obtain new where "vs = map JObj new \<and> items1 = (items @ [d]) @ new \<and> item_ids st items1 = map JStr ids1 \<and> distinct ids1 \<and> int (length items1) \<le> maximum"
    using "2.IH"[OF d(1,2)] d(3,4,5) pre by auto
  then show ?case using d(1) by (intro exI[of _ "d # new"]) auto
qed simp

lemma page_loop_Inr:
  assumes "page_loop st maximum ask n t cursor cursors ids items = Inr out" "item_ids st items = map JStr ids" "distinct ids" "int (length items) \<le> maximum"
  shows "\<exists>pages. listing_chain st ask t cursor pages \<and> length pages \<le> n \<and> map JObj out = map JObj items @ concat (map snd pages) \<and>
    distinct (item_ids st out) \<and> int (length out) \<le> maximum"
  using assms
proof (induction st maximum ask n t cursor cursors ids items rule: page_loop.induct)
  case (2 st maximum ask n t cursor cursors ids items)
  obtain page raw ids1 items1 next_cursor where p: "ask t cursor = Inr page" "ps_items st page = Inr raw"
      "append_items st maximum ids items raw = Inr (ids1, items1)" "ps_next st page raw = Inr next_cursor"
    using "2.prems"(1) by (auto simp: bindE_eq_Inr)
  obtain new where new: "raw = map JObj new" "items1 = items @ new" "item_ids st items1 = map JStr ids1" "distinct ids1" "int (length items1) \<le> maximum"
    using append_items_Inr[OF p(3) "2.prems"(2-4)] by blast
  show ?case
  proof (cases next_cursor)
    case None
    then have "out = items1" using "2.prems"(1) p by simp
    moreover have "distinct (item_ids st items1)" using new(3,4) by (simp add: distinct_map inj_on_def)
    ultimately show ?thesis using p None new by (intro exI[of _ "[(page, raw)]"]) simp
  next
    case (Some c)
    have c: "c \<notin> set cursors" "raw \<noteq> []" "page_loop st maximum ask n (Suc t) (Some c) (c # cursors) ids1 items1 = Inr out"
      using "2.prems"(1) p Some by (auto split: if_splits)
    obtain pages where "listing_chain st ask (Suc t) (Some c) pages" "length pages \<le> n" "map JObj out = map JObj items1 @ concat (map snd pages)"
        "distinct (item_ids st out)" "int (length out) \<le> maximum"
      using "2.IH"[OF _ c(3) new(3-5)] c(1,2) by blast
    then show ?thesis using p Some new c(2) by (intro exI[of _ "(page, raw) # pages"]) simp
  qed
qed simp

lemma listing_chain_sizes:
  assumes "listing_chain st ask t cursor pages" "\<And>page raw. ps_items st page = Inr raw \<Longrightarrow> length raw \<le> k"
  shows "length (concat (map snd pages)) \<le> length pages * k"
  using assms(1)
proof (induction pages arbitrary: t cursor)
  case (Cons p rest)
  obtain page raw where p: "p = (page, raw)" by (cases p)
  have "length (concat (map snd rest)) \<le> length rest * k"
    using Cons p by (auto split: sum.splits option.splits)
  moreover have "length raw \<le> k" using Cons.prems p by (intro assms(2)[of page]) simp
  ultimately show ?case using p by simp
qed simp

text \<open>
  The contract of a client's listing: a page holds at most as many items as were asked for, and a cursor that is
  followed is not empty. A listing that returns is then what its pages held, in order, without a repeated
  identifier and within both limits.
\<close>

locale paged_listing =
  fixes style :: "int \<Rightarrow> page_style"
  assumes page_bounded: "0 \<le> k \<Longrightarrow> ps_items (style k) page = Inr raw \<Longrightarrow> int (length raw) \<le> k"
    and cursor_given: "ps_next (style k) page raw = Inr (Some c) \<Longrightarrow> c \<noteq> []"
begin

lemma listing_is_its_pages:
  assumes "list_pages (style k) largest_page largest_items m1 m2 ask k max_pages max_items = Inr out"
  shows "\<exists>pages. listing_chain (style k) ask 0 None pages \<and> int (length pages) \<le> max_pages \<and> map JObj out = concat (map snd pages) \<and>
    distinct (item_ids (style k) out) \<and> int (length out) \<le> max_items \<and> int (length out) \<le> max_pages * k"
proof -
  have lim: "1 \<le> k" "1 \<le> max_pages" "k \<le> max_items"
    and run: "page_loop (style k) max_items ask (nat max_pages) 0 None [] [] [] = Inr out"
    using assms by (auto simp: list_pages_def res_simps)
  obtain pages where pages: "listing_chain (style k) ask 0 None pages" "length pages \<le> nat max_pages" "map JObj out = concat (map snd pages)"
      "distinct (item_ids (style k) out)" "int (length out) \<le> max_items"
    using page_loop_Inr[OF run] lim by (auto simp: item_ids_def)
  have "length raw \<le> nat k" if "ps_items (style k) page = Inr raw" for page raw
    using page_bounded[OF _ that] lim(1) by linarith
  then have "length (concat (map snd pages)) \<le> length pages * nat k" using listing_chain_sizes[OF pages(1)] by blast
  then have "length out \<le> length pages * nat k" using arg_cong[OF pages(3), of length] by simp
  also have "\<dots> \<le> nat max_pages * nat k" using pages(2) by simp
  finally have "int (length out) \<le> int (nat max_pages * nat k)" by (rule of_nat_mono)
  also have "\<dots> = max_pages * k" using lim(1,2) by simp
  finally have "int (length out) \<le> max_pages * k" .
  then show ?thesis using pages lim(2) by (intro exI[of _ pages]) auto
qed

end

lemma page_data_bounded: "page_data message k d = Inr raw \<Longrightarrow> int (length raw) \<le> k"
  by (auto simp: page_data_def split: json.splits if_splits)

lemma last_id_cursor_given: "last_id_cursor message d raw = Inr (Some c) \<Longrightarrow> c \<noteq> []"
  by (auto simp: last_id_cursor_def split: json.splits if_splits)

lemma token_cursor_given: "token_cursor message v = Inr (Some c) \<Longrightarrow> c \<noteq> []"
  by (auto simp: token_cursor_def split: json.splits if_splits)

text \<open>A codec for the examples: bytes as they are, one time, and the values that are what they should be.\<close>

definition demo_api_codec :: api_codec where
  "demo_api_codec = \<lparr>cd_decode = Some, cd_datetime = (\<lambda>s. if s = ''2026-01-01T00:00:00Z'' then Some \<lparr>dt_instant = 0, dt_offset = Some 0\<rparr> else None),
     cd_time = (\<lambda>v. if v = JStr ''2026-01-01T00:00:00Z'' then Some \<lparr>dt_instant = 0, dt_offset = Some 0\<rparr> else None),
     cd_uuid = (\<lambda>v. case v of JStr s \<Rightarrow> Some s | _ \<Rightarrow> None), cd_bool = (\<lambda>v. case v of JBool b \<Rightarrow> Some b | _ \<Rightarrow> None),
     cd_int = (\<lambda>v. case v of JInt n \<Rightarrow> Some n | _ \<Rightarrow> None)\<rparr>"

end
