(* ===== verification/AdminApi.thy ===== *)
theory AdminApi
  imports PagedApi
begin

text \<open>
  The organization administration clients (\<open>zeaz_enterprise/admin.py\<close>): the OpenAI and the Anthropic adapter
  with their requests, listings and the checked records they make of what the API answers.
\<close>

section \<open>Names and credentials\<close>

definition admin_identifier :: "string \<Rightarrow> bool" where
  "admin_identifier s = (s \<noteq> [] \<and> length s \<le> 256 \<and> ascii_alnum (hd s) \<and> list_all (\<lambda>c. ascii_alnum c \<or> c \<in> set ''_.:/-'') (tl s))"

definition admin_idempotency_key :: "string \<Rightarrow> bool" where
  "admin_idempotency_key s = (s \<noteq> [] \<and> length s \<le> 128 \<and> ascii_alnum (hd s) \<and> list_all (\<lambda>c. ascii_alnum c \<or> c \<in> set ''_.:-'') (tl s))"

text \<open>The class \<open>\s\<close> of Pydantic's regular expressions, on the characters up to 255.\<close>

definition regex_space :: "char \<Rightarrow> bool" where
  "regex_space c = (9 \<le> code_of c \<and> code_of c \<le> 13 \<or> code_of c \<in> {32, 133, 160})"

definition email_domain :: "string \<Rightarrow> bool" where
  "email_domain s = (s \<noteq> [] \<and> list_ex (\<lambda>c. c = CHR ''.'') (butlast (tl s)))"

definition admin_email :: "string \<Rightarrow> bool" where
  "admin_email s = (text_between 3 320 s \<and> \<not> list_ex regex_space s \<and>
     (case split_char CHR ''@'' s of [local_part, domain] \<Rightarrow> local_part \<noteq> [] \<and> email_domain domain | _ \<Rightarrow> False))"

datatype admin_provider = OpenAI | Anthropic

definition AdminCredential :: "admin_provider \<Rightarrow> string \<Rightarrow> api_error + admin_provider \<times> string" where
  "AdminCredential provider secret = bindE (api_check (secret \<noteq> []) (ApiValueError ''admin credential cannot be empty'')) (\<lambda>_. Inr (provider, secret))"

record admin_client = api_client +
  ad_organization :: string
  ad_api_key :: bool

definition new_admin_client ::
  "admin_provider \<Rightarrow> string \<Rightarrow> (string \<Rightarrow> bool) \<Rightarrow> admin_provider \<times> string \<Rightarrow> string \<Rightarrow> bool \<Rightarrow> string \<Rightarrow> rat \<Rightarrow> int \<Rightarrow> api_error + admin_client" where
  "new_admin_client provider type_message https_origin credential organization api_key base_url timeout_seconds max_response_bytes =
     bindE (api_check (fst credential = provider) (ApiTypeError type_message)) (\<lambda>_.
     bindE (new_client https_origin 16777216 (snd credential) base_url timeout_seconds max_response_bytes) (\<lambda>cl.
     bindE (api_check (admin_identifier organization) (ApiValueError ''organization'')) (\<lambda>_.
     Inr (api_client.extend cl \<lparr>ad_organization = organization, ad_api_key = api_key\<rparr>))))"

definition OpenAIAdminAdapter :: "(string \<Rightarrow> bool) \<Rightarrow> admin_provider \<times> string \<Rightarrow> string \<Rightarrow> string \<Rightarrow> rat \<Rightarrow> int \<Rightarrow> api_error + admin_client" where
  "OpenAIAdminAdapter https_origin credential organization =
     new_admin_client OpenAI ''an OpenAI admin-role credential is required'' https_origin credential organization True"

definition AnthropicAdminAdapter :: "(string \<Rightarrow> bool) \<Rightarrow> admin_provider \<times> string \<Rightarrow> string \<Rightarrow> bool \<Rightarrow> string \<Rightarrow> rat \<Rightarrow> int \<Rightarrow> api_error + admin_client" where
  "AnthropicAdminAdapter https_origin credential organization api_key =
     new_admin_client Anthropic ''an Anthropic admin-role credential is required'' https_origin credential organization api_key"

definition checked_identifier :: "string \<Rightarrow> api_error + string" where
  "checked_identifier s = bindE (api_check (admin_identifier s) (ApiError ''resource identifier is invalid'')) (\<lambda>_. Inr s)"

definition checked_display_name :: "string \<Rightarrow> api_error + string" where
  "checked_display_name s = bindE (api_check (text_between 1 256 s) (ApiError ''display name is invalid'')) (\<lambda>_. Inr s)"

section \<open>Records\<close>

text \<open>
  \<open>datetime.fromtimestamp(value, tz=UTC)\<close>: beyond the year 9999 it raises \<open>ValueError\<close>, beyond what the C library
  can break down an \<open>OSError\<close>, and beyond 64 bits an \<open>OverflowError\<close>.
\<close>

definition admin_timestamp :: "json \<Rightarrow> api_error + py_datetime" where
  "admin_timestamp v = (case v of
     JInt t \<Rightarrow>
       if t < 0 then Inl (ApiValueError ''invalid timestamp'')
       else if t \<le> 253402300799 then Inr \<lparr>dt_instant = t * 1000000, dt_offset = Some 0\<rparr>
       else if t \<le> 67768036191676799 then Inl (ApiValueError ''year is out of range'')
       else if t < 9223372036854775808 then Inl (ApiEscapes ''OSError'') else Inl (ApiEscapes ''OverflowError'')
   | _ \<Rightarrow> Inl (ApiValueError ''invalid timestamp''))"

record admin_user =
  au_organization :: string
  au_id :: string
  au_name :: string
  au_email :: string
  au_role :: string
  au_added_at :: py_datetime

definition openai_roles :: "string list" where
  "openai_roles = [''owner'', ''reader'']"

definition anthropic_roles :: "string list" where
  "anthropic_roles = [''admin'', ''billing'', ''claude_code_user'', ''developer'', ''managed'', ''membership_admin'', ''owner'', ''primary_owner'', ''user'']"

definition assignable_roles :: "string list" where
  "assignable_roles = [''billing'', ''claude_code_user'', ''developer'', ''managed'', ''user'']"

definition AdminUser :: "string list \<Rightarrow> string \<Rightarrow> json dict \<Rightarrow> py_datetime \<Rightarrow> api_error + admin_user" where
  "AdminUser roles organization d added_at =
     bindE (text_field d ''id'' admin_identifier) (\<lambda>i.
     bindE (text_field d ''name'' (text_between 1 256)) (\<lambda>name.
     bindE (text_field d ''email'' admin_email) (\<lambda>email.
     bindE (text_field d ''role'' (\<lambda>r. r \<in> set roles)) (\<lambda>role.
     bindE (api_check (has_timezone added_at) (ApiValueError ''added_at must include a UTC offset'')) (\<lambda>_.
     Inr \<lparr>au_organization = organization, au_id = i, au_name = name, au_email = email, au_role = role, au_added_at = added_at\<rparr>)))))"

definition openai_user :: "admin_client \<Rightarrow> json dict \<Rightarrow> api_error + admin_user" where
  "openai_user cl d = sanitized ''admin API returned an invalid user''
     (bindE (api_check (get_or_null d ''object'' = JStr ''organization.user'' \<and>
         keys_are [''object'', ''id'', ''name'', ''email'', ''role'', ''added_at''] d) (ApiValueError [])) (\<lambda>_.
      bindE (admin_timestamp (get_or_null d ''added_at'')) (AdminUser openai_roles (ad_organization cl) d)))"

definition anthropic_user :: "api_codec \<Rightarrow> admin_client \<Rightarrow> json dict \<Rightarrow> api_error + admin_user" where
  "anthropic_user cd cl d = sanitized ''Anthropic Admin API returned an invalid user''
     (bindE (api_check (get_or_null d ''type'' = JStr ''user'' \<and>
         keys_are [''type'', ''id'', ''name'', ''email'', ''role'', ''added_at''] d) (ApiValueError [])) (\<lambda>_.
      bindE (rfc3339 cd (get_or_null d ''added_at'')) (AdminUser anthropic_roles (ad_organization cl) d)))"

record admin_project =
  ap_organization :: string
  ap_id :: string
  ap_name :: string
  ap_archived :: bool
  ap_created_at :: py_datetime
  ap_archived_at :: "py_datetime option"

definition AdminProject :: "string \<Rightarrow> json dict \<Rightarrow> py_datetime \<Rightarrow> py_datetime option \<Rightarrow> api_error + admin_project" where
  "AdminProject organization d created_at archived_at =
     bindE (text_field d ''id'' admin_identifier) (\<lambda>i.
     bindE (text_field d ''name'' (text_between 1 256)) (\<lambda>name.
     bindE (text_field d ''status'' (\<lambda>s. s = ''active'' \<or> s = ''archived'')) (\<lambda>status.
     bindE (api_check ((status = ''archived'') = (archived_at \<noteq> None)) (ApiValueError ''project status and archive timestamp do not match'')) (\<lambda>_.
     Inr \<lparr>ap_organization = organization, ap_id = i, ap_name = name, ap_archived = (status = ''archived''),
       ap_created_at = created_at, ap_archived_at = archived_at\<rparr>))))"

definition optional_time :: "(json \<Rightarrow> api_error + py_datetime) \<Rightarrow> json \<Rightarrow> api_error + py_datetime option" where
  "optional_time time v = (if v = JNull then Inr None else bindE (time v) (\<lambda>t. Inr (Some t)))"

definition openai_project :: "admin_client \<Rightarrow> json dict \<Rightarrow> api_error + admin_project" where
  "openai_project cl d = sanitized ''admin API returned an invalid project''
     (bindE (api_check (get_or_null d ''object'' = JStr ''organization.project'' \<and>
         keys_are [''object'', ''id'', ''name'', ''status'', ''created_at'', ''archived_at''] d) (ApiValueError [])) (\<lambda>_.
      bindE (admin_timestamp (get_or_null d ''created_at'')) (\<lambda>created_at.
      bindE (optional_time admin_timestamp (get_or_null d ''archived_at'')) (AdminProject (ad_organization cl) d created_at))))"

record admin_workspace =
  aw_organization :: string
  aw_id :: string
  aw_name :: string
  aw_display_color :: string
  aw_compartment_id :: string
  aw_external_key_id :: "string option"
  aw_created_at :: py_datetime
  aw_archived_at :: "py_datetime option"
  aw_data_residency :: "json dict"
  aw_tags :: "string dict"

definition hex_digit :: "char \<Rightarrow> bool" where
  "hex_digit c = (is_digit c \<or> 65 \<le> code_of c \<and> code_of c \<le> 70 \<or> 97 \<le> code_of c \<and> code_of c \<le> 102)"

definition display_color :: "string \<Rightarrow> bool" where
  "display_color s = (length s = 7 \<and> hd s = CHR ''#'' \<and> list_all hex_digit (tl s))"

definition tag_of :: "string \<times> json \<Rightarrow> api_error + string \<times> string" where
  "tag_of kv = (case snd kv of
     JStr s \<Rightarrow> if text_between 1 128 (fst kv) \<and> length s \<le> 512 then Inr (fst kv, s) else Inl (ApiValueError ''tags'')
   | _ \<Rightarrow> Inl (ApiValueError ''tags''))"

definition workspace_tags :: "json dict \<Rightarrow> api_error + string dict" where
  "workspace_tags d =
     bindE (object_field d ''tags'') (\<lambda>x.
     bindE (mapE tag_of x) (\<lambda>tags.
     bindE (api_check (\<not> (length tags > 64 \<or> list_ex (\<lambda>kv. starts_with ''anthropic'' (py_lower (fst kv))) tags)) (ApiValueError ''workspace tags are invalid'')) (\<lambda>_.
     Inr tags)))"

definition optional_identifier :: "json dict \<Rightarrow> string \<Rightarrow> api_error + string option" where
  "optional_identifier d k = (if get_or_null d k = JNull then Inr None else bindE (text_field d k admin_identifier) (\<lambda>s. Inr (Some s)))"

definition AnthropicWorkspace :: "string \<Rightarrow> json dict \<Rightarrow> py_datetime \<Rightarrow> py_datetime option \<Rightarrow> api_error + admin_workspace" where
  "AnthropicWorkspace organization d created_at archived_at =
     bindE (text_field d ''id'' admin_identifier) (\<lambda>i.
     bindE (text_field d ''name'' (text_between 1 256)) (\<lambda>name.
     bindE (text_field d ''display_color'' display_color) (\<lambda>color.
     bindE (text_field d ''compartment_id'' admin_identifier) (\<lambda>compartment.
     bindE (optional_identifier d ''external_key_id'') (\<lambda>external_key.
     bindE (object_field d ''data_residency'') (\<lambda>residency.
     bindE (workspace_tags d) (\<lambda>tags.
     Inr \<lparr>aw_organization = organization, aw_id = i, aw_name = name, aw_display_color = color, aw_compartment_id = compartment,
       aw_external_key_id = external_key, aw_created_at = created_at, aw_archived_at = archived_at,
       aw_data_residency = residency, aw_tags = tags\<rparr>)))))))"

definition workspace_keys :: "string list" where
  "workspace_keys = [''type'', ''id'', ''name'', ''display_color'', ''compartment_id'', ''external_key_id'', ''created_at'', ''archived_at'', ''data_residency'', ''tags'']"

definition anthropic_workspace :: "api_codec \<Rightarrow> admin_client \<Rightarrow> json dict \<Rightarrow> api_error + admin_workspace" where
  "anthropic_workspace cd cl d = sanitized ''Anthropic Admin API returned an invalid workspace''
     (bindE (api_check (get_or_null d ''type'' = JStr ''workspace'' \<and> keys_are workspace_keys d) (ApiValueError [])) (\<lambda>_.
      bindE (rfc3339 cd (get_or_null d ''created_at'')) (\<lambda>created_at.
      bindE (optional_time (rfc3339 cd) (get_or_null d ''archived_at'')) (AnthropicWorkspace (ad_organization cl) d created_at))))"

section \<open>Requests\<close>

definition key_header :: "string option \<Rightarrow> api_error + string dict" where
  "key_header key = (case key of
     None \<Rightarrow> Inr [] | Some k \<Rightarrow> bindE (api_check (admin_idempotency_key k) (ApiError ''idempotency key is invalid'')) (\<lambda>_. Inr [(''idempotency-key'', k)]))"

definition openai_admin_request ::
  "api_codec \<Rightarrow> admin_client \<Rightarrow> api_server \<Rightarrow> nat \<Rightarrow> string \<Rightarrow> string \<Rightarrow> (string \<times> json) list \<Rightarrow> json option \<Rightarrow> string option \<Rightarrow> api_error + json dict" where
  "openai_admin_request cd cl server t meth path params body key =
     bindE (key_header key) (\<lambda>extra.
     api_object ''admin API'' cd (ac_max_response_bytes cl) (server t
       \<lparr>aq_method = meth, aq_url = ac_base_url cl @ path,
        aq_headers = [(''authorization'', ''Bearer '' @ ac_secret cl), (''accept'', ''application/json'')] @ extra,
        aq_params = params, aq_json = body\<rparr>))"

definition anthropic_admin_request ::
  "api_codec \<Rightarrow> admin_client \<Rightarrow> api_server \<Rightarrow> nat \<Rightarrow> string \<Rightarrow> string \<Rightarrow> (string \<times> json) list \<Rightarrow> json option \<Rightarrow> string option \<Rightarrow> api_error + json dict" where
  "anthropic_admin_request cd cl server t meth path params body key =
     bindE (key_header key) (\<lambda>extra.
     api_object ''Anthropic Admin API'' cd (ac_max_response_bytes cl) (server t
       \<lparr>aq_method = meth, aq_url = ac_base_url cl @ path,
        aq_headers = [(''anthropic-version'', ''2023-06-01''), (''accept'', ''application/json''),
          (if ad_api_key cl then (''x-api-key'', ac_secret cl) else (''authorization'', ''Bearer '' @ ac_secret cl))] @ extra,
        aq_params = params, aq_json = body\<rparr>))"

definition openai_admin_style :: "int \<Rightarrow> page_style" where
  "openai_admin_style page_size = \<lparr>
     ps_items = (\<lambda>d. bindE (api_check (get_or_null d ''object'' = JStr ''list'' \<and> keys_are [''object'', ''data'', ''first_id'', ''last_id'', ''has_more''] d)
         (ApiError ''admin API returned an invalid page'')) (\<lambda>_.
       bindE (page_data ''admin API returned an invalid page'' page_size d) (\<lambda>raw.
       bindE (page_flag ''admin API returned an invalid page'' d) (\<lambda>_. Inr raw)))),
     ps_next = (\<lambda>d raw. bindE (page_flag ''admin API returned an invalid page'' d) (\<lambda>more.
       if more then last_id_cursor ''admin API returned an invalid pagination cursor'' d raw else Inr None)),
     ps_id_field = ''id'', ps_invalid_item = ''admin API returned an invalid item'',
     ps_invalid_id = ''admin API returned a duplicate or invalid ID'', ps_duplicate = ''admin API returned a duplicate or invalid ID'',
     ps_item_limit = ''admin API exceeded its item limit'', ps_bad_cursor = ''admin API returned an invalid pagination cursor'',
     ps_page_limit = ''admin API exceeded its page limit''\<rparr>"

definition anthropic_admin_style :: "int \<Rightarrow> page_style" where
  "anthropic_admin_style page_size = \<lparr>
     ps_items = (\<lambda>d. bindE (api_check (keys_are [''data'', ''first_id'', ''last_id'', ''has_more''] d)
         (ApiError ''Anthropic Admin API returned an invalid page'')) (\<lambda>_.
       bindE (page_data ''Anthropic Admin API returned an invalid page'' page_size d) (\<lambda>raw.
       bindE (page_flag ''Anthropic Admin API returned an invalid page'' d) (\<lambda>_. Inr raw)))),
     ps_next = (\<lambda>d raw. bindE (page_flag ''Anthropic Admin API returned an invalid page'' d) (\<lambda>more.
       if more then last_id_cursor ''Anthropic Admin API returned an invalid pagination cursor'' d raw else Inr None)),
     ps_id_field = ''id'', ps_invalid_item = ''Anthropic Admin API returned an invalid item'',
     ps_invalid_id = ''Anthropic Admin API returned a duplicate or invalid ID'', ps_duplicate = ''Anthropic Admin API returned a duplicate or invalid ID'',
     ps_item_limit = ''Anthropic Admin API exceeded its item limit'', ps_bad_cursor = ''Anthropic Admin API returned an invalid pagination cursor'',
     ps_page_limit = ''Anthropic Admin API exceeded its page limit''\<rparr>"

definition openai_page ::
  "api_codec \<Rightarrow> admin_client \<Rightarrow> api_server \<Rightarrow> string \<Rightarrow> (string \<times> json) list \<Rightarrow> int \<Rightarrow> nat \<Rightarrow> string option \<Rightarrow> api_error + json dict" where
  "openai_page cd cl server path extra page_size t cursor =
     openai_admin_request cd cl server t ''GET'' path ((''limit'', JInt page_size) # extra @ after_param ''after'' cursor) None None"

definition openai_admin_list ::
  "api_codec \<Rightarrow> admin_client \<Rightarrow> api_server \<Rightarrow> string \<Rightarrow> (string \<times> json) list \<Rightarrow> int \<Rightarrow> int \<Rightarrow> int \<Rightarrow> api_error + json dict list" where
  "openai_admin_list cd cl server path extra page_size max_pages max_items =
     list_pages (openai_admin_style page_size) 100 1000000 ''admin pagination limits are invalid'' ''max_items is invalid''
       (openai_page cd cl server path extra page_size) page_size max_pages max_items"

definition anthropic_admin_list ::
  "api_codec \<Rightarrow> admin_client \<Rightarrow> api_server \<Rightarrow> string \<Rightarrow> (string \<times> json) list \<Rightarrow> int \<Rightarrow> int \<Rightarrow> int \<Rightarrow> api_error + json dict list" where
  "anthropic_admin_list cd cl server path extra page_size max_pages max_items =
     list_pages (anthropic_admin_style page_size) 1000 1000000 ''admin pagination limits are invalid'' ''max_items is invalid''
       (\<lambda>t cursor. anthropic_admin_request cd cl server t ''GET'' path ((''limit'', JInt page_size) # extra @ after_param ''after_id'' cursor) None None)
       page_size max_pages max_items"

section \<open>The OpenAI adapter\<close>

definition archived_param :: "bool \<Rightarrow> (string \<times> json) list" where
  "archived_param include_archived = [(''include_archived'', JStr (if include_archived then ''true'' else ''false''))]"

definition openai_list_users :: "api_codec \<Rightarrow> admin_client \<Rightarrow> api_server \<Rightarrow> int \<Rightarrow> int \<Rightarrow> int \<Rightarrow> api_error + admin_user list" where
  "openai_list_users cd cl server page_size max_pages max_items =
     bindE (openai_admin_list cd cl server ''/v1/organization/users'' [] page_size max_pages max_items) (mapE (openai_user cl))"

definition user_path :: "string \<Rightarrow> string" where
  "user_path i = ''/v1/organization/users/'' @ url_quote i"

definition openai_get_user :: "api_codec \<Rightarrow> admin_client \<Rightarrow> api_server \<Rightarrow> string \<Rightarrow> api_error + admin_user" where
  "openai_get_user cd cl server user_id =
     bindE (checked_identifier user_id) (\<lambda>i.
     bindE (openai_admin_request cd cl server 0 ''GET'' (user_path i) [] None None) (openai_user cl))"

definition openai_update_user_role :: "api_codec \<Rightarrow> admin_client \<Rightarrow> api_server \<Rightarrow> string \<Rightarrow> string \<Rightarrow> string \<Rightarrow> api_error + admin_user" where
  "openai_update_user_role cd cl server user_id role key =
     bindE (checked_identifier user_id) (\<lambda>i.
     bindE (api_check (role \<in> set openai_roles) (ApiError ''user role is invalid'')) (\<lambda>_.
     bindE (openai_admin_request cd cl server 0 ''POST'' (user_path i) [] (Some (JObj [(''role'', JStr role)])) (Some key)) (openai_user cl)))"

definition openai_list_projects :: "api_codec \<Rightarrow> admin_client \<Rightarrow> api_server \<Rightarrow> bool \<Rightarrow> int \<Rightarrow> int \<Rightarrow> int \<Rightarrow> api_error + admin_project list" where
  "openai_list_projects cd cl server include_archived page_size max_pages max_items =
     bindE (openai_admin_list cd cl server ''/v1/organization/projects'' (archived_param include_archived) page_size max_pages max_items) (mapE (openai_project cl))"

definition project_path :: "string \<Rightarrow> string" where
  "project_path i = ''/v1/organization/projects/'' @ url_quote i"

definition openai_get_project :: "api_codec \<Rightarrow> admin_client \<Rightarrow> api_server \<Rightarrow> string \<Rightarrow> api_error + admin_project" where
  "openai_get_project cd cl server project_id =
     bindE (checked_identifier project_id) (\<lambda>i.
     bindE (openai_admin_request cd cl server 0 ''GET'' (project_path i) [] None None) (openai_project cl))"

definition openai_create_project :: "api_codec \<Rightarrow> admin_client \<Rightarrow> api_server \<Rightarrow> string \<Rightarrow> string \<Rightarrow> string option \<Rightarrow> api_error + admin_project" where
  "openai_create_project cd cl server name key geography =
     bindE (checked_display_name name) (\<lambda>n.
     bindE (case geography of None \<Rightarrow> Inr [] | Some g \<Rightarrow> bindE (checked_identifier g) (\<lambda>g. Inr [(''geography'', JStr g)])) (\<lambda>extra.
     bindE (openai_admin_request cd cl server 0 ''POST'' ''/v1/organization/projects'' [] (Some (JObj ((''name'', JStr n) # extra))) (Some key)) (openai_project cl)))"

definition openai_update_project :: "api_codec \<Rightarrow> admin_client \<Rightarrow> api_server \<Rightarrow> string \<Rightarrow> string \<Rightarrow> string \<Rightarrow> api_error + admin_project" where
  "openai_update_project cd cl server project_id name key =
     bindE (checked_identifier project_id) (\<lambda>i.
     bindE (checked_display_name name) (\<lambda>n.
     bindE (openai_admin_request cd cl server 0 ''POST'' (project_path i) [] (Some (JObj [(''name'', JStr n)])) (Some key)) (openai_project cl)))"

definition openai_archive_project :: "api_codec \<Rightarrow> admin_client \<Rightarrow> api_server \<Rightarrow> string \<Rightarrow> string \<Rightarrow> api_error + admin_project" where
  "openai_archive_project cd cl server project_id key =
     bindE (checked_identifier project_id) (\<lambda>i.
     bindE (openai_admin_request cd cl server 0 ''POST'' (project_path i @ ''/archive'') [] (Some (JObj [])) (Some key)) (openai_project cl))"

section \<open>The Anthropic adapter\<close>

definition anthropic_list_users :: "api_codec \<Rightarrow> admin_client \<Rightarrow> api_server \<Rightarrow> int \<Rightarrow> int \<Rightarrow> int \<Rightarrow> api_error + admin_user list" where
  "anthropic_list_users cd cl server page_size max_pages max_items =
     bindE (anthropic_admin_list cd cl server ''/v1/organizations/users'' [] page_size max_pages max_items) (mapE (anthropic_user cd cl))"

definition member_path :: "string \<Rightarrow> string" where
  "member_path i = ''/v1/organizations/users/'' @ url_quote i"

definition anthropic_get_user :: "api_codec \<Rightarrow> admin_client \<Rightarrow> api_server \<Rightarrow> string \<Rightarrow> api_error + admin_user" where
  "anthropic_get_user cd cl server user_id =
     bindE (checked_identifier user_id) (\<lambda>i.
     bindE (anthropic_admin_request cd cl server 0 ''GET'' (member_path i) [] None None) (anthropic_user cd cl))"

definition anthropic_update_user_role :: "api_codec \<Rightarrow> admin_client \<Rightarrow> api_server \<Rightarrow> string \<Rightarrow> string \<Rightarrow> string \<Rightarrow> api_error + admin_user" where
  "anthropic_update_user_role cd cl server user_id role key =
     bindE (checked_identifier user_id) (\<lambda>i.
     bindE (api_check (role \<in> set assignable_roles) (ApiError ''Anthropic user role is not assignable'')) (\<lambda>_.
     bindE (anthropic_admin_request cd cl server 0 ''POST'' (member_path i) [] (Some (JObj [(''role'', JStr role)])) (Some key)) (anthropic_user cd cl)))"

definition anthropic_list_workspaces :: "api_codec \<Rightarrow> admin_client \<Rightarrow> api_server \<Rightarrow> bool \<Rightarrow> int \<Rightarrow> int \<Rightarrow> int \<Rightarrow> api_error + admin_workspace list" where
  "anthropic_list_workspaces cd cl server include_archived page_size max_pages max_items =
     bindE (anthropic_admin_list cd cl server ''/v1/organizations/workspaces'' (archived_param include_archived) page_size max_pages max_items)
       (mapE (anthropic_workspace cd cl))"

definition workspace_path :: "string \<Rightarrow> string" where
  "workspace_path i = ''/v1/organizations/workspaces/'' @ url_quote i"

definition anthropic_get_workspace :: "api_codec \<Rightarrow> admin_client \<Rightarrow> api_server \<Rightarrow> string \<Rightarrow> api_error + admin_workspace" where
  "anthropic_get_workspace cd cl server workspace_id =
     bindE (checked_identifier workspace_id) (\<lambda>i.
     bindE (anthropic_admin_request cd cl server 0 ''GET'' (workspace_path i) [] None None) (anthropic_workspace cd cl))"

definition anthropic_create_workspace :: "api_codec \<Rightarrow> admin_client \<Rightarrow> api_server \<Rightarrow> string \<Rightarrow> string \<Rightarrow> api_error + admin_workspace" where
  "anthropic_create_workspace cd cl server name key =
     bindE (checked_display_name name) (\<lambda>n.
     bindE (anthropic_admin_request cd cl server 0 ''POST'' ''/v1/organizations/workspaces'' [] (Some (JObj [(''name'', JStr n)])) (Some key)) (anthropic_workspace cd cl))"

definition anthropic_update_workspace :: "api_codec \<Rightarrow> admin_client \<Rightarrow> api_server \<Rightarrow> string \<Rightarrow> string \<Rightarrow> string \<Rightarrow> api_error + admin_workspace" where
  "anthropic_update_workspace cd cl server workspace_id name key =
     bindE (checked_identifier workspace_id) (\<lambda>i.
     bindE (checked_display_name name) (\<lambda>n.
     bindE (anthropic_admin_request cd cl server 0 ''POST'' (workspace_path i) [] (Some (JObj [(''name'', JStr n)])) (Some key)) (anthropic_workspace cd cl)))"

definition anthropic_archive_workspace :: "api_codec \<Rightarrow> admin_client \<Rightarrow> api_server \<Rightarrow> string \<Rightarrow> string \<Rightarrow> api_error + admin_workspace" where
  "anthropic_archive_workspace cd cl server workspace_id key =
     bindE (checked_identifier workspace_id) (\<lambda>i.
     bindE (anthropic_admin_request cd cl server 0 ''POST'' (workspace_path i @ ''/archive'') [] (Some (JObj [])) (Some key)) (anthropic_workspace cd cl))"

section \<open>Listings\<close>

interpretation openai_listing: paged_listing openai_admin_style
  by standard (auto simp: openai_admin_style_def res_simps dest: page_data_bounded last_id_cursor_given split: if_splits)

interpretation anthropic_listing: paged_listing anthropic_admin_style
  by standard (auto simp: anthropic_admin_style_def res_simps dest: page_data_bounded last_id_cursor_given split: if_splits)

lemma text_field_Inr: "text_field d k ok = Inr s \<Longrightarrow> get_or_null d k = JStr s \<and> ok s"
  by (auto simp: text_field_def split: json.splits if_splits)

lemma openai_userD:
  "openai_user cl d = Inr u \<Longrightarrow> get_or_null d ''id'' = JStr (au_id u) \<and> admin_identifier (au_id u) \<and> au_role u \<in> set openai_roles \<and>
     admin_email (au_email u) \<and> has_timezone (au_added_at u) \<and> au_organization u = ad_organization cl"
  by (auto simp: openai_user_def AdminUser_def res_simps dest!: text_field_Inr)

text \<open>
  The users that a listing returns are exactly what the API's pages held, in order and converted one by one:
  each page is the answer to the request with the cursor of the page before, the last one says that there is no
  more, no identifier occurs twice, and both limits are kept; every user has a checked identifier, role, address
  and time and is of the client's organization.
\<close>

theorem users_listed_from_pages:
  assumes "openai_list_users cd cl server k max_pages max_items = Inr users"
  shows "(\<exists>pages items. listing_chain (openai_admin_style k) (openai_page cd cl server ''/v1/organization/users'' [] k) 0 None pages \<and>
      int (length pages) \<le> max_pages \<and> map JObj items = concat (map snd pages) \<and> list_all2 (\<lambda>d u. openai_user cl d = Inr u) items users) \<and>
    distinct (map au_id users) \<and> int (length users) \<le> max_items \<and> int (length users) \<le> max_pages * k \<and>
    list_all (\<lambda>u. admin_identifier (au_id u) \<and> au_role u \<in> set openai_roles \<and> admin_email (au_email u) \<and> has_timezone (au_added_at u) \<and>
      au_organization u = ad_organization cl) users"
proof -
  obtain items where items: "openai_admin_list cd cl server ''/v1/organization/users'' [] k max_pages max_items = Inr items"
      "list_all2 (\<lambda>d u. openai_user cl d = Inr u) items users"
    using assms by (auto simp: openai_list_users_def res_simps)
  obtain pages where pages: "listing_chain (openai_admin_style k) (openai_page cd cl server ''/v1/organization/users'' [] k) 0 None pages"
      "int (length pages) \<le> max_pages" "map JObj items = concat (map snd pages)" "distinct (item_ids (openai_admin_style k) items)"
      "int (length items) \<le> max_items" "int (length items) \<le> max_pages * k"
    using openai_listing.listing_is_its_pages[OF items(1)[unfolded openai_admin_list_def]] by blast
  have "item_ids (openai_admin_style k) items = map JStr (map au_id users)"
    using items(2) by (induction rule: list_all2_induct) (auto simp: item_ids_def openai_admin_style_def dest: openai_userD)
  then have "distinct (map au_id users)" using pages(4) distinct_map by metis
  moreover have "length users = length items" using items(2) by (simp add: list_all2_lengthD)
  moreover have "list_all (\<lambda>u. admin_identifier (au_id u) \<and> au_role u \<in> set openai_roles \<and> admin_email (au_email u) \<and> has_timezone (au_added_at u) \<and>
      au_organization u = ad_organization cl) users"
    using items(2) by (induction rule: list_all2_induct) (auto dest: openai_userD)
  ultimately show ?thesis using pages items(2) by auto
qed

definition demo_admin :: admin_client where
  "demo_admin = \<lparr>ac_base_url = ''https://api.openai.com'', ac_secret = ''k'', ac_max_response_bytes = 4194304, ad_organization = ''org-1'', ad_api_key = True\<rparr>"

definition demo_user :: "string \<Rightarrow> json" where
  "demo_user i = JObj [(''object'', JStr ''organization.user''), (''id'', JStr i), (''name'', JStr ''A''), (''email'', JStr ''a@b.c''), (''role'', JStr ''owner''), (''added_at'', JInt 5)]"

definition demo_user_page :: "string \<Rightarrow> bool \<Rightarrow> control_exchange" where
  "demo_user_page i followed = Answered False 200 [json_dumps (JObj [(''object'', JStr ''list''), (''data'', JArr [demo_user i]),
     (''first_id'', JStr i), (''last_id'', JStr i), (''has_more'', JBool followed)])] False"

definition demo_admin_server :: api_server where
  "demo_admin_server t q = (if t = 0 then demo_user_page ''u1'' True else demo_user_page ''u2'' False)"

definition demo_admin_user :: "string \<Rightarrow> admin_user" where
  "demo_admin_user i = \<lparr>au_organization = ''org-1'', au_id = i, au_name = ''A'', au_email = ''a@b.c'', au_role = ''owner'',
     au_added_at = \<lparr>dt_instant = 5000000, dt_offset = Some 0\<rparr>\<rparr>"

lemma demo_listing: "openai_list_users demo_api_codec demo_admin demo_admin_server 1 5 10 = Inr [demo_admin_user ''u1'', demo_admin_user ''u2'']"
  by code_simp

theorem users_listed_from_pages_witness:
  "\<exists>pages items. listing_chain (openai_admin_style 1) (openai_page demo_api_codec demo_admin demo_admin_server ''/v1/organization/users'' [] 1) 0 None pages \<and>
     map JObj items = concat (map snd pages) \<and> length items = 2"
proof -
  obtain pages items where "listing_chain (openai_admin_style 1) (openai_page demo_api_codec demo_admin demo_admin_server ''/v1/organization/users'' [] 1) 0 None pages"
      "map JObj items = concat (map snd pages)" "list_all2 (\<lambda>d u. openai_user demo_admin d = Inr u) items [demo_admin_user ''u1'', demo_admin_user ''u2'']"
    using users_listed_from_pages[OF demo_listing] by blast
  then show ?thesis using list_all2_lengthD by fastforce
qed

text \<open>
  Where an identifier becomes part of a path, it stays one segment, and different identifiers give different
  paths, although an identifier may contain slashes and dots.
\<close>

theorem project_paths_name_one_resource:
  "\<exists>segment. project_path i = ''/v1/organization/projects/'' @ segment \<and> CHR ''/'' \<notin> set segment \<and> CHR ''?'' \<notin> set segment \<and>
     (\<forall>j. project_path j = project_path i \<longrightarrow> j = i)"
  using url_quote_safe[of i] url_quote_safe[of _ i] by (auto simp: project_path_def)

text \<open>A time that the C library cannot break down escapes the adapter's own error.\<close>

theorem huge_timestamp_escapes:
  assumes "get_or_null d ''object'' = JStr ''organization.user''" "keys_are [''object'', ''id'', ''name'', ''email'', ''role'', ''added_at''] d"
    "get_or_null d ''added_at'' = JInt t" "9223372036854775808 \<le> t"
  shows "openai_user cl d = Inl (ApiEscapes ''OverflowError'')"
  using assms by (simp add: openai_user_def admin_timestamp_def api_check_def sanitized_def)

end
