(* ===== verification/ComplianceApi.thy ===== *)
theory ComplianceApi
  imports PagedApi
begin

text \<open>
  The read-only compliance client (\<open>zeaz_enterprise/compliance.py\<close>): its scopes, the two listings with their
  different cursors, and the records it makes of organizations and activities.
\<close>

section \<open>Names and credentials\<close>

definition compliance_identifier :: "string \<Rightarrow> bool" where
  "compliance_identifier s = (s \<noteq> [] \<and> length s \<le> 256 \<and> ascii_alnum (hd s) \<and> list_all (\<lambda>c. ascii_alnum c \<or> c \<in> set ''_.:/-'') (tl s))"

text \<open>\<open>^[a-z][a-z0-9_]{0,n-1}$\<close>\<close>

definition snake_name :: "nat \<Rightarrow> string \<Rightarrow> bool" where
  "snake_name n s = (s \<noteq> [] \<and> length s \<le> n \<and> az_letter (hd s) \<and> list_all (\<lambda>c. az_letter c \<or> is_digit c \<or> c = CHR ''_'') (tl s))"

datatype compliance_scope = Activities | OrganizationData | UserData

record compliance_credential =
  cc_secret :: string
  cc_scopes :: "compliance_scope list"

definition ComplianceCredential :: "string \<Rightarrow> compliance_scope list \<Rightarrow> api_error + compliance_credential" where
  "ComplianceCredential secret scopes =
     bindE (api_check (secret \<noteq> []) (ApiValueError ''compliance credential cannot be empty'')) (\<lambda>_.
     bindE (api_check (1 \<le> card (set scopes) \<and> card (set scopes) \<le> 3) (ApiValueError ''scopes'')) (\<lambda>_.
     Inr \<lparr>cc_secret = secret, cc_scopes = scopes\<rparr>))"

record compliance_client = api_client +
  cm_scopes :: "compliance_scope list"
  cm_max_record_bytes :: int

definition AnthropicComplianceAdapter ::
  "(string \<Rightarrow> bool) \<Rightarrow> compliance_credential \<Rightarrow> string \<Rightarrow> rat \<Rightarrow> int \<Rightarrow> int \<Rightarrow> api_error + compliance_client" where
  "AnthropicComplianceAdapter https_origin credential base_url timeout_seconds max_response_bytes max_record_bytes =
     bindE (new_client https_origin 67108864 (cc_secret credential) base_url timeout_seconds max_response_bytes) (\<lambda>cl.
     bindE (api_check (1024 \<le> max_record_bytes \<and> max_record_bytes \<le> 1048576) (ApiValueError ''max_record_bytes must be between 1 KiB and 1 MiB'')) (\<lambda>_.
     Inr (api_client.extend cl \<lparr>cm_scopes = cc_scopes credential, cm_max_record_bytes = max_record_bytes\<rparr>)))"

definition require_scope :: "compliance_client \<Rightarrow> compliance_scope \<Rightarrow> api_error + unit" where
  "require_scope cl scope = api_check (scope \<in> set (cm_scopes cl)) (ApiError ''compliance credential lacks the required declared scope'')"

section \<open>Records\<close>

record compliance_organization =
  co_uuid :: string
  co_name :: string
  co_created_at :: py_datetime

definition uuid_field :: "api_codec \<Rightarrow> json dict \<Rightarrow> string \<Rightarrow> api_error + string" where
  "uuid_field cd d k = (case cd_uuid cd (get_or_null d k) of None \<Rightarrow> Inl (ApiValueError k) | Some u \<Rightarrow> Inr u)"

definition read_organization :: "api_codec \<Rightarrow> json dict \<Rightarrow> api_error + compliance_organization" where
  "read_organization cd d = sanitized ''compliance API returned an invalid organization''
     (bindE (api_check (keys_are [''uuid'', ''name'', ''created_at''] d) (ApiValueError [])) (\<lambda>_.
      bindE (rfc3339 cd (get_or_null d ''created_at'')) (\<lambda>created_at.
      bindE (uuid_field cd d ''uuid'') (\<lambda>uuid.
      bindE (text_field d ''name'' (text_between 1 256)) (\<lambda>name.
      Inr \<lparr>co_uuid = uuid, co_name = name, co_created_at = created_at\<rparr>)))))"

record compliance_activity =
  cy_id :: string
  cy_type :: string
  cy_created_at :: py_datetime
  cy_organization_id :: string
  cy_organization_uuid :: string
  cy_actor :: "json dict"
  cy_details :: "json dict"

definition named_members :: "nat \<Rightarrow> nat \<Rightarrow> string \<Rightarrow> json dict \<Rightarrow> api_error + json dict" where
  "named_members most n k d = bindE (api_check (length d \<le> most \<and> list_all (\<lambda>kv. snake_name n (fst kv)) d) (ApiValueError k)) (\<lambda>_. Inr d)"

definition activity_keys :: "string list" where
  "activity_keys = [''id'', ''created_at'', ''organization_id'', ''organization_uuid'', ''actor'', ''type'']"

text \<open>The size is that of \<open>json.dumps(..., ensure_ascii=False, allow_nan=False).encode()\<close>.\<close>

definition read_activity :: "api_codec \<Rightarrow> compliance_client \<Rightarrow> json dict \<Rightarrow> api_error + compliance_activity" where
  "read_activity cd cl d = sanitized ''compliance API returned an invalid activity''
     (bindE (api_check (list_all (dict_has d) activity_keys \<and> length d \<le> 70) (ApiValueError [])) (\<lambda>_.
      bindE (api_check (\<not> has_nan (JObj d)) (ApiValueError [])) (\<lambda>_.
      bindE (api_check (\<not> int (length (utf8_encode (json_raw (JObj d)))) > cm_max_record_bytes cl) (ApiValueError [])) (\<lambda>_.
      bindE (rfc3339 cd (get_or_null d ''created_at'')) (\<lambda>created_at.
      bindE (text_field d ''id'' compliance_identifier) (\<lambda>i.
      bindE (text_field d ''organization_id'' compliance_identifier) (\<lambda>organization_id.
      bindE (uuid_field cd d ''organization_uuid'') (\<lambda>organization_uuid.
      bindE (bindE (object_field d ''actor'') (named_members 32 64 ''actor'')) (\<lambda>actor.
      bindE (text_field d ''type'' (snake_name 128)) (\<lambda>type.
      bindE (named_members 64 128 ''details'' (filter (\<lambda>kv. fst kv \<notin> set activity_keys) d)) (\<lambda>details.
      Inr \<lparr>cy_id = i, cy_type = type, cy_created_at = created_at, cy_organization_id = organization_id,
        cy_organization_uuid = organization_uuid, cy_actor = actor, cy_details = details\<rparr>))))))))))) "

section \<open>Requests\<close>

definition compliance_request :: "api_codec \<Rightarrow> compliance_client \<Rightarrow> api_server \<Rightarrow> nat \<Rightarrow> string \<Rightarrow> (string \<times> json) list \<Rightarrow> api_error + json dict" where
  "compliance_request cd cl server t path params =
     api_object ''compliance API'' cd (ac_max_response_bytes cl) (server t
       \<lparr>aq_method = ''GET'', aq_url = ac_base_url cl @ path,
        aq_headers = [(''x-api-key'', ac_secret cl), (''accept'', ''application/json'')], aq_params = params, aq_json = None\<rparr>)"

definition opaque_next :: "json dict \<Rightarrow> json list \<Rightarrow> api_error + string option" where
  "opaque_next d raw =
     bindE (page_flag ''compliance API returned an invalid page'' d) (\<lambda>more.
     if more then token_cursor ''compliance API returned an invalid page token'' (get_or_null d ''next_page'')
     else bindE (api_check (get_or_null d ''next_page'' = JNull) (ApiError ''compliance API returned inconsistent pagination'')) (\<lambda>_. Inr None))"

definition opaque_style :: "int \<Rightarrow> page_style" where
  "opaque_style page_size = \<lparr>
     ps_items = (\<lambda>d. bindE (api_check (keys_are [''data'', ''has_more'', ''next_page''] d) (ApiError ''compliance API returned an invalid page'')) (\<lambda>_.
       page_data ''compliance API returned an invalid item list'' page_size d)),
     ps_next = opaque_next,
     ps_id_field = ''uuid'', ps_invalid_item = ''compliance API returned an invalid item'',
     ps_invalid_id = ''compliance API returned a duplicate or invalid ID'', ps_duplicate = ''compliance API returned a duplicate or invalid ID'',
     ps_item_limit = ''compliance API exceeded its item limit'', ps_bad_cursor = ''compliance API returned an invalid page token'',
     ps_page_limit = ''compliance API exceeded its page limit''\<rparr>"

definition activity_style :: "int \<Rightarrow> page_style" where
  "activity_style page_size = \<lparr>
     ps_items = (\<lambda>d. bindE (api_check (keys_are [''data'', ''has_more'', ''first_id'', ''last_id''] d) (ApiError ''compliance API returned an invalid page'')) (\<lambda>_.
       page_data ''compliance API returned an invalid item list'' page_size d)),
     ps_next = (\<lambda>d raw. bindE (page_flag ''compliance API returned an invalid page'' d) (\<lambda>more.
       if more then last_id_cursor ''compliance API returned an invalid activity cursor'' d raw else Inr None)),
     ps_id_field = ''id'', ps_invalid_item = ''compliance API returned an invalid item'',
     ps_invalid_id = ''compliance API returned a duplicate or invalid ID'', ps_duplicate = ''compliance API returned a duplicate or invalid ID'',
     ps_item_limit = ''compliance API exceeded its item limit'', ps_bad_cursor = ''compliance API returned an invalid activity cursor'',
     ps_page_limit = ''compliance API exceeded its page limit''\<rparr>"

definition list_opaque_pages :: "api_codec \<Rightarrow> compliance_client \<Rightarrow> api_server \<Rightarrow> string \<Rightarrow> int \<Rightarrow> int \<Rightarrow> int \<Rightarrow> api_error + json dict list" where
  "list_opaque_pages cd cl server path page_size max_pages max_items =
     list_pages (opaque_style page_size) 1000 5000000 ''compliance pagination limits are invalid'' ''compliance max_items is invalid''
       (\<lambda>t cursor. compliance_request cd cl server t path ((''limit'', JInt page_size) # after_param ''page'' cursor)) page_size max_pages max_items"

definition list_id_pages :: "api_codec \<Rightarrow> compliance_client \<Rightarrow> api_server \<Rightarrow> string \<Rightarrow> (string \<times> json) list \<Rightarrow> int \<Rightarrow> int \<Rightarrow> int \<Rightarrow> api_error + json dict list" where
  "list_id_pages cd cl server path base_params page_size max_pages max_items =
     list_pages (activity_style page_size) 5000 5000000 ''compliance pagination limits are invalid'' ''compliance max_items is invalid''
       (\<lambda>t cursor. compliance_request cd cl server t path (base_params @ [(''limit'', JInt page_size)] @ after_param ''after_id'' cursor)) page_size max_pages max_items"

section \<open>Operations\<close>

definition list_organizations :: "api_codec \<Rightarrow> compliance_client \<Rightarrow> api_server \<Rightarrow> int \<Rightarrow> int \<Rightarrow> int \<Rightarrow> api_error + compliance_organization list" where
  "list_organizations cd cl server page_size max_pages max_items =
     bindE (require_scope cl OrganizationData) (\<lambda>_.
     bindE (list_opaque_pages cd cl server ''/v1/compliance/organizations'' page_size max_pages max_items) (mapE (read_organization cd)))"

record activity_filter =
  af_types :: "string list"
  af_organizations :: "string list"
  af_created_at_gte :: "py_datetime option"
  af_created_at_lt :: "py_datetime option"

definition filter_times :: "activity_filter \<Rightarrow> py_datetime list" where
  "filter_times f = List.map_filter id [af_created_at_gte f, af_created_at_lt f]"

definition checked_filter :: "activity_filter \<Rightarrow> api_error + unit" where
  "checked_filter f =
     bindE (api_check (\<not> (length (af_types f) > 100 \<or> length (af_organizations f) > 100)) (ApiValueError ''compliance filter count exceeded'')) (\<lambda>_.
     bindE (api_check (list_all (snake_name 128) (af_types f)) (ApiValueError ''compliance activity type is invalid'')) (\<lambda>_.
     bindE (api_check (list_all compliance_identifier (af_organizations f)) (ApiValueError ''compliance identifier is invalid'')) (\<lambda>_.
     bindE (api_check (list_all has_timezone (filter_times f)) (ApiValueError ''activity time filters must include a UTC offset'')) (\<lambda>_.
     api_check (case (af_created_at_gte f, af_created_at_lt f) of (Some a, Some b) \<Rightarrow> \<not> dt_instant a \<ge> dt_instant b | _ \<Rightarrow> True)
       (ApiValueError ''activity time filter range is invalid'')))))"

definition time_param :: "(py_datetime \<Rightarrow> string) \<Rightarrow> string \<Rightarrow> py_datetime option \<Rightarrow> (string \<times> json) list" where
  "time_param isoformat k t = (case t of None \<Rightarrow> [] | Some t \<Rightarrow> [(k, JStr (isoformat t))])"

definition filter_params :: "(py_datetime \<Rightarrow> string) \<Rightarrow> activity_filter \<Rightarrow> (string \<times> json) list" where
  "filter_params isoformat f = map (\<lambda>s. (''activity_types[]'', JStr s)) (af_types f) @ map (\<lambda>s. (''organization_ids[]'', JStr s)) (af_organizations f) @
     time_param isoformat ''created_at.gte'' (af_created_at_gte f) @ time_param isoformat ''created_at.lt'' (af_created_at_lt f)"

definition list_activities ::
  "(py_datetime \<Rightarrow> string) \<Rightarrow> api_codec \<Rightarrow> compliance_client \<Rightarrow> api_server \<Rightarrow> activity_filter \<Rightarrow> int \<Rightarrow> int \<Rightarrow> int \<Rightarrow> api_error + compliance_activity list" where
  "list_activities isoformat cd cl server f page_size max_pages max_items =
     bindE (require_scope cl Activities) (\<lambda>_.
     bindE (checked_filter f) (\<lambda>_.
     bindE (list_id_pages cd cl server ''/v1/compliance/activities'' (filter_params isoformat f) page_size max_pages max_items)
       (mapE (read_activity cd cl))))"

section \<open>Listings\<close>

interpretation organizations: paged_listing opaque_style
  by standard (auto simp: opaque_style_def opaque_next_def res_simps dest: page_data_bounded token_cursor_given split: if_splits)

interpretation activities: paged_listing activity_style
  by standard (auto simp: activity_style_def res_simps dest: page_data_bounded last_id_cursor_given split: if_splits)

end
