(* ===== verification/ManagedApi.thy ===== *)
theory ManagedApi
  imports PagedApi
begin

text \<open>
  The clients of the managed agents (\<open>zeaz_enterprise/managed_agents.py\<close>): environments and deployments, what
  may be asked for, the requests, and the records made of the answers.
\<close>

section \<open>Names\<close>

definition id_char :: "char \<Rightarrow> bool" where
  "id_char c = (ascii_alnum c \<or> c \<in> set ''_-'')"

text \<open>\<open>^[a-z]+_[A-Za-z0-9_-]{1,248}$\<close>\<close>

definition resource_id :: "string \<Rightarrow> bool" where
  "resource_id s = (let rest = dropWhile az_letter s
     in takeWhile az_letter s \<noteq> [] \<and> starts_with ''_'' rest \<and> text_between 1 248 (tl rest) \<and> list_all id_char (tl rest))"

definition dns_label :: "string \<Rightarrow> bool" where
  "dns_label s = (text_between 1 63 s \<and> list_all (\<lambda>c. az_letter c \<or> is_digit c \<or> c = CHR ''-'') s \<and> hd s \<noteq> CHR ''-'' \<and> last s \<noteq> CHR ''-'')"

definition host_pattern :: "string \<Rightarrow> bool" where
  "host_pattern s = (let labels = split_char CHR ''.'' (if starts_with ''*.'' s then drop 2 s else s)
     in 2 \<le> length labels \<and> list_all dns_label (butlast labels) \<and> text_between 2 63 (last labels) \<and> list_all az_letter (last labels))"

definition metadata_ok :: "string dict \<Rightarrow> bool" where
  "metadata_ok d = (length d \<le> 16 \<and> list_all (\<lambda>kv. text_between 1 64 (fst kv) \<and> list_all (\<lambda>c. ascii_alnum c \<or> c \<in> set ''_.-'') (fst kv) \<and>
     length (snd kv) \<le> 512) d)"

definition ManagedAgentCredential :: "string \<Rightarrow> api_error + string" where
  "ManagedAgentCredential secret = bindE (api_check (secret \<noteq> []) (ApiValueError ''managed-agent credential cannot be empty'')) (\<lambda>_. Inr secret)"

definition AnthropicManagedAgentsAdapter :: "(string \<Rightarrow> bool) \<Rightarrow> string \<Rightarrow> string \<Rightarrow> rat \<Rightarrow> int \<Rightarrow> api_error + api_client" where
  "AnthropicManagedAgentsAdapter https_origin = new_client https_origin 67108864"

section \<open>What may be asked for\<close>

record limited_network =
  ln_allowed_hosts :: "string list"
  ln_allow_mcp_servers :: bool
  ln_allow_package_managers :: bool

definition LimitedNetwork :: "limited_network \<Rightarrow> api_error + limited_network" where
  "LimitedNetwork n =
     bindE (api_check (length (ln_allowed_hosts n) \<le> 100 \<and> list_all host_pattern (ln_allowed_hosts n)) (ApiValueError ''allowed_hosts'')) (\<lambda>_.
     bindE (api_check (distinct (ln_allowed_hosts n)) (ApiValueError ''allowed hosts must be unique'')) (\<lambda>_. Inr n))"

record package_set =
  pk_apt :: "string list"
  pk_cargo :: "string list"
  pk_gem :: "string list"
  pk_go :: "string list"
  pk_npm :: "string list"
  pk_pip :: "string list"

definition package_names :: "string list \<Rightarrow> bool" where
  "package_names xs = (length xs \<le> 100 \<and> list_all (text_between 1 256) xs)"

definition PackageSet :: "package_set \<Rightarrow> api_error + package_set" where
  "PackageSet p = bindE (api_check (list_all package_names [pk_apt p, pk_cargo p, pk_gem p, pk_go p, pk_npm p, pk_pip p]) (ApiValueError ''packages'')) (\<lambda>_. Inr p)"

datatype environment_config = CloudEnvironment limited_network package_set | SelfHostedEnvironment

definition EnvironmentConfig :: "environment_config \<Rightarrow> api_error + environment_config" where
  "EnvironmentConfig c = (case c of
     CloudEnvironment n p \<Rightarrow> bindE (LimitedNetwork n) (\<lambda>_. bindE (PackageSet p) (\<lambda>_. Inr c)) | SelfHostedEnvironment \<Rightarrow> Inr c)"

record environment_spec =
  es_name :: string
  es_description :: string
  es_config :: environment_config
  es_metadata :: "string dict"
  es_scope :: "string option"

definition scope_values :: "string option list" where
  "scope_values = [None, Some ''organization'', Some ''account'']"

definition EnvironmentSpec :: "environment_spec \<Rightarrow> api_error + environment_spec" where
  "EnvironmentSpec s =
     bindE (api_check (text_between 1 256 (es_name s)) (ApiValueError ''name'')) (\<lambda>_.
     bindE (api_check (length (es_description s) \<le> 4096) (ApiValueError ''description'')) (\<lambda>_.
     bindE (EnvironmentConfig (es_config s)) (\<lambda>_.
     bindE (api_check (metadata_ok (es_metadata s)) (ApiValueError ''metadata'')) (\<lambda>_.
     bindE (api_check (es_scope s \<in> set scope_values) (ApiValueError ''scope'')) (\<lambda>_.
     bindE (api_check (es_scope s \<noteq> None \<longrightarrow> es_config s = SelfHostedEnvironment)
       (ApiValueError ''scope is only supported for self-hosted environments'')) (\<lambda>_. Inr s))))))"

record agent_pin =
  an_id :: string
  an_version :: int

definition AgentPin :: "agent_pin \<Rightarrow> api_error + agent_pin" where
  "AgentPin a = bindE (api_check (resource_id (an_id a) \<and> 1 \<le> an_version a) (ApiValueError ''agent'')) (\<lambda>_. Inr a)"

text \<open>A message is its text blocks.\<close>

definition UserMessage :: "string list \<Rightarrow> api_error + string list" where
  "UserMessage texts = bindE (api_check (1 \<le> length texts \<and> length texts \<le> 100 \<and> list_all (text_between 1 65536) texts) (ApiValueError ''content'')) (\<lambda>_. Inr texts)"

text \<open>The number of the words that \<open>str.split()\<close> gives.\<close>

fun word_count :: "bool \<Rightarrow> string \<Rightarrow> nat" where
  "word_count inside [] = 0"
| "word_count inside (c # cs) = (if py_space c then word_count False cs else (if inside then 0 else 1) + word_count True cs)"

record cron_schedule =
  cs_expression :: string
  cs_timezone :: string

definition CronSchedule :: "cron_schedule \<Rightarrow> api_error + cron_schedule" where
  "CronSchedule s =
     bindE (api_check (text_between 9 128 (cs_expression s)) (ApiValueError ''expression'')) (\<lambda>_.
     bindE (api_check (\<not> (word_count False (cs_expression s) \<noteq> 5 \<or> list_ex (\<lambda>c. code_of c < 32) (cs_expression s)))
       (ApiValueError ''schedule must be a five-field POSIX cron expression'')) (\<lambda>_.
     bindE (api_check (text_between 1 128 (cs_timezone s) \<and> list_all (\<lambda>c. ascii_alnum c \<or> c \<in> set ''_+./-'') (cs_timezone s)) (ApiValueError ''timezone'')) (\<lambda>_. Inr s)))"

record deployment_spec =
  ds_name :: string
  ds_agent :: "string + agent_pin"
  ds_environment_id :: string
  ds_initial_events :: "string list list"
  ds_schedule :: cron_schedule
  ds_description :: string
  ds_metadata :: "string dict"
  ds_vault_ids :: "string list"

definition DeploymentSpec :: "deployment_spec \<Rightarrow> api_error + deployment_spec" where
  "DeploymentSpec s =
     bindE (api_check (text_between 1 256 (ds_name s)) (ApiValueError ''name'')) (\<lambda>_.
     bindE (case ds_agent s of Inl i \<Rightarrow> api_check (resource_id i) (ApiValueError ''agent'') | Inr a \<Rightarrow> bindE (AgentPin a) (\<lambda>_. Inr ())) (\<lambda>_.
     bindE (api_check (resource_id (ds_environment_id s)) (ApiValueError ''environment_id'')) (\<lambda>_.
     bindE (api_check (1 \<le> length (ds_initial_events s) \<and> length (ds_initial_events s) \<le> 50) (ApiValueError ''initial_events'')) (\<lambda>_.
     bindE (mapE UserMessage (ds_initial_events s)) (\<lambda>_.
     bindE (CronSchedule (ds_schedule s)) (\<lambda>_.
     bindE (api_check (length (ds_description s) \<le> 4096 \<and> metadata_ok (ds_metadata s)) (ApiValueError ''description'')) (\<lambda>_.
     bindE (api_check (length (ds_vault_ids s) \<le> 50 \<and> list_all resource_id (ds_vault_ids s)) (ApiValueError ''vault_ids'')) (\<lambda>_.
     bindE (api_check (distinct (ds_vault_ids s)) (ApiValueError ''vault IDs must be unique'')) (\<lambda>_. Inr s)))))))))"

section \<open>The specifications as JSON\<close>

definition texts_json :: "string list \<Rightarrow> json" where
  "texts_json xs = JArr (map JStr xs)"

definition metadata_json :: "string dict \<Rightarrow> json" where
  "metadata_json d = JObj (map (\<lambda>kv. (fst kv, JStr (snd kv))) d)"

definition network_json :: "limited_network \<Rightarrow> json" where
  "network_json n = JObj [(''type'', JStr ''limited''), (''allowed_hosts'', texts_json (ln_allowed_hosts n)),
     (''allow_mcp_servers'', JBool (ln_allow_mcp_servers n)), (''allow_package_managers'', JBool (ln_allow_package_managers n))]"

definition packages_json :: "package_set \<Rightarrow> json" where
  "packages_json p = JObj [(''type'', JStr ''packages''), (''apt'', texts_json (pk_apt p)), (''cargo'', texts_json (pk_cargo p)),
     (''gem'', texts_json (pk_gem p)), (''go'', texts_json (pk_go p)), (''npm'', texts_json (pk_npm p)), (''pip'', texts_json (pk_pip p))]"

definition config_json :: "environment_config \<Rightarrow> json" where
  "config_json c = (case c of
     CloudEnvironment n p \<Rightarrow> JObj [(''type'', JStr ''cloud''), (''networking'', network_json n), (''packages'', packages_json p)]
   | SelfHostedEnvironment \<Rightarrow> JObj [(''type'', JStr ''self_hosted'')])"

definition environment_fields :: "environment_spec \<Rightarrow> json dict" where
  "environment_fields s = [(''name'', JStr (es_name s)), (''description'', JStr (es_description s)), (''config'', config_json (es_config s)),
     (''metadata'', metadata_json (es_metadata s))] @ (case es_scope s of None \<Rightarrow> [] | Some x \<Rightarrow> [(''scope'', JStr x)])"

definition environment_json :: "environment_spec \<Rightarrow> json" where
  "environment_json s = JObj (environment_fields s)"

definition pin_json :: "agent_pin \<Rightarrow> json" where
  "pin_json a = JObj [(''type'', JStr ''agent''), (''id'', JStr (an_id a)), (''version'', JInt (an_version a))]"

definition message_json :: "string list \<Rightarrow> json" where
  "message_json texts = JObj [(''type'', JStr ''user.message''),
     (''content'', JArr (map (\<lambda>t. JObj [(''type'', JStr ''text''), (''text'', JStr t)]) texts))]"

definition deployment_json :: "deployment_spec \<Rightarrow> json" where
  "deployment_json s = JObj [(''name'', JStr (ds_name s)),
     (''agent'', (case ds_agent s of Inl i \<Rightarrow> JStr i | Inr a \<Rightarrow> pin_json a)), (''environment_id'', JStr (ds_environment_id s)),
     (''initial_events'', JArr (map message_json (ds_initial_events s))),
     (''schedule'', JObj [(''type'', JStr ''cron''), (''expression'', JStr (cs_expression (ds_schedule s))), (''timezone'', JStr (cs_timezone (ds_schedule s)))]),
     (''description'', JStr (ds_description s)), (''metadata'', metadata_json (ds_metadata s)), (''vault_ids'', texts_json (ds_vault_ids s))]"

section \<open>What the API answers\<close>

text \<open>Models forbid members they do not declare; those with a default may be absent.\<close>

definition closed_members :: "string list \<Rightarrow> string list \<Rightarrow> json dict \<Rightarrow> api_error + unit" where
  "closed_members required optional d =
     api_check (list_all (dict_has d) required \<and> list_all (\<lambda>kv. fst kv \<in> set (required @ optional)) d) (ApiValueError ''members'')"

definition literal_member :: "string \<Rightarrow> string \<Rightarrow> json dict \<Rightarrow> api_error + unit" where
  "literal_member k s d = api_check (dict_get_default d k (JStr s) = JStr s) (ApiValueError k)"

definition text_value :: "json \<Rightarrow> api_error + string" where
  "text_value v = (case v of JStr s \<Rightarrow> Inr s | _ \<Rightarrow> Inl (ApiValueError ''string''))"

definition texts_member :: "string \<Rightarrow> json dict \<Rightarrow> api_error + string list" where
  "texts_member k d = (case dict_get_default d k (JArr []) of JArr vs \<Rightarrow> mapE text_value vs | _ \<Rightarrow> Inl (ApiValueError k))"

definition bool_member :: "api_codec \<Rightarrow> string \<Rightarrow> json dict \<Rightarrow> api_error + bool" where
  "bool_member cd k d = (case cd_bool cd (dict_get_default d k (JBool False)) of None \<Rightarrow> Inl (ApiValueError k) | Some b \<Rightarrow> Inr b)"

definition time_member :: "api_codec \<Rightarrow> string \<Rightarrow> json dict \<Rightarrow> api_error + py_datetime" where
  "time_member cd k d = (case cd_time cd (get_or_null d k) of None \<Rightarrow> Inl (ApiValueError k) | Some t \<Rightarrow> Inr t)"

definition optional_time_member :: "api_codec \<Rightarrow> string \<Rightarrow> json dict \<Rightarrow> api_error + py_datetime option" where
  "optional_time_member cd k d = (if get_or_null d k = JNull then Inr None else bindE (time_member cd k d) (\<lambda>t. Inr (Some t)))"

definition metadata_member :: "string \<Rightarrow> json dict \<Rightarrow> api_error + string dict" where
  "metadata_member k d = (case dict_get_default d k (JObj []) of
     JObj x \<Rightarrow>
       bindE (mapE (\<lambda>kv. bindE (text_value (snd kv)) (\<lambda>s. Inr (fst kv, s))) x) (\<lambda>m.
       bindE (api_check (metadata_ok m) (ApiValueError k)) (\<lambda>_. Inr m))
   | _ \<Rightarrow> Inl (ApiValueError k))"

definition read_network :: "api_codec \<Rightarrow> json dict \<Rightarrow> api_error + limited_network" where
  "read_network cd d =
     bindE (closed_members [] [''type'', ''allowed_hosts'', ''allow_mcp_servers'', ''allow_package_managers''] d) (\<lambda>_.
     bindE (literal_member ''type'' ''limited'' d) (\<lambda>_.
     bindE (texts_member ''allowed_hosts'' d) (\<lambda>hosts.
     bindE (bool_member cd ''allow_mcp_servers'' d) (\<lambda>mcp.
     bindE (bool_member cd ''allow_package_managers'' d) (\<lambda>managers.
     LimitedNetwork \<lparr>ln_allowed_hosts = hosts, ln_allow_mcp_servers = mcp, ln_allow_package_managers = managers\<rparr>)))))"

definition package_keys :: "string list" where
  "package_keys = [''apt'', ''cargo'', ''gem'', ''go'', ''npm'', ''pip'']"

definition read_packages :: "json dict \<Rightarrow> api_error + package_set" where
  "read_packages d =
     bindE (closed_members [] (''type'' # package_keys) d) (\<lambda>_.
     bindE (literal_member ''type'' ''packages'' d) (\<lambda>_.
     bindE (texts_member ''apt'' d) (\<lambda>apt. bindE (texts_member ''cargo'' d) (\<lambda>cargo. bindE (texts_member ''gem'' d) (\<lambda>gem.
     bindE (texts_member ''go'' d) (\<lambda>go. bindE (texts_member ''npm'' d) (\<lambda>npm. bindE (texts_member ''pip'' d) (\<lambda>pip.
     PackageSet \<lparr>pk_apt = apt, pk_cargo = cargo, pk_gem = gem, pk_go = go, pk_npm = npm, pk_pip = pip\<rparr>))))))))"

definition read_config :: "api_codec \<Rightarrow> json dict \<Rightarrow> api_error + environment_config" where
  "read_config cd d = (case get_or_null d ''type'' of
     JStr s \<Rightarrow>
       if s = ''cloud''
       then bindE (closed_members [''networking''] [''type'', ''packages''] d) (\<lambda>_.
         bindE (bindE (object_field d ''networking'') (read_network cd)) (\<lambda>n.
         bindE (if dict_has d ''packages'' then bindE (object_field d ''packages'') read_packages
           else Inr \<lparr>pk_apt = [], pk_cargo = [], pk_gem = [], pk_go = [], pk_npm = [], pk_pip = []\<rparr>) (\<lambda>p.
         Inr (CloudEnvironment n p))))
       else if s = ''self_hosted'' then bindE (closed_members [] [''type''] d) (\<lambda>_. Inr SelfHostedEnvironment)
       else Inl (ApiValueError ''config'')
   | _ \<Rightarrow> Inl (ApiValueError ''config''))"

definition scope_member :: "json dict \<Rightarrow> api_error + string option" where
  "scope_member d = (case get_or_null d ''scope'' of
     JNull \<Rightarrow> Inr None | JStr s \<Rightarrow> if Some s \<in> set scope_values then Inr (Some s) else Inl (ApiValueError ''scope'') | _ \<Rightarrow> Inl (ApiValueError ''scope''))"

record managed_environment =
  me_id :: string
  me_name :: string
  me_description :: string
  me_config :: environment_config
  me_metadata :: "string dict"
  me_scope :: "string option"
  me_created_at :: py_datetime
  me_updated_at :: py_datetime
  me_archived_at :: "py_datetime option"

definition environment_members :: "string list" where
  "environment_members = [''id'', ''type'', ''name'', ''description'', ''config'', ''metadata'', ''created_at'', ''updated_at'', ''archived_at'']"

definition read_environment :: "api_codec \<Rightarrow> json dict \<Rightarrow> api_error + managed_environment" where
  "read_environment cd d = sanitized ''managed-agent API returned an invalid environment''
     (bindE (closed_members environment_members [''scope''] d) (\<lambda>_.
      bindE (text_field d ''id'' resource_id) (\<lambda>i.
      bindE (text_field d ''type'' (\<lambda>s. s = ''environment'')) (\<lambda>_.
      bindE (text_field d ''name'' (text_between 1 256)) (\<lambda>name.
      bindE (text_field d ''description'' (\<lambda>s. length s \<le> 4096)) (\<lambda>description.
      bindE (bindE (object_field d ''config'') (read_config cd)) (\<lambda>config.
      bindE (metadata_member ''metadata'' d) (\<lambda>metadata.
      bindE (scope_member d) (\<lambda>scope.
      bindE (time_member cd ''created_at'' d) (\<lambda>created_at.
      bindE (time_member cd ''updated_at'' d) (\<lambda>updated_at.
      bindE (optional_time_member cd ''archived_at'' d) (\<lambda>archived_at.
      Inr \<lparr>me_id = i, me_name = name, me_description = description, me_config = config, me_metadata = metadata, me_scope = scope,
        me_created_at = created_at, me_updated_at = updated_at, me_archived_at = archived_at\<rparr>)))))))))))) "

definition read_pin :: "api_codec \<Rightarrow> json dict \<Rightarrow> api_error + agent_pin" where
  "read_pin cd d =
     bindE (closed_members [''id'', ''version''] [''type''] d) (\<lambda>_.
     bindE (literal_member ''type'' ''agent'' d) (\<lambda>_.
     bindE (text_field d ''id'' resource_id) (\<lambda>i.
     case cd_int cd (get_or_null d ''version'') of None \<Rightarrow> Inl (ApiValueError ''version'') | Some v \<Rightarrow> AgentPin \<lparr>an_id = i, an_version = v\<rparr>)))"

record managed_deployment =
  md_id :: string
  md_name :: string
  md_paused :: bool
  md_agent :: agent_pin
  md_environment_id :: string
  md_created_at :: py_datetime
  md_updated_at :: py_datetime
  md_archived_at :: "py_datetime option"

text \<open>\<open>_deployment\<close> looks at the members it needs; any others are ignored.\<close>

definition read_deployment :: "api_codec \<Rightarrow> json dict \<Rightarrow> api_error + managed_deployment" where
  "read_deployment cd d = sanitized ''managed-agent API returned an invalid deployment''
     (bindE (text_field d ''id'' resource_id) (\<lambda>i.
      bindE (text_field d ''name'' (text_between 1 256)) (\<lambda>name.
      bindE (text_field d ''status'' (\<lambda>s. s = ''active'' \<or> s = ''paused'')) (\<lambda>status.
      bindE (bindE (object_field d ''agent'') (read_pin cd)) (\<lambda>agent.
      bindE (text_field d ''environment_id'' resource_id) (\<lambda>environment_id.
      bindE (time_member cd ''created_at'' d) (\<lambda>created_at.
      bindE (time_member cd ''updated_at'' d) (\<lambda>updated_at.
      bindE (optional_time_member cd ''archived_at'' d) (\<lambda>archived_at.
      Inr \<lparr>md_id = i, md_name = name, md_paused = (status = ''paused''), md_agent = agent, md_environment_id = environment_id,
        md_created_at = created_at, md_updated_at = updated_at, md_archived_at = archived_at\<rparr>)))))))))"

record deployment_run =
  dr_id :: string
  dr_deployment_id :: string
  dr_session_id :: "string option"
  dr_created_at :: py_datetime

definition optional_id_field :: "json dict \<Rightarrow> string \<Rightarrow> api_error + string option" where
  "optional_id_field d k = (if get_or_null d k = JNull then Inr None else bindE (text_field d k resource_id) (\<lambda>s. Inr (Some s)))"

definition read_run :: "api_codec \<Rightarrow> json dict \<Rightarrow> api_error + deployment_run" where
  "read_run cd d = sanitized ''managed-agent API returned an invalid deployment run''
     (bindE (closed_members [''id'', ''type'', ''deployment_id'', ''session_id'', ''created_at''] [] d) (\<lambda>_.
      bindE (text_field d ''id'' resource_id) (\<lambda>i.
      bindE (text_field d ''type'' (\<lambda>s. s = ''deployment_run'')) (\<lambda>_.
      bindE (text_field d ''deployment_id'' resource_id) (\<lambda>deployment_id.
      bindE (optional_id_field d ''session_id'') (\<lambda>session_id.
      bindE (time_member cd ''created_at'' d) (\<lambda>created_at.
      Inr \<lparr>dr_id = i, dr_deployment_id = deployment_id, dr_session_id = session_id, dr_created_at = created_at\<rparr>)))))))"

section \<open>Requests\<close>

definition managed_agents_beta :: string where
  "managed_agents_beta = ''managed-agents-2026-04-01''"

definition managed_identifier :: "string \<Rightarrow> string \<Rightarrow> api_error + string" where
  "managed_identifier p s =
     bindE (api_check (resource_id s) (ApiValueError ''managed-agent identifier is invalid'')) (\<lambda>_.
     bindE (api_check (starts_with p s) (ApiValueError ''managed-agent identifier has the wrong resource type'')) (\<lambda>_. Inr s))"

definition client_key :: "string \<Rightarrow> api_error + string" where
  "client_key s = bindE (api_check (\<not> (\<not> text_between 1 255 s \<or> list_ex (\<lambda>c. \<not> (py_isalnum c \<or> c \<in> set ''._:-'')) s))
     (ApiValueError ''idempotency key is invalid'')) (\<lambda>_. Inr s)"

definition managed_request ::
  "api_codec \<Rightarrow> api_client \<Rightarrow> api_server \<Rightarrow> nat \<Rightarrow> string \<Rightarrow> string \<Rightarrow> (string \<times> json) list \<Rightarrow> json option \<Rightarrow> string option \<Rightarrow> api_error + json dict" where
  "managed_request cd cl server t meth path params body key =
     api_object ''managed-agent API'' cd (ac_max_response_bytes cl) (server t
       \<lparr>aq_method = meth, aq_url = ac_base_url cl @ path,
        aq_headers = [(''x-api-key'', ac_secret cl), (''anthropic-version'', ''2023-06-01''), (''anthropic-beta'', managed_agents_beta),
          (''accept'', ''application/json'')] @ (case key of None \<Rightarrow> [] | Some k \<Rightarrow> [(''idempotency-key'', k)]),
        aq_params = params, aq_json = body\<rparr>)"

definition next_page :: "string \<Rightarrow> json dict \<Rightarrow> json list \<Rightarrow> api_error + string option" where
  "next_page message d raw = (if get_or_null d ''next_page'' = JNull then Inr None else token_cursor message (get_or_null d ''next_page''))"

definition managed_style :: "int \<Rightarrow> page_style" where
  "managed_style page_size = \<lparr>
     ps_items = (\<lambda>d. bindE (api_check (keys_are [''data'', ''next_page''] d) (ApiError ''managed-agent API returned an invalid page'')) (\<lambda>_.
       page_data ''managed-agent API returned an invalid page'' page_size d)),
     ps_next = next_page ''managed-agent API returned an invalid page token'',
     ps_id_field = ''id'', ps_invalid_item = ''managed-agent API returned an invalid item'',
     ps_invalid_id = ''managed-agent API returned an invalid item'', ps_duplicate = ''managed-agent API returned a duplicate ID'',
     ps_item_limit = ''managed-agent API exceeded its item limit'', ps_bad_cursor = ''managed-agent API returned an invalid page token'',
     ps_page_limit = ''managed-agent API exceeded its page limit''\<rparr>"

definition managed_list :: "api_codec \<Rightarrow> api_client \<Rightarrow> api_server \<Rightarrow> string \<Rightarrow> int \<Rightarrow> int \<Rightarrow> int \<Rightarrow> api_error + json dict list" where
  "managed_list cd cl server path page_size max_pages max_items =
     list_pages (managed_style page_size) 100 1000000 ''managed-agent pagination limits are invalid'' ''managed-agent max_items is invalid''
       (\<lambda>t cursor. managed_request cd cl server t ''GET'' path ((''limit'', JInt page_size) # after_param ''page'' cursor) None None) page_size max_pages max_items"

section \<open>Operations\<close>

definition create_environment :: "api_codec \<Rightarrow> api_client \<Rightarrow> api_server \<Rightarrow> environment_spec \<Rightarrow> string \<Rightarrow> api_error + managed_environment" where
  "create_environment cd cl server s key =
     bindE (client_key key) (\<lambda>k.
     bindE (managed_request cd cl server 0 ''POST'' ''/v1/environments'' [] (Some (environment_json s)) (Some k)) (read_environment cd))"

definition get_environment :: "api_codec \<Rightarrow> api_client \<Rightarrow> api_server \<Rightarrow> string \<Rightarrow> api_error + managed_environment" where
  "get_environment cd cl server environment_id =
     bindE (managed_identifier ''env_'' environment_id) (\<lambda>i.
     bindE (managed_request cd cl server 0 ''GET'' (''/v1/environments/'' @ i) [] None None) (read_environment cd))"

definition list_environments :: "api_codec \<Rightarrow> api_client \<Rightarrow> api_server \<Rightarrow> int \<Rightarrow> int \<Rightarrow> int \<Rightarrow> api_error + managed_environment list" where
  "list_environments cd cl server page_size max_pages max_items =
     bindE (managed_list cd cl server ''/v1/environments'' page_size max_pages max_items) (mapE (read_environment cd))"

definition archive_environment :: "api_codec \<Rightarrow> api_client \<Rightarrow> api_server \<Rightarrow> string \<Rightarrow> string \<Rightarrow> api_error + managed_environment" where
  "archive_environment cd cl server environment_id key =
     bindE (client_key key) (\<lambda>k.
     bindE (managed_identifier ''env_'' environment_id) (\<lambda>i.
     bindE (managed_request cd cl server 0 ''POST'' (''/v1/environments/'' @ i @ ''/archive'') [] (Some (JObj [])) (Some k)) (read_environment cd)))"

definition create_deployment :: "api_codec \<Rightarrow> api_client \<Rightarrow> api_server \<Rightarrow> deployment_spec \<Rightarrow> string \<Rightarrow> api_error + managed_deployment" where
  "create_deployment cd cl server s key =
     bindE (client_key key) (\<lambda>k.
     bindE (managed_request cd cl server 0 ''POST'' ''/v1/deployments'' [] (Some (deployment_json s)) (Some k)) (read_deployment cd))"

definition get_deployment :: "api_codec \<Rightarrow> api_client \<Rightarrow> api_server \<Rightarrow> string \<Rightarrow> api_error + managed_deployment" where
  "get_deployment cd cl server deployment_id =
     bindE (managed_identifier ''depl_'' deployment_id) (\<lambda>i.
     bindE (managed_request cd cl server 0 ''GET'' (''/v1/deployments/'' @ i) [] None None) (read_deployment cd))"

definition list_deployments :: "api_codec \<Rightarrow> api_client \<Rightarrow> api_server \<Rightarrow> int \<Rightarrow> int \<Rightarrow> int \<Rightarrow> api_error + managed_deployment list" where
  "list_deployments cd cl server page_size max_pages max_items =
     bindE (managed_list cd cl server ''/v1/deployments'' page_size max_pages max_items) (mapE (read_deployment cd))"

datatype deployment_act = Pause | Unpause | ArchiveDeployment

definition deployment_act_text :: "deployment_act \<Rightarrow> string" where
  "deployment_act_text a = (case a of Pause \<Rightarrow> ''pause'' | Unpause \<Rightarrow> ''unpause'' | ArchiveDeployment \<Rightarrow> ''archive'')"

definition deployment_action :: "api_codec \<Rightarrow> api_client \<Rightarrow> api_server \<Rightarrow> string \<Rightarrow> deployment_act \<Rightarrow> string \<Rightarrow> api_error + managed_deployment" where
  "deployment_action cd cl server deployment_id act key =
     bindE (client_key key) (\<lambda>k.
     bindE (managed_identifier ''depl_'' deployment_id) (\<lambda>i.
     bindE (managed_request cd cl server 0 ''POST'' (''/v1/deployments/'' @ i @ ''/'' @ deployment_act_text act) [] (Some (JObj [])) (Some k)) (read_deployment cd)))"

definition run_deployment :: "api_codec \<Rightarrow> api_client \<Rightarrow> api_server \<Rightarrow> string \<Rightarrow> string \<Rightarrow> api_error + deployment_run" where
  "run_deployment cd cl server deployment_id key =
     bindE (client_key key) (\<lambda>k.
     bindE (managed_identifier ''depl_'' deployment_id) (\<lambda>i.
     bindE (managed_request cd cl server 0 ''POST'' (''/v1/deployments/'' @ i @ ''/run'') [] (Some (JObj [])) (Some k)) (read_run cd)))"

section \<open>Listings\<close>

lemma next_page_given: "next_page message d raw = Inr (Some c) \<Longrightarrow> c \<noteq> []"
  by (auto simp: next_page_def dest: token_cursor_given split: if_splits)

interpretation environments: paged_listing managed_style
  by standard (auto simp: managed_style_def res_simps dest: page_data_bounded next_page_given)

section \<open>Specifications read back\<close>

lemmas member_lookups = get_or_null_def dict_get_default_def dict_has_def

lemma mapE_text_value: "mapE text_value (map JStr xs) = Inr xs"
  by (induction xs) (simp_all add: text_value_def)

lemma texts_read_back: "get_or_null d k = texts_json xs \<Longrightarrow> dict_has d k \<Longrightarrow> texts_member k d = Inr xs"
  by (auto simp: texts_member_def member_lookups texts_json_def mapE_text_value split: option.splits)

lemma metadata_read_back:
  assumes "metadata_ok m" "get_or_null d k = metadata_json m" "dict_has d k"
  shows "metadata_member k d = Inr m"
proof -
  have "mapE (\<lambda>kv. bindE (text_value (snd kv)) (\<lambda>s. Inr (fst kv, s))) (map (\<lambda>kv. (fst kv, JStr (snd kv))) m) = Inr m"
    by (induction m) (simp_all add: text_value_def)
  then show ?thesis using assms by (auto simp: metadata_member_def member_lookups metadata_json_def api_check_def split: option.splits)
qed

lemma network_read_back:
  assumes "LimitedNetwork n = Inr n" "\<And>b. cd_bool cd (JBool b) = Some b"
  shows "\<exists>d. network_json n = JObj d \<and> read_network cd d = Inr n"
proof -
  define d where "d = [(''type'', JStr ''limited''), (''allowed_hosts'', texts_json (ln_allowed_hosts n)),
     (''allow_mcp_servers'', JBool (ln_allow_mcp_servers n)), (''allow_package_managers'', JBool (ln_allow_package_managers n))]"
  have "texts_member ''allowed_hosts'' d = Inr (ln_allowed_hosts n)" by (rule texts_read_back) (simp_all add: d_def member_lookups)
  moreover have "LimitedNetwork \<lparr>ln_allowed_hosts = ln_allowed_hosts n, ln_allow_mcp_servers = ln_allow_mcp_servers n, ln_allow_package_managers = ln_allow_package_managers n\<rparr> = Inr n"
    using assms(1) by (cases n) simp
  ultimately have "read_network cd d = Inr n"
    using assms unfolding read_network_def
    by (simp add: closed_members_def literal_member_def bool_member_def member_lookups api_check_def d_def)
  then show ?thesis by (simp add: network_json_def d_def)
qed

lemma packages_read_back:
  assumes "PackageSet p = Inr p"
  shows "\<exists>d. packages_json p = JObj d \<and> read_packages d = Inr p"
proof -
  define d where "d = [(''type'', JStr ''packages''), (''apt'', texts_json (pk_apt p)), (''cargo'', texts_json (pk_cargo p)),
     (''gem'', texts_json (pk_gem p)), (''go'', texts_json (pk_go p)), (''npm'', texts_json (pk_npm p)), (''pip'', texts_json (pk_pip p))]"
  have "texts_member ''apt'' d = Inr (pk_apt p)" "texts_member ''cargo'' d = Inr (pk_cargo p)" "texts_member ''gem'' d = Inr (pk_gem p)"
      "texts_member ''go'' d = Inr (pk_go p)" "texts_member ''npm'' d = Inr (pk_npm p)" "texts_member ''pip'' d = Inr (pk_pip p)"
    by (rule texts_read_back; simp add: d_def member_lookups)+
  moreover have "PackageSet \<lparr>pk_apt = pk_apt p, pk_cargo = pk_cargo p, pk_gem = pk_gem p, pk_go = pk_go p, pk_npm = pk_npm p, pk_pip = pk_pip p\<rparr> = Inr p"
    using assms(1) by (cases p) simp
  ultimately have "read_packages d = Inr p"
    using assms unfolding read_packages_def
    by (simp add: closed_members_def literal_member_def member_lookups api_check_def d_def package_keys_def)
  then show ?thesis by (simp add: packages_json_def d_def)
qed

lemma config_read_back:
  assumes "EnvironmentConfig c = Inr c" "\<And>b. cd_bool cd (JBool b) = Some b"
  shows "\<exists>d. config_json c = JObj d \<and> read_config cd d = Inr c"
proof (cases c)
  case (CloudEnvironment n p)
  have ok: "LimitedNetwork n = Inr n" "PackageSet p = Inr p"
    using assms(1) CloudEnvironment by (auto simp: EnvironmentConfig_def LimitedNetwork_def PackageSet_def res_simps)
  obtain dn dp where d: "network_json n = JObj dn" "read_network cd dn = Inr n" "packages_json p = JObj dp" "read_packages dp = Inr p"
    using network_read_back[OF ok(1) assms(2)] packages_read_back[OF ok(2)] by blast
  then show ?thesis using CloudEnvironment
    by (simp add: config_json_def read_config_def closed_members_def member_lookups api_check_def object_field_def)
next
  case SelfHostedEnvironment
  then show ?thesis by (simp add: config_json_def read_config_def closed_members_def member_lookups api_check_def)
qed

text \<open>What the API answers when it has stored a specification as it came.\<close>

definition stored_environment :: "environment_spec \<Rightarrow> string \<Rightarrow> json \<Rightarrow> json \<Rightarrow> json dict" where
  "stored_environment s i created updated = environment_fields s @ [(''id'', JStr i), (''type'', JStr ''environment''),
     (''created_at'', created), (''updated_at'', updated), (''archived_at'', JNull)]"

text \<open>
  An API that stores an accepted specification as it came and answers with it gives the adapter back exactly
  that name, description, configuration (hosts, flags and packages), metadata and scope.
\<close>

theorem environment_read_back:
  assumes "EnvironmentSpec s = Inr s" "resource_id i" "cd_time cd created = Some t1" "cd_time cd updated = Some t2"
    "\<And>b. cd_bool cd (JBool b) = Some b"
  shows "read_environment cd (stored_environment s i created updated) = Inr \<lparr>me_id = i, me_name = es_name s, me_description = es_description s,
    me_config = es_config s, me_metadata = es_metadata s, me_scope = es_scope s, me_created_at = t1, me_updated_at = t2, me_archived_at = None\<rparr>"
proof -
  let ?d = "stored_environment s i created updated"
  have s: "text_between 1 256 (es_name s)" "length (es_description s) \<le> 4096" "EnvironmentConfig (es_config s) = Inr (es_config s)"
      "metadata_ok (es_metadata s)" "es_scope s \<in> set scope_values"
    using assms(1) by (auto simp: EnvironmentSpec_def EnvironmentConfig_def res_simps split: environment_config.splits)
  obtain dc where c: "config_json (es_config s) = JObj dc" "read_config cd dc = Inr (es_config s)" using config_read_back[OF s(3) assms(5)] by blast
  have look: "get_or_null ?d ''id'' = JStr i" "get_or_null ?d ''type'' = JStr ''environment''" "get_or_null ?d ''name'' = JStr (es_name s)"
      "get_or_null ?d ''description'' = JStr (es_description s)" "get_or_null ?d ''config'' = JObj dc" "get_or_null ?d ''metadata'' = metadata_json (es_metadata s)"
      "get_or_null ?d ''created_at'' = created" "get_or_null ?d ''updated_at'' = updated" "get_or_null ?d ''archived_at'' = JNull" "dict_has ?d ''metadata''"
    by (simp_all add: stored_environment_def environment_fields_def member_lookups c(1) split: option.split)
  have closed: "closed_members environment_members [''scope''] ?d = Inr ()"
    by (simp add: closed_members_def environment_members_def stored_environment_def environment_fields_def member_lookups api_check_def split: option.split)
  have scope: "scope_member ?d = Inr (es_scope s)"
    using s(5) by (auto simp: scope_member_def scope_values_def stored_environment_def environment_fields_def member_lookups)
  show ?thesis
    unfolding read_environment_def
    using s assms(2-4) closed scope c(2) metadata_read_back[OF s(4) look(6,10)]
    by (simp add: look text_field_def object_field_def time_member_def optional_time_member_def sanitized_def)
qed

definition demo_environment_spec :: environment_spec where
  "demo_environment_spec = \<lparr>es_name = ''e'', es_description = [],
     es_config = CloudEnvironment \<lparr>ln_allowed_hosts = [''*.example.com''], ln_allow_mcp_servers = True, ln_allow_package_managers = False\<rparr>
       \<lparr>pk_apt = [''git''], pk_cargo = [], pk_gem = [], pk_go = [], pk_npm = [], pk_pip = []\<rparr>,
     es_metadata = [(''team'', ''a'')], es_scope = None\<rparr>"

lemma demo_environment_accepted: "EnvironmentSpec demo_environment_spec = Inr demo_environment_spec" "resource_id ''env_1''"
  by code_simp+

theorem environment_read_back_witness:
  "returns (read_environment demo_api_codec (stored_environment demo_environment_spec ''env_1'' (JStr ''2026-01-01T00:00:00Z'') (JStr ''2026-01-01T00:00:00Z'')))"
proof -
  have t: "cd_time demo_api_codec (JStr ''2026-01-01T00:00:00Z'') = Some \<lparr>dt_instant = 0, dt_offset = Some 0\<rparr>" by (simp add: demo_api_codec_def)
  have b: "cd_bool demo_api_codec (JBool b) = Some b" for b by (simp add: demo_api_codec_def)
  show ?thesis using environment_read_back[OF demo_environment_accepted t t b] by simp
qed

end
