(* ===== verification/MemoryApi.thy ===== *)
theory MemoryApi
  imports ManagedApi
begin

text \<open>
  The client of the memory stores, outcomes and dreams of the managed agents (\<open>zeaz_enterprise/agent_memory.py\<close>).
\<close>

section \<open>Specifications\<close>

record memory_store_spec =
  mt_name :: string
  mt_description :: string
  mt_metadata :: "string dict"

definition MemoryStoreSpec :: "memory_store_spec \<Rightarrow> api_error + memory_store_spec" where
  "MemoryStoreSpec s =
     bindE (api_check (text_between 1 255 (mt_name s) \<and> length (mt_description s) \<le> 1024 \<and> metadata_ok (mt_metadata s)) (ApiValueError ''memory store'')) (\<lambda>_. Inr s)"

definition store_spec_json :: "memory_store_spec \<Rightarrow> json" where
  "store_spec_json s = JObj [(''name'', JStr (mt_name s)), (''description'', JStr (mt_description s)), (''metadata'', metadata_json (mt_metadata s))]"

datatype rubric = TextRubric string | FileRubric string

definition Rubric :: "rubric \<Rightarrow> api_error + rubric" where
  "Rubric r = bindE (api_check (case r of TextRubric s \<Rightarrow> text_between 1 262144 s | FileRubric i \<Rightarrow> resource_id i) (ApiValueError ''rubric'')) (\<lambda>_. Inr r)"

definition rubric_json :: "rubric \<Rightarrow> json" where
  "rubric_json r = (case r of
     TextRubric s \<Rightarrow> JObj [(''type'', JStr ''text''), (''content'', JStr s)] | FileRubric i \<Rightarrow> JObj [(''type'', JStr ''file''), (''file_id'', JStr i)])"

record outcome_spec =
  ot_description :: string
  ot_rubric :: rubric
  ot_max_iterations :: int

definition OutcomeSpec :: "outcome_spec \<Rightarrow> api_error + outcome_spec" where
  "OutcomeSpec s =
     bindE (api_check (text_between 1 65536 (ot_description s)) (ApiValueError ''description'')) (\<lambda>_.
     bindE (Rubric (ot_rubric s)) (\<lambda>_.
     bindE (api_check (1 \<le> ot_max_iterations s \<and> ot_max_iterations s \<le> 20) (ApiValueError ''max_iterations'')) (\<lambda>_. Inr s)))"

definition outcome_json :: "outcome_spec \<Rightarrow> json" where
  "outcome_json s = JObj [(''type'', JStr ''user.define_outcome''), (''description'', JStr (ot_description s)),
     (''rubric'', rubric_json (ot_rubric s)), (''max_iterations'', JInt (ot_max_iterations s))]"

record dream_spec =
  dp_memory_store_id :: string
  dp_session_ids :: "string list"
  dp_model :: string
  dp_instructions :: string

definition claude_model :: "string \<Rightarrow> bool" where
  "claude_model s = (starts_with ''claude-'' s \<and> text_between 1 120 (drop 7 s) \<and> list_all (\<lambda>c. az_letter c \<or> is_digit c \<or> c = CHR ''-'') (drop 7 s))"

definition DreamSpec :: "dream_spec \<Rightarrow> api_error + dream_spec" where
  "DreamSpec s =
     bindE (api_check (resource_id (dp_memory_store_id s)) (ApiValueError ''memory_store_id'')) (\<lambda>_.
     bindE (api_check (1 \<le> length (dp_session_ids s) \<and> length (dp_session_ids s) \<le> 100 \<and> list_all resource_id (dp_session_ids s)) (ApiValueError ''session_ids'')) (\<lambda>_.
     bindE (api_check (distinct (dp_session_ids s)) (ApiValueError ''dream session IDs must be unique'')) (\<lambda>_.
     bindE (api_check (claude_model (dp_model s) \<and> length (dp_instructions s) \<le> 65536) (ApiValueError ''model'')) (\<lambda>_. Inr s))))"

section \<open>Answers\<close>

record memory_store =
  ms_id :: string
  ms_name :: string
  ms_description :: string
  ms_metadata :: "string dict"
  ms_created_at :: py_datetime
  ms_updated_at :: py_datetime
  ms_archived_at :: "py_datetime option"

definition default_text :: "json dict \<Rightarrow> string \<Rightarrow> nat \<Rightarrow> api_error + string" where
  "default_text d k most = (case dict_get_default d k (JStr []) of
     JStr s \<Rightarrow> if length s \<le> most then Inr s else Inl (ApiValueError k) | _ \<Rightarrow> Inl (ApiValueError k))"

definition read_memory_store :: "api_codec \<Rightarrow> json dict \<Rightarrow> api_error + memory_store" where
  "read_memory_store cd d = sanitized ''API returned an invalid memory store''
     (bindE (closed_members [''id'', ''type'', ''name'', ''created_at'', ''updated_at''] [''description'', ''metadata'', ''archived_at''] d) (\<lambda>_.
      bindE (text_field d ''id'' resource_id) (\<lambda>i.
      bindE (text_field d ''type'' (\<lambda>s. s = ''memory_store'')) (\<lambda>_.
      bindE (text_field d ''name'' (text_between 1 255)) (\<lambda>name.
      bindE (default_text d ''description'' 1024) (\<lambda>description.
      bindE (metadata_member ''metadata'' d) (\<lambda>metadata.
      bindE (time_member cd ''created_at'' d) (\<lambda>created_at.
      bindE (time_member cd ''updated_at'' d) (\<lambda>updated_at.
      bindE (optional_time_member cd ''archived_at'' d) (\<lambda>archived_at.
      Inr \<lparr>ms_id = i, ms_name = name, ms_description = description, ms_metadata = metadata,
        ms_created_at = created_at, ms_updated_at = updated_at, ms_archived_at = archived_at\<rparr>))))))))))"

record defined_outcome =
  do_id :: string
  do_outcome_id :: string
  do_description :: string
  do_rubric :: rubric
  do_max_iterations :: "int option"
  do_processed_at :: py_datetime

definition read_rubric :: "json dict \<Rightarrow> api_error + rubric" where
  "read_rubric d = (case get_or_null d ''type'' of
     JStr s \<Rightarrow>
       if s = ''text'' then bindE (closed_members [''content''] [''type''] d) (\<lambda>_. bindE (text_field d ''content'' (\<lambda>_. True)) (\<lambda>t. Rubric (TextRubric t)))
       else if s = ''file'' then bindE (closed_members [''file_id''] [''type''] d) (\<lambda>_. bindE (text_field d ''file_id'' (\<lambda>_. True)) (\<lambda>i. Rubric (FileRubric i)))
       else Inl (ApiValueError ''rubric'')
   | _ \<Rightarrow> Inl (ApiValueError ''rubric''))"

definition bounded_int :: "api_codec \<Rightarrow> int \<Rightarrow> int \<Rightarrow> json \<Rightarrow> api_error + int option" where
  "bounded_int cd lo hi v = (if v = JNull then Inr None
     else (case cd_int cd v of None \<Rightarrow> Inl (ApiValueError ''int'') | Some n \<Rightarrow> if lo \<le> n \<and> n \<le> hi then Inr (Some n) else Inl (ApiValueError ''int'')))"

definition read_outcome :: "api_codec \<Rightarrow> json \<Rightarrow> api_error + defined_outcome" where
  "read_outcome cd v = sanitized ''API returned an invalid outcome'' (case v of
     JObj d \<Rightarrow>
       bindE (closed_members [''id'', ''type'', ''outcome_id'', ''description'', ''rubric'', ''max_iterations'', ''processed_at''] [] d) (\<lambda>_.
       bindE (text_field d ''id'' resource_id) (\<lambda>i.
       bindE (text_field d ''type'' (\<lambda>s. s = ''user.define_outcome'')) (\<lambda>_.
       bindE (text_field d ''outcome_id'' resource_id) (\<lambda>outcome_id.
       bindE (text_field d ''description'' (text_between 1 65536)) (\<lambda>description.
       bindE (bindE (object_field d ''rubric'') read_rubric) (\<lambda>rubric.
       bindE (bounded_int cd 1 20 (get_or_null d ''max_iterations'')) (\<lambda>max_iterations.
       bindE (time_member cd ''processed_at'' d) (\<lambda>processed_at.
       Inr \<lparr>do_id = i, do_outcome_id = outcome_id, do_description = description, do_rubric = rubric,
         do_max_iterations = max_iterations, do_processed_at = processed_at\<rparr>))))))))
   | _ \<Rightarrow> Inl (ApiValueError ''outcome''))"

record dream =
  dm_id :: string
  dm_status :: string
  dm_memory_store_id :: string
  dm_session_ids :: "string list"
  dm_output_ids :: "string list"
  dm_dream_model :: string
  dm_instructions :: string
  dm_session_id :: "string option"
  dm_created_at :: py_datetime
  dm_ended_at :: "py_datetime option"
  dm_archived_at :: "py_datetime option"
  dm_usage :: "(string \<times> int) list"

text \<open>
  What iterating over a JSON value gives: the characters of a text, the keys of an object; a number, a truth
  value and null raise \<open>TypeError\<close>.
\<close>

definition iterate_value :: "json \<Rightarrow> api_error + json list" where
  "iterate_value v = (case v of
     JArr vs \<Rightarrow> Inr vs | JStr s \<Rightarrow> Inr (map (\<lambda>c. JStr [c]) s) | JObj d \<Rightarrow> Inr (map (\<lambda>kv. JStr (fst kv)) d)
   | _ \<Rightarrow> Inl (ApiTypeError ''not iterable''))"

text \<open>\<open>next(item for item in items if item.get("type") == kind)\<close>: only an object has \<open>get\<close>; no match is \<open>StopIteration\<close>.\<close>

fun first_of_type :: "string \<Rightarrow> json list \<Rightarrow> api_error + json dict" where
  "first_of_type kind [] = Inl (ApiValueError ''StopIteration'')"
| "first_of_type kind (v # vs) = (case v of
     JObj d \<Rightarrow> if get_or_null d ''type'' = JStr kind then Inr d else first_of_type kind vs
   | _ \<Rightarrow> Inl (ApiEscapes ''AttributeError''))"

definition required_member :: "json dict \<Rightarrow> string \<Rightarrow> api_error + json" where
  "required_member d k = (case dict_get d k of None \<Rightarrow> Inl (ApiValueError ''KeyError'') | Some v \<Rightarrow> Inr v)"

fun output_stores :: "json list \<Rightarrow> api_error + json list" where
  "output_stores [] = Inr []"
| "output_stores (v # vs) = (case v of
     JObj d \<Rightarrow>
       if get_or_null d ''type'' = JStr ''memory_store''
       then bindE (required_member d ''memory_store_id'') (\<lambda>i. bindE (output_stores vs) (\<lambda>is. Inr (i # is)))
       else output_stores vs
   | _ \<Rightarrow> Inl (ApiEscapes ''AttributeError''))"

definition id_value :: "json \<Rightarrow> api_error + string" where
  "id_value v = (case v of JStr s \<Rightarrow> if resource_id s then Inr s else Inl (ApiValueError ''id'') | _ \<Rightarrow> Inl (ApiValueError ''id''))"

definition usage_keys :: "string list" where
  "usage_keys = [''input_tokens'', ''output_tokens'', ''cache_read_input_tokens'', ''cache_creation_input_tokens'']"

definition usage_member :: "api_codec \<Rightarrow> json dict \<Rightarrow> api_error + (string \<times> int) list" where
  "usage_member cd d = (case get_or_null d ''usage'' of
     JObj u \<Rightarrow>
       bindE (api_check (length u \<le> 4 \<and> list_all (\<lambda>kv. fst kv \<in> set usage_keys) u) (ApiValueError ''usage'')) (\<lambda>_.
       mapE (\<lambda>kv. case cd_int cd (snd kv) of None \<Rightarrow> Inl (ApiValueError ''usage'')
         | Some n \<Rightarrow> if 0 \<le> n then Inr (fst kv, n) else Inl (ApiValueError ''usage'')) u)
   | _ \<Rightarrow> Inl (ApiValueError ''usage''))"

definition dream_statuses :: "string list" where
  "dream_statuses = [''pending'', ''running'', ''completed'', ''failed'', ''canceled'']"

text \<open>The members that \<open>_dream\<close> takes out of the answer, and the record that Pydantic makes of them.\<close>

definition dream_record ::
  "api_codec \<Rightarrow> json dict \<Rightarrow> json \<Rightarrow> json list \<Rightarrow> json list \<Rightarrow> json \<Rightarrow> api_error + dream" where
  "dream_record cd d memory sessions outputs model =
     bindE (text_field d ''id'' resource_id) (\<lambda>i.
     bindE (text_field d ''type'' (\<lambda>s. s = ''dream'')) (\<lambda>_.
     bindE (text_field d ''status'' (\<lambda>s. s \<in> set dream_statuses)) (\<lambda>status.
     bindE (id_value memory) (\<lambda>memory_store_id.
     bindE (mapE id_value sessions) (\<lambda>session_ids.
     bindE (mapE id_value outputs) (\<lambda>output_ids.
     bindE (case model of JStr s \<Rightarrow> if text_between 1 128 s then Inr s else Inl (ApiValueError ''model'') | _ \<Rightarrow> Inl (ApiValueError ''model'')) (\<lambda>model_name.
     bindE (text_field d ''instructions'' (\<lambda>s. length s \<le> 65536)) (\<lambda>instructions.
     bindE (optional_id_field d ''session_id'') (\<lambda>session_id.
     bindE (time_member cd ''created_at'' d) (\<lambda>created_at.
     bindE (optional_time_member cd ''ended_at'' d) (\<lambda>ended_at.
     bindE (optional_time_member cd ''archived_at'' d) (\<lambda>archived_at.
     bindE (usage_member cd d) (\<lambda>usage.
     Inr \<lparr>dm_id = i, dm_status = status, dm_memory_store_id = memory_store_id, dm_session_ids = session_ids, dm_output_ids = output_ids,
       dm_dream_model = model_name, dm_instructions = instructions, dm_session_id = session_id, dm_created_at = created_at,
       dm_ended_at = ended_at, dm_archived_at = archived_at, dm_usage = usage\<rparr>)))))))))))))"

definition read_dream :: "api_codec \<Rightarrow> json dict \<Rightarrow> api_error + dream" where
  "read_dream cd d = sanitized ''API returned an invalid dream''
     (bindE (required_member d ''inputs'') (\<lambda>inputs.
      bindE (required_member d ''outputs'') (\<lambda>outputs.
      bindE (iterate_value inputs) (\<lambda>ins.
      bindE (first_of_type ''memory_store'' ins) (\<lambda>memory.
      bindE (first_of_type ''sessions'' ins) (\<lambda>sessions.
      bindE (bindE (iterate_value outputs) output_stores) (\<lambda>output_ids.
      bindE (required_member memory ''memory_store_id'') (\<lambda>memory_store_id.
      bindE (bindE (required_member sessions ''session_ids'') iterate_value) (\<lambda>session_ids.
      bindE (bindE (required_member d ''model'') (\<lambda>m. case m of JObj x \<Rightarrow> required_member x ''id'' | _ \<Rightarrow> Inl (ApiTypeError ''model''))) (\<lambda>model.
      dream_record cd d memory_store_id session_ids output_ids model))))))))))"

section \<open>Requests\<close>

definition memory_beta :: string where
  "memory_beta = ''agent-memory-2026-07-22''"

definition dream_beta :: string where
  "dream_beta = managed_agents_beta @ '','' @ ''dreaming-2026-04-21''"

definition memory_id :: "string \<Rightarrow> string \<Rightarrow> api_error + string" where
  "memory_id p s =
     bindE (api_check (starts_with p s \<and> length s \<le> 255 \<and> drop (length p) s \<noteq> [] \<and>
       list_all (\<lambda>c. py_isalnum c \<or> c \<in> set ''_-'') (drop (length p) s)) (ApiValueError ''identifier is invalid'')) (\<lambda>_. Inr s)"

definition AnthropicAgentMemoryAdapter :: "(string \<Rightarrow> bool) \<Rightarrow> string \<Rightarrow> string \<Rightarrow> rat \<Rightarrow> int \<Rightarrow> api_error + api_client" where
  "AnthropicAgentMemoryAdapter https_origin = new_client https_origin 67108864"

definition memory_request ::
  "api_codec \<Rightarrow> api_client \<Rightarrow> api_server \<Rightarrow> nat \<Rightarrow> string \<Rightarrow> string \<Rightarrow> string \<Rightarrow> (string \<times> json) list \<Rightarrow> json option \<Rightarrow> string option \<Rightarrow> api_error + json dict" where
  "memory_request cd cl server t meth path beta params body key =
     api_object ''API'' cd (ac_max_response_bytes cl) (server t
       \<lparr>aq_method = meth, aq_url = ac_base_url cl @ path,
        aq_headers = [(''x-api-key'', ac_secret cl), (''anthropic-version'', ''2023-06-01''), (''anthropic-beta'', beta),
          (''accept'', ''application/json'')] @ (case key of None \<Rightarrow> [] | Some k \<Rightarrow> [(''idempotency-key'', k)]),
        aq_params = params, aq_json = body\<rparr>)"

definition memory_style :: "int \<Rightarrow> page_style" where
  "memory_style page_size = \<lparr>
     ps_items = (\<lambda>d. bindE (api_check (keys_are [''data'', ''next_page''] d) (ApiError ''API returned an invalid page'')) (\<lambda>_.
       page_data ''API returned an invalid page'' page_size d)),
     ps_next = next_page ''API returned an invalid page token'',
     ps_id_field = ''id'', ps_invalid_item = ''API returned an invalid item'',
     ps_invalid_id = ''API returned an invalid item'', ps_duplicate = ''API returned a duplicate ID'',
     ps_item_limit = ''API exceeded its item limit'', ps_bad_cursor = ''API returned an invalid page token'',
     ps_page_limit = ''API exceeded its page limit''\<rparr>"

definition memory_pages :: "api_codec \<Rightarrow> api_client \<Rightarrow> api_server \<Rightarrow> string \<Rightarrow> string \<Rightarrow> int \<Rightarrow> int \<Rightarrow> int \<Rightarrow> api_error + json dict list" where
  "memory_pages cd cl server path beta page_size max_pages max_items =
     list_pages (memory_style page_size) 100 1000000 ''pagination limits are invalid'' ''max_items is invalid''
       (\<lambda>t cursor. memory_request cd cl server t ''GET'' path beta ((''limit'', JInt page_size) # after_param ''page'' cursor) None None) page_size max_pages max_items"

section \<open>Operations\<close>

definition create_memory_store :: "api_codec \<Rightarrow> api_client \<Rightarrow> api_server \<Rightarrow> memory_store_spec \<Rightarrow> string \<Rightarrow> api_error + memory_store" where
  "create_memory_store cd cl server s key =
     bindE (client_key key) (\<lambda>k.
     bindE (memory_request cd cl server 0 ''POST'' ''/v1/memory_stores'' memory_beta [] (Some (store_spec_json s)) (Some k)) (read_memory_store cd))"

definition get_memory_store :: "api_codec \<Rightarrow> api_client \<Rightarrow> api_server \<Rightarrow> string \<Rightarrow> api_error + memory_store" where
  "get_memory_store cd cl server store_id =
     bindE (memory_id ''memstore_'' store_id) (\<lambda>i.
     bindE (memory_request cd cl server 0 ''GET'' (''/v1/memory_stores/'' @ i) memory_beta [] None None) (read_memory_store cd))"

definition list_memory_stores :: "api_codec \<Rightarrow> api_client \<Rightarrow> api_server \<Rightarrow> int \<Rightarrow> int \<Rightarrow> int \<Rightarrow> api_error + memory_store list" where
  "list_memory_stores cd cl server page_size max_pages max_items =
     bindE (memory_pages cd cl server ''/v1/memory_stores'' memory_beta page_size max_pages max_items) (mapE (read_memory_store cd))"

definition archive_memory_store :: "api_codec \<Rightarrow> api_client \<Rightarrow> api_server \<Rightarrow> string \<Rightarrow> string \<Rightarrow> api_error + memory_store" where
  "archive_memory_store cd cl server store_id key =
     bindE (memory_id ''memstore_'' store_id) (\<lambda>i.
     bindE (client_key key) (\<lambda>k.
     bindE (memory_request cd cl server 0 ''POST'' (''/v1/memory_stores/'' @ i @ ''/archive'') memory_beta [] (Some (JObj [])) (Some k)) (read_memory_store cd)))"

definition define_outcome :: "api_codec \<Rightarrow> api_client \<Rightarrow> api_server \<Rightarrow> string \<Rightarrow> outcome_spec \<Rightarrow> string \<Rightarrow> api_error + defined_outcome" where
  "define_outcome cd cl server session_id s key =
     bindE (memory_id ''session_'' session_id) (\<lambda>i.
     bindE (client_key key) (\<lambda>k.
     bindE (memory_request cd cl server 0 ''POST'' (''/v1/sessions/'' @ i @ ''/events'') managed_agents_beta []
       (Some (JObj [(''events'', JArr [outcome_json s])])) (Some k)) (\<lambda>d.
     case get_or_null d ''data'' of
       JArr [v] \<Rightarrow> if keys_are [''data''] d then read_outcome cd v else Inl (ApiError ''outcome API returned an invalid response'')
     | _ \<Rightarrow> Inl (ApiError ''outcome API returned an invalid response''))))"

definition dream_body :: "dream_spec \<Rightarrow> api_error + json" where
  "dream_body s =
     bindE (memory_id ''memstore_'' (dp_memory_store_id s)) (\<lambda>store.
     bindE (mapE (memory_id ''session_'') (dp_session_ids s)) (\<lambda>sessions.
     Inr (JObj [(''inputs'', JArr [JObj [(''type'', JStr ''memory_store''), (''memory_store_id'', JStr store)],
         JObj [(''type'', JStr ''sessions''), (''session_ids'', texts_json sessions)]]),
       (''model'', JStr (dp_model s)), (''instructions'', JStr (dp_instructions s))])))"

definition create_dream :: "api_codec \<Rightarrow> api_client \<Rightarrow> api_server \<Rightarrow> dream_spec \<Rightarrow> string \<Rightarrow> api_error + dream" where
  "create_dream cd cl server s key =
     bindE (dream_body s) (\<lambda>body.
     bindE (client_key key) (\<lambda>k.
     bindE (memory_request cd cl server 0 ''POST'' ''/v1/dreams'' dream_beta [] (Some body) (Some k)) (read_dream cd)))"

definition get_dream :: "api_codec \<Rightarrow> api_client \<Rightarrow> api_server \<Rightarrow> string \<Rightarrow> api_error + dream" where
  "get_dream cd cl server dream_id =
     bindE (memory_id ''drm_'' dream_id) (\<lambda>i.
     bindE (memory_request cd cl server 0 ''GET'' (''/v1/dreams/'' @ i) dream_beta [] None None) (read_dream cd))"

definition list_dreams :: "api_codec \<Rightarrow> api_client \<Rightarrow> api_server \<Rightarrow> int \<Rightarrow> int \<Rightarrow> int \<Rightarrow> api_error + dream list" where
  "list_dreams cd cl server page_size max_pages max_items =
     bindE (memory_pages cd cl server ''/v1/dreams'' dream_beta page_size max_pages max_items) (mapE (read_dream cd))"

datatype dream_act = CancelDream | ArchiveDream

definition dream_act_text :: "dream_act \<Rightarrow> string" where
  "dream_act_text a = (case a of CancelDream \<Rightarrow> ''cancel'' | ArchiveDream \<Rightarrow> ''archive'')"

definition dream_action :: "api_codec \<Rightarrow> api_client \<Rightarrow> api_server \<Rightarrow> string \<Rightarrow> dream_act \<Rightarrow> string \<Rightarrow> api_error + dream" where
  "dream_action cd cl server dream_id act key =
     bindE (memory_id ''drm_'' dream_id) (\<lambda>i.
     bindE (client_key key) (\<lambda>k.
     bindE (memory_request cd cl server 0 ''POST'' (''/v1/dreams/'' @ i @ ''/'' @ dream_act_text act) dream_beta [] (Some (JObj [])) (Some k)) (read_dream cd)))"

section \<open>Listings\<close>

interpretation memory_stores: paged_listing memory_style
  by standard (auto simp: memory_style_def res_simps dest: page_data_bounded next_page_given)

section \<open>What escapes\<close>

lemma sanitized_escape: "sanitized message r = Inl (ApiEscapes e) \<longleftrightarrow> r = Inl (ApiEscapes e)"
  by (auto simp: sanitized_def split: sum.splits api_error.splits)

text \<open>
  An answer whose list of inputs begins with anything but an object ends the call with an \<open>AttributeError\<close>
  that the adapter does not turn into its own error.
\<close>

theorem dream_answer_escapes:
  assumes "dict_get d ''inputs'' = Some (JArr (v # vs))" "dict_has d ''outputs''" "\<And>x. v \<noteq> JObj x"
    "memory_id ''drm_'' dream_id = Inr i" "memory_request cd cl server 0 ''GET'' (''/v1/dreams/'' @ i) dream_beta [] None None = Inr d"
  shows "get_dream cd cl server dream_id = Inl (ApiEscapes ''AttributeError'')"
proof -
  have "read_dream cd d = Inl (ApiEscapes ''AttributeError'')"
    using assms(1-3) unfolding read_dream_def sanitized_escape
    by (cases v) (auto simp: required_member_def dict_has_def dict_get_def iterate_value_def)
  then show ?thesis using assms(4,5) by (simp add: get_dream_def)
qed

definition demo_memory_client :: api_client where
  "demo_memory_client = \<lparr>ac_base_url = ''https://api.anthropic.com'', ac_secret = ''k'', ac_max_response_bytes = 8388608\<rparr>"

definition demo_bad_dream :: "json dict" where
  "demo_bad_dream = [(''inputs'', JArr [JNull]), (''outputs'', JArr [])]"

definition demo_dream_server :: api_server where
  "demo_dream_server t q = Answered False 200 [json_dumps (JObj demo_bad_dream)] False"

lemma demo_dream_request:
  "memory_request demo_api_codec demo_memory_client demo_dream_server 0 ''GET'' (''/v1/dreams/'' @ ''drm_1'') dream_beta [] None None = Inr demo_bad_dream"
  "memory_id ''drm_'' ''drm_1'' = Inr ''drm_1''"
  by code_simp+

theorem dream_answer_escapes_witness:
  "get_dream demo_api_codec demo_memory_client demo_dream_server ''drm_1'' = Inl (ApiEscapes ''AttributeError'')"
  by (rule dream_answer_escapes[where v = JNull and vs = "[]", OF _ _ _ demo_dream_request(2,1)]) (simp_all add: demo_bad_dream_def dict_get_def dict_has_def)

text \<open>An answer whose inputs and outputs are lists of objects is a dream or the adapter's error.\<close>

theorem dream_of_objects_sanitized:
  assumes "dict_get d ''inputs'' = Some (JArr (map JObj ins))" "dict_get d ''outputs'' = Some (JArr (map JObj outs))"
  shows "\<nexists>e. read_dream cd d = Inl (ApiEscapes e)"
proof -
  have first: "first_of_type kind (map JObj xs) \<noteq> Inl (ApiEscapes e)" for kind xs e by (induction xs) auto
  have outputs: "output_stores (map JObj xs) \<noteq> Inl (ApiEscapes e)" for xs e
    by (induction xs arbitrary: e) (auto simp: res_simps required_member_def split: option.splits)
  have ids: "mapE id_value vs \<noteq> Inl (ApiEscapes e)" for vs e
    by (induction vs) (auto simp: res_simps id_value_def split: json.splits if_splits)
  have counts: "mapE (\<lambda>kv. case cd_int cd (snd kv) of None \<Rightarrow> Inl (ApiValueError ''usage'')
      | Some n \<Rightarrow> if 0 \<le> n then Inr (fst kv, n) else Inl (ApiValueError ''usage'')) u \<noteq> Inl (ApiEscapes e)" for u :: "json dict" and e
    by (induction u) (auto simp: res_simps split: option.splits if_splits)
  have usage: "usage_member cd d \<noteq> Inl (ApiEscapes e)" for e
    using counts by (auto simp: usage_member_def res_simps split: json.splits)
  have times: "time_member cd k d \<noteq> Inl (ApiEscapes e)" "optional_time_member cd k d \<noteq> Inl (ApiEscapes e)" for k e
    by (auto simp: time_member_def optional_time_member_def res_simps split: option.splits if_splits)
  have fields: "text_field d k ok \<noteq> Inl (ApiEscapes e)" "optional_id_field d k \<noteq> Inl (ApiEscapes e)" "id_value v \<noteq> Inl (ApiEscapes e)" for k ok e v
    by (auto simp: text_field_def optional_id_field_def id_value_def res_simps split: json.splits if_splits)
  have built: "dream_record cd d m ss os v \<noteq> Inl (ApiEscapes e)" for m ss os v e
    unfolding dream_record_def bindE_eq_Inl using ids usage times fields by (auto split: json.splits if_splits)
  have more: "required_member x k \<noteq> Inl (ApiEscapes e)" "iterate_value v \<noteq> Inl (ApiEscapes e)" for x k v e
    by (auto simp: required_member_def iterate_value_def split: option.splits json.splits)
  show ?thesis
    unfolding read_dream_def sanitized_escape bindE_eq_Inl bindE_eq_Inr
    using assms first outputs built more by (auto simp: required_member_def iterate_value_def split: json.splits option.splits)
qed

end
