(* ===== verification/WifExchange.thy ===== *)
theory WifExchange
  imports PagedApi
begin

text \<open>
  The exchange of workload identities for short-lived tokens (\<open>zeaz_enterprise/wif.py\<close>): the checked exchange
  itself, and the cache with its lock as a state machine of the tasks that call \<open>credential\<close>, in any
  interleaving, with cancellation and \<open>aclose\<close> in between. The token provider and the HTTP library are arguments.
\<close>

section \<open>Configuration\<close>

definition tagged_id :: "string \<Rightarrow> nat \<Rightarrow> string \<Rightarrow> bool" where
  "tagged_id tag most s = (starts_with tag s \<and> text_between 1 most (drop (length tag) s) \<and>
     list_all (\<lambda>c. ascii_alnum c \<or> c \<in> set ''_-'') (drop (length tag) s))"

record wif_config =
  wc_federation_rule_id :: string
  wc_organization_id :: string
  wc_service_account_id :: string
  wc_workspace_id :: "string option"

definition AnthropicWIFConfig :: "wif_config \<Rightarrow> api_error + wif_config" where
  "AnthropicWIFConfig c =
     bindE (api_check (tagged_id ''fdrl_'' 248 (wc_federation_rule_id c)) (ApiValueError ''federation_rule_id'')) (\<lambda>_.
     bindE (api_check (tagged_id ''svac_'' 248 (wc_service_account_id c)) (ApiValueError ''service_account_id'')) (\<lambda>_.
     bindE (api_check (case wc_workspace_id c of None \<Rightarrow> True | Some w \<Rightarrow> tagged_id ''wrkspc_'' 246 w \<or> w = ''default'') (ApiValueError ''workspace_id'')) (\<lambda>_.
     Inr c)))"

record wif_client =
  wi_config :: wif_config
  wi_base_url :: string
  wi_max_response_bytes :: int
  wi_max_assertion_bytes :: int
  wi_refresh_margin :: int

definition AnthropicWIFExchange :: "(string \<Rightarrow> bool) \<Rightarrow> wif_config \<Rightarrow> string \<Rightarrow> rat \<Rightarrow> int \<Rightarrow> int \<Rightarrow> int \<Rightarrow> api_error + wif_client" where
  "AnthropicWIFExchange https_origin config base_url timeout_seconds max_response_bytes max_assertion_bytes refresh_margin_seconds =
     bindE (api_check (https_origin base_url) (ApiValueError ''base_url must be a credential-free HTTPS origin'')) (\<lambda>_.
     bindE (api_check (0 < timeout_seconds \<and> timeout_seconds \<le> 300) (ApiValueError ''timeout_seconds must be between 0 and 300'')) (\<lambda>_.
     bindE (api_check (1024 \<le> max_response_bytes \<and> max_response_bytes \<le> 1048576) (ApiValueError ''max_response_bytes must be between 1 KiB and 1 MiB'')) (\<lambda>_.
     bindE (api_check (256 \<le> max_assertion_bytes \<and> max_assertion_bytes \<le> 1048576) (ApiValueError ''max_assertion_bytes must be between 256 B and 1 MiB'')) (\<lambda>_.
     bindE (api_check (0 \<le> refresh_margin_seconds \<and> refresh_margin_seconds \<le> 3600) (ApiValueError ''refresh_margin_seconds must be between 0 and 3600'')) (\<lambda>_.
     Inr \<lparr>wi_config = config, wi_base_url = rstrip_slashes base_url, wi_max_response_bytes = max_response_bytes,
       wi_max_assertion_bytes = max_assertion_bytes, wi_refresh_margin = refresh_margin_seconds\<rparr>)))))"

section \<open>One exchange\<close>

record federated_credential =
  fc_access_token :: string
  fc_scope :: string
  fc_issued_at :: py_datetime
  fc_expires_at :: py_datetime

definition authorization_header :: "federated_credential \<Rightarrow> string" where
  "authorization_header c = ''Bearer '' @ fc_access_token c"

definition scope_part :: "string \<Rightarrow> bool" where
  "scope_part s = (s \<noteq> [] \<and> az_letter (hd s) \<and> list_all (\<lambda>c. az_letter c \<or> is_digit c \<or> c \<in> set ''_-'') (tl s))"

definition oauth_scope :: "string \<Rightarrow> bool" where
  "oauth_scope s = (case split_char CHR '':'' s of [a, b] \<Rightarrow> scope_part a \<and> scope_part b | _ \<Rightarrow> False)"

definition valid_assertion :: "int \<Rightarrow> string \<Rightarrow> bool" where
  "valid_assertion most s = (\<not> (s = [] \<or> int (length (utf8_encode s)) > most \<or> length (filter (\<lambda>c. c = CHR ''.'') s) \<noteq> 2 \<or> list_ex py_space s))"

definition token_request :: "wif_client \<Rightarrow> string \<Rightarrow> api_request" where
  "token_request w assertion = \<lparr>aq_method = ''POST'', aq_url = wi_base_url w @ ''/v1/oauth/token'',
     aq_headers = [(''accept'', ''application/json''), (''content-type'', ''application/json'')], aq_params = [],
     aq_json = Some (JObj ([(''grant_type'', JStr ''urn:ietf:params:oauth:grant-type:jwt-bearer''), (''assertion'', JStr assertion),
       (''federation_rule_id'', JStr (wc_federation_rule_id (wi_config w))), (''organization_id'', JStr (wc_organization_id (wi_config w))),
       (''service_account_id'', JStr (wc_service_account_id (wi_config w)))] @
       (case wc_workspace_id (wi_config w) of None \<Rightarrow> [] | Some x \<Rightarrow> [(''workspace_id'', JStr x)])))\<rparr>"

text \<open>The provider raises (None), or gives a \<open>SecretStr\<close> or something else.\<close>

datatype provided_token = ProviderFails | NotASecret | Secret string

definition read_credential :: "py_datetime \<Rightarrow> json dict \<Rightarrow> api_error + federated_credential \<times> int" where
  "read_credential issued_at d = sanitized ''token exchange returned an invalid response''
     (bindE (api_check (keys_are [''access_token'', ''token_type'', ''expires_in'', ''scope''] d) (ApiValueError [])) (\<lambda>_.
      bindE (text_field d ''access_token'' (\<lambda>t. starts_with ''sk-ant-oat01-'' t \<and> length t \<le> 8192)) (\<lambda>token.
      bindE (case get_or_null d ''expires_in'' of JInt n \<Rightarrow> if 1 \<le> n \<and> n \<le> 86400 then Inr n else Inl (ApiValueError []) | _ \<Rightarrow> Inl (ApiValueError [])) (\<lambda>expires_in.
      bindE (api_check (has_timezone issued_at) (ApiValueError [])) (\<lambda>_.
      bindE (text_field d ''token_type'' (\<lambda>s. s = ''Bearer'')) (\<lambda>_.
      bindE (text_field d ''scope'' oauth_scope) (\<lambda>scope.
      Inr (\<lparr>fc_access_token = token, fc_scope = scope, fc_issued_at = issued_at,
        fc_expires_at = issued_at\<lparr>dt_instant := dt_instant issued_at + expires_in * 1000000\<rparr>\<rparr>, expires_in))))))))"

definition wif_exchange ::
  "api_codec \<Rightarrow> wif_client \<Rightarrow> (api_request \<Rightarrow> control_exchange) \<Rightarrow> py_datetime \<Rightarrow> provided_token \<Rightarrow> api_error + federated_credential \<times> int" where
  "wif_exchange cd w server issued_at provided = (case provided of
     ProviderFails \<Rightarrow> Inl (ApiError ''identity token provider failed'')
   | NotASecret \<Rightarrow> Inl (ApiError ''identity token provider returned an invalid token'')
   | Secret assertion \<Rightarrow>
       bindE (api_check (valid_assertion (wi_max_assertion_bytes w) assertion) (ApiError ''identity token provider returned an invalid token'')) (\<lambda>_.
       bindE (api_object ''token exchange'' cd (wi_max_response_bytes w) (server (token_request w assertion))) (\<lambda>d.
       bindE (read_credential issued_at d) (\<lambda>(credential, expires_in).
       Inr (credential, max 0 (expires_in - wi_refresh_margin w))))))"

section \<open>The cache\<close>

text \<open>
  A task waits for the lock or holds it while its exchange is under way. The log has what was returned, with the task,
  the monotonic time and whether it came from the cache; the exchanges that came back are kept with the time at which
  they did and the seconds for which they may be used.
\<close>

record wif_state =
  ws_cached :: "federated_credential option"
  ws_refresh_at :: int
  ws_waiting :: "nat list"
  ws_holder :: "nat option"
  ws_now :: int
  ws_exchanged :: "(int \<times> federated_credential \<times> int) list"
  ws_returned :: "(nat \<times> int \<times> bool \<times> federated_credential) list"

definition new_wif_state :: "wif_state \<Rightarrow> bool" where
  "new_wif_state s = (s = \<lparr>ws_cached = None, ws_refresh_at = 0, ws_waiting = [], ws_holder = None, ws_now = ws_now s, ws_exchanged = [], ws_returned = []\<rparr>)"

definition fresh_token :: "wif_state \<Rightarrow> federated_credential option" where
  "fresh_token s = (if ws_now s < ws_refresh_at s then ws_cached s else None)"

definition return_credential :: "nat \<Rightarrow> bool \<Rightarrow> federated_credential \<Rightarrow> wif_state \<Rightarrow> wif_state" where
  "return_credential t from_cache c s = s\<lparr>ws_returned := (t, ws_now s, from_cache, c) # ws_returned s\<rparr>"

text \<open>The first check of \<open>credential\<close>, outside the lock.\<close>

definition call_credential :: "nat \<Rightarrow> wif_state \<Rightarrow> wif_state" where
  "call_credential t s = (case fresh_token s of Some c \<Rightarrow> return_credential t True c s | None \<Rightarrow> s\<lparr>ws_waiting := ws_waiting s @ [t]\<rparr>)"

text \<open>The lock is free and the task takes it: the second check, and otherwise the exchange begins.\<close>

definition take_lock :: "nat \<Rightarrow> wif_state \<Rightarrow> wif_state" where
  "take_lock t s = (let s1 = s\<lparr>ws_waiting := remove1 t (ws_waiting s)\<rparr>
     in case fresh_token s of Some c \<Rightarrow> return_credential t True c s1 | None \<Rightarrow> s1\<lparr>ws_holder := Some t\<rparr>)"

definition exchange_returns :: "nat \<Rightarrow> api_error + federated_credential \<times> int \<Rightarrow> wif_state \<Rightarrow> wif_state" where
  "exchange_returns t outcome s = (case outcome of
     Inl _ \<Rightarrow> s\<lparr>ws_holder := None\<rparr>
   | Inr (c, usable) \<Rightarrow> return_credential t False c (s\<lparr>ws_cached := Some c, ws_refresh_at := ws_now s + usable, ws_holder := None,
       ws_exchanged := (ws_now s, c, usable) # ws_exchanged s\<rparr>))"

definition aclose_wif :: "wif_state \<Rightarrow> wif_state" where
  "aclose_wif s = s\<lparr>ws_cached := None, ws_refresh_at := 0\<rparr>"

definition cancel_caller :: "nat \<Rightarrow> wif_state \<Rightarrow> wif_state" where
  "cancel_caller t s = s\<lparr>ws_waiting := removeAll t (ws_waiting s), ws_holder := (if ws_holder s = Some t then None else ws_holder s)\<rparr>"

inductive wif_step :: "(api_error + federated_credential \<times> int \<Rightarrow> bool) \<Rightarrow> wif_state \<Rightarrow> wif_state \<Rightarrow> bool" for possible where
  wif_call: "t \<notin> set (ws_waiting s) \<Longrightarrow> ws_holder s \<noteq> Some t \<Longrightarrow> wif_step possible s (call_credential t s)"
| wif_lock: "t \<in> set (ws_waiting s) \<Longrightarrow> ws_holder s = None \<Longrightarrow> wif_step possible s (take_lock t s)"
| wif_came_back: "ws_holder s = Some t \<Longrightarrow> possible outcome \<Longrightarrow> wif_step possible s (exchange_returns t outcome s)"
| wif_cancel: "wif_step possible s (cancel_caller t s)"
| wif_close: "wif_step possible s (aclose_wif s)"
| wif_tick: "0 \<le> d \<Longrightarrow> wif_step possible s (s\<lparr>ws_now := ws_now s + d\<rparr>)"

text \<open>
  Every returned credential came out of an exchange: at the moment it came back, or from the cache before the seconds
  the exchange allowed have passed; what is cached came out of one, and its time to refresh is that one's.
\<close>

definition in_time_of :: "(int \<times> federated_credential \<times> int) list \<Rightarrow> int \<Rightarrow> bool \<Rightarrow> federated_credential \<Rightarrow> bool" where
  "in_time_of exchanged m from_cache c = (\<exists>m0 usable. (m0, c, usable) \<in> set exchanged \<and>
     (if from_cache then m0 \<le> m \<and> m < m0 + usable else m = m0))"

definition returned_in_time :: "wif_state \<Rightarrow> bool" where
  "returned_in_time s = (\<forall>(t, m, from_cache, c) \<in> set (ws_returned s). in_time_of (ws_exchanged s) m from_cache c)"

definition cached_came_back :: "wif_state \<Rightarrow> bool" where
  "cached_came_back s = (case ws_cached s of None \<Rightarrow> True
     | Some c \<Rightarrow> (\<exists>(m0, c0, usable) \<in> set (ws_exchanged s). c0 = c \<and> m0 \<le> ws_now s \<and> ws_refresh_at s = m0 + usable))"

definition exchanges_possible :: "(api_error + federated_credential \<times> int \<Rightarrow> bool) \<Rightarrow> wif_state \<Rightarrow> bool" where
  "exchanges_possible possible s = (\<forall>(m0, c, usable) \<in> set (ws_exchanged s). possible (Inr (c, usable)))"

definition wif_ok :: "(api_error + federated_credential \<times> int \<Rightarrow> bool) \<Rightarrow> wif_state \<Rightarrow> bool" where
  "wif_ok possible s = (returned_in_time s \<and> cached_came_back s \<and> exchanges_possible possible s \<and>
     distinct (ws_waiting s) \<and> (\<forall>t. ws_holder s = Some t \<longrightarrow> t \<notin> set (ws_waiting s)))"

lemma returned_fresh:
  assumes "wif_ok possible s" "fresh_token s = Some c"
  shows "returned_in_time (return_credential t True c s)"
proof -
  have c: "ws_cached s = Some c" "ws_now s < ws_refresh_at s" using assms(2) by (auto simp: fresh_token_def split: if_splits)
  obtain m0 usable where "(m0, c, usable) \<in> set (ws_exchanged s)" "m0 \<le> ws_now s" "ws_refresh_at s = m0 + usable"
    using assms(1) c(1) by (auto simp: wif_ok_def cached_came_back_def)
  then have "in_time_of (ws_exchanged s) (ws_now s) True c" using c(2) unfolding in_time_of_def by auto
  then show ?thesis using assms(1) unfolding wif_ok_def returned_in_time_def by (simp add: return_credential_def)
qed

lemma wif_step_ok:
  assumes "wif_step possible s t" "wif_ok possible s" "\<And>c usable. possible (Inr (c, usable)) \<Longrightarrow> 0 \<le> usable"
  shows "wif_ok possible t"
  using assms(1)
proof cases
  case (wif_call u)
  then show ?thesis using assms(2) returned_fresh[OF assms(2)]
    by (cases "fresh_token s") (auto simp: wif_ok_def call_credential_def returned_in_time_def cached_came_back_def exchanges_possible_def return_credential_def split: option.splits)
next
  case (wif_lock u)
  then show ?thesis using assms(2) returned_fresh[OF assms(2)]
    by (cases "fresh_token s") (auto simp: wif_ok_def take_lock_def Let_def returned_in_time_def cached_came_back_def exchanges_possible_def return_credential_def split: option.splits)
next
  case (wif_came_back u outcome)
  show ?thesis
  proof (cases outcome)
    case (Inl e)
    then show ?thesis using assms(2) wif_came_back
      by (auto simp: wif_ok_def exchange_returns_def returned_in_time_def cached_came_back_def exchanges_possible_def split: option.splits)
  next
    case (Inr a)
    obtain c usable where a: "a = (c, usable)" by (cases a)
    have "returned_in_time t"
      using assms(2) unfolding wif_came_back(1) Inr a
      by (auto simp: wif_ok_def returned_in_time_def exchange_returns_def return_credential_def in_time_of_def) fastforce
    moreover have "cached_came_back t" unfolding wif_came_back(1) Inr a by (simp add: exchange_returns_def return_credential_def cached_came_back_def)
    moreover have "exchanges_possible possible t"
      using assms(2) wif_came_back(3) unfolding wif_came_back(1) Inr a wif_ok_def exchanges_possible_def by (auto simp: exchange_returns_def return_credential_def)
    ultimately show ?thesis using assms(2) unfolding wif_ok_def wif_came_back(1) Inr a by (simp add: exchange_returns_def return_credential_def)
  qed
next
  case (wif_cancel u)
  then show ?thesis using assms(2)
    by (auto simp: wif_ok_def cancel_caller_def returned_in_time_def cached_came_back_def exchanges_possible_def distinct_removeAll split: option.splits)
next
  case wif_close
  then show ?thesis using assms(2)
    by (auto simp: wif_ok_def aclose_wif_def returned_in_time_def cached_came_back_def exchanges_possible_def split: option.splits)
next
  case (wif_tick d)
  have "cached_came_back t"
  proof (cases "ws_cached s")
    case (Some c)
    then obtain m0 usable where e: "(m0, c, usable) \<in> set (ws_exchanged s)" "m0 \<le> ws_now s" "ws_refresh_at s = m0 + usable"
      using assms(2) by (auto simp: wif_ok_def cached_came_back_def)
    moreover have "m0 \<le> ws_now s + d" using e(2) wif_tick(2) by simp
    ultimately show ?thesis unfolding wif_tick(1) cached_came_back_def using Some by auto
  qed (simp add: wif_tick(1) cached_came_back_def)
  then show ?thesis using assms(2) wif_tick(1) by (simp add: wif_ok_def returned_in_time_def exchanges_possible_def)
qed

text \<open>What the checked exchange of a client can return, whatever the provider, the API and the clock do.\<close>

definition wif_possible :: "api_codec \<Rightarrow> wif_client \<Rightarrow> api_error + federated_credential \<times> int \<Rightarrow> bool" where
  "wif_possible cd w outcome = (\<exists>server issued_at provided. wif_exchange cd w server issued_at provided = outcome)"

lemma read_credentialD:
  "read_credential issued_at d = Inr (c, n) \<Longrightarrow>
     starts_with ''sk-ant-oat01-'' (fc_access_token c) \<and> length (fc_access_token c) \<le> 8192 \<and> oauth_scope (fc_scope c) \<and> has_timezone (fc_issued_at c) \<and>
     map_of d ''access_token'' = Some (JStr (fc_access_token c)) \<and> map_of d ''expires_in'' = Some (JInt n) \<and>
     1 \<le> n \<and> n \<le> 86400 \<and> fc_issued_at c = issued_at \<and> dt_instant (fc_expires_at c) = dt_instant issued_at + n * 1000000"
  by (auto simp: read_credential_def res_simps text_field_def get_or_null_def dict_defs split: json.splits if_splits option.splits)

lemma wif_exchangeD:
  assumes "wif_exchange cd w server issued_at provided = Inr (c, usable)"
  shows "\<exists>assertion d n. provided = Secret assertion \<and> valid_assertion (wi_max_assertion_bytes w) assertion \<and>
    api_object ''token exchange'' cd (wi_max_response_bytes w) (server (token_request w assertion)) = Inr d \<and>
    read_credential issued_at d = Inr (c, n) \<and> usable = max 0 (n - wi_refresh_margin w)"
  using assms by (auto simp: wif_exchange_def res_simps split: provided_token.splits)

lemma wif_possible_usable: "wif_possible cd w (Inr (c, usable)) \<Longrightarrow> 0 \<le> usable"
  by (auto simp: wif_possible_def dest: wif_exchangeD)

interpretation wif_cache: invariant_machine new_wif_state "wif_step (wif_possible cd w)" "wif_ok (wif_possible cd w)" for cd w
proof
  show "new_wif_state s \<Longrightarrow> wif_ok (wif_possible cd w) s" for s
    by (cases s) (auto simp: new_wif_state_def wif_ok_def returned_in_time_def cached_came_back_def exchanges_possible_def)
  show "wif_step (wif_possible cd w) s t \<Longrightarrow> wif_ok (wif_possible cd w) s \<Longrightarrow> wif_ok (wif_possible cd w) t" for s t
    by (rule wif_step_ok) (auto intro: wif_possible_usable)
qed

section \<open>Properties\<close>

text \<open>
  C36: however the callers interleave, are cancelled or the client is closed, every credential that is returned
  is a well-formed one that an exchange of this client gave: to the task that made the exchange when it comes
  back, and to the others from the cache, after the exchange and strictly before the lifetime that its answer states
  less the margin has passed since it came back.
\<close>

theorem wif_returns_fresh_credentials:
  assumes "reaches new_wif_state (wif_step (wif_possible cd w)) s" "(t, m, from_cache, c) \<in> set (ws_returned s)"
  shows "\<exists>m0 usable server assertion d lifetime. (m0, c, usable) \<in> set (ws_exchanged s) \<and>
    wif_exchange cd w server (fc_issued_at c) (Secret assertion) = Inr (c, usable) \<and> valid_assertion (wi_max_assertion_bytes w) assertion \<and>
    api_object ''token exchange'' cd (wi_max_response_bytes w) (server (token_request w assertion)) = Inr d \<and>
    map_of d ''access_token'' = Some (JStr (fc_access_token c)) \<and> map_of d ''expires_in'' = Some (JInt lifetime) \<and>
    starts_with ''sk-ant-oat01-'' (fc_access_token c) \<and> oauth_scope (fc_scope c) \<and> 1 \<le> lifetime \<and> lifetime \<le> 86400 \<and>
    dt_instant (fc_expires_at c) = dt_instant (fc_issued_at c) + lifetime * 1000000 \<and>
    (if from_cache then m0 \<le> m \<and> m - m0 < lifetime - wi_refresh_margin w else m = m0)"
proof -
  have ok: "wif_ok (wif_possible cd w) s" by (rule wif_cache.reachable_inv[OF assms(1)])
  then obtain m0 usable where e: "(m0, c, usable) \<in> set (ws_exchanged s)" "if from_cache then m0 \<le> m \<and> m < m0 + usable else m = m0"
    using assms(2) unfolding wif_ok_def returned_in_time_def in_time_of_def by fastforce
  then have "wif_possible cd w (Inr (c, usable))" using ok unfolding wif_ok_def exchanges_possible_def by fastforce
  then obtain server issued_at provided where x: "wif_exchange cd w server issued_at provided = Inr (c, usable)" unfolding wif_possible_def by blast
  then obtain assertion d n where n: "provided = Secret assertion" "valid_assertion (wi_max_assertion_bytes w) assertion"
      "api_object ''token exchange'' cd (wi_max_response_bytes w) (server (token_request w assertion)) = Inr d"
      "read_credential issued_at d = Inr (c, n)" "usable = max 0 (n - wi_refresh_margin w)" using wif_exchangeD by blast
  note c = read_credentialD[OF n(4)]
  have "if from_cache then m0 \<le> m \<and> m - m0 < n - wi_refresh_margin w else m = m0" using e(2) n(5) by (auto split: if_splits)
  then show ?thesis using e(1) x[unfolded n(1)] n(2,3) c by (intro exI[of _ m0] exI[of _ usable] exI[of _ server] exI[of _ assertion] exI[of _ d] exI[of _ n]) simp
qed

definition demo_wif :: wif_client where
  "demo_wif = \<lparr>wi_config = \<lparr>wc_federation_rule_id = ''fdrl_a'', wc_organization_id = ''o'', wc_service_account_id = ''svac_b'', wc_workspace_id = None\<rparr>,
     wi_base_url = ''https://api.anthropic.com'', wi_max_response_bytes = 65536, wi_max_assertion_bytes = 32768, wi_refresh_margin = 30\<rparr>"

definition demo_token_answer :: json where
  "demo_token_answer = JObj [(''access_token'', JStr ''sk-ant-oat01-x''), (''token_type'', JStr ''Bearer''), (''expires_in'', JInt 60), (''scope'', JStr ''org:read'')]"

definition demo_credential :: federated_credential where
  "demo_credential = \<lparr>fc_access_token = ''sk-ant-oat01-x'', fc_scope = ''org:read'', fc_issued_at = \<lparr>dt_instant = 0, dt_offset = Some 0\<rparr>,
     fc_expires_at = \<lparr>dt_instant = 60000000, dt_offset = Some 0\<rparr>\<rparr>"

lemma demo_sts:
  "wif_exchange demo_api_codec demo_wif (\<lambda>q. Answered False 200 [json_dumps demo_token_answer] False) \<lparr>dt_instant = 0, dt_offset = Some 0\<rparr> (Secret ''a.b.c'')
     = Inr (demo_credential, 30)"
  by code_simp

definition wif_start :: wif_state where
  "wif_start = \<lparr>ws_cached = None, ws_refresh_at = 0, ws_waiting = [], ws_holder = None, ws_now = 100, ws_exchanged = [], ws_returned = []\<rparr>"

definition wif_first :: wif_state where
  "wif_first = exchange_returns 1 (Inr (demo_credential, 30)) (take_lock 1 (call_credential 1 wif_start))"

lemma wif_first_reached: "reaches new_wif_state (wif_step (wif_possible demo_api_codec demo_wif)) wif_first"
proof -
  have p: "wif_possible demo_api_codec demo_wif (Inr (demo_credential, 30))" using demo_sts unfolding wif_possible_def by blast
  have "reaches new_wif_state (wif_step (wif_possible demo_api_codec demo_wif)) wif_start"
    by (rule reaches_init) (simp add: new_wif_state_def wif_start_def)
  then have 1: "reaches new_wif_state (wif_step (wif_possible demo_api_codec demo_wif)) (call_credential 1 wif_start)"
    by (rule reaches_step) (rule wif_call, simp_all add: wif_start_def)
  have 2: "reaches new_wif_state (wif_step (wif_possible demo_api_codec demo_wif)) (take_lock 1 (call_credential 1 wif_start))"
    by (rule reaches_step[OF 1]) (rule wif_lock, simp_all add: wif_start_def call_credential_def fresh_token_def)
  show ?thesis unfolding wif_first_def
    by (rule reaches_step[OF 2], rule wif_came_back[where possible = "wif_possible demo_api_codec demo_wif", OF _ p]) (simp add: wif_start_def call_credential_def fresh_token_def take_lock_def)
qed

definition wif_second :: wif_state where
  "wif_second = call_credential 2 (wif_first\<lparr>ws_now := ws_now wif_first + 29\<rparr>)"

theorem wif_returns_fresh_credentials_witness:
  "(2, 129, True, demo_credential) \<in> set (ws_returned wif_second) \<and> (\<exists>m0 usable. (m0, demo_credential, usable) \<in> set (ws_exchanged wif_second) \<and> m0 \<le> 129)"
proof -
  have "ws_waiting wif_first = []" "ws_holder wif_first = None"
    by (simp_all add: wif_first_def wif_start_def call_credential_def fresh_token_def take_lock_def exchange_returns_def return_credential_def)
  then have "wif_step (wif_possible demo_api_codec demo_wif) (wif_first\<lparr>ws_now := ws_now wif_first + 29\<rparr>) wif_second"
    unfolding wif_second_def by (intro wif_call) simp_all
  then have "reaches new_wif_state (wif_step (wif_possible demo_api_codec demo_wif)) wif_second"
    using reaches_step[OF reaches_step[OF wif_first_reached wif_tick[of 29]]] by simp
  moreover have "(2, 129, True, demo_credential) \<in> set (ws_returned wif_second)" by code_simp
  ultimately show ?thesis using wif_returns_fresh_credentials by fastforce
qed

text \<open>
  A client that is closed while an exchange is under way has the token in its cache afterwards, and gives it to
  the next caller.
\<close>

theorem close_leaves_token:
  assumes "ws_holder s = Some t" "0 < usable"
  shows "fresh_token (exchange_returns t (Inr (c, usable)) (aclose_wif s)) = Some c"
  using assms by (simp add: fresh_token_def exchange_returns_def aclose_wif_def return_credential_def)

end
