(* ===== verification/AgentClient.thy ===== *)
theory AgentClient
  imports Normalize AgentSchemas
begin

text \<open>
  The agent's client of the gateway (\<open>zeaz_agent/client.py\<close>): the turns of a session as a request of the Responses
  API, the answer as blocks of the model, and both against the conversions of the gateway. Parameters: the HTTP
  library, the parts of the URL, how bytes are decoded, and how Pydantic reads an integer field (\<open>lax_int\<close>).
\<close>

section \<open>Errors\<close>

text \<open>The two errors of the client, a \<open>ValueError\<close> of its constructor, and a \<open>ValidationError\<close> that escapes.\<close>

datatype client_error = GatewayError string | GatewayProtocolError string | ClientValueError string | ClientValidationError

definition client_check :: "bool \<Rightarrow> client_error \<Rightarrow> client_error + unit" where
  "client_check ok e = (if ok then Inr () else Inl e)"

lemma client_check_Inr [res_simps]: "client_check ok e = Inr u \<longleftrightarrow> ok"
  by (simp add: client_check_def)

lemma client_check_simps [simp]: "client_check True e = Inr ()" "client_check False e = Inl e"
  by (simp_all add: client_check_def)

section \<open>The client\<close>

record gateway_url =
  gu_scheme :: string
  gu_hostname :: "string option"
  gu_netloc :: string
  gu_credentials :: bool
  gu_query :: string
  gu_fragment :: string

definition validate_gateway_url :: "gateway_url \<Rightarrow> client_error + unit" where
  "validate_gateway_url u =
     (let loopback = gu_hostname u \<in> {Some ''localhost'', Some ''127.0.0.1'', Some ''::1''} in
      bindE (client_check (\<not> (gu_scheme u \<noteq> ''https'' \<and> \<not> (gu_scheme u = ''http'' \<and> loopback)))
        (ClientValueError ''gateway URL must use HTTPS unless it is loopback'')) (\<lambda>_.
      client_check (\<not> (gu_credentials u \<or> gu_netloc u = [] \<or> gu_query u \<noteq> [] \<or> gu_fragment u \<noteq> []))
        (ClientValueError ''gateway URL must be an origin without credentials, query, or fragment'')))"

record gateway_client =
  zc_base_url :: string
  zc_client_key :: string
  zc_timeout :: real
  zc_max_response_bytes :: int

definition ZeazProviderClient :: "(string \<Rightarrow> gateway_url) \<Rightarrow> gateway_client \<Rightarrow> client_error + gateway_client" where
  "ZeazProviderClient urlparse c =
     bindE (validate_gateway_url (urlparse (zc_base_url c))) (\<lambda>_.
     bindE (client_check (0 < zc_timeout c \<and> zc_timeout c \<le> 600) (ClientValueError ''timeout_seconds must be between 0 and 600'')) (\<lambda>_.
     bindE (client_check (1024 \<le> zc_max_response_bytes c \<and> zc_max_response_bytes c \<le> 67108864)
       (ClientValueError ''max_response_bytes must be between 1 KiB and 64 MiB'')) (\<lambda>_.
     Inr (c\<lparr>zc_base_url := rev (dropWhile (\<lambda>d. d = CHR ''/'') (rev (zc_base_url c)))\<rparr>))))"

section \<open>Requests\<close>

definition wire_role :: "agent_role \<Rightarrow> string" where
  "wire_role r = (case r of SystemRole \<Rightarrow> ''system'' | UserRole \<Rightarrow> ''user'' | AssistantRole \<Rightarrow> ''assistant'' | ToolRole \<Rightarrow> ''tool'')"

definition image_text :: "AgentSchemas.image_source \<Rightarrow> string" where
  "image_text s = (if is_type s = ''base64'' then ''data:'' @ is_media_type s @ '';base64,'' @ is_data s else is_data s)"

text \<open>A block becomes a part of the message of its turn, or an item of its own.\<close>

definition message_part :: "agent_role \<Rightarrow> content_block \<Rightarrow> json option" where
  "message_part role b = (case b of
     TextBlock t \<Rightarrow> Some (JObj [(''type'', JStr (if role = AssistantRole then ''output_text'' else ''input_text'')), (''text'', JStr t)])
   | ImageBlock s _ \<Rightarrow> Some (JObj [(''type'', JStr ''input_image''), (''image_url'', JStr (image_text s))])
   | _ \<Rightarrow> None)"

definition own_item :: "content_block \<Rightarrow> json option" where
  "own_item b = (case b of
     ToolCallBlock c \<Rightarrow> Some (JObj [(''type'', JStr ''function_call''), (''call_id'', JStr (tc_id c)), (''name'', JStr (tc_name c)),
       (''arguments'', JStr (json_dumps (JObj (tc_arguments c))))])
   | ToolResultBlock r \<Rightarrow> Some (JObj [(''type'', JStr ''function_call_output''), (''call_id'', JStr (tr_tool_call_id r)),
       (''output'', JStr (json_dumps (tr_output r)))])
   | _ \<Rightarrow> None)"

definition turn_items :: "AgentSchemas.turn \<Rightarrow> json list" where
  "turn_items t =
     (let parts = List.map_filter (message_part (tn_role t)) (tn_content t) in
      List.map_filter own_item (tn_content t) @
      (if parts = [] then [] else [JObj [(''role'', JStr (wire_role (tn_role t))), (''content'', JArr parts)]]))"

definition turns_to_input :: "AgentSchemas.turn list \<Rightarrow> json list" where
  "turns_to_input turns = concat (map turn_items turns)"

definition tool_to_wire :: "tool_definition \<Rightarrow> json" where
  "tool_to_wire d = JObj [(''type'', JStr ''function''), (''name'', JStr (td_name d)), (''description'', JStr (td_description d)),
     (''parameters'', JObj (td_parameters d))]"

definition respond_payload :: "AgentSchemas.turn list \<Rightarrow> tool_definition list \<Rightarrow> string \<Rightarrow> int \<Rightarrow> json dict" where
  "respond_payload turns tools model maximum =
     [(''model'', JStr model), (''input'', JArr (turns_to_input turns)), (''tools'', JArr (map tool_to_wire tools)),
      (''max_output_tokens'', JInt maximum), (''stream'', JBool False), (''store'', JBool False)]"

section \<open>Answers\<close>

definition schema_error :: client_error where
  "schema_error = GatewayProtocolError ''gateway output failed schema validation''"

text \<open>\<open>TextBlock(text=...)\<close> of a part; a part of another type is passed over.\<close>

definition parse_part :: "json \<Rightarrow> client_error + content_block list" where
  "parse_part part = (case part of
     JObj d \<Rightarrow>
       (if get_or_null d ''type'' \<noteq> JStr ''output_text'' then Inr []
        else (case get_or_null d ''text'' of
            JStr t \<Rightarrow> if text_between 1 1000000 t then Inr [TextBlock t] else Inl schema_error
          | _ \<Rightarrow> Inl schema_error))
   | _ \<Rightarrow> Inr [])"

definition parse_call :: "json dict \<Rightarrow> client_error + content_block list" where
  "parse_call item = (case dict_get_default item ''arguments'' (JStr ''{}'') of
     JStr raw \<Rightarrow>
       (case json_loads raw of
          None \<Rightarrow> Inl schema_error
        | Some (JObj arguments) \<Rightarrow>
            (case (dict_get_default item ''call_id'' (get_or_null item ''id''), get_or_null item ''name'') of
               (JStr i, JStr n) \<Rightarrow> (case ToolCall i n arguments of Inr c \<Rightarrow> Inr [ToolCallBlock c] | Inl _ \<Rightarrow> Inl schema_error)
             | _ \<Rightarrow> Inl schema_error)
        | Some _ \<Rightarrow> Inl (GatewayProtocolError ''tool arguments must be a JSON object''))
   | _ \<Rightarrow> Inl schema_error)"

definition parse_item :: "json \<Rightarrow> client_error + content_block list" where
  "parse_item raw_item = (case raw_item of
     JObj item \<Rightarrow>
       (if get_or_null item ''type'' = JStr ''message'' then
          (case get_or_null item ''content'' of
             JArr parts \<Rightarrow> bindE (mapE parse_part parts) (\<lambda>bs. Inr (concat bs))
           | _ \<Rightarrow> Inl (GatewayProtocolError ''gateway message content is not an array''))
        else if get_or_null item ''type'' = JStr ''function_call'' then parse_call item
        else Inr [])
   | _ \<Rightarrow> Inl (GatewayProtocolError ''gateway output item is not an object''))"

definition parse_usage :: "(json \<Rightarrow> int option) \<Rightarrow> json dict \<Rightarrow> client_error + token_usage" where
  "parse_usage lax_int usage =
     (case (lax_int (dict_get_default usage ''input_tokens'' (JInt 0)), lax_int (dict_get_default usage ''output_tokens'' (JInt 0))) of
        (Some i, Some n) \<Rightarrow>
          (case TokenUsage i n of
             Inl _ \<Rightarrow> Inl (GatewayProtocolError ''gateway usage failed schema validation'')
           | Inr u \<Rightarrow>
               bindE (client_check (get_or_null usage ''total_tokens'' = JNull \<or> py_eq (get_or_null usage ''total_tokens'') (JInt (total_tokens u)))
                 (GatewayProtocolError ''gateway usage total is inconsistent'')) (\<lambda>_. Inr u))
      | _ \<Rightarrow> Inl (GatewayProtocolError ''gateway usage failed schema validation''))"

text \<open>The output has at most 1,024 items, but a message among them may hold many parts: \<open>ModelOutput\<close> then refuses the blocks.\<close>

definition parse_output :: "(json \<Rightarrow> int option) \<Rightarrow> json \<Rightarrow> client_error + model_output" where
  "parse_output lax_int v = (case v of
     JObj d \<Rightarrow>
       (case get_or_null d ''output'' of
          JArr items \<Rightarrow>
            bindE (client_check (dict_get_default d ''status'' (JStr ''completed'') = JStr ''completed'') (GatewayProtocolError ''gateway response is not complete'')) (\<lambda>_.
            bindE (client_check (\<not> length items > 1024) (GatewayProtocolError ''gateway response has too many output items'')) (\<lambda>_.
            bindE (mapE parse_item items) (\<lambda>bs.
            bindE (client_check (concat bs \<noteq> []) (GatewayProtocolError ''gateway response contained no supported output'')) (\<lambda>_.
            (case or_else (get_or_null d ''usage'') (JObj []) of
               JObj usage \<Rightarrow>
                 bindE (parse_usage lax_int usage) (\<lambda>u.
                 bindE (client_check (length (concat bs) \<le> 1024) ClientValidationError) (\<lambda>_.
                 Inr \<lparr>mo_blocks = concat bs, mo_usage = u\<rparr>))
             | _ \<Rightarrow> Inl (GatewayProtocolError ''gateway usage is not an object''))))))
        | _ \<Rightarrow> Inl (GatewayProtocolError ''gateway response has no output array''))
   | _ \<Rightarrow> Inl (GatewayProtocolError ''gateway response has no output array''))"

text \<open>What the HTTP library does with the request: it fails, or answers with a status and chunks that may break off.\<close>

datatype gateway_exchange = GatewayUnreachable | GatewayAnswers int "string list" bool

fun client_body :: "int \<Rightarrow> string \<Rightarrow> string list \<Rightarrow> bool \<Rightarrow> client_error + string" where
  "client_body maximum body [] broken = (if broken then Inl (GatewayError ''gateway request failed'') else Inr body)"
| "client_body maximum body (chunk # chunks) broken =
     (if int (length (body @ chunk)) > maximum then Inl (GatewayProtocolError ''gateway response exceeded the byte limit'')
      else client_body maximum (body @ chunk) chunks broken)"

record gateway_request =
  gr_url :: string
  gr_json :: "json dict"
  gr_headers :: "string dict"

definition respond_request :: "gateway_client \<Rightarrow> json dict \<Rightarrow> string \<Rightarrow> gateway_request" where
  "respond_request c payload correlation_id = \<lparr>gr_url = zc_base_url c @ ''/v1/responses'', gr_json = payload,
     gr_headers = [(''x-api-key'', zc_client_key c), (''x-request-id'', correlation_id), (''content-type'', ''application/json'')]\<rparr>"

definition read_answer :: "(string \<Rightarrow> string option) \<Rightarrow> int \<Rightarrow> gateway_exchange \<Rightarrow> client_error + json" where
  "read_answer decode maximum e = (case e of
     GatewayUnreachable \<Rightarrow> Inl (GatewayError ''gateway request failed'')
   | GatewayAnswers status chunks broken \<Rightarrow>
       bindE (client_check (\<not> (status < 200 \<or> status \<ge> 300)) (GatewayError (''gateway request failed with HTTP '' @ int_str status))) (\<lambda>_.
       bindE (client_body maximum [] chunks broken) (\<lambda>body.
       (case Option.bind (decode body) json_loads of
          None \<Rightarrow> Inl (GatewayProtocolError ''gateway returned invalid JSON'')
        | Some v \<Rightarrow> Inr v))))"

definition respond ::
  "(string \<Rightarrow> string option) \<Rightarrow> (json \<Rightarrow> int option) \<Rightarrow> (gateway_request \<Rightarrow> gateway_exchange) \<Rightarrow> gateway_client \<Rightarrow>
   AgentSchemas.turn list \<Rightarrow> tool_definition list \<Rightarrow> string \<Rightarrow> int \<Rightarrow> string \<Rightarrow> client_error + model_output" where
  "respond decode lax_int server c turns tools model maximum correlation_id =
     bindE (read_answer decode (zc_max_response_bytes c) (server (respond_request c (respond_payload turns tools model maximum) correlation_id)))
       (parse_output lax_int)"

section \<open>The conversation in the gateway\<close>

text \<open>The messages of a turn as the gateway passes them on: the calls and the results first, then the texts and images.\<close>

definition gateway_part :: "content_block \<Rightarrow> json option" where
  "gateway_part b = (case b of
     TextBlock t \<Rightarrow> Some (text_part (JStr t))
   | ImageBlock s _ \<Rightarrow> Some (image_url_part (JStr (image_text s)))
   | _ \<Rightarrow> None)"

definition gateway_item :: "content_block \<Rightarrow> json option" where
  "gateway_item b = (case b of
     ToolCallBlock c \<Rightarrow> Some (JObj [(''role'', JStr ''assistant''), (''content'', JNull),
       (''tool_calls'', JArr [Normalize.tool_call (JStr (tc_id c)) (JStr (tc_name c)) (json_dumps (JObj (tc_arguments c)))])])
   | ToolResultBlock r \<Rightarrow> Some (tool_message (JStr (tr_tool_call_id r)) (json_dumps (tr_output r)))
   | _ \<Rightarrow> None)"

definition gateway_messages :: "AgentSchemas.turn \<Rightarrow> json list" where
  "gateway_messages t =
     (let parts = List.map_filter gateway_part (tn_content t) in
      List.map_filter gateway_item (tn_content t) @
      (if parts = [] then [] else [message_of (JStr (wire_role (tn_role t))) (JArr parts)]))"

definition gateway_tool :: "tool_definition \<Rightarrow> json" where
  "gateway_tool d = JObj [(''type'', JStr ''function''), (''function'', JObj [(''name'', JStr (td_name d)),
     (''description'', JStr (td_description d)), (''parameters'', JObj (td_parameters d))])]"

section \<open>Every turn arrives\<close>

lemma mapE_append: "mapE f (xs @ ys) = bindE (mapE f xs) (\<lambda>us. bindE (mapE f ys) (\<lambda>vs. Inr (us @ vs)))"
  by (induction xs) (auto simp: bindE_def split: sum.splits)

lemma parts_read:
  "foldE responses_content_item acc (List.map_filter (message_part r) bs) = Inr (acc @ List.map_filter gateway_part bs)"
proof (induction bs arbitrary: acc)
  case (Cons b bs)
  then show ?case
    by (cases b) (auto simp: map_filter_simps message_part_def gateway_part_def responses_content_item_def image_url_part_def text_part_def get_or_null_def)
qed (simp add: map_filter_simps)

lemma parts_empty: "List.map_filter (message_part r) bs = [] \<longleftrightarrow> List.map_filter gateway_part bs = []"
  by (induction bs) (auto simp: map_filter_simps message_part_def gateway_part_def split: content_block.splits)

lemma item_read: "own_item b = Some j \<Longrightarrow> \<exists>k. responses_item j = Inr k \<and> gateway_item b = Some k"
  by (cases b) (auto simp: own_item_def gateway_item_def responses_item_def json_text_def get_or_null_def)

lemma own_item_None: "own_item b = None \<longleftrightarrow> gateway_item b = None"
  by (cases b) (simp_all add: own_item_def gateway_item_def)

lemma items_read: "mapE responses_item (List.map_filter own_item bs) = Inr (List.map_filter gateway_item bs)"
proof (induction bs)
  case (Cons b bs)
  then show ?case using item_read[of b] own_item_None[of b] by (cases "own_item b") (auto simp: map_filter_simps)
qed (simp add: map_filter_simps)

definition gateway_reads :: "AgentSchemas.turn \<Rightarrow> bool" where
  "gateway_reads t = (tn_role t = ToolRole \<longrightarrow> list_all is_result (tn_content t))"

lemma no_parts: "list_all is_result bs \<Longrightarrow> List.map_filter (message_part r) bs = []"
  by (induction bs) (auto simp: map_filter_simps message_part_def is_result_def split: content_block.splits)

lemma message_read:
  "role \<in> {''system'', ''user'', ''assistant''} \<Longrightarrow>
     responses_item (JObj [(''role'', JStr role), (''content'', JArr (List.map_filter (message_part r) bs))]) = Inr (message_of (JStr role) (JArr (List.map_filter gateway_part bs)))"
  by (auto simp: responses_item_def responses_content_to_chat_def parts_read get_or_null_def)

lemma turn_read:
  assumes "gateway_reads t"
  shows "mapE responses_item (turn_items t) = Inr (gateway_messages t)"
proof (cases "List.map_filter (message_part (tn_role t)) (tn_content t) = []")
  case True
  then show ?thesis using parts_empty[of "tn_role t" "tn_content t"] by (simp add: turn_items_def gateway_messages_def items_read Let_def)
next
  case False
  then have "tn_role t \<noteq> ToolRole" using assms no_parts unfolding gateway_reads_def by blast
  then have "wire_role (tn_role t) \<in> {''system'', ''user'', ''assistant''}" by (cases "tn_role t") (simp_all add: wire_role_def)
  note read = message_read[OF this]
  show ?thesis using False parts_empty[of "tn_role t" "tn_content t"]
    by (simp add: turn_items_def gateway_messages_def mapE_append items_read read Let_def)
qed

lemma tools_read: "foldE responses_tool acc (map tool_to_wire ds) = Inr (acc @ map gateway_tool ds)"
  by (induction ds arbitrary: acc) (simp_all add: tool_to_wire_def gateway_tool_def responses_tool_def get_or_null_def)

text \<open>
  C16: What the agent's client asks is read by the gateway completely: each turn becomes its tool calls and results, in
  order and with their arguments and outputs, then its texts and images in order under the role of the turn; the tools
  and the limit of the answer are kept. This holds for every session whose tool turns hold results only.
\<close>

theorem conversation_reaches_gateway:
  assumes "\<forall>t \<in> set turns. gateway_reads t"
  shows "responses_to_chat (respond_payload turns tools model maximum) target =
    Inr [(''model'', JStr target), (''messages'', JArr (concat (map gateway_messages turns))), (''tools'', JArr (map gateway_tool tools)),
      (''stream'', JBool False), (''max_tokens'', JInt maximum)]"
proof -
  have "mapE responses_item (turns_to_input turns) = Inr (concat (map gateway_messages turns))"
    using assms by (induction turns) (simp_all add: turns_to_input_def mapE_append turn_read)
  moreover have "copy_keys (map (\<lambda>k. (k, k)) responses_keys) (respond_payload turns tools model maximum) r = r" for r
    by (simp add: copy_keys_def responses_keys_def respond_payload_def)
  ultimately show ?thesis by (simp add: responses_to_chat_def) (simp add: respond_payload_def tools_read)
qed

text \<open>
  A tool turn may hold a text besides its result (\<open>Turn\<close> accepts it); its message has the role \<open>tool\<close>, which the
  gateway refuses, and with it the whole request.
\<close>

definition demo_tool_turn :: AgentSchemas.turn where
  "demo_tool_turn = \<lparr>tn_id = ''t1'', tn_session_id = ''s'', tn_correlation_id = ''c'', tn_sequence = 0, tn_role = ToolRole, tn_status = TurnCompleted,
     tn_content = [ToolResultBlock \<lparr>tr_tool_call_id = ''call_1'', tr_output = JNull, tr_is_error = False\<rparr>, TextBlock ''note''],
     tn_created_at = \<lparr>dt_instant = 0, dt_offset = Some 0\<rparr>\<rparr>"

theorem tool_turn_text_refused:
  "AgentSchemas.Turn demo_tool_turn = Inr demo_tool_turn \<and>
   responses_to_chat (respond_payload [demo_tool_turn] [] ''m'' 100) ''t'' = Inl (ValueError ''Responses input item is unsupported'')"
proof
  show "AgentSchemas.Turn demo_tool_turn = Inr demo_tool_turn"
    by (simp add: Turn_ok AgentSchemas.turn_ok_def demo_tool_turn_def has_timezone_def is_call_def is_result_def)
  show "responses_to_chat (respond_payload [demo_tool_turn] [] ''m'' 100) ''t'' = Inl (ValueError ''Responses input item is unsupported'')"
    by code_simp
qed

section \<open>Every answer is read\<close>

lemma parts_parsed:
  "list_all (text_between 1 1000000) ts \<Longrightarrow> mapE parse_part (map output_text_part ts) = Inr (map (\<lambda>t. [TextBlock t]) ts)"
  by (induction ts) (simp_all add: output_text_part_def parse_part_def get_or_null_def)

text \<open>A call of the provider's answer that the agent's schema accepts.\<close>

definition acceptable_call :: "string \<times> string \<times> json dict \<Rightarrow> bool" where
  "acceptable_call c = (case c of (i, n, arguments) \<Rightarrow> ToolCall i n arguments = Inr \<lparr>tc_id = i, tc_name = n, tc_arguments = arguments\<rparr> \<and> wf_json (JObj arguments))"

definition call_block :: "string \<times> string \<times> json dict \<Rightarrow> content_block" where
  "call_block c = (case c of (i, n, arguments) \<Rightarrow> ToolCallBlock \<lparr>tc_id = i, tc_name = n, tc_arguments = arguments\<rparr>)"

definition call_item :: "string \<times> string \<times> json dict \<Rightarrow> json" where
  "call_item c = (case c of (i, n, arguments) \<Rightarrow> JObj [(''id'', JStr i), (''type'', JStr ''function_call''), (''call_id'', JStr i), (''name'', JStr n),
     (''arguments'', JStr (json_dumps (JObj arguments))), (''status'', JStr ''completed'')])"

lemma calls_converted: "mapE function_call_item (map turn_call cs) = Inr (map call_item cs)"
  by (induction cs) (auto simp: turn_call_def Normalize.tool_call_def function_call_item_def call_item_def get_or_null_def or_else_def json_text_def)

lemma calls_parsed: "list_all acceptable_call cs \<Longrightarrow> mapE parse_item (map call_item cs) = Inr (map (\<lambda>c. [call_block c]) cs)"
proof (induction cs)
  case (Cons c cs)
  obtain i n a where c: "c = (i, n, a)" by (cases c) auto
  then have "parse_item (call_item c) = Inr [call_block c]"
    using Cons.prems json_loads_dumps[of "JObj a"]
    by (simp add: acceptable_call_def parse_item_def call_item_def parse_call_def call_block_def get_or_null_def)
  then show ?case using Cons by simp
qed simp

definition answered_message :: "string list \<Rightarrow> json list" where
  "answered_message ts = (if ts = [] then [] else [JObj [(''id'', JStr ''msg_zeaz''), (''type'', JStr ''message''), (''role'', JStr ''assistant''),
     (''status'', JStr ''completed''), (''content'', JArr (map output_text_part ts))]])"

lemma message_parsed:
  assumes "list_all (text_between 1 1000000) ts"
  shows "\<exists>bs. mapE parse_item (answered_message ts) = Inr bs \<and> concat bs = map TextBlock ts"
proof -
  have "concat (map (\<lambda>t. [TextBlock t]) ts) = map TextBlock ts" by (induction ts) simp_all
  then show ?thesis using parts_parsed[OF assms] by (auto simp: answered_message_def parse_item_def get_or_null_def)
qed

text \<open>A chat completion of a provider, as far as the client gets to see it.\<close>

definition chat_answer :: "json dict \<Rightarrow> string list \<Rightarrow> (string \<times> string \<times> json dict) list \<Rightarrow> json dict \<Rightarrow> bool" where
  "chat_answer response texts calls usage = (\<exists>choice message.
     first_choice response = Inr choice \<and> or_else (get_or_null choice ''message'') (JObj []) = JObj message \<and>
     chat_text_parts (get_or_null message ''content'') = Inr texts \<and>
     dict_get_default message ''tool_calls'' (JArr []) = JArr (map turn_call calls) \<and>
     or_else (get_or_null response ''usage'') (JObj []) = JObj usage)"


section \<open>Examples\<close>

definition demo_conversation :: "AgentSchemas.turn list" where
  "demo_conversation = [demo_tool_turn\<lparr>tn_role := UserRole, tn_content := [TextBlock ''add'']\<rparr>,
     demo_tool_turn\<lparr>tn_role := AssistantRole, tn_content := [TextBlock ''now'', ToolCallBlock \<lparr>tc_id = ''call_1'', tc_name = ''add'', tc_arguments = [(''x'', JInt 1)]\<rparr>]\<rparr>,
     demo_tool_turn\<lparr>tn_content := [ToolResultBlock \<lparr>tr_tool_call_id = ''call_1'', tr_output = JNull, tr_is_error = False\<rparr>]\<rparr>]"

theorem conversation_reaches_gateway_witness:
  "\<exists>q. responses_to_chat (respond_payload demo_conversation [] ''m'' 100) ''t'' = Inr q \<and>
     get_or_null q ''messages'' = JArr [message_of (JStr ''user'') (JArr [text_part (JStr ''add'')]),
       JObj [(''role'', JStr ''assistant''), (''content'', JNull), (''tool_calls'', JArr [Normalize.tool_call (JStr ''call_1'') (JStr ''add'') (json_dumps (JObj [(''x'', JInt 1)]))])],
       message_of (JStr ''assistant'') (JArr [text_part (JStr ''now'')]),
       tool_message (JStr ''call_1'') ''null'']"
proof -
  have "\<forall>t \<in> set demo_conversation. gateway_reads t" by (simp add: demo_conversation_def gateway_reads_def is_result_def)
  from conversation_reaches_gateway[OF this] show ?thesis
    by (simp add: demo_conversation_def demo_tool_turn_def gateway_messages_def gateway_part_def gateway_item_def map_filter_simps wire_role_def get_or_null_def)
qed

definition demo_completion :: "string \<Rightarrow> json dict \<Rightarrow> json dict" where
  "demo_completion t usage = [(''choices'', JArr [JObj [(''message'', JObj [(''content'', JStr t),
     (''tool_calls'', JArr [turn_call (''c1'', ''add'', [(''x'', JInt 1)])])])]]), (''usage'', JObj usage)]"

lemma demo_chat_answer: "t \<noteq> [] \<Longrightarrow> usage \<noteq> [] \<Longrightarrow> chat_answer (demo_completion t usage) [t] [(''c1'', ''add'', [(''x'', JInt 1)])] usage"
  by (simp add: chat_answer_def demo_completion_def first_choice_def get_or_null_def or_else_def chat_text_parts_def)

lemma demo_call_accepted: "acceptable_call (''c1'', ''add'', [(''x'', JInt 1)])"
proof -
  have "ToolCall ''c1'' ''add'' [(''x'', JInt 1)] = Inr \<lparr>tc_id = ''c1'', tc_name = ''add'', tc_arguments = [(''x'', JInt 1)]\<rparr>" by code_simp
  then show ?thesis by (simp add: acceptable_call_def)
qed


text \<open>The gateway passes on the total that a provider reports; if it counts more than the two numbers, the client refuses the answer.\<close>

theorem provider_total_refused:
  "\<exists>r. chat_to_responses (demo_completion ''hi'' [(''prompt_tokens'', JInt 3), (''completion_tokens'', JInt 4), (''total_tokens'', JInt 9)]) ''m'' = Inr r \<and>
     parse_output (\<lambda>v. case v of JInt i \<Rightarrow> Some i | _ \<Rightarrow> None) (JObj r) = Inl (GatewayProtocolError ''gateway usage total is inconsistent'')"
proof -
  have items: "mapE parse_item (answered_message [''hi''] @ [call_item (''c1'', ''add'', [(''x'', JInt 1)])]) = Inr [[TextBlock ''hi''], [call_block (''c1'', ''add'', [(''x'', JInt 1)])]]"
    using calls_parsed[of "[(''c1'', ''add'', [(''x'', JInt 1)])]"] demo_call_accepted parts_parsed[of "[''hi'']"]
    by (simp add: answered_message_def parse_item_def get_or_null_def text_between_def)
  show ?thesis
    using items calls_converted[of "[(''c1'', ''add'', [(''x'', JInt 1)])]"]
    by (auto simp: chat_to_responses_def demo_completion_def first_choice_def get_or_null_def or_else_def chat_text_parts_def Let_def
        nonnegative_int_def answered_message_def parse_output_def parse_usage_def TokenUsage_def total_tokens_def number_eq_def number_value_def)
qed

text \<open>An answer whose one message has more than 1,024 parts ends with a \<open>ValidationError\<close> instead of an error of the client.\<close>

theorem many_parts_escape:
  assumes "lax_int (JInt 0) = Some 0"
  shows "parse_output lax_int (JObj [(''output'', JArr (answered_message (replicate 1025 ''a'')))]) = Inl ClientValidationError"
proof -
  have "list_all (text_between 1 1000000) (replicate 1025 ''a'')" by (simp add: list_all_iff text_between_def)
  then obtain bs where bs: "mapE parse_item (answered_message (replicate 1025 ''a'')) = Inr bs" "concat bs = map TextBlock (replicate 1025 ''a'')"
    using message_parsed by blast
  have "length (answered_message (replicate 1025 ''a'')) = 1" by (simp add: answered_message_def)
  then show ?thesis using assms bs
    by (simp add: parse_output_def get_or_null_def or_else_def parse_usage_def TokenUsage_def del: concat_eq_Nil_conv Nil_eq_concat_conv)
qed

end
