(* ===== verification/SkillLoader.thy ===== *)
theory SkillLoader
  imports Plugins
begin

text \<open>
  The loader of skills (\<open>zeaz_agent/skills.py\<close>): a package is a directory with a manifest that declares every file
  with its size and digest, and a text whose local references must be declared. A directory of the file system is a
  tree; nothing else writes to it during a load. Parameters: SHA-256, how Pydantic reads a manifest, the decoding of
  UTF-8, and the check of a host in brackets. The checks of names, versions and paths are those of \<open>Plugins\<close>.
\<close>

section \<open>The file system\<close>

text \<open>A symbolic link leads to a directory or to something else; a special file is one that can be opened.\<close>

datatype node = Regular string | Directory "(string \<times> node) list" | Link bool | Special

fun node_at :: "node \<Rightarrow> string list \<Rightarrow> node option" where
  "node_at n [] = Some n"
| "node_at (Directory entries) (p # ps) = (case map_of entries p of None \<Rightarrow> None | Some n \<Rightarrow> node_at n ps)"
| "node_at _ (p # ps) = None"

text \<open>The errors of a package, and the two other exceptions that can occur.\<close>

datatype skill_error = SkillPackageError string | SkillValueError string | SkillKeyError string

definition skill_check :: "bool \<Rightarrow> skill_error \<Rightarrow> skill_error + unit" where
  "skill_check ok e = (if ok then Inr () else Inl e)"

lemma skill_check_Inr [res_simps]: "skill_check ok e = Inr u \<longleftrightarrow> ok"
  by (simp add: skill_check_def)

lemma skill_check_simps [simp]: "skill_check True e = Inr ()" "skill_check False e = Inl e"
  by (simp_all add: skill_check_def)

definition require_directory :: "node option \<Rightarrow> string \<Rightarrow> skill_error + unit" where
  "require_directory n label = (case n of
     None \<Rightarrow> Inl (SkillPackageError (label @ '' is unavailable''))
   | Some (Directory _) \<Rightarrow> Inr ()
   | Some _ \<Rightarrow> Inl (SkillPackageError (label @ '' must be a real directory'')))"

definition read_regular_file :: "node option \<Rightarrow> int \<Rightarrow> skill_error + string" where
  "read_regular_file n maximum = (case n of
     Some (Regular content) \<Rightarrow>
       bindE (skill_check (\<not> int (length content) > maximum) (SkillPackageError ''skill file exceeds its size limit'')) (\<lambda>_. Inr content)
   | Some (Directory _) \<Rightarrow> Inl (SkillPackageError ''skill resources must be regular files'')
   | Some Special \<Rightarrow> Inl (SkillPackageError ''skill resources must be regular files'')
   | _ \<Rightarrow> Inl (SkillPackageError ''unable to open skill file safely''))"

section \<open>Manifests\<close>

record skill_resource =
  sr_path :: string
  sr_size :: int
  sr_sha256 :: string

definition SkillResource :: "skill_resource \<Rightarrow> skill_resource res" where
  "SkillResource r =
     bindE (validate_resource_path (sr_path r)) (\<lambda>_.
     bindE (check (0 \<le> sr_size r \<and> sr_size r \<le> 1048576) ''size'') (\<lambda>_.
     bindE (check (hex_sha256 (sr_sha256 r)) ''sha256'') (\<lambda>_. Inr r)))"

record skill_manifest =
  sm_schema_version :: string
  sm_name :: string
  sm_version :: string
  sm_description :: string
  sm_entrypoint :: string
  sm_resources :: "skill_resource list"

definition SkillManifest :: "skill_manifest \<Rightarrow> skill_manifest res" where
  "SkillManifest m =
     bindE (check (sm_schema_version m = ''1'' \<and> plugin_name (sm_name m) \<and> semver (sm_version m)) ''name and version'') (\<lambda>_.
     bindE (check (text_between 1 4096 (sm_description m) \<and> sm_entrypoint m = ''SKILL.md'') ''description and entrypoint'') (\<lambda>_.
     bindE (check (1 \<le> length (sm_resources m) \<and> length (sm_resources m) \<le> 256) ''resources'') (\<lambda>_.
     bindE (mapE SkillResource (sm_resources m)) (\<lambda>_.
     bindE (check (distinct (map sr_path (sm_resources m))) ''skill resource paths must be unique'') (\<lambda>_.
     bindE (check (sm_entrypoint m \<in> sr_path ` set (sm_resources m)) ''skill entrypoint must be declared as a resource'') (\<lambda>_.
     Inr m))))))"

record loaded_resource =
  lr_path :: string
  lr_sha256 :: string
  lr_content :: string

record loaded_skill =
  lk_manifest :: skill_manifest
  lk_instructions :: string
  lk_resources :: "loaded_resource list"

definition skill_resource_content :: "loaded_skill \<Rightarrow> string \<Rightarrow> skill_error + string" where
  "skill_resource_content k path = (case validate_resource_path path of
     Inl _ \<Rightarrow> Inl (SkillValueError ''resource path'')
   | Inr normalized \<Rightarrow> (case find (\<lambda>r. lr_path r = normalized) (lk_resources k) of
       None \<Rightarrow> Inl (SkillKeyError normalized) | Some r \<Rightarrow> Inr (lr_content r)))"

section \<open>The inventory of a package\<close>

text \<open>The loop over the files of one directory: the paths found so far.\<close>

definition add_file :: "int \<Rightarrow> string \<Rightarrow> string list \<Rightarrow> string \<times> node \<Rightarrow> skill_error + string list" where
  "add_file maximum prefix inventory entry = (case entry of
     (_, Directory _) \<Rightarrow> Inr inventory
   | (n, x) \<Rightarrow>
       bindE (case validate_resource_path (prefix @ n) of Inl _ \<Rightarrow> Inl (SkillPackageError ''skill package contains an invalid path'') | Inr _ \<Rightarrow> Inr ()) (\<lambda>_.
       bindE (skill_check (case x of Regular _ \<Rightarrow> True | _ \<Rightarrow> False) (SkillPackageError ''skill package entries must be regular files'')) (\<lambda>_.
       let inventory' = List.insert (prefix @ n) inventory in
       bindE (skill_check (\<not> int (length inventory') > maximum) (SkillPackageError ''skill package exceeds the resource-count limit'')) (\<lambda>_.
       Inr inventory'))))"

text \<open>\<open>os.walk\<close>: a directory's links to directories, its files, then its directories.\<close>

function walk_directory :: "int \<Rightarrow> string \<Rightarrow> (string \<times> node) list \<Rightarrow> string list \<Rightarrow> skill_error + string list"
  and walk_subdirectories :: "int \<Rightarrow> string \<Rightarrow> (string \<times> node) list \<Rightarrow> string list \<Rightarrow> skill_error + string list" where
  "walk_directory maximum prefix entries inventory =
     bindE (skill_check (\<not> list_ex (\<lambda>e. snd e = Link True) entries) (SkillPackageError ''skill package directories cannot be symlinks'')) (\<lambda>_.
     bindE (foldE (add_file maximum prefix) inventory entries) (walk_subdirectories maximum prefix entries))"
| "walk_subdirectories maximum prefix [] inventory = Inr inventory"
| "walk_subdirectories maximum prefix ((n, x) # rest) inventory = (case x of
     Directory entries \<Rightarrow> bindE (walk_directory maximum (prefix @ n @ ''/'') entries inventory) (walk_subdirectories maximum prefix rest)
   | _ \<Rightarrow> walk_subdirectories maximum prefix rest inventory)"
  by pat_completeness auto
termination
  by (relation "measure (\<lambda>x. case x of Inl (_, _, es, _) \<Rightarrow> 2 * size (Directory es) + 1 | Inr (_, _, es, _) \<Rightarrow> 2 * size (Directory es))") auto

declare walk_directory.simps [simp del]

section \<open>References in the instructions\<close>

text \<open>A destination after its opening parenthesis or colon: in angle brackets, or up to what ends it.\<close>

definition link_destination :: "(char \<Rightarrow> bool) \<Rightarrow> string \<Rightarrow> (string \<times> string) option" where
  "link_destination ends u =
     (let d = takeWhile (\<lambda>c. \<not> ends c) u; plain = (if d = [] then None else Some (d, drop (length d) u)) in
      case u of
        c # v \<Rightarrow>
          (let inner = takeWhile (\<lambda>c. c \<noteq> CHR ''>'') v; w = dropWhile (\<lambda>c. c \<noteq> CHR ''>'') v in
           if c = CHR ''<'' \<and> inner \<noteq> [] \<and> w \<noteq> [] then Some (inner, tl w) else plain)
      | [] \<Rightarrow> None)"

text \<open>\<open>_INLINE_LINK\<close> at a bracket: a label, and a destination after white space.\<close>

definition inline_at :: "string \<Rightarrow> (string \<times> string) option" where
  "inline_at s = (case s of
     c # t \<Rightarrow>
       (if c = CHR ''['' \<and> starts_with ''](''  (dropWhile (\<lambda>c. c \<noteq> CHR '']'') t)
        then link_destination (\<lambda>c. py_space c \<or> c = CHR '')'') (dropWhile py_space (drop 2 (dropWhile (\<lambda>c. c \<noteq> CHR '']'') t))) else None)
   | [] \<Rightarrow> None)"

text \<open>\<open>_REFERENCE_LINK\<close> at the beginning of a line.\<close>

definition blank :: "char \<Rightarrow> bool" where
  "blank c = (c = CHR '' '' \<or> code_of c = 9)"

definition reference_at :: "string \<Rightarrow> (string \<times> string) option" where
  "reference_at s =
     (let t = dropWhile blank s in
      case t of
        c # u \<Rightarrow>
          (if length (takeWhile blank s) \<le> 3 \<and> c = CHR ''['' \<and> takeWhile (\<lambda>c. c \<noteq> CHR '']'') u \<noteq> [] \<and> starts_with '']:'' (dropWhile (\<lambda>c. c \<noteq> CHR '']'') u)
           then link_destination py_space (dropWhile blank (drop 2 (dropWhile (\<lambda>c. c \<noteq> CHR '']'') u))) else None)
      | [] \<Rightarrow> None)"

lemma dropWhile_length: "length (dropWhile P s) \<le> length s"
  by (induction s) auto

lemma link_destination_shorter: "link_destination ends u = Some (d, r) \<Longrightarrow> length r \<le> length u"
  using dropWhile_length[of "\<lambda>c. c \<noteq> CHR ''>''" "tl u"]
  by (cases u) (auto simp: link_destination_def Let_def split: if_splits)

lemma drop_dropWhile_length: "length (dropWhile Q (drop n (dropWhile P s))) \<le> length s"
  using dropWhile_length[of Q "drop n (dropWhile P s)"] dropWhile_length[of P s] by simp

lemma inline_at_shorter: "inline_at s = Some (d, r) \<Longrightarrow> length r < length s"
  using drop_dropWhile_length[of py_space 2 "\<lambda>c. c \<noteq> CHR '']''" "tl s"]
  by (cases s) (auto simp: inline_at_def split: if_splits dest!: link_destination_shorter)

lemma reference_at_shorter:
  assumes "reference_at s = Some (d, r)"
  shows "length r < length s"
proof -
  obtain c u where t: "dropWhile blank s = c # u" using assms by (cases "dropWhile blank s") (auto simp: reference_at_def)
  then have "length r \<le> length (dropWhile blank (drop 2 (dropWhile (\<lambda>c. c \<noteq> CHR '']'') u)))"
    using assms by (auto simp: reference_at_def Let_def split: if_splits dest: link_destination_shorter)
  also have "\<dots> \<le> length u" by (rule drop_dropWhile_length)
  also have "length u < length s" using dropWhile_length[of blank s] t by simp
  finally show ?thesis .
qed

function inline_links :: "string \<Rightarrow> string list" where
  "inline_links [] = []"
| "inline_links (c # cs) = (case (if c = CHR ''!'' then inline_at cs else inline_at (c # cs)) of
     Some (d, rest) \<Rightarrow> d # inline_links rest | None \<Rightarrow> inline_links cs)"
  by pat_completeness auto
termination
  by (relation "measure length") (auto split: if_splits dest!: inline_at_shorter)

function reference_links :: "bool \<Rightarrow> string \<Rightarrow> string list" where
  "reference_links line_start [] = []"
| "reference_links line_start (c # cs) = (case (if line_start then reference_at (c # cs) else None) of
     Some (d, rest) \<Rightarrow> d # reference_links False rest | None \<Rightarrow> reference_links (c = newline) cs)"
  by pat_completeness auto
termination
  by (relation "measure (\<lambda>(_, s). length s)") (auto split: if_splits dest!: reference_at_shorter)

definition destinations_of :: "string \<Rightarrow> string list" where
  "destinations_of markdown = inline_links markdown @ reference_links True markdown"

text \<open>
  \<open>urlsplit\<close>, as far as the loader looks at its result: leading control characters and spaces go, tabs and line
  breaks go everywhere; brackets of a host that do not match, or do not hold an address, are a \<open>ValueError\<close>.
\<close>

record url_parts =
  su_scheme :: string
  su_netloc :: string
  su_path :: string

definition scheme_char :: "char \<Rightarrow> bool" where
  "scheme_char c = (ascii_alnum c \<or> c \<in> set ''+-.'')"

definition split_scheme :: "string \<Rightarrow> string \<times> string" where
  "split_scheme url = (case split_once '':'' url of
     Some (a, rest) \<Rightarrow> if a \<noteq> [] \<and> ascii_alpha (hd a) \<and> list_all scheme_char a then (py_lower a, rest) else ([], url)
   | None \<Rightarrow> ([], url))"

definition urlsplit :: "(string \<Rightarrow> bool) \<Rightarrow> string \<Rightarrow> url_parts option" where
  "urlsplit bracketed_host raw =
     (let url = filter (\<lambda>c. code_of c \<notin> {9, 10, 13}) (dropWhile (\<lambda>c. code_of c \<le> 32) raw);
          (scheme, rest) = split_scheme url;
          ends = (\<lambda>c. c \<in> set ''/?#'');
          (netloc, tail) = (if starts_with ''//'' rest then (takeWhile (\<lambda>c. \<not> ends c) (drop 2 rest), dropWhile (\<lambda>c. \<not> ends c) (drop 2 rest)) else ([], rest));
          opening = CHR ''['' \<in> set netloc; closing = CHR '']'' \<in> set netloc in
      if opening \<noteq> closing \<or> (opening \<and> \<not> bracketed_host netloc) then None
      else Some \<lparr>su_scheme = scheme, su_netloc = netloc, su_path = takeWhile (\<lambda>c. c \<noteq> CHR ''?'' \<and> c \<noteq> CHR ''#'') tail\<rparr>)"

text \<open>\<open>unquote\<close>: the bytes of its result. One that is not ASCII is no path in either form.\<close>

definition hex_digit_value :: "char \<Rightarrow> nat option" where
  "hex_digit_value c = (if is_digit c then Some (code_of c - 48)
     else if 65 \<le> code_of c \<and> code_of c \<le> 70 then Some (code_of c - 55)
     else if 97 \<le> code_of c \<and> code_of c \<le> 102 then Some (code_of c - 87) else None)"

fun percent_decode :: "string \<Rightarrow> string" where
  "percent_decode (c # d # e # s) =
     (case (c = CHR ''%'', hex_digit_value d, hex_digit_value e) of
        (True, Some x, Some y) \<Rightarrow> char_of (16 * x + y) # percent_decode s
      | _ \<Rightarrow> c # percent_decode (d # e # s))"
| "percent_decode s = s"

definition check_reference :: "(string \<Rightarrow> bool) \<Rightarrow> string list \<Rightarrow> string \<Rightarrow> skill_error + unit" where
  "check_reference bracketed_host declared destination = (case urlsplit bracketed_host destination of
     None \<Rightarrow> Inl (SkillValueError ''Invalid IPv6 URL'')
   | Some u \<Rightarrow>
       if su_scheme u \<in> {''http'', ''https'', ''mailto''} \<or> starts_with ''#'' destination then Inr ()
       else if su_scheme u \<noteq> [] \<or> su_netloc u \<noteq> [] then Inl (SkillPackageError ''SKILL.md contains a forbidden resource URI'')
       else (case validate_resource_path (percent_decode (su_path u)) of
           Inl _ \<Rightarrow> Inl (SkillPackageError ''SKILL.md contains an invalid local reference'')
         | Inr local_path \<Rightarrow> skill_check (local_path \<in> set declared) (SkillPackageError ''SKILL.md references an undeclared local resource'')))"

fun each :: "('a \<Rightarrow> 'e + unit) \<Rightarrow> 'a list \<Rightarrow> 'e + unit" where
  "each f [] = Inr ()"
| "each f (x # xs) = bindE (f x) (\<lambda>_. each f xs)"

lemma each_Inr [res_simps]: "each f xs = Inr u \<longleftrightarrow> (\<forall>x \<in> set xs. f x = Inr ())"
  by (induction xs) (auto simp: res_simps)

definition validate_markdown_references :: "(string \<Rightarrow> bool) \<Rightarrow> string \<Rightarrow> string list \<Rightarrow> skill_error + unit" where
  "validate_markdown_references bracketed_host markdown declared = each (check_reference bracketed_host declared) (destinations_of markdown)"

section \<open>The loader\<close>

record skill_env =
  ke_sha256 :: "string \<Rightarrow> string"
  ke_manifest :: "string \<Rightarrow> skill_manifest option"
  ke_utf8 :: "string \<Rightarrow> string option"
  ke_bracketed_host :: "string \<Rightarrow> bool"

record skill_limits =
  kl_max_manifest_bytes :: int
  kl_max_file_bytes :: int
  kl_max_package_bytes :: int
  kl_max_resources :: int

definition LocalSkillLoader :: "node option \<Rightarrow> skill_limits \<Rightarrow> skill_error + skill_limits" where
  "LocalSkillLoader skills l =
     bindE (skill_check (1024 \<le> kl_max_manifest_bytes l \<and> kl_max_manifest_bytes l \<le> 1048576) (SkillValueError ''max_manifest_bytes'')) (\<lambda>_.
     bindE (skill_check (256 \<le> kl_max_file_bytes l \<and> kl_max_file_bytes l \<le> 16777216) (SkillValueError ''max_file_bytes'')) (\<lambda>_.
     bindE (skill_check (kl_max_file_bytes l \<le> kl_max_package_bytes l \<and> kl_max_package_bytes l \<le> 134217728) (SkillValueError ''max_package_bytes'')) (\<lambda>_.
     bindE (skill_check (1 \<le> kl_max_resources l \<and> kl_max_resources l \<le> 4096) (SkillValueError ''max_resources'')) (\<lambda>_.
     bindE (require_directory skills ''skill root'') (\<lambda>_. Inr l)))))"

text \<open>The loop over the resources: the bytes so far.\<close>

fun load_resources :: "skill_env \<Rightarrow> skill_limits \<Rightarrow> node \<Rightarrow> int \<Rightarrow> skill_resource list \<Rightarrow> skill_error + loaded_resource list" where
  "load_resources env l package so_far [] = Inr []"
| "load_resources env l package so_far (r # rs) =
     bindE (read_regular_file (node_at package (path_parts (sr_path r))) (min (kl_max_file_bytes l) (sr_size r + 1))) (\<lambda>content.
     bindE (skill_check (int (length content) = sr_size r) (SkillPackageError ''skill resource size does not match its manifest'')) (\<lambda>_.
     bindE (skill_check (ke_sha256 env content = sr_sha256 r) (SkillPackageError ''skill resource checksum does not match its manifest'')) (\<lambda>_.
     bindE (skill_check (\<not> so_far + int (length content) > kl_max_package_bytes l) (SkillPackageError ''skill package exceeds its total-size limit'')) (\<lambda>_.
     bindE (load_resources env l package (so_far + int (length content)) rs) (\<lambda>loaded.
     Inr (\<lparr>lr_path = sr_path r, lr_sha256 = ke_sha256 env content, lr_content = content\<rparr> # loaded))))))"

definition parse_skill_manifest :: "skill_env \<Rightarrow> string \<Rightarrow> skill_error + skill_manifest" where
  "parse_skill_manifest env content = (case ke_manifest env content of
     None \<Rightarrow> Inl (SkillPackageError ''skill manifest failed schema validation'')
   | Some m \<Rightarrow> (case SkillManifest m of Inl _ \<Rightarrow> Inl (SkillPackageError ''skill manifest failed schema validation'') | Inr m' \<Rightarrow> Inr m'))"

definition package_inventory :: "node \<Rightarrow> int \<Rightarrow> skill_error + string list" where
  "package_inventory package maximum = (case package of Directory entries \<Rightarrow> walk_directory maximum [] entries [] | _ \<Rightarrow> Inr [])"

definition entrypoint_content :: "string \<Rightarrow> loaded_resource list \<Rightarrow> string" where
  "entrypoint_content entrypoint loaded = (case find (\<lambda>r. lr_path r = entrypoint) loaded of Some r \<Rightarrow> lr_content r | None \<Rightarrow> [])"

definition load_skill :: "skill_env \<Rightarrow> skill_limits \<Rightarrow> node \<Rightarrow> string \<Rightarrow> skill_error + loaded_skill" where
  "load_skill env l skills name =
     bindE (skill_check (plugin_name name) (SkillPackageError ''invalid skill name'')) (\<lambda>_.
     bindE (require_directory (node_at skills [name]) ''skill package'') (\<lambda>_.
     let package = the (node_at skills [name]) in
     bindE (read_regular_file (node_at package [''skill-manifest.json'']) (kl_max_manifest_bytes l)) (\<lambda>manifest_bytes.
     bindE (parse_skill_manifest env manifest_bytes) (\<lambda>m.
     bindE (skill_check (sm_name m = name) (SkillPackageError ''skill manifest name does not match its directory'')) (\<lambda>_.
     bindE (skill_check (\<not> int (length (sm_resources m)) > kl_max_resources l) (SkillPackageError ''skill manifest exceeds the resource-count limit'')) (\<lambda>_.
     let declared = map sr_path (sm_resources m) in
     bindE (package_inventory package (kl_max_resources l + 1)) (\<lambda>inventory.
     bindE (skill_check (set inventory = insert ''skill-manifest.json'' (set declared)) (SkillPackageError ''skill package files do not exactly match its manifest'')) (\<lambda>_.
     bindE (load_resources env l package 0 (sm_resources m)) (\<lambda>loaded.
     case ke_utf8 env (entrypoint_content (sm_entrypoint m) loaded) of
       None \<Rightarrow> Inl (SkillPackageError ''SKILL.md must be valid UTF-8'')
     | Some instructions \<Rightarrow>
         bindE (skill_check (nul_char \<notin> set instructions) (SkillPackageError ''SKILL.md cannot contain NUL bytes'')) (\<lambda>_.
         bindE (validate_markdown_references (ke_bracketed_host env) instructions declared) (\<lambda>_.
         Inr \<lparr>lk_manifest = m, lk_instructions = instructions, lk_resources = loaded\<rparr>)))))))))))"

section \<open>What is loaded\<close>

text \<open>The files, links and special files of a package with their paths: those of a directory, and those below it.\<close>

definition own_leaves :: "string \<Rightarrow> (string \<times> node) list \<Rightarrow> (string \<times> node) list" where
  "own_leaves prefix entries = map (\<lambda>(n, x). (prefix @ n, x)) (filter (\<lambda>(n, x). case x of Directory _ \<Rightarrow> False | _ \<Rightarrow> True) entries)"

function leaves_below :: "string \<Rightarrow> (string \<times> node) list \<Rightarrow> (string \<times> node) list" where
  "leaves_below prefix [] = []"
| "leaves_below prefix ((n, x) # rest) =
     (case x of Directory entries \<Rightarrow> own_leaves (prefix @ n @ ''/'') entries @ leaves_below (prefix @ n @ ''/'') entries | _ \<Rightarrow> []) @ leaves_below prefix rest"
  by pat_completeness auto
termination
  by (relation "measure (\<lambda>(_, es). size (Directory es))") auto

definition leaves :: "(string \<times> node) list \<Rightarrow> (string \<times> node) list" where
  "leaves entries = own_leaves [] entries @ leaves_below [] entries"

definition all_regular :: "(string \<times> node) list \<Rightarrow> bool" where
  "all_regular xs = list_all (\<lambda>x. case snd x of Regular _ \<Rightarrow> True | _ \<Rightarrow> False) xs"

lemma all_regular_append [simp]: "all_regular (xs @ ys) \<longleftrightarrow> all_regular xs \<and> all_regular ys"
  by (simp add: all_regular_def)

lemma all_regular_Nil [simp]: "all_regular []"
  by (simp add: all_regular_def)

lemma add_file_Inr:
  "add_file maximum prefix seen (n, x) = Inr out \<Longrightarrow> set out = set seen \<union> fst ` set (own_leaves prefix [(n, x)]) \<and> all_regular (own_leaves prefix [(n, x)])"
  by (cases x) (auto simp: add_file_def own_leaves_def all_regular_def Let_def res_simps)

lemma own_leaves_Cons: "own_leaves prefix (e # es) = own_leaves prefix [e] @ own_leaves prefix es"
  by (cases e) (simp add: own_leaves_def)

lemma add_files_Inr:
  "foldE (add_file maximum prefix) seen es = Inr out \<Longrightarrow> set out = set seen \<union> fst ` set (own_leaves prefix es) \<and> all_regular (own_leaves prefix es)"
proof (induction es arbitrary: seen)
  case (Cons e es)
  obtain n x where e: "e = (n, x)" by (cases e) auto
  obtain mid where mid: "add_file maximum prefix seen (n, x) = Inr mid" "foldE (add_file maximum prefix) mid es = Inr out"
    using Cons.prems e by (auto simp: res_simps)
  show ?case using add_file_Inr[OF mid(1)] Cons.IH[OF mid(2)] own_leaves_Cons[of prefix "(n, x)" es] e by auto
qed (simp add: own_leaves_def)

lemma walk_Inr:
  "walk_directory maximum prefix es seen = Inr out \<Longrightarrow>
     set out = set seen \<union> fst ` set (own_leaves prefix es @ leaves_below prefix es) \<and> all_regular (own_leaves prefix es @ leaves_below prefix es)"
  "walk_subdirectories maximum prefix es seen = Inr out \<Longrightarrow> set out = set seen \<union> fst ` set (leaves_below prefix es) \<and> all_regular (leaves_below prefix es)"
proof (induction maximum prefix es seen and maximum prefix es seen arbitrary: out and out rule: walk_directory_walk_subdirectories.induct)
  case (1 maximum prefix entries seen)
  obtain mid where mid: "foldE (add_file maximum prefix) seen entries = Inr mid" "walk_subdirectories maximum prefix entries mid = Inr out"
      "list_ex (\<lambda>e. snd e = Link True) entries = False"
    using "1.prems" by (simp add: walk_directory.simps) (auto simp: res_simps)
  have "set out = set mid \<union> fst ` set (leaves_below prefix entries) \<and> all_regular (leaves_below prefix entries)"
    using "1.IH" mid by blast
  then show ?case using add_files_Inr[OF mid(1)] by auto
next
  case (3 maximum prefix n x rest seen)
  show ?case
  proof (cases x)
    case (Directory entries)
    then obtain mid where mid: "walk_directory maximum (prefix @ n @ ''/'') entries seen = Inr mid" "walk_subdirectories maximum prefix rest mid = Inr out"
      using "3.prems" by (auto simp: res_simps)
    note inner = "3.IH"(2)[OF Directory mid(1)] and outer = "3.IH"(3)[OF Directory mid(2)]
    show ?thesis using inner outer Directory by (auto simp del: all_regular_append) (simp_all add: all_regular_def)
  qed (use 3 in auto)
qed simp

definition loaded_as_declared :: "skill_env \<Rightarrow> node \<Rightarrow> skill_resource \<Rightarrow> loaded_resource \<Rightarrow> bool" where
  "loaded_as_declared env package d r = (lr_path r = sr_path d \<and> path_confined (sr_path d) \<and>
     node_at package (path_parts (sr_path d)) = Some (Regular (lr_content r)) \<and>
     int (length (lr_content r)) = sr_size d \<and> ke_sha256 env (lr_content r) = sr_sha256 d)"

definition loaded_bytes :: "loaded_resource list \<Rightarrow> int" where
  "loaded_bytes rs = sum_list (map (\<lambda>r. int (length (lr_content r))) rs)"

lemma read_regular_file_Inr: "read_regular_file n maximum = Inr c \<Longrightarrow> n = Some (Regular c)"
  by (auto simp: read_regular_file_def res_simps split: option.splits node.splits)

lemma load_resources_Inr:
  "load_resources env l package so_far ds = Inr rs \<Longrightarrow> \<forall>d \<in> set ds. path_confined (sr_path d) \<Longrightarrow> so_far \<le> kl_max_package_bytes l \<Longrightarrow>
     list_all2 (loaded_as_declared env package) ds rs \<and> so_far + loaded_bytes rs \<le> kl_max_package_bytes l"
proof (induction ds arbitrary: so_far rs)
  case (Cons d ds)
  obtain c rs' where step: "read_regular_file (node_at package (path_parts (sr_path d))) (min (kl_max_file_bytes l) (sr_size d + 1)) = Inr c"
      "int (length c) = sr_size d" "ke_sha256 env c = sr_sha256 d" "so_far + int (length c) \<le> kl_max_package_bytes l"
      "load_resources env l package (so_far + int (length c)) ds = Inr rs'"
      "rs = \<lparr>lr_path = sr_path d, lr_sha256 = ke_sha256 env c, lr_content = c\<rparr> # rs'"
    using Cons.prems(1) by (auto simp: res_simps not_less)
  show ?case using Cons.IH[OF step(5)] Cons.prems(2) step read_regular_file_Inr[OF step(1)]
    by (simp add: loaded_as_declared_def loaded_bytes_def algebra_simps)
qed (simp add: loaded_bytes_def)

text \<open>A reference that leads out of the package by a permitted scheme or to a place in the text, or to a declared file.\<close>

definition reference_permitted :: "(string \<Rightarrow> bool) \<Rightarrow> string set \<Rightarrow> string \<Rightarrow> bool" where
  "reference_permitted bracketed_host declared d = (case urlsplit bracketed_host d of
     None \<Rightarrow> False
   | Some u \<Rightarrow> su_scheme u \<in> {''http'', ''https'', ''mailto''} \<or> starts_with ''#'' d \<or>
       su_scheme u = [] \<and> su_netloc u = [] \<and> percent_decode (su_path u) \<in> declared)"

lemma check_reference_Inr: "check_reference bracketed_host declared d = Inr () \<Longrightarrow> reference_permitted bracketed_host (set declared) d"
  by (auto simp: check_reference_def reference_permitted_def res_simps dest: validate_resource_path_same split: option.splits if_splits sum.splits)

lemma list_all2_ex: "list_all2 P xs ys \<Longrightarrow> x \<in> set xs \<Longrightarrow> \<exists>y. P x y"
  by (induction rule: list_all2_induct) auto

lemma SkillManifest_Inr:
  assumes "SkillManifest m = Inr m'"
  shows "m' = m \<and> (\<forall>d \<in> set (sm_resources m). path_confined (sr_path d)) \<and> sm_entrypoint m = ''SKILL.md''"
proof -
  obtain ys where parts: "m' = m" "list_all2 (\<lambda>x y. SkillResource x = Inr y) (sm_resources m) ys" "sm_entrypoint m = ''SKILL.md''"
    using assms unfolding SkillManifest_def bindE_eq_Inr check_Inr mapE_eq_Inr by blast
  have "path_confined (sr_path d)" if d: "d \<in> set (sm_resources m)" for d
  proof -
    obtain y where "SkillResource d = Inr y" using list_all2_ex[OF parts(2) d] by blast
    then show ?thesis using resource_path_confined by (auto simp: SkillResource_def res_simps)
  qed
  then show ?thesis using parts by blast
qed

text \<open>
  C18: A skill that is loaded has exactly the declared files besides its manifest, all of them regular and none reached
  by a link; each resource is the content of the file at its path, with the declared size and digest, and no path leaves
  the package; together they are within the limit; and every link of the instructions goes to the web, to a place in
  the text, or to a declared file.
\<close>

theorem skill_loaded_exact:
  assumes "load_skill env l skills name = Inr k" "0 \<le> kl_max_package_bytes l"
  shows "\<exists>entries. node_at skills [name] = Some (Directory entries) \<and> sm_name (lk_manifest k) = name \<and>
    all_regular (leaves entries) \<and>
    fst ` set (leaves entries) = insert ''skill-manifest.json'' (sr_path ` set (sm_resources (lk_manifest k))) \<and>
    list_all2 (loaded_as_declared env (Directory entries)) (sm_resources (lk_manifest k)) (lk_resources k) \<and>
    loaded_bytes (lk_resources k) \<le> kl_max_package_bytes l \<and>
    ke_utf8 env (entrypoint_content ''SKILL.md'' (lk_resources k)) = Some (lk_instructions k) \<and>
    (\<forall>d \<in> set (destinations_of (lk_instructions k)).
       reference_permitted (ke_bracketed_host env) (sr_path ` set (sm_resources (lk_manifest k))) d)"
proof -
  obtain entries where dir: "node_at skills [name] = Some (Directory entries)"
    using assms(1) by (auto simp: load_skill_def require_directory_def res_simps split: option.splits node.splits)
  obtain manifest_bytes m inventory loaded instructions where steps: "parse_skill_manifest env manifest_bytes = Inr m" "sm_name m = name"
      "walk_directory (kl_max_resources l + 1) [] entries [] = Inr inventory"
      "set inventory = insert ''skill-manifest.json'' (set (map sr_path (sm_resources m)))"
      "load_resources env l (Directory entries) 0 (sm_resources m) = Inr loaded"
      "ke_utf8 env (entrypoint_content (sm_entrypoint m) loaded) = Some instructions"
      "validate_markdown_references (ke_bracketed_host env) instructions (map sr_path (sm_resources m)) = Inr ()"
      "k = \<lparr>lk_manifest = m, lk_instructions = instructions, lk_resources = loaded\<rparr>"
    using assms(1) dir by (auto simp: load_skill_def package_inventory_def Let_def res_simps simp del: node_at.simps split: option.splits)
  have m: "(\<forall>d \<in> set (sm_resources m). path_confined (sr_path d)) \<and> sm_entrypoint m = ''SKILL.md''"
    using steps(1) SkillManifest_Inr by (auto simp: parse_skill_manifest_def split: option.splits sum.splits)
  have refs: "reference_permitted (ke_bracketed_host env) (sr_path ` set (sm_resources m)) d" if "d \<in> set (destinations_of instructions)" for d
    using steps(7) that check_reference_Inr unfolding validate_markdown_references_def each_Inr by fastforce
  show ?thesis using dir steps m refs walk_Inr(1)[OF steps(3)] load_resources_Inr[OF steps(5)] assms(2)
    by (intro exI[of _ entries]) (simp add: leaves_def)
qed

definition demo_instructions :: string where
  "demo_instructions = ''See [a](docs/a.md) and ![b]( <https://x.org> ).''"

definition demo_skill_manifest :: skill_manifest where
  "demo_skill_manifest = \<lparr>sm_schema_version = ''1'', sm_name = ''demo'', sm_version = ''1.0.0'', sm_description = ''d'', sm_entrypoint = ''SKILL.md'',
     sm_resources = [\<lparr>sr_path = ''SKILL.md'', sr_size = int (length demo_instructions), sr_sha256 = replicate 64 CHR ''0''\<rparr>,
       \<lparr>sr_path = ''docs/a.md'', sr_size = 1, sr_sha256 = replicate 64 CHR ''0''\<rparr>]\<rparr>"

definition demo_skill_package :: "(string \<times> node) list" where
  "demo_skill_package = [(''skill-manifest.json'', Regular ''m''), (''SKILL.md'', Regular demo_instructions), (''docs'', Directory [(''a.md'', Regular ''x'')])]"

definition demo_skill_env :: skill_env where
  "demo_skill_env = \<lparr>ke_sha256 = \<lambda>_. replicate 64 CHR ''0'', ke_manifest = \<lambda>_. Some demo_skill_manifest, ke_utf8 = Some, ke_bracketed_host = \<lambda>_. True\<rparr>"

definition demo_skill_limits :: skill_limits where
  "demo_skill_limits = \<lparr>kl_max_manifest_bytes = 1024, kl_max_file_bytes = 256, kl_max_package_bytes = 1024, kl_max_resources = 4\<rparr>"

definition demo_loaded :: loaded_skill where
  "demo_loaded = \<lparr>lk_manifest = demo_skill_manifest, lk_instructions = demo_instructions,
     lk_resources = [\<lparr>lr_path = ''SKILL.md'', lr_sha256 = replicate 64 CHR ''0'', lr_content = demo_instructions\<rparr>,
       \<lparr>lr_path = ''docs/a.md'', lr_sha256 = replicate 64 CHR ''0'', lr_content = ''x''\<rparr>]\<rparr>"

lemma demo_skill_values:
  "destinations_of demo_instructions = [''docs/a.md'', ''https://x.org'']"
  "validate_markdown_references (\<lambda>_. True) demo_instructions [''SKILL.md'', ''docs/a.md''] = Inr ()"
  "plugin_name ''demo''" "semver ''1.0.0''" "hex_sha256 (replicate 64 CHR ''0'')"
  "validate_resource_path ''SKILL.md'' = Inr ''SKILL.md''" "validate_resource_path ''docs/a.md'' = Inr ''docs/a.md''"
  "path_parts ''SKILL.md'' = [''SKILL.md'']" "path_parts ''docs/a.md'' = [''docs'', ''a.md'']"
  "walk_directory 5 [] demo_skill_package [] = Inr [''docs/a.md'', ''SKILL.md'', ''skill-manifest.json'']"
  "length demo_instructions = 47" "nul_char \<notin> set demo_instructions"
  by code_simp+

lemma demo_manifest_accepted_skill: "SkillManifest demo_skill_manifest = Inr demo_skill_manifest"
  using demo_skill_values by (simp add: SkillManifest_def SkillResource_def demo_skill_manifest_def text_between_def)

lemma demo_skill_parts:
  "node_at (Directory [(''demo'', Directory demo_skill_package)]) [''demo''] = Some (Directory demo_skill_package)"
  "node_at (Directory demo_skill_package) [''skill-manifest.json''] = Some (Regular ''m'')"
  "node_at (Directory demo_skill_package) [''SKILL.md''] = Some (Regular demo_instructions)"
  "node_at (Directory demo_skill_package) [''docs'', ''a.md''] = Some (Regular ''x'')"
  "sm_name demo_skill_manifest = ''demo''" "sm_entrypoint demo_skill_manifest = ''SKILL.md''" "length (sm_resources demo_skill_manifest) = 2"
  "map sr_path (sm_resources demo_skill_manifest) = [''SKILL.md'', ''docs/a.md'']"
  "sr_path ` set (sm_resources demo_skill_manifest) = {''SKILL.md'', ''docs/a.md''}"
  by (simp_all add: demo_skill_package_def demo_skill_manifest_def)

lemma demo_resources_loaded: "load_resources demo_skill_env demo_skill_limits (Directory demo_skill_package) 0 (sm_resources demo_skill_manifest) = Inr (lk_resources demo_loaded)"
  using demo_skill_values(8,9,11) demo_skill_parts(3,4)
  by (simp add: demo_skill_manifest_def demo_loaded_def demo_skill_env_def demo_skill_limits_def read_regular_file_def del: node_at.simps)

lemma demo_skill_loaded:
  "load_skill demo_skill_env demo_skill_limits (Directory [(''demo'', Directory demo_skill_package)]) ''demo'' = Inr demo_loaded"
proof -
  have "entrypoint_content ''SKILL.md'' (lk_resources demo_loaded) = demo_instructions" by (simp add: entrypoint_content_def demo_loaded_def)
  moreover have "parse_skill_manifest demo_skill_env ''m'' = Inr demo_skill_manifest"
    by (simp add: parse_skill_manifest_def demo_skill_env_def demo_manifest_accepted_skill)
  moreover have "kl_max_resources demo_skill_limits = 4" "kl_max_manifest_bytes demo_skill_limits = 1024" "ke_utf8 demo_skill_env = Some"
      "ke_bracketed_host demo_skill_env = (\<lambda>_. True)" by (simp_all add: demo_skill_limits_def demo_skill_env_def)
  moreover have "require_directory (Some (Directory demo_skill_package)) ''skill package'' = Inr ()" "read_regular_file (Some (Regular ''m'')) 1024 = Inr ''m''"
    by (simp_all add: require_directory_def read_regular_file_def)
  moreover have "package_inventory (Directory demo_skill_package) 5 = Inr [''docs/a.md'', ''SKILL.md'', ''skill-manifest.json'']"
    using demo_skill_values(10) by (simp add: package_inventory_def)
  moreover have "demo_loaded = \<lparr>lk_manifest = demo_skill_manifest, lk_instructions = demo_instructions, lk_resources = lk_resources demo_loaded\<rparr>"
    by (simp add: demo_loaded_def)
  moreover have "set [''docs/a.md'', ''SKILL.md'', ''skill-manifest.json''] = insert ''skill-manifest.json'' (set [''SKILL.md'', ''docs/a.md''])" by auto
  ultimately show ?thesis using demo_skill_values(2,3,12) demo_skill_parts(1,2,5-9) demo_resources_loaded
    by (simp add: load_skill_def Let_def del: node_at.simps)
qed

theorem skill_loaded_exact_witness:
  "list_all2 (loaded_as_declared demo_skill_env (Directory demo_skill_package)) (sm_resources demo_skill_manifest) (lk_resources demo_loaded) \<and>
   list_all (reference_permitted (\<lambda>_. True) (sr_path ` set (sm_resources demo_skill_manifest))) (destinations_of demo_instructions)"
  using skill_loaded_exact[OF demo_skill_loaded] demo_skill_parts(1)
  by (simp add: demo_skill_limits_def demo_loaded_def demo_skill_env_def list_all_iff del: node_at.simps)

text \<open>A link whose host has a bracket without its match ends the load with a \<open>ValueError\<close>, not with an error of the package.\<close>

theorem bracket_link_escapes:
  "validate_markdown_references bracketed_host ''[a](//[b)'' declared = Inl (SkillValueError ''Invalid IPv6 URL'')"
proof -
  have "destinations_of ''[a](//[b)'' = [''//[b'']" by code_simp
  moreover have "urlsplit bracketed_host ''//[b'' = None" by (simp add: urlsplit_def split_scheme_def starts_with_def Let_def code_of_def)
  ultimately show ?thesis by (simp add: validate_markdown_references_def check_reference_def)
qed

end
