(* ===== verification/ScriptedModel.thy ===== *)
theory ScriptedModel
  imports AgentSchemas CanonicalJson
begin

text \<open>
  The scripted model client for contract tests (\<open>zeaz_agent/testing.py\<close>): it plays its steps in order, records
  every request, and compares it with what the step expects. How Pydantic dumps turns and tools as JSON, SHA-256 and
  the UUIDs by name are parameters.
\<close>

datatype script_error = ScriptAssertion string | ScriptedProviderError string | ScriptValueError string

record model_request =
  mr_turns :: "turn list"
  mr_tools :: "tool_definition list"
  mr_model :: string
  mr_max_output_tokens :: int
  mr_correlation_id :: string

record expected_request =
  er_model :: "string option"
  er_roles :: "agent_role list option"
  er_tool_names :: "string list option"
  er_max_output_tokens :: "int option"
  er_context_sha256 :: "string option"

record scripted_step =
  sp_output :: "model_output option"
  sp_error_code :: "string option"
  sp_expected :: expected_request

definition fixture_error_code :: "string \<Rightarrow> bool" where
  "fixture_error_code s = (s \<noteq> [] \<and> length s \<le> 64 \<and> 97 \<le> code_of (hd s) \<and> code_of (hd s) \<le> 122 \<and>
     list_all (\<lambda>c. 97 \<le> code_of c \<and> code_of c \<le> 122 \<or> is_digit c \<or> c = CHR ''_'') (tl s))"

definition ScriptedModelStep :: "scripted_step \<Rightarrow> scripted_step res" where
  "ScriptedModelStep s =
     bindE (check (case sp_error_code s of None \<Rightarrow> True | Some e \<Rightarrow> fixture_error_code e) ''error_code'') (\<lambda>_.
     bindE (check (\<not> ((sp_output s = None) = (sp_error_code s = None))) ''scripted step requires exactly one output or error'') (\<lambda>_. Inr s))"

record scripted_client =
  dc_steps :: "scripted_step list"
  dc_index :: nat
  dc_requests :: "(model_request \<times> string) list"

definition DeterministicModelClient :: "scripted_step list \<Rightarrow> script_error + scripted_client" where
  "DeterministicModelClient steps =
     (if steps = [] then Inl (ScriptValueError ''script must contain at least one step'')
      else Inr \<lparr>dc_steps = steps, dc_index = 0, dc_requests = []\<rparr>)"

record script_env =
  se_sha256 :: "string \<Rightarrow> string"
  se_dump_turn :: "turn \<Rightarrow> json"
  se_dump_tool :: "tool_definition \<Rightarrow> json"

text \<open>A number that JSON does not have is a \<open>ValueError\<close>, before anything is recorded.\<close>

definition context_digest :: "script_env \<Rightarrow> turn list \<Rightarrow> tool_definition list \<Rightarrow> string option" where
  "context_digest env turns tools =
     map_option (se_sha256 env) (canonical (JObj [(''turns'', JArr (map (se_dump_turn env) turns)), (''tools'', JArr (map (se_dump_tool env) tools))]))"

definition digest_of :: "script_env \<Rightarrow> model_request \<Rightarrow> string option" where
  "digest_of env q = context_digest env (mr_turns q) (mr_tools q)"

definition differs :: "'a option \<Rightarrow> 'a \<Rightarrow> bool" where
  "differs wanted value = (case wanted of None \<Rightarrow> False | Some w \<Rightarrow> w \<noteq> value)"

definition assert_expected :: "expected_request \<Rightarrow> model_request \<Rightarrow> string \<Rightarrow> script_error + unit" where
  "assert_expected e q digest =
     (if differs (er_model e) (mr_model q) then Inl (ScriptAssertion ''model'')
      else if differs (er_roles e) (map tn_role (mr_turns q)) then Inl (ScriptAssertion ''roles'')
      else if differs (er_tool_names e) (map td_name (mr_tools q)) then Inl (ScriptAssertion ''tool_names'')
      else if differs (er_max_output_tokens e) (mr_max_output_tokens q) then Inl (ScriptAssertion ''max_output_tokens'')
      else if differs (er_context_sha256 e) digest then Inl (ScriptAssertion ''context_sha256'')
      else Inr ())"

definition play_step :: "scripted_step \<Rightarrow> model_request \<Rightarrow> string \<Rightarrow> script_error + model_output" where
  "play_step s q digest =
     bindE (assert_expected (sp_expected s) q digest) (\<lambda>_.
     (case sp_error_code s of
        Some code \<Rightarrow> Inl (ScriptedProviderError code)
      | None \<Rightarrow> (case sp_output s of None \<Rightarrow> Inl (ScriptAssertion ''validated scripted step has no output'') | Some output \<Rightarrow> Inr output)))"

definition scripted_respond :: "script_env \<Rightarrow> model_request \<Rightarrow> scripted_client \<Rightarrow> (script_error + model_output) \<times> scripted_client" where
  "scripted_respond env q c =
     (if dc_index c \<ge> length (dc_steps c) then (Inl (ScriptAssertion ''deterministic provider script is exhausted''), c)
      else (case digest_of env q of
         None \<Rightarrow> (Inl (ScriptValueError ''Out of range float values are not JSON compliant''), c)
       | Some digest \<Rightarrow> (play_step (dc_steps c ! dc_index c) q digest, c\<lparr>dc_index := dc_index c + 1, dc_requests := dc_requests c @ [(q, digest)]\<rparr>)))"

definition assert_exhausted :: "scripted_client \<Rightarrow> script_error + unit" where
  "assert_exhausted c = (if dc_index c \<noteq> length (dc_steps c) then Inl (ScriptAssertion ''scripted provider steps remain'') else Inr ())"

text \<open>\<open>DeterministicUUIDFactory\<close>: the names of the UUIDs are counted.\<close>

record uuid_factory =
  uf_namespace :: string
  uf_counter :: nat

definition DeterministicUUIDFactory :: "(string \<Rightarrow> string) \<Rightarrow> string \<Rightarrow> script_error + uuid_factory" where
  "DeterministicUUIDFactory url_namespace seed =
     (if seed = [] then Inl (ScriptValueError ''deterministic UUID seed cannot be empty'') else Inr \<lparr>uf_namespace = url_namespace seed, uf_counter = 0\<rparr>)"

definition next_uuid :: "(string \<Rightarrow> string \<Rightarrow> string) \<Rightarrow> uuid_factory \<Rightarrow> string \<times> uuid_factory" where
  "next_uuid uuid5 f = (uuid5 (uf_namespace f) (nat_str (uf_counter f)), f\<lparr>uf_counter := uf_counter f + 1\<rparr>)"

definition FixedClock :: "py_datetime \<Rightarrow> script_error + py_datetime" where
  "FixedClock t = (if has_timezone t then Inr t else Inl (ScriptValueError ''fixed clock requires a timezone-aware datetime''))"

section \<open>The script is played in order\<close>

fun run_script :: "script_env \<Rightarrow> model_request list \<Rightarrow> scripted_client \<Rightarrow> (script_error + model_output) list \<times> scripted_client" where
  "run_script env [] c = ([], c)"
| "run_script env (q # qs) c = (case scripted_respond env q c of (r, c1) \<Rightarrow> (case run_script env qs c1 of (rs, c2) \<Rightarrow> (r # rs, c2)))"

lemma run_script_from:
  "dc_index c + length qs \<le> length (dc_steps c) \<Longrightarrow> \<forall>q \<in> set qs. digest_of env q \<noteq> None \<Longrightarrow> \<exists>rs c'. run_script env qs c = (rs, c') \<and>
     rs = map2 (\<lambda>s q. play_step s q (the (digest_of env q))) (drop (dc_index c) (dc_steps c)) qs \<and>
     dc_steps c' = dc_steps c \<and> dc_index c' = dc_index c + length qs \<and> map fst (dc_requests c') = map fst (dc_requests c) @ qs"
proof (induction qs arbitrary: c)
  case (Cons q qs)
  let ?c1 = "c\<lparr>dc_index := dc_index c + 1, dc_requests := dc_requests c @ [(q, the (digest_of env q))]\<rparr>"
  have first: "drop (dc_index c) (dc_steps c) = dc_steps c ! dc_index c # drop (dc_index ?c1) (dc_steps ?c1)"
    using Cons.prems(1) by (simp add: Cons_nth_drop_Suc)
  show ?case using Cons.IH[of ?c1] Cons.prems first by (auto simp: scripted_respond_def)
qed simp

text \<open>
  A client that was just made answers as many requests as it has steps, each as the step at its place says, and records
  them all; then it is exhausted, and every further request fails.
\<close>

theorem script_played_in_order:
  assumes "DeterministicModelClient steps = Inr c" "length qs = length steps" "\<forall>q \<in> set qs. digest_of env q \<noteq> None"
  shows "\<exists>c'. run_script env qs c = (map2 (\<lambda>s q. play_step s q (the (digest_of env q))) steps qs, c') \<and>
    map fst (dc_requests c') = qs \<and> assert_exhausted c' = Inr () \<and>
    (\<forall>q. scripted_respond env q c' = (Inl (ScriptAssertion ''deterministic provider script is exhausted''), c'))"
  using assms run_script_from[of c qs env]
  by (auto simp: DeterministicModelClient_def assert_exhausted_def scripted_respond_def split: if_splits)

end
