(* ===== verification/VaultReferences.thy ===== *)
theory VaultReferences
  imports HttpText
begin

text \<open>
  References to secrets in a provider's vault (\<open>zeaz_enterprise/vault.py\<close>): the locators of three providers with their
  checks, and the binding that the application stores. What \<open>urlsplit\<close> makes of a URL is a parameter, and so is what
  Pydantic reads from a serialized binding.
\<close>

definition name_char :: "char \<Rightarrow> bool" where
  "name_char c = (ascii_alnum c \<or> c \<in> set ''_.-'')"

definition vault_name :: "string \<Rightarrow> bool" where
  "vault_name s = (s \<noteq> [] \<and> length s \<le> 255 \<and> ascii_alnum (hd s) \<and> list_all name_char (tl s))"

definition purpose_text :: "string \<Rightarrow> bool" where
  "purpose_text s = (s \<noteq> [] \<and> length s \<le> 64 \<and> 97 \<le> code_of (hd s) \<and> code_of (hd s) \<le> 122 \<and>
     list_all (\<lambda>c. 97 \<le> code_of c \<and> code_of c \<le> 122 \<or> is_digit c \<or> c \<in> set ''_.-'') (tl s))"

section \<open>References\<close>

record aws_reference =
  aw_secret_arn :: string
  aw_version_id :: "string option"
  aw_version_stage :: "string option"

text \<open>\<open>str.isdigit\<close> on the characters up to 255: superscripts are digits, too.\<close>

definition py_isdigit :: "char \<Rightarrow> bool" where
  "py_isdigit c = (is_digit c \<or> code_of c \<in> {178, 179, 185})"

definition complete_secret_arn :: "string \<Rightarrow> bool" where
  "complete_secret_arn s =
     (let parts = split_char CHR '':'' s in
      \<not> (length parts < 7 \<or> parts ! 0 \<noteq> ''arn'' \<or> parts ! 2 \<noteq> ''secretsmanager'' \<or> parts ! 3 = [] \<or>
         \<not> (parts ! 4 \<noteq> [] \<and> list_all py_isdigit (parts ! 4)) \<or> length (parts ! 4) \<noteq> 12 \<or> parts ! 5 \<noteq> ''secret'' \<or>
         \<not> list_all (\<lambda>p. p \<noteq> []) (drop 6 parts)))"

definition AWSSecretReference :: "aws_reference \<Rightarrow> aws_reference res" where
  "AWSSecretReference r =
     bindE (check (text_between 20 2048 (aw_secret_arn r)) ''secret_arn'') (\<lambda>_.
     bindE (check (case aw_version_id r of None \<Rightarrow> True | Some v \<Rightarrow> text_between 32 64 v \<and> list_all (\<lambda>c. ascii_alnum c \<or> c = CHR ''-'') v) ''version_id'') (\<lambda>_.
     bindE (check (case aw_version_stage r of None \<Rightarrow> True | Some v \<Rightarrow> text_between 1 256 v \<and> list_all (\<lambda>c. ascii_alnum c \<or> c \<in> set ''/_+=.@-'') v) ''version_stage'') (\<lambda>_.
     bindE (check (complete_secret_arn (aw_secret_arn r)) ''a complete AWS Secrets Manager ARN is required'') (\<lambda>_. Inr r))))"

record gcp_reference =
  gc_project_id :: string
  gc_secret_id :: string
  gc_version :: string

definition gcp_version :: "string \<Rightarrow> bool" where
  "gcp_version v =
     (v \<noteq> [] \<and> (list_all is_digit v \<and> hd v \<noteq> CHR ''0'' \<and> length v \<le> 19 \<or>
        ascii_alpha (hd v) \<and> length v \<le> 255 \<and> list_all (\<lambda>c. ascii_alnum c \<or> c \<in> set ''_-'') (tl v)))"

definition GCPSecretReference :: "gcp_reference \<Rightarrow> gcp_reference res" where
  "GCPSecretReference r =
     bindE (check (vault_name (gc_project_id r) \<and> vault_name (gc_secret_id r)) ''names'') (\<lambda>_.
     bindE (check (gcp_version (gc_version r)) ''version'') (\<lambda>_. Inr r))"

definition resource_name :: "gcp_reference \<Rightarrow> string" where
  "resource_name r = ''projects/'' @ gc_project_id r @ ''/secrets/'' @ gc_secret_id r @ ''/versions/'' @ gc_version r"

text \<open>The parts of a URL; a port that is no number is a \<open>ValueError\<close>.\<close>

record vault_url =
  vu_scheme :: string
  vu_hostname :: "string option"
  vu_port :: "int option option"
  vu_credentials :: bool
  vu_path :: string
  vu_query :: string
  vu_fragment :: string

definition dashed_alnum :: "string \<Rightarrow> bool" where
  "dashed_alnum s = (let t = filter (\<lambda>c. c \<noteq> CHR ''-'') s in t \<noteq> [] \<and> list_all py_isalnum t)"

definition versioned_secret_url :: "vault_url \<Rightarrow> bool" where
  "versioned_secret_url u =
     (let labels = split_char CHR ''.'' (case vu_hostname u of Some h \<Rightarrow> h | None \<Rightarrow> []);
          path = split_char CHR ''/'' (vu_path u) in
      \<not> (vu_scheme u \<noteq> ''https'' \<or> length labels \<noteq> 4 \<or> drop 1 labels \<noteq> [''vault'', ''azure'', ''net''] \<or>
         \<not> text_between 3 24 (labels ! 0) \<or> \<not> dashed_alnum (labels ! 0) \<or> vu_port u \<notin> {Some None, Some (Some 443)} \<or> vu_credentials u \<or>
         vu_query u \<noteq> [] \<or> vu_fragment u \<noteq> [] \<or> length path \<noteq> 4 \<or> path ! 1 \<noteq> ''secrets'' \<or> \<not> text_between 1 127 (path ! 2) \<or>
         \<not> dashed_alnum (path ! 2) \<or> length (path ! 3) \<noteq> 32 \<or> \<not> list_all py_isalnum (path ! 3)))"

definition AzureSecretReference :: "(string \<Rightarrow> vault_url option) \<Rightarrow> string \<Rightarrow> string res" where
  "AzureSecretReference parts secret_url =
     bindE (check (text_between 1 2048 secret_url) ''secret_url'') (\<lambda>_.
     bindE (check (case parts secret_url of None \<Rightarrow> False | Some u \<Rightarrow> versioned_secret_url u)
       ''a versioned Azure Key Vault secret URL is required'') (\<lambda>_. Inr secret_url))"

datatype vault_reference = AwsReference aws_reference | GcpReference gcp_reference | AzureReference string

record secret_binding =
  sb_schema_version :: string
  sb_purpose :: string
  sb_reference :: vault_reference

definition SecretBinding :: "(string \<Rightarrow> vault_url option) \<Rightarrow> secret_binding \<Rightarrow> secret_binding res" where
  "SecretBinding parts b =
     bindE (check (sb_schema_version b = ''1'' \<and> purpose_text (sb_purpose b)) ''purpose'') (\<lambda>_.
     bindE (case sb_reference b of
         AwsReference r \<Rightarrow> bindE (AWSSecretReference r) (\<lambda>_. Inr ())
       | GcpReference r \<Rightarrow> bindE (GCPSecretReference r) (\<lambda>_. Inr ())
       | AzureReference u \<Rightarrow> bindE (AzureSecretReference parts u) (\<lambda>_. Inr ())) (\<lambda>_. Inr b))"

section \<open>Properties\<close>

lemma vault_name_no_slash: "vault_name s \<Longrightarrow> CHR ''/'' \<notin> set s"
  by (cases s) (auto simp: vault_name_def name_char_def ascii_alnum_def ascii_alpha_def is_digit_def code_of_def list_all_iff)

lemma gcp_version_no_slash: "gcp_version s \<Longrightarrow> CHR ''/'' \<notin> set s"
  by (cases s) (auto simp: gcp_version_def ascii_alnum_def ascii_alpha_def is_digit_def code_of_def list_all_iff)

lemma resource_name_parts:
  assumes "GCPSecretReference r = Inr r'"
  shows "split_char CHR ''/'' (resource_name r) = [''projects'', gc_project_id r, ''secrets'', gc_secret_id r, ''versions'', gc_version r]"
proof -
  let ?parts = "[''projects'', gc_project_id r, ''secrets'', gc_secret_id r, ''versions'', gc_version r]"
  have "resource_name r = py_join [CHR ''/''] ?parts" by (simp add: resource_name_def)
  moreover have "split_char CHR ''/'' (py_join [CHR ''/''] ?parts) = ?parts"
    using assms vault_name_no_slash gcp_version_no_slash
    by (intro split_char_join) (auto simp: GCPSecretReference_def res_simps)
  ultimately show ?thesis by simp
qed

text \<open>A resource name of the secret manager names one secret: valid references with the same name are the same.\<close>

theorem resource_name_names_one_secret:
  assumes "GCPSecretReference r = Inr r1" "GCPSecretReference s = Inr s1"
  shows "resource_name r = resource_name s \<longleftrightarrow> r = s"
  using resource_name_parts[OF assms(1)] resource_name_parts[OF assms(2)] by (auto intro: gcp_reference.equality)

text \<open>An account of superscript digits is accepted as complete.\<close>

theorem superscript_account_accepted:
  "complete_secret_arn (''arn:aws:secretsmanager:us-east-1:'' @ replicate 12 (char_of (178 :: nat)) @ '':secret:name'')"
  by code_simp

end
