(* ===== verification/Spec2Isabelle.thy ===== *)
theory Spec2Isabelle
  imports Gateway Boundary StreamContract EventProtocol AgentLoop SessionStore AuditLedger UsageCosts ControlAdapters
    Subagents Hooks AgentMemory McpTransport Deletion Webhooks SandboxRuntime
    Plugins AdminApi ComplianceApi MemoryApi WifExchange
    AgentClient SkillLoader ScriptedModel VaultReferences
begin

text \<open>
  Verification library for the ZeaZ platform: an HTTP gateway to model providers, and the packages around it for
  agents, the providers' control APIs, sandboxed jobs and the enterprise APIs.

  THE PROGRAM. The gateway (\<open>src/src/zeaz_provider\<close>) takes requests of three API families, checks them, routes a
  model alias to an ordered list of targets, converts the request, calls a provider behind a circuit breaker with
  retries, converts the answer or its stream back, and accounts for the request. The agent package
  (\<open>src/packages/zeaz-agent\<close>) runs a model in a loop with permissions, plans, hooks, subagents, memory, tools over
  MCP, plugins and an audit ledger. The control package (\<open>src/packages/zeaz-control\<close>) keeps a catalogue of models,
  files, message batches and costs in one database. The sandbox package (\<open>src/packages/zeaz-sandbox\<close>) runs approved
  jobs in containers of Docker or LXC, with an egress proxy. The enterprise package
  (\<open>src/packages/zeaz-enterprise\<close>) holds clients of organization APIs, permanent deletion, webhooks and the exchange
  of workload identities.

  FOUNDATIONS. Prelude: exceptions as values of a sum type (\<open>bindE\<close>, \<open>mapE\<close>, \<open>foldE\<close> with the rules
  \<open>res_simps\<close>), dictionaries as association lists in insertion order, and the locales \<open>invariant_machine\<close> (an
  invariant of a step relation holds in every reachable state) and \<open>growing_rows\<close> (what every transaction keeps of a
  row holds over any history of them). PyJson, JsonCodec, CanonicalJson, PyText, PyFloat, HttpText: the parts of
  Python's \<open>json\<close>, \<open>str\<close>, \<open>float\<close> and \<open>urllib\<close> that the program uses, with the round trip of printing and parsing
  and the injectivity of canonical JSON. Errors: the errors of a provider.

  GATEWAY. RequestLimits (\<open>limits.py\<close>), Security (\<open>security.py\<close>), Config (\<open>config.py\<close>), Capabilities
  (\<open>capabilities.py\<close>), Resilience (\<open>resilience.py\<close>), Router (\<open>router.py\<close>), Normalize (\<open>normalize.py\<close>), Streaming
  (\<open>streaming.py\<close>), Providers (\<open>providers.py\<close>), Gateway (the endpoints of \<open>main.py\<close>) and Boundary (its middleware
  with \<open>audit.py\<close> and the counters of \<open>observability.py\<close>). StreamContract and EventProtocol state what the
  streams promise: their frames are read back as they were meant, and they follow an automaton of the Anthropic
  event protocol (a simulation).

  AGENT. AgentSchemas (\<open>schemas.py\<close>), Permissions, Plans, AgentLoop (\<open>loop.py\<close>, \<open>context.py\<close>), Hooks, Subagents,
  RevisionStore (the contract of optimistic concurrency) with SessionStore and AgentMemory, AuditLedger (\<open>audit.py\<close>),
  McpTransport (\<open>mcp.py\<close>), Plugins, SkillLoader (\<open>skills.py\<close>), AgentClient
  (\<open>client.py\<close>, against the conversions of the gateway in Normalize) and ScriptedModel (\<open>testing.py\<close>).

  CONTROL. ControlStore (the database and \<open>models.py\<close>), ControlFiles (\<open>files.py\<close>), Batches, UsageCosts
  (\<open>usage.py\<close>) and ControlAdapters (\<open>adapters.py\<close>).

  SANDBOX. SandboxJobs (\<open>schemas.py\<close>), SandboxOutput (\<open>streaming.py\<close>), SandboxService (\<open>service.py\<close>),
  SandboxCommands (the runner and the records of \<open>backend.py\<close>), EgressProxy (\<open>egress_proxy.py\<close>), EgressControl
  (\<open>egress.py\<close>), DockerBackend (\<open>backend.py\<close>), LxcBackend (\<open>lxc_backend.py\<close>) and SandboxRuntime (the service
  on each of the two backends).

  ENTERPRISE. PagedApi (what the four clients share: pages, cursors, retries), AdminApi, ComplianceApi, ManagedApi,
  MemoryApi (\<open>agent_memory.py\<close>), Deletion, Webhooks, WifExchange (\<open>wif.py\<close>) and VaultReferences (\<open>vault.py\<close>).

  STATE AND OPERATIONS. The attributes of a class are a record, each method a function that returns a result and the
  changed record; a raised exception is the left part of a sum. Tables of SQLite are association lists by primary
  key, a transaction is one function. Where tasks interleave (the limiter and the boundary of the gateway, subagents,
  the relay of the proxy, callers of the token cache, other clients of a database) the atomic steps between two
  awaits form an \<open>inductive\<close> relation, and properties are stated of its reachable states. A runtime's command line is
  a function from the commands run before and the command to its answer, so that a theorem can say which commands
  were run, in which order.

  INTERFACES. Besides the two locales of the prelude: \<open>json_codec\<close> and \<open>sse_codec\<close> (round trips of a codec, for
  the model of Python's JSON), \<open>fallback_loop\<close> (calls and streams over candidates), \<open>sliding_window\<close> (both rate
  limiters), \<open>revision_store\<close> (sessions and memories; a sublocale of \<open>growing_rows\<close>), \<open>paged_listing\<close> (the
  listings of the enterprise clients) and \<open>job_runtime\<close> (what the sandbox service relies on in a backend). Each is interpreted on the definitions of the model.

  LEMMAS. Each theory has, after its definitions, the lemmas on single operations (\<open>\<dots>_Inr\<close>, \<open>\<dots>_ran\<close>, \<open>\<dots>_ok\<close>:
  what a returned result, the commands run and the kept invariant are), then its properties, each after a paragraph
  that states it in words, then small examples at which they are applied. Theorems outside the numbered properties
  show behaviour that is easily overlooked, such as \<open>workspace_comma_adds_source\<close> or \<open>interrupted_install_blocks\<close>.

  PARAMETERS. SHA-256 and HMAC (arbitrary functions: where a property depends on them it ends with \<open>or a collision is
  at hand\<close>), the HTTP library, clocks and the durations of awaited calls, YAML, the codecs of Pydantic, \<open>zipfile\<close>,
  \<open>openssl\<close>, the resolver and the tables of \<open>ipaddress\<close>, Redis commands, what a model, a tool, a worker or a hook
  does, and the answers of the container runtimes.

  BOUNDS AND FUEL. \<open>json_loads\<close> runs with fuel twice the length of its text and two, which JsonCodec shows to be
  enough for every printed value. The page loops run at most the number of pages the code allows. All other
  recursions are structural or have a measure. Bytes and characters are code points up to 255; numbers of Python are
  \<open>int\<close>, addresses are 32- and 128-bit words, floats are reals rounded as the code rounds them, with infinities and
  NaN where they can occur.

  NOT MODELLED. The start-up code of the services (\<open>main.py\<close> of control and enterprise, the server loop of the
  proxy), the health, metrics and model-list routes of the gateway, the creation and the permissions of database
  files, set-up of the host and HTML pages: they are input and output with little logic of their own. Not modelled
  either: texts beyond U+00FF, the parsing of URLs beyond what SkillLoader needs, other writers of a directory while it
  is read, and the copy of an earlier release (\<open>src/z-prov-0.4.2\<close>), whose logic is that of the gateway.
\<close>

end
